(* ===== verification/Prelude.thy ===== *)
theory Prelude
  imports Main "HOL-Library.Sublist"
begin

text \<open>
  Generic vocabulary of the development: results with errors as values, transactions that
  roll back, tables as lists of rows, and Go's \<^verbatim>\<open>time.Time\<close> and \<^verbatim>\<open>time.Duration\<close>.
  The collections \<open>result_iff\<close> (inversion of successful results), \<open>table_simps\<close>
  (row counting and updating) and \<open>frame\<close> (what an operation leaves alone) are filled here
  and extended by the component theories.
\<close>

named_theorems result_iff \<open>inversion rules for successful results\<close>
named_theorems table_simps \<open>rewriting of table operations\<close>
named_theorems frame \<open>parts of a state that an operation leaves unchanged\<close>

section \<open>Results with errors as values\<close>

text \<open>
  A Go function returning \<open>(T, error)\<close> is modelled by \<open>'e + 'a\<close>: \<open>Inl e\<close> for a non-nil
  error, \<open>Inr x\<close> for a result.  \<open>bindE\<close> is the ``if err != nil return err'' idiom and
  \<open>failIf\<close> is a guard with an early error return.
\<close>

definition bindE :: "'e + 'a \<Rightarrow> ('a \<Rightarrow> 'e + 'b) \<Rightarrow> 'e + 'b" where
  "bindE m f = (case m of Inl e \<Rightarrow> Inl e | Inr x \<Rightarrow> f x)"

definition failIf :: "bool \<Rightarrow> 'e \<Rightarrow> 'e + unit" where
  "failIf c e = (if c then Inl e else Inr ())"

lemma bindE_simps [simp]: "bindE (Inl e) f = Inl e" "bindE (Inr x) f = f x"
  by (simp_all add: bindE_def)

lemma failIf_simps [simp]: "failIf True e = Inl e" "failIf False e = Inr ()"
  by (simp_all add: failIf_def)

lemma bindE_eq_Inr [result_iff]: "bindE m f = Inr y \<longleftrightarrow> (\<exists>x. m = Inr x \<and> f x = Inr y)"
  by (cases m) auto

lemma bindE_eq_Inl [result_iff]:
  "bindE m f = Inl e \<longleftrightarrow> m = Inl e \<or> (\<exists>x. m = Inr x \<and> f x = Inl e)"
  by (cases m) auto

lemma failIf_eq_Inr [result_iff]: "failIf c e = Inr u \<longleftrightarrow> \<not> c"
  by (simp add: failIf_def)

lemma failIf_eq_Inl [result_iff]: "failIf c e = Inl e' \<longleftrightarrow> c \<and> e' = e"
  by (auto simp: failIf_def)

lemma bindE_failIf: "bindE (failIf c e) f = (if c then Inl e else f ())"
  by (simp add: failIf_def)

lemma bindE_cong [fundef_cong]:
  "m = m' \<Longrightarrow> (\<And>x. m' = Inr x \<Longrightarrow> f x = f' x) \<Longrightarrow> bindE m f = bindE m' f'"
  by (cases m') auto

lemma sum_case_Inr [result_iff]:
  "(case m of Inl e \<Rightarrow> Inl (h e) | Inr x \<Rightarrow> f x) = Inr y \<longleftrightarrow> (\<exists>x. m = Inr x \<and> f x = Inr y)"
  by (cases m) auto

fun bind_all :: "('a \<Rightarrow> 's \<Rightarrow> 'e + 's) \<Rightarrow> 'a list \<Rightarrow> 's \<Rightarrow> 'e + 's" where
  "bind_all f [] s = Inr s"
| "bind_all f (x # xs) s = bindE (f x s) (bind_all f xs)"

text \<open>A loop that stops at the first error keeps every property its body keeps.\<close>

lemma bind_all_invariant:
  assumes "bind_all f xs s = Inr t" and "P s"
    and "\<And>x s t. x \<in> set xs \<Longrightarrow> P s \<Longrightarrow> f x s = Inr t \<Longrightarrow> P t"
  shows "P t"
  using assms by (induction xs arbitrary: s) (auto simp: result_iff)

text \<open>An error as \<^verbatim>\<open>errors.Is\<close> classifies it.\<close>

datatype go_error = ContextCanceled | DeadlineExceeded | OtherError string

definition go_error_text :: "go_error \<Rightarrow> string" where
  "go_error_text e = (case e of ContextCanceled \<Rightarrow> ''context canceled''
     | DeadlineExceeded \<Rightarrow> ''context deadline exceeded'' | OtherError m \<Rightarrow> m)"

section \<open>Transactions\<close>

text \<open>
  The body of a \<^verbatim>\<open>database/sql\<close> transaction either fails, and the deferred \<^verbatim>\<open>Rollback\<close>
  leaves the database as it was, or ends in \<^verbatim>\<open>Commit\<close>.
\<close>

definition run_tx :: "('s \<Rightarrow> 'e + 'a \<times> 's) \<Rightarrow> 's \<Rightarrow> ('e + 'a) \<times> 's" where
  "run_tx body s = (case body s of Inl e \<Rightarrow> (Inl e, s) | Inr (x, s') \<Rightarrow> (Inr x, s'))"

lemma run_tx_Inr [result_iff]: "run_tx body s = (Inr x, t) \<longleftrightarrow> body s = Inr (x, t)"
  by (auto simp: run_tx_def split: sum.splits)

lemma run_tx_Inl [result_iff]: "run_tx body s = (Inl e, t) \<longleftrightarrow> body s = Inl e \<and> t = s"
  by (auto simp: run_tx_def split: sum.splits)

lemma run_tx_rollback: "fst (run_tx body s) = Inl e \<Longrightarrow> snd (run_tx body s) = s"
  by (auto simp: run_tx_def split: sum.splits)

lemma run_tx_invariant:
  assumes "P s" and "\<And>x t. body s = Inr (x, t) \<Longrightarrow> P t"
  shows "P (snd (run_tx body s))"
  using assms by (auto simp: run_tx_def split: sum.splits)

section \<open>Tables\<close>

text \<open>
  A table is a list of rows in insertion order.  \<open>SELECT ... WHERE\<close> with one expected row
  is \<open>List.find\<close>, \<open>COUNT(*)\<close> is \<open>count_rows\<close>, \<open>UPDATE ... WHERE\<close> is \<open>update_rows\<close> and
  \<open>DELETE ... WHERE\<close> is \<open>delete_rows\<close>.
\<close>

definition count_rows :: "('r \<Rightarrow> bool) \<Rightarrow> 'r list \<Rightarrow> nat" where
  "count_rows P rs = length (filter P rs)"

definition update_rows :: "('r \<Rightarrow> bool) \<Rightarrow> ('r \<Rightarrow> 'r) \<Rightarrow> 'r list \<Rightarrow> 'r list" where
  "update_rows P f rs = map (\<lambda>r. if P r then f r else r) rs"

definition delete_rows :: "('r \<Rightarrow> bool) \<Rightarrow> 'r list \<Rightarrow> 'r list" where
  "delete_rows P rs = filter (\<lambda>r. \<not> P r) rs"

lemma count_rows_simps [simp, table_simps]:
  "count_rows P [] = 0"
  "count_rows P (r # rs) = (if P r then Suc (count_rows P rs) else count_rows P rs)"
  "count_rows P (rs @ qs) = count_rows P rs + count_rows P qs"
  by (simp_all add: count_rows_def)

lemma count_rows_eq_0 [table_simps]: "count_rows P rs = 0 \<longleftrightarrow> (\<forall>r\<in>set rs. \<not> P r)"
  by (auto simp: count_rows_def filter_empty_conv)

lemma count_rows_pos [table_simps]: "0 < count_rows P rs \<longleftrightarrow> (\<exists>r\<in>set rs. P r)"
  by (simp add: count_rows_def filter_empty_conv)

lemma count_rows_le: "count_rows P rs \<le> length rs"
  by (simp add: count_rows_def)

lemma count_rows_mono: "(\<And>r. r \<in> set rs \<Longrightarrow> P r \<Longrightarrow> Q r) \<Longrightarrow> count_rows P rs \<le> count_rows Q rs"
  by (induction rs) (auto simp: le_SucI)

lemma count_rows_cong: "(\<And>r. r \<in> set rs \<Longrightarrow> P r = Q r) \<Longrightarrow> count_rows P rs = count_rows Q rs"
  by (induction rs) auto

lemma count_rows_update:
  "(\<And>r. r \<in> set rs \<Longrightarrow> P r \<Longrightarrow> Q (f r) = Q r) \<Longrightarrow> count_rows Q (update_rows P f rs) = count_rows Q rs"
  by (induction rs) (auto simp: update_rows_def)

lemma update_rows_simps [simp, table_simps]:
  "update_rows P f [] = []"
  "update_rows P f (r # rs) = (if P r then f r else r) # update_rows P f rs"
  "update_rows P f (rs @ qs) = update_rows P f rs @ update_rows P f qs"
  "length (update_rows P f rs) = length rs"
  "update_rows P f rs = [] \<longleftrightarrow> rs = []"
  by (simp_all add: update_rows_def)

lemma set_update_rows: "set (update_rows P f rs) = (\<lambda>r. if P r then f r else r) ` set rs"
  by (simp add: update_rows_def)

lemma map_update_rows:
  "(\<And>r. P r \<Longrightarrow> k (f r) = k r) \<Longrightarrow> map k (update_rows P f rs) = map k rs"
  by (induction rs) auto

lemma filter_update_rows:
  "(\<And>r. P r \<Longrightarrow> Q (f r) = Q r) \<Longrightarrow>
     filter Q (update_rows P f rs) = update_rows P f (filter Q rs)"
  by (induction rs) auto

lemma update_rows_id: "(\<And>r. r \<in> set rs \<Longrightarrow> \<not> P r) \<Longrightarrow> update_rows P f rs = rs"
  by (induction rs) auto

lemma delete_rows_simps [simp, table_simps]:
  "delete_rows P [] = []"
  "delete_rows P (r # rs) = (if P r then delete_rows P rs else r # delete_rows P rs)"
  "set (delete_rows P rs) = {r \<in> set rs. \<not> P r}"
  by (auto simp: delete_rows_def)

lemma distinct_map_delete_rows: "distinct (map k rs) \<Longrightarrow> distinct (map k (delete_rows P rs))"
  by (simp add: delete_rows_def distinct_map_filter)

lemma find_Some_set: "List.find P rs = Some r \<Longrightarrow> r \<in> set rs \<and> P r"
  by (auto simp: find_Some_iff)

lemma find_None_set: "List.find P rs = None \<longleftrightarrow> (\<forall>r\<in>set rs. \<not> P r)"
  by (auto simp: find_None_iff)

text \<open>Under a primary key, looking a row up by its key finds exactly that row.\<close>

lemma find_by_key:
  "distinct (map k rs) \<Longrightarrow> r \<in> set rs \<Longrightarrow> List.find (\<lambda>q. k q = k r) rs = Some r"
  by (induction rs) force+

lemma find_update_rows:
  "(\<And>r. P r \<Longrightarrow> Q (f r) = Q r) \<Longrightarrow>
     List.find Q (update_rows P f rs) = map_option (\<lambda>r. if P r then f r else r) (List.find Q rs)"
  by (induction rs) auto

lemma distinct_key_eq:
  "distinct (map k rs) \<Longrightarrow> a \<in> set rs \<Longrightarrow> b \<in> set rs \<Longrightarrow> k a = k b \<Longrightarrow> a = b"
  by (metis (no_types, lifting) distinct_map inj_onD)

lemma count_key_le: "distinct (map k rs) \<Longrightarrow> count_rows (\<lambda>r. k r = i) rs \<le> 1"
  by (induction rs) (auto simp: count_rows_eq_0 image_iff)

text \<open>Replacing one row of a list by position.\<close>

lemma count_rows_list_update:
  "i < length rs \<Longrightarrow> count_rows P (rs[i := r]) + (if P (rs ! i) then 1 else 0) = count_rows P rs + (if P r then 1 else 0)"
proof (induction rs arbitrary: i)
  case (Cons q rs)
  then show ?case using Cons.IH [of "i - 1"] by (cases i) (auto split: if_splits)
qed simp

text \<open>Counting after updates and deletions, and rows with increasing keys.\<close>

lemma count_update_le:
  "(\<And>r. r \<in> set rs \<Longrightarrow> P r \<Longrightarrow> Q (f r) \<Longrightarrow> Q r) \<Longrightarrow> count_rows Q (update_rows P f rs) \<le> count_rows Q rs"
  by (induction rs) (auto simp: le_SucI)

lemma count_delete_le: "count_rows Q (delete_rows P rs) \<le> count_rows Q rs"
  by (induction rs) (auto simp: le_SucI)

lemma sorted_map_delete: "sorted_wrt (<) (map k rs) \<Longrightarrow> sorted_wrt (<) (map k (delete_rows P rs))"
  by (induction rs) auto

text \<open>In a table with increasing keys, dropping what lies below the \<open>n\<close>th key leaves the rows from there on.\<close>

lemma keep_from_key:
  assumes "sorted_wrt (<) (map k rs)" "n < length rs"
  shows "filter (\<lambda>r. \<not> k r < (k (rs ! n) :: int)) rs = drop n rs"
  using assms
proof (induction rs arbitrary: n)
  case (Cons r rs)
  show ?case
  proof (cases n)
    case 0
    with Cons.prems(1) have "filter (\<lambda>q. \<not> k q < k r) rs = rs" by (auto intro!: filter_True)
    with 0 show ?thesis by simp
  next
    case (Suc m)
    with Cons.prems have "k r < k (rs ! m)" by simp
    with Suc Cons show ?thesis by simp
  qed
qed simp

lemma sorted_key_filter: "sorted_wrt (<) (map k rs) \<Longrightarrow> sorted_wrt (<) (map k (filter P rs))"
  by (induction rs) auto

lemma sort_increasing: "sorted_wrt (<) (xs :: int list) \<Longrightarrow> sort xs = xs"
  by (simp add: sorted_sort_id strict_sorted_imp_sorted)

lemma sort_key_increasing: "sorted_wrt (<) (map k rs) \<Longrightarrow> sort_key k rs = rs" for k :: "'a \<Rightarrow> int"
  by (simp add: sort_key_id_if_sorted strict_sorted_imp_sorted)

lemma count_rows_unique: "count_rows P rs \<le> 1 \<Longrightarrow> a \<in> set rs \<Longrightarrow> b \<in> set rs \<Longrightarrow> P a \<Longrightarrow> P b \<Longrightarrow> a = b"
proof (induction rs)
  case (Cons r rs)
  then show ?case by (cases "P r") (auto simp: count_rows_eq_0)
qed simp

lemma find_append: "List.find P (xs @ ys) = (case List.find P xs of None \<Rightarrow> List.find P ys | Some x \<Rightarrow> Some x)"
  by (induction xs) auto

lemma count_two_nth:
  assumes "a < length rs" "b < length rs" "a \<noteq> b" "P (rs ! a)" "P (rs ! b)"
  shows "2 \<le> count_rows P rs"
proof -
  have "{a, b} \<subseteq> {i. i < length rs \<and> P (rs ! i)}" using assms by auto
  then have "card {a, b} \<le> card {i. i < length rs \<and> P (rs ! i)}" by (intro card_mono) simp_all
  with assms(3) show ?thesis by (simp add: count_rows_def length_filter_conv_card)
qed

section \<open>Instants and durations\<close>

text \<open>
  An instant is the number of nanoseconds since Go's zero time (January 1, year 1, UTC), so
  \<^verbatim>\<open>t.IsZero()\<close> is \<open>t = 0\<close>, \<^verbatim>\<open>t.UTC()\<close> is the identity, and \<open>time option\<close> stands for
  \<^verbatim>\<open>*time.Time\<close>.  A duration is a number of nanoseconds that fits 64 bits; \<^verbatim>\<open>a.Sub(b)\<close>
  saturates, as the Go library documents.
\<close>

type_synonym time = int
type_synonym duration = int

definition is_zero :: "time \<Rightarrow> bool" where
  "is_zero t = (t = 0)"

definition nanos_per_second :: int where "nanos_per_second = 1000000000"
definition max_duration :: int where "max_duration = 9223372036854775807"
definition min_duration :: int where "min_duration = - 9223372036854775808"

definition time_sub :: "time \<Rightarrow> time \<Rightarrow> duration" where
  "time_sub a b = max min_duration (min max_duration (a - b))"

definition seconds :: "int \<Rightarrow> duration" where
  "seconds n = n * nanos_per_second"

text \<open>Arithmetic on \<^verbatim>\<open>int64\<close> wraps around.\<close>

definition wrap64 :: "int \<Rightarrow> int" where
  "wrap64 n = (n + 9223372036854775808) mod 18446744073709551616 - 9223372036854775808"

lemma wrap64_small: "- 9223372036854775808 \<le> n \<Longrightarrow> n < 9223372036854775808 \<Longrightarrow> wrap64 n = n"
  by (simp add: wrap64_def)

text \<open>Go's integer division truncates towards zero.\<close>

definition quot :: "int \<Rightarrow> int \<Rightarrow> int" where
  "quot a b = sgn a * sgn b * (\<bar>a\<bar> div \<bar>b\<bar>)"

definition rem_trunc :: "int \<Rightarrow> int \<Rightarrow> int" where
  "rem_trunc a b = a - b * quot a b"

definition milliseconds :: "duration \<Rightarrow> int" where
  "milliseconds d = quot d 1000000"

lemma time_sub_nonneg: "b \<le> a \<Longrightarrow> 0 \<le> time_sub a b"
  by (simp add: time_sub_def max_duration_def min_duration_def)

lemma time_sub_small: "\<bar>a - b\<bar> \<le> max_duration \<Longrightarrow> time_sub a b = a - b"
  by (auto simp: time_sub_def max_duration_def min_duration_def)

lemma quot_nonneg: "0 \<le> a \<Longrightarrow> 0 < b \<Longrightarrow> quot a b = a div b"
  by (cases "a = 0") (simp_all add: quot_def)

lemma milliseconds_nonneg: "0 \<le> d \<Longrightarrow> 0 \<le> milliseconds d"
  by (simp add: milliseconds_def quot_nonneg)

end
