(* ===== verification/LogBuffer.thy ===== *)
theory LogBuffer
  imports Prelude
begin

text \<open>
  \<^verbatim>\<open>internal/server/logbuffer/buffer.go\<close>: the bounded in-memory copy of the server's log.
  \<open>log_buffer\<close> is the struct \<^verbatim>\<open>Buffer\<close>; \<open>new_buffer\<close>, \<open>write_log\<close>, \<open>append_locked\<close> and
  \<open>snapshot\<close> are its operations.  Reading \<open>b.entries[0]\<close> of an empty slice panics in Go; the
  model returns \<open>None\<close> there, and the invariant shows that it never happens.
\<close>

record log_buffer =
  entries :: "string list"
  total_bytes :: int
  max_entries :: int
  max_bytes :: int
  buf_started_at :: time
  evicted :: bool

record log_snapshot =
  snap_content :: string
  snap_returned_lines :: int
  snap_started_at :: time
  snap_truncated :: bool

definition default_max_entries :: int where "default_max_entries = 10000"
definition default_max_bytes :: int where "default_max_bytes = 2 * 2 ^ 20"

definition new_buffer :: "int \<Rightarrow> int \<Rightarrow> time \<Rightarrow> log_buffer" where
  "new_buffer maxEntries maxBytes now =
     \<lparr>entries = [], total_bytes = 0,
      max_entries = (if maxEntries \<le> 0 then default_max_entries else maxEntries),
      max_bytes = (if maxBytes \<le> 0 then default_max_bytes else maxBytes),
      buf_started_at = now, evicted = False\<rparr>"

text \<open>\<^verbatim>\<open>bytes.SplitAfter(data, "\n")\<close>: the parts keep their newline; the last part may be empty.\<close>

fun split_after_newline :: "string \<Rightarrow> string list" where
  "split_after_newline [] = [[]]"
| "split_after_newline (c # cs) =
     (if c = CHR 0x0A then [c] # split_after_newline cs
      else case split_after_newline cs of [] \<Rightarrow> [[c]] | p # ps \<Rightarrow> (c # p) # ps)"

text \<open>The eviction loop of \<open>appendLocked\<close>, on the fields it changes.\<close>

fun evict_loop :: "int \<Rightarrow> int \<Rightarrow> string list \<Rightarrow> int \<Rightarrow> bool \<Rightarrow> (string list \<times> int \<times> bool) option" where
  "evict_loop maxE maxB es tot ev =
     (if int (length es) > maxE \<or> tot > maxB
      then (case es of [] \<Rightarrow> None | e # es' \<Rightarrow> evict_loop maxE maxB es' (tot - int (length e)) True)
      else Some (es, tot, ev))"

declare evict_loop.simps [simp del]

definition append_locked :: "log_buffer \<Rightarrow> string \<Rightarrow> log_buffer option" where
  "append_locked b entry =
     (let over = int (length entry) > max_bytes b;
          entry' = (if over then drop (length entry - nat (max_bytes b)) entry else entry)
      in case evict_loop (max_entries b) (max_bytes b) (entries b @ [entry'])
                (total_bytes b + int (length entry')) (evicted b \<or> over) of
           None \<Rightarrow> None
         | Some (es, tot, ev) \<Rightarrow> Some (b\<lparr>entries := es, total_bytes := tot, evicted := ev\<rparr>))"

fun append_parts :: "log_buffer \<Rightarrow> string list \<Rightarrow> log_buffer option" where
  "append_parts b [] = Some b"
| "append_parts b (p # ps) =
     (if p = [] then append_parts b ps
      else case append_locked b p of None \<Rightarrow> None | Some b' \<Rightarrow> append_parts b' ps)"

definition write_log :: "log_buffer \<Rightarrow> string \<Rightarrow> (int \<times> log_buffer) option" where
  "write_log b data =
     (let written = int (length data)
      in if written = 0 then Some (0, b)
         else map_option (\<lambda>b'. (written, b')) (append_parts b (split_after_newline data)))"

definition snapshot :: "log_buffer \<Rightarrow> int \<Rightarrow> log_snapshot" where
  "snapshot b limit =
     (let n = int (length (entries b));
          start = (if limit > 0 \<and> limit < n then n - limit else 0);
          es = drop (nat start) (entries b)
      in \<lparr>snap_content = concat es, snap_returned_lines = int (length es),
          snap_started_at = buf_started_at b, snap_truncated = (evicted b \<or> start > 0)\<rparr>)"

section \<open>Invariant and the contents kept\<close>

definition buffer_inv :: "log_buffer \<Rightarrow> bool" where
  "buffer_inv b \<longleftrightarrow> 0 < max_entries b \<and> 0 < max_bytes b
     \<and> total_bytes b = int (length (concat (entries b)))
     \<and> int (length (entries b)) \<le> max_entries b \<and> total_bytes b \<le> max_bytes b"

text \<open>\<open>keeps_tail b stream\<close>: the buffer holds a tail of everything written, all of it if nothing was dropped.\<close>

definition keeps_tail :: "log_buffer \<Rightarrow> string \<Rightarrow> bool" where
  "keeps_tail b stream \<longleftrightarrow> suffix (concat (entries b)) stream
     \<and> (\<not> evicted b \<longrightarrow> concat (entries b) = stream)"

lemma concat_split_after_newline [simp]: "concat (split_after_newline s) = s"
  by (induction s) (auto split: list.splits)

lemma evict_loop_total:
  assumes "0 < maxE" "0 < maxB" "tot = int (length (concat es))"
  shows "\<exists>k. evict_loop maxE maxB es tot ev =
           Some (drop k es, int (length (concat (drop k es))), ev \<or> 0 < k)
         \<and> k \<le> length es \<and> int (length (drop k es)) \<le> maxE
         \<and> int (length (concat (drop k es))) \<le> maxB
         \<and> (\<forall>j<k. int (length (drop j es)) > maxE \<or> int (length (concat (drop j es))) > maxB)"
  using assms
proof (induction es arbitrary: tot ev)
  case Nil
  then show ?case by (simp add: evict_loop.simps)
next
  case (Cons e es)
  show ?case
  proof (cases "int (length (e # es)) > maxE \<or> tot > maxB")
    case False
    with Cons.prems show ?thesis
      by (intro exI [of _ 0]) (auto simp: evict_loop.simps)
  next
    case True
    from Cons.prems have "tot - int (length e) = int (length (concat es))" by simp
    from Cons.IH [OF Cons.prems(1,2) this, of True] obtain k where k:
      "evict_loop maxE maxB es (tot - int (length e)) True =
         Some (drop k es, int (length (concat (drop k es))), True)"
      "k \<le> length es" "int (length (drop k es)) \<le> maxE"
      "int (length (concat (drop k es))) \<le> maxB"
      "\<forall>j<k. int (length (drop j es)) > maxE \<or> int (length (concat (drop j es))) > maxB"
      by auto
    have "\<forall>j<Suc k. int (length (drop j (e # es))) > maxE
            \<or> int (length (concat (drop j (e # es)))) > maxB"
    proof (intro allI impI)
      fix j assume "j < Suc k"
      then show "int (length (drop j (e # es))) > maxE \<or> int (length (concat (drop j (e # es)))) > maxB"
        using True Cons.prems(3) k(5) by (cases j) auto
    qed
    with True k show ?thesis
      by (intro exI [of _ "Suc k"]) (simp add: evict_loop.simps)
  qed
qed


lemma buffer_inv_new: "buffer_inv (new_buffer maxE maxB now)"
  by (simp add: buffer_inv_def new_buffer_def default_max_entries_def default_max_bytes_def)

lemma keeps_tail_new: "keeps_tail (new_buffer maxE maxB now) []"
  by (simp add: keeps_tail_def new_buffer_def)

text \<open>
  What one append does to a well-formed buffer: the entry is cut to the byte limit, and the
  fewest oldest entries are dropped that make both limits hold again.
\<close>

definition cut_entry :: "log_buffer \<Rightarrow> string \<Rightarrow> string" where
  "cut_entry b e = drop (length e - nat (max_bytes b)) e"

lemma append_locked_spec:
  assumes "buffer_inv b"
  shows "\<exists>k b'. append_locked b e = Some b' \<and> buffer_inv b'
     \<and> entries b' = drop k (entries b @ [cut_entry b e])
     \<and> evicted b' = (evicted b \<or> int (length e) > max_bytes b \<or> 0 < k)
     \<and> max_entries b' = max_entries b \<and> max_bytes b' = max_bytes b
     \<and> buf_started_at b' = buf_started_at b
     \<and> (\<forall>j<k. int (length (drop j (entries b @ [cut_entry b e]))) > max_entries b
              \<or> int (length (concat (drop j (entries b @ [cut_entry b e])))) > max_bytes b)"
proof -
  define e' es where "e' = cut_entry b e" and "es = entries b @ [e']"
  note defs = e'_def [symmetric] es_def [symmetric]
  have e': "(if int (length e) > max_bytes b then drop (length e - nat (max_bytes b)) e else e) = e'"
    using assms by (auto simp: e'_def cut_entry_def buffer_inv_def)
  have tot: "total_bytes b + int (length e') = int (length (concat es))"
    using assms by (simp add: buffer_inv_def es_def)
  from evict_loop_total [OF _ _ tot, of "max_entries b" "max_bytes b" "evicted b \<or> int (length e) > max_bytes b"] assms
  obtain k where k: "evict_loop (max_entries b) (max_bytes b) es
      (total_bytes b + int (length e')) (evicted b \<or> int (length e) > max_bytes b)
      = Some (drop k es, int (length (concat (drop k es))),
          (evicted b \<or> int (length e) > max_bytes b) \<or> 0 < k)"
    and le: "int (length (drop k es)) \<le> max_entries b"
      "int (length (concat (drop k es))) \<le> max_bytes b"
    and least: "\<forall>j<k. int (length (drop j es)) > max_entries b
        \<or> int (length (concat (drop j es))) > max_bytes b"
    unfolding buffer_inv_def by blast
  let ?b' = "b\<lparr>entries := drop k es, total_bytes := int (length (concat (drop k es))),
          evicted := (evicted b \<or> int (length e) > max_bytes b) \<or> 0 < k\<rparr>"
  have "append_locked b e = Some ?b'"
    unfolding append_locked_def Let_def e' es_def [symmetric] k by simp
  moreover have "buffer_inv ?b'"
    using assms le by (simp add: buffer_inv_def)
  ultimately show ?thesis
    unfolding defs using least by (intro exI [of _ k] exI [of _ ?b']) simp
qed

lemma suffix_concat_drop: "suffix (concat (drop k es)) (concat es)"
  by (metis append_take_drop_id concat_append suffixI)

lemma append_locked_keeps:
  assumes "buffer_inv b" "keeps_tail b stream"
  shows "\<exists>b'. append_locked b e = Some b' \<and> buffer_inv b' \<and> keeps_tail b' (stream @ e)"
proof -
  from append_locked_spec [OF assms(1), of e] obtain k b' where b':
    "append_locked b e = Some b'" "buffer_inv b'"
    "entries b' = drop k (entries b @ [cut_entry b e])"
    "evicted b' = (evicted b \<or> int (length e) > max_bytes b \<or> 0 < k)"
    "max_bytes b' = max_bytes b" by blast
  have inv: "int (length (concat (entries b'))) \<le> max_bytes b"
    using b'(2) b'(5) by (simp add: buffer_inv_def)
  have tail: "suffix (concat (entries b')) (concat (entries b) @ cut_entry b e)"
    using suffix_concat_drop [of k "entries b @ [cut_entry b e]"] by (simp add: b'(3))
  have "suffix (concat (entries b')) (concat (entries b) @ e)"
  proof (cases "int (length e) > max_bytes b")
    case True
    then have "length (concat (entries b')) \<le> length (cut_entry b e)"
      using inv assms(1) by (auto simp: cut_entry_def buffer_inv_def)
    then have "suffix (concat (entries b')) (cut_entry b e)"
      by (rule suffix_length_suffix [OF tail, rotated]) (simp add: suffixI)
    moreover have "suffix (cut_entry b e) (concat (entries b) @ e)"
      by (simp add: cut_entry_def suffix_appendI suffix_drop)
    ultimately show ?thesis by (rule suffix_order.trans)
  next
    case False
    then have "cut_entry b e = e" by (simp add: cut_entry_def)
    with tail show ?thesis by simp
  qed
  moreover have "suffix (concat (entries b) @ e) (stream @ e)"
    using assms(2) by (simp add: keeps_tail_def)
  ultimately have "suffix (concat (entries b')) (stream @ e)" by (rule suffix_order.trans)
  moreover have "concat (entries b') = stream @ e" if "\<not> evicted b'"
    using that b' assms by (auto simp: keeps_tail_def cut_entry_def buffer_inv_def)
  ultimately have "keeps_tail b' (stream @ e)" by (simp add: keeps_tail_def)
  with b' show ?thesis by blast
qed

lemma append_parts_keeps:
  assumes "buffer_inv b" "keeps_tail b stream"
  shows "\<exists>b'. append_parts b ps = Some b' \<and> buffer_inv b' \<and> keeps_tail b' (stream @ concat ps)"
  using assms
proof (induction ps arbitrary: b stream)
  case Nil
  then show ?case by simp
next
  case (Cons p ps)
  show ?case
  proof (cases "p = []")
    case True
    with Cons show ?thesis by simp
  next
    case False
    from append_locked_keeps [OF Cons.prems, of p] obtain b1
      where b1: "append_locked b p = Some b1" "buffer_inv b1" "keeps_tail b1 (stream @ p)" by blast
    from Cons.IH [OF b1(2,3)] b1(1) False show ?thesis by simp
  qed
qed

lemma write_log_keeps:
  assumes "buffer_inv b" "keeps_tail b stream"
  shows "\<exists>b'. write_log b data = Some (int (length data), b') \<and> buffer_inv b' \<and> keeps_tail b' (stream @ data)"
proof (cases "data = []")
  case True
  with assms show ?thesis by (simp add: write_log_def)
next
  case False
  from append_parts_keeps [OF assms, of "split_after_newline data"] False show ?thesis
    by (auto simp: write_log_def Let_def)
qed

text \<open>A sequence of writes.\<close>

fun write_all :: "log_buffer \<Rightarrow> string list \<Rightarrow> log_buffer option" where
  "write_all b [] = Some b"
| "write_all b (d # ds) = (case write_log b d of None \<Rightarrow> None | Some (_, b') \<Rightarrow> write_all b' ds)"

lemma write_all_keeps:
  assumes "buffer_inv b" "keeps_tail b stream"
  shows "\<exists>b'. write_all b ds = Some b' \<and> buffer_inv b' \<and> keeps_tail b' (stream @ concat ds)"
  using assms
proof (induction ds arbitrary: b stream)
  case Nil
  then show ?case by simp
next
  case (Cons d ds)
  from write_log_keeps [OF Cons.prems, of d] obtain b1 where
    "write_log b d = Some (int (length d), b1)" "buffer_inv b1" "keeps_tail b1 (stream @ d)" by blast
  with Cons.IH [OF this(2,3)] show ?case by simp
qed

section \<open>Properties\<close>

text \<open>Whatever sizes a log buffer is created with and whatever is written to it, no write ever
  panics, and afterwards the buffer respects both its entry limit and its byte limit, its byte
  counter is exact, and its contents are a tail of everything written -- all of it when the
  buffer has not marked itself as having evicted.\<close>

theorem log_buffer_bounded_tail:
  "\<exists>b. write_all (new_buffer maxE maxB now) ds = Some b \<and> buffer_inv b \<and> keeps_tail b (concat ds)"
  using write_all_keeps [OF buffer_inv_new keeps_tail_new] by simp

text \<open>An append drops no more than it must: what the buffer holds afterwards is the longest
  run of its newest entries (the new one cut to the byte limit) that fits both limits.\<close>

theorem append_drops_least:
  assumes "buffer_inv b" and "append_locked b e = Some b'"
    and "int (length (drop j (entries b @ [cut_entry b e]))) \<le> max_entries b"
    and "int (length (concat (drop j (entries b @ [cut_entry b e])))) \<le> max_bytes b"
  shows "suffix (drop j (entries b @ [cut_entry b e])) (entries b')"
proof -
  define es where "es = entries b @ [cut_entry b e]"
  from append_locked_spec [OF assms(1), of e] assms(2) obtain k where
    k: "entries b' = drop k es" "\<forall>i<k. int (length (drop i es)) > max_entries b
      \<or> int (length (concat (drop i es))) > max_bytes b" by (auto simp: es_def)
  have "k \<le> j" using k(2) assms(3,4) unfolding es_def [symmetric] by (meson not_le not_less)
  then have "drop j es = drop (j - k) (entries b')" by (simp add: k(1))
  then show ?thesis by (simp add: es_def [symmetric] suffix_drop)
qed

theorem append_drops_least_witness:
  "suffix [''bb'', ''ccc'']
     (entries (the (append_locked \<lparr>entries = [''aa'', ''bb''], total_bytes = 4, max_entries = 9,
        max_bytes = 6, buf_started_at = 1, evicted = False\<rparr> ''ccc'')))"
proof -
  let ?b = "\<lparr>entries = [''aa'', ''bb''], total_bytes = 4, max_entries = 9,
        max_bytes = 6, buf_started_at = 1, evicted = False\<rparr>"
  have i: "buffer_inv ?b" by (simp add: buffer_inv_def)
  have a: "append_locked ?b ''ccc'' = Some (the (append_locked ?b ''ccc''))"
    by (simp add: append_locked_def evict_loop.simps)
  show ?thesis
    using append_drops_least [OF i a, of 1] by (simp add: cut_entry_def)
qed

text \<open>A snapshot never invents text: its content is a tail of everything written, it returns
  at most the requested number of entries, and when it says it is not truncated it is the
  whole stream.\<close>

theorem snapshot_faithful:
  assumes "write_all (new_buffer maxE maxB now) ds = Some b"
  shows "suffix (snap_content (snapshot b limit)) (concat ds)
    \<and> (\<not> snap_truncated (snapshot b limit) \<longrightarrow> snap_content (snapshot b limit) = concat ds)
    \<and> (0 < limit \<longrightarrow> snap_returned_lines (snapshot b limit) \<le> limit)
    \<and> snap_returned_lines (snapshot b limit) \<le> max_entries b"
proof -
  from write_all_keeps [OF buffer_inv_new keeps_tail_new, of maxE maxB now ds] assms
  have inv: "buffer_inv b" and tail: "keeps_tail b (concat ds)" by auto
  let ?n = "nat (if limit > 0 \<and> limit < int (length (entries b)) then int (length (entries b)) - limit else 0)"
  have c: "snap_content (snapshot b limit) = concat (drop ?n (entries b))"
    by (simp add: snapshot_def Let_def)
  have "suffix (snap_content (snapshot b limit)) (concat ds)"
    unfolding c using suffix_concat_drop tail unfolding keeps_tail_def by (blast intro: suffix_order.trans)
  moreover have "\<not> snap_truncated (snapshot b limit) \<longrightarrow> snap_content (snapshot b limit) = concat ds"
    using tail by (auto simp: snapshot_def Let_def keeps_tail_def)
  moreover have "(0 < limit \<longrightarrow> snap_returned_lines (snapshot b limit) \<le> limit)
    \<and> snap_returned_lines (snapshot b limit) \<le> max_entries b"
    using inv by (auto simp: snapshot_def Let_def buffer_inv_def)
  ultimately show ?thesis by blast
qed

theorem snapshot_faithful_witness:
  "suffix (snap_content (snapshot (the (write_all (new_buffer 2 0 1) [[CHR ''a'', CHR 0x0A], [CHR ''b'']])) 1))
     [CHR ''a'', CHR 0x0A, CHR ''b'']"
proof -
  have "write_all (new_buffer 2 0 1) [[CHR ''a'', CHR 0x0A], [CHR ''b'']]
    = Some (the (write_all (new_buffer 2 0 1) [[CHR ''a'', CHR 0x0A], [CHR ''b'']]))"
    by (simp add: write_log_def append_locked_def evict_loop.simps new_buffer_def default_max_bytes_def)
  from snapshot_faithful [OF this, of 1] show ?thesis by simp
qed

end
