(* ===== verification/GoText.thy ===== *)
theory GoText
  imports Prelude "HOL-Library.Char_ord" "HOL-Library.List_Lexorder"
begin

text \<open>
  Go strings are byte strings; here they are char lists, one char per byte.  This theory holds what
  the modelled packages use of \<^verbatim>\<open>unicode/utf8\<close>, \<^verbatim>\<open>strings\<close> and \<^verbatim>\<open>fmt\<close>: decoding of runes,
  \<^verbatim>\<open>ValidString\<close>, \<^verbatim>\<open>RuneCountInString\<close>, \<^verbatim>\<open>TrimSpace\<close>, \<^verbatim>\<open>Fields\<close>, \<^verbatim>\<open>Join\<close>, \<^verbatim>\<open>ToLower\<close>,
  \<^verbatim>\<open>ReplaceAll\<close>, \<^verbatim>\<open>Contains\<close>, \<^verbatim>\<open>ToValidUTF8\<close>, \<^verbatim>\<open>%d\<close> and \<^verbatim>\<open>%s\<close>.  The order of strings is
  bytewise lexicographic, which is Go's.  The case table of Unicode beyond ASCII is the one
  parameter (\<open>ul\<close> of \<open>to_lower\<close>).
\<close>

section \<open>Decoding UTF-8\<close>

definition rune_error :: nat where "rune_error = 65533"

definition byte_in :: "nat \<Rightarrow> nat \<Rightarrow> char \<Rightarrow> bool" where
  "byte_in lo hi c \<longleftrightarrow> lo \<le> of_char c \<and> of_char c \<le> hi"

abbreviation (input) cont :: "char \<Rightarrow> bool" where "cont \<equiv> byte_in 128 191"

definition low6 :: "char \<Rightarrow> nat" where "low6 c = of_char c mod 64"

text \<open>The bounds of the second byte after a given first byte.\<close>

definition second_ok :: "nat \<Rightarrow> char \<Rightarrow> bool" where
  "second_ok b0 c =
     (if b0 = 224 then byte_in 160 191 c
      else if b0 = 237 then byte_in 128 159 c
      else if b0 = 240 then byte_in 144 191 c
      else if b0 = 244 then byte_in 128 143 c
      else byte_in 128 191 c)"

text \<open>\<^verbatim>\<open>utf8.DecodeRuneInString\<close>: a rune and its width; an invalid byte is \<open>rune_error\<close> of width 1.\<close>

fun decode_rune :: "string \<Rightarrow> nat \<times> nat" where
  "decode_rune [] = (rune_error, 0)"
| "decode_rune (c # cs) =
     (let b0 = of_char c in
      if b0 < 128 then (b0, 1)
      else if 194 \<le> b0 \<and> b0 \<le> 223 then
        (case cs of c1 # _ \<Rightarrow> if second_ok b0 c1 then (b0 mod 32 * 64 + low6 c1, 2) else (rune_error, 1)
         | _ \<Rightarrow> (rune_error, 1))
      else if 224 \<le> b0 \<and> b0 \<le> 239 then
        (case cs of c1 # c2 # _ \<Rightarrow>
             if second_ok b0 c1 \<and> cont c2
             then (b0 mod 16 * 4096 + low6 c1 * 64 + low6 c2, 3) else (rune_error, 1)
         | _ \<Rightarrow> (rune_error, 1))
      else if 240 \<le> b0 \<and> b0 \<le> 244 then
        (case cs of c1 # c2 # c3 # _ \<Rightarrow>
             if second_ok b0 c1 \<and> cont c2 \<and> cont c3
             then (b0 mod 8 * 262144 + low6 c1 * 4096 + low6 c2 * 64 + low6 c3, 4) else (rune_error, 1)
         | _ \<Rightarrow> (rune_error, 1))
      else (rune_error, 1))"

lemma decode_rune_width:
  "s \<noteq> [] \<Longrightarrow> 0 < snd (decode_rune s) \<and> snd (decode_rune s) \<le> length s"
  by (cases s) (auto simp: Let_def split: list.splits)

text \<open>A string cut at its runes: each with the bytes it was decoded from.\<close>

fun split_runes :: "string \<Rightarrow> (nat \<times> string) list" where
  "split_runes [] = []"
| "split_runes (c # cs) =
     (case decode_rune (c # cs) of (r, n) \<Rightarrow> (r, take n (c # cs)) # split_runes (drop (n - 1) cs))"

declare decode_rune.simps [simp del] split_runes.simps(2) [simp del]

definition join_runes :: "(nat \<times> string) list \<Rightarrow> string" where
  "join_runes xs = concat (map snd xs)"

lemma join_runes_simps [simp]:
  "join_runes [] = []" "join_runes ((r, bs) # xs) = bs @ join_runes xs"
  "join_runes (xs @ ys) = join_runes xs @ join_runes ys"
  by (simp_all add: join_runes_def)

lemma join_split_runes [simp]: "join_runes (split_runes s) = s"
proof (induction s rule: split_runes.induct)
  case 1
  then show ?case by simp
next
  case (2 c cs)
  obtain r n where d: "decode_rune (c # cs) = (r, n)" by fastforce
  with decode_rune_width [of "c # cs"] have "0 < n" by simp
  then have "take n (c # cs) @ drop (n - 1) cs = c # cs" by (cases n) auto
  with "2.IH" [OF d [symmetric]] d show ?case by (simp add: split_runes.simps(2))
qed

definition invalid_seg :: "nat \<times> string \<Rightarrow> bool" where
  "invalid_seg x \<longleftrightarrow> fst x = rune_error \<and> length (snd x) = 1"

definition valid_utf8 :: "string \<Rightarrow> bool" where
  "valid_utf8 s \<longleftrightarrow> list_all (\<lambda>x. \<not> invalid_seg x) (split_runes s)"

definition rune_count :: "string \<Rightarrow> int" where
  "rune_count s = int (length (split_runes s))"

lemma valid_utf8_Nil [simp]: "valid_utf8 []"
  by (simp add: valid_utf8_def)

lemma split_runes_snd_nonempty: "x \<in> set (split_runes s) \<Longrightarrow> snd x \<noteq> []"
proof (induction s rule: split_runes.induct)
  case 1
  then show ?case by simp
next
  case (2 c cs)
  obtain r n where d: "decode_rune (c # cs) = (r, n)" by fastforce
  with decode_rune_width [of "c # cs"] have "0 < n" by simp
  with 2 d show ?case by (auto simp: split_runes.simps(2) take_Cons')
qed

lemma length_split_runes: "length (split_runes s) \<le> length s"
proof -
  have "length xs \<le> length (join_runes xs)" if "\<forall>x\<in>set xs. snd x \<noteq> []" for xs
    using that
  proof (induction xs)
    case (Cons x xs)
    then have "0 < length (snd x)" and "length xs \<le> length (join_runes xs)" by auto
    then show ?case unfolding join_runes_def list.map concat.simps length_append list.size by linarith
  qed simp
  from this [of "split_runes s"] split_runes_snd_nonempty show ?thesis by auto
qed

text \<open>A valid rune is decoded from its own bytes, whatever follows.\<close>

lemma decode_rune_append:
  "s \<noteq> [] \<Longrightarrow> decode_rune s = (r, n) \<Longrightarrow> \<not> (r = rune_error \<and> n = 1) \<Longrightarrow> decode_rune (s @ t) = (r, n)"
  by (cases s) (auto simp: decode_rune.simps Let_def split: list.splits if_splits)

lemma split_runes_append_valid:
  "valid_utf8 s \<Longrightarrow> split_runes (s @ t) = split_runes s @ split_runes t"
proof (induction s rule: split_runes.induct)
  case 1
  then show ?case by simp
next
  case (2 c cs)
  obtain r n where d: "decode_rune (c # cs) = (r, n)" by fastforce
  with decode_rune_width [of "c # cs"] have n: "0 < n" "n \<le> Suc (length cs)" by auto
  from "2.prems" d n have v: "\<not> (r = rune_error \<and> n = 1)" and rest: "valid_utf8 (drop (n - 1) cs)"
    by (auto simp: valid_utf8_def split_runes.simps(2) invalid_seg_def min_def split: if_splits)
  from decode_rune_append [OF _ d v] have "decode_rune (c # cs @ t) = (r, n)" by simp
  with "2.IH" [OF d [symmetric] rest] d n show ?case
    by (simp add: split_runes.simps(2)) (simp add: take_Cons')
qed

lemma valid_utf8_append: "valid_utf8 s \<Longrightarrow> valid_utf8 (s @ t) = valid_utf8 t"
  by (simp add: valid_utf8_def split_runes_append_valid)

lemma split_runes_segment:
  assumes "x \<in> set (split_runes s)" "\<not> invalid_seg x"
  shows "split_runes (snd x) = [x]"
  using assms
proof (induction s rule: split_runes.induct)
  case 1
  then show ?case by simp
next
  case (2 c cs)
  obtain r n where d: "decode_rune (c # cs) = (r, n)" by fastforce
  with decode_rune_width [of "c # cs"] have n: "0 < n" "n \<le> Suc (length cs)" by auto
  show ?case
  proof (cases "x = (r, take n (c # cs))")
    case True
    with 2 d n have "\<not> (r = rune_error \<and> n = 1)" by (auto simp: invalid_seg_def)
    then have "decode_rune (take n (c # cs)) = (r, n)"
      using d n by (auto simp: decode_rune.simps Let_def split: list.splits if_splits)
    with True n show ?thesis
      by (cases n) (auto simp: split_runes.simps(2))
  next
    case False
    with 2 d show ?thesis by (auto simp: split_runes.simps(2))
  qed
qed

text \<open>\<^verbatim>\<open>utf8.AppendRune\<close>.\<close>

definition encode_rune :: "nat \<Rightarrow> string" where
  "encode_rune r =
     (let r' = (if 1114111 < r \<or> (55296 \<le> r \<and> r \<le> 57343) then rune_error else r) in
      if r' < 128 then [char_of r']
      else if r' < 2048 then [char_of (192 + r' div 64), char_of (128 + r' mod 64)]
      else if r' < 65536 then
        [char_of (224 + r' div 4096), char_of (128 + r' div 64 mod 64), char_of (128 + r' mod 64)]
      else [char_of (240 + r' div 262144), char_of (128 + r' div 4096 mod 64),
            char_of (128 + r' div 64 mod 64), char_of (128 + r' mod 64)])"

section \<open>The strings package\<close>

text \<open>\<^verbatim>\<open>unicode.IsSpace\<close>.\<close>

definition is_space :: "nat \<Rightarrow> bool" where
  "is_space r \<longleftrightarrow> (9 \<le> r \<and> r \<le> 13) \<or> r = 32 \<or> r = 133 \<or> r = 160 \<or> r = 5760
     \<or> (8192 \<le> r \<and> r \<le> 8202) \<or> r = 8232 \<or> r = 8233 \<or> r = 8239 \<or> r = 8287 \<or> r = 12288"

definition trim_segs :: "(nat \<times> string) list \<Rightarrow> (nat \<times> string) list" where
  "trim_segs xs = rev (dropWhile (is_space \<circ> fst) (rev (dropWhile (is_space \<circ> fst) xs)))"

definition trim_space :: "string \<Rightarrow> string" where
  "trim_space s = join_runes (trim_segs (split_runes s))"

fun text_fields_segs :: "(nat \<times> string) list \<Rightarrow> (nat \<times> string) list \<Rightarrow> string list" where
  "text_fields_segs cur [] = (if cur = [] then [] else [join_runes (rev cur)])"
| "text_fields_segs cur (x # xs) =
     (if is_space (fst x)
      then (if cur = [] then text_fields_segs [] xs else join_runes (rev cur) # text_fields_segs [] xs)
      else text_fields_segs (x # cur) xs)"

definition text_fields :: "string \<Rightarrow> string list" where
  "text_fields s = text_fields_segs [] (split_runes s)"

fun join :: "string \<Rightarrow> string list \<Rightarrow> string" where
  "join sep [] = []"
| "join sep [x] = x"
| "join sep (x # y # ys) = x @ sep @ join sep (y # ys)"

definition ascii_lower :: "nat \<Rightarrow> nat" where
  "ascii_lower r = (if 65 \<le> r \<and> r \<le> 90 then r + 32 else r)"

definition is_ascii :: "string \<Rightarrow> bool" where
  "is_ascii s = list_all (\<lambda>c. of_char c < (128::nat)) s"

text \<open>\<^verbatim>\<open>strings.ToLower\<close>; \<open>ul\<close> is \<^verbatim>\<open>unicode.ToLower\<close> on runes from 128 on.\<close>

definition to_lower :: "(nat \<Rightarrow> nat) \<Rightarrow> string \<Rightarrow> string" where
  "to_lower ul s =
     (if is_ascii s then map (\<lambda>c. char_of (ascii_lower (of_char c))) s
      else concat (map (\<lambda>x. encode_rune (if fst x < 128 then ascii_lower (fst x) else ul (fst x)))
             (split_runes s)))"

definition ascii_upper :: "nat \<Rightarrow> nat" where
  "ascii_upper r = (if 97 \<le> r \<and> r \<le> 122 then r - 32 else r)"

text \<open>\<^verbatim>\<open>strings.ToUpper\<close>; \<open>uu\<close> is \<^verbatim>\<open>unicode.ToUpper\<close> on runes from 128 on.\<close>

definition to_upper :: "(nat \<Rightarrow> nat) \<Rightarrow> string \<Rightarrow> string" where
  "to_upper uu s =
     (if is_ascii s then map (\<lambda>c. char_of (ascii_upper (of_char c))) s
      else concat (map (\<lambda>x. encode_rune (if fst x < 128 then ascii_upper (fst x) else uu (fst x)))
             (split_runes s)))"

text \<open>\<^verbatim>\<open>strings.ReplaceAll(s, old, new)\<close> for a non-empty \<open>old\<close> (the only use in the code).\<close>

function replace_all :: "string \<Rightarrow> string \<Rightarrow> string \<Rightarrow> string" where
  "replace_all old new [] = []"
| "replace_all old new (c # cs) =
     (if old \<noteq> [] \<and> prefix old (c # cs)
      then new @ replace_all old new (drop (length old) (c # cs))
      else c # replace_all old new cs)"
  by pat_completeness auto
termination
  by (relation "measure (\<lambda>(old, new, s). length s)") (auto simp: neq_Nil_conv)

declare replace_all.simps(2) [simp del]

definition contains :: "string \<Rightarrow> string \<Rightarrow> bool" where
  "contains s sub = sublist sub s"

definition contains_any :: "string \<Rightarrow> string \<Rightarrow> bool" where
  "contains_any s chars = list_ex (\<lambda>c. c \<in> set chars) s"

text \<open>\<^verbatim>\<open>strings.ToValidUTF8(s, repl)\<close>: every run of invalid bytes becomes one \<open>repl\<close>.\<close>

fun to_valid_segs :: "string \<Rightarrow> bool \<Rightarrow> (nat \<times> string) list \<Rightarrow> string" where
  "to_valid_segs repl bad [] = []"
| "to_valid_segs repl bad (x # xs) =
     (if invalid_seg x
      then (if bad then [] else repl) @ to_valid_segs repl True xs
      else snd x @ to_valid_segs repl False xs)"

definition to_valid_utf8 :: "string \<Rightarrow> string \<Rightarrow> string" where
  "to_valid_utf8 repl s = to_valid_segs repl False (split_runes s)"

lemma valid_utf8_to_valid_segs:
  assumes "valid_utf8 repl" "\<forall>x\<in>set xs. \<not> invalid_seg x \<longrightarrow> split_runes (snd x) = [x]"
  shows "valid_utf8 (to_valid_segs repl bad xs)"
  using assms(2)
proof (induction xs arbitrary: bad)
  case (Cons x xs)
  show ?case
  proof (cases "invalid_seg x")
    case True
    with Cons assms(1) show ?thesis by (simp add: valid_utf8_append)
  next
    case False
    with Cons.prems have "valid_utf8 (snd x)" by (simp add: valid_utf8_def)
    with Cons False show ?thesis by (simp add: valid_utf8_append)
  qed
qed simp

lemma valid_utf8_to_valid_utf8: "valid_utf8 repl \<Longrightarrow> valid_utf8 (to_valid_utf8 repl s)"
  unfolding to_valid_utf8_def
  by (rule valid_utf8_to_valid_segs) (auto intro: split_runes_segment)

lemma to_valid_utf8_id: "valid_utf8 s \<Longrightarrow> to_valid_utf8 repl s = s"
proof -
  have "to_valid_segs repl bad xs = join_runes xs" if "\<forall>x\<in>set xs. \<not> invalid_seg x" for bad xs
    using that by (induction xs arbitrary: bad) (auto simp: join_runes_def)
  then show "valid_utf8 s \<Longrightarrow> to_valid_utf8 repl s = s"
    by (simp add: to_valid_utf8_def valid_utf8_def list_all_iff)
qed

text \<open>Cutting a string at rune boundaries and decoding the part again gives the same runes.\<close>

lemma decode_rune_take:
  assumes "decode_rune (s @ t) = (r, n)" "n \<le> length s" "s \<noteq> []"
  shows "decode_rune s = (r, n)"
proof (cases "r = rune_error \<and> n = 1")
  case True
  obtain r' n' where d: "decode_rune s = (r', n')" by fastforce
  with decode_rune_append [OF assms(3) d, of t] assms(1) True show ?thesis by auto
next
  case False
  with assms show ?thesis
    by (cases s) (auto simp: decode_rune.simps Let_def split: list.splits if_splits)
qed

lemma split_runes_Cons_decode:
  "s \<noteq> [] \<Longrightarrow> decode_rune s = (r, n) \<Longrightarrow> split_runes s = (r, take n s) # split_runes (drop n s)"
  using decode_rune_width [of s] by (cases s) (auto simp: split_runes.simps(2) drop_Cons' gr0_conv_Suc)

lemma split_runes_prefix: "split_runes s = ys @ zs \<Longrightarrow> split_runes (join_runes ys) = ys"
proof (induction ys arbitrary: s)
  case Nil
  then show ?case by simp
next
  case (Cons y ys)
  then have ne: "s \<noteq> []" by auto
  obtain r n where d: "decode_rune s = (r, n)" by fastforce
  from decode_rune_width [OF ne] d have n: "0 < n" "n \<le> length s" by auto
  from split_runes_Cons_decode [OF ne d] Cons.prems
  have y: "y = (r, take n s)" and rest: "split_runes (drop n s) = ys @ zs" by auto
  let ?p = "take n s @ join_runes ys"
  have "s = take n s @ join_runes (ys @ zs)"
    by (metis append_take_drop_id join_split_runes rest)
  then have "decode_rune (?p @ join_runes zs) = (r, n)" using d by simp
  then have "decode_rune ?p = (r, n)" by (rule decode_rune_take) (use n in auto)
  moreover have "?p \<noteq> []" using n ne by auto
  ultimately have "split_runes ?p = (r, take n ?p) # split_runes (drop n ?p)"
    by (simp add: split_runes_Cons_decode)
  with n Cons.IH [OF rest] show ?case by (simp add: y)
qed

lemma split_runes_suffix: "split_runes s = xs @ ys \<Longrightarrow> split_runes (join_runes ys) = ys"
proof (induction xs arbitrary: s)
  case Nil
  then show ?case using join_split_runes [of s] by simp
next
  case (Cons x xs)
  then have ne: "s \<noteq> []" by auto
  obtain r n where d: "decode_rune s = (r, n)" by fastforce
  from split_runes_Cons_decode [OF ne d] Cons show ?case by auto
qed

lemma split_runes_infix: "split_runes s = xs @ ys @ zs \<Longrightarrow> split_runes (join_runes ys) = ys"
  by (metis split_runes_suffix split_runes_prefix)

lemma trim_segs_infix: "\<exists>xs zs. ys = xs @ trim_segs ys @ zs"
proof -
  let ?l = "dropWhile (is_space \<circ> fst) ys"
  have "ys = takeWhile (is_space \<circ> fst) ys @ ?l" by simp
  moreover have "?l = trim_segs ys @ rev (takeWhile (is_space \<circ> fst) (rev ?l))"
    unfolding trim_segs_def rev_append [symmetric] by simp
  ultimately show ?thesis by metis
qed

lemma dropWhile_hd: "xs = [] \<or> \<not> P (hd xs) \<Longrightarrow> dropWhile P xs = xs"
  by (cases xs) auto

lemma trim_segs_idem [simp]: "trim_segs (trim_segs xs) = trim_segs xs"
proof -
  let ?P = "is_space \<circ> fst" and ?l = "dropWhile (is_space \<circ> fst) xs"
  let ?r = "dropWhile ?P (rev ?l)"
  have "rev ?r = [] \<or> \<not> ?P (hd (rev ?r))"
  proof (cases "rev ?r = []")
    case False
    have "?l = rev ?r @ rev (takeWhile ?P (rev ?l))" unfolding rev_append [symmetric] by simp
    with False have "hd (rev ?r) = hd ?l" by (metis hd_append2)
    moreover from False have "?l \<noteq> []" by (metis dropWhile.simps(1) rev.simps(1))
    ultimately show ?thesis using hd_dropWhile [of ?P xs] by metis
  qed simp
  then have 1: "dropWhile ?P (rev ?r) = rev ?r" by (rule dropWhile_hd)
  have "trim_segs (rev ?r) = rev ?r"
    unfolding trim_segs_def 1 rev_rev_ident dropWhile_idem by (rule refl)
  then show ?thesis by (simp only: trim_segs_def)
qed

lemma trim_space_idem [simp]: "trim_space (trim_space s) = trim_space s"
proof -
  obtain xs zs where "split_runes s = xs @ trim_segs (split_runes s) @ zs"
    using trim_segs_infix by metis
  then have "split_runes (trim_space s) = trim_segs (split_runes s)"
    unfolding trim_space_def by (rule split_runes_infix)
  then show ?thesis by (simp add: trim_space_def)
qed

lemma trim_space_Nil [simp]: "trim_space [] = []"
  by (simp add: trim_space_def trim_segs_def)

lemma length_trim_space: "length (trim_space s) \<le> length s"
proof -
  obtain xs zs where "split_runes s = xs @ trim_segs (split_runes s) @ zs"
    using trim_segs_infix by metis
  then have "s = join_runes xs @ trim_space s @ join_runes zs"
    by (metis join_runes_simps(3) join_split_runes trim_space_def)
  then show ?thesis by (metis le_add1 le_add2 length_append order_trans)
qed

lemma valid_utf8_trim_space: "valid_utf8 s \<Longrightarrow> valid_utf8 (trim_space s)"
proof -
  assume v: "valid_utf8 s"
  obtain xs zs where e: "split_runes s = xs @ trim_segs (split_runes s) @ zs"
    using trim_segs_infix by metis
  then have "split_runes (trim_space s) = trim_segs (split_runes s)"
    unfolding trim_space_def by (rule split_runes_infix)
  moreover have "set (trim_segs (split_runes s)) \<subseteq> set (split_runes s)" by (subst (2) e) auto
  ultimately show ?thesis using v by (auto simp: valid_utf8_def list_all_iff)
qed

text \<open>On ASCII text every char is a rune; this evaluates the functions above on literals.\<close>

lemma split_runes_ascii: "is_ascii s \<Longrightarrow> split_runes s = map (\<lambda>c. (of_char c, [c])) s"
  by (induction s) (simp_all add: is_ascii_def split_runes.simps(2) decode_rune.simps)

lemma valid_utf8_ascii: "is_ascii s \<Longrightarrow> valid_utf8 s"
  by (auto simp: valid_utf8_def split_runes_ascii list_all_iff invalid_seg_def is_ascii_def rune_error_def)

lemmas eval_text = split_runes_ascii is_ascii_def trim_space_def trim_segs_def is_space_def
  text_fields_def rune_count_def valid_utf8_ascii to_lower_def ascii_lower_def to_upper_def ascii_upper_def

section \<open>Decimal numbers\<close>

fun show_nat :: "nat \<Rightarrow> string" where
  "show_nat n = (if n < 10 then [char_of (48 + n)] else show_nat (n div 10) @ [char_of (48 + n mod 10)])"

declare show_nat.simps [simp del]

definition show_int :: "int \<Rightarrow> string" where
  "show_int i = (if i < 0 then CHR ''-'' # show_nat (nat (- i)) else show_nat (nat i))"

definition nat_of_digits :: "string \<Rightarrow> nat" where
  "nat_of_digits ds = foldl (\<lambda>n c. 10 * n + (of_char c - 48)) 0 ds"

lemma nat_of_digits_snoc: "nat_of_digits (ds @ [c]) = 10 * nat_of_digits ds + (of_char c - 48)"
  by (simp add: nat_of_digits_def)

lemma of_char_digit: "d < 10 \<Longrightarrow> of_char (char_of (48 + d) :: char) = 48 + (d::nat)"
  by simp

lemma nat_of_digits_show_nat [simp]: "nat_of_digits (show_nat n) = n"
proof (induction n rule: show_nat.induct)
  case (1 n)
  show ?case
  proof (cases "n < 10")
    case True
    then show ?thesis by (subst show_nat.simps) (simp add: nat_of_digits_def)
  next
    case False
    with 1 show ?thesis by (subst show_nat.simps) (simp add: nat_of_digits_snoc)
  qed
qed

lemma show_nat_inj: "show_nat m = show_nat n \<longleftrightarrow> m = n"
  by (metis nat_of_digits_show_nat)

lemma show_nat_nonempty [simp]: "show_nat n \<noteq> []"
  by (subst show_nat.simps) simp

lemma show_nat_digits: "c \<in> set (show_nat n) \<Longrightarrow> 48 \<le> (of_char c :: nat) \<and> (of_char c :: nat) \<le> 57"
proof (induction n arbitrary: c rule: show_nat.induct)
  case (1 n)
  show ?case
  proof (cases "n < 10")
    case True
    with "1.prems" show ?thesis by (subst (asm) show_nat.simps) (auto simp: of_char_digit)
  next
    case False
    with 1 show ?thesis by (subst (asm) (2) show_nat.simps) (auto simp: of_char_digit)
  qed
qed

lemma show_int_inj: "show_int i = show_int j \<longleftrightarrow> i = j"
proof -
  have "CHR ''-'' \<notin> set (show_nat n)" for n
    using show_nat_digits [of "CHR ''-''" n] by auto
  then have "CHR ''-'' # x \<noteq> show_nat n" "show_nat n \<noteq> CHR ''-'' # x" for n x
    by (metis list.set_intros(1))+
  then show ?thesis
    by (auto simp: show_int_def show_nat_inj)
qed

section \<open>Hexadecimal\<close>

text \<open>\<^verbatim>\<open>hex.EncodeToString\<close>.\<close>

definition hex_digit :: "nat \<Rightarrow> char" where
  "hex_digit n = (if n < 10 then char_of (48 + n) else char_of (87 + n))"

definition hex_encode :: "nat list \<Rightarrow> string" where
  "hex_encode bs = concat (map (\<lambda>b. [hex_digit (b div 16), hex_digit (b mod 16)]) bs)"

end
