(* ===== verification/SshJobs.thy ===== *)
theory SshJobs
  imports GoText
begin

text \<open>
  \<^verbatim>\<open>internal/server/sshops/validation.go\<close> and \<^verbatim>\<open>jobs.go\<close>: validation of an SSH request, redaction of
  secrets from progress messages, and the background jobs with their subscribers.  A channel is
  its buffered events and whether it is closed; sending on or closing a closed channel panics in
  Go and is \<open>None\<close> here.  The goroutine of a job is a step relation over its program counter,
  interleaved with subscribers and readers.
\<close>

section \<open>Validation and redaction\<close>

record ssh_request =
  ssh_host :: string
  ssh_port :: int
  ssh_username :: string
  ssh_auth_type :: string
  ssh_password :: string
  ssh_private_key :: string
  ssh_passphrase :: string

datatype ssh_error = SshError string | UnsupportedAuthType string

text \<open>\<open>ValidateSSHRequest\<close> also normalises the request in place: the pair is the error and the request afterwards.\<close>

definition validate_ssh_request :: "ssh_request \<Rightarrow> ssh_error option \<times> ssh_request" where
  "validate_ssh_request request =
     (let r1 = request\<lparr>ssh_host := trim_space (ssh_host request),
                 ssh_username := trim_space (ssh_username request),
                 ssh_auth_type := trim_space (ssh_auth_type request)\<rparr>
      in if ssh_host r1 = [] then (Some (SshError ''ssh host is required''), r1)
         else
           (let r2 = (if ssh_port r1 = 0 then r1\<lparr>ssh_port := 22\<rparr> else r1)
            in if ssh_port r2 < 1 \<or> ssh_port r2 > 65535 then (Some (SshError ''ssh port is invalid''), r2)
               else if ssh_username r2 \<noteq> ''root'' then (Some (SshError ''ssh username must be root''), r2)
               else if ssh_auth_type r2 = ''password'' then
                 (if ssh_password r2 = [] then (Some (SshError ''ssh password is required''), r2) else (None, r2))
               else if ssh_auth_type r2 = ''private_key'' then
                 (if trim_space (ssh_private_key r2) = []
                  then (Some (SshError ''ssh private key is required''), r2) else (None, r2))
               else (Some (UnsupportedAuthType (ssh_auth_type r2)), r2)))"

definition redacted :: string where "redacted = ''[redacted]''"

fun sanitize_progress_message :: "string \<Rightarrow> string list \<Rightarrow> string" where
  "sanitize_progress_message message [] = message"
| "sanitize_progress_message message (secret # secrets) =
     (if secret = [] then sanitize_progress_message message secrets
      else sanitize_progress_message (replace_all secret redacted message) secrets)"

section \<open>Jobs and their subscribers\<close>

datatype progress_status = ProgressPending | ProgressRunning | ProgressSuccess | ProgressFailed

record progress_event =
  ev_step :: string
  ev_label :: string
  ev_status :: progress_status
  ev_message :: string
  ev_done :: bool

record event_chan =
  ch_buf :: "progress_event list"
  ch_closed :: bool

text \<open>\<open>job_chans\<close> is the store of the channels made by \<open>Subscribe\<close>; \<open>job_subscribers\<close> holds indices into it.\<close>

record job =
  job_id :: string
  job_status :: progress_status
  job_events :: "progress_event list"
  job_secrets :: "string list"
  job_done :: bool
  job_subscribers :: "nat list"
  job_chans :: "event_chan list"

definition updates_capacity :: nat where "updates_capacity = 16"

text \<open>The non-blocking send of \<open>add\<close>: a full buffer drops the event, a closed channel panics.\<close>

definition chan_offer :: "progress_event \<Rightarrow> event_chan \<Rightarrow> event_chan" where
  "chan_offer e c = (if length (ch_buf c) < updates_capacity then c\<lparr>ch_buf := ch_buf c @ [e]\<rparr> else c)"

fun send_all :: "nat list \<Rightarrow> progress_event \<Rightarrow> event_chan list \<Rightarrow> event_chan list option" where
  "send_all [] e cs = Some cs"
| "send_all (i # is) e cs =
     (if i \<ge> length cs \<or> ch_closed (cs ! i) then None
      else send_all is e (cs[i := chan_offer e (cs ! i)]))"

fun close_all :: "nat list \<Rightarrow> event_chan list \<Rightarrow> event_chan list option" where
  "close_all [] cs = Some cs"
| "close_all (i # is) cs =
     (if i \<ge> length cs \<or> ch_closed (cs ! i) then None
      else close_all is (cs[i := (cs ! i)\<lparr>ch_closed := True\<rparr>]))"

definition job_add :: "job \<Rightarrow> progress_event \<Rightarrow> job option" where
  "job_add j event =
     (let event' = event\<lparr>ev_message := sanitize_progress_message (ev_message event) (job_secrets j)\<rparr>
      in case send_all (job_subscribers j) event' (job_chans j) of
           None \<Rightarrow> None
         | Some cs \<Rightarrow>
             if ev_done event'
             then (case close_all (job_subscribers j) cs of
                     None \<Rightarrow> None
                   | Some cs' \<Rightarrow> Some (j\<lparr>job_events := job_events j @ [event'], job_chans := cs', job_subscribers := []\<rparr>))
             else Some (j\<lparr>job_events := job_events j @ [event'], job_chans := cs\<rparr>))"

definition job_set_status :: "job \<Rightarrow> progress_status \<Rightarrow> job" where
  "job_set_status j st = j\<lparr>job_status := st\<rparr>"

definition job_clear_secrets :: "job \<Rightarrow> job" where
  "job_clear_secrets j = j\<lparr>job_secrets := []\<rparr>"

text \<open>\<open>Subscribe\<close> on a job: the history, the index of the new channel, and the job afterwards.\<close>

definition job_subscribe :: "job \<Rightarrow> progress_event list \<times> nat \<times> job" where
  "job_subscribe j =
     (let i = length (job_chans j);
          live = (job_status j = ProgressRunning \<or> job_status j = ProgressPending)
      in (job_events j, i,
          j\<lparr>job_chans := job_chans j @ [\<lparr>ch_buf = [], ch_closed = \<not> live\<rparr>],
            job_subscribers := (if live then job_subscribers j @ [i] else job_subscribers j)\<rparr>))"

text \<open>The manager: a map from job identifiers to jobs.\<close>

type_synonym job_manager = "string \<rightharpoonup> job"

definition manager_job :: "job_manager \<Rightarrow> string \<Rightarrow> job option" where
  "manager_job m jobID = m jobID"

definition manager_events :: "job_manager \<Rightarrow> string \<Rightarrow> progress_event list" where
  "manager_events m jobID = (case manager_job m jobID of None \<Rightarrow> [] | Some j \<Rightarrow> job_events j)"

definition manager_subscribe :: "job_manager \<Rightarrow> string \<Rightarrow> (progress_event list \<times> nat) option \<times> job_manager" where
  "manager_subscribe m jobID =
     (case manager_job m jobID of
        None \<Rightarrow> (None, m)
      | Some j \<Rightarrow> (case job_subscribe j of (h, i, j') \<Rightarrow> (Some (h, i), m(jobID \<mapsto> j'))))"

text \<open>\<open>randomJobID\<close>: the argument is what \<^verbatim>\<open>rand.Read\<close> filled in, \<open>None\<close> for its error.\<close>

definition random_job_id :: "nat list option \<Rightarrow> string" where
  "random_job_id rnd = (case rnd of None \<Rightarrow> ''ssh-job'' | Some bs \<Rightarrow> ''ssh-'' @ hex_encode bs)"

definition start_event :: progress_event where
  "start_event = \<lparr>ev_step = ''start'', ev_label = [CHR 0xE5, CHR 0xBC, CHR 0x80, CHR 0xE5, CHR 0xA7, CHR 0x8B], ev_status = ProgressRunning,
     ev_message = [CHR 0xE4, CHR 0xBB, CHR 0xBB, CHR 0xE5, CHR 0x8A, CHR 0xA1, CHR 0xE5, CHR 0xB7, CHR 0xB2, CHR 0xE5, CHR 0xBC, CHR 0x80, CHR 0xE5, CHR 0xA7, CHR 0x8B], ev_done = False\<rparr>"

definition failed_event :: "string \<Rightarrow> progress_event" where
  "failed_event msg = \<lparr>ev_step = ''failed'', ev_label = [CHR 0xE5, CHR 0xA4, CHR 0xB1, CHR 0xE8, CHR 0xB4, CHR 0xA5], ev_status = ProgressFailed,
     ev_message = msg, ev_done = True\<rparr>"

definition done_event :: progress_event where
  "done_event = \<lparr>ev_step = ''done'', ev_label = [CHR 0xE5, CHR 0xAE, CHR 0x8C, CHR 0xE6, CHR 0x88, CHR 0x90], ev_status = ProgressSuccess,
     ev_message = [CHR 0xE4, CHR 0xBB, CHR 0xBB, CHR 0xE5, CHR 0x8A, CHR 0xA1, CHR 0xE5, CHR 0xB7, CHR 0xB2, CHR 0xE5, CHR 0xAE, CHR 0x8C, CHR 0xE6, CHR 0x88, CHR 0x90], ev_done = True\<rparr>"

definition new_job :: "string \<Rightarrow> string list \<Rightarrow> job" where
  "new_job jobID secrets = \<lparr>job_id = jobID, job_status = ProgressRunning, job_events = [],
     job_secrets = secrets, job_done = False, job_subscribers = [], job_chans = []\<rparr>"

text \<open>\<open>Start\<close>, up to launching the goroutine: the new job is registered and gets its first event.\<close>

definition manager_start :: "job_manager \<Rightarrow> string list \<Rightarrow> nat list option \<Rightarrow> string \<times> job_manager option" where
  "manager_start m secrets rnd =
     (let jobID = random_job_id rnd
      in (jobID, map_option (\<lambda>j. m(jobID \<mapsto> j)) (job_add (new_job jobID secrets) start_event)))"

text \<open>
  The goroutine launched by \<open>Start\<close>: it runs the operation, which may emit any events; then it sets
  the status, adds the final event, clears the secrets and closes \<open>done\<close> (the two deferred calls
  run last-in first-out).  Every call of a method of \<open>Job\<close> is one atomic step under the job's mutex;
  subscribers and readers act in between.
\<close>

datatype job_pc = OpRunning | StatusSet progress_event | FinalAdded | SecretsCleared | DoneClosed

type_synonym job_run = "job_pc \<times> job"

inductive job_step :: "job_run \<Rightarrow> job_run \<Rightarrow> bool" where
  emit: "job_add j e = Some j' \<Longrightarrow> job_step (OpRunning, j) (OpRunning, j')"
| fails: "job_step (OpRunning, j) (StatusSet (failed_event msg), job_set_status j ProgressFailed)"
| succeeds: "job_step (OpRunning, j) (StatusSet done_event, job_set_status j ProgressSuccess)"
| final: "job_add j e = Some j' \<Longrightarrow> job_step (StatusSet e, j) (FinalAdded, j')"
| clear: "job_step (FinalAdded, j) (SecretsCleared, job_clear_secrets j)"
| close: "job_step (SecretsCleared, j) (DoneClosed, j\<lparr>job_done := True\<rparr>)"
| subscribe: "job_subscribe j = (h, i, j') \<Longrightarrow> job_step (pc, j) (pc, j')"
| receive: "i < length (job_chans j) \<Longrightarrow> ch_buf (job_chans j ! i) = e # es \<Longrightarrow>
    job_step (pc, j) (pc, j\<lparr>job_chans := (job_chans j)[i := (job_chans j ! i)\<lparr>ch_buf := es\<rparr>]\<rparr>)"

inductive job_reachable :: "string \<Rightarrow> string list \<Rightarrow> job_run \<Rightarrow> bool" for jobID secrets where
  start: "job_add (new_job jobID secrets) start_event = Some j \<Longrightarrow> job_reachable jobID secrets (OpRunning, j)"
| step: "job_reachable jobID secrets r \<Longrightarrow> job_step r r' \<Longrightarrow> job_reachable jobID secrets r'"

section \<open>Redaction\<close>

text \<open>An occurrence of a text without a given character lies on one side of that character.\<close>

lemma sublist_around:
  assumes "c \<notin> set s" "sublist s (xs @ c # ys)"
  shows "sublist s xs \<or> sublist s ys"
proof -
  from assms(2) obtain ps ss where eq: "xs @ c # ys = ps @ s @ ss" by (auto simp: sublist_def)
  then obtain us where "(xs = ps @ us \<and> us @ c # ys = s @ ss) \<or> (xs @ us = ps \<and> c # ys = us @ s @ ss)"
    by (auto simp: append_eq_append_conv2)
  then show ?thesis
  proof
    assume a: "xs = ps @ us \<and> us @ c # ys = s @ ss"
    then obtain vs where "us = s @ vs \<or> us @ vs = s \<and> c # ys = vs @ ss"
      by (auto simp: append_eq_append_conv2)
    then show ?thesis
    proof
      assume "us = s @ vs"
      with a show ?thesis by (auto simp: sublist_def)
    next
      assume "us @ vs = s \<and> c # ys = vs @ ss"
      with assms(1) have "vs = []" by (cases vs) auto
      with \<open>us @ vs = s \<and> _\<close> a have "xs = ps @ s @ []" by simp
      then show ?thesis unfolding sublist_def by blast
    qed
  next
    assume "xs @ us = ps \<and> c # ys = us @ s @ ss"
    with assms(1) show ?thesis
      by (cases us; cases s) (auto simp: sublist_def)
  qed
qed

definition redactable :: "string \<Rightarrow> bool" where
  "redactable s \<longleftrightarrow> s \<noteq> [] \<and> CHR 0x5B \<notin> set s \<and> CHR 0x5D \<notin> set s \<and> \<not> sublist s ''redacted''"

lemma redacted_brackets: "redacted = CHR 0x5B # ''redacted'' @ [CHR 0x5D]"
  by (simp add: redacted_def)

lemma sublist_around_redacted:
  assumes "redactable s" "sublist s (xs @ redacted @ ys)"
  shows "sublist s xs \<or> sublist s ys"
proof -
  from assms(2) have "sublist s (xs @ CHR 0x5B # (''redacted'' @ CHR 0x5D # ys))"
    by (simp add: redacted_brackets)
  with assms(1) show ?thesis
    unfolding redactable_def by (blast dest: sublist_around)
qed

lemma replace_all_preserves_absence:
  assumes s: "redactable s"
  shows "sublist s (p @ replace_all old redacted m) \<Longrightarrow> sublist s (p @ m)"
proof (induction m arbitrary: p rule: length_induct)
  case (1 m)
  note IH = "1.IH" [rule_format] and prem = "1.prems"
  show ?case
  proof (cases m)
    case Nil
    with prem show ?thesis by simp
  next
    case (Cons c cs)
    show ?thesis
    proof (cases "old \<noteq> [] \<and> prefix old m")
      case True
      with prem have "sublist s p \<or> sublist s (replace_all old redacted (drop (length old) m))"
        by (intro sublist_around_redacted [OF s]) (simp add: replace_all.simps(2) Cons)
      moreover have "length (drop (length old) m) < length m" using True Cons by simp
      ultimately have "sublist s p \<or> sublist s (drop (length old) m)"
        using IH [of _ "[]"] by fastforce
      moreover have "sublist p (p @ m)" "sublist (drop (length old) m) (p @ m)"
        by (auto intro: sublist_order.order_trans)
      ultimately show ?thesis by (meson sublist_order.order_trans)
    next
      case False
      then have "sublist s ((p @ [c]) @ replace_all old redacted cs)"
        using prem by (auto simp: replace_all.simps(2) Cons)
      from IH [OF _ this] Cons show ?thesis by simp
    qed
  qed
qed

lemma replace_all_removes:
  assumes s: "redactable s"
  shows "sublist s (p @ replace_all s redacted m) \<Longrightarrow> \<exists>i<length p. prefix s (drop i (p @ m))"
proof (induction m arbitrary: p rule: length_induct)
  case (1 m)
  note IH = "1.IH" [rule_format] and prem = "1.prems"
  have ne: "s \<noteq> []" using s by (simp add: redactable_def)
  have inside: "\<exists>i<length p. prefix s (drop i (p @ m))" if "sublist s p"
  proof -
    from that obtain ps ss where "p = ps @ s @ ss" by (auto simp: sublist_def)
    with ne show ?thesis by (intro exI [of _ "length ps"]) simp
  qed
  show ?case
  proof (cases m)
    case Nil
    with prem inside show ?thesis by simp
  next
    case (Cons c cs)
    show ?thesis
    proof (cases "prefix s m")
      case True
      with prem ne have "sublist s p \<or> sublist s (replace_all s redacted (drop (length s) m))"
        by (intro sublist_around_redacted [OF s]) (simp add: replace_all.simps(2) Cons)
      moreover have "length (drop (length s) m) < length m" using ne Cons by simp
      ultimately show ?thesis using IH [of _ "[]"] inside by fastforce
    next
      case False
      then have "sublist s ((p @ [c]) @ replace_all s redacted cs)"
        using prem by (auto simp: replace_all.simps(2) Cons)
      from IH [OF _ this] Cons obtain i where i: "i < length (p @ [c])" "prefix s (drop i (p @ m))"
        by auto
      with False have "i \<noteq> length p" by auto
      with i show ?thesis by (intro exI [of _ i]) simp
    qed
  qed
qed

lemma sanitize_preserves_absence:
  "redactable s \<Longrightarrow> \<not> sublist s m \<Longrightarrow> \<not> sublist s (sanitize_progress_message m ss)"
proof (induction ss arbitrary: m)
  case (Cons t ss)
  have "\<not> sublist s (replace_all t redacted m)"
    using replace_all_preserves_absence [OF Cons.prems(1), of "[]" t m] Cons.prems(2) by auto
  with Cons show ?case by simp
qed simp

lemma sanitize_removes:
  "redactable s \<Longrightarrow> s \<in> set ss \<Longrightarrow> \<not> sublist s (sanitize_progress_message m ss)"
proof (induction ss arbitrary: m)
  case (Cons t ss)
  show ?case
  proof (cases "t = s")
    case True
    then have "\<not> sublist s (replace_all s redacted m)"
      using replace_all_removes [of s "[]" m] Cons.prems(1) by auto
    from sanitize_preserves_absence [OF Cons.prems(1) this] True Cons.prems(1) show ?thesis
      by (simp add: redactable_def)
  next
    case False
    with Cons show ?thesis by simp
  qed
qed simp

section \<open>Invariant of a job\<close>

definition subs_ok :: "job \<Rightarrow> bool" where
  "subs_ok j \<longleftrightarrow> distinct (job_subscribers j)
     \<and> (\<forall>i\<in>set (job_subscribers j). i < length (job_chans j))
     \<and> (\<forall>i<length (job_chans j). ch_closed (job_chans j ! i) \<longleftrightarrow> i \<notin> set (job_subscribers j))
     \<and> (\<forall>i<length (job_chans j). subseq (ch_buf (job_chans j ! i)) (job_events j))"

lemma chan_offer_simps [simp]:
  "ch_closed (chan_offer e c) = ch_closed c"
  "ch_buf (chan_offer e c) = (if length (ch_buf c) < updates_capacity then ch_buf c @ [e] else ch_buf c)"
  by (simp_all add: chan_offer_def)

lemma send_all_ok:
  assumes "\<forall>i\<in>set is. i < length cs \<and> \<not> ch_closed (cs ! i)" "distinct is"
  shows "\<exists>cs'. send_all is e cs = Some cs' \<and> length cs' = length cs
    \<and> (\<forall>i. cs' ! i = (if i \<in> set is then chan_offer e (cs ! i) else cs ! i))"
  using assms
proof (induction "is" arbitrary: cs)
  case (Cons k ks)
  let ?cs = "cs[k := chan_offer e (cs ! k)]"
  have k: "k < length cs" "\<not> ch_closed (cs ! k)" "k \<notin> set ks" using Cons.prems by auto
  have "\<forall>i\<in>set ks. i < length ?cs \<and> \<not> ch_closed (?cs ! i)"
    using Cons.prems by (simp add: nth_list_update)
  from Cons.IH [OF this] Cons.prems obtain cs' where
    "send_all ks e ?cs = Some cs'" "length cs' = length cs"
    "\<forall>i. cs' ! i = (if i \<in> set ks then chan_offer e (?cs ! i) else ?cs ! i)" by auto
  moreover from this(3) k have "\<forall>i. cs' ! i = (if i \<in> set (k # ks) then chan_offer e (cs ! i) else cs ! i)"
    by (auto simp: nth_list_update)
  ultimately show ?case using k by simp
qed simp

lemma close_all_ok:
  assumes "\<forall>i\<in>set is. i < length cs \<and> \<not> ch_closed (cs ! i)" "distinct is"
  shows "\<exists>cs'. close_all is cs = Some cs' \<and> length cs' = length cs
    \<and> (\<forall>i. cs' ! i = (if i \<in> set is then (cs ! i)\<lparr>ch_closed := True\<rparr> else cs ! i))"
  using assms
proof (induction "is" arbitrary: cs)
  case (Cons k ks)
  let ?cs = "cs[k := (cs ! k)\<lparr>ch_closed := True\<rparr>]"
  have k: "k < length cs" "\<not> ch_closed (cs ! k)" "k \<notin> set ks" using Cons.prems by auto
  have "\<forall>i\<in>set ks. i < length ?cs \<and> \<not> ch_closed (?cs ! i)"
    using Cons.prems k(3) by (auto simp: nth_list_update)
  from Cons.IH [OF this] Cons.prems obtain cs' where
    "close_all ks ?cs = Some cs'" "length cs' = length cs"
    "\<forall>i. cs' ! i = (if i \<in> set ks then (?cs ! i)\<lparr>ch_closed := True\<rparr> else ?cs ! i)" by auto
  moreover from this(3) k have "\<forall>i. cs' ! i = (if i \<in> set (k # ks) then (cs ! i)\<lparr>ch_closed := True\<rparr> else cs ! i)"
    by (auto simp: nth_list_update)
  ultimately show ?case using k by simp
qed simp

definition sanitized :: "job \<Rightarrow> progress_event \<Rightarrow> progress_event" where
  "sanitized j e = e\<lparr>ev_message := sanitize_progress_message (ev_message e) (job_secrets j)\<rparr>"

text \<open>Adding an event to a job whose subscriptions are in order: no panic, and what changes.\<close>

lemma job_add_ok:
  assumes "subs_ok j"
  shows "\<exists>j'. job_add j e = Some j' \<and> subs_ok j' \<and> job_events j' = job_events j @ [sanitized j e]
    \<and> job_status j' = job_status j \<and> job_secrets j' = job_secrets j \<and> job_done j' = job_done j
    \<and> job_subscribers j' = (if ev_done e then [] else job_subscribers j)"
proof -
  let ?e = "sanitized j e" and ?is = "job_subscribers j" and ?cs = "job_chans j"
  have open_subs: "\<forall>i\<in>set ?is. i < length ?cs \<and> \<not> ch_closed (?cs ! i)" and d: "distinct ?is"
    using assms by (auto simp: subs_ok_def)
  from send_all_ok [OF open_subs d, of ?e] obtain cs where cs: "send_all ?is ?e ?cs = Some cs"
    "length cs = length ?cs" "\<And>i. cs ! i = (if i \<in> set ?is then chan_offer ?e (?cs ! i) else ?cs ! i)"
    by auto
  have "\<forall>i\<in>set ?is. i < length cs \<and> \<not> ch_closed (cs ! i)" using open_subs cs(2,3) by simp
  from close_all_ok [OF this d] obtain cs' where cs': "close_all ?is cs = Some cs'" "length cs' = length cs"
    "\<And>i. cs' ! i = (if i \<in> set ?is then (cs ! i)\<lparr>ch_closed := True\<rparr> else cs ! i)"
    by auto
  have "subseq (ch_buf (?cs ! i)) (job_events j)" if "i < length ?cs" for i
    using assms that by (simp add: subs_ok_def)
  then have sub: "subseq (ch_buf (cs ! i)) (job_events j @ [?e])" if "i < length ?cs" for i
    using that by (simp add: cs(3) list_emb_prefix)
  then have bufs: "\<forall>i<length cs. subseq (ch_buf (cs ! i)) (job_events j @ [?e])" by (simp add: cs(2))
  have "\<forall>i<length cs. ch_closed (cs ! i) \<longleftrightarrow> i \<notin> set ?is"
    using assms by (simp add: subs_ok_def cs(2,3))
  with bufs assms have "subs_ok (j\<lparr>job_events := job_events j @ [?e], job_chans := cs\<rparr>)"
    by (simp add: subs_ok_def cs(2))
  moreover have "\<forall>i<length cs'. subseq (ch_buf (cs' ! i)) (job_events j @ [?e])"
    using bufs by (simp add: cs'(2,3) cs(2))
  moreover have "\<forall>i<length cs'. ch_closed (cs' ! i)"
    using assms by (simp add: subs_ok_def cs(2,3) cs'(2,3))
  ultimately have "subs_ok (j\<lparr>job_events := job_events j @ [?e], job_chans := cs\<rparr>)"
    "subs_ok (j\<lparr>job_events := job_events j @ [?e], job_chans := cs', job_subscribers := []\<rparr>)"
    by (simp_all add: subs_ok_def)
  moreover have "e\<lparr>ev_message := sanitize_progress_message (ev_message e) (job_secrets j)\<rparr> = ?e"
    "ev_done ?e = ev_done e" by (simp_all add: sanitized_def)
  ultimately show ?thesis
    by (cases "ev_done e") (simp_all add: job_add_def cs(1) cs'(1))
qed

lemma job_subscribe_ok:
  assumes "subs_ok j" "job_subscribe j = (h, i, j')"
  shows "subs_ok j' \<and> job_events j' = job_events j \<and> job_status j' = job_status j
    \<and> job_secrets j' = job_secrets j \<and> job_done j' = job_done j
    \<and> (job_status j \<notin> {ProgressRunning, ProgressPending} \<longrightarrow> job_subscribers j' = job_subscribers j)"
proof -
  let ?live = "job_status j = ProgressRunning \<or> job_status j = ProgressPending"
  let ?i = "length (job_chans j)"
  let ?chans = "job_chans j @ [\<lparr>ch_buf = [], ch_closed = \<not> ?live\<rparr>]"
  from assms(2) have j': "j' = j\<lparr>job_chans := ?chans,
      job_subscribers := (if ?live then job_subscribers j @ [?i] else job_subscribers j)\<rparr>"
    by (simp add: job_subscribe_def Let_def)
  have "?i \<notin> set (job_subscribers j)" using assms(1) by (auto simp: subs_ok_def)
  then have "subs_ok j'"
    using assms(1) unfolding subs_ok_def j'
    by (simp add: nth_append All_less_Suc2 less_Suc_eq)
  then show ?thesis by (simp add: j')
qed

lemma job_receive_ok:
  assumes "subs_ok j" "i < length (job_chans j)" "ch_buf (job_chans j ! i) = e # es"
  shows "subs_ok (j\<lparr>job_chans := (job_chans j)[i := (job_chans j ! i)\<lparr>ch_buf := es\<rparr>]\<rparr>)"
proof -
  have "subseq (e # es) (job_events j)" using assms by (force simp: subs_ok_def)
  then have "subseq es (job_events j)" by (rule subseq_Cons')
  with assms show ?thesis by (simp add: subs_ok_def nth_list_update)
qed

definition job_run_ok :: "string list \<Rightarrow> job_run \<Rightarrow> bool" where
  "job_run_ok secrets r \<longleftrightarrow> subs_ok (snd r)
     \<and> (\<forall>e\<in>set (job_events (snd r)). \<forall>s\<in>set secrets. redactable s \<longrightarrow> \<not> sublist s (ev_message e))
     \<and> (case fst r of
          OpRunning \<Rightarrow> job_status (snd r) = ProgressRunning \<and> job_secrets (snd r) = secrets
        | StatusSet e \<Rightarrow> job_status (snd r) \<in> {ProgressSuccess, ProgressFailed} \<and> job_secrets (snd r) = secrets \<and> ev_done e
        | pc \<Rightarrow> job_status (snd r) \<in> {ProgressSuccess, ProgressFailed} \<and> job_subscribers (snd r) = []
             \<and> (\<exists>e\<in>set (job_events (snd r)). ev_done e)
             \<and> (pc = FinalAdded \<longrightarrow> job_secrets (snd r) = secrets)
             \<and> (pc \<noteq> FinalAdded \<longrightarrow> job_secrets (snd r) = [])
             \<and> (pc = DoneClosed \<longrightarrow> job_done (snd r)))"

lemma subs_ok_frame [simp]:
  "subs_ok (job_set_status j st) = subs_ok j" "subs_ok (job_clear_secrets j) = subs_ok j"
  "subs_ok (j\<lparr>job_done := b\<rparr>) = subs_ok j" "subs_ok (j\<lparr>job_status := st\<rparr>) = subs_ok j"
  "subs_ok (j\<lparr>job_secrets := ss\<rparr>) = subs_ok j"
  by (simp_all add: subs_ok_def job_set_status_def job_clear_secrets_def)

lemma sanitized_safe:
  "s \<in> set (job_secrets j) \<Longrightarrow> redactable s \<Longrightarrow> \<not> sublist s (ev_message (sanitized j e))"
  by (simp add: sanitized_def sanitize_removes)

lemma run_ok_step: "job_step r r' \<Longrightarrow> job_run_ok secrets r \<Longrightarrow> job_run_ok secrets r'"
proof (induction rule: job_step.induct)
  case (emit j e j')
  then show ?case
    using job_add_ok [of j e] sanitized_safe [of _ j e] by (auto simp: job_run_ok_def)
next
  case (final j e j')
  then show ?case
    using job_add_ok [of j e] sanitized_safe [of _ j e] by (auto simp: job_run_ok_def sanitized_def)
next
  case (subscribe j h i j' pc)
  with job_subscribe_ok [of j h i j'] show ?case
    by (cases pc) (auto simp: job_run_ok_def)
next
  case (receive i j e es pc)
  with job_receive_ok [of j i e es] show ?case
    by (cases pc) (auto simp: job_run_ok_def)
qed (auto simp: job_run_ok_def job_set_status_def job_clear_secrets_def failed_event_def done_event_def)

lemma subs_ok_new: "subs_ok (new_job jobID secrets)"
  by (simp add: subs_ok_def new_job_def)

lemma run_ok_reachable: "job_reachable jobID secrets r \<Longrightarrow> job_run_ok secrets r"
proof (induction rule: job_reachable.induct)
  case (start j)
  with job_add_ok [OF subs_ok_new, of jobID secrets start_event] sanitized_safe [of _ "new_job jobID secrets" start_event]
  show ?case by (auto simp: job_run_ok_def new_job_def)
next
  case (step r r')
  then show ?case by (blast intro: run_ok_step)
qed

section \<open>Properties\<close>

text \<open>A validated SSH request names a host, a port between 1 and 65535, the user root and a
  complete credential; fields are trimmed and a missing port has become 22; validating it
  again accepts it unchanged.\<close>

theorem validate_ssh_request_ok:
  assumes "validate_ssh_request r = (None, r')"
  shows "ssh_host r' \<noteq> [] \<and> 1 \<le> ssh_port r' \<and> ssh_port r' \<le> 65535 \<and> ssh_username r' = ''root''
    \<and> (ssh_auth_type r' = ''password'' \<and> ssh_password r' \<noteq> []
       \<or> ssh_auth_type r' = ''private_key'' \<and> trim_space (ssh_private_key r') \<noteq> [])
    \<and> (ssh_port r = 0 \<longrightarrow> ssh_port r' = 22)
    \<and> validate_ssh_request r' = (None, r')"
proof -
  let ?r = "r\<lparr>ssh_host := trim_space (ssh_host r), ssh_port := (if ssh_port r = 0 then 22 else ssh_port r),
      ssh_username := trim_space (ssh_username r), ssh_auth_type := trim_space (ssh_auth_type r)\<rparr>"
  have r': "r' = ?r" using assms
    by (cases r) (simp add: validate_ssh_request_def Let_def split: if_split_asm)
  have ok: "ssh_host ?r \<noteq> [] \<and> 1 \<le> ssh_port ?r \<and> ssh_port ?r \<le> 65535 \<and> ssh_username ?r = ''root''
    \<and> (ssh_auth_type ?r = ''password'' \<and> ssh_password ?r \<noteq> []
       \<or> ssh_auth_type ?r = ''private_key'' \<and> trim_space (ssh_private_key ?r) \<noteq> [])"
    using assms by (simp add: validate_ssh_request_def Let_def split: if_split_asm)
  moreover have "trim_space ''root'' = ''root''" by (simp add: eval_text)
  ultimately have "validate_ssh_request ?r = (None, ?r)"
    by (auto simp: validate_ssh_request_def Let_def)
  with ok show ?thesis unfolding r' by simp
qed

theorem validate_ssh_request_ok_witness:
  "ssh_port (snd (validate_ssh_request \<lparr>ssh_host = '' h'', ssh_port = 0, ssh_username = ''root'',
      ssh_auth_type = ''password'', ssh_password = ''x'', ssh_private_key = [], ssh_passphrase = []\<rparr>)) = 22"
proof -
  let ?r = "\<lparr>ssh_host = '' h'', ssh_port = 0, ssh_username = ''root'',
      ssh_auth_type = ''password'', ssh_password = ''x'', ssh_private_key = [], ssh_passphrase = []\<rparr>"
  have "fst (validate_ssh_request ?r) = None"
    by (simp add: validate_ssh_request_def Let_def eval_text)
  then have "validate_ssh_request ?r = (None, snd (validate_ssh_request ?r))"
    by (metis prod.collapse)
  from validate_ssh_request_ok [OF this] show ?thesis by simp
qed

text \<open>C10: Whatever the operation of a job reports and whoever subscribes when, the message of no event that the job ever
  records contains a secret of the job that is not empty, has no square bracket and is not part of the word
  \<^verbatim>\<open>redacted\<close>.  (The step and the label of an event are stored as they are reported.)
\<close>

theorem job_events_hide_secrets:
  assumes "job_reachable jobID secrets (pc, j)" and "e \<in> set (job_events j)"
    and "s \<in> set secrets" and "redactable s"
  shows "\<not> contains (ev_message e) s"
  using run_ok_reachable [OF assms(1)] assms(2-4) by (auto simp: job_run_ok_def contains_def)

theorem job_events_hide_secrets_witness:
  "\<not> contains (sanitize_progress_message ''pw hunter2!'' [''hunter2'']) ''hunter2''"
proof -
  let ?n = "new_job ''j'' [''hunter2'']"
  let ?e = "\<lparr>ev_step = ''s'', ev_label = ''l'', ev_status = ProgressRunning, ev_message = ''pw hunter2!'', ev_done = False\<rparr>"
  obtain j0 where j0: "job_add ?n start_event = Some j0" "subs_ok j0" "job_secrets j0 = [''hunter2'']"
    using job_add_ok [OF subs_ok_new, of "''j''" "[''hunter2'']" start_event] by (auto simp: new_job_def)
  obtain j1 where j1: "job_add j0 ?e = Some j1" "job_events j1 = job_events j0 @ [sanitized j0 ?e]"
    using job_add_ok [OF j0(2), of ?e] by blast
  have r: "job_reachable ''j'' [''hunter2''] (OpRunning, j1)"
    by (rule job_reachable.step [OF job_reachable.start [OF j0(1)]]) (rule job_step.emit [OF j1(1)])
  have "redactable ''hunter2''"
    by (simp add: redactable_def sublist_Cons_right prefix_def)
  from job_events_hide_secrets [OF r _ _ this, of "sanitized j0 ?e"] show ?thesis
    by (simp add: j1 j0 sanitized_def)
qed

text \<open>No interleaving of a job's goroutine with its subscribers and readers makes \<open>add\<close> panic:
  it never sends on a closed channel and never closes one twice.\<close>

theorem job_add_never_panics:
  assumes "job_reachable jobID secrets (pc, j)"
  shows "\<exists>j'. job_add j e = Some j'"
  using run_ok_reachable [OF assms] job_add_ok [of j e] by (auto simp: job_run_ok_def)

theorem job_add_never_panics_witness:
  "\<exists>j'. job_add (the (job_add (new_job ''j'' []) start_event)) done_event = Some j'"
proof -
  have "job_add (new_job ''j'' []) start_event = Some (the (job_add (new_job ''j'' []) start_event))"
    using job_add_ok [OF subs_ok_new, of "''j''" "[]" start_event] by auto
  from job_add_never_panics [OF job_reachable.start [OF this]] show ?thesis by blast
qed

text \<open>When a job's \<open>done\<close> channel is closed, the job has succeeded or failed, an event marked done
  is in its history, its secrets are erased, nobody is subscribed any more and every channel
  ever handed to a subscriber is closed.\<close>

theorem job_done_final:
  assumes "job_reachable jobID secrets (DoneClosed, j)"
  shows "job_done j \<and> job_status j \<in> {ProgressSuccess, ProgressFailed} \<and> job_secrets j = []
    \<and> (\<exists>e\<in>set (job_events j). ev_done e) \<and> job_subscribers j = []
    \<and> (\<forall>i<length (job_chans j). ch_closed (job_chans j ! i))"
  using run_ok_reachable [OF assms] by (auto simp: job_run_ok_def subs_ok_def)

text \<open>A run of a job to its end, for the witness and for the theorem after it.\<close>

definition job_succeeded :: "string \<Rightarrow> string list \<Rightarrow> job" where
  "job_succeeded jobID secrets =
     job_set_status (the (job_add (new_job jobID secrets) start_event)) ProgressSuccess"

lemma job_succeeded_reachable:
  "job_reachable jobID secrets (StatusSet done_event, job_succeeded jobID secrets)"
proof -
  have "job_add (new_job jobID secrets) start_event = Some (the (job_add (new_job jobID secrets) start_event))"
    using job_add_ok [OF subs_ok_new, of jobID secrets start_event] by auto
  from job_reachable.step [OF job_reachable.start [OF this] job_step.succeeds]
  show ?thesis by (simp add: job_succeeded_def)
qed

theorem job_done_final_witness:
  "\<exists>j. job_reachable ''j'' [] (DoneClosed, j) \<and> job_done j \<and> job_status j \<in> {ProgressSuccess, ProgressFailed}"
proof -
  have "subs_ok (job_succeeded ''j'' [])"
    using run_ok_reachable [OF job_succeeded_reachable] by (auto simp: job_run_ok_def)
  then obtain j where j: "job_add (job_succeeded ''j'' []) done_event = Some j"
    using job_add_ok by blast
  have r: "job_reachable ''j'' [] (DoneClosed, (job_clear_secrets j)\<lparr>job_done := True\<rparr>)"
    by (rule job_reachable.step [OF job_reachable.step [OF job_reachable.step
        [OF job_succeeded_reachable job_step.final [OF j]] job_step.clear] job_step.close])
  with job_done_final [OF r] show ?thesis by blast
qed

text \<open>A channel that has no subscription is left alone by \<open>add\<close>.\<close>

lemma job_add_unsubscribed:
  assumes "subs_ok j" "job_add j e = Some j'" "i \<notin> set (job_subscribers j)"
  shows "job_chans j' ! i = job_chans j ! i \<and> length (job_chans j') = length (job_chans j)"
proof -
  let ?e = "sanitized j e" and ?is = "job_subscribers j" and ?cs = "job_chans j"
  have e: "e\<lparr>ev_message := sanitize_progress_message (ev_message e) (job_secrets j)\<rparr> = ?e" by (simp add: sanitized_def)
  have open_subs: "\<forall>i\<in>set ?is. i < length ?cs \<and> \<not> ch_closed (?cs ! i)" and d: "distinct ?is"
    using assms(1) by (auto simp: subs_ok_def)
  from send_all_ok [OF open_subs d, of ?e] obtain cs where cs: "send_all ?is ?e ?cs = Some cs"
    "length cs = length ?cs" "\<And>i. cs ! i = (if i \<in> set ?is then chan_offer ?e (?cs ! i) else ?cs ! i)" by auto
  have "\<forall>i\<in>set ?is. i < length cs \<and> \<not> ch_closed (cs ! i)" using open_subs cs(2,3) by simp
  from close_all_ok [OF this d] obtain cs' where cs': "close_all ?is cs = Some cs'" "length cs' = length cs"
    "\<And>i. cs' ! i = (if i \<in> set ?is then (cs ! i)\<lparr>ch_closed := True\<rparr> else cs ! i)" by auto
  have "job_chans j' = cs \<or> job_chans j' = cs'" using assms(2) by (auto simp: job_add_def Let_def e cs(1) cs'(1) split: if_splits)
  then show ?thesis using cs cs' assms(3) by auto
qed

text \<open>The channel of a subscription made in state \<open>j\<close>, in a later state, when the last event is \<open>e\<close>.\<close>

definition cut_off :: "progress_event \<Rightarrow> job \<Rightarrow> nat \<Rightarrow> job_run \<Rightarrow> bool" where
  "cut_off e j i r \<longleftrightarrow> subs_ok (snd r) \<and> job_status (snd r) \<notin> {ProgressRunning, ProgressPending}
     \<and> i < length (job_chans (snd r)) \<and> job_chans (snd r) ! i = \<lparr>ch_buf = [], ch_closed = True\<rparr> \<and> i \<notin> set (job_subscribers (snd r))
     \<and> (fst r = StatusSet e \<and> job_secrets (snd r) = job_secrets j \<and> job_events (snd r) = job_events j
        \<or> fst r \<in> {FinalAdded, SecretsCleared, DoneClosed} \<and> job_events (snd r) = job_events j @ [sanitized j e])"

lemma cut_off_step: "job_step r r' \<Longrightarrow> cut_off e j i r \<Longrightarrow> cut_off e j i r'"
proof (induction rule: job_step.induct)
  case (final j0 e0 j1)
  then show ?case using job_add_ok [of j0 e0] job_add_unsubscribed [of j0 e0 j1 i] by (auto simp: cut_off_def sanitized_def)
next
  case (subscribe j0 h k j1 pc)
  then have "subs_ok j1 \<and> job_events j1 = job_events j0 \<and> job_status j1 = job_status j0 \<and> job_secrets j1 = job_secrets j0
      \<and> job_subscribers j1 = job_subscribers j0"
    using job_subscribe_ok [of j0 h k j1] by (auto simp: cut_off_def)
  moreover obtain c where "job_chans j1 = job_chans j0 @ [c]" using subscribe.hyps by (auto simp: job_subscribe_def Let_def)
  ultimately show ?case using subscribe.prems by (auto simp: cut_off_def nth_append)
next
  case (receive k j0 e0 es pc)
  then have "k \<noteq> i" by (auto simp: cut_off_def)
  then show ?case using receive job_receive_ok [of j0 k e0 es] by (auto simp: cut_off_def)
qed (auto simp: cut_off_def job_set_status_def job_clear_secrets_def)

text \<open>C34: Whoever subscribes after the status of a job has become final and before its final event is added never sees the
  job finish: the history handed out is the one without the final event, the channel is closed and empty at once and
  in every later state, and the final event is still added to the job, after that history.
\<close>

theorem late_subscriber_misses_end:
  assumes "job_reachable jobID secrets (StatusSet e, j)" "job_subscribe j = (h, i, j')" "job_step\<^sup>*\<^sup>* (StatusSet e, j') (pc, j2)"
  shows "ev_done e \<and> i < length (job_chans j2) \<and> job_chans j2 ! i = \<lparr>ch_buf = [], ch_closed = True\<rparr>
    \<and> job_events j2 = (if pc = StatusSet e then h else h @ [sanitized j e])"
proof -
  have ok: "subs_ok j" "job_status j \<notin> {ProgressRunning, ProgressPending}" "ev_done e"
    using run_ok_reachable [OF assms(1)] by (auto simp: job_run_ok_def)
  have i: "i = length (job_chans j)" "h = job_events j" "job_chans j' = job_chans j @ [\<lparr>ch_buf = [], ch_closed = True\<rparr>]" "job_subscribers j' = job_subscribers j"
    using assms(2) ok(2) by (auto simp: job_subscribe_def Let_def)
  have "i \<notin> set (job_subscribers j)" using ok(1) i(1) by (auto simp: subs_ok_def)
  then have start: "cut_off e j i (StatusSet e, j')"
    using job_subscribe_ok [OF ok(1) assms(2)] ok(2) i by (simp add: cut_off_def)
  have "cut_off e j i (pc, j2)" using assms(3) start by (induction rule: rtranclp_induct) (auto intro: cut_off_step)
  then show ?thesis using ok(3) i(2) by (auto simp: cut_off_def)
qed

theorem late_subscriber_misses_end_witness:
  "\<exists>h i j' j2. job_subscribe (job_succeeded ''j'' []) = (h, i, j') \<and> job_step\<^sup>*\<^sup>* (StatusSet done_event, j') (FinalAdded, j2)
     \<and> job_chans j2 ! i = \<lparr>ch_buf = [], ch_closed = True\<rparr> \<and> length (job_events j2) = Suc (length h)"
proof -
  obtain h i j' where s: "job_subscribe (job_succeeded ''j'' []) = (h, i, j')" by (metis prod_cases3)
  have "subs_ok (job_succeeded ''j'' [])" using run_ok_reachable [OF job_succeeded_reachable] by (auto simp: job_run_ok_def)
  then have "subs_ok j'" using job_subscribe_ok s by blast
  then obtain j2 where "job_add j' done_event = Some j2" using job_add_ok by blast
  then have r: "job_step\<^sup>*\<^sup>* (StatusSet done_event, j') (FinalAdded, j2)" using job_step.final by blast
  from late_subscriber_misses_end [OF job_succeeded_reachable s r] s r show ?thesis by auto
qed

text \<open>A secret with a bracket can come back through the replacement text itself.\<close>

lemma redaction_can_restore_secret: "contains (sanitize_progress_message ''xa'' [''x['', ''a'']) ''x[''"
  by (simp add: contains_def redacted_def replace_all.simps(2) sublist_Cons_right)

end
