(* ===== verification/Slots.thy ===== *)
theory Slots
  imports Prelude
begin

text \<open>
  The two concurrency devices the server's engines share: a buffered channel of empty structs used
  as a counting semaphore, and a mutex-protected set of keys in progress.  Each is stated as an
  interface with its laws, and the consequences the engines rely on are proved from the laws.
\<close>

section \<open>Counting slots\<close>

locale slot_pool =
  fixes acquire :: "'s \<Rightarrow> 's option"
    and release :: "'s \<Rightarrow> 's option"
    and held :: "'s \<Rightarrow> nat"
    and capacity :: "'s \<Rightarrow> nat"
  assumes acquire_Some: "acquire s = Some s' \<Longrightarrow> held s < capacity s \<and> held s' = Suc (held s) \<and> capacity s' = capacity s"
    and acquire_None: "acquire s = None \<Longrightarrow> capacity s \<le> held s"
    and release_Some: "release s = Some s' \<Longrightarrow> held s = Suc (held s') \<and> capacity s' = capacity s"
    and release_None: "release s = None \<Longrightarrow> held s = 0"
begin

lemma acquire_possible: "held s < capacity s \<Longrightarrow> \<exists>s'. acquire s = Some s'"
  using acquire_None [of s] by (cases "acquire s") auto

lemma release_possible: "0 < held s \<Longrightarrow> \<exists>s'. release s = Some s'"
  using release_None by (cases "release s") auto

lemma acquire_bounded: "acquire s = Some s' \<Longrightarrow> held s' \<le> capacity s'"
  using acquire_Some by fastforce

text \<open>The slots follow a sequence of acquisitions (\<open>True\<close>) and releases (\<open>False\<close>).\<close>

fun follow :: "bool list \<Rightarrow> 's \<Rightarrow> 's option" where
  "follow [] s = Some s"
| "follow (b # bs) s = (case (if b then acquire s else release s) of None \<Rightarrow> None | Some s' \<Rightarrow> follow bs s')"

lemma follow_counts:
  "follow bs s = Some s' \<Longrightarrow> held s \<le> capacity s \<Longrightarrow>
     held s' \<le> capacity s \<and> capacity s' = capacity s \<and> held s + count_rows (\<lambda>b. b) bs = held s' + count_rows Not bs"
proof (induction bs arbitrary: s)
  case (Cons b bs)
  then show ?case by (cases b) (force split: option.splits dest: acquire_Some release_Some)+
qed simp

end

text \<open>\<^verbatim>\<open>make(chan struct{}, n)\<close>: sending takes a slot and blocks when the buffer is full; receiving gives it back.\<close>

record slot_chan =
  sl_capacity :: nat
  sl_held :: nat

definition make_slots :: "nat \<Rightarrow> slot_chan" where
  "make_slots n = \<lparr>sl_capacity = n, sl_held = 0\<rparr>"

definition acquire_slot :: "slot_chan \<Rightarrow> slot_chan option" where
  "acquire_slot s = (if sl_held s < sl_capacity s then Some (s\<lparr>sl_held := sl_held s + 1\<rparr>) else None)"

definition release_slot :: "slot_chan \<Rightarrow> slot_chan option" where
  "release_slot s = (if 0 < sl_held s then Some (s\<lparr>sl_held := sl_held s - 1\<rparr>) else None)"

interpretation chan_slots: slot_pool acquire_slot release_slot sl_held sl_capacity
  by unfold_locales (auto simp: acquire_slot_def release_slot_def split: if_splits)

section \<open>Keys in progress\<close>

datatype 'k reserve_event = Reserve 'k | Unreserve 'k

locale reservations =
  fixes reserve :: "'k \<Rightarrow> 's \<Rightarrow> bool \<times> 's"
    and unreserve :: "'k \<Rightarrow> 's \<Rightarrow> 's"
    and reserved :: "'s \<Rightarrow> 'k \<Rightarrow> bool"
  assumes reserve_result: "fst (reserve k s) \<longleftrightarrow> \<not> reserved s k"
    and reserve_reserved: "reserved (snd (reserve k s)) k' \<longleftrightarrow> k' = k \<or> reserved s k'"
    and unreserve_reserved: "reserved (unreserve k s) k' \<longleftrightarrow> k' \<noteq> k \<and> reserved s k'"
begin

fun apply_event :: "'k reserve_event \<Rightarrow> 's \<Rightarrow> 's" where
  "apply_event (Reserve k) s = snd (reserve k s)"
| "apply_event (Unreserve k) s = unreserve k s"

text \<open>How often \<open>k\<close> is granted along a sequence of events.\<close>

fun grants :: "'k \<Rightarrow> 'k reserve_event list \<Rightarrow> 's \<Rightarrow> nat" where
  "grants k [] s = 0"
| "grants k (e # es) s = (if e = Reserve k \<and> fst (reserve k s) then 1 else 0) + grants k es (apply_event e s)"

lemma second_reserve_fails: "\<not> fst (reserve k (snd (reserve k s)))"
  by (simp add: reserve_result reserve_reserved)

lemma reserve_after_unreserve: "fst (reserve k (unreserve k s))"
  by (simp add: reserve_result unreserve_reserved)

text \<open>Whatever the others do, \<open>k\<close> is granted once more at most for every time it was given back.\<close>

lemma grants_exclusive:
  "grants k es s + (if reserved s k then 1 else 0)
     \<le> 1 + length (filter (\<lambda>e. e = Unreserve k) es)"
proof (induction es arbitrary: s)
  case (Cons e es)
  then show ?case
    using Cons.IH [of "apply_event e s"]
    by (cases e) (auto simp: reserve_result reserve_reserved unreserve_reserved split: if_splits)
qed simp

end

text \<open>A Go \<^verbatim>\<open>map[K]struct{}\<close> guarded by a mutex.\<close>

definition reserve_key :: "'k \<Rightarrow> 'k set \<Rightarrow> bool \<times> 'k set" where
  "reserve_key k s = (if k \<in> s then (False, s) else (True, insert k s))"

definition release_key :: "'k \<Rightarrow> 'k set \<Rightarrow> 'k set" where
  "release_key k s = s - {k}"

interpretation key_set: reservations reserve_key release_key "\<lambda>s k. k \<in> s"
  by unfold_locales (auto simp: reserve_key_def release_key_def)

end
