(* ===== verification/Channels.thy ===== *)
theory Channels
  imports GoText
begin

text \<open>
  The notification channels that alert rules, uptime monitors and scheduled tasks carry
  (\<^verbatim>\<open>NotificationChannel\<close> of \<^verbatim>\<open>internal/server/store/alerts.go\<close>) and their JSON encoding, whose
  length the task store limits.  A Go map is an association list with distinct keys;
  \<^verbatim>\<open>encoding/json\<close> writes its keys sorted and escapes text for HTML.
\<close>

record notification_channel =
  ch_type :: string
  ch_webhook_url :: string
  ch_headers :: "(string \<times> string) list"
  ch_secret :: string

definition quote_char :: string where "quote_char = [CHR 0x22]"

definition json_u :: "nat \<Rightarrow> string" where
  "json_u n = [CHR 0x5C, CHR ''u''] @
     map (\<lambda>d. if d < 10 then char_of (48 + d) else char_of (87 + d))
       [n div 4096 mod 16, n div 256 mod 16, n div 16 mod 16, n mod 16]"

text \<open>One rune inside a JSON string, as \<^verbatim>\<open>json.Marshal\<close> writes it.\<close>

definition json_rune :: "nat \<times> string \<Rightarrow> string" where
  "json_rune x =
     (let r = fst x in
      if invalid_seg x then json_u rune_error
      else if r = 34 then [CHR 0x5C, CHR 0x22]
      else if r = 92 then [CHR 0x5C, CHR 0x5C]
      else if r = 8 then [CHR 0x5C, CHR ''b'']
      else if r = 12 then [CHR 0x5C, CHR ''f'']
      else if r = 10 then [CHR 0x5C, CHR ''n'']
      else if r = 13 then [CHR 0x5C, CHR ''r'']
      else if r = 9 then [CHR 0x5C, CHR ''t'']
      else if r < 32 \<or> r = 60 \<or> r = 62 \<or> r = 38 \<or> r = 8232 \<or> r = 8233 then json_u r
      else snd x)"

definition json_string :: "string \<Rightarrow> string" where
  "json_string s = quote_char @ concat (map json_rune (split_runes s)) @ quote_char"

definition json_member :: "string \<Rightarrow> string \<Rightarrow> string" where
  "json_member k v = json_string k @ '':'' @ v"

text \<open>The struct tags make \<^verbatim>\<open>webhook_url\<close>, \<^verbatim>\<open>headers\<close> and \<^verbatim>\<open>secret\<close> optional members.\<close>

definition json_channel :: "notification_channel \<Rightarrow> string" where
  "json_channel c =
     ''{'' @ join '',''
       ([json_member ''type'' (json_string (ch_type c))]
        @ (if ch_webhook_url c = [] then [] else [json_member ''webhook_url'' (json_string (ch_webhook_url c))])
        @ (if ch_headers c = [] then []
           else [json_member ''headers''
             (''{'' @ join '','' (map (\<lambda>kv. json_member (fst kv) (json_string (snd kv)))
                 (sort_key fst (ch_headers c))) @ ''}'')])
        @ (if ch_secret c = [] then [] else [json_member ''secret'' (json_string (ch_secret c))]))
     @ ''}''"

definition json_channels :: "notification_channel list \<Rightarrow> string" where
  "json_channels cs = ''['' @ join '','' (map json_channel cs) @ '']''"

lemma json_channels_Nil [simp]: "json_channels [] = ''[]''"
  by (simp add: json_channels_def)

end
