(* ===== verification/TaskTypes.thy ===== *)
theory TaskTypes
  imports Channels
begin

text \<open>
  \<^verbatim>\<open>internal/server/store/tasks.go\<close>, first part: the data of the task center (scripts, scheduled
  tasks, runs, run targets), its statuses and errors, and the validation and normalisation that
  every write goes through.  A validated struct is returned instead of being changed in place.
\<close>

section \<open>Constants, statuses, errors\<close>

definition default_task_timeout_seconds :: int where "default_task_timeout_seconds = 300"
definition max_task_timeout_seconds :: int where "max_task_timeout_seconds = 1800"
definition max_automation_name_runes :: int where "max_automation_name_runes = 128"
definition max_script_description_bytes :: nat where "max_script_description_bytes = 2048"
definition max_script_content_bytes :: nat where "max_script_content_bytes = 128 * 1024"
definition max_cron_expression_bytes :: nat where "max_cron_expression_bytes = 128"
definition max_task_timezone_bytes :: nat where "max_task_timezone_bytes = 128"
definition max_task_nodes :: nat where "max_task_nodes = 100"
definition max_task_node_id_bytes :: nat where "max_task_node_id_bytes = 191"
definition max_task_node_name_bytes :: nat where "max_task_node_name_bytes = 255"
definition max_task_output_bytes :: nat where "max_task_output_bytes = 64 * 1024"
definition max_task_error_bytes :: nat where "max_task_error_bytes = 1024"
definition max_notification_json_bytes :: nat where "max_notification_json_bytes = 64 * 2 ^ 10"
definition default_run_page_limit :: int where "default_run_page_limit = 50"
definition max_run_page_limit :: int where "max_run_page_limit = 100"
definition max_due_task_limit :: int where "max_due_task_limit = 100"

definition notification_policy_never :: string where "notification_policy_never = ''never''"
definition notification_policy_failure :: string where "notification_policy_failure = ''failure''"
definition notification_policy_always :: string where "notification_policy_always = ''always''"

definition run_trigger_manual :: string where "run_trigger_manual = ''manual''"
definition run_trigger_scheduled :: string where "run_trigger_scheduled = ''scheduled''"

definition schedule_type_cron :: string where "schedule_type_cron = ''cron''"
definition schedule_type_once :: string where "schedule_type_once = ''once''"

lemma schedule_types_differ [simp]: "schedule_type_cron \<noteq> schedule_type_once" "schedule_type_once \<noteq> schedule_type_cron"
  by (simp_all add: schedule_type_cron_def schedule_type_once_def)

lemma notification_policies_differ [simp]:
  "notification_policy_never \<noteq> notification_policy_failure"
  "notification_policy_never \<noteq> notification_policy_always"
  "notification_policy_failure \<noteq> notification_policy_always"
  "notification_policy_always \<noteq> notification_policy_failure"
  by (simp_all add: notification_policy_never_def notification_policy_failure_def notification_policy_always_def)

datatype run_status =
  RunQueued | RunRunning | RunSuccess | RunPartial | RunFailed | RunSkipped | RunInterrupted

text \<open>Any other string a status column or an agent may hold is \<open>TargetOther\<close>.\<close>

datatype target_status =
  TargetQueued | TargetRunning | TargetSuccess | TargetFailed | TargetTimedOut | TargetBusy
| TargetCancelled | TargetOffline | TargetUnsupported | TargetSkipped | TargetInterrupted
| TargetOther string

fun run_status_name :: "run_status \<Rightarrow> string" where
  "run_status_name RunQueued = ''queued''"
| "run_status_name RunRunning = ''running''"
| "run_status_name RunSuccess = ''success''"
| "run_status_name RunPartial = ''partial''"
| "run_status_name RunFailed = ''failed''"
| "run_status_name RunSkipped = ''skipped''"
| "run_status_name RunInterrupted = ''interrupted''"

definition is_run_status :: "string \<Rightarrow> bool" where
  "is_run_status value = (value \<in> set (map run_status_name
     [RunQueued, RunRunning, RunSuccess, RunPartial, RunFailed, RunSkipped, RunInterrupted]))"

fun is_terminal_run_status :: "run_status \<Rightarrow> bool" where
  "is_terminal_run_status value =
     (value = RunSuccess \<or> value = RunPartial \<or> value = RunFailed \<or> value = RunSkipped \<or> value = RunInterrupted)"

fun is_terminal_target_status :: "target_status \<Rightarrow> bool" where
  "is_terminal_target_status TargetQueued = False"
| "is_terminal_target_status TargetRunning = False"
| "is_terminal_target_status (TargetOther _) = False"
| "is_terminal_target_status _ = True"

datatype task_error =
  ErrInvalid string | ErrNotFound string | ErrConflict string | ErrClaimLost string | ErrDB string

section \<open>Data\<close>

record automation_script =
  sc_id :: int
  sc_name :: string
  sc_normalized_name :: string
  sc_description :: string
  sc_content :: string
  sc_timeout_seconds :: int
  sc_revision :: int
  sc_created_at :: time
  sc_updated_at :: time

record scheduled_task =
  st_id :: int
  st_name :: string
  st_normalized_name :: string
  st_script_id :: int
  st_script_name :: string
  st_script_revision :: int
  st_schedule_type :: string
  st_run_at :: "time option"
  st_cron_expression :: string
  st_timezone :: string
  st_enabled :: bool
  st_timeout_seconds :: int
  st_notification_policy :: string
  st_notification_channels :: "notification_channel list"
  st_node_ids :: "string list"
  st_next_run_at :: "time option"
  st_last_scheduled_at :: "time option"
  st_latest_run_status :: "run_status option"
  st_latest_run_at :: "time option"
  st_created_at :: time
  st_updated_at :: time

record task_run =
  rn_id :: int
  rn_task_id :: "int option"
  rn_script_id :: "int option"
  rn_task_name :: string
  rn_script_name :: string
  rn_script_revision :: int
  rn_script_content :: string
  rn_timeout_seconds :: int
  rn_notification_policy :: string
  rn_notification_channels :: "notification_channel list"
  rn_trigger :: string
  rn_scheduled_for :: "time option"
  rn_status :: run_status
  rn_total_targets :: nat
  rn_completed_targets :: nat
  rn_success_targets :: nat
  rn_failed_targets :: nat
  rn_error :: string
  rn_notification_sent :: bool
  rn_notification_error :: string
  rn_notification_attempted_at :: "time option"
  rn_started_at :: "time option"
  rn_completed_at :: "time option"
  rn_created_at :: time
  rn_updated_at :: time

record task_run_target =
  tg_id :: int
  tg_run_id :: int
  tg_node_id :: string
  tg_node_name :: string
  tg_status :: target_status
  tg_exit_code :: "int option"
  tg_output :: string
  tg_output_truncated :: bool
  tg_error :: string
  tg_duration_ms :: int
  tg_started_at :: "time option"
  tg_completed_at :: "time option"
  tg_created_at :: time
  tg_updated_at :: time

record task_run_detail =
  dt_run :: task_run
  dt_targets :: "task_run_target list"

record run_target_snapshot =
  sn_node_id :: string
  sn_node_name :: string

record run_target_result =
  rs_status :: target_status
  rs_exit_code :: "int option"
  rs_output :: string
  rs_output_truncated :: bool
  rs_error :: string
  rs_duration_ms :: int
  rs_started_at :: "time option"
  rs_completed_at :: time

record run_filter =
  fl_before_id :: int
  fl_limit :: int
  fl_from :: "time option"
  fl_to :: "time option"
  fl_status :: string
  fl_task_id :: int
  fl_script_id :: int
  fl_node_id :: string
  fl_trigger :: string

record run_page =
  pg_runs :: "task_run list"
  pg_next_before_id :: "int option"

section \<open>Validation and normalisation\<close>

definition validate_timeout :: "int \<Rightarrow> task_error + unit" where
  "validate_timeout value = failIf (value < 1 \<or> value > max_task_timeout_seconds) (ErrInvalid ''timeout'')"

definition marshal_task_channels :: "notification_channel list \<Rightarrow> task_error + string" where
  "marshal_task_channels channels =
     (let value = json_channels channels
      in if length value > max_notification_json_bytes then Inl (ErrInvalid ''notification channels'')
         else Inr value)"

definition is_notification_policy :: "string \<Rightarrow> bool" where
  "is_notification_policy value \<longleftrightarrow>
     value = notification_policy_never \<or> value = notification_policy_failure \<or> value = notification_policy_always"

definition normalize_automation_name :: "(nat \<Rightarrow> nat) \<Rightarrow> string \<Rightarrow> task_error + string \<times> string" where
  "normalize_automation_name ul value =
     (if \<not> valid_utf8 value then Inl (ErrInvalid ''name'')
      else (let display = join '' '' (text_fields value)
            in if display = [] \<or> rune_count display > max_automation_name_runes then Inl (ErrInvalid ''name'')
               else Inr (display, to_lower ul display)))"

definition prepare_script :: "(nat \<Rightarrow> nat) \<Rightarrow> automation_script \<Rightarrow> task_error + automation_script" where
  "prepare_script ul script =
     bindE (normalize_automation_name ul (sc_name script)) (\<lambda>(name, normalized).
     let s1 = script\<lparr>sc_name := name, sc_normalized_name := normalized,
                     sc_description := trim_space (sc_description script)\<rparr>
     in if \<not> valid_utf8 (sc_description s1) \<or> length (sc_description s1) > max_script_description_bytes
        then Inl (ErrInvalid ''script description'')
        else if \<not> valid_utf8 (sc_content s1) \<or> length (sc_content s1) = 0
             \<or> length (sc_content s1) > max_script_content_bytes
        then Inl (ErrInvalid ''script content'')
        else (let s2 = (if sc_timeout_seconds s1 = 0
                        then s1\<lparr>sc_timeout_seconds := default_task_timeout_seconds\<rparr> else s1)
              in bindE (validate_timeout (sc_timeout_seconds s2)) (\<lambda>_. Inr s2)))"

fun normalize_node_ids_loop :: "string list \<Rightarrow> string list \<Rightarrow> task_error + string list" where
  "normalize_node_ids_loop [] normalized = Inr normalized"
| "normalize_node_ids_loop (nodeID # nodeIDs) normalized =
     (let nodeID' = trim_space nodeID
      in if nodeID' = [] \<or> \<not> valid_utf8 nodeID' \<or> length nodeID' > max_task_node_id_bytes
         then Inl (ErrInvalid ''node id'')
         else if nodeID' \<in> set normalized then Inl (ErrInvalid ''duplicate node id'')
         else normalize_node_ids_loop nodeIDs (normalized @ [nodeID']))"

definition normalize_node_ids :: "string list \<Rightarrow> task_error + string list" where
  "normalize_node_ids nodeIDs =
     (if length nodeIDs = 0 \<or> length nodeIDs > max_task_nodes then Inl (ErrInvalid ''task targets'')
      else bindE (normalize_node_ids_loop nodeIDs []) (\<lambda>normalized. Inr (sort normalized)))"

fun normalize_run_targets_loop ::
  "run_target_snapshot list \<Rightarrow> run_target_snapshot list \<Rightarrow> task_error + run_target_snapshot list" where
  "normalize_run_targets_loop [] normalized = Inr normalized"
| "normalize_run_targets_loop (target # targets) normalized =
     (let target' = target\<lparr>sn_node_id := trim_space (sn_node_id target),
                           sn_node_name := trim_space (sn_node_name target)\<rparr>
      in if sn_node_id target' = [] \<or> \<not> valid_utf8 (sn_node_id target')
            \<or> length (sn_node_id target') > max_task_node_id_bytes
         then Inl (ErrInvalid ''node id'')
         else if \<not> valid_utf8 (sn_node_name target') \<or> length (sn_node_name target') > max_task_node_name_bytes
         then Inl (ErrInvalid ''node name'')
         else if sn_node_id target' \<in> sn_node_id ` set normalized then Inl (ErrInvalid ''duplicate node id'')
         else normalize_run_targets_loop targets (normalized @ [target']))"

definition normalize_run_targets :: "run_target_snapshot list \<Rightarrow> task_error + run_target_snapshot list" where
  "normalize_run_targets targets =
     (if length targets = 0 \<or> length targets > max_task_nodes then Inl (ErrInvalid ''run targets'')
      else bindE (normalize_run_targets_loop targets []) (\<lambda>normalized. Inr (sort_key sn_node_id normalized)))"

text \<open>A pointer that is nil or points to the zero time.\<close>

definition unset :: "time option \<Rightarrow> bool" where
  "unset v = (case v of None \<Rightarrow> True | Some t \<Rightarrow> is_zero t)"

definition prepare_scheduled_task ::
  "(nat \<Rightarrow> nat) \<Rightarrow> scheduled_task \<Rightarrow> bool \<Rightarrow> task_error + scheduled_task" where
  "prepare_scheduled_task ul task requireNext =
     bindE (normalize_automation_name ul (st_name task)) (\<lambda>(name, normalized).
     let t1 = task\<lparr>st_name := name, st_normalized_name := normalized\<rparr> in
     bindE (failIf (st_script_id t1 \<le> 0) (ErrInvalid ''task script'')) (\<lambda>_.
     let typ = trim_space (st_schedule_type t1);
         t2 = t1\<lparr>st_schedule_type := (if typ = [] then schedule_type_cron else typ)\<rparr> in
     bindE (failIf (st_schedule_type t2 \<noteq> schedule_type_cron \<and> st_schedule_type t2 \<noteq> schedule_type_once)
              (ErrInvalid ''schedule type'')) (\<lambda>_.
     let t3 = t2\<lparr>st_cron_expression := trim_space (st_cron_expression t2),
                 st_timezone := trim_space (st_timezone t2)\<rparr> in
     bindE (failIf (\<not> valid_utf8 (st_timezone t3) \<or> length (st_timezone t3) = 0
              \<or> length (st_timezone t3) > max_task_timezone_bytes) (ErrInvalid ''timezone'')) (\<lambda>_.
     bindE (if st_schedule_type t3 = schedule_type_cron
            then (if \<not> valid_utf8 (st_cron_expression t3) \<or> length (st_cron_expression t3) = 0
                     \<or> length (st_cron_expression t3) > max_cron_expression_bytes
                  then Inl (ErrInvalid ''cron expression'')
                  else Inr (t3\<lparr>st_run_at := None\<rparr>))
            else (if unset (st_run_at t3) then Inl (ErrInvalid ''run at'')
                  else Inr (t3\<lparr>st_cron_expression := []\<rparr>))) (\<lambda>t4.
     bindE (if st_timeout_seconds t4 \<noteq> 0 then validate_timeout (st_timeout_seconds t4) else Inr ()) (\<lambda>_.
     let t5 = (if st_notification_policy t4 = []
               then t4\<lparr>st_notification_policy := notification_policy_failure\<rparr> else t4) in
     bindE (failIf (\<not> is_notification_policy (st_notification_policy t5)) (ErrInvalid ''notification policy'')) (\<lambda>_.
     bindE (marshal_task_channels (st_notification_channels t5)) (\<lambda>_.
     bindE (normalize_node_ids (st_node_ids t5)) (\<lambda>nodeIDs.
     let t6 = t5\<lparr>st_node_ids := nodeIDs\<rparr> in
     bindE (failIf (requireNext \<and> st_enabled t6 \<and> unset (st_next_run_at t6)) (ErrInvalid ''next run time'')) (\<lambda>_.
     Inr (if \<not> st_enabled t6 then t6\<lparr>st_next_run_at := None\<rparr>
          else if st_schedule_type t6 = schedule_type_once then t6\<lparr>st_next_run_at := st_run_at t6\<rparr>
          else t6)))))))))))"

definition validate_script_input :: "(nat \<Rightarrow> nat) \<Rightarrow> automation_script option \<Rightarrow> task_error + unit" where
  "validate_script_input ul script =
     (case script of None \<Rightarrow> Inl (ErrInvalid ''script'')
      | Some s \<Rightarrow> bindE (prepare_script ul s) (\<lambda>_. Inr ()))"

definition validate_task_input :: "(nat \<Rightarrow> nat) \<Rightarrow> scheduled_task option \<Rightarrow> task_error + unit" where
  "validate_task_input ul task =
     (case task of None \<Rightarrow> Inl (ErrInvalid ''task'')
      | Some t \<Rightarrow> bindE (prepare_scheduled_task ul t False) (\<lambda>_. Inr ()))"

definition normalize_run_filter :: "run_filter \<Rightarrow> task_error + run_filter" where
  "normalize_run_filter f =
     bindE (failIf (fl_before_id f < 0 \<or> fl_task_id f < 0 \<or> fl_script_id f < 0) (ErrInvalid ''run filter'')) (\<lambda>_.
     let f1 = (if fl_limit f = 0 then f\<lparr>fl_limit := default_run_page_limit\<rparr> else f) in
     bindE (failIf (fl_limit f1 < 1 \<or> fl_limit f1 > max_run_page_limit) (ErrInvalid ''run limit'')) (\<lambda>_.
     bindE (failIf (fl_from f1 = Some 0) (ErrInvalid ''run time range'')) (\<lambda>_.
     bindE (failIf (fl_to f1 = Some 0) (ErrInvalid ''run time range'')) (\<lambda>_.
     bindE (failIf (case (fl_from f1, fl_to f1) of (Some a, Some b) \<Rightarrow> a > b | _ \<Rightarrow> False)
              (ErrInvalid ''run time range'')) (\<lambda>_.
     let f2 = f1\<lparr>fl_status := trim_space (fl_status f1)\<rparr> in
     bindE (failIf (fl_status f2 \<noteq> [] \<and> \<not> is_run_status (fl_status f2)) (ErrInvalid ''run status'')) (\<lambda>_.
     let f3 = f2\<lparr>fl_trigger := trim_space (fl_trigger f2)\<rparr> in
     bindE (failIf (fl_trigger f3 \<noteq> [] \<and> fl_trigger f3 \<noteq> run_trigger_manual \<and> fl_trigger f3 \<noteq> run_trigger_scheduled)
              (ErrInvalid ''run trigger'')) (\<lambda>_.
     let f4 = f3\<lparr>fl_node_id := trim_space (fl_node_id f3)\<rparr> in
     bindE (failIf (\<not> valid_utf8 (fl_node_id f4) \<or> length (fl_node_id f4) > max_task_node_id_bytes)
              (ErrInvalid ''node id'')) (\<lambda>_. Inr f4))))))))"

section \<open>Bounded text\<close>

text \<open>\<open>boundTaskText\<close>: the loop drops trailing bytes until the text is valid again.\<close>

function drop_to_valid :: "string \<Rightarrow> string" where
  "drop_to_valid value = (if valid_utf8 value then value else drop_to_valid (butlast value))"
  by pat_completeness auto
termination
  by (relation "measure length") (auto simp: length_butlast intro!: Nat.diff_less)

declare drop_to_valid.simps [simp del]

definition replacement_text :: string where "replacement_text = [CHR 0xEF, CHR 0xBF, CHR 0xBD]"

definition bound_task_text :: "string \<Rightarrow> nat \<Rightarrow> string \<times> bool" where
  "bound_task_text value limit =
     (let value' = to_valid_utf8 replacement_text value
      in if length value' \<le> limit then (value', False)
         else (drop_to_valid (take limit value'), True))"

definition nullable_task_time :: "time option \<Rightarrow> time option" where
  "nullable_task_time value = (if unset value then None else value)"


lemma drop_to_valid_prefix: "prefix (drop_to_valid s) s"
proof (induction s rule: drop_to_valid.induct)
  case (1 s)
  show ?case
  proof (cases "valid_utf8 s")
    case True
    then show ?thesis by (subst drop_to_valid.simps) simp
  next
    case False
    with 1 have "prefix (drop_to_valid (butlast s)) (butlast s)" by simp
    moreover have "prefix (butlast s) s" by (rule prefixeq_butlast)
    ultimately show ?thesis using False
      by (subst drop_to_valid.simps) (auto intro: prefix_order.trans)
  qed
qed

lemma drop_to_valid_valid: "valid_utf8 (drop_to_valid s)"
  by (induction s rule: drop_to_valid.induct) (subst drop_to_valid.simps, auto)

lemma valid_replacement [simp]: "valid_utf8 replacement_text"
  by (simp add: valid_utf8_def replacement_text_def split_runes.simps(2) decode_rune.simps
      second_ok_def byte_in_def invalid_seg_def)

text \<open>Text bounded for storage is valid UTF-8 and no longer than its limit; text that was valid
  and short enough is kept as it is and not marked truncated.\<close>

theorem bound_task_text_ok:
  "valid_utf8 (fst (bound_task_text s limit)) \<and> length (fst (bound_task_text s limit)) \<le> limit
    \<and> prefix (fst (bound_task_text s limit)) (to_valid_utf8 replacement_text s)
    \<and> snd (bound_task_text s limit) = (length (to_valid_utf8 replacement_text s) > limit)"
proof -
  let ?v = "to_valid_utf8 replacement_text s"
  have "prefix (drop_to_valid (take limit ?v)) (take limit ?v)" by (rule drop_to_valid_prefix)
  then have "prefix (drop_to_valid (take limit ?v)) ?v" "length (drop_to_valid (take limit ?v)) \<le> limit"
    using take_is_prefix prefix_order.trans by (blast, fastforce dest: prefix_length_le)
  then show ?thesis
    by (simp add: bound_task_text_def Let_def drop_to_valid_valid valid_utf8_to_valid_utf8)
qed

section \<open>Normalised node identifiers\<close>

lemma normalize_node_ids_loop_Inr:
  "normalize_node_ids_loop ids acc = Inr out \<Longrightarrow>
     out = acc @ map trim_space ids
     \<and> (distinct acc \<longrightarrow> distinct out) \<and> (\<forall>x\<in>set ids. trim_space x \<noteq> []
        \<and> valid_utf8 (trim_space x) \<and> length (trim_space x) \<le> max_task_node_id_bytes)"
  by (induction ids arbitrary: acc) (force simp: Let_def split: if_splits)+

lemma normalize_node_ids_loop_ok:
  "\<forall>x\<in>set ids. trim_space x \<noteq> [] \<and> valid_utf8 (trim_space x) \<and> length (trim_space x) \<le> max_task_node_id_bytes
   \<Longrightarrow> distinct (acc @ map trim_space ids) \<Longrightarrow> normalize_node_ids_loop ids acc = Inr (acc @ map trim_space ids)"
  by (induction ids arbitrary: acc) (auto simp: Let_def)

lemma sort_eq_Nil [simp]: "sort xs = [] \<longleftrightarrow> xs = []" "[] = sort xs \<longleftrightarrow> xs = []"
  by (metis length_0_conv length_sort)+

lemma normalize_node_ids_Inr:
  assumes "normalize_node_ids ids = Inr out"
  shows "out = sort (map trim_space ids)" "distinct out" "sorted out" "out \<noteq> []" "length out \<le> max_task_nodes"
    "\<forall>x\<in>set out. x \<noteq> [] \<and> valid_utf8 x \<and> length x \<le> max_task_node_id_bytes \<and> trim_space x = x"
proof -
  from assms have ids: "ids \<noteq> []" "length ids \<le> max_task_nodes"
    and loop: "normalize_node_ids_loop ids [] = Inr (map trim_space ids)"
    and out: "out = sort (map trim_space ids)"
    using normalize_node_ids_loop_Inr [of ids "[]"]
    by (auto simp: normalize_node_ids_def result_iff split: if_splits)
  note spec = normalize_node_ids_loop_Inr [OF loop]
  show "out = sort (map trim_space ids)" by (rule out)
  show "distinct out" "sorted out" "out \<noteq> []" "length out \<le> max_task_nodes"
    using spec ids by (simp_all add: out)
  show "\<forall>x\<in>set out. x \<noteq> [] \<and> valid_utf8 x \<and> length x \<le> max_task_node_id_bytes \<and> trim_space x = x"
    using spec by (simp add: out)
qed

text \<open>The target nodes of a task are stored trimmed, sorted and without duplicates, between 1 and
  100 of them, and exactly those the request named; normalising them again changes nothing.\<close>

theorem normalize_node_ids_correct:
  assumes "normalize_node_ids ids = Inr out"
  shows "sorted out \<and> distinct out \<and> set out = trim_space ` set ids \<and> length out = length ids
    \<and> 1 \<le> length out \<and> length out \<le> 100 \<and> normalize_node_ids out = Inr out"
proof -
  note out = normalize_node_ids_Inr [OF assms]
  have "map trim_space out = out" using out(6) by (simp add: map_idI)
  with out have "normalize_node_ids_loop out [] = Inr out"
    by (subst normalize_node_ids_loop_ok) auto
  with out have "normalize_node_ids out = Inr out"
    by (simp add: normalize_node_ids_def sort_key_id_if_sorted Suc_le_eq)
  with out show ?thesis by (auto simp: max_task_nodes_def Suc_le_eq simp flip: length_greater_0_conv)
qed

theorem normalize_node_ids_correct_witness:
  "normalize_node_ids ['' b'', ''a''] = Inr [''a'', ''b''] \<and> sorted [''a'', ''b'']"
proof -
  have h: "normalize_node_ids ['' b'', ''a''] = Inr [''a'', ''b'']"
    by (simp add: normalize_node_ids_def eval_text max_task_nodes_def max_task_node_id_bytes_def)
  with normalize_node_ids_correct [OF h] show ?thesis by simp
qed

end
