(* ===== verification/TaskStore.thy ===== *)
theory TaskStore
  imports TaskTypes
begin

text \<open>
  \<^verbatim>\<open>internal/server/store/tasks.go\<close>, second part: the tables of the task center
  (\<^verbatim>\<open>internal/server/db/migrations.go\<close>) and every operation of \<^verbatim>\<open>TaskStore\<close>.  A table is a
  list of rows with its AUTOINCREMENT counter; UNIQUE and FOREIGN KEY constraints fail with
  SQLite's message, which the code inspects; ON DELETE clauses are applied by the deletions.
  Times are stored as instants (the column text is fixed width, so comparing it compares
  instants) and the channels column holds the value whose JSON was bounded.  Failures of the
  connection itself are not modelled.  Every operation is one atomic step.  Several of them read the
  row again after their commit (\<^verbatim>\<open>GetScript\<close>, \<^verbatim>\<open>GetScheduledTask\<close>, \<^verbatim>\<open>getRunSummary\<close>) for the answer; the model
  does so within the same step, so what the answer says when another operation comes in between is not modelled.
  \<open>now\<close> is \<^verbatim>\<open>time.Now().UTC()\<close>.
\<close>

section \<open>The database\<close>

text \<open>A row of \<^verbatim>\<open>scheduled_tasks\<close>; the node identifiers are rows of \<^verbatim>\<open>scheduled_task_nodes\<close>.\<close>

record task_row =
  tk_id :: int
  tk_name :: string
  tk_normalized_name :: string
  tk_script_id :: int
  tk_schedule_type :: string
  tk_run_at :: "time option"
  tk_cron_expression :: string
  tk_timezone :: string
  tk_enabled :: bool
  tk_timeout_seconds :: int
  tk_notification_policy :: string
  tk_notification_channels :: "notification_channel list"
  tk_next_run_at :: "time option"
  tk_last_scheduled_at :: "time option"
  tk_created_at :: time
  tk_updated_at :: time

record task_node_row =
  tn_task_id :: int
  tn_node_id :: string
  tn_created_at :: time

record task_db =
  db_scripts :: "automation_script list"
  db_script_seq :: int
  db_tasks :: "task_row list"
  db_task_seq :: int
  db_task_nodes :: "task_node_row list"
  db_runs :: "task_run list"
  db_run_seq :: int
  db_targets :: "task_run_target list"
  db_target_seq :: int
  db_node_names :: "string \<rightharpoonup> string"

definition empty_task_db :: "(string \<rightharpoonup> string) \<Rightarrow> task_db" where
  "empty_task_db nodes = \<lparr>db_scripts = [], db_script_seq = 0, db_tasks = [], db_task_seq = 0,
     db_task_nodes = [], db_runs = [], db_run_seq = 0, db_targets = [], db_target_seq = 0,
     db_node_names = nodes\<rparr>"

definition is_duplicate_write_error :: "string \<Rightarrow> bool" where
  "is_duplicate_write_error err =
     (let message = to_lower (\<lambda>r. r) err
      in contains message ''unique constraint'' \<or> contains message ''duplicate entry''
         \<or> contains message ''constraint failed'' \<and> contains message ''unique'')"

definition is_foreign_key_write_error :: "string \<Rightarrow> bool" where
  "is_foreign_key_write_error err = contains (to_lower (\<lambda>r. r) err) ''foreign key constraint''"

definition map_automation_write_error :: "string \<Rightarrow> string \<Rightarrow> task_error" where
  "map_automation_write_error err conflict =
     (if is_duplicate_write_error err \<or> is_foreign_key_write_error err then ErrConflict conflict else ErrDB err)"

definition unique_failed :: "string \<Rightarrow> string" where
  "unique_failed columns = ''UNIQUE constraint failed: '' @ columns"

definition foreign_key_failed :: string where
  "foreign_key_failed = ''FOREIGN KEY constraint failed''"

section \<open>Reading rows\<close>

definition find_script :: "task_db \<Rightarrow> int \<Rightarrow> automation_script option" where
  "find_script db i = List.find (\<lambda>s. sc_id s = i) (db_scripts db)"

definition get_automation_script_tx :: "task_db \<Rightarrow> int \<Rightarrow> task_error + automation_script" where
  "get_automation_script_tx db i =
     (case find_script db i of None \<Rightarrow> Inl (ErrNotFound ''script'') | Some s \<Rightarrow> Inr s)"

definition get_script :: "task_db \<Rightarrow> int \<Rightarrow> task_error + automation_script" where
  "get_script db i =
     (if i \<le> 0 then Inl (ErrInvalid ''script id'')
      else (case find_script db i of None \<Rightarrow> Inl (ErrNotFound ''script'') | Some s \<Rightarrow> Inr s))"

text \<open>\<^verbatim>\<open>scheduledTaskLatestRunJoin\<close>: the run with the greatest id among the task's runs.\<close>

definition latest_run :: "task_db \<Rightarrow> int \<Rightarrow> task_run option" where
  "latest_run db taskID =
     (let rs = filter (\<lambda>r. rn_task_id r = Some taskID) (db_runs db)
      in if rs = [] then None
         else List.find (\<lambda>r. rn_id r = Max (rn_id ` set rs)) (db_runs db))"

definition scan_scheduled_task :: "task_row \<Rightarrow> automation_script \<Rightarrow> task_run option \<Rightarrow> scheduled_task" where
  "scan_scheduled_task t s latest =
     \<lparr>st_id = tk_id t, st_name = tk_name t, st_normalized_name = tk_normalized_name t,
      st_script_id = tk_script_id t, st_script_name = sc_name s, st_script_revision = sc_revision s,
      st_schedule_type = (if tk_schedule_type t = [] then schedule_type_cron else tk_schedule_type t),
      st_run_at = tk_run_at t, st_cron_expression = tk_cron_expression t, st_timezone = tk_timezone t,
      st_enabled = tk_enabled t, st_timeout_seconds = tk_timeout_seconds t,
      st_notification_policy = tk_notification_policy t,
      st_notification_channels = tk_notification_channels t, st_node_ids = [],
      st_next_run_at = tk_next_run_at t, st_last_scheduled_at = tk_last_scheduled_at t,
      st_latest_run_status = map_option rn_status latest, st_latest_run_at = map_option rn_created_at latest,
      st_created_at = tk_created_at t, st_updated_at = tk_updated_at t\<rparr>"

text \<open>The inner join with the scripts drops a task whose script is missing.\<close>

definition join_script :: "task_db \<Rightarrow> task_row \<Rightarrow> scheduled_task option" where
  "join_script db t =
     map_option (\<lambda>s. scan_scheduled_task t s (latest_run db (tk_id t))) (find_script db (tk_script_id t))"

definition find_task_row :: "task_db \<Rightarrow> int \<Rightarrow> task_row option" where
  "find_task_row db i = List.find (\<lambda>t. tk_id t = i) (db_tasks db)"

definition get_scheduled_task_tx :: "task_db \<Rightarrow> int \<Rightarrow> task_error + scheduled_task" where
  "get_scheduled_task_tx db i =
     (case Option.bind (find_task_row db i) (join_script db) of
        None \<Rightarrow> Inl (ErrNotFound ''task'') | Some t \<Rightarrow> Inr t)"

definition load_scheduled_task_node_ids :: "task_db \<Rightarrow> int \<Rightarrow> string list" where
  "load_scheduled_task_node_ids db taskID =
     sort (map tn_node_id (filter (\<lambda>n. tn_task_id n = taskID) (db_task_nodes db)))"

definition get_scheduled_task :: "task_db \<Rightarrow> int \<Rightarrow> task_error + scheduled_task" where
  "get_scheduled_task db i =
     (if i \<le> 0 then Inl (ErrInvalid ''task id'')
      else bindE (get_scheduled_task_tx db i) (\<lambda>t. Inr (t\<lparr>st_node_ids := load_scheduled_task_node_ids db i\<rparr>)))"

definition list_scripts :: "task_db \<Rightarrow> automation_script list" where
  "list_scripts db = sort_key sc_id (db_scripts db)"

text \<open>\<open>listScheduledTasks\<close> with the rows already selected, ordered and limited.\<close>

definition list_scheduled_tasks_rows :: "task_db \<Rightarrow> task_row list \<Rightarrow> scheduled_task list" where
  "list_scheduled_tasks_rows db rows =
     map (\<lambda>t. t\<lparr>st_node_ids := load_scheduled_task_node_ids db (st_id t)\<rparr>)
       (List.map_filter (join_script db) rows)"

definition list_scheduled_tasks :: "task_db \<Rightarrow> scheduled_task list" where
  "list_scheduled_tasks db = list_scheduled_tasks_rows db (sort_key tk_id (db_tasks db))"

definition task_is_due :: "time \<Rightarrow> task_row \<Rightarrow> bool" where
  "task_is_due dueAt t \<longleftrightarrow> tk_enabled t \<and> (case tk_next_run_at t of None \<Rightarrow> False | Some n \<Rightarrow> n \<le> dueAt)"

definition list_due_scheduled_tasks :: "task_db \<Rightarrow> time \<Rightarrow> int \<Rightarrow> task_error + scheduled_task list" where
  "list_due_scheduled_tasks db dueAt limit0 =
     (if is_zero dueAt then Inl (ErrInvalid ''due time'')
      else (let limit = (if limit0 = 0 then max_due_task_limit else limit0)
            in if limit < 1 \<or> limit > max_due_task_limit then Inl (ErrInvalid ''due task limit'')
               else Inr (list_scheduled_tasks_rows db
                 (take (nat limit)
                   (sort_key (\<lambda>t. the (tk_next_run_at t))
                     (sort_key tk_id (filter (\<lambda>t. task_is_due dueAt t \<and> find_script db (tk_script_id t) \<noteq> None) (db_tasks db))))))))"

definition run_is_active :: "task_run \<Rightarrow> bool" where
  "run_is_active r \<longleftrightarrow> rn_status r = RunQueued \<or> rn_status r = RunRunning"

definition has_active_task_run_tx :: "task_db \<Rightarrow> int \<Rightarrow> bool" where
  "has_active_task_run_tx db taskID =
     (count_rows (\<lambda>r. rn_task_id r = Some taskID \<and> run_is_active r) (db_runs db) > 0)"

definition has_active_task_run :: "task_db \<Rightarrow> int \<Rightarrow> task_error + bool" where
  "has_active_task_run db taskID =
     (if taskID \<le> 0 then Inl (ErrInvalid ''task id'') else Inr (has_active_task_run_tx db taskID))"

definition lock_scheduled_task_tx :: "task_db \<Rightarrow> int \<Rightarrow> task_error + unit" where
  "lock_scheduled_task_tx db taskID =
     (case find_task_row db taskID of None \<Rightarrow> Inl (ErrNotFound ''task'') | Some _ \<Rightarrow> Inr ())"

definition load_run_target_snapshots_tx :: "task_db \<Rightarrow> int \<Rightarrow> run_target_snapshot list" where
  "load_run_target_snapshots_tx db taskID =
     map (\<lambda>i. \<lparr>sn_node_id = i, sn_node_name = (case db_node_names db i of None \<Rightarrow> [] | Some n \<Rightarrow> n)\<rparr>)
       (load_scheduled_task_node_ids db taskID)"

definition find_run :: "task_db \<Rightarrow> int \<Rightarrow> task_run option" where
  "find_run db runID = List.find (\<lambda>r. rn_id r = runID) (db_runs db)"

definition get_run_summary :: "task_db \<Rightarrow> int \<Rightarrow> task_error + task_run" where
  "get_run_summary db runID =
     (case find_run db runID of None \<Rightarrow> Inl (ErrNotFound ''run'') | Some r \<Rightarrow> Inr r)"

definition targets_of :: "task_db \<Rightarrow> int \<Rightarrow> task_run_target list" where
  "targets_of db runID = filter (\<lambda>t. tg_run_id t = runID) (db_targets db)"

definition get_run :: "task_db \<Rightarrow> int \<Rightarrow> task_error + task_run_detail" where
  "get_run db runID =
     (if runID \<le> 0 then Inl (ErrInvalid ''run id'')
      else bindE (get_run_summary db runID)
        (\<lambda>run. Inr \<lparr>dt_run = run, dt_targets = sort_key tg_id (targets_of db runID)\<rparr>))"

section \<open>Scripts\<close>

definition insert_script_row :: "automation_script \<Rightarrow> task_db \<Rightarrow> string + int \<times> task_db" where
  "insert_script_row s db =
     (if \<exists>q\<in>set (db_scripts db). sc_normalized_name q = sc_normalized_name s
      then Inl (unique_failed ''automation_scripts.normalized_name'')
      else (let i = db_script_seq db + 1
            in Inr (i, db\<lparr>db_scripts := db_scripts db @ [s\<lparr>sc_id := i\<rparr>], db_script_seq := i\<rparr>)))"

definition create_script ::
  "(nat \<Rightarrow> nat) \<Rightarrow> time \<Rightarrow> automation_script option \<Rightarrow> task_db \<Rightarrow> (task_error + automation_script) \<times> task_db" where
  "create_script ul now script db =
     (case script of None \<Rightarrow> (Inl (ErrInvalid ''script''), db)
      | Some s0 \<Rightarrow>
        (case prepare_script ul s0 of Inl e \<Rightarrow> (Inl e, db)
         | Inr s \<Rightarrow>
           (case insert_script_row (s\<lparr>sc_revision := 1, sc_created_at := now, sc_updated_at := now\<rparr>) db of
              Inl err \<Rightarrow> (Inl (map_automation_write_error err ''script name''), db)
            | Inr (i, db') \<Rightarrow> (get_script db' i, db'))))"

definition update_script ::
  "(nat \<Rightarrow> nat) \<Rightarrow> time \<Rightarrow> automation_script option \<Rightarrow> task_db \<Rightarrow> (task_error + automation_script) \<times> task_db" where
  "update_script ul now script db =
     (case script of None \<Rightarrow> (Inl (ErrInvalid ''script''), db)
      | Some s0 \<Rightarrow>
        if sc_id s0 \<le> 0 then (Inl (ErrInvalid ''script''), db)
        else (case prepare_script ul s0 of Inl e \<Rightarrow> (Inl e, db)
         | Inr s \<Rightarrow>
           (if (\<exists>q\<in>set (db_scripts db). sc_id q = sc_id s) \<and>
               (\<exists>q\<in>set (db_scripts db). sc_id q \<noteq> sc_id s \<and> sc_normalized_name q = sc_normalized_name s)
            then (Inl (map_automation_write_error (unique_failed ''automation_scripts.normalized_name'') ''script name''), db)
            else if count_rows (\<lambda>q. sc_id q = sc_id s) (db_scripts db) = 0 then (Inl (ErrNotFound ''script''), db)
            else (let db' = db\<lparr>db_scripts := update_rows (\<lambda>q. sc_id q = sc_id s)
                     (\<lambda>q. q\<lparr>sc_name := sc_name s, sc_normalized_name := sc_normalized_name s,
                           sc_description := sc_description s, sc_content := sc_content s,
                           sc_timeout_seconds := sc_timeout_seconds s, sc_revision := sc_revision q + 1,
                           sc_updated_at := now\<rparr>) (db_scripts db)\<rparr>
                  in (get_script db' (sc_id s), db')))))"

text \<open>ON DELETE RESTRICT from the tasks, ON DELETE SET NULL from the runs.\<close>

definition delete_script_row :: "int \<Rightarrow> task_db \<Rightarrow> string + task_db" where
  "delete_script_row i db =
     (if \<exists>t\<in>set (db_tasks db). tk_script_id t = i then Inl foreign_key_failed
      else Inr (db\<lparr>db_scripts := delete_rows (\<lambda>s. sc_id s = i) (db_scripts db),
                   db_runs := update_rows (\<lambda>r. rn_script_id r = Some i) (\<lambda>r. r\<lparr>rn_script_id := None\<rparr>) (db_runs db)\<rparr>))"

definition delete_script :: "int \<Rightarrow> task_db \<Rightarrow> (task_error + unit) \<times> task_db" where
  "delete_script i db =
     (if i \<le> 0 then (Inl (ErrInvalid ''script id''), db)
      else run_tx (\<lambda>db.
        let references = count_rows (\<lambda>t. tk_script_id t = i) (db_tasks db)
        in if references > 0 then Inl (ErrConflict ''script is referenced by a scheduled task'')
           else (case delete_script_row i db of
                   Inl err \<Rightarrow> Inl (map_automation_write_error err ''script is referenced by a scheduled task'')
                 | Inr db' \<Rightarrow>
                     if count_rows (\<lambda>s. sc_id s = i) (db_scripts db) = 0 then Inl (ErrNotFound ''script'')
                     else Inr ((), db'))) db)"

section \<open>Scheduled tasks\<close>

text \<open>\<^verbatim>\<open>PRIMARY KEY (task_id, node_id)\<close>.\<close>

definition insert_task_node :: "int \<Rightarrow> time \<Rightarrow> string \<Rightarrow> task_db \<Rightarrow> task_error + task_db" where
  "insert_task_node taskID at nodeID db =
     (if \<exists>n\<in>set (db_task_nodes db). tn_task_id n = taskID \<and> tn_node_id n = nodeID
      then Inl (ErrDB (unique_failed ''scheduled_task_nodes.task_id, scheduled_task_nodes.node_id''))
      else Inr (db\<lparr>db_task_nodes := db_task_nodes db
        @ [\<lparr>tn_task_id = taskID, tn_node_id = nodeID, tn_created_at = at\<rparr>]\<rparr>))"

definition replace_scheduled_task_nodes_tx :: "int \<Rightarrow> string list \<Rightarrow> time \<Rightarrow> task_db \<Rightarrow> task_error + task_db" where
  "replace_scheduled_task_nodes_tx taskID nodeIDs at db =
     bind_all (insert_task_node taskID at) nodeIDs
       (db\<lparr>db_task_nodes := delete_rows (\<lambda>n. tn_task_id n = taskID) (db_task_nodes db)\<rparr>)"

definition task_row_of :: "scheduled_task \<Rightarrow> int \<Rightarrow> time \<Rightarrow> task_row" where
  "task_row_of task timeout now =
     \<lparr>tk_id = st_id task, tk_name = st_name task, tk_normalized_name = st_normalized_name task,
      tk_script_id = st_script_id task, tk_schedule_type = st_schedule_type task,
      tk_run_at = nullable_task_time (st_run_at task), tk_cron_expression = st_cron_expression task,
      tk_timezone = st_timezone task, tk_enabled = st_enabled task, tk_timeout_seconds = timeout,
      tk_notification_policy = st_notification_policy task,
      tk_notification_channels = st_notification_channels task,
      tk_next_run_at = nullable_task_time (st_next_run_at task),
      tk_last_scheduled_at = nullable_task_time (st_last_scheduled_at task),
      tk_created_at = now, tk_updated_at = now\<rparr>"

definition insert_task_row :: "task_row \<Rightarrow> task_db \<Rightarrow> string + int \<times> task_db" where
  "insert_task_row t db =
     (if \<exists>q\<in>set (db_tasks db). tk_normalized_name q = tk_normalized_name t
      then Inl (unique_failed ''scheduled_tasks.normalized_name'')
      else (let i = db_task_seq db + 1
            in Inr (i, db\<lparr>db_tasks := db_tasks db @ [t\<lparr>tk_id := i\<rparr>], db_task_seq := i\<rparr>)))"

definition create_scheduled_task_tx :: "scheduled_task \<Rightarrow> time \<Rightarrow> task_db \<Rightarrow> task_error + int \<times> task_db" where
  "create_scheduled_task_tx task now db =
     bindE (get_automation_script_tx db (st_script_id task)) (\<lambda>script.
     let timeout = (if st_timeout_seconds task = 0 then sc_timeout_seconds script else st_timeout_seconds task) in
     bindE (validate_timeout timeout) (\<lambda>_.
     bindE (marshal_task_channels (st_notification_channels task)) (\<lambda>_.
     case insert_task_row (task_row_of task timeout now) db of
       Inl err \<Rightarrow> Inl (map_automation_write_error err ''task name'')
     | Inr (i, db1) \<Rightarrow>
         bindE (replace_scheduled_task_nodes_tx i (st_node_ids task) now db1) (\<lambda>db2. Inr (i, db2)))))"

definition create_scheduled_task ::
  "(nat \<Rightarrow> nat) \<Rightarrow> time \<Rightarrow> scheduled_task option \<Rightarrow> task_db \<Rightarrow> (task_error + scheduled_task) \<times> task_db" where
  "create_scheduled_task ul now task0 db =
     (case task0 of None \<Rightarrow> (Inl (ErrInvalid ''task''), db)
      | Some t0 \<Rightarrow>
        (case prepare_scheduled_task ul t0 True of Inl e \<Rightarrow> (Inl e, db)
         | Inr task \<Rightarrow>
           (case run_tx (create_scheduled_task_tx task now) db of
              (Inl e, db') \<Rightarrow> (Inl e, db')
            | (Inr i, db') \<Rightarrow> (get_scheduled_task db' i, db'))))"

definition update_scheduled_task_tx :: "scheduled_task \<Rightarrow> time \<Rightarrow> task_db \<Rightarrow> task_error + unit \<times> task_db" where
  "update_scheduled_task_tx task now db =
     bindE (lock_scheduled_task_tx db (st_id task)) (\<lambda>_.
     bindE (failIf (has_active_task_run_tx db (st_id task)) (ErrConflict ''task has an active run'')) (\<lambda>_.
     bindE (get_automation_script_tx db (st_script_id task)) (\<lambda>script.
     let timeout = (if st_timeout_seconds task = 0 then sc_timeout_seconds script else st_timeout_seconds task) in
     bindE (validate_timeout timeout) (\<lambda>_.
     bindE (marshal_task_channels (st_notification_channels task)) (\<lambda>_.
     if \<exists>q\<in>set (db_tasks db). tk_id q \<noteq> st_id task \<and> tk_normalized_name q = st_normalized_name task
     then Inl (map_automation_write_error (unique_failed ''scheduled_tasks.normalized_name'') ''task name'')
     else
       (let row = task_row_of task timeout now;
            db1 = db\<lparr>db_tasks := update_rows (\<lambda>q. tk_id q = st_id task)
              (\<lambda>q. row\<lparr>tk_last_scheduled_at := tk_last_scheduled_at q, tk_created_at := tk_created_at q\<rparr>)
              (db_tasks db)\<rparr>
        in if count_rows (\<lambda>q. tk_id q = st_id task) (db_tasks db) = 0 then Inl (ErrNotFound ''task'')
           else bindE (replace_scheduled_task_nodes_tx (st_id task) (st_node_ids task) now db1)
                  (\<lambda>db2. Inr ((), db2))))))))"

definition update_scheduled_task ::
  "(nat \<Rightarrow> nat) \<Rightarrow> time \<Rightarrow> scheduled_task option \<Rightarrow> task_db \<Rightarrow> (task_error + scheduled_task) \<times> task_db" where
  "update_scheduled_task ul now task0 db =
     (case task0 of None \<Rightarrow> (Inl (ErrInvalid ''task''), db)
      | Some t0 \<Rightarrow>
        if st_id t0 \<le> 0 then (Inl (ErrInvalid ''task''), db)
        else (case prepare_scheduled_task ul t0 True of Inl e \<Rightarrow> (Inl e, db)
         | Inr task \<Rightarrow>
           (case run_tx (update_scheduled_task_tx task now) db of
              (Inl e, db') \<Rightarrow> (Inl e, db')
            | (Inr _, db') \<Rightarrow> (get_scheduled_task db' (st_id task), db'))))"

definition set_enabled_tx :: "int \<Rightarrow> bool \<Rightarrow> time option \<Rightarrow> time \<Rightarrow> task_db \<Rightarrow> task_error + unit \<times> task_db" where
  "set_enabled_tx i enabled nextRunAt now db =
     bindE (lock_scheduled_task_tx db i) (\<lambda>_.
     bindE (failIf (has_active_task_run_tx db i) (ErrConflict ''task has an active run'')) (\<lambda>_.
     if count_rows (\<lambda>t. tk_id t = i) (db_tasks db) = 0 then Inl (ErrNotFound ''task'')
     else Inr ((), db\<lparr>db_tasks := update_rows (\<lambda>t. tk_id t = i)
        (\<lambda>t. t\<lparr>tk_enabled := enabled, tk_next_run_at := nullable_task_time nextRunAt, tk_updated_at := now\<rparr>)
        (db_tasks db)\<rparr>)))"

definition set_scheduled_task_enabled ::
  "time \<Rightarrow> int \<Rightarrow> bool \<Rightarrow> time option \<Rightarrow> task_db \<Rightarrow> (task_error + scheduled_task) \<times> task_db" where
  "set_scheduled_task_enabled now i enabled nextRunAt db =
     (if i \<le> 0 then (Inl (ErrInvalid ''task id''), db)
      else if enabled \<and> unset nextRunAt then (Inl (ErrInvalid ''next run time''), db)
      else (case run_tx (set_enabled_tx i enabled (if enabled then nextRunAt else None) now) db of
              (Inl e, db') \<Rightarrow> (Inl e, db')
            | (Inr _, db') \<Rightarrow> (get_scheduled_task db' i, db')))"

text \<open>ON DELETE CASCADE to the task's nodes, ON DELETE SET NULL from its runs.\<close>

definition delete_task_rows :: "int \<Rightarrow> task_db \<Rightarrow> task_db" where
  "delete_task_rows i db =
     db\<lparr>db_tasks := delete_rows (\<lambda>t. tk_id t = i) (db_tasks db),
        db_task_nodes := delete_rows (\<lambda>n. tn_task_id n = i) (db_task_nodes db),
        db_runs := update_rows (\<lambda>r. rn_task_id r = Some i) (\<lambda>r. r\<lparr>rn_task_id := None\<rparr>) (db_runs db)\<rparr>"

definition delete_scheduled_task :: "int \<Rightarrow> task_db \<Rightarrow> (task_error + unit) \<times> task_db" where
  "delete_scheduled_task i db =
     (if i \<le> 0 then (Inl (ErrInvalid ''task id''), db)
      else run_tx (\<lambda>db.
        bindE (lock_scheduled_task_tx db i) (\<lambda>_.
        bindE (failIf (has_active_task_run_tx db i) (ErrConflict ''task has an active run'')) (\<lambda>_.
        if count_rows (\<lambda>t. tk_id t = i) (db_tasks db) = 0 then Inl (ErrNotFound ''task'')
        else Inr ((), delete_task_rows i db)))) db)"

section \<open>Creating runs\<close>

text \<open>\<^verbatim>\<open>UNIQUE (task_id, scheduled_for)\<close> (NULLs are distinct) and the foreign keys of \<^verbatim>\<open>task_runs\<close>.\<close>

definition insert_run_row :: "task_run \<Rightarrow> task_db \<Rightarrow> string + int \<times> task_db" where
  "insert_run_row run db =
     (if rn_task_id run \<noteq> None \<and> rn_scheduled_for run \<noteq> None \<and>
         (\<exists>r\<in>set (db_runs db). rn_task_id r = rn_task_id run \<and> rn_scheduled_for r = rn_scheduled_for run)
      then Inl (unique_failed ''task_runs.task_id, task_runs.scheduled_for'')
      else if (\<exists>t. rn_task_id run = Some t \<and> find_task_row db t = None)
              \<or> (\<exists>s. rn_script_id run = Some s \<and> find_script db s = None)
      then Inl foreign_key_failed
      else (let i = db_run_seq db + 1
            in Inr (i, db\<lparr>db_runs := db_runs db @ [run\<lparr>rn_id := i\<rparr>], db_run_seq := i\<rparr>)))"

text \<open>\<^verbatim>\<open>UNIQUE (run_id, node_id)\<close>.\<close>

definition insert_target_row :: "task_run_target \<Rightarrow> task_db \<Rightarrow> string + int \<times> task_db" where
  "insert_target_row tgt db =
     (if \<exists>q\<in>set (db_targets db). tg_run_id q = tg_run_id tgt \<and> tg_node_id q = tg_node_id tgt
      then Inl (unique_failed ''task_run_targets.run_id, task_run_targets.node_id'')
      else (let i = db_target_seq db + 1
            in Inr (i, db\<lparr>db_targets := db_targets db @ [tgt\<lparr>tg_id := i\<rparr>], db_target_seq := i\<rparr>)))"

fun insert_run_targets ::
  "int \<Rightarrow> target_status \<Rightarrow> string \<Rightarrow> time option \<Rightarrow> time \<Rightarrow> run_target_snapshot list \<Rightarrow>
     task_run_target list \<Rightarrow> task_db \<Rightarrow> task_error + task_run_target list \<times> task_db" where
  "insert_run_targets runID st err completedAt createdAt [] acc db = Inr (acc, db)"
| "insert_run_targets runID st err completedAt createdAt (t # ts) acc db =
     (let row = \<lparr>tg_id = 0, tg_run_id = runID, tg_node_id = sn_node_id t, tg_node_name = sn_node_name t,
                 tg_status = st, tg_exit_code = None, tg_output = [], tg_output_truncated = False,
                 tg_error = err, tg_duration_ms = 0, tg_started_at = None, tg_completed_at = completedAt,
                 tg_created_at = createdAt, tg_updated_at = createdAt\<rparr>
      in case insert_target_row row db of
           Inl msg \<Rightarrow> Inl (ErrDB msg)
         | Inr (i, db') \<Rightarrow>
             insert_run_targets runID st err completedAt createdAt ts (acc @ [row\<lparr>tg_id := i\<rparr>]) db')"

definition create_task_run_tx ::
  "task_run \<Rightarrow> run_target_snapshot list \<Rightarrow> target_status \<Rightarrow> string \<Rightarrow> time \<Rightarrow> task_db \<Rightarrow>
     task_error + task_run_detail \<times> task_db" where
  "create_task_run_tx run targets targetStatus targetError createdAt db =
     bindE (marshal_task_channels (rn_notification_channels run)) (\<lambda>_.
     let total_n = length targets;
         terminal = is_terminal_run_status (rn_status run);
         stamp = (if terminal then Some createdAt else None);
         run1 = run\<lparr>rn_scheduled_for := nullable_task_time (rn_scheduled_for run),
                    rn_total_targets := total_n,
                    rn_completed_targets := (if terminal then total_n else 0),
                    rn_success_targets := 0,
                    rn_failed_targets := (if terminal then total_n else 0),
                    rn_notification_sent := False, rn_notification_error := [],
                    rn_notification_attempted_at := None,
                    rn_started_at := stamp, rn_completed_at := stamp,
                    rn_created_at := createdAt, rn_updated_at := createdAt\<rparr>
     in case insert_run_row run1 db of
          Inl msg \<Rightarrow> Inl (ErrDB msg)
        | Inr (i, db1) \<Rightarrow>
            bindE (insert_run_targets i targetStatus targetError stamp createdAt targets [] db1)
              (\<lambda>(rows, db2). Inr (\<lparr>dt_run = run1\<lparr>rn_id := i\<rparr>, dt_targets = rows\<rparr>, db2)))"

definition duplicate_error :: "task_error \<Rightarrow> bool" where
  "duplicate_error e = (case e of ErrDB m \<Rightarrow> is_duplicate_write_error m | _ \<Rightarrow> False)"

text \<open>The run record a task gives rise to; the remaining fields are set by \<open>createTaskRunTx\<close>.\<close>

definition task_run_of ::
  "scheduled_task \<Rightarrow> automation_script \<Rightarrow> string \<Rightarrow> time option \<Rightarrow> run_status \<Rightarrow> string \<Rightarrow> task_run" where
  "task_run_of task script trigger scheduledFor status err =
     \<lparr>rn_id = 0, rn_task_id = Some (st_id task), rn_script_id = Some (st_script_id task),
      rn_task_name = st_name task, rn_script_name = st_script_name task,
      rn_script_revision = st_script_revision task, rn_script_content = sc_content script,
      rn_timeout_seconds = st_timeout_seconds task, rn_notification_policy = st_notification_policy task,
      rn_notification_channels = st_notification_channels task, rn_trigger = trigger,
      rn_scheduled_for = scheduledFor, rn_status = status, rn_total_targets = 0, rn_completed_targets = 0,
      rn_success_targets = 0, rn_failed_targets = 0, rn_error = err, rn_notification_sent = False,
      rn_notification_error = [], rn_notification_attempted_at = None, rn_started_at = None,
      rn_completed_at = None, rn_created_at = 0, rn_updated_at = 0\<rparr>"

text \<open>The WHERE clause of the claim's UPDATE: the occurrence is still due and of the expected kind.\<close>

definition claimable :: "int \<Rightarrow> time \<Rightarrow> bool \<Rightarrow> task_row \<Rightarrow> bool" where
  "claimable taskID expectedDueAt isOnce t \<longleftrightarrow>
     tk_id t = taskID \<and> tk_enabled t \<and> tk_next_run_at t = Some expectedDueAt
     \<and> (tk_schedule_type t = schedule_type_once \<and> isOnce \<or> tk_schedule_type t \<noteq> schedule_type_once \<and> \<not> isOnce)"

definition advance_row :: "time \<Rightarrow> time option \<Rightarrow> time \<Rightarrow> task_row \<Rightarrow> task_row" where
  "advance_row expectedDueAt nextRun claimedAt t =
     t\<lparr>tk_next_run_at := (if tk_schedule_type t = schedule_type_once then None else nullable_task_time nextRun),
       tk_enabled := (if tk_schedule_type t = schedule_type_once then False else tk_enabled t),
       tk_last_scheduled_at := Some expectedDueAt, tk_updated_at := claimedAt\<rparr>"

definition claim_due_task_tx ::
  "int \<Rightarrow> time \<Rightarrow> time option \<Rightarrow> bool \<Rightarrow> time \<Rightarrow> task_db \<Rightarrow> task_error + task_run_detail \<times> task_db" where
  "claim_due_task_tx taskID expectedDueAt nextRun isOnce claimedAt db =
     bindE (failIf (count_rows (claimable taskID expectedDueAt isOnce) (db_tasks db) \<noteq> 1)
              (ErrClaimLost ''scheduled occurrence'')) (\<lambda>_.
     let db1 = db\<lparr>db_tasks := update_rows (claimable taskID expectedDueAt isOnce)
                    (advance_row expectedDueAt nextRun claimedAt) (db_tasks db)\<rparr>
     in case get_scheduled_task_tx db1 taskID of
          Inl _ \<Rightarrow> Inl (ErrClaimLost ''scheduled task'')
        | Inr task \<Rightarrow>
          (let targets = load_run_target_snapshots_tx db1 taskID in
           bindE (failIf (targets = []) (ErrInvalid ''task targets'')) (\<lambda>_.
           let active = has_active_task_run_tx db1 taskID in
           bindE (get_automation_script_tx db1 (st_script_id task)) (\<lambda>script.
           let run = task_run_of task script run_trigger_scheduled (Some expectedDueAt)
                       (if active then RunSkipped else RunQueued) (if active then ''overlap'' else [])
           in case create_task_run_tx run targets (if active then TargetSkipped else TargetQueued)
                     (if active then ''overlap'' else []) claimedAt db1 of
                Inl e \<Rightarrow> Inl (if duplicate_error e then ErrClaimLost ''scheduled occurrence'' else e)
              | Inr res \<Rightarrow> Inr res))))"

definition claim_due_task ::
  "time \<Rightarrow> int \<Rightarrow> time \<Rightarrow> time \<Rightarrow> time \<Rightarrow> task_db \<Rightarrow> (task_error + task_run_detail) \<times> task_db" where
  "claim_due_task now taskID expectedDueAt nextRunAt claimedAt0 db =
     (if taskID \<le> 0 \<or> is_zero expectedDueAt then (Inl (ErrInvalid ''scheduled claim''), db)
      else (let claimedAt = (if is_zero claimedAt0 then now else claimedAt0);
                isOnce = is_zero nextRunAt
            in if \<not> isOnce \<and> (\<not> nextRunAt > claimedAt \<or> \<not> nextRunAt > expectedDueAt)
               then (Inl (ErrInvalid ''next run time''), db)
               else if isOnce \<and> claimedAt < expectedDueAt then (Inl (ErrInvalid ''next run time''), db)
               else run_tx (claim_due_task_tx taskID expectedDueAt
                      (if isOnce then None else Some nextRunAt) isOnce claimedAt) db))"

definition script_run_of :: "automation_script \<Rightarrow> task_run" where
  "script_run_of script =
     \<lparr>rn_id = 0, rn_task_id = None, rn_script_id = Some (sc_id script), rn_task_name = [],
      rn_script_name = sc_name script, rn_script_revision = sc_revision script,
      rn_script_content = sc_content script, rn_timeout_seconds = sc_timeout_seconds script,
      rn_notification_policy = notification_policy_never, rn_notification_channels = [],
      rn_trigger = run_trigger_manual, rn_scheduled_for = None, rn_status = RunQueued,
      rn_total_targets = 0, rn_completed_targets = 0, rn_success_targets = 0, rn_failed_targets = 0,
      rn_error = [], rn_notification_sent = False, rn_notification_error = [],
      rn_notification_attempted_at = None, rn_started_at = None, rn_completed_at = None,
      rn_created_at = 0, rn_updated_at = 0\<rparr>"

definition create_manual_script_run ::
  "time \<Rightarrow> int \<Rightarrow> run_target_snapshot list \<Rightarrow> time \<Rightarrow> task_db \<Rightarrow> (task_error + task_run_detail) \<times> task_db" where
  "create_manual_script_run now scriptID targets0 createdAt0 db =
     (if scriptID \<le> 0 then (Inl (ErrInvalid ''script id''), db)
      else (case normalize_run_targets targets0 of Inl e \<Rightarrow> (Inl e, db)
       | Inr targets \<Rightarrow>
         (let createdAt = (if is_zero createdAt0 then now else createdAt0)
          in run_tx (\<lambda>db.
               bindE (get_automation_script_tx db scriptID) (\<lambda>script.
               create_task_run_tx (script_run_of script) targets TargetQueued [] createdAt db)) db)))"

definition create_manual_task_run_tx :: "int \<Rightarrow> time \<Rightarrow> task_db \<Rightarrow> task_error + task_run_detail \<times> task_db" where
  "create_manual_task_run_tx taskID createdAt db =
     bindE (lock_scheduled_task_tx db taskID) (\<lambda>_.
     bindE (get_scheduled_task_tx db taskID) (\<lambda>task.
     bindE (failIf (has_active_task_run_tx db taskID) (ErrConflict ''task has an active run'')) (\<lambda>_.
     let targets = load_run_target_snapshots_tx db taskID in
     bindE (failIf (targets = []) (ErrInvalid ''task targets'')) (\<lambda>_.
     bindE (get_automation_script_tx db (st_script_id task)) (\<lambda>script.
     create_task_run_tx (task_run_of task script run_trigger_manual None RunQueued []) targets
       TargetQueued [] createdAt db)))))"

definition create_manual_task_run ::
  "time \<Rightarrow> int \<Rightarrow> time \<Rightarrow> task_db \<Rightarrow> (task_error + task_run_detail) \<times> task_db" where
  "create_manual_task_run now taskID createdAt0 db =
     (if taskID \<le> 0 then (Inl (ErrInvalid ''task id''), db)
      else run_tx (create_manual_task_run_tx taskID (if is_zero createdAt0 then now else createdAt0)) db)"

section \<open>The life of a run\<close>

definition find_target :: "task_db \<Rightarrow> int \<Rightarrow> task_run_target option" where
  "find_target db i = List.find (\<lambda>t. tg_id t = i) (db_targets db)"

definition mark_run_target_running_tx :: "int \<Rightarrow> time \<Rightarrow> task_db \<Rightarrow> task_error + unit \<times> task_db" where
  "mark_run_target_running_tx targetID startedAt db =
     (case find_target db targetID of
        None \<Rightarrow> Inl (ErrNotFound ''run target'')
      | Some t0 \<Rightarrow>
        (let runID = tg_run_id t0;
             P = (\<lambda>t. tg_id t = targetID \<and> tg_status t = TargetQueued);
             Q = (\<lambda>r. rn_id r = runID \<and> run_is_active r)
         in bindE (failIf (count_rows P (db_targets db) \<noteq> 1) (ErrClaimLost ''run target'')) (\<lambda>_.
            bindE (failIf (count_rows Q (db_runs db) \<noteq> 1) (ErrClaimLost ''run'')) (\<lambda>_.
            Inr ((), db\<lparr>db_targets := update_rows P
                  (\<lambda>t. t\<lparr>tg_status := TargetRunning, tg_started_at := Some startedAt, tg_updated_at := startedAt\<rparr>)
                  (db_targets db),
                db_runs := update_rows Q
                  (\<lambda>r. r\<lparr>rn_status := RunRunning,
                        rn_started_at := (case rn_started_at r of None \<Rightarrow> Some startedAt | Some s \<Rightarrow> Some s),
                        rn_updated_at := startedAt\<rparr>)
                  (db_runs db)\<rparr>)))))"

definition mark_run_target_running :: "time \<Rightarrow> int \<Rightarrow> time \<Rightarrow> task_db \<Rightarrow> (task_error + unit) \<times> task_db" where
  "mark_run_target_running now targetID startedAt0 db =
     (if targetID \<le> 0 then (Inl (ErrInvalid ''run target id''), db)
      else run_tx (mark_run_target_running_tx targetID (if is_zero startedAt0 then now else startedAt0)) db)"

definition target_open :: "target_status \<Rightarrow> bool" where
  "target_open s \<longleftrightarrow> s = TargetQueued \<or> s = TargetRunning"

text \<open>The status of a run as a function of the six counts of \<open>aggregateRunTx\<close>.\<close>

definition aggregate_status :: "nat \<Rightarrow> nat \<Rightarrow> nat \<Rightarrow> nat \<Rightarrow> nat \<Rightarrow> nat \<Rightarrow> run_status" where
  "aggregate_status total_n completed succeeded skipped interrupted running =
     (if completed < total_n then (if running > 0 \<or> completed > 0 then RunRunning else RunQueued)
      else if total_n > 0 \<and> succeeded = total_n then RunSuccess
      else if total_n > 0 \<and> skipped = total_n then RunSkipped
      else if total_n > 0 \<and> interrupted = total_n then RunInterrupted
      else if succeeded > 0 then RunPartial
      else RunFailed)"

definition aggregate_of :: "task_run_target list \<Rightarrow> run_status" where
  "aggregate_of ts = aggregate_status (length ts)
     (count_rows (\<lambda>t. \<not> target_open (tg_status t)) ts)
     (count_rows (\<lambda>t. tg_status t = TargetSuccess) ts)
     (count_rows (\<lambda>t. tg_status t = TargetSkipped) ts)
     (count_rows (\<lambda>t. tg_status t = TargetInterrupted) ts)
     (count_rows (\<lambda>t. tg_status t = TargetRunning) ts)"

definition aggregate_row :: "task_run_target list \<Rightarrow> time \<Rightarrow> task_run \<Rightarrow> task_run" where
  "aggregate_row ts at r =
     (let total_n = length ts;
          completed = count_rows (\<lambda>t. \<not> target_open (tg_status t)) ts;
          succeeded = count_rows (\<lambda>t. tg_status t = TargetSuccess) ts;
          status = aggregate_of ts
      in r\<lparr>rn_status := status, rn_total_targets := total_n, rn_completed_targets := completed,
           rn_success_targets := succeeded, rn_failed_targets := completed - succeeded,
           rn_started_at := (if status = RunQueued then rn_started_at r
                             else case rn_started_at r of None \<Rightarrow> Some at | Some s \<Rightarrow> Some s),
           rn_completed_at := (if is_terminal_run_status status
                               then (case rn_completed_at r of None \<Rightarrow> Some at | Some c \<Rightarrow> Some c) else None),
           rn_updated_at := at\<rparr>)"

definition aggregate_run_tx :: "int \<Rightarrow> time \<Rightarrow> task_db \<Rightarrow> task_error + run_status \<times> task_db" where
  "aggregate_run_tx runID at db =
     (let ts = targets_of db runID
      in if length ts = 0 \<and> count_rows (\<lambda>r. rn_id r = runID) (db_runs db) = 0
         then Inl (ErrNotFound ''run'')
         else Inr (aggregate_of ts,
           db\<lparr>db_runs := update_rows (\<lambda>r. rn_id r = runID) (aggregate_row ts at) (db_runs db)\<rparr>))"

definition complete_row :: "run_target_result \<Rightarrow> time \<Rightarrow> task_run_target \<Rightarrow> task_run_target" where
  "complete_row result completedAt t =
     (let (output, truncated) = bound_task_text (rs_output result) max_task_output_bytes;
          safeError = fst (bound_task_text (rs_error result) max_task_error_bytes)
      in t\<lparr>tg_status := rs_status result, tg_exit_code := rs_exit_code result, tg_output := output,
           tg_output_truncated := (rs_output_truncated result \<or> truncated), tg_error := safeError,
           tg_duration_ms := rs_duration_ms result,
           tg_started_at := (case tg_started_at t of
              None \<Rightarrow> nullable_task_time (rs_started_at result) | Some s \<Rightarrow> Some s),
           tg_completed_at := Some completedAt, tg_updated_at := completedAt\<rparr>)"

definition complete_run_target_tx :: "int \<Rightarrow> run_target_result \<Rightarrow> time \<Rightarrow> task_db \<Rightarrow> task_error + int \<times> task_db" where
  "complete_run_target_tx targetID result completedAt db =
     (case find_target db targetID of
        None \<Rightarrow> Inl (ErrNotFound ''run target'')
      | Some t0 \<Rightarrow>
        (let P = (\<lambda>t. tg_id t = targetID \<and> target_open (tg_status t))
         in bindE (failIf (count_rows P (db_targets db) \<noteq> 1) (ErrClaimLost ''run target'')) (\<lambda>_.
            bindE (aggregate_run_tx (tg_run_id t0) completedAt
                     (db\<lparr>db_targets := update_rows P (complete_row result completedAt) (db_targets db)\<rparr>))
              (\<lambda>(_, db'). Inr (tg_run_id t0, db')))))"

definition complete_run_target ::
  "time \<Rightarrow> int \<Rightarrow> run_target_result \<Rightarrow> task_db \<Rightarrow> (task_error + task_run) \<times> task_db" where
  "complete_run_target now targetID result db =
     (if targetID \<le> 0 then (Inl (ErrInvalid ''run target id''), db)
      else if \<not> is_terminal_target_status (rs_status result) then (Inl (ErrInvalid ''run target status''), db)
      else if rs_duration_ms result < 0 then (Inl (ErrInvalid ''run target duration''), db)
      else (let completedAt = (if is_zero (rs_completed_at result) then now else rs_completed_at result)
            in case run_tx (complete_run_target_tx targetID result completedAt) db of
                 (Inl e, db') \<Rightarrow> (Inl e, db')
               | (Inr runID, db') \<Rightarrow> (get_run_summary db' runID, db')))"

definition aggregate_run :: "time \<Rightarrow> int \<Rightarrow> time \<Rightarrow> task_db \<Rightarrow> (task_error + task_run) \<times> task_db" where
  "aggregate_run now runID at0 db =
     (if runID \<le> 0 then (Inl (ErrInvalid ''run id''), db)
      else (case run_tx (aggregate_run_tx runID (if is_zero at0 then now else at0)) db of
              (Inl e, db') \<Rightarrow> (Inl e, db')
            | (Inr _, db') \<Rightarrow> (get_run_summary db' runID, db')))"

definition update_run_notification ::
  "time \<Rightarrow> int \<Rightarrow> bool \<Rightarrow> string \<Rightarrow> time \<Rightarrow> task_db \<Rightarrow> (task_error + unit) \<times> task_db" where
  "update_run_notification now runID sent err attemptedAt0 db =
     (if runID \<le> 0 then (Inl (ErrInvalid ''run id''), db)
      else (let attemptedAt = (if is_zero attemptedAt0 then now else attemptedAt0);
                err' = fst (bound_task_text err max_task_error_bytes);
                P = (\<lambda>r. rn_id r = runID)
            in if count_rows P (db_runs db) = 0 then (Inl (ErrNotFound ''run''), db)
               else (Inr (), db\<lparr>db_runs := update_rows P
                  (\<lambda>r. r\<lparr>rn_notification_sent := sent, rn_notification_error := err',
                        rn_notification_attempted_at := Some attemptedAt, rn_updated_at := attemptedAt\<rparr>)
                  (db_runs db)\<rparr>)))"

definition run_matches :: "task_db \<Rightarrow> run_filter \<Rightarrow> task_run \<Rightarrow> bool" where
  "run_matches db f r \<longleftrightarrow>
     (fl_before_id f > 0 \<longrightarrow> rn_id r < fl_before_id f)
     \<and> (case fl_from f of None \<Rightarrow> True | Some a \<Rightarrow> rn_created_at r \<ge> a)
     \<and> (case fl_to f of None \<Rightarrow> True | Some b \<Rightarrow> rn_created_at r \<le> b)
     \<and> (fl_status f \<noteq> [] \<longrightarrow> run_status_name (rn_status r) = fl_status f)
     \<and> (fl_task_id f > 0 \<longrightarrow> rn_task_id r = Some (fl_task_id f))
     \<and> (fl_script_id f > 0 \<longrightarrow> rn_script_id r = Some (fl_script_id f))
     \<and> (fl_trigger f \<noteq> [] \<longrightarrow> rn_trigger r = fl_trigger f)
     \<and> (fl_node_id f \<noteq> [] \<longrightarrow> (\<exists>t\<in>set (db_targets db). tg_run_id t = rn_id r \<and> tg_node_id t = fl_node_id f))"

text \<open>ORDER BY id DESC LIMIT limit + 1; the extra row only says that there is a next page.\<close>

definition list_runs :: "task_db \<Rightarrow> run_filter \<Rightarrow> task_error + run_page" where
  "list_runs db filter0 =
     bindE (normalize_run_filter filter0) (\<lambda>f.
     let limit = nat (fl_limit f);
         runs = take (limit + 1) (rev (sort_key rn_id (filter (run_matches db f) (db_runs db))))
     in Inr (if length runs > limit
             then \<lparr>pg_runs = take limit runs, pg_next_before_id = Some (rn_id (last (take limit runs)))\<rparr>
             else \<lparr>pg_runs = runs, pg_next_before_id = None\<rparr>))"

definition restarted_message :: string where
  "restarted_message = ''server restarted during execution''"

definition interrupt_targets :: "time \<Rightarrow> task_db \<Rightarrow> task_db" where
  "interrupt_targets at db =
     db\<lparr>db_targets := update_rows
          (\<lambda>t. target_open (tg_status t) \<and> (\<exists>r\<in>set (db_runs db). rn_id r = tg_run_id t \<and> run_is_active r))
          (\<lambda>t. t\<lparr>tg_status := TargetInterrupted, tg_error := restarted_message,
                tg_completed_at := Some at, tg_updated_at := at\<rparr>) (db_targets db)\<rparr>"

definition interrupt_run :: "time \<Rightarrow> int \<Rightarrow> task_db \<Rightarrow> task_error + task_db" where
  "interrupt_run at runID db =
     bindE (aggregate_run_tx runID at db) (\<lambda>(_, db').
     Inr (db'\<lparr>db_runs := update_rows (\<lambda>r. rn_id r = runID)
            (\<lambda>r. r\<lparr>rn_error := restarted_message, rn_status := RunInterrupted,
                  rn_completed_at := Some at, rn_updated_at := at\<rparr>) (db_runs db')\<rparr>))"

definition recover_interrupted_runs_tx :: "time \<Rightarrow> task_db \<Rightarrow> task_error + int \<times> task_db" where
  "recover_interrupted_runs_tx at db =
     (let db1 = interrupt_targets at db;
          runIDs = sort (map rn_id (filter run_is_active (db_runs db1)))
      in bindE (bind_all (interrupt_run at) runIDs db1) (\<lambda>db2. Inr (int (length runIDs), db2)))"

definition recover_interrupted_runs :: "time \<Rightarrow> time \<Rightarrow> task_db \<Rightarrow> (task_error + int) \<times> task_db" where
  "recover_interrupted_runs now at0 db =
     run_tx (recover_interrupted_runs_tx (if is_zero at0 then now else at0)) db"

text \<open>ON DELETE CASCADE to the run's targets.\<close>

definition delete_runs_older_than :: "time \<Rightarrow> task_db \<Rightarrow> (task_error + int) \<times> task_db" where
  "delete_runs_older_than cutoff db =
     (if is_zero cutoff then (Inl (ErrInvalid ''retention cutoff''), db)
      else (let P = (\<lambda>r. rn_created_at r < cutoff);
                gone = rn_id ` set (filter P (db_runs db))
            in (Inr (int (count_rows P (db_runs db))),
                db\<lparr>db_runs := delete_rows P (db_runs db),
                   db_targets := delete_rows (\<lambda>t. tg_run_id t \<in> gone) (db_targets db)\<rparr>)))"

end
