(* ===== verification/TaskInv.thy ===== *)
theory TaskInv
  imports TaskStore
begin

text \<open>
  The invariant of the task center's tables: row identity, references between the tables, the
  agreement of every run's status and counters with its targets, and that a task has at most one
  active run.  Each primitive change of the tables has one preservation lemma; the operations of
  \<^verbatim>\<open>TaskStore\<close> follow in \<open>TaskProps\<close>.
\<close>

section \<open>Aggregation\<close>

definition target_closed :: "task_run_target \<Rightarrow> bool" where
  "target_closed t \<longleftrightarrow> \<not> target_open (tg_status t)"

lemma terminal_not_open: "is_terminal_target_status st \<Longrightarrow> \<not> target_open st"
  by (cases st) (simp_all add: target_open_def)

lemma count_rows_less: "count_rows P rs < length rs \<longleftrightarrow> (\<exists>r\<in>set rs. \<not> P r)"
proof (induction rs)
  case (Cons r rs)
  then show ?case using count_rows_le [of P rs] by (auto simp: less_Suc_eq_le)
qed simp

lemma count_rows_full: "count_rows P rs = length rs \<longleftrightarrow> (\<forall>r\<in>set rs. P r)"
  using count_rows_less [of P rs] count_rows_le [of P rs] by auto

lemma active_iff_not_terminal: "run_is_active r \<longleftrightarrow> \<not> is_terminal_run_status (rn_status r)"
  by (cases "rn_status r") (simp_all add: run_is_active_def)

text \<open>A run is still active exactly when one of its targets is open.\<close>

lemma aggregate_of_terminal:
  "is_terminal_run_status (aggregate_of ts) \<longleftrightarrow> (\<forall>t\<in>set ts. target_closed t)"
  by (auto simp: aggregate_of_def aggregate_status_def target_closed_def count_rows_less)

lemma aggregate_of_running:
  "t \<in> set ts \<Longrightarrow> tg_status t = TargetRunning \<Longrightarrow> aggregate_of ts = RunRunning"
  by (auto simp: aggregate_of_def aggregate_status_def count_rows_less count_rows_pos target_open_def)

lemma aggregate_of_all_queued:
  assumes "ts \<noteq> []" "\<forall>t\<in>set ts. tg_status t = TargetQueued"
  shows "aggregate_of ts = RunQueued"
proof -
  have "count_rows (\<lambda>t. \<not> target_open (tg_status t)) ts = 0"
    "count_rows (\<lambda>t. tg_status t = TargetRunning) ts = 0"
    using assms(2) by (simp_all add: count_rows_eq_0 target_open_def)
  with assms(1) show ?thesis by (simp add: aggregate_of_def aggregate_status_def)
qed

lemma aggregate_of_all_skipped:
  assumes "ts \<noteq> []" "\<forall>t\<in>set ts. tg_status t = TargetSkipped"
  shows "aggregate_of ts = RunSkipped"
proof -
  have "count_rows (\<lambda>t. \<not> target_open (tg_status t)) ts = length ts"
    "count_rows (\<lambda>t. tg_status t = TargetSkipped) ts = length ts"
    using assms(2) by (simp_all add: count_rows_full target_open_def)
  moreover have "count_rows (\<lambda>t. tg_status t = TargetSuccess) ts = 0"
    using assms(2) by (simp add: count_rows_eq_0)
  ultimately show ?thesis using assms(1) by (simp add: aggregate_of_def aggregate_status_def)
qed

section \<open>The invariant\<close>

text \<open>A run agrees with its targets.  A recovered run is marked interrupted whatever its targets were.\<close>

definition counters_ok :: "task_run_target list \<Rightarrow> task_run \<Rightarrow> bool" where
  "counters_ok ts r \<longleftrightarrow> rn_total_targets r = length ts
     \<and> rn_completed_targets r = count_rows target_closed ts
     \<and> rn_success_targets r = count_rows (\<lambda>t. tg_status t = TargetSuccess) ts
     \<and> rn_failed_targets r = rn_completed_targets r - rn_success_targets r"

definition run_ok :: "task_run_target list \<Rightarrow> task_run \<Rightarrow> bool" where
  "run_ok ts r \<longleftrightarrow> ts \<noteq> [] \<and> counters_ok ts r
     \<and> (rn_status r = aggregate_of ts \<or> rn_status r = RunInterrupted \<and> (\<forall>t\<in>set ts. target_closed t))"

text \<open>Identity and references of the runs and targets.\<close>

definition rows_ok :: "task_db \<Rightarrow> bool" where
  "rows_ok db \<longleftrightarrow> distinct (map rn_id (db_runs db))
     \<and> 0 \<le> db_run_seq db \<and> (\<forall>r\<in>set (db_runs db). 0 < rn_id r \<and> rn_id r \<le> db_run_seq db)
     \<and> distinct (map tg_id (db_targets db))
     \<and> 0 \<le> db_target_seq db \<and> (\<forall>t\<in>set (db_targets db). 0 < tg_id t \<and> tg_id t \<le> db_target_seq db)
     \<and> (\<forall>t\<in>set (db_targets db). tg_run_id t \<in> rn_id ` set (db_runs db))"

text \<open>The runs with identifiers in \<open>S\<close> are still to be brought up to date; the others are.\<close>

definition runs_ok_outside :: "int set \<Rightarrow> task_db \<Rightarrow> bool" where
  "runs_ok_outside S db \<longleftrightarrow> (\<forall>r\<in>set (db_runs db). rn_id r \<notin> S \<longrightarrow> run_ok (targets_of db (rn_id r)) r)"

abbreviation runs_ok :: "task_db \<Rightarrow> bool" where "runs_ok \<equiv> runs_ok_outside {}"

definition active_count :: "task_db \<Rightarrow> int \<Rightarrow> nat" where
  "active_count db taskID = count_rows (\<lambda>r. rn_task_id r = Some taskID \<and> run_is_active r) (db_runs db)"

definition single_active :: "task_db \<Rightarrow> bool" where
  "single_active db \<longleftrightarrow> (\<forall>taskID. active_count db taskID \<le> 1)"

text \<open>Scripts, tasks and what refers to them.\<close>

definition refs_ok :: "task_db \<Rightarrow> bool" where
  "refs_ok db \<longleftrightarrow>
     distinct (map sc_id (db_scripts db)) \<and> distinct (map sc_normalized_name (db_scripts db))
     \<and> 0 \<le> db_script_seq db \<and> (\<forall>s\<in>set (db_scripts db). 0 < sc_id s \<and> sc_id s \<le> db_script_seq db)
     \<and> distinct (map tk_id (db_tasks db)) \<and> distinct (map tk_normalized_name (db_tasks db))
     \<and> 0 \<le> db_task_seq db \<and> (\<forall>t\<in>set (db_tasks db). 0 < tk_id t \<and> tk_id t \<le> db_task_seq db)
     \<and> (\<forall>t\<in>set (db_tasks db). tk_script_id t \<in> sc_id ` set (db_scripts db))
     \<and> (\<forall>r\<in>set (db_runs db). \<forall>i. rn_task_id r = Some i \<longrightarrow> i \<in> tk_id ` set (db_tasks db))
     \<and> (\<forall>r\<in>set (db_runs db). \<forall>i. rn_script_id r = Some i \<longrightarrow> i \<in> sc_id ` set (db_scripts db))"

definition task_db_inv :: "task_db \<Rightarrow> bool" where
  "task_db_inv db \<longleftrightarrow> rows_ok db \<and> runs_ok db \<and> single_active db \<and> refs_ok db"

lemmas inv_defs = rows_ok_def runs_ok_outside_def single_active_def active_count_def refs_ok_def

lemma task_db_invI [intro]:
  "rows_ok db \<Longrightarrow> runs_ok db \<Longrightarrow> single_active db \<Longrightarrow> refs_ok db \<Longrightarrow> task_db_inv db"
  by (simp add: task_db_inv_def)

lemma task_db_invD:
  assumes "task_db_inv db"
  shows "rows_ok db" "runs_ok db" "single_active db" "refs_ok db"
  using assms by (simp_all add: task_db_inv_def)

lemma task_db_inv_empty: "task_db_inv (empty_task_db nodes)"
  by (simp add: task_db_inv_def inv_defs empty_task_db_def)

lemma has_active_iff: "has_active_task_run_tx db i \<longleftrightarrow> 0 < active_count db i"
  by (simp add: has_active_task_run_tx_def active_count_def)

lemma run_ok_active: "run_ok ts r \<Longrightarrow> run_is_active r \<longleftrightarrow> (\<exists>t\<in>set ts. \<not> target_closed t)"
  using aggregate_of_terminal [of ts] by (auto simp: run_ok_def active_iff_not_terminal)

section \<open>Frames\<close>

text \<open>What an update of one table leaves alone.\<close>

lemma targets_of_frame [simp, frame]:
  "targets_of (db\<lparr>db_runs := rs\<rparr>) i = targets_of db i"
  "targets_of (db\<lparr>db_tasks := ts\<rparr>) i = targets_of db i"
  "targets_of (db\<lparr>db_scripts := ss\<rparr>) i = targets_of db i"
  "targets_of (db\<lparr>db_task_nodes := ns\<rparr>) i = targets_of db i"
  "targets_of (db\<lparr>db_script_seq := k\<rparr>) i = targets_of db i"
  "targets_of (db\<lparr>db_task_seq := k\<rparr>) i = targets_of db i"
  by (simp_all add: targets_of_def)

text \<open>Two databases with the same runs and targets satisfy the same run invariants.\<close>

lemma same_runs:
  assumes "db_runs db' = db_runs db" "db_run_seq db' = db_run_seq db"
    "db_targets db' = db_targets db" "db_target_seq db' = db_target_seq db"
  shows "rows_ok db' = rows_ok db" "runs_ok_outside S db' = runs_ok_outside S db"
    "single_active db' = single_active db"
  using assms by (simp_all add: inv_defs targets_of_def)

text \<open>
  Changing rows of \<open>task_runs\<close> without touching identity: the invariants only need that the change
  makes no run active and keeps its references.
\<close>

lemma update_runs_inv:
  assumes "rows_ok db" "single_active db"
    and "\<And>r. P r \<Longrightarrow> rn_id (f r) = rn_id r"
    and "\<And>r i. r \<in> set (db_runs db) \<Longrightarrow> P r \<Longrightarrow> rn_task_id (f r) = Some i \<Longrightarrow> run_is_active (f r) \<Longrightarrow>
           rn_task_id r = Some i \<and> run_is_active r"
  shows "rows_ok (db\<lparr>db_runs := update_rows P f (db_runs db)\<rparr>)"
    "single_active (db\<lparr>db_runs := update_rows P f (db_runs db)\<rparr>)"
proof -
  have "rn_id (if P r then f r else r) = rn_id r" for r using assms(3) by simp
  then have ids: "rn_id ` set (update_rows P f (db_runs db)) = rn_id ` set (db_runs db)"
    by (simp only: set_update_rows image_image)
  have "\<forall>r\<in>set (update_rows P f (db_runs db)). 0 < rn_id r \<and> rn_id r \<le> db_run_seq db"
  proof
    fix r assume "r \<in> set (update_rows P f (db_runs db))"
    with ids have "rn_id r \<in> rn_id ` set (db_runs db)" by blast
    with assms(1) show "0 < rn_id r \<and> rn_id r \<le> db_run_seq db" unfolding rows_ok_def by auto
  qed
  with assms(1) assms(3) ids show "rows_ok (db\<lparr>db_runs := update_rows P f (db_runs db)\<rparr>)"
    unfolding rows_ok_def by (simp add: map_update_rows)
  have "active_count (db\<lparr>db_runs := update_rows P f (db_runs db)\<rparr>) i \<le> active_count db i" for i
    unfolding active_count_def using assms(4) by (auto intro!: count_update_le)
  with assms(2) show "single_active (db\<lparr>db_runs := update_rows P f (db_runs db)\<rparr>)"
    unfolding single_active_def using order_trans by blast
qed

lemma refs_ok_update_runs:
  assumes "refs_ok db"
    and "\<And>r i. P r \<Longrightarrow> rn_task_id (f r) = Some i \<Longrightarrow> rn_task_id r = Some i"
    and "\<And>r i. P r \<Longrightarrow> rn_script_id (f r) = Some i \<Longrightarrow> rn_script_id r = Some i"
  shows "refs_ok (db\<lparr>db_runs := update_rows P f (db_runs db)\<rparr>)"
  using assms by (auto simp: refs_ok_def set_update_rows)

lemma refs_ok_targets [simp]:
  "refs_ok (db\<lparr>db_targets := ts\<rparr>) = refs_ok db" "refs_ok (db\<lparr>db_target_seq := k\<rparr>) = refs_ok db"
  "refs_ok (db\<lparr>db_run_seq := k\<rparr>) = refs_ok db" "refs_ok (db\<lparr>db_task_nodes := ns\<rparr>) = refs_ok db"
  by (simp_all add: refs_ok_def)

text \<open>Fields that no clause of the invariant of a run reads.\<close>

definition same_summary :: "task_run \<Rightarrow> task_run \<Rightarrow> bool" where
  "same_summary r q \<longleftrightarrow> rn_id r = rn_id q \<and> rn_status r = rn_status q \<and> rn_total_targets r = rn_total_targets q
     \<and> rn_completed_targets r = rn_completed_targets q \<and> rn_success_targets r = rn_success_targets q
     \<and> rn_failed_targets r = rn_failed_targets q"

lemma same_summary_run_ok: "same_summary r q \<Longrightarrow> run_ok ts r = run_ok ts q"
  by (simp add: same_summary_def run_ok_def counters_ok_def)

lemma update_run_details_inv:
  assumes "rows_ok db" "runs_ok db" "single_active db"
    and "\<And>r. P r \<Longrightarrow> same_summary (f r) r"
    and "\<And>r i. P r \<Longrightarrow> rn_task_id (f r) = Some i \<Longrightarrow> rn_task_id r = Some i"
  shows "rows_ok (db\<lparr>db_runs := update_rows P f (db_runs db)\<rparr>)"
    "runs_ok (db\<lparr>db_runs := update_rows P f (db_runs db)\<rparr>)"
    "single_active (db\<lparr>db_runs := update_rows P f (db_runs db)\<rparr>)"
proof -
  have s: "rn_id (f r) = rn_id r" "rn_status (f r) = rn_status r" if "P r" for r
    using assms(4) [OF that] by (simp_all add: same_summary_def)
  show "rows_ok (db\<lparr>db_runs := update_rows P f (db_runs db)\<rparr>)"
    "single_active (db\<lparr>db_runs := update_rows P f (db_runs db)\<rparr>)"
    using update_runs_inv [OF assms(1,3), of P f] s assms(5) by (auto simp: run_is_active_def)
  have "run_ok ts (f r) = run_ok ts r" if "P r" for ts r
    by (rule same_summary_run_ok) (rule assms(4) [OF that])
  then show "runs_ok (db\<lparr>db_runs := update_rows P f (db_runs db)\<rparr>)"
    using assms(2) s(1) by (auto simp: runs_ok_outside_def set_update_rows)
qed

section \<open>Inserting a run with its targets\<close>

lemma insert_run_targets_spec:
  assumes "insert_run_targets runID st err c at ts acc db = Inr (rows, db')"
  shows "\<exists>new. rows = acc @ new \<and> map sn_node_id ts = map tg_node_id new
    \<and> db' = db\<lparr>db_targets := db_targets db @ new, db_target_seq := db_target_seq db + int (length new)\<rparr>
    \<and> map tg_id new = map (\<lambda>k. db_target_seq db + 1 + int k) [0..<length new]
    \<and> (\<forall>t\<in>set new. tg_run_id t = runID \<and> tg_status t = st)"
  using assms
proof (induction ts arbitrary: acc db)
  case Nil
  then show ?case by (intro exI [of _ "[]"]) simp
next
  case (Cons t ts)
  let ?i = "db_target_seq db + 1"
  define row where "row = \<lparr>tg_id = ?i, tg_run_id = runID, tg_node_id = sn_node_id t,
    tg_node_name = sn_node_name t, tg_status = st, tg_exit_code = None, tg_output = [],
    tg_output_truncated = False, tg_error = err, tg_duration_ms = 0, tg_started_at = None,
    tg_completed_at = c, tg_created_at = at, tg_updated_at = at\<rparr>"
  define db1 where "db1 = db\<lparr>db_targets := db_targets db @ [row], db_target_seq := ?i\<rparr>"
  have row: "tg_run_id row = runID" "tg_status row = st" "tg_node_id row = sn_node_id t" "tg_id row = ?i"
    by (simp_all add: row_def)
  have rest: "insert_run_targets runID st err c at ts (acc @ [row]) db1 = Inr (rows, db')"
    using Cons.prems by (simp add: Let_def insert_target_row_def db1_def row_def split: if_splits)
  from Cons.IH [OF rest] obtain new where new: "rows = (acc @ [row]) @ new"
    "map sn_node_id ts = map tg_node_id new"
    "db' = db1\<lparr>db_targets := db_targets db1 @ new, db_target_seq := db_target_seq db1 + int (length new)\<rparr>"
    "map tg_id new = map (\<lambda>k. db_target_seq db1 + 1 + int k) [0..<length new]"
    "\<forall>t\<in>set new. tg_run_id t = runID \<and> tg_status t = st" by blast
  have "map tg_id (row # new) = map (\<lambda>k. db_target_seq db + 1 + int k) [0..<length (row # new)]"
    using row(4) new(4) by (simp add: db1_def upt_conv_Cons map_Suc_upt [symmetric] del: upt_Suc)
  with new row show ?case by (intro exI [of _ "row # new"]) (simp add: db1_def)
qed

text \<open>What a successful \<open>createTaskRunTx\<close> adds, for the two ways the code calls it.\<close>

lemma create_task_run_tx_spec:
  assumes "create_task_run_tx run targets st err at db = Inr (d, db')"
  shows "\<exists>r new. d = \<lparr>dt_run = r, dt_targets = new\<rparr>
    \<and> db' = db\<lparr>db_runs := db_runs db @ [r], db_run_seq := db_run_seq db + 1,
               db_targets := db_targets db @ new, db_target_seq := db_target_seq db + int (length new)\<rparr>
    \<and> rn_id r = db_run_seq db + 1 \<and> rn_status r = rn_status run \<and> rn_task_id r = rn_task_id run
    \<and> rn_script_id r = rn_script_id run \<and> rn_error r = rn_error run
    \<and> rn_scheduled_for r = nullable_task_time (rn_scheduled_for run) \<and> rn_trigger r = rn_trigger run
    \<and> rn_notification_policy r = rn_notification_policy run
    \<and> rn_total_targets r = length new
    \<and> rn_completed_targets r = (if is_terminal_run_status (rn_status run) then length new else 0)
    \<and> rn_success_targets r = 0 \<and> rn_failed_targets r = rn_completed_targets r
    \<and> map sn_node_id targets = map tg_node_id new
    \<and> map tg_id new = map (\<lambda>k. db_target_seq db + 1 + int k) [0..<length new]
    \<and> (\<forall>t\<in>set new. tg_run_id t = rn_id r \<and> tg_status t = st)
    \<and> (\<forall>i. rn_task_id run = Some i \<longrightarrow> find_task_row db i \<noteq> None)
    \<and> (\<forall>i. rn_script_id run = Some i \<longrightarrow> find_script db i \<noteq> None)"
proof -
  let ?i = "db_run_seq db + 1"
  define stamp where "stamp = (if is_terminal_run_status (rn_status run) then Some at else None)"
  define k where "k = (if is_terminal_run_status (rn_status run) then length targets else 0)"
  define r where "r = run\<lparr>rn_scheduled_for := nullable_task_time (rn_scheduled_for run),
    rn_total_targets := length targets, rn_completed_targets := k,
    rn_success_targets := 0, rn_failed_targets := k,
    rn_notification_sent := False, rn_notification_error := [], rn_notification_attempted_at := None,
    rn_started_at := stamp, rn_completed_at := stamp, rn_created_at := at, rn_updated_at := at, rn_id := ?i\<rparr>"
  define db1 where "db1 = db\<lparr>db_runs := db_runs db @ [r], db_run_seq := ?i\<rparr>"
  from assms obtain new where d: "d = \<lparr>dt_run = r, dt_targets = new\<rparr>"
    and fk: "\<forall>i. rn_task_id run = Some i \<longrightarrow> find_task_row db i \<noteq> None"
      "\<forall>i. rn_script_id run = Some i \<longrightarrow> find_script db i \<noteq> None"
    and rest: "insert_run_targets ?i st err stamp at targets [] db1 = Inr (new, db')"
    unfolding create_task_run_tx_def Let_def insert_run_row_def stamp_def [symmetric] k_def [symmetric]
    by (auto simp: result_iff r_def db1_def k_def stamp_def simp del: is_terminal_run_status.simps split: if_split_asm)
  from insert_run_targets_spec [OF rest] have new: "map sn_node_id targets = map tg_node_id new"
    "db' = db1\<lparr>db_targets := db_targets db1 @ new, db_target_seq := db_target_seq db1 + int (length new)\<rparr>"
    "map tg_id new = map (\<lambda>k. db_target_seq db1 + 1 + int k) [0..<length new]"
    "\<forall>t\<in>set new. tg_run_id t = ?i \<and> tg_status t = st" by auto
  have "length targets = length new" using new(1) by (metis length_map)
  with d fk new show ?thesis
    by (intro exI [of _ r] exI [of _ new])
      (simp add: r_def db1_def k_def del: is_terminal_run_status.simps)
qed

end
