(* ===== verification/TaskProps.thy ===== *)
theory TaskProps
  imports TaskInv
begin

text \<open>
  Every operation of the task store keeps the invariant of \<open>TaskInv\<close>, alone and in any sequence,
  and what each operation guarantees: claims, target results, recovery, paging and references.
\<close>

section \<open>Updating and inserting keyed rows\<close>

lemma update_rows_twice:
  "(\<And>r. P r \<Longrightarrow> P (f r)) \<Longrightarrow> update_rows P g (update_rows P f rs) = update_rows P (\<lambda>r. g (f r)) rs"
  by (induction rs) auto

text \<open>Writing a unique column of the row with key \<open>i\<close> after checking the other rows.\<close>

lemma distinct_update_unique:
  assumes "distinct (map k rs)" "distinct (map u rs)"
    and "\<And>r. k (f r) = k r" "\<And>r. u (f r) = v"
    and "\<forall>q\<in>set rs. k q \<noteq> i \<longrightarrow> u q \<noteq> v"
  shows "distinct (map u (update_rows (\<lambda>r. k r = i) f rs))"
  using assms
proof (induction rs)
  case (Cons r rs)
  have ne: "\<forall>q\<in>set rs. k q \<noteq> k r"
    using Cons.prems(1) by (metis distinct.simps(2) image_eqI list.map(2) set_map)
  have eq: "update_rows (\<lambda>r. k r = i) f rs = rs" if "k r = i"
    using that ne by (intro update_rows_id) auto
  have "u r \<notin> u ` set (update_rows (\<lambda>r. k r = i) f rs)" if "k r \<noteq> i"
    using that Cons.prems by (auto simp: set_update_rows split: if_splits)
  moreover have "v \<notin> u ` set rs" if "k r = i"
    using that ne Cons.prems(5) by auto
  ultimately show ?case using Cons eq by auto
qed simp

lemma distinct_append_fresh:
  "distinct (map k rs) \<Longrightarrow> \<forall>q\<in>set rs. k q \<noteq> k r \<Longrightarrow> distinct (map k (rs @ [r]))"
  by auto

lemma image_update_rows:
  assumes "\<And>r. P r \<Longrightarrow> k (f r) = k r"
  shows "k ` set (update_rows P f rs) = k ` set rs"
proof -
  have "k (if P r then f r else r) = k r" for r using assms by simp
  then show ?thesis by (simp only: set_update_rows image_image)
qed

lemma exists_update_row:
  "\<exists>r\<in>set rs. k r = i \<Longrightarrow> (\<And>r. k r = i \<Longrightarrow> k (f r) = i) \<Longrightarrow> \<exists>r\<in>set (update_rows P f rs). k r = i"
  by (induction rs) auto

lemma image_remaining:
  assumes "x \<in> k ` set rs" "x \<noteq> i" shows "x \<in> k ` {r \<in> set rs. k r \<noteq> i}"
  using assms by auto

section \<open>Scripts and tasks\<close>

lemma find_script_iff: "find_script db i = None \<longleftrightarrow> i \<notin> sc_id ` set (db_scripts db)"
  by (auto simp: find_script_def find_None_set)

lemma find_task_iff: "find_task_row db i = None \<longleftrightarrow> i \<notin> tk_id ` set (db_tasks db)"
  by (auto simp: find_task_row_def find_None_set)

lemma create_script_inv: "task_db_inv db \<Longrightarrow> task_db_inv (snd (create_script ul now script db))"
proof -
  assume inv: "task_db_inv db"
  have "task_db_inv db'" if "insert_script_row s db = Inr (i, db')" for s i db'
  proof -
    from that have db': "db' = db\<lparr>db_scripts := db_scripts db @ [s\<lparr>sc_id := db_script_seq db + 1\<rparr>],
        db_script_seq := db_script_seq db + 1\<rparr>"
      and new: "\<forall>q\<in>set (db_scripts db). sc_normalized_name q \<noteq> sc_normalized_name s"
      by (auto simp: insert_script_row_def Let_def split: if_splits)
    have "refs_ok db'" using task_db_invD(4) [OF inv] new unfolding refs_ok_def db' by force
    with task_db_invD [OF inv] same_runs [of db' db] show ?thesis by (intro task_db_invI) (simp_all add: db')
  qed
  with inv show ?thesis by (auto simp: create_script_def split: option.splits sum.splits)
qed

lemma update_scripts_inv:
  assumes "task_db_inv db" "\<And>q. sc_id (f q) = sc_id q" "\<And>q. sc_normalized_name (f q) = v"
    and "\<forall>q\<in>set (db_scripts db). sc_id q \<noteq> i \<longrightarrow> sc_normalized_name q \<noteq> v"
  shows "task_db_inv (db\<lparr>db_scripts := update_rows (\<lambda>q. sc_id q = i) f (db_scripts db)\<rparr>)" (is "task_db_inv ?db'")
proof -
  have ids: "sc_id ` set (db_scripts ?db') = sc_id ` set (db_scripts db)"
    using assms(2) by (simp add: image_update_rows)
  have "\<forall>s\<in>set (db_scripts ?db'). 0 < sc_id s \<and> sc_id s \<le> db_script_seq db"
    using task_db_invD(4) [OF assms(1)] assms(2) by (auto simp: refs_ok_def set_update_rows)
  moreover have "distinct (map sc_normalized_name (db_scripts ?db'))"
    using task_db_invD(4) [OF assms(1)] assms(2-4)
    by (auto simp: refs_ok_def intro!: distinct_update_unique)
  ultimately have "refs_ok ?db'"
    using task_db_invD(4) [OF assms(1)] assms(2) ids unfolding refs_ok_def
    by (simp add: map_update_rows)
  with task_db_invD [OF assms(1)] same_runs [of ?db' db] show ?thesis by (intro task_db_invI) simp_all
qed

lemma update_script_inv: "task_db_inv db \<Longrightarrow> task_db_inv (snd (update_script ul now script db))"
  by (auto simp: update_script_def Let_def count_rows_eq_0 split: option.splits sum.splits if_splits
      intro!: update_scripts_inv)

lemma delete_script_inv:
  assumes inv: "task_db_inv db"
  shows "task_db_inv (snd (delete_script i db))"
proof -
  let ?f = "\<lambda>r. r\<lparr>rn_script_id := None\<rparr>" and ?P = "\<lambda>r. rn_script_id r = Some i"
  let ?db' = "db\<lparr>db_runs := update_rows ?P ?f (db_runs db)\<rparr>"
  have runs: "rows_ok ?db'" "runs_ok ?db'" "single_active ?db'" and refs: "refs_ok ?db'"
    using update_run_details_inv [of db ?P ?f] refs_ok_update_runs [of db ?P ?f] task_db_invD [OF inv]
    by (simp_all add: same_summary_def)
  have "task_db_inv (db\<lparr>db_scripts := delete_rows (\<lambda>s. sc_id s = i) (db_scripts db),
      db_runs := update_rows ?P ?f (db_runs db)\<rparr>)" (is "task_db_inv ?db2")
    if "\<forall>t\<in>set (db_tasks db). tk_script_id t \<noteq> i"
  proof (intro task_db_invI)
    show "rows_ok ?db2" "runs_ok ?db2" "single_active ?db2"
      using runs same_runs [of ?db2 ?db'] by simp_all
    have "\<forall>r\<in>set (db_runs ?db'). rn_script_id r \<noteq> Some i" by (auto simp: set_update_rows)
    with refs that show "refs_ok ?db2"
      unfolding refs_ok_def by (auto simp: distinct_map_delete_rows intro!: image_remaining)
  qed
  with inv show ?thesis
    by (auto simp: delete_script_def run_tx_def delete_script_row_def Let_def count_rows_eq_0
        split: sum.splits if_splits)
qed

lemma replace_nodes_frame [frame]:
  assumes "replace_scheduled_task_nodes_tx i ids at db = Inr db'"
  shows "\<exists>ns. db' = db\<lparr>db_task_nodes := ns\<rparr>"
proof -
  have "bind_all (insert_task_node i at) ids db = Inr db' \<Longrightarrow> \<exists>ns. db' = db\<lparr>db_task_nodes := ns\<rparr>" for db
  proof (induction ids arbitrary: db)
    case Nil
    then show ?case by (intro exI [of _ "db_task_nodes db"]) simp
  next
    case (Cons n ids)
    then obtain db1 where db1: "insert_task_node i at n db = Inr db1" "bind_all (insert_task_node i at) ids db1 = Inr db'"
      by (auto simp: result_iff)
    then obtain ms where "db1 = db\<lparr>db_task_nodes := ms\<rparr>"
      by (auto simp: insert_task_node_def split: if_splits)
    with Cons.IH [OF db1(2)] show ?case by auto
  qed
  with assms show ?thesis by (fastforce simp: replace_scheduled_task_nodes_tx_def)
qed

text \<open>The invariant does not read the node lists of the tasks.\<close>

lemma task_nodes_inv [simp]: "task_db_inv (db\<lparr>db_task_nodes := ns\<rparr>) = task_db_inv db"
  using same_runs [of "db\<lparr>db_task_nodes := ns\<rparr>" db] by (simp add: task_db_inv_def)

lemma insert_task_row_inv:
  assumes inv: "task_db_inv db" and ins: "insert_task_row t db = Inr (i, db')"
    and s: "tk_script_id t \<in> sc_id ` set (db_scripts db)"
  shows "task_db_inv db'"
proof -
  from ins have db': "db' = db\<lparr>db_tasks := db_tasks db @ [t\<lparr>tk_id := db_task_seq db + 1\<rparr>],
      db_task_seq := db_task_seq db + 1\<rparr>"
    and new: "\<forall>q\<in>set (db_tasks db). tk_normalized_name q \<noteq> tk_normalized_name t"
    by (auto simp: insert_task_row_def Let_def split: if_splits)
  have "refs_ok db'" using task_db_invD(4) [OF inv] new s unfolding refs_ok_def db' by force
  with task_db_invD [OF inv] same_runs [of db' db] show ?thesis by (intro task_db_invI) (simp_all add: db')
qed

lemma create_scheduled_task_tx_inv:
  assumes "task_db_inv db" "create_scheduled_task_tx task now db = Inr (i, db')"
  shows "task_db_inv db'"
proof -
  define timeout where "timeout s = (if st_timeout_seconds task = 0 then sc_timeout_seconds s else st_timeout_seconds task)"
    for s :: automation_script
  from assms(2) obtain s db1 where s: "find_script db (st_script_id task) = Some s"
    and ins: "insert_task_row (task_row_of task (timeout s) now) db = Inr (i, db1)"
    and nodes: "replace_scheduled_task_nodes_tx i (st_node_ids task) now db1 = Inr db'"
    unfolding create_scheduled_task_tx_def Let_def timeout_def [symmetric]
    by (auto simp: result_iff get_automation_script_tx_def split: option.splits sum.splits)
  have "task_db_inv db1"
    using insert_task_row_inv [OF assms(1) ins] find_script_iff [of db "st_script_id task"] s
    by (simp add: task_row_of_def)
  with replace_nodes_frame [OF nodes] show ?thesis by auto
qed

lemma create_scheduled_task_inv: "task_db_inv db \<Longrightarrow> task_db_inv (snd (create_scheduled_task ul now t db))"
  by (auto simp: create_scheduled_task_def run_tx_def split: option.splits sum.splits
      dest: create_scheduled_task_tx_inv)

text \<open>Changing the row of one task, with its name still unique and its script present.\<close>

lemma update_task_rows_refs:
  assumes "refs_ok db" "\<And>q. P q \<Longrightarrow> tk_id (f q) = tk_id q"
    and "\<And>q. P q \<Longrightarrow> tk_script_id (f q) \<in> sc_id ` set (db_scripts db) \<or> tk_script_id (f q) = tk_script_id q"
    and "distinct (map tk_normalized_name (update_rows P f (db_tasks db)))"
  shows "refs_ok (db\<lparr>db_tasks := update_rows P f (db_tasks db)\<rparr>)" (is "refs_ok ?db'")
proof -
  have ids: "tk_id ` set (db_tasks ?db') = tk_id ` set (db_tasks db)"
    using assms(2) by (simp add: image_update_rows)
  have "\<forall>t\<in>set (db_tasks ?db'). 0 < tk_id t \<and> tk_id t \<le> db_task_seq db"
    "\<forall>t\<in>set (db_tasks ?db'). tk_script_id t \<in> sc_id ` set (db_scripts db)"
    using assms(1-3) by (auto simp: refs_ok_def set_update_rows) metis
  with assms ids show ?thesis unfolding refs_ok_def by (simp add: map_update_rows)
qed

lemma update_task_rows_inv:
  assumes "task_db_inv db" "refs_ok (db\<lparr>db_tasks := ts\<rparr>)"
  shows "task_db_inv (db\<lparr>db_tasks := ts\<rparr>)"
  using task_db_invD [OF assms(1)] same_runs [of "db\<lparr>db_tasks := ts\<rparr>" db] assms(2)
  by (intro task_db_invI) simp_all

lemma update_scheduled_task_tx_inv:
  assumes inv: "task_db_inv db" and upd: "update_scheduled_task_tx task now db = Inr (u, db')"
  shows "task_db_inv db'"
proof -
  define timeout where "timeout s = (if st_timeout_seconds task = 0 then sc_timeout_seconds s else st_timeout_seconds task)"
    for s :: automation_script
  define f where "f s q = (task_row_of task (timeout s) now)
      \<lparr>tk_last_scheduled_at := tk_last_scheduled_at q, tk_created_at := tk_created_at q\<rparr>"
    for s and q :: task_row
  let ?P = "\<lambda>q. tk_id q = st_id task"
  from upd obtain s where s: "find_script db (st_script_id task) = Some s"
    and name: "\<forall>q\<in>set (db_tasks db). tk_id q \<noteq> st_id task \<longrightarrow> tk_normalized_name q \<noteq> st_normalized_name task"
    and nodes: "replace_scheduled_task_nodes_tx (st_id task) (st_node_ids task) now
        (db\<lparr>db_tasks := update_rows ?P (f s) (db_tasks db)\<rparr>) = Inr db'"
    unfolding update_scheduled_task_tx_def Let_def timeout_def [symmetric] f_def [symmetric]
    by (auto simp: result_iff get_automation_script_tx_def split: option.splits sum.splits if_splits)
  have f: "tk_id (f s q) = st_id task" "tk_script_id (f s q) = st_script_id task"
    "tk_normalized_name (f s q) = st_normalized_name task" for q
    by (simp_all add: f_def task_row_of_def)
  have "distinct (map tk_normalized_name (update_rows ?P (\<lambda>q. (f s q)\<lparr>tk_id := tk_id q\<rparr>) (db_tasks db)))"
    using task_db_invD(4) [OF inv] name f by (intro distinct_update_unique) (auto simp: refs_ok_def)
  moreover have "update_rows ?P (\<lambda>q. (f s q)\<lparr>tk_id := tk_id q\<rparr>) (db_tasks db) = update_rows ?P (f s) (db_tasks db)"
    using f(1) by (auto simp: update_rows_def)
  moreover have "st_script_id task \<in> sc_id ` set (db_scripts db)"
    using s find_script_iff [of db "st_script_id task"] by auto
  ultimately have "task_db_inv (db\<lparr>db_tasks := update_rows ?P (f s) (db_tasks db)\<rparr>)"
    using task_db_invD(4) [OF inv] f by (intro update_task_rows_inv [OF inv] update_task_rows_refs) auto
  with replace_nodes_frame [OF nodes] show ?thesis by auto
qed

lemma update_scheduled_task_inv: "task_db_inv db \<Longrightarrow> task_db_inv (snd (update_scheduled_task ul now t db))"
  by (auto simp: update_scheduled_task_def run_tx_def split: option.splits sum.splits
      dest: update_scheduled_task_tx_inv)

lemma keep_task_rows_inv:
  assumes inv: "task_db_inv db" and "\<And>q. P q \<Longrightarrow> tk_id (f q) = tk_id q"
    "\<And>q. P q \<Longrightarrow> tk_script_id (f q) = tk_script_id q" "\<And>q. P q \<Longrightarrow> tk_normalized_name (f q) = tk_normalized_name q"
  shows "task_db_inv (db\<lparr>db_tasks := update_rows P f (db_tasks db)\<rparr>)"
  using task_db_invD(4) [OF inv] assms
  by (intro update_task_rows_inv [OF inv] update_task_rows_refs) (auto simp: map_update_rows refs_ok_def)

lemma set_scheduled_task_enabled_inv:
  "task_db_inv db \<Longrightarrow> task_db_inv (snd (set_scheduled_task_enabled now i en nxt db))"
  by (auto simp: set_scheduled_task_enabled_def set_enabled_tx_def run_tx_def result_iff
      split: sum.splits if_splits intro!: keep_task_rows_inv)

lemma delete_task_rows_inv:
  assumes inv: "task_db_inv db"
  shows "task_db_inv (delete_task_rows i db)"
proof -
  let ?f = "\<lambda>r. r\<lparr>rn_task_id := None\<rparr>" and ?P = "\<lambda>r. rn_task_id r = Some i"
  let ?db' = "db\<lparr>db_runs := update_rows ?P ?f (db_runs db)\<rparr>"
  let ?db2 = "db\<lparr>db_tasks := delete_rows (\<lambda>t. tk_id t = i) (db_tasks db),
      db_runs := update_rows ?P ?f (db_runs db)\<rparr>"
  have runs: "rows_ok ?db'" "runs_ok ?db'" "single_active ?db'" and refs: "refs_ok ?db'"
    using update_run_details_inv [of db ?P ?f] refs_ok_update_runs [of db ?P ?f] task_db_invD [OF inv]
    by (simp_all add: same_summary_def)
  have "\<forall>r\<in>set (db_runs ?db'). rn_task_id r \<noteq> Some i" by (auto simp: set_update_rows)
  with refs have "refs_ok ?db2"
    unfolding refs_ok_def by (auto simp: distinct_map_delete_rows intro!: image_remaining)
  with runs same_runs [of ?db2 ?db'] have "task_db_inv ?db2" by (intro task_db_invI) simp_all
  moreover have "delete_task_rows i db =
      ?db2\<lparr>db_task_nodes := delete_rows (\<lambda>n. tn_task_id n = i) (db_task_nodes db)\<rparr>"
    by (simp add: delete_task_rows_def)
  ultimately show ?thesis using task_nodes_inv by metis
qed

lemma delete_scheduled_task_inv: "task_db_inv db \<Longrightarrow> task_db_inv (snd (delete_scheduled_task i db))"
  by (auto simp: delete_scheduled_task_def run_tx_def result_iff delete_task_rows_inv
      split: sum.splits if_splits)

section \<open>Runs\<close>

text \<open>A new run with its targets.\<close>

lemma add_run_inv:
  assumes inv: "task_db_inv db" and new: "new \<noteq> []"
    and db': "db' = db\<lparr>db_runs := db_runs db @ [r], db_run_seq := db_run_seq db + 1,
               db_targets := db_targets db @ new, db_target_seq := db_target_seq db + int (length new)\<rparr>"
    and r: "rn_id r = db_run_seq db + 1" and ok: "run_ok new r"
    and ids: "map tg_id new = map (\<lambda>k. db_target_seq db + 1 + int k) [0..<length new]"
    and tg: "\<forall>t\<in>set new. tg_run_id t = rn_id r"
    and fk: "\<forall>i. rn_task_id r = Some i \<longrightarrow> find_task_row db i \<noteq> None"
      "\<forall>i. rn_script_id r = Some i \<longrightarrow> find_script db i \<noteq> None"
    and act: "\<forall>i. rn_task_id r = Some i \<longrightarrow> run_is_active r \<longrightarrow> active_count db i = 0"
  shows "task_db_inv db'"
proof (intro task_db_invI)
  note rows = task_db_invD(1) [OF inv, unfolded rows_ok_def]
  have "tg_id ` set new = (\<lambda>k. db_target_seq db + 1 + int k) ` {0..<length new}"
    using ids by (metis set_map set_upt)
  then have "\<forall>j\<in>tg_id ` set new. db_target_seq db < j \<and> j \<le> db_target_seq db + int (length new)"
    by (simp only:) auto
  then have bound: "\<forall>t\<in>set new. db_target_seq db < tg_id t \<and> tg_id t \<le> db_target_seq db + int (length new)"
    by blast
  moreover have "distinct (map tg_id new)" by (simp add: ids distinct_map inj_on_def)
  ultimately have "distinct (map tg_id (db_targets db'))" using rows by (fastforce simp: db')
  moreover have "distinct (map rn_id (db_runs db'))" using rows r by (fastforce simp: db')
  ultimately show "rows_ok db'"
    using rows bound r tg unfolding rows_ok_def db' by auto
  have old: "targets_of db' i = targets_of db i" if "i \<noteq> rn_id r" for i
    using that tg by (auto simp: targets_of_def db' filter_empty_conv)
  have "targets_of db (rn_id r) = []"
    using rows r by (force simp: targets_of_def filter_empty_conv)
  then have "targets_of db' (rn_id r) = new" using tg by (simp add: targets_of_def db')
  moreover have "\<forall>q\<in>set (db_runs db). rn_id q \<noteq> rn_id r" using rows r by force
  ultimately show "runs_ok db'"
    using task_db_invD(2) [OF inv] ok old by (auto simp: runs_ok_outside_def db')
  show "single_active db'"
    using task_db_invD(3) [OF inv] act by (auto simp: single_active_def active_count_def db')
  show "refs_ok db'"
  proof -
    have "\<forall>i. rn_task_id r = Some i \<longrightarrow> i \<in> tk_id ` set (db_tasks db)"
      "\<forall>i. rn_script_id r = Some i \<longrightarrow> i \<in> sc_id ` set (db_scripts db)"
      using fk find_task_iff [of db] find_script_iff [of db] by metis+
    moreover have "db_scripts db' = db_scripts db" "db_tasks db' = db_tasks db" "db_runs db' = db_runs db @ [r]"
      "db_script_seq db' = db_script_seq db" "db_task_seq db' = db_task_seq db"
      by (simp_all add: db')
    ultimately show ?thesis using task_db_invD(4) [OF inv]
      by (simp only: refs_ok_def set_append Un_iff list.set empty_iff insert_iff ball_Un) blast
  qed
qed

text \<open>\<open>createTaskRunTx\<close> as its callers use it: a queued run with queued targets, or a skipped one.\<close>

lemma create_task_run_tx_inv:
  assumes inv: "task_db_inv db" and ok: "create_task_run_tx run targets st err at db = Inr (d, db')"
    and ne: "targets \<noteq> []"
    and st: "rn_status run = RunQueued \<and> st = TargetQueued \<or> rn_status run = RunSkipped \<and> st = TargetSkipped"
    and act: "\<forall>i. rn_task_id run = Some i \<longrightarrow> rn_status run = RunQueued \<longrightarrow> active_count db i = 0"
  shows "task_db_inv db'"
proof -
  from create_task_run_tx_spec [OF ok] obtain r new where
    db': "db' = db\<lparr>db_runs := db_runs db @ [r], db_run_seq := db_run_seq db + 1,
               db_targets := db_targets db @ new, db_target_seq := db_target_seq db + int (length new)\<rparr>"
    and r: "rn_id r = db_run_seq db + 1" "rn_status r = rn_status run" "rn_task_id r = rn_task_id run"
      "rn_script_id r = rn_script_id run"
    and counts: "rn_total_targets r = length new"
      "rn_completed_targets r = (if is_terminal_run_status (rn_status run) then length new else 0)"
      "rn_success_targets r = 0" "rn_failed_targets r = rn_completed_targets r"
    and nodes: "map sn_node_id targets = map tg_node_id new"
    and ids: "map tg_id new = map (\<lambda>k. db_target_seq db + 1 + int k) [0..<length new]"
    and tg: "\<forall>t\<in>set new. tg_run_id t = rn_id r \<and> tg_status t = st"
    and fk: "\<forall>i. rn_task_id run = Some i \<longrightarrow> find_task_row db i \<noteq> None"
      "\<forall>i. rn_script_id run = Some i \<longrightarrow> find_script db i \<noteq> None" by blast
  have new: "new \<noteq> []" using ne nodes by auto
  have zero: "count_rows (\<lambda>t. tg_status t = TargetSuccess) new = 0"
    using st tg by (auto simp: count_rows_eq_0)
  have "run_ok new r"
  proof (cases "rn_status run = RunQueued")
    case True
    with st have "st = TargetQueued" by auto
    with tg have "count_rows target_closed new = 0" "aggregate_of new = RunQueued"
      using new by (auto simp: count_rows_eq_0 target_closed_def target_open_def intro!: aggregate_of_all_queued)
    with True new zero counts r show ?thesis by (simp add: run_ok_def counters_ok_def)
  next
    case False
    with st have s: "rn_status run = RunSkipped" "st = TargetSkipped" by auto
    with tg have "count_rows target_closed new = length new" "aggregate_of new = RunSkipped"
      using new by (auto simp: count_rows_full target_closed_def target_open_def intro!: aggregate_of_all_skipped)
    with s new zero counts r show ?thesis by (simp add: run_ok_def counters_ok_def)
  qed
  moreover have "\<forall>i. rn_task_id r = Some i \<longrightarrow> run_is_active r \<longrightarrow> active_count db i = 0"
    using act st r by (auto simp: run_is_active_def)
  ultimately show ?thesis
    using add_run_inv [OF inv new db' r(1)] ids tg fk r by auto
qed

text \<open>The three operations that create runs.\<close>

lemma load_run_targets_frame [simp, frame]:
  "load_run_target_snapshots_tx (db\<lparr>db_tasks := ts\<rparr>) i = load_run_target_snapshots_tx db i"
  by (simp add: load_run_target_snapshots_tx_def load_scheduled_task_node_ids_def)

lemma task_run_of_fields [simp]:
  "rn_status (task_run_of t s tr f st e) = st" "rn_task_id (task_run_of t s tr f st e) = Some (st_id t)"
  "rn_script_id (task_run_of t s tr f st e) = Some (st_script_id t)"
  "rn_scheduled_for (task_run_of t s tr f st e) = f" "rn_trigger (task_run_of t s tr f st e) = tr"
  "rn_error (task_run_of t s tr f st e) = e"
  by (simp_all add: task_run_of_def)

lemma get_scheduled_task_tx_id: "get_scheduled_task_tx db i = Inr t \<Longrightarrow> st_id t = i"
  by (auto simp: get_scheduled_task_tx_def join_script_def scan_scheduled_task_def find_task_row_def bind_eq_Some_conv
      split: option.splits dest!: find_Some_set)

text \<open>What a successful claim did, step by step.\<close>

lemma claim_due_task_tx_steps:
  assumes "claim_due_task_tx taskID due nxt once at db = Inr (d, db')"
  obtains task script db1 active where
    "count_rows (claimable taskID due once) (db_tasks db) = 1"
    "db1 = db\<lparr>db_tasks := update_rows (claimable taskID due once) (advance_row due nxt at) (db_tasks db)\<rparr>"
    "get_scheduled_task_tx db1 taskID = Inr task" "st_id task = taskID"
    "load_run_target_snapshots_tx db taskID \<noteq> []"
    "active = has_active_task_run_tx db taskID"
    "create_task_run_tx (task_run_of task script run_trigger_scheduled (Some due)
        (if active then RunSkipped else RunQueued) (if active then ''overlap'' else []))
      (load_run_target_snapshots_tx db taskID) (if active then TargetSkipped else TargetQueued)
      (if active then ''overlap'' else []) at db1 = Inr (d, db')"
proof -
  define db1 where "db1 = db\<lparr>db_tasks := update_rows (claimable taskID due once) (advance_row due nxt at) (db_tasks db)\<rparr>"
  have frames: "has_active_task_run_tx db1 taskID = has_active_task_run_tx db taskID"
    "load_run_target_snapshots_tx db1 taskID = load_run_target_snapshots_tx db taskID"
    by (simp_all add: db1_def has_active_task_run_tx_def)
  from assms obtain task script where
    "count_rows (claimable taskID due once) (db_tasks db) = 1" "get_scheduled_task_tx db1 taskID = Inr task"
    "load_run_target_snapshots_tx db taskID \<noteq> []"
    and crt: "create_task_run_tx (task_run_of task script run_trigger_scheduled (Some due)
        (if has_active_task_run_tx db taskID then RunSkipped else RunQueued)
        (if has_active_task_run_tx db taskID then ''overlap'' else []))
      (load_run_target_snapshots_tx db taskID)
      (if has_active_task_run_tx db taskID then TargetSkipped else TargetQueued)
      (if has_active_task_run_tx db taskID then ''overlap'' else []) at db1 = Inr (d, db')"
    unfolding claim_due_task_tx_def Let_def db1_def [symmetric] frames
    by (auto simp: result_iff simp del: split_paired_All split: sum.splits)
  with that show thesis using get_scheduled_task_tx_id [of db1] db1_def by blast
qed

lemma advance_row_keeps [simp]:
  "tk_id (advance_row due nxt at t) = tk_id t" "tk_script_id (advance_row due nxt at t) = tk_script_id t"
  "tk_normalized_name (advance_row due nxt at t) = tk_normalized_name t"
  by (simp_all add: advance_row_def)

lemma claim_due_task_inv: "task_db_inv db \<Longrightarrow> task_db_inv (snd (claim_due_task now taskID due nxt at0 db))"
proof -
  assume inv: "task_db_inv db"
  have "task_db_inv db'" if ok: "claim_due_task_tx taskID due nx once at db = Inr (d, db')" for nx once at d db'
    using ok
  proof (rule claim_due_task_tx_steps)
    fix task script db1 active
    assume db1: "db1 = db\<lparr>db_tasks := update_rows (claimable taskID due once) (advance_row due nx at) (db_tasks db)\<rparr>"
      and id: "st_id task = taskID" and ne: "load_run_target_snapshots_tx db taskID \<noteq> []"
      and active: "active = has_active_task_run_tx db taskID"
      and crt: "create_task_run_tx (task_run_of task script run_trigger_scheduled (Some due)
          (if active then RunSkipped else RunQueued) (if active then ''overlap'' else []))
        (load_run_target_snapshots_tx db taskID) (if active then TargetSkipped else TargetQueued)
        (if active then ''overlap'' else []) at db1 = Inr (d, db')"
    have inv1: "task_db_inv db1" unfolding db1 by (rule keep_task_rows_inv [OF inv]) simp_all
    have "active_count db1 taskID = active_count db taskID" by (simp add: db1 active_count_def)
    with active have "\<not> active \<Longrightarrow> active_count db1 taskID = 0" by (simp add: has_active_iff)
    then show "task_db_inv db'"
      using create_task_run_tx_inv [OF inv1 crt ne] id by (auto split: if_splits)
  qed
  with inv show ?thesis
    by (auto simp: claim_due_task_def Let_def run_tx_def split: sum.splits)
qed

lemma normalize_run_targets_loop_Inr:
  "normalize_run_targets_loop ts acc = Inr out \<Longrightarrow> length out = length acc + length ts"
  by (induction ts arbitrary: acc) (force simp: Let_def split: if_splits)+

lemma normalize_run_targets_nonempty: "normalize_run_targets ts = Inr out \<Longrightarrow> out \<noteq> []"
  by (auto simp: normalize_run_targets_def result_iff split: if_splits
      dest!: normalize_run_targets_loop_Inr dest: arg_cong [of _ _ length])

lemma create_manual_script_run_inv:
  assumes inv: "task_db_inv db"
  shows "task_db_inv (snd (create_manual_script_run now i ts at db))"
proof -
  have "task_db_inv db'" if "normalize_run_targets ts = Inr ts'"
    "create_task_run_tx (script_run_of s) ts' TargetQueued [] at' db = Inr (d, db')" for ts' s d db' at'
    using create_task_run_tx_inv [OF inv that(2)] normalize_run_targets_nonempty [OF that(1)]
    by (simp add: script_run_of_def)
  with inv show ?thesis
    by (auto simp: create_manual_script_run_def Let_def run_tx_def result_iff split: sum.splits)
qed

lemma create_manual_task_run_inv:
  assumes inv: "task_db_inv db"
  shows "task_db_inv (snd (create_manual_task_run now i at db))"
proof -
  have "task_db_inv db'" if "create_manual_task_run_tx i at' db = Inr (d, db')" for at' d db'
  proof -
    from that obtain task script where task: "get_scheduled_task_tx db i = Inr task"
      and act: "\<not> has_active_task_run_tx db i" and ne: "load_run_target_snapshots_tx db i \<noteq> []"
      and crt: "create_task_run_tx (task_run_of task script run_trigger_manual None RunQueued [])
         (load_run_target_snapshots_tx db i) TargetQueued [] at' db = Inr (d, db')"
      by (auto simp: create_manual_task_run_tx_def result_iff Let_def)
    then show ?thesis
      using create_task_run_tx_inv [OF inv crt ne] get_scheduled_task_tx_id [OF task] by (simp add: has_active_iff)
  qed
  with inv show ?thesis
    by (auto simp: create_manual_task_run_def run_tx_def split: sum.splits)
qed

end
