(* ===== verification/TaskLife.thy ===== *)
theory TaskLife
  imports TaskProps
begin

text \<open>
  The life of a run: starting and closing its targets, aggregation, recovery after a restart and
  retention keep the invariant of the task store.
\<close>

section \<open>Targets of one run\<close>

lemma targets_of_update:
  assumes "\<And>t. P t \<Longrightarrow> tg_run_id (f t) = tg_run_id t"
  shows "targets_of (db\<lparr>db_targets := update_rows P f (db_targets db)\<rparr>) i = update_rows P f (targets_of db i)"
  using assms by (simp add: targets_of_def filter_update_rows)

lemma targets_of_update_other:
  assumes "\<And>t. P t \<Longrightarrow> tg_run_id (f t) = tg_run_id t"
    and "\<And>t. t \<in> set (db_targets db) \<Longrightarrow> P t \<Longrightarrow> tg_run_id t \<in> S" and "i \<notin> S"
  shows "targets_of (db\<lparr>db_targets := update_rows P f (db_targets db)\<rparr>) i = targets_of db i"
proof -
  have "targets_of (db\<lparr>db_targets := update_rows P f (db_targets db)\<rparr>) i = update_rows P f (targets_of db i)"
    using assms(1) by (rule targets_of_update)
  moreover have "update_rows P f (targets_of db i) = targets_of db i"
    using assms(2,3) by (intro update_rows_id) (auto simp: targets_of_def)
  ultimately show ?thesis by simp
qed

lemma find_target_run:
  assumes "rows_ok db" "find_target db i = Some t"
  shows "t \<in> set (db_targets db)" "tg_id t = i" "tg_run_id t \<in> rn_id ` set (db_runs db)"
    "\<And>q. q \<in> set (db_targets db) \<Longrightarrow> tg_id q = i \<Longrightarrow> q = t" "t \<in> set (targets_of db (tg_run_id t))"
proof -
  show t: "t \<in> set (db_targets db)" "tg_id t = i"
    using assms(2) by (auto simp: find_target_def dest: find_Some_set)
  then show "tg_run_id t \<in> rn_id ` set (db_runs db)" "t \<in> set (targets_of db (tg_run_id t))"
    using assms(1) by (auto simp: rows_ok_def targets_of_def)
  show "q = t" if "q \<in> set (db_targets db)" "tg_id q = i" for q
    using assms(1) t that distinct_key_eq [of tg_id "db_targets db" q t] by (auto simp: rows_ok_def)
qed

text \<open>Changing targets keeps the identity of the rows; the runs in \<open>S\<close> become stale.\<close>

lemma update_targets_inv:
  assumes "rows_ok db" "runs_ok_outside {} db" "single_active db"
    and keep: "\<And>t. P t \<Longrightarrow> tg_id (f t) = tg_id t \<and> tg_run_id (f t) = tg_run_id t"
    and S: "\<And>t. t \<in> set (db_targets db) \<Longrightarrow> P t \<Longrightarrow> tg_run_id t \<in> S"
  shows "rows_ok (db\<lparr>db_targets := update_rows P f (db_targets db)\<rparr>)" (is "rows_ok ?db'")
    "runs_ok_outside S (db\<lparr>db_targets := update_rows P f (db_targets db)\<rparr>)"
    "single_active (db\<lparr>db_targets := update_rows P f (db_targets db)\<rparr>)"
proof -
  have "\<forall>t\<in>set (db_targets ?db'). 0 < tg_id t \<and> tg_id t \<le> db_target_seq db"
    "\<forall>t\<in>set (db_targets ?db'). tg_run_id t \<in> rn_id ` set (db_runs db)"
    using assms(1) keep by (auto simp: rows_ok_def set_update_rows)
  with assms(1) keep show "rows_ok ?db'" unfolding rows_ok_def by (simp add: map_update_rows)
  have "targets_of ?db' i = targets_of db i" if "i \<notin> S" for i
    using targets_of_update_other [of P f db S] keep S that by blast
  with assms(2) show "runs_ok_outside S ?db'" by (simp add: runs_ok_outside_def)
  show "single_active ?db'" using assms(3) by (simp add: single_active_def active_count_def)
qed

section \<open>Aggregation\<close>

lemma aggregate_row_keeps [simp]:
  "rn_id (aggregate_row ts at r) = rn_id r" "rn_task_id (aggregate_row ts at r) = rn_task_id r"
  "rn_script_id (aggregate_row ts at r) = rn_script_id r" "rn_status (aggregate_row ts at r) = aggregate_of ts"
  by (simp_all add: aggregate_row_def Let_def)

lemma aggregate_row_ok: "ts \<noteq> [] \<Longrightarrow> run_ok ts (aggregate_row ts at r)"
  by (simp add: run_ok_def counters_ok_def aggregate_row_def Let_def target_closed_def [abs_def])

text \<open>Rewriting the one stale run so that it agrees with its targets again.\<close>

lemma refresh_run_inv:
  assumes "rows_ok db" "runs_ok_outside S db" "single_active db"
    and f: "\<And>r. rn_id (f r) = rn_id r" "\<And>r. rn_task_id (f r) = rn_task_id r"
    and ok: "\<And>r. run_ok (targets_of db i) (f r)"
    and act: "\<And>r. r \<in> set (db_runs db) \<Longrightarrow> rn_id r = i \<Longrightarrow> run_is_active (f r) \<Longrightarrow> run_is_active r"
  shows "rows_ok (db\<lparr>db_runs := update_rows (\<lambda>r. rn_id r = i) f (db_runs db)\<rparr>)"
    "runs_ok_outside (S - {i}) (db\<lparr>db_runs := update_rows (\<lambda>r. rn_id r = i) f (db_runs db)\<rparr>)"
    "single_active (db\<lparr>db_runs := update_rows (\<lambda>r. rn_id r = i) f (db_runs db)\<rparr>)"
proof -
  show "rows_ok (db\<lparr>db_runs := update_rows (\<lambda>r. rn_id r = i) f (db_runs db)\<rparr>)"
    "single_active (db\<lparr>db_runs := update_rows (\<lambda>r. rn_id r = i) f (db_runs db)\<rparr>)"
    using update_runs_inv [OF assms(1,3), of "\<lambda>r. rn_id r = i" f] f act by auto
  show "runs_ok_outside (S - {i}) (db\<lparr>db_runs := update_rows (\<lambda>r. rn_id r = i) f (db_runs db)\<rparr>)"
    using assms(2) f(1) ok by (auto simp: runs_ok_outside_def set_update_rows)
qed

lemma aggregate_run_tx_eq:
  "targets_of db i \<noteq> [] \<Longrightarrow> aggregate_run_tx i at db = Inr (aggregate_of (targets_of db i),
     db\<lparr>db_runs := update_rows (\<lambda>r. rn_id r = i) (aggregate_row (targets_of db i) at) (db_runs db)\<rparr>)"
  by (simp add: aggregate_run_tx_def Let_def)

lemma aggregate_run_tx_inv:
  assumes "rows_ok db" "runs_ok_outside {i} db" "single_active db" "refs_ok db" "targets_of db i \<noteq> []"
    and act: "\<And>r. r \<in> set (db_runs db) \<Longrightarrow> rn_id r = i \<Longrightarrow>
      \<not> is_terminal_run_status (aggregate_of (targets_of db i)) \<Longrightarrow> run_is_active r"
    and agg: "aggregate_run_tx i at db = Inr (st, db')"
  shows "task_db_inv db'"
proof -
  have db': "db' = db\<lparr>db_runs := update_rows (\<lambda>r. rn_id r = i) (aggregate_row (targets_of db i) at) (db_runs db)\<rparr>"
    using agg aggregate_run_tx_eq [OF assms(5)] by simp
  have "run_is_active (aggregate_row (targets_of db i) at r) \<longleftrightarrow> \<not> is_terminal_run_status (aggregate_of (targets_of db i))" for r
    unfolding active_iff_not_terminal by (simp del: is_terminal_run_status.simps)
  then have keep: "run_is_active r"
    if "r \<in> set (db_runs db)" "rn_id r = i" "run_is_active (aggregate_row (targets_of db i) at r)" for r
    using act that by blast
  have "rows_ok db'" "runs_ok_outside ({i} - {i}) db'" "single_active db'"
    unfolding db' by (rule refresh_run_inv [OF assms(1-3)];
      simp add: aggregate_row_ok [OF assms(5)] keep del: Diff_cancel)+
  moreover have "refs_ok db'" unfolding db' using assms(4) by (rule refs_ok_update_runs) simp_all
  ultimately show ?thesis by (intro task_db_invI) simp_all
qed

section \<open>Starting and closing a target\<close>

lemma mark_run_target_running_inv:
  assumes inv: "task_db_inv db"
  shows "task_db_inv (snd (mark_run_target_running now targetID at0 db))"
proof -
  have "task_db_inv db'" if ok: "mark_run_target_running_tx targetID at db = Inr (u, db')" for at u db'
  proof -
    define P where "P = (\<lambda>t :: task_run_target. tg_id t = targetID \<and> tg_status t = TargetQueued)"
    define f where "f = (\<lambda>t :: task_run_target. t\<lparr>tg_status := TargetRunning, tg_started_at := Some at, tg_updated_at := at\<rparr>)"
    define g where "g = (\<lambda>r :: task_run. r\<lparr>rn_status := RunRunning,
      rn_started_at := (case rn_started_at r of None \<Rightarrow> Some at | Some s \<Rightarrow> Some s), rn_updated_at := at\<rparr>)"
    from ok obtain t0 where t0: "find_target db targetID = Some t0"
      and one: "count_rows P (db_targets db) = 1"
      and run: "count_rows (\<lambda>r. rn_id r = tg_run_id t0 \<and> run_is_active r) (db_runs db) = 1"
      and db': "db' = db\<lparr>db_targets := update_rows P f (db_targets db),
        db_runs := update_rows (\<lambda>r. rn_id r = tg_run_id t0 \<and> run_is_active r) g (db_runs db)\<rparr>"
      by (auto simp: mark_run_target_running_tx_def Let_def result_iff P_def f_def g_def split: option.splits)
    let ?i = "tg_run_id t0" and ?db1 = "db\<lparr>db_targets := update_rows P f (db_targets db)\<rparr>"
    note rows = task_db_invD(1) [OF inv] and t0' = find_target_run [OF task_db_invD(1) [OF inv] t0]
    have P0: "P t0"
    proof -
      from one obtain t where "t \<in> set (db_targets db)" "P t" using count_rows_pos [of P "db_targets db"] by auto
      with t0'(4) [of t] show ?thesis by (simp add: P_def)
    qed
    have S: "tg_run_id t \<in> {?i}" if "t \<in> set (db_targets db)" "P t" for t
      using t0'(4) [of t] that by (simp add: P_def)
    have db1: "rows_ok ?db1" "runs_ok_outside {?i} ?db1" "single_active ?db1"
      by (rule update_targets_inv [OF task_db_invD(1-3) [OF inv], OF _ S]; simp add: f_def)+
    have ts: "targets_of ?db1 ?i = update_rows P f (targets_of db ?i)"
      by (rule targets_of_update) (simp add: f_def)
    have closed: "count_rows target_closed (targets_of ?db1 ?i) = count_rows target_closed (targets_of db ?i)"
      "count_rows (\<lambda>t. tg_status t = TargetSuccess) (targets_of ?db1 ?i)
         = count_rows (\<lambda>t. tg_status t = TargetSuccess) (targets_of db ?i)"
      unfolding ts by (rule count_rows_update; simp add: P_def f_def target_closed_def target_open_def)+
    have agg: "aggregate_of (targets_of ?db1 ?i) = RunRunning"
    proof (rule aggregate_of_running)
      show "f t0 \<in> set (targets_of ?db1 ?i)" using t0'(5) P0 by (force simp: ts set_update_rows)
      show "tg_status (f t0) = TargetRunning" by (simp add: f_def)
    qed
    have eq: "update_rows (\<lambda>r. rn_id r = ?i \<and> run_is_active r) g (db_runs db)
        = update_rows (\<lambda>r. rn_id r = ?i) g (db_runs db)" (is "?l = ?r")
    proof -
      from run obtain r where r: "r \<in> set (db_runs db)" "rn_id r = ?i" "run_is_active r"
        using count_rows_pos [of "\<lambda>r. rn_id r = ?i \<and> run_is_active r" "db_runs db"] by auto
      then have "run_is_active q" if "q \<in> set (db_runs db)" "rn_id q = ?i" for q
        using rows that distinct_key_eq [of rn_id "db_runs db" q r] by (auto simp: rows_ok_def)
      then show ?thesis by (auto simp: update_rows_def)
    qed
    have act: "run_is_active r" if "r \<in> set (db_runs db)" "rn_id r = ?i" for r
    proof -
      from that have "run_ok (targets_of db ?i) r"
        using task_db_invD(2) [OF inv] by (auto simp: runs_ok_outside_def)
      then show ?thesis using t0'(5) P0 run_ok_active
        by (fastforce simp: P_def target_closed_def target_open_def)
    qed
    have upd: "run_ok (targets_of ?db1 ?i) (g r)" if "r \<in> set (db_runs db)" "rn_id r = ?i" for r
    proof -
      from that have "run_ok (targets_of db ?i) r"
        using task_db_invD(2) [OF inv] by (auto simp: runs_ok_outside_def)
      then show ?thesis using agg closed
        by (auto simp: run_ok_def counters_ok_def g_def ts)
    qed
    have "rows_ok (?db1\<lparr>db_runs := ?r\<rparr>)" "single_active (?db1\<lparr>db_runs := ?r\<rparr>)"
      using update_runs_inv [OF db1(1,3), of "\<lambda>r. rn_id r = ?i" g] act by (auto simp: g_def)
    moreover have "runs_ok (?db1\<lparr>db_runs := ?r\<rparr>)"
      using db1(2) upd by (auto simp: runs_ok_outside_def set_update_rows g_def)
    moreover have "refs_ok (?db1\<lparr>db_runs := ?r\<rparr>)"
      using refs_ok_update_runs [of ?db1 "\<lambda>r. rn_id r = ?i" g] task_db_invD(4) [OF inv] by (simp add: g_def)
    moreover have "db' = ?db1\<lparr>db_runs := ?r\<rparr>" by (simp add: db' eq)
    ultimately show ?thesis by blast
  qed
  with inv show ?thesis
    by (auto simp: mark_run_target_running_def run_tx_def split: sum.splits)
qed

lemma complete_row_keeps [simp]:
  "tg_id (complete_row res at t) = tg_id t" "tg_run_id (complete_row res at t) = tg_run_id t"
  "tg_node_id (complete_row res at t) = tg_node_id t" "tg_status (complete_row res at t) = rs_status res"
  by (simp_all add: complete_row_def Let_def split: prod.splits)

text \<open>Inversion of a successful completion.\<close>

lemma complete_run_target_tx_steps:
  assumes "complete_run_target_tx targetID res at db = Inr (runID, db')"
  obtains t0 P db1 st where "find_target db targetID = Some t0" "runID = tg_run_id t0"
    "P = (\<lambda>t. tg_id t = targetID \<and> target_open (tg_status t))"
    "count_rows P (db_targets db) = 1"
    "db1 = db\<lparr>db_targets := update_rows P (complete_row res at) (db_targets db)\<rparr>"
    "aggregate_run_tx runID at db1 = Inr (st, db')"
  using assms by (auto simp: complete_run_target_tx_def Let_def result_iff split: option.splits)

lemma complete_run_target_tx_inv:
  assumes inv: "task_db_inv db" and ok: "complete_run_target_tx targetID res at db = Inr (i, db')"
  shows "task_db_inv db'"
  using ok
proof (rule complete_run_target_tx_steps)
  fix t0 P db1 st
  assume t0: "find_target db targetID = Some t0" and i: "i = tg_run_id t0"
    and P: "P = (\<lambda>t. tg_id t = targetID \<and> target_open (tg_status t))"
    and one: "count_rows P (db_targets db) = 1"
    and db1: "db1 = db\<lparr>db_targets := update_rows P (complete_row res at) (db_targets db)\<rparr>"
    and agg: "aggregate_run_tx i at db1 = Inr (st, db')"
  note t0' = find_target_run [OF task_db_invD(1) [OF inv] t0]
  have S: "tg_run_id t \<in> {i}" if "t \<in> set (db_targets db)" "P t" for t
    using t0'(4) [of t] that by (simp add: P i)
  have P0: "P t0"
  proof -
    from one obtain t where "t \<in> set (db_targets db)" "P t" using count_rows_pos [of P "db_targets db"] by auto
    with t0'(4) [of t] show ?thesis by (simp add: P)
  qed
  have inv1: "rows_ok db1" "runs_ok_outside {i} db1" "single_active db1"
    unfolding db1 by (rule update_targets_inv [OF task_db_invD(1-3) [OF inv], OF _ S]; simp)+
  have refs: "refs_ok db1" using task_db_invD(4) [OF inv] by (simp add: db1)
  have ts: "targets_of db1 i = update_rows P (complete_row res at) (targets_of db i)"
    unfolding db1 by (rule targets_of_update) simp
  have ne: "targets_of db1 i \<noteq> []" using t0'(5) unfolding ts by (auto simp: i)
  have act: "run_is_active r" if r: "r \<in> set (db_runs db1)" "rn_id r = i" for r
  proof -
    from r have "run_ok (targets_of db i) r"
      using task_db_invD(2) [OF inv] by (auto simp: runs_ok_outside_def db1)
    then show ?thesis using t0'(5) P0 run_ok_active [of "targets_of db i" r]
      by (auto simp: P i target_closed_def)
  qed
  show "task_db_inv db'" by (rule aggregate_run_tx_inv [OF inv1 refs ne act agg])
qed

lemma complete_run_target_inv:
  "task_db_inv db \<Longrightarrow> task_db_inv (snd (complete_run_target now targetID res db))"
  by (auto simp: complete_run_target_def run_tx_def Let_def dest: complete_run_target_tx_inv split: sum.splits)

lemma run_of_targets:
  assumes "task_db_inv db" "r \<in> set (db_runs db)"
  shows "run_ok (targets_of db (rn_id r)) r" "targets_of db (rn_id r) \<noteq> []"
  using assms by (auto simp: task_db_inv_def runs_ok_outside_def run_ok_def)

text \<open>Aggregating a run that already agrees with its targets.\<close>

lemma aggregate_run_inv: "task_db_inv db \<Longrightarrow> task_db_inv (snd (aggregate_run now i at0 db))"
proof -
  assume inv: "task_db_inv db"
  have "task_db_inv db'" if agg: "aggregate_run_tx i at db = Inr (st, db')" for at st db'
  proof -
    obtain r where r: "r \<in> set (db_runs db)" "rn_id r = i"
    proof (cases "count_rows (\<lambda>r. rn_id r = i) (db_runs db) = 0")
      case True
      with agg have "targets_of db i \<noteq> []" by (auto simp: aggregate_run_tx_def Let_def split: if_splits)
      then obtain t where "t \<in> set (targets_of db i)" by (cases "targets_of db i") auto
      then have "i \<in> rn_id ` set (db_runs db)"
        using task_db_invD(1) [OF inv] by (auto simp: targets_of_def rows_ok_def)
      with that show thesis by blast
    qed (auto simp: count_rows_eq_0)
    have out: "runs_ok_outside {i} db" using task_db_invD(2) [OF inv] by (simp add: runs_ok_outside_def)
    have "run_is_active q" if "q \<in> set (db_runs db)" "rn_id q = i"
      "\<not> is_terminal_run_status (aggregate_of (targets_of db i))" for q
      using run_of_targets(1) [OF inv that(1)] that(2,3) aggregate_of_terminal [of "targets_of db i"]
        run_ok_active [of "targets_of db i" q] by (simp del: is_terminal_run_status.simps)
    then show ?thesis
      using aggregate_run_tx_inv [OF task_db_invD(1) [OF inv] out task_db_invD(3,4) [OF inv] _ _ agg]
        run_of_targets(2) [OF inv r(1)] r(2) by simp
  qed
  with inv show ?thesis by (auto simp: aggregate_run_def run_tx_def split: sum.splits)
qed

lemma update_run_notification_inv:
  assumes "task_db_inv db" shows "task_db_inv (snd (update_run_notification now i sent err at0 db))"
proof -
  define f where "f at = (\<lambda>r :: task_run. r\<lparr>rn_notification_sent := sent,
    rn_notification_error := fst (bound_task_text err max_task_error_bytes),
    rn_notification_attempted_at := Some at, rn_updated_at := at\<rparr>)" for at
  have "task_db_inv (db\<lparr>db_runs := update_rows (\<lambda>r. rn_id r = i) (f at) (db_runs db)\<rparr>)" for at
    using task_db_invD [OF assms]
    by (intro task_db_invI update_run_details_inv refs_ok_update_runs) (auto simp: f_def same_summary_def)
  with assms show ?thesis by (simp add: update_run_notification_def Let_def f_def)
qed

section \<open>Retention\<close>

lemma delete_runs_older_than_inv:
  assumes inv: "task_db_inv db"
  shows "task_db_inv (snd (delete_runs_older_than cutoff db))"
proof -
  let ?P = "\<lambda>r. rn_created_at r < cutoff"
  let ?gone = "rn_id ` set (filter ?P (db_runs db))"
  let ?db' = "db\<lparr>db_runs := delete_rows ?P (db_runs db), db_targets := delete_rows (\<lambda>t. tg_run_id t \<in> ?gone) (db_targets db)\<rparr>"
  note rows = task_db_invD(1) [OF inv]
  have kept: "rn_id r \<notin> ?gone" if "r \<in> set (db_runs db)" "\<not> ?P r" for r
    using rows that distinct_key_eq [of rn_id "db_runs db" r] by (auto simp: rows_ok_def)
  have ts: "targets_of ?db' i = targets_of db i" if "i \<notin> ?gone" for i
    using that by (auto simp: targets_of_def delete_rows_def intro!: filter_cong)
  have "tg_run_id t \<in> rn_id ` {r \<in> set (db_runs db). \<not> ?P r}"
    if "t \<in> set (db_targets db)" "tg_run_id t \<notin> ?gone" for t
    using rows that by (auto simp: rows_ok_def image_iff) (metis (mono_tags, lifting))
  then have "rows_ok ?db'"
    using rows by (auto simp: rows_ok_def distinct_map_delete_rows)
  moreover have "runs_ok ?db'"
    using task_db_invD(2) [OF inv] kept ts by (auto simp: runs_ok_outside_def)
  moreover have "single_active ?db'"
  proof -
    have "active_count ?db' i \<le> active_count db i" for i
      by (simp add: active_count_def count_delete_le)
    with task_db_invD(3) [OF inv] show ?thesis unfolding single_active_def using order_trans by blast
  qed
  moreover have "refs_ok ?db'" using task_db_invD(4) [OF inv] by (auto simp: refs_ok_def)
  ultimately show ?thesis using inv by (auto simp: delete_runs_older_than_def Let_def intro: task_db_invI)
qed

section \<open>Recovery after a restart\<close>

definition interrupted_row :: "task_run_target list \<Rightarrow> time \<Rightarrow> task_run \<Rightarrow> task_run" where
  "interrupted_row ts at r = (aggregate_row ts at r)\<lparr>rn_error := restarted_message,
     rn_status := RunInterrupted, rn_completed_at := Some at, rn_updated_at := at\<rparr>"

lemma interrupted_row_keeps [simp]:
  "rn_id (interrupted_row ts at r) = rn_id r" "rn_task_id (interrupted_row ts at r) = rn_task_id r"
  "rn_script_id (interrupted_row ts at r) = rn_script_id r" "rn_status (interrupted_row ts at r) = RunInterrupted"
  by (simp_all add: interrupted_row_def)

lemma interrupt_run_eq:
  "targets_of db i \<noteq> [] \<Longrightarrow> interrupt_run at i db =
     Inr (db\<lparr>db_runs := update_rows (\<lambda>r. rn_id r = i) (interrupted_row (targets_of db i) at) (db_runs db)\<rparr>)"
  by (simp add: interrupt_run_def aggregate_run_tx_eq update_rows_twice interrupted_row_def [abs_def])

lemma interrupted_row_ok:
  "ts \<noteq> [] \<Longrightarrow> \<forall>t\<in>set ts. target_closed t \<Longrightarrow> run_ok ts (interrupted_row ts at r)"
  using aggregate_row_ok [of ts at r] by (simp add: run_ok_def counters_ok_def interrupted_row_def)

text \<open>The state between two iterations: the runs in \<open>S\<close> are still to be marked.\<close>

definition recovering :: "int set \<Rightarrow> task_db \<Rightarrow> bool" where
  "recovering S db \<longleftrightarrow> rows_ok db \<and> runs_ok_outside S db \<and> single_active db \<and> refs_ok db
     \<and> S \<subseteq> rn_id ` set (db_runs db)
     \<and> (\<forall>i\<in>S. targets_of db i \<noteq> [] \<and> (\<forall>t\<in>set (targets_of db i). target_closed t))
     \<and> (\<forall>r\<in>set (db_runs db). rn_id r \<in> S \<longleftrightarrow> run_is_active r)"

lemma interrupt_run_recovering:
  assumes rec: "recovering S db" and i: "i \<in> S"
  shows "\<exists>db'. interrupt_run at i db = Inr db' \<and> recovering (S - {i}) db' \<and> db_targets db' = db_targets db"
proof -
  let ?ts = "targets_of db i"
  let ?db' = "db\<lparr>db_runs := update_rows (\<lambda>r. rn_id r = i) (interrupted_row ?ts at) (db_runs db)\<rparr>"
  have ts: "?ts \<noteq> []" "\<forall>t\<in>set ?ts. target_closed t" using rec i by (auto simp: recovering_def)
  have idle: "\<not> run_is_active (interrupted_row ?ts at r)" for r by (simp add: run_is_active_def)
  have "rows_ok ?db'" "runs_ok_outside (S - {i}) ?db'" "single_active ?db'"
    using rec refresh_run_inv [of db S "interrupted_row ?ts at" i] interrupted_row_ok [OF ts] idle
    by (simp_all add: recovering_def)
  moreover have "refs_ok ?db'" using rec by (auto simp: recovering_def intro: refs_ok_update_runs)
  moreover have "rn_id ` set (db_runs ?db') = rn_id ` set (db_runs db)" by (simp add: image_update_rows)
  ultimately have "recovering (S - {i}) ?db'"
    using rec idle unfolding recovering_def by (auto simp: set_update_rows)
  with interrupt_run_eq [OF ts(1)] show ?thesis by auto
qed

lemma interrupt_all:
  "recovering (set ids) db \<Longrightarrow> distinct ids \<Longrightarrow>
     \<exists>db'. bind_all (interrupt_run at) ids db = Inr db' \<and> recovering {} db' \<and> db_targets db' = db_targets db"
proof (induction ids arbitrary: db)
  case Nil
  then show ?case by simp
next
  case (Cons i ids)
  obtain db1 where db1: "interrupt_run at i db = Inr db1" "recovering (set (i # ids) - {i}) db1"
      "db_targets db1 = db_targets db"
    using interrupt_run_recovering [OF Cons.prems(1), of i at] by auto
  moreover have "set (i # ids) - {i} = set ids" using Cons.prems(2) by auto
  ultimately show ?case using Cons.IH [of db1] Cons.prems(2) by auto
qed

lemma recovering_start:
  assumes inv: "task_db_inv db"
  shows "recovering (rn_id ` set (filter run_is_active (db_runs db))) (interrupt_targets at db)"
proof -
  let ?S = "rn_id ` set (filter run_is_active (db_runs db))"
  define P where "P = (\<lambda>t :: task_run_target. target_open (tg_status t)
    \<and> (\<exists>r\<in>set (db_runs db). rn_id r = tg_run_id t \<and> run_is_active r))"
  define f where "f = (\<lambda>t :: task_run_target. t\<lparr>tg_status := TargetInterrupted, tg_error := restarted_message,
    tg_completed_at := Some at, tg_updated_at := at\<rparr>)"
  let ?db = "db\<lparr>db_targets := update_rows P f (db_targets db)\<rparr>"
  have db: "interrupt_targets at db = ?db" by (simp add: interrupt_targets_def P_def f_def)
  have S: "tg_run_id t \<in> ?S" if "t \<in> set (db_targets db)" "P t" for t
    using that by (auto simp: P_def image_iff)
  have "rows_ok ?db" "runs_ok_outside ?S ?db" "single_active ?db"
    by (rule update_targets_inv [OF task_db_invD(1-3) [OF inv], OF _ S]; simp add: f_def)+
  moreover have "refs_ok ?db" using task_db_invD(4) [OF inv] by simp
  moreover have "targets_of ?db i \<noteq> [] \<and> (\<forall>t\<in>set (targets_of ?db i). target_closed t)" if i: "i \<in> ?S" for i
  proof -
    have ts: "targets_of ?db i = update_rows P f (targets_of db i)"
      by (rule targets_of_update) (simp add: f_def)
    from i obtain r where r: "r \<in> set (db_runs db)" "rn_id r = i" "run_is_active r" by auto
    then have "targets_of db i \<noteq> []" using run_of_targets(2) [OF inv] by auto
    moreover have "target_closed (f t)" for t by (simp add: f_def target_closed_def target_open_def)
    moreover have "target_closed t" if "t \<in> set (targets_of db i)" "\<not> P t" for t
      using that r by (auto simp: P_def target_closed_def targets_of_def)
    ultimately show ?thesis by (auto simp: ts set_update_rows)
  qed
  moreover have "rn_id r \<in> ?S \<longleftrightarrow> run_is_active r" if "r \<in> set (db_runs db)" for r
    using that task_db_invD(1) [OF inv] distinct_key_eq [of rn_id "db_runs db" r] by (auto simp: rows_ok_def)
  ultimately show ?thesis unfolding db recovering_def by auto
qed

text \<open>Recovery always succeeds and leaves nothing active.\<close>

lemma recover_tx_spec:
  assumes inv: "task_db_inv db"
  shows "\<exists>db'. recover_interrupted_runs_tx at db = Inr (int (count_rows run_is_active (db_runs db)), db')
    \<and> task_db_inv db' \<and> (\<forall>r\<in>set (db_runs db'). \<not> run_is_active r)
    \<and> db_targets db' = db_targets (interrupt_targets at db)"
proof -
  let ?db1 = "interrupt_targets at db"
  let ?ids = "sort (map rn_id (filter run_is_active (db_runs ?db1)))"
  have runs: "db_runs ?db1 = db_runs db" by (simp add: interrupt_targets_def)
  have "distinct ?ids" using task_db_invD(1) [OF inv] by (simp add: runs rows_ok_def distinct_map_filter)
  moreover have "recovering (set ?ids) ?db1" using recovering_start [OF inv, of at] by (simp add: runs)
  ultimately obtain db' where "bind_all (interrupt_run at) ?ids ?db1 = Inr db'" "recovering {} db'"
      "db_targets db' = db_targets ?db1"
    using interrupt_all by blast
  then show ?thesis
    by (intro exI [of _ db'])
      (auto simp: recover_interrupted_runs_tx_def Let_def recovering_def runs count_rows_def intro: task_db_invI)
qed

lemma recover_interrupted_runs_inv: "task_db_inv db \<Longrightarrow> task_db_inv (snd (recover_interrupted_runs now at0 db))"
  using recover_tx_spec [of db "if is_zero at0 then now else at0"]
  by (auto simp: recover_interrupted_runs_def run_tx_def)

end
