(* ===== verification/TaskSpec.thy ===== *)
theory TaskSpec
  imports TaskLife
begin

text \<open>
  What the task store promises over any sequence of its operations: the writes as one datatype,
  their execution in order, and the properties of the states they reach from an empty database.
\<close>

section \<open>Sequences of operations\<close>

datatype task_op =
  CreateScript time "automation_script option"
| UpdateScript time "automation_script option"
| DeleteScript int
| CreateScheduledTask time "scheduled_task option"
| UpdateScheduledTask time "scheduled_task option"
| SetScheduledTaskEnabled time int bool "time option"
| DeleteScheduledTask int
| ClaimDueTask time int time time time
| CreateManualScriptRun time int "run_target_snapshot list" time
| CreateManualTaskRun time int time
| MarkRunTargetRunning time int time
| CompleteRunTarget time int run_target_result
| AggregateRun time int time
| UpdateRunNotification time int bool string time
| RecoverInterruptedRuns time time
| DeleteRunsOlderThan time

definition err_of :: "(task_error + 'a) \<times> task_db \<Rightarrow> task_error option \<times> task_db" where
  "err_of res = (case fst res of Inl e \<Rightarrow> Some e | Inr _ \<Rightarrow> None, snd res)"

fun apply_op :: "(nat \<Rightarrow> nat) \<Rightarrow> task_op \<Rightarrow> task_db \<Rightarrow> task_error option \<times> task_db" where
  "apply_op ul (CreateScript now s) db = err_of (create_script ul now s db)"
| "apply_op ul (UpdateScript now s) db = err_of (update_script ul now s db)"
| "apply_op ul (DeleteScript i) db = err_of (delete_script i db)"
| "apply_op ul (CreateScheduledTask now t) db = err_of (create_scheduled_task ul now t db)"
| "apply_op ul (UpdateScheduledTask now t) db = err_of (update_scheduled_task ul now t db)"
| "apply_op ul (SetScheduledTaskEnabled now i en nxt) db = err_of (set_scheduled_task_enabled now i en nxt db)"
| "apply_op ul (DeleteScheduledTask i) db = err_of (delete_scheduled_task i db)"
| "apply_op ul (ClaimDueTask now i due nxt at) db = err_of (claim_due_task now i due nxt at db)"
| "apply_op ul (CreateManualScriptRun now i ts at) db = err_of (create_manual_script_run now i ts at db)"
| "apply_op ul (CreateManualTaskRun now i at) db = err_of (create_manual_task_run now i at db)"
| "apply_op ul (MarkRunTargetRunning now i at) db = err_of (mark_run_target_running now i at db)"
| "apply_op ul (CompleteRunTarget now i res) db = err_of (complete_run_target now i res db)"
| "apply_op ul (AggregateRun now i at) db = err_of (aggregate_run now i at db)"
| "apply_op ul (UpdateRunNotification now i sent err at) db = err_of (update_run_notification now i sent err at db)"
| "apply_op ul (RecoverInterruptedRuns now at) db = err_of (recover_interrupted_runs now at db)"
| "apply_op ul (DeleteRunsOlderThan cutoff) db = err_of (delete_runs_older_than cutoff db)"

definition run_ops :: "(nat \<Rightarrow> nat) \<Rightarrow> task_op list \<Rightarrow> task_db \<Rightarrow> task_db" where
  "run_ops ul ops db = fold (\<lambda>op db. snd (apply_op ul op db)) ops db"

lemma run_ops_simps [simp]:
  "run_ops ul [] db = db" "run_ops ul (op # ops) db = run_ops ul ops (snd (apply_op ul op db))"
  by (simp_all add: run_ops_def)

lemma err_of_simps [simp]: "snd (err_of res) = snd res" "fst (err_of res) = None \<longleftrightarrow> (\<exists>x. fst res = Inr x)"
  by (auto simp: err_of_def split: sum.splits)

lemmas op_invs = create_script_inv update_script_inv delete_script_inv create_scheduled_task_inv
  update_scheduled_task_inv set_scheduled_task_enabled_inv delete_scheduled_task_inv claim_due_task_inv
  create_manual_script_run_inv create_manual_task_run_inv mark_run_target_running_inv
  complete_run_target_inv aggregate_run_inv update_run_notification_inv recover_interrupted_runs_inv
  delete_runs_older_than_inv

lemma apply_op_inv: "task_db_inv db \<Longrightarrow> task_db_inv (snd (apply_op ul op db))"
  by (cases op) (simp_all add: op_invs)

lemma run_ops_inv: "task_db_inv db \<Longrightarrow> task_db_inv (run_ops ul ops db)"
  by (induction ops arbitrary: db) (simp_all add: apply_op_inv)

lemmas reached_inv = run_ops_inv [OF task_db_inv_empty]

text \<open>C5: Whatever sequence of store operations is executed, a scheduled task never has two runs that
  are queued or running at the same time.\<close>

theorem at_most_one_active_run:
  "count_rows (\<lambda>r. rn_task_id r = Some taskID \<and> run_is_active r) (db_runs (run_ops ul ops (empty_task_db nodes))) \<le> 1"
  using task_db_invD(3) [OF reached_inv] by (simp add: single_active_def active_count_def)

text \<open>C6: In every state the store reaches, each run has at least one target, its counters are those of
  its targets, it is finished exactly when all its targets are closed, and its status is the
  aggregate of theirs (or \<open>interrupted\<close> after a recovery).\<close>

theorem runs_agree_with_targets:
  assumes "r \<in> set (db_runs (run_ops ul ops (empty_task_db nodes)))"
  shows "let ts = targets_of (run_ops ul ops (empty_task_db nodes)) (rn_id r) in ts \<noteq> [] \<and> rn_total_targets r = length ts
    \<and> rn_completed_targets r = count_rows (\<lambda>t. \<not> target_open (tg_status t)) ts
    \<and> rn_success_targets r = count_rows (\<lambda>t. tg_status t = TargetSuccess) ts
    \<and> rn_success_targets r + rn_failed_targets r = rn_completed_targets r
    \<and> (is_terminal_run_status (rn_status r) \<longleftrightarrow> (\<forall>t\<in>set ts. \<not> target_open (tg_status t)))
    \<and> (rn_status r = aggregate_of ts \<or> rn_status r = RunInterrupted)"
proof -
  let ?ts = "targets_of (run_ops ul ops (empty_task_db nodes)) (rn_id r)"
  have ok: "run_ok ?ts r" by (rule run_of_targets(1) [OF reached_inv assms(1)])
  have "count_rows (\<lambda>t. tg_status t = TargetSuccess) ?ts \<le> count_rows target_closed ?ts"
    by (rule count_rows_mono) (simp add: target_closed_def target_open_def)
  with ok run_ok_active [OF ok] show ?thesis
    unfolding run_ok_def counters_ok_def active_iff_not_terminal Let_def
    by (auto simp: target_closed_def [abs_def] simp del: is_terminal_run_status.simps)
qed

end
