(* ===== verification/TaskClaims.thy ===== *)
theory TaskClaims
  imports TaskSpec
begin

text \<open>
  Further guarantees of the task store: results are final, the outcome of a claim, recovery, paging and
  the deletion of scripts; with a sample history on which the hypotheses of the theorems are shown to hold.
\<close>

section \<open>A sample history\<close>

definition sample_script :: automation_script where
  "sample_script = \<lparr>sc_id = 0, sc_name = ''a'', sc_normalized_name = [], sc_description = [],
     sc_content = ''x'', sc_timeout_seconds = 0, sc_revision = 0, sc_created_at = 0, sc_updated_at = 0\<rparr>"

definition sample_result :: run_target_result where
  "sample_result = \<lparr>rs_status = TargetSuccess, rs_exit_code = Some 0, rs_output = [], rs_output_truncated = False,
     rs_error = [], rs_duration_ms = 1, rs_started_at = None, rs_completed_at = 12\<rparr>"

definition sample_ops :: "task_op list" where
  "sample_ops = [CreateScript 10 (Some sample_script),
     CreateManualScriptRun 10 1 [\<lparr>sn_node_id = ''n'', sn_node_name = []\<rparr>] 10,
     MarkRunTargetRunning 11 1 11, CompleteRunTarget 12 1 sample_result]"

lemmas run_ops_eval = create_script_def insert_script_row_def get_script_def find_script_def prepare_script_def
  normalize_automation_name_def validate_timeout_def create_manual_script_run_def normalize_run_targets_def
  get_automation_script_tx_def create_task_run_tx_def insert_run_row_def insert_target_row_def
  script_run_of_def marshal_task_channels_def mark_run_target_running_def mark_run_target_running_tx_def
  complete_run_target_def complete_run_target_tx_def complete_row_def aggregate_run_tx_def aggregate_row_def
  aggregate_of_def aggregate_status_def find_target_def targets_of_def run_tx_def run_is_active_def
  nullable_task_time_def unset_def is_zero_def target_open_def get_run_summary_def find_run_def
  failIf_def bound_task_text_def empty_task_db_def

lemmas limit_defs = max_automation_name_runes_def max_script_description_bytes_def max_script_content_bytes_def
  default_task_timeout_seconds_def max_task_timeout_seconds_def max_task_nodes_def max_task_node_id_bytes_def
  max_task_node_name_bytes_def max_notification_json_bytes_def max_task_output_bytes_def max_task_error_bytes_def

lemma sample_state:
  "\<exists>t. db_targets (run_ops (\<lambda>r. r) sample_ops (empty_task_db Map.empty)) = [t] \<and> tg_id t = 1
     \<and> tg_run_id t = 1 \<and> tg_status t = TargetSuccess"
  by (simp add: sample_ops_def sample_script_def sample_result_def run_ops_eval limit_defs eval_text Let_def
      json_channels_def)

lemma sample_run:
  "\<exists>r. db_runs (run_ops (\<lambda>r. r) sample_ops (empty_task_db Map.empty)) = [r] \<and> rn_id r = 1 \<and> rn_status r = RunSuccess"
  by (simp add: sample_ops_def sample_script_def sample_result_def run_ops_eval limit_defs eval_text Let_def
      json_channels_def)

theorem runs_agree_with_targets_witness:
  "\<exists>r. r \<in> set (db_runs (run_ops (\<lambda>r. r) sample_ops (empty_task_db Map.empty))) \<and>
     rn_total_targets r = length (targets_of (run_ops (\<lambda>r. r) sample_ops (empty_task_db Map.empty)) (rn_id r))"
proof -
  from sample_run obtain r where "r \<in> set (db_runs (run_ops (\<lambda>r. r) sample_ops (empty_task_db Map.empty)))" by auto
  with runs_agree_with_targets [OF this] show ?thesis unfolding Let_def by blast
qed

section \<open>Results are final\<close>

definition closed_kept :: "task_db \<Rightarrow> task_db \<Rightarrow> bool" where
  "closed_kept db db' \<longleftrightarrow> (\<forall>t\<in>set (db_targets db). target_closed t \<longrightarrow> t \<in> set (db_targets db'))"

lemma closed_kept_refl [simp, intro]: "closed_kept db db"
  by (simp add: closed_kept_def)

lemma closed_kept_same: "db_targets db' = db_targets db \<Longrightarrow> closed_kept db db'"
  by (simp add: closed_kept_def)

lemma closed_kept_trans: "closed_kept a b \<Longrightarrow> closed_kept b c \<Longrightarrow> closed_kept a c"
  by (simp add: closed_kept_def)

lemma closed_kept_update:
  assumes "db_targets db' = update_rows P f (db_targets db)" "\<And>t. P t \<Longrightarrow> \<not> target_closed t"
  shows "closed_kept db db'"
  unfolding closed_kept_def
proof (intro ballI impI)
  fix t assume "t \<in> set (db_targets db)" "target_closed t"
  with assms(2) [of t] show "t \<in> set (db_targets db')"
    by (auto simp: assms(1) set_update_rows image_iff intro!: bexI [of _ t])
qed

lemma run_tx_closed_kept:
  "(\<And>x db'. body db = Inr (x, db') \<Longrightarrow> closed_kept db db') \<Longrightarrow> closed_kept db (snd (run_tx body db))"
  by (auto simp: run_tx_def split: sum.splits)

lemma replace_nodes_targets:
  "replace_scheduled_task_nodes_tx i ids at db = Inr db' \<Longrightarrow> db_targets db' = db_targets db"
  using replace_nodes_frame by fastforce

lemma task_rows_closed_kept:
  "closed_kept db (snd (create_script ul now s db))" "closed_kept db (snd (update_script ul now s db))"
  "closed_kept db (snd (delete_script i db))" "closed_kept db (snd (create_scheduled_task ul now t db))"
  "closed_kept db (snd (update_scheduled_task ul now t db))"
  "closed_kept db (snd (set_scheduled_task_enabled now i en nxt db))" "closed_kept db (snd (delete_scheduled_task i db))"
proof -
  show "closed_kept db (snd (create_script ul now s db))"
    by (auto simp: create_script_def insert_script_row_def Let_def closed_kept_def split: option.splits sum.splits if_splits)
  show "closed_kept db (snd (update_script ul now s db))"
    by (auto simp: update_script_def Let_def closed_kept_def split: option.splits sum.splits)
  show "closed_kept db (snd (delete_script i db))"
    by (auto simp: delete_script_def delete_script_row_def Let_def closed_kept_def run_tx_def split: sum.splits if_splits)
  have "closed_kept db db'" if "create_scheduled_task_tx t' now db = Inr (x, db')" for t' x db'
    using that replace_nodes_targets
    by (fastforce simp: create_scheduled_task_tx_def insert_task_row_def result_iff Let_def
        split: sum.splits if_splits intro!: closed_kept_same)
  then show "closed_kept db (snd (create_scheduled_task ul now t db))"
    by (auto simp: create_scheduled_task_def run_tx_def split: option.splits sum.splits)
  have "closed_kept db db'" if "update_scheduled_task_tx t' now db = Inr (x, db')" for t' x db'
    using that replace_nodes_targets
    by (fastforce simp: update_scheduled_task_tx_def result_iff Let_def
        split: if_splits intro!: closed_kept_same)
  then show "closed_kept db (snd (update_scheduled_task ul now t db))"
    by (auto simp: update_scheduled_task_def run_tx_def split: option.splits sum.splits)
  show "closed_kept db (snd (set_scheduled_task_enabled now i en nxt db))"
    by (auto simp: set_scheduled_task_enabled_def set_enabled_tx_def result_iff run_tx_def closed_kept_def
        split: sum.splits if_splits)
  show "closed_kept db (snd (delete_scheduled_task i db))"
    by (auto simp: delete_scheduled_task_def delete_task_rows_def result_iff run_tx_def closed_kept_def
        split: sum.splits if_splits)
qed

lemma create_task_run_tx_closed_kept:
  "create_task_run_tx run ts st err at db = Inr (d, db') \<Longrightarrow> closed_kept db db'"
  by (auto dest!: create_task_run_tx_spec simp: closed_kept_def)

lemma run_rows_closed_kept:
  "closed_kept db (snd (claim_due_task now i due nxt at0 db))"
  "closed_kept db (snd (create_manual_script_run now i ts at0 db))"
  "closed_kept db (snd (create_manual_task_run now i at0 db))"
proof -
  have "closed_kept db db'" if "claim_due_task_tx i due n once at db = Inr (d, db')" for n once at d db'
    using that
  proof (rule claim_due_task_tx_steps)
    fix task script db1 active
    assume "db1 = db\<lparr>db_tasks := update_rows (claimable i due once) (advance_row due n at) (db_tasks db)\<rparr>"
      and "create_task_run_tx (task_run_of task script run_trigger_scheduled (Some due)
          (if active then RunSkipped else RunQueued) (if active then ''overlap'' else []))
        (load_run_target_snapshots_tx db i) (if active then TargetSkipped else TargetQueued)
        (if active then ''overlap'' else []) at db1 = Inr (d, db')"
    then show "closed_kept db db'" using create_task_run_tx_closed_kept by (fastforce simp: closed_kept_def)
  qed
  then show "closed_kept db (snd (claim_due_task now i due nxt at0 db))"
    by (auto simp: claim_due_task_def Let_def intro!: run_tx_closed_kept)
  show "closed_kept db (snd (create_manual_script_run now i ts at0 db))"
    by (auto simp: create_manual_script_run_def Let_def result_iff create_task_run_tx_closed_kept
        split: sum.splits intro!: run_tx_closed_kept)
  show "closed_kept db (snd (create_manual_task_run now i at0 db))"
    by (auto simp: create_manual_task_run_def create_manual_task_run_tx_def Let_def result_iff
        create_task_run_tx_closed_kept intro!: run_tx_closed_kept)
qed

lemma aggregate_run_tx_targets: "aggregate_run_tx i at db = Inr (st, db') \<Longrightarrow> db_targets db' = db_targets db"
  by (auto simp: aggregate_run_tx_def Let_def split: if_splits)

lemma life_closed_kept:
  "closed_kept db (snd (mark_run_target_running now i at0 db))"
  "closed_kept db (snd (complete_run_target now i res db))"
  "closed_kept db (snd (aggregate_run now i at0 db))"
  "closed_kept db (snd (update_run_notification now i sent err at0 db))"
proof -
  have "closed_kept db db'" if "mark_run_target_running_tx i at db = Inr (u, db')" for at u db'
  proof -
    from that have "db_targets db' = update_rows (\<lambda>t. tg_id t = i \<and> tg_status t = TargetQueued)
        (\<lambda>t. t\<lparr>tg_status := TargetRunning, tg_started_at := Some at, tg_updated_at := at\<rparr>) (db_targets db)"
      by (auto simp: mark_run_target_running_tx_def Let_def result_iff split: option.splits)
    then show ?thesis by (rule closed_kept_update) (simp add: target_closed_def target_open_def)
  qed
  then show "closed_kept db (snd (mark_run_target_running now i at0 db))"
    by (auto simp: mark_run_target_running_def intro!: run_tx_closed_kept)
  have "closed_kept db db'" if "complete_run_target_tx i res at db = Inr (u, db')" for at u db'
    using that
  proof (rule complete_run_target_tx_steps)
    fix t0 P db1 st
    assume P: "P = (\<lambda>t. tg_id t = i \<and> target_open (tg_status t))"
      and db1: "db1 = db\<lparr>db_targets := update_rows P (complete_row res at) (db_targets db)\<rparr>"
      and agg: "aggregate_run_tx u at db1 = Inr (st, db')"
    have "closed_kept db db1" by (rule closed_kept_update [of _ P]) (simp_all add: db1 P target_closed_def)
    then show "closed_kept db db'" using aggregate_run_tx_targets [OF agg] by (simp add: closed_kept_def)
  qed
  then show "closed_kept db (snd (complete_run_target now i res db))"
    by (auto simp: complete_run_target_def run_tx_def Let_def split: sum.splits)
  show "closed_kept db (snd (aggregate_run now i at0 db))"
    by (auto simp: aggregate_run_def run_tx_def dest: aggregate_run_tx_targets
        split: sum.splits intro!: closed_kept_same)
  show "closed_kept db (snd (update_run_notification now i sent err at0 db))"
    by (simp add: update_run_notification_def Let_def closed_kept_def)
qed

lemma recover_closed_kept:
  assumes "task_db_inv db" shows "closed_kept db (snd (recover_interrupted_runs now at0 db))"
proof -
  have "closed_kept db (interrupt_targets at db)" for at
    by (rule closed_kept_update [where P = "\<lambda>t. target_open (tg_status t)
          \<and> (\<exists>r\<in>set (db_runs db). rn_id r = tg_run_id t \<and> run_is_active r)"
        and f = "\<lambda>t. t\<lparr>tg_status := TargetInterrupted, tg_error := restarted_message,
          tg_completed_at := Some at, tg_updated_at := at\<rparr>"])
      (simp_all add: interrupt_targets_def target_closed_def)
  moreover obtain db' where "recover_interrupted_runs_tx (if is_zero at0 then now else at0) db
        = Inr (int (count_rows run_is_active (db_runs db)), db')"
      "db_targets db' = db_targets (interrupt_targets (if is_zero at0 then now else at0) db)"
    using recover_tx_spec [OF assms] by blast
  ultimately show ?thesis by (simp add: recover_interrupted_runs_def run_tx_def closed_kept_def)
qed

definition retention_op :: "task_op \<Rightarrow> bool" where
  "retention_op op = (case op of DeleteRunsOlderThan _ \<Rightarrow> True | _ \<Rightarrow> False)"

lemma apply_op_closed_kept:
  "task_db_inv db \<Longrightarrow> \<not> retention_op op \<Longrightarrow> closed_kept db (snd (apply_op ul op db))"
  by (cases op) (simp_all add: retention_op_def task_rows_closed_kept run_rows_closed_kept
      life_closed_kept recover_closed_kept)

lemma run_ops_closed_kept:
  "task_db_inv db \<Longrightarrow> \<forall>op\<in>set ops. \<not> retention_op op \<Longrightarrow> closed_kept db (run_ops ul ops db)"
proof (induction ops arbitrary: db)
  case (Cons op ops)
  then have "closed_kept db (snd (apply_op ul op db))" by (simp add: apply_op_closed_kept)
  moreover have "closed_kept (snd (apply_op ul op db)) (run_ops ul ops (snd (apply_op ul op db)))"
    using Cons by (simp add: apply_op_inv)
  ultimately show ?case by (auto intro: closed_kept_trans)
qed simp

text \<open>C7: The recorded outcome of a target is final: once a target is closed, no later operation other
  than retention changes any field of it, and reporting another result for it fails.\<close>

theorem target_results_are_final:
  assumes "t \<in> set (db_targets (run_ops ul ops (empty_task_db nodes)))" "\<not> target_open (tg_status t)"
    and "\<forall>op\<in>set later. \<not> retention_op op" "is_terminal_target_status (rs_status res)" "0 \<le> rs_duration_ms res"
  shows "let db = run_ops ul (ops @ later) (empty_task_db nodes)
    in t \<in> set (db_targets db) \<and> complete_run_target now (tg_id t) res db = (Inl (ErrClaimLost ''run target''), db)"
proof -
  define db where "db = run_ops ul (ops @ later) (empty_task_db nodes)"
  have split: "db = run_ops ul later (run_ops ul ops (empty_task_db nodes))" by (simp add: db_def run_ops_def)
  have t: "t \<in> set (db_targets db)"
    using run_ops_closed_kept [OF reached_inv [of ul ops nodes] assms(3), of ul] assms(1,2)
    by (simp add: closed_kept_def target_closed_def split)
  have inv: "task_db_inv db" unfolding db_def by (rule reached_inv)
  then have rows: "0 < tg_id t" "distinct (map tg_id (db_targets db))"
    using task_db_invD(1) t by (auto simp: rows_ok_def)
  have find: "find_target db (tg_id t) = Some t"
    using rows t find_by_key [of tg_id "db_targets db" t] by (simp add: find_target_def)
  have "count_rows (\<lambda>q. tg_id q = tg_id t \<and> target_open (tg_status q)) (db_targets db) = 0"
    using rows t assms(2) distinct_key_eq [of tg_id "db_targets db" _ t] by (auto simp: count_rows_eq_0)
  with find rows(1) assms(4,5) t show ?thesis
    unfolding db_def [symmetric] Let_def
    by (simp add: complete_run_target_def complete_run_target_tx_def run_tx_def Let_def)
qed

theorem target_results_are_final_witness:
  "\<exists>t. t \<in> set (db_targets (run_ops (\<lambda>r. r) (sample_ops @ [RecoverInterruptedRuns 20 20]) (empty_task_db Map.empty)))
    \<and> tg_status t = TargetSuccess"
proof -
  from sample_state obtain t where
    t: "db_targets (run_ops (\<lambda>r. r) sample_ops (empty_task_db Map.empty)) = [t]" "tg_status t = TargetSuccess" by auto
  have "t \<in> set (db_targets (run_ops (\<lambda>r. r) (sample_ops @ [RecoverInterruptedRuns 20 20]) (empty_task_db Map.empty)))"
    using target_results_are_final [of t "\<lambda>r. r" sample_ops Map.empty "[RecoverInterruptedRuns 20 20]" sample_result 30]
    by (simp add: t target_open_def retention_op_def sample_result_def Let_def del: run_ops_simps)
  with t show ?thesis by blast
qed

section \<open>Claims\<close>

lemma claim_due_task_Inr:
  assumes "claim_due_task now taskID due nxt at0 db = (Inr d, db')"
  obtains at once where "at = (if is_zero at0 then now else at0)" "once = is_zero nxt" "0 < taskID" "due \<noteq> 0"
    "\<not> once \<Longrightarrow> at < nxt \<and> due < nxt" "once \<Longrightarrow> due \<le> at"
    "claim_due_task_tx taskID due (if once then None else Some nxt) once at db = Inr (d, db')"
  using assms by (auto simp: claim_due_task_def Let_def result_iff is_zero_def split: if_splits)

text \<open>A successful claim records exactly one new run for that occurrence, with one target per node of
  the task; the run is skipped with all its targets when the task still has an active run, and
  queued otherwise; and the task is rescheduled strictly later, or disabled when it runs once.\<close>

theorem claim_outcome:
  assumes "claim_due_task now taskID due nxt at0 (run_ops ul ops (empty_task_db nodes)) = (Inr d, db')"
  shows "let db = run_ops ul ops (empty_task_db nodes); overlap = has_active_task_run_tx db taskID; r = dt_run d
    in db_runs db' = db_runs db @ [r] \<and> db_targets db' = db_targets db @ dt_targets d
      \<and> rn_task_id r = Some taskID \<and> rn_scheduled_for r = Some due
      \<and> rn_status r = (if overlap then RunSkipped else RunQueued)
      \<and> map tg_node_id (dt_targets d) = load_scheduled_task_node_ids db taskID
      \<and> list_all (\<lambda>t. tg_status t = (if overlap then TargetSkipped else TargetQueued)) (dt_targets d)
      \<and> (\<exists>t. find_task_row db' taskID = Some t \<and> tk_last_scheduled_at t = Some due
           \<and> (if is_zero nxt then \<not> tk_enabled t \<and> tk_next_run_at t = None
              else tk_next_run_at t = Some nxt \<and> due < nxt))"
proof -
  define db where "db = run_ops ul ops (empty_task_db nodes)"
  have inv: "task_db_inv db" unfolding db_def by (rule reached_inv)
  from assms have ok: "claim_due_task now taskID due nxt at0 db = (Inr d, db')" by (simp add: db_def)
  obtain at once where once: "once = is_zero nxt" "due \<noteq> 0" "\<not> once \<Longrightarrow> due < nxt"
    and tx: "claim_due_task_tx taskID due (if once then None else Some nxt) once at db = Inr (d, db')"
    by (rule claim_due_task_Inr [OF ok]) auto
  let ?n = "if once then None else Some nxt"
  obtain task script db1 active where one: "count_rows (claimable taskID due once) (db_tasks db) = 1"
    and db1: "db1 = db\<lparr>db_tasks := update_rows (claimable taskID due once) (advance_row due ?n at) (db_tasks db)\<rparr>"
    and id: "st_id task = taskID" and active: "active = has_active_task_run_tx db taskID"
    and crt: "create_task_run_tx (task_run_of task script run_trigger_scheduled (Some due)
          (if active then RunSkipped else RunQueued) (if active then ''overlap'' else []))
        (load_run_target_snapshots_tx db taskID) (if active then TargetSkipped else TargetQueued)
        (if active then ''overlap'' else []) at db1 = Inr (d, db')"
    by (rule claim_due_task_tx_steps [OF tx])
  obtain r new where d: "d = \<lparr>dt_run = r, dt_targets = new\<rparr>"
    and db': "db_runs db' = db_runs db1 @ [r]" "db_targets db' = db_targets db1 @ new" "db_tasks db' = db_tasks db1"
    and r: "rn_status r = (if active then RunSkipped else RunQueued)" "rn_task_id r = Some taskID"
      "rn_scheduled_for r = nullable_task_time (Some due)"
    and new: "map sn_node_id (load_run_target_snapshots_tx db taskID) = map tg_node_id new"
      "\<forall>t\<in>set new. tg_status t = (if active then TargetSkipped else TargetQueued)"
    using create_task_run_tx_spec [OF crt] id by fastforce
  have nodes: "map sn_node_id (load_run_target_snapshots_tx db taskID) = load_scheduled_task_node_ids db taskID"
    by (simp add: load_run_target_snapshots_tx_def o_def)
  from one obtain t where t: "t \<in> set (db_tasks db)" "claimable taskID due once t"
    using count_rows_pos [of "claimable taskID due once" "db_tasks db"] by auto
  have "find_task_row db taskID = Some t"
    using t task_db_invD(4) [OF inv] find_by_key [of tk_id "db_tasks db" t]
    by (auto simp: refs_ok_def claimable_def find_task_row_def)
  then have row: "find_task_row db' taskID = Some (advance_row due ?n at t)"
    using t(2) unfolding find_task_row_def db'(3) db1 by (simp add: find_update_rows)
  have "tk_last_scheduled_at (advance_row due ?n at t) = Some due"
    "if is_zero nxt then \<not> tk_enabled (advance_row due ?n at t) \<and> tk_next_run_at (advance_row due ?n at t) = None
     else tk_next_run_at (advance_row due ?n at t) = Some nxt \<and> due < nxt"
    using t(2) once by (auto simp: advance_row_def claimable_def nullable_task_time_def unset_def)
  with row d db' r new nodes active once(2) show ?thesis
    unfolding Let_def db_def [symmetric]
    by (simp add: db1 nullable_task_time_def unset_def is_zero_def list_all_iff)
qed

text \<open>A history with a task that runs once, at instant 50 on one node, claimed at 60.\<close>

definition sample_task :: scheduled_task where
  "sample_task = \<lparr>st_id = 0, st_name = ''t'', st_normalized_name = [], st_script_id = 1, st_script_name = [],
     st_script_revision = 0, st_schedule_type = ''once'', st_run_at = Some 50, st_cron_expression = [],
     st_timezone = ''UTC'', st_enabled = True, st_timeout_seconds = 0, st_notification_policy = [],
     st_notification_channels = [], st_node_ids = [''n''], st_next_run_at = None, st_last_scheduled_at = None,
     st_latest_run_status = None, st_latest_run_at = None, st_created_at = 0, st_updated_at = 0\<rparr>"

definition sample_task_ops :: "task_op list" where
  "sample_task_ops = [CreateScript 10 (Some sample_script),
     CreateScheduledTask 10 (Some (sample_task\<lparr>st_next_run_at := Some 50\<rparr>))]"

lemmas task_eval = create_scheduled_task_def create_scheduled_task_tx_def prepare_scheduled_task_def
  insert_task_row_def task_row_of_def replace_scheduled_task_nodes_tx_def insert_task_node_def
  get_scheduled_task_def get_scheduled_task_tx_def find_task_row_def join_script_def scan_scheduled_task_def
  load_scheduled_task_node_ids_def normalize_node_ids_def is_notification_policy_def latest_run_def
  notification_policy_failure_def notification_policy_never_def notification_policy_always_def
  schedule_type_cron_def schedule_type_once_def claim_due_task_def claim_due_task_tx_def claimable_def
  advance_row_def load_run_target_snapshots_tx_def has_active_task_run_tx_def task_run_of_def
  max_task_timezone_bytes_def max_cron_expression_bytes_def

lemma sample_claim:
  "\<exists>d db'. claim_due_task 60 1 50 0 60 (run_ops (\<lambda>r. r) sample_task_ops (empty_task_db Map.empty)) = (Inr d, db')
     \<and> rn_status (dt_run d) = RunQueued"
  by (simp add: sample_task_ops_def sample_task_def sample_script_def run_ops_eval task_eval limit_defs eval_text Let_def
      json_channels_def)

theorem claim_outcome_witness:
  "\<exists>d db' t. claim_due_task 60 1 50 0 60 (run_ops (\<lambda>r. r) sample_task_ops (empty_task_db Map.empty)) = (Inr d, db')
     \<and> rn_status (dt_run d) = RunQueued \<and> find_task_row db' 1 = Some t \<and> \<not> tk_enabled t"
proof -
  from sample_claim obtain d db' where
    ok: "claim_due_task 60 1 50 0 60 (run_ops (\<lambda>r. r) sample_task_ops (empty_task_db Map.empty)) = (Inr d, db')"
      "rn_status (dt_run d) = RunQueued" by blast
  from claim_outcome [OF ok(1)] obtain t where "find_task_row db' 1 = Some t \<and> \<not> tk_enabled t"
    unfolding Let_def by (auto simp: is_zero_def simp del: run_ops_simps)
  with ok show ?thesis by blast
qed

section \<open>Recovery\<close>

text \<open>C9: Recovery after a restart always succeeds, reports the number of runs it interrupted, leaves no run
  queued or running and no open target in a run it touched, and running it again finds nothing.\<close>

theorem recovery_leaves_nothing_active:
  "let db = run_ops ul ops (empty_task_db nodes); (res, db') = recover_interrupted_runs now at0 db
   in res = Inr (int (count_rows run_is_active (db_runs db)))
     \<and> count_rows run_is_active (db_runs db') = 0
     \<and> count_rows (\<lambda>t. target_open (tg_status t)) (db_targets db') = 0
     \<and> recover_interrupted_runs now2 at2 db' = (Inr 0, db')"
proof -
  define db where "db = run_ops ul ops (empty_task_db nodes)"
  have inv: "task_db_inv db" unfolding db_def by (rule reached_inv)
  from recover_tx_spec [OF inv, of "if is_zero at0 then now else at0"] obtain db' where
    tx: "recover_interrupted_runs_tx (if is_zero at0 then now else at0) db
      = Inr (int (count_rows run_is_active (db_runs db)), db')"
    and inv': "task_db_inv db'" and idle: "\<forall>r\<in>set (db_runs db'). \<not> run_is_active r" by blast
  have idle': "filter run_is_active (db_runs db') = []" using idle by (simp add: filter_empty_conv)
  have closed: "\<not> target_open (tg_status t)" if t: "t \<in> set (db_targets db')" for t
  proof -
    from t obtain r where r: "r \<in> set (db_runs db')" "rn_id r = tg_run_id t"
      using task_db_invD(1) [OF inv'] by (auto simp: rows_ok_def)
    then have "run_ok (targets_of db' (tg_run_id t)) r" using run_of_targets(1) [OF inv'] by metis
    with idle r(1) t show ?thesis
      using run_ok_active by (fastforce simp: target_closed_def targets_of_def)
  qed
  have "interrupt_targets at db' = db'" for at
    using closed unfolding interrupt_targets_def by (subst update_rows_id) auto
  then have "recover_interrupted_runs now2 at2 db' = (Inr 0, db')"
    using idle' by (simp add: recover_interrupted_runs_def run_tx_def recover_interrupted_runs_tx_def Let_def)
  moreover have "recover_interrupted_runs now at0 db = (Inr (int (count_rows run_is_active (db_runs db))), db')"
    using tx by (simp add: recover_interrupted_runs_def run_tx_def)
  ultimately show ?thesis
    using idle closed unfolding db_def [symmetric] Let_def by (simp add: count_rows_eq_0)
qed

section \<open>Deleting a script\<close>

text \<open>Deleting a script has exactly four outcomes: the identifier is invalid, the script is referenced by a
  task (conflict), it does not exist, or it is gone and its runs remain, no longer pointing to it.\<close>

theorem delete_script_outcomes:
  "let db = run_ops ul ops (empty_task_db nodes); (res, db') = delete_script i db
   in if i \<le> 0 then res = Inl (ErrInvalid ''script id'')
      else if 0 < count_rows (\<lambda>t. tk_script_id t = i) (db_tasks db)
        then res = Inl (ErrConflict ''script is referenced by a scheduled task'')
      else if find_script db i = None then res = Inl (ErrNotFound ''script'')
      else res = Inr () \<and> find_script db' i = None
        \<and> db_runs db' = map (\<lambda>r. if rn_script_id r = Some i then r\<lparr>rn_script_id := None\<rparr> else r) (db_runs db)
        \<and> db_targets db' = db_targets db"
proof -
  have none: "find_script db i = None \<longleftrightarrow> count_rows (\<lambda>s. sc_id s = i) (db_scripts db) = 0" for db
    by (auto simp: find_script_def find_None_set count_rows_eq_0)
  have "count_rows P (delete_rows P rs) = 0" for P and rs :: "automation_script list"
    by (simp add: count_rows_eq_0)
  then show ?thesis
    by (auto simp: none Let_def delete_script_def run_tx_def delete_script_row_def count_rows_pos update_rows_def
        count_rows_eq_0 split: sum.splits)
qed

section \<open>Paging\<close>

text \<open>A client that follows \<open>next_before_id\<close> until there is no next page; the fuel bounds the requests.\<close>

fun collect_runs :: "nat \<Rightarrow> task_db \<Rightarrow> run_filter \<Rightarrow> task_error + task_run list" where
  "collect_runs 0 db f = Inl (ErrInvalid ''requests'')"
| "collect_runs (Suc n) db f = bindE (list_runs db f) (\<lambda>p. case pg_next_before_id p of
      None \<Rightarrow> Inr (pg_runs p)
    | Some b \<Rightarrow> bindE (collect_runs n db (f\<lparr>fl_before_id := b\<rparr>)) (\<lambda>rest. Inr (pg_runs p @ rest)))"

definition matching_runs :: "task_db \<Rightarrow> run_filter \<Rightarrow> task_run list" where
  "matching_runs db f = rev (sort_key rn_id (filter (run_matches db f) (db_runs db)))"

abbreviation descending :: "task_run list \<Rightarrow> bool" where
  "descending \<equiv> sorted_wrt (\<lambda>a b. rn_id b < rn_id a)"

lemma matching_runs_descending:
  assumes "rows_ok db" shows "descending (matching_runs db f)"
proof -
  have "distinct (map rn_id (sort_key rn_id (filter (run_matches db f) (db_runs db))))"
    using assms by (simp add: rows_ok_def distinct_map_filter distinct_map inj_on_def)
  moreover have "sorted (map rn_id (sort_key rn_id (filter (run_matches db f) (db_runs db))))" by simp
  ultimately have "sorted_wrt (<) (map rn_id (sort_key rn_id (filter (run_matches db f) (db_runs db))))"
    using strict_sorted_iff by blast
  then show ?thesis by (simp add: matching_runs_def sorted_wrt_rev sorted_wrt_map)
qed

lemma rest_of_page:
  assumes "descending (A @ B)" "A \<noteq> []"
  shows "filter (\<lambda>r. rn_id r < rn_id (last A)) (A @ B) = B"
proof -
  have "rn_id (last A) \<le> rn_id r" if "r \<in> set A" for r
    using assms that by (induction A) (auto simp: sorted_wrt_append less_imp_le)
  moreover have "\<forall>r\<in>set B. rn_id r < rn_id (last A)" using assms by (simp add: sorted_wrt_append)
  ultimately show ?thesis by (force simp: filter_empty_conv filter_id_conv)
qed

lemma matching_runs_before:
  assumes "0 < b" "0 < fl_before_id g \<longrightarrow> b \<le> fl_before_id g"
  shows "matching_runs db (g\<lparr>fl_before_id := b\<rparr>) = filter (\<lambda>r. rn_id r < b) (matching_runs db g)"
proof -
  have "run_matches db (g\<lparr>fl_before_id := b\<rparr>) = (\<lambda>r. rn_id r < b \<and> run_matches db g r)"
    using assms by (intro ext) (auto simp: run_matches_def)
  then show ?thesis
    by (simp add: matching_runs_def rev_filter [symmetric] filter_sort conj_commute)
qed

definition normalized_filter :: "run_filter \<Rightarrow> run_filter" where
  "normalized_filter f = f\<lparr>fl_limit := (if fl_limit f = 0 then default_run_page_limit else fl_limit f),
     fl_status := trim_space (fl_status f), fl_trigger := trim_space (fl_trigger f), fl_node_id := trim_space (fl_node_id f)\<rparr>"

definition filter_accepted :: "run_filter \<Rightarrow> bool" where
  "filter_accepted f \<longleftrightarrow> 0 \<le> fl_before_id f \<and> 0 \<le> fl_task_id f \<and> 0 \<le> fl_script_id f
     \<and> 1 \<le> fl_limit (normalized_filter f) \<and> fl_limit (normalized_filter f) \<le> max_run_page_limit
     \<and> fl_from f \<noteq> Some 0 \<and> fl_to f \<noteq> Some 0
     \<and> \<not> (case (fl_from f, fl_to f) of (Some a, Some b) \<Rightarrow> a > b | _ \<Rightarrow> False)
     \<and> (trim_space (fl_status f) = [] \<or> is_run_status (trim_space (fl_status f)))
     \<and> (trim_space (fl_trigger f) = [] \<or> trim_space (fl_trigger f) = run_trigger_manual
          \<or> trim_space (fl_trigger f) = run_trigger_scheduled)
     \<and> valid_utf8 (trim_space (fl_node_id f)) \<and> length (trim_space (fl_node_id f)) \<le> max_task_node_id_bytes"

lemma normalize_run_filter_iff:
  "normalize_run_filter f = Inr g \<longleftrightarrow> filter_accepted f \<and> g = normalized_filter f"
proof (cases "fl_limit f = 0")
  case True
  then show ?thesis
    unfolding normalize_run_filter_def Let_def result_iff filter_accepted_def
    by (simp add: normalized_filter_def not_less not_le conj_ac) blast
next
  case False
  then show ?thesis
    unfolding normalize_run_filter_def Let_def result_iff filter_accepted_def
    by (simp add: normalized_filter_def not_less not_le conj_ac) blast
qed

lemma normalize_run_filter_before:
  "normalize_run_filter f = Inr g \<Longrightarrow> 0 \<le> b \<Longrightarrow> normalize_run_filter (f\<lparr>fl_before_id := b\<rparr>) = Inr (g\<lparr>fl_before_id := b\<rparr>)"
  unfolding normalize_run_filter_iff by (simp add: filter_accepted_def normalized_filter_def split: if_split_asm)

lemma normalize_run_filter_limit: "normalize_run_filter f = Inr g \<Longrightarrow> 0 < fl_limit g"
  unfolding normalize_run_filter_iff by (simp add: filter_accepted_def)

lemma collect_runs_correct:
  assumes rows: "rows_ok db" and "normalize_run_filter f = Inr g" "length (matching_runs db g) < n"
  shows "collect_runs n db f = Inr (matching_runs db g)"
  using assms(2,3)
proof (induction n arbitrary: f g)
  case (Suc n)
  let ?M = "matching_runs db g" and ?l = "nat (fl_limit g)"
  have l: "0 < ?l" using normalize_run_filter_limit [OF Suc.prems(1)] by simp
  show ?case
  proof (cases "length ?M > ?l")
    case False
    then have "list_runs db f = Inr \<lparr>pg_runs = ?M, pg_next_before_id = None\<rparr>"
      using Suc.prems(1) by (simp add: list_runs_def matching_runs_def Let_def)
    then show ?thesis by simp
  next
    case True
    let ?A = "take ?l ?M"
    let ?b = "rn_id (last ?A)"
    have page: "list_runs db f = Inr \<lparr>pg_runs = ?A, pg_next_before_id = Some ?b\<rparr>"
      using Suc.prems(1) True by (simp add: list_runs_def matching_runs_def Let_def min_def)
    have A: "?A \<noteq> []" using True l by (cases ?M) auto
    have last_in: "last ?A \<in> set (db_runs db)" "run_matches db g (last ?A)"
      using in_set_takeD [OF last_in_set [OF A]] unfolding matching_runs_def by simp_all
    have b: "0 < ?b" "0 < fl_before_id g \<longrightarrow> ?b \<le> fl_before_id g"
      using last_in rows by (auto simp: rows_ok_def run_matches_def)
    have rest: "matching_runs db (g\<lparr>fl_before_id := ?b\<rparr>) = drop ?l ?M"
      using rest_of_page [of ?A "drop ?l ?M"] A matching_runs_descending [OF rows, of g]
      by (simp add: matching_runs_before [OF b])
    have "collect_runs n db (f\<lparr>fl_before_id := ?b\<rparr>) = Inr (drop ?l ?M)"
      using Suc.IH [OF normalize_run_filter_before [OF Suc.prems(1)], of ?b] b Suc.prems(2) l True
      by (simp add: rest)
    with page show ?thesis by simp
  qed
qed simp

text \<open>Following the pages of the run list yields every run the filter selects, each once, newest first,
  within a number of requests bounded by the number of such runs.\<close>

theorem paging_is_complete:
  assumes "normalize_run_filter f = Inr g"
  shows "let db = run_ops ul ops (empty_task_db nodes); rs = filter (run_matches db g) (db_runs db)
    in collect_runs (Suc (length rs)) db f = Inr (rev (sort_key rn_id rs))
      \<and> sorted_wrt (\<lambda>a b. rn_id b < rn_id a) (rev (sort_key rn_id rs))"
proof -
  let ?db = "run_ops ul ops (empty_task_db nodes)"
  have rows: "rows_ok ?db" by (rule task_db_invD(1) [OF reached_inv])
  have "length (matching_runs ?db g) = length (filter (run_matches ?db g) (db_runs ?db))"
    by (simp add: matching_runs_def)
  then show ?thesis
    using collect_runs_correct [OF rows assms, of "Suc (length (matching_runs ?db g))"]
      matching_runs_descending [OF rows, of g]
    unfolding Let_def matching_runs_def by (simp del: collect_runs.simps)
qed

definition all_runs_filter :: run_filter where
  "all_runs_filter = \<lparr>fl_before_id = 0, fl_limit = 1, fl_from = None, fl_to = None, fl_status = [],
     fl_task_id = 0, fl_script_id = 0, fl_node_id = [], fl_trigger = []\<rparr>"

theorem paging_is_complete_witness:
  "\<exists>rs. collect_runs (Suc (length rs)) (run_ops (\<lambda>r. r) sample_ops (empty_task_db Map.empty)) all_runs_filter
     = Inr (rev (sort_key rn_id rs))"
proof -
  have "normalize_run_filter all_runs_filter = Inr all_runs_filter"
    by (simp add: normalize_run_filter_def all_runs_filter_def max_run_page_limit_def eval_text
        max_task_node_id_bytes_def Let_def)
  from paging_is_complete [OF this] show ?thesis unfolding Let_def by blast
qed

end
