(* ===== verification/TaskModel.thy ===== *)
theory TaskModel
  imports TaskClaims
begin

text \<open>
  \<^verbatim>\<open>internal/server/taskrunner/model.go\<close>: validation of a task's schedule and notification channels and
  the computation of its next run.  The Cron parser (\<^verbatim>\<open>robfig/cron\<close>), the time zone database
  (\<^verbatim>\<open>time.LoadLocation\<close>) and the URL parser (\<^verbatim>\<open>net/url\<close>) are the parameter \<open>schedule_lib\<close>.
\<close>

section \<open>What the code takes from libraries\<close>

text \<open>\<open>lib_next sched loc t\<close> is \<^verbatim>\<open>schedule.Next(t.In(loc)).UTC()\<close>; 0 is Go's zero time, ``no such time''.\<close>

record ('sched, 'loc) schedule_lib =
  lib_parse :: "string \<Rightarrow> 'sched option"
  lib_location :: "string \<Rightarrow> 'loc option"
  lib_next :: "'sched \<Rightarrow> 'loc \<Rightarrow> time \<Rightarrow> time"
  lib_url :: "string \<Rightarrow> (string \<times> string) option"
  lib_lower :: "nat \<Rightarrow> nat"
  lib_upper :: "nat \<Rightarrow> nat"

text \<open>What \<^verbatim>\<open>cron.Schedule\<close> documents: the next activation time is later than the given time, or zero.\<close>

definition next_is_later :: "('sched, 'loc) schedule_lib \<Rightarrow> bool" where
  "next_is_later lib \<longleftrightarrow> (\<forall>s l t. lib_next lib s l t = 0 \<or> t < lib_next lib s l t)"

section \<open>Channels\<close>

definition max_notification_channels :: nat where "max_notification_channels = 16"
definition max_webhook_url_bytes :: nat where "max_webhook_url_bytes = 2048"
definition max_channel_headers :: nat where "max_channel_headers = 32"
definition max_header_name_bytes :: nat where "max_header_name_bytes = 128"
definition max_header_value_bytes :: nat where "max_header_value_bytes = 1024"
definition max_channel_secret_bytes :: nat where "max_channel_secret_bytes = 1024"

definition line_breaks :: string where "line_breaks = [CHR 0x0D, CHR 0x0A]"

definition header_ok :: "string \<times> string \<Rightarrow> bool" where
  "header_ok kv = (case kv of (name, v) \<Rightarrow>
     \<not> (\<not> valid_utf8 name \<or> \<not> valid_utf8 v \<or> trim_space name = []
        \<or> length name > max_header_name_bytes \<or> length v > max_header_value_bytes
        \<or> contains_any name line_breaks \<or> contains_any v line_breaks))"

definition webhook_url_ok :: "(string \<Rightarrow> (string \<times> string) option) \<Rightarrow> string \<Rightarrow> bool" where
  "webhook_url_ok parse_url u =
     (case parse_url u of None \<Rightarrow> False
      | Some (scheme, host) \<Rightarrow> scheme \<noteq> [] \<and> host \<noteq> [] \<and> (scheme = ''http'' \<or> scheme = ''https''))"

definition validate_channel :: "(string \<Rightarrow> (string \<times> string) option) \<Rightarrow> notification_channel \<Rightarrow> task_error + unit" where
  "validate_channel parse_url c =
     bindE (failIf (ch_type c \<noteq> ''webhook'' \<and> ch_type c \<noteq> ''dingtalk'' \<and> ch_type c \<noteq> ''feishu'')
              (ErrInvalid ''notification channel type'')) (\<lambda>_.
     bindE (failIf (\<not> valid_utf8 (ch_webhook_url c) \<or> length (ch_webhook_url c) = 0
              \<or> length (ch_webhook_url c) > max_webhook_url_bytes) (ErrInvalid ''notification webhook'')) (\<lambda>_.
     bindE (failIf (\<not> webhook_url_ok parse_url (ch_webhook_url c)) (ErrInvalid ''notification webhook'')) (\<lambda>_.
     bindE (failIf (length (ch_headers c) > max_channel_headers) (ErrInvalid ''notification headers'')) (\<lambda>_.
     bindE (failIf (\<not> list_all header_ok (ch_headers c)) (ErrInvalid ''notification headers'')) (\<lambda>_.
     failIf (\<not> valid_utf8 (ch_secret c) \<or> length (ch_secret c) > max_channel_secret_bytes)
       (ErrInvalid ''notification secret''))))))"

fun validate_each :: "('a \<Rightarrow> 'e + unit) \<Rightarrow> 'a list \<Rightarrow> 'e + unit" where
  "validate_each f [] = Inr ()"
| "validate_each f (x # xs) = bindE (f x) (\<lambda>_. validate_each f xs)"

definition validate_notification_channels ::
  "(string \<Rightarrow> (string \<times> string) option) \<Rightarrow> notification_channel list \<Rightarrow> task_error + unit" where
  "validate_notification_channels parse_url channels =
     bindE (failIf (length channels > max_notification_channels) (ErrInvalid ''notification channels'')) (\<lambda>_.
     validate_each (validate_channel parse_url) channels)"

section \<open>Schedules\<close>

definition task_location :: "('sched, 'loc) schedule_lib \<Rightarrow> string \<Rightarrow> task_error + 'loc" where
  "task_location lib timezone0 =
     (let timezone = trim_space timezone0 in
      if timezone = [] \<or> timezone = ''Local'' \<or> length timezone > max_task_timezone_bytes
         \<or> contains_any timezone line_breaks
      then Inl (ErrInvalid ''timezone'')
      else (case lib_location lib timezone of None \<Rightarrow> Inl (ErrInvalid ''timezone'') | Some l \<Rightarrow> Inr l))"

definition parse_cron_schedule ::
  "('sched, 'loc) schedule_lib \<Rightarrow> string \<Rightarrow> string \<Rightarrow> task_error + 'sched \<times> 'loc" where
  "parse_cron_schedule lib expression0 timezone =
     bindE (failIf (contains_any expression0 line_breaks) (ErrInvalid ''cron expression'')) (\<lambda>_.
     let expression = trim_space expression0 in
     bindE (failIf (length expression = 0 \<or> length expression > max_cron_expression_bytes
              \<or> length (text_fields expression) \<noteq> 5) (ErrInvalid ''cron expression'')) (\<lambda>_.
     bindE (failIf (prefix ''@'' expression \<or> contains (to_upper (lib_upper lib) expression) ''CRON_TZ=''
              \<or> contains (to_upper (lib_upper lib) expression) ''TZ='') (ErrInvalid ''cron expression'')) (\<lambda>_.
     case lib_parse lib expression of None \<Rightarrow> Inl (ErrInvalid ''cron expression'')
     | Some schedule \<Rightarrow> bindE (task_location lib timezone) (\<lambda>location. Inr (schedule, location)))))"

definition next_run :: "('sched, 'loc) schedule_lib \<Rightarrow> string \<Rightarrow> string \<Rightarrow> time \<Rightarrow> task_error + time" where
  "next_run lib expression timezone after =
     bindE (failIf (is_zero after) (ErrInvalid ''reference time'')) (\<lambda>_.
     bindE (parse_cron_schedule lib expression timezone) (\<lambda>(schedule, location).
     let nxt = lib_next lib schedule location after in
     if is_zero nxt then Inl (ErrInvalid ''cron expression'') else Inr nxt))"

definition schedule_type_of :: "scheduled_task \<Rightarrow> string" where
  "schedule_type_of task = (if st_schedule_type task = [] then schedule_type_cron else st_schedule_type task)"

definition validate_scheduled_task :: "('sched, 'loc) schedule_lib \<Rightarrow> scheduled_task \<Rightarrow> task_error + unit" where
  "validate_scheduled_task lib task =
     bindE (validate_task_input (lib_lower lib) (Some task)) (\<lambda>_.
     bindE (if schedule_type_of task = schedule_type_cron
            then bindE (parse_cron_schedule lib (st_cron_expression task) (st_timezone task)) (\<lambda>_. Inr ())
            else bindE (task_location lib (st_timezone task)) (\<lambda>_. Inr ())) (\<lambda>_.
     validate_notification_channels (lib_url lib) (st_notification_channels task)))"

text \<open>
  The code reads \<^verbatim>\<open>*task.RunAt\<close> after validation; a nil pointer there would panic, and
  \<open>validated_run_at\<close> below shows that validation has excluded it.
\<close>

definition set_next_run :: "('sched, 'loc) schedule_lib \<Rightarrow> scheduled_task \<Rightarrow> time \<Rightarrow> task_error + scheduled_task" where
  "set_next_run lib task after =
     bindE (validate_scheduled_task lib task) (\<lambda>_.
     if schedule_type_of task = schedule_type_once
     then (case st_run_at task of
             None \<Rightarrow> Inl (ErrInvalid ''run at'')
           | Some runAt \<Rightarrow>
               if \<not> after < runAt then Inl (ErrInvalid ''run at'')
               else if \<not> st_enabled task then Inr (task\<lparr>st_next_run_at := None\<rparr>)
               else Inr (task\<lparr>st_next_run_at := Some runAt\<rparr>))
     else if \<not> st_enabled task then Inr (task\<lparr>st_next_run_at := None\<rparr>)
     else bindE (next_run lib (st_cron_expression task) (st_timezone task) after)
            (\<lambda>nxt. Inr (task\<lparr>st_next_run_at := Some nxt\<rparr>)))"

section \<open>Properties\<close>

lemma prepare_next_run:
  assumes "prepare_scheduled_task ul task False = Inr p" "st_enabled task \<longrightarrow> \<not> unset n"
  shows "\<exists>q. prepare_scheduled_task ul (task\<lparr>st_next_run_at := n\<rparr>) True = Inr q"
proof -
  obtain name norm where name: "normalize_automation_name ul (st_name task) = Inr (name, norm)"
    using assms(1) by (auto simp: prepare_scheduled_task_def result_iff)
  show ?thesis
    using assms unfolding prepare_scheduled_task_def Let_def bindE_failIf
    by (simp add: name split: if_split_asm) (auto simp: result_iff split: if_split_asm)
qed

lemma validated_run_at:
  assumes "validate_scheduled_task lib task = Inr u" "schedule_type_of task = schedule_type_once"
  shows "\<exists>t. st_run_at task = Some t \<and> t \<noteq> 0"
proof -
  have "st_schedule_type task = schedule_type_once" using assms(2) by (simp add: schedule_type_of_def split: if_splits)
  then have "trim_space (st_schedule_type task) = schedule_type_once"
    by (simp add: schedule_type_once_def eval_text)
  with assms(1) show ?thesis
    by (auto simp: validate_scheduled_task_def validate_task_input_def prepare_scheduled_task_def Let_def result_iff
        bindE_failIf unset_def is_zero_def schedule_type_once_def schedule_type_cron_def split: if_splits option.splits)
qed

lemma next_run_Inr:
  assumes "next_run lib e tz after = Inr t"
  shows "t \<noteq> 0" "\<exists>s l. parse_cron_schedule lib e tz = Inr (s, l) \<and> lib_next lib s l after = t"
  using assms by (auto simp: next_run_def result_iff is_zero_def Let_def split: if_splits)

lemma next_run_is_later_aux: "next_is_later lib \<Longrightarrow> next_run lib e tz after = Inr t \<Longrightarrow> after < t \<and> t \<noteq> 0"
  using next_run_Inr [of lib e tz after t] by (metis next_is_later_def)

text \<open>The next run computed from a Cron expression lies strictly after the reference time.\<close>

theorem next_run_is_later:
  assumes "next_is_later lib" "next_run lib e tz after = Inr t"
  shows "after < t \<and> t \<noteq> 0"
  by (rule next_run_is_later_aux [OF assms])

definition sample_lib :: "(unit, unit) schedule_lib" where
  "sample_lib = \<lparr>lib_parse = (\<lambda>_. Some ()), lib_location = (\<lambda>_. Some ()), lib_next = (\<lambda>_ _ t. if t < 0 then 0 else t + 60),
     lib_url = (\<lambda>_. Some (''https'', ''h'')), lib_lower = (\<lambda>r. r), lib_upper = (\<lambda>r. r)\<rparr>"

lemma sample_next: "next_is_later sample_lib"
  by (simp add: next_is_later_def sample_lib_def)

lemmas cron_eval = parse_cron_schedule_def task_location_def sample_lib_def eval_text max_cron_expression_bytes_def
  max_task_timezone_bytes_def contains_any_def line_breaks_def contains_def

lemma eq_char_of: "c = char_of n \<longleftrightarrow> of_char c = n mod 256" for n :: nat
  by (metis char_of_char of_char_of)

lemma sample_next_run: "next_run sample_lib ''0 3 * * *'' ''UTC'' 7 = Inr 67"
  by (simp add: next_run_def cron_eval is_zero_def sublist_code eq_char_of)

theorem next_run_is_later_witness: "next_is_later sample_lib \<and> (7::int) < 67 \<and> (67::int) \<noteq> 0"
  using sample_next next_run_is_later [OF sample_next sample_next_run] by blast

text \<open>When the next run of a valid task is set, only that field changes; an enabled task runs next at a
  time after the reference time (its own time when it runs once), a disabled one never; and the
  store accepts the result.\<close>

theorem set_next_run_correct:
  assumes "next_is_later lib" "set_next_run lib task after = Inr task'"
  shows "task' = task\<lparr>st_next_run_at := st_next_run_at task'\<rparr>
    \<and> (if st_enabled task then (\<exists>t. st_next_run_at task' = Some t \<and> after < t
         \<and> (schedule_type_of task = schedule_type_once \<longrightarrow> st_run_at task = Some t))
       else st_next_run_at task' = None)
    \<and> (\<exists>p. prepare_scheduled_task (lib_lower lib) task' True = Inr p)"
proof -
  from assms(2) have valid: "validate_scheduled_task lib task = Inr ()" by (auto simp: set_next_run_def result_iff)
  then obtain p where p: "prepare_scheduled_task (lib_lower lib) task False = Inr p"
    by (auto simp: validate_scheduled_task_def validate_task_input_def result_iff)
  obtain n where n: "task' = task\<lparr>st_next_run_at := n\<rparr>"
    and spec: "if st_enabled task then (\<exists>t. n = Some t \<and> t \<noteq> 0 \<and> after < t
         \<and> (schedule_type_of task = schedule_type_once \<longrightarrow> st_run_at task = Some t)) else n = None"
  proof (cases "schedule_type_of task = schedule_type_once")
    case True
    with validated_run_at [OF valid] assms(2) that show thesis
      by (auto simp: set_next_run_def valid split: if_splits)
  next
    case False
    with assms that next_run_is_later_aux [OF assms(1)] show thesis
      by (fastforce simp: set_next_run_def valid result_iff split: if_splits)
  qed
  have "st_enabled task \<longrightarrow> \<not> unset n" using spec by (auto simp: unset_def is_zero_def split: if_splits)
  from prepare_next_run [OF p this] spec show ?thesis by (auto simp: n)
qed

lemma sample_set_next_run: "\<exists>t'. set_next_run sample_lib sample_task 20 = Inr t'"
  by (simp add: set_next_run_def validate_scheduled_task_def validate_task_input_def sample_task_def
      prepare_scheduled_task_def run_ops_eval task_eval limit_defs eval_text Let_def schedule_type_of_def
      validate_notification_channels_def max_notification_channels_def task_location_def sample_lib_def
      contains_any_def line_breaks_def)

theorem set_next_run_correct_witness:
  "\<exists>t'. set_next_run sample_lib sample_task 20 = Inr t' \<and> st_next_run_at t' = Some 50"
proof -
  from sample_set_next_run obtain t' where t': "set_next_run sample_lib sample_task 20 = Inr t'" by blast
  from set_next_run_correct [OF sample_next this] have "st_next_run_at t' = Some 50"
    by (auto simp: sample_task_def schedule_type_of_def schedule_type_once_def split: if_splits)
  with t' show ?thesis by blast
qed

lemma validate_each_Inr: "validate_each f xs = Inr u \<longleftrightarrow> list_all (\<lambda>x. f x = Inr ()) xs"
  by (induction xs) (auto simp: result_iff)

lemma no_line_breaks: "\<not> contains_any s line_breaks \<Longrightarrow> CHR 0x0A \<notin> set s \<and> CHR 0x0D \<notin> set s"
  unfolding contains_any_def line_breaks_def list_ex_iff by (simp add: list.set) blast

text \<open>Channels that pass validation number at most 16, use one of the three known types and an HTTP
  address, and no header name or value can break out of its line.\<close>

theorem accepted_channels_safe:
  assumes "validate_notification_channels parse_url channels = Inr u"
  shows "length channels \<le> 16 \<and> list_all (\<lambda>c. ch_type c \<in> {''webhook'', ''dingtalk'', ''feishu''}
      \<and> (\<exists>scheme host. parse_url (ch_webhook_url c) = Some (scheme, host) \<and> scheme \<in> {''http'', ''https''} \<and> host \<noteq> [])
      \<and> list_all (\<lambda>(name, v). name \<noteq> [] \<and> CHR 0x0A \<notin> set (name @ v) \<and> CHR 0x0D \<notin> set (name @ v)) (ch_headers c)) channels"
proof -
  have one: "ch_type c \<in> {''webhook'', ''dingtalk'', ''feishu''}
      \<and> (\<exists>scheme host. parse_url (ch_webhook_url c) = Some (scheme, host) \<and> scheme \<in> {''http'', ''https''} \<and> host \<noteq> [])
      \<and> list_all (\<lambda>(name, v). name \<noteq> [] \<and> CHR 0x0A \<notin> set (name @ v) \<and> CHR 0x0D \<notin> set (name @ v)) (ch_headers c)"
    if "validate_channel parse_url c = Inr ()" for c
  proof -
    have hd: "(case kv of (name, v) \<Rightarrow> name \<noteq> [] \<and> CHR 0x0A \<notin> set (name @ v) \<and> CHR 0x0D \<notin> set (name @ v))"
      if "header_ok kv" for kv
    proof (cases kv)
      case (Pair name v)
      with that have "trim_space name \<noteq> []" "\<not> contains_any name line_breaks" "\<not> contains_any v line_breaks"
        by (simp_all add: header_ok_def)
      then show ?thesis using no_line_breaks by (auto simp: Pair)
    qed
    from that have "list_all header_ok (ch_headers c)" by (simp add: validate_channel_def result_iff)
    then have "list_all (\<lambda>(name, v). name \<noteq> [] \<and> CHR 0x0A \<notin> set (name @ v) \<and> CHR 0x0D \<notin> set (name @ v)) (ch_headers c)"
      by (rule list.pred_mono_strong) (erule hd)
    with that show ?thesis
      by (simp add: validate_channel_def result_iff webhook_url_ok_def split: option.splits prod.splits)
  qed
  from assms have len: "length channels \<le> 16"
    and all: "list_all (\<lambda>c. validate_channel parse_url c = Inr ()) channels"
    by (auto simp: validate_notification_channels_def result_iff validate_each_Inr max_notification_channels_def)
  from all show ?thesis by (intro conjI len) (erule list.pred_mono_strong, erule one)
qed

definition sample_channel :: notification_channel where
  "sample_channel = \<lparr>ch_type = ''webhook'', ch_webhook_url = ''https://h/'', ch_headers = [(''X'', ''y'')], ch_secret = []\<rparr>"

theorem accepted_channels_safe_witness: "length [sample_channel] \<le> 16"
proof -
  have "validate_notification_channels (\<lambda>_. Some (''https'', ''h'')) [sample_channel] = Inr ()"
    by (simp add: validate_notification_channels_def validate_channel_def sample_channel_def webhook_url_ok_def
        header_ok_def contains_any_def line_breaks_def eval_text max_notification_channels_def
        max_webhook_url_bytes_def max_channel_headers_def max_header_name_bytes_def max_header_value_bytes_def
        max_channel_secret_bytes_def)
  from accepted_channels_safe [OF this] show ?thesis by blast
qed

end
