(* ===== verification/TaskEvolve.thy ===== *)
theory TaskEvolve
  imports TaskModel
begin

text \<open>
  How one state of the task store relates to the next: counters only grow, a target keeps its
  identity and its run, new targets belong to new runs, and a closed target does not change.  This
  is the contract the execution engine relies on while other clients write to the store.
\<close>

definition evolves :: "task_db \<Rightarrow> task_db \<Rightarrow> bool" where
  "evolves db db' \<longleftrightarrow> db_target_seq db \<le> db_target_seq db' \<and> db_run_seq db \<le> db_run_seq db'
     \<and> (\<forall>t'\<in>set (db_targets db').
          (\<exists>t\<in>set (db_targets db). tg_id t = tg_id t' \<and> tg_run_id t = tg_run_id t' \<and> (target_closed t \<longrightarrow> t' = t))
          \<or> db_target_seq db < tg_id t' \<and> db_run_seq db < tg_run_id t')"

lemma evolves_refl [simp, intro]: "evolves db db"
  by (auto simp: evolves_def)

lemma evolves_same:
  "db_targets db' = db_targets db \<Longrightarrow> db_target_seq db' = db_target_seq db \<Longrightarrow> db_run_seq db \<le> db_run_seq db' \<Longrightarrow> evolves db db'"
  by (auto simp: evolves_def)

lemma evolves_trans:
  assumes "evolves a b" "evolves b c" shows "evolves a c"
  unfolding evolves_def
proof (intro conjI ballI)
  show "db_target_seq a \<le> db_target_seq c" "db_run_seq a \<le> db_run_seq c"
    using assms by (auto simp: evolves_def)
  fix t assume "t \<in> set (db_targets c)"
  with assms(2) consider (old) u where "u \<in> set (db_targets b)" "tg_id u = tg_id t" "tg_run_id u = tg_run_id t"
      "target_closed u \<longrightarrow> t = u"
    | (new) "db_target_seq b < tg_id t" "db_run_seq b < tg_run_id t"
    unfolding evolves_def by blast
  then show "(\<exists>s\<in>set (db_targets a). tg_id s = tg_id t \<and> tg_run_id s = tg_run_id t \<and> (target_closed s \<longrightarrow> t = s))
      \<or> db_target_seq a < tg_id t \<and> db_run_seq a < tg_run_id t"
  proof cases
    case old
    with assms(1) show ?thesis unfolding evolves_def by (metis (no_types, lifting))
  next
    case new
    with assms(1) show ?thesis unfolding evolves_def by linarith
  qed
qed

lemma evolves_update:
  assumes "db_targets db' = update_rows P f (db_targets db)" "db_target_seq db' = db_target_seq db"
    "db_run_seq db' = db_run_seq db" "\<And>t. P t \<Longrightarrow> \<not> target_closed t"
    "\<And>t. P t \<Longrightarrow> tg_id (f t) = tg_id t \<and> tg_run_id (f t) = tg_run_id t"
  shows "evolves db db'"
  unfolding evolves_def
proof (intro conjI ballI)
  show "db_target_seq db \<le> db_target_seq db'" "db_run_seq db \<le> db_run_seq db'" using assms(2,3) by simp_all
  fix t' assume "t' \<in> set (db_targets db')"
  then obtain t where "t \<in> set (db_targets db)" "t' = (if P t then f t else t)"
    unfolding assms(1) set_update_rows by blast
  then show "(\<exists>t\<in>set (db_targets db). tg_id t = tg_id t' \<and> tg_run_id t = tg_run_id t' \<and> (target_closed t \<longrightarrow> t' = t))
      \<or> db_target_seq db < tg_id t' \<and> db_run_seq db < tg_run_id t'"
    using assms(4,5) by (intro disjI1 bexI [of _ t]) auto
qed

lemma run_tx_evolves: "(\<And>x db'. body db = Inr (x, db') \<Longrightarrow> evolves db db') \<Longrightarrow> evolves db (snd (run_tx body db))"
  by (auto simp: run_tx_def split: sum.splits)

lemma create_task_run_tx_evolves:
  assumes inv: "task_db_inv db" and ok: "create_task_run_tx run ts st err at db = Inr (d, db')"
  shows "evolves db db'"
proof -
  from create_task_run_tx_spec [OF ok] obtain r new where
    db': "db' = db\<lparr>db_runs := db_runs db @ [r], db_run_seq := db_run_seq db + 1,
               db_targets := db_targets db @ new, db_target_seq := db_target_seq db + int (length new)\<rparr>"
    and r: "rn_id r = db_run_seq db + 1"
    and ids: "map tg_id new = map (\<lambda>k. db_target_seq db + 1 + int k) [0..<length new]"
    and tg: "\<forall>t\<in>set new. tg_run_id t = rn_id r \<and> tg_status t = st" by blast
  have "tg_id ` set new = (\<lambda>k. db_target_seq db + 1 + int k) ` {0..<length new}"
    using ids by (metis set_map set_upt)
  then have "\<forall>j\<in>tg_id ` set new. db_target_seq db < j" by (simp only:) auto
  then have "\<forall>t\<in>set new. db_target_seq db < tg_id t \<and> db_run_seq db < tg_run_id t" using tg r by auto
  then show ?thesis unfolding evolves_def db' by auto
qed

lemma task_rows_evolves:
  "evolves db (snd (create_script ul now s db))" "evolves db (snd (update_script ul now s db))"
  "evolves db (snd (delete_script i db))" "evolves db (snd (set_scheduled_task_enabled now i en nxt db))"
  "evolves db (snd (delete_scheduled_task i db))"
proof -
  show "evolves db (snd (create_script ul now s db))"
    by (auto simp: create_script_def insert_script_row_def Let_def intro!: evolves_same split: option.splits sum.splits if_splits)
  show "evolves db (snd (update_script ul now s db))"
    by (auto simp: update_script_def Let_def intro!: evolves_same split: option.splits sum.splits)
  show "evolves db (snd (delete_script i db))"
    by (auto simp: delete_script_def delete_script_row_def Let_def run_tx_def intro!: evolves_same split: sum.splits if_splits)
  show "evolves db (snd (set_scheduled_task_enabled now i en nxt db))"
    by (auto simp: set_scheduled_task_enabled_def set_enabled_tx_def result_iff run_tx_def intro!: evolves_same
        split: sum.splits if_splits)
  show "evolves db (snd (delete_scheduled_task i db))"
    by (auto simp: delete_scheduled_task_def delete_task_rows_def result_iff run_tx_def intro!: evolves_same
        split: sum.splits if_splits)
qed

lemma replace_nodes_evolves:
  "replace_scheduled_task_nodes_tx i ids at db = Inr db' \<Longrightarrow> evolves db0 db \<Longrightarrow> evolves db0 db'"
  using replace_nodes_frame by (fastforce simp: evolves_def)

lemma scheduled_task_evolves:
  "evolves db (snd (create_scheduled_task ul now t db))" "evolves db (snd (update_scheduled_task ul now t db))"
proof -
  have "evolves db db'" if "create_scheduled_task_tx t' now db = Inr (x, db')" for t' x db'
  proof -
    from that obtain row db1 ids where ins: "insert_task_row row db = Inr (x, db1)"
      and nodes: "replace_scheduled_task_nodes_tx x ids now db1 = Inr db'"
      by (auto simp: create_scheduled_task_tx_def result_iff Let_def split: sum.splits)
    have "evolves db db1" using ins
      by (auto simp: insert_task_row_def Let_def intro!: evolves_same split: if_splits)
    with nodes show ?thesis by (rule replace_nodes_evolves)
  qed
  then show "evolves db (snd (create_scheduled_task ul now t db))"
    by (auto simp: create_scheduled_task_def run_tx_def split: option.splits sum.splits)
  have "evolves db db'" if "update_scheduled_task_tx t' now db = Inr (x, db')" for t' x db'
  proof -
    from that obtain ts where nodes: "replace_scheduled_task_nodes_tx (st_id t') (st_node_ids t') now
        (db\<lparr>db_tasks := ts\<rparr>) = Inr db'"
      by (auto simp: update_scheduled_task_tx_def result_iff Let_def split: if_splits)
    have "evolves db (db\<lparr>db_tasks := ts\<rparr>)" by (rule evolves_same) simp_all
    with nodes show ?thesis by (rule replace_nodes_evolves)
  qed
  then show "evolves db (snd (update_scheduled_task ul now t db))"
    by (auto simp: update_scheduled_task_def run_tx_def split: option.splits sum.splits)
qed

lemma claim_evolves:
  assumes inv: "task_db_inv db" shows "evolves db (snd (claim_due_task now i due nxt at0 db))"
proof -
  have "evolves db db'" if "claim_due_task_tx i due n once at db = Inr (d, db')" for n once at d db'
    using that
  proof (rule claim_due_task_tx_steps)
    fix task script db1 active
    assume db1: "db1 = db\<lparr>db_tasks := update_rows (claimable i due once) (advance_row due n at) (db_tasks db)\<rparr>"
      and crt: "create_task_run_tx (task_run_of task script run_trigger_scheduled (Some due)
          (if active then RunSkipped else RunQueued) (if active then ''overlap'' else []))
        (load_run_target_snapshots_tx db i) (if active then TargetSkipped else TargetQueued)
        (if active then ''overlap'' else []) at db1 = Inr (d, db')"
    have "task_db_inv db1" unfolding db1 by (rule keep_task_rows_inv [OF inv]) simp_all
    moreover have "evolves db db1" by (rule evolves_same) (simp_all add: db1)
    ultimately show "evolves db db'" using create_task_run_tx_evolves [OF _ crt] evolves_trans by blast
  qed
  then show ?thesis by (auto simp: claim_due_task_def Let_def intro!: run_tx_evolves)
qed

lemma manual_evolves:
  assumes inv: "task_db_inv db"
  shows "evolves db (snd (create_manual_script_run now i ts at0 db))" "evolves db (snd (create_manual_task_run now i at0 db))"
  using create_task_run_tx_evolves [OF inv]
  by (auto simp: create_manual_script_run_def create_manual_task_run_def create_manual_task_run_tx_def Let_def result_iff
      split: sum.splits intro!: run_tx_evolves)

lemma aggregate_run_tx_frame:
  "aggregate_run_tx i at db = Inr (st, db') \<Longrightarrow>
     db_targets db' = db_targets db \<and> db_target_seq db' = db_target_seq db \<and> db_run_seq db' = db_run_seq db"
  by (auto simp: aggregate_run_tx_def Let_def split: if_splits)

lemma mark_run_target_running_evolves: "evolves db (snd (mark_run_target_running now i at0 db))"
proof -
  have "evolves db db'" if tx: "mark_run_target_running_tx i at db = Inr (u, db')" for at u db'
  proof (rule evolves_update [where P = "\<lambda>t. tg_id t = i \<and> tg_status t = TargetQueued"
        and f = "\<lambda>t. t\<lparr>tg_status := TargetRunning, tg_started_at := Some at, tg_updated_at := at\<rparr>"])
  qed (use tx in \<open>auto simp: mark_run_target_running_tx_def Let_def result_iff target_closed_def target_open_def
      split: option.splits\<close>)
  then show ?thesis by (auto simp: mark_run_target_running_def intro!: run_tx_evolves)
qed

lemma complete_run_target_evolves: "evolves db (snd (complete_run_target now i res db))"
proof -
  have "evolves db db'" if "complete_run_target_tx i res at db = Inr (u, db')" for at u db'
    using that
  proof (rule complete_run_target_tx_steps)
    fix t0 P db1 st
    assume P: "P = (\<lambda>t. tg_id t = i \<and> target_open (tg_status t))"
      and db1: "db1 = db\<lparr>db_targets := update_rows P (complete_row res at) (db_targets db)\<rparr>"
      and agg: "aggregate_run_tx u at db1 = Inr (st, db')"
    show "evolves db db'"
      by (rule evolves_update [where P = P and f = "complete_row res at"])
        (use aggregate_run_tx_frame [OF agg] in \<open>simp_all add: db1 P target_closed_def\<close>)
  qed
  then show ?thesis
    by (auto simp: complete_run_target_def run_tx_def Let_def split: sum.splits)
qed

lemma aggregate_run_evolves: "evolves db (snd (aggregate_run now i at0 db))"
  by (auto simp: aggregate_run_def run_tx_def dest!: aggregate_run_tx_frame split: sum.splits intro!: evolves_same)

lemma update_run_notification_evolves: "evolves db (snd (update_run_notification now i sent err at0 db))"
  by (auto simp: update_run_notification_def Let_def intro!: evolves_same)

lemma bind_all_interrupt_frame:
  "bind_all (interrupt_run at) ids db = Inr db' \<Longrightarrow>
     db_targets db' = db_targets db \<and> db_target_seq db' = db_target_seq db \<and> db_run_seq db' = db_run_seq db"
  by (induction ids arbitrary: db) (force simp: result_iff interrupt_run_def dest: aggregate_run_tx_frame)+

lemma recover_evolves: "evolves db (snd (recover_interrupted_runs now at0 db))"
proof -
  have "evolves db db'" if tx: "recover_interrupted_runs_tx at db = Inr (n, db')" for at n db'
  proof (rule evolves_update [where P = "\<lambda>t. target_open (tg_status t)
          \<and> (\<exists>r\<in>set (db_runs db). rn_id r = tg_run_id t \<and> run_is_active r)"
        and f = "\<lambda>t. t\<lparr>tg_status := TargetInterrupted, tg_error := restarted_message,
          tg_completed_at := Some at, tg_updated_at := at\<rparr>"])
  qed (use tx in \<open>auto simp: recover_interrupted_runs_tx_def Let_def result_iff interrupt_targets_def target_closed_def
      dest!: bind_all_interrupt_frame\<close>)
  then show ?thesis by (auto simp: recover_interrupted_runs_def intro!: run_tx_evolves)
qed

lemma delete_runs_older_than_evolves: "evolves db (snd (delete_runs_older_than cutoff db))"
  by (auto simp: delete_runs_older_than_def Let_def evolves_def)

lemma apply_op_evolves: "task_db_inv db \<Longrightarrow> evolves db (snd (apply_op ul op db))"
  by (cases op) (simp_all add: task_rows_evolves scheduled_task_evolves claim_evolves manual_evolves
      mark_run_target_running_evolves complete_run_target_evolves aggregate_run_evolves
      update_run_notification_evolves recover_evolves delete_runs_older_than_evolves)

end
