(* ===== verification/NodeModel.thy ===== *)
theory NodeModel
  imports GoText
begin

text \<open>
  The rows of monitored nodes as the stores hand them out (\<^verbatim>\<open>Node\<close> of \<^verbatim>\<open>internal/server/store/nodes.go\<close>).
\<close>

record node =
  nd_id :: string
  nd_name :: string
  nd_hostname :: string
  nd_ip :: string
  nd_os :: string
  nd_arch :: string
  nd_kernel :: string
  nd_agent_version :: string
  nd_agent_mode :: string
  nd_agent_user :: string
  nd_status :: string
  nd_terminal_enabled :: bool
  nd_last_seen_at :: time
  nd_created_at :: time
  nd_updated_at :: time

definition zero_node :: "string \<Rightarrow> node" where
  "zero_node i = \<lparr>nd_id = i, nd_name = [], nd_hostname = [], nd_ip = [], nd_os = [], nd_arch = [], nd_kernel = [],
     nd_agent_version = [], nd_agent_mode = [], nd_agent_user = [], nd_status = [], nd_terminal_enabled = False,
     nd_last_seen_at = 0, nd_created_at = 0, nd_updated_at = 0\<rparr>"

end
