(* ===== verification/TaskEngine.thy ===== *)
theory TaskEngine
  imports Slots TaskEvolve NodeModel
begin

text \<open>
  \<^verbatim>\<open>internal/server/taskrunner/engine.go\<close>: recovery at start, the due sweep, manual runs, the goroutines
  that execute the targets of a run under a per-node slot and the global slots, and the
  finalization of a run.  The state holds the database, the reservations, the slots and one
  \<open>worker\<close> per goroutine of \<open>executeTarget\<close>; an event is what one goroutine does between two points
  where it may block or another may run.  Replies of agents, of the node table and of the notifier
  are arguments of the events.
\<close>

section \<open>Replies from outside\<close>

datatype node_reply = NodeMissing | NodeFails go_error | NodeFound node

record script_response =
  sp_status :: string
  sp_exit_code :: "int option"
  sp_output :: string
  sp_output_truncated :: bool
  sp_error :: string
  sp_duration_ms :: int

type_synonym script_reply = "go_error + script_response"

record delivery_result =
  dl_sent :: bool
  dl_error :: string
  dl_attempted_at :: time

record task_target_summary =
  sm_node_name :: string
  sm_status :: target_status
  sm_exit_code :: "int option"

record task_payload =
  py_run_id :: int
  py_task_name :: string
  py_script_name :: string
  py_trigger :: string
  py_status :: run_status
  py_total_targets :: nat
  py_successful_targets :: nat
  py_failed_targets :: nat
  py_skipped_targets :: nat
  py_duration_ms :: int
  py_failures :: "task_target_summary list"
  py_finished_at :: time

record audit_entry =
  au_target_id :: string
  au_target_name :: string
  au_success :: bool
  au_summary :: string
  au_duration :: duration
  au_task_id :: string
  au_script_id :: string
  au_target_count :: string

section \<open>Results of a target\<close>

definition map_target_status :: "string \<Rightarrow> target_status" where
  "map_target_status status =
     (if status = ''success'' then TargetSuccess
      else if status = ''timed_out'' then TargetTimedOut
      else if status = ''busy'' then TargetBusy
      else if status = ''cancelled'' then TargetCancelled
      else if status = ''unsupported'' then TargetUnsupported
      else TargetFailed)"

definition plain_result :: "target_status \<Rightarrow> string \<Rightarrow> time \<Rightarrow> run_target_result" where
  "plain_result status err completedAt = \<lparr>rs_status = status, rs_exit_code = None, rs_output = [],
     rs_output_truncated = False, rs_error = err, rs_duration_ms = 0, rs_started_at = None,
     rs_completed_at = completedAt\<rparr>"

definition target_result_for_error :: "go_error \<Rightarrow> string \<Rightarrow> time \<Rightarrow> run_target_result" where
  "target_result_for_error err fallbackMessage completedAt =
     (case err of
        ContextCanceled \<Rightarrow> plain_result TargetCancelled ''script execution was cancelled'' completedAt
      | DeadlineExceeded \<Rightarrow> plain_result TargetTimedOut ''script execution timed out'' completedAt
      | OtherError _ \<Rightarrow> plain_result TargetFailed fallbackMessage completedAt)"

text \<open>The part of \<open>executeTarget\<close> before the start: \<open>Some\<close> result closes the target at once.\<close>

definition lookup_outcome :: "node_reply \<Rightarrow> bool \<Rightarrow> time \<Rightarrow> run_target_result option" where
  "lookup_outcome reply supported now =
     (case reply of
        NodeMissing \<Rightarrow> Some (plain_result TargetOffline ''Agent is offline'' now)
      | NodeFound n \<Rightarrow>
          if nd_status n \<noteq> ''online'' then Some (plain_result TargetOffline ''Agent is offline'' now)
          else if \<not> supported then Some (plain_result TargetUnsupported
            ''Agent does not support task execution; upgrade the Agent'' now)
          else None
      | NodeFails err \<Rightarrow> Some (target_result_for_error err ''node lookup failed'' now))"

definition elapsed_ms :: "time \<Rightarrow> time \<Rightarrow> int" where
  "elapsed_ms startedAt completedAt = max (milliseconds (time_sub completedAt startedAt)) 0"

definition execution_result :: "script_reply \<Rightarrow> time \<Rightarrow> time \<Rightarrow> run_target_result" where
  "execution_result reply startedAt completedAt =
     (case reply of
        Inl err \<Rightarrow> (target_result_for_error err ''script execution service failed'' completedAt)
          \<lparr>rs_started_at := Some startedAt, rs_duration_ms := elapsed_ms startedAt completedAt\<rparr>
      | Inr response \<Rightarrow>
          (let duration = (if sp_duration_ms response \<le> 0 then elapsed_ms startedAt completedAt
                           else sp_duration_ms response)
           in \<lparr>rs_status = map_target_status (sp_status response), rs_exit_code = sp_exit_code response,
               rs_output = sp_output response, rs_output_truncated = sp_output_truncated response,
               rs_error = sp_error response, rs_duration_ms = duration, rs_started_at = Some startedAt,
               rs_completed_at = completedAt\<rparr>))"

section \<open>The engine's state\<close>

text \<open>
  Where a goroutine of \<open>executeTarget\<close> is.  \<open>HoldsBoth\<close> and \<open>HoldsNode\<close> are the deferred releases
  after the target has been completed.
\<close>

datatype worker_pc = WaitNode | WaitGlobal | LookingUp | Starting | Executing time | HoldsBoth | HoldsNode | Finished

record worker =
  wk_run :: task_run
  wk_target :: task_run_target
  wk_pc :: worker_pc

text \<open>\<open>es_dispatched\<close>: runs whose \<open>finalizeRun\<close> is still to come, behind the WaitGroup of their workers.\<close>

record engine_state =
  es_db :: task_db
  es_initialized :: bool
  es_cancelled :: bool
  es_schedules :: "int set"
  es_global :: slot_chan
  es_node_slots :: "string \<Rightarrow> slot_chan option"
  es_workers :: "worker list"
  es_dispatched :: "int list"
  es_delivered :: "(notification_channel list \<times> task_payload) list"
  es_audit :: "audit_entry list"

definition default_global_concurrency :: nat where "default_global_concurrency = 8"

definition new_engine :: "int \<Rightarrow> task_db \<Rightarrow> engine_state" where
  "new_engine globalConcurrency db = \<lparr>es_db = db, es_initialized = False, es_cancelled = False, es_schedules = {},
     es_global = make_slots (if globalConcurrency \<le> 0 then default_global_concurrency else nat globalConcurrency),
     es_node_slots = (\<lambda>_. None), es_workers = [], es_dispatched = [], es_delivered = [], es_audit = []\<rparr>"

section \<open>Starting runs\<close>

text \<open>\<open>Initialize\<close>: the recovery, once.\<close>

definition engine_initialize :: "time \<Rightarrow> engine_state \<Rightarrow> (task_error + unit) \<times> engine_state" where
  "engine_initialize now s =
     (if es_initialized s then (Inr (), s)
      else (case recover_interrupted_runs now now (es_db s) of
              (Inl e, db) \<Rightarrow> (Inl e, s\<lparr>es_db := db\<rparr>)
            | (Inr _, db) \<Rightarrow> (Inr (), s\<lparr>es_db := db, es_initialized := True\<rparr>)))"

definition new_worker :: "task_run \<Rightarrow> task_run_target \<Rightarrow> worker" where
  "new_worker run target = \<lparr>wk_run = run, wk_target = target, wk_pc = WaitNode\<rparr>"

definition dispatch :: "task_run_detail \<Rightarrow> engine_state \<Rightarrow> engine_state" where
  "dispatch detail s = s\<lparr>es_workers := es_workers s @ map (new_worker (dt_run detail)) (dt_targets detail),
     es_dispatched := es_dispatched s @ [rn_id (dt_run detail)]\<rparr>"

text \<open>\<open>go e.finalizeRun(...)\<close> for a skipped run: nothing to wait for.\<close>

definition dispatch_skipped :: "task_run_detail \<Rightarrow> engine_state \<Rightarrow> engine_state" where
  "dispatch_skipped detail s = s\<lparr>es_dispatched := es_dispatched s @ [rn_id (dt_run detail)]\<rparr>"

definition reserve_schedule :: "int \<Rightarrow> engine_state \<Rightarrow> bool \<times> engine_state" where
  "reserve_schedule taskID s =
     (let (ok, keys) = reserve_key taskID (es_schedules s) in (ok, s\<lparr>es_schedules := keys\<rparr>))"

definition release_schedule :: "int \<Rightarrow> engine_state \<Rightarrow> engine_state" where
  "release_schedule taskID s = s\<lparr>es_schedules := release_key taskID (es_schedules s)\<rparr>"

text \<open>The body of the sweep's loop while the schedule is reserved; the error is the one it would report.\<close>

definition sweep_claim ::
  "('sched, 'loc) schedule_lib \<Rightarrow> time \<Rightarrow> scheduled_task \<Rightarrow> engine_state \<Rightarrow> task_error option \<times> engine_state" where
  "sweep_claim lib now task s =
     (case st_next_run_at task of
        None \<Rightarrow> (None, s)
      | Some due \<Rightarrow>
        if is_zero due then (None, s)
        else (case (if st_schedule_type task = schedule_type_cron
                    then next_run lib (st_cron_expression task) (st_timezone task) now else Inr 0) of
           Inl e \<Rightarrow> (Some e, s)
         | Inr nextRun \<Rightarrow>
           (case claim_due_task now (st_id task) due nextRun now (es_db s) of
              (Inl (ErrClaimLost _), db) \<Rightarrow> (None, s\<lparr>es_db := db\<rparr>)
            | (Inl e, db) \<Rightarrow> (Some e, s\<lparr>es_db := db\<rparr>)
            | (Inr detail, db) \<Rightarrow>
                (None, (if rn_status (dt_run detail) = RunSkipped then dispatch_skipped detail (s\<lparr>es_db := db\<rparr>)
                        else dispatch detail (s\<lparr>es_db := db\<rparr>))))))"

definition sweep_one ::
  "('sched, 'loc) schedule_lib \<Rightarrow> time \<Rightarrow> scheduled_task \<Rightarrow> engine_state \<Rightarrow> task_error option \<times> engine_state" where
  "sweep_one lib now task s =
     (case reserve_schedule (st_id task) s of
        (False, s') \<Rightarrow> (None, s')
      | (True, s') \<Rightarrow> (case sweep_claim lib now task s' of (e, s'') \<Rightarrow> (e, release_schedule (st_id task) s'')))"

fun sweep_tasks ::
  "('sched, 'loc) schedule_lib \<Rightarrow> time \<Rightarrow> scheduled_task list \<Rightarrow> task_error option \<Rightarrow> engine_state \<Rightarrow>
     task_error option \<times> engine_state" where
  "sweep_tasks lib now [] firstErr s = (firstErr, s)"
| "sweep_tasks lib now (task # tasks) firstErr s =
     (case sweep_one lib now task s of
        (e, s') \<Rightarrow> sweep_tasks lib now tasks (if firstErr = None then e else firstErr) s')"

text \<open>
  \<open>Sweep\<close>; \<open>clock\<close> is \<^verbatim>\<open>e.now()\<close>.  A sweep is one step of the model; in the program other requests can
  reach the store between the claims of two tasks.
\<close>

definition sweep ::
  "('sched, 'loc) schedule_lib \<Rightarrow> time \<Rightarrow> time \<Rightarrow> engine_state \<Rightarrow> task_error option \<times> engine_state" where
  "sweep lib clock now0 s =
     (case engine_initialize clock s of
        (Inl e, s') \<Rightarrow> (Some e, s')
      | (Inr _, s') \<Rightarrow>
        (let now = (if is_zero now0 then clock else now0)
         in case list_due_scheduled_tasks (es_db s') now max_due_task_limit of
              Inl e \<Rightarrow> (Some e, s')
            | Inr tasks \<Rightarrow> sweep_tasks lib now tasks None s'))"

fun snapshot_nodes :: "(string \<Rightarrow> node_reply) \<Rightarrow> string list \<Rightarrow> (task_error + run_target_snapshot list)" where
  "snapshot_nodes nodes [] = Inr []"
| "snapshot_nodes nodes (nodeID # nodeIDs) =
     (case nodes nodeID of
        NodeMissing \<Rightarrow> Inl (ErrNotFound ''node'')
      | NodeFails e \<Rightarrow> Inl (ErrDB (go_error_text e))
      | NodeFound n \<Rightarrow> bindE (snapshot_nodes nodes nodeIDs)
          (\<lambda>ts. Inr (\<lparr>sn_node_id = nd_id n, sn_node_name = nd_name n\<rparr> # ts)))"

definition run_manual_script ::
  "time \<Rightarrow> (string \<Rightarrow> node_reply) \<Rightarrow> int \<Rightarrow> string list \<Rightarrow> engine_state \<Rightarrow> (task_error + task_run) \<times> engine_state" where
  "run_manual_script clock nodes scriptID nodeIDs s =
     (case engine_initialize clock s of
        (Inl e, s') \<Rightarrow> (Inl e, s')
      | (Inr _, s') \<Rightarrow>
        (case snapshot_nodes nodes nodeIDs of
           Inl e \<Rightarrow> (Inl e, s')
         | Inr targets \<Rightarrow>
           (case create_manual_script_run clock scriptID targets clock (es_db s') of
              (Inl e, db) \<Rightarrow> (Inl e, s'\<lparr>es_db := db\<rparr>)
            | (Inr detail, db) \<Rightarrow> (Inr (dt_run detail), dispatch detail (s'\<lparr>es_db := db\<rparr>)))))"

definition run_manual_task :: "time \<Rightarrow> int \<Rightarrow> engine_state \<Rightarrow> (task_error + task_run) \<times> engine_state" where
  "run_manual_task clock taskID s =
     (case engine_initialize clock s of
        (Inl e, s') \<Rightarrow> (Inl e, s')
      | (Inr _, s') \<Rightarrow>
        (case create_manual_task_run clock taskID clock (es_db s') of
           (Inl e, db) \<Rightarrow> (Inl e, s'\<lparr>es_db := db\<rparr>)
         | (Inr detail, db) \<Rightarrow> (Inr (dt_run detail), dispatch detail (s'\<lparr>es_db := db\<rparr>))))"

section \<open>Executing targets\<close>

definition worker_at :: "engine_state \<Rightarrow> nat \<Rightarrow> worker option" where
  "worker_at s w = (if w < length (es_workers s) then Some (es_workers s ! w) else None)"

definition set_pc :: "nat \<Rightarrow> worker_pc \<Rightarrow> engine_state \<Rightarrow> engine_state" where
  "set_pc w pc s = s\<lparr>es_workers := (es_workers s)[w := (es_workers s ! w)\<lparr>wk_pc := pc\<rparr>]\<rparr>"

text \<open>\<open>nodeSlot\<close>: the slot of a node, made on first use.\<close>

definition node_slot :: "engine_state \<Rightarrow> string \<Rightarrow> slot_chan" where
  "node_slot s nodeID = (case es_node_slots s nodeID of Some slot \<Rightarrow> slot | None \<Rightarrow> make_slots 1)"

definition set_node_slot :: "string \<Rightarrow> slot_chan \<Rightarrow> engine_state \<Rightarrow> engine_state" where
  "set_node_slot nodeID slot s = s\<lparr>es_node_slots := (es_node_slots s)(nodeID := Some slot)\<rparr>"

text \<open>\<open>completeTarget\<close>: an error is only logged.\<close>

definition complete_target :: "time \<Rightarrow> int \<Rightarrow> run_target_result \<Rightarrow> engine_state \<Rightarrow> engine_state" where
  "complete_target now targetID result s = s\<lparr>es_db := snd (complete_run_target now targetID result (es_db s))\<rparr>"

definition cancelled_before :: "time \<Rightarrow> run_target_result" where
  "cancelled_before now = plain_result TargetCancelled ''server stopped before execution'' now"

text \<open>
  One step of the goroutine of worker \<open>w\<close>.  \<open>TakeNode\<close> and \<open>TakeGlobal\<close> are the two cases of
  \<open>acquire\<close> that send; \<open>GiveUp\<close> is the case of a cancelled context.  \<open>Start\<close> carries an error of
  the database connection, if any.
\<close>

datatype worker_event =
  TakeNode | TakeGlobal | GiveUp time | Look node_reply bool time | Start time "go_error option" time
| Reply script_reply time | FreeGlobal | FreeNode

fun worker_step :: "nat \<Rightarrow> worker_event \<Rightarrow> engine_state \<Rightarrow> engine_state option" where
  "worker_step w TakeNode s =
     (case worker_at s w of None \<Rightarrow> None | Some k \<Rightarrow>
      if wk_pc k \<noteq> WaitNode then None
      else (case acquire_slot (node_slot s (tg_node_id (wk_target k))) of
              None \<Rightarrow> None
            | Some slot \<Rightarrow> Some (set_pc w WaitGlobal (set_node_slot (tg_node_id (wk_target k)) slot s))))"
| "worker_step w TakeGlobal s =
     (case worker_at s w of None \<Rightarrow> None | Some k \<Rightarrow>
      if wk_pc k \<noteq> WaitGlobal then None
      else (case acquire_slot (es_global s) of
              None \<Rightarrow> None
            | Some slots \<Rightarrow> Some (set_pc w LookingUp (s\<lparr>es_global := slots\<rparr>))))"
| "worker_step w (GiveUp now) s =
     (case worker_at s w of None \<Rightarrow> None | Some k \<Rightarrow>
      if \<not> es_cancelled s then None
      else if wk_pc k = WaitNode
      then Some (set_pc w Finished (complete_target now (tg_id (wk_target k)) (cancelled_before now) s))
      else if wk_pc k = WaitGlobal
      then Some (set_pc w HoldsNode (complete_target now (tg_id (wk_target k)) (cancelled_before now) s))
      else None)"
| "worker_step w (Look reply supported now) s =
     (case worker_at s w of None \<Rightarrow> None | Some k \<Rightarrow>
      if wk_pc k \<noteq> LookingUp then None
      else (case lookup_outcome reply supported now of
              None \<Rightarrow> Some (set_pc w Starting s)
            | Some result \<Rightarrow> Some (set_pc w HoldsBoth (complete_target now (tg_id (wk_target k)) result s))))"
| "worker_step w (Start startedAt failure now) s =
     (case worker_at s w of None \<Rightarrow> None | Some k \<Rightarrow>
      if wk_pc k \<noteq> Starting then None
      else (case failure of
              Some err \<Rightarrow> Some (set_pc w HoldsBoth (complete_target now (tg_id (wk_target k))
                (target_result_for_error err ''script execution could not start'' now) s))
            | None \<Rightarrow>
              (case mark_run_target_running startedAt (tg_id (wk_target k)) startedAt (es_db s) of
                 (Inr _, db) \<Rightarrow> Some (set_pc w (Executing startedAt) (s\<lparr>es_db := db\<rparr>))
               | (Inl _, db) \<Rightarrow> Some (set_pc w HoldsBoth (complete_target now (tg_id (wk_target k))
                   (plain_result TargetFailed ''script execution could not start'' now) (s\<lparr>es_db := db\<rparr>))))))"
| "worker_step w (Reply reply completedAt) s =
     (case worker_at s w of None \<Rightarrow> None | Some k \<Rightarrow>
      (case wk_pc k of
         Executing startedAt \<Rightarrow> Some (set_pc w HoldsBoth (complete_target completedAt (tg_id (wk_target k))
           (execution_result reply startedAt completedAt) s))
       | _ \<Rightarrow> None))"
| "worker_step w FreeGlobal s =
     (case worker_at s w of None \<Rightarrow> None | Some k \<Rightarrow>
      if wk_pc k \<noteq> HoldsBoth then None
      else (case release_slot (es_global s) of
              None \<Rightarrow> None
            | Some slots \<Rightarrow> Some (set_pc w HoldsNode (s\<lparr>es_global := slots\<rparr>))))"
| "worker_step w FreeNode s =
     (case worker_at s w of None \<Rightarrow> None | Some k \<Rightarrow>
      if wk_pc k \<noteq> HoldsNode then None
      else (case release_slot (node_slot s (tg_node_id (wk_target k))) of
              None \<Rightarrow> None
            | Some slot \<Rightarrow> Some (set_pc w Finished (set_node_slot (tg_node_id (wk_target k)) slot s))))"

section \<open>Finalizing a run\<close>

definition should_notify :: "task_run \<Rightarrow> bool" where
  "should_notify run =
     (if rn_notification_policy run = notification_policy_always then True
      else if rn_notification_policy run = notification_policy_failure then rn_status run \<noteq> RunSuccess
      else False)"

definition run_duration :: "task_run \<Rightarrow> duration" where
  "run_duration run =
     (case rn_completed_at run of None \<Rightarrow> 0
      | Some completedAt \<Rightarrow>
        (let started = (case rn_started_at run of Some t \<Rightarrow> t | None \<Rightarrow> rn_created_at run)
         in if completedAt < started then 0 else time_sub completedAt started))"

definition failure_summary :: "task_run_target \<Rightarrow> task_target_summary" where
  "failure_summary t = \<lparr>sm_node_name = (if tg_node_name t = [] then tg_node_id t else tg_node_name t),
     sm_status = tg_status t, sm_exit_code = tg_exit_code t\<rparr>"

definition task_payload_of :: "task_run_detail \<Rightarrow> task_payload" where
  "task_payload_of detail =
     (let run = dt_run detail;
          failures = map failure_summary (filter (\<lambda>t. tg_status t \<noteq> TargetSuccess) (dt_targets detail));
          skipped = count_rows (\<lambda>t. tg_status t = TargetSkipped) (dt_targets detail);
          finishedAt = (case rn_completed_at run of Some t \<Rightarrow> t | None \<Rightarrow> rn_updated_at run)
      in \<lparr>py_run_id = rn_id run, py_task_name = rn_task_name run, py_script_name = rn_script_name run,
          py_trigger = rn_trigger run, py_status = rn_status run, py_total_targets = rn_total_targets run,
          py_successful_targets = rn_success_targets run, py_failed_targets = rn_failed_targets run,
          py_skipped_targets = skipped, py_duration_ms = milliseconds (run_duration run),
          py_failures = failures, py_finished_at = finishedAt\<rparr>)"

definition format_optional_id :: "int option \<Rightarrow> string" where
  "format_optional_id v = (case v of None \<Rightarrow> [] | Some i \<Rightarrow> show_int i)"

definition scheduled_run_audit :: "task_run \<Rightarrow> audit_entry" where
  "scheduled_run_audit run = \<lparr>au_target_id = show_int (rn_id run), au_target_name = rn_task_name run,
     au_success = (rn_status run = RunSuccess), au_summary = run_status_name (rn_status run),
     au_duration = run_duration run, au_task_id = format_optional_id (rn_task_id run),
     au_script_id = format_optional_id (rn_script_id run), au_target_count = show_int (int (rn_total_targets run))\<rparr>"

definition notify_run :: "time \<Rightarrow> delivery_result \<Rightarrow> task_run \<Rightarrow> task_run_detail \<Rightarrow> engine_state \<Rightarrow> engine_state" where
  "notify_run now result run detail s =
     (if should_notify run
      then s\<lparr>es_delivered := es_delivered s @ [(rn_notification_channels run, task_payload_of detail)],
             es_db := snd (update_run_notification now (rn_id run) (dl_sent result) (dl_error result)
               (dl_attempted_at result) (es_db s))\<rparr>
      else s)"

definition audit_run :: "task_run \<Rightarrow> engine_state \<Rightarrow> engine_state" where
  "audit_run run s =
     (if rn_trigger run = run_trigger_scheduled
      then s\<lparr>es_audit := es_audit s @ [scheduled_run_audit run]\<rparr> else s)"

definition finalize_run :: "time \<Rightarrow> delivery_result \<Rightarrow> int \<Rightarrow> engine_state \<Rightarrow> engine_state" where
  "finalize_run now result runID s =
     (case aggregate_run now runID now (es_db s) of
        (Inl _, db) \<Rightarrow> s\<lparr>es_db := db\<rparr>
      | (Inr run, db) \<Rightarrow>
        (case get_run db runID of
           Inl _ \<Rightarrow> s\<lparr>es_db := db\<rparr>
         | Inr detail \<Rightarrow> audit_run run (notify_run now result run detail (s\<lparr>es_db := db\<rparr>))))"

text \<open>\<^verbatim>\<open>waitGroup.Wait()\<close> has returned: every worker of the run is finished.\<close>

definition run_settled :: "int \<Rightarrow> engine_state \<Rightarrow> bool" where
  "run_settled runID s \<longleftrightarrow> list_all (\<lambda>k. rn_id (wk_run k) = runID \<longrightarrow> wk_pc k = Finished) (es_workers s)"

definition finalize_step :: "time \<Rightarrow> delivery_result \<Rightarrow> int \<Rightarrow> engine_state \<Rightarrow> engine_state option" where
  "finalize_step now result runID s =
     (if runID \<in> set (es_dispatched s) \<and> run_settled runID s
      then Some (finalize_run now result runID (s\<lparr>es_dispatched := remove1 runID (es_dispatched s)\<rparr>))
      else None)"

section \<open>Events\<close>

datatype engine_event =
  Initialize time
| Sweep time time
| ManualScript time "string \<Rightarrow> node_reply" int "string list"
| ManualTask time int
| StopServer
| Worker nat worker_event
| Finalize time delivery_result int
| StoreWrite task_op

definition engine_step ::
  "('sched, 'loc) schedule_lib \<Rightarrow> engine_event \<Rightarrow> engine_state \<Rightarrow> engine_state option" where
  "engine_step lib e s = (case e of
     Initialize now \<Rightarrow> Some (snd (engine_initialize now s))
   | Sweep clock now \<Rightarrow> Some (snd (sweep lib clock now s))
   | ManualScript clock nodes i ns \<Rightarrow> Some (snd (run_manual_script clock nodes i ns s))
   | ManualTask clock i \<Rightarrow> Some (snd (run_manual_task clock i s))
   | StopServer \<Rightarrow> Some (s\<lparr>es_cancelled := True\<rparr>)
   | Worker w ev \<Rightarrow> worker_step w ev s
   | Finalize now result i \<Rightarrow> finalize_step now result i s
   | StoreWrite op \<Rightarrow> Some (s\<lparr>es_db := snd (apply_op (lib_lower lib) op (es_db s))\<rparr>))"

inductive engine_reaches :: "('sched, 'loc) schedule_lib \<Rightarrow> engine_state \<Rightarrow> engine_state \<Rightarrow> bool"
  for lib s where
  start: "engine_reaches lib s s"
| step: "engine_reaches lib s t \<Longrightarrow> engine_step lib e t = Some u \<Longrightarrow> engine_reaches lib s u"

end
