(* ===== verification/TaskEngineProps.thy ===== *)
theory TaskEngineProps
  imports TaskEngine
begin

text \<open>
  The execution engine keeps its slots, closes every target it was given and finalizes only settled
  runs, under any interleaving of its goroutines with each other and with other writers of the
  store; and its goroutines cannot deadlock.
\<close>

section \<open>The invariant\<close>

fun holds_node_pc :: "worker_pc \<Rightarrow> bool" where
  "holds_node_pc WaitNode = False" | "holds_node_pc Finished = False" | "holds_node_pc _ = True"

fun holds_global_pc :: "worker_pc \<Rightarrow> bool" where
  "holds_global_pc LookingUp = True" | "holds_global_pc Starting = True" | "holds_global_pc (Executing _) = True"
| "holds_global_pc HoldsBoth = True" | "holds_global_pc _ = False"

fun completed_pc :: "worker_pc \<Rightarrow> bool" where
  "completed_pc HoldsBoth = True" | "completed_pc HoldsNode = True" | "completed_pc Finished = True"
| "completed_pc _ = False"

abbreviation wk_node :: "worker \<Rightarrow> string" where "wk_node k \<equiv> tg_node_id (wk_target k)"

definition node_holders :: "engine_state \<Rightarrow> string \<Rightarrow> nat" where
  "node_holders s n = count_rows (\<lambda>k. holds_node_pc (wk_pc k) \<and> wk_node k = n) (es_workers s)"

definition global_holders :: "engine_state \<Rightarrow> nat" where
  "global_holders s = count_rows (\<lambda>k. holds_global_pc (wk_pc k)) (es_workers s)"

definition slots_ok :: "nat \<Rightarrow> engine_state \<Rightarrow> bool" where
  "slots_ok cap s \<longleftrightarrow> sl_capacity (es_global s) = cap \<and> sl_held (es_global s) = global_holders s
     \<and> global_holders s \<le> cap
     \<and> (\<forall>n. sl_capacity (node_slot s n) = 1 \<and> sl_held (node_slot s n) = node_holders s n \<and> node_holders s n \<le> 1)"

text \<open>No row with this identifier is open (the row may be gone by retention).\<close>

definition settled :: "task_db \<Rightarrow> int \<Rightarrow> bool" where
  "settled db i \<longleftrightarrow> (\<forall>t\<in>set (db_targets db). tg_id t = i \<longrightarrow> target_closed t)"

definition work_ok :: "engine_state \<Rightarrow> bool" where
  "work_ok s \<longleftrightarrow> task_db_inv (es_db s)
     \<and> (\<forall>k\<in>set (es_workers s). 0 < tg_id (wk_target k) \<and> tg_id (wk_target k) \<le> db_target_seq (es_db s)
          \<and> (completed_pc (wk_pc k) \<longrightarrow> settled (es_db s) (tg_id (wk_target k))))
     \<and> (\<forall>i\<in>set (es_dispatched s). i \<le> db_run_seq (es_db s)
          \<and> (\<forall>t\<in>set (targets_of (es_db s) i). target_closed t
               \<or> (\<exists>k\<in>set (es_workers s). tg_id (wk_target k) = tg_id t \<and> rn_id (wk_run k) = i)))"

lemma settled_evolves:
  "evolves db db' \<Longrightarrow> i \<le> db_target_seq db \<Longrightarrow> settled db i \<Longrightarrow> settled db' i"
  unfolding settled_def evolves_def by (metis not_less)

text \<open>Other writers do not disturb the engine's work.\<close>

lemma work_ok_evolves:
  assumes ok: "work_ok s" and ev: "evolves (es_db s) db" and inv: "task_db_inv db"
  shows "work_ok (s\<lparr>es_db := db\<rparr>)"
  unfolding work_ok_def
proof (intro conjI ballI impI)
  show "task_db_inv (es_db (s\<lparr>es_db := db\<rparr>))" using inv by simp
  fix k assume k: "k \<in> set (es_workers (s\<lparr>es_db := db\<rparr>))"
  with ok have seq: "0 < tg_id (wk_target k)" "tg_id (wk_target k) \<le> db_target_seq (es_db s)"
    by (auto simp: work_ok_def)
  with ev show "0 < tg_id (wk_target k)" "tg_id (wk_target k) \<le> db_target_seq (es_db (s\<lparr>es_db := db\<rparr>))"
    by (auto simp: evolves_def)
  assume "completed_pc (wk_pc k)"
  with ok k have "settled (es_db s) (tg_id (wk_target k))" by (simp add: work_ok_def)
  with ev seq show "settled (es_db (s\<lparr>es_db := db\<rparr>)) (tg_id (wk_target k))" using settled_evolves by simp
next
  fix i assume "i \<in> set (es_dispatched (s\<lparr>es_db := db\<rparr>))"
  then have i: "i \<in> set (es_dispatched s)" by simp
  with ok have le: "i \<le> db_run_seq (es_db s)" by (simp add: work_ok_def)
  with ev show "i \<le> db_run_seq (es_db (s\<lparr>es_db := db\<rparr>))" by (simp add: evolves_def)
  fix t' assume "t' \<in> set (targets_of (es_db (s\<lparr>es_db := db\<rparr>)) i)"
  then have t': "t' \<in> set (db_targets db)" "tg_run_id t' = i" by (auto simp: targets_of_def)
  with ev le obtain t where t: "t \<in> set (db_targets (es_db s))" "tg_id t = tg_id t'" "tg_run_id t = i"
      "target_closed t \<longrightarrow> t' = t"
    unfolding evolves_def by (metis not_less)
  from ok i have "\<forall>t\<in>set (targets_of (es_db s) i). target_closed t
      \<or> (\<exists>k\<in>set (es_workers s). tg_id (wk_target k) = tg_id t \<and> rn_id (wk_run k) = i)"
    by (simp add: work_ok_def)
  moreover have "t \<in> set (targets_of (es_db s) i)" using t by (simp add: targets_of_def)
  ultimately have "target_closed t \<or> (\<exists>k\<in>set (es_workers s). tg_id (wk_target k) = tg_id t \<and> rn_id (wk_run k) = i)"
    by blast
  with t show "target_closed t'
      \<or> (\<exists>k\<in>set (es_workers (s\<lparr>es_db := db\<rparr>)). tg_id (wk_target k) = tg_id t' \<and> rn_id (wk_run k) = i)" by auto
qed

lemma complete_run_target_settles:
  assumes inv: "task_db_inv db" and i: "0 < i"
    and res: "is_terminal_target_status (rs_status res)" "0 \<le> rs_duration_ms res"
  shows "settled (snd (complete_run_target now i res db)) i"
proof (cases "find_target db i")
  case None
  then have "settled db i" by (simp add: settled_def find_target_def find_None_set)
  with None i res show ?thesis
    by (simp add: complete_run_target_def complete_run_target_tx_def run_tx_def Let_def)
next
  case (Some t0)
  note t0 = find_target_run [OF task_db_invD(1) [OF inv] Some]
  let ?P = "\<lambda>t. tg_id t = i \<and> target_open (tg_status t)"
  show ?thesis
  proof (cases "count_rows ?P (db_targets db) = 1")
    case True
    define at where "at = (if is_zero (rs_completed_at res) then now else rs_completed_at res)"
    define db1 where "db1 = db\<lparr>db_targets := update_rows ?P (complete_row res at) (db_targets db)\<rparr>"
    have "targets_of db1 (tg_run_id t0) \<noteq> []"
      unfolding db1_def using t0(5) by (subst targets_of_update) auto
    then have "complete_run_target_tx i res at db = Inr (tg_run_id t0, db1\<lparr>db_runs := update_rows
        (\<lambda>r. rn_id r = tg_run_id t0) (aggregate_row (targets_of db1 (tg_run_id t0)) at) (db_runs db1)\<rparr>)"
      using Some True by (simp add: complete_run_target_tx_def aggregate_run_tx_eq Let_def flip: db1_def)
    then have "db_targets (snd (complete_run_target now i res db)) = db_targets db1"
      using i res by (auto simp: complete_run_target_def run_tx_def Let_def at_def [symmetric])
    moreover have "settled db1 i"
      unfolding settled_def
    proof (intro ballI impI)
      fix t assume t: "t \<in> set (db_targets db1)" "tg_id t = i"
      have "set (db_targets db1) = (\<lambda>q. if ?P q then complete_row res at q else q) ` set (db_targets db)"
        by (simp add: db1_def set_update_rows)
      with t(1) obtain q where q: "t = (if ?P q then complete_row res at q else q)" by blast
      with t(2) have "tg_id q = i" by (cases "?P q") simp_all
      with q show "target_closed t"
        using terminal_not_open [OF res(1)] by (cases "?P q") (simp_all add: target_closed_def)
    qed
    ultimately show ?thesis by (simp add: settled_def)
  next
    case False
    have one: "count_rows ?P (db_targets db) \<le> 1"
    proof -
      have "distinct (map tg_id (db_targets db))" using task_db_invD(1) [OF inv] by (simp add: rows_ok_def)
      then have "count_rows (\<lambda>t. tg_id t = i) (db_targets db) \<le> 1" by (rule count_key_le)
      then show ?thesis using count_rows_mono [of "db_targets db" ?P "\<lambda>t. tg_id t = i"] by auto
    qed
    with False have "count_rows ?P (db_targets db) = 0" by simp
    then have "settled db i" by (auto simp: settled_def target_closed_def count_rows_eq_0)
    with Some False i res show ?thesis
      by (simp add: complete_run_target_def complete_run_target_tx_def run_tx_def Let_def)
  qed
qed

section \<open>One step of a worker\<close>

lemma worker_at_Some: "worker_at s w = Some k \<longleftrightarrow> w < length (es_workers s) \<and> es_workers s ! w = k"
  by (auto simp: worker_at_def)

lemma set_pc_frame [simp, frame]:
  "es_db (set_pc w pc s) = es_db s" "es_global (set_pc w pc s) = es_global s"
  "es_dispatched (set_pc w pc s) = es_dispatched s" "es_node_slots (set_pc w pc s) = es_node_slots s"
  "node_slot (set_pc w pc s) = node_slot s" "length (es_workers (set_pc w pc s)) = length (es_workers s)"
  by (simp_all add: set_pc_def node_slot_def fun_eq_iff)

lemma complete_target_frame [simp, frame]:
  "es_global (complete_target now i res s) = es_global s" "es_workers (complete_target now i res s) = es_workers s"
  "es_dispatched (complete_target now i res s) = es_dispatched s"
  "node_slot (complete_target now i res s) = node_slot s" "worker_at (complete_target now i res s) = worker_at s"
  by (simp_all add: complete_target_def node_slot_def worker_at_def fun_eq_iff)

lemma set_node_slot_frame [simp, frame]:
  "es_global (set_node_slot n slot s) = es_global s" "es_workers (set_node_slot n slot s) = es_workers s"
  "es_dispatched (set_node_slot n slot s) = es_dispatched s" "es_db (set_node_slot n slot s) = es_db s"
  "node_slot (set_node_slot n slot s) m = (if m = n then slot else node_slot s m)"
  "worker_at (set_node_slot n slot s) = worker_at s"
  by (simp_all add: set_node_slot_def node_slot_def worker_at_def fun_eq_iff)

lemma update_frame [simp, frame]:
  "node_slot (s\<lparr>es_global := g\<rparr>) = node_slot s" "worker_at (s\<lparr>es_global := g\<rparr>) = worker_at s"
  "node_slot (s\<lparr>es_db := db\<rparr>) = node_slot s" "worker_at (s\<lparr>es_db := db\<rparr>) = worker_at s"
  by (simp_all add: node_slot_def worker_at_def fun_eq_iff)

lemma global_holders_set_pc:
  assumes "worker_at s w = Some k"
  shows "global_holders (set_pc w pc s) + (if holds_global_pc (wk_pc k) then 1 else 0)
    = global_holders s + (if holds_global_pc pc then 1 else 0)"
  using assms count_rows_list_update [of w "es_workers s" "\<lambda>k. holds_global_pc (wk_pc k)" "k\<lparr>wk_pc := pc\<rparr>"]
  by (simp add: worker_at_Some global_holders_def set_pc_def)

lemma node_holders_set_pc:
  assumes "worker_at s w = Some k"
  shows "node_holders (set_pc w pc s) n + (if holds_node_pc (wk_pc k) \<and> wk_node k = n then 1 else 0)
    = node_holders s n + (if holds_node_pc pc \<and> wk_node k = n then 1 else 0)"
  using assms count_rows_list_update [of w "es_workers s" "\<lambda>k. holds_node_pc (wk_pc k) \<and> wk_node k = n" "k\<lparr>wk_pc := pc\<rparr>"]
  by (simp add: worker_at_Some node_holders_def set_pc_def)

text \<open>A step of worker \<open>w\<close> that moves the slots together with its program counter.\<close>

lemma slots_ok_step:
  assumes ok: "slots_ok cap s" and w: "worker_at s w = Some k"
    and same: "es_workers t = es_workers s"
    and cap: "sl_capacity (es_global t) = cap" "\<And>n. sl_capacity (node_slot t n) = 1"
    and le: "sl_held (es_global t) \<le> cap" "\<And>n. sl_held (node_slot t n) \<le> 1"
    and g: "sl_held (es_global t) + (if holds_global_pc (wk_pc k) then 1 else 0)
      = sl_held (es_global s) + (if holds_global_pc pc then 1 else 0)"
    and n: "\<And>n. sl_held (node_slot t n) + (if holds_node_pc (wk_pc k) \<and> wk_node k = n then 1 else 0)
      = sl_held (node_slot s n) + (if holds_node_pc pc \<and> wk_node k = n then 1 else 0)"
  shows "slots_ok cap (set_pc w pc t)"
proof -
  have wt: "worker_at t w = Some k" using w same by (simp add: worker_at_Some)
  have "global_holders t = global_holders s" "node_holders t m = node_holders s m" for m
    by (simp_all add: global_holders_def node_holders_def same)
  with ok have "sl_held (es_global t) = global_holders (set_pc w pc t)"
    using global_holders_set_pc [OF wt, of pc] g by (simp add: slots_ok_def split: if_splits)
  moreover have "sl_held (node_slot t m) = node_holders (set_pc w pc t) m" for m
  proof -
    have "sl_held (node_slot s m) = node_holders t m"
      using ok by (simp add: slots_ok_def node_holders_def same)
    with node_holders_set_pc [OF wt, of pc m] n [of m] show ?thesis by linarith
  qed
  ultimately show ?thesis using cap le by (simp add: slots_ok_def)
qed

text \<open>A step that keeps the slots and the program counter on the same side of both.\<close>

lemma slots_ok_same_side:
  assumes "slots_ok cap s" "worker_at s w = Some k" "es_workers t = es_workers s"
    "es_global t = es_global s" "node_slot t = node_slot s"
    "holds_global_pc pc = holds_global_pc (wk_pc k)" "holds_node_pc pc = holds_node_pc (wk_pc k)"
  shows "slots_ok cap (set_pc w pc t)"
  using assms by (intro slots_ok_step [OF assms(1-3)]) (simp_all add: slots_ok_def)

lemma slots_ok_worker_step:
  assumes ok: "slots_ok cap s" and st: "worker_step w e s = Some s'"
  shows "slots_ok cap s'"
proof (cases e)
  case TakeNode
  with st obtain k slot where k: "worker_at s w = Some k" "wk_pc k = WaitNode"
    and slot: "acquire_slot (node_slot s (wk_node k)) = Some slot"
    and s': "s' = set_pc w WaitGlobal (set_node_slot (wk_node k) slot s)"
    by (auto split: option.splits if_splits)
  show ?thesis unfolding s'
    using ok k(2) chan_slots.acquire_Some [OF slot] chan_slots.acquire_bounded [OF slot]
    by (intro slots_ok_step [OF ok k(1)]) (auto simp: slots_ok_def)
next
  case TakeGlobal
  with st obtain k g where k: "worker_at s w = Some k" "wk_pc k = WaitGlobal"
    and g: "acquire_slot (es_global s) = Some g" and s': "s' = set_pc w LookingUp (s\<lparr>es_global := g\<rparr>)"
    by (auto split: option.splits if_splits)
  show ?thesis unfolding s'
    using ok k(2) chan_slots.acquire_Some [OF g] chan_slots.acquire_bounded [OF g]
    by (intro slots_ok_step [OF ok k(1)]) (auto simp: slots_ok_def)
next
  case FreeGlobal
  with st obtain k g where k: "worker_at s w = Some k" "wk_pc k = HoldsBoth"
    and g: "release_slot (es_global s) = Some g" and s': "s' = set_pc w HoldsNode (s\<lparr>es_global := g\<rparr>)"
    by (auto split: option.splits if_splits)
  show ?thesis unfolding s'
    using ok k(2) chan_slots.release_Some [OF g]
    by (intro slots_ok_step [OF ok k(1)]) (auto simp: slots_ok_def)
next
  case FreeNode
  with st obtain k slot where k: "worker_at s w = Some k" "wk_pc k = HoldsNode"
    and slot: "release_slot (node_slot s (wk_node k)) = Some slot"
    and s': "s' = set_pc w Finished (set_node_slot (wk_node k) slot s)"
    by (auto split: option.splits if_splits)
  have "sl_held (node_slot s (wk_node k)) \<le> 1" using ok by (simp add: slots_ok_def)
  then show ?thesis unfolding s'
    using ok k(2) chan_slots.release_Some [OF slot]
    by (intro slots_ok_step [OF ok k(1)]) (auto simp: slots_ok_def)
next
  case (GiveUp now)
  with st ok show ?thesis by (auto split: option.splits if_splits intro: slots_ok_same_side)
next
  case (Look r supp now)
  with st ok show ?thesis by (auto split: option.splits if_splits intro: slots_ok_same_side)
next
  case (Start at err now)
  with st ok show ?thesis by (auto split: option.splits if_splits sum.splits prod.splits intro: slots_ok_same_side)
next
  case (Reply r at)
  with st ok show ?thesis by (auto split: option.splits worker_pc.splits intro: slots_ok_same_side)
qed

section \<open>Targets and runs under the engine's steps\<close>

lemma set_set_pc:
  assumes "worker_at s w = Some k"
  shows "set (es_workers (set_pc w pc s)) \<subseteq> insert (k\<lparr>wk_pc := pc\<rparr>) (set (es_workers s))"
    "\<exists>q\<in>set (es_workers (set_pc w pc s)). wk_target q = wk_target k \<and> wk_run q = wk_run k"
proof -
  show "set (es_workers (set_pc w pc s)) \<subseteq> insert (k\<lparr>wk_pc := pc\<rparr>) (set (es_workers s))"
    using assms set_update_subset_insert by (fastforce simp: set_pc_def worker_at_Some)
  have "k\<lparr>wk_pc := pc\<rparr> \<in> set (es_workers (set_pc w pc s))"
    using assms by (auto simp: set_pc_def worker_at_Some intro!: set_update_memI)
  then show "\<exists>q\<in>set (es_workers (set_pc w pc s)). wk_target q = wk_target k \<and> wk_run q = wk_run k"
    by (intro bexI [of _ "k\<lparr>wk_pc := pc\<rparr>"]) simp_all
qed

text \<open>Moving a program counter loses no worker.\<close>

lemma set_pc_covers:
  assumes "worker_at s w = Some k" "q \<in> set (es_workers s)"
  shows "\<exists>q'\<in>set (es_workers (set_pc w pc s)). wk_target q' = wk_target q \<and> wk_run q' = wk_run q"
proof (cases "q = k")
  case True
  with set_set_pc(2) [OF assms(1)] show ?thesis by simp
next
  case False
  from assms obtain j where j: "j < length (es_workers s)" "es_workers s ! j = q" by (auto simp: in_set_conv_nth)
  with False assms(1) have "j \<noteq> w" by (auto simp: worker_at_Some)
  with j have "q \<in> set (es_workers (set_pc w pc s))"
    unfolding set_pc_def by (auto simp: in_set_conv_nth intro!: exI [of _ j])
  then show ?thesis by blast
qed

lemma work_ok_set_pc:
  assumes ok: "work_ok s" and w: "worker_at s w = Some k"
    and pc: "completed_pc pc \<longrightarrow> settled (es_db s) (tg_id (wk_target k))"
  shows "work_ok (set_pc w pc s)"
  unfolding work_ok_def
proof (intro conjI ballI impI)
  show "task_db_inv (es_db (set_pc w pc s))" using ok by (simp add: work_ok_def)
  have k: "k \<in> set (es_workers s)" using w by (auto simp: worker_at_Some)
  fix q assume "q \<in> set (es_workers (set_pc w pc s))"
  with set_set_pc(1) [OF w] consider "q = k\<lparr>wk_pc := pc\<rparr>" | "q \<in> set (es_workers s)" by blast
  note q = this
  show "0 < tg_id (wk_target q)" "tg_id (wk_target q) \<le> db_target_seq (es_db (set_pc w pc s))"
    using q ok k by (cases; auto simp: work_ok_def)+
  assume "completed_pc (wk_pc q)"
  with q ok pc show "settled (es_db (set_pc w pc s)) (tg_id (wk_target q))"
    by (cases) (auto simp: work_ok_def)
next
  fix i assume i: "i \<in> set (es_dispatched (set_pc w pc s))"
  then show "i \<le> db_run_seq (es_db (set_pc w pc s))" using ok by (simp add: work_ok_def)
  fix t assume "t \<in> set (targets_of (es_db (set_pc w pc s)) i)"
  with i ok have "target_closed t \<or> (\<exists>q\<in>set (es_workers s). tg_id (wk_target q) = tg_id t \<and> rn_id (wk_run q) = i)"
    unfolding work_ok_def by (simp only: set_pc_frame)
  then show "target_closed t \<or> (\<exists>q\<in>set (es_workers (set_pc w pc s)). tg_id (wk_target q) = tg_id t \<and> rn_id (wk_run q) = i)"
    using set_pc_covers [OF w] by metis
qed

lemma work_ok_slots:
  "work_ok (s\<lparr>es_global := g\<rparr>) = work_ok s" "work_ok (set_node_slot n slot s) = work_ok s"
  by (simp_all add: work_ok_def set_node_slot_def)

text \<open>Completing a target through the engine.\<close>

lemma work_ok_complete:
  assumes ok: "work_ok s" and k: "k \<in> set (es_workers s)"
    and res: "is_terminal_target_status (rs_status res)" "0 \<le> rs_duration_ms res"
  shows "work_ok (complete_target now (tg_id (wk_target k)) res s)"
    "settled (es_db (complete_target now (tg_id (wk_target k)) res s)) (tg_id (wk_target k))"
proof -
  have inv: "task_db_inv (es_db s)" and id: "0 < tg_id (wk_target k)" using ok k by (auto simp: work_ok_def)
  show "work_ok (complete_target now (tg_id (wk_target k)) res s)"
    unfolding complete_target_def
    by (rule work_ok_evolves [OF ok complete_run_target_evolves complete_run_target_inv [OF inv]])
  show "settled (es_db (complete_target now (tg_id (wk_target k)) res s)) (tg_id (wk_target k))"
    using complete_run_target_settles [OF inv id res] by (simp add: complete_target_def)
qed

text \<open>Every result the engine reports is one the store accepts.\<close>

lemma engine_results_accepted:
  "is_terminal_target_status (map_target_status st)"
  "is_terminal_target_status (rs_status (cancelled_before now))" "0 \<le> rs_duration_ms (cancelled_before now)"
  "is_terminal_target_status (rs_status (target_result_for_error err m now))" "0 \<le> rs_duration_ms (target_result_for_error err m now)"
  "lookup_outcome reply supp now = Some res \<Longrightarrow> is_terminal_target_status (rs_status res) \<and> 0 \<le> rs_duration_ms res"
  "is_terminal_target_status (rs_status (execution_result r a b))" "0 \<le> rs_duration_ms (execution_result r a b)"
proof -
  show terminal: "is_terminal_target_status (map_target_status st)" for st by (simp add: map_target_status_def)
  show "is_terminal_target_status (rs_status (cancelled_before now))" "0 \<le> rs_duration_ms (cancelled_before now)"
    by (simp_all add: cancelled_before_def plain_result_def)
  show err: "is_terminal_target_status (rs_status (target_result_for_error err m now))"
    "0 \<le> rs_duration_ms (target_result_for_error err m now)" for err m now
    by (cases err; simp add: target_result_for_error_def plain_result_def)+
  show "lookup_outcome reply supp now = Some res \<Longrightarrow> is_terminal_target_status (rs_status res) \<and> 0 \<le> rs_duration_ms res"
    using err by (auto simp: lookup_outcome_def plain_result_def split: node_reply.splits if_splits)
  show "is_terminal_target_status (rs_status (execution_result r a b))" "0 \<le> rs_duration_ms (execution_result r a b)"
    using err terminal by (auto simp: execution_result_def elapsed_ms_def Let_def split: sum.splits)
qed

lemma plain_failed_accepted:
  "is_terminal_target_status (rs_status (plain_result TargetFailed m now))" "0 \<le> rs_duration_ms (plain_result TargetFailed m now)"
  by (simp_all add: plain_result_def)

lemma work_ok_close:
  assumes ok: "work_ok s" and w: "worker_at s w = Some k"
    and res: "is_terminal_target_status (rs_status res)" "0 \<le> rs_duration_ms res"
  shows "work_ok (set_pc w pc (complete_target now (tg_id (wk_target k)) res s))"
proof -
  have k: "k \<in> set (es_workers s)" using w by (auto simp: worker_at_Some)
  have "worker_at (complete_target now (tg_id (wk_target k)) res s) w = Some k" using w by simp
  then show ?thesis
    by (rule work_ok_set_pc [OF work_ok_complete(1) [OF ok k res]]) (intro impI work_ok_complete(2) [OF ok k res])
qed

lemma work_ok_move:
  "work_ok s \<Longrightarrow> worker_at s w = Some k \<Longrightarrow> \<not> completed_pc pc \<Longrightarrow> work_ok (set_pc w pc s)"
  by (rule work_ok_set_pc) auto

lemma work_ok_worker_step:
  assumes ok: "work_ok s" and st: "worker_step w e s = Some s'"
  shows "work_ok s'"
proof (cases e)
  case TakeNode
  with st ok show ?thesis by (auto split: option.splits if_splits intro!: work_ok_set_pc simp: work_ok_slots)
next
  case TakeGlobal
  with st ok show ?thesis by (auto split: option.splits if_splits intro!: work_ok_set_pc simp: work_ok_slots)
next
  case (GiveUp now)
  with st ok show ?thesis
    by (auto split: option.splits if_splits intro!: work_ok_close engine_results_accepted)
next
  case (Look reply supp now)
  show ?thesis
  proof (cases "lookup_outcome reply supp now")
    case None
    with Look st ok show ?thesis by (auto split: option.splits if_splits intro!: work_ok_set_pc)
  next
    case (Some res)
    with Look st ok engine_results_accepted(6) [OF Some] show ?thesis
      by (auto split: option.splits if_splits intro!: work_ok_close)
  qed
next
  case (Start at err now)
  have inv: "task_db_inv (es_db s)" using ok by (simp add: work_ok_def)
  have started: "work_ok (s\<lparr>es_db := db\<rparr>)" if "mark_run_target_running at i at (es_db s) = (r, db)" for i r db
    using work_ok_evolves [OF ok mark_run_target_running_evolves mark_run_target_running_inv [OF inv]] that by (metis snd_conv)
  with Start st ok show ?thesis
    by (auto split: option.splits if_splits sum.splits prod.splits
        intro: work_ok_close work_ok_move engine_results_accepted plain_failed_accepted)
next
  case (Reply r at)
  with st ok show ?thesis
    by (auto split: option.splits worker_pc.splits intro!: work_ok_close engine_results_accepted)
next
  case FreeGlobal
  with st ok show ?thesis
    by (auto split: option.splits if_splits intro!: work_ok_set_pc simp: work_ok_slots)
      (auto simp: work_ok_def worker_at_Some)
next
  case FreeNode
  with st ok show ?thesis
    by (auto split: option.splits if_splits intro!: work_ok_set_pc simp: work_ok_slots)
      (auto simp: work_ok_def worker_at_Some)
qed

section \<open>The other steps\<close>

lemma work_ok_dispatched:
  "work_ok s \<Longrightarrow> \<forall>t\<in>set (targets_of (es_db s) i). target_closed t \<Longrightarrow> i \<le> db_run_seq (es_db s) \<Longrightarrow>
     work_ok (s\<lparr>es_dispatched := es_dispatched s @ [i]\<rparr>)"
  unfolding work_ok_def by (simp add: ball_Un)

text \<open>What \<open>dispatch\<close> needs of a run that has just been created.\<close>

definition fresh_detail :: "task_db \<Rightarrow> task_run_detail \<Rightarrow> bool" where
  "fresh_detail db d \<longleftrightarrow> rn_id (dt_run d) \<le> db_run_seq db \<and> targets_of db (rn_id (dt_run d)) = dt_targets d
     \<and> (\<forall>t\<in>set (dt_targets d). 0 < tg_id t \<and> tg_id t \<le> db_target_seq db)
     \<and> (rn_status (dt_run d) = RunSkipped \<longrightarrow> (\<forall>t\<in>set (dt_targets d). target_closed t))"

lemma create_task_run_tx_fresh:
  assumes inv: "task_db_inv db" and ok: "create_task_run_tx run targets st err at db = Inr (d, db')"
    and st: "rn_status run = RunSkipped \<longrightarrow> st = TargetSkipped"
  shows "fresh_detail db' d"
proof -
  from create_task_run_tx_spec [OF ok] obtain r new where d: "d = \<lparr>dt_run = r, dt_targets = new\<rparr>" and
    db': "db' = db\<lparr>db_runs := db_runs db @ [r], db_run_seq := db_run_seq db + 1,
               db_targets := db_targets db @ new, db_target_seq := db_target_seq db + int (length new)\<rparr>"
    and r: "rn_id r = db_run_seq db + 1" "rn_status r = rn_status run"
    and ids: "map tg_id new = map (\<lambda>k. db_target_seq db + 1 + int k) [0..<length new]"
    and tg: "\<forall>t\<in>set new. tg_run_id t = rn_id r \<and> tg_status t = st" by blast
  have "tg_id ` set new = (\<lambda>k. db_target_seq db + 1 + int k) ` {0..<length new}"
    using ids by (metis set_map set_upt)
  then have "\<forall>j\<in>tg_id ` set new. db_target_seq db < j \<and> j \<le> db_target_seq db + int (length new)"
    by (simp only:) auto
  moreover have "0 \<le> db_target_seq db" "targets_of db (rn_id r) = []"
    using task_db_invD(1) [OF inv] r(1) by (force simp: rows_ok_def targets_of_def filter_empty_conv)+
  ultimately show ?thesis
    using tg st r by (auto simp: fresh_detail_def d db' targets_of_def target_closed_def target_open_def)
qed

lemma created_fresh:
  assumes inv: "task_db_inv db"
  shows "claim_due_task now i due nxt at0 db = (Inr d, db') \<Longrightarrow> fresh_detail db' d"
    "create_manual_script_run now i ts at0 db = (Inr d, db') \<Longrightarrow> fresh_detail db' d"
    "create_manual_task_run now i at0 db = (Inr d, db') \<Longrightarrow> fresh_detail db' d"
proof -
  assume "claim_due_task now i due nxt at0 db = (Inr d, db')"
  then show "fresh_detail db' d"
  proof (rule claim_due_task_Inr)
    fix at once
    assume "claim_due_task_tx i due (if once then None else Some nxt) once at db = Inr (d, db')"
    then show ?thesis
    proof (rule claim_due_task_tx_steps)
      fix task script db1 active
      assume db1: "db1 = db\<lparr>db_tasks := update_rows (claimable i due once)
            (advance_row due (if once then None else Some nxt) at) (db_tasks db)\<rparr>"
        and crt: "create_task_run_tx (task_run_of task script run_trigger_scheduled (Some due)
          (if active then RunSkipped else RunQueued) (if active then ''overlap'' else []))
        (load_run_target_snapshots_tx db i) (if active then TargetSkipped else TargetQueued)
        (if active then ''overlap'' else []) at db1 = Inr (d, db')"
      have "task_db_inv db1" unfolding db1 by (rule keep_task_rows_inv [OF inv]) simp_all
      then show "fresh_detail db' d" using create_task_run_tx_fresh [OF _ crt] by simp
    qed
  qed
next
  show "create_manual_script_run now i ts at0 db = (Inr d, db') \<Longrightarrow> fresh_detail db' d"
    using create_task_run_tx_fresh [OF inv]
    by (auto simp: create_manual_script_run_def Let_def result_iff script_run_of_def split: sum.splits if_splits)
  show "create_manual_task_run now i at0 db = (Inr d, db') \<Longrightarrow> fresh_detail db' d"
    using create_task_run_tx_fresh [OF inv]
    by (auto simp: create_manual_task_run_def create_manual_task_run_tx_def Let_def result_iff split: if_splits)
qed

definition engine_ok :: "nat \<Rightarrow> engine_state \<Rightarrow> bool" where
  "engine_ok cap s \<longleftrightarrow> slots_ok cap s \<and> work_ok s"

lemma slots_ok_db [simp]: "slots_ok cap (s\<lparr>es_db := db\<rparr>) = slots_ok cap s"
  by (simp add: slots_ok_def global_holders_def node_holders_def)

lemma slots_ok_frame [simp]:
  "slots_ok cap (s\<lparr>es_schedules := x\<rparr>) = slots_ok cap s" "slots_ok cap (s\<lparr>es_initialized := b\<rparr>) = slots_ok cap s"
  "slots_ok cap (s\<lparr>es_cancelled := b\<rparr>) = slots_ok cap s" "slots_ok cap (s\<lparr>es_dispatched := is\<rparr>) = slots_ok cap s"
  "slots_ok cap (s\<lparr>es_delivered := ds\<rparr>) = slots_ok cap s" "slots_ok cap (s\<lparr>es_audit := as\<rparr>) = slots_ok cap s"
  by (simp_all add: slots_ok_def global_holders_def node_holders_def node_slot_def)

lemma work_ok_frame [simp]:
  "work_ok (s\<lparr>es_schedules := x\<rparr>) = work_ok s" "work_ok (s\<lparr>es_initialized := b\<rparr>) = work_ok s"
  "work_ok (s\<lparr>es_cancelled := b\<rparr>) = work_ok s" "work_ok (s\<lparr>es_delivered := ds\<rparr>) = work_ok s"
  "work_ok (s\<lparr>es_audit := as\<rparr>) = work_ok s"
  by (simp_all add: work_ok_def)

lemma engine_ok_frame [simp]:
  "engine_ok cap (s\<lparr>es_schedules := x\<rparr>) = engine_ok cap s" "engine_ok cap (s\<lparr>es_initialized := b\<rparr>) = engine_ok cap s"
  "engine_ok cap (s\<lparr>es_cancelled := b\<rparr>) = engine_ok cap s" "engine_ok cap (s\<lparr>es_delivered := ds\<rparr>) = engine_ok cap s"
  "engine_ok cap (s\<lparr>es_audit := as\<rparr>) = engine_ok cap s"
  by (simp_all add: engine_ok_def)

lemma engine_ok_write:
  "engine_ok cap s \<Longrightarrow> evolves (es_db s) db \<Longrightarrow> task_db_inv db \<Longrightarrow> engine_ok cap (s\<lparr>es_db := db\<rparr>)"
  by (simp add: engine_ok_def work_ok_evolves)

lemma engine_ok_inv: "engine_ok cap s \<Longrightarrow> task_db_inv (es_db s)"
  by (simp add: engine_ok_def work_ok_def)

lemma engine_ok_dispatch:
  assumes ok: "engine_ok cap s" and fresh: "fresh_detail (es_db s) d"
  shows "engine_ok cap (dispatch d s)"
proof -
  have "count_rows P (map (new_worker r) ts) = 0" if "\<And>k. wk_pc k = WaitNode \<Longrightarrow> \<not> P k" for P r ts
    using that by (auto simp: count_rows_eq_0 new_worker_def)
  then have "slots_ok cap (dispatch d s)"
    using ok by (simp add: engine_ok_def slots_ok_def dispatch_def global_holders_def node_holders_def node_slot_def)
  moreover have "work_ok (dispatch d s)"
    unfolding work_ok_def
  proof (intro conjI ballI)
    have w: "work_ok s" using ok by (simp add: engine_ok_def)
    then show "task_db_inv (es_db (dispatch d s))" by (simp add: work_ok_def dispatch_def)
    fix k assume "k \<in> set (es_workers (dispatch d s))"
    then consider "k \<in> set (es_workers s)" | t where "t \<in> set (dt_targets d)" "k = new_worker (dt_run d) t"
      by (auto simp: dispatch_def)
    note k = this
    show "0 < tg_id (wk_target k)" "tg_id (wk_target k) \<le> db_target_seq (es_db (dispatch d s))"
      using k w fresh by (cases; auto simp: work_ok_def fresh_detail_def new_worker_def dispatch_def)+
    show "completed_pc (wk_pc k) \<longrightarrow> settled (es_db (dispatch d s)) (tg_id (wk_target k))"
      using k w by (cases) (auto simp: work_ok_def new_worker_def dispatch_def)
  next
    have w: "work_ok s" using ok by (simp add: engine_ok_def)
    fix i assume "i \<in> set (es_dispatched (dispatch d s))"
    then consider "i \<in> set (es_dispatched s)" | "i = rn_id (dt_run d)" by (auto simp: dispatch_def)
    note i = this
    show "i \<le> db_run_seq (es_db (dispatch d s))"
      using i w fresh by (cases) (auto simp: work_ok_def fresh_detail_def dispatch_def)
    fix t assume t: "t \<in> set (targets_of (es_db (dispatch d s)) i)"
    show "target_closed t \<or> (\<exists>k\<in>set (es_workers (dispatch d s)). tg_id (wk_target k) = tg_id t \<and> rn_id (wk_run k) = i)"
      using i
    proof cases
      case 1
      with w t have "target_closed t \<or> (\<exists>k\<in>set (es_workers s). tg_id (wk_target k) = tg_id t \<and> rn_id (wk_run k) = i)"
        by (simp add: work_ok_def dispatch_def)
      then show ?thesis by (auto simp: dispatch_def)
    next
      case 2
      with t fresh have "t \<in> set (dt_targets d)" by (simp add: fresh_detail_def dispatch_def)
      then have "new_worker (dt_run d) t \<in> set (es_workers (dispatch d s))" by (simp add: dispatch_def)
      with 2 show ?thesis by (force simp: new_worker_def)
    qed
  qed
  ultimately show ?thesis by (simp add: engine_ok_def)
qed

lemma engine_ok_dispatch_skipped:
  assumes "engine_ok cap s" "fresh_detail (es_db s) d" "rn_status (dt_run d) = RunSkipped"
  shows "engine_ok cap (dispatch_skipped d s)"
proof -
  have "slots_ok cap (dispatch_skipped d s)" using assms(1) by (simp add: engine_ok_def dispatch_skipped_def)
  moreover have "work_ok (dispatch_skipped d s)"
  proof -
    have "work_ok s" using assms(1) by (simp add: engine_ok_def)
    moreover have "\<forall>t\<in>set (targets_of (es_db s) (rn_id (dt_run d))). target_closed t"
      "rn_id (dt_run d) \<le> db_run_seq (es_db s)"
      using assms(2,3) by (simp_all add: fresh_detail_def)
    ultimately show ?thesis unfolding dispatch_skipped_def by (rule work_ok_dispatched)
  qed
  ultimately show ?thesis by (simp add: engine_ok_def)
qed

lemma engine_ok_initialize:
  "engine_ok cap s \<Longrightarrow> engine_ok cap (snd (engine_initialize now s))"
proof -
  assume ok: "engine_ok cap s"
  have "engine_ok cap (s\<lparr>es_db := db\<rparr>)" if "recover_interrupted_runs now now (es_db s) = (r, db)" for r db
    using engine_ok_write [OF ok recover_evolves recover_interrupted_runs_inv [OF engine_ok_inv [OF ok]]] that
    by (metis snd_conv)
  with ok show ?thesis by (auto simp: engine_initialize_def split: prod.splits sum.splits)
qed

text \<open>Writing the store and dispatching what was created.\<close>

lemma engine_ok_created:
  assumes ok: "engine_ok cap s" and "evolves (es_db s) db" "task_db_inv db" "fresh_detail db d"
  shows "engine_ok cap (dispatch d (s\<lparr>es_db := db\<rparr>))"
    "rn_status (dt_run d) = RunSkipped \<Longrightarrow> engine_ok cap (dispatch_skipped d (s\<lparr>es_db := db\<rparr>))"
  using engine_ok_write [OF ok assms(2,3)] assms(4)
  by (simp_all add: engine_ok_dispatch engine_ok_dispatch_skipped)

lemma engine_ok_sweep_claim:
  assumes ok: "engine_ok cap s" shows "engine_ok cap (snd (sweep_claim lib now task s))"
proof -
  note inv = engine_ok_inv [OF ok]
  have wrote: "engine_ok cap (s\<lparr>es_db := db\<rparr>)" if "claim_due_task now i due nxt now (es_db s) = (r, db)" for i due nxt r db
    using engine_ok_write [OF ok claim_evolves [OF inv] claim_due_task_inv [OF inv]] that by (metis snd_conv)
  have made: "engine_ok cap (dispatch d (s\<lparr>es_db := db\<rparr>))"
    "rn_status (dt_run d) = RunSkipped \<Longrightarrow> engine_ok cap (dispatch_skipped d (s\<lparr>es_db := db\<rparr>))"
    if "claim_due_task now i due nxt now (es_db s) = (Inr d, db)" for i due nxt d db
    using engine_ok_created [OF ok, of db d] claim_evolves [OF inv, of now i due nxt now]
      claim_due_task_inv [OF inv, of now i due nxt now] created_fresh(1) [OF inv that] that by simp_all
  show ?thesis
    using ok wrote made by (simp add: sweep_claim_def split: option.splits sum.splits prod.splits task_error.splits)
qed

lemma engine_ok_sweep_one:
  "engine_ok cap s \<Longrightarrow> engine_ok cap (snd (sweep_one lib now task s))"
  using engine_ok_sweep_claim [of cap "s\<lparr>es_schedules := insert (st_id task) (es_schedules s)\<rparr>" lib now task]
  by (auto simp: sweep_one_def reserve_schedule_def release_schedule_def reserve_key_def
      split: prod.splits)

lemma engine_ok_sweep_tasks:
  "engine_ok cap s \<Longrightarrow> engine_ok cap (snd (sweep_tasks lib now tasks e s))"
proof (induction tasks arbitrary: e s)
  case (Cons t tasks)
  then show ?case
    using engine_ok_sweep_one [OF Cons.prems, of lib now t] by (auto split: prod.splits)
qed simp

lemma engine_ok_sweep: "engine_ok cap s \<Longrightarrow> engine_ok cap (snd (sweep lib clock now s))"
  using engine_ok_initialize [of cap s clock]
  by (auto simp: sweep_def Let_def intro: engine_ok_sweep_tasks split: prod.splits sum.splits)

lemma engine_ok_manual_script:
  assumes "engine_ok cap s" shows "engine_ok cap (snd (run_manual_script clock nodes i ns s))"
proof -
  have "engine_ok cap (t\<lparr>es_db := db\<rparr>)" "\<And>d. r = Inr d \<Longrightarrow> engine_ok cap (dispatch d (t\<lparr>es_db := db\<rparr>))"
    if ok: "engine_ok cap t" and c: "create_manual_script_run clock i ts clock (es_db t) = (r, db)" for t ts r db
  proof -
    note inv = engine_ok_inv [OF ok]
    have db: "evolves (es_db t) db" "task_db_inv db"
      using manual_evolves(1) [OF inv, of clock i ts clock] create_manual_script_run_inv [OF inv, of clock i ts clock] c
      by simp_all
    then show "engine_ok cap (t\<lparr>es_db := db\<rparr>)" by (rule engine_ok_write [OF ok])
    show "engine_ok cap (dispatch d (t\<lparr>es_db := db\<rparr>))" if "r = Inr d" for d
      using engine_ok_created(1) [OF ok db] created_fresh(2) [OF inv] c that by blast
  qed
  with engine_ok_initialize [OF assms, of clock] show ?thesis
    by (auto simp: run_manual_script_def split: prod.splits sum.splits)
qed

lemma engine_ok_manual_task:
  assumes "engine_ok cap s" shows "engine_ok cap (snd (run_manual_task clock i s))"
proof -
  have "engine_ok cap (t\<lparr>es_db := db\<rparr>)" "\<And>d. r = Inr d \<Longrightarrow> engine_ok cap (dispatch d (t\<lparr>es_db := db\<rparr>))"
    if ok: "engine_ok cap t" and c: "create_manual_task_run clock i clock (es_db t) = (r, db)" for t r db
  proof -
    note inv = engine_ok_inv [OF ok]
    have db: "evolves (es_db t) db" "task_db_inv db"
      using manual_evolves(2) [OF inv, of clock i clock] create_manual_task_run_inv [OF inv, of clock i clock] c
      by simp_all
    then show "engine_ok cap (t\<lparr>es_db := db\<rparr>)" by (rule engine_ok_write [OF ok])
    show "engine_ok cap (dispatch d (t\<lparr>es_db := db\<rparr>))" if "r = Inr d" for d
      using engine_ok_created(1) [OF ok db] created_fresh(3) [OF inv] c that by blast
  qed
  with engine_ok_initialize [OF assms, of clock] show ?thesis
    by (auto simp: run_manual_task_def split: prod.splits sum.splits)
qed

lemma engine_ok_finalize:
  assumes ok: "engine_ok cap s" shows "engine_ok cap (finalize_run now res i s)"
proof (cases "aggregate_run now i now (es_db s)")
  case (Pair r db)
  note inv = engine_ok_inv [OF ok]
  have db: "evolves (es_db s) db" "task_db_inv db"
    using aggregate_run_evolves [of "es_db s" now i now] aggregate_run_inv [OF inv, of now i now] Pair by simp_all
  note ok1 = engine_ok_write [OF ok db]
  have notify: "engine_ok cap (notify_run now res run d t)" if "engine_ok cap t" for run d t
  proof -
    have "engine_ok cap (t\<lparr>es_delivered := ds, es_db := snd (update_run_notification now j sent err at (es_db t))\<rparr>)"
      for ds j sent err at
      using engine_ok_write [of cap "t\<lparr>es_delivered := ds\<rparr>"] that
        update_run_notification_evolves update_run_notification_inv [OF engine_ok_inv [OF that]] by simp
    with that show ?thesis by (simp add: notify_run_def)
  qed
  have "engine_ok cap (audit_run run t)" if "engine_ok cap t" for run t using that by (simp add: audit_run_def)
  with ok1 notify Pair show ?thesis by (auto simp: finalize_run_def split: sum.splits)
qed

lemma engine_ok_step: "engine_ok cap s \<Longrightarrow> engine_step lib e s = Some s' \<Longrightarrow> engine_ok cap s'"
proof (cases e)
  case (Worker w ev)
  assume "engine_ok cap s" "engine_step lib e s = Some s'"
  with Worker show ?thesis
    using slots_ok_worker_step work_ok_worker_step by (auto simp: engine_ok_def engine_step_def)
next
  case (Finalize now res i)
  assume ok: "engine_ok cap s" and st: "engine_step lib e s = Some s'"
  have "engine_ok cap (s\<lparr>es_dispatched := remove1 i (es_dispatched s)\<rparr>)"
    using ok set_remove1_subset [of i "es_dispatched s"] by (auto simp: engine_ok_def work_ok_def)
  with Finalize st show ?thesis
    by (auto simp: engine_step_def finalize_step_def engine_ok_finalize split: if_splits)
next
  case (StoreWrite op)
  assume ok: "engine_ok cap s" and st: "engine_step lib e s = Some s'"
  with StoreWrite show ?thesis
    using engine_ok_write [OF ok apply_op_evolves apply_op_inv] engine_ok_inv [OF ok] by (auto simp: engine_step_def)
qed (auto simp: engine_step_def engine_ok_initialize engine_ok_sweep engine_ok_manual_script engine_ok_manual_task)

end
