(* ===== verification/TaskEngineSpec.thy ===== *)
theory TaskEngineSpec
  imports TaskEngineProps
begin

text \<open>
  What the execution engine guarantees in every state it reaches from a fresh start on any database
  the store can hold: bounded concurrency, settled targets, no deadlock, correct claims and
  complete notifications.
\<close>

section \<open>Reached states\<close>

definition engine_capacity :: "int \<Rightarrow> nat" where
  "engine_capacity c = (if c \<le> 0 then default_global_concurrency else nat c)"

lemma engine_capacity_pos: "0 < engine_capacity c"
  by (simp add: engine_capacity_def default_global_concurrency_def)

definition engine_reachable ::
  "('sched, 'loc) schedule_lib \<Rightarrow> int \<Rightarrow> (nat \<Rightarrow> nat) \<Rightarrow> task_op list \<Rightarrow> (string \<rightharpoonup> string) \<Rightarrow> engine_state \<Rightarrow> bool" where
  "engine_reachable lib c ul ops nodes s \<longleftrightarrow> engine_reaches lib (new_engine c (run_ops ul ops (empty_task_db nodes))) s"

lemma engine_ok_new: "task_db_inv db \<Longrightarrow> engine_ok (engine_capacity c) (new_engine c db)"
  by (simp add: engine_ok_def slots_ok_def work_ok_def new_engine_def make_slots_def engine_capacity_def
      global_holders_def node_holders_def node_slot_def)

lemma engine_reachable_ok: "engine_reachable lib c ul ops nodes s \<Longrightarrow> engine_ok (engine_capacity c) s"
proof -
  have "engine_reaches lib a s \<Longrightarrow> engine_ok k a \<Longrightarrow> engine_ok k s" for a s k
    by (induction rule: engine_reaches.induct) (auto intro: engine_ok_step)
  with engine_ok_new [OF reached_inv] show "engine_reachable lib c ul ops nodes s \<Longrightarrow> engine_ok (engine_capacity c) s"
    by (metis engine_reachable_def)
qed

lemma engine_reachable_start: "engine_reachable lib c ul ops nodes (new_engine c (run_ops ul ops (empty_task_db nodes)))"
  by (simp add: engine_reachable_def engine_reaches.start)

lemma engine_reachable_step:
  "engine_reachable lib c ul ops nodes s \<Longrightarrow> engine_step lib e s = Some t \<Longrightarrow> engine_reachable lib c ul ops nodes t"
  by (auto simp: engine_reachable_def intro: engine_reaches.step)

section \<open>Bounded concurrency\<close>

text \<open>C11: However the goroutines interleave, at most the configured number of targets execute at once
  (8 by default), at most one on each node, and only while holding both kinds of slot.\<close>

theorem concurrency_is_bounded:
  assumes "engine_reachable lib c ul ops nodes s"
  shows "count_rows (\<lambda>k. \<exists>t. wk_pc k = Executing t) (es_workers s) \<le> (if c \<le> 0 then 8 else nat c)
    \<and> count_rows (\<lambda>k. (\<exists>t. wk_pc k = Executing t) \<and> tg_node_id (wk_target k) = n) (es_workers s) \<le> 1
    \<and> sl_held (es_global s) = count_rows (\<lambda>k. holds_global_pc (wk_pc k)) (es_workers s)"
proof -
  have ok: "slots_ok (engine_capacity c) s" using engine_reachable_ok [OF assms] by (simp add: engine_ok_def)
  have "count_rows (\<lambda>k. \<exists>t. wk_pc k = Executing t) (es_workers s) \<le> global_holders s"
    unfolding global_holders_def by (rule count_rows_mono) auto
  moreover have "count_rows (\<lambda>k. (\<exists>t. wk_pc k = Executing t) \<and> tg_node_id (wk_target k) = n) (es_workers s) \<le> node_holders s n"
    unfolding node_holders_def by (rule count_rows_mono) auto
  moreover have "node_holders s n \<le> 1" "global_holders s \<le> (if c \<le> 0 then 8 else nat c)"
    using ok by (simp_all add: slots_ok_def engine_capacity_def default_global_concurrency_def split: if_splits)
  moreover have "sl_held (es_global s) = global_holders s" using ok by (simp add: slots_ok_def)
  ultimately show ?thesis unfolding global_holders_def by linarith
qed

section \<open>Settled targets\<close>

text \<open>C12: When the goroutine of a target has finished, whatever the agent, the node table or a cancelled
  context did, the target is closed in the store, and it stays closed whoever writes to the store.\<close>

theorem finished_targets_are_closed:
  assumes "engine_reachable lib c ul ops nodes s" "k \<in> set (es_workers s)" "wk_pc k = Finished"
  shows "list_all (\<lambda>t. tg_id t = tg_id (wk_target k) \<longrightarrow> \<not> target_open (tg_status t)) (db_targets (es_db s))"
  using engine_reachable_ok [OF assms(1)] assms(2,3)
  by (auto simp: engine_ok_def work_ok_def settled_def target_closed_def list_all_iff)

text \<open>C13: A run is finalized only after all its targets are closed, so the status it is audited and reported
  with is final.\<close>

theorem finalized_runs_are_final:
  assumes "engine_reachable lib c ul ops nodes s" "finalize_step now res i s = Some s'"
  shows "list_all (\<lambda>t. \<not> target_open (tg_status t)) (targets_of (es_db s) i)
    \<and> list_all (\<lambda>r. rn_id r = i \<longrightarrow> is_terminal_run_status (rn_status r)) (db_runs (es_db s))"
proof -
  have ok: "work_ok s" using engine_reachable_ok [OF assms(1)] by (simp add: engine_ok_def)
  from assms(2) have i: "i \<in> set (es_dispatched s)" and fin: "run_settled i s"
    by (auto simp: finalize_step_def split: if_splits)
  have closed: "target_closed t" if t: "t \<in> set (targets_of (es_db s) i)" for t
  proof (rule ccontr)
    assume open_t: "\<not> target_closed t"
    with ok i t obtain k where k: "k \<in> set (es_workers s)" "tg_id (wk_target k) = tg_id t" "rn_id (wk_run k) = i"
      unfolding work_ok_def by blast
    with fin have "wk_pc k = Finished" by (auto simp: run_settled_def list_all_iff)
    with ok k have "settled (es_db s) (tg_id t)" unfolding work_ok_def by (metis completed_pc.simps(3))
    with t open_t show False by (simp add: settled_def targets_of_def)
  qed
  have "is_terminal_run_status (rn_status r)" if r: "r \<in> set (db_runs (es_db s))" "rn_id r = i" for r
  proof -
    have "run_ok (targets_of (es_db s) i) r"
      using run_of_targets(1) [of "es_db s" r] ok r by (simp add: work_ok_def)
    with closed show ?thesis using run_ok_active active_iff_not_terminal by blast
  qed
  with closed show ?thesis
    by (auto simp: list_all_iff target_closed_def simp del: is_terminal_run_status.simps)
qed

section \<open>No deadlock\<close>

fun steps_left :: "worker_pc \<Rightarrow> nat" where
  "steps_left WaitNode = 7" | "steps_left WaitGlobal = 6" | "steps_left LookingUp = 5" | "steps_left Starting = 4"
| "steps_left (Executing _) = 3" | "steps_left HoldsBoth = 2" | "steps_left HoldsNode = 1" | "steps_left Finished = 0"

definition work_left :: "engine_state \<Rightarrow> nat" where
  "work_left s = sum_list (map (\<lambda>k. steps_left (wk_pc k)) (es_workers s))"

lemma work_left_set_pc:
  assumes "worker_at s w = Some k" "steps_left pc < steps_left (wk_pc k)"
  shows "work_left (set_pc w pc s) < work_left s"
proof -
  have w: "w < length (es_workers s)" "es_workers s ! w = k" using assms(1) by (simp_all add: worker_at_Some)
  have "steps_left (wk_pc k) \<le> work_left s"
    using w unfolding work_left_def by (auto intro!: member_le_sum_list)
  then show ?thesis
    using w assms(2) by (simp add: work_left_def set_pc_def map_update sum_list_update)
qed

lemma work_left_frame [simp]:
  "work_left (complete_target now i res s) = work_left s" "work_left (set_node_slot n slot s) = work_left s"
  "work_left (s\<lparr>es_global := g\<rparr>) = work_left s" "work_left (s\<lparr>es_db := db\<rparr>) = work_left s"
  by (simp_all add: work_left_def)

lemma work_left_decreases: "worker_step w e s = Some s' \<Longrightarrow> work_left s' < work_left s"
proof (cases e)
  case (Start at err now)
  assume "worker_step w e s = Some s'"
  with Start show ?thesis
    using work_left_set_pc [of "complete_target now i res (s\<lparr>es_db := db\<rparr>)" w _ pc for i res db pc]
      work_left_set_pc [of "complete_target now i res s" w _ pc for i res pc]
      work_left_set_pc [of "s\<lparr>es_db := db\<rparr>" w _ pc for db pc]
    by (auto split: option.splits if_splits sum.splits prod.splits)
next
  case (Reply r at)
  assume "worker_step w e s = Some s'"
  with Reply show ?thesis
    using work_left_set_pc [of "complete_target now i res s" w _ pc for now i res pc]
    by (auto split: option.splits worker_pc.splits)
qed (use work_left_set_pc [of "complete_target now i res s" w _ pc for now i res pc]
      work_left_set_pc [of "set_node_slot n slot s" w _ pc for n slot pc]
      work_left_set_pc [of "s\<lparr>es_global := g\<rparr>" w _ pc for g pc] work_left_set_pc [of s w _ pc for pc]
    in \<open>auto split: option.splits if_splits\<close>)

lemma active_worker_moves:
  assumes ok: "slots_ok cap s" and w: "worker_at s w = Some k" and pc: "wk_pc k \<notin> {WaitNode, WaitGlobal, Finished}"
  shows "\<exists>e s'. worker_step w e s = Some s'"
proof -
  have k: "k \<in> set (es_workers s)" using w by (auto simp: worker_at_Some)
  show ?thesis
  proof (cases "wk_pc k")
    case LookingUp
    with w have "worker_step w (Look NodeMissing True 0) s \<noteq> None" by (simp add: lookup_outcome_def)
    then show ?thesis by blast
  next
    case Starting
    with w have "worker_step w (Start 0 (Some ContextCanceled) 0) s \<noteq> None" by simp
    then show ?thesis by blast
  next
    case (Executing t)
    with w have "worker_step w (Reply (Inl ContextCanceled) 0) s \<noteq> None" by simp
    then show ?thesis by blast
  next
    case HoldsBoth
    with k have "0 < global_holders s"
      unfolding global_holders_def count_rows_pos by (intro bexI [of _ k]) simp_all
    with ok obtain g where "release_slot (es_global s) = Some g"
      using chan_slots.release_possible [of "es_global s"] by (auto simp: slots_ok_def)
    with HoldsBoth w have "worker_step w FreeGlobal s \<noteq> None" by simp
    then show ?thesis by blast
  next
    case HoldsNode
    with k have "0 < node_holders s (wk_node k)"
      unfolding node_holders_def count_rows_pos by (intro bexI [of _ k]) simp_all
    with ok obtain g where "release_slot (node_slot s (wk_node k)) = Some g"
      using chan_slots.release_possible [of "node_slot s (wk_node k)"] by (auto simp: slots_ok_def)
    with HoldsNode w have "worker_step w FreeNode s \<noteq> None" by simp
    then show ?thesis by blast
  qed (use pc in auto)
qed

lemma some_worker_moves:
  assumes ok: "slots_ok cap s" and cap: "0 < cap" and busy: "\<exists>k\<in>set (es_workers s). wk_pc k \<noteq> Finished"
  shows "\<exists>w e s'. worker_step w e s = Some s'"
proof (cases "\<exists>k\<in>set (es_workers s). wk_pc k \<notin> {WaitNode, WaitGlobal, Finished}")
  case True
  then show ?thesis using active_worker_moves [OF ok] by (metis in_set_conv_nth worker_at_Some)
next
  case False
  then have idle: "\<forall>k\<in>set (es_workers s). wk_pc k \<in> {WaitNode, WaitGlobal, Finished}" by blast
  show ?thesis
  proof (cases "\<exists>k\<in>set (es_workers s). wk_pc k = WaitGlobal")
    case True
    then obtain w k where w: "worker_at s w = Some k" "wk_pc k = WaitGlobal" by (metis in_set_conv_nth worker_at_Some)
    have "global_holders s = 0" using idle by (auto simp: global_holders_def count_rows_eq_0)
    with ok cap obtain g where "acquire_slot (es_global s) = Some g"
      using chan_slots.acquire_possible [of "es_global s"] by (auto simp: slots_ok_def)
    with w have "worker_step w TakeGlobal s \<noteq> None" by simp
    then show ?thesis by blast
  next
    case False
    with idle busy obtain w k where w: "worker_at s w = Some k" "wk_pc k = WaitNode"
      by (metis in_set_conv_nth insertE singletonD worker_at_Some)
    have "node_holders s (wk_node k) = 0" using idle False by (auto simp: node_holders_def count_rows_eq_0)
    with ok obtain g where "acquire_slot (node_slot s (wk_node k)) = Some g"
      using chan_slots.acquire_possible [of "node_slot s (wk_node k)"] by (auto simp: slots_ok_def)
    with w have "worker_step w TakeNode s \<noteq> None" by simp
    then show ?thesis by blast
  qed
qed

fun run_workers :: "(nat \<times> worker_event) list \<Rightarrow> engine_state \<Rightarrow> engine_state option" where
  "run_workers [] s = Some s"
| "run_workers ((w, e) # es) s = Option.bind (worker_step w e s) (run_workers es)"

lemma run_workers_bounded: "run_workers es s = Some s' \<Longrightarrow> length es + work_left s' \<le> work_left s"
proof (induction es arbitrary: s)
  case (Cons we es)
  then show ?case using work_left_decreases by (cases we) (fastforce simp: bind_eq_Some_conv)
qed simp

lemma workers_can_finish:
  assumes "engine_ok cap s" "0 < cap"
  shows "\<exists>es s'. run_workers es s = Some s' \<and> (\<forall>k\<in>set (es_workers s'). wk_pc k = Finished)"
  using assms
proof (induction "work_left s" arbitrary: s rule: less_induct)
  case less
  show ?case
  proof (cases "\<exists>k\<in>set (es_workers s). wk_pc k \<noteq> Finished")
    case False
    then have "run_workers [] s = Some s \<and> (\<forall>k\<in>set (es_workers s). wk_pc k = Finished)" by auto
    then show ?thesis by blast
  next
    case True
    with less.prems obtain w e t where t: "worker_step w e s = Some t"
      using some_worker_moves by (metis engine_ok_def)
    then have "engine_ok cap t" using less.prems slots_ok_worker_step work_ok_worker_step by (auto simp: engine_ok_def)
    with less t work_left_decreases [OF t] obtain es s' where
      "run_workers es t = Some s'" "\<forall>k\<in>set (es_workers s'). wk_pc k = Finished" by blast
    with t show ?thesis by (intro exI [of _ "(w, e) # es"] exI [of _ s']) simp
  qed
qed

text \<open>C14: The goroutines of the engine cannot deadlock or run for ever: from every reached state some order of
  their steps finishes all of them, and no order takes more than seven steps for each.\<close>

theorem workers_finish:
  assumes "engine_reachable lib c ul ops nodes s"
  shows "(\<exists>es s'. run_workers es s = Some s' \<and> list_all (\<lambda>k. wk_pc k = Finished) (es_workers s'))
    \<and> (run_workers steps s = Some t \<longrightarrow> length steps \<le> 7 * length (es_workers s))"
proof -
  have "steps_left pc \<le> 7" for pc by (cases pc) simp_all
  then have "sum_list (map (\<lambda>k. steps_left (wk_pc k)) ks) \<le> 7 * length ks" for ks
    by (induction ks) (auto intro: add_mono)
  then have "work_left s \<le> 7 * length (es_workers s)" by (simp add: work_left_def)
  then show ?thesis
    using workers_can_finish [OF engine_reachable_ok [OF assms] engine_capacity_pos] run_workers_bounded [of steps s t]
    by (auto simp: list_all_iff)
qed

section \<open>Claims of the sweep\<close>

lemma engine_reachable_inv: "engine_reachable lib c ul ops nodes s \<Longrightarrow> task_db_inv (es_db s)"
  using engine_reachable_ok engine_ok_inv by blast

lemma claim_outcome_inv:
  assumes inv: "task_db_inv db" and ok: "claim_due_task now taskID due nxt at0 db = (Inr d, db')"
  shows "\<exists>t. find_task_row db' taskID = Some t \<and> rn_scheduled_for (dt_run d) = Some due \<and> dt_run d \<in> set (db_runs db')
    \<and> rn_task_id (dt_run d) = Some taskID
    \<and> (if is_zero nxt then \<not> tk_enabled t else tk_next_run_at t = Some nxt)"
proof -
  obtain at once where once: "once = is_zero nxt" "due \<noteq> 0"
    and tx: "claim_due_task_tx taskID due (if once then None else Some nxt) once at db = Inr (d, db')"
    by (rule claim_due_task_Inr [OF ok]) auto
  let ?n = "if once then None else Some nxt"
  obtain task script db1 active where one: "count_rows (claimable taskID due once) (db_tasks db) = 1"
    and db1: "db1 = db\<lparr>db_tasks := update_rows (claimable taskID due once) (advance_row due ?n at) (db_tasks db)\<rparr>"
    and id: "st_id task = taskID"
    and crt: "create_task_run_tx (task_run_of task script run_trigger_scheduled (Some due)
          (if active then RunSkipped else RunQueued) (if active then ''overlap'' else []))
        (load_run_target_snapshots_tx db taskID) (if active then TargetSkipped else TargetQueued)
        (if active then ''overlap'' else []) at db1 = Inr (d, db')"
    by (rule claim_due_task_tx_steps [OF tx])
  have d: "rn_scheduled_for (dt_run d) = nullable_task_time (Some due)" "dt_run d \<in> set (db_runs db')"
    "rn_task_id (dt_run d) = Some taskID" "db_tasks db' = db_tasks db1"
    using create_task_run_tx_spec [OF crt] id by fastforce+
  from one obtain t where t: "t \<in> set (db_tasks db)" "claimable taskID due once t"
    using count_rows_pos [of "claimable taskID due once" "db_tasks db"] by auto
  have "find_task_row db taskID = Some t"
    using t task_db_invD(4) [OF inv] find_by_key [of tk_id "db_tasks db" t]
    by (auto simp: refs_ok_def claimable_def find_task_row_def)
  then have "find_task_row db' taskID = Some (advance_row due ?n at t)"
    using t(2) unfolding find_task_row_def d(4) db1 by (simp add: find_update_rows)
  with t(2) once d show ?thesis
    by (auto simp: advance_row_def claimable_def nullable_task_time_def unset_def is_zero_def)
qed

lemma claim_fails_unchanged: "claim_due_task now i due nxt at0 db = (Inl e, db') \<Longrightarrow> db' = db"
  by (auto simp: claim_due_task_def Let_def result_iff split: if_splits)

lemma insert_run_targets_error: "insert_run_targets r st err c at ts acc db = Inl e \<Longrightarrow> \<exists>m. e = ErrDB m"
  by (induction ts arbitrary: acc db) (auto simp: Let_def split: sum.splits)

lemma create_task_run_tx_error:
  "create_task_run_tx run ts st err at db = Inl e \<Longrightarrow> e = ErrInvalid ''notification channels'' \<or> (\<exists>m. e = ErrDB m)"
  unfolding create_task_run_tx_def result_iff Let_def
  by (auto simp: marshal_task_channels_def result_iff Let_def simp del: is_terminal_run_status.simps
      dest!: insert_run_targets_error split: sum.split_asm if_split_asm)

lemma get_automation_script_tx_error: "get_automation_script_tx db i = Inl e \<Longrightarrow> e = ErrNotFound ''script''"
  by (auto simp: get_automation_script_tx_def split: option.split_asm)

lemma sum_case_Inl:
  "(case m of Inl e \<Rightarrow> Inl (h e) | Inr x \<Rightarrow> f x) = Inl e' \<longleftrightarrow>
     (\<exists>e. m = Inl e \<and> e' = h e) \<or> (\<exists>x. m = Inr x \<and> f x = Inl e')"
  by (cases m) auto

lemma claim_tx_error:
  assumes "claim_due_task_tx i due n once at db = Inl (ErrInvalid ''next run time'')" shows False
  using assms unfolding claim_due_task_tx_def result_iff Let_def sum_case_Inl
  by (auto dest!: create_task_run_tx_error get_automation_script_tx_error split: if_split_asm)

lemma claim_time_error:
  assumes "claim_due_task now i due nxt now db = (Inl (ErrInvalid ''next run time''), db')" "due \<le> now"
  shows "nxt \<noteq> 0 \<and> nxt \<le> now"
  using assms by (auto simp: claim_due_task_def Let_def is_zero_def result_iff
      split: if_splits dest!: claim_tx_error)

lemma listed_task_due:
  assumes inv: "task_db_inv db" and "list_due_scheduled_tasks db now k = Inr tasks" "task \<in> set tasks"
  shows "0 < st_id task" "\<exists>due. st_next_run_at task = Some due \<and> due \<le> now" "now \<noteq> 0"
proof -
  from assms(2,3) obtain t where t: "t \<in> set (db_tasks db)" "task_is_due now t"
    "\<exists>q. join_script db t = Some q \<and> task = q\<lparr>st_node_ids := load_scheduled_task_node_ids db (st_id q)\<rparr>"
    by (auto simp: list_due_scheduled_tasks_def list_scheduled_tasks_rows_def map_filter_def Let_def
        split: if_splits dest!: in_set_takeD)
  then have "st_id task = tk_id t" "st_next_run_at task = tk_next_run_at t"
    by (auto simp: join_script_def scan_scheduled_task_def)
  with t task_db_invD(4) [OF inv] show "0 < st_id task" "\<exists>due. st_next_run_at task = Some due \<and> due \<le> now"
    by (auto simp: refs_ok_def task_is_due_def split: option.splits)
  show "now \<noteq> 0" using assms(2) by (auto simp: list_due_scheduled_tasks_def is_zero_def split: if_splits)
qed

text \<open>A sweep hands the store a next time it always accepts: claiming a listed due task never fails for its
  next run time, and when the claim changes anything, the run of exactly that occurrence exists and
  the task is no longer due.\<close>

theorem sweep_claim_outcome:
  assumes "next_is_later lib" "engine_reachable lib c ul ops nodes s"
    and "list_due_scheduled_tasks (es_db s) now k = Inr tasks" "task \<in> set tasks"
    and "sweep_claim lib now task s = (e, s')"
  shows "e \<noteq> Some (ErrInvalid ''next run time'')
    \<and> (s' = s \<or> (\<exists>r t. r \<in> set (db_runs (es_db s')) \<and> rn_task_id r = Some (st_id task)
         \<and> rn_scheduled_for r = st_next_run_at task \<and> find_task_row (es_db s') (st_id task) = Some t
         \<and> \<not> task_is_due now t))"
proof -
  note inv = engine_reachable_inv [OF assms(2)]
  obtain due where due: "st_next_run_at task = Some due" "due \<le> now" and now: "now \<noteq> 0" and id: "0 < st_id task"
    using listed_task_due [OF inv assms(3,4)] by blast
  define nr where "nr = (if st_schedule_type task = schedule_type_cron
    then next_run lib (st_cron_expression task) (st_timezone task) now else Inr 0)"
  consider (none) "e = None" "s' = s" | (fail) err where "nr = Inl err" "e = Some err" "s' = s"
    | (claim) nxt r db where "nr = Inr nxt" "claim_due_task now (st_id task) due nxt now (es_db s) = (r, db)"
      "(\<exists>d. r = Inr d \<and> e = None \<and> es_db s' = db) \<or> (\<exists>err. r = Inl err \<and> (e = None \<or> e = Some err) \<and> s' = s\<lparr>es_db := db\<rparr>)"
    using assms(5) unfolding sweep_claim_def due(1) nr_def [symmetric]
    by (auto simp: dispatch_def dispatch_skipped_def split: if_splits sum.splits prod.splits task_error.splits)
  then show ?thesis
  proof cases
    case none
    then show ?thesis by simp
  next
    case fail
    then have "next_run lib (st_cron_expression task) (st_timezone task) now = Inl err"
      by (simp add: nr_def split: if_splits)
    then have "err \<noteq> ErrInvalid ''next run time''"
      by (auto simp: next_run_def parse_cron_schedule_def task_location_def result_iff Let_def is_zero_def
          split: if_splits option.splits)
    with fail show ?thesis by simp
  next
    case claim
    have nxt: "nxt = 0 \<or> now < nxt"
      using claim(1) next_run_is_later_aux [OF assms(1)] by (auto simp: nr_def split: if_splits)
    from claim(3) show ?thesis
    proof
      assume "\<exists>d. r = Inr d \<and> e = None \<and> es_db s' = db"
      then obtain d where d: "r = Inr d" "e = None" "es_db s' = db" by blast
      from claim_outcome_inv [OF inv, of now "st_id task" due nxt now d db] claim(2) d(1) obtain t where
        "find_task_row db (st_id task) = Some t" "rn_scheduled_for (dt_run d) = Some due" "dt_run d \<in> set (db_runs db)"
        "rn_task_id (dt_run d) = Some (st_id task)"
        "if is_zero nxt then \<not> tk_enabled t else tk_next_run_at t = Some nxt" by auto
      moreover from this(5) nxt have "\<not> task_is_due now t" by (auto simp: task_is_due_def is_zero_def split: if_splits)
      ultimately show ?thesis using d due by auto
    next
      assume "\<exists>err. r = Inl err \<and> (e = None \<or> e = Some err) \<and> s' = s\<lparr>es_db := db\<rparr>"
      then obtain err where err: "r = Inl err" "s' = s\<lparr>es_db := db\<rparr>" and e: "e = None \<or> e = Some err" by blast
      have "db = es_db s" using claim_fails_unchanged claim(2) err(1) by blast
      moreover have "err \<noteq> ErrInvalid ''next run time''"
        using claim(2) err(1) nxt due now by (intro notI) (auto dest: claim_time_error)
      ultimately show ?thesis using err e by auto
    qed
  qed
qed

section \<open>Notifications\<close>

lemma run_success_all:
  assumes "run_ok ts r" "rn_status r = RunSuccess" shows "filter (\<lambda>t. tg_status t \<noteq> TargetSuccess) ts = []"
proof -
  have "aggregate_of ts = RunSuccess" using assms by (auto simp: run_ok_def)
  then have "count_rows (\<lambda>t. tg_status t = TargetSuccess) ts = length ts"
    by (auto simp: aggregate_of_def aggregate_status_def split: if_splits)
  then show ?thesis by (simp add: count_rows_full filter_empty_conv)
qed

lemma sort_key_Nil [simp]: "sort_key f xs = [] \<longleftrightarrow> xs = []"
  by (metis length_0_conv length_sort)

lemma skipped_are_failures:
  "count_rows (\<lambda>t. tg_status t = TargetSkipped) ts \<le> length (filter (\<lambda>t. tg_status t \<noteq> TargetSuccess) ts)"
  unfolding count_rows_def by (induction ts) auto

text \<open>The payload a run is reported with adds up: it lists every target that did not succeed, by name or
  identifier, and its counts are those of the targets.\<close>

theorem payload_adds_up:
  assumes "engine_reachable lib c ul ops nodes s" "get_run (es_db s) i = Inr d"
  shows "let p = task_payload_of d in
      py_total_targets p = length (dt_targets d)
    \<and> py_successful_targets p + length (py_failures p) = py_total_targets p
    \<and> py_skipped_targets p \<le> length (py_failures p)
    \<and> (py_failures p \<noteq> [] \<longrightarrow> py_status p \<noteq> RunSuccess)
    \<and> 0 \<le> py_duration_ms p"
proof -
  note inv = engine_reachable_inv [OF assms(1)]
  from assms(2) obtain r where r: "r \<in> set (db_runs (es_db s))" "rn_id r = i"
    and d: "d = \<lparr>dt_run = r, dt_targets = sort_key tg_id (targets_of (es_db s) i)\<rparr>"
    by (auto simp: get_run_def result_iff get_run_summary_def find_run_def split: if_splits option.splits dest!: find_Some_set)
  let ?ts = "targets_of (es_db s) i"
  have ok: "run_ok ?ts r" using run_of_targets(1) [OF inv r(1)] r(2) by simp
  have perm: "length (filter P (sort_key tg_id ?ts)) = length (filter P ?ts)" for P
    by (metis filter_sort length_sort)
  have split: "count_rows P ts + length (filter (\<lambda>t. \<not> P t) ts) = length ts" for P and ts :: "task_run_target list"
    by (induction ts) auto
  note skipped_are_failures [of ?ts]
  moreover have "filter (\<lambda>t. tg_status t \<noteq> TargetSuccess) ?ts \<noteq> [] \<longrightarrow> rn_status r \<noteq> RunSuccess"
    using run_success_all [OF ok] by blast
  moreover have "0 \<le> run_duration r"
    by (auto simp: run_duration_def Let_def intro!: time_sub_nonneg split: option.splits)
  ultimately show ?thesis
    using ok perm [of "\<lambda>t. tg_status t \<noteq> TargetSuccess"] split [of "\<lambda>t. tg_status t = TargetSuccess" ?ts] perm
    by (simp add: d task_payload_of_def Let_def run_ok_def counters_ok_def count_rows_def milliseconds_nonneg filter_sort)
qed

section \<open>Witnesses\<close>

text \<open>A manual run of the sample task, stopped with the server before its target started.\<close>

definition sample_engine :: engine_state where
  "sample_engine = new_engine 0 (run_ops (\<lambda>r. r) sample_task_ops (empty_task_db Map.empty))"

fun engine_run :: "('sched, 'loc) schedule_lib \<Rightarrow> engine_event list \<Rightarrow> engine_state \<Rightarrow> engine_state option" where
  "engine_run lib [] s = Some s"
| "engine_run lib (e # es) s = Option.bind (engine_step lib e s) (engine_run lib es)"

lemma engine_run_reachable:
  "engine_run lib es s = Some t \<Longrightarrow> engine_reachable lib c ul ops nodes s \<Longrightarrow> engine_reachable lib c ul ops nodes t"
  by (induction es arbitrary: s) (auto simp: bind_eq_Some_conv intro: engine_reachable_step)

lemmas engine_eval = engine_initialize_def new_engine_def lock_scheduled_task_tx_def recover_interrupted_runs_def
  recover_interrupted_runs_tx_def create_manual_task_run_def create_manual_task_run_tx_def interrupt_targets_def
  interrupt_run_def update_rows_def make_slots_def default_global_concurrency_def

definition sample_task_db :: task_db where
  "sample_task_db = \<lparr>db_scripts = [\<lparr>sc_id = 1, sc_name = ''a'', sc_normalized_name = [char_of (97 :: nat)],
       sc_description = [], sc_content = ''x'', sc_timeout_seconds = 300, sc_revision = 1, sc_created_at = 10,
       sc_updated_at = 10\<rparr>], db_script_seq = 1,
     db_tasks = [\<lparr>tk_id = 1, tk_name = ''t'', tk_normalized_name = [char_of (116 :: nat)], tk_script_id = 1,
       tk_schedule_type = ''once'', tk_run_at = Some 50, tk_cron_expression = [], tk_timezone = ''UTC'',
       tk_enabled = True, tk_timeout_seconds = 300, tk_notification_policy = ''failure'',
       tk_notification_channels = [], tk_next_run_at = Some 50, tk_last_scheduled_at = None, tk_created_at = 10,
       tk_updated_at = 10\<rparr>], db_task_seq = 1,
     db_task_nodes = [\<lparr>tn_task_id = 1, tn_node_id = ''n'', tn_created_at = 10\<rparr>],
     db_runs = [], db_run_seq = 0, db_targets = [], db_target_seq = 0, db_node_names = \<lambda>x. None\<rparr>"

lemma sample_task_db: "run_ops (\<lambda>r. r) sample_task_ops (empty_task_db Map.empty) = sample_task_db"
  by (simp add: sample_task_db_def sample_task_ops_def sample_task_def sample_script_def run_ops_eval task_eval
      limit_defs eval_text Let_def json_channels_def)

lemma sample_initialize: "engine_initialize 60 (new_engine 0 sample_task_db)
  = (Inr (), (new_engine 0 sample_task_db)\<lparr>es_initialized := True\<rparr>)"
  by (simp add: sample_task_db_def engine_eval run_tx_def is_zero_def)

definition sample_run_row :: task_run where
  "sample_run_row = \<lparr>rn_id = 1, rn_task_id = Some 1, rn_script_id = Some 1, rn_task_name = ''t'', rn_script_name = ''a'',
     rn_script_revision = 1, rn_script_content = ''x'', rn_timeout_seconds = 300, rn_notification_policy = ''failure'',
     rn_notification_channels = [], rn_trigger = run_trigger_manual, rn_scheduled_for = None, rn_status = RunQueued,
     rn_total_targets = 1, rn_completed_targets = 0, rn_success_targets = 0, rn_failed_targets = 0, rn_error = [],
     rn_notification_sent = False, rn_notification_error = [], rn_notification_attempted_at = None,
     rn_started_at = None, rn_completed_at = None, rn_created_at = 60, rn_updated_at = 60\<rparr>"

definition sample_target_row :: task_run_target where
  "sample_target_row = \<lparr>tg_id = 1, tg_run_id = 1, tg_node_id = ''n'', tg_node_name = [], tg_status = TargetQueued,
     tg_exit_code = None, tg_output = [], tg_output_truncated = False, tg_error = [], tg_duration_ms = 0,
     tg_started_at = None, tg_completed_at = None, tg_created_at = 60, tg_updated_at = 60\<rparr>"

definition sample_run_db :: task_db where
  "sample_run_db = sample_task_db\<lparr>db_runs := [sample_run_row], db_run_seq := 1,
     db_targets := [sample_target_row], db_target_seq := 1\<rparr>"

lemma sample_manual: "create_manual_task_run 60 1 60 sample_task_db
  = (Inr \<lparr>dt_run = sample_run_row, dt_targets = [sample_target_row]\<rparr>, sample_run_db)"
  by (simp add: sample_task_db_def sample_run_db_def sample_run_row_def sample_target_row_def engine_eval run_ops_eval
      task_eval limit_defs eval_text Let_def json_channels_def)

lemma sample_give_up:
  "\<exists>t. db_targets (snd (complete_run_target 61 1 (cancelled_before 61) sample_run_db)) = [t] \<and> tg_id t = 1"
  by (simp add: sample_task_db_def sample_run_db_def sample_run_row_def sample_target_row_def cancelled_before_def
      plain_result_def complete_run_target_def complete_run_target_tx_def complete_row_def run_tx_def find_target_def
      update_rows_def count_rows_def failIf_def aggregate_run_tx_def targets_of_def is_zero_def target_open_def Let_def split: prod.split)

lemma sample_get_run: "\<exists>d. get_run sample_run_db 1 = Inr d \<and> length (dt_targets d) = 1"
  by (simp add: get_run_def get_run_summary_def find_run_def sample_run_db_def sample_run_row_def sample_target_row_def
      targets_of_def)

lemma sample_dispatched: "engine_step sample_lib (ManualTask 60 1) sample_engine = Some (dispatch
    \<lparr>dt_run = sample_run_row, dt_targets = [sample_target_row]\<rparr>
    ((new_engine 0 sample_task_db)\<lparr>es_initialized := True, es_db := sample_run_db\<rparr>))"
  by (simp add: sample_engine_def sample_task_db engine_step_def run_manual_task_def sample_initialize)
    (simp add: new_engine_def sample_manual)

lemma sample_stopped:
  "\<exists>s k. engine_run sample_lib [ManualTask 60 1, StopServer, Worker 0 (GiveUp 61)] sample_engine = Some s
     \<and> es_workers s = [k] \<and> wk_pc k = Finished \<and> tg_id (wk_target k) = 1 \<and> rn_id (wk_run k) = 1 \<and> es_dispatched s = [1]
     \<and> (\<exists>t. db_targets (es_db s) = [t] \<and> tg_id t = 1)"
  using sample_give_up
  by (simp add: sample_dispatched)
    (simp add: engine_step_def new_engine_def dispatch_def new_worker_def worker_at_def set_pc_def complete_target_def
      sample_run_row_def sample_target_row_def)

lemma sample_start: "engine_reachable sample_lib 0 (\<lambda>r. r) sample_task_ops Map.empty sample_engine"
  unfolding sample_engine_def by (rule engine_reachable_start)

lemma sample_end:
  obtains s k where "engine_reachable sample_lib 0 (\<lambda>r. r) sample_task_ops Map.empty s" "es_workers s = [k]"
    "wk_pc k = Finished" "tg_id (wk_target k) = 1" "rn_id (wk_run k) = 1" "es_dispatched s = [1]"
    "\<exists>t. db_targets (es_db s) = [t] \<and> tg_id t = 1"
  using sample_stopped engine_run_reachable [OF _ sample_start] by blast

theorem concurrency_is_bounded_witness:
  "\<exists>s k. engine_reachable sample_lib 0 (\<lambda>r. r) sample_task_ops Map.empty s \<and> es_workers s = [k]
     \<and> sl_held (es_global s) = 0"
proof -
  obtain s k where s: "engine_reachable sample_lib 0 (\<lambda>r. r) sample_task_ops Map.empty s" "es_workers s = [k]"
    "wk_pc k = Finished" by (rule sample_end)
  with concurrency_is_bounded [OF s(1), of "[]"] show ?thesis by auto
qed

theorem finished_targets_are_closed_witness:
  "\<exists>s t. engine_reachable sample_lib 0 (\<lambda>r. r) sample_task_ops Map.empty s \<and> db_targets (es_db s) = [t]
     \<and> \<not> target_open (tg_status t)"
proof -
  obtain s k where s: "engine_reachable sample_lib 0 (\<lambda>r. r) sample_task_ops Map.empty s" "es_workers s = [k]"
    "wk_pc k = Finished" "tg_id (wk_target k) = 1" "\<exists>t. db_targets (es_db s) = [t] \<and> tg_id t = 1" by (rule sample_end)
  with finished_targets_are_closed [OF s(1), of k] show ?thesis by fastforce
qed

theorem finalized_runs_are_final_witness:
  "\<exists>s s' r. finalize_step 70 r 1 s = Some s' \<and> es_dispatched s = [1]
     \<and> list_all (\<lambda>r. rn_id r = 1 \<longrightarrow> is_terminal_run_status (rn_status r)) (db_runs (es_db s))"
proof -
  obtain s k where s: "engine_reachable sample_lib 0 (\<lambda>r. r) sample_task_ops Map.empty s" "es_workers s = [k]"
    "wk_pc k = Finished" "es_dispatched s = [1]" by (rule sample_end)
  then obtain s' where "finalize_step 70 undefined 1 s = Some s'" by (simp add: finalize_step_def run_settled_def)
  with s finalized_runs_are_final [OF s(1) this] show ?thesis by blast
qed

theorem workers_finish_witness:
  "\<exists>es s'. run_workers es sample_engine = Some s' \<and> list_all (\<lambda>k. wk_pc k = Finished) (es_workers s')"
  using workers_finish [OF sample_start] by blast

theorem payload_adds_up_witness:
  "\<exists>s d. engine_reachable sample_lib 0 (\<lambda>r. r) sample_task_ops Map.empty s \<and> get_run (es_db s) 1 = Inr d
     \<and> py_total_targets (task_payload_of d) = 1"
proof -
  obtain s where s: "engine_step sample_lib (ManualTask 60 1) sample_engine = Some s" "es_db s = sample_run_db"
    using sample_dispatched by (simp add: dispatch_def)
  obtain d where d: "get_run (es_db s) 1 = Inr d" "length (dt_targets d) = 1" using sample_get_run s(2) by auto
  have r: "engine_reachable sample_lib 0 (\<lambda>r. r) sample_task_ops Map.empty s"
    by (rule engine_reachable_step [OF sample_start s(1)])
  from payload_adds_up [OF r d(1)] r d show ?thesis by (auto simp: Let_def)
qed

lemma sample_due: "\<exists>task. list_due_scheduled_tasks (es_db sample_engine) 60 5 = Inr [task]"
  by (simp add: sample_engine_def sample_task_db new_engine_def) (simp add: sample_task_db_def list_due_scheduled_tasks_def
      list_scheduled_tasks_rows_def task_is_due_def map_filter_def max_due_task_limit_def run_ops_eval task_eval Let_def)

theorem sweep_claim_outcome_witness:
  "\<exists>task e s'. sweep_claim sample_lib 60 task sample_engine = (e, s') \<and> e \<noteq> Some (ErrInvalid ''next run time'')"
proof -
  from sample_due obtain task where task: "list_due_scheduled_tasks (es_db sample_engine) 60 5 = Inr [task]" by blast
  obtain e s' where "sweep_claim sample_lib 60 task sample_engine = (e, s')" by fastforce
  with sweep_claim_outcome [OF sample_next sample_start task _ this] show ?thesis by auto
qed

end
