(* ===== verification/TaskOccurrences.thy ===== *)
theory TaskOccurrences
  imports TaskClaims
begin

text \<open>
  A claimed occurrence of a task can never be claimed again while its run is kept: the run occupies the unique pair of
  task and instant, or the task has been deleted, and identifiers are not used twice.
\<close>

section \<open>What an operation keeps\<close>

definition occurrence :: "task_run \<Rightarrow> (int \<times> time option) option" where
  "occurrence r = map_option (\<lambda>i. (i, rn_scheduled_for r)) (rn_task_id r)"

lemma occurrence_Some: "occurrence r = Some (i, due) \<longleftrightarrow> rn_task_id r = Some i \<and> rn_scheduled_for r = due"
  "Some (i, due) = occurrence r \<longleftrightarrow> rn_task_id r = Some i \<and> rn_scheduled_for r = due"
  unfolding occurrence_def by (cases "rn_task_id r"; auto)+

definition retired :: "int \<Rightarrow> task_db \<Rightarrow> bool" where
  "retired i db \<longleftrightarrow> i \<notin> tk_id ` set (db_tasks db) \<and> i \<le> db_task_seq db"

definition keeps_occurrences :: "task_db \<Rightarrow> task_db \<Rightarrow> bool" where
  "keeps_occurrences db db' \<longleftrightarrow> db_task_seq db \<le> db_task_seq db'
     \<and> (\<forall>i\<in>tk_id ` set (db_tasks db'). i \<in> tk_id ` set (db_tasks db) \<or> db_task_seq db < i)
     \<and> (\<forall>i due. Some (i, due) \<in> occurrence ` set (db_runs db) \<longrightarrow> retired i db' \<or> Some (i, due) \<in> occurrence ` set (db_runs db'))"

lemma occurrences_refl [simp]: "keeps_occurrences db db"
  by (simp add: keeps_occurrences_def)

lemma retired_kept: "retired i db \<Longrightarrow> keeps_occurrences db db' \<Longrightarrow> retired i db'"
  by (fastforce simp: retired_def keeps_occurrences_def)

lemma occurrences_trans: "keeps_occurrences a b \<Longrightarrow> keeps_occurrences b c \<Longrightarrow> keeps_occurrences a c"
proof -
  assume ab: "keeps_occurrences a b" and bc: "keeps_occurrences b c"
  have "retired i c \<or> Some (i, due) \<in> occurrence ` set (db_runs c)" if "Some (i, due) \<in> occurrence ` set (db_runs a)" for i due
    using ab bc that retired_kept [OF _ bc] unfolding keeps_occurrences_def by metis
  moreover have "db_task_seq a \<le> db_task_seq c" using ab bc by (simp add: keeps_occurrences_def)
  moreover have "i \<in> tk_id ` set (db_tasks a) \<or> db_task_seq a < i" if "i \<in> tk_id ` set (db_tasks c)" for i
    using ab bc that unfolding keeps_occurrences_def by fastforce
  ultimately show ?thesis unfolding keeps_occurrences_def by blast
qed

text \<open>Operations that leave the identifiers of the tasks alone.\<close>

lemma keeps_same:
  assumes "map tk_id (db_tasks db') = map tk_id (db_tasks db)" "db_task_seq db' = db_task_seq db"
    "occurrence ` set (db_runs db) \<subseteq> occurrence ` set (db_runs db')"
  shows "keeps_occurrences db db'"
proof -
  have "tk_id ` set (db_tasks db') = tk_id ` set (db_tasks db)" using assms(1) by (metis set_map)
  then show ?thesis using assms(2,3) by (auto simp: keeps_occurrences_def)
qed

lemma keeps_runs:
  assumes "db_tasks db' = db_tasks db" "db_task_seq db' = db_task_seq db" "db_runs db' = update_rows P f (db_runs db)" "\<And>r. occurrence (f r) = occurrence r"
  shows "keeps_occurrences db db'"
proof (rule keeps_same)
  have "map occurrence (db_runs db') = map occurrence (db_runs db)" unfolding assms(3) by (rule map_update_rows) (rule assms(4))
  then have "set (map occurrence (db_runs db')) = set (map occurrence (db_runs db))" by simp
  then show "occurrence ` set (db_runs db) \<subseteq> occurrence ` set (db_runs db')" by simp
qed (simp_all add: assms)

lemma keeps_frame: "db_tasks db' = db_tasks db \<Longrightarrow> db_task_seq db' = db_task_seq db \<Longrightarrow> db_runs db' = db_runs db \<Longrightarrow> keeps_occurrences db db'"
  by (rule keeps_same) simp_all

lemma run_tx_keeps: "(\<And>x db'. body db = Inr (x, db') \<Longrightarrow> keeps_occurrences db db') \<Longrightarrow> keeps_occurrences db (snd (run_tx body db))"
  by (auto simp: run_tx_def split: sum.splits)

section \<open>The operations\<close>

lemma create_run_keeps: "create_task_run_tx run ts st err at db = Inr (d, db') \<Longrightarrow> keeps_occurrences db db'"
  by (drule create_task_run_tx_spec) (auto intro!: keeps_same)

lemma script_ops_keep:
  "keeps_occurrences db (snd (create_script ul now s db))" "keeps_occurrences db (snd (update_script ul now s db))"
  "keeps_occurrences db (snd (delete_script i db))"
proof -
  show "keeps_occurrences db (snd (create_script ul now s db))"
    by (auto simp: create_script_def insert_script_row_def Let_def intro!: keeps_frame split: option.splits sum.splits if_splits)
  show "keeps_occurrences db (snd (update_script ul now s db))"
    by (auto simp: update_script_def Let_def intro!: keeps_frame split: option.splits sum.splits)
  have "occurrence (r\<lparr>rn_script_id := None\<rparr>) = occurrence r" for r by (simp add: occurrence_def)
  then show "keeps_occurrences db (snd (delete_script i db))"
    by (auto simp: delete_script_def delete_script_row_def Let_def intro!: run_tx_keeps
        keeps_runs [where f = "\<lambda>r. r\<lparr>rn_script_id := None\<rparr>" and P = "\<lambda>r. rn_script_id r = Some i"] split: if_splits)
qed

lemma replace_nodes_keeps: "replace_scheduled_task_nodes_tx i ids at db = Inr db' \<Longrightarrow> keeps_occurrences db db'"
  using replace_nodes_frame by (fastforce intro!: keeps_frame)

lemma create_task_keeps: "keeps_occurrences db (snd (create_scheduled_task ul now t db))"
proof -
  have "keeps_occurrences db db'" if tx: "create_scheduled_task_tx t' now db = Inr (x, db')" for t' x db'
  proof -
    from tx obtain row db1 ids where ins: "insert_task_row row db = Inr (x, db1)"
      and nodes: "replace_scheduled_task_nodes_tx x ids now db1 = Inr db'"
      by (auto simp: create_scheduled_task_tx_def result_iff Let_def split: sum.splits)
    have "db1 = db\<lparr>db_tasks := db_tasks db @ [row\<lparr>tk_id := db_task_seq db + 1\<rparr>], db_task_seq := db_task_seq db + 1\<rparr>"
      using ins by (auto simp: insert_task_row_def Let_def split: if_splits)
    then have "keeps_occurrences db db1" by (auto simp: keeps_occurrences_def)
    then show ?thesis using replace_nodes_keeps [OF nodes] occurrences_trans by blast
  qed
  then show ?thesis by (auto simp: create_scheduled_task_def run_tx_def split: option.splits sum.splits)
qed

lemma update_task_keeps: "keeps_occurrences db (snd (update_scheduled_task ul now t db))"
proof -
  have "keeps_occurrences db db'" if tx: "update_scheduled_task_tx t' now db = Inr (x, db')" for t' x db'
  proof -
    from tx obtain P f where nodes: "replace_scheduled_task_nodes_tx (st_id t') (st_node_ids t') now (db\<lparr>db_tasks := update_rows P f (db_tasks db)\<rparr>) = Inr db'"
      and f: "\<And>r. P r \<Longrightarrow> tk_id (f r) = tk_id r"
      by (auto simp: update_scheduled_task_tx_def result_iff Let_def task_row_of_def split: if_splits)
    have "keeps_occurrences db (db\<lparr>db_tasks := update_rows P f (db_tasks db)\<rparr>)" by (rule keeps_same) (simp_all add: map_update_rows f)
    then show ?thesis using replace_nodes_keeps [OF nodes] occurrences_trans by blast
  qed
  then show ?thesis by (auto simp: update_scheduled_task_def run_tx_def split: option.splits sum.splits)
qed

lemma enable_task_keeps: "keeps_occurrences db (snd (set_scheduled_task_enabled now i en nxt db))"
proof -
  have "keeps_occurrences db db'" if "set_enabled_tx i b n now db = Inr (x, db')" for b n x db'
    using that by (auto simp: set_enabled_tx_def result_iff map_update_rows intro!: keeps_same split: if_splits)
  then show ?thesis by (auto simp: set_scheduled_task_enabled_def run_tx_def split: sum.splits)
qed

lemma delete_task_keeps:
  assumes "task_db_inv db" shows "keeps_occurrences db (snd (delete_scheduled_task i db))"
proof -
  have "keeps_occurrences db (delete_task_rows i db)" if some: "count_rows (\<lambda>t. tk_id t = i) (db_tasks db) \<noteq> 0"
  proof -
    have "i \<le> db_task_seq db" using some task_db_invD(4) [OF assms] by (auto simp: refs_ok_def count_rows_eq_0)
    then have gone: "retired i (delete_task_rows i db)" by (auto simp: retired_def delete_task_rows_def)
    have same: "occurrence r \<in> occurrence ` set (db_runs (delete_task_rows i db))" if "r \<in> set (db_runs db)" "rn_task_id r \<noteq> Some i" for r
    proof (rule image_eqI [of _ _ r])
      show "r \<in> set (db_runs (delete_task_rows i db))" using that by (auto simp: delete_task_rows_def set_update_rows image_iff intro!: bexI [of _ r])
    qed simp
    have "retired j (delete_task_rows i db) \<or> occurrence r \<in> occurrence ` set (db_runs (delete_task_rows i db))"
      if "r \<in> set (db_runs db)" "occurrence r = Some (j, due)" for r j due
    proof (cases "j = i")
      case False
      then have "rn_task_id r \<noteq> Some i" using that(2) by (simp add: occurrence_Some)
      then show ?thesis using same [OF that(1)] by blast
    qed (use gone in simp)
    moreover have "db_task_seq (delete_task_rows i db) = db_task_seq db" "tk_id ` set (db_tasks (delete_task_rows i db)) \<subseteq> tk_id ` set (db_tasks db)"
      by (auto simp: delete_task_rows_def)
    ultimately show ?thesis unfolding keeps_occurrences_def by (auto, metis)
  qed
  then show ?thesis by (auto simp: delete_scheduled_task_def result_iff intro!: run_tx_keeps split: if_splits)
qed

lemma claim_keeps: "keeps_occurrences db (snd (claim_due_task now i due nxt at0 db))"
proof -
  have "keeps_occurrences db db'" if tx: "claim_due_task_tx i due n once at db = Inr (d, db')" for n once at d db'
    using tx
  proof (rule claim_due_task_tx_steps)
    fix task script db1 active
    assume db1: "db1 = db\<lparr>db_tasks := update_rows (claimable i due once) (advance_row due n at) (db_tasks db)\<rparr>"
      and crt: "create_task_run_tx (task_run_of task script run_trigger_scheduled (Some due)
          (if active then RunSkipped else RunQueued) (if active then ''overlap'' else []))
        (load_run_target_snapshots_tx db i) (if active then TargetSkipped else TargetQueued)
        (if active then ''overlap'' else []) at db1 = Inr (d, db')"
    have "keeps_occurrences db db1" by (rule keeps_same) (simp_all add: db1 map_update_rows)
    then show "keeps_occurrences db db'" using create_run_keeps [OF crt] occurrences_trans by blast
  qed
  then show ?thesis by (auto simp: claim_due_task_def Let_def intro!: run_tx_keeps)
qed

lemma manual_keeps:
  "keeps_occurrences db (snd (create_manual_script_run now i ts at0 db))" "keeps_occurrences db (snd (create_manual_task_run now i at0 db))"
  using create_run_keeps
  by (auto simp: create_manual_script_run_def create_manual_task_run_def create_manual_task_run_tx_def Let_def result_iff
      split: sum.splits intro!: run_tx_keeps)

lemma aggregate_tx_keeps: "aggregate_run_tx i at db = Inr (st, db') \<Longrightarrow> keeps_occurrences db db'"
  by (auto simp: aggregate_run_tx_def Let_def occurrence_def aggregate_row_def intro!: keeps_runs split: if_splits)

lemma target_ops_keep:
  "keeps_occurrences db (snd (mark_run_target_running now i at0 db))" "keeps_occurrences db (snd (complete_run_target now i res db))"
  "keeps_occurrences db (snd (aggregate_run now i at0 db))" "keeps_occurrences db (snd (update_run_notification now i sent err at0 db))"
proof -
  show "keeps_occurrences db (snd (aggregate_run now i at0 db))"
    by (auto simp: aggregate_run_def run_tx_def dest: aggregate_tx_keeps split: sum.splits)
  show "keeps_occurrences db (snd (update_run_notification now i sent err at0 db))"
    by (auto simp: update_run_notification_def Let_def occurrence_def intro!: keeps_runs)
  have "keeps_occurrences db db'" if "complete_run_target_tx i res at db = Inr (u, db')" for at u db'
    using that
  proof (rule complete_run_target_tx_steps)
    fix t0 P db1 st
    assume db1: "db1 = db\<lparr>db_targets := update_rows P (complete_row res at) (db_targets db)\<rparr>" and agg: "aggregate_run_tx u at db1 = Inr (st, db')"
    have "keeps_occurrences db db1" by (rule keeps_frame) (simp_all add: db1)
    then show "keeps_occurrences db db'" using aggregate_tx_keeps [OF agg] occurrences_trans by blast
  qed
  then show "keeps_occurrences db (snd (complete_run_target now i res db))"
    by (auto simp: complete_run_target_def run_tx_def Let_def split: sum.splits)
  have "keeps_occurrences db db'" if "mark_run_target_running_tx i at db = Inr (u, db')" for at u db'
    using that
    by (auto simp: mark_run_target_running_tx_def Let_def result_iff occurrence_def intro!: keeps_runs split: option.splits)
  then show "keeps_occurrences db (snd (mark_run_target_running now i at0 db))"
    by (auto simp: mark_run_target_running_def intro!: run_tx_keeps)
qed

lemma interrupt_run_keeps: "interrupt_run at i db = Inr db' \<Longrightarrow> keeps_occurrences db db'"
proof -
  assume "interrupt_run at i db = Inr db'"
  then obtain st db1 where agg: "aggregate_run_tx i at db = Inr (st, db1)"
    and db': "db' = db1\<lparr>db_runs := update_rows (\<lambda>r. rn_id r = i) (\<lambda>r. r\<lparr>rn_error := restarted_message, rn_status := RunInterrupted,
        rn_completed_at := Some at, rn_updated_at := at\<rparr>) (db_runs db1)\<rparr>"
    by (auto simp: interrupt_run_def result_iff)
  have "keeps_occurrences db1 db'" unfolding db'
    by (rule keeps_runs [where P = "\<lambda>r. rn_id r = i" and f = "\<lambda>r. r\<lparr>rn_error := restarted_message, rn_status := RunInterrupted,
        rn_completed_at := Some at, rn_updated_at := at\<rparr>"]) (simp_all add: occurrence_def)
  then show ?thesis using aggregate_tx_keeps [OF agg] occurrences_trans by blast
qed

lemma interrupt_all_keeps: "bind_all (interrupt_run at) ids db = Inr db' \<Longrightarrow> keeps_occurrences db db'"
  by (induction ids arbitrary: db) (auto simp: result_iff dest!: interrupt_run_keeps intro: occurrences_trans)

lemma recover_keeps: "keeps_occurrences db (snd (recover_interrupted_runs now at0 db))"
proof -
  have "keeps_occurrences db db'" if tx: "recover_interrupted_runs_tx at db = Inr (n, db')" for at n db'
  proof -
    from tx obtain ids where "bind_all (interrupt_run at) ids (interrupt_targets at db) = Inr db'"
      by (auto simp: recover_interrupted_runs_tx_def Let_def result_iff)
    moreover have "keeps_occurrences db (interrupt_targets at db)" by (rule keeps_frame) (simp_all add: interrupt_targets_def)
    ultimately show ?thesis using interrupt_all_keeps occurrences_trans by blast
  qed
  then show ?thesis by (auto simp: recover_interrupted_runs_def intro!: run_tx_keeps)
qed

lemma apply_op_keeps: "task_db_inv db \<Longrightarrow> \<not> retention_op op \<Longrightarrow> keeps_occurrences db (snd (apply_op ul op db))"
  by (cases op) (simp_all add: retention_op_def script_ops_keep create_task_keeps update_task_keeps enable_task_keeps delete_task_keeps
      claim_keeps manual_keeps target_ops_keep recover_keeps)

lemma run_ops_keeps: "task_db_inv db \<Longrightarrow> \<forall>op\<in>set ops. \<not> retention_op op \<Longrightarrow> keeps_occurrences db (run_ops ul ops db)"
proof (induction ops arbitrary: db)
  case (Cons op ops)
  then have "keeps_occurrences db (snd (apply_op ul op db))" by (simp add: apply_op_keeps)
  moreover have "keeps_occurrences (snd (apply_op ul op db)) (run_ops ul ops (snd (apply_op ul op db)))"
    using Cons by (simp add: apply_op_inv)
  ultimately show ?case by (auto intro: occurrences_trans)
qed simp

section \<open>Claims\<close>

definition spent :: "int \<Rightarrow> time \<Rightarrow> task_db \<Rightarrow> bool" where
  "spent i due db \<longleftrightarrow> retired i db \<or> Some (i, Some due) \<in> occurrence ` set (db_runs db)"

lemma spent_kept: "spent i due db \<Longrightarrow> keeps_occurrences db db' \<Longrightarrow> spent i due db'"
proof -
  assume s: "spent i due db" and k: "keeps_occurrences db db'"
  show "spent i due db'" using s k retired_kept [OF _ k] unfolding keeps_occurrences_def spent_def by blast
qed

text \<open>The unique index of the runs.\<close>

lemma create_run_fresh:
  assumes "create_task_run_tx run ts st err at db = Inr (d, db')" "rn_task_id run = Some i" "rn_scheduled_for run = Some due" "due \<noteq> 0"
  shows "Some (i, Some due) \<notin> occurrence ` set (db_runs db)"
  using assms
  by (auto simp: create_task_run_tx_def insert_run_row_def Let_def result_iff nullable_task_time_def unset_def is_zero_def occurrence_Some
      simp del: is_terminal_run_status.simps split: if_split_asm sum.splits)

lemma claim_outcome_spent:
  assumes "claim_due_task now i due nxt at0 db = (Inr d, db')"
  shows "\<not> spent i due db \<and> spent i due db'"
  using assms
proof (rule claim_due_task_Inr)
  fix at once
  assume due: "due \<noteq> 0" and tx: "claim_due_task_tx i due (if once then None else Some nxt) once at db = Inr (d, db')"
  show ?thesis
    using tx
  proof (rule claim_due_task_tx_steps)
    fix task script db1 active
    assume one: "count_rows (claimable i due once) (db_tasks db) = 1" and task: "st_id task = i"
      and db1: "db1 = db\<lparr>db_tasks := update_rows (claimable i due once) (advance_row due (if once then None else Some nxt) at) (db_tasks db)\<rparr>"
      and crt: "create_task_run_tx (task_run_of task script run_trigger_scheduled (Some due)
          (if active then RunSkipped else RunQueued) (if active then ''overlap'' else []))
        (load_run_target_snapshots_tx db i) (if active then TargetSkipped else TargetQueued)
        (if active then ''overlap'' else []) at db1 = Inr (d, db')"
    have "i \<in> tk_id ` set (db_tasks db)" using one count_rows_pos [of "claimable i due once" "db_tasks db"] by (auto simp: claimable_def)
    moreover have "Some (i, Some due) \<notin> occurrence ` set (db_runs db)"
      using create_run_fresh [OF crt _ _ due] task by (simp add: db1)
    moreover have "Some (i, Some due) \<in> occurrence ` set (db_runs db')"
      using create_task_run_tx_spec [OF crt] task due by (auto simp: image_iff occurrence_Some nullable_task_time_def unset_def is_zero_def)
    ultimately show ?thesis by (simp add: spent_def retired_def)
  qed
qed

text \<open>C8: A scheduled occurrence is claimed at most once: after a successful claim, and whatever operations other than the
  deletion of old runs follow (edits of the task, its deletion, restarts, other claims), every further claim of the
  same occurrence, whatever next time it proposes, fails and changes nothing.
\<close>

theorem occurrence_claimed_once:
  assumes "claim_due_task now taskID due nxt at0 (run_ops ul ops (empty_task_db nodes)) = (Inr d, db')"
    and "\<forall>op\<in>set later. \<not> retention_op op"
  shows "\<exists>e. claim_due_task now2 taskID due nxt2 at2 (run_ops ul later db') = (Inl e, run_ops ul later db')"
proof -
  have inv: "task_db_inv db'" using claim_due_task_inv [OF reached_inv, of now taskID due nxt at0 ul ops nodes] assms(1) by simp
  have "spent taskID due (run_ops ul later db')"
    using claim_outcome_spent [OF assms(1)] run_ops_keeps [OF inv assms(2)] spent_kept by blast
  then have "fst (claim_due_task now2 taskID due nxt2 at2 (run_ops ul later db')) \<noteq> Inr d2" for d2
    using claim_outcome_spent [of now2 taskID due nxt2 at2 "run_ops ul later db'" d2] by (metis prod.collapse)
  then obtain e where "fst (claim_due_task now2 taskID due nxt2 at2 (run_ops ul later db')) = Inl e" by (metis sum.exhaust)
  then show ?thesis by (auto simp: claim_due_task_def Let_def run_tx_def split: sum.splits if_splits)
qed

text \<open>The task is scheduled again for the instant that was claimed; the unique index of its runs refuses the second claim.\<close>

theorem occurrence_claimed_once_witness:
  "\<exists>d db' e. claim_due_task 60 1 50 0 60 (run_ops (\<lambda>r. r) sample_task_ops (empty_task_db Map.empty)) = (Inr d, db')
     \<and> fst (claim_due_task 61 1 50 70 61 (run_ops (\<lambda>r. r) [SetScheduledTaskEnabled 60 1 True (Some 50)] db')) = Inl e"
proof -
  from sample_claim obtain d db' where
    ok: "claim_due_task 60 1 50 0 60 (run_ops (\<lambda>r. r) sample_task_ops (empty_task_db Map.empty)) = (Inr d, db')" by blast
  have "\<forall>op\<in>set [SetScheduledTaskEnabled 60 1 True (Some 50)]. \<not> retention_op op" by (simp add: retention_op_def)
  from occurrence_claimed_once [OF ok this, of 61 70 61] ok show ?thesis by auto
qed

end
