(* ===== verification/UptimeModel.thy ===== *)
theory UptimeModel
  imports Channels
begin

text \<open>
  \<^verbatim>\<open>internal/server/uptime/model.go\<close>: defaults and validation of an uptime monitor, with the parts of
  Go's \<^verbatim>\<open>net.SplitHostPort\<close> and \<^verbatim>\<open>strconv.Atoi\<close> it uses, and the records of
  \<^verbatim>\<open>internal/server/store/uptime.go\<close>.  The URL parser (\<^verbatim>\<open>net/url\<close>) is a parameter.
\<close>

section \<open>Records\<close>

text \<open>The columns of a monitor; \<^verbatim>\<open>UptimeMonitor\<close> adds a field computed when a row is read.\<close>

record monitor_row =
  um_id :: int
  um_name :: string
  um_type :: string
  um_target :: string
  um_enabled :: bool
  um_interval_seconds :: int
  um_timeout_seconds :: int
  um_failure_threshold :: int
  um_expected_status_min :: int
  um_expected_status_max :: int
  um_tls_expiry_threshold_days :: int
  um_notification_channels :: "notification_channel list"
  um_status :: string
  um_consecutive_failures :: int
  um_last_latency_ms :: int
  um_last_status_code :: int
  um_last_error :: string
  um_last_checked_at :: "time option"
  um_tls_expires_at :: "time option"
  um_created_at :: time
  um_updated_at :: time

record uptime_monitor = monitor_row +
  um_tls_remaining_days :: "int option"

record uptime_result =
  ur_id :: int
  ur_monitor_id :: int
  ur_success :: bool
  ur_latency_ms :: int
  ur_status_code :: int
  ur_error :: string
  ur_tls_expires_at :: "time option"
  ur_checked_at :: time

record uptime_incident =
  ui_id :: int
  ui_monitor_id :: int
  ui_kind :: string
  ui_message :: string
  ui_started_at :: time
  ui_resolved_at :: "time option"
  ui_notification_sent :: bool
  ui_notification_error :: string
  ui_notification_attempted_at :: "time option"
  ui_recovery_notification_sent :: bool
  ui_recovery_notification_error :: string
  ui_recovery_notification_attempted_at :: "time option"
  ui_created_at :: time

record uptime_probe_result =
  pb_success :: bool
  pb_latency_ms :: int
  pb_status_code :: int
  pb_error :: string
  pb_tls_expires_at :: "time option"
  pb_tls_checked :: bool
  pb_tls_expiring :: bool
  pb_checked_at :: time

record uptime_transition =
  tr_monitor :: uptime_monitor
  tr_result :: uptime_result
  tr_triggered :: "uptime_incident list"
  tr_resolved :: "uptime_incident list"

section \<open>Host and port\<close>

text \<open>Text outside ASCII by its code points.\<close>

definition runes :: "nat list \<Rightarrow> string" where
  "runes rs = concat (map encode_rune rs)"

text \<open>\<^verbatim>\<open>strconv.Atoi\<close> on a 64-bit platform.\<close>

definition is_digit :: "char \<Rightarrow> bool" where
  "is_digit c \<longleftrightarrow> 48 \<le> (of_char c :: nat) \<and> (of_char c :: nat) \<le> 57"

definition atoi :: "string \<Rightarrow> int option" where
  "atoi s =
     (let neg = prefix ''-'' s; ds = (if prefix ''-'' s \<or> prefix ''+'' s then tl s else s)
      in if ds = [] \<or> \<not> list_all is_digit ds then None
         else (let n = (if neg then - int (nat_of_digits ds) else int (nat_of_digits ds))
               in if min_duration \<le> n \<and> n \<le> max_duration then Some n else None))"

definition index_of :: "char \<Rightarrow> string \<Rightarrow> nat option" where
  "index_of c s = (if c \<in> set s then Some (length (takeWhile (\<lambda>d. d \<noteq> c) s)) else None)"

definition last_index_of :: "char \<Rightarrow> string \<Rightarrow> nat option" where
  "last_index_of c s = (case index_of c (rev s) of None \<Rightarrow> None | Some k \<Rightarrow> Some (length s - 1 - k))"

text \<open>\<^verbatim>\<open>net.SplitHostPort\<close>; the text of its errors is not used by the code.\<close>

definition split_host_port :: "string \<Rightarrow> (string \<times> string) option" where
  "split_host_port s =
     (case last_index_of (CHR '':'') s of
        None \<Rightarrow> None
      | Some i \<Rightarrow>
        if prefix ''['' s
        then (case index_of (CHR '']'') s of
                None \<Rightarrow> None
              | Some e \<Rightarrow>
                if e + 1 \<noteq> i then None
                else if CHR ''['' \<in> set (drop 1 s) \<or> CHR '']'' \<in> set (drop (e + 1) s) then None
                else Some (take (e - 1) (drop 1 s), drop (i + 1) s))
        else if CHR '':'' \<in> set (take i s) then None
        else if CHR ''['' \<in> set s \<or> CHR '']'' \<in> set s then None
        else Some (take i s, drop (i + 1) s))"

section \<open>Defaults\<close>

definition monitor_type_http :: string where "monitor_type_http = ''http''"
definition monitor_type_tcp :: string where "monitor_type_tcp = ''tcp''"
definition default_interval_seconds :: int where "default_interval_seconds = 60"
definition default_timeout_seconds :: int where "default_timeout_seconds = 5"
definition default_failure_threshold :: int where "default_failure_threshold = 3"
definition default_expected_status_min :: int where "default_expected_status_min = 200"
definition default_expected_status_max :: int where "default_expected_status_max = 399"
definition default_tls_expiry_threshold_days :: int where "default_tls_expiry_threshold_days = 30"
definition max_monitor_name_runes :: int where "max_monitor_name_runes = 120"
definition max_monitor_target_bytes :: nat where "max_monitor_target_bytes = 2048"
definition min_interval_seconds :: int where "min_interval_seconds = 30"
definition max_interval_seconds :: int where "max_interval_seconds = 86400"
definition min_timeout_seconds :: int where "min_timeout_seconds = 1"
definition max_timeout_seconds :: int where "max_timeout_seconds = 30"
definition min_failure_threshold :: int where "min_failure_threshold = 1"
definition max_failure_threshold :: int where "max_failure_threshold = 10"
definition min_tls_expiry_threshold_days :: int where "min_tls_expiry_threshold_days = 1"
definition max_tls_expiry_threshold_days :: int where "max_tls_expiry_threshold_days = 365"
definition max_monitor_channels :: nat where "max_monitor_channels = 10"
definition max_notification_value_bytes :: nat where "max_notification_value_bytes = 4096"

lemmas monitor_limits = default_interval_seconds_def default_timeout_seconds_def default_failure_threshold_def
  default_expected_status_min_def default_expected_status_max_def default_tls_expiry_threshold_days_def
  max_monitor_name_runes_def max_monitor_target_bytes_def min_interval_seconds_def max_interval_seconds_def
  min_timeout_seconds_def max_timeout_seconds_def min_failure_threshold_def max_failure_threshold_def
  min_tls_expiry_threshold_days_def max_tls_expiry_threshold_days_def max_monitor_channels_def
  max_notification_value_bytes_def monitor_type_http_def monitor_type_tcp_def

definition default_int :: "int \<Rightarrow> int \<Rightarrow> int" where
  "default_int d v = (if v = 0 then d else v)"

definition apply_defaults :: "(nat \<Rightarrow> nat) \<Rightarrow> uptime_monitor \<Rightarrow> uptime_monitor" where
  "apply_defaults ul m =
     (let t = to_lower ul (trim_space (um_type m)) in
      m\<lparr>um_name := trim_space (um_name m),
        um_type := (if t = [] then monitor_type_http else t),
        um_target := trim_space (um_target m),
        um_interval_seconds := default_int default_interval_seconds (um_interval_seconds m),
        um_timeout_seconds := default_int default_timeout_seconds (um_timeout_seconds m),
        um_failure_threshold := default_int default_failure_threshold (um_failure_threshold m),
        um_expected_status_min := default_int default_expected_status_min (um_expected_status_min m),
        um_expected_status_max := default_int default_expected_status_max (um_expected_status_max m),
        um_tls_expiry_threshold_days := default_int default_tls_expiry_threshold_days (um_tls_expiry_threshold_days m)\<rparr>)"

section \<open>Validation\<close>

text \<open>What \<^verbatim>\<open>url.Parse\<close> returns, as far as the code looks at it.\<close>

record url_parts =
  up_scheme :: string
  up_host :: string
  up_has_user :: bool
  up_fragment :: string

text \<open>One constructor per message of \<open>invalidMonitor\<close>.\<close>

datatype monitor_error = BadName | BadTarget | BadInterval | BadTimeout | BadThreshold | BadStatusRange | BadTLSDays
| BadHTTPTarget | HTTPTargetWithUser | HTTPTargetWithFragment | BadTCPTarget | BadTCPPort | BadMonitorType
| TooManyChannels | BadChannelType | ChannelWithHeaders | ChannelTooLong | BadChannelURL

definition http_scheme :: "url_parts \<Rightarrow> bool" where
  "http_scheme u \<longleftrightarrow> up_scheme u = ''http'' \<or> up_scheme u = ''https''"

definition validate_http_target :: "(string \<Rightarrow> url_parts option) \<Rightarrow> string \<Rightarrow> monitor_error + unit" where
  "validate_http_target parse_url target =
     (case parse_url target of
        None \<Rightarrow> Inl BadHTTPTarget
      | Some u \<Rightarrow>
        if up_scheme u = [] \<or> up_host u = [] \<or> \<not> http_scheme u then Inl BadHTTPTarget
        else if up_has_user u then Inl HTTPTargetWithUser
        else if up_fragment u \<noteq> [] then Inl HTTPTargetWithFragment
        else Inr ())"

definition validate_tcp_target :: "string \<Rightarrow> monitor_error + unit" where
  "validate_tcp_target target =
     (case split_host_port target of
        None \<Rightarrow> Inl BadTCPTarget
      | Some (host, portValue) \<Rightarrow>
        if trim_space host = [] then Inl BadTCPTarget
        else (case atoi portValue of
                None \<Rightarrow> Inl BadTCPPort
              | Some port \<Rightarrow> if port < 1 \<or> port > 65535 then Inl BadTCPPort else Inr ()))"

definition validate_monitor_channel :: "(string \<Rightarrow> url_parts option) \<Rightarrow> notification_channel \<Rightarrow> monitor_error + unit" where
  "validate_monitor_channel parse_url c =
     bindE (failIf (ch_type c \<noteq> ''webhook'' \<and> ch_type c \<noteq> ''dingtalk'' \<and> ch_type c \<noteq> ''feishu'') BadChannelType) (\<lambda>_.
     bindE (failIf (length (ch_headers c) > 0) ChannelWithHeaders) (\<lambda>_.
     bindE (failIf (length (ch_webhook_url c) > max_notification_value_bytes
              \<or> length (ch_secret c) > max_notification_value_bytes) ChannelTooLong) (\<lambda>_.
     (case parse_url (trim_space (ch_webhook_url c)) of
        None \<Rightarrow> Inl BadChannelURL
      | Some u \<Rightarrow> failIf (up_scheme u = [] \<or> up_host u = [] \<or> \<not> http_scheme u \<or> up_has_user u) BadChannelURL))))"

fun validate_monitor_channels_loop ::
  "(string \<Rightarrow> url_parts option) \<Rightarrow> notification_channel list \<Rightarrow> monitor_error + unit" where
  "validate_monitor_channels_loop parse_url [] = Inr ()"
| "validate_monitor_channels_loop parse_url (c # cs) =
     bindE (validate_monitor_channel parse_url c) (\<lambda>_. validate_monitor_channels_loop parse_url cs)"

definition validate_monitor_channels ::
  "(string \<Rightarrow> url_parts option) \<Rightarrow> notification_channel list \<Rightarrow> monitor_error + unit" where
  "validate_monitor_channels parse_url cs =
     bindE (failIf (length cs > max_monitor_channels) TooManyChannels) (\<lambda>_.
     validate_monitor_channels_loop parse_url cs)"

text \<open>\<open>ValidateMonitor\<close> also fills the defaults in; the monitor is returned with them.\<close>

definition validate_monitor ::
  "(nat \<Rightarrow> nat) \<Rightarrow> (string \<Rightarrow> url_parts option) \<Rightarrow> uptime_monitor \<Rightarrow> monitor_error + uptime_monitor" where
  "validate_monitor ul parse_url m0 =
     (let m = apply_defaults ul m0 in
      bindE (failIf (um_name m = [] \<or> \<not> valid_utf8 (um_name m) \<or> rune_count (um_name m) > max_monitor_name_runes) BadName) (\<lambda>_.
      bindE (failIf (um_target m = [] \<or> length (um_target m) > max_monitor_target_bytes) BadTarget) (\<lambda>_.
      bindE (failIf (um_interval_seconds m < min_interval_seconds \<or> um_interval_seconds m > max_interval_seconds) BadInterval) (\<lambda>_.
      bindE (failIf (um_timeout_seconds m < min_timeout_seconds \<or> um_timeout_seconds m > max_timeout_seconds
               \<or> um_timeout_seconds m \<ge> um_interval_seconds m) BadTimeout) (\<lambda>_.
      bindE (failIf (um_failure_threshold m < min_failure_threshold \<or> um_failure_threshold m > max_failure_threshold) BadThreshold) (\<lambda>_.
      bindE (failIf (um_expected_status_min m < 100 \<or> um_expected_status_min m > 599 \<or> um_expected_status_max m < 100
               \<or> um_expected_status_max m > 599 \<or> um_expected_status_min m > um_expected_status_max m) BadStatusRange) (\<lambda>_.
      bindE (failIf (um_tls_expiry_threshold_days m < min_tls_expiry_threshold_days
               \<or> um_tls_expiry_threshold_days m > max_tls_expiry_threshold_days) BadTLSDays) (\<lambda>_.
      bindE (if um_type m = monitor_type_http then validate_http_target parse_url (um_target m)
             else if um_type m = monitor_type_tcp then validate_tcp_target (um_target m)
             else Inl BadMonitorType) (\<lambda>_.
      bindE (validate_monitor_channels parse_url (um_notification_channels m)) (\<lambda>_. Inr m))))))))))"

section \<open>Properties\<close>

lemma contains_any_sets: "contains_any s cs \<longleftrightarrow> set cs \<inter> set s \<noteq> {}"
  by (auto simp: contains_any_def list_ex_iff)

lemma index_of_Some:
  assumes "index_of c s = Some k" shows "k < length s" "s ! k = c" "c \<notin> set (take k s)"
proof -
  have c: "c \<in> set s" and len: "k = length (takeWhile (\<lambda>d. d \<noteq> c) s)"
    using assms by (auto simp: index_of_def split: if_splits)
  have "takeWhile (\<lambda>d. d \<noteq> c) s = take k s" unfolding len by (rule takeWhile_eq_take)
  then show "c \<notin> set (take k s)" by (metis (mono_tags, lifting) set_takeWhileD)
  show k: "k < length s" unfolding len using c by (induction s) auto
  show "s ! k = c" using nth_length_takeWhile [of "\<lambda>d. d \<noteq> c" s] k unfolding len by blast
qed

lemma last_index_of_Some:
  assumes "last_index_of c s = Some i"
  shows "i < length s" "s ! i = c" "c \<notin> set (drop (i + 1) s)"
proof -
  from assms obtain k where k: "index_of c (rev s) = Some k" "i = length s - 1 - k"
    by (auto simp: last_index_of_def split: option.splits)
  from index_of_Some [OF k(1)] have *: "k < length s" "rev s ! k = c" "c \<notin> set (take k (rev s))" by auto
  then show "i < length s" "s ! i = c" using k(2) by (simp_all add: rev_nth)
  have "i + 1 = length s - k" using k(2) *(1) by simp
  then have "take k (rev s) = rev (drop (i + 1) s)" by (simp add: take_rev)
  with *(3) show "c \<notin> set (drop (i + 1) s)" by simp
qed

lemma split_host_port_bracketed:
  assumes "s = CHR ''['' # r" "index_of (CHR '']'') s = Some e" "s ! (e + 1) = CHR '':''" "e + 1 < length s"
  shows "s = ''['' @ take (e - 1) r @ '']:'' @ drop (e + 2) s \<and> CHR '']'' \<notin> set (take (e - 1) r)"
proof -
  note br = index_of_Some [OF assms(2)]
  then have e: "0 < e" using assms(1) by (cases e) auto
  then have front: "take e s = CHR ''['' # take (e - 1) r" using assms(1) by (cases e) auto
  have "take e s @ s ! e # s ! (e + 1) # drop (e + 2) s = s"
    using assms(4) by (metis Cons_nth_drop_Suc Suc_eq_plus1 Suc_lessD add_2_eq_Suc' append_take_drop_id)
  moreover have "CHR '']'' \<notin> set (take (e - 1) r)" using br front by (metis list.set_intros(2))
  ultimately show ?thesis using front br assms(3) by simp
qed

text \<open>A TCP target that \<open>net.SplitHostPort\<close> accepts is put together again from its parts: the host is
  written in brackets exactly when the target is, and the port holds no colon.\<close>

theorem split_host_port_joins:
  assumes "split_host_port s = Some (h, p)"
  shows "(s = h @ '':'' @ p \<and> \<not> contains_any h '':[]'' \<or> s = ''['' @ h @ '']:'' @ p \<and> \<not> contains_any h ''[]'')
    \<and> \<not> contains_any p '':[]''"
proof -
  obtain i where i: "last_index_of (CHR '':'') s = Some i"
    using assms by (auto simp: split_host_port_def split: option.splits)
  note colon = last_index_of_Some [OF i]
  show ?thesis
  proof (cases "prefix ''['' s")
    case False
    with assms i have parts: "h = take i s" "p = drop (i + 1) s" "CHR '':'' \<notin> set h" "CHR ''['' \<notin> set s" "CHR '']'' \<notin> set s"
      by (auto simp: split_host_port_def split: if_splits)
    have "s = h @ '':'' @ p"
      using id_take_nth_drop [OF colon(1)] unfolding parts(1,2) colon(2) by simp
    moreover have "CHR ''['' \<notin> set h" "CHR '']'' \<notin> set h" "CHR ''['' \<notin> set p" "CHR '']'' \<notin> set p"
      unfolding parts(1,2) using parts(4,5) by (blast dest: in_set_takeD in_set_dropD)+
    moreover have "CHR '':'' \<notin> set p" using colon(3) parts(2) by simp
    ultimately show ?thesis using parts(3) by (simp add: contains_any_sets)
  next
    case True
    then obtain r where r: "s = CHR ''['' # r" by (auto simp: prefix_def)
    from assms i True obtain e where e: "index_of (CHR '']'') s = Some e" "e + 1 = i" "CHR ''['' \<notin> set r"
      "CHR '']'' \<notin> set (drop (e + 1) s)" "h = take (e - 1) r" "p = drop (e + 2) s"
      by (auto simp: split_host_port_def r split: if_splits option.splits)
    have "s = ''['' @ h @ '']:'' @ p \<and> CHR '']'' \<notin> set h"
      using split_host_port_bracketed [OF r e(1)] colon(1,2) e(2,5,6) by simp
    moreover have "CHR ''['' \<notin> set h" unfolding e(5) using e(3) by (blast dest: in_set_takeD)
    moreover have "p = drop (e + 1) r" unfolding e(6) r by simp
    then have "CHR ''['' \<notin> set p" using e(3) by (auto dest: in_set_dropD)
    moreover have "p = drop 1 (drop (e + 1) s)" unfolding e(6) by simp
    then have "CHR '']'' \<notin> set p" using e(4) by (metis in_set_dropD)
    moreover have "CHR '':'' \<notin> set p" using colon(3) e(2,6) by simp
    ultimately show ?thesis by (simp add: contains_any_sets)
  qed
qed

text \<open>What is required of a monitor, condition by condition.\<close>

definition channel_valid :: "(string \<Rightarrow> url_parts option) \<Rightarrow> notification_channel \<Rightarrow> bool" where
  "channel_valid parse_url c \<longleftrightarrow> ch_type c \<in> {''webhook'', ''dingtalk'', ''feishu''} \<and> ch_headers c = []
     \<and> length (ch_webhook_url c) \<le> 4096 \<and> length (ch_secret c) \<le> 4096
     \<and> (\<exists>u. parse_url (trim_space (ch_webhook_url c)) = Some u \<and> up_scheme u \<in> {''http'', ''https''} \<and> up_host u \<noteq> [] \<and> \<not> up_has_user u)"

definition target_valid :: "(string \<Rightarrow> url_parts option) \<Rightarrow> string \<Rightarrow> string \<Rightarrow> bool" where
  "target_valid parse_url kind target \<longleftrightarrow> target \<noteq> [] \<and> length target \<le> 2048
     \<and> (kind = ''http'' \<and> (\<exists>u. parse_url target = Some u \<and> up_scheme u \<in> {''http'', ''https''} \<and> up_host u \<noteq> [] \<and> \<not> up_has_user u \<and> up_fragment u = [])
        \<or> kind = ''tcp'' \<and> (\<exists>host port n. split_host_port target = Some (host, port) \<and> trim_space host \<noteq> [] \<and> atoi port = Some n \<and> 1 \<le> n \<and> n \<le> 65535))"

definition monitor_valid :: "(string \<Rightarrow> url_parts option) \<Rightarrow> 'a monitor_row_scheme \<Rightarrow> bool" where
  "monitor_valid parse_url m \<longleftrightarrow> um_name m \<noteq> [] \<and> valid_utf8 (um_name m) \<and> rune_count (um_name m) \<le> 120
     \<and> target_valid parse_url (um_type m) (um_target m)
     \<and> 30 \<le> um_interval_seconds m \<and> um_interval_seconds m \<le> 86400
     \<and> 1 \<le> um_timeout_seconds m \<and> um_timeout_seconds m \<le> 30 \<and> um_timeout_seconds m < um_interval_seconds m
     \<and> 1 \<le> um_failure_threshold m \<and> um_failure_threshold m \<le> 10
     \<and> 100 \<le> um_expected_status_min m \<and> um_expected_status_min m \<le> um_expected_status_max m \<and> um_expected_status_max m \<le> 599
     \<and> 1 \<le> um_tls_expiry_threshold_days m \<and> um_tls_expiry_threshold_days m \<le> 365
     \<and> length (um_notification_channels m) \<le> 10 \<and> (\<forall>c\<in>set (um_notification_channels m). channel_valid parse_url c)"

lemma channel_accepted: "validate_monitor_channel parse_url c = Inr () \<longleftrightarrow> channel_valid parse_url c"
  by (auto simp: validate_monitor_channel_def channel_valid_def bindE_failIf failIf_def http_scheme_def max_notification_value_bytes_def
      split: option.splits if_splits)

lemma channels_accepted: "validate_monitor_channels_loop parse_url cs = Inr () \<longleftrightarrow> (\<forall>c\<in>set cs. channel_valid parse_url c)"
  by (induction cs) (auto simp: result_iff channel_accepted)

lemma target_accepted:
  "target \<noteq> [] \<and> length target \<le> max_monitor_target_bytes \<and>
     (if kind = monitor_type_http then validate_http_target parse_url target
      else if kind = monitor_type_tcp then validate_tcp_target target else Inl BadMonitorType) = Inr ()
   \<longleftrightarrow> target_valid parse_url kind target"
  by (auto simp: target_valid_def validate_http_target_def validate_tcp_target_def http_scheme_def monitor_limits
      split: option.splits if_splits prod.splits)

lemma default_int_idem: "default_int d (default_int d v) = default_int d v"
  by (simp add: default_int_def)

lemma char_of_eq: "char_of n = c \<longleftrightarrow> n mod 256 = of_char c" for n :: nat
  by (metis char_of_char of_char_of)

lemma type_stable:
  assumes "t = ''http'' \<or> t = ''tcp''"
  shows "to_lower ul (trim_space t) = t"
  using assms by (auto simp: eval_text char_of_eq)

lemma apply_defaults_stable:
  assumes "um_type (apply_defaults ul m) = ''http'' \<or> um_type (apply_defaults ul m) = ''tcp''"
  shows "apply_defaults ul (apply_defaults ul m) = apply_defaults ul m"
proof -
  let ?t = "um_type (apply_defaults ul m)"
  have t: "to_lower ul (trim_space ?t) = ?t" by (rule type_stable [OF assms])
  have ne: "?t \<noteq> []" using assms by auto
  have "apply_defaults ul (apply_defaults ul m) = (apply_defaults ul m)\<lparr>um_type := ?t\<rparr>"
    using ne unfolding apply_defaults_def [of ul "apply_defaults ul m"] t Let_def
    by (simp add: apply_defaults_def Let_def default_int_idem)
  then show ?thesis by simp
qed

lemma bind_accepted: "bindE x f = Inr r \<longleftrightarrow> (\<exists>a. x = Inr a \<and> f a = Inr r)"
  by (auto simp: result_iff)

lemma fail_accepted: "failIf b e = Inr u \<longleftrightarrow> \<not> b"
  by (simp add: failIf_def)

lemma validate_accepted: "validate_monitor ul parse_url m = Inr m' \<longleftrightarrow> m' = apply_defaults ul m \<and> monitor_valid parse_url m'"
proof -
  define d where "d = apply_defaults ul m"
  have "validate_monitor ul parse_url m = Inr m' \<longleftrightarrow> m' = d \<and> monitor_valid parse_url d"
    unfolding validate_monitor_def Let_def d_def [symmetric] monitor_valid_def target_accepted [symmetric] bind_accepted fail_accepted
      validate_monitor_channels_def channels_accepted
    by (auto simp: monitor_limits channels_accepted)
  then show ?thesis by (auto simp: d_def)
qed

text \<open>C21: The validation of a monitor accepts exactly those whose fields, trimmed and with the defaults filled in, are all in
  their range: a UTF-8 name of 1 to 120 characters; a target of at most 2048 bytes that is, by its type, an HTTP or
  HTTPS URL with a host and without user and fragment, or a non-blank host with a port between 1 and 65535; interval,
  timeout (shorter than the interval), threshold, status range and days; and at most ten channels of a known type,
  without headers, with bounded values and an HTTP or HTTPS URL with a host and without user.  The result is that
  monitor, it keeps the fields the user does not set, and it is accepted again unchanged: the prober, which validates
  once more, never refuses a stored monitor.
\<close>

theorem validated_monitor_ok:
  "(validate_monitor ul parse_url m = Inr m' \<longleftrightarrow> m' = apply_defaults ul m \<and> monitor_valid parse_url m')
   \<and> (validate_monitor ul parse_url m = Inr m' \<longrightarrow> validate_monitor ul parse_url m' = Inr m'
       \<and> um_id m' = um_id m \<and> um_enabled m' = um_enabled m \<and> um_notification_channels m' = um_notification_channels m
       \<and> um_name m' = trim_space (um_name m) \<and> um_target m' = trim_space (um_target m))"
proof (rule conjI [OF validate_accepted], intro impI conjI)
  assume "validate_monitor ul parse_url m = Inr m'"
  then have m': "m' = apply_defaults ul m" and valid: "monitor_valid parse_url m'" unfolding validate_accepted by blast+
  have "um_type m' = ''http'' \<or> um_type m' = ''tcp''" using valid by (auto simp: monitor_valid_def target_valid_def)
  then have "apply_defaults ul m' = m'" unfolding m' by (rule apply_defaults_stable)
  then show "validate_monitor ul parse_url m' = Inr m'" using valid by (simp add: validate_accepted)
  show "um_id m' = um_id m" "um_enabled m' = um_enabled m" "um_notification_channels m' = um_notification_channels m"
    "um_name m' = trim_space (um_name m)" "um_target m' = trim_space (um_target m)"
    by (simp_all add: m' apply_defaults_def Let_def)
qed

definition sample_monitor :: uptime_monitor where
  "sample_monitor = \<lparr>um_id = 0, um_name = '' m'', um_type = [], um_target = ''https://h'', um_enabled = True,
     um_interval_seconds = 0, um_timeout_seconds = 0, um_failure_threshold = 2, um_expected_status_min = 0,
     um_expected_status_max = 0, um_tls_expiry_threshold_days = 0, um_notification_channels = [],
     um_status = [], um_consecutive_failures = 0, um_last_latency_ms = 0, um_last_status_code = 0, um_last_error = [],
     um_last_checked_at = None, um_tls_expires_at = None, um_created_at = 0, um_updated_at = 0,
     um_tls_remaining_days = None\<rparr>"

definition sample_url :: "string \<Rightarrow> url_parts option" where
  "sample_url _ = Some \<lparr>up_scheme = ''https'', up_host = ''h'', up_has_user = False, up_fragment = []\<rparr>"

lemma sample_validate: "\<exists>m'. validate_monitor (\<lambda>r. r) sample_url sample_monitor = Inr m'"
  by (simp add: validate_monitor_def apply_defaults_def sample_monitor_def sample_url_def monitor_limits default_int_def
      validate_http_target_def validate_monitor_channels_def http_scheme_def eval_text Let_def)

theorem validated_monitor_ok_witness:
  "\<exists>m'. validate_monitor (\<lambda>r. r) sample_url sample_monitor = Inr m' \<and> monitor_valid sample_url m'
     \<and> validate_monitor (\<lambda>r. r) sample_url m' = Inr m'"
  using sample_validate validated_monitor_ok by blast

theorem split_host_port_joins_witness:
  "split_host_port ''[::1]:80'' = Some (''::1'', ''80'') \<and> \<not> contains_any ''80'' '':[]''"
proof -
  have "split_host_port ''[::1]:80'' = Some (''::1'', ''80'')"
    by (simp add: split_host_port_def last_index_of_def index_of_def)
  with split_host_port_joins [OF this] show ?thesis by blast
qed

end
