(* ===== verification/GoFloat.thy ===== *)
theory GoFloat
  imports Prelude Complex_Main
begin

text \<open>
  Go's \<^verbatim>\<open>float64\<close>, as far as the server computes with it: finite values are rational numbers and
  every operation rounds to the nearest number with a 53 bit significand, ties to even.  The
  numbers here stay far from the ends of the exponent range, and infinities and NaN do not
  occur: they have no JSON form, in which the values arrive.
\<close>

fun bit_count :: "nat \<Rightarrow> nat" where
  "bit_count n = (if n = 0 then 0 else Suc (bit_count (n div 2)))"

declare bit_count.simps [simp del]

definition pow2 :: "int \<Rightarrow> rat" where
  "pow2 e = (if 0 \<le> e then 2 ^ nat e else 1 / 2 ^ nat (- e))"

definition float_exponent :: "rat \<Rightarrow> int" where
  "float_exponent x =
     (let (p, q) = quotient_of x; e = int (bit_count (nat p)) - int (bit_count (nat q))
      in if pow2 e \<le> x then e else e - 1)"

definition round_half_even :: "rat \<Rightarrow> int" where
  "round_half_even x =
     (let f = \<lfloor>x\<rfloor>; d = x - of_int f
      in if d < 1 / 2 then f else if 1 / 2 < d then f + 1 else if even f then f else f + 1)"

definition round_float :: "rat \<Rightarrow> rat" where
  "round_float x =
     (if x = 0 then 0
      else (let u = pow2 (float_exponent \<bar>x\<bar> - 52)
            in sgn x * (of_int (round_half_even (\<bar>x\<bar> / u)) * u)))"

lemma bit_count_0 [simp]: "bit_count 0 = 0"
  by (subst bit_count.simps) simp

lemma bit_count_1 [simp]: "bit_count (Suc 0) = 1"
  by (subst bit_count.simps) simp

lemma quotient_of_nat: "quotient_of (of_nat n) = (int n, 1)"
proof -
  have "(of_nat n :: rat) = Fract (int n) 1" by (metis of_int_of_nat_eq of_int_rat)
  then show ?thesis by (simp add: quotient_of_Fract Rat.normalize_def)
qed

lemma bit_count_bounds: "0 < n \<Longrightarrow> 2 ^ (bit_count n - 1) \<le> n \<and> n < 2 ^ bit_count n"
proof (induction n rule: bit_count.induct)
  case (1 n)
  have eq: "bit_count n = Suc (bit_count (n div 2))" using 1 by (subst bit_count.simps) simp
  show ?case
  proof (cases "n div 2 = 0")
    case True
    with 1 have "n = 1" by simp
    with eq True show ?thesis by simp
  next
    case False
    then have IH: "2 ^ (bit_count (n div 2) - 1) \<le> n div 2 \<and> n div 2 < 2 ^ bit_count (n div 2)"
      using "1.IH" "1.prems" by (metis not_gr_zero)
    then have "2 ^ (bit_count (n div 2) - 1) \<le> n div 2" "n div 2 < 2 ^ bit_count (n div 2)" by simp_all
    moreover have "bit_count (n div 2) \<noteq> 0" using False by (subst bit_count.simps) simp
    then obtain k where "bit_count (n div 2) = Suc k" by (cases "bit_count (n div 2)") auto
    moreover have "2 * (n div 2) \<le> n" "n < 2 * (n div 2) + 2" by auto
    ultimately have "2 * 2 ^ k \<le> n" "n < 4 * 2 ^ k" by simp_all
    with eq \<open>bit_count (n div 2) = Suc k\<close> show ?thesis by simp
  qed
qed

lemma round_half_even_int [simp]: "round_half_even (of_int i) = i"
  by (simp add: round_half_even_def)

text \<open>Conversions of integers of up to 53 bits are exact.\<close>

lemma round_float_int:
  assumes "\<bar>i\<bar> < 2 ^ 53" shows "round_float (of_int i) = of_int i"
proof (cases "i = 0")
  case False
  define n where "n = nat \<bar>i\<bar>"
  have n: "0 < n" "n < 2 ^ 53" using False assms by (auto simp: n_def nat_less_iff)
  have abs: "\<bar>of_int i :: rat\<bar> = of_nat n" by (simp add: n_def)
  note bounds = bit_count_bounds [OF n(1)]
  have k: "0 < bit_count n" using n by (subst bit_count.simps) simp
  have "bit_count n \<le> 53"
  proof (rule ccontr)
    assume "\<not> bit_count n \<le> 53"
    then have "(2::nat) ^ 53 \<le> 2 ^ (bit_count n - 1)" by (intro power_increasing) auto
    with bounds n show False by simp
  qed
  have "pow2 (int (bit_count n) - 1) \<le> of_nat n"
  proof -
    have "pow2 (int (bit_count n) - 1) = of_nat (2 ^ (bit_count n - 1))"
      using k by (simp add: pow2_def nat_diff_distrib)
    then show ?thesis using bounds by (simp only: of_nat_le_iff)
  qed
  then have e: "float_exponent (of_nat n) = int (bit_count n) - 1" by (simp add: float_exponent_def quotient_of_nat)
  define m where "m = 53 - bit_count n"
  have "pow2 (int (bit_count n) - 1 - 52) = 1 / 2 ^ m"
    using \<open>bit_count n \<le> 53\<close> by (auto simp: pow2_def m_def nat_diff_distrib of_nat_diff)
  moreover have "(of_nat n :: rat) / (1 / 2 ^ m) = of_int (int (n * 2 ^ m))" by simp
  ultimately have "round_float (of_int i) = sgn (of_int i) * (of_int (int (n * 2 ^ m)) * (1 / 2 ^ m))"
    using False by (simp only: round_float_def abs e Let_def round_half_even_int of_int_eq_0_iff if_False)
  also have "\<dots> = sgn (of_int i) * \<bar>of_int i\<bar>" using abs by simp
  also have "\<dots> = of_int i" by (simp add: sgn_mult_abs)
  finally show ?thesis .
qed (simp add: round_float_def)

end
