(* ===== verification/UptimeStore.thy ===== *)
theory UptimeStore
  imports UptimeModel GoFloat
begin

text \<open>
  \<^verbatim>\<open>internal/server/store/uptime.go\<close>: the tables of the uptime monitors
  (\<^verbatim>\<open>internal/server/db/migrations.go\<close>) and every operation of \<^verbatim>\<open>UptimeStore\<close>.  As in the task
  store, tables are lists of rows with their AUTOINCREMENT counters, columns of times hold
  instants (the empty text of a zero time reads back as no time), constraints fail with the
  database's message, and failures of the connection are not modelled.
\<close>

section \<open>The database\<close>

text \<open>\<open>ui_active\<close>: the column \<^verbatim>\<open>active_marker\<close> is 1; otherwise it is NULL.\<close>

record incident_row = uptime_incident +
  ui_active :: bool

record uptime_db =
  ud_monitors :: "monitor_row list"
  ud_monitor_seq :: int
  ud_results :: "uptime_result list"
  ud_result_seq :: int
  ud_incidents :: "incident_row list"
  ud_incident_seq :: int

definition empty_uptime_db :: uptime_db where
  "empty_uptime_db = \<lparr>ud_monitors = [], ud_monitor_seq = 0, ud_results = [], ud_result_seq = 0,
     ud_incidents = [], ud_incident_seq = 0\<rparr>"

datatype uptime_error = UptimeNoRows | UptimeDBError string

definition max_uptime_results :: nat where "max_uptime_results = 200"
definition max_uptime_incidents :: nat where "max_uptime_incidents = 100"
definition uptime_status_pending :: string where "uptime_status_pending = ''pending''"
definition uptime_status_up :: string where "uptime_status_up = ''up''"
definition uptime_status_warning :: string where "uptime_status_warning = ''warning''"
definition uptime_status_down :: string where "uptime_status_down = ''down''"
definition uptime_incident_availability :: string where "uptime_incident_availability = ''availability''"
definition uptime_incident_certificate :: string where "uptime_incident_certificate = ''certificate''"

lemmas uptime_names = uptime_status_pending_def uptime_status_up_def uptime_status_warning_def uptime_status_down_def
  uptime_incident_availability_def uptime_incident_certificate_def

section \<open>Reading rows\<close>

text \<open>\<open>nullableTimeString\<close> after \<open>parseNullableTime\<close>: the text of a zero time is empty and reads as nil.\<close>

definition stored_time :: "time option \<Rightarrow> time option" where
  "stored_time v = (case v of None \<Rightarrow> None | Some t \<Rightarrow> if is_zero t then None else Some t)"

definition nanos_per_day :: duration where "nanos_per_day = 24 * 60 * 60 * nanos_per_second"

definition uptime_tls_remaining_days :: "time option \<Rightarrow> time option \<Rightarrow> int option" where
  "uptime_tls_remaining_days checkedAt expiresAt =
     (case (checkedAt, expiresAt) of
        (Some c, Some x) \<Rightarrow>
          (let remaining = time_sub x c;
               days = quot remaining nanos_per_day;
               days' = (if remaining > 0 \<and> rem_trunc remaining nanos_per_day \<noteq> 0 then days + 1 else days)
           in Some (if days' < 0 then 0 else days'))
      | _ \<Rightarrow> None)"

definition scan_uptime_monitor :: "monitor_row \<Rightarrow> uptime_monitor" where
  "scan_uptime_monitor r =
     (let r' = r\<lparr>um_last_checked_at := stored_time (um_last_checked_at r),
                 um_tls_expires_at := stored_time (um_tls_expires_at r)\<rparr>
      in monitor_row.extend r' (uptime_monitor.fields
           (uptime_tls_remaining_days (um_last_checked_at r') (um_tls_expires_at r'))))"

definition scan_uptime_result :: "uptime_result \<Rightarrow> uptime_result" where
  "scan_uptime_result r = r\<lparr>ur_tls_expires_at := stored_time (ur_tls_expires_at r)\<rparr>"

definition scan_uptime_incident :: "incident_row \<Rightarrow> uptime_incident" where
  "scan_uptime_incident r = uptime_incident.truncate
     (r\<lparr>ui_resolved_at := stored_time (ui_resolved_at r),
        ui_notification_attempted_at := stored_time (ui_notification_attempted_at r),
        ui_recovery_notification_attempted_at := stored_time (ui_recovery_notification_attempted_at r)\<rparr>)"

section \<open>Text of incidents\<close>

text \<open>The number of days in a message is computed in \<^verbatim>\<open>float64\<close>: \<^verbatim>\<open>time.Duration.Hours\<close>, and \<^verbatim>\<open>int(d.Hours() / 24)\<close>.\<close>

definition duration_hours :: "duration \<Rightarrow> rat" where
  "duration_hours d =
     (let h = 60 * 60 * nanos_per_second
      in round_float (of_int (quot d h) + round_float (of_int (rem_trunc d h) / of_int h)))"

definition days_of :: "duration \<Rightarrow> int" where
  "days_of d = (let x = round_float (duration_hours d / 24) in if 0 \<le> x then \<lfloor>x\<rfloor> else \<lceil>x\<rceil>)"

definition availability_message :: "int \<Rightarrow> string \<Rightarrow> string" where
  "availability_message failures err =
     runes [36830, 32493, 32] @ show_int failures @ runes [32, 27425, 26816, 27979, 22833, 36133]
     @ (if err = [] then [] else '': '' @ err)"

definition certificate_message :: "uptime_probe_result \<Rightarrow> string" where
  "certificate_message probe =
     ''HTTPS '' @ runes [35777, 20070, 23558, 22312, 32]
     @ show_int (case pb_tls_expires_at probe of None \<Rightarrow> 0 | Some x \<Rightarrow> days_of (time_sub x (pb_checked_at probe)))
     @ runes [32, 22825, 20869, 21040, 26399]"

section \<open>Monitors\<close>

definition find_monitor :: "uptime_db \<Rightarrow> int \<Rightarrow> monitor_row option" where
  "find_monitor db i = List.find (\<lambda>m. um_id m = i) (ud_monitors db)"

definition get_monitor :: "uptime_db \<Rightarrow> int \<Rightarrow> uptime_monitor option" where
  "get_monitor db i = map_option scan_uptime_monitor (find_monitor db i)"

definition reload_monitor :: "uptime_db \<Rightarrow> int \<Rightarrow> uptime_error + uptime_monitor" where
  "reload_monitor db i = (case get_monitor db i of None \<Rightarrow> Inl UptimeNoRows | Some m \<Rightarrow> Inr m)"

definition list_monitors :: "uptime_db \<Rightarrow> bool \<Rightarrow> uptime_monitor list" where
  "list_monitors db enabledOnly = map scan_uptime_monitor
     (sort_key um_id (filter (\<lambda>m. \<not> enabledOnly \<or> um_enabled m) (ud_monitors db)))"

definition new_monitor_row :: "time \<Rightarrow> int \<Rightarrow> uptime_monitor \<Rightarrow> monitor_row" where
  "new_monitor_row now i m = \<lparr>um_id = i, um_name = um_name m, um_type = um_type m, um_target = um_target m,
     um_enabled = um_enabled m, um_interval_seconds = um_interval_seconds m,
     um_timeout_seconds = um_timeout_seconds m, um_failure_threshold = um_failure_threshold m,
     um_expected_status_min = um_expected_status_min m, um_expected_status_max = um_expected_status_max m,
     um_tls_expiry_threshold_days = um_tls_expiry_threshold_days m,
     um_notification_channels = um_notification_channels m, um_status = uptime_status_pending,
     um_consecutive_failures = 0, um_last_latency_ms = 0, um_last_status_code = 0, um_last_error = [],
     um_last_checked_at = None, um_tls_expires_at = None, um_created_at = now, um_updated_at = now\<rparr>"

definition create_monitor :: "time \<Rightarrow> uptime_monitor \<Rightarrow> uptime_db \<Rightarrow> (uptime_error + uptime_monitor) \<times> uptime_db" where
  "create_monitor now m db =
     (let i = ud_monitor_seq db + 1;
          db' = db\<lparr>ud_monitors := ud_monitors db @ [new_monitor_row now i m], ud_monitor_seq := i\<rparr>
      in (reload_monitor db' i, db'))"

text \<open>\<open>resolveActiveUptimeIncidentsTx\<close>.\<close>

definition resolve_row :: "time \<Rightarrow> incident_row \<Rightarrow> incident_row" where
  "resolve_row stamp x = x\<lparr>ui_resolved_at := Some stamp, ui_active := False\<rparr>"

definition resolve_active_incidents :: "int \<Rightarrow> time \<Rightarrow> uptime_db \<Rightarrow> uptime_db" where
  "resolve_active_incidents i stamp db =
     db\<lparr>ud_incidents := update_rows (\<lambda>x. ui_monitor_id x = i \<and> ui_active x) (resolve_row stamp) (ud_incidents db)\<rparr>"

definition uptime_materially_changed :: "'a monitor_row_scheme \<Rightarrow> 'b monitor_row_scheme \<Rightarrow> bool" where
  "uptime_materially_changed existing nxt \<longleftrightarrow>
     um_type existing \<noteq> um_type nxt \<or> um_target existing \<noteq> um_target nxt
     \<or> um_interval_seconds existing \<noteq> um_interval_seconds nxt \<or> um_timeout_seconds existing \<noteq> um_timeout_seconds nxt
     \<or> um_failure_threshold existing \<noteq> um_failure_threshold nxt
     \<or> um_expected_status_min existing \<noteq> um_expected_status_min nxt
     \<or> um_expected_status_max existing \<noteq> um_expected_status_max nxt
     \<or> um_tls_expiry_threshold_days existing \<noteq> um_tls_expiry_threshold_days nxt"

definition configure_row :: "time \<Rightarrow> uptime_monitor \<Rightarrow> monitor_row \<Rightarrow> monitor_row" where
  "configure_row now m r = r\<lparr>um_name := um_name m, um_type := um_type m, um_target := um_target m,
     um_interval_seconds := um_interval_seconds m, um_timeout_seconds := um_timeout_seconds m,
     um_failure_threshold := um_failure_threshold m, um_expected_status_min := um_expected_status_min m,
     um_expected_status_max := um_expected_status_max m,
     um_tls_expiry_threshold_days := um_tls_expiry_threshold_days m,
     um_notification_channels := um_notification_channels m, um_updated_at := now\<rparr>"

definition reset_row :: "monitor_row \<Rightarrow> monitor_row" where
  "reset_row r = r\<lparr>um_status := uptime_status_pending, um_consecutive_failures := 0, um_last_latency_ms := 0,
     um_last_status_code := 0, um_last_error := [], um_last_checked_at := None, um_tls_expires_at := None\<rparr>"

definition set_monitors :: "int \<Rightarrow> (monitor_row \<Rightarrow> monitor_row) \<Rightarrow> uptime_db \<Rightarrow> uptime_db" where
  "set_monitors i f db = db\<lparr>ud_monitors := update_rows (\<lambda>m. um_id m = i) f (ud_monitors db)\<rparr>"

text \<open>\<open>UpdateMonitor\<close> reads the monitor before and after its transaction; the model takes the three as one step.\<close>

definition update_monitor ::
  "time \<Rightarrow> uptime_monitor \<Rightarrow> uptime_db \<Rightarrow> (uptime_error + bool \<times> uptime_monitor) \<times> uptime_db" where
  "update_monitor now m db =
     (case get_monitor db (um_id m) of
        None \<Rightarrow> (Inl UptimeNoRows, db)
      | Some existing \<Rightarrow>
        (let materialChange = uptime_materially_changed existing m;
             db1 = set_monitors (um_id m) (configure_row now m) db;
             db2 = (if materialChange
                    then resolve_active_incidents (um_id m) now (set_monitors (um_id m) reset_row db1) else db1)
         in (bindE (reload_monitor db2 (um_id m)) (\<lambda>updated. Inr (materialChange, updated)), db2)))"

definition enable_row :: "monitor_row \<Rightarrow> monitor_row" where
  "enable_row r = r\<lparr>um_status := uptime_status_pending, um_consecutive_failures := 0, um_last_checked_at := None\<rparr>"

definition set_monitor_enabled ::
  "time \<Rightarrow> int \<Rightarrow> bool \<Rightarrow> uptime_db \<Rightarrow> (uptime_error + uptime_monitor option) \<times> uptime_db" where
  "set_monitor_enabled now i enabled db =
     (if count_rows (\<lambda>m. um_id m = i) (ud_monitors db) = 0 then (Inl UptimeNoRows, db)
      else (let db1 = set_monitors i (\<lambda>r. r\<lparr>um_enabled := enabled, um_updated_at := now\<rparr>) db;
                db2 = (if enabled then set_monitors i enable_row db1 else resolve_active_incidents i now db1)
            in (Inr (get_monitor db2 i), db2)))"

text \<open>The rows of the results and incidents go with the monitor (\<^verbatim>\<open>ON DELETE CASCADE\<close>).\<close>

definition delete_monitor :: "int \<Rightarrow> uptime_db \<Rightarrow> bool \<times> uptime_db" where
  "delete_monitor i db =
     (count_rows (\<lambda>m. um_id m = i) (ud_monitors db) > 0,
      db\<lparr>ud_monitors := delete_rows (\<lambda>m. um_id m = i) (ud_monitors db),
         ud_results := delete_rows (\<lambda>r. ur_monitor_id r = i) (ud_results db),
         ud_incidents := delete_rows (\<lambda>x. ui_monitor_id x = i) (ud_incidents db)\<rparr>)"

section \<open>Incidents\<close>

definition active_incident :: "uptime_db \<Rightarrow> int \<Rightarrow> string \<Rightarrow> uptime_incident option" where
  "active_incident db i kind = map_option scan_uptime_incident
     (List.find (\<lambda>x. ui_monitor_id x = i \<and> ui_kind x = kind \<and> ui_active x) (ud_incidents db))"

definition new_incident :: "int \<Rightarrow> int \<Rightarrow> string \<Rightarrow> string \<Rightarrow> time \<Rightarrow> uptime_incident" where
  "new_incident k i kind message stamp = \<lparr>ui_id = k, ui_monitor_id = i, ui_kind = kind, ui_message = message,
     ui_started_at = stamp, ui_resolved_at = None, ui_notification_sent = False, ui_notification_error = [],
     ui_notification_attempted_at = None, ui_recovery_notification_sent = False,
     ui_recovery_notification_error = [], ui_recovery_notification_attempted_at = None, ui_created_at = stamp\<rparr>"

text \<open>The unique index on monitor, kind and marker refuses a second active incident.\<close>

definition create_incident ::
  "int \<Rightarrow> string \<Rightarrow> string \<Rightarrow> time \<Rightarrow> uptime_db \<Rightarrow> uptime_error + uptime_incident \<times> uptime_db" where
  "create_incident i kind message stamp db =
     (if count_rows (\<lambda>x. ui_monitor_id x = i \<and> ui_kind x = kind \<and> ui_active x) (ud_incidents db) > 0
      then Inl (UptimeDBError ''UNIQUE constraint failed: uptime_incidents.monitor_id, uptime_incidents.kind, uptime_incidents.active_marker'')
      else if count_rows (\<lambda>m. um_id m = i) (ud_monitors db) = 0
      then Inl (UptimeDBError ''FOREIGN KEY constraint failed'')
      else (let k = ud_incident_seq db + 1; x = new_incident k i kind message stamp
            in Inr (x, db\<lparr>ud_incidents := ud_incidents db @ [uptime_incident.extend x (incident_row.fields True)],
                          ud_incident_seq := k\<rparr>)))"

definition resolve_incident :: "uptime_incident \<Rightarrow> time \<Rightarrow> uptime_db \<Rightarrow> uptime_incident \<times> uptime_db" where
  "resolve_incident x stamp db =
     (x\<lparr>ui_resolved_at := Some stamp\<rparr>,
      db\<lparr>ud_incidents := update_rows (\<lambda>y. ui_id y = ui_id x \<and> ui_active y) (resolve_row stamp) (ud_incidents db)\<rparr>)"

text \<open>A transition accumulates the triggered and the resolved incidents.\<close>

type_synonym incident_changes = "uptime_incident list \<times> uptime_incident list"

definition apply_availability_transition ::
  "uptime_monitor \<Rightarrow> uptime_probe_result \<Rightarrow> int \<Rightarrow> incident_changes \<Rightarrow> uptime_db \<Rightarrow>
     uptime_error + incident_changes \<times> uptime_db" where
  "apply_availability_transition monitor probe failures ch db =
     (let active = active_incident db (um_id monitor) uptime_incident_availability in
      if pb_success probe
      then (case active of
              None \<Rightarrow> Inr (ch, db)
            | Some x \<Rightarrow> (let (resolved, db') = resolve_incident x (pb_checked_at probe) db
                         in Inr ((fst ch, snd ch @ [resolved]), db')))
      else if active \<noteq> None \<or> failures < um_failure_threshold monitor then Inr (ch, db)
      else bindE (create_incident (um_id monitor) uptime_incident_availability
                    (availability_message failures (pb_error probe)) (pb_checked_at probe) db)
             (\<lambda>(x, db'). Inr ((fst ch @ [x], snd ch), db')))"

definition apply_certificate_transition ::
  "uptime_monitor \<Rightarrow> uptime_probe_result \<Rightarrow> incident_changes \<Rightarrow> uptime_db \<Rightarrow>
     uptime_error + incident_changes \<times> uptime_db" where
  "apply_certificate_transition monitor probe ch db =
     (let active = active_incident db (um_id monitor) uptime_incident_certificate in
      if \<not> pb_tls_expiring probe
      then (case active of
              None \<Rightarrow> Inr (ch, db)
            | Some x \<Rightarrow> (let (resolved, db') = resolve_incident x (pb_checked_at probe) db
                         in Inr ((fst ch, snd ch @ [resolved]), db')))
      else if active \<noteq> None then Inr (ch, db)
      else bindE (create_incident (um_id monitor) uptime_incident_certificate
                    (certificate_message probe) (pb_checked_at probe) db)
             (\<lambda>(x, db'). Inr ((fst ch @ [x], snd ch), db')))"

section \<open>Probes\<close>

definition prune_uptime_results :: "int \<Rightarrow> uptime_db \<Rightarrow> uptime_db" where
  "prune_uptime_results i db =
     (let ids = rev (sort (map ur_id (filter (\<lambda>r. ur_monitor_id r = i) (ud_results db))))
      in if length ids < max_uptime_results then db
         else (let boundaryID = ids ! (max_uptime_results - 1)
               in db\<lparr>ud_results := delete_rows (\<lambda>r. ur_monitor_id r = i \<and> ur_id r < boundaryID) (ud_results db)\<rparr>))"

definition probe_status :: "uptime_probe_result \<Rightarrow> string" where
  "probe_status probe = (if \<not> pb_success probe then uptime_status_down
     else if pb_tls_expiring probe then uptime_status_warning else uptime_status_up)"

definition probe_failures :: "uptime_probe_result \<Rightarrow> int \<Rightarrow> int" where
  "probe_failures probe before = (if pb_success probe then 0 else before + 1)"

definition record_probe :: "uptime_probe_result \<Rightarrow> int \<Rightarrow> monitor_row \<Rightarrow> monitor_row" where
  "record_probe probe failures r = r\<lparr>um_status := probe_status probe, um_consecutive_failures := failures,
     um_last_latency_ms := pb_latency_ms probe, um_last_status_code := pb_status_code probe,
     um_last_error := pb_error probe, um_last_checked_at := Some (pb_checked_at probe),
     um_tls_expires_at := pb_tls_expires_at probe, um_updated_at := pb_checked_at probe\<rparr>"

definition probe_result_row :: "int \<Rightarrow> int \<Rightarrow> uptime_probe_result \<Rightarrow> uptime_result" where
  "probe_result_row k i probe = \<lparr>ur_id = k, ur_monitor_id = i, ur_success = pb_success probe,
     ur_latency_ms = pb_latency_ms probe, ur_status_code = pb_status_code probe, ur_error = pb_error probe,
     ur_tls_expires_at = pb_tls_expires_at probe, ur_checked_at = pb_checked_at probe\<rparr>"

definition apply_probe_tx ::
  "int \<Rightarrow> uptime_probe_result \<Rightarrow> uptime_db \<Rightarrow> uptime_error + (uptime_result \<times> incident_changes) \<times> uptime_db" where
  "apply_probe_tx i probe db =
     (case get_monitor db i of
        None \<Rightarrow> Inl UptimeNoRows
      | Some monitor \<Rightarrow>
        (let failures = probe_failures probe (um_consecutive_failures monitor);
             k = ud_result_seq db + 1;
             result = probe_result_row k i probe;
             db1 = set_monitors i (record_probe probe failures)
                     (db\<lparr>ud_results := ud_results db @ [result], ud_result_seq := k\<rparr>)
         in bindE (apply_availability_transition monitor probe failures ([], []) db1) (\<lambda>(ch2, db2).
            bindE (if pb_success probe \<and> pb_tls_checked probe
                   then apply_certificate_transition monitor probe ch2 db2 else Inr (ch2, db2)) (\<lambda>(ch3, db3).
            Inr ((result, ch3), prune_uptime_results i db3)))))"

definition apply_probe ::
  "time \<Rightarrow> int \<Rightarrow> uptime_probe_result \<Rightarrow> uptime_db \<Rightarrow> (uptime_error + uptime_transition) \<times> uptime_db" where
  "apply_probe now i probe0 db =
     (let probe = (if is_zero (pb_checked_at probe0) then probe0\<lparr>pb_checked_at := now\<rparr> else probe0)
      in case run_tx (apply_probe_tx i probe) db of
           (Inl e, db') \<Rightarrow> (Inl e, db')
         | (Inr (result, triggered, resolved), db') \<Rightarrow>
             (bindE (reload_monitor db' i) (\<lambda>m. Inr \<lparr>tr_monitor = m, tr_result = result,
                tr_triggered = triggered, tr_resolved = resolved\<rparr>), db'))"

section \<open>Histories and notifications\<close>

definition history_limit :: "nat \<Rightarrow> int \<Rightarrow> nat" where
  "history_limit most limit = (if limit \<le> 0 \<or> limit > int most then most else nat limit)"

definition list_results :: "uptime_db \<Rightarrow> int \<Rightarrow> int \<Rightarrow> uptime_result list" where
  "list_results db i limit = map scan_uptime_result (take (history_limit max_uptime_results limit)
     (rev (sort_key ur_id (filter (\<lambda>r. ur_monitor_id r = i) (ud_results db)))))"

definition list_incidents :: "uptime_db \<Rightarrow> int \<Rightarrow> int \<Rightarrow> uptime_incident list" where
  "list_incidents db i limit = map scan_uptime_incident (take (history_limit max_uptime_incidents limit)
     (rev (sort_key ui_id (filter (\<lambda>x. ui_monitor_id x = i) (ud_incidents db)))))"

definition update_incident_notification ::
  "int \<Rightarrow> bool \<Rightarrow> bool \<Rightarrow> string \<Rightarrow> time \<Rightarrow> uptime_db \<Rightarrow> uptime_db" where
  "update_incident_notification k recovery sent message attemptedAt db =
     db\<lparr>ud_incidents := update_rows (\<lambda>x. ui_id x = k)
       (if recovery
        then (\<lambda>x. x\<lparr>ui_recovery_notification_sent := sent, ui_recovery_notification_error := message,
                    ui_recovery_notification_attempted_at := Some attemptedAt\<rparr>)
        else (\<lambda>x. x\<lparr>ui_notification_sent := sent, ui_notification_error := message,
                    ui_notification_attempted_at := Some attemptedAt\<rparr>)) (ud_incidents db)\<rparr>"

section \<open>Operations\<close>

datatype uptime_op =
  CreateMonitor time uptime_monitor
| UpdateMonitor time uptime_monitor
| SetMonitorEnabled time int bool
| DeleteMonitor int
| ApplyProbe time int uptime_probe_result
| UpdateIncidentNotification int bool bool string time

primrec apply_uptime_op :: "uptime_op \<Rightarrow> uptime_db \<Rightarrow> uptime_db" where
  "apply_uptime_op (CreateMonitor now m) db = snd (create_monitor now m db)"
| "apply_uptime_op (UpdateMonitor now m) db = snd (update_monitor now m db)"
| "apply_uptime_op (SetMonitorEnabled now i b) db = snd (set_monitor_enabled now i b db)"
| "apply_uptime_op (DeleteMonitor i) db = snd (delete_monitor i db)"
| "apply_uptime_op (ApplyProbe now i p) db = snd (apply_probe now i p db)"
| "apply_uptime_op (UpdateIncidentNotification k r s m stamp) db = update_incident_notification k r s m stamp db"

definition run_uptime :: "uptime_op list \<Rightarrow> uptime_db \<Rightarrow> uptime_db" where
  "run_uptime ops db = fold apply_uptime_op ops db"

end
