(* ===== verification/UptimeInv.thy ===== *)
theory UptimeInv
  imports UptimeStore
begin

text \<open>
  The invariant of the uptime tables and its preservation by every operation of the store: keys
  and references hold, an incident is active exactly while it is unresolved, a monitor has at
  most one active incident of a kind and at most 200 results.
\<close>

section \<open>Rows\<close>

definition active_of :: "int \<Rightarrow> string \<Rightarrow> incident_row \<Rightarrow> bool" where
  "active_of i kind x \<longleftrightarrow> ui_monitor_id x = i \<and> ui_kind x = kind \<and> ui_active x"

definition has_monitor :: "uptime_db \<Rightarrow> int \<Rightarrow> bool" where
  "has_monitor db i \<longleftrightarrow> i \<in> um_id ` set (ud_monitors db)"

definition monitors_ok :: "uptime_db \<Rightarrow> bool" where
  "monitors_ok db \<longleftrightarrow> distinct (map um_id (ud_monitors db))
     \<and> (\<forall>m\<in>set (ud_monitors db). 0 < um_id m \<and> um_id m \<le> ud_monitor_seq db)"

definition results_ok :: "uptime_db \<Rightarrow> bool" where
  "results_ok db \<longleftrightarrow> sorted_wrt (<) (map ur_id (ud_results db))
     \<and> (\<forall>r\<in>set (ud_results db). ur_id r \<le> ud_result_seq db \<and> has_monitor db (ur_monitor_id r))"

definition incidents_ok :: "uptime_db \<Rightarrow> bool" where
  "incidents_ok db \<longleftrightarrow> sorted_wrt (<) (map ui_id (ud_incidents db))
     \<and> (\<forall>x\<in>set (ud_incidents db). ui_id x \<le> ud_incident_seq db \<and> has_monitor db (ui_monitor_id x)
          \<and> (ui_active x \<longleftrightarrow> ui_resolved_at x = None))
     \<and> (\<forall>i kind. count_rows (active_of i kind) (ud_incidents db) \<le> 1)"

definition results_bounded :: "uptime_db \<Rightarrow> bool" where
  "results_bounded db \<longleftrightarrow> (\<forall>i. count_rows (\<lambda>r. ur_monitor_id r = i) (ud_results db) \<le> max_uptime_results)"

definition tables_ok :: "uptime_db \<Rightarrow> bool" where
  "tables_ok db \<longleftrightarrow> monitors_ok db \<and> results_ok db \<and> incidents_ok db"

definition uptime_inv :: "uptime_db \<Rightarrow> bool" where
  "uptime_inv db \<longleftrightarrow> tables_ok db \<and> results_bounded db \<and> 0 \<le> ud_monitor_seq db"

lemma active_filter: "(\<lambda>x. ui_monitor_id x = i \<and> ui_kind x = kind \<and> ui_active x) = active_of i kind"
  by (auto simp: active_of_def fun_eq_iff)

lemma resolve_row_frame [simp]:
  "ui_id (resolve_row t x) = ui_id x" "ui_monitor_id (resolve_row t x) = ui_monitor_id x"
  "ui_kind (resolve_row t x) = ui_kind x" "ui_active (resolve_row t x) = False"
  "ui_resolved_at (resolve_row t x) = Some t"
  by (simp_all add: resolve_row_def)

lemma scan_incident_frame [simp]:
  "ui_id (scan_uptime_incident x) = ui_id x" "ui_kind (scan_uptime_incident x) = ui_kind x"
  "ui_monitor_id (scan_uptime_incident x) = ui_monitor_id x"
  by (simp_all add: scan_uptime_incident_def uptime_incident.defs incident_row.defs)

lemma scan_monitor_frame [simp]:
  "um_id (scan_uptime_monitor m) = um_id m" "um_enabled (scan_uptime_monitor m) = um_enabled m"
  "um_consecutive_failures (scan_uptime_monitor m) = um_consecutive_failures m"
  "um_failure_threshold (scan_uptime_monitor m) = um_failure_threshold m"
  "um_interval_seconds (scan_uptime_monitor m) = um_interval_seconds m"
  "um_type (scan_uptime_monitor m) = um_type m" "um_target (scan_uptime_monitor m) = um_target m"
  "um_timeout_seconds (scan_uptime_monitor m) = um_timeout_seconds m"
  "um_expected_status_min (scan_uptime_monitor m) = um_expected_status_min m"
  "um_expected_status_max (scan_uptime_monitor m) = um_expected_status_max m"
  "um_tls_expiry_threshold_days (scan_uptime_monitor m) = um_tls_expiry_threshold_days m"
  "um_status (scan_uptime_monitor m) = um_status m"
  "um_notification_channels (scan_uptime_monitor m) = um_notification_channels m"
  by (simp_all add: scan_uptime_monitor_def Let_def monitor_row.defs uptime_monitor.defs)

section \<open>Primitive changes\<close>

lemma has_monitor_set_monitors [simp]:
  "(\<And>m. um_id (f m) = um_id m) \<Longrightarrow> has_monitor (set_monitors i f db) j = has_monitor db j"
  by (simp add: has_monitor_def set_monitors_def map_update_rows flip: set_map)

lemma tables_ok_set_monitors:
  assumes "tables_ok db" "\<And>m. um_id (f m) = um_id m"
  shows "tables_ok (set_monitors i f db)"
  using assms has_monitor_set_monitors [of f i db]
  by (auto simp: tables_ok_def monitors_ok_def results_ok_def incidents_ok_def set_monitors_def
      map_update_rows set_update_rows)

lemma tables_ok_add_result:
  assumes "tables_ok db" "has_monitor db (ur_monitor_id r)" "ur_id r = ud_result_seq db + 1"
  shows "tables_ok (db\<lparr>ud_results := ud_results db @ [r], ud_result_seq := ud_result_seq db + 1\<rparr>)"
  using assms by (auto simp: tables_ok_def monitors_ok_def results_ok_def incidents_ok_def has_monitor_def
      sorted_wrt_append)

lemma tables_ok_resolve:
  assumes "tables_ok db"
  shows "tables_ok (db\<lparr>ud_incidents := update_rows P (resolve_row t) (ud_incidents db)\<rparr>)"
proof -
  have "count_rows (active_of i kind) (update_rows P (resolve_row t) (ud_incidents db)) \<le> 1" for i kind
    using assms count_update_le [of "ud_incidents db" P "active_of i kind" "resolve_row t"]
    by (fastforce simp: tables_ok_def incidents_ok_def active_of_def intro: order_trans)
  with assms show ?thesis
    by (auto simp: tables_ok_def monitors_ok_def results_ok_def incidents_ok_def has_monitor_def map_update_rows
        set_update_rows)
qed

lemma tables_ok_create_incident:
  assumes "tables_ok db" "create_incident i kind msg t db = Inr (x, db')"
  shows "tables_ok db'"
proof -
  from assms(2) have none: "count_rows (active_of i kind) (ud_incidents db) = 0"
    and m: "has_monitor db i"
    and db': "db' = db\<lparr>ud_incidents := ud_incidents db @ [uptime_incident.extend
        (new_incident (ud_incident_seq db + 1) i kind msg t) (incident_row.fields True)],
      ud_incident_seq := ud_incident_seq db + 1\<rparr>"
    by (auto simp: create_incident_def Let_def active_filter count_rows_eq_0 has_monitor_def split: if_splits)
  let ?x = "uptime_incident.extend (new_incident (ud_incident_seq db + 1) i kind msg t) (incident_row.fields True)"
  have x: "ui_id ?x = ud_incident_seq db + 1" "ui_monitor_id ?x = i" "ui_kind ?x = kind" "ui_active ?x"
    "ui_resolved_at ?x = None"
    by (simp_all add: new_incident_def uptime_incident.defs incident_row.defs)
  have "count_rows (active_of j k) (ud_incidents db @ [?x]) \<le> 1" for j k
    using assms(1) none x by (auto simp: tables_ok_def incidents_ok_def active_of_def)
  with assms(1) m x show ?thesis
    unfolding db' by (auto simp: tables_ok_def monitors_ok_def results_ok_def incidents_ok_def has_monitor_def
        sorted_wrt_append)
qed

section \<open>Probes\<close>

lemma active_incident_iff:
  "active_incident db i kind = None \<longleftrightarrow> count_rows (active_of i kind) (ud_incidents db) = 0"
  by (auto simp: active_incident_def active_filter find_None_set count_rows_eq_0)

text \<open>The two transitions change only the incidents.\<close>

lemma create_incident_frame:
  "create_incident i kind msg t db = Inr (x, db') \<Longrightarrow>
     ud_results db' = ud_results db \<and> ud_result_seq db' = ud_result_seq db \<and> ud_monitors db' = ud_monitors db
     \<and> ud_monitor_seq db' = ud_monitor_seq db"
  by (auto simp: create_incident_def Let_def split: if_splits)

lemma availability_ok:
  assumes "apply_availability_transition m p n ch db = Inr (ch', db')"
  shows "ud_results db' = ud_results db" "ud_monitors db' = ud_monitors db" "ud_monitor_seq db' = ud_monitor_seq db"
    "tables_ok db \<Longrightarrow> tables_ok db'"
  using assms create_incident_frame tables_ok_create_incident tables_ok_resolve
  by (auto simp: apply_availability_transition_def resolve_incident_def Let_def result_iff
      split: if_splits option.splits)

lemma certificate_ok:
  assumes "apply_certificate_transition m p ch db = Inr (ch', db')"
  shows "ud_results db' = ud_results db" "ud_monitors db' = ud_monitors db" "ud_monitor_seq db' = ud_monitor_seq db"
    "tables_ok db \<Longrightarrow> tables_ok db'"
  using assms create_incident_frame tables_ok_create_incident tables_ok_resolve
  by (auto simp: apply_certificate_transition_def resolve_incident_def Let_def result_iff
      split: if_splits option.splits)

lemma prune_frame:
  "ud_monitors (prune_uptime_results i db) = ud_monitors db" "ud_incidents (prune_uptime_results i db) = ud_incidents db"
  "ud_monitor_seq (prune_uptime_results i db) = ud_monitor_seq db"
  by (simp_all add: prune_uptime_results_def Let_def)

lemma tables_ok_prune: "tables_ok db \<Longrightarrow> tables_ok (prune_uptime_results i db)"
  by (auto simp: prune_uptime_results_def Let_def tables_ok_def monitors_ok_def results_ok_def incidents_ok_def
      has_monitor_def sorted_map_delete)

lemma prune_results:
  assumes "results_ok db"
  shows "filter (\<lambda>r. ur_monitor_id r = j) (ud_results (prune_uptime_results i db)) =
    (let rs = filter (\<lambda>r. ur_monitor_id r = j) (ud_results db)
     in if j = i then drop (length rs - max_uptime_results) rs else rs)"
proof -
  let ?rs = "filter (\<lambda>r. ur_monitor_id r = i) (ud_results db)"
  have inc: "sorted_wrt (<) (map ur_id ?rs)" using assms by (simp add: results_ok_def sorted_key_filter)
  have ids: "rev (sort (map ur_id ?rs)) = rev (map ur_id ?rs)" using inc by (simp add: sort_increasing)
  show ?thesis
  proof (cases "length ?rs < max_uptime_results")
    case True
    then show ?thesis by (simp add: prune_uptime_results_def Let_def)
  next
    case False
    define n where "n = length ?rs - max_uptime_results"
    have n: "n < length ?rs" using False by (simp add: n_def max_uptime_results_def)
    have "rev (map ur_id ?rs) ! (max_uptime_results - 1) = ur_id (?rs ! n)"
      using False n by (simp add: rev_nth n_def max_uptime_results_def Suc_diff_le)
    then have pruned: "ud_results (prune_uptime_results i db)
        = filter (\<lambda>r. \<not> (ur_monitor_id r = i \<and> ur_id r < ur_id (?rs ! n))) (ud_results db)"
      using False unfolding prune_uptime_results_def Let_def ids by (simp add: delete_rows_def)
    show ?thesis
    proof (cases "j = i")
      case True
      have "filter (\<lambda>r. ur_monitor_id r = i) (ud_results (prune_uptime_results i db))
          = filter (\<lambda>r. \<not> ur_id r < ur_id (?rs ! n)) ?rs"
        unfolding pruned filter_filter by (rule filter_cong) auto
      also have "\<dots> = drop n ?rs" by (rule keep_from_key [OF inc n])
      finally show ?thesis using True by (simp add: n_def Let_def)
    next
      case False
      have "filter (\<lambda>r. ur_monitor_id r = j) (ud_results (prune_uptime_results i db))
          = filter (\<lambda>r. ur_monitor_id r = j) (ud_results db)"
        unfolding pruned filter_filter using False by (intro filter_cong) auto
      with False show ?thesis by simp
    qed
  qed
qed

lemma apply_probe_tx_steps:
  assumes "apply_probe_tx i p db = Inr ((res, ch), db')"
  obtains m ch2 db1 db2 db3 where "find_monitor db i = Some m"
    "res = probe_result_row (ud_result_seq db + 1) i p"
    "db1 = set_monitors i (record_probe p (probe_failures p (um_consecutive_failures m)))
       (db\<lparr>ud_results := ud_results db @ [res], ud_result_seq := ud_result_seq db + 1\<rparr>)"
    "apply_availability_transition (scan_uptime_monitor m) p (probe_failures p (um_consecutive_failures m)) ([], []) db1
       = Inr (ch2, db2)"
    "(if pb_success p \<and> pb_tls_checked p then apply_certificate_transition (scan_uptime_monitor m) p ch2 db2
      else Inr (ch2, db2)) = Inr (ch, db3)"
    "db' = prune_uptime_results i db3"
  using assms by (auto simp: apply_probe_tx_def get_monitor_def Let_def result_iff split: option.splits)

lemma find_monitor_has: "find_monitor db i = Some m \<Longrightarrow> m \<in> set (ud_monitors db) \<and> um_id m = i \<and> has_monitor db i"
  by (auto simp: find_monitor_def has_monitor_def dest: find_Some_set)

lemma record_probe_frame [simp]:
  "um_id (record_probe p n m) = um_id m" "um_enabled (record_probe p n m) = um_enabled m"
  "um_consecutive_failures (record_probe p n m) = n" "um_status (record_probe p n m) = probe_status p"
  by (simp_all add: record_probe_def)

lemma results_of_set_monitors [simp]:
  "ud_results (set_monitors i f db) = ud_results db" "ud_incidents (set_monitors i f db) = ud_incidents db"
  "ud_monitor_seq (set_monitors i f db) = ud_monitor_seq db"
  by (simp_all add: set_monitors_def)

lemma apply_probe_tx_ok:
  assumes inv: "uptime_inv db" and tx: "apply_probe_tx i p db = Inr ((res, ch), db')"
  shows "uptime_inv db'"
    and "filter (\<lambda>r. ur_monitor_id r = i) (ud_results db') =
      (let rs = filter (\<lambda>r. ur_monitor_id r = i) (ud_results db) @ [res] in drop (length rs - max_uptime_results) rs)"
proof -
  obtain m ch2 db1 db2 db3 where m: "find_monitor db i = Some m"
    and res: "res = probe_result_row (ud_result_seq db + 1) i p"
    and db1: "db1 = set_monitors i (record_probe p (probe_failures p (um_consecutive_failures m)))
       (db\<lparr>ud_results := ud_results db @ [res], ud_result_seq := ud_result_seq db + 1\<rparr>)"
    and av: "apply_availability_transition (scan_uptime_monitor m) p (probe_failures p (um_consecutive_failures m)) ([], []) db1
       = Inr (ch2, db2)"
    and ce: "(if pb_success p \<and> pb_tls_checked p then apply_certificate_transition (scan_uptime_monitor m) p ch2 db2
      else Inr (ch2, db2)) = Inr (ch, db3)"
    and db': "db' = prune_uptime_results i db3"
    by (rule apply_probe_tx_steps [OF tx])
  have ri: "ur_monitor_id res = i" "ur_id res = ud_result_seq db + 1" by (simp_all add: res probe_result_row_def)
  have "tables_ok db1"
    unfolding db1 using inv m ri tables_ok_add_result [of db res]
    by (intro tables_ok_set_monitors) (auto simp: uptime_inv_def dest: find_monitor_has)
  then have t2: "tables_ok db2" and r2: "ud_results db2 = ud_results db1" "ud_monitor_seq db2 = ud_monitor_seq db"
    using availability_ok [OF av] by (auto simp: db1)
  have t3: "tables_ok db3" and r3: "ud_results db3 = ud_results db @ [res]" "ud_monitor_seq db3 = ud_monitor_seq db"
    using certificate_ok ce t2 r2 by (auto simp: db1 split: if_splits)
  have ok3: "results_ok db3" using t3 by (simp add: tables_ok_def)
  note pruned = prune_results [OF ok3, of _ i, folded db', unfolded r3(1)]
  show "filter (\<lambda>r. ur_monitor_id r = i) (ud_results db') =
      (let rs = filter (\<lambda>r. ur_monitor_id r = i) (ud_results db) @ [res] in drop (length rs - max_uptime_results) rs)"
    using pruned [of i] ri by simp
  have "count_rows (\<lambda>r. ur_monitor_id r = j) (ud_results db') \<le> max_uptime_results" for j
    using pruned [of j] inv ri by (auto simp: count_rows_def uptime_inv_def results_bounded_def Let_def)
  with t3 inv r3 show "uptime_inv db'" by (simp add: uptime_inv_def results_bounded_def db' tables_ok_prune prune_frame)
qed

section \<open>Every operation\<close>

lemma uptime_inv_set_monitors:
  "uptime_inv db \<Longrightarrow> (\<And>m. um_id (f m) = um_id m) \<Longrightarrow> uptime_inv (set_monitors i f db)"
  by (simp add: uptime_inv_def results_bounded_def tables_ok_set_monitors)

lemma uptime_inv_resolve: "uptime_inv db \<Longrightarrow> uptime_inv (resolve_active_incidents i t db)"
  by (simp add: uptime_inv_def results_bounded_def resolve_active_incidents_def tables_ok_resolve)

lemma row_frames [simp]:
  "um_id (configure_row t m r) = um_id r" "um_id (reset_row r) = um_id r" "um_id (enable_row r) = um_id r"
  "um_id (new_monitor_row t i m) = i"
  by (simp_all add: configure_row_def reset_row_def enable_row_def new_monitor_row_def)

lemma tables_ok_add_monitor:
  assumes "tables_ok db" "um_id m = ud_monitor_seq db + 1" "0 \<le> ud_monitor_seq db"
  shows "tables_ok (db\<lparr>ud_monitors := ud_monitors db @ [m], ud_monitor_seq := ud_monitor_seq db + 1\<rparr>)"
    (is "tables_ok ?db")
proof -
  have "has_monitor db i \<Longrightarrow> has_monitor ?db i" for i by (simp add: has_monitor_def)
  moreover have "monitors_ok ?db" using assms by (fastforce simp: tables_ok_def monitors_ok_def)
  ultimately show ?thesis using assms(1) by (auto simp: tables_ok_def results_ok_def incidents_ok_def)
qed

lemma tables_ok_delete_monitor:
  assumes "tables_ok db"
  shows "tables_ok (snd (delete_monitor i db))" (is "tables_ok ?db")
proof -
  have has: "has_monitor db j \<Longrightarrow> j \<noteq> i \<Longrightarrow> has_monitor ?db j" for j
    by (auto simp: has_monitor_def delete_monitor_def)
  have count: "count_rows (active_of j k) (ud_incidents ?db) \<le> 1" for j k
    using assms count_delete_le [of "active_of j k" "\<lambda>x. ui_monitor_id x = i" "ud_incidents db"]
    by (auto simp: delete_monitor_def tables_ok_def incidents_ok_def intro: order_trans)
  have "monitors_ok ?db"
    using assms by (auto simp: tables_ok_def monitors_ok_def delete_monitor_def distinct_map_delete_rows)
  moreover have "results_ok ?db"
    using assms has by (auto simp: tables_ok_def results_ok_def delete_monitor_def sorted_map_delete)
  moreover have "incidents_ok ?db"
    using assms has count by (auto simp: tables_ok_def incidents_ok_def delete_monitor_def sorted_map_delete)
  ultimately show ?thesis by (simp add: tables_ok_def)
qed

lemma uptime_inv_delete: "uptime_inv db \<Longrightarrow> uptime_inv (snd (delete_monitor i db))"
  using tables_ok_delete_monitor [of db i]
  by (auto simp: uptime_inv_def results_bounded_def delete_monitor_def intro: order_trans [OF count_delete_le])

lemma uptime_inv_create: "uptime_inv db \<Longrightarrow> uptime_inv (snd (create_monitor now m db))"
  using tables_ok_add_monitor [of db "new_monitor_row now (ud_monitor_seq db + 1) m"]
  by (simp add: create_monitor_def Let_def uptime_inv_def results_bounded_def)

lemma uptime_inv_notification: "uptime_inv db \<Longrightarrow> uptime_inv (update_incident_notification k r s m t db)"
proof -
  assume inv: "uptime_inv db"
  define f where "f = (if r
        then (\<lambda>x. x\<lparr>ui_recovery_notification_sent := s, ui_recovery_notification_error := m,
                    ui_recovery_notification_attempted_at := Some t\<rparr>)
        else (\<lambda>x. (x::incident_row)\<lparr>ui_notification_sent := s, ui_notification_error := m,
                    ui_notification_attempted_at := Some t\<rparr>))"
  have f: "ui_id (f x) = ui_id x" "ui_monitor_id (f x) = ui_monitor_id x" "ui_kind (f x) = ui_kind x"
    "ui_active (f x) = ui_active x" "ui_resolved_at (f x) = ui_resolved_at x" for x
    by (simp_all add: f_def)
  have "count_rows (active_of i kind) (update_rows (\<lambda>x. ui_id x = k) f (ud_incidents db)) \<le> 1" for i kind
    using inv f by (subst count_rows_update) (auto simp: active_of_def uptime_inv_def tables_ok_def incidents_ok_def)
  with inv f show ?thesis
    unfolding update_incident_notification_def f_def [symmetric]
    by (auto simp: uptime_inv_def results_bounded_def tables_ok_def monitors_ok_def results_ok_def incidents_ok_def
        has_monitor_def map_update_rows set_update_rows)
qed

lemma uptime_inv_probe: "uptime_inv db \<Longrightarrow> uptime_inv (snd (apply_probe now i p db))"
  using apply_probe_tx_ok(1)
  by (auto simp: apply_probe_def Let_def run_tx_def split: sum.splits prod.splits)

lemma uptime_inv_step: "uptime_inv db \<Longrightarrow> uptime_inv (apply_uptime_op op db)"
  by (cases op) (auto simp: update_monitor_def set_monitor_enabled_def Let_def uptime_inv_create uptime_inv_delete
      uptime_inv_notification uptime_inv_probe split: option.splits
      intro!: uptime_inv_set_monitors uptime_inv_resolve)

lemma uptime_inv_empty: "uptime_inv empty_uptime_db"
  by (simp add: uptime_inv_def tables_ok_def monitors_ok_def results_ok_def incidents_ok_def results_bounded_def
      empty_uptime_db_def)

lemma uptime_inv_run: "uptime_inv db \<Longrightarrow> uptime_inv (run_uptime ops db)"
  by (induction ops arbitrary: db) (auto simp: run_uptime_def uptime_inv_step)

lemma uptime_reached_inv: "uptime_inv (run_uptime ops empty_uptime_db)"
  by (rule uptime_inv_run [OF uptime_inv_empty])

text \<open>C17: Whatever operations are executed, a monitor never has two active incidents of one kind, and the
  incidents without a resolution time are exactly the active ones.\<close>

theorem one_active_incident:
  "let db = run_uptime ops empty_uptime_db in
     count_rows (\<lambda>x. ui_monitor_id x = i \<and> ui_kind x = kind \<and> ui_resolved_at x = None) (ud_incidents db) \<le> 1
   \<and> list_all (\<lambda>x. ui_active x = (ui_resolved_at x = None)) (ud_incidents db)"
proof -
  let ?db = "run_uptime ops empty_uptime_db"
  have ok: "incidents_ok ?db" using uptime_reached_inv by (simp add: uptime_inv_def tables_ok_def)
  have "count_rows (\<lambda>x. ui_monitor_id x = i \<and> ui_kind x = kind \<and> ui_resolved_at x = None) (ud_incidents ?db)
      = count_rows (active_of i kind) (ud_incidents ?db)"
    using ok by (intro count_rows_cong) (auto simp: active_of_def incidents_ok_def)
  with ok show ?thesis by (simp add: incidents_ok_def Let_def list_all_iff)
qed

text \<open>C18: Recording a probe keeps the newest 200 results of its monitor, the new one last, and leaves no
  monitor with more.\<close>

theorem results_are_bounded:
  assumes "apply_probe now i p (run_uptime ops empty_uptime_db) = (Inr t, db)"
  shows "filter (\<lambda>r. ur_monitor_id r = i) (ud_results db) =
      (let rs = filter (\<lambda>r. ur_monitor_id r = i) (ud_results (run_uptime ops empty_uptime_db)) @ [tr_result t]
       in drop (length rs - 200) rs)
    \<and> count_rows (\<lambda>r. ur_monitor_id r = j) (ud_results db) \<le> 200"
proof -
  let ?p = "if is_zero (pb_checked_at p) then p\<lparr>pb_checked_at := now\<rparr> else p"
  from assms obtain ch where tx: "apply_probe_tx i ?p (run_uptime ops empty_uptime_db) = Inr ((tr_result t, ch), db)"
    by (auto simp: apply_probe_def Let_def run_tx_def result_iff split: sum.splits prod.splits if_splits)
  from apply_probe_tx_ok [OF uptime_reached_inv tx] show ?thesis
    by (auto simp: uptime_inv_def results_bounded_def max_uptime_results_def Let_def)
qed

end
