(* ===== verification/UptimeSpec.thy ===== *)
theory UptimeSpec
  imports UptimeInv
begin

text \<open>
  The contract of the uptime store: per monitor a small automaton of its configuration, failure
  counter and open incidents, which says what each operation reports.  The tables refine it:
  abstracting commutes with every operation, and the incidents a probe triggers and resolves are
  those of the automaton.  What a series of probes does is then proved of the automaton.
\<close>

section \<open>The automaton\<close>

record probe_config =
  pc_type :: string
  pc_target :: string
  pc_interval :: int
  pc_timeout :: int
  pc_threshold :: int
  pc_status_min :: int
  pc_status_max :: int
  pc_tls_days :: int

record monitor_health =
  hh_config :: probe_config
  hh_enabled :: bool
  hh_status :: string
  hh_failures :: int
  hh_outage :: bool
  hh_expiring :: bool

record uptime_spec =
  us_last :: int
  us_monitors :: "int \<Rightarrow> monitor_health option"

definition config_of :: "'a monitor_row_scheme \<Rightarrow> probe_config" where
  "config_of m = \<lparr>pc_type = um_type m, pc_target = um_target m, pc_interval = um_interval_seconds m,
     pc_timeout = um_timeout_seconds m, pc_threshold = um_failure_threshold m,
     pc_status_min = um_expected_status_min m, pc_status_max = um_expected_status_max m,
     pc_tls_days = um_tls_expiry_threshold_days m\<rparr>"

definition fresh_health :: "probe_config \<Rightarrow> bool \<Rightarrow> monitor_health" where
  "fresh_health c enabled = \<lparr>hh_config = c, hh_enabled = enabled, hh_status = ''pending'', hh_failures = 0,
     hh_outage = False, hh_expiring = False\<rparr>"

text \<open>The kinds of the incidents a probe triggers and resolves.\<close>

type_synonym kinds = "string list \<times> string list"

definition spec_probe :: "uptime_probe_result \<Rightarrow> monitor_health \<Rightarrow> kinds \<times> monitor_health" where
  "spec_probe p h =
     (let failures = (if pb_success p then 0 else hh_failures h + 1);
          outage = (\<not> pb_success p \<and> (hh_outage h \<or> pc_threshold (hh_config h) \<le> failures));
          expiring = (if pb_success p \<and> pb_tls_checked p then pb_tls_expiring p else hh_expiring h)
      in (((if outage \<and> \<not> hh_outage h then [''availability''] else [])
             @ (if expiring \<and> \<not> hh_expiring h then [''certificate''] else []),
           (if hh_outage h \<and> \<not> outage then [''availability''] else [])
             @ (if hh_expiring h \<and> \<not> expiring then [''certificate''] else [])),
          h\<lparr>hh_status := probe_status p, hh_failures := failures, hh_outage := outage, hh_expiring := expiring\<rparr>))"

definition spec_update :: "uptime_monitor \<Rightarrow> monitor_health \<Rightarrow> monitor_health" where
  "spec_update m h = (if hh_config h = config_of m then h else fresh_health (config_of m) (hh_enabled h))"

definition spec_enable :: "bool \<Rightarrow> monitor_health \<Rightarrow> monitor_health" where
  "spec_enable enabled h =
     (if enabled then h\<lparr>hh_enabled := True, hh_status := ''pending'', hh_failures := 0\<rparr>
      else h\<lparr>hh_enabled := False, hh_outage := False, hh_expiring := False\<rparr>)"

definition spec_at :: "int \<Rightarrow> (monitor_health \<Rightarrow> monitor_health) \<Rightarrow> uptime_spec \<Rightarrow> uptime_spec" where
  "spec_at i f s = s\<lparr>us_monitors := (us_monitors s)(i := map_option f (us_monitors s i))\<rparr>"

primrec spec_op :: "uptime_op \<Rightarrow> uptime_spec \<Rightarrow> kinds \<times> uptime_spec" where
  "spec_op (CreateMonitor now m) s = (([], []), s\<lparr>us_last := us_last s + 1,
     us_monitors := (us_monitors s)(us_last s + 1 \<mapsto> fresh_health (config_of m) (um_enabled m))\<rparr>)"
| "spec_op (UpdateMonitor now m) s = (([], []), spec_at (um_id m) (spec_update m) s)"
| "spec_op (SetMonitorEnabled now i b) s = (([], []), spec_at i (spec_enable b) s)"
| "spec_op (DeleteMonitor i) s = (([], []), s\<lparr>us_monitors := (us_monitors s)(i := None)\<rparr>)"
| "spec_op (ApplyProbe now i p) s =
     ((case us_monitors s i of None \<Rightarrow> ([], []) | Some h \<Rightarrow> fst (spec_probe p h)),
      spec_at i (\<lambda>h. snd (spec_probe p h)) s)"
| "spec_op (UpdateIncidentNotification k r sent msg t) s = (([], []), s)"

fun run_spec :: "uptime_op list \<Rightarrow> uptime_spec \<Rightarrow> kinds list \<times> uptime_spec" where
  "run_spec [] s = ([], s)"
| "run_spec (op # ops) s =
     (case spec_op op s of (out, s') \<Rightarrow> case run_spec ops s' of (outs, s'') \<Rightarrow> (out # outs, s''))"

section \<open>Abstraction\<close>

definition incident_open :: "uptime_db \<Rightarrow> int \<Rightarrow> string \<Rightarrow> bool" where
  "incident_open db i kind \<longleftrightarrow> list_ex (active_of i kind) (ud_incidents db)"

definition health_of :: "uptime_db \<Rightarrow> monitor_row \<Rightarrow> monitor_health" where
  "health_of db m = \<lparr>hh_config = config_of m, hh_enabled = um_enabled m, hh_status = um_status m,
     hh_failures = um_consecutive_failures m, hh_outage = incident_open db (um_id m) ''availability'',
     hh_expiring = incident_open db (um_id m) ''certificate''\<rparr>"

definition monitors_of :: "uptime_db \<Rightarrow> int \<Rightarrow> monitor_health option" where
  "monitors_of db i = map_option (health_of db) (find_monitor db i)"

definition abs_uptime :: "uptime_db \<Rightarrow> uptime_spec" where
  "abs_uptime db = \<lparr>us_last = ud_monitor_seq db, us_monitors = monitors_of db\<rparr>"

definition uptime_output :: "uptime_op \<Rightarrow> uptime_db \<Rightarrow> kinds" where
  "uptime_output op db =
     (case op of
        ApplyProbe now i p \<Rightarrow>
          (case fst (apply_probe now i p db) of
             Inl _ \<Rightarrow> ([], [])
           | Inr t \<Rightarrow> (map ui_kind (tr_triggered t), map ui_kind (tr_resolved t)))
      | _ \<Rightarrow> ([], []))"

fun uptime_outputs :: "uptime_op list \<Rightarrow> uptime_db \<Rightarrow> kinds list" where
  "uptime_outputs [] db = []"
| "uptime_outputs (op # ops) db = uptime_output op db # uptime_outputs ops (apply_uptime_op op db)"

section \<open>The tables refine the automaton\<close>

lemma materially_changed_iff: "uptime_materially_changed a b \<longleftrightarrow> config_of a \<noteq> config_of b"
  by (auto simp: uptime_materially_changed_def config_of_def)

lemma config_of_frame [simp]:
  "config_of (configure_row t m r) = config_of m" "config_of (reset_row r) = config_of r"
  "config_of (enable_row r) = config_of r" "config_of (record_probe p n r) = config_of r"
  "config_of (new_monitor_row t i m) = config_of m" "config_of (scan_uptime_monitor r) = config_of r"
  "config_of (r\<lparr>um_enabled := b, um_updated_at := t\<rparr>) = config_of r"
  by (simp_all add: config_of_def configure_row_def reset_row_def enable_row_def record_probe_def new_monitor_row_def)

lemma find_set_monitors:
  "(\<And>m. um_id (f m) = um_id m) \<Longrightarrow>
     find_monitor (set_monitors i f db) j = (if j = i then map_option f (find_monitor db j) else find_monitor db j)"
proof -
  assume f: "\<And>m. um_id (f m) = um_id m"
  then have "find_monitor (set_monitors i f db) j = map_option (\<lambda>m. if um_id m = i then f m else m) (find_monitor db j)"
    by (simp add: find_monitor_def set_monitors_def find_update_rows)
  then show ?thesis by (cases "find_monitor db j") (auto dest: find_monitor_has)
qed

lemma incident_open_frame [simp]:
  "incident_open (set_monitors i f db) = incident_open db"
  "incident_open (db\<lparr>ud_results := rs, ud_result_seq := k\<rparr>) = incident_open db"
  "incident_open (prune_uptime_results i db) = incident_open db"
  by (simp_all add: incident_open_def fun_eq_iff prune_frame)

lemma incident_open_resolve_active:
  "incident_open (resolve_active_incidents i t db) j kind \<longleftrightarrow> j \<noteq> i \<and> incident_open db j kind"
  by (auto simp: incident_open_def resolve_active_incidents_def list_ex_iff set_update_rows active_of_def)

lemma find_monitor_frame [simp]:
  "find_monitor (resolve_active_incidents i t db) = find_monitor db"
  "find_monitor (db\<lparr>ud_results := rs, ud_result_seq := k\<rparr>) = find_monitor db"
  "find_monitor (prune_uptime_results i db) = find_monitor db"
  by (simp_all add: find_monitor_def fun_eq_iff resolve_active_incidents_def prune_frame)

lemma active_incident_open: "active_incident db i kind = None \<longleftrightarrow> \<not> incident_open db i kind"
  by (auto simp: active_incident_iff incident_open_def list_ex_iff count_rows_eq_0)

lemma create_incident_succeeds:
  assumes "\<not> incident_open db i kind" "find_monitor db i = Some m"
  shows "\<exists>x db'. create_incident i kind msg t db = Inr (x, db') \<and> ui_kind x = kind
    \<and> find_monitor db' = find_monitor db \<and> ud_monitor_seq db' = ud_monitor_seq db
    \<and> (\<forall>j k. incident_open db' j k \<longleftrightarrow> incident_open db j k \<or> j = i \<and> k = kind)"
proof -
  have "count_rows (active_of i kind) (ud_incidents db) = 0"
    using assms(1) by (auto simp: incident_open_def list_ex_iff count_rows_eq_0)
  moreover have "count_rows (\<lambda>m. um_id m = i) (ud_monitors db) \<noteq> 0"
    using find_monitor_has [OF assms(2)] by (auto simp: count_rows_eq_0)
  ultimately show ?thesis
    by (auto simp: create_incident_def Let_def active_filter new_incident_def incident_open_def find_monitor_def
        fun_eq_iff active_of_def uptime_incident.defs incident_row.defs)
qed

lemma resolve_incident_closes:
  assumes ok: "incidents_ok db" and x: "active_incident db i kind = Some x"
    and r: "resolve_incident x t db = (x', db')"
  shows "ui_kind x' = kind" "find_monitor db' = find_monitor db" "ud_monitor_seq db' = ud_monitor_seq db"
    "incident_open db' j k \<longleftrightarrow> incident_open db j k \<and> \<not> (j = i \<and> k = kind)"
proof -
  from x obtain y where y: "y \<in> set (ud_incidents db)" "active_of i kind y" and xy: "x = scan_uptime_incident y"
    by (auto simp: active_incident_def active_filter dest: find_Some_set)
  have db': "db' = db\<lparr>ud_incidents := update_rows (\<lambda>z. ui_id z = ui_id y \<and> ui_active z) (resolve_row t) (ud_incidents db)\<rparr>"
    and x': "x' = x\<lparr>ui_resolved_at := Some t\<rparr>"
    using r by (auto simp: resolve_incident_def xy)
  show "ui_kind x' = kind" using y by (simp add: x' xy active_of_def)
  show "find_monitor db' = find_monitor db" "ud_monitor_seq db' = ud_monitor_seq db"
    by (simp_all add: db' find_monitor_def fun_eq_iff)
  have dist: "distinct (map ui_id (ud_incidents db))" using ok by (simp add: incidents_ok_def strict_sorted_iff)
  have one: "z = y" if "z \<in> set (ud_incidents db)" "active_of i kind z" for z
    using ok that y count_rows_unique [of "active_of i kind" "ud_incidents db"] by (simp add: incidents_ok_def)
  show "incident_open db' j k \<longleftrightarrow> incident_open db j k \<and> \<not> (j = i \<and> k = kind)"
  proof
    assume "incident_open db' j k"
    then obtain z where z: "z \<in> set (ud_incidents db)" "\<not> (ui_id z = ui_id y \<and> ui_active z)" "active_of j k z"
      by (auto simp: incident_open_def db' list_ex_iff set_update_rows active_of_def split: if_splits)
    then have "z \<noteq> y" by (auto simp: active_of_def)
    with z one show "incident_open db j k \<and> \<not> (j = i \<and> k = kind)"
      by (auto simp: incident_open_def list_ex_iff)
  next
    assume a: "incident_open db j k \<and> \<not> (j = i \<and> k = kind)"
    then obtain z where z: "z \<in> set (ud_incidents db)" "active_of j k z" by (auto simp: incident_open_def list_ex_iff)
    with a y have "z \<noteq> y" by (auto simp: active_of_def)
    with dist z y have "ui_id z \<noteq> ui_id y" using distinct_key_eq by metis
    with z show "incident_open db' j k"
      by (auto simp: incident_open_def db' list_ex_iff set_update_rows intro!: bexI [of _ z])
  qed
qed

lemma um_id_find: "find_monitor db i = Some m \<Longrightarrow> um_id m = i"
  by (simp add: find_monitor_has)

lemma monitors_of_set_monitors:
  assumes "\<And>m. um_id (f m) = um_id m" "\<And>m. g (health_of db m) = health_of db' (f m)"
    and "\<And>j m. j \<noteq> i \<Longrightarrow> um_id m = j \<Longrightarrow> health_of db' m = health_of db m"
    and "find_monitor db' = find_monitor (set_monitors i f db)"
  shows "monitors_of db' = (monitors_of db)(i := map_option g (monitors_of db i))"
  using assms by (auto simp: monitors_of_def fun_eq_iff find_set_monitors option.map_comp comp_def
      intro!: option.map_cong0 dest: um_id_find split: option.splits)

text \<open>One probe.\<close>

lemma availability_refines:
  fixes m :: monitor_row and p :: uptime_probe_result and n :: int
  assumes ok: "incidents_ok db" and m: "find_monitor db (um_id m) \<noteq> None"
  defines "out \<equiv> \<not> pb_success p \<and> (incident_open db (um_id m) ''availability'' \<or> um_failure_threshold m \<le> n)"
  shows "\<exists>tr rs db'. apply_availability_transition (scan_uptime_monitor m) p n ([], []) db = Inr ((tr, rs), db')
    \<and> map ui_kind tr = (if out \<and> \<not> incident_open db (um_id m) ''availability'' then [''availability''] else [])
    \<and> map ui_kind rs = (if incident_open db (um_id m) ''availability'' \<and> \<not> out then [''availability''] else [])
    \<and> find_monitor db' = find_monitor db \<and> ud_monitor_seq db' = ud_monitor_seq db
    \<and> (\<forall>j k. incident_open db' j k = (if j = um_id m \<and> k = ''availability'' then out else incident_open db j k))"
proof (cases "active_incident db (um_id m) ''availability''")
  case None
  then have closed: "\<not> incident_open db (um_id m) ''availability''" by (simp add: active_incident_open)
  show ?thesis
  proof (cases out)
    case False
    with None closed show ?thesis
      by (auto simp: apply_availability_transition_def uptime_names out_def)
  next
    case True
    obtain m' where "find_monitor db (um_id m) = Some m'" using m by blast
    from create_incident_succeeds [OF closed this, of "availability_message n (pb_error p)" "pb_checked_at p"] True None closed
    show ?thesis by (auto simp: apply_availability_transition_def uptime_names out_def)
  qed
next
  case (Some x)
  then have op: "incident_open db (um_id m) ''availability''" using active_incident_open by (metis option.distinct(1))
  obtain x' db' where r: "resolve_incident x (pb_checked_at p) db = (x', db')" by fastforce
  from resolve_incident_closes [OF ok Some r] r Some op show ?thesis
    by (auto simp: apply_availability_transition_def uptime_names out_def)
qed

lemma certificate_refines:
  fixes m :: monitor_row
  assumes ok: "incidents_ok db" and m: "find_monitor db (um_id m) \<noteq> None"
  shows "\<exists>tr' rs' db'. apply_certificate_transition (scan_uptime_monitor m) p (tr, rs) db = Inr ((tr @ tr', rs @ rs'), db')
    \<and> map ui_kind tr' = (if pb_tls_expiring p \<and> \<not> incident_open db (um_id m) ''certificate'' then [''certificate''] else [])
    \<and> map ui_kind rs' = (if incident_open db (um_id m) ''certificate'' \<and> \<not> pb_tls_expiring p then [''certificate''] else [])
    \<and> find_monitor db' = find_monitor db \<and> ud_monitor_seq db' = ud_monitor_seq db
    \<and> (\<forall>j k. incident_open db' j k = (if j = um_id m \<and> k = ''certificate'' then pb_tls_expiring p else incident_open db j k))"
proof (cases "active_incident db (um_id m) ''certificate''")
  case None
  then have closed: "\<not> incident_open db (um_id m) ''certificate''" by (simp add: active_incident_open)
  show ?thesis
  proof (cases "pb_tls_expiring p")
    case False
    with None closed show ?thesis by (auto simp: apply_certificate_transition_def uptime_names)
  next
    case True
    obtain m' where "find_monitor db (um_id m) = Some m'" using m by blast
    from create_incident_succeeds [OF closed this, of "certificate_message p" "pb_checked_at p"] True None closed
    show ?thesis by (auto simp: apply_certificate_transition_def uptime_names)
  qed
next
  case (Some x)
  then have op: "incident_open db (um_id m) ''certificate''" using active_incident_open by (metis option.distinct(1))
  obtain x' db' where r: "resolve_incident x (pb_checked_at p) db = (x', db')" by fastforce
  from resolve_incident_closes [OF ok Some r] r Some op show ?thesis
    by (auto simp: apply_certificate_transition_def uptime_names)
qed

lemma spec_probe_checked_at [simp]: "spec_probe (p\<lparr>pb_checked_at := t\<rparr>) = spec_probe p"
  by (simp add: spec_probe_def probe_status_def fun_eq_iff)

lemma probe_tx_refines:
  assumes inv: "uptime_inv db" and m: "find_monitor db i = Some m"
  shows "\<exists>res tr rs db'. apply_probe_tx i p db = Inr ((res, tr, rs), db')
    \<and> (map ui_kind tr, map ui_kind rs) = fst (spec_probe p (health_of db m))
    \<and> find_monitor db' i \<noteq> None
    \<and> abs_uptime db' = spec_at i (\<lambda>h. snd (spec_probe p h)) (abs_uptime db)"
proof -
  define n where "n = probe_failures p (um_consecutive_failures m)"
  define res where "res = probe_result_row (ud_result_seq db + 1) i p"
  define db1 where "db1 = set_monitors i (record_probe p n)
    (db\<lparr>ud_results := ud_results db @ [res], ud_result_seq := ud_result_seq db + 1\<rparr>)"
  have i: "um_id m = i" by (rule um_id_find [OF m])
  have res: "ur_monitor_id res = i" "ur_id res = ud_result_seq db + 1" by (simp_all add: res_def probe_result_row_def)
  have t1: "tables_ok db1"
    unfolding db1_def using inv m res tables_ok_add_result [of db res]
    by (intro tables_ok_set_monitors) (auto simp: uptime_inv_def dest: find_monitor_has)
  have find1: "find_monitor db1 j = (if j = i then map_option (record_probe p n) (find_monitor db j) else find_monitor db j)" for j
    by (simp add: db1_def find_set_monitors)
  have open1: "incident_open db1 = incident_open db" by (simp add: db1_def)
  let ?a = "incident_open db i ''availability''" and ?c = "incident_open db i ''certificate''"
  define out where "out \<longleftrightarrow> \<not> pb_success p \<and> (?a \<or> um_failure_threshold m \<le> n)"
  define ex where "ex \<longleftrightarrow> (if pb_success p \<and> pb_tls_checked p then pb_tls_expiring p else ?c)"
  have ok1: "incidents_ok db1" using t1 by (simp add: tables_ok_def)
  have some1: "find_monitor db1 (um_id m) \<noteq> None" using m i find1 by simp
  obtain tr2 rs2 db2 where av: "apply_availability_transition (scan_uptime_monitor m) p n ([], []) db1 = Inr ((tr2, rs2), db2)"
    and k2: "map ui_kind tr2 = (if out \<and> \<not> ?a then [''availability''] else [])"
      "map ui_kind rs2 = (if ?a \<and> \<not> out then [''availability''] else [])"
    and f2: "find_monitor db2 = find_monitor db1" "ud_monitor_seq db2 = ud_monitor_seq db1"
    and o2: "\<forall>j k. incident_open db2 j k = (if j = i \<and> k = ''availability'' then out else incident_open db j k)"
    using availability_refines [OF ok1 some1, of p n, unfolded i open1 out_def [symmetric]] by blast
  have ok2: "incidents_ok db2" using availability_ok(4) [OF av t1] by (simp add: tables_ok_def)
  have some2: "find_monitor db2 (um_id m) \<noteq> None" using some1 f2 by simp
  have c2: "incident_open db2 i ''certificate'' = ?c" using o2 by simp
  obtain tr rs db3 where ce: "(if pb_success p \<and> pb_tls_checked p
        then apply_certificate_transition (scan_uptime_monitor m) p (tr2, rs2) db2 else Inr ((tr2, rs2), db2)) = Inr ((tr, rs), db3)"
    and k3: "map ui_kind tr = map ui_kind tr2 @ (if ex \<and> \<not> ?c then [''certificate''] else [])"
      "map ui_kind rs = map ui_kind rs2 @ (if ?c \<and> \<not> ex then [''certificate''] else [])"
    and f3: "find_monitor db3 = find_monitor db1" "ud_monitor_seq db3 = ud_monitor_seq db1"
    and o3: "\<forall>j k. incident_open db3 j k = (if j = i \<and> k = ''certificate'' then ex else incident_open db2 j k)"
  proof (cases "pb_success p \<and> pb_tls_checked p")
    case True
    then have "ex = pb_tls_expiring p" by (simp add: ex_def)
    with True certificate_refines [OF ok2 some2, of p tr2 rs2, unfolded i c2] f2 that show ?thesis by force
  next
    case False
    with c2 f2 that [of tr2 rs2 db2] show ?thesis by (auto simp: ex_def)
  qed
  define db' where "db' = prune_uptime_results i db3"
  have tx: "apply_probe_tx i p db = Inr ((res, tr, rs), db')"
    using m av ce unfolding apply_probe_tx_def get_monitor_def by (simp add: Let_def db'_def db1_def n_def res_def)
  have health': "health_of db' (record_probe p n m) = snd (spec_probe p (health_of db m))"
    using o2 o3 i by (simp add: health_of_def spec_probe_def Let_def db'_def out_def ex_def n_def probe_failures_def
        config_of_def record_probe_def)
  have other: "health_of db' q = health_of db q" if "um_id q \<noteq> i" for q
    using o2 o3 that by (simp add: health_of_def db'_def)
  have "monitors_of db' = (monitors_of db)(i := map_option (\<lambda>h. snd (spec_probe p h)) (monitors_of db i))"
    using health' other m f3
    by (auto simp: monitors_of_def fun_eq_iff db'_def find1 intro!: option.map_cong0 dest: um_id_find)
  moreover have "ud_monitor_seq db' = ud_monitor_seq db" by (simp add: db'_def prune_frame f3 db1_def)
  ultimately have "abs_uptime db' = spec_at i (\<lambda>h. snd (spec_probe p h)) (abs_uptime db)"
    by (simp add: abs_uptime_def spec_at_def)
  moreover have "(map ui_kind tr, map ui_kind rs) = fst (spec_probe p (health_of db m))"
    using k2 k3 i by (simp add: spec_probe_def health_of_def Let_def out_def ex_def n_def probe_failures_def config_of_def)
  moreover have "find_monitor db' i \<noteq> None" using m by (simp add: db'_def f3 find1)
  ultimately show ?thesis using tx by blast
qed

lemma probe_refines:
  assumes inv: "uptime_inv db"
  shows "uptime_output (ApplyProbe now i p) db = fst (spec_op (ApplyProbe now i p) (abs_uptime db))
    \<and> abs_uptime (apply_uptime_op (ApplyProbe now i p) db) = snd (spec_op (ApplyProbe now i p) (abs_uptime db))"
proof -
  define q where "q = (if is_zero (pb_checked_at p) then p\<lparr>pb_checked_at := now\<rparr> else p)"
  have sp: "spec_probe q = spec_probe p" by (simp add: q_def)
  show ?thesis
  proof (cases "find_monitor db i")
    case None
    then have "apply_probe_tx i q db = Inl UptimeNoRows" by (simp add: apply_probe_tx_def get_monitor_def)
    with None show ?thesis
      by (simp add: uptime_output_def apply_probe_def run_tx_def Let_def q_def [symmetric] abs_uptime_def monitors_of_def
          spec_at_def fun_eq_iff)
  next
    case (Some m)
    from probe_tx_refines [OF inv Some, of q] obtain res tr rs db' where
      tx: "apply_probe_tx i q db = Inr ((res, tr, rs), db')"
      and k: "(map ui_kind tr, map ui_kind rs) = fst (spec_probe p (health_of db m))"
      and f: "find_monitor db' i \<noteq> None"
      and a: "abs_uptime db' = spec_at i (\<lambda>h. snd (spec_probe p h)) (abs_uptime db)"
      unfolding sp by blast
    from f obtain m' where "reload_monitor db' i = Inr m'" by (auto simp: reload_monitor_def get_monitor_def)
    with tx k a Some show ?thesis
      by (simp add: uptime_output_def apply_probe_def run_tx_def Let_def q_def [symmetric] abs_uptime_def monitors_of_def)
  qed
qed

lemma no_incident_beyond:
  assumes "uptime_inv db" "ud_monitor_seq db < i" shows "\<not> incident_open db i kind"
  using assms by (force simp: uptime_inv_def tables_ok_def incidents_ok_def monitors_ok_def has_monitor_def
      incident_open_def list_ex_iff active_of_def)

lemma create_refines:
  assumes inv: "uptime_inv db"
  shows "abs_uptime (snd (create_monitor now m db)) = snd (spec_op (CreateMonitor now m) (abs_uptime db))"
proof -
  let ?i = "ud_monitor_seq db + 1"
  define db' where "db' = snd (create_monitor now m db)"
  have db': "db' = db\<lparr>ud_monitors := ud_monitors db @ [new_monitor_row now ?i m], ud_monitor_seq := ?i\<rparr>"
    by (simp add: db'_def create_monitor_def Let_def)
  have "find_monitor db ?i = None"
    using inv by (force simp: find_monitor_def find_None_set uptime_inv_def tables_ok_def monitors_ok_def)
  then have find: "find_monitor db' j = (if j = ?i then Some (new_monitor_row now ?i m) else find_monitor db j)" for j
    by (auto simp: find_monitor_def db' find_append split: option.splits)
  have open_eq: "incident_open db' = incident_open db" by (simp add: incident_open_def db' fun_eq_iff)
  have "health_of db' (new_monitor_row now ?i m) = fresh_health (config_of m) (um_enabled m)"
    using no_incident_beyond [OF inv, of ?i]
    by (simp add: health_of_def open_eq fresh_health_def config_of_def new_monitor_row_def uptime_names)
  moreover have "health_of db' = health_of db" by (simp add: health_of_def open_eq fun_eq_iff)
  ultimately have "monitors_of db' = (monitors_of db)(?i \<mapsto> fresh_health (config_of m) (um_enabled m))"
    by (intro ext) (simp add: monitors_of_def find)
  moreover have "ud_monitor_seq db' = ?i" by (simp add: db')
  ultimately show ?thesis by (simp add: abs_uptime_def flip: db'_def)
qed

lemma abs_set_monitors:
  assumes "\<And>m. um_id (f m) = um_id m" "incident_open db' = incident_open db"
    "find_monitor db' = find_monitor (set_monitors i f db)" "ud_monitor_seq db' = ud_monitor_seq db"
    "\<And>m. find_monitor db i = Some m \<Longrightarrow> g (health_of db m) = health_of db (f m)"
  shows "abs_uptime db' = spec_at i g (abs_uptime db)"
proof -
  have h: "health_of db' = health_of db" using assms(2) by (simp add: health_of_def fun_eq_iff)
  have "monitors_of db' = (monitors_of db)(i := map_option g (monitors_of db i))"
    using assms(1,3,5) by (auto simp: monitors_of_def fun_eq_iff find_set_monitors h split: option.splits
        intro!: arg_cong [of _ _ Some] simp: map_option_case)
  with assms(4) show ?thesis by (simp add: abs_uptime_def spec_at_def)
qed

lemma abs_resolve:
  "abs_uptime (resolve_active_incidents i t db) = spec_at i (\<lambda>h. h\<lparr>hh_outage := False, hh_expiring := False\<rparr>) (abs_uptime db)"
proof -
  let ?db = "resolve_active_incidents i t db"
  have "health_of ?db m = (if um_id m = i then (health_of db m)\<lparr>hh_outage := False, hh_expiring := False\<rparr> else health_of db m)" for m
    by (simp add: health_of_def incident_open_resolve_active)
  then have "monitors_of ?db = (monitors_of db)(i := map_option (\<lambda>h. h\<lparr>hh_outage := False, hh_expiring := False\<rparr>) (monitors_of db i))"
    by (auto simp: monitors_of_def fun_eq_iff dest: um_id_find split: option.splits simp: map_option_case)
  then show ?thesis by (simp add: abs_uptime_def spec_at_def resolve_active_incidents_def)
qed

lemma spec_at_comp: "spec_at i f (spec_at i g s) = spec_at i (\<lambda>h. f (g h)) s"
  by (simp add: spec_at_def option.map_comp comp_def)

lemma spec_at_cong:
  "(\<And>h. us_monitors s i = Some h \<Longrightarrow> f h = g h) \<Longrightarrow> spec_at i f s = spec_at i g s"
  by (auto simp: spec_at_def fun_eq_iff map_option_case split: option.splits)

lemma update_refines: "abs_uptime (snd (update_monitor now m db)) = spec_at (um_id m) (spec_update m) (abs_uptime db)"
proof (cases "find_monitor db (um_id m)")
  case None
  then show ?thesis by (simp add: update_monitor_def get_monitor_def abs_uptime_def spec_at_def monitors_of_def fun_eq_iff)
next
  case (Some e)
  let ?i = "um_id m"
  have e: "us_monitors (abs_uptime db) ?i = Some (health_of db e)" using Some by (simp add: abs_uptime_def monitors_of_def)
  have step1: "abs_uptime (set_monitors ?i (configure_row now m) db) = spec_at ?i (\<lambda>h. h\<lparr>hh_config := config_of m\<rparr>) (abs_uptime db)"
    by (rule abs_set_monitors [where f = "configure_row now m"]) (simp_all add: health_of_def configure_row_def config_of_def)
  show ?thesis
  proof (cases "uptime_materially_changed e m")
    case False
    then have "hh_config (health_of db e) = config_of m" by (simp add: materially_changed_iff health_of_def)
    then have "spec_at ?i (\<lambda>h. h\<lparr>hh_config := config_of m\<rparr>) (abs_uptime db) = spec_at ?i (spec_update m) (abs_uptime db)"
      by (intro spec_at_cong) (simp add: e spec_update_def)
    with False Some step1 show ?thesis by (simp add: update_monitor_def get_monitor_def Let_def materially_changed_iff)
  next
    case True
    then have ne: "hh_config (health_of db e) \<noteq> config_of m" by (simp add: materially_changed_iff health_of_def)
    have step2: "abs_uptime (set_monitors ?i reset_row d) = spec_at ?i (\<lambda>h. h\<lparr>hh_status := ''pending'', hh_failures := 0\<rparr>) (abs_uptime d)" for d
      by (rule abs_set_monitors [where f = reset_row]) (simp_all add: health_of_def reset_row_def config_of_def uptime_names)
    have "spec_at ?i (\<lambda>h. h\<lparr>hh_config := config_of m, hh_status := ''pending'', hh_failures := 0, hh_outage := False,
        hh_expiring := False\<rparr>) (abs_uptime db) = spec_at ?i (spec_update m) (abs_uptime db)"
      using ne by (intro spec_at_cong) (simp add: e spec_update_def fresh_health_def)
    with True Some step1 step2 show ?thesis
      by (simp add: update_monitor_def get_monitor_def Let_def materially_changed_iff abs_resolve spec_at_comp)
  qed
qed

lemma enable_refines: "abs_uptime (snd (set_monitor_enabled now i b db)) = spec_at i (spec_enable b) (abs_uptime db)"
proof (cases "find_monitor db i")
  case None
  then have "count_rows (\<lambda>m. um_id m = i) (ud_monitors db) = 0"
    by (simp add: find_monitor_def find_None_set count_rows_eq_0)
  with None show ?thesis by (simp add: set_monitor_enabled_def abs_uptime_def spec_at_def monitors_of_def fun_eq_iff)
next
  case (Some e)
  then have c: "count_rows (\<lambda>m. um_id m = i) (ud_monitors db) \<noteq> 0"
    by (auto simp: count_rows_eq_0 dest: find_monitor_has)
  have step1: "abs_uptime (set_monitors i (\<lambda>r. r\<lparr>um_enabled := b, um_updated_at := now\<rparr>) db)
      = spec_at i (\<lambda>h. h\<lparr>hh_enabled := b\<rparr>) (abs_uptime db)"
    by (rule abs_set_monitors [where f = "\<lambda>r. r\<lparr>um_enabled := b, um_updated_at := now\<rparr>"])
      (simp_all add: health_of_def config_of_def)
  have step2: "abs_uptime (set_monitors i enable_row d) = spec_at i (\<lambda>h. h\<lparr>hh_status := ''pending'', hh_failures := 0\<rparr>) (abs_uptime d)" for d
    by (rule abs_set_monitors [where f = enable_row]) (simp_all add: health_of_def enable_row_def config_of_def uptime_names)
  have "spec_enable True = (\<lambda>h. h\<lparr>hh_enabled := True, hh_status := ''pending'', hh_failures := 0\<rparr>)"
    "spec_enable False = (\<lambda>h. h\<lparr>hh_enabled := False, hh_outage := False, hh_expiring := False\<rparr>)"
    by (simp_all add: spec_enable_def fun_eq_iff)
  with c step1 step2 show ?thesis
    by (cases b) (simp_all add: set_monitor_enabled_def Let_def abs_resolve spec_at_comp)
qed

lemma delete_refines: "abs_uptime (snd (delete_monitor i db)) = snd (spec_op (DeleteMonitor i) (abs_uptime db))"
proof -
  let ?db = "snd (delete_monitor i db)"
  have find: "find_monitor ?db j = (if j = i then None else find_monitor db j)" for j
  proof -
    have "List.find (\<lambda>m. um_id m = j) (delete_rows (\<lambda>m. um_id m = i) ms) =
        (if j = i then None else List.find (\<lambda>m. um_id m = j) ms)" for ms :: "monitor_row list"
      by (induction ms) auto
    then show ?thesis by (simp add: find_monitor_def delete_monitor_def)
  qed
  have "incident_open ?db j k = incident_open db j k" if "j \<noteq> i" for j k
    using that by (auto simp: incident_open_def list_ex_iff delete_monitor_def active_of_def)
  then have "monitors_of ?db = (monitors_of db)(i := None)"
    by (auto simp: monitors_of_def fun_eq_iff find health_of_def dest: um_id_find intro!: option.map_cong0)
  then show ?thesis by (simp add: abs_uptime_def delete_monitor_def)
qed

lemma notification_refines: "abs_uptime (update_incident_notification k r s m t db) = abs_uptime db"
proof -
  let ?db = "update_incident_notification k r s m t db"
  have "list_ex Q (update_rows P f xs) = list_ex Q xs" if "\<And>x. Q (f x) = Q x"
    for Q P and f :: "incident_row \<Rightarrow> incident_row" and xs
    using that by (induction xs) auto
  then have "incident_open ?db = incident_open db"
    by (simp add: incident_open_def fun_eq_iff update_incident_notification_def active_of_def)
  then have "health_of ?db = health_of db" by (simp add: health_of_def fun_eq_iff)
  moreover have "find_monitor ?db = find_monitor db" "ud_monitor_seq ?db = ud_monitor_seq db"
    by (simp_all add: find_monitor_def update_incident_notification_def fun_eq_iff)
  ultimately show ?thesis by (simp add: abs_uptime_def monitors_of_def [abs_def])
qed

lemma spec_op_silent: "fst (spec_op (CreateMonitor t m) s) = ([], [])" "fst (spec_op (DeleteMonitor i) s) = ([], [])"
  by simp_all

lemma uptime_op_refines:
  assumes "uptime_inv db"
  shows "uptime_output op db = fst (spec_op op (abs_uptime db))
    \<and> abs_uptime (apply_uptime_op op db) = snd (spec_op op (abs_uptime db))"
  using probe_refines [OF assms] create_refines [OF assms] spec_op_silent
  by (cases op) (simp_all add: uptime_output_def update_refines enable_refines delete_refines notification_refines
      del: spec_op.simps(1,4) add: spec_op.simps(2,3,6))

lemma run_refines:
  "uptime_inv db \<Longrightarrow> run_spec ops (abs_uptime db) = (uptime_outputs ops db, abs_uptime (run_uptime ops db))"
proof (induction ops arbitrary: db)
  case (Cons op ops)
  have "spec_op op (abs_uptime db) = (uptime_output op db, abs_uptime (apply_uptime_op op db))"
    using uptime_op_refines [OF Cons.prems, of op] by (simp add: prod_eq_iff)
  with Cons.IH [OF uptime_inv_step [OF Cons.prems, of op]] show ?case by (simp add: run_uptime_def)
qed (simp add: run_uptime_def)

text \<open>C15: The tables of the uptime store refine the automaton of monitor health: from the empty database, every
  sequence of operations triggers and resolves exactly the incidents the automaton says, and leaves
  the tables in the state the automaton is in.\<close>

theorem uptime_store_refines_automaton:
  "run_spec ops \<lparr>us_last = 0, us_monitors = Map.empty\<rparr> =
     (uptime_outputs ops empty_uptime_db, abs_uptime (run_uptime ops empty_uptime_db))"
proof -
  have "abs_uptime empty_uptime_db = \<lparr>us_last = 0, us_monitors = Map.empty\<rparr>"
    by (simp add: abs_uptime_def monitors_of_def empty_uptime_db_def find_monitor_def fun_eq_iff)
  with run_refines [OF uptime_inv_empty, of ops] show ?thesis by simp
qed

section \<open>Series of probes\<close>

definition spec_probes :: "uptime_probe_result list \<Rightarrow> monitor_health \<Rightarrow> monitor_health" where
  "spec_probes ps h = fold (\<lambda>p h. snd (spec_probe p h)) ps h"

definition failing_run :: "uptime_probe_result list \<Rightarrow> nat" where
  "failing_run ps = length (takeWhile (\<lambda>p. \<not> pb_success p) (rev ps))"

lemma failing_run_snoc: "failing_run (ps @ [p]) = (if pb_success p then 0 else Suc (failing_run ps))"
  by (simp add: failing_run_def)

lemma spec_probes_outage:
  assumes "hh_failures h = 0" "\<not> hh_outage h" "1 \<le> pc_threshold (hh_config h)"
  shows "hh_failures (spec_probes ps h) = int (failing_run ps)
    \<and> hh_outage (spec_probes ps h) = (pc_threshold (hh_config h) \<le> int (failing_run ps))
    \<and> hh_config (spec_probes ps h) = hh_config h"
proof (induction ps rule: rev_induct)
  case Nil
  then show ?case using assms by (simp add: spec_probes_def failing_run_def)
next
  case (snoc p ps)
  then show ?case using assms by (auto simp: spec_probes_def spec_probe_def Let_def failing_run_snoc)
qed

lemma abs_probes:
  assumes "uptime_inv db" "monitors_of db i = Some h"
  shows "monitors_of (run_uptime (map (\<lambda>(t, p). ApplyProbe t i p) ps) db) i = Some (spec_probes (map snd ps) h)"
  using assms
proof (induction ps arbitrary: db h)
  case (Cons tp ps)
  obtain t p where tp: "tp = (t, p)" by (cases tp)
  let ?db = "apply_uptime_op (ApplyProbe t i p) db"
  have "abs_uptime ?db = spec_at i (\<lambda>h. snd (spec_probe p h)) (abs_uptime db)"
    using uptime_op_refines [OF Cons.prems(1), of "ApplyProbe t i p"] by simp
  then have "monitors_of ?db i = Some (snd (spec_probe p h))"
    using Cons.prems(2) by (simp add: abs_uptime_def spec_at_def fun_eq_iff)
  from Cons.IH [OF uptime_inv_step [OF Cons.prems(1)] this] show ?case by (simp add: tp run_uptime_def spec_probes_def)
qed (simp add: run_uptime_def spec_probes_def)

text \<open>C16: For a monitor without failures and without an outage, an outage is on record after a series of probes
  exactly when the series ends in at least as many failures as the threshold; the failure
  counter is the length of that ending.\<close>

theorem outage_after_threshold:
  assumes "find_monitor (run_uptime ops empty_uptime_db) i = Some m" "um_consecutive_failures m = 0"
    and "\<not> incident_open (run_uptime ops empty_uptime_db) i ''availability''" "1 \<le> um_failure_threshold m"
  shows "let db = run_uptime (map (\<lambda>(t, p). ApplyProbe t i p) ps) (run_uptime ops empty_uptime_db);
             n = length (takeWhile (\<lambda>tp. \<not> pb_success (snd tp)) (rev ps))
         in incident_open db i ''availability'' = (um_failure_threshold m \<le> int n)
          \<and> map_option um_consecutive_failures (find_monitor db i) = Some (int n)"
proof -
  let ?db = "run_uptime ops empty_uptime_db"
  let ?db' = "run_uptime (map (\<lambda>(t, p). ApplyProbe t i p) ps) ?db"
  have i: "um_id m = i" using um_id_find [OF assms(1)] .
  have h: "monitors_of ?db i = Some (health_of ?db m)" using assms(1) by (simp add: monitors_of_def)
  have "hh_failures (health_of ?db m) = 0" "\<not> hh_outage (health_of ?db m)"
    "pc_threshold (hh_config (health_of ?db m)) = um_failure_threshold m"
    using assms i by (simp_all add: health_of_def config_of_def)
  with spec_probes_outage [of "health_of ?db m" "map snd ps"] assms(4)
  have sp: "hh_failures (spec_probes (map snd ps) (health_of ?db m)) = int (failing_run (map snd ps))"
    "hh_outage (spec_probes (map snd ps) (health_of ?db m)) = (um_failure_threshold m \<le> int (failing_run (map snd ps)))"
    by simp_all
  from abs_probes [OF uptime_reached_inv h] obtain m' where m': "find_monitor ?db' i = Some m'"
    "health_of ?db' m' = spec_probes (map snd ps) (health_of ?db m)" by (auto simp: monitors_of_def)
  have "failing_run (map snd ps) = length (takeWhile (\<lambda>tp. \<not> pb_success (snd tp)) (rev ps))"
    by (simp add: failing_run_def rev_map takeWhile_map comp_def)
  moreover have "hh_failures (health_of ?db' m') = um_consecutive_failures m'"
    "hh_outage (health_of ?db' m') = incident_open ?db' i ''availability''"
    using um_id_find [OF m'(1)] by (simp_all add: health_of_def)
  ultimately show ?thesis using sp m' by (simp add: Let_def)
qed

section \<open>Witnesses\<close>

definition sample_probe :: uptime_probe_result where
  "sample_probe = \<lparr>pb_success = False, pb_latency_ms = 0, pb_status_code = 0, pb_error = [], pb_tls_expires_at = None,
     pb_tls_checked = False, pb_tls_expiring = False, pb_checked_at = 20\<rparr>"

lemma sample_uptime: "run_uptime [CreateMonitor 10 sample_monitor] empty_uptime_db
  = empty_uptime_db\<lparr>ud_monitors := [new_monitor_row 10 1 sample_monitor], ud_monitor_seq := 1\<rparr>"
  by (simp add: run_uptime_def create_monitor_def empty_uptime_db_def Let_def)

lemma sample_find: "find_monitor (run_uptime [CreateMonitor 10 sample_monitor] empty_uptime_db) 1
  = Some (new_monitor_row 10 1 sample_monitor)"
  unfolding sample_uptime by (simp add: find_monitor_def)

theorem outage_after_threshold_witness:
  "incident_open (run_uptime [ApplyProbe 20 1 sample_probe, ApplyProbe 20 1 sample_probe]
     (run_uptime [CreateMonitor 10 sample_monitor] empty_uptime_db)) 1 ''availability''"
proof -
  have "\<not> incident_open (run_uptime [CreateMonitor 10 sample_monitor] empty_uptime_db) 1 ''availability''"
    unfolding sample_uptime by (simp add: incident_open_def empty_uptime_db_def)
  from outage_after_threshold [OF sample_find _ this, of "[(20, sample_probe), (20, sample_probe)]"] show ?thesis
    by (simp add: new_monitor_row_def sample_monitor_def sample_probe_def Let_def)
qed

theorem results_are_bounded_witness:
  "\<exists>t db. apply_probe 20 1 sample_probe (run_uptime [CreateMonitor 10 sample_monitor] empty_uptime_db) = (Inr t, db)
     \<and> count_rows (\<lambda>r. ur_monitor_id r = 1) (ud_results db) \<le> 200"
proof -
  let ?db = "run_uptime [CreateMonitor 10 sample_monitor] empty_uptime_db"
  from probe_tx_refines [OF uptime_reached_inv sample_find, of sample_probe] obtain res tr rs db' where
    tx: "apply_probe_tx 1 sample_probe ?db = Inr ((res, tr, rs), db')" and f: "find_monitor db' 1 \<noteq> None" by blast
  from f obtain m' where "reload_monitor db' 1 = Inr m'" by (auto simp: reload_monitor_def get_monitor_def)
  with tx have "\<exists>t. apply_probe 20 1 sample_probe ?db = (Inr t, db')"
    by (simp add: apply_probe_def run_tx_def sample_probe_def is_zero_def)
  then obtain t where t: "apply_probe 20 1 sample_probe ?db = (Inr t, db')" by blast
  from results_are_bounded [OF t, of 1] t show ?thesis by blast
qed

end
