(* ===== verification/UptimeProbe.thy ===== *)
theory UptimeProbe
  imports UptimeModel
begin

text \<open>
  \<^verbatim>\<open>internal/server/uptime/probe.go\<close>: what a probe makes of the answer of the network.  The HTTP client
  and the dialer are outside; their answers are arguments, an error given by the tests the code
  applies to it.
\<close>

section \<open>Answers of the network\<close>

record net_error =
  ne_too_many_redirects :: bool
  ne_unsupported_redirect :: bool
  ne_context :: bool
  ne_dns :: bool
  ne_unknown_authority :: bool
  ne_hostname :: bool
  ne_certificate :: bool
  ne_timeout :: bool
  ne_url :: bool
  ne_text :: string

text \<open>\<open>HttpResponse\<close>: status code and, over TLS with a certificate, the end of its validity.\<close>

datatype http_reply = RequestInvalid | HttpFailed net_error | HttpResponse int "time option"

type_synonym tcp_reply = "net_error option"

definition max_http_redirects :: nat where "max_http_redirects = 5"

datatype redirect_error = TooManyRedirects | UnsupportedRedirect

text \<open>The client's \<open>CheckRedirect\<close>; \<open>via\<close> counts the requests already made.\<close>

definition check_redirect :: "nat \<Rightarrow> string \<Rightarrow> bool \<Rightarrow> redirect_error option" where
  "check_redirect via scheme has_user =
     (if via > max_http_redirects then Some TooManyRedirects
      else if scheme \<noteq> ''http'' \<and> scheme \<noteq> ''https'' then Some UnsupportedRedirect
      else if has_user then Some UnsupportedRedirect
      else None)"

definition classify_probe_error :: "(nat \<Rightarrow> nat) \<Rightarrow> net_error \<Rightarrow> string" where
  "classify_probe_error ul e =
     (if ne_too_many_redirects e then ''HTTP '' @ runes [37325, 23450, 21521, 27425, 25968, 36229, 36807, 32, 53, 32, 27425]
      else if ne_unsupported_redirect e then ''HTTP '' @ runes [37325, 23450, 21521, 30446, 26631, 19981, 21463, 25903, 25345]
      else if ne_context e then runes [36830, 25509, 36229, 26102]
      else if ne_dns e then ''DNS '' @ runes [35299, 26512, 22833, 36133]
      else if ne_unknown_authority e then ''TLS '' @ runes [35777, 20070, 39564, 35777, 22833, 36133]
      else if ne_hostname e then ''TLS '' @ runes [35777, 20070, 20027, 26426, 21517, 19981, 21305, 37197]
      else if ne_certificate e then ''TLS '' @ runes [35777, 20070, 26080, 25928, 25110, 24050, 36807, 26399]
      else if ne_timeout e then runes [36830, 25509, 36229, 26102]
      else (let message = to_lower ul (ne_text e) in
        if contains message ''connection refused'' then runes [36830, 25509, 34987, 25298, 32477]
        else if contains message ''network is unreachable'' \<or> contains message ''no route to host''
        then runes [30446, 26631, 32593, 32476, 19981, 21487, 36798]
        else if ne_url e then ''HTTP '' @ runes [35831, 27714, 22833, 36133]
        else runes [36830, 25509, 22833, 36133]))"

section \<open>Probes\<close>

definition non_negative_milliseconds :: "duration \<Rightarrow> int" where
  "non_negative_milliseconds d = (if d \<le> 0 then 0 else milliseconds d)"

text \<open>The zero value of the result with what every branch sets.\<close>

definition probe_base :: "int \<Rightarrow> string \<Rightarrow> time \<Rightarrow> uptime_probe_result" where
  "probe_base latency err checkedAt = \<lparr>pb_success = False, pb_latency_ms = latency, pb_status_code = 0, pb_error = err,
     pb_tls_expires_at = None, pb_tls_checked = False, pb_tls_expiring = False, pb_checked_at = checkedAt\<rparr>"

definition status_message :: "int \<Rightarrow> uptime_monitor \<Rightarrow> string" where
  "status_message code m = ''HTTP '' @ runes [29366, 24577, 30721, 32] @ show_int code @ runes [32, 19981, 22312, 32]
     @ show_int (um_expected_status_min m) @ ''-'' @ show_int (um_expected_status_max m) @ runes [32, 33539, 22260]"

definition probe_http ::
  "(nat \<Rightarrow> nat) \<Rightarrow> uptime_monitor \<Rightarrow> time \<Rightarrow> time \<Rightarrow> http_reply \<Rightarrow> uptime_probe_result" where
  "probe_http ul m startedAt checkedAt reply =
     (let latency = non_negative_milliseconds (time_sub checkedAt startedAt) in
      case reply of
        RequestInvalid \<Rightarrow> probe_base 0 (''HTTP '' @ runes [35831, 27714, 37197, 32622, 26080, 25928]) checkedAt
      | HttpFailed err \<Rightarrow> probe_base latency (classify_probe_error ul err) checkedAt
      | HttpResponse code notAfter \<Rightarrow>
          (let base = (probe_base latency [] checkedAt)\<lparr>pb_status_code := code\<rparr>;
               result = (case notAfter of
                   None \<Rightarrow> base
                 | Some expiresAt \<Rightarrow> base\<lparr>pb_tls_checked := True, pb_tls_expires_at := Some expiresAt,
                     pb_tls_expiring := expiresAt \<le> checkedAt + um_tls_expiry_threshold_days m * (24 * seconds 3600)\<rparr>)
           in if code < um_expected_status_min m \<or> code > um_expected_status_max m
              then result\<lparr>pb_error := status_message code m\<rparr>
              else result\<lparr>pb_success := True\<rparr>))"

definition probe_tcp ::
  "(nat \<Rightarrow> nat) \<Rightarrow> time \<Rightarrow> time \<Rightarrow> tcp_reply \<Rightarrow> uptime_probe_result" where
  "probe_tcp ul startedAt checkedAt reply =
     (let latency = non_negative_milliseconds (time_sub checkedAt startedAt) in
      case reply of
        Some err \<Rightarrow> probe_base latency (classify_probe_error ul err) checkedAt
      | None \<Rightarrow> (probe_base latency [] checkedAt)\<lparr>pb_success := True\<rparr>)"

definition probe_network ::
  "(nat \<Rightarrow> nat) \<Rightarrow> (string \<Rightarrow> url_parts option) \<Rightarrow> uptime_monitor \<Rightarrow> time \<Rightarrow> time \<Rightarrow> http_reply \<Rightarrow> tcp_reply \<Rightarrow>
     uptime_probe_result" where
  "probe_network ul parse_url m0 startedAt checkedAt http tcp =
     (case validate_monitor ul parse_url m0 of
        Inl _ \<Rightarrow> probe_base 0 (runes [25320, 27979, 37197, 32622, 26080, 25928]) checkedAt
      | Inr m \<Rightarrow>
        if um_type m = monitor_type_http then probe_http ul m startedAt checkedAt http
        else if um_type m = monitor_type_tcp then probe_tcp ul startedAt checkedAt tcp
        else probe_base 0 (runes [25320, 27979, 31867, 22411, 19981, 21463, 25903, 25345]) checkedAt)"

section \<open>Properties\<close>

lemma runes_Cons: "runes (r # rs) = encode_rune r @ runes rs"
  by (simp add: runes_def)

lemma runes_nonempty [simp]: "runes (r # rs) \<noteq> []"
  by (simp add: runes_Cons encode_rune_def Let_def)

lemma classify_nonempty [simp]: "classify_probe_error ul e \<noteq> []"
  by (simp add: classify_probe_error_def Let_def)

text \<open>A probe that fails always says why, one that succeeds reports no error and, over HTTP, a status code
  the monitor expects; the latency is not negative, and a certificate is reported as expiring
  only when one was seen.\<close>

theorem probe_result_consistent:
  "let p = probe_network ul parse_url m startedAt checkedAt http tcp in
     pb_success p = (pb_error p = []) \<and> 0 \<le> pb_latency_ms p \<and> pb_checked_at p = checkedAt
   \<and> pb_tls_checked p = (pb_tls_expires_at p \<noteq> None) \<and> pb_tls_expiring p \<le> pb_tls_checked p"
proof -
  have "0 \<le> non_negative_milliseconds d" for d by (simp add: non_negative_milliseconds_def milliseconds_nonneg)
  moreover have "status_message code m' \<noteq> []" for code m' by (simp add: status_message_def)
  ultimately show ?thesis
    by (auto simp: probe_network_def probe_http_def probe_tcp_def probe_base_def Let_def
        split: sum.split http_reply.split option.split)
qed

end
