(* ===== verification/UptimeEngine.thy ===== *)
theory UptimeEngine
  imports UptimeSpec UptimeProbe Slots
begin

text \<open>
  \<^verbatim>\<open>internal/server/uptime/engine.go\<close>: the sweep, manual checks and configuration changes, which
  reserve their monitor, and the goroutines that run checks under the global slots.  The state
  holds the database, the reservations, the slots and one \<open>check\<close> per goroutine; an event is
  what one goroutine does between two points where another may run.  Answers of the prober and of
  the notifier are arguments of the events.  Configuration changes are those of
  \<^verbatim>\<open>internal/server/api/uptime.go\<close>, which makes them between \<open>BeginMonitorMutation\<close> and its release.
\<close>

section \<open>Notifications\<close>

record uptime_payload =
  yp_monitor_name :: string
  yp_target :: string
  yp_incident_kind :: string
  yp_status :: string
  yp_monitor_state :: string
  yp_latency_ms :: int
  yp_status_code :: int
  yp_error :: string
  yp_tls_expires_at :: "time option"
  yp_triggered_at :: time
  yp_resolved_at :: "time option"

record uptime_delivery =
  yd_sent :: bool
  yd_error :: string
  yd_attempted_at :: time

definition max_delivery_error_runes :: nat where "max_delivery_error_runes = 1024"

text \<open>\<open>[]rune(value)\<close> and back: bytes that are no UTF-8 become the replacement rune.\<close>

definition bounded_delivery_error :: "string \<Rightarrow> string" where
  "bounded_delivery_error v =
     (let rs = map fst (split_runes v)
      in if length rs \<le> max_delivery_error_runes then v
         else concat (map encode_rune (take max_delivery_error_runes rs)))"

definition uptime_payload_of :: "uptime_transition \<Rightarrow> uptime_incident \<Rightarrow> bool \<Rightarrow> uptime_payload" where
  "uptime_payload_of t x recovery =
     \<lparr>yp_monitor_name = um_name (tr_monitor t), yp_target = um_target (tr_monitor t), yp_incident_kind = ui_kind x,
      yp_status = (if recovery then ''resolved'' else ''triggered''), yp_monitor_state = um_status (tr_monitor t),
      yp_latency_ms = ur_latency_ms (tr_result t), yp_status_code = ur_status_code (tr_result t),
      yp_error = ur_error (tr_result t), yp_tls_expires_at = ur_tls_expires_at (tr_result t),
      yp_triggered_at = ui_started_at x, yp_resolved_at = ui_resolved_at x\<rparr>"

section \<open>State\<close>

text \<open>
  Where a goroutine is.  \<open>SweepWait\<close> and \<open>ManualWait\<close> wait for a slot, \<open>Delivering\<close> has the
  notifications still to send, \<open>Releasing\<close> and \<open>Ending\<close> are the deferred \<open>releaseSlot\<close> and \<open>endCheck\<close>,
  \<open>Editing\<close> is a request between \<open>BeginMonitorMutation\<close> and its release.
\<close>

datatype check_pc =
  SweepWait | ManualLoad | ManualWait uptime_monitor | Reloading | Probing uptime_monitor
| Delivering uptime_transition "(uptime_incident \<times> bool) list" | Releasing | Ending | Editing | CheckDone

record check =
  ck_monitor :: int
  ck_pc :: check_pc

text \<open>\<open>ue_sweep\<close>: the time of the sweep in progress and the monitors its loop has still to look at.\<close>

record uptime_engine =
  ue_db :: uptime_db
  ue_active :: "int set"
  ue_slots :: slot_chan
  ue_checks :: "check list"
  ue_sweep :: "time \<times> uptime_monitor list"
  ue_delivered :: "(notification_channel list \<times> uptime_payload) list"

definition default_max_concurrent :: nat where "default_max_concurrent = 8"

definition new_uptime_engine :: "uptime_db \<Rightarrow> uptime_engine" where
  "new_uptime_engine db = \<lparr>ue_db = db, ue_active = {}, ue_slots = make_slots default_max_concurrent, ue_checks = [],
     ue_sweep = (0, []), ue_delivered = []\<rparr>"

definition begin_check :: "int \<Rightarrow> uptime_engine \<Rightarrow> bool \<times> uptime_engine" where
  "begin_check i s = (let (ok, active) = reserve_key i (ue_active s) in (ok, s\<lparr>ue_active := active\<rparr>))"

definition end_check :: "int \<Rightarrow> uptime_engine \<Rightarrow> uptime_engine" where
  "end_check i s = s\<lparr>ue_active := release_key i (ue_active s)\<rparr>"

interpretation monitor_checks: reservations begin_check end_check "\<lambda>s i. i \<in> ue_active s"
  by unfold_locales (auto simp: begin_check_def end_check_def reserve_key_def release_key_def)

definition monitor_due :: "uptime_monitor \<Rightarrow> time \<Rightarrow> bool" where
  "monitor_due m now =
     (if \<not> um_enabled m then False
      else (case um_last_checked_at m of
              None \<Rightarrow> True
            | Some t \<Rightarrow> \<not> now < t + seconds (um_interval_seconds m)))"

section \<open>Starting checks\<close>

definition spawn_check :: "int \<Rightarrow> check_pc \<Rightarrow> uptime_engine \<Rightarrow> uptime_engine" where
  "spawn_check i pc s = s\<lparr>ue_checks := ue_checks s @ [\<lparr>ck_monitor = i, ck_pc = pc\<rparr>]\<rparr>"

definition start_sweep :: "time \<Rightarrow> uptime_engine \<Rightarrow> uptime_engine" where
  "start_sweep now s = s\<lparr>ue_sweep := (now, list_monitors (ue_db s) True)\<rparr>"

text \<open>One iteration of the loop of \<open>Sweep\<close>.\<close>

definition sweep_next :: "uptime_engine \<Rightarrow> uptime_engine option" where
  "sweep_next s =
     (case ue_sweep s of
        (now, []) \<Rightarrow> None
      | (now, m # ms) \<Rightarrow>
        (let s' = s\<lparr>ue_sweep := (now, ms)\<rparr> in
         if \<not> monitor_due m now then Some s'
         else (case begin_check (um_id m) s' of
                 (False, s'') \<Rightarrow> Some s''
               | (True, s'') \<Rightarrow> Some (spawn_check (um_id m) SweepWait s''))))"

text \<open>\<open>CheckNow\<close> and \<open>BeginMonitorMutation\<close> up to the reservation; \<open>False\<close> is \<open>ErrCheckInProgress\<close>.\<close>

definition start_reserved :: "int \<Rightarrow> check_pc \<Rightarrow> uptime_engine \<Rightarrow> bool \<times> uptime_engine" where
  "start_reserved i pc s =
     (case begin_check i s of (False, s') \<Rightarrow> (False, s') | (True, s') \<Rightarrow> (True, spawn_check i pc s'))"

section \<open>Steps of a check\<close>

definition check_at :: "uptime_engine \<Rightarrow> nat \<Rightarrow> check option" where
  "check_at s c = (if c < length (ue_checks s) then Some (ue_checks s ! c) else None)"

definition set_check :: "nat \<Rightarrow> check_pc \<Rightarrow> uptime_engine \<Rightarrow> uptime_engine" where
  "set_check c pc s = s\<lparr>ue_checks := (ue_checks s)[c := (ue_checks s ! c)\<lparr>ck_pc := pc\<rparr>]\<rparr>"

text \<open>The notifications of a transition, in the order \<open>deliverTransitions\<close> sends them.\<close>

definition deliveries :: "uptime_transition \<Rightarrow> (uptime_incident \<times> bool) list" where
  "deliveries t = map (\<lambda>x. (x, False)) (tr_triggered t) @ map (\<lambda>x. (x, True)) (tr_resolved t)"

text \<open>What an editing request does: \<open>UpdateMonitor\<close>, \<open>SetMonitorEnabled\<close> or \<open>DeleteMonitor\<close> of its own monitor.\<close>

datatype edit = EditUpdate time uptime_monitor | EditEnable time bool | EditDelete

definition apply_edit :: "int \<Rightarrow> edit \<Rightarrow> uptime_db \<Rightarrow> uptime_db" where
  "apply_edit i e db = (case e of
     EditUpdate now m \<Rightarrow> apply_uptime_op (UpdateMonitor now (m\<lparr>um_id := i\<rparr>)) db
   | EditEnable now b \<Rightarrow> apply_uptime_op (SetMonitorEnabled now i b) db
   | EditDelete \<Rightarrow> apply_uptime_op (DeleteMonitor i) db)"

text \<open>
  \<open>GetSlot\<close> is the case of \<open>acquireSlot\<close> that sends, \<open>Abandon\<close> the one of a cancelled context.
\<close>

datatype check_event =
  LoadManual | GetSlot | Abandon | Reload time | Probed time uptime_probe_result | Delivered uptime_delivery
| GiveSlot | Edit edit | EndCheck

fun check_step :: "nat \<Rightarrow> check_event \<Rightarrow> uptime_engine \<Rightarrow> uptime_engine option" where
  "check_step c LoadManual s =
     (case check_at s c of None \<Rightarrow> None | Some k \<Rightarrow>
      if ck_pc k \<noteq> ManualLoad then None
      else (case get_monitor (ue_db s) (ck_monitor k) of
              None \<Rightarrow> Some (set_check c Ending s)
            | Some m \<Rightarrow> Some (set_check c (if um_enabled m then ManualWait m else Ending) s)))"
| "check_step c GetSlot s =
     (case check_at s c of None \<Rightarrow> None | Some k \<Rightarrow>
      (case acquire_slot (ue_slots s) of
         None \<Rightarrow> None
       | Some slots \<Rightarrow>
         (case ck_pc k of
            SweepWait \<Rightarrow> Some (set_check c Reloading (s\<lparr>ue_slots := slots\<rparr>))
          | ManualWait m \<Rightarrow> Some (set_check c (Probing m) (s\<lparr>ue_slots := slots\<rparr>))
          | _ \<Rightarrow> None)))"
| "check_step c Abandon s =
     (case check_at s c of None \<Rightarrow> None | Some k \<Rightarrow>
      (case ck_pc k of
         SweepWait \<Rightarrow> Some (set_check c Ending s)
       | ManualWait m \<Rightarrow> Some (set_check c Ending s)
       | _ \<Rightarrow> None))"
| "check_step c (Reload now) s =
     (case check_at s c of None \<Rightarrow> None | Some k \<Rightarrow>
      if ck_pc k \<noteq> Reloading then None
      else (case get_monitor (ue_db s) (ck_monitor k) of
              None \<Rightarrow> Some (set_check c Releasing s)
            | Some m \<Rightarrow> Some (set_check c (if monitor_due m now then Probing m else Releasing) s)))"
| "check_step c (Probed now probe) s =
     (case check_at s c of None \<Rightarrow> None | Some k \<Rightarrow>
      (case ck_pc k of
         Probing m \<Rightarrow>
           (case apply_probe now (um_id m) probe (ue_db s) of
              (Inl _, db) \<Rightarrow> Some (set_check c Releasing (s\<lparr>ue_db := db\<rparr>))
            | (Inr t, db) \<Rightarrow> Some (set_check c (Delivering t (deliveries t)) (s\<lparr>ue_db := db\<rparr>)))
       | _ \<Rightarrow> None))"
| "check_step c (Delivered result) s =
     (case check_at s c of None \<Rightarrow> None | Some k \<Rightarrow>
      (case ck_pc k of
         Delivering t [] \<Rightarrow> Some (set_check c Releasing s)
       | Delivering t ((x, recovery) # rest) \<Rightarrow> Some (set_check c (Delivering t rest)
           (s\<lparr>ue_db := update_incident_notification (ui_id x) recovery (yd_sent result)
                (bounded_delivery_error (yd_error result)) (yd_attempted_at result) (ue_db s),
              ue_delivered := ue_delivered s
                @ [(um_notification_channels (tr_monitor t), uptime_payload_of t x recovery)]\<rparr>))
       | _ \<Rightarrow> None))"
| "check_step c GiveSlot s =
     (case check_at s c of None \<Rightarrow> None | Some k \<Rightarrow>
      if ck_pc k \<noteq> Releasing then None
      else (case release_slot (ue_slots s) of
              None \<Rightarrow> None
            | Some slots \<Rightarrow> Some (set_check c Ending (s\<lparr>ue_slots := slots\<rparr>))))"
| "check_step c (Edit e) s =
     (case check_at s c of None \<Rightarrow> None | Some k \<Rightarrow>
      if ck_pc k \<noteq> Editing then None
      else Some (s\<lparr>ue_db := apply_edit (ck_monitor k) e (ue_db s)\<rparr>))"
| "check_step c EndCheck s =
     (case check_at s c of None \<Rightarrow> None | Some k \<Rightarrow>
      if ck_pc k \<noteq> Ending \<and> ck_pc k \<noteq> Editing then None
      else Some (set_check c CheckDone (end_check (ck_monitor k) s)))"

datatype uptime_event =
  StartSweep time | SweepNext | StartManual int | StartEdit int | CheckEvent nat check_event | AddMonitor time uptime_monitor

definition uptime_step :: "uptime_event \<Rightarrow> uptime_engine \<Rightarrow> uptime_engine option" where
  "uptime_step e s = (case e of
     StartSweep now \<Rightarrow> Some (start_sweep now s)
   | SweepNext \<Rightarrow> sweep_next s
   | StartManual i \<Rightarrow> Some (snd (start_reserved i ManualLoad s))
   | StartEdit i \<Rightarrow> Some (snd (start_reserved i Editing s))
   | CheckEvent c ev \<Rightarrow> check_step c ev s
   | AddMonitor now m \<Rightarrow> Some (s\<lparr>ue_db := apply_uptime_op (CreateMonitor now m) (ue_db s)\<rparr>))"

inductive uptime_reaches :: "uptime_engine \<Rightarrow> uptime_engine \<Rightarrow> bool" for s where
  ue_start: "uptime_reaches s s"
| ue_step: "uptime_reaches s t \<Longrightarrow> uptime_step e t = Some u \<Longrightarrow> uptime_reaches s u"

end
