(* ===== verification/UptimeEngineSpec.thy ===== *)
theory UptimeEngineSpec
  imports UptimeEngine
begin

text \<open>
  What the uptime engine guarantees however its goroutines interleave: one goroutine per monitor,
  at most eight probes at once, and a result recorded for the configuration that was probed.
\<close>

section \<open>The invariant\<close>

definition live :: "check \<Rightarrow> bool" where
  "live k \<longleftrightarrow> ck_pc k \<noteq> CheckDone"

fun holds_slot :: "check_pc \<Rightarrow> bool" where
  "holds_slot Reloading = True" | "holds_slot (Probing _) = True" | "holds_slot (Delivering _ _) = True"
| "holds_slot Releasing = True" | "holds_slot _ = False"

fun loaded :: "check_pc \<Rightarrow> uptime_monitor option" where
  "loaded (ManualWait m) = Some m" | "loaded (Probing m) = Some m" | "loaded _ = None"

definition loaded_ok :: "uptime_db \<Rightarrow> int \<Rightarrow> check_pc \<Rightarrow> bool" where
  "loaded_ok db i pc \<longleftrightarrow> (\<forall>m. loaded pc = Some m \<longrightarrow> get_monitor db i = Some m \<and> um_enabled m)"

definition live_on :: "int \<Rightarrow> check \<Rightarrow> bool" where
  "live_on i k \<longleftrightarrow> live k \<and> ck_monitor k = i"

definition check_inv :: "uptime_engine \<Rightarrow> bool" where
  "check_inv s \<longleftrightarrow> uptime_inv (ue_db s)
     \<and> (\<forall>i. count_rows (live_on i) (ue_checks s) = (if i \<in> ue_active s then 1 else 0))
     \<and> sl_capacity (ue_slots s) = 8 \<and> sl_held (ue_slots s) \<le> 8
     \<and> sl_held (ue_slots s) = count_rows (\<lambda>k. holds_slot (ck_pc k)) (ue_checks s)
     \<and> (\<forall>k\<in>set (ue_checks s). loaded_ok (ue_db s) (ck_monitor k) (ck_pc k))"

lemma loaded_live: "loaded (ck_pc k) = Some m \<Longrightarrow> live k"
  by (auto simp: live_def)

lemma check_at_Some: "check_at s c = Some k \<longleftrightarrow> c < length (ue_checks s) \<and> ue_checks s ! c = k"
  by (auto simp: check_at_def)

lemma other_monitor:
  assumes "check_inv s" "check_at s c = Some k" "live k" "d < length (ue_checks s)" "d \<noteq> c" "live (ue_checks s ! d)"
  shows "ck_monitor (ue_checks s ! d) \<noteq> ck_monitor k"
proof
  assume "ck_monitor (ue_checks s ! d) = ck_monitor k"
  with assms have "2 \<le> count_rows (live_on (ck_monitor k)) (ue_checks s)"
    by (intro count_two_nth [of c _ d]) (auto simp: live_on_def check_at_Some)
  moreover have "count_rows (live_on (ck_monitor k)) (ue_checks s) \<le> 1" using assms(1) by (simp add: check_inv_def)
  ultimately show False by simp
qed

text \<open>A live check moves on, changing at most the rows of its own monitor.\<close>

lemma check_inv_set:
  assumes inv: "check_inv s" and k: "check_at s c = Some k" "live k"
    and db: "uptime_inv db" "\<And>j. j \<noteq> ck_monitor k \<Longrightarrow> get_monitor db j = get_monitor (ue_db s) j"
    and pc: "pc \<noteq> CheckDone" "loaded_ok db (ck_monitor k) pc"
    and slots: "sl_capacity slots = 8" "sl_held slots \<le> 8"
      "sl_held slots + (if holds_slot (ck_pc k) then 1 else 0) = sl_held (ue_slots s) + (if holds_slot pc then 1 else 0)"
  shows "check_inv (set_check c pc (s\<lparr>ue_db := db, ue_slots := slots, ue_delivered := dl\<rparr>))"
proof -
  let ?ks = "(ue_checks s)[c := (ue_checks s ! c)\<lparr>ck_pc := pc\<rparr>]"
  have c: "c < length (ue_checks s)" "ue_checks s ! c = k" using k by (simp_all add: check_at_Some)
  have "count_rows (live_on i) ?ks = count_rows (live_on i) (ue_checks s)" for i
    using count_rows_list_update [OF c(1), of "live_on i" "(ue_checks s ! c)\<lparr>ck_pc := pc\<rparr>"] c(2) k(2) pc(1)
    by (auto simp: live_on_def live_def split: if_splits)
  moreover have "sl_held slots = count_rows (\<lambda>k. holds_slot (ck_pc k)) ?ks"
    using count_rows_list_update [OF c(1), of "\<lambda>k. holds_slot (ck_pc k)" "(ue_checks s ! c)\<lparr>ck_pc := pc\<rparr>"] c(2) inv slots(3)
    by (auto simp: check_inv_def split: if_splits)
  moreover have "loaded_ok db (ck_monitor q) (ck_pc q)" if q: "q \<in> set ?ks" for q
  proof -
    from q obtain d where d: "d < length (ue_checks s)" "q = ?ks ! d" by (auto simp: in_set_conv_nth)
    show ?thesis
    proof (cases "d = c")
      case True
      with d c pc(2) show ?thesis by simp
    next
      case False
      with d have qd: "q = ue_checks s ! d" by simp
      then have "q \<in> set (ue_checks s)" using nth_mem [OF d(1)] by simp
      with inv have ok: "loaded_ok (ue_db s) (ck_monitor q) (ck_pc q)" by (simp add: check_inv_def)
      show ?thesis
      proof (cases "loaded (ck_pc q)")
        case None
        then show ?thesis by (simp add: loaded_ok_def)
      next
        case (Some m)
        then have "ck_monitor q \<noteq> ck_monitor k"
          using other_monitor [OF inv k d(1) False] loaded_live qd by blast
        with ok db(2) show ?thesis by (simp add: loaded_ok_def)
      qed
    qed
  qed
  ultimately show ?thesis using inv db(1) slots(1,2) by (simp add: check_inv_def set_check_def)
qed

text \<open>The common case: only the position changes.\<close>

lemma check_inv_move:
  assumes "check_inv s" "check_at s c = Some k" "live k" "pc \<noteq> CheckDone" "loaded_ok (ue_db s) (ck_monitor k) pc"
    "holds_slot pc = holds_slot (ck_pc k)"
  shows "check_inv (set_check c pc s)"
  using check_inv_set [OF assms(1-3), of "ue_db s" pc "ue_slots s" "ue_delivered s"] assms by (simp add: check_inv_def)

lemma check_inv_slot:
  assumes "check_inv s" "check_at s c = Some k" "live k" "pc \<noteq> CheckDone" "loaded_ok (ue_db s) (ck_monitor k) pc"
    "sl_capacity slots = 8" "sl_held slots \<le> 8"
    "sl_held slots + (if holds_slot (ck_pc k) then 1 else 0) = sl_held (ue_slots s) + (if holds_slot pc then 1 else 0)"
  shows "check_inv (set_check c pc (s\<lparr>ue_slots := slots\<rparr>))"
  using check_inv_set [OF assms(1-3), of "ue_db s" pc slots "ue_delivered s"] assms by (simp add: check_inv_def)

lemma loaded_ok_None: "loaded pc = None \<Longrightarrow> loaded_ok db i pc"
  by (simp add: loaded_ok_def)

section \<open>What an operation does to other monitors\<close>

primrec op_target :: "uptime_op \<Rightarrow> int option" where
  "op_target (CreateMonitor now m) = None"
| "op_target (UpdateMonitor now m) = Some (um_id m)"
| "op_target (SetMonitorEnabled now i b) = Some i"
| "op_target (DeleteMonitor i) = Some i"
| "op_target (ApplyProbe now i p) = Some i"
| "op_target (UpdateIncidentNotification k r s m t) = None"

lemma probe_frame: "j \<noteq> i \<Longrightarrow> find_monitor (snd (apply_probe now i p db)) j = find_monitor db j"
proof -
  assume j: "j \<noteq> i"
  have "find_monitor db' j = find_monitor db j" if tx: "apply_probe_tx i q db = Inr ((res, ch), db')" for q res ch db'
  proof -
    obtain m ch2 db1 db2 db3 where *: "find_monitor db i = Some m"
      "db1 = set_monitors i (record_probe q (probe_failures q (um_consecutive_failures m)))
         (db\<lparr>ud_results := ud_results db @ [res], ud_result_seq := ud_result_seq db + 1\<rparr>)"
      and av: "apply_availability_transition (scan_uptime_monitor m) q (probe_failures q (um_consecutive_failures m)) ([], []) db1
         = Inr (ch2, db2)"
      and ce: "(if pb_success q \<and> pb_tls_checked q then apply_certificate_transition (scan_uptime_monitor m) q ch2 db2
        else Inr (ch2, db2)) = Inr (ch, db3)"
      and db': "db' = prune_uptime_results i db3"
      by (rule apply_probe_tx_steps [OF tx])
    have "ud_monitors db3 = ud_monitors db1" using availability_ok(2) [OF av] certificate_ok(2) ce by (auto split: if_splits)
    then have "find_monitor db' j = find_monitor db1 j" by (simp add: db' find_monitor_def prune_frame)
    with j show ?thesis by (simp add: *(2) find_set_monitors)
  qed
  then show ?thesis by (auto simp: apply_probe_def Let_def run_tx_def split: sum.split prod.split)
qed

lemma op_frame:
  assumes "op_target op \<noteq> Some j" "\<And>now m. op = CreateMonitor now m \<Longrightarrow> find_monitor db j \<noteq> None"
  shows "find_monitor (apply_uptime_op op db) j = find_monitor db j"
proof (cases op)
  case (CreateMonitor now m)
  with assms(2) show ?thesis by (auto simp: create_monitor_def Let_def find_monitor_def find_append)
next
  case (DeleteMonitor i)
  with assms(1) have "i \<noteq> j" by simp
  then have "List.find (\<lambda>m. um_id m = j) (delete_rows (\<lambda>m. um_id m = i) ms) = List.find (\<lambda>m. um_id m = j) ms"
    for ms :: "monitor_row list" by (induction ms) auto
  with DeleteMonitor show ?thesis by (simp add: delete_monitor_def find_monitor_def)
next
  case (UpdateIncidentNotification k r s m t)
  then show ?thesis by (simp add: update_incident_notification_def find_monitor_def)
next
  case (UpdateMonitor now m)
  with assms(1) show ?thesis by (simp add: update_monitor_def Let_def find_set_monitors split: option.split)
next
  case (SetMonitorEnabled now i b)
  with assms(1) show ?thesis by (simp add: set_monitor_enabled_def Let_def find_set_monitors)
next
  case (ApplyProbe now i p)
  with assms(1) show ?thesis by (simp add: probe_frame)
qed

section \<open>Every step keeps the invariant\<close>

lemma check_inv_spawn:
  assumes inv: "check_inv s" and pc: "pc \<noteq> CheckDone" "\<not> holds_slot pc" "loaded pc = None"
  shows "check_inv (snd (start_reserved i pc s))"
proof (cases "i \<in> ue_active s")
  case True
  then show ?thesis using inv by (simp add: start_reserved_def begin_check_def reserve_key_def)
next
  case False
  have "count_rows (live_on j) (ue_checks s @ [\<lparr>ck_monitor = i, ck_pc = pc\<rparr>])
      = (if j = i \<or> j \<in> ue_active s then 1 else 0)" for j
    using inv False pc(1) by (auto simp: check_inv_def live_on_def live_def)
  with inv pc False show ?thesis
    by (auto simp: start_reserved_def begin_check_def reserve_key_def spawn_check_def check_inv_def loaded_ok_None)
qed

lemma check_inv_sweep: "check_inv s \<Longrightarrow> check_inv (s\<lparr>ue_sweep := w\<rparr>)"
  by (simp add: check_inv_def)

lemma check_inv_sweep_next:
  assumes inv: "check_inv s" and st: "sweep_next s = Some s'" shows "check_inv s'"
proof -
  obtain now m ms where w: "ue_sweep s = (now, m # ms)"
    using st by (auto simp: sweep_next_def split: prod.splits list.splits)
  let ?s = "s\<lparr>ue_sweep := (now, ms)\<rparr>"
  have "s' = ?s \<or> s' = snd (start_reserved (um_id m) SweepWait ?s)"
    using st by (auto simp: sweep_next_def w start_reserved_def Let_def split: if_splits prod.splits bool.splits)
  moreover have "check_inv ?s" by (rule check_inv_sweep [OF inv])
  ultimately show ?thesis using check_inv_spawn [of ?s SweepWait "um_id m"] by auto
qed

lemma check_inv_end:
  assumes inv: "check_inv s" and k: "check_at s c = Some k" "live k" "\<not> holds_slot (ck_pc k)"
  shows "check_inv (set_check c CheckDone (end_check (ck_monitor k) s))"
proof -
  let ?ks = "(ue_checks s)[c := (ue_checks s ! c)\<lparr>ck_pc := CheckDone\<rparr>]"
  have c: "c < length (ue_checks s)" "ue_checks s ! c = k" using k by (simp_all add: check_at_Some)
  have one: "count_rows (live_on i) (ue_checks s) = (if i \<in> ue_active s then 1 else 0)" for i
    using inv by (simp add: check_inv_def)
  have "count_rows (live_on i) ?ks = (if i \<in> ue_active s - {ck_monitor k} then 1 else 0)" for i
    using count_rows_list_update [OF c(1), of "live_on i" "(ue_checks s ! c)\<lparr>ck_pc := CheckDone\<rparr>"] c(2) k(2) one [of i]
    by (auto simp: live_on_def live_def split: if_splits)
  moreover have "count_rows (\<lambda>k. holds_slot (ck_pc k)) ?ks = count_rows (\<lambda>k. holds_slot (ck_pc k)) (ue_checks s)"
    using count_rows_list_update [OF c(1), of "\<lambda>k. holds_slot (ck_pc k)" "(ue_checks s ! c)\<lparr>ck_pc := CheckDone\<rparr>"] c(2) k(3)
    by simp
  moreover have "loaded_ok (ue_db s) (ck_monitor q) (ck_pc q)" if "q \<in> set ?ks" for q
  proof -
    have "q = (ue_checks s ! c)\<lparr>ck_pc := CheckDone\<rparr> \<or> q \<in> set (ue_checks s)"
      using that set_update_subset_insert by fastforce
    with inv show ?thesis by (auto simp: check_inv_def loaded_ok_None)
  qed
  ultimately show ?thesis
    using inv by (simp add: check_inv_def set_check_def end_check_def release_key_def)
qed

lemma loaded_ok_get:
  "get_monitor db i = Some m \<Longrightarrow> um_enabled m \<Longrightarrow> loaded_ok db i (ManualWait m) \<and> loaded_ok db i (Probing m)"
  by (simp add: loaded_ok_def)

lemma get_monitor_id: "get_monitor db i = Some m \<Longrightarrow> um_id m = i"
  by (auto simp: get_monitor_def dest: um_id_find)

lemma check_inv_loaded:
  "check_inv s \<Longrightarrow> check_at s c = Some k \<Longrightarrow> loaded_ok (ue_db s) (ck_monitor k) (ck_pc k)"
  by (auto simp: check_inv_def check_at_Some)

lemma get_monitor_frame:
  "op_target op \<noteq> Some j \<Longrightarrow> (\<And>now m. op \<noteq> CreateMonitor now m) \<Longrightarrow> get_monitor (apply_uptime_op op db) j = get_monitor db j"
  using op_frame [of op j db] by (simp add: get_monitor_def)

lemma check_inv_db:
  assumes inv: "check_inv s" and k: "check_at s c = Some k" "live k" and op: "op_target op = Some (ck_monitor k) \<or>
      op_target op = None \<and> (\<forall>now m. op \<noteq> CreateMonitor now m)"
    and pc: "pc \<noteq> CheckDone" "loaded pc = None" "holds_slot pc = holds_slot (ck_pc k)"
  shows "check_inv (set_check c pc (s\<lparr>ue_db := apply_uptime_op op (ue_db s), ue_delivered := dl\<rparr>))"
proof -
  have "get_monitor (apply_uptime_op op (ue_db s)) j = get_monitor (ue_db s) j" if "j \<noteq> ck_monitor k" for j
    using op that by (intro get_monitor_frame) auto
  moreover have "uptime_inv (apply_uptime_op op (ue_db s))" using inv by (simp add: check_inv_def uptime_inv_step)
  ultimately show ?thesis
    using check_inv_set [OF inv k, of "apply_uptime_op op (ue_db s)" pc "ue_slots s" dl] pc inv
    by (simp add: check_inv_def loaded_ok_None)
qed

lemma set_check_same: "check_at s c = Some k \<Longrightarrow> set_check c (ck_pc k) s = s"
  by (simp add: set_check_def check_at_Some list_update_same_conv)

lemma check_inv_edit:
  assumes inv: "check_inv s" and k: "check_at s c = Some k" "ck_pc k = Editing"
  shows "check_inv (s\<lparr>ue_db := apply_edit (ck_monitor k) e (ue_db s)\<rparr>)"
proof -
  obtain op where op: "op_target op = Some (ck_monitor k)" "apply_edit (ck_monitor k) e (ue_db s) = apply_uptime_op op (ue_db s)"
  proof (cases e)
    case (EditUpdate now m)
    then show ?thesis using that [of "UpdateMonitor now (m\<lparr>um_id := ck_monitor k\<rparr>)"] by (simp add: apply_edit_def)
  next
    case (EditEnable now b)
    then show ?thesis using that [of "SetMonitorEnabled now (ck_monitor k) b"] by (simp add: apply_edit_def)
  next
    case EditDelete
    then show ?thesis using that [of "DeleteMonitor (ck_monitor k)"] by (simp add: apply_edit_def)
  qed
  let ?s = "s\<lparr>ue_db := apply_uptime_op op (ue_db s), ue_delivered := ue_delivered s\<rparr>"
  have "check_inv (set_check c Editing ?s)"
    by (rule check_inv_db [OF inv k(1)]) (use k(2) op(1) in \<open>simp_all add: live_def\<close>)
  moreover have "check_at ?s c = Some k" using k(1) by (simp add: check_at_def split: if_splits)
  ultimately show ?thesis using set_check_same [of ?s c k] k(2) op(2) by simp
qed

lemma check_step_inv:
  assumes inv: "check_inv s" and st: "check_step c ev s = Some s'"
  shows "check_inv s'"
proof -
  obtain k where k: "check_at s c = Some k" using st by (cases ev) (auto split: option.splits)
  have ok: "loaded_ok (ue_db s) (ck_monitor k) (ck_pc k)" by (rule check_inv_loaded [OF inv k])
  have slots: "sl_capacity (ue_slots s) = 8" "sl_held (ue_slots s) \<le> 8" using inv by (simp_all add: check_inv_def)
  note move = check_inv_move [OF inv k] and slot = check_inv_slot [OF inv k]
  show ?thesis
  proof (cases ev)
    case LoadManual
    with st k have "ck_pc k = ManualLoad" by (auto split: if_splits)
    with LoadManual st k move loaded_ok_get show ?thesis
      by (auto simp: live_def loaded_ok_None split: option.splits if_splits)
  next
    case GetSlot
    with st k obtain sl where sl: "acquire_slot (ue_slots s) = Some sl" by (auto split: option.splits)
    note got = chan_slots.acquire_Some [OF sl]
    show ?thesis
    proof (cases "ck_pc k")
      case SweepWait
      with GetSlot st k sl have "s' = set_check c Reloading (s\<lparr>ue_slots := sl\<rparr>)" by simp
      with slot [of Reloading sl] SweepWait got slots show ?thesis by (simp add: live_def loaded_ok_None)
    next
      case (ManualWait m)
      with GetSlot st k sl have "s' = set_check c (Probing m) (s\<lparr>ue_slots := sl\<rparr>)" by simp
      with slot [of "Probing m" sl] ManualWait got slots ok show ?thesis by (simp add: live_def loaded_ok_def)
    qed (use GetSlot st k sl in auto)
  next
    case Abandon
    with st k move [of Ending] show ?thesis
      by (auto simp: live_def loaded_ok_None split: check_pc.splits)
  next
    case (Reload now)
    with st k have pc: "ck_pc k = Reloading" by (auto split: if_splits)
    show ?thesis
    proof (cases "get_monitor (ue_db s) (ck_monitor k)")
      case None
      with Reload st k pc move [of Releasing] show ?thesis by (simp add: live_def loaded_ok_None)
    next
      case (Some m)
      have "monitor_due m now \<Longrightarrow> um_enabled m" by (simp add: monitor_due_def split: if_splits)
      with Reload st k pc Some move [of Releasing] move [of "Probing m"] show ?thesis
        by (auto simp: live_def loaded_ok_None loaded_ok_def split: if_splits)
    qed
  next
    case (Probed now p)
    with st k obtain m where pc: "ck_pc k = Probing m" by (auto split: check_pc.splits)
    with ok have id: "um_id m = ck_monitor k" by (auto simp: loaded_ok_def dest: get_monitor_id)
    obtain r db where ap: "apply_probe now (ck_monitor k) p (ue_db s) = (r, db)" by fastforce
    then have db: "apply_uptime_op (ApplyProbe now (ck_monitor k) p) (ue_db s) = db" by simp
    have "check_inv (set_check c pc' (s\<lparr>ue_db := db, ue_delivered := ue_delivered s\<rparr>))"
      if "pc' \<noteq> CheckDone" "loaded pc' = None" "holds_slot pc'" for pc'
      using check_inv_db [OF inv k, of "ApplyProbe now (ck_monitor k) p" pc' "ue_delivered s"] that pc
      by (simp add: live_def db [simplified])
    with Probed st k pc id ap show ?thesis by (auto split: sum.splits)
  next
    case (Delivered result)
    with st k obtain t q where pc: "ck_pc k = Delivering t q" by (auto split: check_pc.splits)
    show ?thesis
    proof (cases q)
      case Nil
      with Delivered st k pc move [of Releasing] show ?thesis by (simp add: live_def loaded_ok_None)
    next
      case (Cons xr rest)
      obtain x r where xr: "xr = (x, r)" by (cases xr)
      let ?op = "UpdateIncidentNotification (ui_id x) r (yd_sent result) (bounded_delivery_error (yd_error result)) (yd_attempted_at result)"
      from check_inv_db [OF inv k, of ?op "Delivering t rest"] Delivered st k pc Cons xr show ?thesis
        by (auto simp: live_def)
    qed
  next
    case GiveSlot
    with st k obtain sl where sl: "release_slot (ue_slots s) = Some sl" "ck_pc k = Releasing"
      "s' = set_check c Ending (s\<lparr>ue_slots := sl\<rparr>)" by (auto split: if_splits option.splits)
    with chan_slots.release_Some [OF sl(1)] slot [of Ending sl] slots show ?thesis by (simp add: live_def loaded_ok_None)
  next
    case (Edit e)
    with st k check_inv_edit [OF inv k] show ?thesis by (auto split: if_splits)
  next
    case EndCheck
    with st k have "ck_pc k = Ending \<or> ck_pc k = Editing" "s' = set_check c CheckDone (end_check (ck_monitor k) s)"
      by (auto split: if_splits)
    with check_inv_end [OF inv k] show ?thesis by (auto simp: live_def)
  qed
qed

lemma check_inv_create:
  assumes inv: "check_inv s"
  shows "check_inv (s\<lparr>ue_db := apply_uptime_op (CreateMonitor now m) (ue_db s)\<rparr>)"
proof -
  have "loaded_ok (apply_uptime_op (CreateMonitor now m) (ue_db s)) (ck_monitor k) (ck_pc k)" if "k \<in> set (ue_checks s)" for k
  proof -
    have "loaded_ok (ue_db s) (ck_monitor k) (ck_pc k)" using inv that by (simp add: check_inv_def)
    moreover have "get_monitor (apply_uptime_op (CreateMonitor now m) (ue_db s)) j = get_monitor (ue_db s) j"
      if "get_monitor (ue_db s) j = Some q" for j q
      using that op_frame [of "CreateMonitor now m" j "ue_db s"] by (auto simp: get_monitor_def)
    ultimately show ?thesis by (simp add: loaded_ok_def)
  qed
  with inv uptime_inv_step [of "ue_db s" "CreateMonitor now m"] show ?thesis by (simp add: check_inv_def)
qed

lemma uptime_step_inv: "check_inv s \<Longrightarrow> uptime_step e s = Some s' \<Longrightarrow> check_inv s'"
proof (cases e)
  case (AddMonitor now m)
  assume "check_inv s" "uptime_step e s = Some s'"
  with AddMonitor check_inv_create show ?thesis by (simp add: uptime_step_def del: apply_uptime_op.simps) blast
next
  case (CheckEvent c ev)
  assume "check_inv s" "uptime_step e s = Some s'"
  with CheckEvent check_step_inv show ?thesis by (simp add: uptime_step_def)
qed (auto simp: uptime_step_def start_sweep_def check_inv_sweep check_inv_sweep_next intro: check_inv_spawn)

definition uptime_reachable :: "uptime_op list \<Rightarrow> uptime_engine \<Rightarrow> bool" where
  "uptime_reachable ops s \<longleftrightarrow> uptime_reaches (new_uptime_engine (run_uptime ops empty_uptime_db)) s"

lemma uptime_reachable_inv: "uptime_reachable ops s \<Longrightarrow> check_inv s"
proof -
  have "uptime_reaches a s \<Longrightarrow> check_inv a \<Longrightarrow> check_inv s" for a
    by (induction rule: uptime_reaches.induct) (auto intro: uptime_step_inv)
  moreover have "check_inv (new_uptime_engine (run_uptime ops empty_uptime_db))"
    using uptime_reached_inv by (simp add: check_inv_def new_uptime_engine_def make_slots_def default_max_concurrent_def)
  ultimately show "uptime_reachable ops s \<Longrightarrow> check_inv s" by (auto simp: uptime_reachable_def)
qed

section \<open>Properties\<close>

text \<open>C19: However sweeps, manual checks and configuration requests interleave, at most one goroutine works on a
  monitor, and at most eight probe or deliver at once.\<close>

theorem checks_are_exclusive:
  assumes "uptime_reachable ops s"
  shows "count_rows (\<lambda>k. ck_pc k \<noteq> CheckDone \<and> ck_monitor k = i) (ue_checks s) \<le> 1
    \<and> count_rows (\<lambda>k. \<exists>m. ck_pc k = Probing m) (ue_checks s) \<le> 8
    \<and> (i \<in> ue_active s) = (count_rows (\<lambda>k. ck_pc k \<noteq> CheckDone \<and> ck_monitor k = i) (ue_checks s) = 1)"
proof -
  have inv: "check_inv s" by (rule uptime_reachable_inv [OF assms])
  have "(\<lambda>k. ck_pc k \<noteq> CheckDone \<and> ck_monitor k = i) = live_on i" by (auto simp: live_on_def live_def fun_eq_iff)
  moreover have "count_rows (\<lambda>k. \<exists>m. ck_pc k = Probing m) (ue_checks s) \<le> count_rows (\<lambda>k. holds_slot (ck_pc k)) (ue_checks s)"
    by (rule count_rows_mono) auto
  ultimately show ?thesis using inv by (auto simp: check_inv_def)
qed

text \<open>C20: When the answer of a probe is recorded, the monitor is still enabled and its configuration is still the
  one that was probed: no update, toggle or deletion got in between.\<close>

theorem probe_recorded_for_probed_configuration:
  assumes "uptime_reachable ops s" "check_at s c = Some k" "ck_pc k = Probing m"
  shows "get_monitor (ue_db s) (ck_monitor k) = Some m \<and> um_enabled m \<and> um_id m = ck_monitor k
    \<and> (\<exists>t s'. check_step c (Probed now p) s = Some s' \<and> ck_pc (ue_checks s' ! c) = Delivering t (deliveries t)
         \<and> config_of (tr_monitor t) = config_of m)"
proof -
  have inv: "check_inv s" by (rule uptime_reachable_inv [OF assms(1)])
  from check_inv_loaded [OF inv assms(2)] assms(3)
  have m: "get_monitor (ue_db s) (ck_monitor k) = Some m" "um_enabled m" by (simp_all add: loaded_ok_def)
  have id: "um_id m = ck_monitor k" by (rule get_monitor_id [OF m(1)])
  define q where "q = (if is_zero (pb_checked_at p) then p\<lparr>pb_checked_at := now\<rparr> else p)"
  obtain r where r: "find_monitor (ue_db s) (ck_monitor k) = Some r" "m = scan_uptime_monitor r"
    using m(1) by (auto simp: get_monitor_def)
  have uinv: "uptime_inv (ue_db s)" using inv by (simp add: check_inv_def)
  from probe_tx_refines [OF uinv r(1), of q] obtain res tr rs db' where
    tx: "apply_probe_tx (ck_monitor k) q (ue_db s) = Inr ((res, tr, rs), db')"
    and f: "find_monitor db' (ck_monitor k) \<noteq> None"
    and a: "abs_uptime db' = spec_at (ck_monitor k) (\<lambda>h. snd (spec_probe q h)) (abs_uptime (ue_db s))" by blast
  from f obtain r' where r': "find_monitor db' (ck_monitor k) = Some r'" by blast
  have "monitors_of db' (ck_monitor k) = Some (snd (spec_probe q (health_of (ue_db s) r)))"
    using a r(1) by (simp add: abs_uptime_def spec_at_def monitors_of_def fun_eq_iff)
  then have "hh_config (health_of db' r') = hh_config (health_of (ue_db s) r)"
    using r' by (simp add: monitors_of_def spec_probe_def Let_def)
  then have cfg: "config_of (scan_uptime_monitor r') = config_of m" by (simp add: health_of_def r(2))
  obtain t where t: "apply_probe now (um_id m) p (ue_db s) = (Inr t, db')" "tr_monitor t = scan_uptime_monitor r'"
    using tx r' by (simp add: id apply_probe_def run_tx_def q_def [symmetric] reload_monitor_def get_monitor_def)
  then have "check_step c (Probed now p) s = Some (set_check c (Delivering t (deliveries t)) (s\<lparr>ue_db := db'\<rparr>))"
    using assms(2,3) by simp
  moreover have "ck_pc (ue_checks (set_check c (Delivering t (deliveries t)) (s\<lparr>ue_db := db'\<rparr>)) ! c) = Delivering t (deliveries t)"
    using assms(2) by (simp add: set_check_def check_at_Some)
  ultimately show ?thesis using m id t(2) cfg by auto
qed

section \<open>Witnesses\<close>

lemma uptime_reachable_step: "uptime_reachable ops s \<Longrightarrow> uptime_step e s = Some t \<Longrightarrow> uptime_reachable ops t"
  by (auto simp: uptime_reachable_def intro: ue_step)

lemma uptime_reachable_start: "uptime_reachable ops (new_uptime_engine (run_uptime ops empty_uptime_db))"
  by (simp add: uptime_reachable_def ue_start)

text \<open>A manual check of the only monitor that has got its slot.\<close>

lemma sample_probing:
  "\<exists>s k m. uptime_reachable [CreateMonitor 10 sample_monitor] s \<and> check_at s 0 = Some k \<and> ck_pc k = Probing m \<and> ck_monitor k = 1"
proof -
  let ?ops = "[CreateMonitor 10 sample_monitor]"
  let ?s0 = "new_uptime_engine (run_uptime ?ops empty_uptime_db)"
  define s1 where "s1 = ?s0\<lparr>ue_active := {1}, ue_checks := [\<lparr>ck_monitor = 1, ck_pc = ManualLoad\<rparr>]\<rparr>"
  have "uptime_step (StartManual 1) ?s0 = Some s1"
    by (simp add: s1_def uptime_step_def start_reserved_def begin_check_def reserve_key_def spawn_check_def new_uptime_engine_def)
  then have r1: "uptime_reachable ?ops s1" by (rule uptime_reachable_step [OF uptime_reachable_start])
  have "get_monitor (ue_db s1) 1 = Some (scan_uptime_monitor (new_monitor_row 10 1 sample_monitor))"
    by (simp add: s1_def new_uptime_engine_def get_monitor_def sample_find)
  then obtain m where m: "get_monitor (ue_db s1) 1 = Some m" "um_enabled m"
    by (auto simp: new_monitor_row_def sample_monitor_def)
  define s2 where "s2 = s1\<lparr>ue_checks := [\<lparr>ck_monitor = 1, ck_pc = ManualWait m\<rparr>]\<rparr>"
  have "uptime_step (CheckEvent 0 LoadManual) s1 = Some s2"
    using m by (simp add: uptime_step_def check_at_def s1_def s2_def set_check_def)
  with r1 have r2: "uptime_reachable ?ops s2" by (rule uptime_reachable_step)
  define s3 where "s3 = s2\<lparr>ue_slots := \<lparr>sl_capacity = 8, sl_held = 1\<rparr>, ue_checks := [\<lparr>ck_monitor = 1, ck_pc = Probing m\<rparr>]\<rparr>"
  have "uptime_step (CheckEvent 0 GetSlot) s2 = Some s3"
    by (simp add: uptime_step_def check_at_def s1_def s2_def s3_def set_check_def new_uptime_engine_def make_slots_def
        default_max_concurrent_def acquire_slot_def)
  with r2 have "uptime_reachable ?ops s3" by (rule uptime_reachable_step)
  moreover have "check_at s3 0 = Some \<lparr>ck_monitor = 1, ck_pc = Probing m\<rparr>" by (simp add: check_at_def s3_def)
  ultimately show ?thesis by fastforce
qed

theorem checks_are_exclusive_witness:
  "\<exists>s. uptime_reachable [CreateMonitor 10 sample_monitor] s
     \<and> count_rows (\<lambda>k. ck_pc k \<noteq> CheckDone \<and> ck_monitor k = 1) (ue_checks s) \<le> 1 \<and> ue_checks s \<noteq> []"
proof -
  from sample_probing obtain s k where s: "uptime_reachable [CreateMonitor 10 sample_monitor] s" "check_at s 0 = Some k" by blast
  from checks_are_exclusive [OF s(1), of 1] s show ?thesis by (auto simp: check_at_def split: if_splits)
qed

theorem probe_recorded_for_probed_configuration_witness:
  "\<exists>s k m s'. uptime_reachable [CreateMonitor 10 sample_monitor] s \<and> check_at s 0 = Some k
     \<and> ck_pc k = Probing m \<and> check_step 0 (Probed 20 sample_probe) s = Some s' \<and> get_monitor (ue_db s) 1 = Some m"
proof -
  from sample_probing obtain s k m where s: "uptime_reachable [CreateMonitor 10 sample_monitor] s" "check_at s 0 = Some k"
    "ck_pc k = Probing m" "ck_monitor k = 1" by blast
  from probe_recorded_for_probed_configuration [OF s(1-3), of 20 sample_probe] s(4) obtain s' where
    "check_step 0 (Probed 20 sample_probe) s = Some s'" "get_monitor (ue_db s) 1 = Some m" by (auto simp del: check_step.simps)
  with s show ?thesis by blast
qed

end
