(* ===== verification/GoUrl.thy ===== *)
theory GoUrl
  imports GoText
begin

text \<open>
  \<^verbatim>\<open>url.QueryEscape\<close>, the decoding of a query parameter by whoever receives the request, and
  \<^verbatim>\<open>base64.StdEncoding\<close>.
\<close>

section \<open>Query escaping\<close>

definition upper_hex :: "nat \<Rightarrow> char" where
  "upper_hex n = (if n < 10 then char_of (48 + n) else char_of (55 + n))"

definition unhex :: "char \<Rightarrow> nat option" where
  "unhex c = (let n = of_char c :: nat in
     if 48 \<le> n \<and> n \<le> 57 then Some (n - 48)
     else if 65 \<le> n \<and> n \<le> 70 then Some (n - 55)
     else if 97 \<le> n \<and> n \<le> 102 then Some (n - 87)
     else None)"

text \<open>Letters, digits and \<^verbatim>\<open>-_.~\<close> stay as they are.\<close>

definition unreserved :: "char \<Rightarrow> bool" where
  "unreserved c = (let n = of_char c :: nat in
     (97 \<le> n \<and> n \<le> 122) \<or> (65 \<le> n \<and> n \<le> 90) \<or> (48 \<le> n \<and> n \<le> 57)
     \<or> n = 45 \<or> n = 95 \<or> n = 46 \<or> n = 126)"

definition escape_char :: "char \<Rightarrow> string" where
  "escape_char c =
     (if unreserved c then [c]
      else if c = CHR '' '' then ''+''
      else [CHR ''%'', upper_hex (of_char c div 16), upper_hex (of_char c mod 16)])"

definition query_escape :: "string \<Rightarrow> string" where
  "query_escape s = concat (map escape_char s)"

fun query_unescape :: "string \<Rightarrow> string option" where
  "query_unescape [] = Some []"
| "query_unescape (c # cs) =
     (if c = CHR ''%''
      then (case cs of
              h # l # rest \<Rightarrow>
                (case (unhex h, unhex l) of
                   (Some a, Some b) \<Rightarrow> map_option (\<lambda>r. char_of (16 * a + b) # r) (query_unescape rest)
                 | _ \<Rightarrow> None)
            | _ \<Rightarrow> None)
      else map_option (\<lambda>r. (if c = CHR ''+'' then CHR '' '' else c) # r) (query_unescape cs))"

lemma unhex_upper_hex [simp]: "n < 16 \<Longrightarrow> unhex (upper_hex n) = Some n"
  by (simp add: unhex_def upper_hex_def Let_def)

lemma unescape_escape_char: "query_unescape (escape_char c @ s) = map_option ((#) c) (query_unescape s)"
proof -
  have hex: "char_of (16 * (of_char c div 16) + of_char c mod 16 :: nat) = c" by (simp only: mult_div_mod_eq char_of_char)
  have lt: "of_char c div 16 < (16::nat)" "of_char c mod 16 < (16::nat)" by (simp_all add: less_mult_imp_div_less)
  have "unreserved c \<Longrightarrow> c \<noteq> CHR ''%'' \<and> c \<noteq> CHR ''+''" by (auto simp: unreserved_def)
  then show ?thesis using hex lt by (auto simp: escape_char_def)
qed

lemma unescape_escape: "query_unescape (query_escape s) = Some s"
proof -
  have "query_unescape (query_escape s @ t) = map_option ((@) s) (query_unescape t)" for t
    by (induction s) (simp_all add: query_escape_def unescape_escape_char option.map_comp comp_def option.map_ident)
  from this [of "[]"] show ?thesis by simp
qed

text \<open>Without escapes a query parameter decodes to itself up to its plus signs.\<close>

lemma unescape_plain:
  "CHR ''%'' \<notin> set s \<Longrightarrow> query_unescape s = Some (map (\<lambda>c. if c = CHR ''+'' then CHR '' '' else c) s)"
  by (induction s) auto

section \<open>Base64\<close>

definition base64_char :: "nat \<Rightarrow> char" where
  "base64_char n = (if n < 26 then char_of (65 + n) else if n < 52 then char_of (71 + n)
     else if n < 62 then char_of (n - 4) else if n = 62 then CHR ''+'' else CHR ''/'')"

fun base64_bytes :: "nat list \<Rightarrow> string" where
  "base64_bytes [] = []"
| "base64_bytes [a] = [base64_char (a div 4), base64_char (a mod 4 * 16), CHR ''='', CHR ''='']"
| "base64_bytes [a, b] = [base64_char (a div 4), base64_char (a mod 4 * 16 + b div 16),
     base64_char (b mod 16 * 4), CHR ''='']"
| "base64_bytes (a # b # c # rest) = [base64_char (a div 4), base64_char (a mod 4 * 16 + b div 16),
     base64_char (b mod 16 * 4 + c div 64), base64_char (c mod 64)] @ base64_bytes rest"

lemma base64_char_plain: "base64_char n \<noteq> CHR ''%'' \<and> base64_char n \<noteq> CHR '' '' \<and> base64_char n \<noteq> CHR ''&''"
proof -
  have "(of_char (base64_char n) :: nat) \<in> {43, 47} \<union> {48..57} \<union> {65..90} \<union> {97..122}"
    by (auto simp: base64_char_def)
  then show ?thesis by auto
qed

lemma base64_plain:
  "CHR ''%'' \<notin> set (base64_bytes ns) \<and> CHR '' '' \<notin> set (base64_bytes ns) \<and> CHR ''&'' \<notin> set (base64_bytes ns)"
  by (induction ns rule: base64_bytes.induct) (use base64_char_plain in \<open>force+\<close>)

end
