(* ===== verification/Sha256.thy ===== *)
theory Sha256
  imports GoText "HOL-Library.Word"
begin

unbundle bit_operations_syntax

text \<open>
  Go's \<^verbatim>\<open>crypto/sha256\<close> and \<^verbatim>\<open>crypto/hmac\<close> (FIPS 180-4, RFC 2104): the digests the server computes of
  agent tokens and of the signatures of notification robots.  Bytes are natural numbers below 256.
\<close>

section \<open>Words\<close>

definition round_constants :: "32 word list" where
  "round_constants =
    [0x428a2f98, 0x71374491, 0xb5c0fbcf, 0xe9b5dba5, 0x3956c25b, 0x59f111f1, 0x923f82a4, 0xab1c5ed5,
     0xd807aa98, 0x12835b01, 0x243185be, 0x550c7dc3, 0x72be5d74, 0x80deb1fe, 0x9bdc06a7, 0xc19bf174,
     0xe49b69c1, 0xefbe4786, 0x0fc19dc6, 0x240ca1cc, 0x2de92c6f, 0x4a7484aa, 0x5cb0a9dc, 0x76f988da,
     0x983e5152, 0xa831c66d, 0xb00327c8, 0xbf597fc7, 0xc6e00bf3, 0xd5a79147, 0x06ca6351, 0x14292967,
     0x27b70a85, 0x2e1b2138, 0x4d2c6dfc, 0x53380d13, 0x650a7354, 0x766a0abb, 0x81c2c92e, 0x92722c85,
     0xa2bfe8a1, 0xa81a664b, 0xc24b8b70, 0xc76c51a3, 0xd192e819, 0xd6990624, 0xf40e3585, 0x106aa070,
     0x19a4c116, 0x1e376c08, 0x2748774c, 0x34b0bcb5, 0x391c0cb3, 0x4ed8aa4a, 0x5b9cca4f, 0x682e6ff3,
     0x748f82ee, 0x78a5636f, 0x84c87814, 0x8cc70208, 0x90befffa, 0xa4506ceb, 0xbef9a3f7, 0xc67178f2]"

definition initial_digest :: "32 word list" where
  "initial_digest = [0x6a09e667, 0xbb67ae85, 0x3c6ef372, 0xa54ff53a, 0x510e527f, 0x9b05688c, 0x1f83d9ab, 0x5be0cd19]"

definition small_sigma0 :: "32 word \<Rightarrow> 32 word" where
  "small_sigma0 x = word_rotr 7 x XOR word_rotr 18 x XOR drop_bit 3 x"

definition small_sigma1 :: "32 word \<Rightarrow> 32 word" where
  "small_sigma1 x = word_rotr 17 x XOR word_rotr 19 x XOR drop_bit 10 x"

definition big_sigma0 :: "32 word \<Rightarrow> 32 word" where
  "big_sigma0 x = word_rotr 2 x XOR word_rotr 13 x XOR word_rotr 22 x"

definition big_sigma1 :: "32 word \<Rightarrow> 32 word" where
  "big_sigma1 x = word_rotr 6 x XOR word_rotr 11 x XOR word_rotr 25 x"

section \<open>Blocks\<close>

text \<open>The message schedule, newest word first, extended \<open>n\<close> times.\<close>

fun extend_schedule :: "nat \<Rightarrow> 32 word list \<Rightarrow> 32 word list" where
  "extend_schedule 0 ws = ws"
| "extend_schedule (Suc n) ws = extend_schedule n ((small_sigma1 (ws ! 1) + ws ! 6 + small_sigma0 (ws ! 14) + ws ! 15) # ws)"

definition digest_round :: "32 word \<times> 32 word \<Rightarrow> 32 word list \<Rightarrow> 32 word list" where
  "digest_round kw s = (case s of
     [a, b, c, d, e, f, g, h] \<Rightarrow>
       (let t1 = h + big_sigma1 e + ((e AND f) XOR (NOT e AND g)) + fst kw + snd kw;
            t2 = big_sigma0 a + ((a AND b) XOR (a AND c) XOR (b AND c))
        in [t1 + t2, a, b, c, d + t1, e, f, g])
   | _ \<Rightarrow> s)"

definition compress_block :: "32 word list \<Rightarrow> 32 word list \<Rightarrow> 32 word list" where
  "compress_block digest block =
     map2 (+) digest (fold digest_round (zip round_constants (rev (extend_schedule 48 (rev block)))) digest)"

fun byte_words :: "nat list \<Rightarrow> 32 word list" where
  "byte_words (a # b # c # d # rest) = word_of_nat (((a * 256 + b) * 256 + c) * 256 + d) # byte_words rest"
| "byte_words _ = []"

definition word_bytes :: "32 word \<Rightarrow> nat list" where
  "word_bytes w = (let n = unat w in [n div 16777216 mod 256, n div 65536 mod 256, n div 256 mod 256, n mod 256])"

text \<open>The message is closed by a one bit, zeros and its length in bits in eight bytes.\<close>

definition padded_message :: "nat list \<Rightarrow> nat list" where
  "padded_message bs =
     (let n = 8 * length bs
      in bs @ [128] @ replicate ((119 - length bs mod 64) mod 64) 0
         @ map (\<lambda>k. n div 256 ^ (7 - k) mod 256) [0..<8])"

fun digest_blocks :: "nat \<Rightarrow> 32 word list \<Rightarrow> 32 word list \<Rightarrow> 32 word list" where
  "digest_blocks 0 ws digest = digest"
| "digest_blocks (Suc n) ws digest = digest_blocks n (drop 16 ws) (compress_block digest (take 16 ws))"

definition sha256_sum :: "nat list \<Rightarrow> nat list" where
  "sha256_sum bs =
     (let ws = byte_words (padded_message bs)
      in concat (map word_bytes (digest_blocks (length ws div 16) ws initial_digest)))"

definition hmac_sha256 :: "nat list \<Rightarrow> nat list \<Rightarrow> nat list" where
  "hmac_sha256 key message =
     (let k0 = (if length key > 64 then sha256_sum key else key);
          k = k0 @ replicate (64 - length k0) 0
      in sha256_sum (map (\<lambda>b. b XOR 92) k @ sha256_sum (map (\<lambda>b. b XOR 54) k @ message)))"

definition string_bytes :: "string \<Rightarrow> nat list" where
  "string_bytes s = map of_char s"

section \<open>Lengths\<close>

lemma length_compress_block: "length digest = 8 \<Longrightarrow> length (compress_block digest block) = 8"
proof -
  have round: "length s = 8 \<Longrightarrow> length (digest_round kw s) = 8" for kw s
    by (auto simp: digest_round_def Let_def split: list.split)
  have "length digest = 8 \<Longrightarrow> length (fold digest_round kws digest) = 8" for kws digest
    by (induction kws arbitrary: digest) (simp_all add: round)
  then show "length digest = 8 \<Longrightarrow> length (compress_block digest block) = 8" by (simp add: compress_block_def)
qed

lemma length_digest_blocks: "length digest = 8 \<Longrightarrow> length (digest_blocks n ws digest) = 8"
  by (induction n arbitrary: ws digest) (simp_all add: length_compress_block)

lemma length_concat_const: "(\<And>x. length (f x) = k) \<Longrightarrow> length (concat (map f xs)) = k * length xs"
  by (induction xs) simp_all

lemma length_sha256 [simp]: "length (sha256_sum bs) = 32"
  by (simp add: sha256_sum_def Let_def length_concat_const [where k = 4] word_bytes_def length_digest_blocks initial_digest_def)

lemma length_hmac [simp]: "length (hmac_sha256 key message) = 32"
  by (simp add: hmac_sha256_def Let_def)

end
