(* ===== verification/Notifier.thy ===== *)
theory Notifier
  imports GoUrl Channels Sha256
begin

text \<open>
  \<^verbatim>\<open>internal/server/alerting/notifier.go\<close> and \<^verbatim>\<open>task_notifier.go\<close>: which errors of a delivery are retried,
  the bounded retry loop (and the copy of it in \<^verbatim>\<open>engine.go\<close>), the fan-out over the channels of a rule,
  and the signed address of a DingTalk robot.  The answers of the HTTP client are arguments, one per
  channel and attempt.  The text and the JSON of the messages are not modelled.
\<close>

section \<open>Errors of a delivery\<close>

record delivery_error =
  de_message :: string
  de_retryable :: bool

text \<open>What becomes of one request: it cannot be built, the client fails, or an answer arrives with a
  status and, when its body decodes, the code in it.\<close>

datatype http_outcome = InvalidRequest | TransportError go_error | HttpAnswer int "int option"

definition request_delivery_error :: "go_error \<Rightarrow> delivery_error" where
  "request_delivery_error err = (case err of
     ContextCanceled \<Rightarrow> \<lparr>de_message = ''request canceled'', de_retryable = False\<rparr>
   | DeadlineExceeded \<Rightarrow> \<lparr>de_message = ''request timed out'', de_retryable = True\<rparr>
   | OtherError _ \<Rightarrow> \<lparr>de_message = ''request failed'', de_retryable = True\<rparr>)"

definition status_delivery_error :: "string \<Rightarrow> int \<Rightarrow> delivery_error" where
  "status_delivery_error channel status = \<lparr>de_message = channel @ '' returned HTTP '' @ show_int status,
     de_retryable = (status = 408 \<or> status = 425 \<or> status = 429 \<or> status \<ge> 500)\<rparr>"

definition fatal :: "string \<Rightarrow> delivery_error" where
  "fatal message = \<lparr>de_message = message, de_retryable = False\<rparr>"

text \<open>\<open>sendWebhook\<close>, \<open>sendDingTalk\<close> and \<open>sendFeishu\<close> after the request is built; only the robots' answers carry a code.\<close>

definition answer_error :: "string \<Rightarrow> http_outcome \<Rightarrow> delivery_error option" where
  "answer_error kind outcome =
     (case outcome of
        InvalidRequest \<Rightarrow> Some (fatal (''invalid '' @ kind @ '' configuration''))
      | TransportError err \<Rightarrow> Some (request_delivery_error err)
      | HttpAnswer status code \<Rightarrow>
          if status < 200 \<or> status \<ge> 300 then Some (status_delivery_error kind status)
          else if kind = ''webhook'' then None
          else (case code of
                  Some n \<Rightarrow> if n \<noteq> 0 then Some (fatal (kind @ '' rejected request (code '' @ show_int n @ '')'')) else None
                | None \<Rightarrow> None))"

definition send_notification :: "notification_channel \<Rightarrow> http_outcome \<Rightarrow> delivery_error option" where
  "send_notification channel outcome =
     (if ch_type channel = ''webhook'' \<or> ch_type channel = ''dingtalk'' \<or> ch_type channel = ''feishu''
      then answer_error (ch_type channel) outcome
      else Some (fatal (''unsupported channel type '' @ ch_type channel)))"

section \<open>Retries\<close>

definition milliseconds_of :: "int \<Rightarrow> duration" where "milliseconds_of n = n * 1000000"

definition retry_delays :: "duration list" where
  "retry_delays = [0, milliseconds_of 250, milliseconds_of 750]"

text \<open>
  The loop over the \<open>count\<close> delays from index \<open>attempt\<close> on.  \<open>cancelled k\<close> tells that the context ends during
  the delay before attempt \<open>k\<close>; \<open>send k\<close> is the outcome of attempt \<open>k\<close>.
\<close>

fun retry_loop ::
  "nat \<Rightarrow> nat \<Rightarrow> duration list \<Rightarrow> (nat \<Rightarrow> bool) \<Rightarrow> (nat \<Rightarrow> delivery_error option) \<Rightarrow> delivery_error option \<Rightarrow> delivery_error option" where
  "retry_loop n attempt [] cancelled send lastErr = lastErr"
| "retry_loop n attempt (delay # delays) cancelled send lastErr =
     (if delay > 0 \<and> cancelled attempt then Some (fatal ''request canceled'')
      else (case send attempt of
              None \<Rightarrow> None
            | Some err \<Rightarrow> if \<not> de_retryable err \<or> int attempt = int n - 1 then Some err
                          else retry_loop n (attempt + 1) delays cancelled send (Some err)))"

definition deliver_channel_with_retry ::
  "duration list \<Rightarrow> (nat \<Rightarrow> bool) \<Rightarrow> (nat \<Rightarrow> delivery_error option) \<Rightarrow> delivery_error option" where
  "deliver_channel_with_retry uptimeRetryDelays cancelled send =
     (let delays = (if length uptimeRetryDelays = 0 then [0] else uptimeRetryDelays)
      in retry_loop (length delays) 0 delays cancelled send None)"

text \<open>\<open>Engine.deliverChannelWithRetry\<close> has a copy of the loop, without the default of one attempt.\<close>

fun engine_retry_loop ::
  "nat \<Rightarrow> nat \<Rightarrow> duration list \<Rightarrow> (nat \<Rightarrow> bool) \<Rightarrow> (nat \<Rightarrow> delivery_error option) \<Rightarrow> delivery_error option \<Rightarrow> delivery_error option" where
  "engine_retry_loop n attempt [] cancelled send lastErr = lastErr"
| "engine_retry_loop n attempt (delay # delays) cancelled send lastErr =
     (if delay > 0 \<and> cancelled attempt then Some (fatal ''request canceled'')
      else (let lastErr = send attempt in
            case lastErr of
              None \<Rightarrow> None
            | Some err \<Rightarrow> if \<not> de_retryable err \<or> int attempt = int n - 1 then lastErr
                          else engine_retry_loop n (attempt + 1) delays cancelled send lastErr))"

definition engine_deliver_channel_with_retry ::
  "duration list \<Rightarrow> (nat \<Rightarrow> bool) \<Rightarrow> (nat \<Rightarrow> delivery_error option) \<Rightarrow> delivery_error option" where
  "engine_deliver_channel_with_retry notificationRetryDelays cancelled send =
     engine_retry_loop (length notificationRetryDelays) 0 notificationRetryDelays cancelled send None"

section \<open>Fan-out\<close>

record delivery =
  dv_sent :: bool
  dv_error :: string
  dv_attempted_at :: time

text \<open>The channels are served concurrently and do not share state; the results are read in their order.\<close>

definition deliver_channels ::
  "time \<Rightarrow> time \<Rightarrow> (notification_channel \<Rightarrow> delivery_error option) \<Rightarrow> notification_channel list \<Rightarrow> delivery" where
  "deliver_channels startedAt finishedAt deliver channels =
     (if length channels = 0 then \<lparr>dv_sent = False, dv_error = [], dv_attempted_at = startedAt\<rparr>
      else (let errorsByChannel = concat (map (\<lambda>c. case deliver c of None \<Rightarrow> []
                  | Some err \<Rightarrow> [ch_type c @ '': '' @ de_message err]) channels)
            in \<lparr>dv_sent = (length errorsByChannel = 0), dv_error = join ''; '' errorsByChannel,
                dv_attempted_at = finishedAt\<rparr>))"

section \<open>Signed addresses\<close>

definition ding_talk_sign :: "int \<Rightarrow> string \<Rightarrow> string" where
  "ding_talk_sign timestamp secret =
     (let stringToSign = show_int timestamp @ [CHR 0x0A] @ secret
      in base64_bytes (hmac_sha256 (string_bytes secret) (string_bytes stringToSign)))"

definition feishu_sign :: "int \<Rightarrow> string \<Rightarrow> string" where
  "feishu_sign timestamp secret =
     (let stringToSign = show_int timestamp @ [CHR 0x0A] @ secret
      in base64_bytes (hmac_sha256 (string_bytes stringToSign) (string_bytes stringToSign)))"

definition with_signature :: "string \<Rightarrow> int \<Rightarrow> string \<Rightarrow> string" where
  "with_signature webhookURL timestamp sign =
     webhookURL @ (if contains webhookURL ''?'' then ''&'' else ''?'') @ ''timestamp='' @ show_int timestamp @ ''&sign='' @ sign"

text \<open>The address of alert messages holds the signature as it is, that of uptime and task messages escapes it.\<close>

definition alert_ding_talk_url :: "int \<Rightarrow> notification_channel \<Rightarrow> string" where
  "alert_ding_talk_url timestamp c =
     (if ch_secret c = [] then ch_webhook_url c
      else with_signature (ch_webhook_url c) timestamp (ding_talk_sign timestamp (ch_secret c)))"

definition uptime_ding_talk_url :: "int \<Rightarrow> notification_channel \<Rightarrow> string" where
  "uptime_ding_talk_url timestamp c =
     (if ch_secret c = [] then ch_webhook_url c
      else with_signature (ch_webhook_url c) timestamp (query_escape (ding_talk_sign timestamp (ch_secret c))))"

end
