(* ===== verification/NotifierSpec.thy ===== *)
theory NotifierSpec
  imports Notifier
begin

text \<open>
  What the notifier promises: the retry loop against a reference that looks at all attempts at once,
  the summary of a fan-out, and when the addresses that the two notifiers sign differ.
\<close>

section \<open>Retries\<close>

definition decisive :: "delivery_error option \<Rightarrow> bool" where
  "decisive r = (case r of None \<Rightarrow> True | Some e \<Rightarrow> \<not> de_retryable e)"

text \<open>Attempt \<open>k\<close> together with the delay before it.\<close>

definition attempt_outcome ::
  "duration list \<Rightarrow> (nat \<Rightarrow> bool) \<Rightarrow> (nat \<Rightarrow> delivery_error option) \<Rightarrow> nat \<Rightarrow> delivery_error option" where
  "attempt_outcome delays cancelled send k =
     (if delays ! k > 0 \<and> cancelled k then Some (fatal ''request canceled'') else send k)"

text \<open>The first decisive of the attempts, or else the last one.\<close>

definition retry_outcome :: "delivery_error option list \<Rightarrow> delivery_error option" where
  "retry_outcome rs = (case filter decisive rs of r # _ \<Rightarrow> r | [] \<Rightarrow> last rs)"

lemma decisive_simps [simp]: "decisive None" "decisive (Some e) = (\<not> de_retryable e)" "\<not> de_retryable (fatal m)"
  by (simp_all add: decisive_def fatal_def)

lemma retry_outcome_Cons: "retry_outcome (r # rs) = (if decisive r \<or> rs = [] then r else retry_outcome rs)"
  by (auto simp: retry_outcome_def split: list.split)

lemma retry_loop_outcome:
  "attempt < n \<Longrightarrow> length delays = n - attempt \<Longrightarrow> (\<And>k. k < length delays \<Longrightarrow> delays ! k = ds ! (attempt + k)) \<Longrightarrow>
     retry_loop n attempt delays cancelled send e = retry_outcome (map (attempt_outcome ds cancelled send) [attempt..<n])"
proof (induction delays arbitrary: attempt e)
  case (Cons d delays)
  have d: "d = ds ! attempt" using Cons.prems(3) [of 0] by simp
  have split: "[attempt..<n] = attempt # [Suc attempt..<n]" using Cons.prems(1) by (rule upt_conv_Cons)
  show ?case
  proof (cases "Suc attempt < n")
    case True
    have "k < length delays \<Longrightarrow> delays ! k = ds ! (Suc attempt + k)" for k
      using Cons.prems(3) [of "Suc k"] by simp
    then have IH: "retry_loop n (Suc attempt) delays cancelled send e'
        = retry_outcome (map (attempt_outcome ds cancelled send) [Suc attempt..<n])" for e'
      using True Cons.prems by (intro Cons.IH) simp_all
    show ?thesis using True d IH by (auto simp: split retry_outcome_Cons attempt_outcome_def [of ds cancelled send attempt] simp del: upt_Suc split: option.split)
  next
    case False
    then show ?thesis using d Cons.prems(1)
      by (auto simp: split retry_outcome_Cons attempt_outcome_def split: option.split)
  qed
qed simp

text \<open>The engine's copy of the loop.\<close>

lemma engine_retry_loop_same: "engine_retry_loop n attempt delays cancelled send e = retry_loop n attempt delays cancelled send e"
  by (induction delays arbitrary: attempt e) (simp_all split: option.split)

text \<open>C26: Uptime and task deliveries and the alert engine's own copy of the retry loop do the same as the reference: the outcome is that of the first attempt that succeeds, fails for good or is cancelled during its delay, and otherwise that of the last of the (at most three) attempts.\<close>

theorem retries_match_reference:
  assumes "delays \<noteq> []"
  shows "deliver_channel_with_retry delays cancelled send
      = retry_outcome (map (attempt_outcome delays cancelled send) [0..<length delays])
    \<and> engine_deliver_channel_with_retry delays cancelled send = deliver_channel_with_retry delays cancelled send
    \<and> length retry_delays = 3"
  using assms
  by (simp add: deliver_channel_with_retry_def engine_deliver_channel_with_retry_def engine_retry_loop_same retry_loop_outcome [where ds = delays] retry_delays_def)

theorem retries_match_reference_witness:
  "deliver_channel_with_retry retry_delays (\<lambda>_. False) (\<lambda>k. if k = 1 then None else Some (status_delivery_error ''webhook'' 503)) = None
   \<and> engine_deliver_channel_with_retry retry_delays (\<lambda>k. k = 1) (\<lambda>k. Some (status_delivery_error ''webhook'' 503)) = Some (fatal ''request canceled'')"
  using retries_match_reference [of retry_delays "\<lambda>_. False" "\<lambda>k. if k = 1 then None else Some (status_delivery_error ''webhook'' 503)"]
    retries_match_reference [of retry_delays "\<lambda>k. k = 1" "\<lambda>k. Some (status_delivery_error ''webhook'' 503)"]
  by (simp add: retry_delays_def milliseconds_of_def retry_outcome_Cons attempt_outcome_def status_delivery_error_def upt_rec)

section \<open>Fan-out\<close>

lemma deliver_channels_sent:
  "dv_sent (deliver_channels s f deliver cs) \<longleftrightarrow> cs \<noteq> [] \<and> (\<forall>c\<in>set cs. deliver c = None)"
  by (auto simp: deliver_channels_def Let_def split: option.splits)

section \<open>Signatures\<close>

text \<open>The address of an alert holds the signature unescaped: both notifiers build the same address only when there is nothing to escape.\<close>

lemma signed_urls_agree:
  "ch_secret c \<noteq> [] \<Longrightarrow> uptime_ding_talk_url t c = alert_ding_talk_url t c
     \<longleftrightarrow> query_escape (ding_talk_sign t (ch_secret c)) = ding_talk_sign t (ch_secret c)"
  by (simp add: uptime_ding_talk_url_def alert_ding_talk_url_def with_signature_def)

end
