(* ===== verification/AlertStore.thy ===== *)
theory AlertStore
  imports Channels GoFloat
begin

text \<open>
  \<^verbatim>\<open>internal/server/store/alerts.go\<close>: the tables of alert rules and of alert history
  (\<^verbatim>\<open>internal/server/db/migrations.go\<close>) and every operation of \<^verbatim>\<open>AlertStore\<close>.  Tables are lists of
  rows with their AUTOINCREMENT counters and columns of times hold instants; values of metrics and
  thresholds are finite \<^verbatim>\<open>float64\<close> numbers, that is rationals.  Failures of the connection are not
  modelled.  Rows with equal times are ordered by identifier, where SQL leaves the order open.
\<close>

section \<open>The database\<close>

record alert_rule =
  ar_id :: int
  ar_name :: string
  ar_enabled :: bool
  ar_metric_field :: string
  ar_operator :: string
  ar_threshold :: rat
  ar_duration_seconds :: int
  ar_scope_type :: string
  ar_scope_node_ids :: "string list"
  ar_notification_channels :: "notification_channel list"
  ar_created_at :: time
  ar_updated_at :: time

record alert_history =
  ah_id :: int
  ah_rule_id :: int
  ah_rule_name :: string
  ah_node_id :: string
  ah_node_name :: string
  ah_metric_field :: string
  ah_metric_value :: rat
  ah_threshold :: rat
  ah_triggered_at :: time
  ah_resolved_at :: "time option"
  ah_notification_sent :: bool
  ah_notification_error :: string
  ah_notification_attempted_at :: "time option"
  ah_recovery_notification_sent :: bool
  ah_recovery_notification_error :: string
  ah_recovery_notification_attempted_at :: "time option"
  ah_created_at :: time

record alert_db =
  ad_rules :: "alert_rule list"
  ad_rule_seq :: int
  ad_history :: "alert_history list"
  ad_history_seq :: int

definition empty_alert_db :: alert_db where
  "empty_alert_db = \<lparr>ad_rules = [], ad_rule_seq = 0, ad_history = [], ad_history_seq = 0\<rparr>"

definition history_active :: "alert_history \<Rightarrow> bool" where
  "history_active h \<longleftrightarrow> ah_resolved_at h = None"

definition set_history :: "(alert_history \<Rightarrow> bool) \<Rightarrow> (alert_history \<Rightarrow> alert_history) \<Rightarrow> alert_db \<Rightarrow> alert_db" where
  "set_history P f db = db\<lparr>ad_history := update_rows P f (ad_history db)\<rparr>"

section \<open>Rules\<close>

definition create_alert_rule :: "time \<Rightarrow> alert_rule \<Rightarrow> alert_db \<Rightarrow> alert_rule \<times> alert_db" where
  "create_alert_rule now rule db =
     (let i = ad_rule_seq db + 1; r = rule\<lparr>ar_id := i, ar_created_at := now, ar_updated_at := now\<rparr>
      in (r, db\<lparr>ad_rules := ad_rules db @ [r], ad_rule_seq := i\<rparr>))"

definition get_alert_rules :: "alert_db \<Rightarrow> alert_rule list" where
  "get_alert_rules db = sort_key ar_id (ad_rules db)"

definition get_enabled_alert_rules :: "alert_db \<Rightarrow> alert_rule list" where
  "get_enabled_alert_rules db = sort_key ar_id (filter ar_enabled (ad_rules db))"

definition get_alert_rule :: "alert_db \<Rightarrow> int \<Rightarrow> alert_rule option" where
  "get_alert_rule db i = List.find (\<lambda>r. ar_id r = i) (ad_rules db)"

definition configure_alert_rule :: "time \<Rightarrow> alert_rule \<Rightarrow> alert_rule \<Rightarrow> alert_rule" where
  "configure_alert_rule now rule r = rule\<lparr>ar_id := ar_id r, ar_created_at := ar_created_at r, ar_updated_at := now\<rparr>"

definition update_alert_rule :: "time \<Rightarrow> alert_rule \<Rightarrow> alert_db \<Rightarrow> alert_rule \<times> alert_db" where
  "update_alert_rule now rule db =
     (rule\<lparr>ar_updated_at := now\<rparr>,
      db\<lparr>ad_rules := update_rows (\<lambda>r. ar_id r = ar_id rule) (configure_alert_rule now rule) (ad_rules db)\<rparr>)"

text \<open>The history of a rule goes with it (\<^verbatim>\<open>ON DELETE CASCADE\<close>).\<close>

definition delete_alert_rule :: "int \<Rightarrow> alert_db \<Rightarrow> alert_db" where
  "delete_alert_rule i db =
     db\<lparr>ad_rules := delete_rows (\<lambda>r. ar_id r = i) (ad_rules db),
        ad_history := delete_rows (\<lambda>h. ah_rule_id h = i) (ad_history db)\<rparr>"

section \<open>History\<close>

text \<open>The foreign key on the rule is checked on insertion.\<close>

definition create_alert_history :: "time \<Rightarrow> alert_history \<Rightarrow> alert_db \<Rightarrow> (string + alert_history) \<times> alert_db" where
  "create_alert_history now history db =
     (if get_alert_rule db (ah_rule_id history) = None then (Inl ''FOREIGN KEY constraint failed'', db)
      else (let i = ad_history_seq db + 1;
                row = history\<lparr>ah_id := i, ah_notification_attempted_at := None, ah_recovery_notification_sent := False,
                  ah_recovery_notification_error := [], ah_recovery_notification_attempted_at := None, ah_created_at := now\<rparr>
            in (Inr (history\<lparr>ah_id := i, ah_created_at := now\<rparr>),
                db\<lparr>ad_history := ad_history db @ [row], ad_history_seq := i\<rparr>)))"

text \<open>\<^verbatim>\<open>COALESCE(r.name, h.rule_name)\<close> over the left join with the rules.\<close>

definition scan_history :: "alert_db \<Rightarrow> alert_history \<Rightarrow> alert_history" where
  "scan_history db h = h\<lparr>ah_rule_name := (case get_alert_rule db (ah_rule_id h) of None \<Rightarrow> ah_rule_name h | Some r \<Rightarrow> ar_name r)\<rparr>"

definition newest_first :: "alert_history list \<Rightarrow> alert_history list" where
  "newest_first hs = sort_key (\<lambda>h. - ah_triggered_at h) hs"

text \<open>A negative \<^verbatim>\<open>LIMIT\<close> is none.\<close>

definition get_alert_history :: "alert_db \<Rightarrow> string \<Rightarrow> int \<Rightarrow> alert_history list" where
  "get_alert_history db nodeID limit =
     (let hs = map (scan_history db) (newest_first (filter (\<lambda>h. ah_node_id h = nodeID) (ad_history db)))
      in if limit < 0 then hs else take (nat limit) hs)"

definition get_alert_history_by_id :: "alert_db \<Rightarrow> int \<Rightarrow> alert_history option" where
  "get_alert_history_by_id db i = map_option (scan_history db) (List.find (\<lambda>h. ah_id h = i) (ad_history db))"

definition get_active_alert_history :: "alert_db \<Rightarrow> alert_history list" where
  "get_active_alert_history db = map (scan_history db) (newest_first (filter history_active (ad_history db)))"

definition update_alert_history_resolved :: "int \<Rightarrow> time \<Rightarrow> alert_db \<Rightarrow> alert_db" where
  "update_alert_history_resolved i resolvedAt = set_history (\<lambda>h. ah_id h = i) (\<lambda>h. h\<lparr>ah_resolved_at := Some resolvedAt\<rparr>)"

definition update_alert_history_notification_result :: "int \<Rightarrow> bool \<Rightarrow> string \<Rightarrow> time \<Rightarrow> alert_db \<Rightarrow> alert_db" where
  "update_alert_history_notification_result i sent err attemptedAt = set_history (\<lambda>h. ah_id h = i)
     (\<lambda>h. h\<lparr>ah_notification_sent := sent, ah_notification_error := err, ah_notification_attempted_at := Some attemptedAt\<rparr>)"

definition update_alert_history_recovery_notification_result :: "int \<Rightarrow> bool \<Rightarrow> string \<Rightarrow> time \<Rightarrow> alert_db \<Rightarrow> alert_db" where
  "update_alert_history_recovery_notification_result i sent err attemptedAt = set_history (\<lambda>h. ah_id h = i)
     (\<lambda>h. h\<lparr>ah_recovery_notification_sent := sent, ah_recovery_notification_error := err,
            ah_recovery_notification_attempted_at := Some attemptedAt\<rparr>)"

definition resolve_alert_history :: "int \<Rightarrow> time \<Rightarrow> alert_db \<Rightarrow> alert_history option \<times> alert_db" where
  "resolve_alert_history i resolvedAt db =
     (case get_alert_history_by_id db i of
        None \<Rightarrow> (None, db)
      | Some history \<Rightarrow>
          if ah_resolved_at history = None
          then (let db' = set_history (\<lambda>h. ah_id h = i \<and> history_active h) (\<lambda>h. h\<lparr>ah_resolved_at := Some resolvedAt\<rparr>) db
                in (get_alert_history_by_id db' i, db'))
          else (Some history, db))"

definition delete_resolved_alert_history :: "int \<Rightarrow> alert_db \<Rightarrow> bool \<times> alert_db" where
  "delete_resolved_alert_history i db =
     (let P = (\<lambda>h. ah_id h = i \<and> \<not> history_active h)
      in (count_rows P (ad_history db) > 0, db\<lparr>ad_history := delete_rows P (ad_history db)\<rparr>))"

fun delete_resolved_alert_histories :: "int list \<Rightarrow> alert_db \<Rightarrow> int \<times> alert_db" where
  "delete_resolved_alert_histories [] db = (0, db)"
| "delete_resolved_alert_histories (i # ids) db =
     (let rows = int (count_rows (\<lambda>h. ah_id h = i \<and> \<not> history_active h) (ad_history db));
          (deleted, db') = delete_resolved_alert_histories ids (snd (delete_resolved_alert_history i db))
      in (rows + deleted, db'))"

definition resolve_active_alert_history_by_rule_id :: "int \<Rightarrow> time \<Rightarrow> alert_db \<Rightarrow> nat \<times> alert_db" where
  "resolve_active_alert_history_by_rule_id ruleID resolvedAt db =
     (let P = (\<lambda>h. ah_rule_id h = ruleID \<and> history_active h)
      in (count_rows P (ad_history db), set_history P (\<lambda>h. h\<lparr>ah_resolved_at := Some resolvedAt\<rparr>) db))"

definition resolve_active_alert_history_for_disabled_rules :: "time \<Rightarrow> alert_db \<Rightarrow> nat \<times> alert_db" where
  "resolve_active_alert_history_for_disabled_rules resolvedAt db =
     (let P = (\<lambda>h. history_active h \<and> ah_rule_id h \<in> set (map ar_id (filter (\<lambda>r. \<not> ar_enabled r) (ad_rules db))))
      in (count_rows P (ad_history db), set_history P (\<lambda>h. h\<lparr>ah_resolved_at := Some resolvedAt\<rparr>) db))"

definition update_alert_history_rule_name_by_rule_id :: "int \<Rightarrow> string \<Rightarrow> alert_db \<Rightarrow> nat \<times> alert_db" where
  "update_alert_history_rule_name_by_rule_id ruleID ruleName db =
     (count_rows (\<lambda>h. ah_rule_id h = ruleID) (ad_history db),
      set_history (\<lambda>h. ah_rule_id h = ruleID) (\<lambda>h. h\<lparr>ah_rule_name := ruleName\<rparr>) db)"

definition update_alert_history_metric_value :: "int \<Rightarrow> rat \<Rightarrow> alert_db \<Rightarrow> alert_db" where
  "update_alert_history_metric_value i metricValue = set_history (\<lambda>h. ah_id h = i) (\<lambda>h. h\<lparr>ah_metric_value := metricValue\<rparr>)"

end
