(* ===== verification/AlertEngine.thy ===== *)
theory AlertEngine
  imports AlertStore NodeModel Notifier
begin

text \<open>
  \<^verbatim>\<open>internal/server/alerting/engine.go\<close>: the evaluation of the rules against the latest metrics and the
  life of an alert.  One goroutine runs \<open>CheckRules\<close> periodically; requests of the API change rules and
  history between any two of its accesses to the database.  A step of the model is what the goroutine
  does with one access to the database, or one request's access.  The nodes and metrics it reads, the
  results of deliveries and the times are arguments of the steps.
\<close>

section \<open>Evaluating a rule\<close>

text \<open>\<^verbatim>\<open>Metric\<close> of \<^verbatim>\<open>internal/server/store/metrics.go\<close>.\<close>

record metric =
  mt_id :: int
  mt_node_id :: string
  mt_cpu_usage :: rat
  mt_cpu_cores :: int
  mt_memory_total :: int
  mt_memory_used :: int
  mt_memory_usage :: rat
  mt_disk_total :: int
  mt_disk_used :: int
  mt_disk_usage :: rat
  mt_uptime :: int
  mt_disk_read_speed :: int
  mt_disk_write_speed :: int
  mt_rx_speed :: int
  mt_tx_speed :: int
  mt_rx_total :: int
  mt_tx_total :: int
  mt_load1 :: rat
  mt_load5 :: rat
  mt_load15 :: rat
  mt_created_at :: time

definition zero_metric :: "string \<Rightarrow> metric" where
  "zero_metric nodeID = \<lparr>mt_id = 0, mt_node_id = nodeID, mt_cpu_usage = 0, mt_cpu_cores = 0, mt_memory_total = 0,
     mt_memory_used = 0, mt_memory_usage = 0, mt_disk_total = 0, mt_disk_used = 0, mt_disk_usage = 0, mt_uptime = 0,
     mt_disk_read_speed = 0, mt_disk_write_speed = 0, mt_rx_speed = 0, mt_tx_speed = 0, mt_rx_total = 0, mt_tx_total = 0,
     mt_load1 = 0, mt_load5 = 0, mt_load15 = 0, mt_created_at = 0\<rparr>"

text \<open>
  The value of a field by reflection: \<^verbatim>\<open>FieldByName\<close> on the struct of a metric, whose fields hold a \<^verbatim>\<open>float64\<close>, an
  \<^verbatim>\<open>int64\<close>, or something else.
\<close>

datatype field_content = FloatContent rat | IntContent int | OtherContent

definition metric_struct :: "metric \<Rightarrow> (string \<times> field_content) list" where
  "metric_struct m =
     [(''ID'', IntContent (mt_id m)), (''NodeID'', OtherContent), (''CPUUsage'', FloatContent (mt_cpu_usage m)),
      (''CPUCores'', OtherContent), (''MemoryTotal'', IntContent (mt_memory_total m)), (''MemoryUsed'', IntContent (mt_memory_used m)),
      (''MemoryUsage'', FloatContent (mt_memory_usage m)), (''DiskTotal'', IntContent (mt_disk_total m)), (''DiskUsed'', IntContent (mt_disk_used m)),
      (''DiskUsage'', FloatContent (mt_disk_usage m)), (''Uptime'', IntContent (mt_uptime m)), (''DiskReadSpeed'', IntContent (mt_disk_read_speed m)),
      (''DiskWriteSpeed'', IntContent (mt_disk_write_speed m)), (''RXSpeed'', IntContent (mt_rx_speed m)), (''TXSpeed'', IntContent (mt_tx_speed m)),
      (''RXTotal'', IntContent (mt_rx_total m)), (''TXTotal'', IntContent (mt_tx_total m)), (''Load1'', FloatContent (mt_load1 m)),
      (''Load5'', FloatContent (mt_load5 m)), (''Load15'', FloatContent (mt_load15 m)), (''CreatedAt'', OtherContent)]"

definition field_map :: "(string \<times> string) list" where
  "field_map = [(''cpu_usage'', ''CPUUsage''), (''memory_usage'', ''MemoryUsage''), (''disk_usage'', ''DiskUsage''), (''swap_usage'', ''SwapUsage''),
     (''network_rx_bytes'', ''RXTotal''), (''network_tx_bytes'', ''TXTotal''), (''load_1'', ''Load1''), (''load_5'', ''Load5''), (''load_15'', ''Load15'')]"

definition get_metric_value :: "metric \<Rightarrow> string \<Rightarrow> field_content option" where
  "get_metric_value m field = (case map_of field_map field of None \<Rightarrow> None | Some structField \<Rightarrow> map_of (metric_struct m) structField)"

text \<open>The struct has no \<^verbatim>\<open>SwapUsage\<close>.\<close>

lemma get_metric_value_eq:
  "get_metric_value m field =
     (if field = ''cpu_usage'' then Some (FloatContent (mt_cpu_usage m))
      else if field = ''memory_usage'' then Some (FloatContent (mt_memory_usage m))
      else if field = ''disk_usage'' then Some (FloatContent (mt_disk_usage m))
      else if field = ''network_rx_bytes'' then Some (IntContent (mt_rx_total m))
      else if field = ''network_tx_bytes'' then Some (IntContent (mt_tx_total m))
      else if field = ''load_1'' then Some (FloatContent (mt_load1 m))
      else if field = ''load_5'' then Some (FloatContent (mt_load5 m))
      else if field = ''load_15'' then Some (FloatContent (mt_load15 m))
      else None)"
  by (simp add: get_metric_value_def field_map_def metric_struct_def)

definition float_value :: "metric \<Rightarrow> string \<Rightarrow> rat" where
  "float_value m field = (case get_metric_value m field of
     Some (FloatContent v) \<Rightarrow> v | Some (IntContent v) \<Rightarrow> round_float (of_int v) | _ \<Rightarrow> 0)"

definition check_threshold :: "alert_rule \<Rightarrow> metric \<Rightarrow> bool" where
  "check_threshold rule m =
     (case (case get_metric_value m (ar_metric_field rule) of
              Some (FloatContent v) \<Rightarrow> Some v | Some (IntContent v) \<Rightarrow> Some (round_float (of_int v)) | _ \<Rightarrow> None) of
        None \<Rightarrow> False
      | Some v \<Rightarrow>
        (let t = ar_threshold rule; op = ar_operator rule
         in if op = ''>'' then v > t
            else if op = ''>='' then v \<ge> t
            else if op = ''<'' then v < t
            else if op = ''<='' then v \<le> t
            else if op = ''='' then v = t
            else False))"

definition node_in_scope :: "alert_rule \<Rightarrow> string \<Rightarrow> bool" where
  "node_in_scope rule nodeID =
     (if ar_scope_type rule = ''all'' then True
      else if ar_scope_type rule = ''nodes'' then nodeID \<in> set (ar_scope_node_ids rule)
      else False)"

section \<open>States\<close>

record alert_state =
  as_rule_id :: int
  as_node_id :: string
  as_condition_met :: bool
  as_triggered :: bool
  as_history_id :: int
  as_first_met_at :: time
  as_last_checked :: time

type_synonym alert_states = "string \<Rightarrow> alert_state option"

definition state_key :: "int \<Rightarrow> string \<Rightarrow> string" where
  "state_key ruleID nodeID = show_int ruleID @ '':'' @ nodeID"

definition duration_elapsed :: "alert_rule \<Rightarrow> time \<Rightarrow> alert_state \<Rightarrow> bool" where
  "duration_elapsed rule now st \<longleftrightarrow> wrap64 (ar_duration_seconds rule * nanos_per_second) \<le> time_sub now (as_first_met_at st)"

definition evaluate_rule :: "time \<Rightarrow> alert_rule \<Rightarrow> metric \<Rightarrow> alert_states \<Rightarrow> bool \<times> alert_states" where
  "evaluate_rule now rule m states =
     (if \<not> node_in_scope rule (mt_node_id m) then (False, states)
      else (let key = state_key (ar_id rule) (mt_node_id m) in
        if \<not> check_threshold rule m
        then (False, (case states key of
                        None \<Rightarrow> states
                      | Some st \<Rightarrow> if \<not> as_triggered st then states(key := None) else states))
        else (case states key of
                None \<Rightarrow> (ar_duration_seconds rule = 0,
                   states(key \<mapsto> \<lparr>as_rule_id = ar_id rule, as_node_id = mt_node_id m, as_condition_met = True,
                     as_triggered = False, as_history_id = 0, as_first_met_at = now, as_last_checked = now\<rparr>))
              | Some st \<Rightarrow>
                  (ar_duration_seconds rule = 0 \<or> duration_elapsed rule now st,
                   states(key \<mapsto> st\<lparr>as_last_checked := now\<rparr>)))))"

text \<open>\<open>Initialize\<close>: the states of the alerts that were active when the server stopped; a later row of the list wins.\<close>

definition restored_state :: "time \<Rightarrow> alert_history \<Rightarrow> alert_state" where
  "restored_state now h = \<lparr>as_rule_id = ah_rule_id h, as_node_id = ah_node_id h, as_condition_met = True,
     as_triggered = True, as_history_id = ah_id h, as_first_met_at = ah_triggered_at h, as_last_checked = now\<rparr>"

definition history_key :: "alert_history \<Rightarrow> string" where
  "history_key h = state_key (ah_rule_id h) (ah_node_id h)"

definition initialize_states :: "time \<Rightarrow> alert_db \<Rightarrow> alert_states" where
  "initialize_states now db = fold (\<lambda>h states. states(history_key h \<mapsto> restored_state now h)) (get_active_alert_history db) Map.empty"

definition active_by_key :: "alert_db \<Rightarrow> string \<Rightarrow> alert_history option" where
  "active_by_key db = fold (\<lambda>h byKey. byKey(history_key h \<mapsto> h)) (get_active_alert_history db) Map.empty"

definition sync_states :: "alert_db \<Rightarrow> alert_states \<Rightarrow> alert_states" where
  "sync_states db states = (\<lambda>key. case states key of
     None \<Rightarrow> None
   | Some st \<Rightarrow>
       if \<not> as_triggered st then Some st
       else (case active_by_key db key of None \<Rightarrow> None | Some h \<Rightarrow> Some (st\<lparr>as_history_id := ah_id h\<rparr>)))"

section \<open>Checks\<close>

text \<open>\<open>AlertPayload\<close>.\<close>

record alert_payload =
  ap_rule_name :: string
  ap_node_id :: string
  ap_node_name :: string
  ap_metric_field :: string
  ap_metric_value :: rat
  ap_threshold :: rat
  ap_operator :: string
  ap_triggered_at :: time
  ap_resolved_at :: "time option"
  ap_status :: string

text \<open>
  Where \<open>CheckRules\<close> is: between \<open>ResolveActiveAlertHistoryForDisabledRules\<close>, the synchronisation, the
  reading of rules and nodes, and the pairs of the loop.  \<open>Firing\<close> and \<open>Clearing\<close> are \<open>handleAlert\<close> and
  \<open>checkResolution\<close> after the evaluation; \<open>Announcing\<close> and \<open>Recovering\<close> are deliveries in progress, \<open>Loaded\<close>
  is \<open>checkResolution\<close> between reading and resolving the history.
\<close>

datatype alert_pc =
  NoCheck | MustSync | MustLoadRules | MustLoadNodes "alert_rule list"
| AtPairs "(alert_rule \<times> node) list"
| Firing alert_rule node metric "(alert_rule \<times> node) list"
| Announcing alert_rule node alert_history "(alert_rule \<times> node) list"
| Clearing alert_rule node metric "(alert_rule \<times> node) list"
| Loaded alert_rule node metric alert_history "(alert_rule \<times> node) list"
| Recovering alert_rule node int "(alert_rule \<times> node) list"

record alert_engine =
  ae_db :: alert_db
  ae_states :: alert_states
  ae_pc :: alert_pc
  ae_delivered :: "(notification_channel list \<times> alert_payload) list"

text \<open>A server starts with the tables it finds and \<open>Initialize\<close>.\<close>

definition new_alert_engine :: "time \<Rightarrow> alert_db \<Rightarrow> alert_engine" where
  "new_alert_engine now db = \<lparr>ae_db = db, ae_states = initialize_states now db, ae_pc = NoCheck, ae_delivered = []\<rparr>"

definition new_history :: "time \<Rightarrow> alert_rule \<Rightarrow> node \<Rightarrow> metric \<Rightarrow> alert_history" where
  "new_history now rule node m = \<lparr>ah_id = 0, ah_rule_id = ar_id rule, ah_rule_name = ar_name rule, ah_node_id = nd_id node,
     ah_node_name = nd_name node, ah_metric_field = ar_metric_field rule, ah_metric_value = float_value m (ar_metric_field rule),
     ah_threshold = ar_threshold rule, ah_triggered_at = now, ah_resolved_at = None, ah_notification_sent = False,
     ah_notification_error = [], ah_notification_attempted_at = None, ah_recovery_notification_sent = False,
     ah_recovery_notification_error = [], ah_recovery_notification_attempted_at = None, ah_created_at = 0\<rparr>"

definition trigger_payload :: "alert_rule \<Rightarrow> node \<Rightarrow> alert_history \<Rightarrow> alert_payload" where
  "trigger_payload rule node h = \<lparr>ap_rule_name = ar_name rule, ap_node_id = nd_id node, ap_node_name = nd_name node,
     ap_metric_field = ar_metric_field rule, ap_metric_value = ah_metric_value h, ap_threshold = ar_threshold rule,
     ap_operator = ar_operator rule, ap_triggered_at = ah_triggered_at h, ap_resolved_at = None, ap_status = ''triggered''\<rparr>"

definition recovery_payload :: "time \<Rightarrow> alert_rule \<Rightarrow> node \<Rightarrow> metric \<Rightarrow> alert_history \<Rightarrow> alert_payload" where
  "recovery_payload resolvedAt rule node m h = \<lparr>ap_rule_name = ah_rule_name h, ap_node_id = nd_id node, ap_node_name = nd_name node,
     ap_metric_field = ar_metric_field rule, ap_metric_value = float_value m (ar_metric_field rule), ap_threshold = ar_threshold rule,
     ap_operator = ar_operator rule, ap_triggered_at = ah_triggered_at h, ap_resolved_at = Some resolvedAt, ap_status = ''resolved''\<rparr>"

text \<open>The loop over the rules and, inside, over the nodes.\<close>

definition rule_node_pairs :: "alert_rule list \<Rightarrow> node list \<Rightarrow> (alert_rule \<times> node) list" where
  "rule_node_pairs rules nodes = concat (map (\<lambda>r. map (\<lambda>n. (r, n)) nodes) rules)"

datatype check_rules_event =
  BeginRules time | SyncStates | LoadRules | LoadNodes "node list" | Evaluate time "metric option"
| Fire time time | Announced delivery | LoadHistory | Resolved time | Recovered delivery

text \<open>\<open>evaluateRule\<close> on the next pair with the latest metric of its node.\<close>

definition evaluate_pair :: "time \<Rightarrow> metric option \<Rightarrow> alert_engine \<Rightarrow> alert_engine option" where
  "evaluate_pair now latest s =
     (case ae_pc s of
        AtPairs [] \<Rightarrow> Some (s\<lparr>ae_pc := NoCheck\<rparr>)
      | AtPairs ((rule, node) # rest) \<Rightarrow>
          if \<not> node_in_scope rule (nd_id node) then Some (s\<lparr>ae_pc := AtPairs rest\<rparr>)
          else (case latest of
                  None \<Rightarrow> Some (s\<lparr>ae_pc := AtPairs rest\<rparr>)
                | Some m \<Rightarrow>
                    if mt_node_id m \<noteq> nd_id node then None
                    else (let (triggered, states) = evaluate_rule now rule m (ae_states s)
                          in Some (s\<lparr>ae_states := states,
                                     ae_pc := (if triggered then Firing rule node m rest else Clearing rule node m rest)\<rparr>)))
      | _ \<Rightarrow> None)"

text \<open>\<open>state != nil && state.Triggered\<close>.\<close>

definition triggered_state :: "alert_states \<Rightarrow> string \<Rightarrow> alert_state option" where
  "triggered_state states key = (case states key of None \<Rightarrow> None | Some st \<Rightarrow> if as_triggered st then Some st else None)"

text \<open>\<open>handleAlert\<close> up to the delivery; a failed insertion ends the whole check with its error.\<close>

definition fire_alert :: "time \<Rightarrow> time \<Rightarrow> alert_engine \<Rightarrow> alert_engine option" where
  "fire_alert triggeredAt createdAt s =
     (case ae_pc s of
        Firing rule node m rest \<Rightarrow>
          (case triggered_state (ae_states s) (state_key (ar_id rule) (mt_node_id m)) of
             Some st \<Rightarrow> Some (s\<lparr>
               ae_db := (if as_history_id st > 0
                         then update_alert_history_metric_value (as_history_id st) (float_value m (ar_metric_field rule)) (ae_db s)
                         else ae_db s),
               ae_pc := AtPairs rest\<rparr>)
           | None \<Rightarrow>
               (case create_alert_history createdAt (new_history triggeredAt rule node m) (ae_db s) of
                  (Inl _, db) \<Rightarrow> Some (s\<lparr>ae_db := db, ae_pc := NoCheck\<rparr>)
                | (Inr h, db) \<Rightarrow> Some (s\<lparr>ae_db := db, ae_pc := Announcing rule node h rest\<rparr>)))
      | _ \<Rightarrow> None)"

text \<open>The rest of \<open>handleAlert\<close>: the delivery, its record and the state.\<close>

definition mark_triggered :: "string \<Rightarrow> int \<Rightarrow> alert_states \<Rightarrow> alert_states" where
  "mark_triggered key historyID states =
     (case states key of None \<Rightarrow> states
      | Some st \<Rightarrow> states(key \<mapsto> st\<lparr>as_triggered := True, as_history_id := historyID\<rparr>))"

definition announce_alert :: "delivery \<Rightarrow> alert_engine \<Rightarrow> alert_engine option" where
  "announce_alert d s =
     (case ae_pc s of
        Announcing rule node h rest \<Rightarrow> Some (s\<lparr>
          ae_db := update_alert_history_notification_result (ah_id h) (dv_sent d) (dv_error d) (dv_attempted_at d) (ae_db s),
          ae_states := mark_triggered (state_key (ar_id rule) (nd_id node)) (ah_id h) (ae_states s),
          ae_delivered := ae_delivered s @ [(ar_notification_channels rule, trigger_payload rule node h)],
          ae_pc := AtPairs rest\<rparr>)
      | _ \<Rightarrow> None)"

text \<open>\<open>checkResolution\<close>; a missing history ends the whole check with an error.\<close>

definition load_history :: "alert_engine \<Rightarrow> alert_engine option" where
  "load_history s =
     (case ae_pc s of
        Clearing rule node m rest \<Rightarrow>
          (case triggered_state (ae_states s) (state_key (ar_id rule) (nd_id node)) of
             None \<Rightarrow> Some (s\<lparr>ae_pc := AtPairs rest\<rparr>)
           | Some st \<Rightarrow>
               if as_history_id st > 0
               then (case get_alert_history_by_id (ae_db s) (as_history_id st) of
                       None \<Rightarrow> Some (s\<lparr>ae_pc := NoCheck\<rparr>)
                     | Some h \<Rightarrow> Some (s\<lparr>ae_pc := Loaded rule node m h rest\<rparr>))
               else Some (s\<lparr>ae_pc := AtPairs rest\<rparr>))
      | _ \<Rightarrow> None)"

definition resolve_alert :: "time \<Rightarrow> alert_engine \<Rightarrow> alert_engine option" where
  "resolve_alert resolvedAt s =
     (case ae_pc s of
        Loaded rule node m h rest \<Rightarrow> Some (s\<lparr>
          ae_db := update_alert_history_resolved (ah_id h) resolvedAt (ae_db s),
          ae_delivered := ae_delivered s @ [(ar_notification_channels rule, recovery_payload resolvedAt rule node m h)],
          ae_pc := Recovering rule node (ah_id h) rest\<rparr>)
      | _ \<Rightarrow> None)"

definition recover_alert :: "delivery \<Rightarrow> alert_engine \<Rightarrow> alert_engine option" where
  "recover_alert d s =
     (case ae_pc s of
        Recovering rule node i rest \<Rightarrow> Some (s\<lparr>
          ae_db := update_alert_history_recovery_notification_result i (dv_sent d) (dv_error d) (dv_attempted_at d) (ae_db s),
          ae_states := (ae_states s)(state_key (ar_id rule) (nd_id node) := None),
          ae_pc := AtPairs rest\<rparr>)
      | _ \<Rightarrow> None)"

definition check_rules_step :: "check_rules_event \<Rightarrow> alert_engine \<Rightarrow> alert_engine option" where
  "check_rules_step e s = (case e of
     BeginRules now \<Rightarrow> (if ae_pc s = NoCheck
       then Some (s\<lparr>ae_db := snd (resolve_active_alert_history_for_disabled_rules now (ae_db s)), ae_pc := MustSync\<rparr>) else None)
   | SyncStates \<Rightarrow> (if ae_pc s = MustSync
       then Some (s\<lparr>ae_states := sync_states (ae_db s) (ae_states s), ae_pc := MustLoadRules\<rparr>) else None)
   | LoadRules \<Rightarrow> (if ae_pc s = MustLoadRules
       then Some (s\<lparr>ae_pc := MustLoadNodes (get_enabled_alert_rules (ae_db s))\<rparr>) else None)
   | LoadNodes nodes \<Rightarrow> (case ae_pc s of
       MustLoadNodes rules \<Rightarrow> Some (s\<lparr>ae_pc := AtPairs (rule_node_pairs rules nodes)\<rparr>) | _ \<Rightarrow> None)
   | Evaluate now latest \<Rightarrow> evaluate_pair now latest s
   | Fire triggeredAt createdAt \<Rightarrow> fire_alert triggeredAt createdAt s
   | Announced d \<Rightarrow> announce_alert d s
   | LoadHistory \<Rightarrow> load_history s
   | Resolved now \<Rightarrow> resolve_alert now s
   | Recovered d \<Rightarrow> recover_alert d s)"

section \<open>Requests\<close>

text \<open>The changes requests make to the tables (\<^verbatim>\<open>internal/server/api/alerts.go\<close>, \<^verbatim>\<open>alert_history.go\<close>), one access each.\<close>

datatype alert_request =
  CreateRule time alert_rule | UpdateRule time alert_rule | RenameHistory int string | ResolveRule int time
| DeleteRule int | ResolveDisabled time | ResolveHistory int time | DeleteHistory int | DeleteHistories "int list"

primrec apply_alert_request :: "alert_request \<Rightarrow> alert_db \<Rightarrow> alert_db" where
  "apply_alert_request (CreateRule now rule) db = snd (create_alert_rule now rule db)"
| "apply_alert_request (UpdateRule now rule) db = snd (update_alert_rule now rule db)"
| "apply_alert_request (RenameHistory i name) db = snd (update_alert_history_rule_name_by_rule_id i name db)"
| "apply_alert_request (ResolveRule i now) db = snd (resolve_active_alert_history_by_rule_id i now db)"
| "apply_alert_request (DeleteRule i) db = delete_alert_rule i db"
| "apply_alert_request (ResolveDisabled now) db = snd (resolve_active_alert_history_for_disabled_rules now db)"
| "apply_alert_request (ResolveHistory i now) db = snd (resolve_alert_history i now db)"
| "apply_alert_request (DeleteHistory i) db = snd (delete_resolved_alert_history i db)"
| "apply_alert_request (DeleteHistories ids) db = snd (delete_resolved_alert_histories ids db)"

datatype alert_event = CheckStep check_rules_event | Request alert_request | Restart time

definition alert_step :: "alert_event \<Rightarrow> alert_engine \<Rightarrow> alert_engine option" where
  "alert_step e s = (case e of
     CheckStep ce \<Rightarrow> check_rules_step ce s
   | Request r \<Rightarrow> Some (s\<lparr>ae_db := apply_alert_request r (ae_db s)\<rparr>)
   | Restart now \<Rightarrow> Some (new_alert_engine now (ae_db s)))"

inductive alert_reaches :: "alert_engine \<Rightarrow> alert_engine \<Rightarrow> bool" for s where
  alert_start: "alert_reaches s s"
| alert_step: "alert_reaches s t \<Longrightarrow> alert_step e t = Some u \<Longrightarrow> alert_reaches s u"

end
