(* ===== verification/AlertInv.thy ===== *)
theory AlertInv
  imports AlertEngine
begin

text \<open>
  The invariant of the alert tables and of the engine's states, and that every step keeps it: an active
  row of the history is the only one of its rule and node, and the engine knows it by its identifier.
\<close>

section \<open>Keys\<close>

lemma state_key_inj: "state_key i n = state_key j m \<longleftrightarrow> i = j \<and> n = m"
proof
  have colon: "CHR '':'' \<notin> set (show_int k)" for k
    using show_nat_digits [of "CHR '':''" "nat k"] show_nat_digits [of "CHR '':''" "nat (- k)"]
    by (auto simp: show_int_def)
  assume "state_key i n = state_key j m"
  then have eq: "show_int i @ CHR '':'' # n = show_int j @ CHR '':'' # m" by (simp add: state_key_def)
  have "takeWhile (\<lambda>c. c \<noteq> CHR '':'') (show_int k @ CHR '':'' # w) = show_int k" for k w
    using colon [of k] by (subst takeWhile_append2) auto
  with eq have "show_int i = show_int j" by metis
  with eq show "i = j \<and> n = m" by (simp add: show_int_inj)
qed simp

lemma history_key_eq: "history_key h = state_key i n \<longleftrightarrow> ah_rule_id h = i \<and> ah_node_id h = n"
  by (simp add: history_key_def state_key_inj)

section \<open>The tables\<close>

definition alert_tables_ok :: "alert_db \<Rightarrow> bool" where
  "alert_tables_ok db \<longleftrightarrow>
     sorted_wrt (<) (map ar_id (ad_rules db)) \<and> (\<forall>i\<in>set (map ar_id (ad_rules db)). 0 < i \<and> i \<le> ad_rule_seq db)
     \<and> sorted_wrt (<) (map ah_id (ad_history db)) \<and> (\<forall>h\<in>set (ad_history db). 0 < ah_id h \<and> ah_id h \<le> ad_history_seq db)
     \<and> (\<forall>h\<in>set (ad_history db). ah_rule_id h \<in> set (map ar_id (ad_rules db)))
     \<and> 0 \<le> ad_rule_seq db \<and> 0 \<le> ad_history_seq db"

definition active_with_key :: "alert_db \<Rightarrow> string \<Rightarrow> nat" where
  "active_with_key db k = count_rows (\<lambda>h. history_active h \<and> history_key h = k) (ad_history db)"

text \<open>A change that neither adds nor reactivates a row and keeps the identity of the rows.\<close>

definition calm :: "alert_db \<Rightarrow> alert_db \<Rightarrow> bool" where
  "calm db db' \<longleftrightarrow> ad_history_seq db' = ad_history_seq db \<and> (\<forall>k. active_with_key db' k \<le> active_with_key db k)
     \<and> (\<forall>h'\<in>set (ad_history db'). \<exists>h\<in>set (ad_history db). ah_id h = ah_id h' \<and> history_key h = history_key h'
          \<and> (history_active h' \<longrightarrow> history_active h))"

definition keeps_identity :: "(alert_history \<Rightarrow> alert_history) \<Rightarrow> bool" where
  "keeps_identity f \<longleftrightarrow> (\<forall>h. ah_id (f h) = ah_id h \<and> ah_rule_id (f h) = ah_rule_id h \<and> ah_node_id (f h) = ah_node_id h
     \<and> (history_active (f h) \<longrightarrow> history_active h))"

lemma calm_refl [simp]: "calm db db"
  by (auto simp: calm_def)

lemma calm_trans: "calm a b \<Longrightarrow> calm b c \<Longrightarrow> calm a c"
  unfolding calm_def by (metis le_trans)

lemma calm_set_history: "keeps_identity f \<Longrightarrow> calm db (set_history P f db)"
  by (auto simp: calm_def set_history_def set_update_rows active_with_key_def keeps_identity_def history_key_def
      intro!: count_update_le)

lemma calm_delete: "calm db (db\<lparr>ad_rules := rs, ad_history := delete_rows P (ad_history db)\<rparr>)"
  by (auto simp: calm_def active_with_key_def count_delete_le)

lemma calm_delete_history: "calm db (db\<lparr>ad_history := delete_rows P (ad_history db)\<rparr>)"
  by (auto simp: calm_def active_with_key_def count_delete_le)

lemma calm_rules: "calm db (db\<lparr>ad_rules := rs\<rparr>)" "calm db (db\<lparr>ad_rules := rs, ad_rule_seq := n\<rparr>)"
  by (auto simp: calm_def active_with_key_def)

lemma tables_set_history: "keeps_identity f \<Longrightarrow> alert_tables_ok db \<Longrightarrow> alert_tables_ok (set_history P f db)"
  by (auto simp: alert_tables_ok_def set_history_def set_update_rows map_update_rows keeps_identity_def)

lemma tables_delete_history: "alert_tables_ok db \<Longrightarrow> alert_tables_ok (db\<lparr>ad_history := delete_rows P (ad_history db)\<rparr>)"
  by (auto simp: alert_tables_ok_def sorted_map_delete)

lemma keeps_identity_updates [simp]:
  "keeps_identity (\<lambda>h. h\<lparr>ah_resolved_at := Some t\<rparr>)" "keeps_identity (\<lambda>h. h\<lparr>ah_metric_value := v\<rparr>)"
  "keeps_identity (\<lambda>h. h\<lparr>ah_rule_name := n\<rparr>)"
  "keeps_identity (\<lambda>h. h\<lparr>ah_notification_sent := b, ah_notification_error := e, ah_notification_attempted_at := a\<rparr>)"
  "keeps_identity (\<lambda>h. h\<lparr>ah_recovery_notification_sent := b, ah_recovery_notification_error := e, ah_recovery_notification_attempted_at := a\<rparr>)"
  by (simp_all add: keeps_identity_def history_active_def)

lemmas history_updates =
  update_alert_history_resolved_def update_alert_history_metric_value_def
  update_alert_history_notification_result_def update_alert_history_recovery_notification_result_def

lemma history_updates_calm [simp]:
  "calm db (update_alert_history_resolved i t db)" "calm db (update_alert_history_metric_value i v db)"
  "calm db (update_alert_history_notification_result i b e t db)"
  "calm db (update_alert_history_recovery_notification_result i b e t db)"
  by (simp_all add: history_updates calm_set_history)

lemma history_updates_tables [simp]:
  "alert_tables_ok db \<Longrightarrow> alert_tables_ok (update_alert_history_resolved i t db)"
  "alert_tables_ok db \<Longrightarrow> alert_tables_ok (update_alert_history_metric_value i v db)"
  "alert_tables_ok db \<Longrightarrow> alert_tables_ok (update_alert_history_notification_result i b e t db)"
  "alert_tables_ok db \<Longrightarrow> alert_tables_ok (update_alert_history_recovery_notification_result i b e t db)"
  by (simp_all add: history_updates tables_set_history)

lemma delete_histories_calm:
  "calm db (snd (delete_resolved_alert_histories ids db))
   \<and> (alert_tables_ok db \<longrightarrow> alert_tables_ok (snd (delete_resolved_alert_histories ids db)))"
proof (induction ids arbitrary: db)
  case (Cons i ids)
  let ?db = "snd (delete_resolved_alert_history i db)"
  have "calm db ?db \<and> (alert_tables_ok db \<longrightarrow> alert_tables_ok ?db)"
    by (simp add: delete_resolved_alert_history_def Let_def calm_delete_history tables_delete_history)
  with Cons.IH [of ?db] show ?case by (auto simp: Let_def split: prod.split intro: calm_trans)
qed simp

lemma alert_request_calm: "calm db (apply_alert_request r db)"
  by (cases r) (simp_all add: create_alert_rule_def update_alert_rule_def update_alert_history_rule_name_by_rule_id_def
      resolve_active_alert_history_by_rule_id_def resolve_active_alert_history_for_disabled_rules_def
      resolve_alert_history_def delete_resolved_alert_history_def delete_alert_rule_def Let_def
      calm_set_history calm_rules calm_delete calm_delete_history delete_histories_calm split: option.split)

lemma alert_request_tables: "alert_tables_ok db \<Longrightarrow> alert_tables_ok (apply_alert_request r db)"
proof (cases r)
  case (CreateRule now rule)
  assume "alert_tables_ok db"
  with CreateRule show ?thesis
    by (auto simp: create_alert_rule_def Let_def alert_tables_ok_def sorted_wrt_append)
next
  case (UpdateRule now rule)
  assume "alert_tables_ok db"
  moreover have "map ar_id (update_rows (\<lambda>r. ar_id r = ar_id rule) (configure_alert_rule now rule) rs) = map ar_id rs" for rs
    by (rule map_update_rows) (simp add: configure_alert_rule_def)
  ultimately show ?thesis using UpdateRule by (simp add: update_alert_rule_def alert_tables_ok_def del: list.set_map)
next
  case (DeleteRule i)
  assume "alert_tables_ok db"
  with DeleteRule show ?thesis by (fastforce simp: delete_alert_rule_def alert_tables_ok_def sorted_map_delete)
qed (simp_all add: update_alert_history_rule_name_by_rule_id_def resolve_active_alert_history_by_rule_id_def
    resolve_active_alert_history_for_disabled_rules_def resolve_alert_history_def delete_resolved_alert_history_def Let_def
    tables_set_history tables_delete_history delete_histories_calm split: option.split)

end
