(* ===== verification/AlertLife.thy ===== *)
theory AlertLife
  imports AlertInv
begin

text \<open>The invariant of the running engine and its preservation by every step.\<close>

section \<open>The invariant\<close>

definition state_ok :: "alert_db \<Rightarrow> string \<Rightarrow> alert_state \<Rightarrow> bool" where
  "state_ok db k st \<longleftrightarrow> k = state_key (as_rule_id st) (as_node_id st)
     \<and> (as_triggered st \<longrightarrow> 0 < as_history_id st \<and> as_history_id st \<le> ad_history_seq db
          \<and> (\<forall>h\<in>set (ad_history db). ah_id h = as_history_id st \<longrightarrow> history_key h = k))"

definition announcing :: "alert_pc \<Rightarrow> int \<Rightarrow> bool" where
  "announcing pc i = (case pc of Announcing rule node h rest \<Rightarrow> ah_id h = i | _ \<Rightarrow> False)"

text \<open>The history of a triggered state.\<close>

definition alert_id :: "alert_state option \<Rightarrow> int option" where
  "alert_id x = (case x of None \<Rightarrow> None | Some st \<Rightarrow> if as_triggered st then Some (as_history_id st) else None)"

lemma alert_id_simps [simp]:
  "alert_id None = None" "as_triggered st \<Longrightarrow> alert_id (Some st) = Some (as_history_id st)"
  "\<not> as_triggered st \<Longrightarrow> alert_id (Some st) = None"
  by (simp_all add: alert_id_def)

lemma alert_id_Some: "alert_id x = Some i \<longleftrightarrow> (\<exists>st. x = Some st \<and> as_triggered st \<and> as_history_id st = i)"
  by (auto simp: alert_id_def split: option.splits)

definition watched :: "alert_states \<Rightarrow> alert_pc \<Rightarrow> alert_history \<Rightarrow> bool" where
  "watched states pc h \<longleftrightarrow> announcing pc (ah_id h) \<or> alert_id (states (history_key h)) = Some (ah_id h)"

definition pc_ok :: "alert_db \<Rightarrow> alert_states \<Rightarrow> alert_pc \<Rightarrow> bool" where
  "pc_ok db states pc = (case pc of
     Firing rule node m rest \<Rightarrow> mt_node_id m = nd_id node \<and> states (state_key (ar_id rule) (nd_id node)) \<noteq> None
   | Announcing rule node h rest \<Rightarrow>
       states (state_key (ar_id rule) (nd_id node)) \<noteq> None \<and> alert_id (states (state_key (ar_id rule) (nd_id node))) = None
       \<and> 0 < ah_id h \<and> ah_id h \<le> ad_history_seq db
       \<and> (\<forall>g\<in>set (ad_history db). ah_id g = ah_id h \<longrightarrow> history_key g = state_key (ar_id rule) (nd_id node))
   | Loaded rule node m h rest \<Rightarrow>
       alert_id (states (state_key (ar_id rule) (nd_id node))) = Some (ah_id h)
   | Recovering rule node i rest \<Rightarrow>
       alert_id (states (state_key (ar_id rule) (nd_id node))) = Some i
       \<and> (\<forall>g\<in>set (ad_history db). ah_id g = i \<longrightarrow> \<not> history_active g)
   | _ \<Rightarrow> True)"

definition alert_inv :: "alert_engine \<Rightarrow> bool" where
  "alert_inv s \<longleftrightarrow> alert_tables_ok (ae_db s) \<and> (\<forall>k. active_with_key (ae_db s) k \<le> 1)
     \<and> (\<forall>k st. ae_states s k = Some st \<longrightarrow> state_ok (ae_db s) k st)
     \<and> (\<forall>h\<in>set (ad_history (ae_db s)). history_active h \<longrightarrow> watched (ae_states s) (ae_pc s) h)
     \<and> pc_ok (ae_db s) (ae_states s) (ae_pc s)"

text \<open>The tables a server may start with.\<close>

definition alert_db_ok :: "alert_db \<Rightarrow> bool" where
  "alert_db_ok db \<longleftrightarrow> alert_tables_ok db \<and> (\<forall>k. active_with_key db k \<le> 1)"

lemma alert_invD:
  assumes "alert_inv s"
  shows "alert_tables_ok (ae_db s)" "active_with_key (ae_db s) k \<le> 1"
    "ae_states s k = Some st \<Longrightarrow> state_ok (ae_db s) k st"
    "h \<in> set (ad_history (ae_db s)) \<Longrightarrow> history_active h \<Longrightarrow> watched (ae_states s) (ae_pc s) h"
    "pc_ok (ae_db s) (ae_states s) (ae_pc s)"
  using assms by (auto simp: alert_inv_def)

section \<open>Changes of the tables\<close>

lemma state_ok_calm: "calm db db' \<Longrightarrow> state_ok db k st \<Longrightarrow> state_ok db' k st"
  by (fastforce simp: state_ok_def calm_def)

lemma pc_ok_calm: "calm db db' \<Longrightarrow> pc_ok db states pc \<Longrightarrow> pc_ok db' states pc"
  by (cases pc) (fastforce simp: pc_ok_def calm_def)+

lemma watched_calm:
  assumes "calm db db'" "\<forall>h\<in>set (ad_history db). history_active h \<longrightarrow> watched states pc h"
    "h' \<in> set (ad_history db')" "history_active h'"
  shows "watched states pc h'"
proof -
  obtain h where "h \<in> set (ad_history db)" "ah_id h = ah_id h'" "history_key h = history_key h'" "history_active h"
    using assms(1,3,4) by (auto simp: calm_def)
  with assms(2) show ?thesis by (auto simp: watched_def)
qed

text \<open>A change of the tables that leaves the states and the program counter.\<close>

lemma alert_inv_calm:
  assumes inv: "alert_inv s" and calm: "calm (ae_db s) db'" and ok: "alert_tables_ok db'"
  shows "alert_inv (s\<lparr>ae_db := db'\<rparr>)"
proof -
  have "active_with_key db' k \<le> 1" for k
    using calm alert_invD(2) [OF inv, of k] by (auto simp: calm_def intro: le_trans)
  moreover have "\<forall>h\<in>set (ad_history db'). history_active h \<longrightarrow> watched (ae_states s) (ae_pc s) h"
    using watched_calm [OF calm] alert_invD(4) [OF inv] by blast
  ultimately show ?thesis using ok state_ok_calm [OF calm] pc_ok_calm [OF calm] alert_invD(3,5) [OF inv]
    by (simp add: alert_inv_def)
qed

text \<open>Moving to a program counter of which nothing is required.\<close>

definition free_pc :: "alert_pc \<Rightarrow> bool" where
  "free_pc pc = (case pc of Firing _ _ _ _ \<Rightarrow> False | Announcing _ _ _ _ \<Rightarrow> False | Loaded _ _ _ _ _ \<Rightarrow> False
     | Recovering _ _ _ _ \<Rightarrow> False | _ \<Rightarrow> True)"

lemma free_pc_simps [simp]:
  "free_pc NoCheck" "free_pc MustSync" "free_pc MustLoadRules" "free_pc (MustLoadNodes rules)" "free_pc (AtPairs ps)"
  "free_pc (Clearing r n m ps)"
  by (simp_all add: free_pc_def)

lemma free_pc_ok: "free_pc pc \<Longrightarrow> pc_ok db states pc"
  by (cases pc) (simp_all add: free_pc_def pc_ok_def)

definition quiet_pc :: "alert_pc \<Rightarrow> bool" where
  "quiet_pc pc \<longleftrightarrow> (\<forall>i. \<not> announcing pc i)"

lemma quiet_pc_simps [simp]:
  "quiet_pc NoCheck" "quiet_pc MustSync" "quiet_pc MustLoadRules" "quiet_pc (MustLoadNodes rules)" "quiet_pc (AtPairs ps)"
  "quiet_pc (Clearing r n m ps)" "quiet_pc (Firing r n m ps)" "quiet_pc (Loaded r n m h ps)" "quiet_pc (Recovering r n i ps)"
  "\<not> quiet_pc (Announcing r n h ps)"
  by (simp_all add: quiet_pc_def announcing_def)

lemma alert_inv_move:
  "alert_inv s \<Longrightarrow> quiet_pc (ae_pc s) \<Longrightarrow> pc_ok (ae_db s) (ae_states s) pc \<Longrightarrow> alert_inv (s\<lparr>ae_pc := pc\<rparr>)"
  by (auto simp: alert_inv_def watched_def quiet_pc_def)

lemma alert_inv_move_calm:
  assumes "alert_inv s" "quiet_pc (ae_pc s)" "free_pc pc" "calm (ae_db s) db'" "alert_tables_ok db'"
  shows "alert_inv (s\<lparr>ae_db := db', ae_pc := pc\<rparr>)"
  using alert_inv_move [OF alert_inv_calm [OF assms(1,4,5)], of pc] assms(2,3) free_pc_ok by simp

lemma alert_inv_delivered [simp]: "alert_inv (s\<lparr>ae_delivered := ds\<rparr>) = alert_inv s"
  by (simp add: alert_inv_def)

lemma update_delivered: "s\<lparr>ae_db := d, ae_states := t, ae_pc := p, ae_delivered := ds\<rparr> = (s\<lparr>ae_db := d, ae_states := t, ae_pc := p\<rparr>)\<lparr>ae_delivered := ds\<rparr>"
  by simp

section \<open>Starting\<close>

lemma fold_upd_lookup:
  "fold (\<lambda>h m. m(k h \<mapsto> f h)) hs m x = (case List.find (\<lambda>h. k h = x) (rev hs) of None \<Rightarrow> m x | Some h \<Rightarrow> Some (f h))"
  by (induction hs arbitrary: m) (auto simp: find_append split: option.split)

lemma active_rows_scanned:
  "h \<in> set (get_active_alert_history db) \<longleftrightarrow> (\<exists>g\<in>set (ad_history db). history_active g \<and> h = scan_history db g)"
  by (auto simp: get_active_alert_history_def newest_first_def)

lemma scan_history_simps [simp]:
  "ah_id (scan_history db h) = ah_id h" "history_key (scan_history db h) = history_key h"
  "ah_rule_id (scan_history db h) = ah_rule_id h" "ah_node_id (scan_history db h) = ah_node_id h"
  "ah_resolved_at (scan_history db h) = ah_resolved_at h" "history_active (scan_history db h) = history_active h"
  "ah_triggered_at (scan_history db h) = ah_triggered_at h"
  by (simp_all add: scan_history_def history_key_def history_active_def)

text \<open>The last row of the list with a key, which is the only one.\<close>

lemma find_active_row:
  assumes "active_with_key db k \<le> 1" "h \<in> set (ad_history db)" "history_active h" "history_key h = k"
  shows "List.find (\<lambda>h. history_key h = k) (rev (get_active_alert_history db)) = Some (scan_history db h)"
proof -
  have "scan_history db h \<in> set (get_active_alert_history db)" using assms(2,3) active_rows_scanned by blast
  then have "List.find (\<lambda>h. history_key h = k) (rev (get_active_alert_history db)) \<noteq> None"
    using assms(4) by (auto simp: find_None_set intro!: bexI [of _ "scan_history db h"])
  then obtain g where find: "List.find (\<lambda>h. history_key h = k) (rev (get_active_alert_history db)) = Some g" by auto
  then have "g \<in> set (get_active_alert_history db)" "history_key g = k" by (auto dest: find_Some_set)
  then obtain g0 where "g0 \<in> set (ad_history db)" "history_active g0" "g = scan_history db g0" "history_key g0 = k"
    by (auto simp: active_rows_scanned)
  with count_rows_unique [OF assms(1) [unfolded active_with_key_def], of h g0] assms(2-4) find show ?thesis by simp
qed

lemma find_active_row_set:
  "List.find (\<lambda>h. history_key h = k) (rev (get_active_alert_history db)) = Some h \<Longrightarrow>
     \<exists>g\<in>set (ad_history db). history_active g \<and> history_key g = k \<and> h = scan_history db g"
proof -
  assume "List.find (\<lambda>h. history_key h = k) (rev (get_active_alert_history db)) = Some h"
  then have "h \<in> set (get_active_alert_history db)" "history_key h = k" by (auto dest: find_Some_set)
  then show ?thesis unfolding active_rows_scanned by auto
qed

lemma same_id_row: "alert_tables_ok db \<Longrightarrow> g \<in> set (ad_history db) \<Longrightarrow> h \<in> set (ad_history db) \<Longrightarrow> ah_id g = ah_id h \<Longrightarrow> g = h"
  using distinct_key_eq [of ah_id "ad_history db" g h]
  by (auto simp: alert_tables_ok_def dest: strict_sorted_imp_sorted strict_sorted_iff [THEN iffD1])

lemma new_alert_engine_inv: "alert_db_ok db \<Longrightarrow> alert_inv (new_alert_engine now db)"
proof -
  assume ok: "alert_db_ok db"
  let ?states = "initialize_states now db"
  have look: "?states k = map_option (restored_state now) (List.find (\<lambda>h. history_key h = k) (rev (get_active_alert_history db)))" for k
    by (simp add: initialize_states_def fold_upd_lookup split: option.split)
  have "state_ok db k st" if "?states k = Some st" for k st
  proof -
    from that obtain h where "List.find (\<lambda>h. history_key h = k) (rev (get_active_alert_history db)) = Some h" "st = restored_state now h"
      by (auto simp: look)
    with find_active_row_set obtain g where g: "g \<in> set (ad_history db)" "history_key g = k" "st = restored_state now (scan_history db g)"
      by blast
    have "history_key f = k" if "f \<in> set (ad_history db)" "ah_id f = ah_id g" for f
      using same_id_row [OF _ that(1) g(1) that(2)] ok g(2) by (auto simp: alert_db_ok_def)
    with g ok show ?thesis by (auto simp: state_ok_def restored_state_def history_key_def alert_db_ok_def alert_tables_ok_def)
  qed
  moreover have "watched ?states NoCheck h" if "h \<in> set (ad_history db)" "history_active h" for h
  proof -
    have "?states (history_key h) = Some (restored_state now (scan_history db h))"
      using find_active_row [OF _ that refl] ok by (simp add: look alert_db_ok_def)
    then show ?thesis by (simp add: watched_def restored_state_def)
  qed
  ultimately show ?thesis using ok by (simp add: alert_inv_def new_alert_engine_def alert_db_ok_def pc_ok_def)
qed

section \<open>Steps\<close>

lemma evaluate_rule_states:
  assumes "evaluate_rule now rule m states = (b, states')"
  shows "alert_id (states' k) = alert_id (states k)"
    "b \<Longrightarrow> states' (state_key (ar_id rule) (mt_node_id m)) \<noteq> None"
    "states' k = Some st' \<Longrightarrow> (k = state_key (ar_id rule) (mt_node_id m) \<and> as_rule_id st' = ar_id rule \<and> as_node_id st' = mt_node_id m)
       \<or> (\<exists>st. states k = Some st \<and> as_rule_id st' = as_rule_id st \<and> as_node_id st' = as_node_id st)"
  using assms by (auto simp: evaluate_rule_def Let_def alert_id_def split: if_splits option.splits)

lemma alert_inv_states:
  assumes inv: "alert_inv s" and quiet: "quiet_pc (ae_pc s)" and same: "\<And>k. alert_id (states' k) = alert_id (ae_states s k)"
    and shape: "\<And>k st. states' k = Some st \<Longrightarrow> k = state_key (as_rule_id st) (as_node_id st)"
    and pc: "pc_ok (ae_db s) states' pc"
  shows "alert_inv (s\<lparr>ae_states := states', ae_pc := pc\<rparr>)"
proof -
  have "state_ok (ae_db s) k st'" if "states' k = Some st'" for k st'
  proof (cases "as_triggered st'")
    case True
    then have "alert_id (ae_states s k) = Some (as_history_id st')" using same [of k] that by simp
    then obtain st where "ae_states s k = Some st" "as_triggered st" "as_history_id st = as_history_id st'"
      by (auto simp: alert_id_Some)
    then show ?thesis using alert_invD(3) [OF inv, of k st] shape [OF that] by (simp add: state_ok_def)
  qed (use shape [OF that] in \<open>simp add: state_ok_def\<close>)
  moreover have "watched states' pc h" if "h \<in> set (ad_history (ae_db s))" "history_active h" for h
    using alert_invD(4) [OF inv that] quiet same [of "history_key h"]
    by (auto simp: watched_def quiet_pc_def)
  ultimately show ?thesis using inv pc by (simp add: alert_inv_def)
qed

lemma evaluate_pair_inv: "alert_inv s \<Longrightarrow> evaluate_pair now latest s = Some s' \<Longrightarrow> alert_inv s'"
proof -
  assume inv: "alert_inv s" and step: "evaluate_pair now latest s = Some s'"
  have move: "alert_inv (s\<lparr>ae_pc := AtPairs rest\<rparr>)" "alert_inv (s\<lparr>ae_pc := NoCheck\<rparr>)" if "ae_pc s = AtPairs ps" for ps rest
    using alert_inv_move [OF inv] that by (simp_all add: free_pc_ok)
  from step obtain ps where pc: "ae_pc s = AtPairs ps" by (auto simp: evaluate_pair_def split: alert_pc.splits)
  show ?thesis
  proof (cases ps)
    case Nil
    with step pc move show ?thesis by (auto simp: evaluate_pair_def)
  next
    case (Cons p rest)
    obtain rule node where p: "p = (rule, node)" by (cases p)
    show ?thesis
    proof (cases "node_in_scope rule (nd_id node) \<and> latest \<noteq> None")
      case False
      with step pc Cons p move [OF pc] show ?thesis by (auto simp: evaluate_pair_def split: if_splits option.splits)
    next
      case True
      then obtain m where m: "latest = Some m" by blast
      obtain b states where ev: "evaluate_rule now rule m (ae_states s) = (b, states)" by (cases "evaluate_rule now rule m (ae_states s)")
      note facts = evaluate_rule_states [OF ev]
      from step pc Cons p True m ev have id: "mt_node_id m = nd_id node"
        and s': "s' = s\<lparr>ae_states := states, ae_pc := (if b then Firing rule node m rest else Clearing rule node m rest)\<rparr>"
        by (auto simp: evaluate_pair_def split: if_splits)
      have "k = state_key (as_rule_id st) (as_node_id st)" if "states k = Some st" for k st
        using facts(3) [OF that] alert_invD(3) [OF inv, of k] by (auto simp: state_ok_def)
      then show ?thesis unfolding s'
        by (intro alert_inv_states [OF inv _ facts(1)]) (use pc facts(2) id in \<open>auto simp: pc_ok_def\<close>)
    qed
  qed
qed

lemma triggered_state_Some: "triggered_state states k = Some st \<longleftrightarrow> states k = Some st \<and> as_triggered st"
  by (auto simp: triggered_state_def split: option.splits)

lemma triggered_state_None: "triggered_state states k = None \<longleftrightarrow> (\<forall>st. states k = Some st \<longrightarrow> \<not> as_triggered st)"
  by (auto simp: triggered_state_def split: option.splits)

text \<open>A new row for a rule and node of which no alert is active.\<close>

lemma create_history_inv:
  assumes inv: "alert_inv s" and quiet: "quiet_pc (ae_pc s)"
    and new: "create_alert_history now h0 (ae_db s) = (Inr h, db)" "ah_resolved_at h0 = None"
    and key: "history_key h0 = state_key (ar_id rule) (nd_id node)"
    and st: "ae_states s (history_key h0) = Some st" "\<not> as_triggered st"
  shows "alert_inv (s\<lparr>ae_db := db, ae_pc := Announcing rule node h rest\<rparr>)"
proof -
  let ?i = "ad_history_seq (ae_db s) + 1"
  define row where "row = h0\<lparr>ah_id := ?i, ah_notification_attempted_at := None, ah_recovery_notification_sent := False,
    ah_recovery_notification_error := [], ah_recovery_notification_attempted_at := None, ah_created_at := now\<rparr>"
  then have row: "ah_id row = ?i" "history_key row = history_key h0" "ah_rule_id row = ah_rule_id h0"
    by (simp_all add: history_key_def)
  from new(1) have db: "db = (ae_db s)\<lparr>ad_history := ad_history (ae_db s) @ [row], ad_history_seq := ?i\<rparr>" and h: "ah_id h = ?i"
      and fk: "get_alert_rule (ae_db s) (ah_rule_id h0) \<noteq> None"
    by (auto simp: create_alert_history_def Let_def row_def split: if_splits)
  note ok = alert_invD(1) [OF inv]
  have old: "ah_id g \<le> ad_history_seq (ae_db s)" if "g \<in> set (ad_history (ae_db s))" for g
    using ok that by (auto simp: alert_tables_ok_def)
  from fk have "ah_rule_id h0 \<in> ar_id ` set (ad_rules (ae_db s))" by (force simp: get_alert_rule_def dest: find_Some_set)
  moreover have "\<forall>g\<in>set (ad_history (ae_db s)). ah_id g < ?i \<and> ah_id g \<le> ?i" using old by fastforce
  ultimately have tables: "alert_tables_ok db" using ok row(1,3) db by (simp add: alert_tables_ok_def sorted_wrt_append)
  have none: "active_with_key (ae_db s) (history_key h0) = 0"
  proof -
    have "\<not> (history_active g \<and> history_key g = history_key h0)" if "g \<in> set (ad_history (ae_db s))" for g
      using alert_invD(4) [OF inv that] quiet st by (auto simp: watched_def quiet_pc_def)
    then show ?thesis by (auto simp: active_with_key_def count_rows_eq_0)
  qed
  have "active_with_key db k \<le> 1" for k
    using alert_invD(2) [OF inv, of k] none row by (auto simp: db active_with_key_def)
  moreover have "state_ok db k st'" if "ae_states s k = Some st'" for k st'
    using alert_invD(3) [OF inv that] row by (auto simp: state_ok_def db)
  moreover have "watched (ae_states s) (Announcing rule node h rest) g" if "g \<in> set (ad_history db)" "history_active g" for g
    using that row h alert_invD(4) [OF inv, of g] quiet by (auto simp: db watched_def announcing_def quiet_pc_def)
  moreover have "pc_ok db (ae_states s) (Announcing rule node h rest)"
    using ok st key row h by (auto simp: pc_ok_def db alert_tables_ok_def dest: old)
  ultimately show ?thesis using tables by (simp add: alert_inv_def)
qed

lemma fire_alert_inv: "alert_inv s \<Longrightarrow> fire_alert t1 t2 s = Some s' \<Longrightarrow> alert_inv s'"
proof -
  assume inv: "alert_inv s" and step: "fire_alert t1 t2 s = Some s'"
  from step obtain rule node m rest where pc: "ae_pc s = Firing rule node m rest"
    by (auto simp: fire_alert_def split: alert_pc.splits)
  let ?k = "state_key (ar_id rule) (nd_id node)"
  have ok: "mt_node_id m = nd_id node" "ae_states s ?k \<noteq> None" using alert_invD(5) [OF inv] pc by (simp_all add: pc_ok_def)
  then obtain st where st: "ae_states s ?k = Some st" by blast
  show ?thesis
  proof (cases "as_triggered st")
    case True
    then have t: "triggered_state (ae_states s) ?k = Some st" using st by (simp add: triggered_state_Some)
    with step pc ok show ?thesis
      by (auto simp: fire_alert_def alert_invD(1) [OF inv] intro!: alert_inv_move_calm [OF inv])
  next
    case False
    then have t: "triggered_state (ae_states s) ?k = None" using st by (simp add: triggered_state_None)
    obtain r db where new: "create_alert_history t2 (new_history t1 rule node m) (ae_db s) = (r, db)"
      by (cases "create_alert_history t2 (new_history t1 rule node m) (ae_db s)")
    have key: "history_key (new_history t1 rule node m) = ?k" by (simp add: new_history_def history_key_def)
    show ?thesis
    proof (cases r)
      case (Inl e)
      with new have "db = ae_db s" by (auto simp: create_alert_history_def Let_def split: if_splits)
      with Inl step pc ok t new show ?thesis
        by (auto simp: fire_alert_def free_pc_ok intro!: alert_inv_move [OF inv])
    next
      case (Inr h)
      have "alert_inv (s\<lparr>ae_db := db, ae_pc := Announcing rule node h rest\<rparr>)"
        using create_history_inv [OF inv _ new [unfolded Inr] _ key] pc st False key by (simp add: new_history_def)
      with Inr step pc ok t new show ?thesis by (auto simp: fire_alert_def)
    qed
  qed
qed

lemma announce_alert_inv: "alert_inv s \<Longrightarrow> announce_alert d s = Some s' \<Longrightarrow> alert_inv s'"
proof -
  assume inv: "alert_inv s" and step: "announce_alert d s = Some s'"
  from step obtain rule node h rest where pc: "ae_pc s = Announcing rule node h rest"
    by (auto simp: announce_alert_def split: alert_pc.splits)
  let ?k = "state_key (ar_id rule) (nd_id node)"
  let ?db = "update_alert_history_notification_result (ah_id h) (dv_sent d) (dv_error d) (dv_attempted_at d) (ae_db s)"
  let ?s = "s\<lparr>ae_db := ?db\<rparr>"
  have inv': "alert_inv ?s" using alert_invD(1) [OF inv] by (intro alert_inv_calm [OF inv]) simp_all
  have pcok: "ae_states s ?k \<noteq> None" "0 < ah_id h" "ah_id h \<le> ad_history_seq ?db"
      "\<forall>g\<in>set (ad_history ?db). ah_id g = ah_id h \<longrightarrow> history_key g = ?k"
    using alert_invD(5) [OF inv'] pc by (simp_all add: pc_ok_def)
  obtain st where st: "ae_states s ?k = Some st" using pcok(1) by blast
  let ?st = "st\<lparr>as_triggered := True, as_history_id := ah_id h\<rparr>"
  have mark: "mark_triggered ?k (ah_id h) (ae_states s) = (ae_states s)(?k \<mapsto> ?st)" by (simp add: mark_triggered_def st)
  have "state_ok ?db k st'" if "((ae_states s)(?k \<mapsto> ?st)) k = Some st'" for k st'
    using that alert_invD(3) [OF inv', of k] alert_invD(3) [OF inv', of ?k st] st pcok(2-4)
    by (auto simp: state_ok_def split: if_splits)
  moreover have "watched ((ae_states s)(?k \<mapsto> ?st)) (AtPairs rest) g"
    if g: "g \<in> set (ad_history ?db)" "history_active g" for g
  proof (cases "ah_id g = ah_id h")
    case True
    then show ?thesis using pcok(4) g(1) by (simp add: watched_def)
  next
    case False
    then have "alert_id (ae_states s (history_key g)) = Some (ah_id g)"
      using alert_invD(4) [OF inv', of g] g pc by (simp add: watched_def announcing_def)
    moreover have "alert_id (ae_states s ?k) = None" using alert_invD(5) [OF inv] pc by (simp add: pc_ok_def)
    ultimately show ?thesis by (auto simp: watched_def)
  qed
  ultimately have "alert_inv (s\<lparr>ae_db := ?db, ae_states := (ae_states s)(?k \<mapsto> ?st), ae_pc := AtPairs rest\<rparr>)"
    using inv' by (simp add: alert_inv_def free_pc_ok)
  then show ?thesis using step pc by (auto simp: announce_alert_def mark alert_inv_def)
qed

lemma load_history_inv: "alert_inv s \<Longrightarrow> load_history s = Some s' \<Longrightarrow> alert_inv s'"
proof -
  assume inv: "alert_inv s" and step: "load_history s = Some s'"
  from step obtain rule node m rest where pc: "ae_pc s = Clearing rule node m rest"
    by (auto simp: load_history_def split: alert_pc.splits)
  have "alert_inv (s\<lparr>ae_pc := p\<rparr>)" if "pc_ok (ae_db s) (ae_states s) p" for p
    using alert_inv_move [OF inv _ that] pc by simp
  moreover have "ah_id h = i" if "get_alert_history_by_id db i = Some h" for db i h
    using that by (auto simp: get_alert_history_by_id_def dest: find_Some_set)
  ultimately show ?thesis using step pc
    by (auto simp: load_history_def triggered_state_Some free_pc_ok pc_ok_def alert_id_Some split: option.splits if_splits)
qed

lemma resolve_alert_inv: "alert_inv s \<Longrightarrow> resolve_alert t s = Some s' \<Longrightarrow> alert_inv s'"
proof -
  assume inv: "alert_inv s" and step: "resolve_alert t s = Some s'"
  from step obtain rule node m h rest where pc: "ae_pc s = Loaded rule node m h rest"
    by (auto simp: resolve_alert_def split: alert_pc.splits)
  let ?db = "update_alert_history_resolved (ah_id h) t (ae_db s)"
  have "alert_inv (s\<lparr>ae_db := ?db\<rparr>)" using alert_invD(1) [OF inv] by (intro alert_inv_calm [OF inv]) simp_all
  moreover have "\<forall>g\<in>set (ad_history ?db). ah_id g = ah_id h \<longrightarrow> \<not> history_active g"
    by (auto simp: update_alert_history_resolved_def set_history_def set_update_rows history_active_def)
  then have "pc_ok ?db (ae_states s) (Recovering rule node (ah_id h) rest)"
    using alert_invD(5) [OF inv] pc by (simp add: pc_ok_def)
  ultimately have "alert_inv (s\<lparr>ae_db := ?db, ae_pc := Recovering rule node (ah_id h) rest\<rparr>)"
    using alert_inv_move [of "s\<lparr>ae_db := ?db\<rparr>"] pc by simp
  then show ?thesis using step pc by (auto simp: resolve_alert_def alert_inv_def)
qed

lemma recover_alert_inv: "alert_inv s \<Longrightarrow> recover_alert d s = Some s' \<Longrightarrow> alert_inv s'"
proof -
  assume inv: "alert_inv s" and step: "recover_alert d s = Some s'"
  from step obtain rule node i rest where pc: "ae_pc s = Recovering rule node i rest"
    by (auto simp: recover_alert_def split: alert_pc.splits)
  let ?k = "state_key (ar_id rule) (nd_id node)"
  let ?db = "update_alert_history_recovery_notification_result i (dv_sent d) (dv_error d) (dv_attempted_at d) (ae_db s)"
  have inv': "alert_inv (s\<lparr>ae_db := ?db\<rparr>)" using alert_invD(1) [OF inv] by (intro alert_inv_calm [OF inv]) simp_all
  have pcok: "alert_id (ae_states s ?k) = Some i" "\<forall>g\<in>set (ad_history ?db). ah_id g = i \<longrightarrow> \<not> history_active g"
    using alert_invD(5) [OF inv'] pc by (simp_all add: pc_ok_def)
  have "watched ((ae_states s)(?k := None)) (AtPairs rest) g" if g: "g \<in> set (ad_history ?db)" "history_active g" for g
  proof -
    have "alert_id (ae_states s (history_key g)) = Some (ah_id g)"
      using inv' g pc by (auto simp: alert_inv_def watched_def announcing_def)
    moreover have "ah_id g \<noteq> i" using pcok(2) g by blast
    ultimately show ?thesis using pcok(1) by (auto simp: watched_def)
  qed
  then have "alert_inv (s\<lparr>ae_db := ?db, ae_states := (ae_states s)(?k := None), ae_pc := AtPairs rest\<rparr>)"
    using inv' by (auto simp: alert_inv_def free_pc_ok)
  then show ?thesis using step pc by (auto simp: recover_alert_def)
qed

lemma sync_states_inv: "alert_inv s \<Longrightarrow> ae_pc s = MustSync \<Longrightarrow> alert_inv (s\<lparr>ae_states := sync_states (ae_db s) (ae_states s), ae_pc := MustLoadRules\<rparr>)"
proof -
  assume inv: "alert_inv s" and pc: "ae_pc s = MustSync"
  let ?db = "ae_db s"
  have look: "active_by_key ?db k = List.find (\<lambda>h. history_key h = k) (rev (get_active_alert_history ?db))" for k
    by (simp add: active_by_key_def fold_upd_lookup split: option.split)
  have "state_ok ?db k st'" if st': "sync_states ?db (ae_states s) k = Some st'" for k st'
  proof -
    from st' obtain st where st: "ae_states s k = Some st" by (auto simp: sync_states_def split: option.splits)
    note old = alert_invD(3) [OF inv st]
    show ?thesis
    proof (cases "as_triggered st")
      case False
      with st st' old show ?thesis by (simp add: sync_states_def)
    next
      case True
      with st st' obtain h where h: "active_by_key ?db k = Some h" "st' = st\<lparr>as_history_id := ah_id h\<rparr>"
        by (auto simp: sync_states_def split: option.splits)
      then obtain g where g: "g \<in> set (ad_history ?db)" "history_key g = k" "ah_id h = ah_id g"
        using find_active_row_set unfolding look by fastforce
      have "history_key f = k" if "f \<in> set (ad_history ?db)" "ah_id f = ah_id g" for f
        using same_id_row [OF alert_invD(1) [OF inv] that(1) g(1) that(2)] g(2) by simp
      with g h old True alert_invD(1) [OF inv] show ?thesis by (auto simp: state_ok_def alert_tables_ok_def)
    qed
  qed
  moreover have "watched (sync_states ?db (ae_states s)) MustLoadRules h" if h: "h \<in> set (ad_history ?db)" "history_active h" for h
  proof -
    have "alert_id (ae_states s (history_key h)) = Some (ah_id h)"
      using alert_invD(4) [OF inv h] pc by (simp add: watched_def announcing_def)
    then obtain st where "ae_states s (history_key h) = Some st" "as_triggered st" by (auto simp: alert_id_Some)
    moreover have "active_by_key ?db (history_key h) = Some (scan_history ?db h)"
      using find_active_row [OF alert_invD(2) [OF inv] h refl] by (simp add: look)
    ultimately show ?thesis by (simp add: watched_def sync_states_def)
  qed
  ultimately show ?thesis using inv by (simp add: alert_inv_def free_pc_ok)
qed

lemma check_rules_step_inv: "alert_inv s \<Longrightarrow> check_rules_step e s = Some s' \<Longrightarrow> alert_inv s'"
proof (cases e)
  case (BeginRules now)
  assume inv: "alert_inv s" and "check_rules_step e s = Some s'"
  moreover have "calm (ae_db s) (apply_alert_request (ResolveDisabled now) (ae_db s))" by (rule alert_request_calm)
  moreover have "alert_tables_ok (apply_alert_request (ResolveDisabled now) (ae_db s))"
    using alert_request_tables alert_invD(1) [OF inv] .
  ultimately show ?thesis using BeginRules alert_inv_move_calm [OF inv, of MustSync]
    by (auto simp: check_rules_step_def split: if_splits)
next
  case SyncStates
  assume "alert_inv s" "check_rules_step e s = Some s'"
  with SyncStates show ?thesis by (auto simp: check_rules_step_def intro: sync_states_inv split: if_splits)
next
  case LoadRules
  assume "alert_inv s" "check_rules_step e s = Some s'"
  with LoadRules show ?thesis by (auto simp: check_rules_step_def free_pc_ok intro!: alert_inv_move split: if_splits)
next
  case (LoadNodes nodes)
  assume "alert_inv s" "check_rules_step e s = Some s'"
  with LoadNodes show ?thesis by (auto simp: check_rules_step_def free_pc_ok intro!: alert_inv_move split: alert_pc.splits)
qed (simp_all only: check_rules_step_def check_rules_event.case,
    (elim evaluate_pair_inv fire_alert_inv announce_alert_inv load_history_inv resolve_alert_inv recover_alert_inv; assumption)+)

lemma alert_step_inv: "alert_inv s \<Longrightarrow> alert_step e s = Some s' \<Longrightarrow> alert_inv s'"
proof (cases e)
  case (Restart now)
  assume "alert_inv s" "alert_step e s = Some s'"
  with Restart show ?thesis by (auto simp: alert_step_def alert_db_ok_def alert_inv_def [of s] intro!: new_alert_engine_inv)
qed (auto simp: alert_step_def intro: check_rules_step_inv alert_inv_calm alert_request_calm alert_request_tables alert_invD(1))

lemma alert_reaches_inv: "alert_reaches s s' \<Longrightarrow> alert_inv s \<Longrightarrow> alert_inv s'"
  by (induction rule: alert_reaches.induct) (auto intro: alert_step_inv)

end
