(* ===== verification/AlertApi.thy ===== *)
theory AlertApi
  imports AlertEngine UptimeModel
begin

text \<open>
  \<^verbatim>\<open>internal/server/api/alerts.go\<close> and \<^verbatim>\<open>alert_history.go\<close>: the requests that read and change rules and
  history.  A handler returns its status code and the new tables; what it writes into the body of the
  answer besides is the row or the rows it names here.  The result of \<open>sameOrigin\<close> and the decoded
  body of the request (\<open>None\<close> when it does not decode) are arguments.
\<close>

definition valid_metric_fields :: "string list" where
  "valid_metric_fields = [''cpu_usage'', ''memory_usage'', ''disk_usage'', ''swap_usage'', ''network_rx_bytes'',
     ''network_tx_bytes'', ''load_1'', ''load_5'', ''load_15'']"

definition valid_operators :: "string list" where
  "valid_operators = [''>'', ''>='', ''<'', ''<='', ''='']"

section \<open>Rules\<close>

definition handle_alert_rules ::
  "string \<Rightarrow> bool \<Rightarrow> alert_rule option \<Rightarrow> time \<Rightarrow> alert_db \<Rightarrow> (int \<times> alert_rule list) \<times> alert_db" where
  "handle_alert_rules meth sameOrigin body now db =
     (if meth = ''GET'' then ((200, get_alert_rules db), db)
      else if meth = ''POST''
      then (if \<not> sameOrigin then ((403, []), db)
            else (case body of
                    None \<Rightarrow> ((400, []), db)
                  | Some rule \<Rightarrow>
                      if ar_metric_field rule \<notin> set valid_metric_fields then ((400, []), db)
                      else if ar_operator rule \<notin> set valid_operators then ((400, []), db)
                      else (let (r, db') = create_alert_rule now rule db in ((201, [r]), db'))))
      else ((405, []), db))"

text \<open>The cases of a method on one rule; \<open>now1\<close> and \<open>now2\<close> are the times of the update and of the resolution.\<close>

definition put_alert_rule ::
  "int \<Rightarrow> bool \<Rightarrow> alert_rule option \<Rightarrow> time \<Rightarrow> time \<Rightarrow> alert_db \<Rightarrow> int \<times> alert_db" where
  "put_alert_rule i sameOrigin body now1 now2 db =
     (if \<not> sameOrigin then (403, db)
      else (case get_alert_rule db i of
              None \<Rightarrow> (404, db)
            | Some existingRule \<Rightarrow>
              (case body of
                 None \<Rightarrow> (400, db)
               | Some rule0 \<Rightarrow>
                 (let rule = rule0\<lparr>ar_id := i\<rparr> in
                  if ar_metric_field rule \<notin> set valid_metric_fields then (400, db)
                  else if ar_operator rule \<notin> set valid_operators then (400, db)
                  else (let db1 = snd (update_alert_rule now1 rule db);
                            db2 = (if ar_name existingRule \<noteq> ar_name rule
                                   then snd (update_alert_history_rule_name_by_rule_id (ar_id rule) (ar_name rule) db1) else db1);
                            db3 = (if \<not> ar_enabled rule
                                   then snd (resolve_active_alert_history_by_rule_id (ar_id rule) now2 db2) else db2)
                        in (200, db3))))))"

definition delete_rule_request :: "int \<Rightarrow> bool \<Rightarrow> time \<Rightarrow> alert_db \<Rightarrow> int \<times> alert_db" where
  "delete_rule_request i sameOrigin now db =
     (if \<not> sameOrigin then (403, db)
      else (case get_alert_rule db i of
              None \<Rightarrow> (404, db)
            | Some rule \<Rightarrow> (204, delete_alert_rule i (snd (resolve_active_alert_history_by_rule_id i now db)))))"

definition handle_alert_rule ::
  "string \<Rightarrow> string \<Rightarrow> bool \<Rightarrow> alert_rule option \<Rightarrow> time \<Rightarrow> time \<Rightarrow> alert_db \<Rightarrow> int \<times> alert_db" where
  "handle_alert_rule meth idStr sameOrigin body now1 now2 db =
     (case atoi idStr of
        None \<Rightarrow> (400, db)
      | Some i \<Rightarrow>
          if meth = ''GET'' then ((case get_alert_rule db i of None \<Rightarrow> 404 | Some _ \<Rightarrow> 200), db)
          else if meth = ''PUT'' then put_alert_rule i sameOrigin body now1 now2 db
          else if meth = ''DELETE'' then delete_rule_request i sameOrigin now2 db
          else (405, db))"

definition handle_toggle_alert_rule ::
  "string \<Rightarrow> string \<Rightarrow> bool \<Rightarrow> bool option \<Rightarrow> time \<Rightarrow> time \<Rightarrow> alert_db \<Rightarrow> int \<times> alert_db" where
  "handle_toggle_alert_rule meth idStr sameOrigin body now1 now2 db =
     (if meth \<noteq> ''PATCH'' then (405, db)
      else if \<not> sameOrigin then (403, db)
      else (case atoi idStr of
              None \<Rightarrow> (400, db)
            | Some i \<Rightarrow>
              (case get_alert_rule db i of
                 None \<Rightarrow> (404, db)
               | Some rule \<Rightarrow>
                 (case body of
                    None \<Rightarrow> (400, db)
                  | Some enabled \<Rightarrow>
                    (let db1 = snd (update_alert_rule now1 (rule\<lparr>ar_enabled := enabled\<rparr>) db)
                     in (200, if \<not> enabled then snd (resolve_active_alert_history_by_rule_id (ar_id rule) now2 db1) else db1))))))"

section \<open>History\<close>

definition history_request_limit :: "string \<Rightarrow> int" where
  "history_request_limit limitStr =
     (case atoi limitStr of None \<Rightarrow> 100 | Some n \<Rightarrow> if n > 0 \<and> n \<le> 1000 then n else 100)"

definition handle_list_alert_history ::
  "string \<Rightarrow> string \<Rightarrow> time \<Rightarrow> alert_db \<Rightarrow> (int \<times> alert_history list) \<times> alert_db" where
  "handle_list_alert_history nodeID limitStr now db =
     (if nodeID = [] then ((400, []), db)
      else (let db1 = snd (resolve_active_alert_history_for_disabled_rules now db)
            in ((200, get_alert_history db1 nodeID (if limitStr = [] then 100 else history_request_limit limitStr)), db1)))"

definition handle_resolve_alert_history :: "string \<Rightarrow> string \<Rightarrow> bool \<Rightarrow> time \<Rightarrow> alert_db \<Rightarrow> int \<times> alert_db" where
  "handle_resolve_alert_history meth idStr sameOrigin now db =
     (if meth \<noteq> ''PATCH'' then (405, db)
      else if \<not> sameOrigin then (403, db)
      else (case atoi idStr of
              None \<Rightarrow> (400, db)
            | Some i \<Rightarrow> (case resolve_alert_history i now db of (None, db') \<Rightarrow> (404, db') | (Some h, db') \<Rightarrow> (200, db'))))"

definition handle_delete_alert_history :: "string \<Rightarrow> string \<Rightarrow> bool \<Rightarrow> alert_db \<Rightarrow> int \<times> alert_db" where
  "handle_delete_alert_history meth idStr sameOrigin db =
     (if meth \<noteq> ''DELETE'' then (405, db)
      else if \<not> sameOrigin then (403, db)
      else (case atoi idStr of
              None \<Rightarrow> (400, db)
            | Some i \<Rightarrow>
              if i \<le> 0 then (400, db)
              else (case get_alert_history_by_id db i of
                      None \<Rightarrow> (404, db)
                    | Some h \<Rightarrow>
                        if ah_resolved_at h = None then (409, db)
                        else (let (deleted, db') = delete_resolved_alert_history i db
                              in (if \<not> deleted then 409 else 204, db')))))"

fun normalize_history_ids_loop :: "int list \<Rightarrow> int list \<Rightarrow> int list option" where
  "normalize_history_ids_loop seen [] = Some []"
| "normalize_history_ids_loop seen (i # ids) =
     (if i \<le> 0 then None
      else if i \<in> set seen then normalize_history_ids_loop seen ids
      else map_option ((#) i) (normalize_history_ids_loop (i # seen) ids))"

definition normalize_alert_history_ids :: "int list \<Rightarrow> int list option" where
  "normalize_alert_history_ids ids =
     (if length ids = 0 then None
      else (case normalize_history_ids_loop [] ids of None \<Rightarrow> None | Some ns \<Rightarrow> if length ns > 0 then Some ns else None))"

text \<open>The loop that looks at every identifier before anything is deleted.\<close>

fun check_deletable :: "alert_db \<Rightarrow> int list \<Rightarrow> int option" where
  "check_deletable db [] = None"
| "check_deletable db (i # ids) =
     (case get_alert_history_by_id db i of
        None \<Rightarrow> Some 404
      | Some h \<Rightarrow> if ah_resolved_at h = None then Some 409 else check_deletable db ids)"

text \<open>The rows are checked one by one before the deletion, which is a statement of its own; the model takes the request as one step.\<close>

definition handle_delete_alert_histories :: "bool \<Rightarrow> int list option \<Rightarrow> alert_db \<Rightarrow> (int \<times> int) \<times> alert_db" where
  "handle_delete_alert_histories sameOrigin body db =
     (if \<not> sameOrigin then ((403, 0), db)
      else (case body of
              None \<Rightarrow> ((400, 0), db)
            | Some ids0 \<Rightarrow>
              (case normalize_alert_history_ids ids0 of
                 None \<Rightarrow> ((400, 0), db)
               | Some ids \<Rightarrow>
                 (case check_deletable db ids of
                    Some status \<Rightarrow> ((status, 0), db)
                  | None \<Rightarrow> (let (deleted, db') = delete_resolved_alert_histories ids db in ((200, deleted), db'))))))"

section \<open>Lemmas\<close>

lemma normalize_loop:
  "normalize_history_ids_loop seen ids = Some ns \<Longrightarrow>
     distinct ns \<and> set ns = set ids - set seen \<and> (\<forall>i\<in>set ids. 0 < i)"
  by (induction ids arbitrary: seen ns) (auto split: if_splits)

lemma normalize_ids:
  "normalize_alert_history_ids ids = Some ns \<Longrightarrow> distinct ns \<and> set ns = set ids \<and> ns \<noteq> [] \<and> (\<forall>i\<in>set ids. 0 < i)"
  using normalize_loop [of "[]" ids ns] by (auto simp: normalize_alert_history_ids_def split: option.splits if_splits)

lemma check_deletable_None:
  "check_deletable db ids = None \<longleftrightarrow>
     (\<forall>i\<in>set ids. \<exists>h\<in>set (ad_history db). ah_id h = i \<and> List.find (\<lambda>h. ah_id h = i) (ad_history db) = Some h \<and> \<not> history_active h)"
proof (induction ids)
  case (Cons i ids)
  show ?case
  proof (cases "List.find (\<lambda>h. ah_id h = i) (ad_history db)")
    case None
    then show ?thesis using find_None_set [THEN iffD1, OF None] by (simp add: get_alert_history_by_id_def)
  next
    case (Some h)
    then show ?thesis using Cons find_Some_set [OF Some]
      by (auto simp: get_alert_history_by_id_def history_active_def scan_history_def)
  qed
qed simp

lemma delete_histories:
  "snd (delete_resolved_alert_histories ids db)
     = db\<lparr>ad_history := delete_rows (\<lambda>h. ah_id h \<in> set ids \<and> \<not> history_active h) (ad_history db)\<rparr>"
proof (induction ids arbitrary: db)
  case (Cons i ids)
  have "delete_rows P (delete_rows Q rs) = delete_rows (\<lambda>h. Q h \<or> P h) rs" for P Q :: "alert_history \<Rightarrow> bool" and rs
    by (simp add: delete_rows_def conj_commute)
  then show ?case using Cons.IH
    by (simp add: delete_resolved_alert_history_def Let_def case_prod_unfold) (rule arg_cong [where f = "\<lambda>P. db\<lparr>ad_history := delete_rows P (ad_history db)\<rparr>"], auto)
qed (simp add: delete_rows_def)

lemma delete_histories_count:
  "distinct ids \<Longrightarrow> distinct (map ah_id (ad_history db)) \<Longrightarrow>
     fst (delete_resolved_alert_histories ids db) = int (count_rows (\<lambda>h. ah_id h \<in> set ids \<and> \<not> history_active h) (ad_history db))"
proof (induction ids arbitrary: db)
  case Nil
  then show ?case by (simp add: count_rows_def)
next
  case (Cons i ids)
  let ?db = "snd (delete_resolved_alert_history i db)"
  have hist: "ad_history ?db = delete_rows (\<lambda>h. ah_id h = i \<and> \<not> history_active h) (ad_history db)"
    by (simp add: delete_resolved_alert_history_def Let_def)
  have "count_rows (\<lambda>h. ah_id h = i \<and> \<not> history_active h) rs + count_rows (\<lambda>h. ah_id h \<in> set ids \<and> \<not> history_active h)
      (delete_rows (\<lambda>h. ah_id h = i \<and> \<not> history_active h) rs) = count_rows (\<lambda>h. ah_id h \<in> set (i # ids) \<and> \<not> history_active h) rs" for rs
    using Cons.prems(1) by (induction rs) auto
  moreover have "distinct (map ah_id (ad_history ?db))" using Cons.prems(2) by (simp add: hist distinct_map_delete_rows)
  ultimately show ?case using Cons by (simp add: Let_def case_prod_unfold hist flip: of_nat_add)
qed

section \<open>Properties of the requests\<close>

text \<open>C25: Deleting history in bulk is all or nothing: the request succeeds exactly when it comes from the same origin, its identifiers are positive and every one names a resolved alert; then exactly those rows go and their number is reported, and otherwise nothing changes.\<close>

theorem bulk_delete_outcome:
  assumes ids: "distinct (map ah_id (ad_history db))"
  shows "case handle_delete_alert_histories origin body db of ((status, deleted), db') \<Rightarrow>
     (status = 200 \<longleftrightarrow> origin \<and> (\<exists>is. body = Some is \<and> is \<noteq> [] \<and> (\<forall>i\<in>set is. 0 < i)
         \<and> (\<forall>i\<in>set is. \<exists>h\<in>set (ad_history db). ah_id h = i \<and> \<not> history_active h)))
     \<and> (status = 200 \<longrightarrow> deleted = int (card (set (the body)))
         \<and> db' = db\<lparr>ad_history := filter (\<lambda>h. ah_id h \<notin> set (the body)) (ad_history db)\<rparr>)
     \<and> (status \<noteq> 200 \<longrightarrow> db' = db \<and> deleted = 0)"
proof -
  have find: "List.find (\<lambda>g. ah_id g = ah_id h) (ad_history db) = Some h" if "h \<in> set (ad_history db)" for h
    using find_by_key [OF ids that] .
  have deletable: "check_deletable db js = None \<longleftrightarrow> (\<forall>i\<in>set js. \<exists>h\<in>set (ad_history db). ah_id h = i \<and> \<not> history_active h)" for js
  proof -
    have "(\<exists>h\<in>set (ad_history db). ah_id h = i \<and> List.find (\<lambda>g. ah_id g = i) (ad_history db) = Some h \<and> \<not> history_active h)
        \<longleftrightarrow> (\<exists>h\<in>set (ad_history db). ah_id h = i \<and> \<not> history_active h)" for i
      by (metis find)
    then show ?thesis by (simp add: check_deletable_None)
  qed
  have refused: "check_deletable db js = Some status \<Longrightarrow> status \<noteq> 200" for js status
    by (induction js) (auto split: option.splits if_splits)
  have norm_None: "normalize_alert_history_ids js = None \<longleftrightarrow> js = [] \<or> (\<exists>i\<in>set js. i \<le> 0)" for js
  proof -
    have loop: "normalize_history_ids_loop seen js = None \<longleftrightarrow> (\<exists>i\<in>set js. i \<le> 0)" for seen js
      by (induction js arbitrary: seen) auto
    show ?thesis
    proof (cases "normalize_history_ids_loop [] js")
      case None
      then show ?thesis using loop [of "[]" js] by (auto simp: normalize_alert_history_ids_def)
    next
      case (Some ns)
      then have "ns = [] \<longleftrightarrow> js = []" using normalize_loop [OF Some] by (metis Diff_empty list.set(1) set_empty)
      then show ?thesis using Some loop [of "[]" js] by (auto simp: normalize_alert_history_ids_def)
    qed
  qed
  show ?thesis
  proof (cases "origin \<and> body \<noteq> None")
    case False
    then show ?thesis by (auto simp: handle_delete_alert_histories_def)
  next
    case True
    then obtain js where body: "body = Some js" by blast
    show ?thesis
    proof (cases "normalize_alert_history_ids js")
      case None
      have res: "handle_delete_alert_histories origin body db = ((400, 0), db)"
        using None True body by (simp add: handle_delete_alert_histories_def)
      have "js = [] \<or> (\<exists>i\<in>set js. i \<le> 0)" using None norm_None by blast
      then show ?thesis unfolding res using body by (auto simp: not_less)
    next
      case (Some ns)
      note ns = normalize_ids [OF Some]
      show ?thesis
      proof (cases "check_deletable db ns")
        case None
        then have all: "\<forall>i\<in>set js. \<exists>h\<in>set (ad_history db). ah_id h = i \<and> \<not> history_active h" using ns by (simp add: deletable)
        have resolved: "ah_id h \<in> set js \<Longrightarrow> \<not> history_active h" if "h \<in> set (ad_history db)" for h
          using all distinct_key_eq [OF ids _ that] by metis
        have gone: "delete_rows (\<lambda>h. ah_id h \<in> set ns \<and> \<not> history_active h) (ad_history db) = filter (\<lambda>h. ah_id h \<notin> set js) (ad_history db)"
          unfolding delete_rows_def by (rule filter_cong [OF refl]) (use resolved ns in auto)
        have "count_rows (\<lambda>h. ah_id h \<in> set ns \<and> \<not> history_active h) (ad_history db) = card (set js)"
        proof -
          have "filter (\<lambda>h. ah_id h \<in> set ns \<and> \<not> history_active h) (ad_history db) = filter (\<lambda>h. ah_id h \<in> set js) (ad_history db)"
            by (rule filter_cong [OF refl]) (use resolved ns in auto)
          moreover have "set (map ah_id (filter (\<lambda>h. ah_id h \<in> set js) (ad_history db))) = set js" using all by force
          moreover have "distinct (map ah_id (filter (\<lambda>h. ah_id h \<in> set js) (ad_history db)))" using ids by (rule distinct_map_filter)
          ultimately show ?thesis
            using distinct_card [of "map ah_id (filter (\<lambda>h. ah_id h \<in> set js) (ad_history db))"] by (simp add: count_rows_def)
        qed
        then have res: "handle_delete_alert_histories origin body db
            = ((200, int (card (set js))), db\<lparr>ad_history := filter (\<lambda>h. ah_id h \<notin> set js) (ad_history db)\<rparr>)"
          using True body Some None ns gone
          by (simp add: handle_delete_alert_histories_def case_prod_unfold delete_histories delete_histories_count [OF _ ids])
        have "js \<noteq> []" using ns by auto
        then show ?thesis unfolding res using body True all ns by simp
      next
        case (Some status)
        have res: "handle_delete_alert_histories origin body db = ((status, 0), db)"
          using True body \<open>normalize_alert_history_ids js = Some ns\<close> Some by (simp add: handle_delete_alert_histories_def)
        show ?thesis unfolding res using body ns refused [OF Some] deletable [of ns] Some by simp
      qed
    qed
  qed
qed

theorem bulk_delete_outcome_witness:
  "case handle_delete_alert_histories True (Some [4]) empty_alert_db of ((status, deleted), db') \<Rightarrow> status \<noteq> 200 \<and> db' = empty_alert_db"
  using bulk_delete_outcome [of empty_alert_db True "Some [4]"]
  by (simp add: empty_alert_db_def handle_delete_alert_histories_def normalize_alert_history_ids_def get_alert_history_by_id_def)

end
