(* ===== verification/AlertSpec.thy ===== *)
theory AlertSpec
  imports AlertLife AlertApi
begin

text \<open>
  What the alerting engine promises: at most one active alert per rule and node, when a rule fires in
  terms of the observations of a node, and how an alert is raised and resolved.
\<close>

section \<open>Active alerts\<close>

lemma empty_alert_db_ok [simp]: "alert_db_ok empty_alert_db"
  by (simp add: alert_db_ok_def alert_tables_ok_def active_with_key_def empty_alert_db_def)

lemma alert_reachable_inv: "alert_db_ok db \<Longrightarrow> alert_reaches (new_alert_engine now db) s \<Longrightarrow> alert_inv s"
  using alert_reaches_inv new_alert_engine_inv by blast

lemma active_of_pair:
  "count_rows (\<lambda>h. history_active h \<and> ah_rule_id h = i \<and> ah_node_id h = n) (ad_history db) = active_with_key db (state_key i n)"
  by (simp add: active_with_key_def history_key_eq)

text \<open>C22: Whatever the requests of the API and the restarts of the server between the steps of the checks, a rule has at most one unresolved alert per node, every alert belongs to an existing rule, and outside of a delivery every unresolved alert is the one the engine remembers for its rule and node.\<close>

theorem one_active_alert:
  assumes "alert_db_ok db" "alert_reaches (new_alert_engine now db) s"
  shows "count_rows (\<lambda>h. history_active h \<and> ah_rule_id h = i \<and> ah_node_id h = n) (ad_history (ae_db s)) \<le> 1
    \<and> (\<forall>h\<in>set (ad_history (ae_db s)). \<exists>r\<in>set (ad_rules (ae_db s)). ar_id r = ah_rule_id h)
    \<and> (\<forall>h\<in>set (ad_history (ae_db s)). history_active h \<longrightarrow> announcing (ae_pc s) (ah_id h)
         \<or> alert_id (ae_states s (state_key (ah_rule_id h) (ah_node_id h))) = Some (ah_id h))"
proof -
  note inv = alert_reachable_inv [OF assms]
  have "\<exists>r\<in>set (ad_rules (ae_db s)). ar_id r = ah_rule_id h" if "h \<in> set (ad_history (ae_db s))" for h
    using alert_invD(1) [OF inv] that by (fastforce simp: alert_tables_ok_def)
  with alert_invD(2,4) [OF inv] show ?thesis by (auto simp: active_of_pair watched_def history_key_def)
qed

definition sample_rule :: alert_rule where
  "sample_rule = \<lparr>ar_id = 1, ar_name = ''cpu'', ar_enabled = True, ar_metric_field = ''cpu_usage'', ar_operator = ''>'',
     ar_threshold = 80, ar_duration_seconds = 0, ar_scope_type = ''all'', ar_scope_node_ids = [],
     ar_notification_channels = [], ar_created_at = 1, ar_updated_at = 1\<rparr>"

fun alert_run :: "alert_event list \<Rightarrow> alert_engine \<Rightarrow> alert_engine option" where
  "alert_run [] s = Some s"
| "alert_run (e # es) s = (case alert_step e s of None \<Rightarrow> None | Some t \<Rightarrow> alert_run es t)"

lemma alert_run_reaches: "alert_run es s = Some s' \<Longrightarrow> alert_reaches s0 s \<Longrightarrow> alert_reaches s0 s'"
  by (induction es arbitrary: s) (auto split: option.splits intro: alert_reaches.intros)

definition sample_delivery :: delivery where
  "sample_delivery = \<lparr>dv_sent = False, dv_error = [], dv_attempted_at = 11\<rparr>"

definition sample_load :: "rat \<Rightarrow> metric" where
  "sample_load v = (zero_metric ''n1'')\<lparr>mt_cpu_usage := v\<rparr>"

text \<open>A rule is created and fires for the node \<^verbatim>\<open>n1\<close>.\<close>

definition sample_fire :: "alert_event list" where
  "sample_fire = Request (CreateRule 1 sample_rule) # map CheckStep
     [BeginRules 5, SyncStates, LoadRules, LoadNodes [zero_node ''n1''], Evaluate 10 (Some (sample_load 90)), Fire 10 10,
      Announced sample_delivery]"

definition sample_history :: alert_history where
  "sample_history = \<lparr>ah_id = 1, ah_rule_id = 1, ah_rule_name = ''cpu'', ah_node_id = ''n1'', ah_node_name = [],
     ah_metric_field = ''cpu_usage'', ah_metric_value = 90, ah_threshold = 80, ah_triggered_at = 10, ah_resolved_at = None,
     ah_notification_sent = False, ah_notification_error = [], ah_notification_attempted_at = Some 11,
     ah_recovery_notification_sent = False, ah_recovery_notification_error = [],
     ah_recovery_notification_attempted_at = None, ah_created_at = 10\<rparr>"

lemma show_1: "show_int 1 = ''1''"
  by code_simp

definition sample_fired :: alert_engine where
  "sample_fired = \<lparr>ae_db = \<lparr>ad_rules = [sample_rule], ad_rule_seq = 1, ad_history = [sample_history], ad_history_seq = 1\<rparr>,
     ae_states = [''1:n1'' \<mapsto> \<lparr>as_rule_id = 1, as_node_id = ''n1'', as_condition_met = True, as_triggered = True,
       as_history_id = 1, as_first_met_at = 10, as_last_checked = 10\<rparr>],
     ae_pc = AtPairs [], ae_delivered = [([], trigger_payload sample_rule (zero_node ''n1'') sample_history)]\<rparr>"

lemmas alert_eval = alert_step_def check_rules_step_def create_alert_rule_def resolve_active_alert_history_for_disabled_rules_def
  set_history_def sync_states_def get_enabled_alert_rules_def rule_node_pairs_def evaluate_pair_def node_in_scope_def
  evaluate_rule_def check_threshold_def get_metric_value_eq float_value_def fire_alert_def triggered_state_def
  create_alert_history_def get_alert_rule_def new_history_def announce_alert_def mark_triggered_def
  update_alert_history_notification_result_def state_key_def show_1 sample_delivery_def sample_load_def zero_metric_def zero_node_def
  new_alert_engine_def initialize_states_def get_active_alert_history_def newest_first_def empty_alert_db_def Let_def

lemma sample_fire_run: "alert_run sample_fire (new_alert_engine 0 empty_alert_db) = Some sample_fired"
  by (simp add: sample_fire_def alert_eval sample_rule_def sample_fired_def sample_history_def trigger_payload_def history_active_def)

theorem one_active_alert_witness:
  "count_rows (\<lambda>h. history_active h \<and> ah_rule_id h = 1 \<and> ah_node_id h = ''n1'') (ad_history (ae_db sample_fired)) \<le> 1"
  using one_active_alert [OF empty_alert_db_ok alert_run_reaches [OF sample_fire_run alert_start], of 1 "''n1''"] by simp

section \<open>When a rule fires\<close>

text \<open>The observations of one node, oldest first, and the engine's evaluation of all of them.\<close>

definition evaluate_all :: "alert_rule \<Rightarrow> (time \<times> metric) list \<Rightarrow> alert_states \<Rightarrow> alert_states" where
  "evaluate_all rule obs states = fold (\<lambda>x st. snd (evaluate_rule (fst x) rule (snd x) st)) obs states"

definition met_suffix :: "alert_rule \<Rightarrow> (time \<times> metric) list \<Rightarrow> (time \<times> metric) list" where
  "met_suffix rule obs = rev (takeWhile (\<lambda>x. check_threshold rule (snd x)) (rev obs))"

lemma met_suffix_snoc: "met_suffix rule (obs @ [x]) = (if check_threshold rule (snd x) then met_suffix rule obs @ [x] else [])"
  by (simp add: met_suffix_def)

lemma evaluate_all_state:
  assumes "node_in_scope rule n" "\<forall>x\<in>set obs. mt_node_id (snd x) = n" "states (state_key (ar_id rule) n) = None"
  shows "case met_suffix rule obs of [] \<Rightarrow> evaluate_all rule obs states (state_key (ar_id rule) n) = None
    | z # zs \<Rightarrow> \<exists>st. evaluate_all rule obs states (state_key (ar_id rule) n) = Some st \<and> as_first_met_at st = fst z \<and> \<not> as_triggered st"
  using assms(2)
proof (induction obs rule: rev_induct)
  case Nil
  then show ?case using assms(3) by (simp add: met_suffix_def evaluate_all_def)
next
  case (snoc x obs)
  then show ?case using assms(1)
    by (cases x) (auto simp: met_suffix_snoc evaluate_all_def evaluate_rule_def Let_def split: list.splits option.splits)
qed

lemma met_suffix_iff:
  "met_suffix rule obs = z # zs \<Longrightarrow>
     (\<exists>k<length obs. (\<forall>j. k \<le> j \<and> j < length obs \<longrightarrow> check_threshold rule (snd (obs ! j))) \<and> P (fst (obs ! k)))
       \<longleftrightarrow> (\<exists>y\<in>set (z # zs). P (fst y))"
proof -
  assume suf: "met_suffix rule obs = z # zs"
  let ?Q = "\<lambda>x. check_threshold rule (snd x)"
  obtain ys where obs: "obs = ys @ z # zs" and last: "ys = [] \<or> \<not> ?Q (last ys)" and all: "\<forall>y\<in>set (z # zs). ?Q y"
  proof
    have "rev obs = takeWhile ?Q (rev obs) @ dropWhile ?Q (rev obs)" by simp
    then have "obs = rev (dropWhile ?Q (rev obs)) @ met_suffix rule obs" unfolding met_suffix_def by (metis rev_append rev_rev_ident)
    then show "obs = rev (dropWhile ?Q (rev obs)) @ z # zs" using suf by simp
    show "rev (dropWhile ?Q (rev obs)) = [] \<or> \<not> ?Q (last (rev (dropWhile ?Q (rev obs))))"
      using hd_dropWhile [of ?Q "rev obs"] by (auto simp: last_rev)
    show "\<forall>y\<in>set (z # zs). ?Q y" unfolding suf [symmetric] met_suffix_def by (auto dest: set_takeWhileD)
  qed
  show ?thesis
  proof
    assume "\<exists>k<length obs. (\<forall>j. k \<le> j \<and> j < length obs \<longrightarrow> ?Q (obs ! j)) \<and> P (fst (obs ! k))"
    then obtain k where k: "k < length obs" "\<forall>j. k \<le> j \<and> j < length obs \<longrightarrow> ?Q (obs ! j)" "P (fst (obs ! k))" by blast
    have "length ys \<le> k"
    proof (rule ccontr)
      assume "\<not> length ys \<le> k"
      then have "ys \<noteq> []" "k \<le> length ys - 1" "length ys - 1 < length ys" by auto
      then have "?Q (obs ! (length ys - 1))" using k(2) obs by simp
      then show False using last \<open>ys \<noteq> []\<close> \<open>length ys - 1 < length ys\<close> by (simp add: obs nth_append last_conv_nth)
    qed
    then have "obs ! k \<in> set (z # zs)" using k(1) by (simp only: obs nth_append not_less [symmetric] if_False nth_mem length_append)
    with k(3) show "\<exists>y\<in>set (z # zs). P (fst y)" by blast
  next
    assume "\<exists>y\<in>set (z # zs). P (fst y)"
    then obtain i where i: "i < length (z # zs)" "P (fst ((z # zs) ! i))" by (metis in_set_conv_nth)
    have "?Q (obs ! j)" if "length ys + i \<le> j" "j < length obs" for j
    proof -
      have "obs ! j = (z # zs) ! (j - length ys)" "j - length ys < length (z # zs)" using that by (auto simp: obs nth_append)
      then show ?thesis using all nth_mem by metis
    qed
    then show "\<exists>k<length obs. (\<forall>j. k \<le> j \<and> j < length obs \<longrightarrow> ?Q (obs ! j)) \<and> P (fst (obs ! k))"
      using i by (intro exI [of _ "length ys + i"]) (simp add: obs)
  qed
qed

text \<open>C23: Evaluating the observations of a node one by one, a rule fires exactly when the condition holds now and has held at every observation since one that is at least the configured duration old (or no duration is configured).\<close>

theorem rule_fires_after_duration:
  assumes scope: "node_in_scope rule n" and node: "\<forall>x\<in>set obs. mt_node_id (snd x) = n" "mt_node_id m = n"
    and fresh: "states (state_key (ar_id rule) n) = None"
    and times: "sorted_wrt (\<le>) (map fst obs)" "\<forall>x\<in>set obs. \<bar>now - fst x\<bar> \<le> max_duration"
    and dur: "0 \<le> ar_duration_seconds rule" "ar_duration_seconds rule * nanos_per_second \<le> max_duration"
  shows "fst (evaluate_rule now rule m (evaluate_all rule obs states))
    \<longleftrightarrow> check_threshold rule m \<and> (ar_duration_seconds rule = 0
          \<or> (\<exists>k<length obs. (\<forall>j. k \<le> j \<and> j < length obs \<longrightarrow> check_threshold rule (snd (obs ! j)))
                \<and> fst (obs ! k) + seconds (ar_duration_seconds rule) \<le> now))"
proof (cases "met_suffix rule obs")
  case Nil
  have "\<not> (\<exists>k<length obs. \<forall>j. k \<le> j \<and> j < length obs \<longrightarrow> check_threshold rule (snd (obs ! j)))"
  proof
    assume "\<exists>k<length obs. \<forall>j. k \<le> j \<and> j < length obs \<longrightarrow> check_threshold rule (snd (obs ! j))"
    then obtain k where k: "k < length obs" "\<And>j. k \<le> j \<Longrightarrow> j < length obs \<Longrightarrow> check_threshold rule (snd (obs ! j))" by blast
    then have "obs \<noteq> []" "check_threshold rule (snd (obs ! (length obs - 1)))" using k(2) [of "length obs - 1"] by auto
    with Nil show False by (cases obs rule: rev_cases) (simp_all add: met_suffix_snoc)
  qed
  then show ?thesis using evaluate_all_state [where states = states, OF scope node(1) fresh] Nil scope node(2)
    by (auto simp: evaluate_rule_def Let_def)
next
  case (Cons z zs)
  obtain st where st: "evaluate_all rule obs states (state_key (ar_id rule) n) = Some st" "as_first_met_at st = fst z"
    using evaluate_all_state [where states = states, OF scope node(1) fresh] Cons by auto
  have sub: "set (z # zs) \<subseteq> set obs" unfolding Cons [symmetric] met_suffix_def by (auto dest: set_takeWhileD)
  have wrap: "wrap64 (ar_duration_seconds rule * nanos_per_second) = seconds (ar_duration_seconds rule)"
    using dur by (simp add: seconds_def wrap64_small nanos_per_second_def max_duration_def)
  have "time_sub now (fst z) = now - fst z" using sub times(2) by (simp add: time_sub_small)
  moreover have "(\<exists>y\<in>set (z # zs). fst y + seconds (ar_duration_seconds rule) \<le> now)
      \<longleftrightarrow> fst z + seconds (ar_duration_seconds rule) \<le> now"
  proof -
    have "obs = rev (dropWhile (\<lambda>x. check_threshold rule (snd x)) (rev obs)) @ z # zs"
      unfolding Cons [symmetric] met_suffix_def by (metis rev_append rev_rev_ident takeWhile_dropWhile_id)
    then have "sorted_wrt (\<le>) (map fst (z # zs))" using times(1) by (metis map_append sorted_wrt_append)
    then show ?thesis by auto
  qed
  ultimately show ?thesis using st scope node(2)
    by (auto simp: evaluate_rule_def Let_def duration_elapsed_def wrap met_suffix_iff [OF Cons, of "\<lambda>t. t + seconds (ar_duration_seconds rule) \<le> now"])
qed

theorem rule_fires_after_duration_witness:
  "fst (evaluate_rule (seconds 100) (sample_rule\<lparr>ar_duration_seconds := 60\<rparr>) (sample_load 90)
     (evaluate_all (sample_rule\<lparr>ar_duration_seconds := 60\<rparr>) [(seconds 30, sample_load 90)] Map.empty))"
  using rule_fires_after_duration [of "sample_rule\<lparr>ar_duration_seconds := 60\<rparr>" "''n1''" "[(seconds 30, sample_load 90)]" "sample_load 90"
      Map.empty "seconds 100"]
  by (simp add: sample_rule_def sample_load_def zero_metric_def node_in_scope_def seconds_def nanos_per_second_def max_duration_def
      check_threshold_def get_metric_value_eq float_value_def)

section \<open>Resolution\<close>

lemma loaded_history:
  assumes "alert_inv s" "h \<in> set (ad_history (ae_db s))"
  shows "get_alert_history_by_id (ae_db s) (ah_id h) = Some (scan_history (ae_db s) h)"
proof -
  have "distinct (map ah_id (ad_history (ae_db s)))"
    using alert_invD(1) [OF assms(1)] by (simp add: alert_tables_ok_def strict_sorted_iff)
  from find_by_key [OF this assms(2)] show ?thesis by (simp add: get_alert_history_by_id_def)
qed

lemma set_history_row: "h \<in> set (ad_history db) \<Longrightarrow> P h \<Longrightarrow> f h \<in> set (ad_history (set_history P f db))"
  by (force simp: set_history_def set_update_rows)

text \<open>C24: When the condition of an active alert no longer holds for a node in the scope of its rule, the next evaluation resolves it: the row gets its time of resolution and the result of the recovery message, one message with the original time is handed to the rule's channels, and the engine forgets the alert.\<close>

theorem resolved_when_condition_ends:
  assumes db: "alert_db_ok db" and reach: "alert_reaches (new_alert_engine t0 db) s"
    and pc: "ae_pc s = AtPairs ((rule, node) # rest)"
    and obs: "node_in_scope rule (nd_id node)" "mt_node_id m = nd_id node" "\<not> check_threshold rule m"
    and h: "h \<in> set (ad_history (ae_db s))" "history_active h" "ah_rule_id h = ar_id rule" "ah_node_id h = nd_id node"
  shows "\<exists>s'. alert_run (map CheckStep [Evaluate now (Some m), LoadHistory, Resolved r, Recovered d]) s = Some s'
    \<and> ae_pc s' = AtPairs rest \<and> ae_states s' (state_key (ar_id rule) (nd_id node)) = None
    \<and> (\<exists>g\<in>set (ad_history (ae_db s')). ah_id g = ah_id h \<and> ah_resolved_at g = Some r
          \<and> ah_recovery_notification_sent g = dv_sent d \<and> ah_recovery_notification_error g = dv_error d)
    \<and> (\<exists>p. ae_delivered s' = ae_delivered s @ [(ar_notification_channels rule, p)] \<and> ap_status p = ''resolved''
          \<and> ap_triggered_at p = ah_triggered_at h \<and> ap_resolved_at p = Some r)"
proof -
  note inv = alert_reachable_inv [OF db reach]
  let ?k = "state_key (ar_id rule) (nd_id node)"
  let ?row = "scan_history (ae_db s) h"
  have "alert_id (ae_states s ?k) = Some (ah_id h)"
    using alert_invD(4) [OF inv h(1,2)] pc h(3,4) by (simp add: watched_def announcing_def history_key_def)
  then obtain st where st: "ae_states s ?k = Some st" "as_triggered st" "as_history_id st = ah_id h" by (auto simp: alert_id_Some)
  have pos: "0 < ah_id h" using alert_invD(1) [OF inv] h(1) by (auto simp: alert_tables_ok_def)
  have ev: "evaluate_rule now rule m (ae_states s) = (False, ae_states s)"
    using obs st by (simp add: evaluate_rule_def)
  let ?db1 = "update_alert_history_resolved (ah_id h) r (ae_db s)"
  let ?db2 = "update_alert_history_recovery_notification_result (ah_id h) (dv_sent d) (dv_error d) (dv_attempted_at d) ?db1"
  let ?g = "h\<lparr>ah_resolved_at := Some r, ah_recovery_notification_sent := dv_sent d, ah_recovery_notification_error := dv_error d,
              ah_recovery_notification_attempted_at := Some (dv_attempted_at d)\<rparr>"
  let ?s = "s\<lparr>ae_db := ?db2, ae_states := (ae_states s)(?k := None), ae_pc := AtPairs rest,
              ae_delivered := ae_delivered s @ [(ar_notification_channels rule, recovery_payload r rule node m ?row)]\<rparr>"
  have "alert_run (map CheckStep [Evaluate now (Some m), LoadHistory, Resolved r, Recovered d]) s = Some ?s"
    using st pos loaded_history [OF inv h(1)]
    by (simp add: alert_step_def check_rules_step_def evaluate_pair_def pc obs ev load_history_def triggered_state_def
        resolve_alert_def recover_alert_def)
  moreover have "?g \<in> set (ad_history ?db2)"
  proof -
    have "h\<lparr>ah_resolved_at := Some r\<rparr> \<in> set (ad_history ?db1)"
      using set_history_row [OF h(1), of "\<lambda>g. ah_id g = ah_id h" "\<lambda>g. g\<lparr>ah_resolved_at := Some r\<rparr>"] by (simp add: update_alert_history_resolved_def)
    from set_history_row [OF this, of "\<lambda>g. ah_id g = ah_id h" "\<lambda>g. g\<lparr>ah_recovery_notification_sent := dv_sent d,
        ah_recovery_notification_error := dv_error d, ah_recovery_notification_attempted_at := Some (dv_attempted_at d)\<rparr>"] show ?thesis
      by (simp add: update_alert_history_recovery_notification_result_def)
  qed
  ultimately show ?thesis
    by (intro exI [of _ ?s] conjI bexI [of _ ?g]) (simp_all add: recovery_payload_def)
qed

definition sample_again :: alert_engine where
  "sample_again = sample_fired\<lparr>ae_pc := AtPairs [(sample_rule, zero_node ''n1'')]\<rparr>"

lemma sample_again_run:
  "alert_run (sample_fire @ map CheckStep [Evaluate 20 None, BeginRules 20, SyncStates, LoadRules, LoadNodes [zero_node ''n1'']])
     (new_alert_engine 0 empty_alert_db) = Some sample_again"
proof -
  have append: "alert_run (xs @ ys) s = (case alert_run xs s of None \<Rightarrow> None | Some t \<Rightarrow> alert_run ys t)" for xs ys s
    by (induction xs arbitrary: s) (auto split: option.split)
  have "alert_run (map CheckStep [Evaluate 20 None, BeginRules 20, SyncStates, LoadRules, LoadNodes [zero_node ''n1'']]) sample_fired
      = Some sample_again"
    by (simp add: alert_eval sample_rule_def sample_fired_def sample_again_def sample_history_def trigger_payload_def history_active_def
        active_by_key_def history_key_def scan_history_def fun_eq_iff)
  then show ?thesis by (simp add: append sample_fire_run)
qed

theorem resolved_when_condition_ends_witness:
  "\<exists>s'. alert_run (map CheckStep [Evaluate 21 (Some (sample_load 10)), LoadHistory, Resolved 22, Recovered sample_delivery]) sample_again = Some s'
     \<and> ae_states s' ''1:n1'' = None"
  using resolved_when_condition_ends [OF empty_alert_db_ok alert_run_reaches [OF sample_again_run alert_start],
      of sample_rule "zero_node ''n1''" "[]" "sample_load 10" sample_history 21 22 sample_delivery]
  by (auto simp: sample_again_def sample_fired_def sample_rule_def sample_load_def zero_metric_def zero_node_def node_in_scope_def
      check_threshold_def get_metric_value_eq float_value_def sample_history_def history_active_def state_key_def show_1)

section \<open>Fields that no metric has\<close>

text \<open>Of the metric fields the API accepts for a rule, a stored metric has all except \<^verbatim>\<open>swap_usage\<close>: a rule on it never fires.\<close>

lemma missing_metric_field: "f \<in> set valid_metric_fields \<Longrightarrow> get_metric_value m f = None \<longleftrightarrow> f = ''swap_usage''"
  by (auto simp: get_metric_value_eq valid_metric_fields_def)

lemma swap_usage_never_fires: "ar_metric_field rule = ''swap_usage'' \<Longrightarrow> \<not> fst (evaluate_rule now rule m states)"
  by (simp add: evaluate_rule_def check_threshold_def get_metric_value_eq Let_def)

section \<open>Pending conditions\<close>

text \<open>
  A condition that is pending, not yet alerted, is forgotten by no synchronisation: when the rule is
  switched off and on again, or a node stops reporting, the next observation counts as if the
  condition had held all the time.
\<close>

lemma pending_state_survives:
  assumes "states key = Some st" "\<not> as_triggered st" shows "sync_states db states key = Some st"
  using assms by (simp add: sync_states_def)

lemma pending_state_fires:
  assumes "states (state_key (ar_id rule) (mt_node_id m)) = Some st" "node_in_scope rule (mt_node_id m)" "check_threshold rule m"
    "duration_elapsed rule now st"
  shows "fst (evaluate_rule now rule m (sync_states db states)) \<or> as_triggered st"
  using assms pending_state_survives [of states, OF assms(1)] by (auto simp: evaluate_rule_def Let_def)

section \<open>Disabling rules\<close>

lemma resolved_rows:
  assumes "h \<in> set (update_rows (\<lambda>h. ah_rule_id h = i \<and> history_active h) (\<lambda>h. h\<lparr>ah_resolved_at := Some t\<rparr>) rs)"
    "ah_rule_id h = i"
  shows "\<not> history_active h"
proof -
  from assms(1) obtain g where "h = (if ah_rule_id g = i \<and> history_active g then g\<lparr>ah_resolved_at := Some t\<rparr> else g)"
    unfolding set_update_rows by (rule imageE)
  then show ?thesis using assms(2) by (simp add: history_active_def split: if_split_asm)
qed

lemma resolved_rows_others:
  "filter (\<lambda>h. ah_rule_id h \<noteq> i) (update_rows (\<lambda>h. ah_rule_id h = i \<and> history_active h) (\<lambda>h. h\<lparr>ah_resolved_at := Some t\<rparr>) rs)
     = filter (\<lambda>h. ah_rule_id h \<noteq> i) rs"
  by (induction rs) auto

text \<open>After a rule was switched off, none of its alerts is active and every other alert is as before.\<close>

theorem disabled_rule_has_no_active_alert:
  assumes "handle_toggle_alert_rule meth idStr origin (Some False) now1 now2 db = (200, db')"
  shows "\<exists>i. atoi idStr = Some i \<and> (\<forall>h\<in>set (ad_history db'). ah_rule_id h = i \<longrightarrow> \<not> history_active h)
    \<and> filter (\<lambda>h. ah_rule_id h \<noteq> i) (ad_history db') = filter (\<lambda>h. ah_rule_id h \<noteq> i) (ad_history db)
    \<and> (\<exists>r. get_alert_rule db' i = Some r \<and> \<not> ar_enabled r)"
proof -
  from assms obtain i rule where i: "atoi idStr = Some i" "get_alert_rule db i = Some rule"
      and db': "db' = snd (resolve_active_alert_history_by_rule_id (ar_id rule) now2 (snd (update_alert_rule now1 (rule\<lparr>ar_enabled := False\<rparr>) db)))"
    by (auto simp: handle_toggle_alert_rule_def Let_def split: if_splits option.splits)
  have rid: "ar_id rule = i" using i(2) by (auto simp: get_alert_rule_def dest: find_Some_set)
  let ?P = "\<lambda>h. ah_rule_id h = i \<and> history_active h"
  have hist: "ad_history db' = update_rows ?P (\<lambda>h. h\<lparr>ah_resolved_at := Some now2\<rparr>) (ad_history db)"
    and rules: "ad_rules db' = update_rows (\<lambda>r. ar_id r = i) (configure_alert_rule now1 (rule\<lparr>ar_enabled := False\<rparr>)) (ad_rules db)"
    by (simp_all add: db' rid resolve_active_alert_history_by_rule_id_def update_alert_rule_def set_history_def Let_def)
  have "\<not> history_active h" if "h \<in> set (ad_history db')" "ah_rule_id h = i" for h
    using that resolved_rows unfolding hist by blast
  moreover have "filter (\<lambda>h. ah_rule_id h \<noteq> i) (ad_history db') = filter (\<lambda>h. ah_rule_id h \<noteq> i) (ad_history db)"
    unfolding hist by (rule resolved_rows_others)
  moreover have "get_alert_rule db' i = Some (configure_alert_rule now1 (rule\<lparr>ar_enabled := False\<rparr>) rule)"
  proof -
    have "List.find (\<lambda>r. ar_id r = i) (ad_rules db) = Some rule" using i(2) by (simp add: get_alert_rule_def)
    then show ?thesis using rid by (simp add: get_alert_rule_def rules find_update_rows configure_alert_rule_def)
  qed
  ultimately show ?thesis using i(1) by (auto simp: configure_alert_rule_def)
qed

lemma atoi_1: "atoi ''1'' = Some 1"
  by code_simp

theorem disabled_rule_has_no_active_alert_witness:
  "filter history_active (ad_history (snd (handle_toggle_alert_rule ''PATCH'' ''1'' True (Some False) 30 31 (ae_db sample_fired)))) = []"
  using disabled_rule_has_no_active_alert [of "''PATCH''" "''1''" True 30 31 "ae_db sample_fired"
      "snd (handle_toggle_alert_rule ''PATCH'' ''1'' True (Some False) 30 31 (ae_db sample_fired))"]
  by (auto simp: handle_toggle_alert_rule_def atoi_1 get_alert_rule_def sample_fired_def sample_rule_def update_alert_rule_def
      resolve_active_alert_history_by_rule_id_def set_history_def sample_history_def history_active_def Let_def)

end
