(* ===== verification/GoDuration.thy ===== *)
theory GoDuration
  imports GoFloat GoText
begin

text \<open>
  Go's \<^verbatim>\<open>time.ParseDuration\<close> and \<^verbatim>\<open>time.Duration.String\<close>.  The unsigned 64 bit accumulators are
  natural numbers with the library's overflow tests; a fraction is scaled in \<^verbatim>\<open>float64\<close>.
\<close>

section \<open>Parsing\<close>

definition digit_char :: "char \<Rightarrow> bool" where
  "digit_char c \<longleftrightarrow> 48 \<le> (of_char c :: nat) \<and> (of_char c :: nat) \<le> 57"

definition digit_of :: "char \<Rightarrow> nat" where "digit_of c = of_char c - 48"

definition two63 :: nat where "two63 = 9223372036854775808"

fun leading_int :: "nat \<Rightarrow> string \<Rightarrow> (nat \<times> string) option" where
  "leading_int x [] = Some (x, [])"
| "leading_int x (c # cs) =
     (if \<not> digit_char c then Some (x, c # cs)
      else if x > two63 div 10 then None
      else (let y = x * 10 + digit_of c in if y > two63 then None else leading_int y cs))"

fun leading_fraction :: "bool \<Rightarrow> nat \<Rightarrow> nat \<Rightarrow> string \<Rightarrow> nat \<times> nat \<times> string" where
  "leading_fraction overflow x scale [] = (x, scale, [])"
| "leading_fraction overflow x scale (c # cs) =
     (if \<not> digit_char c then (x, scale, c # cs)
      else if overflow then leading_fraction True x scale cs
      else if x > (two63 - 1) div 10 then leading_fraction True x scale cs
      else (let y = x * 10 + digit_of c
            in if y > two63 then leading_fraction True x scale cs else leading_fraction False y (scale * 10) cs))"

text \<open>The units; the micro sign and the Greek letter mu both spell microseconds.\<close>

definition duration_unit :: "string \<Rightarrow> nat option" where
  "duration_unit u =
     (if u = ''ns'' then Some 1
      else if u = ''us'' \<or> u = [CHR 0xC2, CHR 0xB5, CHR ''s''] \<or> u = [CHR 0xCE, CHR 0xBC, CHR ''s''] then Some 1000
      else if u = ''ms'' then Some 1000000
      else if u = ''s'' then Some 1000000000
      else if u = ''m'' then Some 60000000000
      else if u = ''h'' then Some 3600000000000
      else None)"

definition fraction_nanos :: "nat \<Rightarrow> nat \<Rightarrow> nat \<Rightarrow> nat" where
  "fraction_nanos f scale unit =
     nat \<lfloor>round_float (round_float (of_nat f) * round_float (of_nat unit / round_float (of_nat scale)))\<rfloor>"

lemma leading_int_length: "leading_int x s = Some (v, s') \<Longrightarrow> length s' \<le> length s"
  by (induction x s rule: leading_int.induct) (auto simp: Let_def split: if_splits)

lemma leading_fraction_length: "leading_fraction b x sc s = (f, sc', s') \<Longrightarrow> length s' \<le> length s"
  by (induction b x sc s rule: leading_fraction.induct) (auto simp: Let_def split: if_splits)

text \<open>One round of the loop: a number with an optional fraction, and its unit.\<close>

definition duration_part :: "nat \<Rightarrow> string \<Rightarrow> (nat \<times> string) option" where
  "duration_part d s =
     (case s of [] \<Rightarrow> None | c0 # _ \<Rightarrow>
      if \<not> (c0 = CHR ''.'' \<or> digit_char c0) then None
      else (case leading_int 0 s of
              None \<Rightarrow> None
            | Some (v, s1) \<Rightarrow>
              (let pre = length s1 \<noteq> length s;
                   (f, scale, s2) = (if s1 \<noteq> [] \<and> hd s1 = CHR ''.'' then leading_fraction False 0 1 (tl s1) else (0, 1, s1));
                   post = s1 \<noteq> [] \<and> hd s1 = CHR ''.'' \<and> length s2 \<noteq> length (tl s1);
                   u = takeWhile (\<lambda>c. c \<noteq> CHR ''.'' \<and> \<not> digit_char c) s2;
                   s3 = drop (length u) s2
               in if \<not> pre \<and> \<not> post then None
                  else if u = [] then None
                  else (case duration_unit u of
                          None \<Rightarrow> None
                        | Some unit \<Rightarrow>
                          if v > two63 div unit then None
                          else (let w = v * unit + (if f > 0 then fraction_nanos f scale unit else 0)
                                in if w > two63 then None
                                   else (let d' = (d + w) mod (2 * two63)
                                         in if d' > two63 then None else Some (d', s3)))))))"

lemma duration_part_shorter: "duration_part d s = Some (d', s') \<Longrightarrow> length s' < length s"
proof -
  assume part: "duration_part d s = Some (d', s')"
  then obtain v s1 where s1: "leading_int 0 s = Some (v, s1)" "s \<noteq> []"
    by (auto simp: duration_part_def split: list.splits option.splits if_splits)
  obtain f scale s2 where s2: "(if s1 \<noteq> [] \<and> hd s1 = CHR ''.'' then leading_fraction False 0 1 (tl s1) else (0, 1, s1)) = (f, scale, s2)"
    by (metis prod_cases3)
  have "length s2 \<le> length s1" using s2 leading_fraction_length [of False 0 1 "tl s1" f scale s2] by (auto split: if_splits)
  moreover have "takeWhile (\<lambda>c. c \<noteq> CHR ''.'' \<and> \<not> digit_char c) s2 \<noteq> [] \<and> s' = drop (length (takeWhile (\<lambda>c. c \<noteq> CHR ''.'' \<and> \<not> digit_char c) s2)) s2"
    using part s1 unfolding duration_part_def by (simp only: s2 Let_def prod.case option.case) (auto split: list.splits option.splits if_splits)
  ultimately show ?thesis using leading_int_length [OF s1(1)] s1(2)
    by (cases s2) (auto split: if_splits)
qed

function duration_parts :: "nat \<Rightarrow> string \<Rightarrow> nat option" where
  "duration_parts d s =
     (if s = [] then Some d
      else (case duration_part d s of None \<Rightarrow> None | Some (d', s') \<Rightarrow> duration_parts d' s'))"
  by auto
termination by (relation "measure (length \<circ> snd)") (auto dest: duration_part_shorter)

declare duration_parts.simps [simp del]

definition parse_duration :: "string \<Rightarrow> duration option" where
  "parse_duration s0 =
     (let neg = (s0 \<noteq> [] \<and> hd s0 = CHR ''-''); s = (if s0 \<noteq> [] \<and> (hd s0 = CHR ''-'' \<or> hd s0 = CHR ''+'') then tl s0 else s0)
      in if s = ''0'' then Some 0
         else if s = [] then None
         else (case duration_parts 0 s of
                 None \<Rightarrow> None
               | Some d \<Rightarrow> if neg then Some (- int d) else if d > two63 - 1 then None else Some (int d)))"

section \<open>Printing\<close>

text \<open>\<^verbatim>\<open>fmtFrac\<close>: the last \<open>prec\<close> digits as a fraction without trailing zeros, and the rest of the number.\<close>

fun fmt_frac :: "nat \<Rightarrow> nat \<Rightarrow> bool \<Rightarrow> string \<Rightarrow> string \<times> nat" where
  "fmt_frac v 0 printed out = ((if printed then CHR ''.'' # out else out), v)"
| "fmt_frac v (Suc n) printed out =
     (let digit = v mod 10; p = printed \<or> digit \<noteq> 0
      in fmt_frac (v div 10) n p (if p then char_of (48 + digit) # out else out))"

definition duration_string :: "duration \<Rightarrow> string" where
  "duration_string d =
     (let u = nat \<bar>d\<bar>;
          body =
            (if u < 1000000000
             then (if u = 0 then ''0s''
                   else if u < 1000 then show_nat u @ ''ns''
                   else if u < 1000000
                   then (let (fr, n) = fmt_frac u 3 False [CHR 0xC2, CHR 0xB5, CHR ''s''] in show_nat n @ fr)
                   else (let (fr, n) = fmt_frac u 6 False ''ms'' in show_nat n @ fr))
             else (let (fr, n) = fmt_frac u 9 False ''s''; secs = show_nat (n mod 60) @ fr; m = n div 60
                   in if m = 0 then secs
                      else (let mins = show_nat (m mod 60) @ ''m'' @ secs; h = m div 60
                            in if h = 0 then mins else show_nat h @ ''h'' @ mins)))
      in if d < 0 then CHR ''-'' # body else body)"

end
