(* ===== verification/Settings.thy ===== *)
theory Settings
  imports GoDuration UptimeModel
begin

text \<open>
  \<^verbatim>\<open>internal/server/store/settings.go\<close>: the retention of metrics as text, and the persisted policy that
  bounds what the AI control plane may do on its own.  The tables are the row of the retention and the
  single row of the policy (\<^verbatim>\<open>internal/server/db/migrations.go\<close>); lists are stored as JSON, which
  replaces bytes that are not UTF-8.  \<^verbatim>\<open>strings.ToLower\<close> outside ASCII is the parameter \<open>lower\<close>.
\<close>

section \<open>Metrics retention\<close>

definition hour :: duration where "hour = 3600 * nanos_per_second"
definition day :: duration where "day = 24 * hour"
definition metrics_retention_max :: duration where "metrics_retention_max = 7 * day"

definition validate_metrics_retention :: "duration \<Rightarrow> string + duration" where
  "validate_metrics_retention retention =
     (if retention \<in> set [6 * hour, 24 * hour, 3 * 24 * hour, metrics_retention_max] then Inr retention
      else Inl ''metrics retention must be one of 6h, 24h, 3d, or 7d'')"

text \<open>The multiplication of the days wraps around.\<close>

definition parse_metrics_retention :: "(nat \<Rightarrow> nat) \<Rightarrow> string \<Rightarrow> string + duration" where
  "parse_metrics_retention lower s =
     (let trimmed = trim_space (to_lower lower s) in
      if trimmed \<noteq> [] \<and> last trimmed = CHR ''d''
      then (case atoi (butlast trimmed) of
              None \<Rightarrow> Inl ''invalid metrics retention''
            | Some days \<Rightarrow> validate_metrics_retention (wrap64 (days * 24 * hour)))
      else (case parse_duration trimmed of
              None \<Rightarrow> Inl ''invalid metrics retention''
            | Some parsed \<Rightarrow> validate_metrics_retention parsed))"

definition format_metrics_retention :: "duration \<Rightarrow> string" where
  "format_metrics_retention retention =
     (if retention = 24 * hour then ''24h''
      else if rem_trunc retention (24 * hour) = 0 \<and> retention \<ge> 48 * hour
      then show_int (quot retention (24 * hour)) @ ''d''
      else if rem_trunc retention hour = 0 then show_int (quot retention hour) @ ''h''
      else duration_string retention)"

section \<open>The AI control policy\<close>

record ai_control_policy =
  cp_mode :: string
  cp_allowed_actions :: "string list"
  cp_node_scope :: "string list"
  cp_revision :: int
  cp_updated_at :: time

definition ai_control_confirm_all :: string where "ai_control_confirm_all = ''confirm_all''"
definition ai_control_low_risk_auto :: string where "ai_control_low_risk_auto = ''low_risk_auto''"
definition ai_control_paused :: string where "ai_control_paused = ''paused''"
definition max_ai_control_actions :: nat where "max_ai_control_actions = 32"
definition max_ai_control_nodes :: nat where "max_ai_control_nodes = 100"
definition max_ai_control_action_bytes :: nat where "max_ai_control_action_bytes = 96"
definition max_ai_control_node_bytes :: nat where "max_ai_control_node_bytes = 191"

lemmas ai_control_names = ai_control_confirm_all_def ai_control_low_risk_auto_def ai_control_paused_def

definition default_ai_control_policy :: ai_control_policy where
  "default_ai_control_policy = \<lparr>cp_mode = ai_control_confirm_all, cp_allowed_actions = [], cp_node_scope = [],
     cp_revision = 1, cp_updated_at = 0\<rparr>"

definition ai_control_actions :: "string list" where
  "ai_control_actions = [''docker.container.start'', ''docker.container.restart'', ''compose.service.start'',
     ''compose.service.restart'', ''systemd.service.start'', ''systemd.service.restart'']"

definition valid_ai_control_action :: "string \<Rightarrow> bool" where
  "valid_ai_control_action action \<longleftrightarrow> action \<in> set ai_control_actions"

fun validate_actions :: "string list \<Rightarrow> string list \<Rightarrow> string + unit" where
  "validate_actions seen [] = Inr ()"
| "validate_actions seen (action # actions) =
     (if action = [] \<or> length action > max_ai_control_action_bytes \<or> trim_space action \<noteq> action \<or> \<not> valid_ai_control_action action
      then Inl ''invalid AI control action''
      else if action \<in> set seen then Inl ''duplicate AI control action''
      else validate_actions (action # seen) actions)"

fun validate_node_scope :: "string list \<Rightarrow> string list \<Rightarrow> string + unit" where
  "validate_node_scope seen [] = Inr ()"
| "validate_node_scope seen (nodeID # nodes) =
     (if nodeID = [] \<or> length nodeID > max_ai_control_node_bytes \<or> trim_space nodeID \<noteq> nodeID
      then Inl ''invalid AI control node scope''
      else if nodeID \<in> set seen then Inl ''duplicate AI control node scope''
      else validate_node_scope (nodeID # seen) nodes)"

definition validate_ai_control_policy :: "ai_control_policy \<Rightarrow> string + unit" where
  "validate_ai_control_policy p =
     bindE (failIf (cp_mode p \<noteq> ai_control_confirm_all \<and> cp_mode p \<noteq> ai_control_low_risk_auto \<and> cp_mode p \<noteq> ai_control_paused)
              ''invalid AI control mode'') (\<lambda>_.
     bindE (failIf (length (cp_allowed_actions p) > max_ai_control_actions \<or> length (cp_node_scope p) > max_ai_control_nodes)
              ''AI control scope is too large'') (\<lambda>_.
     bindE (validate_actions [] (cp_allowed_actions p)) (\<lambda>_.
     bindE (validate_node_scope [] (cp_node_scope p)) (\<lambda>_.
     failIf (cp_revision p < 1) ''invalid AI control revision''))))"

section \<open>The store\<close>

text \<open>A text after \<^verbatim>\<open>json.Marshal\<close> and \<^verbatim>\<open>json.Unmarshal\<close>.\<close>

definition json_text :: "string \<Rightarrow> string" where
  "json_text s = concat (map (\<lambda>x. if invalid_seg x then encode_rune rune_error else snd x) (split_runes s))"

record settings_db =
  sd_metrics_retention :: "string option"
  sd_policy :: "ai_control_policy option"

definition empty_settings_db :: settings_db where
  "empty_settings_db = \<lparr>sd_metrics_retention = None, sd_policy = None\<rparr>"

definition metrics_retention_value :: "(nat \<Rightarrow> nat) \<Rightarrow> settings_db \<Rightarrow> duration \<Rightarrow> string + string" where
  "metrics_retention_value lower db fallback =
     (case sd_metrics_retention db of
        None \<Rightarrow> Inr (format_metrics_retention fallback)
      | Some v \<Rightarrow> bindE (parse_metrics_retention lower v) (\<lambda>retention. Inr (format_metrics_retention retention)))"

definition metrics_retention :: "(nat \<Rightarrow> nat) \<Rightarrow> settings_db \<Rightarrow> duration \<Rightarrow> string + duration" where
  "metrics_retention lower db fallback = bindE (metrics_retention_value lower db fallback) (parse_metrics_retention lower)"

definition set_metrics_retention :: "(nat \<Rightarrow> nat) \<Rightarrow> string \<Rightarrow> settings_db \<Rightarrow> (string + unit) \<times> settings_db" where
  "set_metrics_retention lower v db =
     (case parse_metrics_retention lower v of
        Inl e \<Rightarrow> (Inl e, db)
      | Inr retention \<Rightarrow> (Inr (), db\<lparr>sd_metrics_retention := Some (format_metrics_retention retention)\<rparr>))"

definition get_ai_control_policy :: "settings_db \<Rightarrow> string + ai_control_policy" where
  "get_ai_control_policy db =
     (case sd_policy db of
        None \<Rightarrow> Inr default_ai_control_policy
      | Some policy \<Rightarrow> bindE (validate_ai_control_policy policy) (\<lambda>_. Inr policy))"

definition set_ai_control_policy ::
  "time \<Rightarrow> ai_control_policy \<Rightarrow> settings_db \<Rightarrow> (string + ai_control_policy) \<times> settings_db" where
  "set_ai_control_policy now policy0 db =
     (let policy1 = policy0\<lparr>cp_revision := 1, cp_updated_at := 0\<rparr>
      in case validate_ai_control_policy policy1 of
           Inl e \<Rightarrow> (Inl e, db)
         | Inr _ \<Rightarrow>
           (let revision = (case sd_policy db of None \<Rightarrow> cp_revision default_ai_control_policy | Some p \<Rightarrow> cp_revision p);
                policy = policy1\<lparr>cp_revision := wrap64 (revision + 1), cp_updated_at := now\<rparr>;
                row = policy\<lparr>cp_allowed_actions := map json_text (cp_allowed_actions policy),
                             cp_node_scope := map json_text (cp_node_scope policy)\<rparr>
            in (Inr policy, db\<lparr>sd_policy := Some row\<rparr>)))"

end
