(* ===== verification/SettingsSpec.thy ===== *)
theory SettingsSpec
  imports Settings
begin

text \<open>
  Which texts are accepted as a retention of metrics and what is read back, and what every reader of the
  AI control policy can rely on.
\<close>

section \<open>Plain text\<close>

definition plain_char :: "char \<Rightarrow> bool" where
  "plain_char c \<longleftrightarrow> (let n = of_char c :: nat in 33 \<le> n \<and> n < 128 \<and> \<not> (65 \<le> n \<and> n \<le> 90))"

lemma plain_text:
  assumes "\<forall>c\<in>set s. plain_char c"
  shows "to_lower lower s = s" "trim_space s = s"
proof -
  have ascii: "is_ascii s" using assms by (auto simp: is_ascii_def list_all_iff plain_char_def Let_def)
  show "to_lower lower s = s"
    using assms ascii by (auto simp: to_lower_def plain_char_def Let_def ascii_lower_def intro!: map_idI)
  have nospace: "\<not> is_space (fst x)" if "x \<in> set (split_runes s)" for x
    using that assms by (auto simp: split_runes_ascii [OF ascii] plain_char_def Let_def is_space_def)
  have "dropWhile (is_space \<circ> fst) xs = xs" if "set xs \<subseteq> set (split_runes s)" for xs
    using that nospace by (cases xs) auto
  then show "trim_space s = s" by (simp add: trim_space_def trim_segs_def)
qed

lemma show_int_plain: "\<forall>c\<in>set (show_int n). plain_char c"
proof -
  have "plain_char c" if "c \<in> set (show_nat k)" for c k
    using show_nat_digits [OF that] by (simp add: plain_char_def)
  moreover have "plain_char (CHR ''-'')" by (simp add: plain_char_def)
  ultimately show ?thesis by (auto simp: show_int_def)
qed

lemma atoi_show_int: "atoi (show_int n) = (if min_duration \<le> n \<and> n \<le> max_duration then Some n else None)"
proof -
  have digits: "list_all is_digit (show_nat k)" for k
    using show_nat_digits [of _ k] by (auto simp: list_all_iff is_digit_def)
  have sign: "\<not> prefix ''-'' (show_nat k)" "\<not> prefix ''+'' (show_nat k)" for k
    using show_nat_digits [of "CHR ''-''" k] show_nat_digits [of "CHR ''+''" k] by (auto simp: prefix_def)
  show ?thesis using digits sign by (auto simp: atoi_def show_int_def Let_def)
qed

section \<open>Retention\<close>

lemma wrap64_eq_iff: "wrap64 a = wrap64 b \<longleftrightarrow> 18446744073709551616 dvd a - b"
proof -
  have "(a + c) mod m - c = (b + c) mod m - c \<longleftrightarrow> m dvd a - b" for c m :: int
    by (simp add: mod_eq_dvd_iff)
  then show ?thesis by (simp only: wrap64_def)
qed

text \<open>A day is \<^verbatim>\<open>2^16\<close> times an odd number of nanoseconds, and six hours are \<^verbatim>\<open>2^14\<close> times one.\<close>

lemma wrapped_days: "wrap64 (n * 24 * hour) = wrap64 (k * day) \<longleftrightarrow> 2 ^ 48 dvd n - k"
proof -
  have "wrap64 (n * 24 * hour) = wrap64 (k * day) \<longleftrightarrow> 18446744073709551616 dvd 86400000000000 * (n - k)"
    by (simp add: wrap64_eq_iff day_def hour_def nanos_per_second_def algebra_simps)
  also have "\<dots> \<longleftrightarrow> (65536 * 2 ^ 48 :: int) dvd 65536 * (1318359375 * (n - k))" by (simp add: algebra_simps)
  also have "\<dots> \<longleftrightarrow> (2 ^ 48 :: int) dvd 1318359375 * (n - k)" by (subst dvd_mult_cancel_left) simp
  also have "\<dots> \<longleftrightarrow> (2 ^ 48 :: int) dvd n - k"
  proof -
    have "coprime ((2 :: int) ^ 48) 1318359375" by (simp only: coprime_power_left_iff coprime_left_2_iff_odd) simp
    then show ?thesis by (rule coprime_dvd_mult_right_iff)
  qed
  finally show ?thesis .
qed

lemma wrapped_days_not_six_hours: "wrap64 (n * 24 * hour) \<noteq> 6 * hour"
proof
  assume "wrap64 (n * 24 * hour) = 6 * hour"
  moreover have "wrap64 (6 * hour) = 6 * hour" by (simp add: wrap64_def hour_def nanos_per_second_def)
  ultimately have "18446744073709551616 dvd n * 24 * hour - 6 * hour" using wrap64_eq_iff by metis
  then have "(32768 :: int) dvd n * 24 * hour - 6 * hour" by (rule dvd_trans [rotated]) simp
  moreover have "n * 24 * hour - 6 * hour = 16384 * (1318359375 * (4 * n - 1))"
    by (simp add: hour_def nanos_per_second_def algebra_simps)
  ultimately have "(16384 * 2 :: int) dvd 16384 * (1318359375 * (4 * n - 1))" by simp
  then have "(2 :: int) dvd 1318359375 * (4 * n - 1)" by (subst (asm) dvd_mult_cancel_left) simp
  then show False by simp
qed

lemma parse_days:
  "parse_metrics_retention lower (show_int n @ ''d'') =
     (if min_duration \<le> n \<and> n \<le> max_duration then validate_metrics_retention (wrap64 (n * 24 * hour)) else Inl ''invalid metrics retention'')"
proof -
  have "\<forall>c\<in>set (show_int n @ ''d''). plain_char c" using show_int_plain by (auto simp: plain_char_def)
  from plain_text [OF this] show ?thesis by (simp add: parse_metrics_retention_def atoi_show_int)
qed

lemma retention_days_ok: "k \<in> {1, 3, 7} \<Longrightarrow> parse_metrics_retention lower (show_int k @ ''d'') = Inr (k * day)"
  by (auto simp: parse_days min_duration_def max_duration_def validate_metrics_retention_def metrics_retention_max_def wrap64_def
      day_def hour_def nanos_per_second_def)

definition retention_days :: "int set" where "retention_days = {1, 3, 7}"

text \<open>C28: A number of days is accepted as a retention exactly when its remainder modulo 2^48 is 1, 3 or 7, and means that many days: beside the documented \<^verbatim>\<open>3d\<close> and \<^verbatim>\<open>7d\<close> the wrap-around of the 64 bit product accepts \<^verbatim>\<open>281474976710659d\<close> and others as well.\<close>

theorem retention_days_accepted:
  "parse_metrics_retention lower (show_int n @ ''d'') = Inr d
    \<longleftrightarrow> min_duration \<le> n \<and> n \<le> max_duration \<and> n mod 2 ^ 48 \<in> retention_days \<and> d = n mod 2 ^ 48 * day"
proof -
  have days: "k * day = wrap64 (k * day)" if "k \<in> retention_days" for k
    using that by (auto simp: retention_days_def wrap64_def day_def hour_def nanos_per_second_def)
  have mod: "2 ^ 48 dvd n - k \<longleftrightarrow> n mod 2 ^ 48 = k" if "k \<in> retention_days" for k
  proof -
    have "2 ^ 48 dvd n - k \<longleftrightarrow> n mod 2 ^ 48 = k mod 2 ^ 48" by (simp only: mod_eq_dvd_iff)
    moreover have "k mod 2 ^ 48 = k" using that by (auto simp: retention_days_def)
    ultimately show ?thesis by metis
  qed
  have "wrap64 (n * 24 * hour) = k * day \<longleftrightarrow> n mod 2 ^ 48 = k" if "k \<in> retention_days" for k
    using days [OF that] mod [OF that] wrapped_days [of n k] by metis
  from this [of 1] this [of 3] this [of 7]
  have "validate_metrics_retention (wrap64 (n * 24 * hour)) = Inr d \<longleftrightarrow> n mod 2 ^ 48 \<in> retention_days \<and> d = n mod 2 ^ 48 * day"
    using wrapped_days_not_six_hours [of n]
    by (auto simp: validate_metrics_retention_def metrics_retention_max_def retention_days_def day_def)
  then show ?thesis by (auto simp: parse_days)
qed

lemma hour_day: "hour = 3600000000000" "day = 86400000000000"
  by (simp_all add: hour_def day_def nanos_per_second_def)

lemma parse_literals:
  "parse_metrics_retention lower ''6h'' = Inr (6 * hour)" "parse_metrics_retention lower ''24h'' = Inr day"
proof -
  have plain: "\<forall>c\<in>set ''6h''. plain_char c" "\<forall>c\<in>set ''24h''. plain_char c" by (simp_all add: plain_char_def)
  have "parse_duration ''6h'' = Some (6 * hour)" "parse_duration ''24h'' = Some day"
    by (simp_all add: parse_duration_def duration_parts.simps duration_part_def digit_char_def digit_of_def two63_def
        duration_unit_def hour_day)
  then show "parse_metrics_retention lower ''6h'' = Inr (6 * hour)" "parse_metrics_retention lower ''24h'' = Inr day"
    by (simp_all add: parse_metrics_retention_def plain_text [OF plain(1)] plain_text [OF plain(2)]
        validate_metrics_retention_def hour_day)
qed

lemma validated_retention: "parse_metrics_retention lower v = Inr d \<Longrightarrow> d \<in> {6 * hour, day, 3 * day, 7 * day}"
  by (auto simp: parse_metrics_retention_def validate_metrics_retention_def Let_def metrics_retention_max_def day_def
      split: if_splits option.splits)

lemma format_retention:
  "format_metrics_retention (6 * hour) = ''6h''" "format_metrics_retention day = ''24h''"
  "format_metrics_retention (3 * day) = ''3d''" "format_metrics_retention (7 * day) = ''7d''"
proof -
  have texts: "show_int 6 = ''6''" "show_int 3 = ''3''" "show_int 7 = ''7''" by code_simp+
  show "format_metrics_retention (6 * hour) = ''6h''" "format_metrics_retention day = ''24h''"
  "format_metrics_retention (3 * day) = ''3d''" "format_metrics_retention (7 * day) = ''7d''"
    by (simp_all add: format_metrics_retention_def hour_day rem_trunc_def quot_def texts)
qed

lemma parse_format_retention:
  assumes "d \<in> {6 * hour, day, 3 * day, 7 * day}"
  shows "parse_metrics_retention lower (format_metrics_retention d) = Inr d"
proof -
  have texts: "show_int 3 @ ''d'' = ''3d''" "show_int 7 @ ''d'' = ''7d''" by code_simp+
  have "parse_metrics_retention lower ''3d'' = Inr (3 * day)" "parse_metrics_retention lower ''7d'' = Inr (7 * day)"
    using retention_days_ok [of 3 lower] retention_days_ok [of 7 lower] by (simp_all add: texts)
  with assms parse_literals format_retention show ?thesis by auto
qed

text \<open>A retention that is accepted is one of the four documented ones, its text form is accepted with the same meaning, and once stored it is what every later reading returns, whatever the fallback.\<close>

theorem stored_retention_is_read_back:
  assumes "set_metrics_retention lower v db = (Inr (), db')"
  shows "\<exists>d\<in>{6 * hour, day, 3 * day, 7 * day}. parse_metrics_retention lower v = Inr d
    \<and> parse_metrics_retention lower (format_metrics_retention d) = Inr d
    \<and> metrics_retention lower db' fallback = Inr d \<and> sd_policy db' = sd_policy db"
proof -
  from assms obtain d where d: "parse_metrics_retention lower v = Inr d"
      "db' = db\<lparr>sd_metrics_retention := Some (format_metrics_retention d)\<rparr>"
    by (auto simp: set_metrics_retention_def split: sum.splits)
  note ok = validated_retention [OF d(1)]
  show ?thesis
    by (rule bexI [OF _ ok]) (simp add: d metrics_retention_def metrics_retention_value_def parse_format_retention [OF ok])
qed

theorem stored_retention_is_read_back_witness:
  "metrics_retention (\<lambda>r. r) (snd (set_metrics_retention (\<lambda>r. r) ''6h'' empty_settings_db)) day = Inr (6 * hour)"
  using stored_retention_is_read_back [of "\<lambda>r. r" "''6h''" empty_settings_db "snd (set_metrics_retention (\<lambda>r. r) ''6h'' empty_settings_db)" day]
  by (auto simp: set_metrics_retention_def parse_literals)

end
