(* ===== verification/AiPolicy.thy ===== *)
theory AiPolicy
  imports SettingsSpec
begin

text \<open>
  \<^verbatim>\<open>internal/server/ai/policy.go\<close>: the decision whether a tool call of the AI runs, waits for a
  confirmation or is blocked.  The registry of tools and its validation of stored calls are arguments.
\<close>

section \<open>Tool calls\<close>

record policy_metadata =
  pm_resource_domain :: string
  pm_action :: string
  pm_autonomy_class :: string
  pm_target_scope :: string
  pm_requires_node :: bool
  pm_autonomous :: bool
  pm_verifier :: string

record tool_target =
  tt_type :: string
  tt_id :: string
  tt_name :: string
  tt_node_id :: string

record tool_call =
  tc_tool :: string
  tc_risk :: string
  tc_target :: tool_target
  tc_metadata :: policy_metadata
  tc_action_key :: string

text \<open>What \<open>Policy\<close> uses of a registered tool: whether it has a verifying function, and its metadata.\<close>

record registered_tool =
  rt_verify :: bool
  rt_metadata :: policy_metadata

definition risk_read :: string where "risk_read = ''read''"

definition classified_policy_metadata :: "string \<Rightarrow> string \<Rightarrow> string \<Rightarrow> string \<Rightarrow> policy_metadata" where
  "classified_policy_metadata domain action class targetScope =
     \<lparr>pm_resource_domain = domain, pm_action = action, pm_autonomy_class = class, pm_target_scope = targetScope,
      pm_requires_node = (targetScope = ''node'' \<or> targetScope = ''multi_node'' \<or> targetScope = ''node_resource''),
      pm_autonomous = False, pm_verifier = []\<rparr>"

definition autonomous_policy_metadata :: "string \<Rightarrow> string \<Rightarrow> string \<Rightarrow> string \<Rightarrow> policy_metadata" where
  "autonomous_policy_metadata domain action targetScope verifier =
     (classified_policy_metadata domain action ''low'' targetScope)\<lparr>pm_autonomous := True, pm_verifier := verifier\<rparr>"

section \<open>Decisions\<close>

datatype policy_decision =
  PolicyRead | PolicyManual | PolicyAutonomous | PolicyBlockedPaused | PolicyBlockedScope | PolicyBlockedAction
| PolicyBlockedCapability | PolicyBlockedVerifier | PolicyBlockedPolicy

record policy_result =
  pr_decision :: policy_decision
  pr_reason :: string
  pr_revision :: int
  pr_action :: string

definition safe_reason :: "policy_result \<Rightarrow> string" where
  "safe_reason p = (if pr_reason p = [] then ''policy_denied'' else pr_reason p)"

definition evaluate_policy :: "ai_control_policy \<Rightarrow> tool_call \<Rightarrow> policy_result" where
  "evaluate_policy policy call =
     (let result = (\<lambda>d r. \<lparr>pr_decision = d, pr_reason = r, pr_revision = cp_revision policy, pr_action = tc_action_key call\<rparr>) in
      if tc_risk call = risk_read then result PolicyRead ''read_only''
      else if cp_mode policy = ai_control_paused then result PolicyBlockedPaused ''paused''
      else if cp_mode policy \<noteq> ai_control_low_risk_auto \<or> \<not> pm_autonomous (tc_metadata call)
      then result PolicyManual ''confirmation_required''
      else if pm_verifier (tc_metadata call) = [] then result PolicyBlockedVerifier ''verifier_unavailable''
      else if tt_node_id (tc_target call) = [] \<or> tt_node_id (tc_target call) \<notin> set (cp_node_scope policy)
      then result PolicyBlockedScope ''node_outside_scope''
      else if tc_action_key call \<notin> set (cp_allowed_actions policy) then result PolicyBlockedAction ''action_not_allowed''
      else result PolicyAutonomous ''low_risk_policy'')"

definition is_autonomous_recovery_action :: "string \<Rightarrow> bool" where
  "is_autonomous_recovery_action action \<longleftrightarrow> action \<in> set ai_control_actions"

text \<open>\<open>policyAction\<close>; the argument is the decoded \<^verbatim>\<open>action\<close> of the call, \<open>None\<close> when it does not decode.\<close>

definition policy_action :: "string option \<Rightarrow> string \<Rightarrow> bool \<Rightarrow> string" where
  "policy_action decoded pre composeUp =
     (case decoded of
        None \<Rightarrow> []
      | Some a \<Rightarrow> (let action = trim_space a in pre @ ''.'' @ (if composeUp \<and> action = ''up'' then ''start'' else action)))"

text \<open>\<open>ControlPolicy\<close> and \<open>Policy\<close>; \<open>None\<close> for a registry without settings.\<close>

definition control_policy :: "settings_db option \<Rightarrow> string + ai_control_policy" where
  "control_policy settings = (case settings of None \<Rightarrow> Inr default_ai_control_policy | Some db \<Rightarrow> get_ai_control_policy db)"

definition registry_policy ::
  "(string \<Rightarrow> registered_tool option) \<Rightarrow> settings_db option \<Rightarrow> tool_call \<Rightarrow> string + policy_result" where
  "registry_policy tools settings call =
     (if tc_risk call = risk_read then Inr (evaluate_policy default_ai_control_policy call)
      else bindE (control_policy settings) (\<lambda>policy.
        let result = evaluate_policy policy call in
        Inr (if pr_decision result = PolicyAutonomous
             then (case tools (tc_tool call) of
                     None \<Rightarrow> result\<lparr>pr_decision := PolicyBlockedVerifier, pr_reason := ''verifier_unavailable''\<rparr>
                   | Some tool \<Rightarrow> if \<not> rt_verify tool \<or> pm_verifier (rt_metadata tool) = []
                                  then result\<lparr>pr_decision := PolicyBlockedVerifier, pr_reason := ''verifier_unavailable''\<rparr>
                                  else result)
             else result)))"

definition policy_for_stored_call ::
  "(string \<Rightarrow> registered_tool option) \<Rightarrow> (string \<Rightarrow> string \<Rightarrow> tool_call option) \<Rightarrow> settings_db option \<Rightarrow>
     string \<Rightarrow> string \<Rightarrow> string + policy_result" where
  "policy_for_stored_call tools validate settings toolName argumentsJSON =
     (if prefix (''{'' @ [CHR 0x22] @ ''sealed_tool_arguments'' @ [CHR 0x22] @ '':'') argumentsJSON
      then Inr \<lparr>pr_decision = PolicyBlockedCapability, pr_reason = ''sealed_arguments_revalidation_required'', pr_revision = 0, pr_action = []\<rparr>
      else (case validate toolName argumentsJSON of
              None \<Rightarrow> Inr \<lparr>pr_decision = PolicyBlockedCapability, pr_reason = ''capability_offline'', pr_revision = 0, pr_action = []\<rparr>
            | Some call \<Rightarrow> registry_policy tools settings call))"

definition policy_error :: "policy_result \<Rightarrow> string option" where
  "policy_error result = (case pr_decision result of
     PolicyBlockedPaused \<Rightarrow> Some ''AI control plane is paused''
   | PolicyBlockedScope \<Rightarrow> Some ''AI target is outside the autonomous node scope''
   | PolicyBlockedAction \<Rightarrow> Some ''AI action is not allowed by policy''
   | PolicyBlockedVerifier \<Rightarrow> Some ''AI final-state verification is unavailable''
   | PolicyBlockedCapability \<Rightarrow> Some ''AI target capability is unavailable''
   | PolicyBlockedPolicy \<Rightarrow> Some ''AI control policy is unavailable''
   | _ \<Rightarrow> None)"

section \<open>Validated policies\<close>

lemma validate_actions_ok:
  "validate_actions seen actions = Inr () \<longleftrightarrow>
     distinct actions \<and> set actions \<inter> set seen = {} \<and> (\<forall>a\<in>set actions. a \<in> set ai_control_actions)"
proof (induction actions arbitrary: seen)
  case (Cons a as)
  have "a \<noteq> [] \<and> length a \<le> max_ai_control_action_bytes \<and> trim_space a = a" if "a \<in> set ai_control_actions"
  proof -
    have plain: "\<forall>c\<in>set a. plain_char c" using that by (auto simp: ai_control_actions_def plain_char_def)
    show ?thesis using that plain_text(2) [OF plain] by (auto simp: ai_control_actions_def max_ai_control_action_bytes_def)
  qed
  then show ?case using Cons [of "a # seen"] by (auto simp: valid_ai_control_action_def)
qed simp

lemma validate_node_scope_ok:
  "validate_node_scope seen nodes = Inr () \<longleftrightarrow> distinct nodes \<and> set nodes \<inter> set seen = {}
     \<and> (\<forall>n\<in>set nodes. n \<noteq> [] \<and> length n \<le> max_ai_control_node_bytes \<and> trim_space n = n)"
  by (induction nodes arbitrary: seen) auto

lemma validated_policy:
  "validate_ai_control_policy p = Inr u \<longleftrightarrow>
     (cp_mode p = ai_control_confirm_all \<or> cp_mode p = ai_control_low_risk_auto \<or> cp_mode p = ai_control_paused)
     \<and> length (cp_allowed_actions p) \<le> 32 \<and> length (cp_node_scope p) \<le> 100
     \<and> distinct (cp_allowed_actions p) \<and> set (cp_allowed_actions p) \<subseteq> set ai_control_actions
     \<and> distinct (cp_node_scope p) \<and> (\<forall>n\<in>set (cp_node_scope p). n \<noteq> [] \<and> length n \<le> 191 \<and> trim_space n = n)
     \<and> 1 \<le> cp_revision p"
  by (auto simp: validate_ai_control_policy_def result_iff validate_actions_ok validate_node_scope_ok
      max_ai_control_actions_def max_ai_control_nodes_def max_ai_control_node_bytes_def)

lemma json_text_valid: "valid_utf8 s \<Longrightarrow> json_text s = s"
proof -
  assume "valid_utf8 s"
  then have "map (\<lambda>x. if invalid_seg x then encode_rune rune_error else snd x) (split_runes s) = map snd (split_runes s)"
    by (auto simp: valid_utf8_def list_all_iff)
  then have "json_text s = join_runes (split_runes s)" unfolding json_text_def join_runes_def by (rule arg_cong)
  then show ?thesis by simp
qed

text \<open>A policy that is accepted is read back as it was returned, with its lists unchanged and the next revision, and a policy that is refused leaves the stored one in force.\<close>

theorem policy_is_stored:
  assumes old: "case sd_policy db of None \<Rightarrow> True | Some p \<Rightarrow> 1 \<le> cp_revision p \<and> cp_revision p < max_duration"
    and utf8: "\<forall>n\<in>set (cp_node_scope policy). valid_utf8 n"
  shows "case set_ai_control_policy now policy db of
     (Inl e, db') \<Rightarrow> db' = db
   | (Inr p, db') \<Rightarrow> get_ai_control_policy db' = Inr p \<and> cp_mode p = cp_mode policy
       \<and> cp_allowed_actions p = cp_allowed_actions policy \<and> cp_node_scope p = cp_node_scope policy
       \<and> cp_revision p = (case sd_policy db of None \<Rightarrow> 2 | Some q \<Rightarrow> cp_revision q + 1) \<and> cp_updated_at p = now
       \<and> sd_metrics_retention db' = sd_metrics_retention db"
proof (cases "validate_ai_control_policy (policy\<lparr>cp_revision := 1, cp_updated_at := 0\<rparr>)")
  case (Inl e)
  then show ?thesis by (simp add: set_ai_control_policy_def)
next
  case (Inr u)
  then have ok: "set (cp_allowed_actions policy) \<subseteq> set ai_control_actions" by (simp add: validated_policy)
  have ascii: "valid_utf8 a" if "a \<in> set ai_control_actions" for a
    using that by (intro valid_utf8_ascii) (auto simp: ai_control_actions_def is_ascii_def)
  have texts: "map json_text (cp_allowed_actions policy) = cp_allowed_actions policy" "map json_text (cp_node_scope policy) = cp_node_scope policy"
    using ok ascii utf8 by (auto intro!: map_idI json_text_valid)
  define rev where "rev = (case sd_policy db of None \<Rightarrow> 1 | Some q \<Rightarrow> cp_revision q)"
  have rev: "1 \<le> rev" "rev < max_duration" using old by (auto simp: rev_def max_duration_def split: option.splits)
  then have wrap: "wrap64 (rev + 1) = rev + 1" by (intro wrap64_small) (simp_all add: max_duration_def)
  let ?p = "policy\<lparr>cp_revision := rev + 1, cp_updated_at := now\<rparr>"
  have set: "set_ai_control_policy now policy db = (Inr ?p, db\<lparr>sd_policy := Some ?p\<rparr>)"
    using Inr texts wrap by (simp add: set_ai_control_policy_def rev_def default_ai_control_policy_def Let_def split: option.splits)
  have "validate_ai_control_policy ?p = Inr u" using Inr rev by (simp add: validated_policy)
  then show ?thesis unfolding set by (simp add: get_ai_control_policy_def rev_def split: option.split)
qed

definition sample_policy :: ai_control_policy where
  "sample_policy = \<lparr>cp_mode = ai_control_low_risk_auto, cp_allowed_actions = [''systemd.service.restart''], cp_node_scope = [''n1''],
     cp_revision = 0, cp_updated_at = 0\<rparr>"

lemma sample_policy_valid: "validate_ai_control_policy (sample_policy\<lparr>cp_revision := 1, cp_updated_at := 0\<rparr>) = Inr ()"
proof -
  have "trim_space ''n1'' = ''n1''" by (rule plain_text) (simp add: plain_char_def)
  then show ?thesis by (simp add: validated_policy sample_policy_def ai_control_actions_def)
qed

theorem policy_is_stored_witness:
  "\<exists>p. get_ai_control_policy (snd (set_ai_control_policy 5 sample_policy empty_settings_db)) = Inr p \<and> cp_revision p = 2"
proof -
  have "valid_utf8 ''n1''" by (rule valid_utf8_ascii) (simp add: is_ascii_def)
  then have stored: "case set_ai_control_policy 5 sample_policy empty_settings_db of
      (Inl e, db') \<Rightarrow> db' = empty_settings_db
    | (Inr p, db') \<Rightarrow> get_ai_control_policy db' = Inr p \<and> cp_revision p = 2"
    using policy_is_stored [of empty_settings_db sample_policy 5]
    by (auto simp: empty_settings_db_def sample_policy_def split: prod.splits sum.splits)
  moreover have "\<exists>p. fst (set_ai_control_policy 5 sample_policy empty_settings_db) = Inr p"
    using sample_policy_valid by (simp add: set_ai_control_policy_def Let_def)
  ultimately show ?thesis by (auto split: prod.splits sum.splits)
qed

section \<open>Authorization\<close>

text \<open>C27: A call that changes something runs without a confirmation exactly when the stored policy is valid and in the mode for low risks, the tool is autonomous and registered with a verification, the node of the target is in the policy's scope and the action is among its allowed actions, which are at most the six recovery actions.\<close>

theorem autonomous_exactly_when_authorized:
  assumes "tc_risk call \<noteq> risk_read"
  shows "(\<exists>r. registry_policy tools settings call = Inr r \<and> pr_decision r = PolicyAutonomous)
    \<longleftrightarrow> (\<exists>db p tool. settings = Some db \<and> sd_policy db = Some p \<and> validate_ai_control_policy p = Inr ()
          \<and> cp_mode p = ai_control_low_risk_auto \<and> pm_autonomous (tc_metadata call) \<and> pm_verifier (tc_metadata call) \<noteq> []
          \<and> tt_node_id (tc_target call) \<in> set (cp_node_scope p)
          \<and> tc_action_key call \<in> set (cp_allowed_actions p) \<and> is_autonomous_recovery_action (tc_action_key call)
          \<and> tools (tc_tool call) = Some tool \<and> rt_verify tool \<and> pm_verifier (rt_metadata tool) \<noteq> [])"
proof -
  have nonempty: "[] \<notin> set (cp_node_scope p)" "a \<in> set (cp_allowed_actions p) \<Longrightarrow> is_autonomous_recovery_action a"
    if "validate_ai_control_policy p = Inr ()" for p a
    using that by (auto simp: validated_policy is_autonomous_recovery_action_def)
  show ?thesis
  proof (cases "\<exists>db p. settings = Some db \<and> sd_policy db = Some p \<and> validate_ai_control_policy p = Inr ()")
    case True
    then obtain db p where p: "settings = Some db" "sd_policy db = Some p" "validate_ai_control_policy p = Inr ()" by blast
    then have "control_policy settings = Inr p" by (simp add: control_policy_def get_ai_control_policy_def)
    then show ?thesis using p assms nonempty [OF p(3)]
      by (auto simp: registry_policy_def evaluate_policy_def Let_def ai_control_names split: option.splits)
  next
    case False
    then have "(\<exists>e. control_policy settings = Inl e) \<or> control_policy settings = Inr default_ai_control_policy"
      by (auto simp: control_policy_def get_ai_control_policy_def bindE_def split: option.splits sum.splits)
    then show ?thesis using False assms
      by (auto simp: registry_policy_def evaluate_policy_def Let_def default_ai_control_policy_def ai_control_names)
  qed
qed

definition sample_call :: tool_call where
  "sample_call = \<lparr>tc_tool = ''systemd_restart'', tc_risk = ''mutate'', tc_target = \<lparr>tt_type = ''service'', tt_id = ''x'', tt_name = ''x'', tt_node_id = ''n1''\<rparr>,
     tc_metadata = autonomous_policy_metadata ''systemd'' ''restart'' ''node_resource'' ''systemd_state'', tc_action_key = ''systemd.service.restart''\<rparr>"

theorem autonomous_exactly_when_authorized_witness:
  "\<exists>r. registry_policy (\<lambda>_. Some \<lparr>rt_verify = True, rt_metadata = tc_metadata sample_call\<rparr>)
      (Some (empty_settings_db\<lparr>sd_policy := Some (sample_policy\<lparr>cp_revision := 1, cp_updated_at := 0\<rparr>)\<rparr>)) sample_call = Inr r
    \<and> pr_decision r = PolicyAutonomous"
  using autonomous_exactly_when_authorized [of sample_call "\<lambda>_. Some \<lparr>rt_verify = True, rt_metadata = tc_metadata sample_call\<rparr>"
      "Some (empty_settings_db\<lparr>sd_policy := Some (sample_policy\<lparr>cp_revision := 1, cp_updated_at := 0\<rparr>)\<rparr>)"] sample_policy_valid
  by (simp add: sample_call_def risk_read_def sample_policy_def autonomous_policy_metadata_def is_autonomous_recovery_action_def
      ai_control_actions_def)

text \<open>A pause blocks every call that is not a read.\<close>

lemma paused_blocks:
  "cp_mode policy = ai_control_paused \<Longrightarrow> tc_risk call \<noteq> risk_read \<Longrightarrow>
     policy_error (evaluate_policy policy call) = Some ''AI control plane is paused''"
  by (simp add: evaluate_policy_def policy_error_def)

end
