(* ===== verification/AiTypes.thy ===== *)
theory AiTypes
  imports GoText
begin

text \<open>
  The tables of the AI chat in \<^verbatim>\<open>internal/server/store/ai.go\<close>: providers, their models, conversations,
  turns, messages and tool calls.  Statuses are the strings of the columns; the clock and fresh
  identifiers are arguments of the operations.
\<close>

section \<open>Rows\<close>

record ai_provider =
  ap_id :: string
  ap_name :: string
  ap_protocol :: string
  ap_base_url :: string
  ap_enabled :: bool
  ap_discovery_status :: string
  ap_discovery_latency :: int
  ap_discovered_at :: "time option"
  ap_discovery_error :: string
  ap_model :: string
  ap_api_key_ciphertext :: string
  ap_default :: bool
  ap_chat_capable :: bool
  ap_tools_capable :: bool
  ap_probe_status :: string
  ap_probed_at :: "time option"
  ap_probe_error :: string
  ap_created_at :: time
  ap_updated_at :: time

record ai_model =
  am_id :: string
  am_provider_id :: string
  am_model_id :: string
  am_display_name :: string
  am_enabled :: bool
  am_chat_capable :: bool
  am_tools_capable :: bool
  am_probe_status :: string
  am_probe_latency :: int
  am_probed_at :: "time option"
  am_probe_error :: string
  am_default :: bool
  am_fallback :: bool
  am_created_at :: time
  am_updated_at :: time

record ai_conversation =
  av_id :: string
  av_title :: string
  av_model_id :: "string option"
  av_created_at :: time
  av_updated_at :: time

record ai_turn =
  at_id :: string
  at_conversation_id :: string
  at_model_id :: "string option"
  at_provider_id :: string
  at_provider_name :: string
  at_protocol :: string
  at_model :: string
  at_requested_provider_id :: string
  at_requested_provider_name :: string
  at_requested_model_id :: "string option"
  at_requested_model :: string
  at_fallback_used :: bool
  at_status :: string
  at_error_code :: string
  at_created_at :: time
  at_updated_at :: time

record ai_message =
  ag_id :: string
  ag_conversation_id :: string
  ag_turn_id :: string
  ag_role :: string
  ag_content :: string
  ag_provider_name :: string
  ag_model :: string
  ag_created_at :: time

record ai_tool_call =
  al_id :: string
  al_turn_id :: string
  al_step_index :: int
  al_provider_call_id :: string
  al_tool_name :: string
  al_risk :: string
  al_status :: string
  al_arguments_json :: string
  al_target_type :: string
  al_target_id :: string
  al_target_name :: string
  al_node_id :: string
  al_operation_id :: string
  al_result_summary :: string
  al_policy_decision :: string
  al_policy_reason :: string
  al_policy_revision :: int
  al_verification_status :: string
  al_impact_json :: string
  al_created_at :: time
  al_updated_at :: time

record ai_routing =
  ar_default_model_id :: "string option"
  ar_fallback_model_id :: "string option"

record ai_db =
  ab_providers :: "ai_provider list"
  ab_models :: "ai_model list"
  ab_conversations :: "ai_conversation list"
  ab_turns :: "ai_turn list"
  ab_messages :: "ai_message list"
  ab_calls :: "ai_tool_call list"

definition empty_ai_db :: ai_db where
  "empty_ai_db = \<lparr>ab_providers = [], ab_models = [], ab_conversations = [], ab_turns = [], ab_messages = [], ab_calls = []\<rparr>"

datatype ai_error = AiInvalid | AiNotFound | AiConflict | AiDBError string

section \<open>Helpers\<close>

definition normalized_ai_name :: "(nat \<Rightarrow> nat) \<Rightarrow> string \<Rightarrow> string" where
  "normalized_ai_name ul name = to_lower ul (trim_space name)"

definition default_probe_status :: "string \<Rightarrow> string" where
  "default_probe_status status = (if status = [] then ''unknown'' else status)"

definition bounded_latency :: "int \<Rightarrow> int" where
  "bounded_latency latency = (if latency < 0 then 0 else if latency > 600000 then 600000 else latency)"

text \<open>An empty identifier is stored as \<^verbatim>\<open>NULL\<close>.\<close>

definition pointer_value :: "string option \<Rightarrow> string option" where
  "pointer_value p = (case p of None \<Rightarrow> None | Some s \<Rightarrow> if s = [] then None else Some s)"

definition validate_ai_title :: "string \<Rightarrow> ai_error + string" where
  "validate_ai_title raw = (let title = trim_space raw in if title = [] \<or> length title > 255 then Inl AiInvalid else Inr title)"

text \<open>The first row of a query with \<^verbatim>\<open>ORDER BY\<close>.\<close>

fun first_row :: "('r \<Rightarrow> 'r \<Rightarrow> bool) \<Rightarrow> 'r list \<Rightarrow> 'r option" where
  "first_row before [] = None"
| "first_row before (r # rs) = (case first_row before rs of None \<Rightarrow> Some r | Some q \<Rightarrow> Some (if before q r then q else r))"

lemma first_row_in: "first_row before rs = Some r \<Longrightarrow> r \<in> set rs"
  by (induction rs arbitrary: r) (auto split: option.splits if_splits)

lemma first_row_None [simp]: "first_row before rs = None \<longleftrightarrow> rs = []"
  by (cases rs) (auto split: option.splits)

end
