(* ===== verification/AiModels.thy ===== *)
theory AiModels
  imports AiTypes
begin

text \<open>
  Providers, models and the routing of chats in \<^verbatim>\<open>internal/server/store/ai.go\<close>, with the SQLite schema.  The
  columns of a provider that mirror one of its models are kept by \<open>sync_provider_compatibility_tx\<close>.
\<close>

section \<open>Reading\<close>

definition find_provider :: "ai_db \<Rightarrow> string \<Rightarrow> ai_provider option" where
  "find_provider db i = List.find (\<lambda>p. ap_id p = i) (ab_providers db)"

definition find_model :: "ai_db \<Rightarrow> string \<Rightarrow> ai_model option" where
  "find_model db i = List.find (\<lambda>m. am_id m = i) (ab_models db)"

definition get_model :: "ai_db \<Rightarrow> string \<Rightarrow> ai_error + ai_model" where
  "get_model db i = (case find_model db i of None \<Rightarrow> Inl AiNotFound | Some m \<Rightarrow> Inr m)"

definition model_before :: "ai_model \<Rightarrow> ai_model \<Rightarrow> bool" where
  "model_before a b \<longleftrightarrow>
     (if am_default a \<noteq> am_default b then am_default a
      else if am_fallback a \<noteq> am_fallback b then am_fallback a
      else if am_created_at a \<noteq> am_created_at b then am_created_at a < am_created_at b
      else am_id a < am_id b)"

definition list_provider_models :: "ai_db \<Rightarrow> string \<Rightarrow> ai_model list" where
  "list_provider_models db i = sort_key (\<lambda>m. \<not> am_default m) (sort_key (\<lambda>m. \<not> am_fallback m) (sort_key am_created_at (sort_key am_id
     (filter (\<lambda>m. am_provider_id m = i) (ab_models db)))))"

definition get_provider :: "ai_db \<Rightarrow> string \<Rightarrow> ai_error + (ai_provider \<times> ai_model list)" where
  "get_provider db i = (case find_provider db i of None \<Rightarrow> Inl AiNotFound | Some p \<Rightarrow> Inr (p, list_provider_models db i))"

definition default_provider :: "ai_db \<Rightarrow> ai_error + ai_provider" where
  "default_provider db = (case List.find ap_default (ab_providers db) of None \<Rightarrow> Inl AiNotFound | Some p \<Rightarrow> Inr p)"

definition list_providers :: "ai_db \<Rightarrow> (ai_provider \<times> ai_model list) list" where
  "list_providers db = map (\<lambda>p. (p, list_provider_models db (ap_id p)))
     (sort_key (\<lambda>p. \<not> ap_default p) (sort_key ap_name (ab_providers db)))"

definition provider_secret_count :: "ai_db \<Rightarrow> nat" where
  "provider_secret_count db = count_rows (\<lambda>p. ap_api_key_ciphertext p \<noteq> []) (ab_providers db)"

section \<open>The mirrored columns\<close>

definition compatibility_before :: "ai_model \<Rightarrow> ai_model \<Rightarrow> bool" where
  "compatibility_before a b \<longleftrightarrow>
     (if am_default a \<noteq> am_default b then am_default a
      else if am_enabled a \<noteq> am_enabled b then am_enabled a
      else if am_created_at a \<noteq> am_created_at b then am_created_at a < am_created_at b
      else am_id a < am_id b)"

definition mirrored_model :: "ai_db \<Rightarrow> string \<Rightarrow> ai_model option" where
  "mirrored_model db i = first_row compatibility_before (filter (\<lambda>m. am_provider_id m = i) (ab_models db))"

definition compatibility_model :: "ai_db \<Rightarrow> string \<Rightarrow> ai_error + ai_model" where
  "compatibility_model db i = (case mirrored_model db i of None \<Rightarrow> Inl AiNotFound | Some m \<Rightarrow> Inr m)"

definition mirror :: "ai_model option \<Rightarrow> ai_provider \<Rightarrow> ai_provider" where
  "mirror found p = (case found of
     None \<Rightarrow> p\<lparr>ap_model := [], ap_default := False, ap_chat_capable := False, ap_tools_capable := False, ap_probe_status := ''unknown'',
              ap_probed_at := None, ap_probe_error := []\<rparr>
   | Some m \<Rightarrow> p\<lparr>ap_model := am_model_id m, ap_default := am_default m, ap_chat_capable := am_chat_capable m,
              ap_tools_capable := am_tools_capable m, ap_probe_status := am_probe_status m, ap_probed_at := am_probed_at m,
              ap_probe_error := am_probe_error m\<rparr>)"

text \<open>A unique index admits one default provider.\<close>

definition sync_provider_compatibility_tx :: "string \<Rightarrow> ai_db \<Rightarrow> ai_error + ai_db" where
  "sync_provider_compatibility_tx i db =
     (let found = mirrored_model db i in
      bindE (failIf ((case found of None \<Rightarrow> False | Some m \<Rightarrow> am_default m) \<and> find_provider db i \<noteq> None
                     \<and> (\<exists>p\<in>set (ab_providers db). ap_default p \<and> ap_id p \<noteq> i))
               (AiDBError ''UNIQUE constraint failed: ai_providers.is_default'')) (\<lambda>_.
      Inr (db\<lparr>ab_providers := update_rows (\<lambda>p. ap_id p = i) (mirror found) (ab_providers db)\<rparr>)))"

section \<open>Providers\<close>

definition insert_model_tx :: "ai_model \<Rightarrow> ai_db \<Rightarrow> ai_error + ai_db" where
  "insert_model_tx m db =
     bindE (failIf (\<exists>x\<in>set (ab_models db). am_id x = am_id m \<or> (am_provider_id x = am_provider_id m \<and> am_model_id x = am_model_id m)
                     \<or> (am_default x \<and> am_default m) \<or> (am_fallback x \<and> am_fallback m)) AiConflict) (\<lambda>_.
     bindE (failIf (find_provider db (am_provider_id m) = None) (AiDBError ''FOREIGN KEY constraint failed'')) (\<lambda>_.
     Inr (db\<lparr>ab_models := ab_models db @ [m\<lparr>am_probe_status := default_probe_status (am_probe_status m),
            am_probe_latency := bounded_latency (am_probe_latency m)\<rparr>]\<rparr>)))"

definition name_taken :: "(nat \<Rightarrow> nat) \<Rightarrow> ai_provider \<Rightarrow> ai_db \<Rightarrow> bool" where
  "name_taken ul p db \<longleftrightarrow> (\<exists>q\<in>set (ab_providers db). ap_id q \<noteq> ap_id p \<and> normalized_ai_name ul (ap_name q) = normalized_ai_name ul (ap_name p))"

definition create_provider :: "(nat \<Rightarrow> nat) \<Rightarrow> time \<Rightarrow> ai_provider \<Rightarrow> ai_db \<Rightarrow> (ai_error + ai_provider) \<times> ai_db" where
  "create_provider ul now input = run_tx (\<lambda>db.
     let p = input\<lparr>ap_discovery_status := default_probe_status (ap_discovery_status input), ap_created_at := now, ap_updated_at := now\<rparr>;
         row = p\<lparr>ap_discovery_latency := bounded_latency (ap_discovery_latency p), ap_probe_status := default_probe_status (ap_probe_status p)\<rparr> in
     bindE (failIf (find_provider db (ap_id p) \<noteq> None \<or> name_taken ul p db \<or> (ap_default p \<and> (\<exists>q\<in>set (ab_providers db). ap_default q))) AiConflict) (\<lambda>_.
     let db1 = db\<lparr>ab_providers := ab_providers db @ [row]\<rparr> in
     if trim_space (ap_model p) \<noteq> [] then
       bindE (insert_model_tx \<lparr>am_id = ap_id p, am_provider_id = ap_id p, am_model_id = ap_model p, am_display_name = [], am_enabled = True,
          am_chat_capable = ap_chat_capable p, am_tools_capable = ap_tools_capable p, am_probe_status = default_probe_status (ap_probe_status p),
          am_probe_latency = 0, am_probed_at = ap_probed_at p, am_probe_error = ap_probe_error p, am_default = ap_default p,
          am_fallback = False, am_created_at = now, am_updated_at = now\<rparr> db1) (\<lambda>db2. Inr (p, db2))
     else Inr (p, db1)))"

definition clear_routing :: "ai_model \<Rightarrow> ai_model" where
  "clear_routing m = m\<lparr>am_default := False, am_fallback := False\<rparr>"

definition clear_probe :: "ai_model \<Rightarrow> ai_model" where
  "clear_probe m = m\<lparr>am_chat_capable := False, am_tools_capable := False, am_probe_status := ''unknown'', am_probe_latency := 0,
     am_probed_at := None, am_probe_error := []\<rparr>"

definition update_provider_connection :: "(nat \<Rightarrow> nat) \<Rightarrow> time \<Rightarrow> ai_provider \<Rightarrow> bool \<Rightarrow> ai_db \<Rightarrow> (ai_error + unit) \<times> ai_db" where
  "update_provider_connection ul now p invalidateModels = run_tx (\<lambda>db.
     bindE (failIf (find_provider db (ap_id p) \<noteq> None \<and> name_taken ul p db) AiConflict) (\<lambda>_.
     bindE (failIf (find_provider db (ap_id p) = None) AiNotFound) (\<lambda>_.
     let db1 = db\<lparr>ab_providers := update_rows (\<lambda>q. ap_id q = ap_id p) (\<lambda>q. q\<lparr>ap_name := ap_name p, ap_protocol := ap_protocol p,
           ap_base_url := ap_base_url p, ap_api_key_ciphertext := ap_api_key_ciphertext p, ap_enabled := ap_enabled p,
           ap_discovery_status := default_probe_status (ap_discovery_status p), ap_discovery_latency := bounded_latency (ap_discovery_latency p),
           ap_discovered_at := ap_discovered_at p, ap_discovery_error := ap_discovery_error p, ap_updated_at := now\<rparr>) (ab_providers db)\<rparr>;
         db2 = (if invalidateModels
                then db1\<lparr>ab_models := update_rows (\<lambda>m. am_provider_id m = ap_id p) (\<lambda>m. (clear_routing (clear_probe m))\<lparr>am_updated_at := now\<rparr>) (ab_models db1)\<rparr>
                else if \<not> ap_enabled p
                then db1\<lparr>ab_models := update_rows (\<lambda>m. am_provider_id m = ap_id p) (\<lambda>m. (clear_routing m)\<lparr>am_updated_at := now\<rparr>) (ab_models db1)\<rparr>
                else db1)
     in bindE (sync_provider_compatibility_tx (ap_id p) db2) (\<lambda>db3. Inr ((), db3)))))"

text \<open>What refers to a deleted model forgets it.\<close>

definition forget_models :: "(ai_model \<Rightarrow> bool) \<Rightarrow> ai_db \<Rightarrow> ai_db" where
  "forget_models P db =
     (let gone = (\<lambda>i. i \<in> Some ` am_id ` set (filter P (ab_models db))) in
      db\<lparr>ab_models := delete_rows P (ab_models db),
         ab_conversations := update_rows (\<lambda>c. gone (av_model_id c)) (\<lambda>c. c\<lparr>av_model_id := None\<rparr>) (ab_conversations db),
         ab_turns := update_rows (\<lambda>t. gone (at_model_id t)) (\<lambda>t. t\<lparr>at_model_id := None\<rparr>) (ab_turns db)\<rparr>)"

definition delete_provider :: "string \<Rightarrow> ai_db \<Rightarrow> (ai_error + unit) \<times> ai_db" where
  "delete_provider i db =
     (if count_rows (\<lambda>m. am_provider_id m = i \<and> (am_default m \<or> am_fallback m)) (ab_models db) > 0 then (Inl AiConflict, db)
      else if find_provider db i = None then (Inl AiNotFound, db)
      else (Inr (), (forget_models (\<lambda>m. am_provider_id m = i) db)\<lparr>ab_providers := delete_rows (\<lambda>p. ap_id p = i) (ab_providers db)\<rparr>))"

definition save_provider_discovery :: "time \<Rightarrow> string \<Rightarrow> string \<Rightarrow> int \<Rightarrow> string \<Rightarrow> ai_db \<Rightarrow> (ai_error + unit) \<times> ai_db" where
  "save_provider_discovery now i status latency safeError db =
     (if find_provider db i = None then (Inl AiNotFound, db)
      else (Inr (), db\<lparr>ab_providers := update_rows (\<lambda>p. ap_id p = i) (\<lambda>p. p\<lparr>ap_discovery_status := default_probe_status status,
             ap_discovery_latency := bounded_latency latency, ap_discovered_at := Some now, ap_discovery_error := safeError, ap_updated_at := now\<rparr>)
             (ab_providers db)\<rparr>))"

section \<open>Models\<close>

text \<open>\<open>fresh k\<close> is the identifier drawn for the model at position \<open>k\<close> when it has none.\<close>

fun insert_models_loop :: "time \<Rightarrow> string \<Rightarrow> (nat \<Rightarrow> string) \<Rightarrow> nat \<Rightarrow> ai_model list \<Rightarrow> ai_db \<Rightarrow> ai_error + ai_db" where
  "insert_models_loop now providerID fresh k [] db = Inr db"
| "insert_models_loop now providerID fresh k (m # ms) db =
     bindE (insert_model_tx (m\<lparr>am_id := (if am_id m = [] then fresh k else am_id m), am_provider_id := providerID,
              am_probe_status := default_probe_status (am_probe_status m), am_created_at := now, am_updated_at := now\<rparr>) db)
       (insert_models_loop now providerID fresh (Suc k) ms)"

definition create_provider_models :: "time \<Rightarrow> (nat \<Rightarrow> string) \<Rightarrow> string \<Rightarrow> ai_model list \<Rightarrow> ai_db \<Rightarrow> (ai_error + unit) \<times> ai_db" where
  "create_provider_models now fresh providerID models = run_tx (\<lambda>db.
     bindE (failIf (models = [] \<or> length models > 100) AiInvalid) (\<lambda>_.
     bindE (failIf (find_provider db providerID = None) AiNotFound) (\<lambda>_.
     bindE (insert_models_loop now providerID fresh 0 models db) (\<lambda>db1.
     bindE (sync_provider_compatibility_tx providerID db1) (\<lambda>db2. Inr ((), db2))))))"

text \<open>The model is read before the transaction that updates it.\<close>

definition update_model_tx :: "time \<Rightarrow> ai_model \<Rightarrow> ai_model \<Rightarrow> ai_db \<Rightarrow> (ai_error + unit) \<times> ai_db" where
  "update_model_tx now existing model = run_tx (\<lambda>db.
     bindE (failIf (find_model db (am_id model) \<noteq> None \<and> (\<exists>x\<in>set (ab_models db). am_id x \<noteq> am_id model
              \<and> am_provider_id x = am_provider_id existing \<and> am_model_id x = am_model_id model)) AiConflict) (\<lambda>_.
     bindE (failIf (find_model db (am_id model) = None) AiNotFound) (\<lambda>_.
     let changed = (am_model_id model \<noteq> am_model_id existing);
         db1 = db\<lparr>ab_models := update_rows (\<lambda>m. am_id m = am_id model) (\<lambda>m. (if changed then clear_routing (clear_probe m) else m)
             \<lparr>am_model_id := am_model_id model, am_display_name := am_display_name model, am_enabled := am_enabled model, am_updated_at := now\<rparr>)
             (ab_models db)\<rparr>
     in bindE (sync_provider_compatibility_tx (am_provider_id existing) db1) (\<lambda>db2. Inr ((), db2)))))"

definition update_model :: "time \<Rightarrow> ai_model \<Rightarrow> ai_db \<Rightarrow> (ai_error + unit) \<times> ai_db" where
  "update_model now model db =
     (case get_model db (am_id model) of
        Inl e \<Rightarrow> (Inl e, db)
      | Inr existing \<Rightarrow>
          if \<not> am_enabled model \<and> (am_default existing \<or> am_fallback existing) then (Inl AiConflict, db)
          else update_model_tx now existing model db)"

definition delete_model_tx :: "string \<Rightarrow> ai_model \<Rightarrow> ai_db \<Rightarrow> (ai_error + unit) \<times> ai_db" where
  "delete_model_tx i model = run_tx (\<lambda>db.
     bindE (failIf (find_model db i = None) AiNotFound) (\<lambda>_.
     bindE (sync_provider_compatibility_tx (am_provider_id model) (forget_models (\<lambda>m. am_id m = i) db)) (\<lambda>db1. Inr ((), db1))))"

definition delete_model :: "string \<Rightarrow> ai_db \<Rightarrow> (ai_error + unit) \<times> ai_db" where
  "delete_model i db =
     (case get_model db i of
        Inl e \<Rightarrow> (Inl e, db)
      | Inr model \<Rightarrow> if am_default model \<or> am_fallback model then (Inl AiConflict, db) else delete_model_tx i model db)"

definition save_model_probe :: "time \<Rightarrow> string \<Rightarrow> bool \<Rightarrow> bool \<Rightarrow> string \<Rightarrow> int \<Rightarrow> string \<Rightarrow> ai_db \<Rightarrow> (ai_error + unit) \<times> ai_db" where
  "save_model_probe now i chat tools status latency safeError = run_tx (\<lambda>db.
     case find_model db i of
       None \<Rightarrow> Inl AiNotFound
     | Some found \<Rightarrow>
         let clearSpecial = (\<not> chat \<or> \<not> tools \<or> status \<noteq> ''success'');
             db1 = db\<lparr>ab_models := update_rows (\<lambda>m. am_id m = i) (\<lambda>m. (if clearSpecial then clear_routing m else m)
                 \<lparr>am_chat_capable := chat, am_tools_capable := tools, am_probe_status := default_probe_status status,
                  am_probe_latency := bounded_latency latency, am_probed_at := Some now, am_probe_error := safeError, am_updated_at := now\<rparr>)
                 (ab_models db)\<rparr>
         in bindE (sync_provider_compatibility_tx (am_provider_id found) db1) (\<lambda>db2. Inr ((), db2)))"

section \<open>Routing\<close>

definition get_routing :: "ai_db \<Rightarrow> ai_routing" where
  "get_routing db = \<lparr>ar_default_model_id = pointer_value (map_option am_id (List.find am_default (ab_models db))),
     ar_fallback_model_id = pointer_value (map_option am_id (List.find am_fallback (ab_models db)))\<rparr>"

definition model_usable :: "ai_db \<Rightarrow> ai_model \<Rightarrow> bool" where
  "model_usable db m \<longleftrightarrow> am_enabled m \<and> am_chat_capable m \<and> am_tools_capable m
     \<and> (case find_provider db (am_provider_id m) of None \<Rightarrow> False | Some p \<Rightarrow> ap_enabled p)"

text \<open>A model of the routing; nothing is checked when none, or the empty one, is chosen.\<close>

definition check_routed :: "ai_db \<Rightarrow> string option \<Rightarrow> ai_error + unit" where
  "check_routed db choice =
     (case pointer_value choice of
        None \<Rightarrow> Inr ()
      | Some i \<Rightarrow> (case find_model db i of None \<Rightarrow> Inl AiNotFound
                   | Some m \<Rightarrow> if model_usable db m then Inr () else Inl AiInvalid))"

definition route_model :: "time \<Rightarrow> (ai_model \<Rightarrow> ai_model) \<Rightarrow> string option \<Rightarrow> ai_model list \<Rightarrow> ai_model list" where
  "route_model now mark choice ms =
     (case pointer_value choice of None \<Rightarrow> ms | Some i \<Rightarrow> update_rows (\<lambda>m. am_id m = i) (\<lambda>m. (mark m)\<lparr>am_updated_at := now\<rparr>) ms)"

text \<open>\<open>providerIDs\<close> are the identifiers of all providers in the order in which the database returns them.\<close>

definition set_routing :: "time \<Rightarrow> string list \<Rightarrow> string option \<Rightarrow> string option \<Rightarrow> ai_db \<Rightarrow> (ai_error + unit) \<times> ai_db" where
  "set_routing now providerIDs defaultID fallbackID = run_tx (\<lambda>db.
     bindE (failIf (defaultID \<noteq> None \<and> defaultID = fallbackID) AiInvalid) (\<lambda>_.
     bindE (check_routed db defaultID) (\<lambda>_.
     bindE (check_routed db fallbackID) (\<lambda>_.
     let cleared = map clear_routing (ab_models db);
         marked = route_model now (\<lambda>m. m\<lparr>am_fallback := True\<rparr>) fallbackID (route_model now (\<lambda>m. m\<lparr>am_default := True\<rparr>) defaultID cleared)
     in bindE (bind_all sync_provider_compatibility_tx providerIDs (db\<lparr>ab_models := marked\<rparr>)) (\<lambda>db1. Inr ((), db1))))))"

definition set_default_provider :: "time \<Rightarrow> string list \<Rightarrow> string \<Rightarrow> ai_db \<Rightarrow> (ai_error + unit) \<times> ai_db" where
  "set_default_provider now providerIDs i db =
     (case compatibility_model db i of
        Inl e \<Rightarrow> (Inl e, db)
      | Inr m \<Rightarrow> set_routing now providerIDs (pointer_value (Some (am_id m))) (ar_fallback_model_id (get_routing db)) db)"

definition save_provider_probe :: "time \<Rightarrow> string \<Rightarrow> bool \<Rightarrow> bool \<Rightarrow> string \<Rightarrow> string \<Rightarrow> ai_db \<Rightarrow> (ai_error + unit) \<times> ai_db" where
  "save_provider_probe now i chat tools status safeError db =
     (case compatibility_model db i of Inl e \<Rightarrow> (Inl e, db) | Inr m \<Rightarrow> save_model_probe now (am_id m) chat tools status 0 safeError db)"

definition default_model :: "ai_db \<Rightarrow> ai_error + ai_model" where
  "default_model db = (case List.find (\<lambda>m. am_default m \<and> model_usable db m) (ab_models db) of None \<Rightarrow> Inl AiNotFound | Some m \<Rightarrow> Inr m)"

definition fallback_model :: "string \<Rightarrow> ai_db \<Rightarrow> ai_error + ai_model" where
  "fallback_model requested db =
     (case List.find (\<lambda>m. am_fallback m \<and> am_id m \<noteq> requested \<and> model_usable db m) (ab_models db) of None \<Rightarrow> Inl AiNotFound | Some m \<Rightarrow> Inr m)"

end
