(* ===== verification/AiRouting.thy ===== *)
theory AiRouting
  imports AiModels
begin

text \<open>
  What the providers and models of the AI store keep: the routing points at models that can be used, and
  the columns of a provider mirror one of its models.
\<close>

section \<open>The invariant\<close>

definition models_ok :: "ai_db \<Rightarrow> bool" where
  "models_ok db \<longleftrightarrow> distinct (map am_id (ab_models db)) \<and> distinct (map ap_id (ab_providers db))
     \<and> count_rows am_default (ab_models db) \<le> 1 \<and> count_rows am_fallback (ab_models db) \<le> 1
     \<and> (\<forall>m\<in>set (ab_models db). find_provider db (am_provider_id m) \<noteq> None
          \<and> (am_default m \<or> am_fallback m \<longrightarrow> model_usable db m) \<and> \<not> (am_default m \<and> am_fallback m))"

definition mirrored :: "ai_db \<Rightarrow> ai_provider \<Rightarrow> bool" where
  "mirrored db p \<longleftrightarrow> mirror (mirrored_model db (ap_id p)) p = p"

definition ai_models_ok :: "ai_db \<Rightarrow> bool" where
  "ai_models_ok db \<longleftrightarrow> models_ok db \<and> (\<forall>p\<in>set (ab_providers db). mirrored db p)"

lemma mirror_keeps [simp]:
  "ap_id (mirror x p) = ap_id p" "ap_enabled (mirror x p) = ap_enabled p" "ap_name (mirror x p) = ap_name p" "mirror x (mirror x p) = mirror x p"
  by (simp_all add: mirror_def split: option.split)

lemma ap_default_mirror: "ap_default (mirror x p) \<longleftrightarrow> (case x of None \<Rightarrow> False | Some m \<Rightarrow> am_default m)"
  by (simp add: mirror_def split: option.split)

lemma clear_keeps [simp]:
  "am_id (clear_routing m) = am_id m" "am_provider_id (clear_routing m) = am_provider_id m" "am_model_id (clear_routing m) = am_model_id m"
  "am_enabled (clear_routing m) = am_enabled m" "am_chat_capable (clear_routing m) = am_chat_capable m"
  "am_tools_capable (clear_routing m) = am_tools_capable m" "\<not> am_default (clear_routing m)" "\<not> am_fallback (clear_routing m)"
  "am_id (clear_probe m) = am_id m" "am_provider_id (clear_probe m) = am_provider_id m" "am_enabled (clear_probe m) = am_enabled m"
  by (simp_all add: clear_routing_def clear_probe_def)

text \<open>The default model of a provider comes first among its models.\<close>

lemma first_row_prefers:
  assumes "\<And>a b. P a \<Longrightarrow> \<not> P b \<Longrightarrow> before a b \<and> \<not> before b a"
  shows "first_row before rs = Some r \<Longrightarrow> P r \<longleftrightarrow> (\<exists>q\<in>set rs. P q)"
proof (induction rs arbitrary: r)
  case (Cons q rs)
  then show ?case using assms by (cases "first_row before rs") (auto split: if_splits)
qed simp

lemma mirrored_default:
  "(case mirrored_model db i of None \<Rightarrow> False | Some m \<Rightarrow> am_default m) \<longleftrightarrow> (\<exists>m\<in>set (ab_models db). am_provider_id m = i \<and> am_default m)"
proof (cases "mirrored_model db i")
  case None
  then show ?thesis by (auto simp: mirrored_model_def filter_empty_conv)
next
  case (Some r)
  have "am_default r \<longleftrightarrow> (\<exists>q\<in>set (filter (\<lambda>m. am_provider_id m = i) (ab_models db)). am_default q)"
    by (rule first_row_prefers [OF _ Some [unfolded mirrored_model_def]]) (simp add: compatibility_before_def)
  then show ?thesis using Some by auto
qed

lemma mirrored_model_cong:
  "filter (\<lambda>m. am_provider_id m = i) (ab_models db') = filter (\<lambda>m. am_provider_id m = i) (ab_models db) \<Longrightarrow> mirrored_model db' i = mirrored_model db i"
  by (simp add: mirrored_model_def)

section \<open>Mirroring\<close>

definition conflicting :: "ai_db \<Rightarrow> string \<Rightarrow> bool" where
  "conflicting db i \<longleftrightarrow> (\<exists>m\<in>set (ab_models db). am_provider_id m = i \<and> am_default m) \<and> find_provider db i \<noteq> None
     \<and> (\<exists>p\<in>set (ab_providers db). ap_default p \<and> ap_id p \<noteq> i)"

lemma sync_eq:
  "sync_provider_compatibility_tx i db =
     (if conflicting db i then Inl (AiDBError ''UNIQUE constraint failed: ai_providers.is_default'')
      else Inr (db\<lparr>ab_providers := update_rows (\<lambda>p. ap_id p = i) (mirror (mirrored_model db i)) (ab_providers db)\<rparr>))"
  by (simp add: sync_provider_compatibility_tx_def Let_def bindE_failIf mirrored_default conflicting_def)

lemma find_provider_mirror:
  "find_provider (db\<lparr>ab_providers := update_rows (\<lambda>p. ap_id p = i) (mirror x) (ab_providers db)\<rparr>) j
     = map_option (\<lambda>p. if ap_id p = i then mirror x p else p) (find_provider db j)"
  by (simp add: find_provider_def find_update_rows)

lemma sync_keeps:
  assumes "sync_provider_compatibility_tx i db = Inr db'"
  shows "ab_models db' = ab_models db" "map ap_id (ab_providers db') = map ap_id (ab_providers db)"
    "(find_provider db' j = None) = (find_provider db j = None)" "model_usable db' m = model_usable db m"
    "p' \<in> set (ab_providers db') \<longleftrightarrow> (\<exists>p\<in>set (ab_providers db). p' = (if ap_id p = i then mirror (mirrored_model db i) p else p))"
    "ab_conversations db' = ab_conversations db" "ab_turns db' = ab_turns db"
proof -
  from assms have db': "db' = db\<lparr>ab_providers := update_rows (\<lambda>p. ap_id p = i) (mirror (mirrored_model db i)) (ab_providers db)\<rparr>"
    by (simp add: sync_eq split: if_splits)
  show "ab_models db' = ab_models db" "ab_conversations db' = ab_conversations db" "ab_turns db' = ab_turns db" by (simp_all add: db')
  show "map ap_id (ab_providers db') = map ap_id (ab_providers db)" by (simp add: db' map_update_rows)
  show "(find_provider db' j = None) = (find_provider db j = None)" by (simp add: db' find_provider_mirror)
  show "model_usable db' m = model_usable db m" unfolding db' model_usable_def find_provider_mirror
    by (simp split: option.split)
  show "p' \<in> set (ab_providers db') \<longleftrightarrow> (\<exists>p\<in>set (ab_providers db). p' = (if ap_id p = i then mirror (mirrored_model db i) p else p))"
    by (auto simp: db' set_update_rows)
qed

lemma sync_models_ok: "sync_provider_compatibility_tx i db = Inr db' \<Longrightarrow> models_ok db' \<longleftrightarrow> models_ok db"
  by (simp add: models_ok_def sync_keeps)

text \<open>Mirroring the one provider whose models changed restores the invariant.\<close>

lemma sync_ok:
  assumes sync: "sync_provider_compatibility_tx i db = Inr db'" and ok: "models_ok db"
    and others: "\<And>p. p \<in> set (ab_providers db) \<Longrightarrow> ap_id p \<noteq> i \<Longrightarrow> mirrored db p"
  shows "ai_models_ok db'"
proof -
  have same: "mirrored_model db' j = mirrored_model db j" for j by (simp add: mirrored_model_def sync_keeps(1) [OF sync])
  show ?thesis using others ok by (auto simp: ai_models_ok_def sync_models_ok [OF sync] sync_keeps(5) [OF sync] mirrored_def same)
qed

section \<open>Operations\<close>

text \<open>What the service stores as a new provider or model.\<close>

definition new_provider_ok :: "ai_provider \<Rightarrow> bool" where
  "new_provider_ok p \<longleftrightarrow> \<not> ap_default p \<and> \<not> ap_chat_capable p \<and> \<not> ap_tools_capable p \<and> ap_probe_status p = ''unknown''
     \<and> ap_probed_at p = None \<and> ap_probe_error p = [] \<and> trim_space (ap_model p) = ap_model p"

datatype model_op =
  CreateProvider ai_provider
| UpdateProvider ai_provider bool
| DeleteProvider string
| SaveDiscovery string string int string
| CreateModels "nat \<Rightarrow> string" string "ai_model list"
| UpdateModel ai_model
| DeleteModel string
| SaveProbe string bool bool string int string
| SetRouting "string list" "string option" "string option"
| SetDefaultProvider "string list" string

fun apply_model_op :: "(nat \<Rightarrow> nat) \<Rightarrow> time \<times> model_op \<Rightarrow> ai_db \<Rightarrow> ai_db" where
  "apply_model_op ul (now, CreateProvider p) db = snd (create_provider ul now p db)"
| "apply_model_op ul (now, UpdateProvider p invalidate) db = snd (update_provider_connection ul now p invalidate db)"
| "apply_model_op ul (now, DeleteProvider i) db = snd (delete_provider i db)"
| "apply_model_op ul (now, SaveDiscovery i st lat err) db = snd (save_provider_discovery now i st lat err db)"
| "apply_model_op ul (now, CreateModels fresh i ms) db = snd (create_provider_models now fresh i ms db)"
| "apply_model_op ul (now, UpdateModel m) db = snd (update_model now m db)"
| "apply_model_op ul (now, DeleteModel i) db = snd (delete_model i db)"
| "apply_model_op ul (now, SaveProbe i chat tools st lat err) db = snd (save_model_probe now i chat tools st lat err db)"
| "apply_model_op ul (now, SetRouting ids d f) db = snd (set_routing now ids d f db)"
| "apply_model_op ul (now, SetDefaultProvider ids i) db = snd (set_default_provider now ids i db)"

text \<open>The order in which the database lists the providers is some order of all of them.\<close>

fun model_op_ok :: "ai_db \<Rightarrow> time \<times> model_op \<Rightarrow> bool" where
  "model_op_ok db (now, CreateProvider p) = new_provider_ok p"
| "model_op_ok db (now, CreateModels fresh i ms) = list_all (\<lambda>m. \<not> am_default m \<and> \<not> am_fallback m) ms"
| "model_op_ok db (now, SetRouting ids d f) = (set ids = ap_id ` set (ab_providers db))"
| "model_op_ok db (now, SetDefaultProvider ids i) = (set ids = ap_id ` set (ab_providers db))"
| "model_op_ok db _ = True"

fun run_model_ops :: "(nat \<Rightarrow> nat) \<Rightarrow> (time \<times> model_op) list \<Rightarrow> ai_db \<Rightarrow> ai_db option" where
  "run_model_ops ul [] db = Some db"
| "run_model_ops ul (x # ops) db = (if model_op_ok db x then run_model_ops ul ops (apply_model_op ul x db) else None)"

text \<open>Updating rows of models and of providers.\<close>

lemma models_ok_update:
  assumes ok: "models_ok db" and same: "\<And>j. (find_provider db' j = None) = (find_provider db j = None)" "map ap_id (ab_providers db') = map ap_id (ab_providers db)"
    and models: "ab_models db' = update_rows P f (ab_models db)"
    and f: "\<And>m. P m \<Longrightarrow> am_id (f m) = am_id m \<and> am_provider_id (f m) = am_provider_id m
      \<and> (am_default (f m) \<longrightarrow> am_default m) \<and> (am_fallback (f m) \<longrightarrow> am_fallback m)"
    and usable: "\<And>m m'. m \<in> set (ab_models db) \<Longrightarrow> m' = (if P m then f m else m) \<Longrightarrow> am_default m' \<or> am_fallback m' \<Longrightarrow> model_usable db m \<Longrightarrow> model_usable db' m'"
  shows "models_ok db'"
proof -
  have "map am_id (ab_models db') = map am_id (ab_models db)" unfolding models by (rule map_update_rows) (simp add: f)
  moreover have "count_rows am_default (ab_models db') \<le> count_rows am_default (ab_models db)"
    "count_rows am_fallback (ab_models db') \<le> count_rows am_fallback (ab_models db)"
    unfolding models using f by (auto intro!: count_update_le)
  moreover have "find_provider db' (am_provider_id m') \<noteq> None \<and> (am_default m' \<or> am_fallback m' \<longrightarrow> model_usable db' m') \<and> \<not> (am_default m' \<and> am_fallback m')"
    if "m' \<in> set (ab_models db')" for m'
  proof -
    from that obtain m where m: "m \<in> set (ab_models db)" and m': "m' = (if P m then f m else m)" unfolding models set_update_rows by blast
    have old: "find_provider db (am_provider_id m) \<noteq> None" "am_default m \<or> am_fallback m \<longrightarrow> model_usable db m" "\<not> (am_default m \<and> am_fallback m)"
      using ok m by (auto simp: models_ok_def)
    have "am_provider_id m' = am_provider_id m" "am_default m' \<longrightarrow> am_default m" "am_fallback m' \<longrightarrow> am_fallback m" using f m' by auto
    with old usable [OF m m'] same(1) show ?thesis by metis
  qed
  ultimately show ?thesis using ok same(2) by (simp add: models_ok_def)
qed

lemma models_ok_same:
  assumes ok: "models_ok db" and same: "\<And>j. (find_provider db' j = None) = (find_provider db j = None)" "map ap_id (ab_providers db') = map ap_id (ab_providers db)"
    "ab_models db' = ab_models db" "\<And>m. model_usable db m \<Longrightarrow> am_default m \<or> am_fallback m \<Longrightarrow> model_usable db' m"
  shows "models_ok db'"
  by (rule models_ok_update [OF ok same(1,2), of "\<lambda>_. False" id]) (use same in \<open>auto simp: update_rows_id\<close>)

lemma filter_update_other:
  "(\<And>m. P m \<Longrightarrow> am_provider_id m = i \<and> am_provider_id (f m) = i) \<Longrightarrow> j \<noteq> i \<Longrightarrow>
    filter (\<lambda>m. am_provider_id m = j) (update_rows P f ms) = filter (\<lambda>m. am_provider_id m = j) ms"
  by (induction ms) auto

lemma mirrored_other:
  assumes "ai_models_ok db" "p \<in> set (ab_providers db)" "filter (\<lambda>m. am_provider_id m = ap_id p) (ab_models db') = filter (\<lambda>m. am_provider_id m = ap_id p) (ab_models db)"
  shows "mirrored db' p"
  using assms by (simp add: ai_models_ok_def mirrored_def mirrored_model_def)

text \<open>A transaction that changes models of one provider and mirrors it.\<close>

lemma change_and_sync:
  assumes ok: "ai_models_ok db" and sync: "sync_provider_compatibility_tx i db1 = Inr db'" and "models_ok db1"
    and providers: "\<And>p. p \<in> set (ab_providers db1) \<Longrightarrow> ap_id p \<noteq> i \<Longrightarrow> p \<in> set (ab_providers db)"
    and models: "\<And>j. j \<noteq> i \<Longrightarrow> filter (\<lambda>m. am_provider_id m = j) (ab_models db1) = filter (\<lambda>m. am_provider_id m = j) (ab_models db)"
  shows "ai_models_ok db'"
  using assms by (intro sync_ok [OF sync]) (auto intro: mirrored_other)

lemma run_tx_models:
  assumes "ai_models_ok db" "\<And>x db'. body db = Inr (x, db') \<Longrightarrow> ai_models_ok db'"
  shows "ai_models_ok (snd (run_tx body db))"
  using assms by (auto simp: run_tx_def split: sum.splits)

lemma find_provider_models [simp]: "find_provider (ab_models_update f db) = find_provider db"
  by (simp add: fun_eq_iff find_provider_def)

lemma model_usable_models [simp]: "model_usable (ab_models_update f db) m = model_usable db m"
  by (simp add: model_usable_def)

text \<open>A transaction that changes one model and mirrors its provider.\<close>

lemma change_row_and_sync:
  assumes ok: "ai_models_ok db" and found: "find_model db i = Some found"
    and sync: "sync_provider_compatibility_tx (am_provider_id found) (db\<lparr>ab_models := update_rows (\<lambda>m. am_id m = i) g (ab_models db)\<rparr>) = Inr db'"
    and g: "\<And>m. am_id (g m) = am_id m" "\<And>m. am_provider_id (g m) = am_provider_id m" "\<And>m. am_default (g m) \<Longrightarrow> am_default m"
      "\<And>m. am_fallback (g m) \<Longrightarrow> am_fallback m"
    and usable: "am_default (g found) \<or> am_fallback (g found) \<Longrightarrow> model_usable db found \<Longrightarrow>
      am_enabled (g found) \<and> am_chat_capable (g found) \<and> am_tools_capable (g found)"
  shows "ai_models_ok db'"
proof -
  let ?db1 = "db\<lparr>ab_models := update_rows (\<lambda>m. am_id m = i) g (ab_models db)\<rparr>"
  have f: "found \<in> set (ab_models db)" "am_id found = i" using found find_Some_set [of _ "ab_models db"] by (auto simp: find_model_def)
  have key: "m \<in> set (ab_models db) \<Longrightarrow> am_id m = i \<Longrightarrow> m = found" for m
    using ok f distinct_key_eq [of am_id "ab_models db"] by (simp add: ai_models_ok_def models_ok_def)
  have "models_ok ?db1"
  proof (rule models_ok_update [of db _ "\<lambda>m. am_id m = i" g])
    fix m m' assume m: "m \<in> set (ab_models db)" "m' = (if am_id m = i then g m else m)" "am_default m' \<or> am_fallback m'" "model_usable db m"
    then show "model_usable ?db1 m'" using usable key [OF m(1)] g(2) by (auto simp: model_usable_def split: if_splits)
  qed (use ok g in \<open>simp_all add: ai_models_ok_def\<close>)
  moreover have "filter (\<lambda>m. am_provider_id m = j) (ab_models ?db1) = filter (\<lambda>m. am_provider_id m = j) (ab_models db)" if "j \<noteq> am_provider_id found" for j
  proof -
    have "filter (\<lambda>m. am_provider_id m = j) (update_rows (\<lambda>m. am_id m = i) g ms) = filter (\<lambda>m. am_provider_id m = j) ms"
      if "set ms \<subseteq> set (ab_models db)" for ms
      using that key g \<open>j \<noteq> _\<close> by (induction ms) auto
    then show ?thesis by simp
  qed
  ultimately show ?thesis using change_and_sync [OF ok sync] by simp
qed

lemma save_model_probe_ok:
  assumes ok: "ai_models_ok db" shows "ai_models_ok (snd (save_model_probe now i chat tools status latency err db))"
  unfolding save_model_probe_def
proof (rule run_tx_models [OF ok], goal_cases)
  case (1 x db')
  then obtain found where found: "find_model db i = Some found" by (cases "find_model db i") simp_all
  show ?case
    by (rule change_row_and_sync [OF ok found, of "\<lambda>m. (if \<not> chat \<or> \<not> tools \<or> status \<noteq> ''success'' then clear_routing m else m)
                 \<lparr>am_chat_capable := chat, am_tools_capable := tools, am_probe_status := default_probe_status status,
                  am_probe_latency := bounded_latency latency, am_probed_at := Some now, am_probe_error := err, am_updated_at := now\<rparr>"])
      (use 1 in \<open>auto simp: found Let_def result_iff model_usable_def split: if_splits\<close>)
qed

lemma update_model_ok:
  assumes ok: "ai_models_ok db" shows "ai_models_ok (snd (update_model now model db))"
proof (cases "find_model db (am_id model)")
  case None
  then show ?thesis using ok by (simp add: update_model_def get_model_def)
next
  case (Some found)
  show ?thesis
  proof (cases "\<not> am_enabled model \<and> (am_default found \<or> am_fallback found)")
    case True
    then show ?thesis using ok Some by (simp add: update_model_def get_model_def)
  next
    case False
    have "ai_models_ok (snd (update_model_tx now found model db))"
      unfolding update_model_tx_def
    proof (rule run_tx_models [OF ok], goal_cases)
      case (1 x db')
      show ?case
        by (rule change_row_and_sync [OF ok Some, of "\<lambda>m. (if am_model_id model \<noteq> am_model_id found then clear_routing (clear_probe m) else m)
             \<lparr>am_model_id := am_model_id model, am_display_name := am_display_name model, am_enabled := am_enabled model, am_updated_at := now\<rparr>"])
          (use 1 False in \<open>auto simp: Some Let_def result_iff model_usable_def clear_probe_def split: if_splits\<close>)
    qed
    then show ?thesis using Some False ok by (simp add: update_model_def get_model_def)
  qed
qed

section \<open>Deletion\<close>

lemma forget_models_keeps [simp]:
  "ab_models (forget_models P db) = delete_rows P (ab_models db)" "ab_providers (forget_models P db) = ab_providers db"
  "find_provider (forget_models P db) = find_provider db"
  by (simp_all add: fun_eq_iff find_provider_def forget_models_def Let_def)

lemma models_ok_delete:
  assumes "models_ok db" shows "models_ok (forget_models P db)"
  using assms order_trans [OF count_delete_le, of _ _ 1] by (auto simp: models_ok_def model_usable_def distinct_map_delete_rows)

lemma filter_delete_other:
  "(\<And>m. m \<in> set ms \<Longrightarrow> P m \<Longrightarrow> am_provider_id m \<noteq> j) \<Longrightarrow>
    filter (\<lambda>m. am_provider_id m = j) (delete_rows P ms) = filter (\<lambda>m. am_provider_id m = j) ms"
  by (induction ms) auto

lemma delete_model_ok:
  assumes ok: "ai_models_ok db" shows "ai_models_ok (snd (delete_model i db))"
proof (cases "find_model db i")
  case None
  then show ?thesis using ok by (simp add: delete_model_def get_model_def)
next
  case (Some model)
  then have f: "model \<in> set (ab_models db)" "am_id model = i" using find_Some_set [of _ "ab_models db"] by (auto simp: find_model_def)
  have "ai_models_ok (snd (delete_model_tx i model db))"
    unfolding delete_model_tx_def
  proof (rule run_tx_models [OF ok], goal_cases)
    case (1 x db')
    then have sync: "sync_provider_compatibility_tx (am_provider_id model) (forget_models (\<lambda>m. am_id m = i) db) = Inr db'"
      by (simp add: Some result_iff)
    have key: "m \<in> set (ab_models db) \<Longrightarrow> am_id m = i \<Longrightarrow> m = model" for m
      using ok f distinct_key_eq [of am_id "ab_models db"] by (simp add: ai_models_ok_def models_ok_def)
    show ?case
      by (rule change_and_sync [OF ok sync])
        (use ok key in \<open>auto simp: models_ok_delete ai_models_ok_def intro!: filter_delete_other\<close>)
  qed
  then show ?thesis using Some ok by (simp add: delete_model_def get_model_def)
qed

lemma delete_provider_ok:
  assumes ok: "ai_models_ok db" shows "ai_models_ok (snd (delete_provider i db))"
proof -
  let ?db' = "(forget_models (\<lambda>m. am_provider_id m = i) db)\<lparr>ab_providers := delete_rows (\<lambda>p. ap_id p = i) (ab_providers db)\<rparr>"
  have find: "find_provider ?db' j = (if j = i then None else find_provider db j)" for j
  proof -
    have "List.find (\<lambda>p. ap_id p = j) (delete_rows (\<lambda>p. ap_id p = i) ps) = (if j = i then None else List.find (\<lambda>p. ap_id p = j) ps)" for ps
      by (induction ps) auto
    from this [of "ab_providers db"] show ?thesis unfolding find_provider_def by simp
  qed
  have models: "ab_models ?db' = delete_rows (\<lambda>m. am_provider_id m = i) (ab_models db)" by simp
  have "models_ok ?db'"
    using ok order_trans [OF count_delete_le, of _ _ 1]
    by (auto simp: ai_models_ok_def models_ok_def find models model_usable_def distinct_map_delete_rows)
  moreover have "mirrored ?db' p" if p: "p \<in> set (ab_providers ?db')" for p
  proof (rule mirrored_other [OF ok])
    show "filter (\<lambda>m. am_provider_id m = ap_id p) (ab_models ?db') = filter (\<lambda>m. am_provider_id m = ap_id p) (ab_models db)"
      using p by (auto simp: models intro!: filter_delete_other)
  qed (use p in simp)
  ultimately have "ai_models_ok ?db'" by (simp add: ai_models_ok_def)
  then show ?thesis using ok by (simp add: delete_provider_def)
qed

section \<open>Creation and connection\<close>

lemma find_provider_append: "find_provider (db\<lparr>ab_providers := ab_providers db @ [p]\<rparr>) j =
    (case find_provider db j of None \<Rightarrow> if ap_id p = j then Some p else None | Some q \<Rightarrow> Some q)"
  by (simp add: find_provider_def find_append split: option.split)

lemma insert_model_keeps:
  assumes ins: "insert_model_tx m db = Inr db'" and plain: "\<not> am_default m" "\<not> am_fallback m"
  shows "models_ok db \<Longrightarrow> models_ok db'" "ab_providers db' = ab_providers db" "find_provider db (am_provider_id m) \<noteq> None"
    "\<exists>m'. am_provider_id m' = am_provider_id m \<and> ab_models db' = ab_models db @ [m']"
proof -
  from ins have db': "db' = db\<lparr>ab_models := ab_models db @ [m\<lparr>am_probe_status := default_probe_status (am_probe_status m),
      am_probe_latency := bounded_latency (am_probe_latency m)\<rparr>]\<rparr>" and fresh: "\<forall>x\<in>set (ab_models db). am_id x \<noteq> am_id m"
    and provider: "find_provider db (am_provider_id m) \<noteq> None"
    by (auto simp: insert_model_tx_def bindE_failIf split: if_splits)
  show "ab_providers db' = ab_providers db" "find_provider db (am_provider_id m) \<noteq> None" using provider by (simp_all add: db')
  show "models_ok db \<Longrightarrow> models_ok db'" using fresh provider plain by (auto simp: db' models_ok_def)
  show "\<exists>m'. am_provider_id m' = am_provider_id m \<and> ab_models db' = ab_models db @ [m']" by (auto simp: db')
qed

lemma create_provider_ok:
  assumes ok: "ai_models_ok db" and new: "new_provider_ok p"
  shows "ai_models_ok (snd (create_provider ul now p db))"
  unfolding create_provider_def
proof (rule run_tx_models [OF ok], goal_cases)
  case (1 x db')
  define row where "row = p\<lparr>ap_discovery_status := default_probe_status (ap_discovery_status p), ap_created_at := now, ap_updated_at := now,
      ap_discovery_latency := bounded_latency (ap_discovery_latency p), ap_probe_status := ''unknown''\<rparr>"
  define m where "m = \<lparr>am_id = ap_id p, am_provider_id = ap_id p, am_model_id = ap_model p, am_display_name = [], am_enabled = True,
      am_chat_capable = False, am_tools_capable = False, am_probe_status = ''unknown'', am_probe_latency = 0, am_probed_at = None,
      am_probe_error = [], am_default = False, am_fallback = False, am_created_at = now, am_updated_at = now\<rparr>"
  let ?db1 = "db\<lparr>ab_providers := ab_providers db @ [row]\<rparr>"
  have absent: "find_provider db (ap_id p) = None" and step: "if ap_model p \<noteq> [] then insert_model_tx m ?db1 = Inr db' else db' = ?db1"
    using 1 new by (auto simp: new_provider_ok_def Let_def bindE_failIf row_def m_def result_iff default_probe_status_def split: if_splits)
  have ids: "\<forall>q\<in>set (ab_providers db). ap_id q \<noteq> ap_id p" using absent by (simp add: find_provider_def find_None_set)
  have none: "\<forall>x\<in>set (ab_models db). am_provider_id x \<noteq> ap_id p" using ok absent by (auto simp: ai_models_ok_def models_ok_def)
  have "models_ok ?db1"
    using ok ids by (auto simp: ai_models_ok_def models_ok_def model_usable_def find_provider_append row_def split: option.splits)
  then have models: "models_ok db'" using step insert_model_keeps(1) [of m ?db1 db'] by (auto simp: m_def split: if_splits)
  have provs: "ab_providers db' = ab_providers db @ [row]" using step insert_model_keeps(2) [of m ?db1 db'] by (auto simp: m_def split: if_splits)
  have ms: "ab_models db' = ab_models db @ (if ap_model p \<noteq> [] then [m] else [])"
    using step by (auto simp: insert_model_tx_def bindE_failIf m_def default_probe_status_def bounded_latency_def split: if_splits)
  have "mirrored db' row"
  proof -
    have "filter (\<lambda>x. am_provider_id x = ap_id p) (ab_models db) = []" using none by (simp add: filter_empty_conv)
    then have "mirrored_model db' (ap_id p) = (if ap_model p \<noteq> [] then Some m else None)"
      by (simp add: mirrored_model_def ms m_def)
    then show ?thesis using new by (simp add: mirrored_def row_def mirror_def m_def new_provider_ok_def)
  qed
  moreover have "mirrored db' q" if q: "q \<in> set (ab_providers db)" for q
    by (rule mirrored_other [OF ok q]) (use ids q in \<open>auto simp: ms m_def\<close>)
  ultimately show ?case using models by (auto simp: ai_models_ok_def provs)
qed

lemma find_provider_id: "find_provider db j = Some q \<Longrightarrow> ap_id q = j"
  by (auto simp: find_provider_def find_Some_iff)

lemma update_provider_ok:
  assumes ok: "ai_models_ok db" shows "ai_models_ok (snd (update_provider_connection ul now p invalidate db))"
  unfolding update_provider_connection_def
proof (rule run_tx_models [OF ok], goal_cases)
  case (1 x db')
  define h where "h q = q\<lparr>ap_name := ap_name p, ap_protocol := ap_protocol p,
           ap_base_url := ap_base_url p, ap_api_key_ciphertext := ap_api_key_ciphertext p, ap_enabled := ap_enabled p,
           ap_discovery_status := default_probe_status (ap_discovery_status p), ap_discovery_latency := bounded_latency (ap_discovery_latency p),
           ap_discovered_at := ap_discovered_at p, ap_discovery_error := ap_discovery_error p, ap_updated_at := now\<rparr>" for q :: ai_provider
  define g where "g m = (if invalidate then (clear_routing (clear_probe m))\<lparr>am_updated_at := now\<rparr>
      else if \<not> ap_enabled p then (clear_routing m)\<lparr>am_updated_at := now\<rparr> else m)" for m :: ai_model
  let ?db2 = "db\<lparr>ab_providers := update_rows (\<lambda>q. ap_id q = ap_id p) h (ab_providers db),
      ab_models := update_rows (\<lambda>m. am_provider_id m = ap_id p) g (ab_models db)\<rparr>"
  have sync: "sync_provider_compatibility_tx (ap_id p) ?db2 = Inr db'"
    using 1 by (cases invalidate; cases "ap_enabled p")
      (auto simp: Let_def bindE_failIf g_def [abs_def] h_def [abs_def] result_iff update_rows_def split: if_splits)
  have h: "ap_id (h q) = ap_id q" "ap_enabled (h q) = ap_enabled p" for q by (simp_all add: h_def)
  have find: "find_provider (db\<lparr>ab_providers := update_rows (\<lambda>q. ap_id q = ap_id p) h (ab_providers db)\<rparr>) j
      = map_option (\<lambda>q. if ap_id q = ap_id p then h q else q) (find_provider db j)" for j
    by (simp add: find_provider_def find_update_rows h)
  have g: "am_id (g m) = am_id m" "am_provider_id (g m) = am_provider_id m" "am_default (g m) \<Longrightarrow> am_default m" "am_fallback (g m) \<Longrightarrow> am_fallback m"
    "am_default (g m) \<or> am_fallback (g m) \<Longrightarrow> ap_enabled p \<and> g m = m" for m
    by (auto simp: g_def split: if_splits)
  have "models_ok ?db2"
  proof (rule models_ok_update [of db _ "\<lambda>m. am_provider_id m = ap_id p" g])
    fix m m' assume m': "m' = (if am_provider_id m = ap_id p then g m else m)" "am_default m' \<or> am_fallback m'" and usable: "model_usable db m"
    then obtain q where q: "find_provider db (am_provider_id m) = Some q" "ap_enabled q" by (auto simp: model_usable_def split: option.splits)
    have "ap_id q = am_provider_id m" using find_provider_id [OF q(1)] .
    then show "model_usable ?db2 m'" using m' usable q g(5) [of m] h(2)
      by (cases "am_provider_id m = ap_id p") (simp_all add: model_usable_def find)
  qed (use ok g in \<open>simp_all add: ai_models_ok_def find map_update_rows h\<close>)
  then show ?case
  proof (rule change_and_sync [OF ok sync])
    show "q \<in> set (ab_providers db)" if "q \<in> set (ab_providers ?db2)" "ap_id q \<noteq> ap_id p" for q
      using that h(1) by (auto simp: set_update_rows)
    show "filter (\<lambda>m. am_provider_id m = j) (ab_models ?db2) = filter (\<lambda>m. am_provider_id m = j) (ab_models db)" if "j \<noteq> ap_id p" for j
      using filter_update_other [of "\<lambda>m. am_provider_id m = ap_id p" "ap_id p" g j] that g(2) by simp
  qed
qed

lemma insert_models_loop_ok:
  assumes "insert_models_loop now i fresh k ms db = Inr db'" "list_all (\<lambda>m. \<not> am_default m \<and> \<not> am_fallback m) ms" "models_ok db"
  shows "models_ok db' \<and> ab_providers db' = ab_providers db
    \<and> (\<forall>j. j \<noteq> i \<longrightarrow> filter (\<lambda>m. am_provider_id m = j) (ab_models db') = filter (\<lambda>m. am_provider_id m = j) (ab_models db))"
  using assms
proof (induction ms arbitrary: k db)
  case (Cons m ms)
  define row where "row = m\<lparr>am_id := (if am_id m = [] then fresh k else am_id m), am_provider_id := i,
              am_probe_status := default_probe_status (am_probe_status m), am_created_at := now, am_updated_at := now\<rparr>"
  from Cons.prems obtain db1 where ins: "insert_model_tx row db = Inr db1" and rest: "insert_models_loop now i fresh (Suc k) ms db1 = Inr db'"
    by (auto simp: row_def result_iff)
  have plain: "\<not> am_default row" "\<not> am_fallback row" "am_provider_id row = i" using Cons.prems(2) by (simp_all add: row_def)
  note keep = insert_model_keeps [OF ins plain(1,2)]
  obtain m' where "am_provider_id m' = i" "ab_models db1 = ab_models db @ [m']" using keep(4) plain(3) by auto
  with Cons.IH [OF rest _ keep(1)] keep(2) Cons.prems(2,3) show ?case by simp
qed simp

lemma create_models_ok:
  assumes ok: "ai_models_ok db" and new: "list_all (\<lambda>m. \<not> am_default m \<and> \<not> am_fallback m) ms"
  shows "ai_models_ok (snd (create_provider_models now fresh i ms db))"
  unfolding create_provider_models_def
proof (rule run_tx_models [OF ok], goal_cases)
  case (1 x db')
  then obtain db1 where ins: "insert_models_loop now i fresh 0 ms db = Inr db1" and sync: "sync_provider_compatibility_tx i db1 = Inr db'"
    by (auto simp: bindE_failIf result_iff split: if_splits)
  have "models_ok db" using ok by (simp add: ai_models_ok_def)
  from insert_models_loop_ok [OF ins new this] show ?case
    by (intro change_and_sync [OF ok sync]) auto
qed

lemma save_provider_discovery_ok:
  assumes ok: "ai_models_ok db" shows "ai_models_ok (snd (save_provider_discovery now i status latency err db))"
proof -
  define h where "h p = p\<lparr>ap_discovery_status := default_probe_status status,
             ap_discovery_latency := bounded_latency latency, ap_discovered_at := Some now, ap_discovery_error := err, ap_updated_at := now\<rparr>" for p :: ai_provider
  let ?db' = "db\<lparr>ab_providers := update_rows (\<lambda>p. ap_id p = i) h (ab_providers db)\<rparr>"
  have h: "ap_id (h p) = ap_id p" "ap_enabled (h p) = ap_enabled p" "mirror x (h p) = h (mirror x p)" for p x
    by (simp_all add: h_def mirror_def split: option.split)
  have find: "find_provider ?db' j = map_option (\<lambda>q. if ap_id q = i then h q else q) (find_provider db j)" for j
    by (simp add: find_provider_def find_update_rows h)
  have "models_ok ?db'"
    by (rule models_ok_same [of db]) (use ok in \<open>auto simp: ai_models_ok_def find map_update_rows h model_usable_def split: option.splits\<close>)
  moreover have "mirrored_model ?db' j = mirrored_model db j" for j by (simp add: mirrored_model_def)
  ultimately have "ai_models_ok ?db'" using ok by (auto simp: ai_models_ok_def mirrored_def set_update_rows h)
  then show ?thesis using ok by (simp add: save_provider_discovery_def h_def [abs_def])
qed

section \<open>Routing\<close>

lemma bind_all_append: "bind_all f (xs @ ys) s = bindE (bind_all f xs s) (bind_all f ys)"
  by (induction xs arbitrary: s) (auto simp: bindE_def split: sum.split)

lemma sync_all_keeps:
  assumes "bind_all sync_provider_compatibility_tx ids db = Inr db'"
  shows "ab_models db' = ab_models db \<and> (\<forall>m. model_usable db' m = model_usable db m) \<and> (\<forall>j. (find_provider db' j = None) = (find_provider db j = None))
    \<and> map ap_id (ab_providers db') = map ap_id (ab_providers db)
    \<and> set (ab_providers db') = (\<lambda>p. if ap_id p \<in> set ids then mirror (mirrored_model db (ap_id p)) p else p) ` set (ab_providers db)"
  using assms
proof (induction ids arbitrary: db)
  case (Cons i ids)
  from Cons.prems obtain db1 where sync: "sync_provider_compatibility_tx i db = Inr db1" and rest: "bind_all sync_provider_compatibility_tx ids db1 = Inr db'"
    by (auto simp: result_iff)
  note keep = sync_keeps [OF sync]
  have same: "mirrored_model db1 j = mirrored_model db j" for j by (simp add: mirrored_model_def keep(1))
  have image: "set (ab_providers db1) = (\<lambda>p. if ap_id p = i then mirror (mirrored_model db i) p else p) ` set (ab_providers db)"
    by (intro set_eqI) (simp only: image_iff keep(5))
  have "set (ab_providers db') = (\<lambda>p. if ap_id p \<in> set ids then mirror (mirrored_model db (ap_id p)) p else p)
      ` (\<lambda>p. if ap_id p = i then mirror (mirrored_model db i) p else p) ` set (ab_providers db)"
    using Cons.IH [OF rest] by (simp only: image same)
  also have "\<dots> = (\<lambda>p. if ap_id p \<in> set (i # ids) then mirror (mirrored_model db (ap_id p)) p else p) ` set (ab_providers db)"
    unfolding image_image by (rule image_cong) auto
  finally show ?case using Cons.IH [OF rest] keep(1-4) by simp
qed auto

text \<open>Providers without a default model are mirrored without conflict.\<close>

lemma sync_all_plain:
  "(\<And>i. i \<in> set ids \<Longrightarrow> \<not> (\<exists>m\<in>set (ab_models db). am_provider_id m = i \<and> am_default m)) \<Longrightarrow>
    \<exists>db'. bind_all sync_provider_compatibility_tx ids db = Inr db'"
proof (induction ids arbitrary: db)
  case (Cons i ids)
  have "\<not> conflicting db i" using Cons.prems [of i] by (auto simp: conflicting_def)
  then obtain db1 where sync: "sync_provider_compatibility_tx i db = Inr db1" by (simp add: sync_eq)
  have "\<exists>db'. bind_all sync_provider_compatibility_tx ids db1 = Inr db'"
    by (rule Cons.IH) (use Cons.prems sync_keeps(1) [OF sync] in auto)
  then show ?case using sync by simp
qed simp

lemma route_keeps:
  assumes "\<And>m. am_id (mark m) = am_id m \<and> am_provider_id (mark m) = am_provider_id m \<and> am_enabled (mark m) = am_enabled m
    \<and> am_chat_capable (mark m) = am_chat_capable m \<and> am_tools_capable (mark m) = am_tools_capable m"
  shows "map am_id (route_model now mark c ms) = map am_id ms"
    "m' \<in> set (route_model now mark c ms) \<Longrightarrow> \<exists>m\<in>set ms. m' = (if pointer_value c = Some (am_id m) then (mark m)\<lparr>am_updated_at := now\<rparr> else m)"
proof -
  show "map am_id (route_model now mark c ms) = map am_id ms"
    using assms by (auto simp: route_model_def map_update_rows split: option.splits)
  assume "m' \<in> set (route_model now mark c ms)"
  then consider "pointer_value c = None" "m' \<in> set ms"
    | a m where "pointer_value c = Some a" "m \<in> set ms" "m' = (if am_id m = a then (mark m)\<lparr>am_updated_at := now\<rparr> else m)"
    by (auto simp: route_model_def set_update_rows split: option.splits)
  then show "\<exists>m\<in>set ms. m' = (if pointer_value c = Some (am_id m) then (mark m)\<lparr>am_updated_at := now\<rparr> else m)"
  proof cases
    case 1 then show ?thesis by (intro bexI [of _ m']) simp_all
  next
    case 2 then show ?thesis by (intro bexI [of _ m]) auto
  qed
qed

definition routed :: "time \<Rightarrow> string option \<Rightarrow> string option \<Rightarrow> ai_db \<Rightarrow> ai_db" where
  "routed now d f db = db\<lparr>ab_models := route_model now (\<lambda>m. m\<lparr>am_fallback := True\<rparr>) f
     (route_model now (\<lambda>m. m\<lparr>am_default := True\<rparr>) d (map clear_routing (ab_models db)))\<rparr>"

lemma routed_models:
  "map am_id (ab_models (routed now d f db)) = map am_id (ab_models db)"
  "m' \<in> set (ab_models (routed now d f db)) \<Longrightarrow> \<exists>m\<in>set (ab_models db). am_id m' = am_id m \<and> am_provider_id m' = am_provider_id m
     \<and> am_default m' = (pointer_value d = Some (am_id m)) \<and> am_fallback m' = (pointer_value f = Some (am_id m))
     \<and> model_usable (routed now d f db) m' = model_usable db m"
proof -
  let ?d = "\<lambda>m :: ai_model. m\<lparr>am_default := True\<rparr>" and ?f = "\<lambda>m :: ai_model. m\<lparr>am_fallback := True\<rparr>"
  show "map am_id (ab_models (routed now d f db)) = map am_id (ab_models db)"
    by (simp add: routed_def route_keeps(1))
  assume "m' \<in> set (ab_models (routed now d f db))"
  then have "m' \<in> set (route_model now ?f f (route_model now ?d d (map clear_routing (ab_models db))))" by (simp add: routed_def)
  from route_keeps(2) [OF _ this] obtain m1 where m1: "m1 \<in> set (route_model now ?d d (map clear_routing (ab_models db)))"
    and m': "m' = (if pointer_value f = Some (am_id m1) then m1\<lparr>am_fallback := True, am_updated_at := now\<rparr> else m1)" by auto
  from route_keeps(2) [OF _ m1] obtain m where m: "m \<in> set (ab_models db)"
    and m1_eq: "m1 = (if pointer_value d = Some (am_id m) then (clear_routing m)\<lparr>am_default := True, am_updated_at := now\<rparr> else clear_routing m)" by auto
  show "\<exists>m\<in>set (ab_models db). am_id m' = am_id m \<and> am_provider_id m' = am_provider_id m
     \<and> am_default m' = (pointer_value d = Some (am_id m)) \<and> am_fallback m' = (pointer_value f = Some (am_id m))
     \<and> model_usable (routed now d f db) m' = model_usable db m"
    using m by (intro bexI [of _ m]) (auto simp: m' m1_eq model_usable_def routed_def)
qed

lemma check_routed_ok: "check_routed db c = Inr () \<Longrightarrow> pointer_value c = Some i \<Longrightarrow> \<exists>m. find_model db i = Some m \<and> model_usable db m"
  by (auto simp: check_routed_def split: option.splits if_splits)

lemma pointer_value_Some: "pointer_value c = Some i \<longleftrightarrow> c = Some i \<and> i \<noteq> []"
  by (auto simp: pointer_value_def split: option.splits)

lemma set_routing_eq:
  "set_routing now ids d f db =
     (if d \<noteq> None \<and> d = f then (Inl AiInvalid, db)
      else case check_routed db d of Inl e \<Rightarrow> (Inl e, db) | Inr _ \<Rightarrow>
        (case check_routed db f of Inl e \<Rightarrow> (Inl e, db) | Inr _ \<Rightarrow>
           (case bind_all sync_provider_compatibility_tx ids (routed now d f db) of Inl e \<Rightarrow> (Inl e, db) | Inr db' \<Rightarrow> (Inr (), db'))))"
proof (cases "d \<noteq> None \<and> d = f")
  case True
  show ?thesis unfolding set_routing_def run_tx_def bindE_failIf if_P [OF True] by simp
next
  case False
  show ?thesis unfolding set_routing_def run_tx_def bindE_failIf Let_def if_not_P [OF False] routed_def [symmetric]
    by (simp add: bindE_def split: sum.split)
qed

lemma routed_ok:
  assumes ok: "models_ok db" and diff: "d = None \<or> d \<noteq> f" and checks: "check_routed db d = Inr ()" "check_routed db f = Inr ()"
  shows "models_ok (routed now d f db)"
proof -
  let ?db = "routed now d f db"
  have ids: "distinct (map am_id (ab_models ?db))" using ok by (simp add: models_ok_def routed_models(1))
  have usable: "model_usable db m" if m: "m \<in> set (ab_models db)" and c: "pointer_value c = Some (am_id m)" and check: "check_routed db c = Inr ()" for m c
  proof -
    obtain m' where m': "find_model db (am_id m) = Some m'" "model_usable db m'" using check_routed_ok [OF check c] by blast
    have "find_model db (am_id m) = Some m" unfolding find_model_def using ok m by (intro find_by_key) (simp_all add: models_ok_def)
    with m' show ?thesis by simp
  qed
  have one: "count_rows P (ab_models ?db) \<le> 1" if "\<And>m. m \<in> set (ab_models ?db) \<Longrightarrow> P m \<Longrightarrow> pointer_value c = Some (am_id m)" for P c
  proof (cases "pointer_value c")
    case None
    then have "count_rows P (ab_models ?db) = 0" using that by (auto simp: count_rows_eq_0)
    then show ?thesis by simp
  next
    case (Some i)
    have "count_rows P (ab_models ?db) \<le> count_rows (\<lambda>m. am_id m = i) (ab_models ?db)" using that Some by (intro count_rows_mono) simp
    also have "\<dots> \<le> 1" by (rule count_key_le [OF ids])
    finally show ?thesis .
  qed
  have row: "find_provider ?db (am_provider_id m') \<noteq> None \<and> (am_default m' \<or> am_fallback m' \<longrightarrow> model_usable ?db m') \<and> \<not> (am_default m' \<and> am_fallback m')"
    if m': "m' \<in> set (ab_models ?db)" for m'
  proof -
    obtain m where m: "m \<in> set (ab_models db)" "am_provider_id m' = am_provider_id m" "am_default m' = (pointer_value d = Some (am_id m))"
      "am_fallback m' = (pointer_value f = Some (am_id m))" "model_usable ?db m' = model_usable db m" using routed_models(2) [OF m'] by blast
    have "find_provider db (am_provider_id m) \<noteq> None" using ok m(1) by (simp add: models_ok_def)
    moreover have "\<not> (pointer_value d = Some (am_id m) \<and> pointer_value f = Some (am_id m))" using diff by (auto simp: pointer_value_Some)
    ultimately show ?thesis using m usable checks by (auto simp: routed_def)
  qed
  have "count_rows am_default (ab_models ?db) \<le> 1" "count_rows am_fallback (ab_models ?db) \<le> 1"
    by (rule one [of _ d]; use routed_models(2) [of _ now d f db] in fastforce) (rule one [of _ f]; use routed_models(2) [of _ now d f db] in fastforce)
  moreover have "map ap_id (ab_providers ?db) = map ap_id (ab_providers db)" by (simp add: routed_def)
  ultimately show ?thesis using ok ids row by (simp add: models_ok_def)
qed

lemma set_routing_ok:
  assumes ok: "ai_models_ok db" and ids: "set ids = ap_id ` set (ab_providers db)"
  shows "ai_models_ok (snd (set_routing now ids d f db))"
proof (cases "fst (set_routing now ids d f db)")
  case Inl
  then have "snd (set_routing now ids d f db) = db" by (simp add: set_routing_def run_tx_rollback)
  then show ?thesis using ok by simp
next
  case (Inr u)
  then obtain db' where "(d = None \<or> d \<noteq> f)" "check_routed db d = Inr ()" "check_routed db f = Inr ()"
    and sync: "bind_all sync_provider_compatibility_tx ids (routed now d f db) = Inr db'" and db': "snd (set_routing now ids d f db) = db'"
    by (auto simp: set_routing_eq split: if_splits sum.splits)
  then have models: "models_ok (routed now d f db)" using ok by (intro routed_ok) (simp_all add: ai_models_ok_def)
  note keep = sync_all_keeps [OF sync]
  have "models_ok db'" using models keep by (simp add: models_ok_def)
  moreover have "mirrored_model db' j = mirrored_model (routed now d f db) j" for j using keep by (simp add: mirrored_model_def)
  moreover have "ab_providers (routed now d f db) = ab_providers db" by (simp add: routed_def)
  ultimately show ?thesis using keep ids by (auto simp: ai_models_ok_def db' mirrored_def)
qed

section \<open>Properties\<close>

lemma apply_model_op_ok:
  assumes "ai_models_ok db" "model_op_ok db x" shows "ai_models_ok (apply_model_op ul x db)"
proof -
  obtain now ev where x: "x = (now, ev)" by (cases x)
  show ?thesis
    using assms unfolding x
    by (cases ev) (simp_all add: create_provider_ok update_provider_ok delete_provider_ok save_provider_discovery_ok create_models_ok update_model_ok
        delete_model_ok save_model_probe_ok set_routing_ok set_default_provider_def split: sum.split)
qed

lemma run_model_ops_ok: "run_model_ops ul ops db = Some db' \<Longrightarrow> ai_models_ok db \<Longrightarrow> ai_models_ok db'"
  by (induction ops arbitrary: db) (auto split: if_splits intro: apply_model_op_ok)

lemma empty_ai_db_ok: "ai_models_ok empty_ai_db"
  by (simp add: ai_models_ok_def models_ok_def empty_ai_db_def)

lemma models_okD:
  assumes "models_ok db" "m \<in> set (ab_models db)"
  shows "am_default m \<Longrightarrow> List.find (\<lambda>x. am_default x \<and> Q x) (ab_models db) = (if Q m then Some m else None)"
    "am_fallback m \<Longrightarrow> List.find (\<lambda>x. am_fallback x \<and> Q x) (ab_models db) = (if Q m then Some m else None)"
proof -
  have unique: "List.find (\<lambda>x. P x \<and> Q x) (ab_models db) = (if Q m then Some m else None)" if "count_rows P (ab_models db) \<le> 1" "P m" for P
  proof -
    have only: "x = m" if "x \<in> set (ab_models db)" "P x" for x using count_rows_unique [OF \<open>count_rows P _ \<le> 1\<close>] that assms(2) \<open>P m\<close> by metis
    show ?thesis
    proof (cases "List.find (\<lambda>x. P x \<and> Q x) (ab_models db)")
      case None
      then show ?thesis using assms(2) that(2) by (auto simp: find_None_set)
    next
      case (Some x)
      then show ?thesis using find_Some_set [OF Some] only by auto
    qed
  qed
  show "am_default m \<Longrightarrow> List.find (\<lambda>x. am_default x \<and> Q x) (ab_models db) = (if Q m then Some m else None)"
    "am_fallback m \<Longrightarrow> List.find (\<lambda>x. am_fallback x \<and> Q x) (ab_models db) = (if Q m then Some m else None)"
    using assms(1) unique by (simp_all add: models_ok_def)
qed

text \<open>C32: Whatever providers and models are created, changed, probed, routed and deleted, by operations that run one after
  another, the model that the routing names as default or fallback is the one that a chat is given (so it can be used),
  no model is both, and every provider shows the columns of the model it mirrors: it is marked as the default exactly
  when one of its models is the default.
\<close>

theorem routed_models_are_usable:
  assumes "run_model_ops ul ops empty_ai_db = Some db"
  shows "(\<forall>m\<in>set (ab_models db). (am_default m \<longrightarrow> default_model db = Inr m)
       \<and> (am_fallback m \<longrightarrow> fallback_model r db = (if am_id m = r then Inl AiNotFound else Inr m)) \<and> \<not> (am_default m \<and> am_fallback m))
    \<and> (\<forall>p\<in>set (ab_providers db). mirror (mirrored_model db (ap_id p)) p = p
       \<and> (ap_default p \<longleftrightarrow> (\<exists>m\<in>set (ab_models db). am_provider_id m = ap_id p \<and> am_default m)))"
proof (intro conjI ballI)
  have all: "ai_models_ok db" using run_model_ops_ok [OF assms(1) empty_ai_db_ok] .
  then have ok: "models_ok db" by (simp add: ai_models_ok_def)
  fix m assume m: "m \<in> set (ab_models db)"
  have row: "am_default m \<or> am_fallback m \<longrightarrow> model_usable db m" "\<not> (am_default m \<and> am_fallback m)" using ok m by (auto simp: models_ok_def)
  note finds = models_okD [OF ok m]
  show "am_default m \<longrightarrow> default_model db = Inr m"
    "am_fallback m \<longrightarrow> fallback_model r db = (if am_id m = r then Inl AiNotFound else Inr m)" "\<not> (am_default m \<and> am_fallback m)"
    using row finds(1) [of "model_usable db"] finds(2) [of "\<lambda>x. am_id x \<noteq> r \<and> model_usable db x"]
    by (auto simp: default_model_def fallback_model_def)
next
  fix p assume "p \<in> set (ab_providers db)"
  then show same: "mirror (mirrored_model db (ap_id p)) p = p"
    using run_model_ops_ok [OF assms(1) empty_ai_db_ok] by (auto simp: ai_models_ok_def mirrored_def)
  show "ap_default p \<longleftrightarrow> (\<exists>m\<in>set (ab_models db). am_provider_id m = ap_id p \<and> am_default m)"
    using ap_default_mirror [of "mirrored_model db (ap_id p)" p] unfolding same mirrored_default .
qed

lemma routed_default: "(\<exists>m\<in>set (ab_models (routed now (Some d) f db)). am_provider_id m = j \<and> am_default m) \<Longrightarrow>
    models_ok db \<Longrightarrow> find_model db d = Some m \<Longrightarrow> j = am_provider_id m"
proof -
  assume "\<exists>m\<in>set (ab_models (routed now (Some d) f db)). am_provider_id m = j \<and> am_default m" and ok: "models_ok db" and d: "find_model db d = Some m"
  then obtain m' where m': "m' \<in> set (ab_models (routed now (Some d) f db))" "am_provider_id m' = j" "am_default m'" by blast
  obtain q where "q \<in> set (ab_models db)" "am_provider_id m' = am_provider_id q" "am_default m' = (pointer_value (Some d) = Some (am_id q))"
    using routed_models(2) [OF m'(1)] by blast
  then have q: "q \<in> set (ab_models db)" "am_id q = d" "am_provider_id q = j" using m'(2,3) by (auto simp: pointer_value_Some)
  have "find_model db d = Some q" unfolding find_model_def using find_by_key [of am_id "ab_models db" q] q ok by (simp add: models_ok_def)
  then show "j = am_provider_id m" using d q by simp
qed

text \<open>C33: A new default model that can be used is accepted exactly when the provider that mirrored the old default precedes its own provider in the order in which the database lists the providers, or is the same; otherwise the unique index on the mirrored column refuses the change.\<close>

theorem default_switch_depends_on_order:
  assumes run: "run_model_ops ul ops empty_ai_db = Some db"
    and model: "find_model db d = Some m" "model_usable db m" "d \<noteq> []" and fallback: "check_routed db f = Inr ()" "f \<noteq> Some d"
    and order: "set (xs @ am_provider_id m # ys) = ap_id ` set (ab_providers db)" "distinct (xs @ am_provider_id m # ys)"
  shows "fst (set_routing now (xs @ am_provider_id m # ys) (Some d) f db) = Inr ()
    \<longleftrightarrow> list_all (\<lambda>p. ap_default p \<longrightarrow> ap_id p \<in> insert (am_provider_id m) (set xs)) (ab_providers db)"
proof -
  let ?i = "am_provider_id m" and ?db = "routed now (Some d) f db"
  have all_ok: "ai_models_ok db" using run_model_ops_ok [OF run empty_ai_db_ok] .
  then have ok: "models_ok db" by (simp add: ai_models_ok_def)
  have check: "check_routed db (Some d) = Inr ()" using model by (simp add: check_routed_def pointer_value_def)
  have plain: "\<not> (\<exists>q\<in>set (ab_models t). am_provider_id q = j \<and> am_default q)" if "ab_models t = ab_models ?db" "j \<noteq> ?i" for t j
    using routed_default [OF _ ok model(1), of now f j] that by (auto simp del: bex_simps)
  have apart: "j \<in> set xs \<union> set ys \<Longrightarrow> j \<noteq> ?i" for j using order(2) by auto
  have "\<exists>db1. bind_all sync_provider_compatibility_tx xs ?db = Inr db1"
    by (rule sync_all_plain) (use plain [OF refl] apart in blast)
  then obtain db1 where sync1: "bind_all sync_provider_compatibility_tx xs ?db = Inr db1" by blast
  note keep = sync_all_keeps [OF sync1]
  have finish: "\<exists>db3. bind_all sync_provider_compatibility_tx ys t = Inr db3" if "ab_models t = ab_models ?db" for t
    by (rule sync_all_plain) (use plain [OF that] apart in blast)
  have mine: "\<exists>q\<in>set (ab_models db1). am_provider_id q = ?i \<and> am_default q"
  proof -
    have m: "m \<in> set (ab_models db)" "am_id m = d" using model(1) find_Some_set [of _ "ab_models db"] by (auto simp: find_model_def)
    have "d \<in> am_id ` set (ab_models ?db)" using m by (metis image_eqI list.set_map routed_models(1))
    then obtain m' where m': "m' \<in> set (ab_models ?db)" "am_id m' = d" by auto
    from routed_models(2) [OF m'(1)] obtain q where "q \<in> set (ab_models db)" "am_id m' = am_id q" "am_provider_id m' = am_provider_id q"
      "am_default m' = (pointer_value (Some d) = Some (am_id q))" by blast
    then have "q \<in> set (ab_models db)" "am_id q = d" "am_provider_id m' = am_provider_id q" "am_default m'"
      using m'(2) model(3) by (simp_all add: pointer_value_Some)
    moreover from this have "q = m" using ok m distinct_key_eq [of am_id "ab_models db" q m] by (simp add: models_ok_def)
    ultimately show ?thesis using m'(1) keep by auto
  qed
  have "find_provider db ?i \<noteq> None" using ok model(1) find_Some_set [of _ "ab_models db"] by (auto simp: find_model_def models_ok_def)
  then have present: "find_provider db1 ?i \<noteq> None" using keep by (simp add: routed_def)
  have flags: "(\<exists>p\<in>set (ab_providers db1). ap_default p \<and> ap_id p \<noteq> ?i) \<longleftrightarrow> (\<exists>p\<in>set (ab_providers db). ap_default p \<and> ap_id p \<noteq> ?i \<and> ap_id p \<notin> set xs)"
  proof -
    have provs: "set (ab_providers db1) = (\<lambda>p. if ap_id p \<in> set xs then mirror (mirrored_model ?db (ap_id p)) p else p) ` set (ab_providers db)"
      using keep by (simp add: routed_def)
    have off: "\<not> ap_default (mirror (mirrored_model ?db j) p)" if "j \<noteq> ?i" for p j
      using plain [of ?db j] that by (simp add: ap_default_mirror mirrored_default)
    show ?thesis unfolding provs using off by (auto split: if_splits)
  qed
  have "fst (set_routing now (xs @ ?i # ys) (Some d) f db) = Inr () \<longleftrightarrow> \<not> conflicting db1 ?i"
  proof (cases "conflicting db1 ?i")
    case True
    then show ?thesis using fallback check by (auto simp: set_routing_eq bind_all_append sync1 sync_eq split: sum.split)
  next
    case False
    then obtain db2 where sync2: "sync_provider_compatibility_tx ?i db1 = Inr db2" by (simp add: sync_eq)
    have "ab_models db2 = ab_models ?db" using sync_keeps(1) [OF sync2] keep by simp
    from finish [OF this] obtain db3 where "bind_all sync_provider_compatibility_tx ys db2 = Inr db3" by blast
    then show ?thesis using False fallback check sync2 by (auto simp: set_routing_eq bind_all_append sync1 split: sum.split)
  qed
  also have "\<dots> \<longleftrightarrow> list_all (\<lambda>p. ap_default p \<longrightarrow> ap_id p \<in> insert ?i (set xs)) (ab_providers db)"
    using mine present flags by (auto simp: conflicting_def list_all_iff)
  finally show ?thesis .
qed

section \<open>Two providers\<close>

definition sample_provider :: "string \<Rightarrow> ai_provider" where
  "sample_provider i = \<lparr>ap_id = i, ap_name = i, ap_protocol = ''openai'', ap_base_url = ''u'', ap_enabled = True, ap_discovery_status = ''unknown'',
     ap_discovery_latency = 0, ap_discovered_at = None, ap_discovery_error = [], ap_model = ''m'', ap_api_key_ciphertext = [], ap_default = False,
     ap_chat_capable = False, ap_tools_capable = False, ap_probe_status = ''unknown'', ap_probed_at = None, ap_probe_error = [],
     ap_created_at = 0, ap_updated_at = 0\<rparr>"

text \<open>The default is a model of the provider \<open>b\<close>; the one of \<open>a\<close> can be used as well.\<close>

definition sample_model_ops :: "(time \<times> model_op) list" where
  "sample_model_ops = [(1, CreateProvider (sample_provider ''a'')), (2, CreateProvider (sample_provider ''b'')),
     (3, SaveProbe ''a'' True True ''success'' 5 []), (4, SaveProbe ''b'' True True ''success'' 5 []), (5, SetRouting [''a'', ''b''] (Some ''b'') None)]"

definition sample_models :: ai_db where
  "sample_models = the (run_model_ops id sample_model_ops empty_ai_db)"

lemmas model_eval = sample_model_ops_def sample_provider_def new_provider_ok_def create_provider_def insert_model_tx_def default_probe_status_def
  bounded_latency_def name_taken_def normalized_ai_name_def find_provider_def find_model_def run_tx_def failIf_def bindE_def eval_text
  save_model_probe_def sync_provider_compatibility_tx_def mirrored_model_def mirror_def compatibility_before_def set_routing_def
  check_routed_def route_model_def pointer_value_def model_usable_def clear_routing_def empty_ai_db_def Let_def

lemma sample_models_run:
  "run_model_ops id sample_model_ops empty_ai_db = Some sample_models
   \<and> map (\<lambda>m. (am_id m, am_provider_id m, am_default m, am_fallback m)) (ab_models sample_models) = [(''a'', ''a'', False, False), (''b'', ''b'', True, False)]
   \<and> map (\<lambda>p. (ap_id p, ap_default p)) (ab_providers sample_models) = [(''a'', False), (''b'', True)]
   \<and> map_option (\<lambda>m. (am_provider_id m, model_usable sample_models m)) (find_model sample_models ''a'') = Some (''a'', True)"
  unfolding sample_models_def by (simp add: model_eval)

theorem routed_models_are_usable_witness: "\<exists>m. am_id m = ''b'' \<and> default_model sample_models = Inr m"
proof -
  obtain z m where "ab_models sample_models = [z, m]" "am_id m = ''b''" "am_default m"
    using sample_models_run by (auto simp: map_eq_Cons_conv)
  then have "m \<in> set (ab_models sample_models)" "am_id m = ''b''" "am_default m" by simp_all
  with routed_models_are_usable [OF conjunct1 [OF sample_models_run]] show ?thesis by blast
qed

text \<open>SQLite lists the providers by their identifiers: the default cannot be moved from \<open>b\<close> to \<open>a\<close>.\<close>

theorem default_switch_depends_on_order_witness:
  "fst (set_routing 6 [''a'', ''b''] (Some ''a'') None sample_models) \<noteq> Inr ()"
proof -
  obtain m where m: "find_model sample_models ''a'' = Some m" "am_provider_id m = ''a''" "model_usable sample_models m"
    using sample_models_run by auto
  obtain p q where pq: "ab_providers sample_models = [p, q]" "ap_id p = ''a''" "ap_id q = ''b''" "ap_default q"
    using sample_models_run by (auto simp: map_eq_Cons_conv)
  from default_switch_depends_on_order [of id sample_model_ops sample_models "''a''" m None "[]" "[''b'']" 6] sample_models_run m pq
  show ?thesis by (simp add: check_routed_def pointer_value_def)
qed

end
