(* ===== verification/AiTurns.thy ===== *)
theory AiTurns
  imports AiModels
begin

text \<open>
  Conversations, turns, messages and tool calls in \<^verbatim>\<open>internal/server/store/ai.go\<close>, with the SQLite schema: at most
  one active turn per conversation, one tool call per step of a turn, and rows that disappear with what
  they belong to.
\<close>

section \<open>Impact of a tool call\<close>

record impact_resource =
  ir_type :: string
  ir_name :: string
  ir_state :: string
  ir_available :: bool
  ir_route :: string

record impact_source =
  is_name :: string
  is_available :: bool
  is_reason :: string
  is_truncated :: bool

record tool_impact =
  ti_version :: int
  ti_available :: bool
  ti_complete :: bool
  ti_target :: impact_resource
  ti_related :: "impact_resource list"
  ti_total :: int
  ti_overflow :: int
  ti_sources :: "impact_source list"

definition zero_impact_resource :: impact_resource where
  "zero_impact_resource = \<lparr>ir_type = [], ir_name = [], ir_state = [], ir_available = False, ir_route = []\<rparr>"

definition unknown_ai_tool_impact :: tool_impact where
  "unknown_ai_tool_impact = \<lparr>ti_version = 1, ti_available = False, ti_complete = False, ti_target = zero_impact_resource,
     ti_related = [], ti_total = 0, ti_overflow = 0, ti_sources = []\<rparr>"

definition valid_ai_impact_text :: "string \<Rightarrow> nat \<Rightarrow> bool" where
  "valid_ai_impact_text s limit \<longleftrightarrow> valid_utf8 s \<and> length s \<le> limit \<and> \<not> contains_any s [CHR 0x00, CHR 0x0D, CHR 0x0A]"

text \<open>A route is a page of the panel: a list, or the page of one node, cluster or service.\<close>

definition page_of :: "string \<Rightarrow> string \<Rightarrow> bool" where
  "page_of pre route \<longleftrightarrow> prefix pre route \<and>
     (let suffix = drop (length pre) route in suffix \<noteq> [] \<and> suffix \<noteq> ''.'' \<and> suffix \<noteq> ''..'' \<and> CHR ''/'' \<notin> set suffix)"

definition valid_ai_impact_resource :: "impact_resource \<Rightarrow> bool" where
  "valid_ai_impact_resource r \<longleftrightarrow>
     valid_ai_impact_text (ir_type r) 64 \<and> ir_type r \<noteq> [] \<and> valid_ai_impact_text (ir_name r) 256 \<and> ir_name r \<noteq> []
     \<and> valid_ai_impact_text (ir_state r) 64
     \<and> (ir_route r = []
        \<or> (valid_ai_impact_text (ir_route r) 512 \<and> \<not> contains_any (ir_route r) ''?#''
            \<and> (ir_route r \<in> {''/tasks'', ''/alerts'', ''/uptime''}
               \<or> page_of ''/nodes/'' (ir_route r) \<or> page_of ''/k8s/clusters/'' (ir_route r) \<or> page_of ''/services/'' (ir_route r))))"

definition valid_ai_tool_impact :: "tool_impact \<Rightarrow> bool" where
  "valid_ai_tool_impact i \<longleftrightarrow>
     ti_version i = 1 \<and> length (ti_related i) \<le> 5 \<and> length (ti_sources i) \<le> 32 \<and> int (length (ti_related i)) \<le> ti_total i
     \<and> ti_overflow i = ti_total i - int (length (ti_related i)) \<and> valid_ai_impact_resource (ti_target i)
     \<and> list_all valid_ai_impact_resource (ti_related i)
     \<and> list_all (\<lambda>s. is_name s \<noteq> [] \<and> valid_ai_impact_text (is_name s) 64 \<and> valid_ai_impact_text (is_reason s) 64) (ti_sources i)"

text \<open>JSON of an impact: a decoder that refuses unknown fields and trailing data, and the encoder.\<close>

record impact_json =
  ij_decode :: "string \<Rightarrow> tool_impact option"
  ij_encode :: "tool_impact \<Rightarrow> string"

definition parse_ai_tool_impact :: "impact_json \<Rightarrow> string \<Rightarrow> ai_error + tool_impact" where
  "parse_ai_tool_impact js raw =
     (if raw = [] \<or> length raw > 8192 then Inl AiInvalid
      else (case ij_decode js raw of
              None \<Rightarrow> Inl AiInvalid
            | Some i \<Rightarrow> if valid_ai_tool_impact i then Inr i else Inl AiInvalid))"

definition decode_ai_tool_impact :: "impact_json \<Rightarrow> string \<Rightarrow> tool_impact" where
  "decode_ai_tool_impact js raw =
     (if raw = [] \<or> length raw > 8192 then unknown_ai_tool_impact
      else (case parse_ai_tool_impact js raw of Inl _ \<Rightarrow> unknown_ai_tool_impact | Inr i \<Rightarrow> i))"

definition normalized_ai_tool_impact_json :: "impact_json \<Rightarrow> tool_impact \<Rightarrow> string \<Rightarrow> ai_error + string" where
  "normalized_ai_tool_impact_json js impact json =
     bindE (if json \<noteq> [] then parse_ai_tool_impact js json else Inr impact) (\<lambda>i.
     if ti_version i = 0 then Inr []
     else if \<not> valid_ai_tool_impact i then Inl AiInvalid
     else (let encoded = ij_encode js i in if length encoded > 8192 then Inl AiInvalid else Inr encoded))"

section \<open>Conversations\<close>

definition find_conversation :: "ai_db \<Rightarrow> string \<Rightarrow> ai_conversation option" where
  "find_conversation db i = List.find (\<lambda>c. av_id c = i) (ab_conversations db)"

definition find_turn :: "ai_db \<Rightarrow> string \<Rightarrow> ai_turn option" where
  "find_turn db i = List.find (\<lambda>t. at_id t = i) (ab_turns db)"

definition find_call :: "ai_db \<Rightarrow> string \<Rightarrow> ai_tool_call option" where
  "find_call db i = List.find (\<lambda>c. al_id c = i) (ab_calls db)"

definition query_limit :: "int \<Rightarrow> nat" where
  "query_limit limit = (if limit \<le> 0 \<or> limit > 100 then 50 else nat limit)"

definition create_conversation_with_model ::
  "time \<Rightarrow> string \<Rightarrow> string \<Rightarrow> string option \<Rightarrow> ai_db \<Rightarrow> (ai_error + ai_conversation) \<times> ai_db" where
  "create_conversation_with_model now fresh title modelID db =
     (let c = \<lparr>av_id = fresh, av_title = title, av_model_id = modelID, av_created_at = now, av_updated_at = now\<rparr> in
      if find_conversation db fresh \<noteq> None then (Inl (AiDBError ''UNIQUE constraint failed''), db)
      else if (case pointer_value modelID of None \<Rightarrow> False | Some m \<Rightarrow> find_model db m = None) then (Inl (AiDBError ''FOREIGN KEY constraint failed''), db)
      else (Inr c, db\<lparr>ab_conversations := ab_conversations db @ [c\<lparr>av_model_id := pointer_value modelID\<rparr>]\<rparr>))"

definition get_conversation :: "ai_db \<Rightarrow> string \<Rightarrow> ai_error + ai_conversation" where
  "get_conversation db i = (case find_conversation db i of None \<Rightarrow> Inl AiNotFound | Some c \<Rightarrow> Inr c)"

definition list_conversations :: "ai_db \<Rightarrow> int \<Rightarrow> ai_conversation list" where
  "list_conversations db limit = take (query_limit limit) (rev (sort_key av_updated_at (sort_key av_id (ab_conversations db))))"

definition update_conversation :: "string \<Rightarrow> (ai_conversation \<Rightarrow> ai_conversation) \<Rightarrow> ai_db \<Rightarrow> ai_db" where
  "update_conversation i f db = db\<lparr>ab_conversations := update_rows (\<lambda>c. av_id c = i) f (ab_conversations db)\<rparr>"

definition touch_conversation :: "time \<Rightarrow> string \<Rightarrow> ai_db \<Rightarrow> ai_db" where
  "touch_conversation now i = update_conversation i (\<lambda>c. c\<lparr>av_updated_at := now\<rparr>)"

definition set_conversation_model :: "time \<Rightarrow> string \<Rightarrow> string option \<Rightarrow> ai_db \<Rightarrow> (ai_error + unit) \<times> ai_db" where
  "set_conversation_model now i modelID = run_tx (\<lambda>db.
     bindE (check_routed db modelID) (\<lambda>_.
     bindE (failIf (find_conversation db i = None) AiNotFound) (\<lambda>_.
     Inr ((), update_conversation i (\<lambda>c. c\<lparr>av_model_id := pointer_value modelID, av_updated_at := now\<rparr>) db))))"

definition rename_conversation :: "time \<Rightarrow> string \<Rightarrow> string \<Rightarrow> ai_db \<Rightarrow> (ai_error + unit) \<times> ai_db" where
  "rename_conversation now i title db =
     (if find_conversation db i = None then (Inl AiNotFound, db)
      else (Inr (), update_conversation i (\<lambda>c. c\<lparr>av_title := title, av_updated_at := now\<rparr>) db))"

text \<open>Turns, messages and tool calls go with their conversation.\<close>

definition delete_conversation :: "string \<Rightarrow> ai_db \<Rightarrow> (ai_error + unit) \<times> ai_db" where
  "delete_conversation i db =
     (if find_conversation db i = None then (Inl AiNotFound, db)
      else (let gone = at_id ` set (filter (\<lambda>t. at_conversation_id t = i) (ab_turns db)) in
        (Inr (), db\<lparr>ab_conversations := delete_rows (\<lambda>c. av_id c = i) (ab_conversations db),
           ab_turns := delete_rows (\<lambda>t. at_conversation_id t = i) (ab_turns db),
           ab_messages := delete_rows (\<lambda>m. ag_conversation_id m = i \<or> ag_turn_id m \<in> gone) (ab_messages db),
           ab_calls := delete_rows (\<lambda>c. al_turn_id c \<in> gone) (ab_calls db)\<rparr>)))"

section \<open>Turns and messages\<close>

definition turn_active :: "ai_turn \<Rightarrow> bool" where
  "turn_active t \<longleftrightarrow> at_status t = ''running'' \<or> at_status t = ''awaiting_confirmation''"

definition insert_message_tx :: "ai_message \<Rightarrow> ai_db \<Rightarrow> ai_error + ai_db" where
  "insert_message_tx m db =
     bindE (failIf (\<exists>x\<in>set (ab_messages db). ag_id x = ag_id m) (AiDBError ''UNIQUE constraint failed'')) (\<lambda>_.
     bindE (failIf (find_conversation db (ag_conversation_id m) = None \<or> find_turn db (ag_turn_id m) = None)
              (AiDBError ''FOREIGN KEY constraint failed'')) (\<lambda>_.
     Inr (db\<lparr>ab_messages := ab_messages db @ [m]\<rparr>)))"

definition start_model_turn ::
  "time \<Rightarrow> string \<Rightarrow> string \<Rightarrow> string \<Rightarrow> ai_provider \<Rightarrow> ai_model \<Rightarrow> string \<Rightarrow> ai_db \<Rightarrow> (ai_error + (ai_turn \<times> ai_message)) \<times> ai_db" where
  "start_model_turn now turnID messageID conversationID provider model content = run_tx (\<lambda>db.
     bindE (failIf (find_conversation db conversationID = None) AiNotFound) (\<lambda>_.
     let turn = \<lparr>at_id = turnID, at_conversation_id = conversationID, at_model_id = Some (am_id model), at_provider_id = ap_id provider,
           at_provider_name = ap_name provider, at_protocol = ap_protocol provider, at_model = am_model_id model,
           at_requested_provider_id = ap_id provider, at_requested_provider_name = ap_name provider, at_requested_model_id = Some (am_id model),
           at_requested_model = am_model_id model, at_fallback_used = False, at_status = ''running'', at_error_code = [],
           at_created_at = now, at_updated_at = now\<rparr>;
         message = \<lparr>ag_id = messageID, ag_conversation_id = conversationID, ag_turn_id = turnID, ag_role = ''user'', ag_content = content,
           ag_provider_name = ap_name provider, ag_model = am_model_id model, ag_created_at = now\<rparr> in
     bindE (failIf (find_turn db turnID \<noteq> None \<or> (\<exists>t\<in>set (ab_turns db). at_conversation_id t = conversationID \<and> turn_active t)) AiConflict) (\<lambda>_.
     bindE (failIf (find_model db (am_id model) = None) (AiDBError ''FOREIGN KEY constraint failed'')) (\<lambda>_.
     bindE (insert_message_tx message (db\<lparr>ab_turns := ab_turns db @ [turn]\<rparr>)) (\<lambda>db1.
     Inr ((turn, message), touch_conversation now conversationID db1))))))"

definition start_turn ::
  "time \<Rightarrow> string \<Rightarrow> string \<Rightarrow> string \<Rightarrow> ai_provider \<Rightarrow> string \<Rightarrow> ai_db \<Rightarrow> (ai_error + (ai_turn \<times> ai_message)) \<times> ai_db" where
  "start_turn now turnID messageID conversationID provider content db =
     (case compatibility_model db (ap_id provider) of
        Inl e \<Rightarrow> (Inl e, db)
      | Inr model \<Rightarrow> start_model_turn now turnID messageID conversationID provider model content db)"

definition get_turn :: "ai_db \<Rightarrow> string \<Rightarrow> ai_error + ai_turn" where
  "get_turn db i = (case find_turn db i of None \<Rightarrow> Inl AiNotFound | Some t \<Rightarrow> Inr t)"

definition update_turns :: "(ai_turn \<Rightarrow> bool) \<Rightarrow> (ai_turn \<Rightarrow> ai_turn) \<Rightarrow> ai_db \<Rightarrow> ai_db" where
  "update_turns P f db = db\<lparr>ab_turns := update_rows P f (ab_turns db)\<rparr>"

definition update_calls :: "(ai_tool_call \<Rightarrow> bool) \<Rightarrow> (ai_tool_call \<Rightarrow> ai_tool_call) \<Rightarrow> ai_db \<Rightarrow> ai_db" where
  "update_calls P f db = db\<lparr>ab_calls := update_rows P f (ab_calls db)\<rparr>"

definition switch_turn_model_before_tools :: "time \<Rightarrow> string \<Rightarrow> ai_provider \<Rightarrow> ai_model \<Rightarrow> ai_db \<Rightarrow> (ai_error + ai_turn) \<times> ai_db" where
  "switch_turn_model_before_tools now turnID provider model db =
     (let P = (\<lambda>t. at_id t = turnID \<and> at_status t = ''running'' \<and> \<not> at_fallback_used t \<and> \<not> (\<exists>c\<in>set (ab_calls db). al_turn_id c = at_id t));
          db' = update_turns P (\<lambda>t. t\<lparr>at_model_id := Some (am_id model), at_provider_id := ap_id provider, at_provider_name := ap_name provider,
                   at_protocol := ap_protocol provider, at_model := am_model_id model, at_fallback_used := True, at_updated_at := now\<rparr>) db in
      if count_rows P (ab_turns db) = 0 then (Inl AiConflict, db)
      else if find_model db (am_id model) = None then (Inl (AiDBError ''FOREIGN KEY constraint failed''), db)
      else (get_turn db' turnID, db'))"

definition finish_turn_tx :: "time \<Rightarrow> string \<Rightarrow> ai_turn \<Rightarrow> string \<Rightarrow> string \<Rightarrow> string \<Rightarrow> ai_db \<Rightarrow> ai_error + (ai_message option \<times> ai_db)" where
  "finish_turn_tx now messageID turn status errorCode content db =
     (let P = (\<lambda>t. at_id t = at_id turn \<and> turn_active t) in
      bindE (failIf (count_rows P (ab_turns db) = 0) AiConflict) (\<lambda>_.
      let db1 = update_turns P (\<lambda>t. t\<lparr>at_status := status, at_error_code := errorCode, at_updated_at := now\<rparr>) db;
          message = \<lparr>ag_id = messageID, ag_conversation_id = at_conversation_id turn, ag_turn_id = at_id turn, ag_role = ''assistant'',
            ag_content = content, ag_provider_name = at_provider_name turn, ag_model = at_model turn, ag_created_at = now\<rparr> in
      bindE (if content \<noteq> [] then insert_message_tx message db1 else Inr db1) (\<lambda>db2.
      Inr (if content \<noteq> [] then Some message else None, touch_conversation now (at_conversation_id turn) db2))))"

definition complete_turn :: "time \<Rightarrow> string \<Rightarrow> ai_turn \<Rightarrow> string \<Rightarrow> ai_db \<Rightarrow> (ai_error + ai_message option) \<times> ai_db" where
  "complete_turn now messageID turn content = run_tx (finish_turn_tx now messageID turn ''completed'' [] content)"

definition fail_turn :: "time \<Rightarrow> ai_turn \<Rightarrow> string \<Rightarrow> ai_db \<Rightarrow> (ai_error + ai_message option) \<times> ai_db" where
  "fail_turn now turn errorCode = run_tx (finish_turn_tx now [] turn ''failed'' errorCode [])"

definition list_messages :: "ai_db \<Rightarrow> string \<Rightarrow> int \<Rightarrow> ai_message list" where
  "list_messages db conversationID limit =
     rev (take (query_limit limit) (rev (sort_key ag_created_at (sort_key ag_id (filter (\<lambda>m. ag_conversation_id m = conversationID) (ab_messages db))))))"

section \<open>Tool calls\<close>

definition tool_argument_secret_count :: "ai_db \<Rightarrow> nat" where
  "tool_argument_secret_count db =
     count_rows (\<lambda>c. prefix (''{'' @ [CHR 0x22] @ ''sealed_tool_arguments'' @ [CHR 0x22] @ '':1,'') (al_arguments_json c)) (ab_calls db)"

definition insert_ai_tool_call_tx :: "impact_json \<Rightarrow> tool_impact \<Rightarrow> ai_tool_call \<Rightarrow> ai_db \<Rightarrow> ai_error + ai_db" where
  "insert_ai_tool_call_tx js impact call db =
     bindE (normalized_ai_tool_impact_json js impact (al_impact_json call)) (\<lambda>json.
     bindE (failIf (\<exists>x\<in>set (ab_calls db). al_id x = al_id call
                     \<or> (al_turn_id x = al_turn_id call \<and> al_step_index x = al_step_index call \<and> al_step_index call \<ge> 0))
              (AiDBError ''UNIQUE constraint failed'')) (\<lambda>_.
     bindE (failIf (find_turn db (al_turn_id call) = None) (AiDBError ''FOREIGN KEY constraint failed'')) (\<lambda>_.
     Inr (db\<lparr>ab_calls := ab_calls db @ [call\<lparr>al_impact_json := json\<rparr>]\<rparr>))))"

definition await_confirmation_tx :: "time \<Rightarrow> string \<Rightarrow> ai_db \<Rightarrow> ai_error + ai_db" where
  "await_confirmation_tx now turnID db =
     (let P = (\<lambda>t. at_id t = turnID \<and> at_status t = ''running'') in
      bindE (failIf (count_rows P (ab_turns db) = 0) AiConflict) (\<lambda>_.
      Inr (update_turns P (\<lambda>t. t\<lparr>at_status := ''awaiting_confirmation'', at_updated_at := now\<rparr>) db)))"

definition create_tool_call ::
  "impact_json \<Rightarrow> time \<Rightarrow> string \<Rightarrow> ai_turn \<Rightarrow> ai_tool_call \<times> tool_impact \<Rightarrow> ai_db \<Rightarrow> (ai_error + ai_tool_call) \<times> ai_db" where
  "create_tool_call js now fresh turn input = run_tx (\<lambda>db.
     let call = (fst input)\<lparr>al_id := (if al_id (fst input) = [] then fresh else al_id (fst input)), al_turn_id := at_id turn, al_step_index := - 1,
           al_created_at := now, al_updated_at := now\<rparr> in
     bindE (insert_ai_tool_call_tx js (snd input) call db) (\<lambda>db1.
     bindE (if al_status call = ''pending'' then await_confirmation_tx now (at_id turn) db1 else Inr db1) (\<lambda>db2.
     Inr (call, db2))))"

definition max_ai_tool_plan_steps :: nat where "max_ai_tool_plan_steps = 5"

definition plan_call :: "time \<Rightarrow> (nat \<Rightarrow> string) \<Rightarrow> ai_turn \<Rightarrow> nat \<Rightarrow> ai_tool_call \<Rightarrow> ai_tool_call" where
  "plan_call now fresh turn k call = call\<lparr>al_id := (if al_id call = [] then fresh k else al_id call), al_turn_id := at_id turn,
     al_step_index := int k, al_status := ''pending'', al_created_at := now, al_updated_at := now\<rparr>"

fun insert_plan_loop ::
  "impact_json \<Rightarrow> time \<Rightarrow> (nat \<Rightarrow> string) \<Rightarrow> ai_turn \<Rightarrow> nat \<Rightarrow> (ai_tool_call \<times> tool_impact) list \<Rightarrow> ai_db \<Rightarrow> ai_error + (ai_tool_call list \<times> ai_db)" where
  "insert_plan_loop js now fresh turn k [] db = Inr ([], db)"
| "insert_plan_loop js now fresh turn k (input # inputs) db =
     bindE (insert_ai_tool_call_tx js (snd input) (plan_call now fresh turn k (fst input)) db) (\<lambda>db1.
     bindE (insert_plan_loop js now fresh turn (Suc k) inputs db1) (\<lambda>(created, db2).
     Inr (plan_call now fresh turn k (fst input) # created, db2)))"

definition create_tool_plan ::
  "impact_json \<Rightarrow> time \<Rightarrow> (nat \<Rightarrow> string) \<Rightarrow> ai_turn \<Rightarrow> (ai_tool_call \<times> tool_impact) list \<Rightarrow> ai_db \<Rightarrow> (ai_error + ai_tool_call list) \<times> ai_db" where
  "create_tool_plan js now fresh turn inputs = run_tx (\<lambda>db.
     bindE (failIf (inputs = [] \<or> length inputs > max_ai_tool_plan_steps) AiInvalid) (\<lambda>_.
     bindE (insert_plan_loop js now fresh turn 0 inputs db) (\<lambda>(created, db1).
     bindE (await_confirmation_tx now (at_id turn) db1) (\<lambda>db2. Inr (created, db2)))))"

definition keep_unless_given :: "string \<Rightarrow> string \<Rightarrow> string" where
  "keep_unless_given new old = (if new \<noteq> [] then new else old)"

definition with_result :: "time \<Rightarrow> string \<Rightarrow> string \<Rightarrow> string \<Rightarrow> string \<Rightarrow> ai_tool_call \<Rightarrow> ai_tool_call" where
  "with_result now status summary operationID verification c = c\<lparr>al_status := status, al_result_summary := summary,
     al_operation_id := keep_unless_given operationID (al_operation_id c),
     al_verification_status := keep_unless_given verification (al_verification_status c), al_updated_at := now\<rparr>"

definition update_tool_call_result_with_operation :: "time \<Rightarrow> string \<Rightarrow> string \<Rightarrow> string \<Rightarrow> string \<Rightarrow> ai_db \<Rightarrow> (ai_error + unit) \<times> ai_db" where
  "update_tool_call_result_with_operation now i status summary operationID db =
     (if find_call db i = None then (Inl AiNotFound, db)
      else (Inr (), update_calls (\<lambda>c. al_id c = i) (with_result now status summary operationID []) db))"

definition complete_tool_call_and_turn ::
  "time \<Rightarrow> string \<Rightarrow> string \<Rightarrow> ai_turn \<Rightarrow> string \<Rightarrow> string \<Rightarrow> string \<Rightarrow> string \<Rightarrow> ai_db \<Rightarrow> (ai_error + ai_message option) \<times> ai_db" where
  "complete_tool_call_and_turn now messageID i turn status summary operationID content = run_tx (\<lambda>db.
     let P = (\<lambda>c. al_id c = i \<and> al_status c = ''running'') in
     bindE (failIf (count_rows P (ab_calls db) = 0) AiConflict) (\<lambda>_.
     finish_turn_tx now messageID turn ''completed'' [] content (update_calls P (with_result now status summary operationID []) db)))"

definition get_tool_call :: "ai_db \<Rightarrow> string \<Rightarrow> ai_error + (ai_tool_call \<times> ai_turn)" where
  "get_tool_call db i =
     (case find_call db i of
        None \<Rightarrow> Inl AiNotFound
      | Some c \<Rightarrow> (case find_turn db (al_turn_id c) of None \<Rightarrow> Inl AiNotFound | Some t \<Rightarrow> Inr (c, t)))"

definition list_tool_calls :: "ai_db \<Rightarrow> string \<Rightarrow> ai_tool_call list" where
  "list_tool_calls db conversationID =
     sort_key al_created_at (sort_key al_step_index (sort_key al_id
       (filter (\<lambda>c. case find_turn db (al_turn_id c) of None \<Rightarrow> False | Some t \<Rightarrow> at_conversation_id t = conversationID) (ab_calls db))))"

definition list_accepted_tool_calls :: "ai_db \<Rightarrow> int \<Rightarrow> ai_tool_call list" where
  "list_accepted_tool_calls db limit = take (if limit \<le> 0 \<or> limit > 100 then 100 else nat limit)
     (sort_key al_updated_at (sort_key al_id (filter (\<lambda>c. al_status c = ''accepted'') (ab_calls db))))"

text \<open>The call and its turn were read before the transaction.\<close>

definition complete_accepted_tool_call ::
  "time \<Rightarrow> string \<Rightarrow> ai_tool_call \<times> ai_turn \<Rightarrow> string \<Rightarrow> string \<Rightarrow> string \<Rightarrow> ai_db \<Rightarrow> (ai_error + ai_tool_call) \<times> ai_db" where
  "complete_accepted_tool_call now messageID found status summary content = run_tx (\<lambda>db.
     let call = fst found; turn = snd found; P = (\<lambda>c. al_id c = al_id call \<and> al_status c = ''accepted'') in
     bindE (failIf (count_rows P (ab_calls db) = 0) AiConflict) (\<lambda>_.
     let db1 = update_calls P (\<lambda>c. c\<lparr>al_status := status, al_result_summary := summary, al_updated_at := now\<rparr>) db;
         message = \<lparr>ag_id = messageID, ag_conversation_id = at_conversation_id turn, ag_turn_id = at_id turn, ag_role = ''assistant'',
           ag_content = content, ag_provider_name = at_provider_name turn, ag_model = at_model turn, ag_created_at = now\<rparr> in
     bindE (if trim_space content \<noteq> [] then insert_message_tx message db1 else Inr db1) (\<lambda>db2.
     Inr (call\<lparr>al_status := status, al_result_summary := summary, al_updated_at := now\<rparr>, touch_conversation now (at_conversation_id turn) db2))))"

definition claim_tool_call :: "time \<Rightarrow> string \<Rightarrow> ai_db \<Rightarrow> (ai_error + (ai_tool_call \<times> ai_turn)) \<times> ai_db" where
  "claim_tool_call now i db =
     (let P = (\<lambda>c. al_id c = i \<and> al_status c = ''pending'') in
      if count_rows P (ab_calls db) = 0 then (Inl AiConflict, db)
      else (let db1 = update_calls P (\<lambda>c. c\<lparr>al_status := ''running'', al_updated_at := now\<rparr>) db in (get_tool_call db1 i, db1)))"

definition reject_tool_call :: "time \<Rightarrow> string \<Rightarrow> ai_db \<Rightarrow> (ai_error + (ai_tool_call \<times> ai_turn)) \<times> ai_db" where
  "reject_tool_call now i db =
     (case claim_tool_call now i db of
        (Inl e, db1) \<Rightarrow> (Inl e, db1)
      | (Inr (call, turn), db1) \<Rightarrow>
          (case update_tool_call_result_with_operation now i ''rejected'' ([CHR 0xE6, CHR 0x93, CHR 0x8D, CHR 0xE4, CHR 0xBD, CHR 0x9C, CHR 0xE5, CHR 0xB7, CHR 0xB2, CHR 0xE5, CHR 0x8F, CHR 0x96, CHR 0xE6, CHR 0xB6, CHR 0x88]) [] db1 of
             (Inl e, db2) \<Rightarrow> (Inl e, db2)
           | (Inr _, db2) \<Rightarrow> (Inr (call\<lparr>al_status := ''rejected'', al_result_summary := ([CHR 0xE6, CHR 0x93, CHR 0x8D, CHR 0xE4, CHR 0xBD, CHR 0x9C, CHR 0xE5, CHR 0xB7, CHR 0xB2, CHR 0xE5, CHR 0x8F, CHR 0x96, CHR 0xE6, CHR 0xB6, CHR 0x88])\<rparr>, turn), db2)))"

section \<open>Plans\<close>

definition list_plan_steps :: "ai_db \<Rightarrow> string \<Rightarrow> ai_tool_call list" where
  "list_plan_steps db turnID = sort_key al_step_index (filter (\<lambda>c. al_turn_id c = turnID \<and> al_step_index c \<ge> 0) (ab_calls db))"

definition validate_pending_plan :: "ai_turn \<Rightarrow> ai_tool_call list \<Rightarrow> ai_error + unit" where
  "validate_pending_plan turn steps =
     (if at_status turn \<noteq> ''awaiting_confirmation'' then Inl AiConflict
      else if steps = [] then Inl AiNotFound
      else if length steps > max_ai_tool_plan_steps then Inl AiConflict
      else if list_all (\<lambda>(k, c). al_step_index c = int k \<and> al_status c = ''pending'') (List.enumerate 0 steps) then Inr ()
      else Inl AiConflict)"

definition pending_step_of :: "string \<Rightarrow> ai_tool_call \<Rightarrow> bool" where
  "pending_step_of turnID c \<longleftrightarrow> al_turn_id c = turnID \<and> al_step_index c \<ge> 0 \<and> al_status c = ''pending''"

definition claim_tool_plan :: "time \<Rightarrow> string \<Rightarrow> ai_db \<Rightarrow> (ai_error + (ai_tool_call list \<times> ai_turn)) \<times> ai_db" where
  "claim_tool_plan now turnID = run_tx (\<lambda>db.
     bindE (get_turn db turnID) (\<lambda>turn.
     let steps = list_plan_steps db turnID; P = (\<lambda>t. at_id t = turnID \<and> at_status t = ''awaiting_confirmation'') in
     bindE (validate_pending_plan turn steps) (\<lambda>_.
     bindE (failIf (count_rows P (ab_turns db) \<noteq> 1) AiConflict) (\<lambda>_.
     let db1 = update_turns P (\<lambda>t. t\<lparr>at_status := ''running'', at_updated_at := now\<rparr>) db in
     bindE (failIf (count_rows (pending_step_of turnID) (ab_calls db1) \<noteq> length steps) AiConflict) (\<lambda>_.
     Inr ((map (\<lambda>c. c\<lparr>al_status := ''queued'', al_updated_at := now\<rparr>) steps, turn\<lparr>at_status := ''running'', at_updated_at := now\<rparr>),
          update_calls (pending_step_of turnID) (\<lambda>c. c\<lparr>al_status := ''queued'', al_updated_at := now\<rparr>) db1))))))"

definition reject_tool_plan :: "time \<Rightarrow> string \<Rightarrow> string \<Rightarrow> string \<Rightarrow> ai_db \<Rightarrow> (ai_error + (ai_tool_call list \<times> ai_turn)) \<times> ai_db" where
  "reject_tool_plan now messageID turnID content = run_tx (\<lambda>db.
     bindE (get_turn db turnID) (\<lambda>turn.
     let steps = list_plan_steps db turnID;
         reject = (\<lambda>c. c\<lparr>al_status := ''rejected'', al_result_summary := ([CHR 0xE8, CHR 0xAE, CHR 0xA1, CHR 0xE5, CHR 0x88, CHR 0x92, CHR 0xE5, CHR 0xB7, CHR 0xB2, CHR 0xE5, CHR 0x8F, CHR 0x96, CHR 0xE6, CHR 0xB6, CHR 0x88]), al_updated_at := now\<rparr>) in
     bindE (validate_pending_plan turn steps) (\<lambda>_.
     bindE (finish_turn_tx now messageID turn ''completed'' [] content db) (\<lambda>(message, db1).
     bindE (failIf (count_rows (pending_step_of turnID) (ab_calls db1) \<noteq> length steps) AiConflict) (\<lambda>_.
     Inr ((map reject steps, turn\<lparr>at_status := ''completed'', at_updated_at := now\<rparr>), update_calls (pending_step_of turnID) reject db1))))))"

text \<open>A compare-and-set on the status of one step.\<close>

definition change_step :: "string \<Rightarrow> string \<Rightarrow> (ai_tool_call \<Rightarrow> ai_tool_call) \<Rightarrow> ai_db \<Rightarrow> (ai_error + unit) \<times> ai_db" where
  "change_step i fromStatus f db =
     (let P = (\<lambda>c. al_id c = i \<and> al_step_index c \<ge> 0 \<and> al_status c = fromStatus) in
      if count_rows P (ab_calls db) = 0 then (Inl AiConflict, db) else (Inr (), update_calls P f db))"

definition with_policy :: "time \<Rightarrow> string \<Rightarrow> string \<Rightarrow> int \<Rightarrow> ai_tool_call \<Rightarrow> ai_tool_call" where
  "with_policy now decision reason revision c =
     c\<lparr>al_policy_decision := decision, al_policy_reason := reason, al_policy_revision := revision, al_updated_at := now\<rparr>"

definition start_tool_plan_step :: "time \<Rightarrow> string \<Rightarrow> string \<Rightarrow> string \<Rightarrow> int \<Rightarrow> ai_db \<Rightarrow> (ai_error + unit) \<times> ai_db" where
  "start_tool_plan_step now i decision reason revision =
     change_step i ''queued'' (\<lambda>c. (with_policy now decision reason revision c)\<lparr>al_status := ''running''\<rparr>)"

definition update_queued_tool_plan_policy :: "time \<Rightarrow> string \<Rightarrow> string \<Rightarrow> string \<Rightarrow> int \<Rightarrow> ai_db \<Rightarrow> (ai_error + unit) \<times> ai_db" where
  "update_queued_tool_plan_policy now i decision reason revision = change_step i ''queued'' (with_policy now decision reason revision)"

definition update_pending_tool_plan_policy :: "time \<Rightarrow> string \<Rightarrow> string \<Rightarrow> string \<Rightarrow> int \<Rightarrow> ai_db \<Rightarrow> (ai_error + unit) \<times> ai_db" where
  "update_pending_tool_plan_policy now i decision reason revision = change_step i ''pending'' (with_policy now decision reason revision)"

definition transition_tool_plan_step_with_verification ::
  "time \<Rightarrow> string \<Rightarrow> string \<Rightarrow> string \<Rightarrow> string \<Rightarrow> string \<Rightarrow> string \<Rightarrow> ai_db \<Rightarrow> (ai_error + unit) \<times> ai_db" where
  "transition_tool_plan_step_with_verification now i fromStatus status summary operationID verification =
     change_step i fromStatus (with_result now status summary operationID verification)"

definition skip_queued_steps :: "time \<Rightarrow> string \<Rightarrow> ai_db \<Rightarrow> ai_db" where
  "skip_queued_steps now turnID = update_calls (\<lambda>c. al_turn_id c = turnID \<and> al_step_index c \<ge> 0 \<and> al_status c = ''queued'')
     (\<lambda>c. c\<lparr>al_status := ''skipped'', al_result_summary := ([CHR 0xE5, CHR 0x89, CHR 0x8D, CHR 0xE5, CHR 0xBA, CHR 0x8F, CHR 0xE6, CHR 0xAD, CHR 0xA5, CHR 0xE9, CHR 0xAA, CHR 0xA4, CHR 0xE6, CHR 0x9C, CHR 0xAA, CHR 0xE6, CHR 0x88, CHR 0x90, CHR 0xE5, CHR 0x8A, CHR 0x9F, CHR 0xEF, CHR 0xBC, CHR 0x8C, CHR 0xE5, CHR 0xB7, CHR 0xB2, CHR 0xE8, CHR 0xB7, CHR 0xB3, CHR 0xE8, CHR 0xBF, CHR 0x87]), al_updated_at := now\<rparr>)"

definition step_in_progress :: "ai_tool_call \<Rightarrow> bool" where
  "step_in_progress c \<longleftrightarrow> al_status c = ''running'' \<or> al_status c = ''accepted'' \<or> al_status c = ''pending''"

text \<open>No other step may be in progress, and the step itself has the status it is changed from.\<close>

definition completes_plan :: "string \<Rightarrow> string \<Rightarrow> ai_tool_call list \<Rightarrow> bool" where
  "completes_plan stepID fromStatus steps \<longleftrightarrow>
     list_all (\<lambda>c. al_id c = stepID \<or> \<not> step_in_progress c) steps \<and> list_ex (\<lambda>c. al_id c = stepID \<and> al_status c = fromStatus) steps"

definition complete_tool_plan_with_verification ::
  "time \<Rightarrow> string \<Rightarrow> string \<Rightarrow> string \<Rightarrow> string \<Rightarrow> string \<Rightarrow> string \<Rightarrow> string \<Rightarrow> string \<Rightarrow> string \<Rightarrow> ai_db \<Rightarrow>
     (ai_error + (ai_tool_call list \<times> ai_turn)) \<times> ai_db" where
  "complete_tool_plan_with_verification now messageID turnID stepID fromStatus status summary operationID verification content = run_tx (\<lambda>db.
     bindE (get_turn db turnID) (\<lambda>turn.
     let steps = list_plan_steps db turnID;
         P = (\<lambda>c. al_id c = stepID \<and> al_turn_id c = turnID \<and> al_step_index c \<ge> 0 \<and> al_status c = fromStatus) in
     bindE (failIf (steps = [] \<or> at_status turn \<noteq> ''running'') AiConflict) (\<lambda>_.
     bindE (failIf (\<not> completes_plan stepID fromStatus steps) AiConflict) (\<lambda>_.
     bindE (failIf (count_rows P (ab_calls db) \<noteq> 1) AiConflict) (\<lambda>_.
     let db1 = skip_queued_steps now turnID (update_calls P (with_result now status summary operationID verification) db) in
     bindE (finish_turn_tx now messageID turn ''completed'' [] content db1) (\<lambda>(message, db2).
     Inr ((list_plan_steps db2 turnID, turn\<lparr>at_status := ''completed'', at_updated_at := now\<rparr>), db2)))))))"

definition finish_tool_plan :: "time \<Rightarrow> string \<Rightarrow> string \<Rightarrow> string \<Rightarrow> ai_db \<Rightarrow> (ai_error + (ai_tool_call list \<times> ai_turn)) \<times> ai_db" where
  "finish_tool_plan now messageID turnID content = run_tx (\<lambda>db.
     bindE (get_turn db turnID) (\<lambda>turn.
     let steps = list_plan_steps db turnID in
     bindE (failIf (steps = [] \<or> at_status turn \<noteq> ''running'') AiConflict) (\<lambda>_.
     bindE (failIf (list_ex step_in_progress steps) AiConflict) (\<lambda>_.
     bindE (finish_turn_tx now messageID turn ''completed'' [] content (skip_queued_steps now turnID db)) (\<lambda>(message, db1).
     Inr ((list_plan_steps db1 turnID, turn\<lparr>at_status := ''completed'', at_updated_at := now\<rparr>), db1))))))"

section \<open>Restart and pause\<close>

definition accepted_plan :: "ai_tool_call list \<Rightarrow> string \<Rightarrow> bool" where
  "accepted_plan calls turnID \<longleftrightarrow> (\<exists>c\<in>set calls. al_turn_id c = turnID \<and> al_step_index c \<ge> 0 \<and> al_status c = ''accepted'')"

definition interrupted_call :: "time \<Rightarrow> ai_tool_call \<Rightarrow> ai_tool_call" where
  "interrupted_call now c = c\<lparr>al_status := ''interrupted'', al_updated_at := now, al_result_summary :=
     (if al_step_index c < 0
      then (if al_status c = ''running'' then ([CHR 0xE6, CHR 0x9C, CHR 0x8D, CHR 0xE5, CHR 0x8A, CHR 0xA1, CHR 0xE9, CHR 0x87, CHR 0x8D, CHR 0xE5, CHR 0x90, CHR 0xAF, CHR 0xEF, CHR 0xBC, CHR 0x8C, CHR 0xE6, CHR 0x93, CHR 0x8D, CHR 0xE4, CHR 0xBD, CHR 0x9C, CHR 0xE7, CHR 0xBB, CHR 0x93, CHR 0xE6, CHR 0x9E, CHR 0x9C, CHR 0xE6, CHR 0x97, CHR 0xA0, CHR 0xE6, CHR 0xB3, CHR 0x95, CHR 0xE7, CHR 0xA1, CHR 0xAE, CHR 0xE8, CHR 0xAE, CHR 0xA4, CHR 0xEF, CHR 0xBC, CHR 0x8C, CHR 0xE5, CHR 0x8F, CHR 0xAF, CHR 0xE8, CHR 0x83, CHR 0xBD, CHR 0xE5, CHR 0xB7, CHR 0xB2, CHR 0xE6, CHR 0x89, CHR 0xA7, CHR 0xE8, CHR 0xA1, CHR 0x8C]) else ([CHR 0xE6, CHR 0x9C, CHR 0x8D, CHR 0xE5, CHR 0x8A, CHR 0xA1, CHR 0xE9, CHR 0x87, CHR 0x8D, CHR 0xE5, CHR 0x90, CHR 0xAF, CHR 0xEF, CHR 0xBC, CHR 0x8C, CHR 0xE7, CHR 0xA1, CHR 0xAE, CHR 0xE8, CHR 0xAE, CHR 0xA4, CHR 0xE5, CHR 0xB7, CHR 0xB2, CHR 0xE5, CHR 0xA4, CHR 0xB1, CHR 0xE6, CHR 0x95, CHR 0x88, CHR 0xEF, CHR 0xBC, CHR 0x8C, CHR 0xE6, CHR 0x93, CHR 0x8D, CHR 0xE4, CHR 0xBD, CHR 0x9C, CHR 0xE6, CHR 0x9C, CHR 0xAA, CHR 0xE6, CHR 0x89, CHR 0xA7, CHR 0xE8, CHR 0xA1, CHR 0x8C]))
      else (if al_status c = ''running'' then ([CHR 0xE6, CHR 0x9C, CHR 0x8D, CHR 0xE5, CHR 0x8A, CHR 0xA1, CHR 0xE9, CHR 0x87, CHR 0x8D, CHR 0xE5, CHR 0x90, CHR 0xAF, CHR 0xEF, CHR 0xBC, CHR 0x8C, CHR 0xE6, CHR 0xAD, CHR 0xA5, CHR 0xE9, CHR 0xAA, CHR 0xA4, CHR 0xE7, CHR 0xBB, CHR 0x93, CHR 0xE6, CHR 0x9E, CHR 0x9C, CHR 0xE6, CHR 0x97, CHR 0xA0, CHR 0xE6, CHR 0xB3, CHR 0x95, CHR 0xE7, CHR 0xA1, CHR 0xAE, CHR 0xE8, CHR 0xAE, CHR 0xA4, CHR 0xEF, CHR 0xBC, CHR 0x8C, CHR 0xE5, CHR 0x8F, CHR 0xAF, CHR 0xE8, CHR 0x83, CHR 0xBD, CHR 0xE5, CHR 0xB7, CHR 0xB2, CHR 0xE6, CHR 0x89, CHR 0xA7, CHR 0xE8, CHR 0xA1, CHR 0x8C]) else ([CHR 0xE6, CHR 0x9C, CHR 0x8D, CHR 0xE5, CHR 0x8A, CHR 0xA1, CHR 0xE9, CHR 0x87, CHR 0x8D, CHR 0xE5, CHR 0x90, CHR 0xAF, CHR 0xEF, CHR 0xBC, CHR 0x8C, CHR 0xE8, CHR 0xAE, CHR 0xA1, CHR 0xE5, CHR 0x88, CHR 0x92, CHR 0xE7, CHR 0xA1, CHR 0xAE, CHR 0xE8, CHR 0xAE, CHR 0xA4, CHR 0xE5, CHR 0xB7, CHR 0xB2, CHR 0xE5, CHR 0xA4, CHR 0xB1, CHR 0xE6, CHR 0x95, CHR 0x88, CHR 0xEF, CHR 0xBC, CHR 0x8C, CHR 0xE6, CHR 0xAD, CHR 0xA5, CHR 0xE9, CHR 0xAA, CHR 0xA4, CHR 0xE6, CHR 0x9C, CHR 0xAA, CHR 0xE6, CHR 0x89, CHR 0xA7, CHR 0xE8, CHR 0xA1, CHR 0x8C])))\<rparr>"

definition recover_interrupted :: "time \<Rightarrow> ai_db \<Rightarrow> ai_db" where
  "recover_interrupted now db =
     (let calls1 = update_rows (\<lambda>c. al_status c = ''running'' \<or> al_status c = ''pending'') (interrupted_call now) (ab_calls db);
          calls2 = update_rows (\<lambda>c. al_step_index c \<ge> 0 \<and> al_status c = ''queued'' \<and> \<not> accepted_plan calls1 (al_turn_id c))
            (\<lambda>c. c\<lparr>al_status := ''skipped'', al_result_summary := ([CHR 0xE6, CHR 0x9C, CHR 0x8D, CHR 0xE5, CHR 0x8A, CHR 0xA1, CHR 0xE9, CHR 0x87, CHR 0x8D, CHR 0xE5, CHR 0x90, CHR 0xAF, CHR 0xEF, CHR 0xBC, CHR 0x8C, CHR 0xE5, CHR 0x89, CHR 0x8D, CHR 0xE5, CHR 0xBA, CHR 0x8F, CHR 0xE6, CHR 0xAD, CHR 0xA5, CHR 0xE9, CHR 0xAA, CHR 0xA4, CHR 0xE6, CHR 0x9C, CHR 0xAA, CHR 0xE7, CHR 0xA1, CHR 0xAE, CHR 0xE8, CHR 0xAE, CHR 0xA4, CHR 0xE6, CHR 0x88, CHR 0x90, CHR 0xE5, CHR 0x8A, CHR 0x9F, CHR 0xEF, CHR 0xBC, CHR 0x8C, CHR 0xE5, CHR 0xB7, CHR 0xB2, CHR 0xE8, CHR 0xB7, CHR 0xB3, CHR 0xE8, CHR 0xBF, CHR 0x87]), al_updated_at := now\<rparr>) calls1
      in update_turns (\<lambda>t. turn_active t \<and> \<not> accepted_plan calls2 (at_id t))
           (\<lambda>t. t\<lparr>at_status := ''interrupted'', at_error_code := ''server_restarted'', at_updated_at := now\<rparr>) (db\<lparr>ab_calls := calls2\<rparr>))"

text \<open>The transaction for one turn; nothing happens when it no longer waits or has no pending call.\<close>

definition cancel_pending_turn :: "time \<Rightarrow> string \<Rightarrow> string \<Rightarrow> string \<Rightarrow> string \<Rightarrow> ai_db \<Rightarrow> (ai_error + unit) \<times> ai_db" where
  "cancel_pending_turn now messageID summary content turnID db =
     (case List.find (\<lambda>t. at_id t = turnID \<and> at_status t = ''awaiting_confirmation'') (ab_turns db) of
        None \<Rightarrow> (Inr (), db)
      | Some turn \<Rightarrow>
          (let P = (\<lambda>c. al_turn_id c = turnID \<and> al_status c = ''pending'') in
           if count_rows P (ab_calls db) = 0 then (Inr (), db)
           else (case finish_turn_tx now messageID turn ''completed'' [] content
                        (update_calls P (\<lambda>c. c\<lparr>al_status := ''rejected'', al_result_summary := summary, al_updated_at := now\<rparr>) db) of
                   Inl AiConflict \<Rightarrow> (Inr (), db)
                 | Inl e \<Rightarrow> (Inl e, db)
                 | Inr (message, db') \<Rightarrow> (Inr (), db'))))"

fun cancel_pending_loop :: "time \<Rightarrow> (nat \<Rightarrow> string) \<Rightarrow> nat \<Rightarrow> string \<Rightarrow> string \<Rightarrow> string list \<Rightarrow> ai_db \<Rightarrow> (ai_error + unit) \<times> ai_db" where
  "cancel_pending_loop now fresh k summary content [] db = (Inr (), db)"
| "cancel_pending_loop now fresh k summary content (i # ids) db =
     (case cancel_pending_turn now (fresh k) summary content i db of
        (Inl e, db1) \<Rightarrow> (Inl e, db1)
      | (Inr _, db1) \<Rightarrow> cancel_pending_loop now fresh (Suc k) summary content ids db1)"

definition cancel_pending_confirmations :: "time \<Rightarrow> (nat \<Rightarrow> string) \<Rightarrow> string \<Rightarrow> string \<Rightarrow> ai_db \<Rightarrow> (ai_error + unit) \<times> ai_db" where
  "cancel_pending_confirmations now fresh summary content db =
     cancel_pending_loop now fresh 0 summary content
       (map at_id (sort_key at_created_at (sort_key at_id (filter (\<lambda>t. at_status t = ''awaiting_confirmation'') (ab_turns db))))) db"

end
