(* ===== verification/NodeStore.thy ===== *)
theory NodeStore
  imports NodeModel Sha256
begin

text \<open>
  \<^verbatim>\<open>internal/server/store/nodes.go\<close> and \<^verbatim>\<open>agent_tokens.go\<close>: nodes, the tombstones of deleted nodes and the
  hashed tokens of agents.  Of the other tables that a deletion clears (metrics, snapshots, tag
  links), the rows are kept by the node they belong to; tag links and connection events go with the
  row of the node (\<^verbatim>\<open>ON DELETE CASCADE\<close>).
\<close>

section \<open>The database\<close>

record token_row =
  tr_node_id :: string
  tr_token :: string
  tr_created_at :: time

record connection_event =
  ce_id :: int
  ce_node_id :: string
  ce_type :: string
  ce_reason :: string
  ce_agent_version :: string
  ce_protocol_version :: int
  ce_identity_source :: string
  ce_hostname :: string
  ce_remote_addr :: string
  ce_created_at :: time

record node_db =
  nb_nodes :: "node list"
  nb_deleted :: "(string \<times> time) list"
  nb_tokens :: "token_row list"
  nb_metrics :: "string list"
  nb_process_snapshots :: "string list"
  nb_docker_snapshots :: "string list"
  nb_tag_links :: "(string \<times> string) list"
  nb_events :: "connection_event list"
  nb_event_seq :: int

definition empty_node_db :: node_db where
  "empty_node_db = \<lparr>nb_nodes = [], nb_deleted = [], nb_tokens = [], nb_metrics = [], nb_process_snapshots = [],
     nb_docker_snapshots = [], nb_tag_links = [], nb_events = [], nb_event_seq = 0\<rparr>"

datatype node_error = NodeNoRows | NodeDBError string

section \<open>Nodes\<close>

definition normal_agent_mode :: "string \<Rightarrow> string" where
  "normal_agent_mode v = (if v = ''ops'' then ''ops'' else ''normal'')"

definition find_node :: "node_db \<Rightarrow> string \<Rightarrow> node option" where
  "find_node db i = List.find (\<lambda>n. nd_id n = i) (nb_nodes db)"

definition scan_node :: "node \<Rightarrow> node" where
  "scan_node n = n\<lparr>nd_agent_mode := normal_agent_mode (nd_agent_mode n)\<rparr>"

definition get_node :: "node_db \<Rightarrow> string \<Rightarrow> node_error + node" where
  "get_node db i = (case find_node db i of None \<Rightarrow> Inl NodeNoRows | Some n \<Rightarrow> Inr (scan_node n))"

text \<open>The conflicting row keeps its identifier and its time of creation.\<close>

definition upsert_node :: "time \<Rightarrow> node \<Rightarrow> node_db \<Rightarrow> node_db" where
  "upsert_node now node0 db =
     (let node1 = (if is_zero (nd_created_at node0) then node0\<lparr>nd_created_at := now\<rparr> else node0);
          node2 = (if is_zero (nd_updated_at node1) then node1\<lparr>nd_updated_at := now\<rparr> else node1);
          node = node2\<lparr>nd_agent_mode := normal_agent_mode (nd_agent_mode node2)\<rparr>
      in db\<lparr>nb_nodes := (if count_rows (\<lambda>n. nd_id n = nd_id node) (nb_nodes db) > 0
             then update_rows (\<lambda>n. nd_id n = nd_id node) (\<lambda>n. node\<lparr>nd_created_at := nd_created_at n\<rparr>) (nb_nodes db)
             else nb_nodes db @ [node])\<rparr>)"

definition set_node_status :: "string \<Rightarrow> string \<Rightarrow> time \<Rightarrow> node_db \<Rightarrow> node_db" where
  "set_node_status i status now db =
     db\<lparr>nb_nodes := update_rows (\<lambda>n. nd_id n = i) (\<lambda>n. n\<lparr>nd_status := status, nd_updated_at := now\<rparr>) (nb_nodes db)\<rparr>"

definition reset_online_statuses :: "time \<Rightarrow> node_db \<Rightarrow> node_db" where
  "reset_online_statuses now db =
     db\<lparr>nb_nodes := update_rows (\<lambda>n. nd_status n = ''online'') (\<lambda>n. n\<lparr>nd_status := ''offline'', nd_updated_at := now\<rparr>) (nb_nodes db)\<rparr>"

text \<open>\<^verbatim>\<open>COALESCE(NULLIF(?, ''), column)\<close>.\<close>

definition coalesce_text :: "string \<Rightarrow> string \<Rightarrow> string" where
  "coalesce_text v old = (if v = [] then old else v)"

definition update_system_info ::
  "string \<Rightarrow> string \<Rightarrow> string \<Rightarrow> string \<Rightarrow> string \<Rightarrow> time \<Rightarrow> node_db \<Rightarrow> (node_error + unit) \<times> node_db" where
  "update_system_info i hostname osName osArch osKernel now db =
     (if count_rows (\<lambda>n. nd_id n = i) (nb_nodes db) = 0 then (Inl NodeNoRows, db)
      else (Inr (), db\<lparr>nb_nodes := update_rows (\<lambda>n. nd_id n = i)
              (\<lambda>n. n\<lparr>nd_hostname := coalesce_text hostname (nd_hostname n), nd_os := coalesce_text osName (nd_os n),
                     nd_arch := coalesce_text osArch (nd_arch n), nd_kernel := coalesce_text osKernel (nd_kernel n),
                     nd_status := ''online'', nd_last_seen_at := now, nd_updated_at := now\<rparr>) (nb_nodes db)\<rparr>))"

section \<open>Deletion\<close>

definition deleted_at :: "node_db \<Rightarrow> string \<Rightarrow> time option" where
  "deleted_at db i = map_option snd (List.find (\<lambda>d. fst d = i) (nb_deleted db))"

definition is_deleted :: "node_db \<Rightarrow> string \<Rightarrow> bool" where
  "is_deleted db i \<longleftrightarrow> deleted_at db i \<noteq> None"

definition upsert_deleted :: "string \<Rightarrow> time \<Rightarrow> node_db \<Rightarrow> node_db" where
  "upsert_deleted i now db = db\<lparr>nb_deleted :=
     (if count_rows (\<lambda>d. fst d = i) (nb_deleted db) > 0 then update_rows (\<lambda>d. fst d = i) (\<lambda>d. (i, now)) (nb_deleted db)
      else nb_deleted db @ [(i, now)])\<rparr>"

definition purge_node :: "string \<Rightarrow> node_db \<Rightarrow> node_db" where
  "purge_node i db = db\<lparr>
     nb_metrics := delete_rows (\<lambda>m. m = i) (nb_metrics db),
     nb_tokens := delete_rows (\<lambda>t. tr_node_id t = i) (nb_tokens db),
     nb_process_snapshots := delete_rows (\<lambda>m. m = i) (nb_process_snapshots db),
     nb_docker_snapshots := delete_rows (\<lambda>m. m = i) (nb_docker_snapshots db),
     nb_tag_links := delete_rows (\<lambda>l. fst l = i) (nb_tag_links db),
     nb_events := delete_rows (\<lambda>e. ce_node_id e = i) (nb_events db),
     nb_nodes := delete_rows (\<lambda>n. nd_id n = i) (nb_nodes db)\<rparr>"

definition delete_node :: "string \<Rightarrow> time \<Rightarrow> node_db \<Rightarrow> (node_error + unit) \<times> node_db" where
  "delete_node i now db =
     (if find_node db i = None then (Inl NodeNoRows, db) else (Inr (), purge_node i (upsert_deleted i now db)))"

definition delete_if_deleted :: "string \<Rightarrow> node_db \<Rightarrow> node_db" where
  "delete_if_deleted i db = (if is_deleted db i then purge_node i db else db)"

definition allow_node :: "string \<Rightarrow> node_db \<Rightarrow> node_db" where
  "allow_node i db = db\<lparr>nb_deleted := delete_rows (\<lambda>d. fst d = i) (nb_deleted db)\<rparr>"

definition allow_if_deleted_before :: "string \<Rightarrow> time \<Rightarrow> node_db \<Rightarrow> bool \<times> node_db" where
  "allow_if_deleted_before i cutoff db =
     (case deleted_at db i of
        None \<Rightarrow> (True, db)
      | Some t \<Rightarrow> if \<not> t < cutoff then (False, db)
                 else (True, db\<lparr>nb_deleted := delete_rows (\<lambda>d. fst d = i \<and> snd d = t) (nb_deleted db)\<rparr>))"

section \<open>Tokens\<close>

definition token_hash_prefix :: string where "token_hash_prefix = ''sha256:''"

definition hash_token :: "string \<Rightarrow> string" where
  "hash_token token = token_hash_prefix @ hex_encode (sha256_sum (string_bytes token))"

text \<open>The token is unique over all nodes; a conflict on the node replaces its row.\<close>

definition save_node_token :: "string \<Rightarrow> string \<Rightarrow> time \<Rightarrow> node_db \<Rightarrow> (node_error + unit) \<times> node_db" where
  "save_node_token nodeID token createdAt db =
     (let h = hash_token token in
      if count_rows (\<lambda>t. tr_token t = h \<and> tr_node_id t \<noteq> nodeID) (nb_tokens db) > 0
      then (Inl (NodeDBError ''UNIQUE constraint failed: node_tokens.token''), db)
      else (Inr (), db\<lparr>nb_tokens :=
             (if count_rows (\<lambda>t. tr_node_id t = nodeID) (nb_tokens db) > 0
              then update_rows (\<lambda>t. tr_node_id t = nodeID) (\<lambda>t. t\<lparr>tr_token := h, tr_created_at := createdAt\<rparr>) (nb_tokens db)
              else nb_tokens db @ [\<lparr>tr_node_id = nodeID, tr_token = h, tr_created_at = createdAt\<rparr>])\<rparr>))"

definition node_token :: "node_db \<Rightarrow> string \<Rightarrow> string option" where
  "node_token db nodeID = map_option tr_token (List.find (\<lambda>t. tr_node_id t = nodeID) (nb_tokens db))"

definition node_with_token :: "node_db \<Rightarrow> string \<Rightarrow> string option" where
  "node_with_token db h = map_option tr_node_id (List.find (\<lambda>t. tr_token t = h) (nb_tokens db))"

text \<open>A token stored in plain text by an older version is replaced by its hash when it is used.\<close>

definition node_id_for_token :: "string \<Rightarrow> node_db \<Rightarrow> string option \<times> node_db" where
  "node_id_for_token token db =
     (let tokenHash = hash_token token in
      case node_with_token db tokenHash of
        Some i \<Rightarrow> (Some i, db)
      | None \<Rightarrow>
          if prefix token_hash_prefix token then (None, db)
          else (case node_with_token db token of
                  None \<Rightarrow> (None, db)
                | Some i \<Rightarrow> (Some i, db\<lparr>nb_tokens := update_rows (\<lambda>t. tr_node_id t = i \<and> tr_token t = token)
                                         (\<lambda>t. t\<lparr>tr_token := tokenHash\<rparr>) (nb_tokens db)\<rparr>)))"

section \<open>Invariant\<close>

definition node_db_ok :: "node_db \<Rightarrow> bool" where
  "node_db_ok db \<longleftrightarrow> distinct (map nd_id (nb_nodes db)) \<and> distinct (map fst (nb_deleted db))
     \<and> distinct (map tr_node_id (nb_tokens db)) \<and> distinct (map tr_token (nb_tokens db))"

lemma node_with_token_Some: "node_with_token db h = Some i \<Longrightarrow> \<exists>t\<in>set (nb_tokens db). tr_token t = h \<and> tr_node_id t = i"
  by (auto simp: node_with_token_def dest: find_Some_set)

lemma node_with_token_row:
  "node_db_ok db \<Longrightarrow> t \<in> set (nb_tokens db) \<Longrightarrow> node_with_token db (tr_token t) = Some (tr_node_id t)"
  using find_by_key [of tr_token "nb_tokens db" t] by (simp add: node_with_token_def node_db_ok_def)

lemma deleted_at_Some: "node_db_ok db \<Longrightarrow> deleted_at db i = Some t \<longleftrightarrow> (i, t) \<in> set (nb_deleted db)"
  using find_by_key [of fst "nb_deleted db" "(i, t)"]
  by (auto simp: deleted_at_def node_db_ok_def dest: find_Some_set)

lemma is_deleted_iff: "is_deleted db i \<longleftrightarrow> i \<in> fst ` set (nb_deleted db)"
  by (force simp: is_deleted_def deleted_at_def find_None_set)

lemma upsert_node_ok: "node_db_ok db \<Longrightarrow> node_db_ok (upsert_node now n db)"
proof -
  assume ok: "node_db_ok db"
  let ?P = "\<lambda>m. nd_id m = nd_id n"
  have ids: "map nd_id (update_rows ?P (\<lambda>m. x\<lparr>nd_created_at := nd_created_at m\<rparr>) (nb_nodes db)) = map nd_id (nb_nodes db)"
    if "nd_id x = nd_id n" for x
    using that by (intro map_update_rows) simp
  show ?thesis using ok ids by (auto simp: upsert_node_def node_db_ok_def Let_def count_rows_eq_0)
qed

lemma purge_ok: "node_db_ok db \<Longrightarrow> node_db_ok (purge_node i db)"
  by (simp add: node_db_ok_def purge_node_def distinct_map_delete_rows)

end
