(* ===== verification/ConnectionEvents.thy ===== *)
theory ConnectionEvents
  imports NodeStore
begin

text \<open>
  \<^verbatim>\<open>internal/server/store/connection_events.go\<close>: the log of connections of a node, which keeps the last
  twenty events of the last seven days, and what the hub reads from it (\<open>RebootCompletedAfter\<close>,
  \<open>ConnectionDiagnostics\<close> of \<^verbatim>\<open>internal/server/agenthub/hub.go\<close>).
\<close>

section \<open>The store\<close>

definition connection_event_retention :: duration where
  "connection_event_retention = 7 * 24 * (3600 * nanos_per_second)"

definition connection_event_limit :: nat where "connection_event_limit = 20"

text \<open>\<^verbatim>\<open>ORDER BY created_at DESC, id DESC\<close>.\<close>

definition newest_events :: "connection_event list \<Rightarrow> connection_event list" where
  "newest_events es = rev (sort_key ce_created_at (sort_key ce_id es))"

definition node_events :: "node_db \<Rightarrow> string \<Rightarrow> connection_event list" where
  "node_events db nodeID = newest_events (filter (\<lambda>e. ce_node_id e = nodeID) (nb_events db))"

definition list_connection_events :: "node_db \<Rightarrow> string \<Rightarrow> connection_event list" where
  "list_connection_events db nodeID = take connection_event_limit (node_events db nodeID)"

text \<open>At most a thousand surplus rows are deleted at a time.\<close>

definition prune_connection_events :: "string \<Rightarrow> time \<Rightarrow> node_db \<Rightarrow> node_db" where
  "prune_connection_events nodeID now db =
     (let db1 = db\<lparr>nb_events := delete_rows (\<lambda>e. ce_node_id e = nodeID \<and> ce_created_at e < now - connection_event_retention) (nb_events db)\<rparr>;
          ids = map ce_id (take 1000 (drop connection_event_limit (node_events db1 nodeID)))
      in db1\<lparr>nb_events := delete_rows (\<lambda>e. ce_id e \<in> set ids) (nb_events db1)\<rparr>)"

text \<open>The foreign key on the node is checked on insertion.\<close>

definition create_connection_event :: "time \<Rightarrow> connection_event \<Rightarrow> node_db \<Rightarrow> (node_error + connection_event) \<times> node_db" where
  "create_connection_event now event0 db =
     (let event = (if is_zero (ce_created_at event0) then event0\<lparr>ce_created_at := now\<rparr> else event0) in
      if find_node db (ce_node_id event) = None then (Inl (NodeDBError ''FOREIGN KEY constraint failed''), db)
      else (let row = event\<lparr>ce_id := nb_event_seq db + 1\<rparr>
            in (Inr row, prune_connection_events (ce_node_id event) (ce_created_at event)
                  (db\<lparr>nb_events := nb_events db @ [row], nb_event_seq := nb_event_seq db + 1\<rparr>))))"

section \<open>What the hub reads\<close>

definition ce_connected :: string where "ce_connected = ''connected''"
definition ce_disconnected :: string where "ce_disconnected = ''disconnected''"
definition ce_replaced :: string where "ce_replaced = ''replaced_by_new_connection''"
definition ce_identity_conflict :: string where "ce_identity_conflict = ''identity_conflict_suspected''"
definition ce_protocol_rejected :: string where "ce_protocol_rejected = ''protocol_rejected''"
definition ce_heartbeat_timeout :: string where "ce_heartbeat_timeout = ''heartbeat_timeout''"

lemmas connection_event_names = ce_connected_def ce_disconnected_def ce_replaced_def ce_identity_conflict_def
  ce_protocol_rejected_def ce_heartbeat_timeout_def

text \<open>The events are read newest first, until one is too old.\<close>

fun reboot_completed_loop :: "time \<Rightarrow> bool \<Rightarrow> connection_event list \<Rightarrow> bool" where
  "reboot_completed_loop after connected [] = False"
| "reboot_completed_loop after connected (e # es) =
     (if ce_created_at e < after then False
      else if ce_type e = ce_connected then reboot_completed_loop after True es
      else if ce_type e = ce_disconnected \<and> connected then True
      else reboot_completed_loop after connected es)"

definition reboot_completed_after :: "node_db \<Rightarrow> string \<Rightarrow> time \<Rightarrow> bool" where
  "reboot_completed_after db nodeID after = reboot_completed_loop after False (list_connection_events db nodeID)"

record connection_diagnostics =
  cd_online :: bool
  cd_health :: string
  cd_last_connected_at :: "time option"
  cd_last_disconnected_at :: "time option"
  cd_last_disconnect_reason :: string
  cd_identity_conflict :: bool
  cd_events :: "connection_event list"

definition first_event :: "string \<Rightarrow> connection_event list \<Rightarrow> connection_event option" where
  "first_event kind es = List.find (\<lambda>e. ce_type e = kind) es"

definition connection_diagnostics_of :: "bool \<Rightarrow> node_db \<Rightarrow> string \<Rightarrow> node_error + connection_diagnostics" where
  "connection_diagnostics_of online db nodeID =
     bindE (get_node db nodeID) (\<lambda>_.
       let es = list_connection_events db nodeID;
           conflict = (first_event ce_identity_conflict es \<noteq> None)
       in Inr \<lparr>cd_online = online,
               cd_health = (if conflict then ''identity_conflict'' else if \<not> online then ''offline'' else ''healthy''),
               cd_last_connected_at = map_option ce_created_at (first_event ce_connected es),
               cd_last_disconnected_at = map_option ce_created_at (first_event ce_disconnected es),
               cd_last_disconnect_reason = (case first_event ce_disconnected es of None \<Rightarrow> [] | Some e \<Rightarrow> ce_reason e),
               cd_identity_conflict = conflict, cd_events = es\<rparr>)"

section \<open>The log is bounded\<close>

lemma newest_events_filter: "filter P (newest_events es) = newest_events (filter P es)"
  by (simp add: newest_events_def filter_sort flip: rev_filter)

lemma newest_events_set [simp]: "set (newest_events es) = set es" "length (newest_events es) = length es"
  "distinct (map ce_id (newest_events es)) \<longleftrightarrow> distinct (map ce_id es)"
  by (simp_all add: newest_events_def distinct_map)

lemma newest_events_sorted: "sorted_wrt (\<lambda>a b. ce_created_at b \<le> ce_created_at a) (newest_events es)"
  using sorted_sort_key [of ce_created_at "sort_key ce_id es"] by (simp add: newest_events_def sorted_wrt_rev sorted_map)

lemma filter_out_ids:
  assumes "distinct (map ce_id es)"
  shows "filter (\<lambda>e. ce_id e \<notin> ce_id ` set (drop n es)) es = take n es"
proof -
  have split: "es = take n es @ drop n es" by simp
  have "ce_id e \<notin> ce_id ` set (drop n es)" if "e \<in> set (take n es)" for e
    using assms that by (subst (asm) split) (auto simp: simp del: append_take_drop_id)
  then have "filter (\<lambda>e. ce_id e \<notin> ce_id ` set (drop n es)) (take n es) = take n es"
    by (simp add: filter_id_conv)
  moreover have "filter (\<lambda>e. ce_id e \<notin> ce_id ` set (drop n es)) (drop n es) = []" by (auto simp: filter_empty_conv)
  ultimately show ?thesis by (metis append.right_neutral filter_append split)
qed

definition event_log_ok :: "node_db \<Rightarrow> bool" where
  "event_log_ok db \<longleftrightarrow> distinct (map ce_id (nb_events db)) \<and> (\<forall>e\<in>set (nb_events db). ce_id e \<le> nb_event_seq db)
     \<and> (\<forall>n. length (node_events db n) \<le> connection_event_limit)"

lemma prune_events:
  assumes ids: "distinct (map ce_id (nb_events db))" and len: "length (node_events db n) \<le> connection_event_limit + 1000"
  shows "node_events (prune_connection_events n now db) n
      = take connection_event_limit (filter (\<lambda>e. now - connection_event_retention \<le> ce_created_at e) (node_events db n))"
    "m \<noteq> n \<Longrightarrow> node_events (prune_connection_events n now db) m = node_events db m"
    "set (nb_events (prune_connection_events n now db)) \<subseteq> set (nb_events db)"
    "distinct (map ce_id (nb_events (prune_connection_events n now db)))"
proof -
  let ?keep = "\<lambda>e. now - connection_event_retention \<le> ce_created_at e"
  define es where "es = filter (\<lambda>e. \<not> (ce_node_id e = n \<and> \<not> ?keep e)) (nb_events db)"
  define N where "N = newest_events (filter (\<lambda>e. ce_node_id e = n) es)"
  let ?ids = "ce_id ` set (drop connection_event_limit N)"
  have N: "N = filter ?keep (node_events db n)"
    unfolding N_def es_def node_events_def newest_events_filter filter_filter by (rule arg_cong [where f = newest_events], rule filter_cong) auto
  have "length N \<le> length (node_events db n)" unfolding N by (rule length_filter_le)
  then have "take 1000 (drop connection_event_limit N) = drop connection_event_limit N" using len by simp
  then have res: "nb_events (prune_connection_events n now db) = filter (\<lambda>e. ce_id e \<notin> ?ids) es"
    by (simp add: prune_connection_events_def Let_def node_events_def delete_rows_def not_le [symmetric] es_def N_def)
  have dist: "distinct (map ce_id N)" using ids by (simp add: N_def es_def distinct_map_filter)
  show "node_events (prune_connection_events n now db) n = take connection_event_limit (filter ?keep (node_events db n))"
  proof -
    have "node_events (prune_connection_events n now db) n = filter (\<lambda>e. ce_id e \<notin> ?ids) N"
      unfolding node_events_def res N_def newest_events_filter filter_filter by (rule arg_cong [where f = newest_events], rule filter_cong) auto
    then show ?thesis using filter_out_ids [OF dist] N by simp
  qed
  have own: "ce_node_id e = n" if "e \<in> set (nb_events db)" "ce_id e \<in> ?ids" for e
  proof -
    from that(2) obtain e' where e': "e' \<in> set N" "ce_id e = ce_id e'" by (auto dest: in_set_dropD)
    then have "e' \<in> set (nb_events db)" "ce_node_id e' = n" by (auto simp: N_def es_def)
    then show ?thesis using distinct_key_eq [OF ids that(1)] e'(2) by auto
  qed
  show "node_events (prune_connection_events n now db) m = node_events db m" if "m \<noteq> n"
    unfolding node_events_def res es_def filter_filter
    by (rule arg_cong [where f = newest_events], rule filter_cong) (use own that in auto)
  show "set (nb_events (prune_connection_events n now db)) \<subseteq> set (nb_events db)"
    unfolding res es_def by auto
  show "distinct (map ce_id (nb_events (prune_connection_events n now db)))"
    using ids unfolding res es_def by (simp add: distinct_map_filter)
qed

text \<open>Recording an event keeps, of the events of its node, the twenty newest of the last seven days, and leaves those of other nodes alone.\<close>

lemma event_log_is_bounded:
  assumes ok: "event_log_ok db" and create: "create_connection_event now event db = (Inr row, db')"
    and stamped: "\<not> is_zero (ce_created_at event)"
  shows "event_log_ok db' \<and> row = event\<lparr>ce_id := nb_event_seq db + 1\<rparr>
    \<and> list_connection_events db' (ce_node_id event)
        = take connection_event_limit (filter (\<lambda>e. ce_created_at event - connection_event_retention \<le> ce_created_at e)
            (newest_events (filter (\<lambda>e. ce_node_id e = ce_node_id event) (nb_events db @ [row]))))
    \<and> (\<forall>n. n \<noteq> ce_node_id event \<longrightarrow> list_connection_events db' n = list_connection_events db n)"
proof -
  let ?n = "ce_node_id event"
  let ?row = "event\<lparr>ce_id := nb_event_seq db + 1\<rparr>"
  let ?db = "db\<lparr>nb_events := nb_events db @ [?row], nb_event_seq := nb_event_seq db + 1\<rparr>"
  have row: "row = ?row" and db': "db' = prune_connection_events ?n (ce_created_at event) ?db"
    using create stamped by (auto simp: create_connection_event_def Let_def split: if_splits)
  have ids: "distinct (map ce_id (nb_events ?db))" using ok by (force simp: event_log_ok_def)
  have events: "node_events ?db m = (if m = ?n then newest_events (filter (\<lambda>e. ce_node_id e = ?n) (nb_events db @ [?row])) else node_events db m)" for m
    by (auto simp: node_events_def)
  have bound: "length (node_events db m) \<le> connection_event_limit" for m using ok by (simp add: event_log_ok_def)
  have "length (node_events ?db ?n) \<le> connection_event_limit + 1000"
    using bound [of ?n] unfolding events by (simp add: node_events_def)
  note pruned = prune_events [OF ids this, where now = "ce_created_at event", folded db']
  have "length (node_events db' m) \<le> connection_event_limit" for m
    using pruned(1) pruned(2) [of m] events [of m] bound [of m] by (cases "m = ?n") simp_all
  moreover have "nb_event_seq db' = nb_event_seq db + 1" by (simp add: db' prune_connection_events_def Let_def)
  moreover have "ce_id e \<le> nb_event_seq db + 1" if "e \<in> set (nb_events db')" for e
    using pruned(3) that ok by (force simp: event_log_ok_def)
  ultimately have "event_log_ok db'" using pruned(4) by (simp add: event_log_ok_def)
  moreover have "list_connection_events db' ?n = take connection_event_limit
      (filter (\<lambda>e. ce_created_at event - connection_event_retention \<le> ce_created_at e) (newest_events (filter (\<lambda>e. ce_node_id e = ?n) (nb_events db @ [?row]))))"
    using pruned(1) unfolding list_connection_events_def events by simp
  moreover have "list_connection_events db' m = list_connection_events db m" if "m \<noteq> ?n" for m
    using pruned(2) [OF that] events [of m] that by (simp add: list_connection_events_def)
  ultimately show ?thesis using row by blast
qed

section \<open>Reboots\<close>

lemma reboot_loop:
  assumes "sorted_wrt (\<lambda>a b. ce_created_at b \<le> ce_created_at a) es"
  shows "reboot_completed_loop after connected es \<longleftrightarrow>
    (\<exists>j < length es. after \<le> ce_created_at (es ! j) \<and> ce_type (es ! j) = ce_disconnected
       \<and> (connected \<or> (\<exists>i < j. ce_type (es ! i) = ce_connected)))"
  using assms
proof (induction es arbitrary: connected)
  case (Cons e es)
  have ex_Suc: "(\<exists>j < length (e # es). Q j) \<longleftrightarrow> Q 0 \<or> (\<exists>j < length es. Q (Suc j))" for Q
    by (auto simp: less_Suc_eq_0_disj)
  have ex_lt: "(\<exists>i < Suc j. ce_type ((e # es) ! i) = ce_connected) \<longleftrightarrow> ce_type e = ce_connected \<or> (\<exists>i < j. ce_type (es ! i) = ce_connected)" for j
    by (auto simp: less_Suc_eq_0_disj)
  have older: "ce_created_at (es ! j) \<le> ce_created_at e" if "j < length es" for j using Cons.prems that by simp
  have names: "ce_connected \<noteq> ce_disconnected" by (simp add: connection_event_names)
  show ?case
  proof (cases "ce_created_at e < after")
    case True
    then have "\<not> after \<le> ce_created_at (es ! j)" if "j < length es" for j using older [OF that] by simp
    with True show ?thesis unfolding ex_Suc by auto
  next
    case False
    have IH: "reboot_completed_loop after c es \<longleftrightarrow> (\<exists>j < length es. after \<le> ce_created_at (es ! j) \<and> ce_type (es ! j) = ce_disconnected
       \<and> (c \<or> (\<exists>i < j. ce_type (es ! i) = ce_connected)))" for c using Cons by simp
    show ?thesis using False names unfolding ex_Suc by (auto simp: IH ex_lt)
  qed
qed simp

text \<open>A reboot counts as completed exactly when the log of the node shows a disconnection since the given time and, later in the log, a connection.\<close>

theorem reboot_needs_reconnection:
  "reboot_completed_after db nodeID after \<longleftrightarrow>
     (\<exists>j < length (list_connection_events db nodeID). \<exists>i < j.
        after \<le> ce_created_at (list_connection_events db nodeID ! j)
      \<and> ce_type (list_connection_events db nodeID ! j) = ce_disconnected
      \<and> ce_type (list_connection_events db nodeID ! i) = ce_connected)"
proof -
  have "sorted_wrt (\<lambda>a b. ce_created_at b \<le> ce_created_at a) (list_connection_events db nodeID)"
    unfolding list_connection_events_def node_events_def by (rule sorted_wrt_take, rule newest_events_sorted)
  from reboot_loop [OF this, of after False] show ?thesis by (auto simp: reboot_completed_after_def)
qed

text \<open>
  When the node comes back before the server notices that its old connection is dead, the old
  connection is replaced and its disconnection is recorded after the new connection: the reboot is
  never recognised.
\<close>

lemma replaced_connection_hides_reboot:
  assumes "list_connection_events db nodeID = [d, r, c]" "ce_type d = ce_disconnected" "ce_type r = ce_replaced" "ce_type c = ce_connected"
  shows "\<not> reboot_completed_after db nodeID after"
  using assms by (simp add: reboot_completed_after_def connection_event_names)

end
