(* ===== verification/AgentUpgrade.thy ===== *)
theory AgentUpgrade
  imports NodeModel Sha256
begin

text \<open>
  The upgrade of agents in \<^verbatim>\<open>internal/server/agenthub/hub.go\<close>: the request for a package, and the stages
  of an upgrade, a map that the request, the read loop of the connection, its timer and the next
  connection of the agent change, each under the mutex of the hub.
\<close>

section \<open>Requests\<close>

record upgrade_request =
  uq_request_id :: string
  uq_node_id :: string
  uq_target_version :: string
  uq_download_url :: string
  uq_sha256 :: string

definition trim_right_slashes :: "string \<Rightarrow> string" where
  "trim_right_slashes s = rev (dropWhile (\<lambda>c. c = CHR ''/'') (rev s))"

text \<open>The error is the code of the answer and its text; \<open>read_package\<close> is the content of a file of the download directory.\<close>

definition prepare_agent_upgrade_request ::
  "string \<Rightarrow> (string \<Rightarrow> string option) \<Rightarrow> node \<Rightarrow> string \<Rightarrow> string \<Rightarrow> string \<times> string + upgrade_request" where
  "prepare_agent_upgrade_request publicURL read_package node requestID targetVersion =
     (if nd_os node \<noteq> ''linux'' \<or> (nd_arch node \<noteq> ''amd64'' \<and> nd_arch node \<noteq> ''arm64'')
      then Inl (''unsupported_platform'', ([CHR 0xE5, CHR 0xBD, CHR 0x93, CHR 0xE5, CHR 0x89, CHR 0x8D, CHR 0xE7, CHR 0xB3, CHR 0xBB, CHR 0xE7, CHR 0xBB, CHR 0x9F, CHR 0xE6, CHR 0x9E, CHR 0xB6, CHR 0xE6, CHR 0x9E, CHR 0x84, CHR 0xE6, CHR 0x9A, CHR 0x82, CHR 0xE4, CHR 0xB8, CHR 0x8D, CHR 0xE6, CHR 0x94, CHR 0xAF, CHR 0xE6, CHR 0x8C, CHR 0x81, CHR 0xE4, CHR 0xB8, CHR 0x80, CHR 0xE9, CHR 0x94, CHR 0xAE, CHR 0xE5, CHR 0x8D, CHR 0x87, CHR 0xE7, CHR 0xBA, CHR 0xA7, CHR 0xE3, CHR 0x80, CHR 0x82]))
      else if publicURL = [] then Inl (''public_url_missing'', (''Server public_url '' @ [CHR 0xE6, CHR 0x9C, CHR 0xAA, CHR 0xE9, CHR 0x85, CHR 0x8D, CHR 0xE7, CHR 0xBD, CHR 0xAE, CHR 0xEF, CHR 0xBC, CHR 0x8C, CHR 0xE6, CHR 0x97, CHR 0xA0, CHR 0xE6, CHR 0xB3, CHR 0x95, CHR 0xE7, CHR 0x94, CHR 0x9F, CHR 0xE6, CHR 0x88, CHR 0x90, CHR 0xE5, CHR 0xAE, CHR 0x89, CHR 0xE5, CHR 0x85, CHR 0xA8, CHR 0xE5, CHR 0x8D, CHR 0x87, CHR 0xE7, CHR 0xBA, CHR 0xA7, CHR 0xE5, CHR 0x9C, CHR 0xB0, CHR 0xE5, CHR 0x9D, CHR 0x80, CHR 0xE3, CHR 0x80, CHR 0x82]))
      else (let name = ''mizupanel-agent-linux-'' @ nd_arch node in
        case read_package name of
          None \<Rightarrow> Inl (''package_missing'', (''Server '' @ [CHR 0xE6, CHR 0x9C, CHR 0xAA, CHR 0xE5, CHR 0x87, CHR 0x86, CHR 0xE5, CHR 0xA4, CHR 0x87, CHR 0xE5, CHR 0xAF, CHR 0xB9, CHR 0xE5, CHR 0xBA, CHR 0x94, CHR 0xE7, CHR 0x9A, CHR 0x84] @ '' Agent '' @ [CHR 0xE5, CHR 0x8D, CHR 0x87, CHR 0xE7, CHR 0xBA, CHR 0xA7, CHR 0xE5, CHR 0x8C, CHR 0x85, CHR 0xE3, CHR 0x80, CHR 0x82]))
        | Some content \<Rightarrow> Inr \<lparr>uq_request_id = requestID, uq_node_id = nd_id node, uq_target_version = targetVersion,
            uq_download_url = trim_right_slashes publicURL @ ''/downloads/'' @ name,
            uq_sha256 = hex_encode (sha256_sum (string_bytes content))\<rparr>))"

section \<open>Stages\<close>

record upgrade_status =
  ug_node_id :: string
  ug_target_version :: string
  ug_actual_version :: string
  ug_stage :: string
  ug_error :: string

type_synonym upgrades = "string \<Rightarrow> upgrade_status option"

definition zero_upgrade_status :: upgrade_status where
  "zero_upgrade_status = \<lparr>ug_node_id = [], ug_target_version = [], ug_actual_version = [], ug_stage = [], ug_error = []\<rparr>"

text \<open>A missing entry of the map reads as the zero value.\<close>

definition upgrade_entry :: "upgrades \<Rightarrow> string \<Rightarrow> upgrade_status" where
  "upgrade_entry ups nodeID = (case ups nodeID of None \<Rightarrow> zero_upgrade_status | Some st \<Rightarrow> st)"

definition agent_upgrade_status :: "upgrades \<Rightarrow> string \<Rightarrow> string \<Rightarrow> upgrade_status" where
  "agent_upgrade_status ups nodeID connectedVersion =
     (case ups nodeID of
        Some st \<Rightarrow> st
      | None \<Rightarrow> \<lparr>ug_node_id = nodeID, ug_target_version = [], ug_actual_version = connectedVersion, ug_stage = ''idle'', ug_error = []\<rparr>)"

definition begin_upgrade :: "string \<Rightarrow> string \<Rightarrow> string \<Rightarrow> upgrades \<Rightarrow> upgrades" where
  "begin_upgrade nodeID targetVersion actualVersion ups = ups(nodeID \<mapsto> \<lparr>ug_node_id = nodeID, ug_target_version = targetVersion,
     ug_actual_version = actualVersion, ug_stage = ''preparing'', ug_error = []\<rparr>)"

definition set_agent_upgrade_failed :: "string \<Rightarrow> string \<Rightarrow> string \<Rightarrow> upgrades \<Rightarrow> upgrades" where
  "set_agent_upgrade_failed nodeID actualVersion reason ups =
     ups(nodeID \<mapsto> (upgrade_entry ups nodeID)\<lparr>ug_node_id := nodeID, ug_actual_version := actualVersion, ug_stage := ''failed'', ug_error := reason\<rparr>)"

text \<open>The agent's answer that it starts the upgrade.\<close>

definition accept_upgrade :: "string \<Rightarrow> upgrades \<Rightarrow> upgrades" where
  "accept_upgrade nodeID ups =
     (let st = upgrade_entry ups nodeID in
      if ug_stage st \<noteq> ''failed'' then ups(nodeID \<mapsto> st\<lparr>ug_stage := ''waiting_reconnect'', ug_error := []\<rparr>) else ups)"

definition upgrade_answered :: "string \<Rightarrow> string \<Rightarrow> bool \<Rightarrow> string \<Rightarrow> upgrades \<Rightarrow> upgrades" where
  "upgrade_answered nodeID actualVersion accepted err ups =
     (if accepted then accept_upgrade nodeID ups else set_agent_upgrade_failed nodeID actualVersion err ups)"

definition observe_agent_upgrade_reconnect :: "string \<Rightarrow> string \<Rightarrow> upgrades \<Rightarrow> upgrades" where
  "observe_agent_upgrade_reconnect nodeID actualVersion ups =
     (case ups nodeID of
        None \<Rightarrow> ups
      | Some st \<Rightarrow>
          if ug_target_version st = actualVersion
          then ups(nodeID \<mapsto> st\<lparr>ug_stage := ''completed'', ug_actual_version := actualVersion, ug_error := []\<rparr>)
          else if ug_stage st = ''waiting_reconnect'' \<or> ug_stage st = ''preparing''
          then ups(nodeID \<mapsto> st\<lparr>ug_stage := ''failed'', ug_actual_version := actualVersion,
                 ug_error := (''Agent '' @ [CHR 0xE9, CHR 0x87, CHR 0x8D, CHR 0xE8, CHR 0xBF, CHR 0x9E, CHR 0xE5, CHR 0x90, CHR 0x8E, CHR 0xE4, CHR 0xBB, CHR 0x8D, CHR 0xE4, CHR 0xB8, CHR 0xBA, CHR 0xE7, CHR 0x89, CHR 0x88, CHR 0xE6, CHR 0x9C, CHR 0xAC] @ '' '') @ actualVersion @ ([CHR 0xE3, CHR 0x80, CHR 0x82])\<rparr>)
          else ups)"

definition expire_agent_upgrade :: "string \<Rightarrow> string \<Rightarrow> upgrades \<Rightarrow> upgrades" where
  "expire_agent_upgrade nodeID targetVersion ups =
     (case ups nodeID of
        None \<Rightarrow> ups
      | Some st \<Rightarrow>
          if ug_target_version st = targetVersion \<and> (ug_stage st = ''preparing'' \<or> ug_stage st = ''waiting_reconnect'')
          then ups(nodeID \<mapsto> st\<lparr>ug_stage := ''failed'', ug_error := ([CHR 0xE7, CHR 0xAD, CHR 0x89, CHR 0xE5, CHR 0xBE, CHR 0x85] @ '' Agent '' @ [CHR 0xE9, CHR 0x87, CHR 0x8D, CHR 0xE6, CHR 0x96, CHR 0xB0, CHR 0xE8, CHR 0xBF, CHR 0x9E, CHR 0xE6, CHR 0x8E, CHR 0xA5, CHR 0xE8, CHR 0xB6, CHR 0x85, CHR 0xE6, CHR 0x97, CHR 0xB6, CHR 0xE3, CHR 0x80, CHR 0x82])\<rparr>)
          else ups)"

definition record_agent_upgrade_response :: "string \<Rightarrow> string \<Rightarrow> string \<Rightarrow> string \<Rightarrow> upgrades \<Rightarrow> upgrades" where
  "record_agent_upgrade_response nodeID actualVersion stage err ups =
     (if stage \<noteq> ''failed'' then ups else set_agent_upgrade_failed nodeID actualVersion err ups)"

section \<open>Histories of an upgrade\<close>

datatype upgrade_event =
  BeginUpgrade string string string | FailUpgrade string string string | UpgradeAnswered string string bool string
| AgentReconnected string string | UpgradeExpired string string | UpgradeReported string string string string

fun apply_upgrade_event :: "upgrade_event \<Rightarrow> upgrades \<Rightarrow> upgrades" where
  "apply_upgrade_event (BeginUpgrade n target actual) = begin_upgrade n target actual"
| "apply_upgrade_event (FailUpgrade n actual reason) = set_agent_upgrade_failed n actual reason"
| "apply_upgrade_event (UpgradeAnswered n actual accepted err) = upgrade_answered n actual accepted err"
| "apply_upgrade_event (AgentReconnected n actual) = observe_agent_upgrade_reconnect n actual"
| "apply_upgrade_event (UpgradeExpired n target) = expire_agent_upgrade n target"
| "apply_upgrade_event (UpgradeReported n actual stage err) = record_agent_upgrade_response n actual stage err"

definition upgrades_ok :: "upgrades \<Rightarrow> bool" where
  "upgrades_ok ups \<longleftrightarrow> (\<forall>n st. ups n = Some st \<longrightarrow>
     ug_stage st \<in> {''preparing'', ''waiting_reconnect'', ''completed'', ''failed''}
     \<and> (ug_stage st = ''completed'' \<longrightarrow> ug_actual_version st = ug_target_version st))"

lemma upgrades_ok_update: "upgrades_ok ups \<Longrightarrow>
    ug_stage st \<in> {''preparing'', ''waiting_reconnect'', ''completed'', ''failed''} \<Longrightarrow>
    (ug_stage st = ''completed'' \<Longrightarrow> ug_actual_version st = ug_target_version st) \<Longrightarrow> upgrades_ok (ups(n \<mapsto> st))"
  by (auto simp: upgrades_ok_def)

lemma apply_upgrade_event_ok: "upgrades_ok ups \<Longrightarrow> upgrades_ok (apply_upgrade_event ev ups)"
  by (cases ev)
    (auto simp: Let_def begin_upgrade_def set_agent_upgrade_failed_def upgrade_answered_def accept_upgrade_def
      observe_agent_upgrade_reconnect_def expire_agent_upgrade_def record_agent_upgrade_response_def
      intro!: upgrades_ok_update split: option.split)

text \<open>The events after which the upgrade of node \<open>n\<close> is no longer shown as completed.\<close>

fun reopens_upgrade :: "string \<Rightarrow> upgrade_event \<Rightarrow> bool" where
  "reopens_upgrade n (BeginUpgrade m target actual) = (m = n)"
| "reopens_upgrade n (FailUpgrade m actual reason) = (m = n)"
| "reopens_upgrade n (UpgradeAnswered m actual accepted err) = (m = n)"
| "reopens_upgrade n (AgentReconnected m actual) = False"
| "reopens_upgrade n (UpgradeExpired m target) = False"
| "reopens_upgrade n (UpgradeReported m actual stage err) = (m = n \<and> stage = ''failed'')"

lemmas upgrade_event_defs = begin_upgrade_def set_agent_upgrade_failed_def upgrade_answered_def accept_upgrade_def
  observe_agent_upgrade_reconnect_def expire_agent_upgrade_def record_agent_upgrade_response_def upgrade_entry_def Let_def

lemma completed_by_event:
  assumes "apply_upgrade_event ev ups n = Some st" "ug_stage st = ''completed''"
  shows "ups n = Some st \<and> \<not> reopens_upgrade n ev
     \<or> (\<exists>st0. ev = AgentReconnected n (ug_target_version st) \<and> ups n = Some st0 \<and> ug_target_version st0 = ug_target_version st)"
  using assms by (cases ev) (auto simp: upgrade_event_defs split: option.splits if_splits)

lemma completed_after_event:
  assumes "ups n = Some st" "ug_stage st = ''completed''" "ug_actual_version st = ug_target_version st" "ug_error st = []" "\<not> reopens_upgrade n ev"
  shows "apply_upgrade_event ev ups n = Some st"
  using assms by (cases ev) (auto simp: upgrade_event_defs split: option.splits)

lemma completed_since:
  assumes "fold apply_upgrade_event evs Map.empty n = Some st" "ug_stage st = ''completed''"
  shows "\<exists>us vs st0. evs = us @ AgentReconnected n (ug_target_version st) # vs \<and> fold apply_upgrade_event us Map.empty n = Some st0
     \<and> ug_target_version st0 = ug_target_version st \<and> (\<forall>ev\<in>set vs. \<not> reopens_upgrade n ev)"
  using assms
proof (induction evs rule: rev_induct)
  case (snoc ev evs)
  let ?ups = "fold apply_upgrade_event evs Map.empty"
  from snoc.prems have "apply_upgrade_event ev ?ups n = Some st" by simp
  from completed_by_event [OF this snoc.prems(2)] show ?case
  proof (elim disjE conjE exE)
    assume before: "?ups n = Some st" and ev: "\<not> reopens_upgrade n ev"
    obtain us vs st0 where "evs = us @ AgentReconnected n (ug_target_version st) # vs" "fold apply_upgrade_event us Map.empty n = Some st0"
      "ug_target_version st0 = ug_target_version st" "\<forall>ev\<in>set vs. \<not> reopens_upgrade n ev"
      using snoc.IH [OF before snoc.prems(2)] by blast
    then show ?thesis using ev by (intro exI [of _ us] exI [of _ "vs @ [ev]"] exI [of _ st0]) auto
  next
    fix st0
    assume "ev = AgentReconnected n (ug_target_version st)" "?ups n = Some st0" "ug_target_version st0 = ug_target_version st"
    then show ?thesis by (intro exI [of _ evs] exI [of _ "[]"] exI [of _ st0]) simp
  qed
qed simp

lemma completed_stays:
  assumes "ups n = Some st" "ug_stage st = ''completed''" "ug_actual_version st = ug_target_version st" "ug_error st = []" "\<forall>ev\<in>set evs. \<not> reopens_upgrade n ev"
  shows "fold apply_upgrade_event evs ups n = Some st"
  using assms by (induction evs arbitrary: ups) (simp_all add: completed_after_event)

text \<open>C35: In every order of requests, answers, timers, reports and reconnections, the upgrade of a node to version \<open>t\<close> is
  shown as completed exactly when the agent has connected with version \<open>t\<close> while \<open>t\<close> was the target, and since that
  connection there was no new request, no answer and no failure for the node.  The version shown is then the target.
  Later connections with another version change nothing: the upgrade stays completed.
\<close>

theorem upgrade_completed_iff:
  "(\<exists>st. fold apply_upgrade_event evs Map.empty n = Some st \<and> ug_stage st = ''completed'' \<and> ug_target_version st = t)
     \<longleftrightarrow> (\<exists>us vs st0. evs = us @ AgentReconnected n t # vs \<and> fold apply_upgrade_event us Map.empty n = Some st0 \<and> ug_target_version st0 = t
            \<and> (\<forall>ev\<in>set vs. \<not> reopens_upgrade n ev) \<and> ug_actual_version (the (fold apply_upgrade_event evs Map.empty n)) = t)"
  (is "?completed \<longleftrightarrow> ?observed")
proof
  assume ?completed
  then obtain st where st: "fold apply_upgrade_event evs Map.empty n = Some st" "ug_stage st = ''completed''" "ug_target_version st = t" by blast
  have "upgrades_ok (fold apply_upgrade_event evs Map.empty)"
    by (induction evs rule: rev_induct) (simp_all add: apply_upgrade_event_ok, simp add: upgrades_ok_def)
  then have "ug_actual_version st = t" using st by (auto simp: upgrades_ok_def)
  then show ?observed using completed_since [OF st(1,2)] st by auto
next
  assume ?observed
  then obtain us vs st0 where h: "evs = us @ AgentReconnected n t # vs" "fold apply_upgrade_event us Map.empty n = Some st0" "ug_target_version st0 = t"
    "\<forall>ev\<in>set vs. \<not> reopens_upgrade n ev" by blast
  let ?st = "st0\<lparr>ug_stage := ''completed'', ug_actual_version := t, ug_error := []\<rparr>"
  have now: "apply_upgrade_event (AgentReconnected n t) (fold apply_upgrade_event us Map.empty) n = Some ?st"
    using h by (simp add: observe_agent_upgrade_reconnect_def)
  have "fold apply_upgrade_event vs (apply_upgrade_event (AgentReconnected n t) (fold apply_upgrade_event us Map.empty)) n = Some ?st"
    by (rule completed_stays [where n = n], rule now) (use h(3,4) in simp_all)
  then have "fold apply_upgrade_event evs Map.empty n = Some ?st" using h(1) by simp
  then show ?completed using h(3) by auto
qed

text \<open>The agent comes back with the new version, and then once more with the old one: the upgrade is still shown as completed.\<close>

theorem upgrade_completed_iff_witness:
  "\<exists>st. fold apply_upgrade_event [BeginUpgrade ''n1'' ''2'' ''1'', UpgradeAnswered ''n1'' ''1'' True [], AgentReconnected ''n1'' ''2'', AgentReconnected ''n1'' ''1'']
       Map.empty ''n1'' = Some st \<and> ug_stage st = ''completed'' \<and> ug_target_version st = ''2''"
  by (rule upgrade_completed_iff [THEN iffD2],
      rule exI [of _ "[BeginUpgrade ''n1'' ''2'' ''1'', UpgradeAnswered ''n1'' ''1'' True []]"], rule exI [of _ "[AgentReconnected ''n1'' ''1'']"])
    (simp add: upgrade_event_defs)

text \<open>
  The answer is read from a channel, so it can be recorded after the agent has already come back; the
  completed upgrade then waits again and its timer declares it failed.
\<close>

lemma completed_upgrade_may_expire:
  "ug_stage (the (fold apply_upgrade_event
     [BeginUpgrade ''n1'' ''2'' ''1'', AgentReconnected ''n1'' ''2'', UpgradeAnswered ''n1'' ''1'' True [], UpgradeExpired ''n1'' ''2''] Map.empty ''n1'')) = ''failed''"
  by (simp add: begin_upgrade_def upgrade_answered_def accept_upgrade_def upgrade_entry_def observe_agent_upgrade_reconnect_def expire_agent_upgrade_def)

end
