(* ===== verification/AiPlan.thy ===== *)
theory AiPlan
  imports AiTurns AiPolicy ConnectionEvents AgentUpgrade TaskStore UptimeModel
begin

text \<open>
  Plans of changes in \<^verbatim>\<open>internal/server/ai/service.go\<close> and \<^verbatim>\<open>accepted.go\<close>: how a plan is claimed by the administrator
  or by the policy, how its steps run one after the other, and how accepted operations are confirmed later.
  Each of these runs in a goroutine of its own; one step of the model is one access to the database, to the
  policy or to a tool.  The registry of tools is a parameter that may answer differently each time.
\<close>

section \<open>What the steps ask the registry\<close>

datatype plan_error = UnsupportedTool | PlanError

text \<open>\<open>pw_validate\<close> answers with the call and its arguments in canonical form.\<close>

record plan_world =
  pw_validate :: "string \<Rightarrow> string \<Rightarrow> plan_error + (tool_call \<times> string)"
  pw_unseal :: "string \<Rightarrow> string \<Rightarrow> plan_error + string"
  pw_tools :: "string \<Rightarrow> registered_tool option"
  pw_settings :: "settings_db option"

definition risk_confirm :: string where "risk_confirm = ''confirm''"

definition tool_arguments :: "plan_world \<Rightarrow> ai_tool_call \<Rightarrow> plan_error + string" where
  "tool_arguments w call =
     (if \<not> prefix (''{'' @ [CHR 0x22] @ ''sealed_tool_arguments'' @ [CHR 0x22] @ '':'') (al_arguments_json call) then Inr (al_arguments_json call)
      else pw_unseal w (al_id call) (al_arguments_json call))"

definition revalidate_plan_step :: "plan_world \<Rightarrow> ai_tool_call \<Rightarrow> plan_error + tool_call" where
  "revalidate_plan_step w step =
     bindE (tool_arguments w step) (\<lambda>arguments.
     bindE (pw_validate w (al_tool_name step) arguments) (\<lambda>(validated, canonical).
     if tc_risk validated \<noteq> risk_confirm \<or> canonical \<noteq> arguments \<or> tt_type (tc_target validated) \<noteq> al_target_type step
        \<or> tt_id (tc_target validated) \<noteq> al_target_id step \<or> tt_node_id (tc_target validated) \<noteq> al_node_id step
     then Inl PlanError else Inr validated))"

definition control_active :: "plan_world \<Rightarrow> bool" where
  "control_active w = (case control_policy (pw_settings w) of Inl e \<Rightarrow> False | Inr policy \<Rightarrow> cp_mode policy \<noteq> ai_control_paused)"

fun decision_text :: "policy_decision \<Rightarrow> string" where
  "decision_text PolicyRead = ''read''"
| "decision_text PolicyManual = ''manual_confirmation''"
| "decision_text PolicyAutonomous = ''autonomous_allowed''"
| "decision_text PolicyBlockedPaused = ''blocked_paused''"
| "decision_text PolicyBlockedScope = ''blocked_scope''"
| "decision_text PolicyBlockedAction = ''blocked_action''"
| "decision_text PolicyBlockedCapability = ''blocked_capability''"
| "decision_text PolicyBlockedVerifier = ''blocked_verifier''"
| "decision_text PolicyBlockedPolicy = ''blocked_policy''"

definition blocked :: "policy_decision \<Rightarrow> string \<Rightarrow> int \<Rightarrow> policy_result" where
  "blocked d reason revision = \<lparr>pr_decision = d, pr_reason = reason, pr_revision = revision, pr_action = []\<rparr>"

section \<open>Results of a step\<close>

datatype verification_status = VerificationSuccess | VerificationFailure | VerificationUnknown

fun verification_text :: "verification_status \<Rightarrow> string" where
  "verification_text VerificationSuccess = ''success''"
| "verification_text VerificationFailure = ''failure''"
| "verification_text VerificationUnknown = ''unknown''"

text \<open>What the tool returned, whether it failed, whether the request was cancelled meanwhile, and what its verifier found.\<close>

record tool_result =
  er_status :: string
  er_summary :: string
  er_operation :: string
  er_error :: "plan_error option"
  er_cancelled :: bool
  er_verification :: verification_status
  er_verification_summary :: string

record plan_outcome =
  po_status :: string
  po_summary :: string
  po_operation :: string
  po_verification :: string

fun rune_start_before :: "string \<Rightarrow> nat \<Rightarrow> nat" where
  "rune_start_before s 0 = 0"
| "rune_start_before s (Suc n) = (let b = of_char (s ! Suc n) :: nat in if 128 \<le> b \<and> b < 192 then rune_start_before s n else Suc n)"

definition bounded_string :: "string \<Rightarrow> nat \<Rightarrow> string" where
  "bounded_string raw maximum =
     (let s = to_valid_utf8 [] raw in if length s \<le> maximum then s else take (rune_start_before s maximum) s)"

definition verified_status :: "verification_status \<Rightarrow> string \<Rightarrow> string" where
  "verified_status v status = (case v of VerificationSuccess \<Rightarrow> status | VerificationFailure \<Rightarrow> ''failure'' | VerificationUnknown \<Rightarrow> ''interrupted'')"

definition plan_step_statuses :: "string list" where
  "plan_step_statuses = [''success'', ''accepted'', ''failure'', ''unsupported'', ''interrupted'']"

definition settle_result :: "tool_call \<Rightarrow> tool_result \<Rightarrow> plan_outcome" where
  "settle_result validated r =
     (let (status1, summary1) = (case er_error r of
              None \<Rightarrow> (if er_status r = [] then ''success'' else er_status r, er_summary r)
            | Some UnsupportedTool \<Rightarrow> (''unsupported'', ([CHR 0xE5, CHR 0xBD, CHR 0x93, CHR 0xE5, CHR 0x89, CHR 0x8D, CHR 0xE6, CHR 0xAD, CHR 0xA5, CHR 0xE9, CHR 0xAA, CHR 0xA4, CHR 0xE4, CHR 0xB8, CHR 0x8D, CHR 0xE5, CHR 0x8F, CHR 0x97, CHR 0xE6, CHR 0x94, CHR 0xAF, CHR 0xE6, CHR 0x8C, CHR 0x81]))
            | Some PlanError \<Rightarrow> if er_cancelled r then (''interrupted'', ([CHR 0xE6, CHR 0xAD, CHR 0xA5, CHR 0xE9, CHR 0xAA, CHR 0xA4, CHR 0xE6, CHR 0x89, CHR 0xA7, CHR 0xE8, CHR 0xA1, CHR 0x8C, CHR 0xE8, CHR 0xA2, CHR 0xAB, CHR 0xE4, CHR 0xB8, CHR 0xAD, CHR 0xE6, CHR 0x96, CHR 0xAD, CHR 0xEF, CHR 0xBC, CHR 0x8C, CHR 0xE7, CHR 0xBB, CHR 0x93, CHR 0xE6, CHR 0x9E, CHR 0x9C, CHR 0xE6, CHR 0x9C, CHR 0xAA, CHR 0xE7, CHR 0xA1, CHR 0xAE, CHR 0xE8, CHR 0xAE, CHR 0xA4])) else (''failure'', ([CHR 0xE6, CHR 0xAD, CHR 0xA5, CHR 0xE9, CHR 0xAA, CHR 0xA4, CHR 0xE6, CHR 0x89, CHR 0xA7, CHR 0xE8, CHR 0xA1, CHR 0x8C, CHR 0xE5, CHR 0xA4, CHR 0xB1, CHR 0xE8, CHR 0xB4, CHR 0xA5])));
          (status2, summary2) = (if status1 \<in> set plan_step_statuses then (status1, summary1) else (''failure'', ([CHR 0xE6, CHR 0xAD, CHR 0xA5, CHR 0xE9, CHR 0xAA, CHR 0xA4, CHR 0xE8, CHR 0xBF, CHR 0x94, CHR 0xE5, CHR 0x9B, CHR 0x9E, CHR 0xE4, CHR 0xBA, CHR 0x86, CHR 0xE6, CHR 0x97, CHR 0xA0, CHR 0xE6, CHR 0x95, CHR 0x88, CHR 0xE7, CHR 0x8A, CHR 0xB6, CHR 0xE6, CHR 0x80, CHR 0x81])));
          verifies = (er_error r = None \<and> status2 = ''success'' \<and> pm_verifier (tc_metadata validated) \<noteq> []);
          status = (if verifies then verified_status (er_verification r) status2 else status2);
          summary3 = (if verifies then er_verification_summary r else summary2);
          summary = (if trim_space summary3 = []
             then (if status = ''success'' then ([CHR 0xE6, CHR 0xAD, CHR 0xA5, CHR 0xE9, CHR 0xAA, CHR 0xA4, CHR 0xE6, CHR 0x89, CHR 0xA7, CHR 0xE8, CHR 0xA1, CHR 0x8C, CHR 0xE6, CHR 0x88, CHR 0x90, CHR 0xE5, CHR 0x8A, CHR 0x9F]) else if status = ''accepted'' then ([CHR 0xE6, CHR 0xAD, CHR 0xA5, CHR 0xE9, CHR 0xAA, CHR 0xA4, CHR 0xE5, CHR 0xB7, CHR 0xB2, CHR 0xE6, CHR 0x8E, CHR 0xA5, CHR 0xE5, CHR 0x8F, CHR 0x97, CHR 0xEF, CHR 0xBC, CHR 0x8C, CHR 0xE7, CHR 0xAD, CHR 0x89, CHR 0xE5, CHR 0xBE, CHR 0x85, CHR 0xE7, CHR 0xBB, CHR 0x93, CHR 0xE6, CHR 0x9E, CHR 0x9C, CHR 0xE7, CHR 0xA1, CHR 0xAE, CHR 0xE8, CHR 0xAE, CHR 0xA4]) else ([CHR 0xE6, CHR 0xAD, CHR 0xA5, CHR 0xE9, CHR 0xAA, CHR 0xA4, CHR 0xE6, CHR 0x9C, CHR 0xAA, CHR 0xE6, CHR 0x88, CHR 0x90, CHR 0xE5, CHR 0x8A, CHR 0x9F]))
             else summary3)
      in \<lparr>po_status = status, po_summary = bounded_string summary 512, po_operation = er_operation r,
          po_verification = (if verifies then verification_text (er_verification r) else [])\<rparr>)"

definition plan_validation_failure :: "plan_error \<Rightarrow> string \<times> string" where
  "plan_validation_failure e = (if e = UnsupportedTool then (''unsupported'', ([CHR 0xE5, CHR 0xBD, CHR 0x93, CHR 0xE5, CHR 0x89, CHR 0x8D, CHR 0xE6, CHR 0xAD, CHR 0xA5, CHR 0xE9, CHR 0xAA, CHR 0xA4, CHR 0xE4, CHR 0xB8, CHR 0x8D, CHR 0xE5, CHR 0x8F, CHR 0x97, CHR 0xE6, CHR 0x94, CHR 0xAF, CHR 0xE6, CHR 0x8C, CHR 0x81])) else (''failure'', ([CHR 0xE7, CHR 0x9B, CHR 0xAE, CHR 0xE6, CHR 0xA0, CHR 0x87, CHR 0xE6, CHR 0x88, CHR 0x96, CHR 0xE8, CHR 0x83, CHR 0xBD, CHR 0xE5, CHR 0x8A, CHR 0x9B, CHR 0xE5, CHR 0xB7, CHR 0xB2, CHR 0xE5, CHR 0x8F, CHR 0x98, CHR 0xE5, CHR 0x8C, CHR 0x96, CHR 0xEF, CHR 0xBC, CHR 0x8C, CHR 0xE8, CHR 0xAE, CHR 0xA1, CHR 0xE5, CHR 0x88, CHR 0x92, CHR 0xE6, CHR 0x9C, CHR 0xAA, CHR 0xE6, CHR 0x89, CHR 0xA7, CHR 0xE8, CHR 0xA1, CHR 0x8C])))"

definition plain_outcome :: "string \<Rightarrow> string \<Rightarrow> plan_outcome" where
  "plain_outcome status summary = \<lparr>po_status = status, po_summary = summary, po_operation = [], po_verification = []\<rparr>"

definition policy_execution_failure_summary :: "policy_result \<Rightarrow> string" where
  "policy_execution_failure_summary p = (case pr_decision p of
     PolicyBlockedPaused \<Rightarrow> (''AI '' @ [CHR 0xE6, CHR 0x8E, CHR 0xA7, CHR 0xE5, CHR 0x88, CHR 0xB6, CHR 0xE5, CHR 0xB9, CHR 0xB3, CHR 0xE9, CHR 0x9D, CHR 0xA2, CHR 0xE5, CHR 0xB7, CHR 0xB2, CHR 0xE6, CHR 0x9A, CHR 0x82, CHR 0xE5, CHR 0x81, CHR 0x9C, CHR 0xEF, CHR 0xBC, CHR 0x8C, CHR 0xE5, CHR 0xBD, CHR 0x93, CHR 0xE5, CHR 0x89, CHR 0x8D, CHR 0xE5, CHR 0x8F, CHR 0x8A, CHR 0xE5, CHR 0x90, CHR 0x8E, CHR 0xE7, CHR 0xBB, CHR 0xAD, CHR 0xE6, CHR 0xAD, CHR 0xA5, CHR 0xE9, CHR 0xAA, CHR 0xA4, CHR 0xE6, CHR 0x9C, CHR 0xAA, CHR 0xE6, CHR 0x89, CHR 0xA7, CHR 0xE8, CHR 0xA1, CHR 0x8C])
   | PolicyBlockedScope \<Rightarrow> ([CHR 0xE8, CHR 0x8A, CHR 0x82, CHR 0xE7, CHR 0x82, CHR 0xB9, CHR 0xE5, CHR 0xB7, CHR 0xB2, CHR 0xE4, CHR 0xB8, CHR 0x8D, CHR 0xE5, CHR 0x9C, CHR 0xA8, CHR 0xE8, CHR 0x87, CHR 0xAA, CHR 0xE5, CHR 0x8A, CHR 0xA8, CHR 0xE6, CHR 0x89, CHR 0xA7, CHR 0xE8, CHR 0xA1, CHR 0x8C, CHR 0xE8, CHR 0x8C, CHR 0x83, CHR 0xE5, CHR 0x9B, CHR 0xB4, CHR 0xE5, CHR 0x86, CHR 0x85, CHR 0xEF, CHR 0xBC, CHR 0x8C, CHR 0xE6, CHR 0xAD, CHR 0xA5, CHR 0xE9, CHR 0xAA, CHR 0xA4, CHR 0xE6, CHR 0x9C, CHR 0xAA, CHR 0xE6, CHR 0x89, CHR 0xA7, CHR 0xE8, CHR 0xA1, CHR 0x8C])
   | PolicyBlockedAction \<Rightarrow> ([CHR 0xE6, CHR 0x93, CHR 0x8D, CHR 0xE4, CHR 0xBD, CHR 0x9C, CHR 0xE5, CHR 0xB7, CHR 0xB2, CHR 0xE4, CHR 0xB8, CHR 0x8D, CHR 0xE5, CHR 0x9C, CHR 0xA8, CHR 0xE8, CHR 0x87, CHR 0xAA, CHR 0xE5, CHR 0x8A, CHR 0xA8, CHR 0xE6, CHR 0x89, CHR 0xA7, CHR 0xE8, CHR 0xA1, CHR 0x8C, CHR 0xE8, CHR 0x8C, CHR 0x83, CHR 0xE5, CHR 0x9B, CHR 0xB4, CHR 0xE5, CHR 0x86, CHR 0x85, CHR 0xEF, CHR 0xBC, CHR 0x8C, CHR 0xE6, CHR 0xAD, CHR 0xA5, CHR 0xE9, CHR 0xAA, CHR 0xA4, CHR 0xE6, CHR 0x9C, CHR 0xAA, CHR 0xE6, CHR 0x89, CHR 0xA7, CHR 0xE8, CHR 0xA1, CHR 0x8C])
   | PolicyBlockedCapability \<Rightarrow> ([CHR 0xE7, CHR 0x9B, CHR 0xAE, CHR 0xE6, CHR 0xA0, CHR 0x87, CHR 0xE8, CHR 0x83, CHR 0xBD, CHR 0xE5, CHR 0x8A, CHR 0x9B, CHR 0xE5, CHR 0xBD, CHR 0x93, CHR 0xE5, CHR 0x89, CHR 0x8D, CHR 0xE4, CHR 0xB8, CHR 0x8D, CHR 0xE5, CHR 0x8F, CHR 0xAF, CHR 0xE7, CHR 0x94, CHR 0xA8, CHR 0xEF, CHR 0xBC, CHR 0x8C, CHR 0xE6, CHR 0xAD, CHR 0xA5, CHR 0xE9, CHR 0xAA, CHR 0xA4, CHR 0xE6, CHR 0x9C, CHR 0xAA, CHR 0xE6, CHR 0x89, CHR 0xA7, CHR 0xE8, CHR 0xA1, CHR 0x8C])
   | PolicyBlockedVerifier \<Rightarrow> ([CHR 0xE6, CHR 0x9C, CHR 0x80, CHR 0xE7, CHR 0xBB, CHR 0x88, CHR 0xE7, CHR 0x8A, CHR 0xB6, CHR 0xE6, CHR 0x80, CHR 0x81, CHR 0xE9, CHR 0xAA, CHR 0x8C, CHR 0xE8, CHR 0xAF, CHR 0x81, CHR 0xE4, CHR 0xB8, CHR 0x8D, CHR 0xE5, CHR 0x8F, CHR 0xAF, CHR 0xE7, CHR 0x94, CHR 0xA8, CHR 0xEF, CHR 0xBC, CHR 0x8C, CHR 0xE6, CHR 0xAD, CHR 0xA5, CHR 0xE9, CHR 0xAA, CHR 0xA4, CHR 0xE6, CHR 0x9C, CHR 0xAA, CHR 0xE6, CHR 0x89, CHR 0xA7, CHR 0xE8, CHR 0xA1, CHR 0x8C])
   | PolicyBlockedPolicy \<Rightarrow> ([CHR 0xE6, CHR 0x97, CHR 0xA0, CHR 0xE6, CHR 0xB3, CHR 0x95, CHR 0xE8, CHR 0xAF, CHR 0xBB, CHR 0xE5, CHR 0x8F, CHR 0x96] @ '' AI '' @ [CHR 0xE6, CHR 0x8E, CHR 0xA7, CHR 0xE5, CHR 0x88, CHR 0xB6, CHR 0xE7, CHR 0xAD, CHR 0x96, CHR 0xE7, CHR 0x95, CHR 0xA5, CHR 0xEF, CHR 0xBC, CHR 0x8C, CHR 0xE6, CHR 0xAD, CHR 0xA5, CHR 0xE9, CHR 0xAA, CHR 0xA4, CHR 0xE6, CHR 0x9C, CHR 0xAA, CHR 0xE6, CHR 0x89, CHR 0xA7, CHR 0xE8, CHR 0xA1, CHR 0x8C])
   | _ \<Rightarrow> ([CHR 0xE8, CHR 0x87, CHR 0xAA, CHR 0xE5, CHR 0x8A, CHR 0xA8, CHR 0xE6, CHR 0x89, CHR 0xA7, CHR 0xE8, CHR 0xA1, CHR 0x8C, CHR 0xE7, CHR 0xAD, CHR 0x96, CHR 0xE7, CHR 0x95, CHR 0xA5, CHR 0xE5, CHR 0xB7, CHR 0xB2, CHR 0xE5, CHR 0x8F, CHR 0x98, CHR 0xE5, CHR 0x8C, CHR 0x96, CHR 0xEF, CHR 0xBC, CHR 0x8C, CHR 0xE6, CHR 0xAD, CHR 0xA5, CHR 0xE9, CHR 0xAA, CHR 0xA4, CHR 0xE6, CHR 0x9C, CHR 0xAA, CHR 0xE6, CHR 0x89, CHR 0xA7, CHR 0xE8, CHR 0xA1, CHR 0x8C]))"

definition plan_result_message :: "ai_tool_call list \<Rightarrow> string" where
  "plan_result_message steps =
     (let success = count_rows (\<lambda>c. al_status c = ''success'') steps;
          skipped = count_rows (\<lambda>c. al_status c = ''skipped'' \<or> al_status c = ''rejected'') steps;
          unknown = count_rows (\<lambda>c. al_verification_status c = verification_text VerificationUnknown) steps;
          failed = length steps - success - skipped;
          autonomous = (steps \<noteq> [] \<and> list_all (\<lambda>c. al_policy_decision c = decision_text PolicyAutonomous) steps)
      in if list_ex (\<lambda>c. al_policy_reason c = ''paused'' \<or> contains (al_result_summary c) ([CHR 0xE6, CHR 0x8E, CHR 0xA7, CHR 0xE5, CHR 0x88, CHR 0xB6, CHR 0xE5, CHR 0xB9, CHR 0xB3, CHR 0xE9, CHR 0x9D, CHR 0xA2, CHR 0xE5, CHR 0xB7, CHR 0xB2, CHR 0xE6, CHR 0x9A, CHR 0x82, CHR 0xE5, CHR 0x81, CHR 0x9C])) steps
         then (''AI '' @ [CHR 0xE6, CHR 0x8E, CHR 0xA7, CHR 0xE5, CHR 0x88, CHR 0xB6, CHR 0xE5, CHR 0xB9, CHR 0xB3, CHR 0xE9, CHR 0x9D, CHR 0xA2, CHR 0xE5, CHR 0xB7, CHR 0xB2, CHR 0xE6, CHR 0x9A, CHR 0x82, CHR 0xE5, CHR 0x81, CHR 0x9C, CHR 0xEF, CHR 0xBC, CHR 0x8C, CHR 0xE6, CHR 0x96, CHR 0xB0, CHR 0xE6, CHR 0xAD, CHR 0xA5, CHR 0xE9, CHR 0xAA, CHR 0xA4, CHR 0xE6, CHR 0x9C, CHR 0xAA, CHR 0xE6, CHR 0x89, CHR 0xA7, CHR 0xE8, CHR 0xA1, CHR 0x8C, CHR 0xEF, CHR 0xBC, CHR 0x9B, CHR 0xE5, CHR 0xB7, CHR 0xB2, CHR 0xE7, CHR 0xBB, CHR 0x8F, CHR 0xE6, CHR 0x8E, CHR 0xA5, CHR 0xE5, CHR 0x8F, CHR 0x97, CHR 0xE7, CHR 0x9A, CHR 0x84, CHR 0xE8, CHR 0xBF, CHR 0x9C, CHR 0xE7, CHR 0xAB, CHR 0xAF, CHR 0xE6, CHR 0x93, CHR 0x8D, CHR 0xE4, CHR 0xBD, CHR 0x9C, CHR 0xE4, CHR 0xB8, CHR 0x8D, CHR 0xE4, CHR 0xBC, CHR 0x9A, CHR 0xE8, CHR 0xA2, CHR 0xAB, CHR 0xE6, CHR 0x92, CHR 0xA4, CHR 0xE5, CHR 0x9B, CHR 0x9E, CHR 0xE3, CHR 0x80, CHR 0x82])
         else if success = length steps
         then (if autonomous then ([CHR 0xE5, CHR 0xB7, CHR 0xB2, CHR 0xE6, CHR 0x8C, CHR 0x89, CHR 0xE4, CHR 0xBD, CHR 0x8E, CHR 0xE9, CHR 0xA3, CHR 0x8E, CHR 0xE9, CHR 0x99, CHR 0xA9, CHR 0xE8, CHR 0x87, CHR 0xAA, CHR 0xE5, CHR 0x8A, CHR 0xA8, CHR 0xE6, CHR 0x89, CHR 0xA7, CHR 0xE8, CHR 0xA1, CHR 0x8C, CHR 0xE7, CHR 0xAD, CHR 0x96, CHR 0xE7, CHR 0x95, CHR 0xA5, CHR 0xE5, CHR 0xAE, CHR 0x8C, CHR 0xE6, CHR 0x88, CHR 0x90, CHR 0xEF, CHR 0xBC, CHR 0x9A]) @ show_nat success @ ('' '' @ [CHR 0xE4, CHR 0xB8, CHR 0xAA, CHR 0xE6, CHR 0xAD, CHR 0xA5, CHR 0xE9, CHR 0xAA, CHR 0xA4, CHR 0xE5, CHR 0x9D, CHR 0x87, CHR 0xE5, CHR 0xB7, CHR 0xB2, CHR 0xE9, CHR 0xAA, CHR 0x8C, CHR 0xE8, CHR 0xAF, CHR 0x81, CHR 0xE6, CHR 0x88, CHR 0x90, CHR 0xE5, CHR 0x8A, CHR 0x9F, CHR 0xE3, CHR 0x80, CHR 0x82])
               else ([CHR 0xE5, CHR 0x8F, CHR 0x98, CHR 0xE6, CHR 0x9B, CHR 0xB4, CHR 0xE8, CHR 0xAE, CHR 0xA1, CHR 0xE5, CHR 0x88, CHR 0x92, CHR 0xE6, CHR 0x89, CHR 0xA7, CHR 0xE8, CHR 0xA1, CHR 0x8C, CHR 0xE5, CHR 0xAE, CHR 0x8C, CHR 0xE6, CHR 0x88, CHR 0x90, CHR 0xEF, CHR 0xBC, CHR 0x9A]) @ show_nat success @ ('' '' @ [CHR 0xE4, CHR 0xB8, CHR 0xAA, CHR 0xE6, CHR 0xAD, CHR 0xA5, CHR 0xE9, CHR 0xAA, CHR 0xA4, CHR 0xE5, CHR 0x85, CHR 0xA8, CHR 0xE9, CHR 0x83, CHR 0xA8, CHR 0xE6, CHR 0x88, CHR 0x90, CHR 0xE5, CHR 0x8A, CHR 0x9F, CHR 0xE3, CHR 0x80, CHR 0x82]))
         else if unknown > 0 then ([CHR 0xE5, CHR 0x8F, CHR 0x98, CHR 0xE6, CHR 0x9B, CHR 0xB4, CHR 0xE8, CHR 0xAE, CHR 0xA1, CHR 0xE5, CHR 0x88, CHR 0x92, CHR 0xE6, CHR 0x89, CHR 0xA7, CHR 0xE8, CHR 0xA1, CHR 0x8C, CHR 0xE7, CHR 0xBB, CHR 0x93, CHR 0xE6, CHR 0x9D, CHR 0x9F, CHR 0xEF, CHR 0xBC, CHR 0x9A]) @ show_nat unknown @ ('' '' @ [CHR 0xE4, CHR 0xB8, CHR 0xAA, CHR 0xE6, CHR 0xAD, CHR 0xA5, CHR 0xE9, CHR 0xAA, CHR 0xA4, CHR 0xE7, CHR 0x8A, CHR 0xB6, CHR 0xE6, CHR 0x80, CHR 0x81, CHR 0xE6, CHR 0x97, CHR 0xA0, CHR 0xE6, CHR 0xB3, CHR 0x95, CHR 0xE7, CHR 0xA1, CHR 0xAE, CHR 0xE8, CHR 0xAE, CHR 0xA4, CHR 0xEF, CHR 0xBC, CHR 0x8C, CHR 0xE6, CHR 0x9C, CHR 0xAA, CHR 0xE8, CHR 0x87, CHR 0xAA, CHR 0xE5, CHR 0x8A, CHR 0xA8, CHR 0xE9, CHR 0x87, CHR 0x8D, CHR 0xE8, CHR 0xAF, CHR 0x95, CHR 0xE3, CHR 0x80, CHR 0x82])
         else ([CHR 0xE5, CHR 0x8F, CHR 0x98, CHR 0xE6, CHR 0x9B, CHR 0xB4, CHR 0xE8, CHR 0xAE, CHR 0xA1, CHR 0xE5, CHR 0x88, CHR 0x92, CHR 0xE6, CHR 0x89, CHR 0xA7, CHR 0xE8, CHR 0xA1, CHR 0x8C, CHR 0xE7, CHR 0xBB, CHR 0x93, CHR 0xE6, CHR 0x9D, CHR 0x9F, CHR 0xEF, CHR 0xBC, CHR 0x9A, CHR 0xE6, CHR 0x88, CHR 0x90, CHR 0xE5, CHR 0x8A, CHR 0x9F] @ '' '') @ show_nat success @ ([CHR 0xEF, CHR 0xBC, CHR 0x8C, CHR 0xE5, CHR 0xA4, CHR 0xB1, CHR 0xE8, CHR 0xB4, CHR 0xA5] @ '' '') @ show_nat failed @ ([CHR 0xEF, CHR 0xBC, CHR 0x8C, CHR 0xE8, CHR 0xB7, CHR 0xB3, CHR 0xE8, CHR 0xBF, CHR 0x87] @ '' '') @ show_nat skipped @ ([CHR 0xE3, CHR 0x80, CHR 0x82]))"

text \<open>The steps as they will be when the plan is finished, for the message.\<close>

definition skip_projection :: "ai_tool_call \<Rightarrow> ai_tool_call" where
  "skip_projection c = (if al_status c = ''queued'' then c\<lparr>al_status := ''skipped''\<rparr> else c)"

definition project_step :: "string \<Rightarrow> plan_outcome \<Rightarrow> ai_tool_call \<Rightarrow> ai_tool_call" where
  "project_step i r c = (if al_id c = i then c\<lparr>al_status := po_status r, al_result_summary := po_summary r, al_verification_status := po_verification r\<rparr>
     else skip_projection c)"

section \<open>Accepted operations\<close>

text \<open>What the verifier can see: the log of connections, the upgrades with the version an agent reported, and the runs of scripts.\<close>

record evidence =
  ev_nodes :: "node_db option"
  ev_upgrades :: "(upgrades \<times> string) option"
  ev_version :: string
  ev_tasks :: "task_db option"

definition accepted_operation_max_age :: duration where "accepted_operation_max_age = seconds (31 * 60)"
definition accepted_reboot_grace_period :: duration where "accepted_reboot_grace_period = seconds 2"

text \<open>The outcome and the text for the conversation; nothing while the operation is still going on.\<close>

definition verify_accepted_operation :: "time \<Rightarrow> evidence \<Rightarrow> ai_tool_call \<Rightarrow> (plan_outcome \<times> string) option" where
  "verify_accepted_operation now e call =
     (if al_updated_at call \<noteq> 0 \<and> time_sub now (al_updated_at call) \<ge> accepted_operation_max_age
      then Some (plain_outcome ''failure'' ([CHR 0xE6, CHR 0x93, CHR 0x8D, CHR 0xE4, CHR 0xBD, CHR 0x9C, CHR 0xE7, CHR 0xBB, CHR 0x93, CHR 0xE6, CHR 0x9E, CHR 0x9C, CHR 0xE5, CHR 0x9C, CHR 0xA8, CHR 0xE9, CHR 0x99, CHR 0x90, CHR 0xE5, CHR 0xAE, CHR 0x9A, CHR 0xE6, CHR 0x97, CHR 0xB6, CHR 0xE9, CHR 0x97, CHR 0xB4, CHR 0xE5, CHR 0x86, CHR 0x85, CHR 0xE6, CHR 0x9C, CHR 0xAA, CHR 0xE7, CHR 0xA1, CHR 0xAE, CHR 0xE8, CHR 0xAE, CHR 0xA4]), ([CHR 0xE6, CHR 0x93, CHR 0x8D, CHR 0xE4, CHR 0xBD, CHR 0x9C, CHR 0xE7, CHR 0xBB, CHR 0x93, CHR 0xE6, CHR 0x9E, CHR 0x9C, CHR 0xE5, CHR 0x9C, CHR 0xA8, CHR 0xE9, CHR 0x99, CHR 0x90, CHR 0xE5, CHR 0xAE, CHR 0x9A, CHR 0xE6, CHR 0x97, CHR 0xB6, CHR 0xE9, CHR 0x97, CHR 0xB4, CHR 0xE5, CHR 0x86, CHR 0x85, CHR 0xE6, CHR 0x9C, CHR 0xAA, CHR 0xE7, CHR 0xA1, CHR 0xAE, CHR 0xE8, CHR 0xAE, CHR 0xA4, CHR 0xEF, CHR 0xBC, CHR 0x8C, CHR 0xE6, CHR 0x9C, CHR 0xAA, CHR 0xE9, CHR 0x87, CHR 0x8D, CHR 0xE8, CHR 0xAF, CHR 0x95, CHR 0xE3, CHR 0x80, CHR 0x82]))
      else if al_tool_name call = ''reboot_node'' then
        (case ev_nodes e of
           None \<Rightarrow> Some (plain_outcome ''interrupted'' ([CHR 0xE6, CHR 0x9C, CHR 0x8D, CHR 0xE5, CHR 0x8A, CHR 0xA1, CHR 0xE6, CHR 0x97, CHR 0xA0, CHR 0xE6, CHR 0xB3, CHR 0x95, CHR 0xE7, CHR 0xA1, CHR 0xAE, CHR 0xE8, CHR 0xAE, CHR 0xA4, CHR 0xE9, CHR 0x87, CHR 0x8D, CHR 0xE5, CHR 0x90, CHR 0xAF, CHR 0xE7, CHR 0xBB, CHR 0x93, CHR 0xE6, CHR 0x9E, CHR 0x9C, CHR 0xEF, CHR 0xBC, CHR 0x8C, CHR 0xE6, CHR 0x9C, CHR 0xAA, CHR 0xE9, CHR 0x87, CHR 0x8D, CHR 0xE8, CHR 0xAF, CHR 0x95]), ([CHR 0xE6, CHR 0x9C, CHR 0x8D, CHR 0xE5, CHR 0x8A, CHR 0xA1, CHR 0xE6, CHR 0x97, CHR 0xA0, CHR 0xE6, CHR 0xB3, CHR 0x95, CHR 0xE7, CHR 0xA1, CHR 0xAE, CHR 0xE8, CHR 0xAE, CHR 0xA4, CHR 0xE9, CHR 0x87, CHR 0x8D, CHR 0xE5, CHR 0x90, CHR 0xAF, CHR 0xE7, CHR 0xBB, CHR 0x93, CHR 0xE6, CHR 0x9E, CHR 0x9C, CHR 0xEF, CHR 0xBC, CHR 0x8C, CHR 0xE6, CHR 0x9C, CHR 0xAA, CHR 0xE9, CHR 0x87, CHR 0x8D, CHR 0xE8, CHR 0xAF, CHR 0x95, CHR 0xE3, CHR 0x80, CHR 0x82]))
         | Some nodes \<Rightarrow>
             if al_node_id call = [] then Some (plain_outcome ''interrupted'' ([CHR 0xE6, CHR 0x9C, CHR 0x8D, CHR 0xE5, CHR 0x8A, CHR 0xA1, CHR 0xE6, CHR 0x97, CHR 0xA0, CHR 0xE6, CHR 0xB3, CHR 0x95, CHR 0xE7, CHR 0xA1, CHR 0xAE, CHR 0xE8, CHR 0xAE, CHR 0xA4, CHR 0xE9, CHR 0x87, CHR 0x8D, CHR 0xE5, CHR 0x90, CHR 0xAF, CHR 0xE7, CHR 0xBB, CHR 0x93, CHR 0xE6, CHR 0x9E, CHR 0x9C, CHR 0xEF, CHR 0xBC, CHR 0x8C, CHR 0xE6, CHR 0x9C, CHR 0xAA, CHR 0xE9, CHR 0x87, CHR 0x8D, CHR 0xE8, CHR 0xAF, CHR 0x95]), ([CHR 0xE6, CHR 0x9C, CHR 0x8D, CHR 0xE5, CHR 0x8A, CHR 0xA1, CHR 0xE6, CHR 0x97, CHR 0xA0, CHR 0xE6, CHR 0xB3, CHR 0x95, CHR 0xE7, CHR 0xA1, CHR 0xAE, CHR 0xE8, CHR 0xAE, CHR 0xA4, CHR 0xE9, CHR 0x87, CHR 0x8D, CHR 0xE5, CHR 0x90, CHR 0xAF, CHR 0xE7, CHR 0xBB, CHR 0x93, CHR 0xE6, CHR 0x9E, CHR 0x9C, CHR 0xEF, CHR 0xBC, CHR 0x8C, CHR 0xE6, CHR 0x9C, CHR 0xAA, CHR 0xE9, CHR 0x87, CHR 0x8D, CHR 0xE8, CHR 0xAF, CHR 0x95, CHR 0xE3, CHR 0x80, CHR 0x82]))
             else if time_sub now (al_updated_at call) < accepted_reboot_grace_period then None
             else if reboot_completed_after nodes (al_node_id call) (al_updated_at call)
             then Some (plain_outcome ''success'' ([CHR 0xE8, CHR 0x8A, CHR 0x82, CHR 0xE7, CHR 0x82, CHR 0xB9, CHR 0xE5, CHR 0xB7, CHR 0xB2, CHR 0xE9, CHR 0x87, CHR 0x8D, CHR 0xE6, CHR 0x96, CHR 0xB0, CHR 0xE4, CHR 0xB8, CHR 0x8A, CHR 0xE7, CHR 0xBA, CHR 0xBF]), ([CHR 0xE8, CHR 0x8A, CHR 0x82, CHR 0xE7, CHR 0x82, CHR 0xB9, CHR 0xE5, CHR 0xB7, CHR 0xB2, CHR 0xE9, CHR 0x87, CHR 0x8D, CHR 0xE6, CHR 0x96, CHR 0xB0, CHR 0xE4, CHR 0xB8, CHR 0x8A, CHR 0xE7, CHR 0xBA, CHR 0xBF, CHR 0xEF, CHR 0xBC, CHR 0x8C, CHR 0xE9, CHR 0x87, CHR 0x8D, CHR 0xE5, CHR 0x90, CHR 0xAF, CHR 0xE6, CHR 0x93, CHR 0x8D, CHR 0xE4, CHR 0xBD, CHR 0x9C, CHR 0xE5, CHR 0xAE, CHR 0x8C, CHR 0xE6, CHR 0x88, CHR 0x90, CHR 0xE3, CHR 0x80, CHR 0x82])) else None)
      else if al_tool_name call = ''upgrade_agent'' then
        (case ev_upgrades e of
           None \<Rightarrow> Some (plain_outcome ''interrupted'' ([CHR 0xE6, CHR 0x9C, CHR 0x8D, CHR 0xE5, CHR 0x8A, CHR 0xA1, CHR 0xE6, CHR 0x97, CHR 0xA0, CHR 0xE6, CHR 0xB3, CHR 0x95, CHR 0xE7, CHR 0xA1, CHR 0xAE, CHR 0xE8, CHR 0xAE, CHR 0xA4] @ '' Agent '' @ [CHR 0xE5, CHR 0x8D, CHR 0x87, CHR 0xE7, CHR 0xBA, CHR 0xA7, CHR 0xE7, CHR 0xBB, CHR 0x93, CHR 0xE6, CHR 0x9E, CHR 0x9C, CHR 0xEF, CHR 0xBC, CHR 0x8C, CHR 0xE6, CHR 0x9C, CHR 0xAA, CHR 0xE9, CHR 0x87, CHR 0x8D, CHR 0xE8, CHR 0xAF, CHR 0x95]), ([CHR 0xE6, CHR 0x9C, CHR 0x8D, CHR 0xE5, CHR 0x8A, CHR 0xA1, CHR 0xE6, CHR 0x97, CHR 0xA0, CHR 0xE6, CHR 0xB3, CHR 0x95, CHR 0xE7, CHR 0xA1, CHR 0xAE, CHR 0xE8, CHR 0xAE, CHR 0xA4] @ '' Agent '' @ [CHR 0xE5, CHR 0x8D, CHR 0x87, CHR 0xE7, CHR 0xBA, CHR 0xA7, CHR 0xE7, CHR 0xBB, CHR 0x93, CHR 0xE6, CHR 0x9E, CHR 0x9C, CHR 0xEF, CHR 0xBC, CHR 0x8C, CHR 0xE6, CHR 0x9C, CHR 0xAA, CHR 0xE9, CHR 0x87, CHR 0x8D, CHR 0xE8, CHR 0xAF, CHR 0x95, CHR 0xE3, CHR 0x80, CHR 0x82]))
         | Some (ups, reported) \<Rightarrow>
             if al_node_id call = [] then Some (plain_outcome ''interrupted'' ([CHR 0xE6, CHR 0x9C, CHR 0x8D, CHR 0xE5, CHR 0x8A, CHR 0xA1, CHR 0xE6, CHR 0x97, CHR 0xA0, CHR 0xE6, CHR 0xB3, CHR 0x95, CHR 0xE7, CHR 0xA1, CHR 0xAE, CHR 0xE8, CHR 0xAE, CHR 0xA4] @ '' Agent '' @ [CHR 0xE5, CHR 0x8D, CHR 0x87, CHR 0xE7, CHR 0xBA, CHR 0xA7, CHR 0xE7, CHR 0xBB, CHR 0x93, CHR 0xE6, CHR 0x9E, CHR 0x9C, CHR 0xEF, CHR 0xBC, CHR 0x8C, CHR 0xE6, CHR 0x9C, CHR 0xAA, CHR 0xE9, CHR 0x87, CHR 0x8D, CHR 0xE8, CHR 0xAF, CHR 0x95]), ([CHR 0xE6, CHR 0x9C, CHR 0x8D, CHR 0xE5, CHR 0x8A, CHR 0xA1, CHR 0xE6, CHR 0x97, CHR 0xA0, CHR 0xE6, CHR 0xB3, CHR 0x95, CHR 0xE7, CHR 0xA1, CHR 0xAE, CHR 0xE8, CHR 0xAE, CHR 0xA4] @ '' Agent '' @ [CHR 0xE5, CHR 0x8D, CHR 0x87, CHR 0xE7, CHR 0xBA, CHR 0xA7, CHR 0xE7, CHR 0xBB, CHR 0x93, CHR 0xE6, CHR 0x9E, CHR 0x9C, CHR 0xEF, CHR 0xBC, CHR 0x8C, CHR 0xE6, CHR 0x9C, CHR 0xAA, CHR 0xE9, CHR 0x87, CHR 0x8D, CHR 0xE8, CHR 0xAF, CHR 0x95, CHR 0xE3, CHR 0x80, CHR 0x82]))
             else (let st = agent_upgrade_status ups (al_node_id call) reported in
               if ug_stage st = ''completed'' then Some (plain_outcome ''success'' (''Agent '' @ [CHR 0xE5, CHR 0x8D, CHR 0x87, CHR 0xE7, CHR 0xBA, CHR 0xA7, CHR 0xE5, CHR 0xAE, CHR 0x8C, CHR 0xE6, CHR 0x88, CHR 0x90]), (''Agent '' @ [CHR 0xE5, CHR 0x8D, CHR 0x87, CHR 0xE7, CHR 0xBA, CHR 0xA7, CHR 0xE5, CHR 0xAE, CHR 0x8C, CHR 0xE6, CHR 0x88, CHR 0x90, CHR 0xE3, CHR 0x80, CHR 0x82]))
               else if ug_stage st = ''failed'' then Some (plain_outcome ''failure'' (''Agent '' @ [CHR 0xE5, CHR 0x8D, CHR 0x87, CHR 0xE7, CHR 0xBA, CHR 0xA7, CHR 0xE5, CHR 0xA4, CHR 0xB1, CHR 0xE8, CHR 0xB4, CHR 0xA5]), (''Agent '' @ [CHR 0xE5, CHR 0x8D, CHR 0x87, CHR 0xE7, CHR 0xBA, CHR 0xA7, CHR 0xE5, CHR 0xA4, CHR 0xB1, CHR 0xE8, CHR 0xB4, CHR 0xA5, CHR 0xEF, CHR 0xBC, CHR 0x8C, CHR 0xE6, CHR 0x9C, CHR 0xAA, CHR 0xE9, CHR 0x87, CHR 0x8D, CHR 0xE8, CHR 0xAF, CHR 0x95, CHR 0xE3, CHR 0x80, CHR 0x82]))
               else if ug_stage st = ''idle'' \<and> ug_actual_version st = ev_version e
               then Some (plain_outcome ''success'' (''Agent '' @ [CHR 0xE5, CHR 0x8D, CHR 0x87, CHR 0xE7, CHR 0xBA, CHR 0xA7, CHR 0xE5, CHR 0xAE, CHR 0x8C, CHR 0xE6, CHR 0x88, CHR 0x90]), (''Agent '' @ [CHR 0xE5, CHR 0x8D, CHR 0x87, CHR 0xE7, CHR 0xBA, CHR 0xA7, CHR 0xE5, CHR 0xAE, CHR 0x8C, CHR 0xE6, CHR 0x88, CHR 0x90, CHR 0xE3, CHR 0x80, CHR 0x82]))
               else None))
      else if al_tool_name call = ''run_saved_script'' then
        (case (atoi (al_operation_id call), ev_tasks e) of
           (Some runID, Some tasks) \<Rightarrow>
             if runID \<le> 0 then Some (plain_outcome ''interrupted'' ([CHR 0xE6, CHR 0x9C, CHR 0x8D, CHR 0xE5, CHR 0x8A, CHR 0xA1, CHR 0xE9, CHR 0x87, CHR 0x8D, CHR 0xE5, CHR 0x90, CHR 0xAF, CHR 0xE5, CHR 0x90, CHR 0x8E, CHR 0xE6, CHR 0x97, CHR 0xA0, CHR 0xE6, CHR 0xB3, CHR 0x95, CHR 0xE7, CHR 0xA1, CHR 0xAE, CHR 0xE8, CHR 0xAE, CHR 0xA4, CHR 0xE8, CHR 0x84, CHR 0x9A, CHR 0xE6, CHR 0x9C, CHR 0xAC, CHR 0xE8, CHR 0xBF, CHR 0x90, CHR 0xE8, CHR 0xA1, CHR 0x8C, CHR 0xE7, CHR 0xBB, CHR 0x93, CHR 0xE6, CHR 0x9E, CHR 0x9C, CHR 0xEF, CHR 0xBC, CHR 0x8C, CHR 0xE6, CHR 0x9C, CHR 0xAA, CHR 0xE9, CHR 0x87, CHR 0x8D, CHR 0xE8, CHR 0xAF, CHR 0x95]), ([CHR 0xE6, CHR 0x9C, CHR 0x8D, CHR 0xE5, CHR 0x8A, CHR 0xA1, CHR 0xE9, CHR 0x87, CHR 0x8D, CHR 0xE5, CHR 0x90, CHR 0xAF, CHR 0xE5, CHR 0x90, CHR 0x8E, CHR 0xE6, CHR 0x97, CHR 0xA0, CHR 0xE6, CHR 0xB3, CHR 0x95, CHR 0xE7, CHR 0xA1, CHR 0xAE, CHR 0xE8, CHR 0xAE, CHR 0xA4, CHR 0xE8, CHR 0x84, CHR 0x9A, CHR 0xE6, CHR 0x9C, CHR 0xAC, CHR 0xE8, CHR 0xBF, CHR 0x90, CHR 0xE8, CHR 0xA1, CHR 0x8C, CHR 0xE7, CHR 0xBB, CHR 0x93, CHR 0xE6, CHR 0x9E, CHR 0x9C, CHR 0xEF, CHR 0xBC, CHR 0x8C, CHR 0xE6, CHR 0x9C, CHR 0xAA, CHR 0xE9, CHR 0x87, CHR 0x8D, CHR 0xE8, CHR 0xAF, CHR 0x95, CHR 0xE3, CHR 0x80, CHR 0x82]))
             else (case get_run tasks runID of
                 Inl err \<Rightarrow> Some (plain_outcome ''failure'' ([CHR 0xE8, CHR 0x84, CHR 0x9A, CHR 0xE6, CHR 0x9C, CHR 0xAC, CHR 0xE8, CHR 0xBF, CHR 0x90, CHR 0xE8, CHR 0xA1, CHR 0x8C, CHR 0xE8, CHR 0xAE, CHR 0xB0, CHR 0xE5, CHR 0xBD, CHR 0x95, CHR 0xE4, CHR 0xB8, CHR 0x8D, CHR 0xE5, CHR 0xAD, CHR 0x98, CHR 0xE5, CHR 0x9C, CHR 0xA8]), ([CHR 0xE8, CHR 0x84, CHR 0x9A, CHR 0xE6, CHR 0x9C, CHR 0xAC, CHR 0xE8, CHR 0xBF, CHR 0x90, CHR 0xE8, CHR 0xA1, CHR 0x8C, CHR 0xE8, CHR 0xAE, CHR 0xB0, CHR 0xE5, CHR 0xBD, CHR 0x95, CHR 0xE4, CHR 0xB8, CHR 0x8D, CHR 0xE5, CHR 0xAD, CHR 0x98, CHR 0xE5, CHR 0x9C, CHR 0xA8, CHR 0xEF, CHR 0xBC, CHR 0x8C, CHR 0xE6, CHR 0x9C, CHR 0xAA, CHR 0xE9, CHR 0x87, CHR 0x8D, CHR 0xE8, CHR 0xAF, CHR 0x95, CHR 0xE3, CHR 0x80, CHR 0x82]))
               | Inr run \<Rightarrow>
                   (let st = rn_status (dt_run run) in
                    if st = RunSuccess then Some (plain_outcome ''success'' ([CHR 0xE8, CHR 0x84, CHR 0x9A, CHR 0xE6, CHR 0x9C, CHR 0xAC, CHR 0xE4, CHR 0xBB, CHR 0xBB, CHR 0xE5, CHR 0x8A, CHR 0xA1, CHR 0xE6, CHR 0x89, CHR 0xA7, CHR 0xE8, CHR 0xA1, CHR 0x8C, CHR 0xE6, CHR 0x88, CHR 0x90, CHR 0xE5, CHR 0x8A, CHR 0x9F]), ([CHR 0xE8, CHR 0x84, CHR 0x9A, CHR 0xE6, CHR 0x9C, CHR 0xAC, CHR 0xE4, CHR 0xBB, CHR 0xBB, CHR 0xE5, CHR 0x8A, CHR 0xA1, CHR 0xE6, CHR 0x89, CHR 0xA7, CHR 0xE8, CHR 0xA1, CHR 0x8C, CHR 0xE6, CHR 0x88, CHR 0x90, CHR 0xE5, CHR 0x8A, CHR 0x9F, CHR 0xE3, CHR 0x80, CHR 0x82]))
                    else if st \<in> {RunPartial, RunFailed, RunSkipped, RunInterrupted}
                    then Some (plain_outcome ''failure'' ([CHR 0xE8, CHR 0x84, CHR 0x9A, CHR 0xE6, CHR 0x9C, CHR 0xAC, CHR 0xE4, CHR 0xBB, CHR 0xBB, CHR 0xE5, CHR 0x8A, CHR 0xA1, CHR 0xE6, CHR 0x89, CHR 0xA7, CHR 0xE8, CHR 0xA1, CHR 0x8C, CHR 0xE6, CHR 0x9C, CHR 0xAA, CHR 0xE5, CHR 0xAE, CHR 0x8C, CHR 0xE5, CHR 0x85, CHR 0xA8, CHR 0xE6, CHR 0x88, CHR 0x90, CHR 0xE5, CHR 0x8A, CHR 0x9F]), ([CHR 0xE8, CHR 0x84, CHR 0x9A, CHR 0xE6, CHR 0x9C, CHR 0xAC, CHR 0xE4, CHR 0xBB, CHR 0xBB, CHR 0xE5, CHR 0x8A, CHR 0xA1, CHR 0xE6, CHR 0x89, CHR 0xA7, CHR 0xE8, CHR 0xA1, CHR 0x8C, CHR 0xE6, CHR 0x9C, CHR 0xAA, CHR 0xE5, CHR 0xAE, CHR 0x8C, CHR 0xE5, CHR 0x85, CHR 0xA8, CHR 0xE6, CHR 0x88, CHR 0x90, CHR 0xE5, CHR 0x8A, CHR 0x9F, CHR 0xEF, CHR 0xBC, CHR 0x8C, CHR 0xE6, CHR 0x9C, CHR 0xAA, CHR 0xE9, CHR 0x87, CHR 0x8D, CHR 0xE8, CHR 0xAF, CHR 0x95, CHR 0xE3, CHR 0x80, CHR 0x82]))
                    else None))
         | _ \<Rightarrow> Some (plain_outcome ''interrupted'' ([CHR 0xE6, CHR 0x9C, CHR 0x8D, CHR 0xE5, CHR 0x8A, CHR 0xA1, CHR 0xE9, CHR 0x87, CHR 0x8D, CHR 0xE5, CHR 0x90, CHR 0xAF, CHR 0xE5, CHR 0x90, CHR 0x8E, CHR 0xE6, CHR 0x97, CHR 0xA0, CHR 0xE6, CHR 0xB3, CHR 0x95, CHR 0xE7, CHR 0xA1, CHR 0xAE, CHR 0xE8, CHR 0xAE, CHR 0xA4, CHR 0xE8, CHR 0x84, CHR 0x9A, CHR 0xE6, CHR 0x9C, CHR 0xAC, CHR 0xE8, CHR 0xBF, CHR 0x90, CHR 0xE8, CHR 0xA1, CHR 0x8C, CHR 0xE7, CHR 0xBB, CHR 0x93, CHR 0xE6, CHR 0x9E, CHR 0x9C, CHR 0xEF, CHR 0xBC, CHR 0x8C, CHR 0xE6, CHR 0x9C, CHR 0xAA, CHR 0xE9, CHR 0x87, CHR 0x8D, CHR 0xE8, CHR 0xAF, CHR 0x95]), ([CHR 0xE6, CHR 0x9C, CHR 0x8D, CHR 0xE5, CHR 0x8A, CHR 0xA1, CHR 0xE9, CHR 0x87, CHR 0x8D, CHR 0xE5, CHR 0x90, CHR 0xAF, CHR 0xE5, CHR 0x90, CHR 0x8E, CHR 0xE6, CHR 0x97, CHR 0xA0, CHR 0xE6, CHR 0xB3, CHR 0x95, CHR 0xE7, CHR 0xA1, CHR 0xAE, CHR 0xE8, CHR 0xAE, CHR 0xA4, CHR 0xE8, CHR 0x84, CHR 0x9A, CHR 0xE6, CHR 0x9C, CHR 0xAC, CHR 0xE8, CHR 0xBF, CHR 0x90, CHR 0xE8, CHR 0xA1, CHR 0x8C, CHR 0xE7, CHR 0xBB, CHR 0x93, CHR 0xE6, CHR 0x9E, CHR 0x9C, CHR 0xEF, CHR 0xBC, CHR 0x8C, CHR 0xE6, CHR 0x9C, CHR 0xAA, CHR 0xE9, CHR 0x87, CHR 0x8D, CHR 0xE8, CHR 0xAF, CHR 0x95, CHR 0xE3, CHR 0x80, CHR 0x82])))
      else Some (plain_outcome ''interrupted'' ([CHR 0xE6, CHR 0x9C, CHR 0xAA, CHR 0xE7, CHR 0x9F, CHR 0xA5, CHR 0xE5, CHR 0xBC, CHR 0x82, CHR 0xE6, CHR 0xAD, CHR 0xA5, CHR 0xE6, CHR 0x93, CHR 0x8D, CHR 0xE4, CHR 0xBD, CHR 0x9C, CHR 0xE6, CHR 0x9C, CHR 0xAA, CHR 0xE6, CHR 0x89, CHR 0xA7, CHR 0xE8, CHR 0xA1, CHR 0x8C, CHR 0xE9, CHR 0x87, CHR 0x8D, CHR 0xE8, CHR 0xAF, CHR 0x95]), ([CHR 0xE6, CHR 0x9C, CHR 0xAA, CHR 0xE7, CHR 0x9F, CHR 0xA5, CHR 0xE5, CHR 0xBC, CHR 0x82, CHR 0xE6, CHR 0xAD, CHR 0xA5, CHR 0xE6, CHR 0x93, CHR 0x8D, CHR 0xE4, CHR 0xBD, CHR 0x9C, CHR 0xE6, CHR 0x97, CHR 0xA0, CHR 0xE6, CHR 0xB3, CHR 0x95, CHR 0xE7, CHR 0xA1, CHR 0xAE, CHR 0xE8, CHR 0xAE, CHR 0xA4, CHR 0xEF, CHR 0xBC, CHR 0x8C, CHR 0xE6, CHR 0x9C, CHR 0xAA, CHR 0xE9, CHR 0x87, CHR 0x8D, CHR 0xE8, CHR 0xAF, CHR 0x95, CHR 0xE3, CHR 0x80, CHR 0x82])))"

section \<open>The goroutines\<close>

text \<open>
  Where a goroutine stands.  \<open>Confirm...\<close> and \<open>Rechecking\<close> belong to \<^verbatim>\<open>ConfirmPlan\<close>, \<open>Auto...\<close> to
  \<^verbatim>\<open>tryClaimAutonomousPlan\<close>, \<open>Advancing\<close> to \<open>Recording\<close> to \<^verbatim>\<open>advancePlan\<close>, \<open>Projecting\<close> and \<open>Completing\<close> to
  \<^verbatim>\<open>completePlanStepVerified\<close>, \<open>FinishListing\<close> and \<open>Finishing\<close> to \<^verbatim>\<open>finishPlan\<close>, \<open>Verify...\<close> to
  \<^verbatim>\<open>completeAcceptedOperation\<close> and \<open>FailingTurn\<close> to the deferred call of \<^verbatim>\<open>send\<close>.
\<close>

datatype plan_pc =
  ConfirmListing
| ConfirmChecking "ai_tool_call list"
| Rechecking "ai_tool_call list"
| AutoListing
| AutoChecking "ai_tool_call list"
| AutoJudging ai_tool_call tool_call "ai_tool_call list"
| AutoRefusing ai_tool_call policy_result
| RejectingPaused
| Advancing
| CheckingPause ai_tool_call nat
| Validating ai_tool_call nat
| Judging ai_tool_call tool_call nat
| Blocking ai_tool_call policy_result
| Starting ai_tool_call tool_call policy_result plan_world nat
| Executing ai_tool_call tool_call policy_result plan_world nat
| Recording ai_tool_call plan_outcome
| Projecting string string plan_outcome
| Completing string string plan_outcome string
| FinishListing
| Finishing string
| VerifyReading string plan_outcome string
| VerifyChecking ai_tool_call plan_outcome
| VerifyListing ai_tool_call plan_outcome
| VerifyRecording ai_tool_call plan_outcome
| VerifyPlain "ai_tool_call \<times> ai_turn" plan_outcome string
| FailingTurn string
| PlanDone

text \<open>\<open>pd_send\<close> is the turn of the chat request in whose goroutine the plan runs, if any.\<close>

record plan_driver =
  pd_turn :: string
  pd_autonomous :: bool
  pd_send :: "ai_turn option"
  pd_pc :: plan_pc

text \<open>What one step is given: the time, an identifier for a message, the registry and the context as they are then, and the result of the tool or verifier.\<close>

record plan_input =
  pi_now :: time
  pi_message :: string
  pi_world :: plan_world
  pi_cancelled :: bool
  pi_result :: tool_result

text \<open>
  What remains to do after an error: the chat request that proposed the plan fails its turn.  The errors that arise here
  are those of the store and of the validation, whose code is \<^verbatim>\<open>internal\<close>; requests that are cancelled or time out
  in the middle of a store access, which give other codes, are not modelled.
\<close>

definition give_up :: "plan_driver \<Rightarrow> plan_pc" where
  "give_up d = (case pd_send d of None \<Rightarrow> PlanDone | Some t \<Rightarrow> FailingTurn ''internal'')"

text \<open>\<open>ConfirmPlan\<close> after the check that the control plane is not paused.\<close>

definition confirm_plan :: "plan_input \<Rightarrow> plan_driver \<Rightarrow> ai_db \<Rightarrow> plan_pc \<times> ai_db" where
  "confirm_plan x d db = (case pd_pc d of
     ConfirmListing \<Rightarrow> (ConfirmChecking (list_plan_steps db (pd_turn d)), db)
   | ConfirmChecking [] \<Rightarrow>
       (case claim_tool_plan (pi_now x) (pd_turn d) db of
          (Inl e, db') \<Rightarrow> (give_up d, db')
        | (Inr (steps, turn), db') \<Rightarrow> (Rechecking steps, db'))
   | ConfirmChecking (c # cs) \<Rightarrow>
       (case revalidate_plan_step (pi_world x) c of Inl e \<Rightarrow> (give_up d, db) | Inr v \<Rightarrow> (ConfirmChecking cs, db))
   | Rechecking [] \<Rightarrow> (Advancing, db)
   | Rechecking (c # cs) \<Rightarrow>
       (case revalidate_plan_step (pi_world x) c of
          Inl e \<Rightarrow> (let (status, summary) = plan_validation_failure e in (Projecting (al_id c) ''queued'' (plain_outcome status summary), db))
        | Inr v \<Rightarrow> (Rechecking cs, db))
   | pc \<Rightarrow> (pc, db))"

definition try_claim_autonomous_plan :: "plan_input \<Rightarrow> plan_driver \<Rightarrow> ai_db \<Rightarrow> plan_pc \<times> ai_db" where
  "try_claim_autonomous_plan x d db = (case pd_pc d of
     AutoListing \<Rightarrow> (AutoChecking (list_plan_steps db (pd_turn d)), db)
   | AutoChecking [] \<Rightarrow>
       (case claim_tool_plan (pi_now x) (pd_turn d) db of
          (Inl e, db') \<Rightarrow> (give_up d, db')
        | (Inr (steps, turn), db') \<Rightarrow> (Advancing, db'))
   | AutoChecking (c # cs) \<Rightarrow>
       (case revalidate_plan_step (pi_world x) c of
          Inl e \<Rightarrow> (AutoRefusing c (blocked PolicyBlockedCapability ''capability_offline'' (al_policy_revision c)), db)
        | Inr v \<Rightarrow> (AutoJudging c v cs, db))
   | AutoJudging c v cs \<Rightarrow>
       (case registry_policy (pw_tools (pi_world x)) (pw_settings (pi_world x)) v of
          Inl e \<Rightarrow> (AutoRefusing c (blocked PolicyBlockedPolicy ''policy_unavailable'' (al_policy_revision c)), db)
        | Inr p \<Rightarrow> (if pr_decision p \<noteq> PolicyAutonomous then AutoRefusing c p else AutoChecking cs, db))
   | AutoRefusing c p \<Rightarrow>
       (case update_pending_tool_plan_policy (pi_now x) (al_id c) (decision_text (pr_decision p)) (safe_reason p) (pr_revision p) db of
          (Inl e, db') \<Rightarrow> (give_up d, db') | (Inr u, db') \<Rightarrow> (PlanDone, db'))
   | pc \<Rightarrow> (pc, db))"

text \<open>The first step that has not succeeded decides.\<close>

fun next_plan_step :: "nat \<Rightarrow> ai_tool_call list \<Rightarrow> plan_pc" where
  "next_plan_step n [] = FinishListing"
| "next_plan_step n (c # cs) =
     (if al_status c = ''success'' then next_plan_step n cs
      else if al_status c = ''accepted'' then PlanDone
      else if al_status c = ''queued'' then CheckingPause c n
      else if al_status c = ''running'' then Projecting (al_id c) ''running'' (plain_outcome ''interrupted'' ([CHR 0xE6, CHR 0xAD, CHR 0xA5, CHR 0xE9, CHR 0xAA, CHR 0xA4, CHR 0xE7, CHR 0x8A, CHR 0xB6, CHR 0xE6, CHR 0x80, CHR 0x81, CHR 0xE4, CHR 0xB8, CHR 0x8D, CHR 0xE7, CHR 0xA1, CHR 0xAE, CHR 0xE5, CHR 0xAE, CHR 0x9A, CHR 0xEF, CHR 0xBC, CHR 0x8C, CHR 0xE6, CHR 0x9C, CHR 0xAA, CHR 0xE8, CHR 0x87, CHR 0xAA, CHR 0xE5, CHR 0x8A, CHR 0xA8, CHR 0xE9, CHR 0x87, CHR 0x8D, CHR 0xE8, CHR 0xAF, CHR 0x95]))
      else FinishListing)"

definition execution_policy :: "plan_driver \<Rightarrow> policy_result \<Rightarrow> policy_result" where
  "execution_policy d p = (if pd_autonomous d then p else p\<lparr>pr_decision := PolicyManual, pr_reason := ''confirmed_by_user''\<rparr>)"

definition advance_plan :: "plan_input \<Rightarrow> plan_driver \<Rightarrow> ai_db \<Rightarrow> plan_pc \<times> ai_db" where
  "advance_plan x d db = (case pd_pc d of
     Advancing \<Rightarrow> (let steps = list_plan_steps db (pd_turn d) in (next_plan_step (length steps) steps, db))
   | CheckingPause c n \<Rightarrow>
       (case control_policy (pw_settings (pi_world x)) of
          Inl e \<Rightarrow> (Blocking c (blocked PolicyBlockedPolicy ''policy_unavailable'' (al_policy_revision c)), db)
        | Inr policy \<Rightarrow> (if cp_mode policy = ai_control_paused then Blocking c (blocked PolicyBlockedPaused ''paused'' (cp_revision policy))
                        else Validating c n, db))
   | Validating c n \<Rightarrow>
       (case revalidate_plan_step (pi_world x) c of
          Inl e \<Rightarrow> (let (status, summary) = plan_validation_failure e in (Projecting (al_id c) ''queued'' (plain_outcome status summary), db))
        | Inr v \<Rightarrow> (Judging c v n, db))
   | Judging c v n \<Rightarrow>
       (case registry_policy (pw_tools (pi_world x)) (pw_settings (pi_world x)) v of
          Inl e \<Rightarrow> (Blocking c (blocked PolicyBlockedPolicy ''policy_unavailable'' (al_policy_revision c)), db)
        | Inr p \<Rightarrow> (if pr_decision p = PolicyBlockedPaused \<or> (pd_autonomous d \<and> pr_decision p \<noteq> PolicyAutonomous) then Blocking c p
                   else Starting c v (execution_policy d p) (pi_world x) n, db))
   | Starting c v p w n \<Rightarrow>
       (if pi_cancelled x then (Projecting (al_id c) ''queued'' (plain_outcome ''interrupted'' ([CHR 0xE6, CHR 0xAD, CHR 0xA5, CHR 0xE9, CHR 0xAA, CHR 0xA4, CHR 0xE6, CHR 0x89, CHR 0xA7, CHR 0xE8, CHR 0xA1, CHR 0x8C, CHR 0xE5, CHR 0x89, CHR 0x8D, CHR 0xE5, CHR 0xB7, CHR 0xB2, CHR 0xE5, CHR 0x8F, CHR 0x96, CHR 0xE6, CHR 0xB6, CHR 0x88, CHR 0xEF, CHR 0xBC, CHR 0x8C, CHR 0xE6, CHR 0x9C, CHR 0xAA, CHR 0xE6, CHR 0x89, CHR 0xA7, CHR 0xE8, CHR 0xA1, CHR 0x8C])), db)
        else (case start_tool_plan_step (pi_now x) (al_id c) (decision_text (pr_decision p)) (safe_reason p) (pr_revision p) db of
                (Inl e, db') \<Rightarrow> (give_up d, db') | (Inr u, db') \<Rightarrow> (Executing c v p w n, db')))
   | Executing c v p w n \<Rightarrow>
       (let r = settle_result v (pi_result x) in
        (if (po_status r = ''success'' \<and> al_step_index c < int n - 1) \<or> po_status r = ''accepted'' then Recording c r
         else Projecting (al_id c) ''running'' r, db))
   | Recording c r \<Rightarrow>
       (case transition_tool_plan_step_with_verification (pi_now x) (al_id c) ''running'' (po_status r) (po_summary r) (po_operation r)
               (po_verification r) db of
          (Inl e, db') \<Rightarrow> (give_up d, db')
        | (Inr u, db') \<Rightarrow> (if po_status r = ''success'' then Advancing else PlanDone, db'))
   | pc \<Rightarrow> (pc, db))"

definition block_queued_plan_step :: "plan_input \<Rightarrow> plan_driver \<Rightarrow> ai_db \<Rightarrow> plan_pc \<times> ai_db" where
  "block_queued_plan_step x d db = (case pd_pc d of
     Blocking c p \<Rightarrow>
       (case update_queued_tool_plan_policy (pi_now x) (al_id c) (decision_text (pr_decision p)) (safe_reason p) (pr_revision p) db of
          (Inl e, db') \<Rightarrow> (give_up d, db')
        | (Inr u, db') \<Rightarrow> (Projecting (al_id c) ''queued'' (plain_outcome ''failure'' (policy_execution_failure_summary p)), db'))
   | pc \<Rightarrow> (pc, db))"

definition complete_plan_step_verified :: "plan_input \<Rightarrow> plan_driver \<Rightarrow> ai_db \<Rightarrow> plan_pc \<times> ai_db" where
  "complete_plan_step_verified x d db = (case pd_pc d of
     Projecting i fromStatus r \<Rightarrow>
       (Completing i fromStatus r (plan_result_message (map (project_step i r) (list_plan_steps db (pd_turn d)))), db)
   | Completing i fromStatus r content \<Rightarrow>
       (case complete_tool_plan_with_verification (pi_now x) (pi_message x) (pd_turn d) i fromStatus (po_status r) (po_summary r)
               (po_operation r) (po_verification r) content db of
          (Inl e, db') \<Rightarrow> (give_up d, db') | (Inr u, db') \<Rightarrow> (PlanDone, db'))
   | pc \<Rightarrow> (pc, db))"

definition finish_plan :: "plan_input \<Rightarrow> plan_driver \<Rightarrow> ai_db \<Rightarrow> plan_pc \<times> ai_db" where
  "finish_plan x d db = (case pd_pc d of
     FinishListing \<Rightarrow> (Finishing (plan_result_message (map skip_projection (list_plan_steps db (pd_turn d)))), db)
   | Finishing content \<Rightarrow>
       (case finish_tool_plan (pi_now x) (pi_message x) (pd_turn d) content db of
          (Inl e, db') \<Rightarrow> (give_up d, db') | (Inr u, db') \<Rightarrow> (PlanDone, db'))
   | pc \<Rightarrow> (pc, db))"

text \<open>The verifier of accepted operations; it takes over the plan when the step it confirms is not the last.\<close>

definition complete_accepted_operation :: "plan_input \<Rightarrow> plan_driver \<Rightarrow> ai_db \<Rightarrow> plan_driver \<times> ai_db" where
  "complete_accepted_operation x d db = (case pd_pc d of
     VerifyReading i r assistant \<Rightarrow>
       (case get_tool_call db i of
          Inl e \<Rightarrow> (d\<lparr>pd_pc := PlanDone\<rparr>, db)
        | Inr (c, turn) \<Rightarrow>
            (if al_step_index c < 0 then d\<lparr>pd_pc := VerifyPlain (c, turn) r assistant\<rparr>
             else d\<lparr>pd_turn := at_id turn, pd_autonomous := (al_policy_decision c = decision_text PolicyAutonomous),
                    pd_pc := (if po_status r = ''success'' \<and> (case pw_tools (pi_world x) (al_tool_name c) of None \<Rightarrow> False
                                  | Some tool \<Rightarrow> pm_verifier (rt_metadata tool) \<noteq> [])
                              then VerifyChecking c r else VerifyListing c r)\<rparr>, db))
   | VerifyChecking c r \<Rightarrow>
       (case revalidate_plan_step (pi_world x) c of
          Inl e \<Rightarrow> (d\<lparr>pd_pc := VerifyListing c \<lparr>po_status = ''interrupted'', po_summary = ([CHR 0xE6, CHR 0x9C, CHR 0x80, CHR 0xE7, CHR 0xBB, CHR 0x88, CHR 0xE7, CHR 0x8A, CHR 0xB6, CHR 0xE6, CHR 0x80, CHR 0x81, CHR 0xE6, CHR 0x97, CHR 0xA0, CHR 0xE6, CHR 0xB3, CHR 0x95, CHR 0xE7, CHR 0xA1, CHR 0xAE, CHR 0xE8, CHR 0xAE, CHR 0xA4, CHR 0xEF, CHR 0xBC, CHR 0x8C, CHR 0xE6, CHR 0x9C, CHR 0xAA, CHR 0xE8, CHR 0x87, CHR 0xAA, CHR 0xE5, CHR 0x8A, CHR 0xA8, CHR 0xE9, CHR 0x87, CHR 0x8D, CHR 0xE8, CHR 0xAF, CHR 0x95]),
                     po_operation = [], po_verification = verification_text VerificationUnknown\<rparr>\<rparr>, db)
        | Inr v \<Rightarrow> (d\<lparr>pd_pc := VerifyListing c (r\<lparr>po_status := verified_status (er_verification (pi_result x)) (po_status r),
                     po_summary := er_verification_summary (pi_result x), po_verification := verification_text (er_verification (pi_result x))\<rparr>)\<rparr>, db))
   | VerifyListing c r \<Rightarrow>
       (d\<lparr>pd_pc := (if po_status r = ''success'' \<and> al_step_index c < int (length (list_plan_steps db (pd_turn d))) - 1
                   then VerifyRecording c r else Projecting (al_id c) ''accepted'' r)\<rparr>, db)
   | VerifyRecording c r \<Rightarrow>
       (case transition_tool_plan_step_with_verification (pi_now x) (al_id c) ''accepted'' (po_status r) (po_summary r) [] (po_verification r) db of
          (Inl e, db') \<Rightarrow> (d\<lparr>pd_pc := PlanDone\<rparr>, db') | (Inr u, db') \<Rightarrow> (d\<lparr>pd_pc := Advancing\<rparr>, db'))
   | VerifyPlain found r assistant \<Rightarrow>
       (d\<lparr>pd_pc := PlanDone\<rparr>, snd (complete_accepted_tool_call (pi_now x) (pi_message x) found (po_status r) (po_summary r) assistant db))
   | pc \<Rightarrow> (d, db))"

text \<open>The two places where the chat request itself acts on the turn.\<close>

definition send_tail :: "plan_input \<Rightarrow> plan_driver \<Rightarrow> ai_db \<Rightarrow> plan_pc \<times> ai_db" where
  "send_tail x d db = (case pd_pc d of
     RejectingPaused \<Rightarrow>
       (case reject_tool_plan (pi_now x) (pi_message x) (pd_turn d) (''AI '' @ [CHR 0xE6, CHR 0x8E, CHR 0xA7, CHR 0xE5, CHR 0x88, CHR 0xB6, CHR 0xE5, CHR 0xB9, CHR 0xB3, CHR 0xE9, CHR 0x9D, CHR 0xA2, CHR 0xE5, CHR 0xB7, CHR 0xB2, CHR 0xE6, CHR 0x9A, CHR 0x82, CHR 0xE5, CHR 0x81, CHR 0x9C, CHR 0xEF, CHR 0xBC, CHR 0x8C, CHR 0xE5, CHR 0x8F, CHR 0x98, CHR 0xE6, CHR 0x9B, CHR 0xB4, CHR 0xE8, CHR 0xAE, CHR 0xA1, CHR 0xE5, CHR 0x88, CHR 0x92, CHR 0xE5, CHR 0xB7, CHR 0xB2, CHR 0xE5, CHR 0x8F, CHR 0x96, CHR 0xE6, CHR 0xB6, CHR 0x88, CHR 0xEF, CHR 0xBC, CHR 0x9B, CHR 0xE5, CHR 0xB7, CHR 0xB2, CHR 0xE7, CHR 0xBB, CHR 0x8F, CHR 0xE6, CHR 0x8E, CHR 0xA5, CHR 0xE5, CHR 0x8F, CHR 0x97, CHR 0xE7, CHR 0x9A, CHR 0x84, CHR 0xE8, CHR 0xBF, CHR 0x9C, CHR 0xE7, CHR 0xAB, CHR 0xAF, CHR 0xE6, CHR 0x93, CHR 0x8D, CHR 0xE4, CHR 0xBD, CHR 0x9C, CHR 0xE4, CHR 0xB8, CHR 0x8D, CHR 0xE4, CHR 0xBC, CHR 0x9A, CHR 0xE8, CHR 0xA2, CHR 0xAB, CHR 0xE6, CHR 0x92, CHR 0xA4, CHR 0xE5, CHR 0x9B, CHR 0x9E, CHR 0xE3, CHR 0x80, CHR 0x82]) db of
          (Inl e, db') \<Rightarrow> (give_up d, db') | (Inr u, db') \<Rightarrow> (PlanDone, db'))
   | FailingTurn code \<Rightarrow>
       (PlanDone, case pd_send d of None \<Rightarrow> db | Some turn \<Rightarrow> snd (fail_turn (pi_now x) turn code db))
   | pc \<Rightarrow> (pc, db))"

definition at_pc :: "plan_driver \<Rightarrow> plan_pc \<times> ai_db \<Rightarrow> plan_driver \<times> ai_db" where
  "at_pc d r = (d\<lparr>pd_pc := fst r\<rparr>, snd r)"

definition drive :: "plan_input \<Rightarrow> plan_driver \<Rightarrow> ai_db \<Rightarrow> plan_driver \<times> ai_db" where
  "drive x d db = (case pd_pc d of
     ConfirmListing \<Rightarrow> at_pc d (confirm_plan x d db)
   | ConfirmChecking cs \<Rightarrow> at_pc d (confirm_plan x d db)
   | Rechecking cs \<Rightarrow> at_pc d (confirm_plan x d db)
   | AutoListing \<Rightarrow> at_pc d (try_claim_autonomous_plan x d db)
   | AutoChecking cs \<Rightarrow> at_pc d (try_claim_autonomous_plan x d db)
   | AutoJudging c v cs \<Rightarrow> at_pc d (try_claim_autonomous_plan x d db)
   | AutoRefusing c p \<Rightarrow> at_pc d (try_claim_autonomous_plan x d db)
   | RejectingPaused \<Rightarrow> at_pc d (send_tail x d db)
   | FailingTurn code \<Rightarrow> at_pc d (send_tail x d db)
   | Blocking c p \<Rightarrow> at_pc d (block_queued_plan_step x d db)
   | Projecting i s r \<Rightarrow> at_pc d (complete_plan_step_verified x d db)
   | Completing i s r m \<Rightarrow> at_pc d (complete_plan_step_verified x d db)
   | FinishListing \<Rightarrow> at_pc d (finish_plan x d db)
   | Finishing m \<Rightarrow> at_pc d (finish_plan x d db)
   | VerifyReading i r m \<Rightarrow> complete_accepted_operation x d db
   | VerifyChecking c r \<Rightarrow> complete_accepted_operation x d db
   | VerifyListing c r \<Rightarrow> complete_accepted_operation x d db
   | VerifyRecording c r \<Rightarrow> complete_accepted_operation x d db
   | VerifyPlain f r m \<Rightarrow> complete_accepted_operation x d db
   | pc \<Rightarrow> at_pc d (advance_plan x d db))"

section \<open>The system\<close>

text \<open>
  The log names each tool that a plan ran: the row it ran for, the call, the policy that was recorded, the
  registry that was asked for it, and whether the plan ran without the administrator.  It and the lists of
  confirmed turns and of drawn identifiers are not part of the program.
\<close>

record executed_step =
  xs_row :: ai_tool_call
  xs_call :: tool_call
  xs_policy :: policy_result
  xs_world :: plan_world
  xs_autonomous :: bool

record plan_system =
  ps_db :: ai_db
  ps_drivers :: "plan_driver list"
  ps_log :: "executed_step list"
  ps_confirmed :: "string list"
  ps_used_turns :: "string list"
  ps_used_calls :: "string list"

definition new_plan_system :: plan_system where
  "new_plan_system = \<lparr>ps_db = empty_ai_db, ps_drivers = [], ps_log = [], ps_confirmed = [], ps_used_turns = [], ps_used_calls = []\<rparr>"

fun executed_by :: "plan_driver \<Rightarrow> executed_step list" where
  "executed_by d = (case pd_pc d of
     Executing c v p w n \<Rightarrow> [\<lparr>xs_row = c, xs_call = v, xs_policy = p, xs_world = w, xs_autonomous = pd_autonomous d\<rparr>]
   | _ \<Rightarrow> [])"

definition drive_one :: "nat \<Rightarrow> plan_input \<Rightarrow> plan_system \<Rightarrow> plan_system" where
  "drive_one j x s =
     (if length (ps_drivers s) \<le> j then s
      else (let d = ps_drivers s ! j; (d', db') = drive x d (ps_db s) in
        s\<lparr>ps_db := db', ps_drivers := (ps_drivers s)[j := d'], ps_log := ps_log s @ executed_by d\<rparr>))"

definition spawn :: "plan_driver \<Rightarrow> plan_system \<Rightarrow> plan_system" where
  "spawn d s = s\<lparr>ps_drivers := ps_drivers s @ [d]\<rparr>"

text \<open>The handler of a confirmation.\<close>

definition request_confirmation :: "string \<Rightarrow> plan_world \<Rightarrow> plan_system \<Rightarrow> plan_system" where
  "request_confirmation turnID w s =
     (if control_active w
      then (spawn \<lparr>pd_turn = turnID, pd_autonomous = False, pd_send = None, pd_pc = ConfirmListing\<rparr> s)\<lparr>ps_confirmed := turnID # ps_confirmed s\<rparr>
      else s)"

text \<open>\<open>send\<close> from the proposal on: all calls are proposed with the policy's decisions, of which \<open>autonomous\<close> and \<open>paused\<close> are the summary.\<close>

definition propose_plan ::
  "impact_json \<Rightarrow> time \<Rightarrow> ai_turn \<Rightarrow> (ai_tool_call \<times> tool_impact) list \<Rightarrow> bool \<Rightarrow> bool \<Rightarrow> plan_system \<Rightarrow> plan_system" where
  "propose_plan js now turn inputs autonomous paused s =
     (let ids = map (al_id \<circ> fst) inputs; driver = \<lparr>pd_turn = at_id turn, pd_autonomous = True, pd_send = Some turn, pd_pc = PlanDone\<rparr> in
      if \<not> distinct ids \<or> [] \<in> set ids \<or> set ids \<inter> set (ps_used_calls s) \<noteq> {} then s
      else (case create_tool_plan js now (\<lambda>k. []) turn inputs (ps_db s) of
              (Inl e, db') \<Rightarrow> spawn (driver\<lparr>pd_pc := FailingTurn ''internal''\<rparr>) (s\<lparr>ps_db := db', ps_used_calls := ids @ ps_used_calls s\<rparr>)
            | (Inr created, db') \<Rightarrow>
                (let s1 = s\<lparr>ps_db := db', ps_used_calls := ids @ ps_used_calls s\<rparr> in
                 if paused then spawn (driver\<lparr>pd_pc := RejectingPaused\<rparr>) s1
                 else if autonomous then spawn (driver\<lparr>pd_pc := AutoListing\<rparr>) s1 else s1)))"

definition verify_accepted :: "string \<Rightarrow> time \<Rightarrow> evidence \<Rightarrow> plan_system \<Rightarrow> plan_system" where
  "verify_accepted i now e s =
     (case List.find (\<lambda>c. al_id c = i) (list_accepted_tool_calls (ps_db s) 100) of
        None \<Rightarrow> s
      | Some c \<Rightarrow> (case verify_accepted_operation now e c of
            None \<Rightarrow> s
          | Some (r, assistant) \<Rightarrow> spawn \<lparr>pd_turn = al_turn_id c, pd_autonomous = False, pd_send = None, pd_pc = VerifyReading i r assistant\<rparr> s))"

text \<open>Operations of the store that other requests run between the steps of the goroutines above.  Providers and models may change in any way.\<close>

datatype chat_op =
  ReplaceModels "ai_provider list" "ai_model list"
| AddConversation time string string "string option"
| RemoveConversation string
| StartChat time string string string ai_provider ai_model string
| SwitchModel time string ai_provider ai_model
| EndChat time string ai_turn string string string
| StartRead impact_json time string ai_turn "ai_tool_call \<times> tool_impact"
| EndRead time string string string
| ClaimCall time string
| CompleteCall time string string ai_turn string string string string
| RejectPlan time string string string
| CancelPlan time string string string string

text \<open>Calls outside plans: \<^verbatim>\<open>Confirm\<close> and \<^verbatim>\<open>Reject\<close> refuse the steps of plans, and \<^verbatim>\<open>send\<close> ends the queries it started.\<close>

definition plain_call :: "ai_db \<Rightarrow> string \<Rightarrow> bool" where
  "plain_call db i = list_all (\<lambda>c. al_id c = i \<longrightarrow> al_step_index c < 0) (ab_calls db)"

fun apply_chat_op :: "chat_op \<Rightarrow> ai_db \<Rightarrow> ai_db" where
  "apply_chat_op (ReplaceModels providers models) db = db\<lparr>ab_providers := providers, ab_models := models\<rparr>"
| "apply_chat_op (AddConversation now i title modelID) db = snd (create_conversation_with_model now i title modelID db)"
| "apply_chat_op (RemoveConversation i) db = snd (delete_conversation i db)"
| "apply_chat_op (StartChat now turnID messageID i provider model content) db = snd (start_model_turn now turnID messageID i provider model content db)"
| "apply_chat_op (SwitchModel now turnID provider model) db = snd (switch_turn_model_before_tools now turnID provider model db)"
| "apply_chat_op (EndChat now messageID turn status code content) db = snd (run_tx (finish_turn_tx now messageID turn status code content) db)"
| "apply_chat_op (StartRead js now i turn input) db = snd (create_tool_call js now i turn input db)"
| "apply_chat_op (EndRead now i status summary) db = (if plain_call db i then snd (update_tool_call_result_with_operation now i status summary [] db) else db)"
| "apply_chat_op (ClaimCall now i) db = (if plain_call db i then snd (claim_tool_call now i db) else db)"
| "apply_chat_op (CompleteCall now messageID i turn status summary operationID content) db =
     (if plain_call db i then snd (complete_tool_call_and_turn now messageID i turn status summary operationID content db) else db)"
| "apply_chat_op (RejectPlan now messageID turnID content) db = snd (reject_tool_plan now messageID turnID content db)"
| "apply_chat_op (CancelPlan now messageID summary content turnID) db = snd (cancel_pending_turn now messageID summary content turnID db)"

text \<open>Identifiers are drawn at random: what is drawn was not drawn before.\<close>

fun drawn_turns :: "chat_op \<Rightarrow> string list" where
  "drawn_turns (StartChat now turnID messageID i provider model content) = [turnID]"
| "drawn_turns _ = []"

fun drawn_calls :: "chat_op \<Rightarrow> string list" where
  "drawn_calls (StartRead js now i turn input) = [if al_id (fst input) = [] then i else al_id (fst input)]"
| "drawn_calls _ = []"

definition chat :: "chat_op \<Rightarrow> plan_system \<Rightarrow> plan_system" where
  "chat op s =
     (if set (drawn_turns op) \<inter> set (ps_used_turns s) \<noteq> {} \<or> set (drawn_calls op) \<inter> set (ps_used_calls s) \<noteq> {} then s
      else s\<lparr>ps_db := apply_chat_op op (ps_db s), ps_used_turns := drawn_turns op @ ps_used_turns s,
             ps_used_calls := drawn_calls op @ ps_used_calls s\<rparr>)"

definition restart_server :: "time \<Rightarrow> plan_system \<Rightarrow> plan_system" where
  "restart_server now s = s\<lparr>ps_db := recover_interrupted now (ps_db s), ps_drivers := []\<rparr>"

datatype plan_event =
  Drive nat plan_input
| RequestConfirmation string plan_world
| ProposePlan impact_json time ai_turn "(ai_tool_call \<times> tool_impact) list" bool bool
| VerifyAccepted string time evidence
| Chat chat_op
| RestartServer time

fun plan_step :: "plan_event \<Rightarrow> plan_system \<Rightarrow> plan_system" where
  "plan_step (Drive j x) s = drive_one j x s"
| "plan_step (RequestConfirmation turnID w) s = request_confirmation turnID w s"
| "plan_step (ProposePlan js now turn inputs autonomous paused) s = propose_plan js now turn inputs autonomous paused s"
| "plan_step (VerifyAccepted i now e) s = verify_accepted i now e s"
| "plan_step (Chat op) s = chat op s"
| "plan_step (RestartServer now) s = restart_server now s"

fun plan_run :: "plan_event list \<Rightarrow> plan_system \<Rightarrow> plan_system" where
  "plan_run [] s = s"
| "plan_run (e # es) s = plan_run es (plan_step e s)"

end
