(* ===== verification/AiPlanInv.thy ===== *)
theory AiPlanInv
  imports AiPlan
begin

text \<open>
  What holds between any two steps of the goroutines that run plans: rows of a plan keep their identity and
  their statuses only move forward, a step that waits has not run, and a goroutine about to run a step is
  alone with its turn.
\<close>

section \<open>Rows of plans\<close>

definition is_step :: "ai_tool_call \<Rightarrow> bool" where
  "is_step c \<longleftrightarrow> 0 \<le> al_step_index c"

text \<open>What never changes in a row.\<close>

definition same_step :: "ai_tool_call \<Rightarrow> ai_tool_call \<Rightarrow> bool" where
  "same_step c c' \<longleftrightarrow> al_id c' = al_id c \<and> al_turn_id c' = al_turn_id c \<and> al_step_index c' = al_step_index c
     \<and> al_tool_name c' = al_tool_name c \<and> al_arguments_json c' = al_arguments_json c \<and> al_target_type c' = al_target_type c
     \<and> al_target_id c' = al_target_id c \<and> al_node_id c' = al_node_id c"

definition status_rank :: "string \<Rightarrow> nat" where
  "status_rank s = (if s = ''pending'' then 0 else if s = ''queued'' then 1 else if s = ''running'' then 2
     else if s = ''accepted'' then 3 else if s = ''success'' then 4 else 5)"

lemma status_rank_simps [simp]:
  "status_rank ''pending'' = 0" "status_rank ''queued'' = 1" "status_rank ''running'' = 2" "status_rank ''accepted'' = 3"
  "status_rank ''success'' = 4" "status_rank ''rejected'' = 5" "status_rank ''interrupted'' = 5" "status_rank ''skipped'' = 5"
  "status_rank ''failure'' = 5" "status_rank ''unsupported'' = 5"
  by (simp_all add: status_rank_def)

lemma status_rank_iff:
  "status_rank s = 0 \<longleftrightarrow> s = ''pending''" "status_rank s = 1 \<longleftrightarrow> s = ''queued''" "status_rank s = 2 \<longleftrightarrow> s = ''running''"
  "status_rank s = 3 \<longleftrightarrow> s = ''accepted''" "status_rank s = 4 \<longleftrightarrow> s = ''success''" "status_rank s \<le> 5"
  by (auto simp: status_rank_def)

definition grows :: "ai_tool_call \<Rightarrow> ai_tool_call \<Rightarrow> bool" where
  "grows c c' \<longleftrightarrow> status_rank (al_status c) \<le> status_rank (al_status c') \<and> (al_status c = ''success'' \<longrightarrow> al_status c' = ''success'')"

text \<open>A change that starts nothing and records no success.\<close>

definition harmless :: "ai_tool_call \<Rightarrow> ai_tool_call \<Rightarrow> bool" where
  "harmless c c' \<longleftrightarrow> (status_rank (al_status c') = 5 \<and> al_status c \<noteq> ''success'' \<and> (status_rank (al_status c) \<ge> 2 \<longrightarrow> al_policy_decision c' = al_policy_decision c))
     \<or> (status_rank (al_status c) \<le> status_rank (al_status c') \<and> status_rank (al_status c') \<le> 1)
     \<or> (al_status c' = al_status c \<and> al_policy_decision c' = al_policy_decision c)"

lemma harmless_refl [simp]: "harmless c c"
  by (simp add: harmless_def)

lemma harmless_grows: "harmless c c' \<Longrightarrow> grows c c'"
  using status_rank_iff(6) [of "al_status c"] by (auto simp: harmless_def grows_def)

lemma same_step_refl [simp]: "same_step c c"
  by (simp add: same_step_def)

lemma same_step_trans: "same_step a b \<Longrightarrow> same_step b c \<Longrightarrow> same_step a c"
  by (simp add: same_step_def)

lemma same_stepD [dest]:
  "same_step c c' \<Longrightarrow> al_id c' = al_id c" "same_step c c' \<Longrightarrow> al_turn_id c' = al_turn_id c"
  "same_step c c' \<Longrightarrow> al_step_index c' = al_step_index c"
  by (simp_all add: same_step_def)

lemma is_step_same: "same_step c c' \<Longrightarrow> is_step c' = is_step c"
  by (simp add: same_step_def is_step_def)

section \<open>The database\<close>

definition turn_ids :: "ai_db \<Rightarrow> string set" where
  "turn_ids db = at_id ` set (ab_turns db)"

definition ids_ok :: "ai_db \<Rightarrow> string set \<Rightarrow> string set \<Rightarrow> bool" where
  "ids_ok db usedT usedC \<longleftrightarrow> distinct (map al_id (ab_calls db)) \<and> distinct (map at_id (ab_turns db)) \<and> al_id ` set (ab_calls db) \<subseteq> usedC
     \<and> (\<forall>c\<in>set (ab_calls db). al_turn_id c \<in> turn_ids db) \<and> turn_ids db \<subseteq> usedT"

text \<open>The steps of a plan are numbered from 0 without gaps.\<close>

definition steps_ok :: "ai_db \<Rightarrow> bool" where
  "steps_ok db \<longleftrightarrow>
     (\<forall>c\<in>set (ab_calls db). \<forall>k. 0 \<le> k \<and> k < al_step_index c \<longrightarrow> (\<exists>c'\<in>set (ab_calls db). al_turn_id c' = al_turn_id c \<and> al_step_index c' = k))
   \<and> (\<forall>c\<in>set (ab_calls db). \<forall>c'\<in>set (ab_calls db). is_step c \<and> al_turn_id c' = al_turn_id c \<and> al_step_index c' = al_step_index c \<longrightarrow> c' = c)"

text \<open>\<open>n T\<close> is the number of steps of turn \<open>T\<close> that have run.\<close>

definition progress_ok :: "ai_db \<Rightarrow> (string \<Rightarrow> nat) \<Rightarrow> string set \<Rightarrow> bool" where
  "progress_ok db n usedT \<longleftrightarrow>
     (\<forall>c\<in>set (ab_calls db). is_step c \<longrightarrow>
        (status_rank (al_status c) \<le> 1 \<longrightarrow> int (n (al_turn_id c)) \<le> al_step_index c)
      \<and> (al_status c = ''success'' \<or> al_status c = ''accepted'' \<longrightarrow> al_step_index c < int (n (al_turn_id c))))
   \<and> (\<forall>T. n T > 0 \<longrightarrow> T \<in> usedT \<and> (T \<in> turn_ids db \<longrightarrow> (\<exists>c\<in>set (ab_calls db). is_step c \<and> al_turn_id c = T)))"

definition row_authorized :: "string set \<Rightarrow> ai_tool_call \<Rightarrow> bool" where
  "row_authorized confirmed c \<longleftrightarrow> al_policy_decision c = decision_text PolicyAutonomous \<or> al_turn_id c \<in> confirmed"

definition authority_ok :: "ai_db \<Rightarrow> string set \<Rightarrow> bool" where
  "authority_ok db confirmed \<longleftrightarrow>
     (\<forall>c\<in>set (ab_calls db). is_step c \<and> (al_status c = ''running'' \<or> al_status c = ''accepted'') \<longrightarrow> row_authorized confirmed c)"

definition plans_ok :: "ai_db \<Rightarrow> (string \<Rightarrow> nat) \<Rightarrow> string set \<Rightarrow> string set \<Rightarrow> string set \<Rightarrow> bool" where
  "plans_ok db n confirmed usedT usedC \<longleftrightarrow>
     ids_ok db usedT usedC \<and> steps_ok db \<and> progress_ok db n usedT \<and> authority_ok db confirmed"

section \<open>Changes of the database\<close>

text \<open>A change of some rows that keeps every row what it is.\<close>

definition rows_mapped :: "(ai_tool_call \<Rightarrow> ai_tool_call) \<Rightarrow> ai_db \<Rightarrow> ai_db \<Rightarrow> bool" where
  "rows_mapped F db db' \<longleftrightarrow> ab_calls db' = map F (ab_calls db) \<and> map at_id (ab_turns db') = map at_id (ab_turns db)
     \<and> (\<forall>c. same_step c (F c))"

lemma rows_mapped_same: "ab_calls db' = ab_calls db \<Longrightarrow> map at_id (ab_turns db') = map at_id (ab_turns db) \<Longrightarrow> rows_mapped id db db'"
  by (simp add: rows_mapped_def)

lemma rows_mapped_turns: "rows_mapped F db db' \<Longrightarrow> turn_ids db' = turn_ids db"
  unfolding rows_mapped_def turn_ids_def by (metis list.set_map)

lemma rows_mapped_trans: "rows_mapped F db db' \<Longrightarrow> rows_mapped G db' db'' \<Longrightarrow> rows_mapped (G \<circ> F) db db''"
  by (auto simp: rows_mapped_def intro: same_step_trans)

text \<open>A row that a goroutine remembers is still there as it was, or its turn is gone for good.\<close>

definition tied :: "ai_db \<Rightarrow> string set \<Rightarrow> string set \<Rightarrow> ai_tool_call \<Rightarrow> bool" where
  "tied db usedT usedC c \<longleftrightarrow> al_id c \<in> usedC \<and> al_turn_id c \<in> usedT \<and> (\<forall>c'\<in>set (ab_calls db). al_id c' = al_id c \<longrightarrow> same_step c c')
     \<and> ((\<exists>c'\<in>set (ab_calls db). al_id c' = al_id c) \<or> al_turn_id c \<notin> turn_ids db)"

definition before_ok :: "ai_db \<Rightarrow> ai_tool_call \<Rightarrow> bool" where
  "before_ok db c \<longleftrightarrow> (\<forall>c'\<in>set (ab_calls db). al_turn_id c' = al_turn_id c \<and> is_step c' \<and> al_step_index c' < al_step_index c \<longrightarrow> al_status c' = ''success'')"

text \<open>The relation between two states of the database that every step keeps: rows move forward, leave with their turn, or come as a new plan.\<close>

definition moves_on :: "string set \<Rightarrow> string set \<Rightarrow> ai_db \<Rightarrow> ai_db \<Rightarrow> bool" where
  "moves_on usedT usedC db db' \<longleftrightarrow>
     (\<forall>c'\<in>set (ab_calls db'). (\<exists>c\<in>set (ab_calls db). same_step c c' \<and> (is_step c \<longrightarrow> grows c c'
              \<and> (status_rank (al_status c') \<ge> 2 \<and> status_rank (al_status c) \<ge> 2 \<longrightarrow> al_policy_decision c' = al_policy_decision c)))
        \<or> (al_id c' \<notin> usedC \<and> (is_step c' \<longrightarrow> al_turn_id c' \<in> turn_ids db \<and> \<not> (\<exists>c\<in>set (ab_calls db). is_step c \<and> al_turn_id c = al_turn_id c'))))
   \<and> (\<forall>c\<in>set (ab_calls db). (\<exists>c'\<in>set (ab_calls db'). same_step c c') \<or> al_turn_id c \<notin> turn_ids db')
   \<and> (\<forall>T\<in>turn_ids db'. T \<in> turn_ids db \<or> T \<notin> usedT)"

lemma moves_on_same: "ab_calls db' = ab_calls db \<Longrightarrow> turn_ids db' = turn_ids db \<Longrightarrow> moves_on usedT usedC db db'"
  by (auto simp: moves_on_def grows_def intro!: bexI [of _ _ "set (ab_calls db)"] same_step_refl)

lemma moves_on_map:
  assumes m: "rows_mapped F db db'"
    and g: "\<And>c. c \<in> set (ab_calls db) \<Longrightarrow> is_step c \<Longrightarrow> grows c (F c)
        \<and> (status_rank (al_status (F c)) \<ge> 2 \<and> status_rank (al_status c) \<ge> 2 \<longrightarrow> al_policy_decision (F c) = al_policy_decision c)"
  shows "moves_on usedT usedC db db'"
proof -
  have calls: "ab_calls db' = map F (ab_calls db)" and same: "\<And>c. same_step c (F c)" using m by (auto simp: rows_mapped_def)
  show ?thesis unfolding moves_on_def calls rows_mapped_turns [OF m]
  proof (intro conjI ballI)
    fix c' assume "c' \<in> set (map F (ab_calls db))"
    then obtain c where c: "c \<in> set (ab_calls db)" "c' = F c" by auto
    have "same_step c c' \<and> (is_step c \<longrightarrow> grows c c' \<and> (2 \<le> status_rank (al_status c') \<and> 2 \<le> status_rank (al_status c) \<longrightarrow>
        al_policy_decision c' = al_policy_decision c))"
      using same [of c] g [OF c(1)] c(2) by simp
    with c(1) show "(\<exists>c\<in>set (ab_calls db). same_step c c' \<and> (is_step c \<longrightarrow> grows c c' \<and> (2 \<le> status_rank (al_status c') \<and>
        2 \<le> status_rank (al_status c) \<longrightarrow> al_policy_decision c' = al_policy_decision c)))
      \<or> al_id c' \<notin> usedC \<and> (is_step c' \<longrightarrow> al_turn_id c' \<in> turn_ids db \<and> \<not> (\<exists>c\<in>set (ab_calls db). is_step c \<and> al_turn_id c = al_turn_id c'))"
      by blast
  qed (use same in auto)
qed

lemma tied_moves:
  assumes "tied db usedT usedC c" "moves_on usedT usedC db db'" "usedT \<subseteq> usedT'" "usedC \<subseteq> usedC'"
  shows "tied db' usedT' usedC' c"
proof -
  have t: "al_id c \<in> usedC" "al_turn_id c \<in> usedT" "\<And>c'. c' \<in> set (ab_calls db) \<Longrightarrow> al_id c' = al_id c \<Longrightarrow> same_step c c'"
    "(\<exists>c'\<in>set (ab_calls db). al_id c' = al_id c) \<or> al_turn_id c \<notin> turn_ids db" using assms(1) by (auto simp: tied_def)
  have "same_step c c'" if c': "c' \<in> set (ab_calls db')" "al_id c' = al_id c" for c'
  proof -
    obtain c0 where c0: "c0 \<in> set (ab_calls db)" "same_step c0 c'" using assms(2) c' t(1) unfolding moves_on_def by metis
    then have "same_step c c0" using t(3) [of c0] c'(2) by (simp add: same_step_def)
    then show ?thesis using c0(2) same_step_trans by blast
  qed
  moreover have "(\<exists>c'\<in>set (ab_calls db'). al_id c' = al_id c) \<or> al_turn_id c \<notin> turn_ids db'"
    using t(4)
  proof
    assume "\<exists>c'\<in>set (ab_calls db). al_id c' = al_id c"
    then obtain c0 where c0: "c0 \<in> set (ab_calls db)" "al_id c0 = al_id c" by blast
    then have "same_step c c0" using t(3) by blast
    then show ?thesis using assms(2) c0 unfolding moves_on_def same_step_def by metis
  next
    assume "al_turn_id c \<notin> turn_ids db"
    then show ?thesis using assms(2) t(2) unfolding moves_on_def by blast
  qed
  ultimately show ?thesis using t(1,2) assms(3,4) unfolding tied_def by blast
qed

lemma tied_turn: "tied db usedT usedC c \<Longrightarrow> is_step c \<Longrightarrow> al_turn_id c \<in> turn_ids db \<Longrightarrow>
    \<exists>c'\<in>set (ab_calls db). is_step c' \<and> al_turn_id c' = al_turn_id c \<and> same_step c c'"
  unfolding tied_def using is_step_same same_stepD(2) by metis

lemma before_moves:
  assumes "before_ok db c" "tied db usedT usedC c" "is_step c" "moves_on usedT usedC db db'"
  shows "before_ok db' c"
  unfolding before_ok_def
proof (intro ballI impI)
  fix c' assume c': "c' \<in> set (ab_calls db')" "al_turn_id c' = al_turn_id c \<and> is_step c' \<and> al_step_index c' < al_step_index c"
  have "\<not> (al_turn_id c' \<in> turn_ids db \<and> \<not> (\<exists>c\<in>set (ab_calls db). is_step c \<and> al_turn_id c = al_turn_id c'))"
    using tied_turn [OF assms(2,3)] c'(2) by metis
  then obtain c0 where c0: "c0 \<in> set (ab_calls db)" "same_step c0 c'" "is_step c0 \<longrightarrow> grows c0 c'"
    using assms(4) c' unfolding moves_on_def by metis
  then have "al_status c0 = ''success''" "is_step c0" using assms(1) c'(2) is_step_same [OF c0(2)] same_stepD [OF c0(2)]
    by (auto simp: before_ok_def)
  then show "al_status c' = ''success''" using c0(3) by (simp add: grows_def)
qed

text \<open>A row that has left a rank does not come back to it.\<close>

lemma rank_moves:
  assumes "moves_on usedT usedC db db'" "i \<in> usedC" "\<forall>c\<in>set (ab_calls db). al_id c = i \<and> is_step c \<longrightarrow> r \<le> status_rank (al_status c)"
  shows "\<forall>c\<in>set (ab_calls db'). al_id c = i \<and> is_step c \<longrightarrow> r \<le> status_rank (al_status c)"
proof (intro ballI impI)
  fix c' assume c': "c' \<in> set (ab_calls db')" "al_id c' = i \<and> is_step c'"
  then obtain c where c: "c \<in> set (ab_calls db)" "same_step c c'" "is_step c \<longrightarrow> grows c c'"
    using assms(1,2) unfolding moves_on_def by metis
  then show "r \<le> status_rank (al_status c')" using assms(3) c'(2) is_step_same [OF c(2)] same_stepD(1) [OF c(2)]
    by (force simp: grows_def)
qed

section \<open>How the database keeps its invariant\<close>

lemma ids_ok_map: "ids_ok db usedT usedC \<Longrightarrow> rows_mapped F db db' \<Longrightarrow> ids_ok db' usedT usedC"
proof -
  assume ok: "ids_ok db usedT usedC" and m: "rows_mapped F db db'"
  have F: "al_id (F c) = al_id c" "al_turn_id (F c) = al_turn_id c" for c using m by (auto simp: rows_mapped_def same_step_def)
  have calls: "ab_calls db' = map F (ab_calls db)" using m by (simp add: rows_mapped_def)
  have turns: "map at_id (ab_turns db') = map at_id (ab_turns db)" using m by (simp add: rows_mapped_def)
  show ?thesis using ok unfolding ids_ok_def rows_mapped_turns [OF m] calls turns by (auto simp: F o_def)
qed

lemma steps_ok_map: "steps_ok db \<Longrightarrow> rows_mapped F db db' \<Longrightarrow> steps_ok db'"
proof -
  assume ok: "steps_ok db" and m: "rows_mapped F db db'"
  have F: "al_turn_id (F c) = al_turn_id c" "al_step_index (F c) = al_step_index c" "is_step (F c) = is_step c" for c
    using m by (auto simp: rows_mapped_def same_step_def is_step_def)
  have calls: "ab_calls db' = map F (ab_calls db)" using m by (simp add: rows_mapped_def)
  show ?thesis using ok unfolding steps_ok_def calls
    by (simp add: F) metis
qed

lemma plans_ok_map:
  assumes ok: "plans_ok db n confirmed usedT usedC" and m: "rows_mapped F db db'"
    and g: "\<And>c. c \<in> set (ab_calls db) \<Longrightarrow> is_step c \<Longrightarrow> grows c (F c)"
    and p1: "\<And>c. c \<in> set (ab_calls db) \<Longrightarrow> is_step c \<Longrightarrow> al_status (F c) = ''success'' \<or> al_status (F c) = ''accepted'' \<Longrightarrow>
        al_status c = ''success'' \<or> al_status c = ''accepted'' \<or> al_step_index c < int (n (al_turn_id c))"
    and p2: "\<And>c. c \<in> set (ab_calls db) \<Longrightarrow> is_step c \<Longrightarrow> al_status (F c) = ''running'' \<or> al_status (F c) = ''accepted'' \<Longrightarrow>
        (al_status c = ''running'' \<or> al_status c = ''accepted'') \<and> al_policy_decision (F c) = al_policy_decision c \<or> row_authorized confirmed (F c)"
  shows "plans_ok db' n confirmed usedT usedC"
proof -
  have parts: "ids_ok db usedT usedC" "steps_ok db" "progress_ok db n usedT" "authority_ok db confirmed" using ok by (auto simp: plans_ok_def)
  have F: "al_turn_id (F c) = al_turn_id c" "al_step_index (F c) = al_step_index c" "is_step (F c) = is_step c" for c
    using m by (auto simp: rows_mapped_def same_step_def is_step_def)
  have calls: "ab_calls db' = map F (ab_calls db)" using m by (simp add: rows_mapped_def)
  have "progress_ok db' n usedT"
    unfolding progress_ok_def rows_mapped_turns [OF m]
  proof (intro conjI ballI allI impI)
    fix c' assume "c' \<in> set (ab_calls db')" "is_step c'"
    then obtain c where c: "c \<in> set (ab_calls db)" "c' = F c" "is_step c" using F(3) calls by auto
    note row = parts(3) [unfolded progress_ok_def, THEN conjunct1, rule_format, OF c(1,3)]
    show "int (n (al_turn_id c')) \<le> al_step_index c'" if "status_rank (al_status c') \<le> 1"
      using row g [OF c(1,3)] that c(2) F by (simp add: grows_def)
    show "al_step_index c' < int (n (al_turn_id c'))" if "al_status c' = ''success'' \<or> al_status c' = ''accepted''"
      using row p1 [OF c(1,3)] that c(2) F by auto
  next
    fix T assume T: "0 < n T"
    then show "T \<in> usedT" using parts(3) by (simp add: progress_ok_def)
    assume "T \<in> turn_ids db"
    then obtain c where "c \<in> set (ab_calls db)" "is_step c" "al_turn_id c = T" using parts(3) T by (auto simp: progress_ok_def)
    then show "\<exists>c\<in>set (ab_calls db'). is_step c \<and> al_turn_id c = T" using F calls by auto
  qed
  moreover have "authority_ok db' confirmed"
    unfolding authority_ok_def
  proof (intro ballI impI)
    fix c' assume c': "c' \<in> set (ab_calls db')" "is_step c' \<and> (al_status c' = ''running'' \<or> al_status c' = ''accepted'')"
    then obtain c where c: "c \<in> set (ab_calls db)" "c' = F c" "is_step c" using F(3) calls by auto
    show "row_authorized confirmed c'" using p2 [OF c(1,3)] c'(2) c(1-3) parts(4) F by (auto simp: authority_ok_def row_authorized_def)
  qed
  ultimately show ?thesis using ids_ok_map [OF parts(1) m] steps_ok_map [OF parts(2) m] by (simp add: plans_ok_def)
qed

lemma plans_ok_harmless:
  assumes "plans_ok db n confirmed usedT usedC" "rows_mapped F db db'" "\<And>c. c \<in> set (ab_calls db) \<Longrightarrow> is_step c \<Longrightarrow> harmless c (F c)"
  shows "plans_ok db' n confirmed usedT usedC"
proof (rule plans_ok_map [OF assms(1,2)])
  fix c assume c: "c \<in> set (ab_calls db)" "is_step c"
  note h = assms(3) [OF c]
  show "grows c (F c)" using h by (rule harmless_grows)
  show "al_status c = ''success'' \<or> al_status c = ''accepted'' \<or> al_step_index c < int (n (al_turn_id c))"
    if "al_status (F c) = ''success'' \<or> al_status (F c) = ''accepted''" using h that by (auto simp: harmless_def)
  show "(al_status c = ''running'' \<or> al_status c = ''accepted'') \<and> al_policy_decision (F c) = al_policy_decision c \<or> row_authorized confirmed (F c)"
    if "al_status (F c) = ''running'' \<or> al_status (F c) = ''accepted''" using h that by (auto simp: harmless_def)
qed

lemma moves_on_harmless:
  assumes "rows_mapped F db db'" "\<And>c. c \<in> set (ab_calls db) \<Longrightarrow> is_step c \<Longrightarrow> harmless c (F c)"
  shows "moves_on usedT usedC db db'"
proof (rule moves_on_map [OF assms(1)])
  fix c assume c: "c \<in> set (ab_calls db)" "is_step c"
  show "grows c (F c) \<and> (2 \<le> status_rank (al_status (F c)) \<and> 2 \<le> status_rank (al_status c) \<longrightarrow> al_policy_decision (F c) = al_policy_decision c)"
    using harmless_grows [OF assms(2) [OF c]] assms(2) [OF c] by (auto simp: harmless_def)
qed

section \<open>What the operations of the store change\<close>

definition harmless_change :: "ai_db \<Rightarrow> ai_db \<Rightarrow> bool" where
  "harmless_change db db' \<longleftrightarrow> (\<exists>F. rows_mapped F db db' \<and> (\<forall>c\<in>set (ab_calls db). is_step c \<longrightarrow> harmless c (F c)))"

lemma harmless_changeI: "rows_mapped F db db' \<Longrightarrow> (\<And>c. c \<in> set (ab_calls db) \<Longrightarrow> is_step c \<Longrightarrow> harmless c (F c)) \<Longrightarrow> harmless_change db db'"
  by (auto simp: harmless_change_def)

lemma harmless_trans: "harmless a b \<Longrightarrow> harmless b c \<Longrightarrow> harmless a c"
  using status_rank_iff(6) [of "al_status a"] by (auto simp: harmless_def)

lemma harmless_change_trans: "harmless_change a b \<Longrightarrow> harmless_change b c \<Longrightarrow> harmless_change a c"
proof -
  assume "harmless_change a b" "harmless_change b c"
  then obtain F G where F: "rows_mapped F a b" "\<forall>x\<in>set (ab_calls a). is_step x \<longrightarrow> harmless x (F x)"
    and G: "rows_mapped G b c" "\<forall>x\<in>set (ab_calls b). is_step x \<longrightarrow> harmless x (G x)" by (auto simp: harmless_change_def)
  show "harmless_change a c"
  proof (rule harmless_changeI [OF rows_mapped_trans [OF F(1) G(1)]])
    fix x assume x: "x \<in> set (ab_calls a)" "is_step x"
    have "F x \<in> set (ab_calls b)" "is_step (F x)" using F(1) x is_step_same by (auto simp: rows_mapped_def)
    then show "harmless x ((G \<circ> F) x)" using F(2) G(2) x harmless_trans by (metis comp_apply)
  qed
qed

lemma same_calls_harmless: "ab_calls db' = ab_calls db \<Longrightarrow> map at_id (ab_turns db') = map at_id (ab_turns db) \<Longrightarrow> harmless_change db db'"
  by (rule harmless_changeI [OF rows_mapped_same]) auto

lemma harmless_change_refl [simp]: "harmless_change db db"
  by (rule same_calls_harmless) auto

lemma at_ids_update [simp]: "(\<And>t. at_id (f t) = at_id t) \<Longrightarrow> map at_id (update_rows P f ts) = map at_id ts"
  by (rule map_update_rows)

lemma finish_turn_keeps:
  assumes "finish_turn_tx now i turn status code content db = Inr (message, db')"
  shows "ab_calls db' = ab_calls db \<and> map at_id (ab_turns db') = map at_id (ab_turns db)"
  using assms by (auto simp: finish_turn_tx_def Let_def result_iff insert_message_tx_def update_turns_def touch_conversation_def update_conversation_def
      split: if_splits)

text \<open>Rows that satisfy \<open>P\<close> are changed by \<open>f\<close>.\<close>

lemma update_calls_mapped:
  "(\<And>c. same_step c (f c)) \<Longrightarrow> rows_mapped (\<lambda>c. if P c then f c else c) db (update_calls P f db)"
  by (auto simp: rows_mapped_def update_calls_def update_rows_def)

lemma update_calls_harmless:
  "(\<And>c. same_step c (f c)) \<Longrightarrow> (\<And>c. P c \<Longrightarrow> is_step c \<Longrightarrow> harmless c (f c)) \<Longrightarrow> harmless_change db (update_calls P f db)"
  by (rule harmless_changeI [OF update_calls_mapped]) auto

lemma update_turns_harmless: "(\<And>t. at_id (f t) = at_id t) \<Longrightarrow> harmless_change db (update_turns P f db)"
  by (rule same_calls_harmless) (auto simp: update_turns_def)

lemma result_same: "same_step c (with_result now status summary operationID verification c)"
  by (simp add: with_result_def same_step_def)

lemma policy_same: "same_step c (with_policy now decision reason revision c)"
  by (simp add: with_policy_def same_step_def)

lemma skip_harmless: "harmless_change db (skip_queued_steps now T db)"
  unfolding skip_queued_steps_def by (rule update_calls_harmless) (auto simp: same_step_def harmless_def)

lemma change_step_cases:
  assumes "change_step i from f db = (r, db')"
  shows "(db' = db \<and> r = Inl AiConflict) \<or> (db' = update_calls (\<lambda>c. al_id c = i \<and> al_step_index c \<ge> 0 \<and> al_status c = from) f db \<and> r = Inr ()
     \<and> (\<exists>c\<in>set (ab_calls db). al_id c = i \<and> is_step c \<and> al_status c = from))"
  using assms by (auto simp: change_step_def Let_def count_rows_eq_0 is_step_def split: if_splits)

lemma update_policy_harmless:
  assumes "from = ''queued'' \<or> from = ''pending''" "change_step i from (with_policy now decision reason revision) db = (r, db')"
  shows "harmless_change db db'"
  using change_step_cases [OF assms(2)]
proof (elim disjE conjE)
  assume "db' = update_calls (\<lambda>c. al_id c = i \<and> al_step_index c \<ge> 0 \<and> al_status c = from) (with_policy now decision reason revision) db"
  moreover have "harmless_change db (update_calls (\<lambda>c. al_id c = i \<and> al_step_index c \<ge> 0 \<and> al_status c = from) (with_policy now decision reason revision) db)"
    by (rule update_calls_harmless [OF policy_same]) (use assms(1) in \<open>auto simp: harmless_def with_policy_def\<close>)
  ultimately show ?thesis by simp
qed simp

lemma claim_plan_harmless: "claim_tool_plan now T db = (r, db') \<Longrightarrow> harmless_change db db'"
proof (cases r)
  case (Inr x)
  assume "claim_tool_plan now T db = (r, db')"
  with Inr have "db' = update_calls (pending_step_of T) (\<lambda>c. c\<lparr>al_status := ''queued'', al_updated_at := now\<rparr>)
      (update_turns (\<lambda>t. at_id t = T \<and> at_status t = ''awaiting_confirmation'') (\<lambda>t. t\<lparr>at_status := ''running'', at_updated_at := now\<rparr>) db)"
    by (auto simp: claim_tool_plan_def result_iff Let_def)
  moreover have "harmless_change db' (update_calls (pending_step_of T) (\<lambda>c. c\<lparr>al_status := ''queued'', al_updated_at := now\<rparr>) db')" for db'
    by (rule update_calls_harmless) (auto simp: same_step_def harmless_def pending_step_of_def)
  moreover have "harmless_change db (update_turns (\<lambda>t. at_id t = T \<and> at_status t = ''awaiting_confirmation'') (\<lambda>t. t\<lparr>at_status := ''running'', at_updated_at := now\<rparr>) db)"
    by (rule update_turns_harmless) simp
  ultimately show ?thesis using harmless_change_trans by blast
qed (simp add: claim_tool_plan_def result_iff)

lemma reject_plan_harmless: "reject_tool_plan now i T content db = (r, db') \<Longrightarrow> harmless_change db db'"
proof (cases r)
  case (Inr x)
  assume "reject_tool_plan now i T content db = (r, db')"
  with Inr obtain turn message db1 f where tx: "finish_turn_tx now i turn ''completed'' [] content db = Inr (message, db1)"
    and db': "db' = update_calls (pending_step_of T) f db1" and f: "\<And>c. same_step c (f c)" "\<And>c. al_status (f c) = ''rejected''"
    by (force simp: reject_tool_plan_def result_iff Let_def same_step_def)
  have "harmless_change db db1" using finish_turn_keeps [OF tx] by (simp add: same_calls_harmless)
  moreover have "harmless_change db1 db'" unfolding db'
    by (rule update_calls_harmless [OF f(1)]) (auto simp: harmless_def f(2) pending_step_of_def)
  ultimately show ?thesis by (rule harmless_change_trans)
qed (simp add: reject_tool_plan_def result_iff)

lemma finish_plan_harmless: "finish_tool_plan now i T content db = (r, db') \<Longrightarrow> harmless_change db db'"
proof (cases r)
  case (Inr x)
  assume "finish_tool_plan now i T content db = (r, db')"
  with Inr obtain turn message where tx: "finish_turn_tx now i turn ''completed'' [] content (skip_queued_steps now T db) = Inr (message, db')"
    by (auto simp: finish_tool_plan_def result_iff Let_def)
  have "harmless_change (skip_queued_steps now T db) db'" using finish_turn_keeps [OF tx] by (simp add: same_calls_harmless)
  with skip_harmless show ?thesis by (rule harmless_change_trans)
qed (simp add: finish_tool_plan_def result_iff)

lemma complete_plan_cases:
  assumes "complete_tool_plan_with_verification now i T stepID from status summary operationID verification content db = (r, db')"
  shows "db' = db \<or> (\<exists>db1. db1 = update_calls (\<lambda>c. al_id c = stepID \<and> al_turn_id c = T \<and> al_step_index c \<ge> 0 \<and> al_status c = from)
      (with_result now status summary operationID verification) db \<and> harmless_change db1 db')"
proof (cases r)
  case (Inr x)
  let ?db1 = "update_calls (\<lambda>c. al_id c = stepID \<and> al_turn_id c = T \<and> al_step_index c \<ge> 0 \<and> al_status c = from)
      (with_result now status summary operationID verification) db"
  obtain turn message where tx: "finish_turn_tx now i turn ''completed'' [] content (skip_queued_steps now T ?db1) = Inr (message, db')"
    using assms Inr by (auto simp: complete_tool_plan_with_verification_def result_iff Let_def)
  have "harmless_change (skip_queued_steps now T ?db1) db'" using finish_turn_keeps [OF tx] by (simp add: same_calls_harmless)
  then show ?thesis using skip_harmless harmless_change_trans by blast
qed (use assms in \<open>simp add: complete_tool_plan_with_verification_def result_iff\<close>)

lemma end_harmless: "harmless_change db (snd (run_tx (finish_turn_tx now i turn status code content) db))"
proof (cases "finish_turn_tx now i turn status code content db")
  case (Inr x)
  obtain message db' where x: "x = (message, db')" by (cases x)
  show ?thesis using finish_turn_keeps [OF Inr [unfolded x]] by (simp add: run_tx_def Inr x same_calls_harmless)
qed (simp add: run_tx_def)

lemma fail_turn_harmless: "harmless_change db (snd (fail_turn now turn code db))"
  unfolding fail_turn_def by (rule end_harmless)

lemma plain_harmless:
  assumes "plain_call db i" "\<And>c. same_step c (f c)" "\<And>c. P c \<Longrightarrow> al_id c = i"
  shows "harmless_change db (update_calls P f db)"
proof (rule harmless_changeI [OF update_calls_mapped [OF assms(2)]])
  fix c assume "c \<in> set (ab_calls db)" "is_step c"
  then have "al_id c \<noteq> i" using assms(1) by (auto simp: plain_call_def list_all_iff is_step_def)
  then show "harmless c (if P c then f c else c)" using assms(3) by auto
qed

lemma recover_harmless: "harmless_change db (recover_interrupted now db)"
proof -
  let ?P = "\<lambda>c. al_status c = ''running'' \<or> al_status c = ''pending''"
  let ?db1 = "update_calls ?P (interrupted_call now) db"
  have 1: "harmless_change db ?db1"
    by (rule update_calls_harmless) (auto simp: same_step_def harmless_def interrupted_call_def)
  obtain Q f where Q: "\<And>c. Q c \<Longrightarrow> al_status c = ''queued''" "\<And>c. same_step c (f c)" "\<And>c. al_status (f c) = ''skipped''"
    and db2: "ab_calls (recover_interrupted now db) = ab_calls (update_calls Q f ?db1)"
    by (rule that [of "\<lambda>c. al_step_index c \<ge> 0 \<and> al_status c = ''queued'' \<and> \<not> accepted_plan (ab_calls ?db1) (al_turn_id c)"])
      (simp_all add: recover_interrupted_def Let_def update_turns_def update_calls_def same_step_def)
  have 2: "harmless_change ?db1 (update_calls Q f ?db1)"
    by (rule update_calls_harmless [OF Q(2)]) (auto simp: harmless_def Q(3) dest: Q(1))
  have 3: "harmless_change (update_calls Q f ?db1) (recover_interrupted now db)"
    by (rule same_calls_harmless [OF db2]) (simp add: recover_interrupted_def Let_def update_turns_def update_calls_def)
  show ?thesis using 1 2 3 harmless_change_trans by blast
qed

lemma cancel_harmless: "harmless_change db (snd (cancel_pending_turn now i summary content T db))"
proof -
  let ?P = "\<lambda>c. al_turn_id c = T \<and> al_status c = ''pending''"
  let ?f = "\<lambda>c. c\<lparr>al_status := ''rejected'', al_result_summary := summary, al_updated_at := now\<rparr>"
  have 1: "harmless_change db (update_calls ?P ?f db)" by (rule update_calls_harmless) (auto simp: same_step_def harmless_def)
  have 2: "harmless_change db db'" if "finish_turn_tx now i turn ''completed'' [] content (update_calls ?P ?f db) = Inr (m, db')" for turn m db'
    using finish_turn_keeps [OF that] harmless_change_trans [OF 1 same_calls_harmless] by blast
  show ?thesis unfolding cancel_pending_turn_def Let_def
    by (auto split: option.split sum.split prod.split ai_error.split intro: 2)
qed

lemma accepted_call_harmless:
  assumes "plain_call db (al_id (fst found))"
  shows "harmless_change db (snd (complete_accepted_tool_call now i found status summary content db))"
proof -
  let ?P = "\<lambda>c. al_id c = al_id (fst found) \<and> al_status c = ''accepted''"
  let ?f = "\<lambda>c. c\<lparr>al_status := status, al_result_summary := summary, al_updated_at := now\<rparr>"
  let ?db1 = "update_calls ?P ?f db"
  have 1: "harmless_change db ?db1" by (rule plain_harmless [OF assms]) (auto simp: same_step_def)
  have 2: "harmless_change ?db1 (touch_conversation now k db2)" if "db2 = ?db1 \<or> insert_message_tx m ?db1 = Inr db2" for db2 m k
    using that by (auto intro!: same_calls_harmless simp: touch_conversation_def update_conversation_def insert_message_tx_def result_iff)
  show ?thesis unfolding complete_accepted_tool_call_def run_tx_def Let_def
    by (auto simp: bindE_failIf bindE_def split: sum.split intro!: harmless_change_trans [OF 1 2])
qed

lemma switch_harmless: "harmless_change db (snd (switch_turn_model_before_tools now T provider model db))"
  unfolding switch_turn_model_before_tools_def Let_def by (auto intro!: update_turns_harmless)

lemma claim_call_harmless: "plain_call db i \<Longrightarrow> harmless_change db (snd (claim_tool_call now i db))"
  unfolding claim_tool_call_def Let_def by (auto intro!: plain_harmless simp: same_step_def)

lemma end_read_harmless:
  "plain_call db i \<Longrightarrow> harmless_change db (snd (update_tool_call_result_with_operation now i status summary operationID db))"
  unfolding update_tool_call_result_with_operation_def by (auto intro!: plain_harmless result_same)

lemma complete_call_harmless:
  assumes "plain_call db i"
  shows "harmless_change db (snd (complete_tool_call_and_turn now messageID i turn status summary operationID content db))"
proof -
  let ?db1 = "update_calls (\<lambda>c. al_id c = i \<and> al_status c = ''running'') (with_result now status summary operationID []) db"
  have 1: "harmless_change db ?db1" by (rule plain_harmless [OF assms result_same]) simp
  have 2: "harmless_change db db'" if "finish_turn_tx now messageID turn ''completed'' [] content ?db1 = Inr (m, db')" for m db'
    using finish_turn_keeps [OF that] harmless_change_trans [OF 1 same_calls_harmless] by blast
  show ?thesis unfolding complete_tool_call_and_turn_def run_tx_def Let_def
    by (auto simp: bindE_failIf split: sum.split intro: 2)
qed

section \<open>New rows, new turns and removed conversations\<close>

lemma plans_ok_add_turn:
  assumes ok: "plans_ok db n confirmed usedT usedC" and calls: "ab_calls db' = ab_calls db"
    and turns: "map at_id (ab_turns db') = map at_id (ab_turns db) @ [T]" and fresh: "T \<notin> usedT"
  shows "plans_ok db' n confirmed (insert T usedT) usedC \<and> moves_on usedT usedC db db'"
proof -
  have ids: "turn_ids db' = insert T (turn_ids db)" unfolding turn_ids_def using turns by (metis list.set_map list.simps(15) set_append Un_insert_right list.set(1) sup_bot_right)
  have new: "T \<notin> turn_ids db" using ok fresh by (auto simp: plans_ok_def ids_ok_def)
  have "ids_ok db' (insert T usedT) usedC" using ok new unfolding plans_ok_def ids_ok_def calls ids turns by (auto simp: turn_ids_def)
  moreover have "progress_ok db' n (insert T usedT)" using ok fresh unfolding plans_ok_def progress_ok_def calls ids by auto
  moreover have "moves_on usedT usedC db db'" unfolding moves_on_def calls ids using fresh by (auto simp: grows_def intro: same_step_refl)
  ultimately show ?thesis using ok by (simp add: plans_ok_def steps_ok_def authority_ok_def calls)
qed

text \<open>Rows that are no steps.\<close>

lemma plans_ok_add_call:
  assumes ok: "plans_ok db n confirmed usedT usedC" and calls: "ab_calls db' = ab_calls db @ [c]" and c: "\<not> is_step c" "al_id c \<notin> usedC"
    and turns: "map at_id (ab_turns db') = map at_id (ab_turns db)" "al_turn_id c \<in> turn_ids db"
  shows "plans_ok db' n confirmed usedT (insert (al_id c) usedC) \<and> moves_on usedT usedC db db'"
proof -
  have ids: "turn_ids db' = turn_ids db" unfolding turn_ids_def using turns(1) by (metis list.set_map)
  have neg: "al_step_index c < 0" using c(1) by (simp add: is_step_def)
  have "ids_ok db' usedT (insert (al_id c) usedC)" using ok c(2) turns(2) unfolding plans_ok_def ids_ok_def ids calls turns(1) by auto
  moreover have "steps_ok db'" using ok neg unfolding plans_ok_def steps_ok_def calls by (auto simp: is_step_def)
  moreover have "progress_ok db' n usedT" using ok c(1) unfolding plans_ok_def progress_ok_def ids calls by auto
  moreover have "authority_ok db' confirmed" using ok c(1) unfolding plans_ok_def authority_ok_def calls by auto
  moreover have "moves_on usedT usedC db db'" unfolding moves_on_def calls ids using c by (auto simp: grows_def intro: same_step_refl)
  ultimately show ?thesis by (simp add: plans_ok_def)
qed

text \<open>The rows of a plan, all pending, for a turn that has none.\<close>

lemma plans_ok_add_plan:
  assumes ok: "plans_ok db n confirmed usedT usedC" and calls: "ab_calls db' = ab_calls db @ rows"
    and turns: "map at_id (ab_turns db') = map at_id (ab_turns db)" "T \<in> turn_ids db"
    and rows: "\<forall>c\<in>set rows. al_turn_id c = T \<and> al_status c = ''pending''" "map al_step_index rows = map int [0..<length rows]"
    and fresh: "distinct (map al_id rows)" "al_id ` set rows \<inter> usedC = {}"
    and none: "\<not> (\<exists>c\<in>set (ab_calls db). is_step c \<and> al_turn_id c = T)"
  shows "plans_ok db' n confirmed usedT (al_id ` set rows \<union> usedC) \<and> moves_on usedT usedC db db'"
proof -
  have ids: "turn_ids db' = turn_ids db" unfolding turn_ids_def using turns(1) by (metis list.set_map)
  have nth: "al_step_index (rows ! j) = int j" if "j < length rows" for j
    using arg_cong [OF rows(2), of "\<lambda>xs. xs ! j"] that by simp
  have idx: "\<exists>j<length rows. c = rows ! j \<and> al_step_index c = int j" if "c \<in> set rows" for c
    using that nth by (metis in_set_conv_nth)
  have steps: "is_step c" if "c \<in> set rows" for c using idx [OF that] by (auto simp: is_step_def)
  have n0: "n T = 0" using ok turns(2) none unfolding plans_ok_def progress_ok_def by (metis gr0I)
  have "ids_ok db' usedT (al_id ` set rows \<union> usedC)"
    using ok fresh turns(2) rows(1) unfolding plans_ok_def ids_ok_def ids calls turns(1) by auto
  moreover have "steps_ok db'"
    unfolding steps_ok_def
  proof (intro conjI ballI allI impI)
    fix c k assume c: "c \<in> set (ab_calls db')" and k: "0 \<le> k \<and> k < al_step_index c"
    show "\<exists>c'\<in>set (ab_calls db'). al_turn_id c' = al_turn_id c \<and> al_step_index c' = k"
    proof (cases "c \<in> set rows")
      case True
      obtain j where j: "j < length rows" "al_step_index c = int j" using idx [OF True] by blast
      then have "nat k < length rows" "al_step_index (rows ! nat k) = k" using k nth [of "nat k"] by auto
      then show ?thesis using rows(1) True calls by (intro bexI [of _ "rows ! nat k"]) auto
    next
      case False
      then have "c \<in> set (ab_calls db)" using c calls by simp
      then show ?thesis using ok k calls unfolding plans_ok_def steps_ok_def by fastforce
    qed
  next
    fix c c' assume c: "c \<in> set (ab_calls db')" "c' \<in> set (ab_calls db')"
      and eq: "is_step c \<and> al_turn_id c' = al_turn_id c \<and> al_step_index c' = al_step_index c"
    then have st: "is_step c'" by (simp add: is_step_def)
    show "c' = c"
    proof (cases "c \<in> set rows \<or> c' \<in> set rows")
      case True
      then have "al_turn_id c = T" "al_turn_id c' = T" using rows(1) eq by auto
      then have "c \<in> set rows" "c' \<in> set rows" using c eq st none calls by auto
      then show ?thesis using idx eq by (metis of_nat_eq_iff)
    next
      case False
      then have "c \<in> set (ab_calls db)" "c' \<in> set (ab_calls db)" using c calls by auto
      then show ?thesis using ok eq unfolding plans_ok_def steps_ok_def by blast
    qed
  qed
  moreover have "progress_ok db' n usedT"
    using ok rows(1) n0 steps unfolding plans_ok_def progress_ok_def ids calls by (auto simp: is_step_def) blast
  moreover have "authority_ok db' confirmed" using ok rows(1) unfolding plans_ok_def authority_ok_def calls by auto
  moreover have "moves_on usedT usedC db db'" unfolding moves_on_def calls ids
    using rows(1) fresh(2) none turns(2) by (auto simp: grows_def intro: same_step_refl)
  ultimately show ?thesis by (simp add: plans_ok_def)
qed

lemma plans_ok_remove:
  assumes ok: "plans_ok db n confirmed usedT usedC" and turns: "ab_turns db' = filter (\<lambda>t. \<not> Q t) (ab_turns db)"
    and calls: "ab_calls db' = filter (\<lambda>c. al_turn_id c \<notin> at_id ` set (filter Q (ab_turns db))) (ab_calls db)"
  shows "plans_ok db' n confirmed usedT usedC \<and> moves_on usedT usedC db db'"
proof -
  have dist: "distinct (map at_id (ab_turns db))" using ok by (simp add: plans_ok_def ids_ok_def)
  have ids: "T \<in> turn_ids db' \<longleftrightarrow> T \<in> turn_ids db \<and> T \<notin> at_id ` set (filter Q (ab_turns db))" for T
    using distinct_key_eq [OF dist] unfolding turn_ids_def turns by (auto simp: image_iff)
  have sub: "set (ab_calls db') = {c \<in> set (ab_calls db). al_turn_id c \<in> turn_ids db'}"
    using ok ids unfolding calls plans_ok_def ids_ok_def by auto
  have "distinct (map al_id (ab_calls db'))" "distinct (map at_id (ab_turns db'))"
    using ok unfolding plans_ok_def ids_ok_def turns calls by (simp_all add: distinct_map_filter)
  then have "ids_ok db' usedT usedC" using ok ids unfolding plans_ok_def ids_ok_def sub by auto
  moreover have "steps_ok db'" using ok unfolding plans_ok_def steps_ok_def sub by (fastforce dest: bspec)
  moreover have "progress_ok db' n usedT" using ok ids unfolding plans_ok_def progress_ok_def sub by auto blast
  moreover have "authority_ok db' confirmed" using ok unfolding plans_ok_def authority_ok_def sub by auto
  moreover have "moves_on usedT usedC db db'" unfolding moves_on_def sub using ids by (auto simp: grows_def intro: same_step_refl)
  ultimately show ?thesis by (simp add: plans_ok_def)
qed

section \<open>The chat operations\<close>

lemma find_turn_ids: "find_turn db T \<noteq> None \<longleftrightarrow> T \<in> turn_ids db"
proof -
  have "find_turn db T \<noteq> None \<longleftrightarrow> (\<exists>t\<in>set (ab_turns db). at_id t = T)" unfolding find_turn_def find_None_set by blast
  then show ?thesis unfolding turn_ids_def by blast
qed

lemma chat_keeps:
  assumes ok: "plans_ok db n confirmed usedT usedC"
    and fresh: "set (drawn_turns op) \<inter> usedT = {}" "set (drawn_calls op) \<inter> usedC = {}"
  shows "plans_ok (apply_chat_op op db) n confirmed (set (drawn_turns op) \<union> usedT) (set (drawn_calls op) \<union> usedC)
     \<and> moves_on usedT usedC db (apply_chat_op op db)"
proof -
  have quiet: "plans_ok db' n confirmed usedT usedC \<and> moves_on usedT usedC db db'" if "harmless_change db db'" for db'
    using that plans_ok_harmless [OF ok] moves_on_harmless unfolding harmless_change_def by blast
  have more: "plans_ok db' n confirmed (A \<union> usedT) (B \<union> usedC)" if "plans_ok db' n confirmed usedT usedC" for db' A B
    using that by (auto simp: plans_ok_def ids_ok_def progress_ok_def)
  show ?thesis
  proof (cases op)
    case (ReplaceModels providers models)
    have "harmless_change db (db\<lparr>ab_providers := providers, ab_models := models\<rparr>)" by (rule same_calls_harmless) simp_all
    with ReplaceModels show ?thesis using quiet by simp
  next
    case (AddConversation now i title modelID)
    have "harmless_change db (snd (create_conversation_with_model now i title modelID db))"
      by (rule same_calls_harmless) (simp_all add: create_conversation_with_model_def Let_def)
    with AddConversation show ?thesis using quiet by simp
  next
    case (RemoveConversation i)
    show ?thesis
    proof (cases "find_conversation db i = None")
      case True
      then show ?thesis using quiet [OF harmless_change_refl] RemoveConversation by (simp add: delete_conversation_def)
    next
      case False
      then have "ab_turns (snd (delete_conversation i db)) = filter (\<lambda>t. \<not> at_conversation_id t = i) (ab_turns db)"
        "ab_calls (snd (delete_conversation i db))
           = filter (\<lambda>c. al_turn_id c \<notin> at_id ` set (filter (\<lambda>t. at_conversation_id t = i) (ab_turns db))) (ab_calls db)"
        by (cases "find_conversation db i"; simp add: delete_conversation_def Let_def delete_rows_def)+
      from plans_ok_remove [OF ok this] RemoveConversation show ?thesis by simp
    qed
  next
    case (StartChat now T messageID i provider model content)
    show ?thesis
    proof (cases "start_model_turn now T messageID i provider model content db")
      case (Pair r db')
      show ?thesis
      proof (cases r)
        case (Inl e)
        then have "db' = db" using Pair by (simp add: start_model_turn_def result_iff)
        then show ?thesis using quiet [OF harmless_change_refl] more [of db "{T}" "{}"] StartChat Pair by simp
      next
        case (Inr x)
        then have "ab_calls db' = ab_calls db \<and> map at_id (ab_turns db') = map at_id (ab_turns db) @ [T]"
          using Pair by (auto simp: start_model_turn_def result_iff Let_def touch_conversation_def update_conversation_def insert_message_tx_def)
        then show ?thesis using plans_ok_add_turn [OF ok, of db' T] fresh(1) StartChat Pair by simp
      qed
    qed
  next
    case (StartRead js now i turn input)
    let ?id = "if al_id (fst input) = [] then i else al_id (fst input)"
    show ?thesis
    proof (cases "create_tool_call js now i turn input db")
      case (Pair r db')
      show ?thesis
      proof (cases r)
        case (Inl e)
        then have "db' = db" using Pair by (simp add: create_tool_call_def result_iff)
        then show ?thesis using quiet [OF harmless_change_refl] more [of db "{}" "{?id}"] StartRead Pair by simp
      next
        case (Inr x)
        then obtain c where c: "ab_calls db' = ab_calls db @ [c]" "\<not> is_step c" "al_id c = ?id" "map at_id (ab_turns db') = map at_id (ab_turns db)"
            "find_turn db (al_turn_id c) \<noteq> None"
          using Pair by (auto simp: create_tool_call_def result_iff Let_def insert_ai_tool_call_tx_def await_confirmation_tx_def is_step_def
              update_turns_def split: if_splits)
        then have "al_turn_id c \<in> turn_ids db" using find_turn_ids by blast
        then show ?thesis using plans_ok_add_call [OF ok c(1,2)] c(3,4) fresh(2) StartRead Pair by simp
      qed
    qed
  next
    case (SwitchModel now T provider model)
    then show ?thesis using quiet [OF switch_harmless] by simp
  next
    case (EndChat now i turn status code content)
    then show ?thesis using quiet [OF end_harmless] by simp
  next
    case (EndRead now i status summary)
    then show ?thesis using quiet [OF end_read_harmless] quiet [OF harmless_change_refl] by simp
  next
    case (ClaimCall now i)
    then show ?thesis using quiet [OF claim_call_harmless] quiet [OF harmless_change_refl] by simp
  next
    case (CompleteCall now messageID i turn status summary operationID content)
    then show ?thesis using quiet [OF complete_call_harmless] quiet [OF harmless_change_refl] by simp
  next
    case (RejectPlan now messageID T content)
    then show ?thesis using quiet [OF reject_plan_harmless [of now messageID T content db "fst (reject_tool_plan now messageID T content db)"]] by simp
  next
    case (CancelPlan now messageID summary content T)
    then show ?thesis using quiet [OF cancel_harmless] by simp
  qed
qed

section \<open>Proposing a plan\<close>

lemma insert_plan_loop_rows:
  assumes "insert_plan_loop js now fresh turn k inputs db = Inr (created, db')" "[] \<notin> set (map (al_id \<circ> fst) inputs)"
  shows "\<exists>rows. ab_calls db' = ab_calls db @ rows \<and> ab_turns db' = ab_turns db \<and> map al_id rows = map (al_id \<circ> fst) inputs
     \<and> map al_step_index rows = map int [k..<k + length inputs] \<and> (\<forall>c\<in>set rows. al_turn_id c = at_id turn \<and> al_status c = ''pending'')
     \<and> (inputs \<noteq> [] \<longrightarrow> at_id turn \<in> turn_ids db \<and> (\<forall>c\<in>set (ab_calls db). \<not> (al_turn_id c = at_id turn \<and> al_step_index c = int k)))"
  using assms
proof (induction inputs arbitrary: k db created)
  case (Cons input inputs)
  obtain db1 created1 where 1: "insert_ai_tool_call_tx js (snd input) (plan_call now fresh turn k (fst input)) db = Inr db1"
    and 2: "insert_plan_loop js now fresh turn (Suc k) inputs db1 = Inr (created1, db')"
    using Cons.prems(1) by (auto simp: result_iff)
  obtain c where c: "ab_calls db1 = ab_calls db @ [c]" "ab_turns db1 = ab_turns db" "al_id c = al_id (fst input)" "al_step_index c = int k"
      "al_turn_id c = at_id turn" "al_status c = ''pending''" "find_turn db (at_id turn) \<noteq> None"
      "\<forall>x\<in>set (ab_calls db). \<not> (al_turn_id x = at_id turn \<and> al_step_index x = int k)"
    using 1 Cons.prems(2) by (auto simp: insert_ai_tool_call_tx_def result_iff plan_call_def)
  obtain rows where rows: "ab_calls db' = ab_calls db1 @ rows" "ab_turns db' = ab_turns db1" "map al_id rows = map (al_id \<circ> fst) inputs"
      "map al_step_index rows = map int [Suc k..<Suc k + length inputs]" "\<forall>c\<in>set rows. al_turn_id c = at_id turn \<and> al_status c = ''pending''"
    using Cons.IH [OF 2] Cons.prems(2) by auto
  have "at_id turn \<in> turn_ids db" using c(7) find_turn_ids by blast
  moreover have "[k..<k + length (input # inputs)] = k # [Suc k..<Suc k + length inputs]" by (subst upt_conv_Cons) simp_all
  ultimately show ?case using c rows by (intro exI [of _ "c # rows"]) auto
qed simp

lemma create_plan_keeps:
  assumes ok: "plans_ok db n confirmed usedT usedC" and r: "create_tool_plan js now fresh turn inputs db = (r, db')"
    and ids: "distinct (map (al_id \<circ> fst) inputs)" "[] \<notin> set (map (al_id \<circ> fst) inputs)" "set (map (al_id \<circ> fst) inputs) \<inter> usedC = {}"
  shows "plans_ok db' n confirmed usedT (set (map (al_id \<circ> fst) inputs) \<union> usedC) \<and> moves_on usedT usedC db db'"
proof (cases r)
  case (Inl e)
  then have "db' = db" using r by (simp add: create_tool_plan_def result_iff)
  then show ?thesis using ok moves_on_same [of db db] by (auto simp: plans_ok_def ids_ok_def)
next
  case (Inr x)
  then obtain created db1 db2 where loop: "insert_plan_loop js now fresh turn 0 inputs db = Inr (created, db1)" and ne: "inputs \<noteq> []"
    and await: "await_confirmation_tx now (at_id turn) db1 = Inr db'"
    using r by (auto simp: create_tool_plan_def result_iff)
  obtain rows where rows: "ab_calls db1 = ab_calls db @ rows" "ab_turns db1 = ab_turns db" "map al_id rows = map (al_id \<circ> fst) inputs"
      "map al_step_index rows = map int [0..<length inputs]" "\<forall>c\<in>set rows. al_turn_id c = at_id turn \<and> al_status c = ''pending''"
      "at_id turn \<in> turn_ids db" "\<forall>c\<in>set (ab_calls db). \<not> (al_turn_id c = at_id turn \<and> al_step_index c = 0)"
    using insert_plan_loop_rows [OF loop ids(2)] ne by auto
  have len: "length rows = length inputs" using arg_cong [OF rows(3), of length] by simp
  have db': "ab_calls db' = ab_calls db @ rows" "map at_id (ab_turns db') = map at_id (ab_turns db)"
    using await rows(1,2) by (auto simp: await_confirmation_tx_def result_iff Let_def update_turns_def)
  have none: "\<not> (\<exists>c\<in>set (ab_calls db). is_step c \<and> al_turn_id c = at_id turn)"
  proof
    assume "\<exists>c\<in>set (ab_calls db). is_step c \<and> al_turn_id c = at_id turn"
    then obtain c where c: "c \<in> set (ab_calls db)" "0 \<le> al_step_index c" "al_turn_id c = at_id turn" by (auto simp: is_step_def)
    have "al_step_index c \<noteq> 0" using rows(7) c by auto
    then have "0 \<le> (0::int) \<and> 0 < al_step_index c" using c(2) by simp
    then show False using ok c rows(7) unfolding plans_ok_def steps_ok_def by metis
  qed
  have set_ids: "al_id ` set rows = set (map (al_id \<circ> fst) inputs)" using rows(3) by (metis list.set_map)
  show ?thesis using plans_ok_add_plan [OF ok db'(1,2) rows(6,5)] rows(3,4) len ids none set_ids by simp
qed

section \<open>The goroutines\<close>

definition executed :: "executed_step list \<Rightarrow> string \<Rightarrow> nat" where
  "executed hist T = count_rows (\<lambda>x. al_turn_id (xs_row x) = T) hist"

definition authorized :: "string set \<Rightarrow> plan_driver \<Rightarrow> bool" where
  "authorized confirmed d \<longleftrightarrow> pd_autonomous d \<or> pd_turn d \<in> confirmed"

text \<open>A step that a goroutine has chosen: all earlier ones have succeeded.\<close>

definition chosen :: "ai_db \<Rightarrow> (string \<Rightarrow> nat) \<Rightarrow> string set \<Rightarrow> string set \<Rightarrow> plan_driver \<Rightarrow> ai_tool_call \<Rightarrow> bool" where
  "chosen db n usedT usedC d c \<longleftrightarrow> al_turn_id c = pd_turn d \<and> is_step c \<and> tied db usedT usedC c \<and> before_ok db c
     \<and> al_step_index c \<le> int (n (pd_turn d))"

text \<open>A step that has run.\<close>

definition has_run :: "ai_db \<Rightarrow> (string \<Rightarrow> nat) \<Rightarrow> string set \<Rightarrow> string set \<Rightarrow> string \<Rightarrow> bool" where
  "has_run db n usedT usedC i \<longleftrightarrow> (\<exists>c. al_id c = i \<and> is_step c \<and> tied db usedT usedC c \<and> al_step_index c < int (n (al_turn_id c)))"

definition validated_for :: "ai_tool_call \<Rightarrow> tool_call \<Rightarrow> bool" where
  "validated_for c v \<longleftrightarrow> tc_risk v = risk_confirm \<and> tt_type (tc_target v) = al_target_type c \<and> tt_id (tc_target v) = al_target_id c
     \<and> tt_node_id (tc_target v) = al_node_id c"

definition judged :: "bool \<Rightarrow> tool_call \<Rightarrow> policy_result \<Rightarrow> plan_world \<Rightarrow> bool" where
  "judged autonomous v p w \<longleftrightarrow> (if autonomous then pr_decision p = PolicyAutonomous \<and> registry_policy (pw_tools w) (pw_settings w) v = Inr p
     else pr_decision p = PolicyManual)"

definition ended :: "plan_outcome \<Rightarrow> bool" where
  "ended r \<longleftrightarrow> po_status r = ''success'' \<or> status_rank (po_status r) = 5"

definition ends_step :: "ai_db \<Rightarrow> (string \<Rightarrow> nat) \<Rightarrow> string set \<Rightarrow> string set \<Rightarrow> string \<Rightarrow> string \<Rightarrow> plan_outcome \<Rightarrow> bool" where
  "ends_step db n usedT usedC i from r \<longleftrightarrow>
     (from = ''queued'' \<and> status_rank (po_status r) = 5) \<or> (from = ''accepted'' \<and> ended r)
     \<or> (from = ''running'' \<and> (status_rank (po_status r) = 5 \<or> (po_status r = ''success'' \<and> has_run db n usedT usedC i)))"

definition runs_now :: "plan_driver \<Rightarrow> ai_tool_call option" where
  "runs_now d = (case pd_pc d of Executing c v p w m \<Rightarrow> Some c | _ \<Rightarrow> None)"

text \<open>The rows with identifier \<open>i\<close> that are steps have rank \<open>r\<close> at least.\<close>

definition rank_from :: "ai_db \<Rightarrow> string set \<Rightarrow> string \<Rightarrow> nat \<Rightarrow> bool" where
  "rank_from db usedC i r \<longleftrightarrow> i \<in> usedC \<and> (\<forall>c\<in>set (ab_calls db). al_id c = i \<and> is_step c \<longrightarrow> r \<le> status_rank (al_status c))"

definition driver_ok :: "ai_db \<Rightarrow> (string \<Rightarrow> nat) \<Rightarrow> string set \<Rightarrow> string set \<Rightarrow> string set \<Rightarrow> plan_driver \<Rightarrow> bool" where
  "driver_ok db n confirmed usedT usedC d \<longleftrightarrow> (case pd_pc d of
     ConfirmListing \<Rightarrow> authorized confirmed d
   | ConfirmChecking cs \<Rightarrow> authorized confirmed d
   | Rechecking cs \<Rightarrow> authorized confirmed d
   | AutoListing \<Rightarrow> authorized confirmed d
   | AutoChecking cs \<Rightarrow> authorized confirmed d
   | AutoJudging c v cs \<Rightarrow> authorized confirmed d
   | Advancing \<Rightarrow> authorized confirmed d
   | CheckingPause c m \<Rightarrow> authorized confirmed d \<and> chosen db n usedT usedC d c
   | Validating c m \<Rightarrow> authorized confirmed d \<and> chosen db n usedT usedC d c
   | Judging c v m \<Rightarrow> authorized confirmed d \<and> chosen db n usedT usedC d c \<and> validated_for c v
   | Starting c v p w m \<Rightarrow> authorized confirmed d \<and> chosen db n usedT usedC d c \<and> validated_for c v \<and> judged (pd_autonomous d) v p w
   | Executing c v p w m \<Rightarrow> authorized confirmed d \<and> chosen db n usedT usedC d c \<and> validated_for c v \<and> judged (pd_autonomous d) v p w
        \<and> al_step_index c = int (n (pd_turn d)) \<and> rank_from db usedC (al_id c) 2
   | Recording c r \<Rightarrow> authorized confirmed d \<and> has_run db n usedT usedC (al_id c) \<and> (po_status r = ''success'' \<or> po_status r = ''accepted'')
   | Projecting i from r \<Rightarrow> ends_step db n usedT usedC i from r
   | Completing i from r content \<Rightarrow> ends_step db n usedT usedC i from r
   | VerifyReading i r assistant \<Rightarrow> ended r \<and> rank_from db usedC i 3
        \<and> (\<forall>c\<in>set (ab_calls db). al_id c = i \<and> is_step c \<longrightarrow> row_authorized confirmed c)
   | VerifyChecking c r \<Rightarrow> authorized confirmed d \<and> ended r
   | VerifyListing c r \<Rightarrow> authorized confirmed d \<and> ended r
   | VerifyRecording c r \<Rightarrow> authorized confirmed d \<and> po_status r = ''success''
   | VerifyPlain found r assistant \<Rightarrow> plain_call db (al_id (fst found)) \<and> al_id (fst found) \<in> usedC
   | _ \<Rightarrow> True)"

definition alone :: "plan_driver list \<Rightarrow> bool" where
  "alone ds \<longleftrightarrow> (\<forall>i<length ds. \<forall>j<length ds. runs_now (ds ! i) \<noteq> None \<and> runs_now (ds ! j) \<noteq> None \<and> pd_turn (ds ! i) = pd_turn (ds ! j) \<longrightarrow> i = j)"

text \<open>What the log says is what the program had the right to do.\<close>

definition log_ok :: "ai_db \<Rightarrow> executed_step list \<Rightarrow> string set \<Rightarrow> string set \<Rightarrow> string set \<Rightarrow> bool" where
  "log_ok db hist confirmed usedT usedC \<longleftrightarrow>
     (\<forall>T. map (\<lambda>x. al_step_index (xs_row x)) (filter (\<lambda>x. al_turn_id (xs_row x) = T) hist) = map int [0..<executed hist T])
   \<and> (\<forall>x\<in>set hist. is_step (xs_row x) \<and> tied db usedT usedC (xs_row x) \<and> before_ok db (xs_row x) \<and> validated_for (xs_row x) (xs_call x)
        \<and> judged (xs_autonomous x) (xs_call x) (xs_policy x) (xs_world x) \<and> (xs_autonomous x \<or> al_turn_id (xs_row x) \<in> confirmed))"

definition system_ok :: "plan_system \<Rightarrow> bool" where
  "system_ok s \<longleftrightarrow>
     plans_ok (ps_db s) (executed (ps_log s)) (set (ps_confirmed s)) (set (ps_used_turns s)) (set (ps_used_calls s))
   \<and> list_all (driver_ok (ps_db s) (executed (ps_log s)) (set (ps_confirmed s)) (set (ps_used_turns s)) (set (ps_used_calls s))) (ps_drivers s)
   \<and> alone (ps_drivers s)
   \<and> log_ok (ps_db s) (ps_log s) (set (ps_confirmed s)) (set (ps_used_turns s)) (set (ps_used_calls s))"

section \<open>What a step of one goroutine leaves to the others\<close>

lemma rank_from_moves: "rank_from db usedC i r \<Longrightarrow> moves_on usedT usedC db db' \<Longrightarrow> usedC \<subseteq> usedC' \<Longrightarrow> rank_from db' usedC' i r"
  unfolding rank_from_def using rank_moves by blast

lemma plain_moves: "plain_call db i \<Longrightarrow> i \<in> usedC \<Longrightarrow> moves_on usedT usedC db db' \<Longrightarrow> plain_call db' i"
proof -
  assume p: "plain_call db i" "i \<in> usedC" "moves_on usedT usedC db db'"
  have "al_step_index c' < 0" if c': "c' \<in> set (ab_calls db')" "al_id c' = i" for c'
  proof -
    obtain c where "c \<in> set (ab_calls db)" "same_step c c'" using p(2,3) c' unfolding moves_on_def by metis
    then show ?thesis using p(1) c'(2) by (auto simp: plain_call_def list_all_iff same_step_def)
  qed
  then show ?thesis by (auto simp: plain_call_def list_all_iff)
qed

lemma chosen_moves:
  assumes "chosen db n usedT usedC d c" "moves_on usedT usedC db db'" "usedT \<subseteq> usedT'" "usedC \<subseteq> usedC'" "n (pd_turn d) \<le> n' (pd_turn d)"
  shows "chosen db' n' usedT' usedC' d c"
proof -
  have c: "al_turn_id c = pd_turn d" "is_step c" "tied db usedT usedC c" "before_ok db c" "al_step_index c \<le> int (n (pd_turn d))"
    using assms(1) by (auto simp: chosen_def)
  show ?thesis using c(1,2,5) assms(5) tied_moves [OF c(3) assms(2-4)] before_moves [OF c(4,3,2) assms(2)] by (simp add: chosen_def)
qed

lemma has_run_moves:
  assumes "has_run db n usedT usedC i" "moves_on usedT usedC db db'" "usedT \<subseteq> usedT'" "usedC \<subseteq> usedC'" "\<And>T. n T \<le> n' T"
  shows "has_run db' n' usedT' usedC' i"
proof -
  obtain c where "al_id c = i" "is_step c" "tied db usedT usedC c" "al_step_index c < int (n (al_turn_id c))"
    using assms(1) by (auto simp: has_run_def)
  then show ?thesis using tied_moves [OF _ assms(2-4)] assms(5) [of "al_turn_id c"] unfolding has_run_def by (intro exI [of _ c]) auto
qed

lemma row_authorized_moves:
  assumes r: "rank_from db usedC i 3" "\<forall>c\<in>set (ab_calls db). al_id c = i \<and> is_step c \<longrightarrow> row_authorized confirmed c"
    and m: "moves_on usedT usedC db db'" and sub: "confirmed \<subseteq> confirmed'"
  shows "\<forall>c\<in>set (ab_calls db'). al_id c = i \<and> is_step c \<longrightarrow> row_authorized confirmed' c"
proof (intro ballI impI)
  fix c' assume c': "c' \<in> set (ab_calls db')" "al_id c' = i \<and> is_step c'"
  then obtain c where c: "c \<in> set (ab_calls db)" "same_step c c'" "is_step c \<longrightarrow> grows c c' \<and>
      (2 \<le> status_rank (al_status c') \<and> 2 \<le> status_rank (al_status c) \<longrightarrow> al_policy_decision c' = al_policy_decision c)"
    using m r(1) unfolding moves_on_def rank_from_def by metis
  have "al_id c = i" "is_step c" using c' is_step_same [OF c(2)] same_stepD(1) [OF c(2)] by auto
  then have "3 \<le> status_rank (al_status c)" "row_authorized confirmed c" using r c(1) by (auto simp: rank_from_def)
  then show "row_authorized confirmed' c'" using c(3) \<open>is_step c\<close> same_stepD(2) [OF c(2)] sub by (auto simp: row_authorized_def grows_def)
qed

lemma driver_ok_moves:
  assumes ok: "driver_ok db n confirmed usedT usedC d" and m: "moves_on usedT usedC db db'"
    and sub: "usedT \<subseteq> usedT'" "usedC \<subseteq> usedC'" "confirmed \<subseteq> confirmed'"
    and n: "\<And>T. n T \<le> n' T" "runs_now d \<noteq> None \<Longrightarrow> n' (pd_turn d) = n (pd_turn d)"
  shows "driver_ok db' n' confirmed' usedT' usedC' d"
proof -
  have auth: "authorized confirmed d \<Longrightarrow> authorized confirmed' d" using sub(3) by (auto simp: authorized_def)
  have chosen: "chosen db n usedT usedC d c \<Longrightarrow> chosen db' n' usedT' usedC' d c" for c
    by (rule chosen_moves [OF _ m sub(1,2) n(1)])
  have run: "has_run db n usedT usedC i \<Longrightarrow> has_run db' n' usedT' usedC' i" for i by (rule has_run_moves [OF _ m sub(1,2) n(1)])
  have ends: "ends_step db n usedT usedC i from r \<Longrightarrow> ends_step db' n' usedT' usedC' i from r" for i "from" r
    using run by (auto simp: ends_step_def)
  have rank: "rank_from db usedC i r \<Longrightarrow> rank_from db' usedC' i r" for i r by (rule rank_from_moves [OF _ m sub(2)])
  have row: "rank_from db usedC i 3 \<Longrightarrow> (\<forall>c\<in>set (ab_calls db). al_id c = i \<and> is_step c \<longrightarrow> row_authorized confirmed c) \<Longrightarrow>
      (\<forall>c\<in>set (ab_calls db'). al_id c = i \<and> is_step c \<longrightarrow> row_authorized confirmed' c)" for i
    by (rule row_authorized_moves [OF _ _ m sub(3)])
  have plain: "plain_call db i \<Longrightarrow> i \<in> usedC \<Longrightarrow> plain_call db' i \<and> i \<in> usedC'" for i using plain_moves [OF _ _ m] sub(2) by blast
  show ?thesis
  proof (cases "pd_pc d")
    case (Executing c v p w k)
    then show ?thesis using ok n(2) auth chosen rank by (auto simp: driver_ok_def runs_now_def)
  next
    case (VerifyReading i r assistant)
    then have "ended r" "rank_from db usedC i 3" "\<forall>c\<in>set (ab_calls db). al_id c = i \<and> is_step c \<longrightarrow> row_authorized confirmed c"
      using ok by (simp_all add: driver_ok_def)
    then show ?thesis unfolding driver_ok_def using VerifyReading rank [of i 3] row [of i] by simp
  qed (use ok auth chosen run ends plain in \<open>auto simp: driver_ok_def\<close>)
qed

lemma log_ok_moves:
  assumes ok: "log_ok db hist confirmed usedT usedC" and m: "moves_on usedT usedC db db'"
    and sub: "usedT \<subseteq> usedT'" "usedC \<subseteq> usedC'" "confirmed \<subseteq> confirmed'"
  shows "log_ok db' hist confirmed' usedT' usedC'"
  unfolding log_ok_def
proof (intro conjI ballI)
  fix x assume "x \<in> set hist"
  then have x: "is_step (xs_row x)" "tied db usedT usedC (xs_row x)" "before_ok db (xs_row x)" "validated_for (xs_row x) (xs_call x)"
      "judged (xs_autonomous x) (xs_call x) (xs_policy x) (xs_world x)" "xs_autonomous x \<or> al_turn_id (xs_row x) \<in> confirmed"
    using ok by (auto simp: log_ok_def)
  show "is_step (xs_row x)" "tied db' usedT' usedC' (xs_row x)" "before_ok db' (xs_row x)" "validated_for (xs_row x) (xs_call x)"
      "judged (xs_autonomous x) (xs_call x) (xs_policy x) (xs_world x)" "xs_autonomous x \<or> al_turn_id (xs_row x) \<in> confirmed'"
    using x tied_moves [OF x(2) m sub(1,2)] before_moves [OF x(3,2,1) m] sub(3) by auto
qed (use ok in \<open>auto simp: log_ok_def\<close>)

section \<open>The database through the steps of a goroutine\<close>

lemma plans_ok_parts:
  assumes "plans_ok db n confirmed usedT usedC"
  shows "ids_ok db usedT usedC" "steps_ok db" "progress_ok db n usedT" "authority_ok db confirmed" "distinct (map al_id (ab_calls db))"
  using assms by (auto simp: plans_ok_def ids_ok_def)

lemma harmless_keeps:
  assumes "plans_ok db n confirmed usedT usedC" "harmless_change db db'"
  shows "plans_ok db' n confirmed usedT usedC \<and> moves_on usedT usedC db db'"
  using assms plans_ok_harmless moves_on_harmless unfolding harmless_change_def by blast

lemma keeps_trans:
  assumes "plans_ok db1 n confirmed usedT usedC \<and> moves_on usedT usedC db db1" "harmless_change db1 db2"
  shows "plans_ok db2 n confirmed usedT usedC \<and> moves_on usedT usedC db db2"
proof -
  have ok: "plans_ok db2 n confirmed usedT usedC" and 2: "moves_on usedT usedC db1 db2" using harmless_keeps assms by blast+
  have 1: "moves_on usedT usedC db db1" using assms(1) by blast
  obtain F where F: "rows_mapped F db1 db2" "\<forall>c\<in>set (ab_calls db1). is_step c \<longrightarrow> harmless c (F c)" using assms(2) by (auto simp: harmless_change_def)
  have calls: "ab_calls db2 = map F (ab_calls db1)" and same: "same_step c (F c)" for c using F(1) by (auto simp: rows_mapped_def)
  have ids: "turn_ids db2 = turn_ids db1" by (rule rows_mapped_turns [OF F(1)])
  have "moves_on usedT usedC db db2"
    unfolding moves_on_def ids
  proof (intro conjI ballI)
    fix c2 assume "c2 \<in> set (ab_calls db2)"
    then obtain c1 where c1: "c1 \<in> set (ab_calls db1)" "c2 = F c1" using calls by auto
    note s = same [of c1, folded c1(2)]
    have h: "is_step c1 \<Longrightarrow> grows c1 c2 \<and> (2 \<le> status_rank (al_status c2) \<and> 2 \<le> status_rank (al_status c1) \<longrightarrow> al_policy_decision c2 = al_policy_decision c1)"
      using F(2) c1 harmless_grows by (auto simp: harmless_def)
    have "(\<exists>c\<in>set (ab_calls db). same_step c c1 \<and> (is_step c \<longrightarrow> grows c c1 \<and> (2 \<le> status_rank (al_status c1) \<and> 2 \<le> status_rank (al_status c) \<longrightarrow>
          al_policy_decision c1 = al_policy_decision c)))
       \<or> al_id c1 \<notin> usedC \<and> (is_step c1 \<longrightarrow> al_turn_id c1 \<in> turn_ids db \<and> \<not> (\<exists>c\<in>set (ab_calls db). is_step c \<and> al_turn_id c = al_turn_id c1))"
      using 1 c1(1) unfolding moves_on_def by blast
    then show "(\<exists>c\<in>set (ab_calls db). same_step c c2 \<and> (is_step c \<longrightarrow> grows c c2 \<and> (2 \<le> status_rank (al_status c2) \<and> 2 \<le> status_rank (al_status c) \<longrightarrow>
          al_policy_decision c2 = al_policy_decision c)))
       \<or> al_id c2 \<notin> usedC \<and> (is_step c2 \<longrightarrow> al_turn_id c2 \<in> turn_ids db \<and> \<not> (\<exists>c\<in>set (ab_calls db). is_step c \<and> al_turn_id c = al_turn_id c2))"
    proof
      assume "\<exists>c\<in>set (ab_calls db). same_step c c1 \<and> (is_step c \<longrightarrow> grows c c1 \<and> (2 \<le> status_rank (al_status c1) \<and> 2 \<le> status_rank (al_status c) \<longrightarrow>
          al_policy_decision c1 = al_policy_decision c))"
      then obtain c where c: "c \<in> set (ab_calls db)" "same_step c c1" "is_step c \<longrightarrow> grows c c1 \<and> (2 \<le> status_rank (al_status c1) \<and>
          2 \<le> status_rank (al_status c) \<longrightarrow> al_policy_decision c1 = al_policy_decision c)" by blast
      have "is_step c \<longrightarrow> grows c c2 \<and> (2 \<le> status_rank (al_status c2) \<and> 2 \<le> status_rank (al_status c) \<longrightarrow> al_policy_decision c2 = al_policy_decision c)"
        using c(3) h is_step_same [OF c(2)] by (auto simp: grows_def)
      with c(1) same_step_trans [OF c(2) s] show ?thesis by blast
    next
      assume "al_id c1 \<notin> usedC \<and> (is_step c1 \<longrightarrow> al_turn_id c1 \<in> turn_ids db \<and> \<not> (\<exists>c\<in>set (ab_calls db). is_step c \<and> al_turn_id c = al_turn_id c1))"
      then show ?thesis using is_step_same [OF s] same_stepD(1,2) [OF s] by simp
    qed
  next
    fix c assume "c \<in> set (ab_calls db)"
    then have "(\<exists>c1\<in>set (ab_calls db1). same_step c c1) \<or> al_turn_id c \<notin> turn_ids db1" using 1 by (auto simp: moves_on_def)
    then show "(\<exists>c2\<in>set (ab_calls db2). same_step c c2) \<or> al_turn_id c \<notin> turn_ids db1"
      using calls same same_step_trans by fastforce
  next
    fix T assume "T \<in> turn_ids db1"
    then show "T \<in> turn_ids db \<or> T \<notin> usedT" using 1 by (auto simp: moves_on_def)
  qed
  with ok show ?thesis by blast
qed

lemma tied_self: "plans_ok db n confirmed usedT usedC \<Longrightarrow> c \<in> set (ab_calls db) \<Longrightarrow> tied db usedT usedC c"
  unfolding plans_ok_def ids_ok_def tied_def
  by (auto intro: same_step_refl dest: distinct_key_eq [of al_id "ab_calls db" c])

lemma tied_row: "tied db usedT usedC c \<Longrightarrow> c' \<in> set (ab_calls db) \<Longrightarrow> al_id c' = al_id c \<Longrightarrow> same_step c c'"
  by (simp add: tied_def)

text \<open>A result is written to the step \<open>i\<close>.\<close>

lemma result_keeps:
  assumes ok: "plans_ok db n confirmed usedT usedC"
    and P: "\<And>c. P c \<Longrightarrow> al_id c = i \<and> al_status c = from"
    and res: "(status_rank status = 5 \<and> (from = ''queued'' \<or> from = ''accepted'')) \<or> (status = ''success'' \<and> from = ''accepted'')
       \<or> (from = ''running'' \<and> (status_rank status = 5 \<or> ((status = ''success'' \<or> status = ''accepted'') \<and> has_run db n usedT usedC i)))"
  shows "plans_ok (update_calls P (with_result now status summary operationID verification) db) n confirmed usedT usedC
    \<and> moves_on usedT usedC db (update_calls P (with_result now status summary operationID verification) db)"
proof -
  let ?f = "with_result now status summary operationID verification"
  let ?F = "\<lambda>c. if P c then ?f c else c"
  have F: "al_status (?f c) = status" "al_policy_decision (?f c) = al_policy_decision c" "al_turn_id (?f c) = al_turn_id c" for c
    by (simp_all add: with_result_def)
  note m = update_calls_mapped [of ?f P db, OF result_same]
  have grows: "grows c (?F c)" for c using P [of c] res F(1) [of c] by (auto simp: grows_def)
  have "plans_ok (update_calls P ?f db) n confirmed usedT usedC"
  proof (rule plans_ok_map [OF ok m])
    fix c assume c: "c \<in> set (ab_calls db)" "is_step c"
    show "grows c (?F c)" by (rule grows)
    show "al_status c = ''success'' \<or> al_status c = ''accepted'' \<or> al_step_index c < int (n (al_turn_id c))"
      if now: "al_status (?F c) = ''success'' \<or> al_status (?F c) = ''accepted''"
    proof (cases "P c \<and> from = ''running''")
      case True
      then have "has_run db n usedT usedC i" using res now F(1) [of c] by auto
      then obtain c0 where c0: "al_id c0 = i" "tied db usedT usedC c0" "al_step_index c0 < int (n (al_turn_id c0))" by (auto simp: has_run_def)
      have "same_step c0 c" using tied_row [OF c0(2) c(1)] P [of c] True c0(1) by simp
      then show ?thesis using c0(3) by (simp add: same_step_def)
    next
      case False
      then show ?thesis using now P [of c] res F(1) [of c] by (auto split: if_splits)
    qed
    show "(al_status c = ''running'' \<or> al_status c = ''accepted'') \<and> al_policy_decision (?F c) = al_policy_decision c \<or> row_authorized confirmed (?F c)"
      if "al_status (?F c) = ''running'' \<or> al_status (?F c) = ''accepted''"
      using that P [of c] res F [of c] by (auto split: if_splits)
  qed
  moreover have "moves_on usedT usedC db (update_calls P ?f db)"
    by (rule moves_on_map [OF m]) (use grows F(2) in auto)
  ultimately show ?thesis by blast
qed

lemma start_keeps:
  assumes ok: "plans_ok db n confirmed usedT usedC" and P: "\<And>c. P c \<longleftrightarrow> al_id c = i \<and> 0 \<le> al_step_index c \<and> al_status c = ''queued''"
    and f: "\<And>c. same_step c (f c)" "\<And>c. al_status (f c) = ''running''"
    and auth: "\<And>c. c \<in> set (ab_calls db) \<Longrightarrow> al_id c = i \<Longrightarrow> row_authorized confirmed (f c)"
  shows "plans_ok (update_calls P f db) n confirmed usedT usedC \<and> moves_on usedT usedC db (update_calls P f db)"
proof -
  note m = update_calls_mapped [of f P db, OF f(1)]
  have grows: "grows c (if P c then f c else c)" for c using P f(2) [of c] by (auto simp: grows_def)
  have "plans_ok (update_calls P f db) n confirmed usedT usedC"
    by (rule plans_ok_map [OF ok m]) (use grows P f(2) auth in \<open>auto split: if_splits\<close>)
  moreover have "moves_on usedT usedC db (update_calls P f db)"
    by (rule moves_on_map [OF m]) (use grows P in auto)
  ultimately show ?thesis by blast
qed

section \<open>Choosing a step\<close>

lemma next_plan_step_cases:
  "next_plan_step k cs = FinishListing \<or> next_plan_step k cs = PlanDone
   \<or> (\<exists>i s. next_plan_step k cs = Projecting i ''running'' (plain_outcome ''interrupted'' s))
   \<or> (\<exists>us c vs. next_plan_step k cs = CheckingPause c k \<and> cs = us @ c # vs \<and> (\<forall>u\<in>set us. al_status u = ''success'') \<and> al_status c = ''queued'')"
proof (induction cs)
  case (Cons c cs)
  show ?case
  proof (cases "al_status c = ''success''")
    case True
    with Cons.IH show ?thesis
      by (elim disjE exE conjE) (auto, metis append_Cons set_ConsD)
  next
    case False
    then consider "al_status c = ''queued''" | "al_status c = ''running''" | "al_status c \<noteq> ''queued''" "al_status c \<noteq> ''running''" by blast
    then show ?thesis
    proof cases
      case 1
      then have "next_plan_step k (c # cs) = CheckingPause c k \<and> c # cs = [] @ c # cs \<and> (\<forall>u\<in>set []. al_status u = ''success'') \<and> al_status c = ''queued''"
        by simp
      then show ?thesis by blast
    next
      case 2
      then obtain s where "next_plan_step k (c # cs) = Projecting (al_id c) ''running'' (plain_outcome ''interrupted'' s)" by simp
      then have "\<exists>i s. next_plan_step k (c # cs) = Projecting i ''running'' (plain_outcome ''interrupted'' s)"
        by blast
      then show ?thesis by (rule disjI1 [THEN disjI2, THEN disjI2])
    qed (use False in auto)
  qed
qed simp

lemma chosen_from_list:
  assumes ok: "plans_ok db n confirmed usedT usedC" and split: "list_plan_steps db (pd_turn d) = us @ c # vs"
    and us: "\<forall>u\<in>set us. al_status u = ''success''"
  shows "chosen db n usedT usedC d c"
proof -
  have set_steps: "set (list_plan_steps db T) = {x \<in> set (ab_calls db). al_turn_id x = T \<and> is_step x}" for T
    by (auto simp: list_plan_steps_def is_step_def)
  have sorted: "sorted (map al_step_index (list_plan_steps db (pd_turn d)))" by (simp add: list_plan_steps_def)
  have c: "c \<in> set (ab_calls db)" "al_turn_id c = pd_turn d" "is_step c" using set_steps [of "pd_turn d"] split by auto
  have before: "before_ok db c"
    unfolding before_ok_def
  proof (intro ballI impI)
    fix x assume x: "x \<in> set (ab_calls db)" "al_turn_id x = al_turn_id c \<and> is_step x \<and> al_step_index x < al_step_index c"
    then have "x \<in> set (us @ c # vs)" using set_steps [of "pd_turn d"] split c(2) by auto
    moreover have "\<forall>v\<in>set vs. al_step_index c \<le> al_step_index v" using sorted unfolding split by (simp add: sorted_append)
    ultimately show "al_status x = ''success''" using x(2) us by auto
  qed
  have "al_step_index c \<le> int (n (pd_turn d))"
  proof (cases "al_step_index c = 0")
    case False
    then have k: "0 \<le> al_step_index c - 1 \<and> al_step_index c - 1 < al_step_index c" using c(3) by (simp add: is_step_def)
    obtain x where x: "x \<in> set (ab_calls db)" "al_turn_id x = al_turn_id c" "al_step_index x = al_step_index c - 1"
      using plans_ok_parts(2) [OF ok] c(1) k unfolding steps_ok_def by blast
    then have step: "is_step x" using k by (simp add: is_step_def)
    then have "al_status x = ''success''" using before x by (simp add: before_ok_def)
    then have "al_step_index x < int (n (al_turn_id x))" using plans_ok_parts(3) [OF ok] x(1) step by (auto simp: progress_ok_def)
    then show ?thesis using x c(2) by simp
  qed simp
  then show ?thesis using c before tied_self [OF ok c(1)] by (simp add: chosen_def)
qed

section \<open>One step of a goroutine\<close>

definition step_ok :: "(string \<Rightarrow> nat) \<Rightarrow> string set \<Rightarrow> string set \<Rightarrow> string set \<Rightarrow> plan_driver \<Rightarrow> ai_db \<Rightarrow> plan_driver \<times> ai_db \<Rightarrow> bool" where
  "step_ok n confirmed usedT usedC d db r \<longleftrightarrow>
     plans_ok (snd r) n confirmed usedT usedC \<and> moves_on usedT usedC db (snd r) \<and> driver_ok (snd r) n confirmed usedT usedC (fst r)
   \<and> (runs_now (fst r) \<noteq> None \<longrightarrow> pd_turn (fst r) = pd_turn d \<and> (\<exists>c\<in>set (ab_calls db). is_step c \<and> al_turn_id c = pd_turn d
        \<and> al_step_index c = int (n (pd_turn d)) \<and> al_status c = ''queued''))"

lemma step_okI:
  assumes "plans_ok db' n confirmed usedT usedC \<and> moves_on usedT usedC db db'" "driver_ok db' n confirmed usedT usedC d'" "runs_now d' = None"
  shows "step_ok n confirmed usedT usedC d db (d', db')"
  using assms by (simp add: step_ok_def)

lemma keeps_refl: "plans_ok db n confirmed usedT usedC \<Longrightarrow> plans_ok db n confirmed usedT usedC \<and> moves_on usedT usedC db db"
  using harmless_keeps [OF _ harmless_change_refl] by blast

lemma give_up_ok [simp]: "driver_ok db n confirmed usedT usedC (d\<lparr>pd_pc := give_up d\<rparr>)" "runs_now (d\<lparr>pd_pc := give_up d\<rparr>) = None"
  by (auto simp: give_up_def driver_ok_def runs_now_def split: option.splits)

lemma authorized_pc [simp]: "authorized confirmed (d\<lparr>pd_pc := pc\<rparr>) = authorized confirmed d"
  by (simp add: authorized_def)

lemma chosen_pc [simp]: "chosen db n usedT usedC (d\<lparr>pd_pc := pc\<rparr>) c = chosen db n usedT usedC d c"
  by (simp add: chosen_def)

lemma ends_queued [simp]: "status_rank (po_status r) = 5 \<Longrightarrow> ends_step db n usedT usedC i ''queued'' r"
  by (simp add: ends_step_def)

lemma plan_validation_failure_ok: "plan_validation_failure e = (status, summary) \<Longrightarrow> ends_step db n usedT usedC i ''queued'' (plain_outcome status summary)"
  by (auto simp: plan_validation_failure_def plain_outcome_def split: if_splits)

lemma driver_ok_at:
  "driver_ok db n confirmed usedT usedC (d\<lparr>pd_pc := ConfirmChecking cs\<rparr>) = authorized confirmed d"
  "driver_ok db n confirmed usedT usedC (d\<lparr>pd_pc := Rechecking cs\<rparr>) = authorized confirmed d"
  "driver_ok db n confirmed usedT usedC (d\<lparr>pd_pc := AutoChecking cs\<rparr>) = authorized confirmed d"
  "driver_ok db n confirmed usedT usedC (d\<lparr>pd_pc := AutoJudging c v cs\<rparr>) = authorized confirmed d"
  "driver_ok db n confirmed usedT usedC (d\<lparr>pd_pc := Advancing\<rparr>) = authorized confirmed d"
  "driver_ok db n confirmed usedT usedC (d\<lparr>pd_pc := CheckingPause c m\<rparr>) = (authorized confirmed d \<and> chosen db n usedT usedC d c)"
  "driver_ok db n confirmed usedT usedC (d\<lparr>pd_pc := Validating c m\<rparr>) = (authorized confirmed d \<and> chosen db n usedT usedC d c)"
  "driver_ok db n confirmed usedT usedC (d\<lparr>pd_pc := Judging c v m\<rparr>) = (authorized confirmed d \<and> chosen db n usedT usedC d c \<and> validated_for c v)"
  "driver_ok db n confirmed usedT usedC (d\<lparr>pd_pc := Starting c v p w m\<rparr>) = (authorized confirmed d \<and> chosen db n usedT usedC d c \<and> validated_for c v
     \<and> judged (pd_autonomous d) v p w)"
  "driver_ok db n confirmed usedT usedC (d\<lparr>pd_pc := Executing c v p w m\<rparr>) = (authorized confirmed d \<and> chosen db n usedT usedC d c \<and> validated_for c v
     \<and> judged (pd_autonomous d) v p w \<and> al_step_index c = int (n (pd_turn d)) \<and> rank_from db usedC (al_id c) 2)"
  "driver_ok db n confirmed usedT usedC (d\<lparr>pd_pc := Recording c r\<rparr>) = (authorized confirmed d \<and> has_run db n usedT usedC (al_id c)
     \<and> (po_status r = ''success'' \<or> po_status r = ''accepted''))"
  "driver_ok db n confirmed usedT usedC (d\<lparr>pd_pc := Projecting i from r\<rparr>) = ends_step db n usedT usedC i from r"
  "driver_ok db n confirmed usedT usedC (d\<lparr>pd_pc := Completing i from r content\<rparr>) = ends_step db n usedT usedC i from r"
  "driver_ok db n confirmed usedT usedC (d\<lparr>pd_pc := VerifyChecking c r\<rparr>) = (authorized confirmed d \<and> ended r)"
  "driver_ok db n confirmed usedT usedC (d\<lparr>pd_pc := VerifyListing c r\<rparr>) = (authorized confirmed d \<and> ended r)"
  "driver_ok db n confirmed usedT usedC (d\<lparr>pd_pc := VerifyRecording c r\<rparr>) = (authorized confirmed d \<and> po_status r = ''success'')"
  "driver_ok db n confirmed usedT usedC (d\<lparr>pd_pc := VerifyPlain found r assistant\<rparr>) = (plain_call db (al_id (fst found)) \<and> al_id (fst found) \<in> usedC)"
  "driver_ok db n confirmed usedT usedC (d\<lparr>pd_pc := AutoRefusing c p\<rparr>)" "driver_ok db n confirmed usedT usedC (d\<lparr>pd_pc := Blocking c p\<rparr>)"
  "driver_ok db n confirmed usedT usedC (d\<lparr>pd_pc := FinishListing\<rparr>)" "driver_ok db n confirmed usedT usedC (d\<lparr>pd_pc := Finishing content\<rparr>)"
  "driver_ok db n confirmed usedT usedC (d\<lparr>pd_pc := RejectingPaused\<rparr>)" "driver_ok db n confirmed usedT usedC (d\<lparr>pd_pc := FailingTurn code\<rparr>)"
  "driver_ok db n confirmed usedT usedC (d\<lparr>pd_pc := PlanDone\<rparr>)"
  by (simp_all add: driver_ok_def)

lemma runs_now_at:
  "runs_now (d\<lparr>pd_pc := ConfirmChecking cs\<rparr>) = None" "runs_now (d\<lparr>pd_pc := Rechecking cs\<rparr>) = None" "runs_now (d\<lparr>pd_pc := AutoChecking cs\<rparr>) = None"
  "runs_now (d\<lparr>pd_pc := AutoJudging c v cs\<rparr>) = None" "runs_now (d\<lparr>pd_pc := Advancing\<rparr>) = None" "runs_now (d\<lparr>pd_pc := CheckingPause c m\<rparr>) = None"
  "runs_now (d\<lparr>pd_pc := Validating c m\<rparr>) = None" "runs_now (d\<lparr>pd_pc := Judging c v m\<rparr>) = None" "runs_now (d\<lparr>pd_pc := Starting c v p w m\<rparr>) = None"
  "runs_now (d\<lparr>pd_pc := Executing c v p w m\<rparr>) = Some c" "runs_now (d\<lparr>pd_pc := Recording c r\<rparr>) = None" "runs_now (d\<lparr>pd_pc := Projecting i from r\<rparr>) = None"
  "runs_now (d\<lparr>pd_pc := Completing i from r content\<rparr>) = None" "runs_now (d\<lparr>pd_pc := VerifyChecking c r\<rparr>) = None"
  "runs_now (d\<lparr>pd_pc := VerifyListing c r\<rparr>) = None" "runs_now (d\<lparr>pd_pc := VerifyRecording c r\<rparr>) = None"
  "runs_now (d\<lparr>pd_pc := VerifyPlain found r assistant\<rparr>) = None" "runs_now (d\<lparr>pd_pc := AutoRefusing c p\<rparr>) = None" "runs_now (d\<lparr>pd_pc := Blocking c p\<rparr>) = None"
  "runs_now (d\<lparr>pd_pc := FinishListing\<rparr>) = None" "runs_now (d\<lparr>pd_pc := Finishing content\<rparr>) = None" "runs_now (d\<lparr>pd_pc := RejectingPaused\<rparr>) = None"
  "runs_now (d\<lparr>pd_pc := FailingTurn code\<rparr>) = None" "runs_now (d\<lparr>pd_pc := PlanDone\<rparr>) = None"
  by (simp_all add: runs_now_def)

lemmas at_simps = driver_ok_at runs_now_at

lemma confirm_plan_ok:
  assumes ok: "plans_ok db n confirmed usedT usedC" and d: "driver_ok db n confirmed usedT usedC d"
    and pc: "pd_pc d = ConfirmListing \<or> (\<exists>cs. pd_pc d = ConfirmChecking cs) \<or> (\<exists>cs. pd_pc d = Rechecking cs)"
  shows "step_ok n confirmed usedT usedC d db (at_pc d (confirm_plan x d db))"
proof -
  have auth: "authorized confirmed d" using d pc by (auto simp: driver_ok_def)
  note same = keeps_refl [OF ok]
  have go: "step_ok n confirmed usedT usedC d db (d\<lparr>pd_pc := p\<rparr>, db)" if "driver_ok db n confirmed usedT usedC (d\<lparr>pd_pc := p\<rparr>)" "runs_now (d\<lparr>pd_pc := p\<rparr>) = None" for p
    by (rule step_okI [OF same that])
  have claim: "step_ok n confirmed usedT usedC d db (d\<lparr>pd_pc := p\<rparr>, db')"
    if "claim_tool_plan (pi_now x) (pd_turn d) db = (r, db')" "driver_ok db' n confirmed usedT usedC (d\<lparr>pd_pc := p\<rparr>)" "runs_now (d\<lparr>pd_pc := p\<rparr>) = None" for r db' p
    by (rule step_okI [OF harmless_keeps [OF ok claim_plan_harmless [OF that(1)]] that(2,3)])
  consider "pd_pc d = ConfirmListing" | "pd_pc d = ConfirmChecking []" | c cs where "pd_pc d = ConfirmChecking (c # cs)"
    | "pd_pc d = Rechecking []" | c cs where "pd_pc d = Rechecking (c # cs)" using pc by (metis neq_Nil_conv)
  then show ?thesis
  proof cases
    case 1
    then show ?thesis using auth by (auto simp: at_pc_def confirm_plan_def at_simps intro!: go)
  next
    case 2
    then show ?thesis using auth
      by (auto simp: at_pc_def confirm_plan_def at_simps intro!: claim split: prod.split sum.split)
  next
    case (3 c cs)
    then show ?thesis using auth by (auto simp: at_pc_def confirm_plan_def at_simps intro!: go split: sum.split)
  next
    case 4
    then show ?thesis using auth by (auto simp: at_pc_def confirm_plan_def at_simps intro!: go)
  next
    case (5 c cs)
    then show ?thesis using auth
      by (auto simp: at_pc_def confirm_plan_def at_simps plan_validation_failure_ok intro!: go split: sum.split prod.split)
  qed
qed

lemma try_claim_ok:
  assumes ok: "plans_ok db n confirmed usedT usedC" and d: "driver_ok db n confirmed usedT usedC d"
    and pc: "pd_pc d = AutoListing \<or> (\<exists>cs. pd_pc d = AutoChecking cs) \<or> (\<exists>c v cs. pd_pc d = AutoJudging c v cs) \<or> (\<exists>c p. pd_pc d = AutoRefusing c p)"
  shows "step_ok n confirmed usedT usedC d db (at_pc d (try_claim_autonomous_plan x d db))"
proof -
  have auth: "(\<forall>c p. pd_pc d \<noteq> AutoRefusing c p) \<longrightarrow> authorized confirmed d" using d pc by (auto simp: driver_ok_def)
  have go: "step_ok n confirmed usedT usedC d db (d\<lparr>pd_pc := p\<rparr>, db)" if "driver_ok db n confirmed usedT usedC (d\<lparr>pd_pc := p\<rparr>)" "runs_now (d\<lparr>pd_pc := p\<rparr>) = None" for p
    by (rule step_okI [OF keeps_refl [OF ok] that])
  have move: "step_ok n confirmed usedT usedC d db (d\<lparr>pd_pc := p\<rparr>, db')"
    if "harmless_change db db'" "driver_ok db' n confirmed usedT usedC (d\<lparr>pd_pc := p\<rparr>)" "runs_now (d\<lparr>pd_pc := p\<rparr>) = None" for db' p
    by (rule step_okI [OF harmless_keeps [OF ok that(1)] that(2,3)])
  consider "pd_pc d = AutoListing" | "pd_pc d = AutoChecking []" | c cs where "pd_pc d = AutoChecking (c # cs)"
    | c v cs where "pd_pc d = AutoJudging c v cs" | c p where "pd_pc d = AutoRefusing c p" using pc by (metis neq_Nil_conv)
  then show ?thesis
  proof cases
    case 2
    then show ?thesis using auth
      by (auto simp: at_pc_def try_claim_autonomous_plan_def at_simps intro!: move claim_plan_harmless split: prod.split sum.split)
  next
    case (5 c p)
    have pol: "harmless_change db db'" if "update_pending_tool_plan_policy now i a b r db = (u, db')" for now i a b r u db'
      using that update_policy_harmless [of "''pending''"] unfolding update_pending_tool_plan_policy_def by blast
    show ?thesis using 5
      by (auto simp: at_pc_def try_claim_autonomous_plan_def at_simps intro!: move pol split: prod.split sum.split)
  qed (use auth in \<open>auto simp: at_pc_def try_claim_autonomous_plan_def at_simps intro!: go split: sum.split\<close>)
qed

lemma blocking_ok:
  assumes ok: "plans_ok db n confirmed usedT usedC" and pc: "pd_pc d = Blocking c p"
  shows "step_ok n confirmed usedT usedC d db (at_pc d (block_queued_plan_step x d db))"
proof -
  have pol: "harmless_change db db'" if "update_queued_tool_plan_policy now i a b r db = (u, db')" for now i a b r u db'
    using that update_policy_harmless [of "''queued''"] unfolding update_queued_tool_plan_policy_def by blast
  have move: "step_ok n confirmed usedT usedC d db (d\<lparr>pd_pc := q\<rparr>, db')"
    if "harmless_change db db'" "driver_ok db' n confirmed usedT usedC (d\<lparr>pd_pc := q\<rparr>)" "runs_now (d\<lparr>pd_pc := q\<rparr>) = None" for db' q
    by (rule step_okI [OF harmless_keeps [OF ok that(1)] that(2,3)])
  show ?thesis using pc
    by (auto simp: at_pc_def block_queued_plan_step_def at_simps plain_outcome_def intro!: move pol split: prod.split sum.split)
qed

lemma finish_ok:
  assumes ok: "plans_ok db n confirmed usedT usedC" and pc: "pd_pc d = FinishListing \<or> (\<exists>content. pd_pc d = Finishing content)"
  shows "step_ok n confirmed usedT usedC d db (at_pc d (finish_plan x d db))"
proof -
  have move: "step_ok n confirmed usedT usedC d db (d\<lparr>pd_pc := q\<rparr>, db')"
    if "harmless_change db db'" "driver_ok db' n confirmed usedT usedC (d\<lparr>pd_pc := q\<rparr>)" "runs_now (d\<lparr>pd_pc := q\<rparr>) = None" for db' q
    by (rule step_okI [OF harmless_keeps [OF ok that(1)] that(2,3)])
  show ?thesis using pc
    by (auto simp: at_pc_def finish_plan_def at_simps intro!: move dest: finish_plan_harmless split: prod.split sum.split)
qed

lemma send_tail_ok:
  assumes ok: "plans_ok db n confirmed usedT usedC" and pc: "pd_pc d = RejectingPaused \<or> (\<exists>code. pd_pc d = FailingTurn code)"
  shows "step_ok n confirmed usedT usedC d db (at_pc d (send_tail x d db))"
proof -
  have move: "step_ok n confirmed usedT usedC d db (d\<lparr>pd_pc := q\<rparr>, db')"
    if "harmless_change db db'" "driver_ok db' n confirmed usedT usedC (d\<lparr>pd_pc := q\<rparr>)" "runs_now (d\<lparr>pd_pc := q\<rparr>) = None" for db' q
    by (rule step_okI [OF harmless_keeps [OF ok that(1)] that(2,3)])
  show ?thesis using pc
  proof
    assume "pd_pc d = RejectingPaused"
    then show ?thesis by (auto simp: at_pc_def send_tail_def at_simps intro!: move dest: reject_plan_harmless split: prod.split sum.split)
  next
    assume "\<exists>code. pd_pc d = FailingTurn code"
    then show ?thesis by (auto simp: at_pc_def send_tail_def at_simps fail_turn_harmless intro!: move split: option.split)
  qed
qed

lemma completing_ok:
  assumes ok: "plans_ok db n confirmed usedT usedC" and d: "driver_ok db n confirmed usedT usedC d"
    and pc: "(\<exists>i from r. pd_pc d = Projecting i from r) \<or> (\<exists>i from r content. pd_pc d = Completing i from r content)"
  shows "step_ok n confirmed usedT usedC d db (at_pc d (complete_plan_step_verified x d db))"
proof (cases "pd_pc d")
  case (Projecting i "from" r)
  then have "ends_step db n usedT usedC i from r" using d by (simp add: driver_ok_def)
  then show ?thesis using Projecting
    by (auto simp: at_pc_def complete_plan_step_verified_def at_simps intro!: step_okI [OF keeps_refl [OF ok]])
next
  case (Completing i "from" r content)
  then have e: "ends_step db n usedT usedC i from r" using d by (simp add: driver_ok_def)
  obtain u db' where res: "complete_tool_plan_with_verification (pi_now x) (pi_message x) (pd_turn d) i from (po_status r) (po_summary r)
      (po_operation r) (po_verification r) content db = (u, db')" by (cases "complete_tool_plan_with_verification (pi_now x) (pi_message x) (pd_turn d) i from (po_status r) (po_summary r)
      (po_operation r) (po_verification r) content db")
  let ?P = "\<lambda>c. al_id c = i \<and> al_turn_id c = pd_turn d \<and> al_step_index c \<ge> 0 \<and> al_status c = from"
  let ?db1 = "update_calls ?P (with_result (pi_now x) (po_status r) (po_summary r) (po_operation r) (po_verification r)) db"
  have 1: "plans_ok ?db1 n confirmed usedT usedC \<and> moves_on usedT usedC db ?db1"
    by (rule result_keeps [of db n confirmed usedT usedC ?P i "from", OF ok]) (use e in \<open>auto simp: ends_step_def ended_def\<close>)
  have "plans_ok db' n confirmed usedT usedC \<and> moves_on usedT usedC db db'"
    using complete_plan_cases [OF res] keeps_trans [OF 1] keeps_refl [OF ok] by auto
  then show ?thesis using Completing res
    by (auto simp: at_pc_def complete_plan_step_verified_def at_simps intro!: step_okI split: sum.split)
qed (use pc in auto)

lemma settle_result_status:
  "po_status (settle_result v r) = ''success'' \<or> po_status (settle_result v r) = ''accepted'' \<or> status_rank (po_status (settle_result v r)) = 5"
  by (auto simp: settle_result_def Let_def plan_step_statuses_def verified_status_def split: option.splits plan_error.splits verification_status.splits if_splits)

lemma revalidated: "revalidate_plan_step w c = Inr v \<Longrightarrow> validated_for c v"
  by (auto simp: revalidate_plan_step_def result_iff validated_for_def split: if_splits)

lemma judged_execution: "\<not> (pd_autonomous d \<and> pr_decision p \<noteq> PolicyAutonomous) \<Longrightarrow> registry_policy (pw_tools w) (pw_settings w) v = Inr p \<Longrightarrow>
    judged (pd_autonomous d) v (execution_policy d p) w"
  by (auto simp: judged_def execution_policy_def)

lemma advance_ok:
  assumes ok: "plans_ok db n confirmed usedT usedC" and d: "driver_ok db n confirmed usedT usedC d" and idle: "runs_now d = None"
    and pc: "pd_pc d = Advancing \<or> (\<exists>c m. pd_pc d = CheckingPause c m) \<or> (\<exists>c m. pd_pc d = Validating c m) \<or> (\<exists>c v m. pd_pc d = Judging c v m)
      \<or> (\<exists>c r. pd_pc d = Recording c r)"
  shows "step_ok n confirmed usedT usedC d db (at_pc d (advance_plan x d db))"
proof -
  have go: "step_ok n confirmed usedT usedC d db (d\<lparr>pd_pc := p\<rparr>, db)" if "driver_ok db n confirmed usedT usedC (d\<lparr>pd_pc := p\<rparr>)" "runs_now (d\<lparr>pd_pc := p\<rparr>) = None" for p
    by (rule step_okI [OF keeps_refl [OF ok] that])
  show ?thesis
  proof (cases "pd_pc d")
    case Advancing
    then have auth: "authorized confirmed d" using d by (simp add: driver_ok_def)
    let ?steps = "list_plan_steps db (pd_turn d)"
    have step: "at_pc d (advance_plan x d db) = (d\<lparr>pd_pc := next_plan_step (length ?steps) ?steps\<rparr>, db)"
      using Advancing by (simp add: at_pc_def advance_plan_def Let_def)
    show ?thesis unfolding step
      using next_plan_step_cases [of "length ?steps" ?steps] chosen_from_list [OF ok] auth
      by (elim disjE exE conjE) (auto simp: at_simps ends_step_def plain_outcome_def intro!: go)
  next
    case (CheckingPause c m)
    then show ?thesis using d by (auto simp: driver_ok_def at_pc_def advance_plan_def at_simps intro!: go split: sum.split)
  next
    case (Validating c m)
    then show ?thesis using d revalidated
      by (auto simp: driver_ok_def at_pc_def advance_plan_def at_simps plan_validation_failure_ok intro!: go split: sum.split prod.split)
  next
    case (Judging c v m)
    then show ?thesis using d judged_execution [of d]
      by (auto simp: driver_ok_def at_pc_def advance_plan_def at_simps intro!: go split: sum.split)
  next
    case (Recording c r)
    then have r: "authorized confirmed d" "has_run db n usedT usedC (al_id c)" "po_status r = ''success'' \<or> po_status r = ''accepted''"
      using d by (auto simp: driver_ok_def)
    obtain u db' where res: "change_step (al_id c) ''running'' (with_result (pi_now x) (po_status r) (po_summary r) (po_operation r) (po_verification r)) db = (u, db')"
      by (cases "change_step (al_id c) ''running'' (with_result (pi_now x) (po_status r) (po_summary r) (po_operation r) (po_verification r)) db")
    let ?P = "\<lambda>a. al_id a = al_id c \<and> al_step_index a \<ge> 0 \<and> al_status a = ''running''"
    have "plans_ok (update_calls ?P (with_result (pi_now x) (po_status r) (po_summary r) (po_operation r) (po_verification r)) db) n confirmed usedT usedC
       \<and> moves_on usedT usedC db (update_calls ?P (with_result (pi_now x) (po_status r) (po_summary r) (po_operation r) (po_verification r)) db)"
      by (rule result_keeps [of db n confirmed usedT usedC ?P "al_id c" "''running''", OF ok]) (use r in auto)
    then have "plans_ok db' n confirmed usedT usedC \<and> moves_on usedT usedC db db'"
      using change_step_cases [OF res] keeps_refl [OF ok] by auto
    then show ?thesis using Recording res r(1)
      by (auto simp: at_pc_def advance_plan_def transition_tool_plan_step_with_verification_def at_simps intro!: step_okI split: sum.split)
  qed (use pc in auto)
qed

text \<open>The step is started: it was queued, so it is the one that runs next.\<close>

lemma starting_ok:
  assumes ok: "plans_ok db n confirmed usedT usedC" and d: "driver_ok db n confirmed usedT usedC d" and pc: "pd_pc d = Starting c v p w m"
  shows "step_ok n confirmed usedT usedC d db (at_pc d (advance_plan x d db))"
proof (cases "pi_cancelled x")
  case True
  then show ?thesis using pc
    by (auto simp: at_pc_def advance_plan_def at_simps plain_outcome_def intro!: step_okI [OF keeps_refl [OF ok]])
next
  case False
  have a: "authorized confirmed d" "chosen db n usedT usedC d c" "validated_for c v" "judged (pd_autonomous d) v p w"
    using d pc by (auto simp: driver_ok_def)
  let ?f = "\<lambda>a. (with_policy (pi_now x) (decision_text (pr_decision p)) (safe_reason p) (pr_revision p) a)\<lparr>al_status := ''running''\<rparr>"
  obtain u db' where res: "change_step (al_id c) ''queued'' ?f db = (u, db')" by (cases "change_step (al_id c) ''queued'' ?f db")
  have f: "same_step a (?f a)" "al_status (?f a) = ''running''" for a by (simp_all add: same_step_def with_policy_def)
  show ?thesis
    using change_step_cases [OF res]
  proof (elim disjE conjE)
    assume "db' = db" "u = Inl AiConflict"
    then have "at_pc d (advance_plan x d db) = (d\<lparr>pd_pc := give_up d\<rparr>, db)"
      using pc False res by (simp add: at_pc_def advance_plan_def start_tool_plan_step_def)
    moreover have "step_ok n confirmed usedT usedC d db (d\<lparr>pd_pc := give_up d\<rparr>, db)" by (rule step_okI [OF keeps_refl [OF ok]]) auto
    ultimately show ?thesis by simp
  next
    let ?P = "\<lambda>a. al_id a = al_id c \<and> al_step_index a \<ge> 0 \<and> al_status a = ''queued''"
    assume db': "db' = update_calls ?P ?f db" and u: "u = Inr ()" and "\<exists>a\<in>set (ab_calls db). al_id a = al_id c \<and> is_step a \<and> al_status a = ''queued''"
    then obtain a0 where a0: "a0 \<in> set (ab_calls db)" "al_id a0 = al_id c" "is_step a0" "al_status a0 = ''queued''" by blast
    have same: "same_step c a" if "a \<in> set (ab_calls db)" "al_id a = al_id c" for a using a(2) tied_row that by (auto simp: chosen_def)
    have auth: "row_authorized confirmed (?f a1)" if "a1 \<in> set (ab_calls db)" "al_id a1 = al_id c" for a1
      using same [OF that] a by (auto simp: row_authorized_def with_policy_def same_step_def chosen_def authorized_def judged_def split: if_splits)
    have keeps: "plans_ok db' n confirmed usedT usedC \<and> moves_on usedT usedC db db'"
      unfolding db' by (rule start_keeps [OF ok _ f auth]) auto
    have place: "al_turn_id a0 = pd_turn d" "al_step_index a0 = al_step_index c" using same [OF a0(1,2)] a(2) by (auto simp: chosen_def same_step_def)
    have "int (n (pd_turn d)) \<le> al_step_index a0" using plans_ok_parts(3) [OF ok] a0 place(1) by (auto simp: progress_ok_def)
    then have idx: "al_step_index c = int (n (pd_turn d))" using a(2) place by (simp add: chosen_def)
    have "rank_from db' usedC (al_id c) 2"
      unfolding rank_from_def
    proof (intro conjI ballI impI)
      show "al_id c \<in> usedC" using a(2) by (simp add: chosen_def tied_def)
      fix b assume b: "b \<in> set (ab_calls db')" "al_id b = al_id c \<and> is_step b"
      obtain b0 where b0: "b0 \<in> set (ab_calls db)" "b = (if ?P b0 then ?f b0 else b0)"
        using b(1) unfolding db' by (auto simp: update_calls_def set_update_rows)
      have "al_id b0 = al_id c" using b0(2) b(2) f(1) [of b0] by (auto split: if_splits simp: same_step_def)
      then have "b0 = a0" using distinct_key_eq [OF plans_ok_parts(5) [OF ok]] b0(1) a0 by metis
      then show "2 \<le> status_rank (al_status b)" using b0(2) a0 f(2) [of a0] by (simp add: is_step_def)
    qed
    then have "driver_ok db' n confirmed usedT usedC (d\<lparr>pd_pc := Executing c v p w m\<rparr>)"
      unfolding at_simps using a idx chosen_moves [of db n usedT usedC d c db' usedT usedC n] keeps by blast
    moreover have "at_pc d (advance_plan x d db) = (d\<lparr>pd_pc := Executing c v p w m\<rparr>, db')"
      using pc False res u by (simp add: at_pc_def advance_plan_def start_tool_plan_step_def)
    moreover have "\<exists>b\<in>set (ab_calls db). is_step b \<and> al_turn_id b = pd_turn d \<and> al_step_index b = int (n (pd_turn d)) \<and> al_status b = ''queued''"
      using a0 place idx by auto
    ultimately show ?thesis using keeps by (simp add: step_ok_def)
  qed
qed

lemma verify_ok:
  assumes ok: "plans_ok db n confirmed usedT usedC" and d: "driver_ok db n confirmed usedT usedC d"
    and pc: "(\<exists>i r t. pd_pc d = VerifyReading i r t) \<or> (\<exists>c r. pd_pc d = VerifyChecking c r) \<or> (\<exists>c r. pd_pc d = VerifyListing c r)
      \<or> (\<exists>c r. pd_pc d = VerifyRecording c r) \<or> (\<exists>f r t. pd_pc d = VerifyPlain f r t)"
  shows "step_ok n confirmed usedT usedC d db (complete_accepted_operation x d db)"
proof -
  have go: "step_ok n confirmed usedT usedC d db (d', db)" if "driver_ok db n confirmed usedT usedC d'" "runs_now d' = None" for d'
    by (rule step_okI [OF keeps_refl [OF ok] that])
  show ?thesis
  proof (cases "pd_pc d")
    case (VerifyReading i r assistant)
    then have a: "ended r" "rank_from db usedC i 3" "\<forall>c\<in>set (ab_calls db). al_id c = i \<and> is_step c \<longrightarrow> row_authorized confirmed c"
      using d by (simp_all add: driver_ok_def)
    show ?thesis
    proof (cases "get_tool_call db i")
      case (Inl e)
      then show ?thesis using VerifyReading by (auto simp: complete_accepted_operation_def at_simps intro!: go)
    next
      case (Inr found)
      obtain c turn where f: "found = (c, turn)" by (cases found)
      have c: "c \<in> set (ab_calls db)" "al_id c = i" "at_id turn = al_turn_id c"
        using Inr f by (auto simp: get_tool_call_def find_call_def find_turn_def split: option.splits dest!: find_Some_set)
      show ?thesis
      proof (cases "al_step_index c < 0")
        case True
        have "plain_call db i" using c True distinct_key_eq [OF plans_ok_parts(5) [OF ok]] by (auto simp: plain_call_def list_all_iff)
        then show ?thesis using VerifyReading Inr f True c a(2)
          by (auto simp: complete_accepted_operation_def at_simps rank_from_def intro!: go)
      next
        case False
        then have "row_authorized confirmed c" using a(3) c by (auto simp: is_step_def)
        then have "authorized confirmed (d\<lparr>pd_turn := at_id turn, pd_autonomous := (al_policy_decision c = decision_text PolicyAutonomous)\<rparr>)"
          using c(3) by (auto simp: row_authorized_def authorized_def)
        then have "driver_ok db n confirmed usedT usedC (d\<lparr>pd_turn := at_id turn, pd_autonomous := (al_policy_decision c = decision_text PolicyAutonomous), pd_pc := VerifyChecking c r\<rparr>)"
          "driver_ok db n confirmed usedT usedC (d\<lparr>pd_turn := at_id turn, pd_autonomous := (al_policy_decision c = decision_text PolicyAutonomous), pd_pc := VerifyListing c r\<rparr>)"
          using a(1) by (simp_all add: driver_ok_def authorized_def)
        then show ?thesis using VerifyReading Inr f False
          by (auto simp: complete_accepted_operation_def runs_now_def intro!: go)
      qed
    qed
  next
    case (VerifyChecking c r)
    then have "authorized confirmed d" "ended r" using d by (simp_all add: driver_ok_def)
    then show ?thesis using VerifyChecking
      by (auto simp: complete_accepted_operation_def at_simps ended_def verified_status_def intro!: go split: sum.split verification_status.split)
  next
    case (VerifyListing c r)
    then have "authorized confirmed d" "ended r" using d by (simp_all add: driver_ok_def)
    then show ?thesis using VerifyListing
      by (auto simp: complete_accepted_operation_def at_simps ends_step_def intro!: go)
  next
    case (VerifyRecording c r)
    then have a: "authorized confirmed d" "po_status r = ''success''" using d by (simp_all add: driver_ok_def)
    obtain u db' where res: "change_step (al_id c) ''accepted'' (with_result (pi_now x) (po_status r) (po_summary r) [] (po_verification r)) db = (u, db')"
      by (cases "change_step (al_id c) ''accepted'' (with_result (pi_now x) (po_status r) (po_summary r) [] (po_verification r)) db")
    let ?P = "\<lambda>a. al_id a = al_id c \<and> al_step_index a \<ge> 0 \<and> al_status a = ''accepted''"
    have "plans_ok (update_calls ?P (with_result (pi_now x) (po_status r) (po_summary r) [] (po_verification r)) db) n confirmed usedT usedC
       \<and> moves_on usedT usedC db (update_calls ?P (with_result (pi_now x) (po_status r) (po_summary r) [] (po_verification r)) db)"
      by (rule result_keeps [of db n confirmed usedT usedC ?P "al_id c" "''accepted''", OF ok]) (use a in auto)
    then have "plans_ok db' n confirmed usedT usedC \<and> moves_on usedT usedC db db'"
      using change_step_cases [OF res] keeps_refl [OF ok] by auto
    then show ?thesis using VerifyRecording res a(1)
      by (auto simp: complete_accepted_operation_def transition_tool_plan_step_with_verification_def at_simps intro!: step_okI split: sum.split)
  next
    case (VerifyPlain found r assistant)
    then have "plain_call db (al_id (fst found))" using d by (simp add: driver_ok_def)
    note keep = harmless_keeps [OF ok accepted_call_harmless [OF this]]
    show ?thesis using VerifyPlain by (auto simp: complete_accepted_operation_def at_simps intro!: step_okI keep)
  qed (use pc in auto)
qed

lemma drive_ok:
  assumes ok: "plans_ok db n confirmed usedT usedC" and d: "driver_ok db n confirmed usedT usedC d" and idle: "runs_now d = None"
  shows "step_ok n confirmed usedT usedC d db (drive x d db)"
proof (cases "pd_pc d")
  case PlanDone
  then show ?thesis using ok by (auto simp: drive_def at_pc_def advance_plan_def at_simps intro!: step_okI keeps_refl)
qed (use confirm_plan_ok [OF ok d] try_claim_ok [OF ok d] blocking_ok [OF ok] finish_ok [OF ok] send_tail_ok [OF ok] completing_ok [OF ok d]
    advance_ok [OF ok d idle] starting_ok [OF ok d] verify_ok [OF ok d] idle in \<open>auto simp: drive_def runs_now_def\<close>)

end
