(* ===== verification/AiPlanSpec.thy ===== *)
theory AiPlanSpec
  imports AiPlanInv
begin

text \<open>
  The system of goroutines that run plans keeps its invariant, and with it: steps run in order and once, each
  after all earlier ones succeeded, none without the administrator or the policy, and each on the target that
  was proposed.
\<close>

section \<open>The invariant of the system\<close>

lemma executed_append: "executed (hist @ hist') = (\<lambda>T. executed hist T + executed hist' T)"
  by (auto simp: executed_def)

lemma executed_Nil [simp]: "executed [] = (\<lambda>T. 0)"
  by (auto simp: executed_def)

lemma executed_by_idle: "runs_now d = None \<Longrightarrow> executed_by d = []"
  by (auto simp: runs_now_def split: plan_pc.splits)

lemma driver_runs:
  assumes "runs_now d = Some c" "driver_ok db n confirmed usedT usedC d"
  shows "chosen db n usedT usedC d c" "al_step_index c = int (n (pd_turn d))" "rank_from db usedC (al_id c) 2"
  using assms by (auto simp: runs_now_def driver_ok_def split: plan_pc.splits)

text \<open>A queued step that is the next of its turn: nobody is running it.\<close>

lemma nobody_runs:
  assumes ok: "plans_ok db n confirmed usedT usedC" and d: "driver_ok db n confirmed usedT usedC d" "runs_now d = Some c"
    and a: "a \<in> set (ab_calls db)" "is_step a" "al_turn_id a = pd_turn d" "al_step_index a = int (n (pd_turn d))" "al_status a = ''queued''"
  shows False
proof -
  note r = driver_runs [OF d(2,1)]
  have c: "al_turn_id c = pd_turn d" "is_step c" "tied db usedT usedC c" using r(1) by (auto simp: chosen_def)
  have "al_turn_id c \<in> turn_ids db" using plans_ok_parts(1) [OF ok] a c by (auto simp: ids_ok_def)
  then obtain b where b: "b \<in> set (ab_calls db)" "same_step c b" "is_step b" using tied_turn [OF c(3,2)] by blast
  then have "al_turn_id b = al_turn_id a" "al_step_index b = al_step_index a" using a c r(2) by (auto simp: same_step_def)
  then have "b = a" using plans_ok_parts(2) [OF ok] a b unfolding steps_ok_def by metis
  then show False using r(3) b a by (auto simp: rank_from_def same_step_def)
qed

lemma list_all_update: "list_all P xs \<Longrightarrow> P y \<Longrightarrow> list_all P (xs[j := y])"
  unfolding list_all_iff using set_update_subset_insert [of xs j y] by auto

lemma alone_update: "alone ds \<Longrightarrow> runs_now d = None \<Longrightarrow> alone (ds[j := d])"
proof -
  assume al: "alone ds" and d: "runs_now d = None"
  have "ds[j := d] ! i = ds ! i" if "runs_now (ds[j := d] ! i) \<noteq> None" "i < length ds" for i
    using that d by (cases "i = j") auto
  then show ?thesis using al unfolding alone_def length_list_update by metis
qed

lemma idle_step_ok:
  assumes s: "system_ok s" and j: "j < length (ps_drivers s)" and idle: "runs_now (ps_drivers s ! j) = None"
  shows "system_ok (drive_one j x s)"
proof -
  let ?db = "ps_db s" and ?n = "executed (ps_log s)" and ?C = "set (ps_confirmed s)" and ?T = "set (ps_used_turns s)" and ?I = "set (ps_used_calls s)"
  let ?d = "ps_drivers s ! j"
  have ok: "plans_ok ?db ?n ?C ?T ?I" and ds: "list_all (driver_ok ?db ?n ?C ?T ?I) (ps_drivers s)" and al: "alone (ps_drivers s)"
    and lg: "log_ok ?db (ps_log s) ?C ?T ?I" using s by (auto simp: system_ok_def)
  have d: "driver_ok ?db ?n ?C ?T ?I ?d" using ds j by (simp add: list_all_length)
  obtain d' db' where dr: "drive x ?d ?db = (d', db')" by (cases "drive x ?d ?db")
  have st: "plans_ok db' ?n ?C ?T ?I" "moves_on ?T ?I ?db db'" "driver_ok db' ?n ?C ?T ?I d'"
    "runs_now d' \<noteq> None \<Longrightarrow> pd_turn d' = pd_turn ?d \<and> (\<exists>c\<in>set (ab_calls ?db). is_step c \<and> al_turn_id c = pd_turn ?d
        \<and> al_step_index c = int (?n (pd_turn ?d)) \<and> al_status c = ''queued'')"
    using drive_ok [OF ok d idle, of x] by (auto simp: step_ok_def dr)
  have step: "drive_one j x s = s\<lparr>ps_db := db', ps_drivers := (ps_drivers s)[j := d']\<rparr>"
    using j dr executed_by_idle [OF idle] by (simp add: drive_one_def Let_def)
  have "list_all (driver_ok db' ?n ?C ?T ?I) (ps_drivers s)"
    using ds driver_ok_moves [OF _ st(2)] by (auto simp: list_all_iff)
  then have 1: "list_all (driver_ok db' ?n ?C ?T ?I) ((ps_drivers s)[j := d'])" using st(3) by (rule list_all_update)
  have other: False if i: "i < length (ps_drivers s)" "i \<noteq> j" "runs_now (ps_drivers s ! i) \<noteq> None" "runs_now d' \<noteq> None" "pd_turn (ps_drivers s ! i) = pd_turn d'" for i
  proof -
    obtain c where c: "runs_now (ps_drivers s ! i) = Some c" using i(3) by auto
    have di: "driver_ok ?db ?n ?C ?T ?I (ps_drivers s ! i)" using ds i(1) by (simp add: list_all_length)
    show False using nobody_runs [OF ok di c] st(4) [OF i(4)] i(5) by auto
  qed
  have 2: "alone ((ps_drivers s)[j := d'])"
    unfolding alone_def length_list_update
  proof (intro allI impI)
    fix a b assume ab: "a < length (ps_drivers s)" "b < length (ps_drivers s)"
      and r: "runs_now ((ps_drivers s)[j := d'] ! a) \<noteq> None \<and> runs_now ((ps_drivers s)[j := d'] ! b) \<noteq> None
        \<and> pd_turn ((ps_drivers s)[j := d'] ! a) = pd_turn ((ps_drivers s)[j := d'] ! b)"
    show "a = b"
    proof (cases "a = j \<or> b = j")
      case True
      then show ?thesis using ab r other [of a] other [of b] by (auto simp: nth_list_update split: if_splits)
    next
      case False
      then show ?thesis using al ab r by (auto simp: alone_def)
    qed
  qed
  show ?thesis unfolding step system_ok_def using st(1) 1 2 log_ok_moves [OF lg st(2)] by simp
qed

text \<open>The step that runs a tool.\<close>

lemma running_step_ok:
  assumes s: "system_ok s" and j: "j < length (ps_drivers s)" and pc: "pd_pc (ps_drivers s ! j) = Executing c v p w m"
  shows "system_ok (drive_one j x s)"
proof -
  let ?db = "ps_db s" and ?n = "executed (ps_log s)" and ?C = "set (ps_confirmed s)" and ?T = "set (ps_used_turns s)" and ?I = "set (ps_used_calls s)"
  let ?d = "ps_drivers s ! j" and ?e = "\<lparr>xs_row = c, xs_call = v, xs_policy = p, xs_world = w, xs_autonomous = pd_autonomous (ps_drivers s ! j)\<rparr>"
  let ?n' = "executed (ps_log s @ [?e])" and ?r = "settle_result v (pi_result x)"
  have ok: "plans_ok ?db ?n ?C ?T ?I" and ds: "list_all (driver_ok ?db ?n ?C ?T ?I) (ps_drivers s)" and al: "alone (ps_drivers s)"
    and lg: "log_ok ?db (ps_log s) ?C ?T ?I" using s by (auto simp: system_ok_def)
  have d: "driver_ok ?db ?n ?C ?T ?I ?d" using ds j by (simp add: list_all_length)
  have run: "runs_now ?d = Some c" using pc by (simp add: runs_now_def)
  have a: "authorized ?C ?d" "chosen ?db ?n ?T ?I ?d c" "validated_for c v" "judged (pd_autonomous ?d) v p w"
    "al_step_index c = int (?n (pd_turn ?d))" "rank_from ?db ?I (al_id c) 2" using d pc by (auto simp: driver_ok_def)
  have c: "al_turn_id c = pd_turn ?d" "is_step c" "tied ?db ?T ?I c" "before_ok ?db c" using a(2) by (auto simp: chosen_def)
  have n': "?n' T = (if T = pd_turn ?d then Suc (?n T) else ?n T)" for T using c(1) by (simp add: executed_def)
  have mono: "?n T \<le> ?n' T" for T unfolding n' by simp
  have ok': "plans_ok ?db ?n' ?C ?T ?I"
  proof -
    have "progress_ok ?db ?n' ?T"
      unfolding progress_ok_def
    proof (intro conjI ballI allI impI)
      fix b assume b: "b \<in> set (ab_calls ?db)" "is_step b"
      note row = plans_ok_parts(3) [OF ok, unfolded progress_ok_def, THEN conjunct1, rule_format, OF b]
      show "int (?n' (al_turn_id b)) \<le> al_step_index b" if low: "status_rank (al_status b) \<le> 1"
      proof (cases "al_turn_id b = pd_turn ?d \<and> al_step_index b = al_step_index c")
        case True
        have "al_turn_id c \<in> turn_ids ?db" using plans_ok_parts(1) [OF ok] b(1) c(1) True by (auto simp: ids_ok_def)
        then obtain b' where b': "b' \<in> set (ab_calls ?db)" "same_step c b'" "is_step b'" using tied_turn [OF c(3,2)] by blast
        have "al_turn_id b' = al_turn_id b" "al_step_index b' = al_step_index b" using b'(2) True c(1) by (auto simp: same_step_def)
        then have "b' = b" using plans_ok_parts(2) [OF ok] b b'(1) unfolding steps_ok_def by metis
        then show ?thesis using a(6) b' low by (auto simp: rank_from_def same_step_def)
      next
        case False
        then show ?thesis using row low a(5) unfolding n' by (auto split: if_splits)
      qed
      show "al_step_index b < int (?n' (al_turn_id b))" if "al_status b = ''success'' \<or> al_status b = ''accepted''"
        using row that mono [of "al_turn_id b"] by auto
    next
      fix T assume T: "0 < ?n' T"
      show "T \<in> ?T"
        using T c(3) plans_ok_parts(3) [OF ok] c(1) unfolding n' by (auto simp: tied_def progress_ok_def split: if_splits)
      assume in_db: "T \<in> turn_ids ?db"
      show "\<exists>b\<in>set (ab_calls ?db). is_step b \<and> al_turn_id b = T"
      proof (cases "T = pd_turn ?d")
        case True
        then show ?thesis using tied_turn [OF c(3,2)] in_db c(1) by auto
      next
        case False
        then show ?thesis using T in_db plans_ok_parts(3) [OF ok] unfolding n' by (auto simp: progress_ok_def)
      qed
    qed
    then show ?thesis using ok by (simp add: plans_ok_def)
  qed
  have same: "moves_on ?T ?I ?db ?db" by (rule moves_on_same) auto
  obtain q where q: "q = (if po_status ?r = ''success'' \<and> al_step_index c < int m - 1 \<or> po_status ?r = ''accepted'' then Recording c ?r
      else Projecting (al_id c) ''running'' ?r)" by blast
  have dr: "drive x ?d ?db = (?d\<lparr>pd_pc := q\<rparr>, ?db)" unfolding q using pc by (simp add: drive_def at_pc_def advance_plan_def Let_def)
  have "has_run ?db ?n' ?T ?I (al_id c)" unfolding has_run_def using c a(5) n' by (intro exI [of _ c]) simp
  then have dok: "driver_ok ?db ?n' ?C ?T ?I (?d\<lparr>pd_pc := q\<rparr>)"
    unfolding q using a(1) settle_result_status [of v "pi_result x"] by (auto simp: at_simps ends_step_def)
  have step: "drive_one j x s = s\<lparr>ps_drivers := (ps_drivers s)[j := ?d\<lparr>pd_pc := q\<rparr>], ps_log := ps_log s @ [?e]\<rparr>"
    using j dr pc by (simp add: drive_one_def Let_def)
  have others: "driver_ok ?db ?n' ?C ?T ?I (ps_drivers s ! i)" if i: "i < length (ps_drivers s)" "i \<noteq> j" for i
  proof (rule driver_ok_moves [OF _ same subset_refl subset_refl subset_refl mono])
    show "driver_ok ?db ?n ?C ?T ?I (ps_drivers s ! i)" using ds i by (simp add: list_all_length)
    assume "runs_now (ps_drivers s ! i) \<noteq> None"
    then have "pd_turn (ps_drivers s ! i) \<noteq> pd_turn ?d" using al i j run by (auto simp: alone_def)
    then show "?n' (pd_turn (ps_drivers s ! i)) = ?n (pd_turn (ps_drivers s ! i))" unfolding n' by simp
  qed
  have 1: "list_all (driver_ok ?db ?n' ?C ?T ?I) ((ps_drivers s)[j := ?d\<lparr>pd_pc := q\<rparr>])"
    unfolding list_all_length length_list_update
  proof (intro allI impI)
    fix i assume "i < length (ps_drivers s)"
    then show "driver_ok ?db ?n' ?C ?T ?I ((ps_drivers s)[j := ?d\<lparr>pd_pc := q\<rparr>] ! i)" using others [of i] dok by (cases "i = j") auto
  qed
  have "runs_now (?d\<lparr>pd_pc := q\<rparr>) = None" unfolding q by (simp add: at_simps)
  then have 2: "alone ((ps_drivers s)[j := ?d\<lparr>pd_pc := q\<rparr>])" by (rule alone_update [OF al])
  have 3: "log_ok ?db (ps_log s @ [?e]) ?C ?T ?I"
    unfolding log_ok_def
  proof (intro conjI allI ballI)
    fix T
    have "map (\<lambda>x. al_step_index (xs_row x)) (filter (\<lambda>x. al_turn_id (xs_row x) = T) (ps_log s)) = map int [0..<?n T]" using lg by (simp add: log_ok_def)
    then show "map (\<lambda>x. al_step_index (xs_row x)) (filter (\<lambda>x. al_turn_id (xs_row x) = T) (ps_log s @ [?e])) = map int [0..<?n' T]"
      using a(5) c(1) unfolding n' by auto
  qed (use lg a c in \<open>auto simp: log_ok_def authorized_def\<close>)
  show ?thesis unfolding step system_ok_def using ok' 1 2 3 by simp
qed

section \<open>Every event\<close>

text \<open>The database moves on while the goroutines wait.\<close>

lemma system_moves:
  assumes s: "system_ok s" and db: "plans_ok db' (executed (ps_log s)) C' T' I'" "moves_on (set (ps_used_turns s)) (set (ps_used_calls s)) (ps_db s) db'"
    and sub: "set (ps_used_turns s) \<subseteq> T'" "set (ps_used_calls s) \<subseteq> I'" "set (ps_confirmed s) \<subseteq> C'"
  shows "list_all (driver_ok db' (executed (ps_log s)) C' T' I') (ps_drivers s) \<and> log_ok db' (ps_log s) C' T' I'"
proof -
  have ds: "list_all (driver_ok (ps_db s) (executed (ps_log s)) (set (ps_confirmed s)) (set (ps_used_turns s)) (set (ps_used_calls s))) (ps_drivers s)"
    and lg: "log_ok (ps_db s) (ps_log s) (set (ps_confirmed s)) (set (ps_used_turns s)) (set (ps_used_calls s))" using s by (auto simp: system_ok_def)
  have "list_all (driver_ok db' (executed (ps_log s)) C' T' I') (ps_drivers s)"
    unfolding list_all_iff
  proof
    fix d assume "d \<in> set (ps_drivers s)"
    then have "driver_ok (ps_db s) (executed (ps_log s)) (set (ps_confirmed s)) (set (ps_used_turns s)) (set (ps_used_calls s)) d"
      using ds by (simp add: list_all_iff)
    then show "driver_ok db' (executed (ps_log s)) C' T' I' d" by (rule driver_ok_moves [OF _ db(2) sub]) auto
  qed
  then show ?thesis using log_ok_moves [OF lg db(2) sub] by blast
qed

lemma alone_append: "alone ds \<Longrightarrow> runs_now d = None \<Longrightarrow> alone (ds @ [d])"
  unfolding alone_def by (auto simp: nth_append less_Suc_eq) 

lemma spawn_ok:
  assumes "system_ok s" "driver_ok (ps_db s) (executed (ps_log s)) (set (ps_confirmed s)) (set (ps_used_turns s)) (set (ps_used_calls s)) d" "runs_now d = None"
  shows "system_ok (spawn d s)"
  using assms by (auto simp: system_ok_def spawn_def alone_append)

lemma system_db_ok:
  assumes s: "system_ok s" and db: "plans_ok db' (executed (ps_log s)) (set (ps_confirmed s)) (T \<union> set (ps_used_turns s)) (I \<union> set (ps_used_calls s))
      \<and> moves_on (set (ps_used_turns s)) (set (ps_used_calls s)) (ps_db s) db'"
    and s': "ps_db s' = db'" "ps_drivers s' = ps_drivers s" "ps_log s' = ps_log s" "ps_confirmed s' = ps_confirmed s"
      "set (ps_used_turns s') = T \<union> set (ps_used_turns s)" "set (ps_used_calls s') = I \<union> set (ps_used_calls s)"
  shows "system_ok s'"
  using system_moves [OF s, of db' "set (ps_confirmed s)" "T \<union> set (ps_used_turns s)" "I \<union> set (ps_used_calls s)"] db s
  by (auto simp: system_ok_def s')

lemma confirmation_ok: "system_ok s \<Longrightarrow> system_ok (request_confirmation T w s)"
proof -
  assume s: "system_ok s"
  let ?s = "s\<lparr>ps_confirmed := T # ps_confirmed s\<rparr>"
  let ?d = "\<lparr>pd_turn = T, pd_autonomous = False, pd_send = None, pd_pc = ConfirmListing\<rparr>"
  have db: "plans_ok (ps_db s) (executed (ps_log s)) (set (ps_confirmed ?s)) (set (ps_used_turns s)) (set (ps_used_calls s))"
    using s by (auto simp: system_ok_def plans_ok_def authority_ok_def row_authorized_def)
  have "system_ok ?s"
    using system_moves [OF s db moves_on_same [OF refl refl]] s db by (auto simp: system_ok_def)
  then have "system_ok (spawn ?d ?s)" by (rule spawn_ok) (simp_all add: driver_ok_def authorized_def runs_now_def)
  moreover have "request_confirmation T w s = (if control_active w then spawn ?d ?s else s)"
    by (cases s) (simp add: request_confirmation_def spawn_def)
  ultimately show ?thesis using s by simp
qed

lemma propose_ok: "system_ok s \<Longrightarrow> system_ok (propose_plan js now turn inputs autonomous paused s)"
proof -
  assume s: "system_ok s"
  let ?ids = "map (al_id \<circ> fst) inputs"
  have ok: "plans_ok (ps_db s) (executed (ps_log s)) (set (ps_confirmed s)) (set (ps_used_turns s)) (set (ps_used_calls s))"
    using s by (simp add: system_ok_def)
  show ?thesis
  proof (cases "\<not> distinct ?ids \<or> [] \<in> set ?ids \<or> set ?ids \<inter> set (ps_used_calls s) \<noteq> {}")
    case True
    then show ?thesis using s unfolding propose_plan_def Let_def by (simp only: if_True)
  next
    case False
    obtain r db' where res: "create_tool_plan js now (\<lambda>k. []) turn inputs (ps_db s) = (r, db')"
      by (cases "create_tool_plan js now (\<lambda>k. []) turn inputs (ps_db s)")
    let ?s = "s\<lparr>ps_db := db', ps_used_calls := ?ids @ ps_used_calls s\<rparr>"
    have s': "system_ok ?s"
      by (rule system_db_ok [OF s, where db' = db' and T = "{}" and I = "set ?ids"]) (use create_plan_keeps [OF ok res] False in simp_all)
    have sp: "system_ok (spawn \<lparr>pd_turn = at_id turn, pd_autonomous = True, pd_send = Some turn, pd_pc = q\<rparr> ?s)"
      if "q = FailingTurn ''internal'' \<or> q = RejectingPaused \<or> q = AutoListing" for q
      by (rule spawn_ok [OF s']) (use that in \<open>auto simp: driver_ok_def authorized_def runs_now_def\<close>)
    have "propose_plan js now turn inputs autonomous paused s = (case r of
        Inl e \<Rightarrow> spawn \<lparr>pd_turn = at_id turn, pd_autonomous = True, pd_send = Some turn, pd_pc = FailingTurn ''internal''\<rparr> ?s
      | Inr created \<Rightarrow> if paused then spawn \<lparr>pd_turn = at_id turn, pd_autonomous = True, pd_send = Some turn, pd_pc = RejectingPaused\<rparr> ?s
         else if autonomous then spawn \<lparr>pd_turn = at_id turn, pd_autonomous = True, pd_send = Some turn, pd_pc = AutoListing\<rparr> ?s else ?s)"
      unfolding propose_plan_def Let_def res using False by (simp split: sum.split)
    then show ?thesis using sp s' by (simp split: sum.split)
  qed
qed

lemma plain_ended [simp]:
  "ended (plain_outcome ''failure'' t)" "ended (plain_outcome ''interrupted'' t)" "ended (plain_outcome ''success'' t)"
  by (simp_all add: ended_def plain_outcome_def)

definition all_ended :: "(plan_outcome \<times> string) option \<Rightarrow> bool" where
  "all_ended out \<longleftrightarrow> (case out of None \<Rightarrow> True | Some (r, t) \<Rightarrow> ended r)"

lemma all_ended_intros:
  "all_ended None" "all_ended (Some (plain_outcome ''failure'' a, t))" "all_ended (Some (plain_outcome ''interrupted'' a, t))"
  "all_ended (Some (plain_outcome ''success'' a, t))"
  "all_ended x \<Longrightarrow> all_ended y \<Longrightarrow> all_ended (if b then x else y)"
  "all_ended x \<Longrightarrow> (\<And>v. all_ended (f v)) \<Longrightarrow> all_ended (case p of None \<Rightarrow> x | Some v \<Rightarrow> f v)"
  "(\<And>e. all_ended (g e)) \<Longrightarrow> (\<And>v. all_ended (h v)) \<Longrightarrow> all_ended (case q of Inl e \<Rightarrow> g e | Inr v \<Rightarrow> h v)"
  "(\<And>u v. all_ended (k u v)) \<Longrightarrow> all_ended (case w of (u, v) \<Rightarrow> k u v)"
  subgoal by (simp add: all_ended_def)
  subgoal by (simp add: all_ended_def)
  subgoal by (simp add: all_ended_def)
  subgoal by (simp add: all_ended_def)
  subgoal by simp
  subgoal by (cases p) simp_all
  subgoal by (cases q) simp_all
  subgoal by (cases w) simp
  done

lemma verify_all_ended: "all_ended (verify_accepted_operation now e c)"
  unfolding verify_accepted_operation_def Let_def by (intro all_ended_intros)

lemma verify_outcome_ended: "verify_accepted_operation now e c = Some (r, t) \<Longrightarrow> ended r"
  using verify_all_ended [of now e c] by (simp add: all_ended_def)

lemma verify_accepted_ok: "system_ok s \<Longrightarrow> system_ok (verify_accepted i now e s)"
proof (cases "List.find (\<lambda>c. al_id c = i) (list_accepted_tool_calls (ps_db s) 100)")
  case (Some c)
  assume s: "system_ok s"
  then have ok: "plans_ok (ps_db s) (executed (ps_log s)) (set (ps_confirmed s)) (set (ps_used_turns s)) (set (ps_used_calls s))"
    by (simp add: system_ok_def)
  have "c \<in> set (list_accepted_tool_calls (ps_db s) 100)" "al_id c = i" using find_Some_set [OF Some] by auto
  then have c: "c \<in> set (ab_calls (ps_db s))" "al_status c = ''accepted''" "al_id c = i"
    by (auto simp: list_accepted_tool_calls_def dest: in_set_takeD)
  have uniq: "b = c" if "b \<in> set (ab_calls (ps_db s))" "al_id b = i" for b
    using distinct_key_eq [OF plans_ok_parts(5) [OF ok]] that c by metis
  have "i \<in> set (ps_used_calls s)" using plans_ok_parts(1) [OF ok] c by (auto simp: ids_ok_def)
  then have rank: "rank_from (ps_db s) (set (ps_used_calls s)) i 3"
    unfolding rank_from_def
  proof (intro conjI ballI impI)
    fix b assume "b \<in> set (ab_calls (ps_db s))" "al_id b = i \<and> is_step b"
    then have "b = c" using uniq by blast
    then show "3 \<le> status_rank (al_status b)" using c(2) by simp
  qed
  have row: "\<forall>b\<in>set (ab_calls (ps_db s)). al_id b = i \<and> is_step b \<longrightarrow> row_authorized (set (ps_confirmed s)) b"
  proof (intro ballI impI)
    fix b assume b: "b \<in> set (ab_calls (ps_db s))" "al_id b = i \<and> is_step b"
    then have "b = c" using uniq by blast
    then show "row_authorized (set (ps_confirmed s)) b" using plans_ok_parts(4) [OF ok] b c(2) unfolding authority_ok_def by blast
  qed
  show ?thesis
  proof (cases "verify_accepted_operation now e c")
    case None
    then show ?thesis using s Some by (simp add: verify_accepted_def)
  next
    case (Some out)
    obtain r t where rt: "out = (r, t)" by (cases out)
    let ?d = "\<lparr>pd_turn = al_turn_id c, pd_autonomous = False, pd_send = None, pd_pc = VerifyReading i r t\<rparr>"
    have "system_ok (spawn ?d s)"
      by (rule spawn_ok [OF s]) (use verify_outcome_ended Some rt rank row in \<open>auto simp: driver_ok_def runs_now_def\<close>)
    then show ?thesis using \<open>List.find (\<lambda>c. al_id c = i) (list_accepted_tool_calls (ps_db s) 100) = Some c\<close> Some rt
      by (simp add: verify_accepted_def)
  qed
qed (simp add: verify_accepted_def)

lemma chat_ok: "system_ok s \<Longrightarrow> system_ok (chat op s)"
proof (cases "set (drawn_turns op) \<inter> set (ps_used_turns s) \<noteq> {} \<or> set (drawn_calls op) \<inter> set (ps_used_calls s) \<noteq> {}")
  case False
  assume s: "system_ok s"
  then have ok: "plans_ok (ps_db s) (executed (ps_log s)) (set (ps_confirmed s)) (set (ps_used_turns s)) (set (ps_used_calls s))"
    by (simp add: system_ok_def)
  show ?thesis
    by (rule system_db_ok [OF s, where db' = "apply_chat_op op (ps_db s)" and T = "set (drawn_turns op)" and I = "set (drawn_calls op)"])
      (use chat_keeps [OF ok, of op] False in \<open>auto simp: chat_def\<close>)
qed (simp add: chat_def)

lemma restart_ok: "system_ok s \<Longrightarrow> system_ok (restart_server now s)"
proof -
  assume s: "system_ok s"
  then have ok: "plans_ok (ps_db s) (executed (ps_log s)) (set (ps_confirmed s)) (set (ps_used_turns s)) (set (ps_used_calls s))"
    and lg: "log_ok (ps_db s) (ps_log s) (set (ps_confirmed s)) (set (ps_used_turns s)) (set (ps_used_calls s))" by (auto simp: system_ok_def)
  note k = harmless_keeps [OF ok recover_harmless [of "ps_db s" now]]
  show ?thesis using k log_ok_moves [OF lg, of "recover_interrupted now (ps_db s)"] by (auto simp: system_ok_def restart_server_def alone_def)
qed

lemma plan_step_ok: "system_ok s \<Longrightarrow> system_ok (plan_step e s)"
proof (cases e)
  case (Drive j x)
  assume s: "system_ok s"
  show ?thesis
  proof (cases "j < length (ps_drivers s)")
    case True
    show ?thesis
    proof (cases "runs_now (ps_drivers s ! j)")
      case None
      then show ?thesis using idle_step_ok [OF s True] Drive by simp
    next
      case (Some c)
      then obtain c' v p w m where "pd_pc (ps_drivers s ! j) = Executing c' v p w m" by (auto simp: runs_now_def split: plan_pc.splits)
      then show ?thesis using running_step_ok [OF s True] Drive by simp
    qed
  next
    case False
    then show ?thesis using s Drive by (simp add: drive_one_def)
  qed
qed (use confirmation_ok propose_ok verify_accepted_ok chat_ok restart_ok in auto)

lemma new_plan_system_ok: "system_ok new_plan_system"
  by (simp add: system_ok_def new_plan_system_def plans_ok_def ids_ok_def steps_ok_def progress_ok_def authority_ok_def empty_ai_db_def turn_ids_def
      alone_def log_ok_def)

lemma plan_run_ok: "system_ok s \<Longrightarrow> system_ok (plan_run es s)"
  by (induction es arbitrary: s) (auto intro: plan_step_ok)

lemma reachable_ok: "system_ok (plan_run es new_plan_system)"
  by (rule plan_run_ok [OF new_plan_system_ok])

section \<open>What runs, and with what right\<close>

lemma reachable_log:
  assumes "x \<in> set (ps_log (plan_run es new_plan_system))"
  obtains "is_step (xs_row x)" "\<exists>usedT usedC. tied (ps_db (plan_run es new_plan_system)) usedT usedC (xs_row x)"
    "before_ok (ps_db (plan_run es new_plan_system)) (xs_row x)" "validated_for (xs_row x) (xs_call x)"
    "judged (xs_autonomous x) (xs_call x) (xs_policy x) (xs_world x)"
    "xs_autonomous x \<or> al_turn_id (xs_row x) \<in> set (ps_confirmed (plan_run es new_plan_system))"
  using reachable_ok [of es] assms unfolding system_ok_def log_ok_def by blast

lemma autonomous_needs_policy:
  assumes "registry_policy tools settings v = Inr p" "pr_decision p = PolicyAutonomous" "tc_risk v = risk_confirm"
  shows "\<exists>policy tool. control_policy settings = Inr policy \<and> cp_mode policy = ai_control_low_risk_auto \<and> pm_autonomous (tc_metadata v)
     \<and> tt_node_id (tc_target v) \<in> set (cp_node_scope policy) \<and> tc_action_key v \<in> set (cp_allowed_actions policy)
     \<and> tools (tc_tool v) = Some tool \<and> rt_verify tool"
  using assms by (auto simp: registry_policy_def evaluate_policy_def Let_def risk_confirm_def risk_read_def result_iff split: if_splits option.splits)

text \<open>C2: However confirmations, automatic claims, verifications of accepted operations, restarts and other requests interleave, the steps of a plan run in their order, each at most once.\<close>

theorem plan_steps_run_in_order:
  "\<exists>k. map (\<lambda>x. al_step_index (xs_row x)) (filter (\<lambda>x. al_turn_id (xs_row x) = T) (ps_log (plan_run es new_plan_system))) = map int [0..<k]"
  using reachable_ok [of es] by (auto simp: system_ok_def log_ok_def)

text \<open>C3: When a step of a plan has run, every earlier step of the same plan is recorded as successful, whatever happened since.\<close>

theorem steps_follow_success:
  assumes "s = plan_run es new_plan_system" "x \<in> set (ps_log s)" "c \<in> set (ab_calls (ps_db s))" "al_turn_id c = al_turn_id (xs_row x)"
    "0 \<le> al_step_index c" "al_step_index c < al_step_index (xs_row x)"
  shows "al_status c = ''success''"
  by (rule reachable_log [OF assms(2) [unfolded assms(1)]])
    (use assms in \<open>auto simp: before_ok_def is_step_def\<close>)

text \<open>C1: No step of a plan runs unless the administrator confirmed its plan, or the control policy that was read for this very call allows it to run by itself: the mode is automatic, the node and the action are in its lists, and the tool can verify its result.\<close>

theorem no_step_without_authority:
  assumes "s = plan_run es new_plan_system" "x \<in> set (ps_log s)"
  shows "al_turn_id (xs_row x) \<in> set (ps_confirmed s)
    \<or> (\<exists>policy tool. control_policy (pw_settings (xs_world x)) = Inr policy \<and> cp_mode policy = ai_control_low_risk_auto
         \<and> pm_autonomous (tc_metadata (xs_call x)) \<and> tt_node_id (tc_target (xs_call x)) \<in> set (cp_node_scope policy)
         \<and> tc_action_key (xs_call x) \<in> set (cp_allowed_actions policy)
         \<and> pw_tools (xs_world x) (tc_tool (xs_call x)) = Some tool \<and> rt_verify tool)"
proof (rule reachable_log [OF assms(2) [unfolded assms(1)]])
  assume v: "validated_for (xs_row x) (xs_call x)" and j: "judged (xs_autonomous x) (xs_call x) (xs_policy x) (xs_world x)"
    and a: "xs_autonomous x \<or> al_turn_id (xs_row x) \<in> set (ps_confirmed (plan_run es new_plan_system))"
  show ?thesis
  proof (cases "xs_autonomous x")
    case True
    then show ?thesis using j v autonomous_needs_policy by (force simp: judged_def validated_for_def)
  next
    case False
    then show ?thesis using a assms(1) by simp
  qed
qed

text \<open>C4: The call that runs has the target that the row of its step shows to the administrator, and the row still belongs to the same turn and place of the plan.\<close>

theorem executed_call_matches_row:
  assumes "s = plan_run es new_plan_system" "x \<in> set (ps_log s)" "c \<in> set (ab_calls (ps_db s))" "al_id c = al_id (xs_row x)"
  shows "tt_type (tc_target (xs_call x)) = al_target_type c \<and> tt_id (tc_target (xs_call x)) = al_target_id c
    \<and> tt_node_id (tc_target (xs_call x)) = al_node_id c \<and> tc_risk (xs_call x) = risk_confirm
    \<and> al_turn_id c = al_turn_id (xs_row x) \<and> al_step_index c = al_step_index (xs_row x) \<and> al_tool_name c = al_tool_name (xs_row x)"
proof (rule reachable_log [OF assms(2) [unfolded assms(1)]])
  assume v: "validated_for (xs_row x) (xs_call x)" and t: "\<exists>usedT usedC. tied (ps_db (plan_run es new_plan_system)) usedT usedC (xs_row x)"
  then have "same_step (xs_row x) c" using tied_row assms by blast
  then show ?thesis using v by (auto simp: same_step_def validated_for_def)
qed

section \<open>A run\<close>

definition sample_policy_value :: ai_control_policy where
  "sample_policy_value = \<lparr>cp_mode = ai_control_low_risk_auto, cp_allowed_actions = [''docker.container.start''], cp_node_scope = [''n''],
     cp_revision = 1, cp_updated_at = 0\<rparr>"

definition sample_metadata :: policy_metadata where
  "sample_metadata = autonomous_policy_metadata ''docker'' ''start'' ''node'' ''docker_state''"

definition sample_validated :: tool_call where
  "sample_validated = \<lparr>tc_tool = ''docker_container_action'', tc_risk = risk_confirm,
     tc_target = \<lparr>tt_type = ''container'', tt_id = ''web'', tt_name = ''web'', tt_node_id = ''n''\<rparr>,
     tc_metadata = sample_metadata, tc_action_key = ''docker.container.start''\<rparr>"

definition sample_world :: plan_world where
  "sample_world = \<lparr>pw_validate = (\<lambda>tool arguments. Inr (sample_validated, arguments)), pw_unseal = (\<lambda>i arguments. Inl PlanError),
     pw_tools = (\<lambda>tool. Some \<lparr>rt_verify = True, rt_metadata = sample_metadata\<rparr>),
     pw_settings = Some (empty_settings_db\<lparr>sd_policy := Some sample_policy_value\<rparr>)\<rparr>"

definition sample_input :: plan_input where
  "sample_input = \<lparr>pi_now = 0, pi_message = ''m1'', pi_world = sample_world, pi_cancelled = False,
     pi_result = \<lparr>er_status = ''success'', er_summary = ''ok'', er_operation = [], er_error = None, er_cancelled = False,
        er_verification = VerificationSuccess, er_verification_summary = ''ok''\<rparr>\<rparr>"

definition sample_plan_call :: "string \<Rightarrow> ai_tool_call" where
  "sample_plan_call i = \<lparr>al_id = i, al_turn_id = [], al_step_index = 0, al_provider_call_id = [], al_tool_name = ''docker_container_action'',
     al_risk = ''confirm'', al_status = ''pending'', al_arguments_json = ''{}'', al_target_type = ''container'', al_target_id = ''web'',
     al_target_name = ''web'', al_node_id = ''n'', al_operation_id = [], al_result_summary = [], al_policy_decision = ''autonomous_allowed'',
     al_policy_reason = ''low_risk_policy'', al_policy_revision = 1, al_verification_status = [], al_impact_json = [],
     al_created_at = 0, al_updated_at = 0\<rparr>"

definition sample_ai_model :: ai_model where
  "sample_ai_model = \<lparr>am_id = ''m'', am_provider_id = ''p'', am_model_id = ''gpt'', am_display_name = [], am_enabled = True, am_chat_capable = True,
     am_tools_capable = True, am_probe_status = ''success'', am_probe_latency = 0, am_probed_at = None, am_probe_error = [], am_default = True,
     am_fallback = False, am_created_at = 0, am_updated_at = 0\<rparr>"

definition sample_ai_provider :: ai_provider where
  "sample_ai_provider = \<lparr>ap_id = ''p'', ap_name = ''p'', ap_protocol = [], ap_base_url = [], ap_enabled = True, ap_discovery_status = [],
     ap_discovery_latency = 0, ap_discovered_at = None, ap_discovery_error = [], ap_model = ''gpt'', ap_api_key_ciphertext = [], ap_default = True,
     ap_chat_capable = True, ap_tools_capable = True, ap_probe_status = ''success'', ap_probed_at = None, ap_probe_error = [],
     ap_created_at = 0, ap_updated_at = 0\<rparr>"

definition sample_turn :: ai_turn where
  "sample_turn = \<lparr>at_id = ''t'', at_conversation_id = ''c'', at_model_id = Some ''m'', at_provider_id = ''p'', at_provider_name = ''p'', at_protocol = [],
     at_model = ''gpt'', at_requested_provider_id = ''p'', at_requested_provider_name = ''p'', at_requested_model_id = Some ''m'',
     at_requested_model = ''gpt'', at_fallback_used = False, at_status = ''running'', at_error_code = [], at_created_at = 0, at_updated_at = 0\<rparr>"

text \<open>A plan of two steps that the policy allows is proposed; before the chat request claims it, the administrator confirms it.\<close>

definition sample_json :: impact_json where
  "sample_json = \<lparr>ij_decode = (\<lambda>s. None), ij_encode = (\<lambda>i. [])\<rparr>"

definition no_impact :: tool_impact where
  "no_impact = unknown_ai_tool_impact\<lparr>ti_version := 0\<rparr>"

definition sample_setup :: "plan_event list" where
  "sample_setup =
    [Chat (ReplaceModels [sample_ai_provider] [sample_ai_model]), Chat (AddConversation 0 ''c'' ''c'' None),
     Chat (StartChat 0 ''t'' ''m0'' ''c'' sample_ai_provider sample_ai_model ''go''),
     ProposePlan sample_json 0 sample_turn [(sample_plan_call ''a'', no_impact), (sample_plan_call ''b'', no_impact)] True False,
     RequestConfirmation ''t'' sample_world]"

definition chat_steps :: "nat \<Rightarrow> plan_event list" where "chat_steps k = replicate k (Drive 0 sample_input)"
definition confirm_steps :: "nat \<Rightarrow> plan_event list" where "confirm_steps k = replicate k (Drive 1 sample_input)"

lemma plan_run_append: "plan_run (es @ fs) s = plan_run fs (plan_run es s)"
  by (induction es arbitrary: s) auto

lemma sample_settle: "settle_result sample_validated (pi_result sample_input) = \<lparr>po_status = ''success'', po_summary = ''ok'', po_operation = [], po_verification = ''success''\<rparr>"
proof -
  have "trim_space ''ok'' = ''ok''" "to_valid_utf8 [] ''ok'' = ''ok''" by (simp_all add: eval_text to_valid_utf8_id valid_utf8_ascii)
  then show ?thesis by (simp add: settle_result_def sample_validated_def sample_metadata_def autonomous_policy_metadata_def sample_input_def Let_def
      plan_step_statuses_def verified_status_def bounded_string_def)
qed

definition sample_row :: "string \<Rightarrow> int \<Rightarrow> string \<Rightarrow> string \<Rightarrow> string \<Rightarrow> string \<Rightarrow> string \<Rightarrow> ai_tool_call" where
  "sample_row i k status decision reason summary verification = (sample_plan_call i)\<lparr>al_turn_id := ''t'', al_step_index := k, al_status := status,
     al_policy_decision := decision, al_policy_reason := reason, al_result_summary := summary, al_verification_status := verification\<rparr>"

abbreviation proposed_row :: "string \<Rightarrow> int \<Rightarrow> string \<Rightarrow> ai_tool_call" where
  "proposed_row i k status \<equiv> sample_row i k status ''autonomous_allowed'' ''low_risk_policy'' [] []"

abbreviation confirmed_row :: "string \<Rightarrow> int \<Rightarrow> string \<Rightarrow> string \<Rightarrow> string \<Rightarrow> ai_tool_call" where
  "confirmed_row i k status summary verification \<equiv> sample_row i k status ''manual_confirmation'' ''confirmed_by_user'' summary verification"

definition sample_plan_db :: "string \<Rightarrow> string \<Rightarrow> ai_tool_call list \<Rightarrow> ai_db" where
  "sample_plan_db status code rows = \<lparr>ab_providers = [sample_ai_provider], ab_models = [sample_ai_model],
     ab_conversations = [\<lparr>av_id = ''c'', av_title = ''c'', av_model_id = None, av_created_at = 0, av_updated_at = 0\<rparr>],
     ab_turns = [sample_turn\<lparr>at_status := status, at_error_code := code\<rparr>],
     ab_messages = [\<lparr>ag_id = ''m0'', ag_conversation_id = ''c'', ag_turn_id = ''t'', ag_role = ''user'', ag_content = ''go'',
        ag_provider_name = ''p'', ag_model = ''gpt'', ag_created_at = 0\<rparr>],
     ab_calls = rows\<rparr>"

definition sample_plan_state :: "ai_db \<Rightarrow> plan_pc \<Rightarrow> plan_pc \<Rightarrow> executed_step list \<Rightarrow> plan_system" where
  "sample_plan_state db pc0 pc1 hist = \<lparr>ps_db = db,
     ps_drivers = [\<lparr>pd_turn = ''t'', pd_autonomous = True, pd_send = Some sample_turn, pd_pc = pc0\<rparr>,
                   \<lparr>pd_turn = ''t'', pd_autonomous = False, pd_send = None, pd_pc = pc1\<rparr>],
     ps_log = hist, ps_confirmed = [''t''], ps_used_turns = [''t''], ps_used_calls = [''a'', ''b'']\<rparr>"

lemma sample_control: "control_policy (pw_settings sample_world) = Inr sample_policy_value"
proof -
  have "trim_space ''n'' = ''n''" by (simp add: eval_text)
  then have "validate_ai_control_policy sample_policy_value = Inr ()"
    by (simp add: validated_policy sample_policy_value_def ai_control_actions_def)
  then show ?thesis by (simp add: sample_world_def control_policy_def get_ai_control_policy_def empty_settings_db_def)
qed

lemma sample_active: "control_active sample_world" "cp_mode sample_policy_value \<noteq> ai_control_paused"
  unfolding control_active_def sample_control by (simp_all add: sample_policy_value_def ai_control_names)

lemma sample_revalidate: "revalidate_plan_step sample_world (sample_row i k status decision reason summary verification) = Inr sample_validated"
  by (simp add: revalidate_plan_step_def tool_arguments_def sample_row_def sample_plan_call_def sample_world_def sample_validated_def)

definition sample_decision :: policy_result where
  "sample_decision = \<lparr>pr_decision = PolicyAutonomous, pr_reason = ''low_risk_policy'', pr_revision = 1, pr_action = ''docker.container.start''\<rparr>"

lemma sample_judged: "registry_policy (pw_tools sample_world) (pw_settings sample_world) sample_validated = Inr sample_decision"
  unfolding registry_policy_def sample_control
  by (simp add: sample_validated_def risk_confirm_def risk_read_def evaluate_policy_def sample_policy_value_def sample_metadata_def
      autonomous_policy_metadata_def classified_policy_metadata_def ai_control_names sample_world_def sample_decision_def)

lemmas sample_defs = sample_setup_def sample_json_def no_impact_def sample_turn_def sample_ai_provider_def sample_ai_model_def new_plan_system_def
  empty_ai_db_def unknown_ai_tool_impact_def

lemmas op_defs = chat_def create_conversation_with_model_def find_conversation_def find_model_def find_turn_def pointer_value_def start_model_turn_def
  run_tx_def insert_message_tx_def touch_conversation_def update_conversation_def turn_active_def propose_plan_def create_tool_plan_def
  max_ai_tool_plan_steps_def insert_ai_tool_call_tx_def normalized_ai_tool_impact_json_def plan_call_def await_confirmation_tx_def update_turns_def
  spawn_def request_confirmation_def

lemma sample_prepared: "plan_run sample_setup new_plan_system
   = sample_plan_state (sample_plan_db ''awaiting_confirmation'' [] [proposed_row ''a'' 0 ''pending'', proposed_row ''b'' 1 ''pending'']) AutoListing ConfirmListing []"
  by (simp add: sample_defs op_defs sample_plan_call_def Let_def sample_active sample_plan_state_def sample_plan_db_def sample_row_def)

lemma sample_list: "list_plan_steps (sample_plan_db status code [sample_row ''a'' 0 s1 d1 r1 m1 v1, sample_row ''b'' 1 s2 d2 r2 m2 v2]) ''t''
   = [sample_row ''a'' 0 s1 d1 r1 m1 v1, sample_row ''b'' 1 s2 d2 r2 m2 v2]"
  by (simp add: list_plan_steps_def sample_plan_db_def sample_row_def)

lemma sample_field [simp]: "al_id (sample_row i k s d r m v) = i" "al_status (sample_row i k s d r m v) = s" "al_step_index (sample_row i k s d r m v) = k"
   "al_turn_id (sample_row i k s d r m v) = ''t''" "al_policy_revision (sample_row i k s d r m v) = 1"
  by (simp_all add: sample_row_def sample_plan_call_def)

lemma sample_input_simps [simp]: "pi_now sample_input = 0" "pi_message sample_input = ''m1''" "pi_world sample_input = sample_world" "\<not> pi_cancelled sample_input"
  by (simp_all add: sample_input_def)

lemma sample_chat: "plan_run (chat_steps 5) (sample_plan_state (sample_plan_db ''awaiting_confirmation'' []
     [proposed_row ''a'' 0 ''pending'', proposed_row ''b'' 1 ''pending'']) AutoListing pc1 [])
   = sample_plan_state (sample_plan_db ''awaiting_confirmation'' [] [proposed_row ''a'' 0 ''pending'', proposed_row ''b'' 1 ''pending'']) (AutoChecking []) pc1 []"
  by (simp add: chat_steps_def numeral_eq_Suc drive_one_def sample_plan_state_def drive_def at_pc_def try_claim_autonomous_plan_def sample_list sample_revalidate
      sample_judged sample_decision_def)

abbreviation (input) chat_failed :: "ai_tool_call list \<Rightarrow> ai_db" where "chat_failed \<equiv> sample_plan_db ''failed'' ''internal''"

definition sample_executed :: "string \<Rightarrow> int \<Rightarrow> executed_step" where
  "sample_executed i k = \<lparr>xs_row = proposed_row i k ''queued'', xs_call = sample_validated,
     xs_policy = sample_decision\<lparr>pr_decision := PolicyManual, pr_reason := ''confirmed_by_user''\<rparr>, xs_world = sample_world, xs_autonomous = False\<rparr>"

lemmas drive_defs = numeral_eq_Suc drive_one_def sample_plan_state_def drive_def at_pc_def sample_list sample_revalidate sample_judged

lemmas store_defs = claim_tool_plan_def run_tx_def get_turn_def find_turn_def validate_pending_plan_def update_turns_def update_calls_def change_step_def
  start_tool_plan_step_def with_policy_def with_result_def transition_tool_plan_step_with_verification_def fail_turn_def finish_turn_tx_def turn_active_def
  touch_conversation_def update_conversation_def

lemma sample_row_updates:
  "(sample_row i k s d r m v)\<lparr>al_status := s'\<rparr> = sample_row i k s' d r m v" "(sample_row i k s d r m v)\<lparr>al_updated_at := 0\<rparr> = sample_row i k s d r m v"
  "(sample_row i k s d r m v)\<lparr>al_policy_decision := d'\<rparr> = sample_row i k s d' r m v" "(sample_row i k s d r m v)\<lparr>al_policy_reason := r'\<rparr> = sample_row i k s d r' m v"
  "(sample_row i k s d r m v)\<lparr>al_policy_revision := 1\<rparr> = sample_row i k s d r m v" "(sample_row i k s d r m v)\<lparr>al_result_summary := m'\<rparr> = sample_row i k s d r m' v"
  "(sample_row i k s d r m v)\<lparr>al_operation_id := []\<rparr> = sample_row i k s d r m v" "(sample_row i k s d r m v)\<lparr>al_verification_status := v'\<rparr> = sample_row i k s d r m v'"
  "al_operation_id (sample_row i k s d r m v) = []" "al_verification_status (sample_row i k s d r m v) = v"
  by (simp_all add: sample_row_def sample_plan_call_def)

lemma sample_db_updates:
  "ab_calls (sample_plan_db status code rows) = rows" "(sample_plan_db status code rows)\<lparr>ab_calls := rows'\<rparr> = sample_plan_db status code rows'"
  "ab_turns (sample_plan_db status code rows) = [sample_turn\<lparr>at_status := status, at_error_code := code\<rparr>]"
  "(sample_plan_db status code rows)\<lparr>ab_turns := [sample_turn\<lparr>at_status := status', at_error_code := code'\<rparr>]\<rparr> = sample_plan_db status' code' rows"
  by (simp_all add: sample_plan_db_def)

lemma plan_claim_sample:
  "claim_tool_plan 0 ''t'' (sample_plan_db ''awaiting_confirmation'' [] [proposed_row ''a'' 0 ''pending'', proposed_row ''b'' 1 ''pending''])
   = (Inr ([proposed_row ''a'' 0 ''queued'', proposed_row ''b'' 1 ''queued''], sample_turn\<lparr>at_status := ''running''\<rparr>),
      sample_plan_db ''running'' [] [proposed_row ''a'' 0 ''queued'', proposed_row ''b'' 1 ''queued''])"
  by (simp add: store_defs sample_list sample_db_updates sample_row_updates max_ai_tool_plan_steps_def pending_step_of_def)
    (simp add: sample_turn_def sample_plan_db_def)

lemma sample_claim_late: "claim_tool_plan 0 ''t'' (sample_plan_db ''running'' [] rows) = (Inl AiConflict, sample_plan_db ''running'' [] rows)"
  by (simp add: store_defs sample_db_updates) (simp add: sample_turn_def)

lemma sample_fail: "snd (fail_turn 0 sample_turn ''internal'' (sample_plan_db ''running'' [] rows)) = sample_plan_db ''failed'' ''internal'' rows"
  by (simp add: store_defs sample_plan_db_def sample_turn_def)

lemma plan_start_sample:
  "start_tool_plan_step 0 ''a'' d r 1 (sample_plan_db st code [sample_row ''a'' 0 ''queued'' d1 r1 m1 v1, sample_row ''b'' 1 s2 d2 r2 m2 v2])
   = (Inr (), sample_plan_db st code [sample_row ''a'' 0 ''running'' d r m1 v1, sample_row ''b'' 1 s2 d2 r2 m2 v2])"
  "start_tool_plan_step 0 ''b'' d r 1 (sample_plan_db st code [sample_row ''a'' 0 s2 d2 r2 m2 v2, sample_row ''b'' 1 ''queued'' d1 r1 m1 v1])
   = (Inr (), sample_plan_db st code [sample_row ''a'' 0 s2 d2 r2 m2 v2, sample_row ''b'' 1 ''running'' d r m1 v1])"
  by (simp_all add: store_defs sample_db_updates sample_row_updates)

lemma sample_record:
  "transition_tool_plan_step_with_verification 0 ''a'' ''running'' s' m' [] ''success''
      (sample_plan_db st code [sample_row ''a'' 0 ''running'' d r m v, sample_row ''b'' 1 s2 d2 r2 m2 v2])
   = (Inr (), sample_plan_db st code [sample_row ''a'' 0 s' d r m' ''success'', sample_row ''b'' 1 s2 d2 r2 m2 v2])"
  by (simp add: store_defs sample_db_updates sample_row_updates keep_unless_given_def)

lemma sample_reason: "safe_reason \<lparr>pr_decision = PolicyManual, pr_reason = ''confirmed_by_user'', pr_revision = n, pr_action = action\<rparr> = ''confirmed_by_user''"
  by (simp add: safe_reason_def eval_text)

lemma sample_complete: "complete_tool_plan_with_verification 0 ''m1'' ''t'' i s status summary operationID verification content (chat_failed rows)
   = (Inl AiConflict, chat_failed rows)"
  by (simp add: complete_tool_plan_with_verification_def run_tx_def get_turn_def find_turn_def sample_db_updates Let_def) (simp add: sample_turn_def)

lemma sample_confirm: "plan_run (confirm_steps 4) (sample_plan_state (sample_plan_db ''awaiting_confirmation'' []
     [proposed_row ''a'' 0 ''pending'', proposed_row ''b'' 1 ''pending'']) pc0 ConfirmListing [])
   = sample_plan_state (sample_plan_db ''running'' [] [proposed_row ''a'' 0 ''queued'', proposed_row ''b'' 1 ''queued'']) pc0
       (Rechecking [proposed_row ''a'' 0 ''queued'', proposed_row ''b'' 1 ''queued'']) []"
  by (simp add: confirm_steps_def drive_defs confirm_plan_def plan_claim_sample)

lemma sample_chat_fails: "plan_run (chat_steps 2) (sample_plan_state (sample_plan_db ''running'' [] [proposed_row ''a'' 0 ''queued'', proposed_row ''b'' 1 ''queued''])
     (AutoChecking []) pc1 hist)
   = sample_plan_state (chat_failed [proposed_row ''a'' 0 ''queued'', proposed_row ''b'' 1 ''queued'']) PlanDone pc1 hist"
  by (simp add: chat_steps_def drive_defs try_claim_autonomous_plan_def send_tail_def give_up_def sample_claim_late sample_fail)

lemma sample_first: "plan_run (confirm_steps 10) (sample_plan_state (chat_failed [proposed_row ''a'' 0 ''queued'', proposed_row ''b'' 1 ''queued'']) pc0
     (Rechecking [proposed_row ''a'' 0 ''queued'', proposed_row ''b'' 1 ''queued'']) [])
   = sample_plan_state (chat_failed [confirmed_row ''a'' 0 ''success'' ''ok'' ''success'', proposed_row ''b'' 1 ''queued'']) pc0 Advancing [sample_executed ''a'' 0]"
  by (simp add: confirm_steps_def drive_defs confirm_plan_def advance_plan_def sample_control sample_active sample_settle sample_decision_def plan_start_sample sample_record execution_policy_def sample_executed_def sample_reason)

lemma sample_second: "plan_run (confirm_steps 8) (sample_plan_state (chat_failed [confirmed_row ''a'' 0 ''success'' ''ok'' ''success'', proposed_row ''b'' 1 ''queued'']) pc0
     Advancing [sample_executed ''a'' 0])
   = sample_plan_state (chat_failed [confirmed_row ''a'' 0 ''success'' ''ok'' ''success'', confirmed_row ''b'' 1 ''running'' [] []]) pc0 PlanDone
       [sample_executed ''a'' 0, sample_executed ''b'' 1]"
  by (simp add: confirm_steps_def drive_defs advance_plan_def sample_control sample_active sample_settle sample_decision_def plan_start_sample
      execution_policy_def sample_executed_def sample_reason complete_plan_step_verified_def sample_complete give_up_def)

definition plan_sample_run :: "plan_event list" where
  "plan_sample_run = sample_setup @ chat_steps 5 @ confirm_steps 4 @ chat_steps 2 @ confirm_steps 10 @ confirm_steps 8"

lemma plan_sample_run: "plan_run plan_sample_run new_plan_system
   = sample_plan_state (chat_failed [confirmed_row ''a'' 0 ''success'' ''ok'' ''success'', confirmed_row ''b'' 1 ''running'' [] []]) PlanDone PlanDone
       [sample_executed ''a'' 0, sample_executed ''b'' 1]"
  unfolding plan_sample_run_def plan_run_append sample_prepared sample_chat sample_confirm sample_chat_fails sample_first sample_second ..

lemma sample_run_state: "ps_log (plan_run plan_sample_run new_plan_system) = [sample_executed ''a'' 0, sample_executed ''b'' 1]"
  "ps_confirmed (plan_run plan_sample_run new_plan_system) = [''t'']"
  "ab_calls (ps_db (plan_run plan_sample_run new_plan_system))
     = [confirmed_row ''a'' 0 ''success'' ''ok'' ''success'', confirmed_row ''b'' 1 ''running'' [] []]"
  by (simp_all add: plan_sample_run sample_plan_state_def sample_db_updates)

lemma steps_follow_success_witness:
  "sample_executed ''b'' 1 \<in> set (ps_log (plan_run plan_sample_run new_plan_system))
   \<and> al_status (confirmed_row ''a'' 0 ''success'' ''ok'' ''success'') = ''success''"
proof
  show x: "sample_executed ''b'' 1 \<in> set (ps_log (plan_run plan_sample_run new_plan_system))" by (simp add: sample_run_state)
  show "al_status (confirmed_row ''a'' 0 ''success'' ''ok'' ''success'') = ''success''"
    by (rule steps_follow_success [OF refl x]) (simp_all add: sample_run_state sample_executed_def)
qed

lemma no_step_without_authority_witness:
  "al_turn_id (xs_row (sample_executed ''a'' 0)) \<in> set (ps_confirmed (plan_run plan_sample_run new_plan_system))
   \<or> (\<exists>policy tool. control_policy (pw_settings (xs_world (sample_executed ''a'' 0))) = Inr policy \<and> cp_mode policy = ai_control_low_risk_auto
        \<and> pm_autonomous (tc_metadata (xs_call (sample_executed ''a'' 0))) \<and> tt_node_id (tc_target (xs_call (sample_executed ''a'' 0))) \<in> set (cp_node_scope policy)
        \<and> tc_action_key (xs_call (sample_executed ''a'' 0)) \<in> set (cp_allowed_actions policy)
        \<and> pw_tools (xs_world (sample_executed ''a'' 0)) (tc_tool (xs_call (sample_executed ''a'' 0))) = Some tool \<and> rt_verify tool)"
proof -
  have "sample_executed ''a'' 0 \<in> set (ps_log (plan_run plan_sample_run new_plan_system))" by (simp add: sample_run_state)
  from no_step_without_authority [OF refl this] show ?thesis .
qed

lemma executed_call_matches_row_witness:
  "tt_id (tc_target (xs_call (sample_executed ''a'' 0))) = al_target_id (confirmed_row ''a'' 0 ''success'' ''ok'' ''success'')"
proof -
  have "sample_executed ''a'' 0 \<in> set (ps_log (plan_run plan_sample_run new_plan_system))"
    "confirmed_row ''a'' 0 ''success'' ''ok'' ''success'' \<in> set (ab_calls (ps_db (plan_run plan_sample_run new_plan_system)))"
    "al_id (confirmed_row ''a'' 0 ''success'' ''ok'' ''success'') = al_id (xs_row (sample_executed ''a'' 0))"
    by (simp_all add: sample_run_state sample_executed_def)
  from executed_call_matches_row [OF refl this] show ?thesis by blast
qed

text \<open>The administrator can confirm a plan that the policy allows between its proposal and its automatic claim.  Then the chat request, whose claim comes too late, marks the turn of the running plan as failed; the goroutine of the confirmation still runs every step, cannot complete the last one, and leaves its row running with no goroutine left to end it.\<close>

theorem confirmed_plan_can_stick:
  "\<exists>es T t c. at_id t = T \<and> t \<in> set (ab_turns (ps_db (plan_run es new_plan_system))) \<and> at_status t = ''failed''
     \<and> c \<in> set (ab_calls (ps_db (plan_run es new_plan_system))) \<and> al_turn_id c = T \<and> al_status c = ''running''
     \<and> T \<in> set (ps_confirmed (plan_run es new_plan_system))
     \<and> map pd_pc (ps_drivers (plan_run es new_plan_system)) = [PlanDone, PlanDone]
     \<and> map (\<lambda>x. al_id (xs_row x)) (ps_log (plan_run es new_plan_system)) = [''a'', ''b'']"
proof -
  let ?s = "plan_run plan_sample_run new_plan_system" and ?t = "sample_turn\<lparr>at_status := ''failed'', at_error_code := ''internal''\<rparr>"
    and ?c = "confirmed_row ''b'' 1 ''running'' [] []"
  have "at_id ?t = ''t''" "at_status ?t = ''failed''" by (simp_all add: sample_turn_def)
  moreover have "?t \<in> set (ab_turns (ps_db ?s))" by (simp add: plan_sample_run sample_plan_state_def sample_db_updates)
  moreover have "?c \<in> set (ab_calls (ps_db ?s))" "al_turn_id ?c = ''t''" "al_status ?c = ''running''" "''t'' \<in> set (ps_confirmed ?s)"
    by (simp_all add: sample_run_state)
  moreover have "map pd_pc (ps_drivers ?s) = [PlanDone, PlanDone]" by (simp add: plan_sample_run sample_plan_state_def)
  moreover have "map (\<lambda>x. al_id (xs_row x)) (ps_log ?s) = [''a'', ''b'']" by (simp add: sample_run_state) (simp add: sample_executed_def)
  ultimately show ?thesis
    by (intro exI [of _ plan_sample_run] exI [of _ "''t''"] exI [of _ ?t] exI [of _ ?c] conjI)
qed

end
