(* ===== verification/InstallAuth.thy ===== *)
theory InstallAuth
  imports Prelude "HOL-Library.Finite_Map"
begin

text \<open>
  \<open>InstallAuthStore\<close> of \<^verbatim>\<open>internal/server/agenthub/hub.go\<close>: the install tokens that an administrator
  hands out, and the node tokens they are exchanged for.  Every operation runs under the mutex of the
  store.  Random tokens, the saving of a token and the time are arguments.
\<close>

section \<open>Maps\<close>

text \<open>A loop that deletes entries of a map by their values.\<close>

definition fmkeep :: "('v \<Rightarrow> bool) \<Rightarrow> ('k, 'v) fmap \<Rightarrow> ('k, 'v) fmap" where
  "fmkeep P m = fmfilter (\<lambda>k. case fmlookup m k of None \<Rightarrow> False | Some v \<Rightarrow> P v) m"

lemma fmlookup_fmkeep [simp]: "fmlookup (fmkeep P m) k = (case fmlookup m k of None \<Rightarrow> None | Some v \<Rightarrow> if P v then Some v else None)"
  by (auto simp: fmkeep_def split: option.splits)

lemma fmdom_fmkeep: "fmdom (fmkeep P m) |\<subseteq>| fmdom m"
  by (auto simp: fmkeep_def)

section \<open>The store\<close>

record install_token =
  it_node_id :: string
  it_node_token :: string
  it_created_at :: time
  it_expires_at :: time

record install_auth =
  ia_node_tokens :: "(string, string) fmap"
  ia_install_tokens :: "(string, install_token) fmap"

definition new_install_auth :: install_auth where
  "new_install_auth = \<lparr>ia_node_tokens = fmempty, ia_install_tokens = fmempty\<rparr>"

definition install_token_ttl :: duration where "install_token_ttl = 30 * (60 * nanos_per_second)"
definition max_install_tokens :: nat where "max_install_tokens = 1024"

definition token_expired :: "time \<Rightarrow> install_token \<Rightarrow> bool" where
  "token_expired now e \<longleftrightarrow> it_expires_at e < now"

definition prune_expired_install_tokens :: "time \<Rightarrow> install_auth \<Rightarrow> install_auth" where
  "prune_expired_install_tokens now s = s\<lparr>ia_install_tokens := fmkeep (\<lambda>e. \<not> token_expired now e) (ia_install_tokens s)\<rparr>"

definition create_install_token :: "time \<Rightarrow> string \<Rightarrow> install_auth \<Rightarrow> bool \<times> install_auth" where
  "create_install_token now token s0 =
     (let s = prune_expired_install_tokens now s0 in
      if fcard (fmdom (ia_install_tokens s)) \<ge> max_install_tokens then (False, s)
      else (True, s\<lparr>ia_install_tokens := fmupd token \<lparr>it_node_id = [], it_node_token = [], it_created_at = now,
                      it_expires_at = now + install_token_ttl\<rparr> (ia_install_tokens s)\<rparr>))"

definition drop_install_token :: "string \<Rightarrow> install_auth \<Rightarrow> install_auth" where
  "drop_install_token token s = s\<lparr>ia_install_tokens := fmdrop token (ia_install_tokens s)\<rparr>"

text \<open>\<open>save\<close> is the callback that stores a new token, \<open>random\<close> the token drawn if it comes to that; both can fail.\<close>

definition exchange_install_token ::
  "time \<Rightarrow> string option \<Rightarrow> (string \<Rightarrow> 'd \<Rightarrow> bool \<times> 'd) option \<Rightarrow> string \<Rightarrow> string \<Rightarrow> install_auth \<times> 'd \<Rightarrow>
     string option \<times> (install_auth \<times> 'd)" where
  "exchange_install_token now random saveToken token nodeID sd =
     (case sd of (s, d) \<Rightarrow>
      (case fmlookup (ia_install_tokens s) token of
         None \<Rightarrow> (None, (s, d))
       | Some entry \<Rightarrow>
          if token_expired now entry then (None, (drop_install_token token s, d))
          else if it_node_id entry \<noteq> [] then
            (if it_node_id entry \<noteq> nodeID \<or> it_node_token entry = [] then (None, (s, d))
             else (Some (it_node_token entry), (s, d)))
          else (case random of
             None \<Rightarrow> (None, (s, d))
           | Some nodeToken \<Rightarrow>
              (let (saved, d') = (case saveToken of None \<Rightarrow> (True, d) | Some save \<Rightarrow> save nodeToken d) in
               if \<not> saved then (None, (s, d'))
               else (Some nodeToken, (s\<lparr>
                  ia_install_tokens := fmupd token (entry\<lparr>it_node_id := nodeID, it_node_token := nodeToken\<rparr>) (ia_install_tokens s),
                  ia_node_tokens := fmupd nodeID nodeToken (ia_node_tokens s)\<rparr>, d'))))))"

definition auth_node_token :: "install_auth \<Rightarrow> string \<Rightarrow> string option" where
  "auth_node_token s nodeID = fmlookup (ia_node_tokens s) nodeID"

definition revoke_node_token :: "string \<Rightarrow> install_auth \<Rightarrow> install_auth" where
  "revoke_node_token nodeID s = s\<lparr>
     ia_node_tokens := fmdrop nodeID (ia_node_tokens s),
     ia_install_tokens := fmkeep (\<lambda>e. it_node_id e \<noteq> nodeID) (ia_install_tokens s)\<rparr>"

definition complete_bootstrap :: "string \<Rightarrow> string \<Rightarrow> install_auth \<Rightarrow> install_auth" where
  "complete_bootstrap nodeID nodeToken s =
     (if nodeID = [] \<or> nodeToken = [] then s
      else s\<lparr>
        ia_node_tokens := (if fmlookup (ia_node_tokens s) nodeID = Some nodeToken then fmdrop nodeID (ia_node_tokens s)
                           else ia_node_tokens s),
        ia_install_tokens := fmkeep (\<lambda>e. \<not> (it_node_id e = nodeID \<and> it_node_token e = nodeToken)) (ia_install_tokens s)\<rparr>)"

text \<open>An unknown or expired token has the zero time.\<close>

definition install_token_created_at :: "time \<Rightarrow> string \<Rightarrow> install_auth \<Rightarrow> time option" where
  "install_token_created_at now token s =
     (case fmlookup (ia_install_tokens s) token of
        None \<Rightarrow> None
      | Some e \<Rightarrow> if token_expired now e then None else Some (it_created_at e))"

definition may_authenticate_install_token :: "time \<Rightarrow> string \<Rightarrow> install_auth \<Rightarrow> bool \<times> install_auth" where
  "may_authenticate_install_token now token s =
     (case fmlookup (ia_install_tokens s) token of
        None \<Rightarrow> (False, s)
      | Some e \<Rightarrow> if token_expired now e then (False, drop_install_token token s) else (True, s))"

definition may_authenticate_node_token :: "string \<Rightarrow> install_auth \<Rightarrow> bool" where
  "may_authenticate_node_token token s \<longleftrightarrow> token |\<in>| fmran (ia_node_tokens s)"

section \<open>What an exchange does\<close>

lemma exchange_bound:
  assumes "fmlookup (ia_install_tokens s) token = Some e" "\<not> token_expired now e" "it_node_id e \<noteq> []"
  shows "exchange_install_token now random saveToken token nodeID (s, d)
    = (if it_node_id e = nodeID \<and> it_node_token e \<noteq> [] then Some (it_node_token e) else None, (s, d))"
  using assms by (simp add: exchange_install_token_def)

lemma exchange_Some:
  assumes "exchange_install_token now random saveToken token nodeID (s, d) = (Some t, (s', d'))" "nodeID \<noteq> []"
  shows "\<exists>e. fmlookup (ia_install_tokens s) token = Some e \<and> \<not> token_expired now e
    \<and> ((it_node_id e = nodeID \<and> it_node_token e = t \<and> s' = s \<and> d' = d)
       \<or> (it_node_id e = [] \<and> random = Some t
          \<and> fmlookup (ia_install_tokens s') = (fmlookup (ia_install_tokens s))(token \<mapsto> e\<lparr>it_node_id := nodeID, it_node_token := t\<rparr>)
          \<and> fmlookup (ia_node_tokens s') = (fmlookup (ia_node_tokens s))(nodeID \<mapsto> t)))"
  using assms by (auto simp: exchange_install_token_def fun_eq_iff split: option.splits prod.splits if_splits)

lemma exchange_None:
  assumes "exchange_install_token now random saveToken token nodeID (s, d) = (None, (s', d'))"
  shows "s' = s \<or> s' = drop_install_token token s"
  using assms by (auto simp: exchange_install_token_def split: option.splits prod.splits if_splits)

end
