(* ===== verification/Sha1.thy ===== *)
theory Sha1
  imports Sha256
begin

unbundle bit_operations_syntax

text \<open>
  Go's \<^verbatim>\<open>crypto/sha1\<close> (FIPS 180-4), from which the server derives the identifier of an agent that
  reports none.  The padding and the conversion of words are those of SHA-256.
\<close>

definition sha1_initial :: "32 word list" where
  "sha1_initial = [0x67452301, 0xefcdab89, 0x98badcfe, 0x10325476, 0xc3d2e1f0]"

text \<open>The message schedule, newest word first, extended \<open>n\<close> times.\<close>

fun sha1_schedule :: "nat \<Rightarrow> 32 word list \<Rightarrow> 32 word list" where
  "sha1_schedule 0 ws = ws"
| "sha1_schedule (Suc n) ws = sha1_schedule n (word_rotl 1 (ws ! 2 XOR ws ! 7 XOR ws ! 13 XOR ws ! 15) # ws)"

definition sha1_function :: "nat \<Rightarrow> 32 word \<Rightarrow> 32 word \<Rightarrow> 32 word \<Rightarrow> 32 word" where
  "sha1_function t b c d =
     (if t < 20 then (b AND c) OR (NOT b AND d)
      else if t < 40 then b XOR c XOR d
      else if t < 60 then (b AND c) OR (b AND d) OR (c AND d)
      else b XOR c XOR d)"

definition sha1_constant :: "nat \<Rightarrow> 32 word" where
  "sha1_constant t = (if t < 20 then 0x5a827999 else if t < 40 then 0x6ed9eba1 else if t < 60 then 0x8f1bbcdc else 0xca62c1d6)"

definition sha1_round :: "nat \<times> 32 word \<Rightarrow> 32 word list \<Rightarrow> 32 word list" where
  "sha1_round tw s = (case s of
     [a, b, c, d, e] \<Rightarrow>
       [word_rotl 5 a + sha1_function (fst tw) b c d + e + sha1_constant (fst tw) + snd tw, a, word_rotl 30 b, c, d]
   | _ \<Rightarrow> s)"

definition sha1_compress :: "32 word list \<Rightarrow> 32 word list \<Rightarrow> 32 word list" where
  "sha1_compress digest block =
     map2 (+) digest (fold sha1_round (zip [0..<80] (rev (sha1_schedule 64 (rev block)))) digest)"

fun sha1_blocks :: "nat \<Rightarrow> 32 word list \<Rightarrow> 32 word list \<Rightarrow> 32 word list" where
  "sha1_blocks 0 ws digest = digest"
| "sha1_blocks (Suc n) ws digest = sha1_blocks n (drop 16 ws) (sha1_compress digest (take 16 ws))"

definition sha1_sum :: "nat list \<Rightarrow> nat list" where
  "sha1_sum bs =
     (let ws = byte_words (padded_message bs)
      in concat (map word_bytes (sha1_blocks (length ws div 16) ws sha1_initial)))"

end
