(* ===== verification/AgentHub.thy ===== *)
theory AgentHub
  imports InstallAuth ConnectionEvents AgentUpgrade Sha1
begin

text \<open>
  The connections of agents in \<^verbatim>\<open>internal/server/agenthub/hub.go\<close>: \<open>ServeHTTP\<close> from the credentials of
  a request to the end of its connection, \<open>DisconnectNode\<close>, and the requests that delete nodes and hand
  out install tokens.  One goroutine serves each connection; a step of the model is what it does with
  one access to the database or to state under a mutex, so any two connections and requests interleave.
  Random values, times and what the agent sends are arguments of the steps.
\<close>

section \<open>Credentials and identity\<close>

definition bearer_token :: "string \<Rightarrow> string" where
  "bearer_token header =
     (case text_fields header of
        [scheme, token] \<Rightarrow> if map (\<lambda>c. char_of (ascii_lower (of_char c))) scheme = ''bearer'' then token else []
      | _ \<Rightarrow> [])"

record hello =
  he_node_id :: string
  he_agent_version :: string
  he_protocol_version :: int
  he_identity_source :: string
  he_hostname :: string
  he_name :: string
  he_ip :: string
  he_os :: string
  he_arch :: string
  he_kernel :: string
  he_agent_mode :: string
  he_agent_user :: string
  he_terminal :: bool

definition current_protocol_version :: int where "current_protocol_version = 1"

definition node_id_for_hello :: "hello \<Rightarrow> string" where
  "node_id_for_hello h =
     (let nodeID = trim_space (he_node_id h) in
      if nodeID \<noteq> [] then nodeID
      else ''node_'' @ take 12 (hex_encode (sha1_sum (string_bytes (he_hostname h @ ''|'' @ he_os h @ ''|'' @ he_arch h)))))"

text \<open>What \<open>Options\<close> configures: the shared agent token, and whether install tokens and stored node tokens are in use.\<close>

record hub_options =
  ho_agent_token :: string
  ho_install_auth :: bool
  ho_agent_tokens :: bool

section \<open>State\<close>

text \<open>
  Where a connection is in \<open>ServeHTTP\<close>.  \<open>Presented\<close>: the request has arrived; \<open>LookedUp\<close>, \<open>CheckInstall\<close>:
  its token was looked up in the database, and among the node tokens; \<open>AwaitHello\<close>: the connection is
  open; \<open>Greeted\<close>, \<open>Unbarred\<close>: the hello has arrived, the node is not barred; \<open>Exchanging\<close>, \<open>Dated\<close>: around
  \<open>InstallTokenCreatedAt\<close>; \<open>Credited\<close>: a node token is at hand; \<open>Upserted\<close>, \<open>Readmitted\<close>, \<open>NotMarked\<close>,
  \<open>Confirmed\<close>: the node is stored, \<open>allowNode\<close>, and the two halves of \<open>agentCredentialStillValid\<close>; \<open>Refused\<close>:
  about to call \<open>DeleteIfDeleted\<close>; \<open>Bootstrapped\<close>, \<open>InSession\<close>, \<open>Announced\<close>, \<open>Registered\<close>, \<open>Greeting\<close>: up to the
  acknowledgement; \<open>Serving\<close> and \<open>Measured\<close>: the read loop; the rest are the deferred calls.
\<close>

datatype link_pc =
  Presented | LookedUp | CheckInstall | AwaitHello | Greeted | Unbarred | Exchanging | Dated | Credited | Upserted
| Readmitted | NotMarked | Confirmed | Refused | Bootstrapped | InSession | Announced | Registered "nat option" | Greeting
| Serving | Measured | TimedOutLink | Ending string | Departing | GoingOffline | Unregistering | LinkClosed

record link =
  lk_header :: bool
  lk_supplied :: string
  lk_remote :: string
  lk_persistent :: "string option"
  lk_hello :: hello
  lk_node :: string
  lk_node_token :: string
  lk_used_install :: bool
  lk_token_created :: "time option"
  lk_session :: string
  lk_closed :: bool
  lk_pc :: link_pc

text \<open>
  A deletion in progress has removed the node from the database and has yet to call \<open>DisconnectNode\<close>.
  \<open>hb_issued\<close> and \<open>hb_handed\<close> record, for the statements, the install tokens issued and the node
  tokens handed out with the node they were handed to.
\<close>

datatype removal = ToDisconnect string | ToRevoke string "nat option"

record hub =
  hb_db :: node_db
  hb_auth :: install_auth
  hb_sessions :: "string \<Rightarrow> string option"
  hb_connections :: "string \<Rightarrow> nat option"
  hb_upgrades :: upgrades
  hb_links :: "link list"
  hb_removals :: "removal list"
  hb_issued :: "string list"
  hb_handed :: "(string \<times> string) list"
  hb_clock :: time

definition new_hub :: "node_db \<Rightarrow> hub" where
  "new_hub db = \<lparr>hb_db = db, hb_auth = new_install_auth, hb_sessions = Map.empty, hb_connections = Map.empty,
     hb_upgrades = Map.empty, hb_links = [], hb_removals = [], hb_issued = [], hb_handed = [], hb_clock = 0\<rparr>"

definition using_agent_token :: "hub_options \<Rightarrow> link \<Rightarrow> bool" where
  "using_agent_token opts l \<longleftrightarrow> lk_header l \<and> ho_agent_token opts \<noteq> [] \<and> lk_supplied l = ho_agent_token opts"

definition update_link :: "nat \<Rightarrow> (link \<Rightarrow> link) \<Rightarrow> hub \<Rightarrow> hub" where
  "update_link i f s = s\<lparr>hb_links := (hb_links s)[i := f (hb_links s ! i)]\<rparr>"

definition goto :: "nat \<Rightarrow> link_pc \<Rightarrow> hub \<Rightarrow> hub" where
  "goto i pc = update_link i (\<lambda>l. l\<lparr>lk_pc := pc\<rparr>)"

section \<open>Authentication\<close>

definition zero_hello :: hello where
  "zero_hello = \<lparr>he_node_id = [], he_agent_version = [], he_protocol_version = 0, he_identity_source = [], he_hostname = [],
     he_name = [], he_ip = [], he_os = [], he_arch = [], he_kernel = [], he_agent_mode = [], he_agent_user = [], he_terminal = False\<rparr>"

definition new_link :: "string \<Rightarrow> string \<Rightarrow> string \<Rightarrow> link" where
  "new_link header query remote =
     (let token = bearer_token header in
      \<lparr>lk_header = (token \<noteq> []), lk_supplied = (if token = [] then query else token), lk_remote = remote, lk_persistent = None,
       lk_hello = zero_hello, lk_node = [], lk_node_token = [], lk_used_install = False, lk_token_created = None, lk_session = [],
       lk_closed = False, lk_pc = Presented\<rparr>)"

definition present_credentials :: "string \<Rightarrow> string \<Rightarrow> string \<Rightarrow> hub \<Rightarrow> hub" where
  "present_credentials header query remote s = s\<lparr>hb_links := hb_links s @ [new_link header query remote]\<rparr>"

definition look_up_token :: "hub_options \<Rightarrow> nat \<Rightarrow> link \<Rightarrow> hub \<Rightarrow> hub" where
  "look_up_token opts i l s =
     (if lk_header l \<and> \<not> using_agent_token opts l \<and> ho_agent_tokens opts \<and> lk_supplied l \<noteq> []
      then (let (found, db) = node_id_for_token (lk_supplied l) (hb_db s)
            in update_link i (\<lambda>l. l\<lparr>lk_persistent := found, lk_pc := LookedUp\<rparr>) (s\<lparr>hb_db := db\<rparr>))
      else goto i LookedUp s)"

definition admit_token :: "hub_options \<Rightarrow> nat \<Rightarrow> link \<Rightarrow> hub \<Rightarrow> hub" where
  "admit_token opts i l s =
     (let known = (using_agent_token opts l \<or> lk_persistent l \<noteq> None) in
      if ho_agent_token opts = [] \<and> \<not> ho_install_auth opts \<and> lk_persistent l = None then goto i LinkClosed s
      else if \<not> ho_install_auth opts \<and> \<not> known then goto i LinkClosed s
      else if ho_install_auth opts \<and> \<not> known
      then (if lk_header l \<and> may_authenticate_node_token (lk_supplied l) (hb_auth s) then goto i AwaitHello s else goto i CheckInstall s)
      else goto i AwaitHello s)"

definition admit_install_token :: "time \<Rightarrow> nat \<Rightarrow> link \<Rightarrow> hub \<Rightarrow> hub" where
  "admit_install_token now i l s =
     (let (ok, auth) = may_authenticate_install_token now (lk_supplied l) (hb_auth s)
      in goto i (if ok then AwaitHello else LinkClosed) (s\<lparr>hb_auth := auth\<rparr>))"

section \<open>The hello\<close>

definition link_event :: "link \<Rightarrow> string \<Rightarrow> string \<Rightarrow> time \<Rightarrow> connection_event" where
  "link_event l kind reason now = \<lparr>ce_id = 0, ce_node_id = lk_node l, ce_type = kind, ce_reason = reason,
     ce_agent_version = he_agent_version (lk_hello l), ce_protocol_version = he_protocol_version (lk_hello l),
     ce_identity_source = he_identity_source (lk_hello l), ce_hostname = he_hostname (lk_hello l), ce_remote_addr = lk_remote l,
     ce_created_at = now\<rparr>"

definition record_connection_event :: "time \<Rightarrow> link \<Rightarrow> string \<Rightarrow> string \<Rightarrow> hub \<Rightarrow> hub" where
  "record_connection_event now l kind reason s =
     s\<lparr>hb_db := snd (create_connection_event now (link_event l kind reason now) (hb_db s))\<rparr>"

text \<open>The node of a rejected protocol version gets an event only when it is stored.\<close>

definition receive_hello :: "time \<Rightarrow> hello \<Rightarrow> nat \<Rightarrow> link \<Rightarrow> hub \<Rightarrow> hub" where
  "receive_hello now h i l s =
     (let nodeID = node_id_for_hello h; l' = l\<lparr>lk_hello := h, lk_node := nodeID\<rparr> in
      if he_protocol_version h \<noteq> 0 \<and> he_protocol_version h \<noteq> current_protocol_version
      then goto i LinkClosed
        (if nodeID \<noteq> [] \<and> find_node (hb_db s) nodeID \<noteq> None
         then record_connection_event now l' ce_protocol_rejected (''unsupported protocol version '' @ show_int (he_protocol_version h)
                @ ''; server supports '' @ show_int current_protocol_version) s
         else s)
      else if nodeID = [] then goto i LinkClosed s
      else update_link i (\<lambda>_. l'\<lparr>lk_pc := Greeted\<rparr>) s)"

definition check_barred :: "hub_options \<Rightarrow> nat \<Rightarrow> link \<Rightarrow> hub \<Rightarrow> hub" where
  "check_barred opts i l s =
     goto i (if using_agent_token opts l \<and> is_deleted (hb_db s) (lk_node l) then LinkClosed else Unbarred) s"

definition find_credential :: "hub_options \<Rightarrow> nat \<Rightarrow> link \<Rightarrow> hub \<Rightarrow> hub" where
  "find_credential opts i l s =
     (case lk_persistent l of
        Some persistentNodeID \<Rightarrow>
          if persistentNodeID \<noteq> lk_node l then goto i LinkClosed s
          else update_link i (\<lambda>l. l\<lparr>lk_node_token := lk_supplied l, lk_pc := Credited\<rparr>) s
      | None \<Rightarrow>
          if ho_install_auth opts \<and> \<not> using_agent_token opts l
          then (if auth_node_token (hb_auth s) (lk_node l) = Some (lk_supplied l)
                then update_link i (\<lambda>l. l\<lparr>lk_node_token := lk_supplied l, lk_pc := Credited\<rparr>) s
                else goto i Exchanging s)
          else goto i Credited s)"

definition date_install_token :: "time \<Rightarrow> nat \<Rightarrow> link \<Rightarrow> hub \<Rightarrow> hub" where
  "date_install_token now i l s =
     update_link i (\<lambda>l. l\<lparr>lk_token_created := install_token_created_at now (lk_supplied l) (hb_auth s), lk_pc := Dated\<rparr>) s"

definition saved_node_token :: "hub_options \<Rightarrow> string \<Rightarrow> time \<Rightarrow> string \<Rightarrow> node_db \<Rightarrow> bool \<times> node_db" where
  "saved_node_token opts nodeID now token db =
     (if \<not> ho_agent_tokens opts then (True, db)
      else (case save_node_token nodeID token now db of (Inl _, db') \<Rightarrow> (False, db') | (Inr _, db') \<Rightarrow> (True, db')))"

definition exchange_token :: "hub_options \<Rightarrow> time \<Rightarrow> string option \<Rightarrow> nat \<Rightarrow> link \<Rightarrow> hub \<Rightarrow> hub" where
  "exchange_token opts now random i l s =
     (case exchange_install_token now random (Some (saved_node_token opts (lk_node l) now)) (lk_supplied l) (lk_node l) (hb_auth s, hb_db s) of
        (None, (auth, db)) \<Rightarrow> goto i LinkClosed (s\<lparr>hb_auth := auth, hb_db := db\<rparr>)
      | (Some token, (auth, db)) \<Rightarrow>
          update_link i (\<lambda>l. l\<lparr>lk_node_token := token, lk_used_install := True, lk_pc := Credited\<rparr>)
            (s\<lparr>hb_auth := auth, hb_db := db, hb_handed := (lk_node l, token) # hb_handed s\<rparr>))"

section \<open>Admission\<close>

definition hello_node :: "time \<Rightarrow> string \<Rightarrow> hello \<Rightarrow> node" where
  "hello_node now nodeID h = (zero_node nodeID)\<lparr>nd_name := (if he_name h = [] then he_hostname h else he_name h),
     nd_hostname := he_hostname h, nd_ip := he_ip h, nd_os := he_os h, nd_arch := he_arch h, nd_kernel := he_kernel h,
     nd_agent_version := he_agent_version h, nd_agent_mode := he_agent_mode h, nd_agent_user := he_agent_user h,
     nd_status := ''online'', nd_terminal_enabled := he_terminal h, nd_last_seen_at := now\<rparr>"

definition store_node :: "time \<Rightarrow> nat \<Rightarrow> link \<Rightarrow> hub \<Rightarrow> hub" where
  "store_node now i l s = goto i Upserted (s\<lparr>hb_db := upsert_node now (hello_node now (lk_node l) (lk_hello l)) (hb_db s)\<rparr>)"

text \<open>\<open>allowNode\<close>; a token without a date has the zero time.\<close>

definition readmit_node :: "nat \<Rightarrow> link \<Rightarrow> hub \<Rightarrow> hub" where
  "readmit_node i l s =
     (if lk_used_install l
      then (let (allowed, db) = allow_if_deleted_before (lk_node l) (case lk_token_created l of None \<Rightarrow> 0 | Some t \<Rightarrow> t) (hb_db s)
            in goto i (if allowed then Readmitted else Refused) (s\<lparr>hb_db := db\<rparr>))
      else goto i Readmitted s)"

definition refuse_node :: "nat \<Rightarrow> link \<Rightarrow> hub \<Rightarrow> hub" where
  "refuse_node i l s = goto i LinkClosed (s\<lparr>hb_db := delete_if_deleted (lk_node l) (hb_db s)\<rparr>)"

text \<open>The two halves of \<open>agentCredentialStillValid\<close>.\<close>

definition recheck_deleted :: "nat \<Rightarrow> link \<Rightarrow> hub \<Rightarrow> hub" where
  "recheck_deleted i l s = goto i (if is_deleted (hb_db s) (lk_node l) then Refused else NotMarked) s"

definition confirm_credential :: "hub_options \<Rightarrow> nat \<Rightarrow> link \<Rightarrow> hub \<Rightarrow> hub" where
  "confirm_credential opts i l s =
     (if using_agent_token opts l then goto i Confirmed s
      else if lk_persistent l \<noteq> None then
        (if \<not> ho_agent_tokens opts then goto i Refused s
         else (let (found, db) = node_id_for_token (lk_supplied l) (hb_db s)
               in goto i (if found = Some (lk_node l) then Confirmed else Refused) (s\<lparr>hb_db := db\<rparr>)))
      else if ho_install_auth opts \<and> lk_node_token l \<noteq> [] then
        goto i (if auth_node_token (hb_auth s) (lk_node l) = Some (lk_node_token l) then Confirmed else Refused) s
      else goto i Confirmed s)"

definition finish_bootstrap :: "hub_options \<Rightarrow> nat \<Rightarrow> link \<Rightarrow> hub \<Rightarrow> hub" where
  "finish_bootstrap opts i l s = goto i Bootstrapped
     (if ho_install_auth opts \<and> lk_persistent l \<noteq> None
      then s\<lparr>hb_auth := complete_bootstrap (lk_node l) (lk_node_token l) (hb_auth s)\<rparr> else s)"

section \<open>Registration and service\<close>

definition start_session :: "string \<Rightarrow> nat \<Rightarrow> link \<Rightarrow> hub \<Rightarrow> hub" where
  "start_session sessionID i l s =
     update_link i (\<lambda>l. l\<lparr>lk_session := sessionID, lk_pc := InSession\<rparr>) (s\<lparr>hb_sessions := (hb_sessions s)(lk_node l \<mapsto> sessionID)\<rparr>)"

definition announce_connection :: "time \<Rightarrow> nat \<Rightarrow> link \<Rightarrow> hub \<Rightarrow> hub" where
  "announce_connection now i l s = goto i Announced (record_connection_event now l ce_connected [] s)"

definition register_connection :: "nat \<Rightarrow> link \<Rightarrow> hub \<Rightarrow> hub" where
  "register_connection i l s =
     goto i (Registered (hb_connections s (lk_node l))) (s\<lparr>hb_connections := (hb_connections s)(lk_node l \<mapsto> i)\<rparr>)"

definition close_link :: "nat option \<Rightarrow> hub \<Rightarrow> hub" where
  "close_link c s = (case c of None \<Rightarrow> s | Some j \<Rightarrow> if j < length (hb_links s) then update_link j (\<lambda>l. l\<lparr>lk_closed := True\<rparr>) s else s)"

text \<open>The rest of \<open>registerConnection\<close>: the connection that was replaced gets its event and is closed.\<close>

definition replace_connection :: "time \<Rightarrow> nat \<Rightarrow> link \<Rightarrow> nat option \<Rightarrow> hub \<Rightarrow> hub" where
  "replace_connection now i l previous s =
     (case previous of
        None \<Rightarrow> goto i Greeting s
      | Some j \<Rightarrow>
          (let p = hb_links s ! j; h1 = he_hostname (lk_hello p); h2 = he_hostname (lk_hello l);
               s1 = record_connection_event now p ce_replaced ''replaced by a newer connection'' s;
               s2 = (if h1 \<noteq> [] \<and> h2 \<noteq> [] \<and> h1 \<noteq> h2
                     then record_connection_event now l ce_identity_conflict
                            (''same Agent ID reported different hostnames: '' @ h1 @ '' and '' @ h2) s1
                     else s1)
           in goto i Greeting (close_link (Some j) s2)))"

definition unregister_connection :: "nat \<Rightarrow> link \<Rightarrow> hub \<Rightarrow> hub" where
  "unregister_connection i l s =
     (if hb_connections s (lk_node l) = Some i then s\<lparr>hb_connections := (hb_connections s)(lk_node l := None)\<rparr> else s)"

text \<open>\<open>observeAgentUpgradeReconnect\<close> and the acknowledgement; when it cannot be written the connection is given up at once.\<close>

definition acknowledge :: "bool \<Rightarrow> nat \<Rightarrow> link \<Rightarrow> hub \<Rightarrow> hub" where
  "acknowledge written i l s =
     (let s1 = s\<lparr>hb_upgrades := observe_agent_upgrade_reconnect (lk_node l) (he_agent_version (lk_hello l)) (hb_upgrades s)\<rparr>
      in if written \<and> \<not> lk_closed l then goto i Serving s1
         else goto i (Ending ''connection closed'') (unregister_connection i l s1))"

text \<open>\<open>handleMetrics\<close>: the node's row first; an error, or a node that is gone, ends the connection.\<close>

definition receive_metrics :: "time \<Rightarrow> string \<Rightarrow> string \<Rightarrow> string \<Rightarrow> string \<Rightarrow> nat \<Rightarrow> link \<Rightarrow> hub \<Rightarrow> hub" where
  "receive_metrics now hostname osName osArch osKernel i l s =
     (case update_system_info (lk_node l) hostname osName osArch osKernel now (hb_db s) of
        (Inl _, db) \<Rightarrow> goto i (Ending ''connection closed'') (s\<lparr>hb_db := db\<rparr>)
      | (Inr _, db) \<Rightarrow> goto i Measured (s\<lparr>hb_db := db\<rparr>))"

definition store_metrics :: "nat \<Rightarrow> link \<Rightarrow> hub \<Rightarrow> hub" where
  "store_metrics i l s = goto i Serving (s\<lparr>hb_db := (hb_db s)\<lparr>nb_metrics := nb_metrics (hb_db s) @ [lk_node l]\<rparr>\<rparr>)"

section \<open>The end of a connection\<close>

definition record_timeout :: "time \<Rightarrow> nat \<Rightarrow> link \<Rightarrow> hub \<Rightarrow> hub" where
  "record_timeout now i l s =
     goto i (Ending ''heartbeat timeout'') (record_connection_event now l ce_heartbeat_timeout ''heartbeat timeout'' s)"

definition record_disconnect :: "time \<Rightarrow> string \<Rightarrow> nat \<Rightarrow> link \<Rightarrow> hub \<Rightarrow> hub" where
  "record_disconnect now reason i l s = goto i Departing (record_connection_event now l ce_disconnected reason s)"

definition finish_session :: "nat \<Rightarrow> link \<Rightarrow> hub \<Rightarrow> hub" where
  "finish_session i l s =
     (if hb_sessions s (lk_node l) = Some (lk_session l)
      then goto i GoingOffline (s\<lparr>hb_sessions := (hb_sessions s)(lk_node l := None)\<rparr>)
      else goto i Unregistering s)"

definition set_offline :: "time \<Rightarrow> nat \<Rightarrow> link \<Rightarrow> hub \<Rightarrow> hub" where
  "set_offline now i l s = goto i Unregistering (s\<lparr>hb_db := set_node_status (lk_node l) ''offline'' now (hb_db s)\<rparr>)"

definition unregister_link :: "nat \<Rightarrow> link \<Rightarrow> hub \<Rightarrow> hub" where
  "unregister_link i l s = goto i LinkClosed (unregister_connection i l s)"

section \<open>Requests\<close>

text \<open>An install token is fresh: it comes from the system's random generator.\<close>

definition issue_install_token :: "time \<Rightarrow> string \<Rightarrow> hub \<Rightarrow> hub option" where
  "issue_install_token now token s =
     (if token \<in> set (hb_issued s) then None
      else Some (s\<lparr>hb_auth := snd (create_install_token now token (hb_auth s)), hb_issued := token # hb_issued s\<rparr>))"

definition remove_node :: "time \<Rightarrow> string \<Rightarrow> hub \<Rightarrow> hub" where
  "remove_node now nodeID s =
     (case delete_node nodeID now (hb_db s) of
        (Inl _, db) \<Rightarrow> s\<lparr>hb_db := db\<rparr>
      | (Inr _, db) \<Rightarrow> s\<lparr>hb_db := db, hb_removals := hb_removals s @ [ToDisconnect nodeID]\<rparr>)"

text \<open>\<open>DisconnectNode\<close>: the part under the mutex, then the revocation and the closing of the connection it found.\<close>

definition disconnect_node :: "nat \<Rightarrow> hub \<Rightarrow> hub option" where
  "disconnect_node k s =
     (case hb_removals s ! k of
        ToDisconnect nodeID \<Rightarrow> Some (s\<lparr>hb_connections := (hb_connections s)(nodeID := None), hb_sessions := (hb_sessions s)(nodeID := None),
            hb_removals := (hb_removals s)[k := ToRevoke nodeID (hb_connections s nodeID)]\<rparr>)
      | ToRevoke nodeID c \<Rightarrow> Some (close_link c (s\<lparr>hb_auth := revoke_node_token nodeID (hb_auth s),
            hb_removals := take k (hb_removals s) @ drop (Suc k) (hb_removals s)\<rparr>)))"

section \<open>Steps\<close>

datatype hub_event =
  Connect string string string
| Advance nat hub_input
| IssueToken string
| RemoveNode string
| ContinueRemoval nat
and hub_input =
  NoInput | HelloInput hello | RandomInput "string option" | SessionInput string | WriteInput bool
| MetricsInput string string string string | EndInput string | TimeoutInput

text \<open>The next step of the goroutine of connection \<open>i\<close>.\<close>

definition advance_link :: "hub_options \<Rightarrow> time \<Rightarrow> nat \<Rightarrow> hub_input \<Rightarrow> hub \<Rightarrow> hub option" where
  "advance_link opts now i input s =
     (if i \<ge> length (hb_links s) then None
      else (let l = hb_links s ! i in
        case (lk_pc l, input) of
          (Presented, NoInput) \<Rightarrow> Some (look_up_token opts i l s)
        | (LookedUp, NoInput) \<Rightarrow> Some (admit_token opts i l s)
        | (CheckInstall, NoInput) \<Rightarrow> Some (admit_install_token now i l s)
        | (AwaitHello, HelloInput h) \<Rightarrow> Some (receive_hello now h i l s)
        | (AwaitHello, EndInput _) \<Rightarrow> Some (goto i LinkClosed s)
        | (Greeted, NoInput) \<Rightarrow> Some (check_barred opts i l s)
        | (Unbarred, NoInput) \<Rightarrow> Some (find_credential opts i l s)
        | (Exchanging, NoInput) \<Rightarrow> Some (date_install_token now i l s)
        | (Dated, RandomInput random) \<Rightarrow> Some (exchange_token opts now random i l s)
        | (Credited, NoInput) \<Rightarrow> Some (store_node now i l s)
        | (Upserted, NoInput) \<Rightarrow> Some (readmit_node i l s)
        | (Readmitted, NoInput) \<Rightarrow> Some (recheck_deleted i l s)
        | (NotMarked, NoInput) \<Rightarrow> Some (confirm_credential opts i l s)
        | (Refused, NoInput) \<Rightarrow> Some (refuse_node i l s)
        | (Confirmed, NoInput) \<Rightarrow> Some (finish_bootstrap opts i l s)
        | (Bootstrapped, SessionInput sessionID) \<Rightarrow> Some (start_session sessionID i l s)
        | (InSession, NoInput) \<Rightarrow> Some (announce_connection now i l s)
        | (Announced, NoInput) \<Rightarrow> Some (register_connection i l s)
        | (Registered previous, NoInput) \<Rightarrow> Some (replace_connection now i l previous s)
        | (Greeting, WriteInput written) \<Rightarrow> Some (acknowledge written i l s)
        | (Serving, MetricsInput hostname osName osArch osKernel) \<Rightarrow>
            if lk_closed l then None else Some (receive_metrics now hostname osName osArch osKernel i l s)
        | (Measured, NoInput) \<Rightarrow> Some (store_metrics i l s)
        | (Serving, EndInput reason) \<Rightarrow> Some (goto i (Ending reason) s)
        | (Serving, TimeoutInput) \<Rightarrow> Some (goto i TimedOutLink s)
        | (TimedOutLink, NoInput) \<Rightarrow> Some (record_timeout now i l s)
        | (Ending reason, NoInput) \<Rightarrow> Some (record_disconnect now reason i l s)
        | (Departing, NoInput) \<Rightarrow> Some (finish_session i l s)
        | (GoingOffline, NoInput) \<Rightarrow> Some (set_offline now i l s)
        | (Unregistering, NoInput) \<Rightarrow> Some (unregister_link i l s)
        | _ \<Rightarrow> None))"

text \<open>Every event carries its time, and the clock does not run backwards.\<close>

definition hub_step :: "hub_options \<Rightarrow> time \<times> hub_event \<Rightarrow> hub \<Rightarrow> hub option" where
  "hub_step opts ev s0 =
     (case ev of (now, e) \<Rightarrow>
      if now < hb_clock s0 then None
      else (let s = s0\<lparr>hb_clock := now\<rparr> in
        case e of
          Connect header query remote \<Rightarrow> Some (present_credentials header query remote s)
        | Advance i input \<Rightarrow> advance_link opts now i input s
        | IssueToken token \<Rightarrow> issue_install_token now token s
        | RemoveNode nodeID \<Rightarrow> Some (remove_node now nodeID s)
        | ContinueRemoval k \<Rightarrow> if k < length (hb_removals s) then disconnect_node k s else None))"

fun hub_run :: "hub_options \<Rightarrow> (time \<times> hub_event) list \<Rightarrow> hub \<Rightarrow> hub option" where
  "hub_run opts [] s = Some s"
| "hub_run opts (e # es) s = (case hub_step opts e s of None \<Rightarrow> None | Some t \<Rightarrow> hub_run opts es t)"

end
