(* ===== verification/AgentHubInv.thy ===== *)
theory AgentHubInv
  imports AgentHub
begin

text \<open>
  Invariants of the hub: the registry of connections and sessions refers to connections that are being
  served, credentials were handed to the node that uses them, and an install token is bound to one node.
\<close>

section \<open>Steps\<close>

inductive link_moves :: "hub_options \<Rightarrow> time \<Rightarrow> nat \<Rightarrow> link \<Rightarrow> hub \<Rightarrow> hub \<Rightarrow> bool"
  for opts :: hub_options and now :: time and i :: nat and l :: link and s :: hub where
  look_up: "lk_pc l = Presented \<Longrightarrow> link_moves opts now i l s (look_up_token opts i l s)"
| admit: "lk_pc l = LookedUp \<Longrightarrow> link_moves opts now i l s (admit_token opts i l s)"
| admit_install: "lk_pc l = CheckInstall \<Longrightarrow> link_moves opts now i l s (admit_install_token now i l s)"
| hello: "lk_pc l = AwaitHello \<Longrightarrow> link_moves opts now i l s (receive_hello now h i l s)"
| no_hello: "lk_pc l = AwaitHello \<Longrightarrow> link_moves opts now i l s (goto i LinkClosed s)"
| barred: "lk_pc l = Greeted \<Longrightarrow> link_moves opts now i l s (check_barred opts i l s)"
| credential: "lk_pc l = Unbarred \<Longrightarrow> link_moves opts now i l s (find_credential opts i l s)"
| date: "lk_pc l = Exchanging \<Longrightarrow> link_moves opts now i l s (date_install_token now i l s)"
| exchange: "lk_pc l = Dated \<Longrightarrow> link_moves opts now i l s (exchange_token opts now random i l s)"
| store: "lk_pc l = Credited \<Longrightarrow> link_moves opts now i l s (store_node now i l s)"
| readmit: "lk_pc l = Upserted \<Longrightarrow> link_moves opts now i l s (readmit_node i l s)"
| recheck: "lk_pc l = Readmitted \<Longrightarrow> link_moves opts now i l s (recheck_deleted i l s)"
| confirm: "lk_pc l = NotMarked \<Longrightarrow> link_moves opts now i l s (confirm_credential opts i l s)"
| refuse: "lk_pc l = Refused \<Longrightarrow> link_moves opts now i l s (refuse_node i l s)"
| bootstrap: "lk_pc l = Confirmed \<Longrightarrow> link_moves opts now i l s (finish_bootstrap opts i l s)"
| session: "lk_pc l = Bootstrapped \<Longrightarrow> link_moves opts now i l s (start_session sid i l s)"
| announce: "lk_pc l = InSession \<Longrightarrow> link_moves opts now i l s (announce_connection now i l s)"
| register: "lk_pc l = Announced \<Longrightarrow> link_moves opts now i l s (register_connection i l s)"
| replace: "lk_pc l = Registered previous \<Longrightarrow> link_moves opts now i l s (replace_connection now i l previous s)"
| acknowledge: "lk_pc l = Greeting \<Longrightarrow> link_moves opts now i l s (acknowledge written i l s)"
| metrics: "lk_pc l = Serving \<Longrightarrow> \<not> lk_closed l \<Longrightarrow> link_moves opts now i l s (receive_metrics now hostname osName osArch osKernel i l s)"
| stored: "lk_pc l = Measured \<Longrightarrow> link_moves opts now i l s (store_metrics i l s)"
| ends: "lk_pc l = Serving \<Longrightarrow> link_moves opts now i l s (goto i (Ending reason) s)"
| times_out: "lk_pc l = Serving \<Longrightarrow> link_moves opts now i l s (goto i TimedOutLink s)"
| timeout: "lk_pc l = TimedOutLink \<Longrightarrow> link_moves opts now i l s (record_timeout now i l s)"
| disconnect: "lk_pc l = Ending reason \<Longrightarrow> link_moves opts now i l s (record_disconnect now reason i l s)"
| finish: "lk_pc l = Departing \<Longrightarrow> link_moves opts now i l s (finish_session i l s)"
| offline: "lk_pc l = GoingOffline \<Longrightarrow> link_moves opts now i l s (set_offline now i l s)"
| unregister: "lk_pc l = Unregistering \<Longrightarrow> link_moves opts now i l s (unregister_link i l s)"

lemma advance_link_moves:
  assumes "advance_link opts now i input s = Some s'"
  shows "i < length (hb_links s) \<and> link_moves opts now i (hb_links s ! i) s s'"
proof -
  have i: "i < length (hb_links s)" using assms by (auto simp: advance_link_def split: if_splits)
  then show ?thesis using assms
    by (cases "lk_pc (hb_links s ! i)"; cases input) (auto simp: advance_link_def Let_def intro: link_moves.intros split: if_splits)
qed

lemma update_link_simps [simp]:
  "hb_db (update_link i f s) = hb_db s" "hb_auth (update_link i f s) = hb_auth s" "hb_sessions (update_link i f s) = hb_sessions s"
  "hb_connections (update_link i f s) = hb_connections s" "hb_upgrades (update_link i f s) = hb_upgrades s"
  "hb_links (update_link i f s) = (hb_links s)[i := f (hb_links s ! i)]" "hb_removals (update_link i f s) = hb_removals s"
  "hb_issued (update_link i f s) = hb_issued s" "hb_handed (update_link i f s) = hb_handed s" "hb_clock (update_link i f s) = hb_clock s"
  by (simp_all add: update_link_def)

lemma goto_simps [simp]:
  "hb_db (goto i pc s) = hb_db s" "hb_auth (goto i pc s) = hb_auth s" "hb_sessions (goto i pc s) = hb_sessions s"
  "hb_connections (goto i pc s) = hb_connections s" "hb_upgrades (goto i pc s) = hb_upgrades s"
  "hb_links (goto i pc s) = (hb_links s)[i := (hb_links s ! i)\<lparr>lk_pc := pc\<rparr>]" "hb_removals (goto i pc s) = hb_removals s"
  "hb_issued (goto i pc s) = hb_issued s" "hb_handed (goto i pc s) = hb_handed s" "hb_clock (goto i pc s) = hb_clock s"
  by (simp_all add: goto_def)

lemma create_event_keeps [simp]:
  "nb_nodes (snd (create_connection_event now e db)) = nb_nodes db" "nb_deleted (snd (create_connection_event now e db)) = nb_deleted db"
  "nb_tokens (snd (create_connection_event now e db)) = nb_tokens db"
  by (simp_all add: create_connection_event_def prune_connection_events_def Let_def)

lemma record_event_simps [simp]:
  "hb_auth (record_connection_event now l k r s) = hb_auth s" "hb_sessions (record_connection_event now l k r s) = hb_sessions s"
  "hb_connections (record_connection_event now l k r s) = hb_connections s"
  "hb_links (record_connection_event now l k r s) = hb_links s" "hb_removals (record_connection_event now l k r s) = hb_removals s"
  "hb_issued (record_connection_event now l k r s) = hb_issued s" "hb_handed (record_connection_event now l k r s) = hb_handed s"
  "hb_clock (record_connection_event now l k r s) = hb_clock s"
  "nb_nodes (hb_db (record_connection_event now l k r s)) = nb_nodes (hb_db s)"
  "nb_deleted (hb_db (record_connection_event now l k r s)) = nb_deleted (hb_db s)"
  "nb_tokens (hb_db (record_connection_event now l k r s)) = nb_tokens (hb_db s)"
  by (simp_all add: record_connection_event_def)

lemma close_link_simps [simp]:
  "hb_db (close_link c s) = hb_db s" "hb_auth (close_link c s) = hb_auth s" "hb_sessions (close_link c s) = hb_sessions s"
  "hb_connections (close_link c s) = hb_connections s" "hb_issued (close_link c s) = hb_issued s"
  "hb_handed (close_link c s) = hb_handed s" "hb_clock (close_link c s) = hb_clock s" "hb_removals (close_link c s) = hb_removals s"
  "length (hb_links (close_link c s)) = length (hb_links s)"
  by (simp_all add: close_link_def split: option.split)

lemma close_link_nth:
  "hb_links (close_link c s) ! j = (hb_links s ! j)\<lparr>lk_closed := lk_closed (hb_links s ! j) \<or> (c = Some j \<and> j < length (hb_links s))\<rparr>"
  by (cases "j < length (hb_links s)") (auto simp: close_link_def nth_list_update split: option.split)

section \<open>The registry\<close>

fun registered_pc :: "link_pc \<Rightarrow> bool" where
  "registered_pc (Registered _) = True"
| "registered_pc Greeting = True"
| "registered_pc Serving = True"
| "registered_pc Measured = True"
| "registered_pc TimedOutLink = True"
| "registered_pc (Ending _) = True"
| "registered_pc Departing = True"
| "registered_pc GoingOffline = True"
| "registered_pc Unregistering = True"
| "registered_pc _ = False"

definition session_pc :: "link_pc \<Rightarrow> bool" where
  "session_pc pc \<longleftrightarrow> (registered_pc pc \<and> pc \<noteq> GoingOffline \<and> pc \<noteq> Unregistering) \<or> pc = InSession \<or> pc = Announced"

declare session_pc_def [simp]

definition registry_ok :: "hub \<Rightarrow> bool" where
  "registry_ok s \<longleftrightarrow>
     (\<forall>n i. hb_connections s n = Some i \<longrightarrow> i < length (hb_links s) \<and> lk_node (hb_links s ! i) = n \<and> registered_pc (lk_pc (hb_links s ! i)))
   \<and> (\<forall>n sid. hb_sessions s n = Some sid \<longrightarrow> (\<exists>i < length (hb_links s). lk_node (hb_links s ! i) = n
        \<and> lk_session (hb_links s ! i) = sid \<and> session_pc (lk_pc (hb_links s ! i))))"

lemma registry_okD:
  assumes "registry_ok s"
  shows "hb_connections s n = Some i \<Longrightarrow> i < length (hb_links s)" "hb_connections s n = Some i \<Longrightarrow> lk_node (hb_links s ! i) = n"
    "hb_connections s n = Some i \<Longrightarrow> registered_pc (lk_pc (hb_links s ! i))"
    "hb_sessions s n = Some sid \<Longrightarrow> \<exists>i < length (hb_links s). lk_node (hb_links s ! i) = n \<and> lk_session (hb_links s ! i) = sid
       \<and> session_pc (lk_pc (hb_links s ! i))"
  using assms by (auto simp: registry_ok_def)

text \<open>A step that changes one connection and at most removes entries of the registry.\<close>

lemma registry_update:
  assumes ok: "registry_ok s" and i: "i < length (hb_links s)" and links: "hb_links s' = (hb_links s)[i := hb_links s' ! i]"
    and conns: "\<And>n j. hb_connections s' n = Some j \<Longrightarrow> hb_connections s n = Some j"
    and sess: "\<And>n sid. hb_sessions s' n = Some sid \<Longrightarrow> hb_sessions s n = Some sid"
    and reg: "registered_pc (lk_pc (hb_links s ! i)) \<Longrightarrow> hb_connections s' (lk_node (hb_links s ! i)) = Some i \<Longrightarrow> registered_pc (lk_pc (hb_links s' ! i)) \<and> lk_node (hb_links s' ! i) = lk_node (hb_links s ! i)"
    and ses: "session_pc (lk_pc (hb_links s ! i)) \<Longrightarrow> hb_sessions s' (lk_node (hb_links s ! i)) = Some (lk_session (hb_links s ! i)) \<Longrightarrow>
      session_pc (lk_pc (hb_links s' ! i)) \<and> lk_node (hb_links s' ! i) = lk_node (hb_links s ! i) \<and> lk_session (hb_links s' ! i) = lk_session (hb_links s ! i)"
  shows "registry_ok s'"
  unfolding registry_ok_def
proof (intro conjI allI impI)
  fix n j assume c': "hb_connections s' n = Some j"
  note c = conns [OF c'] and r = registry_okD(1-3) [OF ok conns [OF c']]
  show "j < length (hb_links s')" using r(1) arg_cong [OF links, of length] by simp
  show "lk_node (hb_links s' ! j) = n" "registered_pc (lk_pc (hb_links s' ! j))"
    using r reg c' i nth_list_update_neq [of i j "hb_links s" "hb_links s' ! i", folded links] by (cases "j = i"; auto)+
next
  fix n sid assume s': "hb_sessions s' n = Some sid"
  from registry_okD(4) [OF ok sess [OF s']] obtain j where j: "j < length (hb_links s)" "lk_node (hb_links s ! j) = n"
    "lk_session (hb_links s ! j) = sid" "session_pc (lk_pc (hb_links s ! j))" by blast
  show "\<exists>j < length (hb_links s'). lk_node (hb_links s' ! j) = n \<and> lk_session (hb_links s' ! j) = sid \<and> session_pc (lk_pc (hb_links s' ! j))"
    by (rule exI [of _ j]) (use j ses s' i arg_cong [OF links, of length] nth_list_update_neq [of i j "hb_links s" "hb_links s' ! i", folded links] in \<open>cases "j = i"; auto\<close>)
qed

lemma registry_close: "registry_ok (close_link c s) \<longleftrightarrow> registry_ok s"
  by (simp add: registry_ok_def close_link_nth)

lemma registry_shrink:
  assumes "registry_ok s" "hb_links s' = hb_links s" "\<And>n j. hb_connections s' n = Some j \<Longrightarrow> hb_connections s n = Some j"
    "\<And>n x. hb_sessions s' n = Some x \<Longrightarrow> hb_sessions s n = Some x"
  shows "registry_ok s'"
  unfolding registry_ok_def assms(2)
proof (intro conjI allI impI)
  fix n i assume "hb_connections s' n = Some i"
  from registry_okD(1-3) [OF assms(1) assms(3) [OF this]]
  show "i < length (hb_links s)" "lk_node (hb_links s ! i) = n" "registered_pc (lk_pc (hb_links s ! i))" .
next
  fix n sid assume "hb_sessions s' n = Some sid"
  from registry_okD(4) [OF assms(1) assms(4) [OF this]]
  show "\<exists>i<length (hb_links s). lk_node (hb_links s ! i) = n \<and> lk_session (hb_links s ! i) = sid \<and> session_pc (lk_pc (hb_links s ! i))" .
qed

lemma registry_quiet:
  assumes "registry_ok s" "hb_links s' = hb_links s" "hb_connections s' = hb_connections s" "hb_sessions s' = hb_sessions s"
  shows "registry_ok s'"
  using assms by (simp add: registry_ok_def)

lemmas quiet_steps = look_up_token_def admit_token_def admit_install_token_def receive_hello_def check_barred_def find_credential_def
  date_install_token_def exchange_token_def store_node_def readmit_node_def recheck_deleted_def confirm_credential_def refuse_node_def
  finish_bootstrap_def announce_connection_def acknowledge_def receive_metrics_def store_metrics_def record_timeout_def
  record_disconnect_def finish_session_def set_offline_def unregister_link_def unregister_connection_def

lemma advance_registry:
  assumes step: "advance_link opts now i input s = Some s'" and ok: "registry_ok s"
  shows "registry_ok s'"
proof -
  let ?l = "hb_links s ! i"
  from advance_link_moves [OF step] have i: "i < length (hb_links s)" and move: "link_moves opts now i ?l s s'" by simp_all
  note upd = registry_update [OF ok i]
  from move show ?thesis
  proof cases
    case (session sid)
    let ?l' = "?l\<lparr>lk_session := sid, lk_pc := InSession\<rparr>"
    show ?thesis unfolding registry_ok_def
    proof (intro conjI allI impI)
      fix n j assume "hb_connections s' n = Some j"
      then have "hb_connections s n = Some j" by (simp add: session start_session_def)
      from registry_okD(1-3) [OF ok this] show "j < length (hb_links s')" "lk_node (hb_links s' ! j) = n" "registered_pc (lk_pc (hb_links s' ! j))"
        using session i by (cases "j = i"; simp add: start_session_def)+
    next
      fix n x assume n: "hb_sessions s' n = Some x"
      show "\<exists>j < length (hb_links s'). lk_node (hb_links s' ! j) = n \<and> lk_session (hb_links s' ! j) = x \<and> session_pc (lk_pc (hb_links s' ! j))"
      proof (cases "n = lk_node ?l")
        case True
        with n i session show ?thesis by (intro exI [of _ i]) (simp add: start_session_def)
      next
        case False
        with n have "hb_sessions s n = Some x" by (simp add: session start_session_def)
        from registry_okD(4) [OF ok this] obtain j where "j < length (hb_links s)" "lk_node (hb_links s ! j) = n"
          "lk_session (hb_links s ! j) = x" "session_pc (lk_pc (hb_links s ! j))" by blast
        with False show ?thesis by (intro exI [of _ j], cases "j = i") (auto simp: session start_session_def)
      qed
    qed
  next
    case register
    have quiet: "registry_ok (goto i (Registered (hb_connections s (lk_node ?l))) s)"
      by (rule upd) (use register i in auto)
    then show ?thesis using i by (auto simp: registry_ok_def register register_connection_def nth_list_update)
  next
    case (replace previous)
    have greeting: "registry_ok (goto i Greeting (close_link c t))"
      if "hb_links t = hb_links s" "hb_connections t = hb_connections s" "hb_sessions t = hb_sessions s" for c t
    proof (rule registry_update)
      show "registry_ok (close_link c t)" using registry_quiet [OF ok that] by (simp add: registry_close)
      show "i < length (hb_links (close_link c t))" using i that by simp
    qed (use i that replace in \<open>auto simp: close_link_nth\<close>)
    from greeting [where c = None and t = s] have "registry_ok (goto i Greeting s)" by (simp add: close_link_def)
    then show ?thesis by (auto simp: replace replace_connection_def Let_def intro!: greeting split: option.split)
  qed (rule upd; use i in \<open>auto simp: quiet_steps Let_def split: option.splits prod.splits sum.splits if_splits\<close>)+
qed

lemma hub_step_cases:
  assumes "hub_step opts (now, ev) s = Some s'"
  obtains "hb_clock s \<le> now" and
     "(\<exists>header query remote. ev = Connect header query remote \<and> s' = present_credentials header query remote (s\<lparr>hb_clock := now\<rparr>))
    \<or> (\<exists>i input. ev = Advance i input \<and> advance_link opts now i input (s\<lparr>hb_clock := now\<rparr>) = Some s')
    \<or> (\<exists>token. ev = IssueToken token \<and> issue_install_token now token (s\<lparr>hb_clock := now\<rparr>) = Some s')
    \<or> (\<exists>nodeID. ev = RemoveNode nodeID \<and> s' = remove_node now nodeID (s\<lparr>hb_clock := now\<rparr>))
    \<or> (\<exists>k. ev = ContinueRemoval k \<and> k < length (hb_removals s) \<and> disconnect_node k (s\<lparr>hb_clock := now\<rparr>) = Some s')"
proof -
  have "hb_clock s \<le> now" using assms by (simp add: hub_step_def split: if_splits)
  with assms that show ?thesis by (cases ev) (auto simp: hub_step_def split: if_splits)
qed

lemma registry_append: "registry_ok s \<Longrightarrow> registry_ok (present_credentials header query remote s)"
  by (fastforce simp: registry_ok_def present_credentials_def nth_append)

lemma hub_step_registry:
  assumes step: "hub_step opts (now, ev) s = Some s'" and ok: "registry_ok s"
  shows "registry_ok s'"
proof -
  have clock: "registry_ok (s\<lparr>hb_clock := now\<rparr>)" using ok by (simp add: registry_ok_def)
  have removal: "registry_ok t'" if "disconnect_node k t = Some t'" "registry_ok t" for k t t'
  proof (cases "hb_removals t ! k")
    case (ToDisconnect n)
    with that(1) show ?thesis by (auto simp: disconnect_node_def intro!: registry_shrink [OF that(2)] split: if_splits)
  next
    case (ToRevoke n c)
    have "registry_ok (t\<lparr>hb_auth := a, hb_removals := rs\<rparr>)" for a rs by (rule registry_shrink [OF that(2)]) simp_all
    with that(1) ToRevoke show ?thesis by (auto simp: disconnect_node_def registry_close)
  qed
  from step show ?thesis
    by (rule hub_step_cases)
      (auto intro: registry_append advance_registry removal clock registry_quiet [OF clock]
        simp: issue_install_token_def remove_node_def split: if_splits sum.splits prod.splits)
qed

lemma hub_run_induct:
  assumes "hub_run opts evs s = Some s'" "P s" "\<And>now ev s s'. hub_step opts (now, ev) s = Some s' \<Longrightarrow> P s \<Longrightarrow> P s'"
  shows "P s'"
  using assms(1,2) by (induction evs arbitrary: s) (auto split: option.splits dest: assms(3))

lemma hub_run_registry: "hub_run opts evs (new_hub db) = Some s \<Longrightarrow> registry_ok s"
  by (erule hub_run_induct) (simp add: registry_ok_def new_hub_def, erule (1) hub_step_registry)

end
