(* ===== verification/AgentHubAuth.thy ===== *)
theory AgentHubAuth
  imports AgentHubInv
begin

text \<open>
  Who may be connected as which node: where the credentials of a connection come from, and what an
  install token can be used for, over all interleavings of connections and requests.
\<close>

section \<open>Where credentials come from\<close>

text \<open>A stored token is the hash of a token handed to its node, or was in the database at the start, in plain text perhaps.\<close>

definition known_row :: "token_row list \<Rightarrow> (string \<times> string) list \<Rightarrow> token_row \<Rightarrow> bool" where
  "known_row rows0 handed t \<longleftrightarrow>
     (\<exists>x. (tr_node_id t, x) \<in> set handed \<and> tr_token t = hash_token x)
   \<or> (\<exists>r\<in>set rows0. tr_node_id r = tr_node_id t \<and> (tr_token t = tr_token r \<or> tr_token t = hash_token (tr_token r)))"

text \<open>\<open>x\<close> is a token of node \<open>n\<close>: it was handed to it, has the hash of one that was, or was stored for it at the start.\<close>

definition token_of :: "token_row list \<Rightarrow> (string \<times> string) list \<Rightarrow> string \<Rightarrow> string \<Rightarrow> bool" where
  "token_of rows0 handed n x \<longleftrightarrow>
     (\<exists>y. (n, y) \<in> set handed \<and> hash_token y = hash_token x)
   \<or> (\<exists>r\<in>set rows0. tr_node_id r = n \<and> (tr_token r = x \<or> tr_token r = hash_token x \<or> hash_token (tr_token r) = hash_token x))"

definition awaits_pc :: "link_pc \<Rightarrow> bool" where
  "awaits_pc pc \<longleftrightarrow> pc = Presented \<or> pc = LookedUp \<or> pc = LinkClosed"

fun named_pc :: "link_pc \<Rightarrow> bool" where
  "named_pc Presented = False"
| "named_pc LookedUp = False"
| "named_pc CheckInstall = False"
| "named_pc AwaitHello = False"
| "named_pc LinkClosed = False"
| "named_pc _ = True"

definition credited_pc :: "link_pc \<Rightarrow> bool" where
  "credited_pc pc \<longleftrightarrow> named_pc pc \<and> pc \<noteq> Greeted \<and> pc \<noteq> Unbarred \<and> pc \<noteq> Exchanging \<and> pc \<noteq> Dated"

definition credential_ok :: "hub_options \<Rightarrow> token_row list \<Rightarrow> hub \<Rightarrow> link \<Rightarrow> bool" where
  "credential_ok opts rows0 s l \<longleftrightarrow>
     (\<forall>n. lk_persistent l = Some n \<longrightarrow> token_of rows0 (hb_handed s) n (lk_supplied l))
   \<and> (awaits_pc (lk_pc l) \<or> ho_install_auth opts \<or> using_agent_token opts l \<or> lk_persistent l \<noteq> None)
   \<and> (lk_used_install l \<longrightarrow> lk_supplied l \<in> set (hb_issued s) \<and> (lk_node l, lk_node_token l) \<in> set (hb_handed s) \<and> lk_node l \<noteq> []
        \<and> (credited_pc (lk_pc l) \<or> lk_pc l = LinkClosed))
   \<and> (named_pc (lk_pc l) \<longrightarrow> lk_node l \<noteq> [])
   \<and> (credited_pc (lk_pc l) \<longrightarrow> using_agent_token opts l \<or> lk_persistent l = Some (lk_node l) \<or> lk_used_install l
        \<or> (lk_node l, lk_supplied l) \<in> set (hb_handed s))"

definition handed_ok :: "token_row list \<Rightarrow> hub \<Rightarrow> bool" where
  "handed_ok rows0 s \<longleftrightarrow>
     (\<forall>t\<in>set (nb_tokens (hb_db s)). known_row rows0 (hb_handed s) t)
   \<and> (\<forall>n t. fmlookup (ia_node_tokens (hb_auth s)) n = Some t \<longrightarrow> (n, t) \<in> set (hb_handed s))
   \<and> (\<forall>t e. fmlookup (ia_install_tokens (hb_auth s)) t = Some e \<longrightarrow> t \<in> set (hb_issued s)
        \<and> (it_node_id e \<noteq> [] \<longrightarrow> (it_node_id e, it_node_token e) \<in> set (hb_handed s)))"

definition credentials_ok :: "hub_options \<Rightarrow> token_row list \<Rightarrow> hub \<Rightarrow> bool" where
  "credentials_ok opts rows0 s \<longleftrightarrow> handed_ok rows0 s \<and> (\<forall>l\<in>set (hb_links s). credential_ok opts rows0 s l)"

lemma known_row_token_of:
  assumes "known_row rows0 handed t" "tr_token t = hash_token x \<or> (tr_token t = x \<and> \<not> prefix token_hash_prefix x)"
  shows "token_of rows0 handed (tr_node_id t) x"
  using assms(1) unfolding known_row_def
proof (elim disjE exE bexE conjE)
  fix y assume y: "(tr_node_id t, y) \<in> set handed" "tr_token t = hash_token y"
  then have "hash_token y = hash_token x" using assms(2) by (auto simp: hash_token_def)
  with y show ?thesis by (auto simp: token_of_def)
next
  fix r assume r: "r \<in> set rows0" "tr_node_id r = tr_node_id t" "tr_token t = tr_token r"
  with assms(2) show ?thesis unfolding token_of_def by auto
next
  fix r assume r: "r \<in> set rows0" "tr_node_id r = tr_node_id t" "tr_token t = hash_token (tr_token r)"
  then have "hash_token (tr_token r) = hash_token x" using assms(2) by (auto simp: hash_token_def)
  with r show ?thesis unfolding token_of_def by blast
qed

lemma known_row_mono: "known_row rows0 handed t \<Longrightarrow> set handed \<subseteq> set handed' \<Longrightarrow> known_row rows0 handed' t"
  unfolding known_row_def by blast

lemma token_of_mono: "token_of rows0 handed n x \<Longrightarrow> set handed \<subseteq> set handed' \<Longrightarrow> token_of rows0 handed' n x"
  unfolding token_of_def by blast

text \<open>Looking a token up finds a node it belongs to, and keeps the table known.\<close>

lemma look_up_known:
  assumes found: "node_id_for_token x db = (found, db')" and rows: "\<forall>t\<in>set (nb_tokens db). known_row rows0 handed t"
  shows "(\<forall>n. found = Some n \<longrightarrow> token_of rows0 handed n x) \<and> (\<forall>t\<in>set (nb_tokens db'). known_row rows0 handed t)"
proof (cases "node_with_token db (hash_token x)")
  case (Some n)
  then have res: "found = Some n" "db' = db" using found by (simp_all add: node_id_for_token_def)
  obtain t where "t \<in> set (nb_tokens db)" "tr_token t = hash_token x" "tr_node_id t = n" using node_with_token_Some [OF Some] by blast
  then have "token_of rows0 handed n x" using known_row_token_of [of rows0 handed t x] rows by auto
  then show ?thesis using res rows by simp
next
  case None
  show ?thesis
  proof (cases "prefix token_hash_prefix x \<or> node_with_token db x = None")
    case True
    then have "found = None" "db' = db" using found None by (auto simp: node_id_for_token_def split: if_splits option.splits)
    then show ?thesis using rows by simp
  next
    case False
    then obtain n where n: "node_with_token db x = Some n" and plain: "\<not> prefix token_hash_prefix x" by auto
    have res: "found = Some n" "db' = db\<lparr>nb_tokens := update_rows (\<lambda>t. tr_node_id t = n \<and> tr_token t = x) (\<lambda>t. t\<lparr>tr_token := hash_token x\<rparr>) (nb_tokens db)\<rparr>"
      using found None n plain by (simp_all add: node_id_for_token_def)
    obtain t where t: "t \<in> set (nb_tokens db)" "tr_token t = x" "tr_node_id t = n" using node_with_token_Some [OF n] by blast
    have "token_of rows0 handed n x" using known_row_token_of [of rows0 handed t x] rows t plain by auto
    moreover have "known_row rows0 handed (if tr_node_id u = n \<and> tr_token u = x then u\<lparr>tr_token := hash_token x\<rparr> else u)"
      if "u \<in> set (nb_tokens db)" for u
    proof (cases "tr_node_id u = n \<and> tr_token u = x")
      case True
      have "known_row rows0 handed u" using rows that by blast
      moreover have "tr_token u \<noteq> hash_token y" for y using True plain by (auto simp: hash_token_def)
      ultimately have "\<exists>r\<in>set rows0. tr_node_id r = n \<and> tr_token r = x" using True by (auto simp: known_row_def)
      then show ?thesis using True by (auto simp: known_row_def)
    qed (use rows that in auto)
    moreover have "\<exists>u\<in>set (nb_tokens db). t = (if tr_node_id u = n \<and> tr_token u = x then u\<lparr>tr_token := hash_token x\<rparr> else u)"
      if "t \<in> set (nb_tokens db')" for t
      using that unfolding res by (auto simp: set_update_rows)
    ultimately show ?thesis unfolding res(1) by blast
  qed
qed

lemma save_known:
  assumes "saved_node_token opts n now token db = (saved, db')" "\<forall>t\<in>set (nb_tokens db). known_row rows0 handed t"
  shows "if saved then \<forall>t\<in>set (nb_tokens db'). known_row rows0 ((n, token) # handed) t else db' = db"
proof -
  have old: "known_row rows0 ((n, token) # handed) t" if "t \<in> set (nb_tokens db)" for t
    using known_row_mono [of rows0 handed t "(n, token) # handed"] assms(2) that by auto
  show ?thesis using assms(1) old
    by (auto simp: saved_node_token_def save_node_token_def Let_def set_update_rows split: if_splits prod.splits sum.splits)
      (auto simp: known_row_def)
qed

section \<open>The operations\<close>

lemma handed_ok_mono:
  assumes "handed_ok rows0 s" "set (nb_tokens (hb_db s')) \<subseteq> set (nb_tokens (hb_db s))" "hb_handed s' = hb_handed s" "set (hb_issued s) \<subseteq> set (hb_issued s')"
    "\<And>n t. fmlookup (ia_node_tokens (hb_auth s')) n = Some t \<Longrightarrow> fmlookup (ia_node_tokens (hb_auth s)) n = Some t"
    "\<And>t e. fmlookup (ia_install_tokens (hb_auth s')) t = Some e \<Longrightarrow> fmlookup (ia_install_tokens (hb_auth s)) t = Some e"
  shows "handed_ok rows0 s'"
  using assms(1) assms(2,4) assms(5,6) unfolding handed_ok_def assms(3) by (meson subsetD)

lemma handed_ok_links [simp]: "handed_ok rows0 (update_link i f s) = handed_ok rows0 s" "handed_ok rows0 (goto i pc s) = handed_ok rows0 s"
  "handed_ok rows0 (close_link c s) = handed_ok rows0 s"
  by (simp_all add: handed_ok_def)

lemma nb_tokens_keeps [simp]:
  "nb_tokens (upsert_node now n db) = nb_tokens db" "nb_tokens (set_node_status i st now db) = nb_tokens db"
  "nb_tokens (snd (update_system_info i a b c d now db)) = nb_tokens db"
  "nb_tokens (snd (allow_if_deleted_before i t db)) = nb_tokens db"
  by (simp_all add: upsert_node_def set_node_status_def update_system_info_def allow_if_deleted_before_def Let_def split: option.split)

lemma nb_tokens_kept:
  "allow_if_deleted_before i t db = (a, db') \<Longrightarrow> nb_tokens db' = nb_tokens db"
  "update_system_info i a1 b1 c1 d1 now db = (r, db') \<Longrightarrow> nb_tokens db' = nb_tokens db"
  using nb_tokens_keeps(3,4) by (metis snd_conv)+

lemma nb_tokens_shrinks:
  "set (nb_tokens (delete_if_deleted i db)) \<subseteq> set (nb_tokens db)" "set (nb_tokens (snd (delete_node i now db))) \<subseteq> set (nb_tokens db)"
  by (auto simp: delete_if_deleted_def delete_node_def purge_node_def upsert_deleted_def delete_rows_def)

lemma auth_shrinks:
  "fmlookup (ia_install_tokens (snd (may_authenticate_install_token now x a))) t = Some e \<Longrightarrow> fmlookup (ia_install_tokens a) t = Some e"
  "ia_node_tokens (snd (may_authenticate_install_token now x a)) = ia_node_tokens a"
  "fmlookup (ia_install_tokens (complete_bootstrap n x a)) t = Some e \<Longrightarrow> fmlookup (ia_install_tokens a) t = Some e"
  "fmlookup (ia_node_tokens (complete_bootstrap n x a)) m = Some y \<Longrightarrow> fmlookup (ia_node_tokens a) m = Some y"
  "fmlookup (ia_install_tokens (revoke_node_token n a)) t = Some e \<Longrightarrow> fmlookup (ia_install_tokens a) t = Some e"
  "fmlookup (ia_node_tokens (revoke_node_token n a)) m = Some y \<Longrightarrow> fmlookup (ia_node_tokens a) m = Some y"
  "fmlookup (ia_install_tokens (drop_install_token x a)) t = Some e \<Longrightarrow> fmlookup (ia_install_tokens a) t = Some e"
  "ia_node_tokens (drop_install_token x a) = ia_node_tokens a"
  by (auto simp: may_authenticate_install_token_def drop_install_token_def complete_bootstrap_def revoke_node_token_def
      split: option.splits if_splits)

text \<open>A credential stays good as long as nothing that was issued or handed out is forgotten.\<close>

lemma credential_ok_mono:
  assumes "credential_ok opts rows0 s l" "set (hb_handed s) \<subseteq> set (hb_handed s')" "set (hb_issued s) \<subseteq> set (hb_issued s')"
  shows "credential_ok opts rows0 s' l"
  using assms token_of_mono unfolding credential_ok_def by blast

lemma credentials_update:
  assumes ok: "credentials_ok opts rows0 s" and i: "i < length (hb_links s)"
    and links: "hb_links s' = (hb_links s)[i := hb_links s' ! i]" and handed: "handed_ok rows0 s'"
    and mono: "set (hb_handed s) \<subseteq> set (hb_handed s')" "set (hb_issued s) \<subseteq> set (hb_issued s')"
    and new: "credential_ok opts rows0 s (hb_links s ! i) \<Longrightarrow> credential_ok opts rows0 s' (hb_links s' ! i)"
  shows "credentials_ok opts rows0 s'"
proof -
  have old: "credential_ok opts rows0 s l" if "l \<in> set (hb_links s)" for l using ok that by (simp add: credentials_ok_def)
  have "set (hb_links s') \<subseteq> insert (hb_links s' ! i) (set (hb_links s))" using set_update_subset_insert links by metis
  then show ?thesis using handed new [OF old [OF nth_mem [OF i]]] credential_ok_mono [OF old mono] by (auto simp: credentials_ok_def)
qed

lemma credentials_quiet:
  assumes ok: "credentials_ok opts rows0 s" and "hb_links s' = hb_links s" "handed_ok rows0 s'"
    "hb_handed s' = hb_handed s" "set (hb_issued s) \<subseteq> set (hb_issued s')"
  shows "credentials_ok opts rows0 s'"
  using assms credential_ok_mono [of opts rows0 s _ s'] by (auto simp: credentials_ok_def)

lemma credentials_close:
  assumes "credentials_ok opts rows0 s" shows "credentials_ok opts rows0 (close_link c s)"
proof -
  have "credential_ok opts rows0 (close_link c s) (l\<lparr>lk_closed := b\<rparr>) = credential_ok opts rows0 s l" for l b
    by (simp add: credential_ok_def using_agent_token_def)
  then have "credential_ok opts rows0 (close_link c s) (hb_links (close_link c s) ! j) = credential_ok opts rows0 s (hb_links s ! j)" for j
    by (simp add: close_link_nth)
  then show ?thesis using assms by (simp add: credentials_ok_def handed_ok_def all_set_conv_all_nth)
qed

lemma credential_pc:
  assumes "credential_ok opts rows0 s l" "credited_pc (lk_pc l)" "credited_pc pc"
  shows "credential_ok opts rows0 s (l\<lparr>lk_pc := pc\<rparr>)" "credential_ok opts rows0 s (l\<lparr>lk_pc := LinkClosed\<rparr>)"
  using assms by (auto simp: credential_ok_def credited_pc_def awaits_pc_def using_agent_token_def)

lemma exchange_handed:
  assumes ex: "exchange_install_token now random (Some (saved_node_token opts n now)) x n (hb_auth s, hb_db s) = (r, (auth, db))"
    and ok: "handed_ok rows0 s" and n: "n \<noteq> []"
  shows "case r of
      None \<Rightarrow> handed_ok rows0 (s\<lparr>hb_auth := auth, hb_db := db\<rparr>)
    | Some t \<Rightarrow> x \<in> set (hb_issued s) \<and> handed_ok rows0 (s\<lparr>hb_auth := auth, hb_db := db, hb_handed := (n, t) # hb_handed s\<rparr>)"
proof (cases "fmlookup (ia_install_tokens (hb_auth s)) x")
  case None
  then show ?thesis using ex ok by (auto simp: exchange_install_token_def handed_ok_def)
next
  case (Some e)
  have rows: "\<forall>t\<in>set (nb_tokens (hb_db s)). known_row rows0 (hb_handed s) t" and issued: "x \<in> set (hb_issued s)"
    using ok Some by (auto simp: handed_ok_def)
  have more: "handed_ok rows0 (s\<lparr>hb_handed := (n, t) # hb_handed s\<rparr>)" for t
    using ok known_row_mono [of rows0 "hb_handed s" _ "(n, t) # hb_handed s"] by (fastforce simp: handed_ok_def)
  show ?thesis
  proof (cases "token_expired now e")
    case True
    then show ?thesis using ex ok Some by (auto simp: exchange_install_token_def intro!: handed_ok_mono [OF ok] dest: auth_shrinks(7) simp: auth_shrinks(8))
  next
    case live: False
    show ?thesis
    proof (cases "it_node_id e = []")
      case False
      have "r = (if it_node_id e = n \<and> it_node_token e \<noteq> [] then Some (it_node_token e) else None) \<and> auth = hb_auth s \<and> db = hb_db s"
        using ex by (simp add: exchange_bound [OF Some live False] eq_commute)
      moreover have "s\<lparr>hb_auth := hb_auth s, hb_db := hb_db s, hb_handed := h\<rparr> = s\<lparr>hb_handed := h\<rparr>" for h by simp
      ultimately show ?thesis using ok more issued by simp
    next
      case free: True
      show ?thesis
      proof (cases random)
        case None
        then show ?thesis using ex ok Some live free by (auto simp: exchange_install_token_def)
      next
        case (Some t)
        obtain saved db' where save: "saved_node_token opts n now t (hb_db s) = (saved, db')" by fastforce
        show ?thesis
        proof (cases saved)
          case True
          have "\<forall>u\<in>set (nb_tokens db'). known_row rows0 ((n, t) # hb_handed s) u" using save_known [OF save rows] True by simp
          then show ?thesis using ex Some live free save True ok issued \<open>fmlookup (ia_install_tokens (hb_auth s)) x = Some e\<close>
            by (auto simp: exchange_install_token_def handed_ok_def split: if_splits)
        next
          case False
          have "db' = hb_db s" using save_known [OF save rows] False by simp
          then show ?thesis using ex Some live free save False ok \<open>fmlookup (ia_install_tokens (hb_auth s)) x = Some e\<close>
            by (auto simp: exchange_install_token_def)
        qed
      qed
    qed
  qed
qed

lemma advance_credentials:
  assumes step: "advance_link opts now i input s = Some s'" and ok: "credentials_ok opts rows0 s"
  shows "credentials_ok opts rows0 s'"
proof -
  let ?l = "hb_links s ! i"
  from advance_link_moves [OF step] have i: "i < length (hb_links s)" and move: "link_moves opts now i ?l s s'" by simp_all
  note upd = credentials_update [OF ok i]
  have handed: "handed_ok rows0 s" and rows: "\<forall>t\<in>set (nb_tokens (hb_db s)). known_row rows0 (hb_handed s) t"
    using ok by (auto simp: credentials_ok_def handed_ok_def)
  note shrink = handed_ok_mono [OF handed]
  note defs = Let_def credential_ok_def awaits_pc_def credited_pc_def using_agent_token_def
  from move show ?thesis
  proof cases
    case look_up
    show ?thesis
    proof (cases "node_id_for_token (lk_supplied ?l) (hb_db s)")
      case (Pair found db)
      note known = look_up_known [OF Pair rows]
      show ?thesis
        by (rule upd) (use look_up i known handed Pair in \<open>auto simp: look_up_token_def handed_ok_def defs\<close>)
    qed
  next
    case admit
    show ?thesis by (rule upd) (use admit i handed in \<open>auto simp: admit_token_def handed_ok_def defs\<close>)
  next
    case admit_install
    show ?thesis by (rule upd)
      (use admit_install i in \<open>auto simp: admit_install_token_def case_prod_unfold auth_shrinks(2) defs intro!: shrink dest: auth_shrinks(1)\<close>)
  next
    case (exchange random)
    have named: "lk_node ?l \<noteq> []" using ok i exchange by (auto simp: credentials_ok_def credential_ok_def)
    obtain r auth db where ex: "exchange_install_token now random (Some (saved_node_token opts (lk_node ?l) now)) (lk_supplied ?l) (lk_node ?l)
        (hb_auth s, hb_db s) = (r, (auth, db))" by (metis prod_cases3)
    note handed' = exchange_handed [OF ex handed named]
    show ?thesis by (rule upd)
      (use exchange i ex handed' named in \<open>auto simp: exchange_token_def defs intro: token_of_mono split: option.splits\<close>)
  next
    case confirm
    show ?thesis
    proof (cases "node_id_for_token (lk_supplied ?l) (hb_db s)")
      case (Pair found db)
      have "handed_ok rows0 (s\<lparr>hb_db := db\<rparr>)" using look_up_known [OF Pair rows] handed by (simp add: handed_ok_def)
      then have "handed_ok rows0 s'" using confirm handed Pair by (simp add: confirm_credential_def split: if_splits)
      then show ?thesis by (rule upd [rotated])
        (use confirm i Pair in \<open>auto simp: confirm_credential_def defs split: if_splits\<close>)
    qed
  next
    case credential
    have "(n, t) \<in> set (hb_handed s)" if "auth_node_token (hb_auth s) n = Some t" for n t
      using handed that by (simp add: handed_ok_def auth_node_token_def)
    then show ?thesis
      by (intro upd) (use credential i handed in \<open>auto simp: find_credential_def defs split: option.splits\<close>)
  next
    case (session sid) show ?thesis by (rule upd) (use session i in \<open>auto simp: start_session_def defs intro!: shrink\<close>)
  next
    case register show ?thesis by (rule upd) (use register i in \<open>auto simp: register_connection_def defs intro!: shrink\<close>)
  next
    case (replace previous)
    have closed: "credentials_ok opts rows0 (close_link c t)" if "hb_links t = hb_links s" "handed_ok rows0 t" "hb_handed t = hb_handed s"
      "hb_issued t = hb_issued s" for c t
    proof -
      have "credentials_ok opts rows0 t" using credentials_quiet [OF ok that(1,2,3)] that(4) by simp
      then show ?thesis by (rule credentials_close)
    qed
    have greeting: "credentials_ok opts rows0 (goto i Greeting (close_link c t))" if "hb_links t = hb_links s" "handed_ok rows0 t"
      "hb_handed t = hb_handed s" "hb_issued t = hb_issued s" for c t
    proof (rule credentials_update [OF closed [OF that]])
      show "i < length (hb_links (close_link c t))" "handed_ok rows0 (goto i Greeting (close_link c t))" using that i by simp_all
      have pc: "lk_pc (hb_links (close_link c t) ! i) = Registered previous" using that replace by (simp add: close_link_nth)
      assume "credential_ok opts rows0 (close_link c t) (hb_links (close_link c t) ! i)"
      from credential_pc(1) [OF this, of Greeting] pc
      show "credential_ok opts rows0 (goto i Greeting (close_link c t)) (hb_links (goto i Greeting (close_link c t)) ! i)"
        using that i by (simp add: credential_ok_def credited_pc_def)
    qed (use that i in simp_all)
    from greeting [where c = None and t = s] handed have "credentials_ok opts rows0 (goto i Greeting s)" by (simp add: close_link_def)
    then show ?thesis by (auto simp: replace replace_connection_def Let_def intro!: greeting shrink split: option.split)
  qed (rule upd; use i in \<open>auto simp: quiet_steps defs intro!: shrink dest: auth_shrinks(3,4) nb_tokens_kept nb_tokens_shrinks(1) [THEN subsetD] split: option.splits prod.splits sum.splits if_splits\<close>)+
qed

lemma created_lookup:
  "fmlookup (ia_install_tokens (snd (create_install_token now token a))) t = Some e \<Longrightarrow>
     fmlookup (ia_install_tokens a) t = Some e \<or> (t = token \<and> it_node_id e = [] \<and> it_created_at e = now)"
  "ia_node_tokens (snd (create_install_token now token a)) = ia_node_tokens a"
  by (auto simp: create_install_token_def prune_expired_install_tokens_def Let_def split: if_splits option.splits)

lemma hub_step_credentials:
  assumes step: "hub_step opts (now, ev) s = Some s'" and ok: "credentials_ok opts rows0 s"
  shows "credentials_ok opts rows0 s'"
proof -
  let ?s = "s\<lparr>hb_clock := now\<rparr>"
  have clock: "credentials_ok opts rows0 ?s" using ok by (simp add: credentials_ok_def handed_ok_def credential_ok_def)
  have handed: "handed_ok rows0 ?s" using clock by (simp add: credentials_ok_def)
  note quiet = credentials_quiet [OF clock]
  from step show ?thesis
  proof (rule hub_step_cases, elim disjE exE conjE, goal_cases)
    case (1 header query remote)
    have "credential_ok opts rows0 s' (new_link header query remote)"
      by (simp add: credential_ok_def new_link_def Let_def awaits_pc_def credited_pc_def)
    then show ?case using clock 1 by (auto simp: credentials_ok_def handed_ok_def present_credentials_def credential_ok_def)
  next
    case (2 i input)
    then show ?case using advance_credentials clock by blast
  next
    case (3 token)
    then have s': "s' = ?s\<lparr>hb_auth := snd (create_install_token now token (hb_auth s)), hb_issued := token # hb_issued s\<rparr>"
      by (simp add: issue_install_token_def split: if_splits)
    have "handed_ok rows0 s'"
      using handed created_lookup(1) [of now token "hb_auth s"] unfolding handed_ok_def s' by (simp add: created_lookup(2)) blast
    then show ?case by (rule quiet [rotated]) (auto simp: s')
  next
    case (4 nodeID)
    have "handed_ok rows0 s'"
      by (rule handed_ok_mono [OF handed]) (use 4 nb_tokens_shrinks(2) [of nodeID now "hb_db s"] in \<open>auto simp: remove_node_def split: sum.splits prod.splits\<close>)
    then show ?case by (rule quiet [rotated]) (auto simp: 4 remove_node_def split: sum.splits prod.splits)
  next
    case (5 k)
    show ?case
    proof (cases "hb_removals s ! k")
      case (ToDisconnect n)
      have "handed_ok rows0 s'" by (rule handed_ok_mono [OF handed]) (use 5 ToDisconnect in \<open>auto simp: disconnect_node_def\<close>)
      then show ?thesis by (rule quiet [rotated]) (use 5 ToDisconnect in \<open>auto simp: disconnect_node_def\<close>)
    next
      case (ToRevoke n c)
      let ?t = "?s\<lparr>hb_auth := revoke_node_token n (hb_auth s), hb_removals := take k (hb_removals s) @ drop (Suc k) (hb_removals s)\<rparr>"
      have "handed_ok rows0 ?t" by (rule handed_ok_mono [OF handed]) (auto dest: auth_shrinks(5,6))
      then have "credentials_ok opts rows0 ?t" by (rule quiet [rotated]) auto
      moreover have "s' = close_link c ?t" using 5 ToRevoke by (simp add: disconnect_node_def)
      ultimately show ?thesis using credentials_close by simp
    qed
  qed
qed

lemma hub_run_credentials:
  assumes "hub_run opts evs (new_hub db) = Some s"
  shows "credentials_ok opts (nb_tokens db) s"
  using assms
proof (rule hub_run_induct)
  show "credentials_ok opts (nb_tokens db) (new_hub db)"
    by (auto simp: credentials_ok_def handed_ok_def new_hub_def new_install_auth_def known_row_def)
qed (rule hub_step_credentials)

text \<open>C29: A connection is registered for a node only with the configured agent token, with a token of that very node (handed to it by the server or stored for it at the start), or with an install token that was issued and bound to it.\<close>

theorem registered_connections_are_authenticated:
  assumes "hub_run opts evs (new_hub db) = Some s" "hb_connections s n = Some i"
  shows "\<exists>l. l = hb_links s ! i \<and> i < length (hb_links s) \<and> lk_node l = n
    \<and> (using_agent_token opts l \<or> token_of (nb_tokens db) (hb_handed s) n (lk_supplied l)
       \<or> (lk_supplied l \<in> set (hb_issued s) \<and> (n, lk_node_token l) \<in> set (hb_handed s)))"
proof -
  note reg = registry_okD(1-3) [OF hub_run_registry [OF assms(1)] assms(2)]
  let ?l = "hb_links s ! i"
  have "credential_ok opts (nb_tokens db) s ?l" using hub_run_credentials [OF assms(1)] reg(1) by (simp add: credentials_ok_def)
  moreover have "credited_pc (lk_pc ?l)" using reg(3) by (cases "lk_pc ?l") (simp_all add: credited_pc_def)
  ultimately show ?thesis using reg(1,2) by (auto simp: credential_ok_def token_of_def)
qed

section \<open>Install tokens\<close>

text \<open>
  An entry that is bound agrees with every connection that used its token, an entry that is not bound has
  no such connection, and a token is never issued twice.
\<close>

definition binding_ok :: "hub \<Rightarrow> bool" where
  "binding_ok s \<longleftrightarrow>
     (\<forall>l\<in>set (hb_links s). lk_used_install l \<longrightarrow> lk_supplied l \<in> set (hb_issued s) \<and>
        (\<forall>e. fmlookup (ia_install_tokens (hb_auth s)) (lk_supplied l) = Some e \<longrightarrow> it_node_id e = lk_node l \<and> it_node_token e = lk_node_token l))
   \<and> (\<forall>l\<in>set (hb_links s). \<forall>l'\<in>set (hb_links s). lk_used_install l \<longrightarrow> lk_used_install l' \<longrightarrow> lk_supplied l = lk_supplied l' \<longrightarrow>
        lk_node l = lk_node l' \<and> lk_node_token l = lk_node_token l')"

lemma binding_okD:
  assumes "binding_ok s" "l \<in> set (hb_links s)" "lk_used_install l"
  shows "lk_supplied l \<in> set (hb_issued s)"
    "fmlookup (ia_install_tokens (hb_auth s)) (lk_supplied l) = Some e \<Longrightarrow> it_node_id e = lk_node l \<and> it_node_token e = lk_node_token l"
    "l' \<in> set (hb_links s) \<Longrightarrow> lk_used_install l' \<Longrightarrow> lk_supplied l = lk_supplied l' \<Longrightarrow> lk_node l = lk_node l' \<and> lk_node_token l = lk_node_token l'"
  using assms unfolding binding_ok_def by blast+

definition same_binding :: "link \<Rightarrow> link \<Rightarrow> bool" where
  "same_binding l l' \<longleftrightarrow> (lk_used_install l' \<longrightarrow> lk_used_install l \<and> lk_supplied l' = lk_supplied l \<and> lk_node l' = lk_node l
     \<and> lk_node_token l' = lk_node_token l)"

lemma binding_keeps:
  assumes ok: "binding_ok s" and len: "\<And>l'. l' \<in> set (hb_links s') \<Longrightarrow> lk_used_install l' \<Longrightarrow> \<exists>l\<in>set (hb_links s). same_binding l l'"
    and issued: "set (hb_issued s) \<subseteq> set (hb_issued s')"
    and entries: "\<And>t e. fmlookup (ia_install_tokens (hb_auth s')) t = Some e \<Longrightarrow> t \<in> set (hb_issued s) \<Longrightarrow>
      fmlookup (ia_install_tokens (hb_auth s)) t = Some e"
  shows "binding_ok s'"
proof -
  have old: "\<exists>l\<in>set (hb_links s). lk_used_install l \<and> lk_supplied l' = lk_supplied l \<and> lk_node l' = lk_node l \<and> lk_node_token l' = lk_node_token l"
    if "l' \<in> set (hb_links s')" "lk_used_install l'" for l'
    using len [OF that] that(2) by (auto simp: same_binding_def)
  show ?thesis unfolding binding_ok_def
  proof (intro conjI ballI impI allI)
    fix l' assume l': "l' \<in> set (hb_links s')" "lk_used_install l'"
    then obtain l where l: "l \<in> set (hb_links s)" "lk_used_install l" "lk_supplied l' = lk_supplied l" "lk_node l' = lk_node l"
      "lk_node_token l' = lk_node_token l" using old by blast
    show "lk_supplied l' \<in> set (hb_issued s')" using binding_okD(1) [OF ok l(1,2)] issued l(3) by auto
    show "it_node_id e = lk_node l'" "it_node_token e = lk_node_token l'"
      if e: "fmlookup (ia_install_tokens (hb_auth s')) (lk_supplied l') = Some e" for e
      using binding_okD(2) [OF ok l(1,2) entries [OF e [unfolded l(3)] binding_okD(1) [OF ok l(1,2)]]] l by simp_all
    fix m' assume m': "m' \<in> set (hb_links s')" "lk_used_install m'" and eq: "lk_supplied l' = lk_supplied m'"
    then obtain m where m: "m \<in> set (hb_links s)" "lk_used_install m" "lk_supplied m' = lk_supplied m" "lk_node m' = lk_node m"
      "lk_node_token m' = lk_node_token m" using old by blast
    show "lk_node l' = lk_node m'" "lk_node_token l' = lk_node_token m'"
      using binding_okD(3) [OF ok l(1,2) m(1,2)] l m eq by simp_all
  qed
qed

lemma binding_update:
  assumes ok: "binding_ok s" and i: "i < length (hb_links s)" and links: "hb_links s' = (hb_links s)[i := hb_links s' ! i]"
    and same: "same_binding (hb_links s ! i) (hb_links s' ! i)" and issued: "set (hb_issued s) \<subseteq> set (hb_issued s')"
    and entries: "\<And>t e. fmlookup (ia_install_tokens (hb_auth s')) t = Some e \<Longrightarrow> fmlookup (ia_install_tokens (hb_auth s)) t = Some e"
  shows "binding_ok s'"
proof (rule binding_keeps [OF ok])
  fix l' assume "l' \<in> set (hb_links s')"
  then have "l' = hb_links s' ! i \<or> l' \<in> set (hb_links s)" using set_update_subset_insert links by (metis insert_iff subsetD)
  then show "\<exists>l\<in>set (hb_links s). same_binding l l'"
    using same nth_mem [OF i] by (auto simp: same_binding_def)
qed (use issued entries in auto)

lemma advance_binding:
  assumes step: "advance_link opts now i input s = Some s'" and ok: "binding_ok s" and cred: "credentials_ok opts rows0 s"
  shows "binding_ok s'"
proof -
  let ?l = "hb_links s ! i"
  from advance_link_moves [OF step] have i: "i < length (hb_links s)" and move: "link_moves opts now i ?l s s'" by simp_all
  note upd = binding_update [OF ok i]
  have "credential_ok opts rows0 s ?l" using cred nth_mem [OF i] by (simp add: credentials_ok_def)
  then have used: "lk_used_install ?l \<Longrightarrow> credited_pc (lk_pc ?l) \<or> lk_pc ?l = LinkClosed" and named: "named_pc (lk_pc ?l) \<Longrightarrow> lk_node ?l \<noteq> []"
    by (auto simp: credential_ok_def)
  note defs = Let_def same_binding_def credited_pc_def
  from move show ?thesis
  proof cases
    case (exchange random)
    obtain r auth db where ex: "exchange_install_token now random (Some (saved_node_token opts (lk_node ?l) now)) (lk_supplied ?l) (lk_node ?l)
        (hb_auth s, hb_db s) = (r, (auth, db))" by (metis prod_cases3)
    have node: "lk_node ?l \<noteq> []" using named exchange by simp
    show ?thesis
    proof (cases r)
      case None
      have "auth = hb_auth s \<or> auth = drop_install_token (lk_supplied ?l) (hb_auth s)"
        using ex unfolding None by (rule exchange_None)
      then show ?thesis
        by (intro upd) (use exchange i ex None in \<open>auto simp: exchange_token_def defs drop_install_token_def split: if_splits\<close>)
    next
      case (Some t)
      let ?l' = "?l\<lparr>lk_node_token := t, lk_used_install := True, lk_pc := Credited\<rparr>"
      have links: "hb_links s' = (hb_links s)[i := ?l']" and auth: "hb_auth s' = auth" and issued: "hb_issued s' = hb_issued s"
        using exchange ex Some by (simp_all add: exchange_token_def)
      obtain e where e: "fmlookup (ia_install_tokens (hb_auth s)) (lk_supplied ?l) = Some e"
        and how: "(it_node_id e = lk_node ?l \<and> it_node_token e = t \<and> auth = hb_auth s)
          \<or> (it_node_id e = [] \<and> fmlookup (ia_install_tokens auth)
              = (fmlookup (ia_install_tokens (hb_auth s)))(lk_supplied ?l \<mapsto> e\<lparr>it_node_id := lk_node ?l, it_node_token := t\<rparr>))"
        using exchange_Some [OF ex [unfolded Some] node] by blast
      have known: "lk_supplied ?l \<in> set (hb_issued s)" using cred e by (auto simp: credentials_ok_def handed_ok_def)
      have others: "lk_node m = lk_node ?l \<and> lk_node_token m = t"
        if "m \<in> set (hb_links s)" "lk_used_install m" "lk_supplied m = lk_supplied ?l" for m
      proof -
        have "lk_node m \<noteq> []" using cred that by (auto simp: credentials_ok_def credential_ok_def)
        moreover have "it_node_id e = lk_node m \<and> it_node_token e = lk_node_token m" using binding_okD(2) [OF ok that(1,2)] e that(3) by simp
        ultimately show ?thesis using how by auto
      qed
      have entry: "fmlookup (ia_install_tokens auth) (lk_supplied ?l) = Some f \<Longrightarrow> it_node_id f = lk_node ?l \<and> it_node_token f = t" for f
        using how e by auto
      have rest: "x \<noteq> lk_supplied ?l \<Longrightarrow> fmlookup (ia_install_tokens auth) x = fmlookup (ia_install_tokens (hb_auth s)) x" for x
        using how by auto
      have split: "m = ?l' \<or> m \<in> set (hb_links s)" if "m \<in> set (hb_links s')" for m
        using that unfolding links using set_update_subset_insert by fast
      show ?thesis unfolding binding_ok_def
      proof (intro conjI ballI impI allI)
        fix m assume m: "m \<in> set (hb_links s')" "lk_used_install m"
        show "lk_supplied m \<in> set (hb_issued s')" using split [OF m(1)] known binding_okD(1) [OF ok _ m(2)] issued by auto
        show "it_node_id f = lk_node m" "it_node_token f = lk_node_token m"
          if f: "fmlookup (ia_install_tokens (hb_auth s')) (lk_supplied m) = Some f" for f
          using split [OF m(1)] entry [of f] others [of m] rest [of "lk_supplied m"] binding_okD(2) [OF ok _ m(2), of f] f auth m(2)
          by (cases "lk_supplied m = lk_supplied ?l"; auto)+
        fix m' assume m': "m' \<in> set (hb_links s')" "lk_used_install m'" and eq: "lk_supplied m = lk_supplied m'"
        show "lk_node m = lk_node m'" "lk_node_token m = lk_node_token m'"
          using split [OF m(1)] split [OF m'(1)] others [of m] others [of m'] binding_okD(3) [OF ok _ m(2) _ m'(2)] m(2) m'(2) eq by auto
      qed
    qed
  next
    case (replace previous)
    have greeting: "binding_ok (goto i Greeting (close_link c t))" if t: "hb_links t = hb_links s" "hb_auth t = hb_auth s" "hb_issued t = hb_issued s" for c t
    proof (rule binding_keeps [OF ok])
      fix l' assume "l' \<in> set (hb_links (goto i Greeting (close_link c t)))"
      then obtain j where j: "j < length (hb_links s)" "l' = hb_links (goto i Greeting (close_link c t)) ! j" using t by (auto simp: in_set_conv_nth)
      then have "same_binding (hb_links s ! j) l'" using t i by (cases "j = i") (auto simp: same_binding_def close_link_nth)
      then show "\<exists>l\<in>set (hb_links s). same_binding l l'" using nth_mem [OF j(1)] by blast
    qed (use t in auto)
    from greeting [where c = None and t = s] have "binding_ok (goto i Greeting s)" by (simp add: close_link_def)
    then show ?thesis by (auto simp: replace replace_connection_def Let_def intro!: greeting split: option.split)
  next
    case (session sid) show ?thesis by (rule upd) (use session i in \<open>auto simp: start_session_def defs\<close>)
  next
    case register show ?thesis by (rule upd) (use register i in \<open>auto simp: register_connection_def defs\<close>)
  next
    case admit_install
    show ?thesis by (rule upd)
      (use admit_install i in \<open>auto simp: admit_install_token_def case_prod_unfold defs dest: auth_shrinks(1)\<close>)
  qed (rule upd; use i used in \<open>auto simp: quiet_steps defs dest: auth_shrinks(3) split: option.splits prod.splits sum.splits if_splits\<close>)+
qed

lemma same_binding_refl: "l' \<in> set (hb_links s) \<Longrightarrow> \<exists>l\<in>set (hb_links s). same_binding l l'"
  by (auto simp: same_binding_def)

lemma binding_close: "binding_ok s \<Longrightarrow> binding_ok (close_link c s)"
proof (rule binding_keeps)
  fix l' assume "l' \<in> set (hb_links (close_link c s))"
  then obtain j where j: "j < length (hb_links s)" "l' = hb_links (close_link c s) ! j" by (auto simp: in_set_conv_nth)
  then have "same_binding (hb_links s ! j) l'" by (simp add: close_link_nth same_binding_def)
  then show "\<exists>l\<in>set (hb_links s). same_binding l l'" using nth_mem [OF j(1)] by blast
qed auto

lemma hub_step_binding:
  assumes step: "hub_step opts (now, ev) s = Some s'" and ok: "binding_ok s" and cred: "credentials_ok opts rows0 s"
  shows "binding_ok s'"
proof -
  let ?s = "s\<lparr>hb_clock := now\<rparr>"
  have clock: "binding_ok ?s" "credentials_ok opts rows0 ?s"
    by (rule binding_keeps [OF ok]; simp add: same_binding_refl) (use cred in \<open>simp add: credentials_ok_def handed_ok_def credential_ok_def\<close>)
  note keeps = binding_keeps [OF clock(1)]
  from step show ?thesis
  proof (rule hub_step_cases, elim disjE exE conjE, goal_cases)
    case (1 header query remote)
    show ?case by (rule keeps) (use 1 in \<open>auto simp: present_credentials_def new_link_def Let_def same_binding_def\<close>)
  next
    case (2 i input)
    then show ?case using advance_binding clock by blast
  next
    case (3 token)
    then have s': "token \<notin> set (hb_issued s)" "s' = ?s\<lparr>hb_auth := snd (create_install_token now token (hb_auth s)), hb_issued := token # hb_issued s\<rparr>"
      by (simp_all add: issue_install_token_def split: if_splits)
    show ?case by (rule keeps) (use s' created_lookup(1) [of now token "hb_auth s"] in \<open>auto intro: same_binding_refl\<close>)
  next
    case (4 nodeID)
    show ?case by (rule keeps) (use 4 in \<open>auto simp: remove_node_def same_binding_def split: sum.splits prod.splits\<close>)
  next
    case (5 k)
    show ?case
    proof (cases "hb_removals s ! k")
      case (ToDisconnect n)
      show ?thesis by (rule keeps) (use 5 ToDisconnect in \<open>auto simp: disconnect_node_def same_binding_def\<close>)
    next
      case (ToRevoke n c)
      let ?t = "?s\<lparr>hb_auth := revoke_node_token n (hb_auth s), hb_removals := take k (hb_removals s) @ drop (Suc k) (hb_removals s)\<rparr>"
      have "binding_ok ?t" by (rule keeps) (auto simp: same_binding_def dest: auth_shrinks(5))
      moreover have "s' = close_link c ?t" using 5 ToRevoke by (simp add: disconnect_node_def)
      ultimately show ?thesis using binding_close by simp
    qed
  qed
qed

lemma hub_run_binding:
  assumes "hub_run opts evs (new_hub db) = Some s"
  shows "binding_ok s"
proof -
  have "binding_ok s \<and> credentials_ok opts (nb_tokens db) s"
    using assms
  proof (rule hub_run_induct)
    have "credentials_ok opts (nb_tokens db) (new_hub db)" by (rule hub_run_credentials [of opts "[]"]) simp
    then show "binding_ok (new_hub db) \<and> credentials_ok opts (nb_tokens db) (new_hub db)" by (simp add: binding_ok_def new_hub_def)
  qed (auto intro: hub_step_binding hub_step_credentials)
  then show ?thesis ..
qed

text \<open>C30: An install token admits one node: any two connections that exchanged the same install token, whenever and however they interleave, are connections of the same node and got the same node token.\<close>

theorem install_token_binds_one_node:
  assumes "hub_run opts evs (new_hub db) = Some s" "i < length (hb_links s)" "j < length (hb_links s)"
    and "lk_used_install (hb_links s ! i)" "lk_used_install (hb_links s ! j)" "lk_supplied (hb_links s ! i) = lk_supplied (hb_links s ! j)"
  shows "lk_node (hb_links s ! i) = lk_node (hb_links s ! j) \<and> lk_node_token (hb_links s ! i) = lk_node_token (hb_links s ! j)"
  using binding_okD(3) [OF hub_run_binding [OF assms(1)] nth_mem [OF assms(2)] assms(4) nth_mem [OF assms(3)] assms(5,6)] .

end
