(* ===== verification/AgentHubSpec.thy ===== *)
theory AgentHubSpec
  imports AgentHubAuth
begin

text \<open>
  What the hub promises about deleted nodes and about its registry, with the races that the code leaves
  open shown on concrete runs.
\<close>

section \<open>Deletion marks\<close>

lemma deleted_keeps [simp]:
  "nb_deleted (upsert_node now nd db) = nb_deleted db" "nb_deleted (set_node_status i st now db) = nb_deleted db"
  "nb_deleted (purge_node i db) = nb_deleted db" "nb_deleted (delete_if_deleted i db) = nb_deleted db"
  by (simp_all add: upsert_node_def set_node_status_def purge_node_def delete_if_deleted_def Let_def)

lemma deleted_kept:
  "update_system_info i a b c d now db = (r, db') \<Longrightarrow> nb_deleted db' = nb_deleted db"
  "node_id_for_token x db = (f, db') \<Longrightarrow> nb_deleted db' = nb_deleted db"
  "saved_node_token opts m now x db = (ok, db') \<Longrightarrow> nb_deleted db' = nb_deleted db"
  by (auto simp: update_system_info_def node_id_for_token_def saved_node_token_def save_node_token_def Let_def
      split: if_splits option.splits sum.splits prod.splits)

lemma deleted_at_cong: "nb_deleted db' = nb_deleted db \<Longrightarrow> deleted_at db' n = deleted_at db n"
  by (simp add: deleted_at_def)

lemma find_delete_rows:
  assumes "\<And>r. P r \<Longrightarrow> \<not> Q r" shows "List.find P (delete_rows Q rs) = List.find P rs"
  using assms by (induction rs) auto

lemma deleted_at_allow:
  assumes "allow_if_deleted_before m cutoff db = (ok, db')"
  shows "m \<noteq> n \<Longrightarrow> deleted_at db' n = deleted_at db n"
    "deleted_at db n = Some t \<Longrightarrow> cutoff \<le> t \<Longrightarrow> m = n \<Longrightarrow> \<not> ok \<and> db' = db"
proof -
  assume "m \<noteq> n"
  then have "List.find (\<lambda>d. fst d = n) (delete_rows (\<lambda>d. fst d = m \<and> snd d = b) ds) = List.find (\<lambda>d. fst d = n) ds" for ds and b :: time
    by (intro find_delete_rows) auto
  then show "deleted_at db' n = deleted_at db n"
    using assms by (auto simp: allow_if_deleted_before_def deleted_at_def split: option.splits if_splits)
qed (use assms in \<open>auto simp: allow_if_deleted_before_def split: option.splits if_splits\<close>)

lemma deleted_at_upsert: "deleted_at (upsert_deleted m now db) n = (if m = n then Some now else deleted_at db n)"
proof -
  define mark where "mark ds = map_option snd (List.find (\<lambda>d. fst d = n) ds)" for ds :: "(string \<times> time) list"
  have append: "mark (ds @ [(m, now)]) = (case mark ds of None \<Rightarrow> if m = n then Some now else None | Some t \<Rightarrow> Some t)" for ds
    by (induction ds) (auto simp: mark_def)
  have update: "mark (update_rows (\<lambda>d. fst d = m) (\<lambda>d. (m, now)) ds) = (if m = n \<and> mark ds \<noteq> None then Some now else mark ds)" for ds
    by (induction ds) (auto simp: mark_def)
  have none: "m = n \<Longrightarrow> count_rows (\<lambda>d. fst d = m) ds = 0 \<longleftrightarrow> mark ds = None" for ds
    by (auto simp: count_rows_eq_0 find_None_iff mark_def)
  show ?thesis unfolding deleted_at_def mark_def [symmetric] using none [of "nb_deleted db"] append [of "nb_deleted db"] update [of "nb_deleted db"]
    by (cases "m = n"; cases "mark (nb_deleted db)") (simp_all add: upsert_deleted_def)
qed

lemma deleted_at_delete:
  "deleted_at (snd (delete_node m now db)) n = (if find_node db m \<noteq> None \<and> m = n then Some now else deleted_at db n)"
  using deleted_at_upsert [of m now db n] by (auto simp: delete_node_def deleted_at_def)

section \<open>Dates\<close>

text \<open>Install tokens carry times that the clock has reached.\<close>

definition dates_ok :: "time \<Rightarrow> hub \<Rightarrow> bool" where
  "dates_ok T s \<longleftrightarrow> 0 \<le> T
     \<and> (\<forall>x e. fmlookup (ia_install_tokens (hb_auth s)) x = Some e \<longrightarrow> it_created_at e \<le> T)
     \<and> (\<forall>l\<in>set (hb_links s). \<forall>t. lk_token_created l = Some t \<longrightarrow> t \<le> T)"

lemma dates_mono: "dates_ok T s \<Longrightarrow> T \<le> U \<Longrightarrow> dates_ok U s"
  unfolding dates_ok_def by (meson order_trans)

lemma dates_keeps:
  assumes "dates_ok T s"
    and "\<And>l' t. l' \<in> set (hb_links s') \<Longrightarrow> lk_token_created l' = Some t \<Longrightarrow> \<exists>l\<in>set (hb_links s). lk_token_created l = Some t"
    and "\<And>x e. fmlookup (ia_install_tokens (hb_auth s')) x = Some e \<Longrightarrow> \<exists>f. fmlookup (ia_install_tokens (hb_auth s)) x = Some f \<and> it_created_at f = it_created_at e"
  shows "dates_ok T s'"
  using assms unfolding dates_ok_def by (metis (no_types, lifting))

lemma dates_update:
  assumes ok: "dates_ok T s" and i: "i < length (hb_links s)" and links: "hb_links s' = (hb_links s)[i := hb_links s' ! i]"
    and same: "lk_token_created (hb_links s' ! i) = lk_token_created (hb_links s ! i)"
    and entries: "\<And>x e. fmlookup (ia_install_tokens (hb_auth s')) x = Some e \<Longrightarrow> fmlookup (ia_install_tokens (hb_auth s)) x = Some e"
  shows "dates_ok T s'"
proof (rule dates_keeps [OF ok])
  fix l' t assume "l' \<in> set (hb_links s')" and t: "lk_token_created l' = Some t"
  then have "l' = hb_links s' ! i \<or> l' \<in> set (hb_links s)" using set_update_subset_insert links by (metis insert_iff subsetD)
  then show "\<exists>l\<in>set (hb_links s). lk_token_created l = Some t" using same t nth_mem [OF i] by auto
qed (use entries in blast)

lemma dates_close: "dates_ok T s \<Longrightarrow> dates_ok T (close_link c s)"
proof (erule dates_keeps)
  fix l' t assume "l' \<in> set (hb_links (close_link c s))" "lk_token_created l' = Some t"
  then obtain j where "j < length (hb_links s)" "lk_token_created (hb_links s ! j) = Some t" by (auto simp: in_set_conv_nth close_link_nth)
  then show "\<exists>l\<in>set (hb_links s). lk_token_created l = Some t" by force
qed auto

lemma advance_dates:
  assumes step: "advance_link opts now i input s = Some s'" and ok: "dates_ok T s"
  shows "dates_ok T s'"
proof -
  let ?l = "hb_links s ! i"
  from advance_link_moves [OF step] have i: "i < length (hb_links s)" and move: "link_moves opts now i ?l s s'" by simp_all
  note upd = dates_update [OF ok i]
  from move show ?thesis
  proof cases
    case (exchange random)
    obtain r auth db where ex: "exchange_install_token now random (Some (saved_node_token opts (lk_node ?l) now)) (lk_supplied ?l) (lk_node ?l)
        (hb_auth s, hb_db s) = (r, (auth, db))" by (metis prod_cases3)
    have auth: "fmlookup (ia_install_tokens auth) x = Some e \<Longrightarrow> \<exists>f. fmlookup (ia_install_tokens (hb_auth s)) x = Some f \<and> it_created_at f = it_created_at e" for x e
      using ex by (auto simp: exchange_install_token_def drop_install_token_def split: option.splits if_splits prod.splits)
    have s': "s' = (case r of None \<Rightarrow> goto i LinkClosed (s\<lparr>hb_auth := auth, hb_db := db\<rparr>)
      | Some token \<Rightarrow> update_link i (\<lambda>l. l\<lparr>lk_node_token := token, lk_used_install := True, lk_pc := Credited\<rparr>)
            (s\<lparr>hb_auth := auth, hb_db := db, hb_handed := (lk_node ?l, token) # hb_handed s\<rparr>))"
      unfolding exchange(1) exchange_token_def ex by (cases r) simp_all
    have new: "hb_auth s' = auth" and links: "hb_links s' = (hb_links s)[i := hb_links s' ! i]"
      and same: "lk_token_created (hb_links s' ! i) = lk_token_created ?l"
      unfolding s' using i by (simp_all split: option.split)
    show ?thesis
    proof (rule dates_keeps [OF ok])
      fix l' t assume "l' \<in> set (hb_links s')" and t: "lk_token_created l' = Some t"
      then have "l' = hb_links s' ! i \<or> l' \<in> set (hb_links s)" using set_update_subset_insert links by (metis insert_iff subsetD)
      then show "\<exists>l\<in>set (hb_links s). lk_token_created l = Some t" using same t nth_mem [OF i] by auto
    qed (use auth new in blast)
  next
    case date
    have "dates_ok T s'" if "hb_links s' = (hb_links s)[i := l']" "hb_auth s' = hb_auth s" "\<forall>t. lk_token_created l' = Some t \<longrightarrow> t \<le> T" for l'
      using ok that set_update_subset_insert [of "hb_links s" i l'] by (auto simp: dates_ok_def)
    moreover have "install_token_created_at now (lk_supplied ?l) (hb_auth s) = Some t \<Longrightarrow> t \<le> T" for t
      using ok by (auto simp: dates_ok_def install_token_created_at_def split: option.splits if_splits)
    ultimately show ?thesis by (simp add: date date_install_token_def)
  next
    case (replace previous)
    have greeting: "dates_ok T (goto i Greeting (close_link c t))" if t: "hb_links t = hb_links s" "hb_auth t = hb_auth s" for c t
    proof -
      have "dates_ok T t" using ok t by (simp add: dates_ok_def)
      then have d: "dates_ok T (close_link c t)" by (rule dates_close)
      have len: "i < length (hb_links t)" using i t by simp
      show ?thesis by (rule dates_update [OF d, of i]) (simp_all add: len)
    qed
    from greeting [where c = None and t = s] have "dates_ok T (goto i Greeting s)" by (simp add: close_link_def)
    then show ?thesis by (auto simp: replace replace_connection_def Let_def intro!: greeting split: option.split)
  next
    case (session sid) show ?thesis by (rule upd) (use session i in \<open>auto simp: start_session_def\<close>)
  next
    case register show ?thesis by (rule upd) (use register i in \<open>auto simp: register_connection_def\<close>)
  next
    case admit_install
    show ?thesis by (rule upd)
      (use admit_install i in \<open>auto simp: admit_install_token_def case_prod_unfold Let_def dest: auth_shrinks(1)\<close>)
  qed (rule upd; use i in \<open>auto simp: quiet_steps Let_def dest: auth_shrinks(3) split: option.splits prod.splits sum.splits if_splits\<close>)+
qed

lemma hub_step_dates:
  assumes step: "hub_step opts (now, ev) s = Some s'" and ok: "dates_ok T s" and issued: "\<And>x. ev = IssueToken x \<Longrightarrow> now \<le> T"
  shows "dates_ok T s'"
proof -
  let ?s = "s\<lparr>hb_clock := now\<rparr>"
  have clock: "dates_ok T ?s" using ok by (simp add: dates_ok_def)
  note keeps = dates_keeps [OF clock]
  from step show ?thesis
  proof (rule hub_step_cases, elim disjE exE conjE, goal_cases)
    case (1 header query remote)
    show ?case by (rule keeps) (use 1 in \<open>auto simp: present_credentials_def new_link_def Let_def\<close>)
  next
    case (2 i input)
    then show ?case using advance_dates clock by blast
  next
    case (3 token)
    then have s': "s' = ?s\<lparr>hb_auth := snd (create_install_token now token (hb_auth s)), hb_issued := token # hb_issued s\<rparr>" and now: "now \<le> T"
      using issued by (simp_all add: issue_install_token_def split: if_splits)
    have "it_created_at e \<le> T" if "fmlookup (ia_install_tokens (hb_auth s')) x = Some e" for x e
      using created_lookup(1) that now clock unfolding s' dates_ok_def by fastforce
    then show ?case using clock by (simp add: dates_ok_def s')
  next
    case (4 nodeID)
    show ?case by (rule keeps) (use 4 in \<open>auto simp: remove_node_def split: sum.splits prod.splits\<close>)
  next
    case (5 k)
    show ?case
    proof (cases "hb_removals s ! k")
      case (ToDisconnect n)
      show ?thesis by (rule keeps) (use 5 ToDisconnect in \<open>auto simp: disconnect_node_def\<close>)
    next
      case (ToRevoke n c)
      let ?t = "?s\<lparr>hb_auth := revoke_node_token n (hb_auth s), hb_removals := take k (hb_removals s) @ drop (Suc k) (hb_removals s)\<rparr>"
      have "dates_ok T ?t" by (rule keeps) (auto dest: auth_shrinks(5))
      moreover have "s' = close_link c ?t" using 5 ToRevoke by (simp add: disconnect_node_def)
      ultimately show ?thesis using dates_close by simp
    qed
  qed
qed

lemma hub_step_clock: "hub_step opts (now, ev) s = Some s' \<Longrightarrow> hb_clock s \<le> now \<and> hb_clock s' = now"
proof (erule hub_step_cases, elim disjE exE conjE, goal_cases)
  case (2 i input)
  from advance_link_moves [OF 2(3)] have "link_moves opts now i (hb_links (s\<lparr>hb_clock := now\<rparr>) ! i) (s\<lparr>hb_clock := now\<rparr>) s'" by simp
  then have "hb_clock s' = now"
    by cases (auto simp: quiet_steps start_session_def register_connection_def replace_connection_def Let_def
        split: option.splits prod.splits sum.splits if_splits)
  with 2 show ?case by simp
qed (auto simp: present_credentials_def issue_install_token_def remove_node_def disconnect_node_def
      split: if_splits sum.splits prod.splits removal.splits)

lemma hub_run_dates: "hub_run opts evs (new_hub db) = Some s \<Longrightarrow> dates_ok (hb_clock s) s"
proof (erule hub_run_induct)
  fix now ev and s s' :: hub assume step: "hub_step opts (now, ev) s = Some s'" and "dates_ok (hb_clock s) s"
  then have "dates_ok now s" using hub_step_clock [OF step] dates_mono by blast
  from hub_step_dates [OF step this] show "dates_ok (hb_clock s') s'" using hub_step_clock [OF step] by simp
qed (simp add: dates_ok_def new_hub_def new_install_auth_def)

section \<open>Deleted nodes\<close>

text \<open>The connection has passed the check for a deletion mark in \<open>agentCredentialStillValid\<close>.\<close>

fun admitted_pc :: "link_pc \<Rightarrow> bool" where
  "admitted_pc NotMarked = True"
| "admitted_pc Confirmed = True"
| "admitted_pc Bootstrapped = True"
| "admitted_pc InSession = True"
| "admitted_pc Announced = True"
| "admitted_pc pc = registered_pc pc"

definition barred :: "string \<Rightarrow> time \<Rightarrow> hub \<Rightarrow> bool" where
  "barred n T s \<longleftrightarrow> (\<exists>t. deleted_at (hb_db s) n = Some t \<and> T \<le> t) \<and> T \<le> hb_clock s \<and> dates_ok T s
     \<and> (\<forall>l\<in>set (hb_links s). lk_node l = n \<longrightarrow> \<not> admitted_pc (lk_pc l))"

lemma barred_update:
  assumes b: "barred n T s" and i: "i < length (hb_links s)" and links: "hb_links s' = (hb_links s)[i := hb_links s' ! i]"
    and "dates_ok T s'" "hb_clock s' = hb_clock s" "deleted_at (hb_db s') n = deleted_at (hb_db s) n"
    and new: "lk_node (hb_links s' ! i) = n \<Longrightarrow> admitted_pc (lk_pc (hb_links s' ! i)) \<Longrightarrow> lk_node (hb_links s ! i) = n \<and> admitted_pc (lk_pc (hb_links s ! i))"
  shows "barred n T s'"
proof -
  have "\<not> admitted_pc (lk_pc l')" if l': "l' \<in> set (hb_links s')" "lk_node l' = n" for l'
  proof -
    have "l' = hb_links s' ! i \<or> l' \<in> set (hb_links s)" using l'(1) set_update_subset_insert links by (metis insert_iff subsetD)
    then show ?thesis using b new l'(2) nth_mem [OF i] by (auto simp: barred_def)
  qed
  then show ?thesis using b assms(4-6) by (simp add: barred_def)
qed

lemma barred_same:
  assumes "barred n T s" "hb_links s' = hb_links s" "dates_ok T s'" "hb_clock s \<le> hb_clock s'"
    "\<exists>t. deleted_at (hb_db s') n = Some t \<and> T \<le> t"
  shows "barred n T s'"
  using assms by (auto simp: barred_def)

lemma advance_clock: "advance_link opts now i input s = Some s' \<Longrightarrow> hb_clock s' = hb_clock s"
proof -
  assume "advance_link opts now i input s = Some s'"
  then have "link_moves opts now i (hb_links s ! i) s s'" using advance_link_moves by blast
  then show ?thesis
    by cases (auto simp: quiet_steps start_session_def register_connection_def replace_connection_def Let_def
        split: option.splits prod.splits sum.splits if_splits)
qed

lemma advance_barred:
  assumes step: "advance_link opts now i input s = Some s'" and b: "barred n T s"
  shows "barred n T s'"
proof -
  let ?l = "hb_links s ! i"
  from advance_link_moves [OF step] have i: "i < length (hb_links s)" and move: "link_moves opts now i ?l s s'" by simp_all
  have dates: "dates_ok T s" using b by (simp add: barred_def)
  note upd = barred_update [OF b i _ advance_dates [OF step dates] advance_clock [OF step]]
  obtain t where t: "deleted_at (hb_db s) n = Some t" "T \<le> t" using b by (auto simp: barred_def)
  from move show ?thesis
  proof cases
    case readmit
    show ?thesis
    proof (cases "lk_used_install ?l")
      case False
      show ?thesis by (rule upd) (use readmit i False in \<open>auto simp: readmit_node_def\<close>)
    next
      case True
      let ?cutoff = "case lk_token_created ?l of None \<Rightarrow> 0 | Some c \<Rightarrow> c"
      obtain ok db where allow: "allow_if_deleted_before (lk_node ?l) ?cutoff (hb_db s) = (ok, db)" by fastforce
      have "?cutoff \<le> T" using dates nth_mem [OF i] by (auto simp: dates_ok_def split: option.split)
      then have "deleted_at db n = deleted_at (hb_db s) n"
        using deleted_at_allow(1) [OF allow, of n] deleted_at_allow(2) [OF allow t(1)] t(2) by (cases "lk_node ?l = n") auto
      moreover have "s' = goto i (if ok then Readmitted else Refused) (s\<lparr>hb_db := db\<rparr>)"
        unfolding readmit(1) readmit_node_def using True allow by simp
      ultimately show ?thesis using i by (intro upd) (auto split: if_splits)
    qed
  next
    case recheck
    have "is_deleted (hb_db s) n" using t by (simp add: is_deleted_def)
    then show ?thesis by (intro upd) (use recheck i in \<open>auto simp: recheck_deleted_def split: if_splits\<close>)
  next
    case (exchange random)
    obtain r auth db where ex: "exchange_install_token now random (Some (saved_node_token opts (lk_node ?l) now)) (lk_supplied ?l) (lk_node ?l)
        (hb_auth s, hb_db s) = (r, (auth, db))" by (metis prod_cases3)
    have "nb_deleted db = nb_deleted (hb_db s)"
      using ex by (auto simp: exchange_install_token_def dest: deleted_kept(3) split: option.splits if_splits prod.splits)
    then have del: "deleted_at db n = deleted_at (hb_db s) n" by (rule deleted_at_cong)
    have s': "s' = (case r of None \<Rightarrow> goto i LinkClosed (s\<lparr>hb_auth := auth, hb_db := db\<rparr>)
      | Some token \<Rightarrow> update_link i (\<lambda>l. l\<lparr>lk_node_token := token, lk_used_install := True, lk_pc := Credited\<rparr>)
            (s\<lparr>hb_auth := auth, hb_db := db, hb_handed := (lk_node ?l, token) # hb_handed s\<rparr>))"
      unfolding exchange(1) exchange_token_def ex by (cases r) simp_all
    show ?thesis by (rule upd) (use i del s' in \<open>auto split: option.splits\<close>)
  next
    case (replace previous)
    have greeting: "barred n T (goto i Greeting (close_link c u))" if u: "hb_links u = hb_links s" "hb_auth u = hb_auth s" "hb_clock u = hb_clock s"
      "nb_deleted (hb_db u) = nb_deleted (hb_db s)" for c u
    proof -
      have "dates_ok T u" using dates u by (simp add: dates_ok_def)
      then have du: "dates_ok T (close_link c u)" by (rule dates_close)
      have "barred n T u" using b \<open>dates_ok T u\<close> u(1,3) deleted_at_cong [OF u(4)] by (simp add: barred_def)
      then have c: "barred n T (close_link c u)" using du by (simp add: barred_def all_set_conv_all_nth close_link_nth)
      have len: "i < length (hb_links u)" using i u by simp
      have "dates_ok T (goto i Greeting (close_link c u))" by (rule dates_update [OF du, of i]) (simp_all add: len)
      then show ?thesis by (intro barred_update [OF c, of i]) (use len u replace in \<open>simp_all add: close_link_nth\<close>)
    qed
    from greeting [where c = None and u = s] have "barred n T (goto i Greeting s)" by (simp add: close_link_def)
    then show ?thesis by (auto simp: replace replace_connection_def Let_def intro!: greeting split: option.split)
  next
    case (session sid) show ?thesis by (rule upd) (use session i in \<open>auto simp: start_session_def\<close>)
  next
    case register show ?thesis by (rule upd) (use register i in \<open>auto simp: register_connection_def\<close>)
  next
    case admit_install
    show ?thesis by (rule upd) (use admit_install i in \<open>auto simp: admit_install_token_def case_prod_unfold Let_def split: if_splits\<close>)
  qed (rule upd; use i in \<open>auto simp: quiet_steps Let_def dest: deleted_kept split: option.splits prod.splits sum.splits if_splits intro!: deleted_at_cong\<close>)+
qed

lemma hub_step_barred:
  assumes step: "hub_step opts (now, ev) s = Some s'" and b: "barred n T s" and issued: "\<And>x. ev = IssueToken x \<Longrightarrow> now \<le> T"
  shows "barred n T s'"
proof -
  let ?s = "s\<lparr>hb_clock := now\<rparr>"
  have dates: "dates_ok T s'" using hub_step_dates [OF step _ issued] b by (simp add: barred_def)
  have now: "hb_clock s \<le> now" "hb_clock s' = now" using hub_step_clock [OF step] by simp_all
  have clock: "barred n T ?s" using b now by (simp add: barred_def dates_ok_def)
  obtain t where t: "deleted_at (hb_db s) n = Some t" "T \<le> t" "T \<le> hb_clock s" using b by (auto simp: barred_def)
  note same = barred_same [OF b _ dates]
  from step show ?thesis
  proof (rule hub_step_cases, elim disjE exE conjE, goal_cases)
    case (1 header query remote)
    then show ?case using clock dates by (auto simp: barred_def present_credentials_def new_link_def Let_def)
  next
    case (2 i input)
    then show ?case using advance_barred clock by blast
  next
    case (3 token)
    have "hb_links s' = hb_links s" "hb_db s' = hb_db s"
      using 3(4) by (auto simp: issue_install_token_def split: if_splits)
    then show ?case by (intro same) (use t now in auto)
  next
    case (4 nodeID)
    have db: "hb_db s' = snd (delete_node nodeID now (hb_db s))" and links: "hb_links s' = hb_links s"
      by (simp_all add: 4 remove_node_def split: sum.splits prod.splits)
    show ?case by (rule same [OF links]) (use t now deleted_at_delete [of nodeID now "hb_db s" n] in \<open>auto simp: db\<close>)
  next
    case (5 k)
    show ?case
    proof (cases "hb_removals s ! k")
      case (ToDisconnect m)
      show ?thesis by (rule same) (use 5 ToDisconnect t now in \<open>auto simp: disconnect_node_def\<close>)
    next
      case (ToRevoke m c)
      let ?t = "?s\<lparr>hb_auth := revoke_node_token m (hb_auth s), hb_removals := take k (hb_removals s) @ drop (Suc k) (hb_removals s)\<rparr>"
      have s': "s' = close_link c ?t" using 5 ToRevoke by (simp add: disconnect_node_def)
      have "\<forall>l\<in>set (hb_links s'). lk_node l = n \<longrightarrow> \<not> admitted_pc (lk_pc l)"
        using b unfolding s' by (simp add: barred_def all_set_conv_all_nth close_link_nth)
      then show ?thesis using t now dates by (simp add: barred_def s')
    qed
  qed
qed

text \<open>C31: Once a node is deleted and none of its connections is already past the check for the deletion mark, it stays deleted and gets no connection registered, whatever connections and requests follow, until an install token is issued after the deletion.\<close>

theorem deleted_node_stays_out:
  assumes run: "hub_run opts evs (new_hub db) = Some s" and remove: "hub_step opts (T, RemoveNode n) s = Some s1"
    and stored: "find_node (hb_db s) n \<noteq> None" and unadmitted: "list_all (\<lambda>l. lk_node l = n \<longrightarrow> \<not> admitted_pc (lk_pc l)) (hb_links s)"
    and later: "hub_run opts evs' s1 = Some s2" and issued: "list_all (\<lambda>(now, ev). (\<exists>x. ev = IssueToken x) \<longrightarrow> now \<le> T) evs'"
  shows "is_deleted (hb_db s2) n \<and> hb_connections s2 n = None"
proof -
  have s1: "s1 = remove_node T n (s\<lparr>hb_clock := T\<rparr>)" and clock: "hb_clock s \<le> T"
    using remove by (simp_all add: hub_step_def split: if_splits)
  have fields: "hb_links s1 = hb_links s" "hb_auth s1 = hb_auth s" "hb_clock s1 = T" "hb_db s1 = snd (delete_node n T (hb_db s))"
    by (simp_all add: s1 remove_node_def split: sum.splits prod.splits)
  have dates: "dates_ok T s" using hub_run_dates [OF run] clock by (rule dates_mono)
  have "barred n T s1"
    using unadmitted dates stored by (simp add: barred_def fields dates_ok_def deleted_at_delete list_all_iff)
  then have "barred n T s2" using later issued
    by (induction evs' arbitrary: s1) (auto split: option.splits intro: hub_step_barred)
  moreover have "registry_ok s2"
  proof -
    have append: "hub_run opts (es @ es') h = (case hub_run opts es h of None \<Rightarrow> None | Some h' \<Rightarrow> hub_run opts es' h')" for es es' h
      by (induction es arbitrary: h) (simp_all split: option.split)
    have "hub_run opts (evs @ (T, RemoveNode n) # evs') (new_hub db) = Some s2" by (simp add: append run remove later)
    then show ?thesis by (rule hub_run_registry)
  qed
  ultimately show ?thesis
  proof -
    assume b: "barred n T s2" and reg: "registry_ok s2"
    have "hb_connections s2 n = Some i \<Longrightarrow> False" for i
      using registry_okD(1-3) [OF reg, of n i] b nth_mem [of i "hb_links s2"]
      by (cases "lk_pc (hb_links s2 ! i)") (auto simp: barred_def)
    moreover have "is_deleted (hb_db s2) n" using b by (auto simp: barred_def is_deleted_def)
    ultimately show ?thesis by fastforce
  qed
qed

end
