(* ===== verification/AgentHubRuns.thy ===== *)
theory AgentHubRuns
  imports AgentHubSpec
begin

text \<open>
  Concrete runs of the hub: the witnesses of the theorems about connections, and the race between a
  connection and the deletion of its node that the code leaves open.
\<close>

section \<open>A connection that is served\<close>

definition sample_options :: hub_options where
  "sample_options = \<lparr>ho_agent_token = ''k'', ho_install_auth = True, ho_agent_tokens = False\<rparr>"

definition sample_db :: node_db where
  "sample_db = empty_node_db\<lparr>nb_nodes := [zero_node ''n1'']\<rparr>"

definition sample_hello :: hello where
  "sample_hello = zero_hello\<lparr>he_node_id := ''n1''\<rparr>"

text \<open>The steps of a connection with the agent token up to the check for the deletion mark, and from there to its service.\<close>

definition to_check :: "nat \<Rightarrow> (time \<times> hub_event) list" where
  "to_check i = map (\<lambda>input. (5, Advance i input)) [NoInput, NoInput, HelloInput sample_hello, NoInput, NoInput, NoInput, NoInput, NoInput, NoInput]"

definition to_service :: "nat \<Rightarrow> (time \<times> hub_event) list" where
  "to_service i = map (\<lambda>input. (7, Advance i input)) [NoInput, SessionInput ''s'', NoInput, NoInput, NoInput, WriteInput True]"

definition served_run :: "(time \<times> hub_event) list" where
  "served_run = [(5, Connect ''Bearer k'' [] ''r'')] @ to_check 0 @ to_service 0"

lemma sample_texts: "bearer_token ''Bearer k'' = ''k''" "bearer_token [] = []" "node_id_for_hello sample_hello = ''n1''"
  by (simp_all add: eval_text bearer_token_def text_fields_segs.simps node_id_for_hello_def sample_hello_def zero_hello_def char_of_eq_iff)

lemma sample_hello_version: "he_protocol_version sample_hello = 0"
  by (simp add: sample_hello_def zero_hello_def)

lemmas hub_eval = sample_hello_version sample_options_def sample_db_def to_check_def to_service_def sample_texts hub_step_def advance_link_def
  goto_def update_link_def present_credentials_def new_link_def using_agent_token_def quiet_steps start_session_def
  register_connection_def replace_connection_def disconnect_node_def remove_node_def close_link_def Let_def
  record_connection_event_def new_hub_def empty_node_db_def is_deleted_def deleted_at_def upsert_node_def hello_node_def zero_node_def
  find_node_def delete_node_def purge_node_def upsert_deleted_def

lemma served: "map_option (\<lambda>s. (hb_connections s ''n1'', map lk_pc (hb_links s))) (hub_run sample_options served_run (new_hub sample_db)) = Some (Some 0, [Serving])"
  unfolding served_run_def by (simp add: hub_eval)

theorem registered_connections_are_authenticated_witness:
  "\<exists>s l. hub_run sample_options served_run (new_hub sample_db) = Some s \<and> l = hb_links s ! 0 \<and> 0 < length (hb_links s) \<and> lk_node l = ''n1''
    \<and> (using_agent_token sample_options l \<or> token_of (nb_tokens sample_db) (hb_handed s) ''n1'' (lk_supplied l)
       \<or> (lk_supplied l \<in> set (hb_issued s) \<and> (''n1'', lk_node_token l) \<in> set (hb_handed s)))"
proof -
  obtain s where s: "hub_run sample_options served_run (new_hub sample_db) = Some s" "hb_connections s ''n1'' = Some 0"
    using served by auto
  from s(1) registered_connections_are_authenticated [OF s] show ?thesis by blast
qed

section \<open>Two connections with one install token\<close>

definition install_link :: "nat \<Rightarrow> (time \<times> hub_event) list" where
  "install_link i = (5, Connect [] ''it'' ''r'') # map (\<lambda>input. (5, Advance i input))
     [NoInput, NoInput, NoInput, HelloInput sample_hello, NoInput, NoInput, NoInput, RandomInput (Some ''nt'')]"

definition install_run :: "(time \<times> hub_event) list" where
  "install_run = (5, IssueToken ''it'') # install_link 0 @ install_link 1"

lemma fmkeep_empty [simp]: "fmkeep P fmempty = fmempty"
  by (rule fmap_ext) simp

lemmas install_eval = nanos_per_second_def fcard_fempty install_link_def issue_install_token_def create_install_token_def prune_expired_install_tokens_def
  new_install_auth_def max_install_tokens_def may_authenticate_install_token_def token_expired_def install_token_ttl_def
  auth_node_token_def install_token_created_at_def exchange_install_token_def saved_node_token_def exchange_token_def

lemma installed:
  "map_option (\<lambda>s. map (\<lambda>l. (lk_node l, lk_used_install l, lk_supplied l)) (hb_links s)) (hub_run sample_options install_run (new_hub sample_db))
     = Some [(''n1'', True, ''it''), (''n1'', True, ''it'')]"
  unfolding install_run_def by (simp add: hub_eval install_eval)

theorem install_token_binds_one_node_witness:
  "\<exists>s. hub_run sample_options install_run (new_hub sample_db) = Some s \<and> length (hb_links s) = 2
     \<and> lk_node (hb_links s ! 0) = lk_node (hb_links s ! 1) \<and> lk_node_token (hb_links s ! 0) = lk_node_token (hb_links s ! 1)"
proof -
  obtain s where s: "hub_run sample_options install_run (new_hub sample_db) = Some s"
    and links: "map (\<lambda>l. (lk_node l, lk_used_install l, lk_supplied l)) (hb_links s) = [(''n1'', True, ''it''), (''n1'', True, ''it'')]"
    using installed by auto
  from links obtain a b where ab: "hb_links s = [a, b]" "lk_used_install a" "lk_used_install b" "lk_supplied a = lk_supplied b"
    by (auto simp: map_eq_Cons_conv)
  from install_token_binds_one_node [OF s, of 0 1] s ab show ?thesis by simp
qed

section \<open>A deleted node\<close>

definition late_events :: "(time \<times> hub_event) list" where
  "late_events = [(6, ContinueRemoval 0), (6, ContinueRemoval 0), (7, Connect ''Bearer k'' [] ''r''), (7, Advance 0 NoInput), (7, Advance 0 NoInput),
     (7, Advance 0 (HelloInput sample_hello)), (7, Advance 0 NoInput)]"

lemma late_connection: "\<exists>s1 s2. hub_step sample_options (5, RemoveNode ''n1'') (new_hub sample_db) = Some s1
    \<and> hub_run sample_options late_events s1 = Some s2"
  by (simp add: late_events_def hub_eval)

theorem deleted_node_stays_out_witness:
  "\<exists>s1 s2. hub_step sample_options (5, RemoveNode ''n1'') (new_hub sample_db) = Some s1 \<and> hub_run sample_options late_events s1 = Some s2
     \<and> is_deleted (hb_db s2) ''n1'' \<and> hb_connections s2 ''n1'' = None"
proof -
  obtain s1 s2 where s: "hub_step sample_options (5, RemoveNode ''n1'') (new_hub sample_db) = Some s1"
    "hub_run sample_options late_events s1 = Some s2" using late_connection by blast
  have "hub_run sample_options [] (new_hub sample_db) = Some (new_hub sample_db)" by simp
  note out = deleted_node_stays_out [OF this s(1) _ _ s(2)]
  have "is_deleted (hb_db s2) ''n1'' \<and> hb_connections s2 ''n1'' = None"
    by (rule out) (simp_all add: sample_db_def empty_node_db_def new_hub_def find_node_def zero_node_def late_events_def)
  with s show ?thesis by blast
qed

section \<open>A deletion during a connection\<close>

text \<open>
  The check for the deletion mark and the registration are separate steps.  A node that is deleted
  between them, its deletion completed, is registered and served all the same.
\<close>

definition checked :: hub where
  "checked = the (hub_run sample_options ((5, Connect ''Bearer k'' [] ''r'') # to_check 0) (new_hub sample_db))"

definition race :: "(time \<times> hub_event) list" where
  "race = [(6, RemoveNode ''n1''), (6, ContinueRemoval 0), (6, ContinueRemoval 0)] @ to_service 0"

lemma checked_fields:
  "hub_run sample_options ((5, Connect ''Bearer k'' [] ''r'') # to_check 0) (new_hub sample_db) = Some checked
  \<and> hb_clock checked = 5 \<and> hb_connections checked = Map.empty \<and> hb_removals checked = [] \<and> find_node (hb_db checked) ''n1'' \<noteq> None
  \<and> map (\<lambda>l. (lk_node l, lk_pc l, lk_persistent l, lk_closed l)) (hb_links checked) = [(''n1'', Confirmed, None, False)]"
  unfolding checked_def by (simp add: hub_eval)

lemma hub_run_append: "hub_run opts (es @ es') h = (case hub_run opts es h of None \<Rightarrow> None | Some h' \<Rightarrow> hub_run opts es' h')"
  by (induction es arbitrary: h) (simp_all split: option.split)

lemma hub_step_now: "hub_step opts (now, e) s0 = (if now < hb_clock s0 then None
      else (let s = s0\<lparr>hb_clock := now\<rparr> in
        case e of
          Connect header query remote \<Rightarrow> Some (present_credentials header query remote s)
        | Advance i input \<Rightarrow> advance_link opts now i input s
        | IssueToken token \<Rightarrow> issue_install_token now token s
        | RemoveNode nodeID \<Rightarrow> Some (remove_node now nodeID s)
        | ContinueRemoval k \<Rightarrow> if k < length (hb_removals s) then disconnect_node k s else None))"
  by (simp add: hub_step_def)

lemma raced_rest:
  assumes "hb_clock s = 5" "hb_connections s = Map.empty" "hb_removals s = []" "find_node (hb_db s) ''n1'' \<noteq> None" "hb_links s = [l]"
    "lk_node l = ''n1''" "lk_pc l = Confirmed" "lk_persistent l = None" "\<not> lk_closed l"
  shows "map_option (\<lambda>s. (is_deleted (hb_db s) ''n1'', hb_removals s, hb_connections s ''n1'', map lk_pc (hb_links s)))
     (hub_run sample_options race s)
     = Some (True, [], Some 0, [Serving])"
proof -
  obtain db where db: "delete_node ''n1'' 6 (hb_db s) = (Inr (), db)" "deleted_at db ''n1'' = Some 6"
    using assms(4) deleted_at_delete [of "''n1''" 6 "hb_db s" "''n1''"] by (cases "delete_node ''n1'' 6 (hb_db s)") (auto simp: delete_node_def split: if_splits)
  have del: "deleted_at (snd (create_connection_event now e db)) ''n1'' = Some 6" for now e
    using db(2) by (simp add: deleted_at_def)
  show ?thesis
    by (simp add: assms del db hub_step_now advance_link_def remove_node_def disconnect_node_def close_link_def goto_def update_link_def
      quiet_steps start_session_def register_connection_def replace_connection_def record_connection_event_def is_deleted_def race_def to_service_def Let_def)
qed

lemma deleted_node_is_served:
  "map_option (\<lambda>s. (is_deleted (hb_db s) ''n1'', hb_removals s, hb_connections s ''n1'', map lk_pc (hb_links s)))
     (hub_run sample_options (((5, Connect ''Bearer k'' [] ''r'') # to_check 0) @ race) (new_hub sample_db)) = Some (True, [], Some 0, [Serving])"
proof -
  from checked_fields obtain l where l: "hb_links checked = [l]" "lk_node l = ''n1''" "lk_pc l = Confirmed" "lk_persistent l = None" "\<not> lk_closed l"
    by (auto simp: map_eq_Cons_conv)
  from raced_rest [OF _ _ _ _ l] checked_fields show ?thesis unfolding hub_run_append by (simp del: hub_run.simps)
qed

end
