(* ===== verification/NodeOrganizations.thy ===== *)
theory NodeOrganizations
  imports GoText "HOL-Library.List_Lexorder" "HOL-Library.Char_ord"
begin

text \<open>
  \<^verbatim>\<open>internal/server/store/node_organizations.go\<close>: groups, tags and their assignment to nodes.  Of the table of
  nodes, the columns \<^verbatim>\<open>id\<close> and \<^verbatim>\<open>group_id\<close> are kept; \<open>register_node\<close> and \<open>drop_node\<close> are what
  \<^verbatim>\<open>nodes.go\<close> does to them and to the links.  \<open>ul\<close> is \<^verbatim>\<open>unicode.ToLower\<close> outside ASCII.
\<close>

section \<open>Data\<close>

record group_row =
  gr_id :: string
  gr_name :: string
  gr_normalized_name :: string
  gr_created_at :: time
  gr_updated_at :: time

record tag_row =
  tg_id :: string
  tg_name :: string
  tg_normalized_name :: string
  tg_color :: string
  tg_created_at :: time
  tg_updated_at :: time

record organization_db =
  ob_nodes :: "(string \<times> string option) list"
  ob_groups :: "group_row list"
  ob_tags :: "tag_row list"
  ob_links :: "(string \<times> string) list"

definition empty_organization_db :: organization_db where
  "empty_organization_db = \<lparr>ob_nodes = [], ob_groups = [], ob_tags = [], ob_links = []\<rparr>"

record node_group =
  ng_id :: string
  ng_name :: string
  ng_node_count :: nat
  ng_created_at :: time
  ng_updated_at :: time

record node_tag =
  nt_id :: string
  nt_name :: string
  nt_color :: string
  nt_node_count :: nat
  nt_created_at :: time
  nt_updated_at :: time

record node_organization =
  no_group :: "(string \<times> string) option"
  no_tags :: "(string \<times> string \<times> string) list"

record batch_update =
  bu_node_ids :: "string list"
  bu_group_id_set :: bool
  bu_group_id :: "string option"
  bu_add_tag_ids :: "string list"
  bu_remove_tag_ids :: "string list"

datatype organization_error = OrganizationInvalid string | OrganizationConflict | OrganizationNoRows | OrganizationFailed

definition max_node_group_name_runes :: int where "max_node_group_name_runes = 64"
definition max_node_tag_name_runes :: int where "max_node_tag_name_runes = 32"
definition max_node_tags_per_node :: nat where "max_node_tags_per_node = 20"
definition max_batch_metadata_nodes :: nat where "max_batch_metadata_nodes = 100"

definition node_tag_colors :: "string list" where
  "node_tag_colors = [''green'', ''teal'', ''blue'', ''amber'', ''red'', ''gray'']"

section \<open>Validation\<close>

definition normalize_organization_name :: "(nat \<Rightarrow> nat) \<Rightarrow> string \<Rightarrow> int \<Rightarrow> string \<Rightarrow> organization_error + string \<times> string" where
  "normalize_organization_name ul name maxRunes kind =
     (let displayName = trim_space name in
      if displayName = [] then Inl (OrganizationInvalid (kind @ '' name is required''))
      else if rune_count displayName > maxRunes then Inl (OrganizationInvalid (kind @ '' name is too long''))
      else Inr (displayName, to_lower ul displayName))"

definition normalize_tag_color :: "(nat \<Rightarrow> nat) \<Rightarrow> string \<Rightarrow> organization_error + string" where
  "normalize_tag_color ul color0 =
     (let color1 = to_lower ul (trim_space color0); color = (if color1 = [] then ''gray'' else color1) in
      if color \<notin> set node_tag_colors then Inl (OrganizationInvalid ''unsupported tag color'') else Inr color)"

text \<open>Sixteen random bytes; \<open>None\<close> when the source of randomness fails.\<close>

definition organization_id :: "string \<Rightarrow> nat list option \<Rightarrow> organization_error + string" where
  "organization_id pre random =
     (case random of None \<Rightarrow> Inl OrganizationFailed | Some bytes \<Rightarrow> Inr (pre @ ''_'' @ hex_encode bytes))"

fun validate_ids_loop :: "string \<Rightarrow> string list \<Rightarrow> string list \<Rightarrow> organization_error + string list" where
  "validate_ids_loop kind res [] = Inr res"
| "validate_ids_loop kind res (v # vs) =
     (let i = trim_space v in
      if i = [] then Inl (OrganizationInvalid (kind @ '' id is required''))
      else if i \<in> set res then Inl (OrganizationInvalid (''duplicate '' @ kind @ '' id''))
      else validate_ids_loop kind (res @ [i]) vs)"

definition validate_unique_ids_allow_empty :: "string list \<Rightarrow> nat \<Rightarrow> string \<Rightarrow> organization_error + string list" where
  "validate_unique_ids_allow_empty values limit kind =
     (if length values > limit then Inl (OrganizationInvalid (''too many '' @ kind @ '' ids'')) else validate_ids_loop kind [] values)"

definition validate_unique_ids :: "string list \<Rightarrow> nat \<Rightarrow> string \<Rightarrow> organization_error + string list" where
  "validate_unique_ids values limit kind =
     (if values = [] then Inl (OrganizationInvalid (''at least one '' @ kind @ '' id is required''))
      else validate_unique_ids_allow_empty values limit kind)"

definition unique_strings :: "string list \<Rightarrow> string list" where
  "unique_strings values = foldl (\<lambda>res v. if v \<in> set res then res else res @ [v]) [] values"

section \<open>Groups\<close>

definition node_group_of :: "organization_db \<Rightarrow> group_row \<Rightarrow> node_group" where
  "node_group_of db g = \<lparr>ng_id = gr_id g, ng_name = gr_name g, ng_node_count = count_rows (\<lambda>n. snd n = Some (gr_id g)) (ob_nodes db),
     ng_created_at = gr_created_at g, ng_updated_at = gr_updated_at g\<rparr>"

definition create_group :: "(nat \<Rightarrow> nat) \<Rightarrow> nat list option \<Rightarrow> time \<Rightarrow> string \<Rightarrow> organization_db \<Rightarrow> (organization_error + node_group) \<times> organization_db" where
  "create_group ul random now name = run_tx (\<lambda>db.
     bindE (normalize_organization_name ul name max_node_group_name_runes ''group'') (\<lambda>(displayName, normalizedName).
     bindE (organization_id ''group'' random) (\<lambda>i.
     bindE (failIf (\<exists>g\<in>set (ob_groups db). gr_id g = i \<or> gr_normalized_name g = normalizedName) OrganizationConflict) (\<lambda>_.
     Inr (\<lparr>ng_id = i, ng_name = displayName, ng_node_count = 0, ng_created_at = now, ng_updated_at = now\<rparr>,
          db\<lparr>ob_groups := ob_groups db @ [\<lparr>gr_id = i, gr_name = displayName, gr_normalized_name = normalizedName,
             gr_created_at = now, gr_updated_at = now\<rparr>]\<rparr>)))))"

definition get_group :: "organization_db \<Rightarrow> string \<Rightarrow> organization_error + node_group" where
  "get_group db i = (case List.find (\<lambda>g. gr_id g = i) (ob_groups db) of None \<Rightarrow> Inl OrganizationNoRows | Some g \<Rightarrow> Inr (node_group_of db g))"

definition list_groups :: "organization_db \<Rightarrow> node_group list" where
  "list_groups db = map (node_group_of db) (sort_key gr_name (ob_groups db))"

definition update_group :: "(nat \<Rightarrow> nat) \<Rightarrow> time \<Rightarrow> string \<Rightarrow> string \<Rightarrow> organization_db \<Rightarrow> (organization_error + node_group) \<times> organization_db" where
  "update_group ul now i name = run_tx (\<lambda>db.
     bindE (normalize_organization_name ul name max_node_group_name_runes ''group'') (\<lambda>(displayName, normalizedName).
     bindE (failIf (count_rows (\<lambda>g. gr_id g = i) (ob_groups db) = 0) OrganizationNoRows) (\<lambda>_.
     bindE (failIf (\<exists>g\<in>set (ob_groups db). gr_id g \<noteq> i \<and> gr_normalized_name g = normalizedName) OrganizationConflict) (\<lambda>_.
     let db' = db\<lparr>ob_groups := update_rows (\<lambda>g. gr_id g = i)
           (\<lambda>g. g\<lparr>gr_name := displayName, gr_normalized_name := normalizedName, gr_updated_at := now\<rparr>) (ob_groups db)\<rparr> in
     bindE (get_group db' i) (\<lambda>g. Inr (g, db'))))))"

definition delete_group :: "string \<Rightarrow> organization_db \<Rightarrow> (organization_error + unit) \<times> organization_db" where
  "delete_group i = run_tx (\<lambda>db.
     let db1 = db\<lparr>ob_nodes := update_rows (\<lambda>n. snd n = Some i) (\<lambda>n. (fst n, None)) (ob_nodes db)\<rparr> in
     bindE (failIf (count_rows (\<lambda>g. gr_id g = i) (ob_groups db1) = 0) OrganizationNoRows) (\<lambda>_.
     Inr ((), db1\<lparr>ob_groups := delete_rows (\<lambda>g. gr_id g = i) (ob_groups db1)\<rparr>)))"

section \<open>Tags\<close>

definition node_tag_of :: "organization_db \<Rightarrow> tag_row \<Rightarrow> node_tag" where
  "node_tag_of db t = \<lparr>nt_id = tg_id t, nt_name = tg_name t, nt_color = tg_color t,
     nt_node_count = count_rows (\<lambda>l. snd l = tg_id t) (ob_links db), nt_created_at = tg_created_at t, nt_updated_at = tg_updated_at t\<rparr>"

definition create_tag :: "(nat \<Rightarrow> nat) \<Rightarrow> nat list option \<Rightarrow> time \<Rightarrow> string \<Rightarrow> string \<Rightarrow> organization_db \<Rightarrow> (organization_error + node_tag) \<times> organization_db" where
  "create_tag ul random now name color0 = run_tx (\<lambda>db.
     bindE (normalize_organization_name ul name max_node_tag_name_runes ''tag'') (\<lambda>(displayName, normalizedName).
     bindE (normalize_tag_color ul color0) (\<lambda>color.
     bindE (organization_id ''tag'' random) (\<lambda>i.
     bindE (failIf (\<exists>t\<in>set (ob_tags db). tg_id t = i \<or> tg_normalized_name t = normalizedName) OrganizationConflict) (\<lambda>_.
     Inr (\<lparr>nt_id = i, nt_name = displayName, nt_color = color, nt_node_count = 0, nt_created_at = now, nt_updated_at = now\<rparr>,
          db\<lparr>ob_tags := ob_tags db @ [\<lparr>tg_id = i, tg_name = displayName, tg_normalized_name = normalizedName, tg_color = color,
             tg_created_at = now, tg_updated_at = now\<rparr>]\<rparr>))))))"

definition get_tag :: "organization_db \<Rightarrow> string \<Rightarrow> organization_error + node_tag" where
  "get_tag db i = (case List.find (\<lambda>t. tg_id t = i) (ob_tags db) of None \<Rightarrow> Inl OrganizationNoRows | Some t \<Rightarrow> Inr (node_tag_of db t))"

definition list_tags :: "organization_db \<Rightarrow> node_tag list" where
  "list_tags db = map (node_tag_of db) (sort_key tg_name (ob_tags db))"

definition update_tag :: "(nat \<Rightarrow> nat) \<Rightarrow> time \<Rightarrow> string \<Rightarrow> string \<Rightarrow> string \<Rightarrow> organization_db \<Rightarrow> (organization_error + node_tag) \<times> organization_db" where
  "update_tag ul now i name color0 = run_tx (\<lambda>db.
     bindE (normalize_organization_name ul name max_node_tag_name_runes ''tag'') (\<lambda>(displayName, normalizedName).
     bindE (normalize_tag_color ul color0) (\<lambda>color.
     bindE (failIf (count_rows (\<lambda>t. tg_id t = i) (ob_tags db) = 0) OrganizationNoRows) (\<lambda>_.
     bindE (failIf (\<exists>t\<in>set (ob_tags db). tg_id t \<noteq> i \<and> tg_normalized_name t = normalizedName) OrganizationConflict) (\<lambda>_.
     let db' = db\<lparr>ob_tags := update_rows (\<lambda>t. tg_id t = i)
           (\<lambda>t. t\<lparr>tg_name := displayName, tg_normalized_name := normalizedName, tg_color := color, tg_updated_at := now\<rparr>) (ob_tags db)\<rparr> in
     bindE (get_tag db' i) (\<lambda>t. Inr (t, db')))))))"

definition delete_tag :: "string \<Rightarrow> organization_db \<Rightarrow> (organization_error + unit) \<times> organization_db" where
  "delete_tag i = run_tx (\<lambda>db.
     let db1 = db\<lparr>ob_links := delete_rows (\<lambda>l. snd l = i) (ob_links db)\<rparr> in
     bindE (failIf (count_rows (\<lambda>t. tg_id t = i) (ob_tags db1) = 0) OrganizationNoRows) (\<lambda>_.
     Inr ((), db1\<lparr>ob_tags := delete_rows (\<lambda>t. tg_id t = i) (ob_tags db1)\<rparr>)))"

section \<open>The organization of a node\<close>

text \<open>The row of a node with its group and each of its tags; missing parts are empty texts (\<^verbatim>\<open>COALESCE\<close>).\<close>

definition organization_rows :: "organization_db \<Rightarrow> string \<times> string option \<Rightarrow> ((string \<times> string) \<times> (string \<times> string \<times> string)) list" where
  "organization_rows db n =
     (let g = (case snd n of None \<Rightarrow> ([], [])
                | Some i \<Rightarrow> (case List.find (\<lambda>g. gr_id g = i) (ob_groups db) of None \<Rightarrow> ([], []) | Some g \<Rightarrow> (gr_id g, gr_name g)));
          links = filter (\<lambda>l. fst l = fst n) (ob_links db);
          tags = map (\<lambda>l. case List.find (\<lambda>t. tg_id t = snd l) (ob_tags db) of None \<Rightarrow> ([], [], [])
                          | Some t \<Rightarrow> (tg_id t, tg_name t, tg_color t)) links
      in map (Pair g) (if links = [] then [([], [], [])] else sort_key (fst \<circ> snd) tags))"

definition scan_organization :: "node_organization \<Rightarrow> (string \<times> string) \<times> (string \<times> string \<times> string) \<Rightarrow> node_organization" where
  "scan_organization o1 row =
     (let o2 = (if fst (fst row) \<noteq> [] then o1\<lparr>no_group := Some (fst row)\<rparr> else o1) in
      if fst (snd row) \<noteq> [] then o2\<lparr>no_tags := no_tags o2 @ [snd row]\<rparr> else o2)"

definition no_organization :: node_organization where
  "no_organization = \<lparr>no_group = None, no_tags = []\<rparr>"

definition list_node_organizations :: "organization_db \<Rightarrow> string \<Rightarrow> node_organization option" where
  "list_node_organizations db =
     map_of (map (\<lambda>n. (fst n, foldl scan_organization no_organization (organization_rows db n))) (sort_key fst (ob_nodes db)))"

definition get_node_organization :: "organization_db \<Rightarrow> string \<Rightarrow> organization_error + node_organization" where
  "get_node_organization db i =
     (if count_rows (\<lambda>n. fst n = i) (ob_nodes db) \<noteq> 1 then Inl OrganizationNoRows
      else Inr (foldl scan_organization no_organization (concat (map (organization_rows db) (filter (\<lambda>n. fst n = i) (ob_nodes db))))))"

section \<open>Changing many nodes at once\<close>

definition require_id_in_tx :: "('r \<Rightarrow> string) \<Rightarrow> 'r list \<Rightarrow> string \<Rightarrow> organization_error + unit" where
  "require_id_in_tx k rows i = failIf (count_rows (\<lambda>r. k r = i) rows \<noteq> 1) OrganizationNoRows"

definition require_ids_in_tx :: "('r \<Rightarrow> string) \<Rightarrow> 'r list \<Rightarrow> string list \<Rightarrow> organization_error + unit" where
  "require_ids_in_tx k rows ids =
     (if ids = [] then Inr () else failIf (count_rows (\<lambda>r. k r \<in> set ids) rows \<noteq> length ids) OrganizationNoRows)"

definition node_tag_set :: "organization_db \<Rightarrow> string \<Rightarrow> string list" where
  "node_tag_set db i = remdups (map snd (filter (\<lambda>l. fst l = i) (ob_links db)))"

definition changed_tags :: "string list \<Rightarrow> string list \<Rightarrow> string list \<Rightarrow> string list" where
  "changed_tags remove add tags = (let kept = filter (\<lambda>t. t \<notin> set remove) tags in kept @ filter (\<lambda>t. t \<notin> set kept) (remdups add))"

fun check_tag_limit :: "organization_db \<Rightarrow> string list \<Rightarrow> string list \<Rightarrow> string list \<Rightarrow> organization_error + unit" where
  "check_tag_limit db remove add [] = Inr ()"
| "check_tag_limit db remove add (i # ids) =
     (if length (changed_tags remove add (node_tag_set db i)) > max_node_tags_per_node
      then Inl (OrganizationInvalid (''node '' @ i @ '' exceeds tag limit'')) else check_tag_limit db remove add ids)"

definition insert_link :: "string \<times> string \<Rightarrow> (string \<times> string) list \<Rightarrow> (string \<times> string) list" where
  "insert_link l links = (if l \<in> set links then links else links @ [l])"

definition write_metadata :: "batch_update \<Rightarrow> string list \<Rightarrow> string list \<Rightarrow> string list \<Rightarrow> organization_db \<Rightarrow> organization_db" where
  "write_metadata u nodeIDs add remove db =
     (let db1 = (if bu_group_id_set u then db\<lparr>ob_nodes := update_rows (\<lambda>n. fst n \<in> set nodeIDs) (\<lambda>n. (fst n, bu_group_id u)) (ob_nodes db)\<rparr> else db);
          db2 = db1\<lparr>ob_links := delete_rows (\<lambda>l. fst l \<in> set nodeIDs \<and> snd l \<in> set remove) (ob_links db1)\<rparr>
      in db2\<lparr>ob_links := fold insert_link (List.product nodeIDs add) (ob_links db2)\<rparr>)"

fun read_organizations :: "organization_db \<Rightarrow> string list \<Rightarrow> organization_error + (string \<times> node_organization) list" where
  "read_organizations db [] = Inr []"
| "read_organizations db (i # ids) =
     bindE (get_node_organization db i) (\<lambda>x. bindE (read_organizations db ids) (\<lambda>rest. Inr ((i, x) # rest)))"

definition validate_batch :: "batch_update \<Rightarrow> organization_error + string list \<times> string list \<times> string list" where
  "validate_batch u =
     bindE (validate_unique_ids (bu_node_ids u) max_batch_metadata_nodes ''node'') (\<lambda>nodeIDs.
     bindE (validate_unique_ids_allow_empty (bu_add_tag_ids u) max_node_tags_per_node ''tag'') (\<lambda>add.
     bindE (validate_unique_ids_allow_empty (bu_remove_tag_ids u) max_node_tags_per_node ''tag'') (\<lambda>remove.
     bindE (failIf (\<not> bu_group_id_set u \<and> add = [] \<and> remove = []) (OrganizationInvalid ''no metadata changes requested'')) (\<lambda>_.
     bindE (failIf (list_ex (\<lambda>t. t \<in> set remove) add) (OrganizationInvalid ''tag cannot be added and removed together'')) (\<lambda>_.
     Inr (nodeIDs, add, remove))))))"

definition write_batch :: "batch_update \<Rightarrow> string list \<Rightarrow> string list \<Rightarrow> string list \<Rightarrow> organization_db \<Rightarrow> (organization_error + unit) \<times> organization_db" where
  "write_batch u nodeIDs add remove = run_tx (\<lambda>db.
     bindE (case bu_group_id u of None \<Rightarrow> Inr ()
            | Some g \<Rightarrow> if bu_group_id_set u then require_id_in_tx gr_id (ob_groups db) g else Inr ()) (\<lambda>_.
     bindE (require_ids_in_tx fst (ob_nodes db) nodeIDs) (\<lambda>_.
     bindE (require_ids_in_tx tg_id (ob_tags db) (unique_strings (add @ remove))) (\<lambda>_.
     bindE (check_tag_limit db remove add nodeIDs) (\<lambda>_.
     Inr ((), write_metadata u nodeIDs add remove db))))))"

text \<open>The organizations are read after the transaction.\<close>

definition batch_update_metadata :: "batch_update \<Rightarrow> organization_db \<Rightarrow> (organization_error + (string \<times> node_organization) list) \<times> organization_db" where
  "batch_update_metadata u db =
     (case validate_batch u of
        Inl e \<Rightarrow> (Inl e, db)
      | Inr (nodeIDs, add, remove) \<Rightarrow>
          (case write_batch u nodeIDs add remove db of
             (Inl e, db') \<Rightarrow> (Inl e, db')
           | (Inr x, db') \<Rightarrow> (read_organizations db' nodeIDs, db')))"

section \<open>Nodes\<close>

definition register_node :: "string \<Rightarrow> organization_db \<Rightarrow> organization_db" where
  "register_node i db = (if i \<in> fst ` set (ob_nodes db) then db else db\<lparr>ob_nodes := ob_nodes db @ [(i, None)]\<rparr>)"

definition drop_node :: "string \<Rightarrow> organization_db \<Rightarrow> organization_db" where
  "drop_node i db = db\<lparr>ob_nodes := delete_rows (\<lambda>n. fst n = i) (ob_nodes db), ob_links := delete_rows (\<lambda>l. fst l = i) (ob_links db)\<rparr>"

datatype organization_op =
  CreateGroup "nat list option" time string
| UpdateGroup time string string
| DeleteGroup string
| CreateTag "nat list option" time string string
| UpdateTag time string string string
| DeleteTag string
| BatchUpdate batch_update
| RegisterNode string
| RemoveNode string

fun apply_organization_op :: "(nat \<Rightarrow> nat) \<Rightarrow> organization_op \<Rightarrow> organization_db \<Rightarrow> organization_db" where
  "apply_organization_op ul (CreateGroup random now name) db = snd (create_group ul random now name db)"
| "apply_organization_op ul (UpdateGroup now i name) db = snd (update_group ul now i name db)"
| "apply_organization_op ul (DeleteGroup i) db = snd (delete_group i db)"
| "apply_organization_op ul (CreateTag random now name color) db = snd (create_tag ul random now name color db)"
| "apply_organization_op ul (UpdateTag now i name color) db = snd (update_tag ul now i name color db)"
| "apply_organization_op ul (DeleteTag i) db = snd (delete_tag i db)"
| "apply_organization_op ul (BatchUpdate u) db = snd (batch_update_metadata u db)"
| "apply_organization_op ul (RegisterNode i) db = register_node i db"
| "apply_organization_op ul (RemoveNode i) db = drop_node i db"

end
