(* ===== verification/TableKeys.thy ===== *)
theory TableKeys
  imports Prelude
begin

text \<open>Tables with a primary key and a further unique column.\<close>

lemma distinct_keys_update:
  assumes "distinct (map key rows)" "distinct (map norm rows)" "\<And>r. r \<in> set rows \<Longrightarrow> key r \<noteq> i \<Longrightarrow> norm r \<noteq> x"
    "\<And>r. key (f r) = key r" "\<And>r. norm (f r) = x"
  shows "distinct (map norm (update_rows (\<lambda>r. key r = i) f rows))"
  using assms(1-3)
proof (induction rows)
  case (Cons r rs)
  have tail: "distinct (map norm (update_rows (\<lambda>r. key r = i) f rs))" using Cons by simp
  show ?case
  proof (cases "key r = i")
    case True
    then have others: "\<forall>q\<in>set rs. key q \<noteq> i" using Cons.prems(1) by (fastforce simp: image_iff)
    then have "update_rows (\<lambda>r. key r = i) f rs = rs" by (simp add: update_rows_id)
    moreover have "x \<notin> norm ` set rs" using others Cons.prems(3) by force
    ultimately show ?thesis using True tail assms(5) by simp
  next
    case False
    then have "norm r \<noteq> x" using Cons.prems(3) by simp
    then have "norm r \<notin> norm ` set (update_rows (\<lambda>r. key r = i) f rs)" using Cons.prems(2) assms(5) by (auto simp: set_update_rows)
    then show ?thesis using False tail by simp
  qed
qed simp

end
