(* ===== verification/NodeOrganizationsSpec.thy ===== *)
theory NodeOrganizationsSpec
  imports NodeOrganizations TableKeys
begin

text \<open>
  Groups, tags and assignments stay consistent, and what a batch update does to the nodes it names and to the others.
\<close>

section \<open>The invariant\<close>

definition groups_ok :: "(nat \<Rightarrow> nat) \<Rightarrow> group_row list \<Rightarrow> bool" where
  "groups_ok ul groups \<longleftrightarrow> distinct (map gr_id groups) \<and> distinct (map gr_normalized_name groups) \<and> [] \<notin> gr_id ` set groups
     \<and> (\<forall>g\<in>set groups. gr_normalized_name g = to_lower ul (gr_name g) \<and> gr_name g \<noteq> [] \<and> rune_count (gr_name g) \<le> max_node_group_name_runes)"

definition tags_ok :: "(nat \<Rightarrow> nat) \<Rightarrow> tag_row list \<Rightarrow> bool" where
  "tags_ok ul tags \<longleftrightarrow> distinct (map tg_id tags) \<and> distinct (map tg_normalized_name tags) \<and> [] \<notin> tg_id ` set tags
     \<and> (\<forall>t\<in>set tags. tg_normalized_name t = to_lower ul (tg_name t) \<and> tg_name t \<noteq> [] \<and> rune_count (tg_name t) \<le> max_node_tag_name_runes
          \<and> tg_color t \<in> set node_tag_colors)"

definition links_ok :: "(string \<times> string option) list \<Rightarrow> string set \<Rightarrow> string set \<Rightarrow> (string \<times> string) list \<Rightarrow> bool" where
  "links_ok nodes groupIDs tagIDs links \<longleftrightarrow> distinct (map fst nodes) \<and> (\<forall>n\<in>set nodes. \<forall>g. snd n = Some g \<longrightarrow> g \<in> groupIDs)
     \<and> distinct links \<and> (\<forall>l\<in>set links. fst l \<in> fst ` set nodes \<and> snd l \<in> tagIDs)"

definition organization_ok :: "(nat \<Rightarrow> nat) \<Rightarrow> organization_db \<Rightarrow> bool" where
  "organization_ok ul db \<longleftrightarrow> groups_ok ul (ob_groups db) \<and> tags_ok ul (ob_tags db)
     \<and> links_ok (ob_nodes db) (gr_id ` set (ob_groups db)) (tg_id ` set (ob_tags db)) (ob_links db)
     \<and> (\<forall>i. length (node_tag_set db i) \<le> max_node_tags_per_node)"

lemma normalized_name:
  "normalize_organization_name ul name limit kind = Inr (displayName, normalizedName) \<Longrightarrow>
     displayName \<noteq> [] \<and> rune_count displayName \<le> limit \<and> normalizedName = to_lower ul displayName"
  by (auto simp: normalize_organization_name_def Let_def split: if_splits)

lemma normalized_color: "normalize_tag_color ul color0 = Inr color \<Longrightarrow> color \<in> set node_tag_colors"
  by (auto simp: normalize_tag_color_def Let_def split: if_splits)

lemma drawn_id: "organization_id pre random = Inr i \<Longrightarrow> i \<noteq> []"
  by (auto simp: organization_id_def split: option.splits)

lemma groups_ok_update:
  assumes "groups_ok ul groups" "x \<noteq> []" "rune_count x \<le> max_node_group_name_runes"
    "\<forall>g\<in>set groups. gr_id g \<noteq> i \<longrightarrow> gr_normalized_name g \<noteq> to_lower ul x"
  shows "groups_ok ul (update_rows (\<lambda>g. gr_id g = i) (\<lambda>g. g\<lparr>gr_name := x, gr_normalized_name := to_lower ul x, gr_updated_at := now\<rparr>) groups)"
proof -
  have ids: "map gr_id (update_rows (\<lambda>g. gr_id g = i) (\<lambda>g. g\<lparr>gr_name := x, gr_normalized_name := to_lower ul x, gr_updated_at := now\<rparr>) groups) = map gr_id groups"
    by (rule map_update_rows) simp
  moreover have "distinct (map gr_normalized_name (update_rows (\<lambda>g. gr_id g = i)
      (\<lambda>g. g\<lparr>gr_name := x, gr_normalized_name := to_lower ul x, gr_updated_at := now\<rparr>) groups))"
    using assms(1,4) by (intro distinct_keys_update [where x = "to_lower ul x"]) (auto simp: groups_ok_def)
  moreover have "gr_id ` set (update_rows (\<lambda>g. gr_id g = i) (\<lambda>g. g\<lparr>gr_name := x, gr_normalized_name := to_lower ul x, gr_updated_at := now\<rparr>) groups) = gr_id ` set groups"
    using arg_cong [OF ids, of set] by simp
  ultimately show ?thesis using assms(1-3) unfolding groups_ok_def by (intro conjI ballI) (auto simp: set_update_rows)
qed

lemma tags_ok_update:
  assumes "tags_ok ul tags" "x \<noteq> []" "rune_count x \<le> max_node_tag_name_runes" "color \<in> set node_tag_colors"
    "\<forall>t\<in>set tags. tg_id t \<noteq> i \<longrightarrow> tg_normalized_name t \<noteq> to_lower ul x"
  shows "tags_ok ul (update_rows (\<lambda>t. tg_id t = i)
     (\<lambda>t. t\<lparr>tg_name := x, tg_normalized_name := to_lower ul x, tg_color := color, tg_updated_at := now\<rparr>) tags)" (is "tags_ok ul (update_rows ?P ?f tags)")
proof -
  have ids: "map tg_id (update_rows ?P ?f tags) = map tg_id tags" by (rule map_update_rows) simp
  moreover have "distinct (map tg_normalized_name (update_rows ?P ?f tags))"
    using assms(1,5) by (intro distinct_keys_update [where x = "to_lower ul x"]) (auto simp: tags_ok_def)
  moreover have "tg_id ` set (update_rows ?P ?f tags) = tg_id ` set tags" using arg_cong [OF ids, of set] by simp
  ultimately show ?thesis using assms(1-4) unfolding tags_ok_def by (intro conjI ballI) (auto simp: set_update_rows)
qed


section \<open>Every operation keeps it\<close>

lemma node_tag_set_cong: "ob_links db' = ob_links db \<Longrightarrow> node_tag_set db' = node_tag_set db"
  by (rule ext) (simp add: node_tag_set_def)

lemma update_rows_ids: "(\<And>r. key (f r) = key r) \<Longrightarrow> key ` set (update_rows P f rows) = key ` set rows"
  unfolding set_update_rows image_image by (rule image_cong) auto

lemma create_group_ok: "organization_ok ul (snd (create_group ul random now name db))" if ok: "organization_ok ul db"
  unfolding create_group_def
proof (rule run_tx_invariant, rule ok)
  fix x t assume "bindE (normalize_organization_name ul name max_node_group_name_runes ''group'') (\<lambda>(displayName, normalizedName).
     bindE (organization_id ''group'' random) (\<lambda>i.
     bindE (failIf (\<exists>g\<in>set (ob_groups db). gr_id g = i \<or> gr_normalized_name g = normalizedName) OrganizationConflict) (\<lambda>_.
     Inr (\<lparr>ng_id = i, ng_name = displayName, ng_node_count = 0, ng_created_at = now, ng_updated_at = now\<rparr>,
          db\<lparr>ob_groups := ob_groups db @ [\<lparr>gr_id = i, gr_name = displayName, gr_normalized_name = normalizedName,
             gr_created_at = now, gr_updated_at = now\<rparr>]\<rparr>)))) = Inr (x, t)"
  then obtain displayName i where name: "displayName \<noteq> []" "rune_count displayName \<le> max_node_group_name_runes" "i \<noteq> []"
      "\<forall>g\<in>set (ob_groups db). gr_id g \<noteq> i \<and> gr_normalized_name g \<noteq> to_lower ul displayName"
    and t: "t = db\<lparr>ob_groups := ob_groups db @ [\<lparr>gr_id = i, gr_name = displayName, gr_normalized_name = to_lower ul displayName,
             gr_created_at = now, gr_updated_at = now\<rparr>]\<rparr>"
    by (auto simp: result_iff dest!: normalized_name drawn_id split: prod.splits)
  show "organization_ok ul t"
    using ok name unfolding organization_ok_def t by (auto simp: groups_ok_def links_ok_def node_tag_set_def)
qed

lemma create_tag_ok: "organization_ok ul (snd (create_tag ul random now name color0 db))" if ok: "organization_ok ul db"
  unfolding create_tag_def
proof (rule run_tx_invariant, rule ok)
  fix x t assume "bindE (normalize_organization_name ul name max_node_tag_name_runes ''tag'') (\<lambda>(displayName, normalizedName).
     bindE (normalize_tag_color ul color0) (\<lambda>color.
     bindE (organization_id ''tag'' random) (\<lambda>i.
     bindE (failIf (\<exists>t\<in>set (ob_tags db). tg_id t = i \<or> tg_normalized_name t = normalizedName) OrganizationConflict) (\<lambda>_.
     Inr (\<lparr>nt_id = i, nt_name = displayName, nt_color = color, nt_node_count = 0, nt_created_at = now, nt_updated_at = now\<rparr>,
          db\<lparr>ob_tags := ob_tags db @ [\<lparr>tg_id = i, tg_name = displayName, tg_normalized_name = normalizedName, tg_color = color,
             tg_created_at = now, tg_updated_at = now\<rparr>]\<rparr>))))) = Inr (x, t)"
  then obtain displayName color i where name: "displayName \<noteq> []" "rune_count displayName \<le> max_node_tag_name_runes" "i \<noteq> []" "color \<in> set node_tag_colors"
      "\<forall>t\<in>set (ob_tags db). tg_id t \<noteq> i \<and> tg_normalized_name t \<noteq> to_lower ul displayName"
    and t: "t = db\<lparr>ob_tags := ob_tags db @ [\<lparr>tg_id = i, tg_name = displayName, tg_normalized_name = to_lower ul displayName, tg_color = color,
             tg_created_at = now, tg_updated_at = now\<rparr>]\<rparr>"
    by (auto simp: result_iff dest!: normalized_name normalized_color drawn_id split: prod.splits)
  show "organization_ok ul t"
    using ok name unfolding organization_ok_def t by (auto simp: tags_ok_def links_ok_def node_tag_set_def)
qed

lemma update_group_ok: "organization_ok ul (snd (update_group ul now i name db))" if ok: "organization_ok ul db"
  unfolding update_group_def
proof (rule run_tx_invariant, rule ok)
  fix x t assume "bindE (normalize_organization_name ul name max_node_group_name_runes ''group'') (\<lambda>(displayName, normalizedName).
     bindE (failIf (count_rows (\<lambda>g. gr_id g = i) (ob_groups db) = 0) OrganizationNoRows) (\<lambda>_.
     bindE (failIf (\<exists>g\<in>set (ob_groups db). gr_id g \<noteq> i \<and> gr_normalized_name g = normalizedName) OrganizationConflict) (\<lambda>_.
     let db' = db\<lparr>ob_groups := update_rows (\<lambda>g. gr_id g = i)
           (\<lambda>g. g\<lparr>gr_name := displayName, gr_normalized_name := normalizedName, gr_updated_at := now\<rparr>) (ob_groups db)\<rparr> in
     bindE (get_group db' i) (\<lambda>g. Inr (g, db'))))) = Inr (x, t)"
  then obtain displayName where name: "displayName \<noteq> []" "rune_count displayName \<le> max_node_group_name_runes"
      "\<forall>g\<in>set (ob_groups db). gr_id g \<noteq> i \<longrightarrow> gr_normalized_name g \<noteq> to_lower ul displayName"
    and t: "t = db\<lparr>ob_groups := update_rows (\<lambda>g. gr_id g = i)
       (\<lambda>g. g\<lparr>gr_name := displayName, gr_normalized_name := to_lower ul displayName, gr_updated_at := now\<rparr>) (ob_groups db)\<rparr>"
    by (auto simp: result_iff Let_def dest!: normalized_name split: prod.splits)
  show "organization_ok ul t"
    using ok name unfolding organization_ok_def t by (simp add: groups_ok_update update_rows_ids node_tag_set_def)
qed

lemma update_tag_ok: "organization_ok ul (snd (update_tag ul now i name color0 db))" if ok: "organization_ok ul db"
  unfolding update_tag_def
proof (rule run_tx_invariant, rule ok)
  fix x t assume "bindE (normalize_organization_name ul name max_node_tag_name_runes ''tag'') (\<lambda>(displayName, normalizedName).
     bindE (normalize_tag_color ul color0) (\<lambda>color.
     bindE (failIf (count_rows (\<lambda>t. tg_id t = i) (ob_tags db) = 0) OrganizationNoRows) (\<lambda>_.
     bindE (failIf (\<exists>t\<in>set (ob_tags db). tg_id t \<noteq> i \<and> tg_normalized_name t = normalizedName) OrganizationConflict) (\<lambda>_.
     let db' = db\<lparr>ob_tags := update_rows (\<lambda>t. tg_id t = i)
           (\<lambda>t. t\<lparr>tg_name := displayName, tg_normalized_name := normalizedName, tg_color := color, tg_updated_at := now\<rparr>) (ob_tags db)\<rparr> in
     bindE (get_tag db' i) (\<lambda>t. Inr (t, db')))))) = Inr (x, t)"
  then obtain displayName color where name: "displayName \<noteq> []" "rune_count displayName \<le> max_node_tag_name_runes" "color \<in> set node_tag_colors"
      "\<forall>t\<in>set (ob_tags db). tg_id t \<noteq> i \<longrightarrow> tg_normalized_name t \<noteq> to_lower ul displayName"
    and t: "t = db\<lparr>ob_tags := update_rows (\<lambda>t. tg_id t = i)
       (\<lambda>t. t\<lparr>tg_name := displayName, tg_normalized_name := to_lower ul displayName, tg_color := color, tg_updated_at := now\<rparr>) (ob_tags db)\<rparr>"
    by (auto simp: result_iff Let_def dest!: normalized_name normalized_color split: prod.splits)
  show "organization_ok ul t"
    using ok name unfolding organization_ok_def t by (simp add: tags_ok_update update_rows_ids node_tag_set_def)
qed

lemma tag_set_shrinks: "set (ob_links db') \<subseteq> set (ob_links db) \<Longrightarrow> length (node_tag_set db' i) \<le> length (node_tag_set db i)"
  by (auto simp: node_tag_set_def length_remdups_card_conv intro!: card_mono)

lemma delete_group_ok: "organization_ok ul (snd (delete_group i db))" if ok: "organization_ok ul db"
  unfolding delete_group_def
proof (rule run_tx_invariant, rule ok)
  let ?nodes = "update_rows (\<lambda>n. snd n = Some i) (\<lambda>n. (fst n, None)) (ob_nodes db)"
  fix x t assume "(let db1 = db\<lparr>ob_nodes := ?nodes\<rparr> in
     bindE (failIf (count_rows (\<lambda>g. gr_id g = i) (ob_groups db1) = 0) OrganizationNoRows) (\<lambda>_.
     Inr ((), db1\<lparr>ob_groups := delete_rows (\<lambda>g. gr_id g = i) (ob_groups db1)\<rparr>))) = Inr (x, t)"
  then have t: "t = db\<lparr>ob_nodes := ?nodes, ob_groups := delete_rows (\<lambda>g. gr_id g = i) (ob_groups db)\<rparr>" by (auto simp: result_iff Let_def)
  have "map fst ?nodes = map fst (ob_nodes db)" "fst ` set ?nodes = fst ` set (ob_nodes db)"
    by (rule map_update_rows, simp) (rule update_rows_ids, simp)
  moreover have "\<forall>n\<in>set ?nodes. \<forall>g. snd n = Some g \<longrightarrow> g \<in> gr_id ` {g \<in> set (ob_groups db). gr_id g \<noteq> i}"
    using ok by (force simp: organization_ok_def links_ok_def set_update_rows)
  ultimately show "organization_ok ul t"
    using ok unfolding organization_ok_def t by (simp add: groups_ok_def links_ok_def distinct_map_delete_rows node_tag_set_def image_iff)
qed

lemma delete_tag_ok: "organization_ok ul (snd (delete_tag i db))" if ok: "organization_ok ul db"
  unfolding delete_tag_def
proof (rule run_tx_invariant, rule ok)
  let ?links = "delete_rows (\<lambda>l. snd l = i) (ob_links db)"
  fix x t assume "(let db1 = db\<lparr>ob_links := ?links\<rparr> in
     bindE (failIf (count_rows (\<lambda>t. tg_id t = i) (ob_tags db1) = 0) OrganizationNoRows) (\<lambda>_.
     Inr ((), db1\<lparr>ob_tags := delete_rows (\<lambda>t. tg_id t = i) (ob_tags db1)\<rparr>))) = Inr (x, t)"
  then have t: "t = db\<lparr>ob_links := ?links, ob_tags := delete_rows (\<lambda>t. tg_id t = i) (ob_tags db)\<rparr>" by (auto simp: result_iff Let_def)
  have "length (node_tag_set t j) \<le> max_node_tags_per_node" for j
    using ok tag_set_shrinks [of t db j] unfolding organization_ok_def t by (auto intro: order_trans)
  moreover have "links_ok (ob_nodes db) (gr_id ` set (ob_groups db)) (tg_id ` {t \<in> set (ob_tags db). tg_id t \<noteq> i}) ?links"
    using ok by (force simp: organization_ok_def links_ok_def delete_rows_def)
  ultimately show "organization_ok ul t"
    using ok unfolding organization_ok_def by (simp add: t tags_ok_def distinct_map_delete_rows image_iff)
qed

lemma insert_links:
  "set (fold insert_link ls links) = set links \<union> set ls" "distinct links \<Longrightarrow> distinct (fold insert_link ls links)"
  by (induction ls arbitrary: links) (auto simp: insert_link_def)

lemma changed_tags: "set (changed_tags remove add tags) = (set tags - set remove) \<union> set add" "distinct tags \<Longrightarrow> distinct (changed_tags remove add tags)"
  by (auto simp: changed_tags_def Let_def)

lemma validated_ids_loop: "validate_ids_loop kind res vs = Inr ids \<Longrightarrow> distinct res \<Longrightarrow> [] \<notin> set res \<Longrightarrow> distinct ids \<and> [] \<notin> set ids"
  by (induction kind res vs rule: validate_ids_loop.induct) (auto simp: Let_def split: if_splits)

lemma validated_batch: "validate_batch u = Inr (nodeIDs, add, remove) \<Longrightarrow> distinct nodeIDs \<and> distinct add \<and> distinct remove \<and> set add \<inter> set remove = {}"
  by (auto simp: validate_batch_def result_iff validate_unique_ids_def validate_unique_ids_allow_empty_def list_ex_iff split: if_splits dest!: validated_ids_loop)

lemma tag_limit: "check_tag_limit db remove add ids = Inr () \<longleftrightarrow> (\<forall>i\<in>set ids. length (changed_tags remove add (node_tag_set db i)) \<le> max_node_tags_per_node)"
  by (induction ids) auto

lemma set_node_tags: "set (node_tag_set db i) = {t. (i, t) \<in> set (ob_links db)}"
  by (force simp: node_tag_set_def)

lemma written_tags: "set (node_tag_set (write_metadata u nodeIDs add remove db) i)
   = (if i \<in> set nodeIDs then (set (node_tag_set db i) - set remove) \<union> set add else set (node_tag_set db i))"
  by (auto simp: set_node_tags write_metadata_def Let_def insert_links)

lemma written_parts:
  "ob_groups (write_metadata u nodeIDs add remove db) = ob_groups db" "ob_tags (write_metadata u nodeIDs add remove db) = ob_tags db"
  "ob_nodes (write_metadata u nodeIDs add remove db) = map (\<lambda>n. if bu_group_id_set u \<and> fst n \<in> set nodeIDs then (fst n, bu_group_id u) else n) (ob_nodes db)"
  "ob_links (write_metadata u nodeIDs add remove db)
     = fold insert_link (List.product nodeIDs add) (delete_rows (\<lambda>l. fst l \<in> set nodeIDs \<and> snd l \<in> set remove) (ob_links db))"
  by (simp_all add: write_metadata_def Let_def update_rows_def)

lemma unique_strings_loop: "set (foldl (\<lambda>res v. if v \<in> set res then res else res @ [v]) res vs) = set res \<union> set vs"
    "distinct res \<Longrightarrow> distinct (foldl (\<lambda>res v. if v \<in> set res then res else res @ [v]) res vs)"
  by (induction vs arbitrary: res) auto

lemma unique_strings: "set (unique_strings vs) = set vs" "distinct (unique_strings vs)"
  by (simp_all add: unique_strings_def unique_strings_loop)

text \<open>Counting the rows that have one of the identifiers finds out whether each of them has a row.\<close>

lemma ids_required:
  assumes "distinct ids" "distinct (map key rows)"
  shows "require_ids_in_tx key rows ids = Inr () \<longleftrightarrow> set ids \<subseteq> key ` set rows"
proof -
  have "count_rows (\<lambda>r. key r \<in> set ids) rows = card (set ids \<inter> key ` set rows)"
  proof -
    have "distinct (map key (filter (\<lambda>r. key r \<in> set ids) rows))" using assms(2) by (simp add: distinct_map_filter)
    then have "count_rows (\<lambda>r. key r \<in> set ids) rows = card (set (map key (filter (\<lambda>r. key r \<in> set ids) rows)))"
      by (metis count_rows_def distinct_card length_map)
    also have "set (map key (filter (\<lambda>r. key r \<in> set ids) rows)) = set ids \<inter> key ` set rows" by auto
    finally show ?thesis .
  qed
  moreover have "card (set ids \<inter> key ` set rows) = card (set ids) \<longleftrightarrow> set ids \<subseteq> key ` set rows"
    by (metis List.finite_set Int_lower1 card_subset_eq inf.absorb_iff1)
  ultimately show ?thesis using distinct_card [OF assms(1)] by (auto simp: require_ids_in_tx_def failIf_def)
qed

lemma id_required: "distinct (map key rows) \<Longrightarrow> require_id_in_tx key rows i = Inr () \<longleftrightarrow> i \<in> key ` set rows"
  using ids_required [of "[i]" key rows] by (simp add: require_id_in_tx_def require_ids_in_tx_def)

text \<open>A transaction that succeeds has found its group, its nodes and its tags, and no node ends with too many tags.\<close>

definition batch_ready :: "batch_update \<Rightarrow> string list \<Rightarrow> string list \<Rightarrow> string list \<Rightarrow> organization_db \<Rightarrow> bool" where
  "batch_ready u nodeIDs add remove db \<longleftrightarrow> (\<forall>g. bu_group_id_set u \<and> bu_group_id u = Some g \<longrightarrow> g \<in> gr_id ` set (ob_groups db))
     \<and> set nodeIDs \<subseteq> fst ` set (ob_nodes db) \<and> set add \<union> set remove \<subseteq> tg_id ` set (ob_tags db)
     \<and> (\<forall>i\<in>set nodeIDs. length (changed_tags remove add (node_tag_set db i)) \<le> max_node_tags_per_node)"

lemma write_batch_cases:
  assumes "organization_ok ul db" "distinct nodeIDs"
  shows "if batch_ready u nodeIDs add remove db then write_batch u nodeIDs add remove db = (Inr (), write_metadata u nodeIDs add remove db)
         else \<exists>e. write_batch u nodeIDs add remove db = (Inl e, db)"
proof -
  have d: "distinct (map gr_id (ob_groups db))" "distinct (map fst (ob_nodes db))" "distinct (map tg_id (ob_tags db))"
    using assms(1) by (auto simp: organization_ok_def groups_ok_def tags_ok_def links_ok_def)
  note r = id_required [OF d(1)] ids_required [OF assms(2) d(2)] ids_required [OF unique_strings(2) d(3)] unique_strings(1) tag_limit
  have unit: "(\<exists>e. m = Inl e) \<longleftrightarrow> m \<noteq> Inr ()" for m :: "organization_error + unit" by (cases m) auto
  let ?g = "case bu_group_id u of None \<Rightarrow> Inr () | Some g \<Rightarrow> if bu_group_id_set u then require_id_in_tx gr_id (ob_groups db) g else Inr ()"
    and ?n = "require_ids_in_tx fst (ob_nodes db) nodeIDs" and ?t = "require_ids_in_tx tg_id (ob_tags db) (unique_strings (add @ remove))"
    and ?c = "check_tag_limit db remove add nodeIDs"
  have g: "?g = Inr () \<longleftrightarrow> (\<forall>g. bu_group_id_set u \<and> bu_group_id u = Some g \<longrightarrow> g \<in> gr_id ` set (ob_groups db))"
    using r(1) by (auto split: option.splits)
  have ready: "batch_ready u nodeIDs add remove db \<longleftrightarrow> ?g = Inr () \<and> ?n = Inr () \<and> ?t = Inr () \<and> ?c = Inr ()"
    unfolding g r batch_ready_def by auto
  show ?thesis unfolding ready write_batch_def run_tx_def
    by (cases ?g; cases ?n; cases ?t; cases ?c) (simp_all add: bindE_def)
qed

lemma write_metadata_ok:
  assumes ok: "organization_ok ul db" and ready: "batch_ready u nodeIDs add remove db"
  shows "organization_ok ul (write_metadata u nodeIDs add remove db)"
proof -
  let ?db = "write_metadata u nodeIDs add remove db"
  have fsts: "map fst (ob_nodes ?db) = map fst (ob_nodes db)" by (simp add: written_parts comp_def if_distrib cong: if_cong)
  then have ids: "fst ` set (ob_nodes ?db) = fst ` set (ob_nodes db)" by (metis set_map)
  have "\<forall>n\<in>set (ob_nodes ?db). \<forall>g. snd n = Some g \<longrightarrow> g \<in> gr_id ` set (ob_groups db)"
    using ok ready by (auto simp: organization_ok_def links_ok_def batch_ready_def written_parts)
  moreover have "distinct (ob_links ?db)" using ok by (simp add: organization_ok_def links_ok_def written_parts insert_links delete_rows_def)
  moreover have "fst l \<in> fst ` set (ob_nodes db) \<and> snd l \<in> tg_id ` set (ob_tags db)" if "l \<in> set (ob_links ?db)" for l
    using that ok ready by (auto simp: written_parts insert_links organization_ok_def links_ok_def batch_ready_def)
  ultimately have "links_ok (ob_nodes ?db) (gr_id ` set (ob_groups db)) (tg_id ` set (ob_tags db)) (ob_links ?db)"
    using ok fsts ids by (simp add: links_ok_def organization_ok_def)
  moreover have "length (node_tag_set ?db i) \<le> max_node_tags_per_node" for i
  proof -
    have len: "length (node_tag_set ?db i) = card (set (node_tag_set ?db i))" by (simp add: node_tag_set_def distinct_card [symmetric])
    show ?thesis
    proof (cases "i \<in> set nodeIDs")
      case True
      then have "set (node_tag_set ?db i) = set (changed_tags remove add (node_tag_set db i))" by (simp add: written_tags changed_tags)
      then have "length (node_tag_set ?db i) \<le> length (changed_tags remove add (node_tag_set db i))" using len card_length by metis
      then show ?thesis using True ready by (force simp: batch_ready_def)
    next
      case False
      then have "set (node_tag_set ?db i) = set (node_tag_set db i)" by (simp add: written_tags)
      then have "length (node_tag_set ?db i) \<le> length (node_tag_set db i)" using len card_length by metis
      then show ?thesis using ok by (meson organization_ok_def order_trans)
    qed
  qed
  ultimately show ?thesis using ok by (simp add: organization_ok_def written_parts)
qed

lemma batch_update_snd: "snd (batch_update_metadata u db)
   = (case validate_batch u of Inl e \<Rightarrow> db | Inr (nodeIDs, add, remove) \<Rightarrow> snd (write_batch u nodeIDs add remove db))"
  by (auto simp: batch_update_metadata_def split: sum.splits prod.splits)

lemma batch_update_ok: "organization_ok ul (snd (batch_update_metadata u db))" if ok: "organization_ok ul db"
proof (cases "validate_batch u")
  case (Inr v)
  obtain nodeIDs add remove where v: "v = (nodeIDs, add, remove)" by (cases v) auto
  then have "distinct nodeIDs" using validated_batch Inr by blast
  then show ?thesis
    using write_batch_cases [OF ok, of nodeIDs u add remove] write_metadata_ok [OF ok, of u nodeIDs add remove] ok Inr v
    by (auto simp: batch_update_snd split: if_splits)
qed (simp add: batch_update_snd ok)

lemma register_node_ok: "organization_ok ul (register_node i db)" if "organization_ok ul db"
  using that by (auto simp: register_node_def organization_ok_def links_ok_def node_tag_set_def)

lemma links_ok_remove:
  assumes ok: "links_ok nodes G T links"
  shows "links_ok (delete_rows (\<lambda>n. fst n = i) nodes) G T (delete_rows (\<lambda>l. fst l = i) links)"
proof -
  have "fst l \<in> fst ` {n \<in> set nodes. fst n \<noteq> i} \<and> snd l \<in> T" if l: "l \<in> set links" "fst l \<noteq> i" for l
  proof -
    have "fst l \<in> fst ` set nodes" "snd l \<in> T" using ok l(1) unfolding links_ok_def by blast+
    then obtain n where "n \<in> set nodes" "fst n = fst l" by force
    then show ?thesis using l(2) \<open>snd l \<in> T\<close> by force
  qed
  then show ?thesis using ok unfolding links_ok_def
    by (intro conjI ballI) (auto simp: distinct_map_filter delete_rows_def)
qed

lemma drop_node_ok: "organization_ok ul (drop_node i db)" if ok: "organization_ok ul db"
proof -
  have "length (node_tag_set (drop_node i db) j) \<le> max_node_tags_per_node" for j
    using ok tag_set_shrinks [of "drop_node i db" db j] unfolding organization_ok_def drop_node_def by (auto intro: order_trans)
  then show ?thesis using ok by (simp add: organization_ok_def drop_node_def links_ok_remove)
qed

lemma organization_op_ok: "organization_ok ul db \<Longrightarrow> organization_ok ul (apply_organization_op ul op db)"
  by (cases op) (simp_all add: create_group_ok update_group_ok delete_group_ok create_tag_ok update_tag_ok delete_tag_ok batch_update_ok
      register_node_ok drop_node_ok)

lemma empty_organization_ok: "organization_ok ul empty_organization_db"
  by (simp add: organization_ok_def empty_organization_db_def groups_ok_def tags_ok_def links_ok_def node_tag_set_def)

definition organized :: "(nat \<Rightarrow> nat) \<Rightarrow> organization_op list \<Rightarrow> organization_db" where
  "organized ul ops = fold (apply_organization_op ul) ops empty_organization_db"

lemma organized_ok: "organization_ok ul (organized ul ops)"
proof -
  have "organization_ok ul db \<Longrightarrow> organization_ok ul (fold (apply_organization_op ul) ops db)" for db
    by (induction ops arbitrary: db) (simp_all add: organization_op_ok)
  then show ?thesis by (simp add: organized_def empty_organization_ok)
qed

text \<open>C38: Whatever operations ran: no two groups and no two tags have the same name up to case, a node is in at most one group and that group exists, tags hang on existing nodes and exist, and no node has more than twenty tags.\<close>

theorem organization_is_consistent: "organization_ok ul (organized ul ops)"
  by (rule organized_ok)

section \<open>What a batch update does\<close>

lemma scan_rows: "foldl scan_organization x (map (Pair g) ts)
   = \<lparr>no_group = (if ts \<noteq> [] \<and> fst g \<noteq> [] then Some g else no_group x), no_tags = no_tags x @ filter (\<lambda>t. fst t \<noteq> []) ts\<rparr>"
  by (induction ts arbitrary: x) (auto simp: scan_organization_def Let_def)

lemma find_key_some: "i \<in> key ` set rows \<Longrightarrow> \<exists>r. List.find (\<lambda>r. key r = i) rows = Some r \<and> key r = i"
  by (cases "List.find (\<lambda>r. key r = i) rows") (auto simp: find_None_iff find_Some_iff)

definition shown :: "organization_db \<Rightarrow> string \<times> string option \<Rightarrow> node_organization" where
  "shown db n = foldl scan_organization no_organization (organization_rows db n)"

lemma shown_node:
  assumes ok: "organization_ok ul db" and n: "n \<in> set (ob_nodes db)"
  shows "map_option fst (no_group (shown db n)) = snd n \<and> set (map fst (no_tags (shown db n))) = set (node_tag_set db (fst n))"
proof -
  define tag where "tag l = (case List.find (\<lambda>t. tg_id t = snd l) (ob_tags db) of None \<Rightarrow> ([], [], []) | Some t \<Rightarrow> (tg_id t, tg_name t, tg_color t))" for l :: "string \<times> string"
  have tag: "tag = (\<lambda>l. case List.find (\<lambda>t. tg_id t = snd l) (ob_tags db) of None \<Rightarrow> ([], [], []) | Some t \<Rightarrow> (tg_id t, tg_name t, tg_color t))"
    by (rule ext) (simp add: tag_def)
  let ?links = "filter (\<lambda>l. fst l = fst n) (ob_links db)"
  let ?rows = "if ?links = [] then [([], [], [])] else sort_key (fst \<circ> snd) (map tag ?links)"
  have links: "fst (tag l) = snd l \<and> snd l \<noteq> []" if "l \<in> set (ob_links db)" for l
  proof -
    have "snd l \<in> tg_id ` set (ob_tags db)" "[] \<notin> tg_id ` set (ob_tags db)"
      using ok that by (auto simp: organization_ok_def links_ok_def tags_ok_def)
    then show ?thesis using find_key_some [of "snd l" tg_id "ob_tags db"] by (auto simp: tag_def)
  qed
  obtain g where g: "organization_rows db n = map (Pair g) ?rows"
      "snd n = None \<Longrightarrow> fst g = []" "\<And>i. snd n = Some i \<Longrightarrow> fst g = i \<and> i \<noteq> []"
  proof (cases "snd n")
    case None
    have "organization_rows db n = map (Pair ([], [])) ?rows" unfolding organization_rows_def Let_def tag None by simp
    then show ?thesis by (rule that) (use None in simp_all)
  next
    case (Some i)
    then have i: "i \<in> gr_id ` set (ob_groups db)" "[] \<notin> gr_id ` set (ob_groups db)"
      using ok n by (auto simp: organization_ok_def links_ok_def groups_ok_def)
    from find_key_some [OF i(1)] obtain r where "List.find (\<lambda>g. gr_id g = i) (ob_groups db) = Some r" "gr_id r = i" by auto
    then have "organization_rows db n = map (Pair (gr_id r, gr_name r)) ?rows" unfolding organization_rows_def Let_def tag Some by simp
    then show ?thesis by (rule that) (use Some i \<open>gr_id r = i\<close> in auto)
  qed
  have "sort_key (fst \<circ> snd) (map tag xs) = [] \<longleftrightarrow> xs = []" for xs by (metis length_0_conv length_sort map_is_Nil_conv)
  then have rows: "shown db n = \<lparr>no_group = (if fst g \<noteq> [] then Some g else None), no_tags = filter (\<lambda>t. fst t \<noteq> []) ?rows\<rparr>"
    unfolding shown_def g(1) scan_rows by (auto simp: no_organization_def)
  have "set (map fst (filter (\<lambda>t. fst t \<noteq> []) ?rows)) = snd ` set ?links"
  proof (cases "?links = []")
    case False
    then have "set (map fst (filter (\<lambda>t. fst t \<noteq> []) ?rows)) = fst ` {t \<in> tag ` set ?links. fst t \<noteq> []}" by simp
    also have "{t \<in> tag ` set ?links. fst t \<noteq> []} = tag ` set ?links" using links by auto
    also have "fst ` tag ` set ?links = snd ` set ?links" unfolding image_image using links by (intro image_cong) auto
    finally show ?thesis .
  qed simp
  then show ?thesis using rows g(2,3) by (cases "snd n") (auto simp: node_tag_set_def)
qed


lemma filter_key: "distinct (map key rows) \<Longrightarrow> n \<in> set rows \<Longrightarrow> filter (\<lambda>m. key m = key n) rows = [n]"
  by (induction rows) (auto simp: filter_empty_conv rev_image_eqI)

lemma filter_marked: "i \<notin> I \<Longrightarrow> filter (\<lambda>n. fst n = i) (map (\<lambda>n. if c \<and> fst n \<in> I then (fst n, g) else n) rows) = filter (\<lambda>n. fst n = i) rows"
  by (induction rows) auto

lemma node_row: "organization_ok ul db \<Longrightarrow> n \<in> set (ob_nodes db) \<Longrightarrow> get_node_organization db (fst n) = Inr (shown db n)"
proof -
  assume ok: "organization_ok ul db" and n: "n \<in> set (ob_nodes db)"
  have "distinct (map fst (ob_nodes db))" using ok by (simp add: organization_ok_def links_ok_def)
  then have "filter (\<lambda>m. fst m = fst n) (ob_nodes db) = [n]" using n by (rule filter_key)
  then show ?thesis by (simp add: get_node_organization_def count_rows_def shown_def)
qed

lemma read_all: "(\<And>i. i \<in> set ids \<Longrightarrow> get_node_organization db i = Inr (f i)) \<Longrightarrow> read_organizations db ids = Inr (map (\<lambda>i. (i, f i)) ids)"
  by (induction ids) auto

lemma organization_rows_cong:
  "ob_groups db' = ob_groups db \<Longrightarrow> ob_tags db' = ob_tags db \<Longrightarrow> filter (\<lambda>l. fst l = fst n) (ob_links db') = filter (\<lambda>l. fst l = fst n) (ob_links db)
     \<Longrightarrow> organization_rows db' n = organization_rows db n"
  by (simp add: organization_rows_def cong: option.case_cong)

lemma untouched_links:
  "filter (\<lambda>l. fst l = i) (fold insert_link (List.product nodeIDs add) links) = filter (\<lambda>l. fst l = i) links" if "i \<notin> set nodeIDs"
proof -
  have base: "\<forall>l\<in>set ls. fst l \<noteq> i \<Longrightarrow> filter (\<lambda>l. fst l = i) (fold insert_link ls links) = filter (\<lambda>l. fst l = i) links" for ls links
    by (induction ls arbitrary: links) (auto simp: insert_link_def)
  show ?thesis by (rule base) (use that in auto)
qed

lemma untouched_node:
  assumes "i \<notin> set nodeIDs"
  shows "get_node_organization (write_metadata u nodeIDs add remove db) i = get_node_organization db i"
proof -
  let ?db = "write_metadata u nodeIDs add remove db"
  have nodes: "filter (\<lambda>n. fst n = i) (ob_nodes ?db) = filter (\<lambda>n. fst n = i) (ob_nodes db)"
    using assms by (simp add: written_parts filter_marked)
  have "organization_rows ?db n = organization_rows db n" if "fst n = i" for n
    using assms that by (intro organization_rows_cong) (auto simp: written_parts untouched_links delete_rows_def intro!: filter_cong)
  then have rows: "map (organization_rows ?db) (filter (\<lambda>n. fst n = i) (ob_nodes db)) = map (organization_rows db) (filter (\<lambda>n. fst n = i) (ob_nodes db))"
    by simp
  show ?thesis unfolding get_node_organization_def count_rows_def nodes rows ..
qed

lemma written_row:
  assumes "i \<in> set nodeIDs" "set nodeIDs \<subseteq> fst ` set (ob_nodes db)"
  shows "\<exists>n\<in>set (ob_nodes (write_metadata u nodeIDs add remove db)). fst n = i \<and> (bu_group_id_set u \<longrightarrow> snd n = bu_group_id u)"
proof -
  obtain n where n: "n \<in> set (ob_nodes db)" "fst n = i" using assms by blast
  let ?n = "if bu_group_id_set u then (i, bu_group_id u) else n"
  have "?n \<in> set (ob_nodes (write_metadata u nodeIDs add remove db))"
    unfolding written_parts set_map using n assms(1) by (intro image_eqI [of _ _ n]) auto
  then show ?thesis by (rule rev_bexI) (use n in auto)
qed

text \<open>C37: A batch update is all or nothing.  When it succeeds, each node it names has lost exactly the removed tags and gained exactly the added ones and is in the given group, the answer shows this, and every other node shows the same as before.\<close>

theorem batch_update_outcome:
  assumes "db = organized ul ops"
  shows "(\<exists>e. batch_update_metadata u db = (Inl e, db))
    \<or> (\<exists>nodeIDs add remove db' res. batch_update_metadata u db = (Inr (map (\<lambda>i. (i, res i)) nodeIDs), db')
         \<and> validate_batch u = Inr (nodeIDs, add, remove)
         \<and> (\<forall>i. get_node_organization db' i = (if i \<in> set nodeIDs then Inr (res i) else get_node_organization db i))
         \<and> (\<forall>i\<in>set nodeIDs. set (map fst (no_tags (res i))) = (set (node_tag_set db i) - set remove) \<union> set add
              \<and> (bu_group_id_set u \<longrightarrow> map_option fst (no_group (res i)) = bu_group_id u)))"
proof (cases "validate_batch u")
  case (Inl e)
  then show ?thesis by (simp add: batch_update_metadata_def)
next
  case (Inr v)
  obtain nodeIDs add remove where v: "v = (nodeIDs, add, remove)" by (cases v) auto
  have ok: "organization_ok ul db" using assms organized_ok by simp
  have d: "distinct nodeIDs" using validated_batch Inr v by blast
  let ?db = "write_metadata u nodeIDs add remove db"
  show ?thesis
  proof (cases "batch_ready u nodeIDs add remove db")
    case True
    note ok' = write_metadata_ok [OF ok True]
    have "\<forall>i\<in>set nodeIDs. \<exists>n\<in>set (ob_nodes ?db). fst n = i \<and> (bu_group_id_set u \<longrightarrow> snd n = bu_group_id u)"
      using True written_row by (simp add: batch_ready_def)
    then obtain row where row: "\<forall>i\<in>set nodeIDs. row i \<in> set (ob_nodes ?db) \<and> fst (row i) = i \<and> (bu_group_id_set u \<longrightarrow> snd (row i) = bu_group_id u)"
      by metis
    have "get_node_organization ?db i = Inr (shown ?db (row i))" if "i \<in> set nodeIDs" for i using row that node_row [OF ok'] by metis
    moreover have "batch_update_metadata u db = (Inr (map (\<lambda>i. (i, shown ?db (row i))) nodeIDs), ?db)"
      using write_batch_cases [OF ok d, of u add remove] True Inr v read_all [of nodeIDs ?db "\<lambda>i. shown ?db (row i)"] calculation
      by (simp add: batch_update_metadata_def)
    moreover have "set (map fst (no_tags (shown ?db (row i)))) = (set (node_tag_set db i) - set remove) \<union> set add
        \<and> (bu_group_id_set u \<longrightarrow> map_option fst (no_group (shown ?db (row i))) = bu_group_id u)" if "i \<in> set nodeIDs" for i
      using shown_node [OF ok', of "row i"] row that written_tags [of u nodeIDs add remove db i] by simp
    ultimately show ?thesis
      using Inr v untouched_node by (intro disjI2 exI [of _ nodeIDs] exI [of _ add] exI [of _ remove] exI [of _ ?db] exI [of _ "\<lambda>i. shown ?db (row i)"]) auto
  next
    case False
    then show ?thesis using write_batch_cases [OF ok d, of u add remove] Inr v by (auto simp: batch_update_metadata_def)
  qed
qed

definition sample_batch :: batch_update where
  "sample_batch = \<lparr>bu_node_ids = [''n''], bu_group_id_set = True, bu_group_id = None, bu_add_tag_ids = [''tag_01''], bu_remove_tag_ids = []\<rparr>"

definition sample_organized :: "organization_op list" where
  "sample_organized = [RegisterNode ''n'', CreateTag (Some [1]) 0 ''a'' ''red'']"

lemma sample_organized: "organized id sample_organized = \<lparr>ob_nodes = [(''n'', None)], ob_groups = [],
     ob_tags = [\<lparr>tg_id = ''tag_01'', tg_name = ''a'', tg_normalized_name = ''a'', tg_color = ''red'', tg_created_at = 0, tg_updated_at = 0\<rparr>],
     ob_links = []\<rparr>"
proof -
  have t: "trim_space ''a'' = ''a''" "trim_space ''red'' = ''red''" "to_lower id ''a'' = ''a''" "to_lower id ''red'' = ''red''" "rune_count ''a'' = 1"
    by (simp_all add: eval_text) code_simp+
  show ?thesis
    by (simp add: organized_def sample_organized_def empty_organization_db_def register_node_def create_tag_def run_tx_def normalize_organization_name_def t
        normalize_tag_color_def node_tag_colors_def organization_id_def hex_encode_def hex_digit_def max_node_tag_name_runes_def Let_def; code_simp?)
qed

lemma sample_batch_run: "batch_update_metadata sample_batch (organized id sample_organized)
     = (Inr [(''n'', \<lparr>no_group = None, no_tags = [(''tag_01'', ''a'', ''red'')]\<rparr>)], (organized id sample_organized)\<lparr>ob_links := [(''n'', ''tag_01'')]\<rparr>)"
    and sample_batch_valid: "validate_batch sample_batch = Inr ([''n''], [''tag_01''], [])"
proof -
  have t: "trim_space ''n'' = ''n''" "trim_space ''tag_01'' = ''tag_01''" by (simp_all add: eval_text)
  show v: "validate_batch sample_batch = Inr ([''n''], [''tag_01''], [])"
    by (simp add: validate_batch_def sample_batch_def validate_unique_ids_def validate_unique_ids_allow_empty_def max_batch_metadata_nodes_def
        max_node_tags_per_node_def t)
  show "batch_update_metadata sample_batch (organized id sample_organized)
     = (Inr [(''n'', \<lparr>no_group = None, no_tags = [(''tag_01'', ''a'', ''red'')]\<rparr>)], (organized id sample_organized)\<lparr>ob_links := [(''n'', ''tag_01'')]\<rparr>)"
    unfolding batch_update_metadata_def v
    by (simp add: write_batch_def run_tx_def sample_organized sample_batch_def require_ids_in_tx_def unique_strings_def
        node_tag_set_def changed_tags_def max_node_tags_per_node_def write_metadata_def insert_link_def get_node_organization_def organization_rows_def
        scan_organization_def no_organization_def Let_def)
qed

lemma batch_update_outcome_witness:
  "\<exists>res. fst (batch_update_metadata sample_batch (organized id sample_organized)) = Inr [(''n'', res)] \<and> set (map fst (no_tags res)) = {''tag_01''}
     \<and> map_option fst (no_group res) = None"
proof -
  have "node_tag_set (organized id sample_organized) ''n'' = []" by (simp add: node_tag_set_def sample_organized)
  moreover have b: "bu_group_id_set sample_batch" "bu_group_id sample_batch = None" by (simp_all add: sample_batch_def)
  ultimately show ?thesis
    using batch_update_outcome [OF refl, of sample_batch id sample_organized] unfolding sample_batch_valid
    by (auto simp: sample_batch_run b)
qed


end
