(* ===== verification/ServiceCenter.thy ===== *)
theory ServiceCenter
  imports UptimeModel AlertStore TaskTypes "HOL-Library.Product_Lexorder" "HOL-Library.AList"
begin

text \<open>
  \<^verbatim>\<open>internal/server/servicecenter\<close>: application services, which are named groups of resources (nodes, Compose
  projects, Systemd services, workloads, monitors, alert rules, tasks), their table, and the health of a service from
  the state of its resources.  \<open>ul\<close> is \<^verbatim>\<open>unicode.ToLower\<close> outside ASCII; \<open>uuid\<close> gives the canonical text of what
  \<^verbatim>\<open>uuid.Parse\<close> accepts.  Times are kept as the texts that the code stores.
\<close>

section \<open>Data and validation\<close>

record resource =
  rs_id :: string
  rs_service_id :: string
  rs_type :: string
  rs_scope_id :: string
  rs_kind :: string
  rs_namespace :: string
  rs_key :: string
  rs_display_name :: string
  rs_created_at :: string

record service_input =
  si_name :: string
  si_description :: string
  si_resources :: "resource list"

record app_service =
  sv_id :: string
  sv_name :: string
  sv_description :: string
  sv_resources :: "resource list"
  sv_created_at :: string
  sv_updated_at :: string

datatype service_error = ServiceInvalid string | ServiceConflict string | ServiceNotFound

definition max_resources_per_service :: nat where "max_resources_per_service = 200"
definition nil_uuid :: string where "nil_uuid = ''00000000-0000-0000-0000-000000000000''"

definition valid_bounded :: "string \<Rightarrow> nat \<Rightarrow> bool" where
  "valid_bounded s limit \<longleftrightarrow> valid_utf8 s \<and> length s \<le> limit"

definition valid_k8s_kind :: "string \<Rightarrow> bool" where
  "valid_k8s_kind kind \<longleftrightarrow> kind = ''deployment'' \<or> kind = ''statefulset'' \<or> kind = ''daemonset''"

definition resource_identity :: "resource \<Rightarrow> string" where
  "resource_identity r = join [CHR 0x00] [rs_type r, rs_scope_id r, rs_kind r, rs_namespace r, rs_key r]"

definition trimmed_resource :: "(nat \<Rightarrow> nat) \<Rightarrow> resource \<Rightarrow> resource" where
  "trimmed_resource ul r = r\<lparr>rs_id := [], rs_service_id := [], rs_created_at := [], rs_scope_id := trim_space (rs_scope_id r),
     rs_kind := to_lower ul (trim_space (rs_kind r)), rs_namespace := trim_space (rs_namespace r), rs_key := trim_space (rs_key r),
     rs_display_name := trim_space (rs_display_name r)\<rparr>"

text \<open>The part that depends on the type; the message for an unknown type leaves out its quotation.\<close>

definition normalize_identity :: "(string \<Rightarrow> string option) \<Rightarrow> resource \<Rightarrow> service_error + resource" where
  "normalize_identity uuid r =
     (let scoped = rs_scope_id r \<noteq> [] \<or> rs_kind r \<noteq> [] \<or> rs_namespace r \<noteq> [] in
      if rs_type r = ''node'' then (if scoped then Inl (ServiceInvalid (([CHR 0xE8, CHR 0x8A, CHR 0x82, CHR 0xE7, CHR 0x82, CHR 0xB9, CHR 0xE8, CHR 0xB5, CHR 0x84, CHR 0xE6, CHR 0xBA, CHR 0x90, CHR 0xE8, CHR 0xBA, CHR 0xAB, CHR 0xE4, CHR 0xBB, CHR 0xBD, CHR 0xE6, CHR 0xA0, CHR 0xBC, CHR 0xE5, CHR 0xBC, CHR 0x8F, CHR 0xE6, CHR 0x97, CHR 0xA0, CHR 0xE6, CHR 0x95, CHR 0x88]))) else Inr r)
      else if rs_type r = ''compose_project'' then
        (if rs_scope_id r = [] \<or> rs_namespace r \<noteq> [] \<or> rs_kind r \<noteq> ''managed'' \<and> rs_kind r \<noteq> ''external''
         then Inl (ServiceInvalid (''Compose '' @ ([CHR 0xE9, CHR 0xA1, CHR 0xB9, CHR 0xE7, CHR 0x9B, CHR 0xAE, CHR 0xE8, CHR 0xBA, CHR 0xAB, CHR 0xE4, CHR 0xBB, CHR 0xBD, CHR 0xE6, CHR 0xA0, CHR 0xBC, CHR 0xE5, CHR 0xBC, CHR 0x8F, CHR 0xE6, CHR 0x97, CHR 0xA0, CHR 0xE6, CHR 0x95, CHR 0x88])))
         else if rs_kind r = ''managed'' then
           (case uuid (rs_key r) of
              None \<Rightarrow> Inl (ServiceInvalid (([CHR 0xE6, CHR 0x89, CHR 0x98, CHR 0xE7, CHR 0xAE, CHR 0xA1]) @ '' Compose '' @ ([CHR 0xE9, CHR 0xA1, CHR 0xB9, CHR 0xE7, CHR 0x9B, CHR 0xAE]) @ '' ID '' @ ([CHR 0xE6, CHR 0x97, CHR 0xA0, CHR 0xE6, CHR 0x95, CHR 0x88])))
            | Some u \<Rightarrow> if u = nil_uuid then Inl (ServiceInvalid (([CHR 0xE6, CHR 0x89, CHR 0x98, CHR 0xE7, CHR 0xAE, CHR 0xA1]) @ '' Compose '' @ ([CHR 0xE9, CHR 0xA1, CHR 0xB9, CHR 0xE7, CHR 0x9B, CHR 0xAE]) @ '' ID '' @ ([CHR 0xE6, CHR 0x97, CHR 0xA0, CHR 0xE6, CHR 0x95, CHR 0x88])))
                        else Inr (r\<lparr>rs_key := u\<rparr>))
         else Inr r)
      else if rs_type r = ''systemd_service'' then
        (if rs_scope_id r = [] \<or> rs_kind r \<noteq> [] \<or> rs_namespace r \<noteq> [] then Inl (ServiceInvalid (''Systemd '' @ ([CHR 0xE6, CHR 0x9C, CHR 0x8D, CHR 0xE5, CHR 0x8A, CHR 0xA1, CHR 0xE8, CHR 0xBA, CHR 0xAB, CHR 0xE4, CHR 0xBB, CHR 0xBD, CHR 0xE6, CHR 0xA0, CHR 0xBC, CHR 0xE5, CHR 0xBC, CHR 0x8F, CHR 0xE6, CHR 0x97, CHR 0xA0, CHR 0xE6, CHR 0x95, CHR 0x88]))) else Inr r)
      else if rs_type r = ''k8s_workload'' then
        (if rs_scope_id r = [] \<or> rs_namespace r = [] \<or> \<not> valid_k8s_kind (rs_kind r)
         then Inl (ServiceInvalid (''Kubernetes '' @ ([CHR 0xE5, CHR 0xB7, CHR 0xA5, CHR 0xE4, CHR 0xBD, CHR 0x9C, CHR 0xE8, CHR 0xB4, CHR 0x9F, CHR 0xE8, CHR 0xBD, CHR 0xBD, CHR 0xE8, CHR 0xBA, CHR 0xAB, CHR 0xE4, CHR 0xBB, CHR 0xBD, CHR 0xE6, CHR 0xA0, CHR 0xBC, CHR 0xE5, CHR 0xBC, CHR 0x8F, CHR 0xE6, CHR 0x97, CHR 0xA0, CHR 0xE6, CHR 0x95, CHR 0x88]))) else Inr r)
      else if rs_type r = ''uptime_monitor'' \<or> rs_type r = ''alert_rule'' \<or> rs_type r = ''scheduled_task'' then
        (if scoped then Inl (ServiceInvalid (([CHR 0xE6, CHR 0x95, CHR 0xB0, CHR 0xE6, CHR 0x8D, CHR 0xAE, CHR 0xE5, CHR 0xBA, CHR 0x93, CHR 0xE8, CHR 0xB5, CHR 0x84, CHR 0xE6, CHR 0xBA, CHR 0x90, CHR 0xE8, CHR 0xBA, CHR 0xAB, CHR 0xE4, CHR 0xBB, CHR 0xBD, CHR 0xE6, CHR 0xA0, CHR 0xBC, CHR 0xE5, CHR 0xBC, CHR 0x8F, CHR 0xE6, CHR 0x97, CHR 0xA0, CHR 0xE6, CHR 0x95, CHR 0x88])))
         else (case atoi (rs_key r) of
                 None \<Rightarrow> Inl (ServiceInvalid (([CHR 0xE8, CHR 0xB5, CHR 0x84, CHR 0xE6, CHR 0xBA, CHR 0x90]) @ '' ID '' @ ([CHR 0xE5, CHR 0xBF, CHR 0x85, CHR 0xE9, CHR 0xA1, CHR 0xBB, CHR 0xE4, CHR 0xB8, CHR 0xBA, CHR 0xE6, CHR 0xAD, CHR 0xA3, CHR 0xE6, CHR 0x95, CHR 0xB4, CHR 0xE6, CHR 0x95, CHR 0xB0])))
               | Some i \<Rightarrow> if i \<le> 0 then Inl (ServiceInvalid (([CHR 0xE8, CHR 0xB5, CHR 0x84, CHR 0xE6, CHR 0xBA, CHR 0x90]) @ '' ID '' @ ([CHR 0xE5, CHR 0xBF, CHR 0x85, CHR 0xE9, CHR 0xA1, CHR 0xBB, CHR 0xE4, CHR 0xB8, CHR 0xBA, CHR 0xE6, CHR 0xAD, CHR 0xA3, CHR 0xE6, CHR 0x95, CHR 0xB4, CHR 0xE6, CHR 0x95, CHR 0xB0]))) else Inr (r\<lparr>rs_key := show_int i\<rparr>)))
      else Inl (ServiceInvalid (([CHR 0xE4, CHR 0xB8, CHR 0x8D, CHR 0xE6, CHR 0x94, CHR 0xAF, CHR 0xE6, CHR 0x8C, CHR 0x81, CHR 0xE7, CHR 0x9A, CHR 0x84, CHR 0xE8, CHR 0xB5, CHR 0x84, CHR 0xE6, CHR 0xBA, CHR 0x90, CHR 0xE7, CHR 0xB1, CHR 0xBB, CHR 0xE5, CHR 0x9E, CHR 0x8B]))))"

definition normalize_resource :: "(nat \<Rightarrow> nat) \<Rightarrow> (string \<Rightarrow> string option) \<Rightarrow> resource \<Rightarrow> service_error + resource" where
  "normalize_resource ul uuid r0 =
     (let r = trimmed_resource ul r0 in
      if \<not> valid_bounded (rs_scope_id r) 191 \<or> \<not> valid_bounded (rs_kind r) 32 \<or> \<not> valid_bounded (rs_namespace r) 191
         \<or> \<not> valid_bounded (rs_key r) 255 \<or> rs_key r = [] \<or> \<not> valid_bounded (rs_display_name r) 256
      then Inl (ServiceInvalid (([CHR 0xE8, CHR 0xB5, CHR 0x84, CHR 0xE6, CHR 0xBA, CHR 0x90, CHR 0xE6, CHR 0xA0, CHR 0x87, CHR 0xE8, CHR 0xAF, CHR 0x86, CHR 0xE6, CHR 0x97, CHR 0xA0, CHR 0xE6, CHR 0x95, CHR 0x88, CHR 0xE6, CHR 0x88, CHR 0x96, CHR 0xE8, CHR 0xBF, CHR 0x87, CHR 0xE9, CHR 0x95, CHR 0xBF])))
      else normalize_identity uuid (if rs_display_name r = [] then r\<lparr>rs_display_name := rs_key r\<rparr> else r))"

fun normalize_resources :: "(nat \<Rightarrow> nat) \<Rightarrow> (string \<Rightarrow> string option) \<Rightarrow> string list \<Rightarrow> resource list \<Rightarrow> service_error + resource list" where
  "normalize_resources ul uuid seen [] = Inr []"
| "normalize_resources ul uuid seen (r0 # rs) =
     bindE (normalize_resource ul uuid r0) (\<lambda>r.
     bindE (failIf (resource_identity r \<in> set seen) (ServiceConflict (([CHR 0xE5, CHR 0x90, CHR 0x8C, CHR 0xE4, CHR 0xB8, CHR 0x80, CHR 0xE8, CHR 0xB5, CHR 0x84, CHR 0xE6, CHR 0xBA, CHR 0x90, CHR 0xE4, CHR 0xB8, CHR 0x8D, CHR 0xE8, CHR 0x83, CHR 0xBD, CHR 0xE9, CHR 0x87, CHR 0x8D, CHR 0xE5, CHR 0xA4, CHR 0x8D, CHR 0xE5, CHR 0x85, CHR 0xB3, CHR 0xE8, CHR 0x81, CHR 0x94])))) (\<lambda>_.
     bindE (normalize_resources ul uuid (resource_identity r # seen) rs) (\<lambda>rest. Inr (r # rest))))"

definition normalize_service_input :: "(nat \<Rightarrow> nat) \<Rightarrow> (string \<Rightarrow> string option) \<Rightarrow> service_input \<Rightarrow> service_error + service_input \<times> string" where
  "normalize_service_input ul uuid input0 =
     (let name = trim_space (si_name input0); description = trim_space (si_description input0) in
      if name = [] \<or> \<not> valid_utf8 name \<or> rune_count name > 128
      then Inl (ServiceInvalid (([CHR 0xE6, CHR 0x9C, CHR 0x8D, CHR 0xE5, CHR 0x8A, CHR 0xA1, CHR 0xE5, CHR 0x90, CHR 0x8D, CHR 0xE7, CHR 0xA7, CHR 0xB0, CHR 0xE4, CHR 0xB8, CHR 0x8D, CHR 0xE8, CHR 0x83, CHR 0xBD, CHR 0xE4, CHR 0xB8, CHR 0xBA, CHR 0xE7, CHR 0xA9, CHR 0xBA, CHR 0xE4, CHR 0xB8, CHR 0x94, CHR 0xE4, CHR 0xB8, CHR 0x8D, CHR 0xE8, CHR 0x83, CHR 0xBD, CHR 0xE8, CHR 0xB6, CHR 0x85, CHR 0xE8, CHR 0xBF, CHR 0x87]) @ '' 128 '' @ ([CHR 0xE4, CHR 0xB8, CHR 0xAA, CHR 0xE5, CHR 0xAD, CHR 0x97, CHR 0xE7, CHR 0xAC, CHR 0xA6])))
      else if \<not> valid_utf8 description \<or> length description > 2048
      then Inl (ServiceInvalid (([CHR 0xE6, CHR 0x9C, CHR 0x8D, CHR 0xE5, CHR 0x8A, CHR 0xA1, CHR 0xE6, CHR 0x8F, CHR 0x8F, CHR 0xE8, CHR 0xBF, CHR 0xB0, CHR 0xE4, CHR 0xB8, CHR 0x8D, CHR 0xE8, CHR 0x83, CHR 0xBD, CHR 0xE8, CHR 0xB6, CHR 0x85, CHR 0xE8, CHR 0xBF, CHR 0x87]) @ '' 2048 '' @ ([CHR 0xE5, CHR 0xAD, CHR 0x97, CHR 0xE8, CHR 0x8A, CHR 0x82])))
      else if length (si_resources input0) > max_resources_per_service
      then Inl (ServiceInvalid (([CHR 0xE5, CHR 0x8D, CHR 0x95, CHR 0xE4, CHR 0xB8, CHR 0xAA, CHR 0xE6, CHR 0x9C, CHR 0x8D, CHR 0xE5, CHR 0x8A, CHR 0xA1, CHR 0xE6, CHR 0x9C, CHR 0x80, CHR 0xE5, CHR 0xA4, CHR 0x9A, CHR 0xE5, CHR 0x85, CHR 0xB3, CHR 0xE8, CHR 0x81, CHR 0x94]) @ '' 200 '' @ ([CHR 0xE4, CHR 0xB8, CHR 0xAA, CHR 0xE8, CHR 0xB5, CHR 0x84, CHR 0xE6, CHR 0xBA, CHR 0x90])))
      else bindE (normalize_resources ul uuid [] (si_resources input0)) (\<lambda>resources.
           Inr (\<lparr>si_name = name, si_description = description, si_resources = resources\<rparr>, to_lower ul name)))"

section \<open>The store\<close>

record service_row =
  sw_id :: string
  sw_name :: string
  sw_normalized_name :: string
  sw_description :: string
  sw_created_at :: string
  sw_updated_at :: string

record service_db =
  sb_services :: "service_row list"
  sb_resources :: "resource list"

definition empty_service_db :: service_db where
  "empty_service_db = \<lparr>sb_services = [], sb_resources = []\<rparr>"

definition store_conflict :: service_error where
  "store_conflict = ServiceConflict (([CHR 0xE6, CHR 0x9C, CHR 0x8D, CHR 0xE5, CHR 0x8A, CHR 0xA1, CHR 0xE5, CHR 0x90, CHR 0x8D, CHR 0xE7, CHR 0xA7, CHR 0xB0, CHR 0xE6, CHR 0x88, CHR 0x96, CHR 0xE8, CHR 0xB5, CHR 0x84, CHR 0xE6, CHR 0xBA, CHR 0x90, CHR 0xE5, CHR 0x85, CHR 0xB3, CHR 0xE8, CHR 0x81, CHR 0x94, CHR 0xE5, CHR 0xB7, CHR 0xB2, CHR 0xE5, CHR 0xAD, CHR 0x98, CHR 0xE5, CHR 0x9C, CHR 0xA8]))"

text \<open>\<open>draw k\<close> is the identifier drawn for the \<open>k\<close>-th resource.\<close>

fun insert_resources :: "(nat \<Rightarrow> string) \<Rightarrow> nat \<Rightarrow> string \<Rightarrow> string \<Rightarrow> resource list \<Rightarrow> resource list \<Rightarrow> service_error + resource list \<times> resource list" where
  "insert_resources draw k serviceID now [] rows = Inr ([], rows)"
| "insert_resources draw k serviceID now (r0 # rs) rows =
     (let r = r0\<lparr>rs_id := draw k, rs_service_id := serviceID, rs_created_at := now\<rparr> in
      bindE (failIf (\<exists>q\<in>set rows. rs_id q = rs_id r \<or> rs_service_id q = serviceID \<and> rs_type q = rs_type r \<and> rs_scope_id q = rs_scope_id r
                 \<and> rs_kind q = rs_kind r \<and> rs_namespace q = rs_namespace r \<and> rs_key q = rs_key r) store_conflict) (\<lambda>_.
      bindE (insert_resources draw (Suc k) serviceID now rs (rows @ [r])) (\<lambda>(res, rows'). Inr (r # res, rows'))))"

definition create_service ::
  "(nat \<Rightarrow> nat) \<Rightarrow> (string \<Rightarrow> string option) \<Rightarrow> string \<Rightarrow> (nat \<Rightarrow> string) \<Rightarrow> string \<Rightarrow> service_input \<Rightarrow> service_db \<Rightarrow> (service_error + app_service) \<times> service_db" where
  "create_service ul uuid i draw now input0 = run_tx (\<lambda>db.
     bindE (normalize_service_input ul uuid input0) (\<lambda>(input, normalizedName).
     bindE (failIf (\<exists>s\<in>set (sb_services db). sw_id s = i \<or> sw_normalized_name s = normalizedName) store_conflict) (\<lambda>_.
     bindE (insert_resources draw 0 i now (si_resources input) (sb_resources db)) (\<lambda>(resources, rows).
     Inr (\<lparr>sv_id = i, sv_name = si_name input, sv_description = si_description input, sv_resources = resources, sv_created_at = now, sv_updated_at = now\<rparr>,
          \<lparr>sb_services = sb_services db @ [\<lparr>sw_id = i, sw_name = si_name input, sw_normalized_name = normalizedName,
             sw_description = si_description input, sw_created_at = now, sw_updated_at = now\<rparr>], sb_resources = rows\<rparr>)))))"

definition update_service ::
  "(nat \<Rightarrow> nat) \<Rightarrow> (string \<Rightarrow> string option) \<Rightarrow> (nat \<Rightarrow> string) \<Rightarrow> string \<Rightarrow> string \<Rightarrow> service_input \<Rightarrow> service_db \<Rightarrow> (service_error + app_service) \<times> service_db" where
  "update_service ul uuid draw now id0 input0 = run_tx (\<lambda>db.
     let i = trim_space id0 in
     bindE (failIf (i = []) (ServiceInvalid (([CHR 0xE6, CHR 0x9C, CHR 0x8D, CHR 0xE5, CHR 0x8A, CHR 0xA1]) @ '' ID '' @ ([CHR 0xE4, CHR 0xB8, CHR 0x8D, CHR 0xE8, CHR 0x83, CHR 0xBD, CHR 0xE4, CHR 0xB8, CHR 0xBA, CHR 0xE7, CHR 0xA9, CHR 0xBA])))) (\<lambda>_.
     bindE (normalize_service_input ul uuid input0) (\<lambda>(input, normalizedName).
     case List.find (\<lambda>s. sw_id s = i) (sb_services db) of
       None \<Rightarrow> Inl ServiceNotFound
     | Some s \<Rightarrow>
         bindE (failIf (\<exists>s\<in>set (sb_services db). sw_id s \<noteq> i \<and> sw_normalized_name s = normalizedName) store_conflict) (\<lambda>_.
         let services = update_rows (\<lambda>s. sw_id s = i) (\<lambda>s. s\<lparr>sw_name := si_name input, sw_normalized_name := normalizedName,
               sw_description := si_description input, sw_updated_at := now\<rparr>) (sb_services db) in
         bindE (insert_resources draw 0 i now (si_resources input) (delete_rows (\<lambda>r. rs_service_id r = i) (sb_resources db))) (\<lambda>(resources, rows).
         Inr (\<lparr>sv_id = i, sv_name = si_name input, sv_description = si_description input, sv_resources = resources,
                sv_created_at = sw_created_at s, sv_updated_at = now\<rparr>, \<lparr>sb_services = services, sb_resources = rows\<rparr>))))))"

definition delete_service :: "string \<Rightarrow> service_db \<Rightarrow> (service_error + unit) \<times> service_db" where
  "delete_service id0 db =
     (let i = trim_space id0 in
      if count_rows (\<lambda>s. sw_id s = i) (sb_services db) = 0 then (Inl ServiceNotFound, db)
      else (Inr (), \<lparr>sb_services = delete_rows (\<lambda>s. sw_id s = i) (sb_services db),
                     sb_resources = delete_rows (\<lambda>r. rs_service_id r = i) (sb_resources db)\<rparr>))"

text \<open>The join gives the rows of a service next to each other, in the order of its resources; \<^verbatim>\<open>LOWER\<close> of SQLite is that of ASCII.\<close>

definition service_of :: "service_db \<Rightarrow> service_row \<Rightarrow> app_service" where
  "service_of db s = \<lparr>sv_id = sw_id s, sv_name = sw_name s, sv_description = sw_description s,
     sv_resources = sort_key (\<lambda>r. (rs_type r, rs_display_name r, rs_id r)) (filter (\<lambda>r. rs_service_id r = sw_id s) (sb_resources db)),
     sv_created_at = sw_created_at s, sv_updated_at = sw_updated_at s\<rparr>"

definition sql_lower :: "string \<Rightarrow> string" where
  "sql_lower s = map (\<lambda>c. char_of (ascii_lower (of_char c))) s"

definition query_services :: "(service_row \<Rightarrow> bool) \<Rightarrow> service_db \<Rightarrow> app_service list" where
  "query_services P db = map (service_of db) (sort_key (\<lambda>s. (sql_lower (sw_name s), sw_id s)) (filter P (sb_services db)))"

definition get_service :: "string \<Rightarrow> service_db \<Rightarrow> service_error + app_service" where
  "get_service id0 db = (case query_services (\<lambda>s. sw_id s = trim_space id0) db of [] \<Rightarrow> Inl ServiceNotFound | s # ss \<Rightarrow> Inr s)"

definition list_services :: "service_db \<Rightarrow> app_service list" where
  "list_services db = query_services (\<lambda>s. True) db"

section \<open>Health\<close>

datatype health_status = HealthHealthy | HealthDegraded | HealthUnhealthy | HealthUnknown

record resource_projection =
  rp_resource :: resource
  rp_health :: health_status
  rp_state :: string
  rp_reason :: string
  rp_meta :: "(string \<times> string) list"

record health_reason =
  hr_status :: health_status
  hr_resource_id :: string
  hr_resource_type :: string
  hr_resource_name :: string
  hr_message :: string

record uptime_signal =
  us_name :: string
  us_target :: string
  us_enabled :: bool
  us_status :: string

record alert_signal =
  as_name :: string
  as_enabled :: bool
  as_active_count :: int

record task_signal =
  ts_name :: string
  ts_enabled :: bool
  ts_latest_status :: string
  ts_has_run :: bool

record compose_service =
  cs_name :: string
  cs_state :: string
  cs_health :: string

record compose_project =
  cq_name :: string
  cq_status :: string
  cq_services :: "compose_service list"
  cq_error :: string
  cq_managed_project_id :: string

record systemd_service =
  ss_name :: string
  ss_active_state :: string
  ss_sub_state :: string

record k8s_deployment =
  kd_name :: string
  kd_namespace :: string
  kd_ready :: string
  kd_available :: int

record k8s_stateful_set =
  ks_name :: string
  ks_namespace :: string
  ks_ready :: string

record k8s_daemon_set =
  km_name :: string
  km_namespace :: string
  km_desired :: int
  km_ready :: int
  km_available :: int

definition projection :: "resource \<Rightarrow> health_status \<Rightarrow> string \<Rightarrow> string \<Rightarrow> resource_projection" where
  "projection r health state reason = \<lparr>rp_resource = r, rp_health = health, rp_state = state, rp_reason = reason, rp_meta = []\<rparr>"

text \<open>\<^verbatim>\<open>strings.EqualFold\<close> with a text of letters that no other rune folds to.\<close>

definition equal_fold_online :: "string \<Rightarrow> bool" where
  "equal_fold_online s \<longleftrightarrow> map (\<lambda>c. ascii_lower (of_char c)) s = map of_char ''online''"

text \<open>The status of a node, if the node exists.\<close>

definition node_health :: "resource \<Rightarrow> (string \<times> string) option \<Rightarrow> resource_projection" where
  "node_health r signal = (case signal of
     None \<Rightarrow> projection r HealthUnknown ''missing'' (([CHR 0xE5, CHR 0x85, CHR 0xB3, CHR 0xE8, CHR 0x81, CHR 0x94, CHR 0xE8, CHR 0x8A, CHR 0x82, CHR 0xE7, CHR 0x82, CHR 0xB9, CHR 0xE5, CHR 0xB7, CHR 0xB2, CHR 0xE4, CHR 0xB8, CHR 0x8D, CHR 0xE5, CHR 0xAD, CHR 0x98, CHR 0xE5, CHR 0x9C, CHR 0xA8]))
   | Some (name, status) \<Rightarrow> if equal_fold_online status then projection r HealthHealthy ''available'' []
                            else projection r HealthUnhealthy ''available'' (([CHR 0xE8, CHR 0x8A, CHR 0x82, CHR 0xE7, CHR 0x82, CHR 0xB9, CHR 0xE7, CHR 0xA6, CHR 0xBB, CHR 0xE7, CHR 0xBA, CHR 0xBF])))"

definition uptime_health :: "(nat \<Rightarrow> nat) \<Rightarrow> resource \<Rightarrow> uptime_signal option \<Rightarrow> resource_projection" where
  "uptime_health ul r signal = (case signal of
     None \<Rightarrow> projection r HealthUnknown ''missing'' (([CHR 0xE5, CHR 0x85, CHR 0xB3, CHR 0xE8, CHR 0x81, CHR 0x94, CHR 0xE6, CHR 0x8B, CHR 0xA8, CHR 0xE6, CHR 0xB5, CHR 0x8B, CHR 0xE5, CHR 0xB7, CHR 0xB2, CHR 0xE4, CHR 0xB8, CHR 0x8D, CHR 0xE5, CHR 0xAD, CHR 0x98, CHR 0xE5, CHR 0x9C, CHR 0xA8]))
   | Some s \<Rightarrow>
       (if \<not> us_enabled s then projection r HealthDegraded ''available'' (([CHR 0xE6, CHR 0x9C, CHR 0x8D, CHR 0xE5, CHR 0x8A, CHR 0xA1, CHR 0xE6, CHR 0x8B, CHR 0xA8, CHR 0xE6, CHR 0xB5, CHR 0x8B, CHR 0xE5, CHR 0xB7, CHR 0xB2, CHR 0xE7, CHR 0xA6, CHR 0x81, CHR 0xE7, CHR 0x94, CHR 0xA8]))
        else let status = to_lower ul (us_status s) in
          if status = ''up'' then projection r HealthHealthy ''available'' []
          else if status = ''warning'' then projection r HealthDegraded ''available'' (([CHR 0xE6, CHR 0x9C, CHR 0x8D, CHR 0xE5, CHR 0x8A, CHR 0xA1, CHR 0xE6, CHR 0x8B, CHR 0xA8, CHR 0xE6, CHR 0xB5, CHR 0x8B, CHR 0xE5, CHR 0xA4, CHR 0x84, CHR 0xE4, CHR 0xBA, CHR 0x8E, CHR 0xE8, CHR 0xAD, CHR 0xA6, CHR 0xE5, CHR 0x91, CHR 0x8A, CHR 0xE7, CHR 0x8A, CHR 0xB6, CHR 0xE6, CHR 0x80, CHR 0x81]))
          else if status = ''down'' then projection r HealthUnhealthy ''available'' (([CHR 0xE6, CHR 0x9C, CHR 0x8D, CHR 0xE5, CHR 0x8A, CHR 0xA1, CHR 0xE6, CHR 0x8B, CHR 0xA8, CHR 0xE6, CHR 0xB5, CHR 0x8B, CHR 0xE5, CHR 0xA4, CHR 0xB1, CHR 0xE8, CHR 0xB4, CHR 0xA5]))
          else projection r HealthUnknown ''available'' (([CHR 0xE6, CHR 0x9C, CHR 0x8D, CHR 0xE5, CHR 0x8A, CHR 0xA1, CHR 0xE6, CHR 0x8B, CHR 0xA8, CHR 0xE6, CHR 0xB5, CHR 0x8B, CHR 0xE5, CHR 0xB0, CHR 0x9A, CHR 0xE6, CHR 0x97, CHR 0xA0, CHR 0xE5, CHR 0x8F, CHR 0xAF, CHR 0xE7, CHR 0x94, CHR 0xA8, CHR 0xE7, CHR 0xBB, CHR 0x93, CHR 0xE6, CHR 0x9E, CHR 0x9C]))))"

definition alert_health :: "resource \<Rightarrow> alert_signal option \<Rightarrow> resource_projection" where
  "alert_health r signal = (case signal of
     None \<Rightarrow> projection r HealthUnknown ''missing'' (([CHR 0xE5, CHR 0x85, CHR 0xB3, CHR 0xE8, CHR 0x81, CHR 0x94, CHR 0xE5, CHR 0x91, CHR 0x8A, CHR 0xE8, CHR 0xAD, CHR 0xA6, CHR 0xE8, CHR 0xA7, CHR 0x84, CHR 0xE5, CHR 0x88, CHR 0x99, CHR 0xE5, CHR 0xB7, CHR 0xB2, CHR 0xE4, CHR 0xB8, CHR 0x8D, CHR 0xE5, CHR 0xAD, CHR 0x98, CHR 0xE5, CHR 0x9C, CHR 0xA8]))
   | Some s \<Rightarrow>
       (if \<not> as_enabled s then projection r HealthDegraded ''available'' (([CHR 0xE5, CHR 0x91, CHR 0x8A, CHR 0xE8, CHR 0xAD, CHR 0xA6, CHR 0xE8, CHR 0xA7, CHR 0x84, CHR 0xE5, CHR 0x88, CHR 0x99, CHR 0xE5, CHR 0xB7, CHR 0xB2, CHR 0xE7, CHR 0xA6, CHR 0x81, CHR 0xE7, CHR 0x94, CHR 0xA8]))
        else if as_active_count s > 0
        then projection r HealthUnhealthy ''available'' (([CHR 0xE5, CHR 0xAD, CHR 0x98, CHR 0xE5, CHR 0x9C, CHR 0xA8]) @ '' '' @ show_int (as_active_count s) @ '' '' @ ([CHR 0xE6, CHR 0x9D, CHR 0xA1, CHR 0xE6, CHR 0x9C, CHR 0xAA, CHR 0xE6, CHR 0x81, CHR 0xA2, CHR 0xE5, CHR 0xA4, CHR 0x8D, CHR 0xE5, CHR 0x91, CHR 0x8A, CHR 0xE8, CHR 0xAD, CHR 0xA6]))
        else projection r HealthHealthy ''available'' []))"

definition task_health :: "(nat \<Rightarrow> nat) \<Rightarrow> resource \<Rightarrow> task_signal option \<Rightarrow> resource_projection" where
  "task_health ul r signal = (case signal of
     None \<Rightarrow> projection r HealthUnknown ''missing'' (([CHR 0xE5, CHR 0x85, CHR 0xB3, CHR 0xE8, CHR 0x81, CHR 0x94, CHR 0xE8, CHR 0xAE, CHR 0xA1, CHR 0xE5, CHR 0x88, CHR 0x92, CHR 0xE4, CHR 0xBB, CHR 0xBB, CHR 0xE5, CHR 0x8A, CHR 0xA1, CHR 0xE5, CHR 0xB7, CHR 0xB2, CHR 0xE4, CHR 0xB8, CHR 0x8D, CHR 0xE5, CHR 0xAD, CHR 0x98, CHR 0xE5, CHR 0x9C, CHR 0xA8]))
   | Some s \<Rightarrow>
       (if \<not> ts_enabled s then projection r HealthDegraded ''available'' (([CHR 0xE8, CHR 0xAE, CHR 0xA1, CHR 0xE5, CHR 0x88, CHR 0x92, CHR 0xE4, CHR 0xBB, CHR 0xBB, CHR 0xE5, CHR 0x8A, CHR 0xA1, CHR 0xE5, CHR 0xB7, CHR 0xB2, CHR 0xE7, CHR 0xA6, CHR 0x81, CHR 0xE7, CHR 0x94, CHR 0xA8]))
        else if \<not> ts_has_run s then projection r HealthUnknown ''available'' (([CHR 0xE8, CHR 0xAE, CHR 0xA1, CHR 0xE5, CHR 0x88, CHR 0x92, CHR 0xE4, CHR 0xBB, CHR 0xBB, CHR 0xE5, CHR 0x8A, CHR 0xA1, CHR 0xE5, CHR 0xB0, CHR 0x9A, CHR 0xE6, CHR 0x97, CHR 0xA0, CHR 0xE6, CHR 0x89, CHR 0xA7, CHR 0xE8, CHR 0xA1, CHR 0x8C, CHR 0xE8, CHR 0xAE, CHR 0xB0, CHR 0xE5, CHR 0xBD, CHR 0x95]))
        else let status = to_lower ul (ts_latest_status s) in
          if status \<in> set [''queued'', ''running'', ''success''] then projection r HealthHealthy ''available'' []
          else if status \<in> set [''partial'', ''failed'', ''skipped'', ''interrupted'']
          then projection r HealthDegraded ''available'' (([CHR 0xE8, CHR 0xAE, CHR 0xA1, CHR 0xE5, CHR 0x88, CHR 0x92, CHR 0xE4, CHR 0xBB, CHR 0xBB, CHR 0xE5, CHR 0x8A, CHR 0xA1, CHR 0xE6, CHR 0x9C, CHR 0x80, CHR 0xE8, CHR 0xBF, CHR 0x91, CHR 0xE6, CHR 0x89, CHR 0xA7, CHR 0xE8, CHR 0xA1, CHR 0x8C, CHR 0xE7, CHR 0x8A, CHR 0xB6, CHR 0xE6, CHR 0x80, CHR 0x81, CHR 0xE4, CHR 0xB8, CHR 0xBA]) @ '' '' @ ts_latest_status s)
          else projection r HealthUnknown ''available'' (([CHR 0xE8, CHR 0xAE, CHR 0xA1, CHR 0xE5, CHR 0x88, CHR 0x92, CHR 0xE4, CHR 0xBB, CHR 0xBB, CHR 0xE5, CHR 0x8A, CHR 0xA1, CHR 0xE6, CHR 0x9C, CHR 0x80, CHR 0xE8, CHR 0xBF, CHR 0x91, CHR 0xE6, CHR 0x89, CHR 0xA7, CHR 0xE8, CHR 0xA1, CHR 0x8C, CHR 0xE7, CHR 0x8A, CHR 0xB6, CHR 0xE6, CHR 0x80, CHR 0x81, CHR 0xE6, CHR 0x9A, CHR 0x82, CHR 0xE4, CHR 0xB8, CHR 0x8D, CHR 0xE5, CHR 0x8F, CHR 0xAF, CHR 0xE5, CHR 0x88, CHR 0xA4, CHR 0xE5, CHR 0xAE, CHR 0x9A]))))"

text \<open>The loop over the services of a project; \<open>Inl\<close> names the first one in trouble, \<open>Inr\<close> says whether one is unsettled.\<close>

fun compose_services_state :: "(nat \<Rightarrow> nat) \<Rightarrow> bool \<Rightarrow> compose_service list \<Rightarrow> string + bool" where
  "compose_services_state ul degraded [] = Inr degraded"
| "compose_services_state ul degraded (c # cs) =
     (let state = to_lower ul (trim_space (cs_state c)); health = to_lower ul (trim_space (cs_health c)) in
      if state = ''exited'' \<or> state = ''dead'' \<or> health = ''unhealthy'' then Inl (cs_name c)
      else compose_services_state ul (degraded \<or> state \<noteq> ''running'' \<or> health = ''starting'') cs)"

definition compose_health :: "(nat \<Rightarrow> nat) \<Rightarrow> resource \<Rightarrow> compose_project option \<Rightarrow> string \<Rightarrow> resource_projection" where
  "compose_health ul r project unavailable =
     (if unavailable \<noteq> [] then projection r HealthDegraded ''unavailable'' (''Compose '' @ ([CHR 0xE7, CHR 0x8A, CHR 0xB6, CHR 0xE6, CHR 0x80, CHR 0x81, CHR 0xE6, CHR 0x9A, CHR 0x82, CHR 0xE4, CHR 0xB8, CHR 0x8D, CHR 0xE5, CHR 0x8F, CHR 0xAF, CHR 0xE7, CHR 0x94, CHR 0xA8]))
      else case project of
        None \<Rightarrow> projection r HealthUnknown ''missing'' (([CHR 0xE5, CHR 0x85, CHR 0xB3, CHR 0xE8, CHR 0x81, CHR 0x94]) @ '' Compose '' @ ([CHR 0xE9, CHR 0xA1, CHR 0xB9, CHR 0xE7, CHR 0x9B, CHR 0xAE, CHR 0xE5, CHR 0xB7, CHR 0xB2, CHR 0xE4, CHR 0xB8, CHR 0x8D, CHR 0xE5, CHR 0xAD, CHR 0x98, CHR 0xE5, CHR 0x9C, CHR 0xA8]))
      | Some p \<Rightarrow>
          (if cq_error p \<noteq> [] then projection r HealthDegraded ''unavailable'' (''Compose '' @ ([CHR 0xE9, CHR 0xA1, CHR 0xB9, CHR 0xE7, CHR 0x9B, CHR 0xAE, CHR 0xE7, CHR 0x8A, CHR 0xB6, CHR 0xE6, CHR 0x80, CHR 0x81, CHR 0xE8, CHR 0xAF, CHR 0xBB, CHR 0xE5, CHR 0x8F, CHR 0x96, CHR 0xE4, CHR 0xB8, CHR 0x8D, CHR 0xE5, CHR 0xAE, CHR 0x8C, CHR 0xE6, CHR 0x95, CHR 0xB4]))
           else let status = to_lower ul (trim_space (cq_status p)) in
             if status \<in> set [''stopped'', ''exited'', ''dead''] then projection r HealthUnhealthy ''available'' (''Compose '' @ ([CHR 0xE9, CHR 0xA1, CHR 0xB9, CHR 0xE7, CHR 0x9B, CHR 0xAE, CHR 0xE5, CHR 0xB7, CHR 0xB2, CHR 0xE5, CHR 0x81, CHR 0x9C, CHR 0xE6, CHR 0xAD, CHR 0xA2]))
             else if cq_services p = [] then projection r HealthUnhealthy ''available'' (''Compose '' @ ([CHR 0xE9, CHR 0xA1, CHR 0xB9, CHR 0xE7, CHR 0x9B, CHR 0xAE, CHR 0xE6, CHR 0xB2, CHR 0xA1, CHR 0xE6, CHR 0x9C, CHR 0x89, CHR 0xE8, CHR 0xBF, CHR 0x90, CHR 0xE8, CHR 0xA1, CHR 0x8C, CHR 0xE4, CHR 0xB8, CHR 0xAD, CHR 0xE7, CHR 0x9A, CHR 0x84, CHR 0xE6, CHR 0x9C, CHR 0x8D, CHR 0xE5, CHR 0x8A, CHR 0xA1]))
             else (case compose_services_state ul False (cq_services p) of
                     Inl name \<Rightarrow> projection r HealthUnhealthy ''available'' (''Compose '' @ ([CHR 0xE6, CHR 0x9C, CHR 0x8D, CHR 0xE5, CHR 0x8A, CHR 0xA1]) @ '' '' @ name @ '' '' @ ([CHR 0xE7, CHR 0x8A, CHR 0xB6, CHR 0xE6, CHR 0x80, CHR 0x81, CHR 0xE5, CHR 0xBC, CHR 0x82, CHR 0xE5, CHR 0xB8, CHR 0xB8]))
                   | Inr True \<Rightarrow> projection r HealthDegraded ''available'' (([CHR 0xE9, CHR 0x83, CHR 0xA8, CHR 0xE5, CHR 0x88, CHR 0x86]) @ '' Compose '' @ ([CHR 0xE6, CHR 0x9C, CHR 0x8D, CHR 0xE5, CHR 0x8A, CHR 0xA1, CHR 0xE7, CHR 0x8A, CHR 0xB6, CHR 0xE6, CHR 0x80, CHR 0x81, CHR 0xE6, CHR 0x9A, CHR 0x82, CHR 0xE6, CHR 0x9C, CHR 0xAA, CHR 0xE7, CHR 0xA8, CHR 0xB3, CHR 0xE5, CHR 0xAE, CHR 0x9A]))
                   | Inr False \<Rightarrow> projection r HealthHealthy ''available'' [])))"

definition systemd_health :: "(nat \<Rightarrow> nat) \<Rightarrow> resource \<Rightarrow> systemd_service option \<Rightarrow> string \<Rightarrow> resource_projection" where
  "systemd_health ul r service unavailable =
     (if unavailable \<noteq> [] then projection r HealthDegraded ''unavailable'' (''Systemd '' @ ([CHR 0xE7, CHR 0x8A, CHR 0xB6, CHR 0xE6, CHR 0x80, CHR 0x81, CHR 0xE6, CHR 0x9A, CHR 0x82, CHR 0xE4, CHR 0xB8, CHR 0x8D, CHR 0xE5, CHR 0x8F, CHR 0xAF, CHR 0xE7, CHR 0x94, CHR 0xA8]))
      else case service of
        None \<Rightarrow> projection r HealthUnknown ''missing'' (([CHR 0xE5, CHR 0x85, CHR 0xB3, CHR 0xE8, CHR 0x81, CHR 0x94]) @ '' Systemd '' @ ([CHR 0xE6, CHR 0x9C, CHR 0x8D, CHR 0xE5, CHR 0x8A, CHR 0xA1, CHR 0xE5, CHR 0xB7, CHR 0xB2, CHR 0xE4, CHR 0xB8, CHR 0x8D, CHR 0xE5, CHR 0xAD, CHR 0x98, CHR 0xE5, CHR 0x9C, CHR 0xA8]))
      | Some s \<Rightarrow>
          (let active = to_lower ul (ss_active_state s); sub = to_lower ul (ss_sub_state s) in
           if active = ''active'' \<and> sub = ''running'' then projection r HealthHealthy ''available'' []
           else if active = ''activating'' \<or> active = ''reloading''
           then projection r HealthDegraded ''available'' (''Systemd '' @ ([CHR 0xE6, CHR 0x9C, CHR 0x8D, CHR 0xE5, CHR 0x8A, CHR 0xA1, CHR 0xE6, CHR 0xAD, CHR 0xA3, CHR 0xE5, CHR 0x9C, CHR 0xA8]) @ ss_active_state s)
           else if active \<in> set [''failed'', ''inactive'', ''deactivating'']
           then projection r HealthUnhealthy ''available'' (''Systemd '' @ ([CHR 0xE6, CHR 0x9C, CHR 0x8D, CHR 0xE5, CHR 0x8A, CHR 0xA1, CHR 0xE7, CHR 0x8A, CHR 0xB6, CHR 0xE6, CHR 0x80, CHR 0x81, CHR 0xE4, CHR 0xB8, CHR 0xBA]) @ '' '' @ ss_active_state s)
           else projection r HealthUnknown ''available'' (''Systemd '' @ ([CHR 0xE6, CHR 0x9C, CHR 0x8D, CHR 0xE5, CHR 0x8A, CHR 0xA1, CHR 0xE7, CHR 0x8A, CHR 0xB6, CHR 0xE6, CHR 0x80, CHR 0x81, CHR 0xE6, CHR 0x9A, CHR 0x82, CHR 0xE4, CHR 0xB8, CHR 0x8D, CHR 0xE5, CHR 0x8F, CHR 0xAF, CHR 0xE5, CHR 0x88, CHR 0xA4, CHR 0xE5, CHR 0xAE, CHR 0x9A]))))"

text \<open>\<^verbatim>\<open>strings.Split\<close> at a character.\<close>

fun split_at_char :: "char \<Rightarrow> string \<Rightarrow> string list" where
  "split_at_char c [] = [[]]"
| "split_at_char c (x # xs) = (if x = c then [] # split_at_char c xs else (x # hd (split_at_char c xs)) # tl (split_at_char c xs))"

definition parse_ready :: "string \<Rightarrow> (int \<times> int) option" where
  "parse_ready v = (case split_at_char (CHR ''/'') (trim_space v) of
     [a, b] \<Rightarrow> (case (atoi (trim_space a), atoi (trim_space b)) of
                 (Some current, Some desired) \<Rightarrow> if current < 0 \<or> desired < 0 then None else Some (current, desired)
               | _ \<Rightarrow> None)
   | _ \<Rightarrow> None)"

definition replicas_text :: "int \<Rightarrow> int \<Rightarrow> string" where
  "replicas_text current desired = ([CHR 0xEF, CHR 0xBC, CHR 0x88]) @ show_int current @ ''/'' @ show_int desired @ ([CHR 0xEF, CHR 0xBC, CHR 0x89])"

definition k8s_ready_health :: "resource \<Rightarrow> string \<Rightarrow> int option \<Rightarrow> string \<Rightarrow> resource_projection" where
  "k8s_ready_health r ready available unavailable =
     (if unavailable \<noteq> [] then projection r HealthDegraded ''unavailable'' (''Kubernetes '' @ ([CHR 0xE5, CHR 0xB7, CHR 0xA5, CHR 0xE4, CHR 0xBD, CHR 0x9C, CHR 0xE8, CHR 0xB4, CHR 0x9F, CHR 0xE8, CHR 0xBD, CHR 0xBD, CHR 0xE7, CHR 0x8A, CHR 0xB6, CHR 0xE6, CHR 0x80, CHR 0x81, CHR 0xE6, CHR 0x9A, CHR 0x82, CHR 0xE4, CHR 0xB8, CHR 0x8D, CHR 0xE5, CHR 0x8F, CHR 0xAF, CHR 0xE7, CHR 0x94, CHR 0xA8]))
      else if ready = [] then projection r HealthUnknown ''missing'' (([CHR 0xE5, CHR 0x85, CHR 0xB3, CHR 0xE8, CHR 0x81, CHR 0x94]) @ '' Kubernetes '' @ ([CHR 0xE5, CHR 0xB7, CHR 0xA5, CHR 0xE4, CHR 0xBD, CHR 0x9C, CHR 0xE8, CHR 0xB4, CHR 0x9F, CHR 0xE8, CHR 0xBD, CHR 0xBD, CHR 0xE5, CHR 0xB7, CHR 0xB2, CHR 0xE4, CHR 0xB8, CHR 0x8D, CHR 0xE5, CHR 0xAD, CHR 0x98, CHR 0xE5, CHR 0x9C, CHR 0xA8]))
      else case parse_ready ready of
        None \<Rightarrow> projection r HealthUnknown ''available'' (''Kubernetes '' @ ([CHR 0xE5, CHR 0x89, CHR 0xAF, CHR 0xE6, CHR 0x9C, CHR 0xAC, CHR 0xE7, CHR 0x8A, CHR 0xB6, CHR 0xE6, CHR 0x80, CHR 0x81, CHR 0xE6, CHR 0x9A, CHR 0x82, CHR 0xE4, CHR 0xB8, CHR 0x8D, CHR 0xE5, CHR 0x8F, CHR 0xAF, CHR 0xE5, CHR 0x88, CHR 0xA4, CHR 0xE5, CHR 0xAE, CHR 0x9A]))
      | Some (current, desired) \<Rightarrow>
          (if desired \<le> 0 then projection r HealthUnknown ''available'' (''Kubernetes '' @ ([CHR 0xE5, CHR 0x89, CHR 0xAF, CHR 0xE6, CHR 0x9C, CHR 0xAC, CHR 0xE7, CHR 0x8A, CHR 0xB6, CHR 0xE6, CHR 0x80, CHR 0x81, CHR 0xE6, CHR 0x9A, CHR 0x82, CHR 0xE4, CHR 0xB8, CHR 0x8D, CHR 0xE5, CHR 0x8F, CHR 0xAF, CHR 0xE5, CHR 0x88, CHR 0xA4, CHR 0xE5, CHR 0xAE, CHR 0x9A]))
           else if current = 0 then projection r HealthUnhealthy ''available'' (''Kubernetes '' @ ([CHR 0xE5, CHR 0xB7, CHR 0xA5, CHR 0xE4, CHR 0xBD, CHR 0x9C, CHR 0xE8, CHR 0xB4, CHR 0x9F, CHR 0xE8, CHR 0xBD, CHR 0xBD, CHR 0xE6, CHR 0x97, CHR 0xA0, CHR 0xE5, CHR 0xB0, CHR 0xB1, CHR 0xE7, CHR 0xBB, CHR 0xAA, CHR 0xE5, CHR 0x89, CHR 0xAF, CHR 0xE6, CHR 0x9C, CHR 0xAC]) @ replicas_text current desired)
           else if current < desired \<or> (case available of None \<Rightarrow> False | Some a \<Rightarrow> a < desired)
           then projection r HealthDegraded ''available'' (''Kubernetes '' @ ([CHR 0xE5, CHR 0xB7, CHR 0xA5, CHR 0xE4, CHR 0xBD, CHR 0x9C, CHR 0xE8, CHR 0xB4, CHR 0x9F, CHR 0xE8, CHR 0xBD, CHR 0xBD, CHR 0xE9, CHR 0x83, CHR 0xA8, CHR 0xE5, CHR 0x88, CHR 0x86, CHR 0xE5, CHR 0x89, CHR 0xAF, CHR 0xE6, CHR 0x9C, CHR 0xAC, CHR 0xE6, CHR 0x9C, CHR 0xAA, CHR 0xE5, CHR 0xB0, CHR 0xB1, CHR 0xE7, CHR 0xBB, CHR 0xAA]) @ replicas_text current desired)
           else projection r HealthHealthy ''available'' []))"

definition k8s_daemon_health :: "resource \<Rightarrow> k8s_daemon_set option \<Rightarrow> string \<Rightarrow> resource_projection" where
  "k8s_daemon_health r workload unavailable =
     (if unavailable \<noteq> [] then projection r HealthDegraded ''unavailable'' (''Kubernetes '' @ ([CHR 0xE5, CHR 0xB7, CHR 0xA5, CHR 0xE4, CHR 0xBD, CHR 0x9C, CHR 0xE8, CHR 0xB4, CHR 0x9F, CHR 0xE8, CHR 0xBD, CHR 0xBD, CHR 0xE7, CHR 0x8A, CHR 0xB6, CHR 0xE6, CHR 0x80, CHR 0x81, CHR 0xE6, CHR 0x9A, CHR 0x82, CHR 0xE4, CHR 0xB8, CHR 0x8D, CHR 0xE5, CHR 0x8F, CHR 0xAF, CHR 0xE7, CHR 0x94, CHR 0xA8]))
      else case workload of
        None \<Rightarrow> projection r HealthUnknown ''missing'' (([CHR 0xE5, CHR 0x85, CHR 0xB3, CHR 0xE8, CHR 0x81, CHR 0x94]) @ '' Kubernetes '' @ ([CHR 0xE5, CHR 0xB7, CHR 0xA5, CHR 0xE4, CHR 0xBD, CHR 0x9C, CHR 0xE8, CHR 0xB4, CHR 0x9F, CHR 0xE8, CHR 0xBD, CHR 0xBD, CHR 0xE5, CHR 0xB7, CHR 0xB2, CHR 0xE4, CHR 0xB8, CHR 0x8D, CHR 0xE5, CHR 0xAD, CHR 0x98, CHR 0xE5, CHR 0x9C, CHR 0xA8]))
      | Some w \<Rightarrow>
          (if km_desired w \<le> 0 then projection r HealthUnknown ''available'' (''Kubernetes '' @ ([CHR 0xE5, CHR 0x89, CHR 0xAF, CHR 0xE6, CHR 0x9C, CHR 0xAC, CHR 0xE7, CHR 0x8A, CHR 0xB6, CHR 0xE6, CHR 0x80, CHR 0x81, CHR 0xE6, CHR 0x9A, CHR 0x82, CHR 0xE4, CHR 0xB8, CHR 0x8D, CHR 0xE5, CHR 0x8F, CHR 0xAF, CHR 0xE5, CHR 0x88, CHR 0xA4, CHR 0xE5, CHR 0xAE, CHR 0x9A]))
           else if km_ready w = 0
           then projection r HealthUnhealthy ''available'' (''Kubernetes '' @ ([CHR 0xE5, CHR 0xB7, CHR 0xA5, CHR 0xE4, CHR 0xBD, CHR 0x9C, CHR 0xE8, CHR 0xB4, CHR 0x9F, CHR 0xE8, CHR 0xBD, CHR 0xBD, CHR 0xE6, CHR 0x97, CHR 0xA0, CHR 0xE5, CHR 0xB0, CHR 0xB1, CHR 0xE7, CHR 0xBB, CHR 0xAA, CHR 0xE5, CHR 0x89, CHR 0xAF, CHR 0xE6, CHR 0x9C, CHR 0xAC]) @ replicas_text (km_ready w) (km_desired w))
           else if km_ready w < km_desired w \<or> km_available w < km_desired w
           then projection r HealthDegraded ''available'' (''Kubernetes '' @ ([CHR 0xE5, CHR 0xB7, CHR 0xA5, CHR 0xE4, CHR 0xBD, CHR 0x9C, CHR 0xE8, CHR 0xB4, CHR 0x9F, CHR 0xE8, CHR 0xBD, CHR 0xBD, CHR 0xE9, CHR 0x83, CHR 0xA8, CHR 0xE5, CHR 0x88, CHR 0x86, CHR 0xE5, CHR 0x89, CHR 0xAF, CHR 0xE6, CHR 0x9C, CHR 0xAC, CHR 0xE6, CHR 0x9C, CHR 0xAA, CHR 0xE5, CHR 0xB0, CHR 0xB1, CHR 0xE7, CHR 0xBB, CHR 0xAA]) @ replicas_text (km_ready w) (km_desired w))
           else projection r HealthHealthy ''available'' []))"

fun health_priority :: "health_status \<Rightarrow> nat" where
  "health_priority HealthUnhealthy = 0"
| "health_priority HealthDegraded = 1"
| "health_priority HealthUnknown = 2"
| "health_priority HealthHealthy = 3"

fun health_text :: "health_status \<Rightarrow> string" where
  "health_text HealthHealthy = ''healthy''"
| "health_text HealthDegraded = ''degraded''"
| "health_text HealthUnhealthy = ''unhealthy''"
| "health_text HealthUnknown = ''unknown''"

definition reason_of :: "resource_projection \<Rightarrow> health_reason" where
  "reason_of p = \<lparr>hr_status = rp_health p, hr_resource_id = rs_id (rp_resource p), hr_resource_type = rs_type (rp_resource p),
     hr_resource_name = rs_display_name (rp_resource p), hr_message = rp_reason p\<rparr>"

text \<open>The loop: reasons and counts of the resources that are not healthy, and the number of those that are.\<close>

fun collect_health :: "resource_projection list \<Rightarrow> health_reason list \<times> (string \<Rightarrow> nat) \<times> nat \<Rightarrow> health_reason list \<times> (string \<Rightarrow> nat) \<times> nat" where
  "collect_health [] acc = acc"
| "collect_health (p # ps) (reasons, counts, healthy) =
     (if rp_health p = HealthHealthy then collect_health ps (reasons, counts, Suc healthy)
      else collect_health ps (reasons @ [reason_of p], counts(health_text (rp_health p) := Suc (counts (health_text (rp_health p)))), healthy))"

definition reason_key :: "health_reason \<Rightarrow> nat \<times> string \<times> string" where
  "reason_key h = (health_priority (hr_status h), hr_resource_name h, hr_resource_id h)"

definition aggregate_health :: "resource_projection list \<Rightarrow> health_status \<times> health_reason list \<times> (string \<Rightarrow> nat)" where
  "aggregate_health ps =
     (let (reasons0, counts, healthy) = collect_health ps ([], \<lambda>_. 0, 0); reasons = sort_key reason_key reasons0;
          status = (if counts ''unhealthy'' > 0 then HealthUnhealthy
                    else if counts ''degraded'' > 0 then HealthDegraded
                    else if counts ''unknown'' > 0 \<and> healthy > 0 then HealthDegraded
                    else if healthy > 0 then HealthHealthy
                    else HealthUnknown)
      in (status, reasons, counts))"

section \<open>Signals\<close>

text \<open>The columns that the facade reads from the tables of the other parts, a row per node, monitor, rule, task or cluster.\<close>

record signal_tables =
  st_nodes :: "(string \<times> string \<times> string) list"
  st_monitors :: "(int \<times> uptime_signal) list"
  st_rules :: "(int \<times> string \<times> bool) list"
  st_history :: "alert_history list"
  st_tasks :: "(int \<times> string \<times> bool) list"
  st_runs :: "(int \<times> int option \<times> string) list"
  st_clusters :: "(string \<times> string \<times> string) list"

record local_signals =
  ls_nodes :: "string \<Rightarrow> (string \<times> string) option"
  ls_uptime :: "string \<Rightarrow> uptime_signal option"
  ls_alerts :: "string \<Rightarrow> alert_signal option"
  ls_tasks :: "string \<Rightarrow> task_signal option"
  ls_cluster_name :: "string \<Rightarrow> string option"
  ls_cluster_node :: "string \<Rightarrow> string option"

definition sorted_keys :: "string list \<Rightarrow> string list" where
  "sorted_keys values = sort (remdups values)"

definition keys_of :: "(resource \<Rightarrow> string option) \<Rightarrow> resource list \<Rightarrow> string list" where
  "keys_of f rs = sorted_keys (List.map_filter f rs)"

definition node_signal_id :: "resource \<Rightarrow> string option" where
  "node_signal_id r = (if rs_type r = ''node'' then Some (rs_key r)
     else if rs_type r = ''compose_project'' \<or> rs_type r = ''systemd_service'' then Some (rs_scope_id r) else None)"

definition typed_key :: "string \<Rightarrow> resource \<Rightarrow> string option" where
  "typed_key t r = (if rs_type r = t then Some (rs_key r) else None)"

definition cluster_signal_id :: "resource \<Rightarrow> string option" where
  "cluster_signal_id r = (if rs_type r = ''k8s_workload'' then Some (rs_scope_id r) else None)"

definition collect_signal_ids :: "resource list \<Rightarrow> string list \<times> string list \<times> string list \<times> string list \<times> string list" where
  "collect_signal_ids rs = (keys_of node_signal_id rs, keys_of (typed_key ''uptime_monitor'') rs, keys_of (typed_key ''alert_rule'') rs,
     keys_of (typed_key ''scheduled_task'') rs, keys_of cluster_signal_id rs)"

text \<open>Integer columns are compared with the texts as SQLite does, which reads an integer text as the integer.\<close>

definition id_in :: "string list \<Rightarrow> int \<Rightarrow> bool" where
  "id_in ids i \<longleftrightarrow> Some i \<in> set (map atoi ids)"

definition load_nodes :: "signal_tables \<Rightarrow> string list \<Rightarrow> string \<Rightarrow> (string \<times> string) option" where
  "load_nodes t ids = map_of (map (\<lambda>(i, name, status). (i, (name, status))) (filter (\<lambda>n. fst n \<in> set ids) (st_nodes t)))"

definition load_uptime :: "signal_tables \<Rightarrow> string list \<Rightarrow> string \<Rightarrow> uptime_signal option" where
  "load_uptime t ids = map_of (map (\<lambda>(i, s). (show_int i, s)) (filter (\<lambda>m. id_in ids (fst m)) (st_monitors t)))"

definition active_alerts_of :: "signal_tables \<Rightarrow> int \<Rightarrow> int" where
  "active_alerts_of t i = int (count_rows (\<lambda>h. ah_rule_id h = i \<and> ah_resolved_at h = None) (st_history t))"

definition load_alerts :: "signal_tables \<Rightarrow> string list \<Rightarrow> string \<Rightarrow> alert_signal option" where
  "load_alerts t ids = map_of (map (\<lambda>(i, name, enabled). (show_int i, \<lparr>as_name = name, as_enabled = enabled, as_active_count = active_alerts_of t i\<rparr>))
     (filter (\<lambda>r. id_in ids (fst r)) (st_rules t)))"

definition newest_run :: "signal_tables \<Rightarrow> int \<Rightarrow> string option" where
  "newest_run t i = (case rev (sort_key fst (filter (\<lambda>(j, taskID, status). taskID = Some i) (st_runs t))) of
     [] \<Rightarrow> None | (j, taskID, status) # rest \<Rightarrow> Some status)"

definition load_tasks :: "signal_tables \<Rightarrow> string list \<Rightarrow> string \<Rightarrow> task_signal option" where
  "load_tasks t ids = map_of (map (\<lambda>(i, name, enabled). (show_int i, \<lparr>ts_name = name, ts_enabled = enabled,
       ts_latest_status = (case newest_run t i of None \<Rightarrow> [] | Some s \<Rightarrow> s), ts_has_run = (newest_run t i \<noteq> None)\<rparr>))
     (filter (\<lambda>r. id_in ids (fst r)) (st_tasks t)))"

definition load_clusters :: "signal_tables \<Rightarrow> string list \<Rightarrow> (string \<Rightarrow> string option) \<times> (string \<Rightarrow> string option)" where
  "load_clusters t ids =
     (let rows = filter (\<lambda>c. fst c \<in> set ids) (st_clusters t)
      in (map_of (map (\<lambda>(i, name, node). (i, name)) rows), map_of (map (\<lambda>(i, name, node). (i, node)) rows)))"

definition load_local_signals :: "signal_tables \<Rightarrow> resource list \<Rightarrow> local_signals" where
  "load_local_signals t rs =
     (let (nodeIDs, monitorIDs, alertIDs, taskIDs, clusterIDs) = collect_signal_ids rs; (names, nodes) = load_clusters t clusterIDs
      in \<lparr>ls_nodes = load_nodes t nodeIDs, ls_uptime = load_uptime t monitorIDs, ls_alerts = load_alerts t alertIDs,
          ls_tasks = load_tasks t taskIDs, ls_cluster_name = names, ls_cluster_node = nodes\<rparr>)"

text \<open>
  What agents and clusters answer, within the time that the request has: \<open>None\<close> when the request came too late,
  \<open>Some None\<close> when it failed (or the agent said so), \<open>Some (Some x)\<close> otherwise.
\<close>

record compose_list =
  cl_success :: bool
  cl_supported :: bool
  cl_projects :: "compose_project list"
  cl_error :: string

record systemd_list =
  sl_success :: bool
  sl_supported :: bool
  sl_services :: "systemd_service list"
  sl_error :: string

datatype workloads = Deployments "k8s_deployment list" | StatefulSets "k8s_stateful_set list" | DaemonSets "k8s_daemon_set list" | NoWorkloads

record remote_calls =
  rc_compose :: "string \<Rightarrow> compose_list option option"
  rc_systemd :: "string \<Rightarrow> systemd_list option option"
  rc_k8s :: "resource \<Rightarrow> workloads option option"

record remote_signals =
  rm_compose :: "string \<Rightarrow> compose_list option option"
  rm_systemd :: "string \<Rightarrow> systemd_list option option"
  rm_k8s :: "string \<Rightarrow> workloads option option"

definition k8s_scope :: "resource \<Rightarrow> string" where
  "k8s_scope r = rs_scope_id r @ [CHR 0x00] @ rs_kind r"

text \<open>One call per node or scope; of the resources with the same scope, the last one counts.\<close>

definition load_remote_signals :: "remote_calls \<Rightarrow> resource list \<Rightarrow> remote_signals" where
  "load_remote_signals calls rs =
     \<lparr>rm_compose = (\<lambda>i. if \<exists>r\<in>set rs. rs_type r = ''compose_project'' \<and> rs_scope_id r = i then rc_compose calls i else None),
      rm_systemd = (\<lambda>i. if \<exists>r\<in>set rs. rs_type r = ''systemd_service'' \<and> rs_scope_id r = i then rc_systemd calls i else None),
      rm_k8s = (\<lambda>k. case List.find (\<lambda>r. rs_type r = ''k8s_workload'' \<and> k8s_scope r = k) (rev rs) of None \<Rightarrow> None | Some r \<Rightarrow> rc_k8s calls r)\<rparr>"

section \<open>The projection of a service\<close>

definition find_compose_project :: "compose_project list \<Rightarrow> resource \<Rightarrow> compose_project option" where
  "find_compose_project ps r = List.find (\<lambda>p. rs_kind r = ''managed'' \<and> cq_managed_project_id p = rs_key r
      \<or> rs_kind r = ''external'' \<and> cq_name p = rs_key r) ps"

definition find_systemd_service :: "systemd_service list \<Rightarrow> string \<Rightarrow> systemd_service option" where
  "find_systemd_service ss name = List.find (\<lambda>s. ss_name s = name) ss"

definition find_deployment :: "k8s_deployment list \<Rightarrow> resource \<Rightarrow> k8s_deployment option" where
  "find_deployment ws r = List.find (\<lambda>w. kd_namespace w = rs_namespace r \<and> kd_name w = rs_key r) ws"

definition find_stateful_set :: "k8s_stateful_set list \<Rightarrow> resource \<Rightarrow> k8s_stateful_set option" where
  "find_stateful_set ws r = List.find (\<lambda>w. ks_namespace w = rs_namespace r \<and> ks_name w = rs_key r) ws"

definition find_daemon_set :: "k8s_daemon_set list \<Rightarrow> resource \<Rightarrow> k8s_daemon_set option" where
  "find_daemon_set ws r = List.find (\<lambda>w. km_namespace w = rs_namespace r \<and> km_name w = rs_key r) ws"

definition workload_health :: "resource \<Rightarrow> workloads \<Rightarrow> resource_projection" where
  "workload_health r w =
     (if rs_kind r = ''deployment'' then
        (case find_deployment (case w of Deployments ds \<Rightarrow> ds | _ \<Rightarrow> []) r of
           None \<Rightarrow> k8s_ready_health r [] None [] | Some d \<Rightarrow> k8s_ready_health r (kd_ready d) (Some (kd_available d)) [])
      else if rs_kind r = ''statefulset'' then
        (case find_stateful_set (case w of StatefulSets ss \<Rightarrow> ss | _ \<Rightarrow> []) r of
           None \<Rightarrow> k8s_ready_health r [] None [] | Some s \<Rightarrow> k8s_ready_health r (ks_ready s) None [])
      else if rs_kind r = ''daemonset'' then
        k8s_daemon_health r (find_daemon_set (case w of DaemonSets ds \<Rightarrow> ds | _ \<Rightarrow> []) r) []
      else projection r HealthUnknown ''unavailable'' (([CHR 0xE8, CHR 0xB5, CHR 0x84, CHR 0xE6, CHR 0xBA, CHR 0x90, CHR 0xE7, CHR 0x8A, CHR 0xB6, CHR 0xE6, CHR 0x80, CHR 0x81, CHR 0xE6, CHR 0x9A, CHR 0x82, CHR 0xE4, CHR 0xB8, CHR 0x8D, CHR 0xE5, CHR 0x8F, CHR 0xAF, CHR 0xE7, CHR 0x94, CHR 0xA8])))"

definition project_resource :: "(nat \<Rightarrow> nat) \<Rightarrow> local_signals \<Rightarrow> remote_signals \<Rightarrow> resource \<Rightarrow> resource_projection" where
  "project_resource ul loc remote r =
     (if rs_type r = ''node'' then node_health r (ls_nodes loc (rs_key r))
      else if rs_type r = ''uptime_monitor'' then uptime_health ul r (ls_uptime loc (rs_key r))
      else if rs_type r = ''alert_rule'' then alert_health r (ls_alerts loc (rs_key r))
      else if rs_type r = ''scheduled_task'' then task_health ul r (ls_tasks loc (rs_key r))
      else if rs_type r = ''compose_project'' then
        (if ls_nodes loc (rs_scope_id r) = None then compose_health ul r None []
         else case rm_compose remote (rs_scope_id r) of
           Some (Some l) \<Rightarrow> if \<not> cl_success l \<or> \<not> cl_supported l \<or> cl_error l \<noteq> [] then compose_health ul r None ''unavailable''
                            else compose_health ul r (find_compose_project (cl_projects l) r) []
         | _ \<Rightarrow> compose_health ul r None ''unavailable'')
      else if rs_type r = ''systemd_service'' then
        (if ls_nodes loc (rs_scope_id r) = None then systemd_health ul r None []
         else case rm_systemd remote (rs_scope_id r) of
           Some (Some l) \<Rightarrow> if \<not> sl_success l \<or> \<not> sl_supported l \<or> sl_error l \<noteq> [] then systemd_health ul r None ''unavailable''
                            else systemd_health ul r (find_systemd_service (sl_services l) (rs_key r)) []
         | _ \<Rightarrow> systemd_health ul r None ''unavailable'')
      else if rs_type r = ''k8s_workload'' then
        (if ls_cluster_name loc (rs_scope_id r) = None then k8s_ready_health r [] None []
         else case rm_k8s remote (k8s_scope r) of
           Some (Some w) \<Rightarrow> workload_health r w
         | _ \<Rightarrow> k8s_ready_health r [] None ''unavailable'')
      else projection r HealthUnknown ''unavailable'' (([CHR 0xE8, CHR 0xB5, CHR 0x84, CHR 0xE6, CHR 0xBA, CHR 0x90, CHR 0xE7, CHR 0x8A, CHR 0xB6, CHR 0xE6, CHR 0x80, CHR 0x81, CHR 0xE6, CHR 0x9A, CHR 0x82, CHR 0xE4, CHR 0xB8, CHR 0x8D, CHR 0xE5, CHR 0x8F, CHR 0xAF, CHR 0xE7, CHR 0x94, CHR 0xA8])))"

definition resource_meta :: "local_signals \<Rightarrow> resource \<Rightarrow> (string \<times> string) list" where
  "resource_meta loc r =
     (if rs_type r = ''node'' then (case ls_nodes loc (rs_key r) of None \<Rightarrow> [] | Some (name, status) \<Rightarrow> [(''node_name'', name)])
      else if rs_type r = ''compose_project'' \<or> rs_type r = ''systemd_service'' then
        (case ls_nodes loc (rs_scope_id r) of None \<Rightarrow> [] | Some (name, status) \<Rightarrow> [(''node_name'', name)])
      else if rs_type r = ''k8s_workload'' then
        (case ls_cluster_name loc (rs_scope_id r) of None \<Rightarrow> [] | Some name \<Rightarrow> if name = [] then [] else [(''cluster_name'', name)])
      else [])"

text \<open>The name under which a resource appears as a location; the key says which location it is.\<close>

definition location_of :: "local_signals \<Rightarrow> resource \<Rightarrow> (string \<times> string) option" where
  "location_of loc r =
     (let node_name = (\<lambda>i other. case ls_nodes loc i of None \<Rightarrow> other | Some (name, status) \<Rightarrow> if name = [] then other else name) in
      if rs_type r = ''node'' then Some (''node:'' @ rs_key r, node_name (rs_key r) (rs_display_name r))
      else if rs_type r = ''compose_project'' \<or> rs_type r = ''systemd_service''
      then Some (''node:'' @ rs_scope_id r, node_name (rs_scope_id r) (rs_scope_id r))
      else if rs_type r = ''k8s_workload''
      then Some (''cluster:'' @ rs_scope_id r, case ls_cluster_name loc (rs_scope_id r) of None \<Rightarrow> rs_scope_id r
                                                 | Some name \<Rightarrow> if name = [] then rs_scope_id r else name)
      else None)"

text \<open>Later resources overwrite the name of a location.\<close>

definition location_summary :: "local_signals \<Rightarrow> resource list \<Rightarrow> string" where
  "location_summary loc rs =
     (let locations = foldl (\<lambda>m l. AList.update (fst l) (snd l) m) [] (List.map_filter (location_of loc) rs); names = sort (map snd locations) in
      if names = [] then ([CHR 0xE6, CHR 0x9C, CHR 0xAA, CHR 0xE5, CHR 0x85, CHR 0xB3, CHR 0xE8, CHR 0x81, CHR 0x94, CHR 0xE9, CHR 0x83, CHR 0xA8, CHR 0xE7, CHR 0xBD, CHR 0xB2, CHR 0xE4, CHR 0xBD, CHR 0x8D, CHR 0xE7, CHR 0xBD, CHR 0xAE])
      else if length names \<le> 2 then join (([CHR 0xE3, CHR 0x80, CHR 0x81])) names
      else join (([CHR 0xE3, CHR 0x80, CHR 0x81])) (take 2 names) @ '' '' @ ([CHR 0xE7, CHR 0xAD, CHR 0x89]) @ '' '' @ show_nat (length names) @ '' '' @ ([CHR 0xE4, CHR 0xB8, CHR 0xAA, CHR 0xE4, CHR 0xBD, CHR 0x8D, CHR 0xE7, CHR 0xBD, CHR 0xAE]))"

record service_summary =
  sm_service :: app_service
  sm_health :: health_status
  sm_reasons :: "health_reason list"
  sm_first_reason :: string
  sm_reason_counts :: "string \<Rightarrow> nat"
  sm_resource_count :: nat
  sm_resource_type_counts :: "string \<Rightarrow> nat"
  sm_location_summary :: string
  sm_resources :: "resource_projection list"

definition summarize :: "(nat \<Rightarrow> nat) \<Rightarrow> local_signals \<Rightarrow> remote_signals \<Rightarrow> app_service \<Rightarrow> service_summary" where
  "summarize ul loc remote s =
     (let projected = map (\<lambda>r. (project_resource ul loc remote r)\<lparr>rp_meta := resource_meta loc r\<rparr>) (sv_resources s);
          (health, reasons, counts) = aggregate_health projected
      in \<lparr>sm_service = s, sm_health = health, sm_reasons = reasons,
          sm_first_reason = (case reasons of [] \<Rightarrow> [] | h # hs \<Rightarrow> hr_message h), sm_reason_counts = counts,
          sm_resource_count = length (sv_resources s),
          sm_resource_type_counts = (\<lambda>t. count_rows (\<lambda>r. rs_type r = t) (sv_resources s)),
          sm_location_summary = location_summary loc (sv_resources s), sm_resources = projected\<rparr>)"

definition project_services :: "(nat \<Rightarrow> nat) \<Rightarrow> signal_tables \<Rightarrow> remote_calls \<Rightarrow> app_service list \<Rightarrow> service_summary list \<times> local_signals" where
  "project_services ul t calls ss =
     (let rs = concat (map sv_resources ss); loc = load_local_signals t rs; remote = load_remote_signals calls rs
      in (map (summarize ul loc remote) ss, loc))"

section \<open>Recent activity\<close>

definition related_ids :: "(string \<Rightarrow> string option) \<Rightarrow> resource list \<Rightarrow> int list \<times> int list \<times> string list" where
  "related_ids clusterNodes rs =
     (let ids = (\<lambda>t. sort (remdups (map (\<lambda>r. case atoi (rs_key r) of None \<Rightarrow> 0 | Some i \<Rightarrow> i) (filter (\<lambda>r. rs_type r = t) rs))));
          node = (\<lambda>r. if rs_type r = ''k8s_workload''
                      then (case clusterNodes (rs_scope_id r) of None \<Rightarrow> None | Some n \<Rightarrow> if n = [] then None else Some n)
                      else node_signal_id r)
      in (ids ''alert_rule'', ids ''scheduled_task'', keys_of node rs))"

text \<open>Alerts that are still active come first, then the newest.\<close>

definition recent_alerts :: "alert_history list \<Rightarrow> int list \<Rightarrow> nat \<Rightarrow> alert_history list" where
  "recent_alerts rows ids limit = (if ids = [] then []
     else take limit (sort_key (\<lambda>h. (if ah_resolved_at h = None then 0 else 1 :: nat, - ah_id h)) (filter (\<lambda>h. ah_rule_id h \<in> set ids) rows)))"

definition recent_tasks :: "task_run list \<Rightarrow> int list \<Rightarrow> nat \<Rightarrow> task_run list" where
  "recent_tasks rows ids limit = (if ids = [] then []
     else take limit (sort_key (\<lambda>r. - rn_id r) (filter (\<lambda>r. case rn_task_id r of None \<Rightarrow> False | Some i \<Rightarrow> i \<in> set ids) rows)))"

record audit_row =
  au_id :: int
  au_target_type :: string
  au_target_id :: string
  au_node_id :: string

definition recent_audit :: "audit_row list \<Rightarrow> string \<Rightarrow> string list \<Rightarrow> nat \<Rightarrow> audit_row list" where
  "recent_audit rows serviceID nodeIDs limit =
     take limit (sort_key (\<lambda>a. - au_id a) (filter (\<lambda>a. au_target_type a = ''application_service'' \<and> au_target_id a = serviceID
        \<or> au_node_id a \<in> set nodeIDs) rows))"

record service_detail =
  sx_summary :: service_summary
  sx_recent_alerts :: "alert_history list"
  sx_recent_tasks :: "task_run list"
  sx_recent_audit :: "audit_row list"

definition project_one ::
  "(nat \<Rightarrow> nat) \<Rightarrow> signal_tables \<Rightarrow> remote_calls \<Rightarrow> task_run list \<Rightarrow> audit_row list \<Rightarrow> bool \<Rightarrow> app_service \<Rightarrow> service_detail" where
  "project_one ul t calls runs audits includeActivity s =
     (let (summaries, loc) = project_services ul t calls [s];
          (alertIDs, taskIDs, nodeIDs) = related_ids (ls_cluster_node loc) (sv_resources s) in
      if \<not> includeActivity then \<lparr>sx_summary = hd summaries, sx_recent_alerts = [], sx_recent_tasks = [], sx_recent_audit = []\<rparr>
      else \<lparr>sx_summary = hd summaries, sx_recent_alerts = recent_alerts (st_history t) alertIDs 10,
            sx_recent_tasks = recent_tasks runs taskIDs 10, sx_recent_audit = recent_audit audits (sv_id s) nodeIDs 10\<rparr>)"

end
