(* ===== verification/ServiceCenterSpec.thy ===== *)
theory ServiceCenterSpec
  imports ServiceCenter SettingsSpec TableKeys "HOL-Library.Multiset"
begin

text \<open>
  What the normalisation of a service guarantees, what is stored and read back, and the health of a service as the
  worst of its resources.
\<close>

section \<open>Normalised resources\<close>

definition strip_resource :: "resource \<Rightarrow> resource" where
  "strip_resource r = r\<lparr>rs_id := [], rs_service_id := [], rs_created_at := []\<rparr>"

definition normal_resource :: "(nat \<Rightarrow> nat) \<Rightarrow> (string \<Rightarrow> string option) \<Rightarrow> resource \<Rightarrow> bool" where
  "normal_resource ul uuid r \<longleftrightarrow> normalize_resource ul uuid r = Inr (strip_resource r)"

text \<open>The documented behaviour of \<^verbatim>\<open>uuid.Parse\<close>: it accepts the canonical text, which has 36 plain characters.\<close>

definition canonical_uuid :: "(string \<Rightarrow> string option) \<Rightarrow> bool" where
  "canonical_uuid uuid \<longleftrightarrow> (\<forall>s u. uuid s = Some u \<longrightarrow> uuid u = Some u \<and> length u = 36 \<and> list_all plain_char u)"

lemma normal_strip: "normalize_resource ul uuid (strip_resource r) = normalize_resource ul uuid r"
  by (simp add: normalize_resource_def trimmed_resource_def strip_resource_def)

lemma normal_resource_strip: "normal_resource ul uuid (strip_resource r) = normal_resource ul uuid r"
  by (simp add: normal_resource_def normal_strip) (simp add: strip_resource_def)

lemma normal_resource_ids: "normal_resource ul uuid (r\<lparr>rs_id := i, rs_service_id := s, rs_created_at := t\<rparr>) = normal_resource ul uuid r"
proof -
  have "strip_resource (r\<lparr>rs_id := i, rs_service_id := s, rs_created_at := t\<rparr>) = strip_resource r" by (simp add: strip_resource_def)
  then show ?thesis by (metis normal_resource_strip)
qed

lemma length_show_nat: "n < 10 ^ k \<Longrightarrow> 0 < k \<Longrightarrow> length (show_nat n) \<le> k"
proof (induction k arbitrary: n)
  case (Suc k)
  show ?case
  proof (cases "n < 10")
    case False
    then have "0 < k" using Suc.prems by (cases k) auto
    moreover have "n div 10 < 10 ^ k" using Suc.prems by auto
    ultimately have "length (show_nat (n div 10)) \<le> k" by (rule Suc.IH [rotated])
    then show ?thesis using False by (subst show_nat.simps) simp
  qed (subst show_nat.simps, simp)
qed simp

lemma atoi_bounds: "atoi s = Some i \<Longrightarrow> min_duration \<le> i \<and> i \<le> max_duration"
  by (auto simp: atoi_def Let_def split: if_splits)

lemma length_show_int: "0 < i \<Longrightarrow> i \<le> max_duration \<Longrightarrow> length (show_int i) \<le> 19"
  using length_show_nat [of "nat i" 19] by (simp add: show_int_def max_duration_def)

lemma plain_valid: "\<forall>c\<in>set s. plain_char c \<Longrightarrow> valid_utf8 s"
  by (rule valid_utf8_ascii) (auto simp: is_ascii_def list_all_iff plain_char_def Let_def)

definition clean :: "resource \<Rightarrow> bool" where
  "clean r \<longleftrightarrow> rs_id r = [] \<and> rs_service_id r = [] \<and> rs_created_at r = [] \<and> trim_space (rs_scope_id r) = rs_scope_id r
     \<and> trim_space (rs_namespace r) = rs_namespace r \<and> trim_space (rs_key r) = rs_key r \<and> trim_space (rs_display_name r) = rs_display_name r
     \<and> valid_bounded (rs_scope_id r) 191 \<and> valid_bounded (rs_kind r) 32 \<and> valid_bounded (rs_namespace r) 191 \<and> valid_bounded (rs_key r) 255
     \<and> rs_key r \<noteq> [] \<and> valid_bounded (rs_display_name r) 256 \<and> rs_display_name r \<noteq> []"

lemma clean_key: "clean r \<Longrightarrow> \<forall>c\<in>set k. plain_char c \<Longrightarrow> k \<noteq> [] \<Longrightarrow> length k \<le> 255 \<Longrightarrow> clean (r\<lparr>rs_key := k\<rparr>)"
  by (simp add: clean_def plain_text plain_valid valid_bounded_def)

text \<open>The types whose resources have no kind, and the kinds of the others, are all lower-case texts without spaces.\<close>

definition known_kind :: "string \<Rightarrow> bool" where
  "known_kind k \<longleftrightarrow> k = [] \<or> k = ''managed'' \<or> k = ''external'' \<or> valid_k8s_kind k"

lemma known_kind_fixed: "known_kind k \<Longrightarrow> to_lower ul (trim_space k) = k"
proof -
  assume "known_kind k"
  then have "\<forall>c\<in>set k. plain_char c" by (auto simp: known_kind_def valid_k8s_kind_def plain_char_def)
  then show ?thesis by (simp add: plain_text)
qed

lemma clean_fixed: "clean r \<Longrightarrow> known_kind (rs_kind r) \<Longrightarrow> normalize_resource ul uuid r = normalize_identity uuid r"
proof -
  assume r: "clean r" "known_kind (rs_kind r)"
  then have "trimmed_resource ul r = r" by (simp add: trimmed_resource_def clean_def known_kind_fixed)
  then show ?thesis using r(1) by (simp add: normalize_resource_def clean_def)
qed

lemma identity_cases:
  assumes "normalize_identity uuid r = Inr q"
  shows "known_kind (rs_kind r) \<and> (q = r
     \<or> (\<exists>u. q = r\<lparr>rs_key := u\<rparr> \<and> uuid (rs_key r) = Some u \<and> u \<noteq> nil_uuid \<and> rs_type r = ''compose_project'' \<and> rs_kind r = ''managed''
           \<and> rs_scope_id r \<noteq> [] \<and> rs_namespace r = [])
     \<or> (\<exists>i. q = r\<lparr>rs_key := show_int i\<rparr> \<and> atoi (rs_key r) = Some i \<and> 0 < i \<and> rs_scope_id r = [] \<and> rs_kind r = [] \<and> rs_namespace r = []
           \<and> (rs_type r = ''uptime_monitor'' \<or> rs_type r = ''alert_rule'' \<or> rs_type r = ''scheduled_task'')))"
  using assms unfolding normalize_identity_def Let_def known_kind_def by (simp split: if_splits option.splits; force)

lemma identity_normalized:
  assumes "normalize_identity uuid r = Inr q" "clean r" "canonical_uuid uuid"
  shows "clean q \<and> known_kind (rs_kind q) \<and> normalize_identity uuid q = Inr q"
proof -
  note c = identity_cases [OF assms(1)]
  consider (same) "q = r" | (managed) u where "q = r\<lparr>rs_key := u\<rparr>" "uuid (rs_key r) = Some u" "u \<noteq> nil_uuid" "rs_type r = ''compose_project''"
      "rs_kind r = ''managed''" "rs_scope_id r \<noteq> []" "rs_namespace r = []"
    | (numbered) i where "q = r\<lparr>rs_key := show_int i\<rparr>" "atoi (rs_key r) = Some i" "0 < i" "rs_scope_id r = []" "rs_kind r = []" "rs_namespace r = []"
      "rs_type r = ''uptime_monitor'' \<or> rs_type r = ''alert_rule'' \<or> rs_type r = ''scheduled_task''"
    using c by blast
  then show ?thesis
  proof cases
    case same
    then show ?thesis using assms c by simp
  next
    case managed
    then have u: "uuid u = Some u" "length u = 36" "\<forall>c\<in>set u. plain_char c" using assms(3) by (auto simp: canonical_uuid_def list_all_iff)
    then have "u \<noteq> []" by auto
    then have "clean q" using u assms(2) managed(1) by (auto intro!: clean_key)
    moreover have "normalize_identity uuid q = Inr q" using managed u by (simp add: normalize_identity_def)
    ultimately show ?thesis using managed by (simp add: known_kind_def)
  next
    case numbered
    then have b: "i \<le> max_duration" "min_duration \<le> i" using atoi_bounds by auto
    then have "length (show_int i) \<le> 255" "show_int i \<noteq> []" using length_show_int [of i] numbered by (auto simp: show_int_def)
    then have "clean q" using assms(2) show_int_plain numbered(1) by (auto intro!: clean_key)
    moreover have "\<not> i \<le> 0" using numbered(3) by simp
    then have "normalize_identity uuid q = Inr q" using numbered(7)
      by (elim disjE) (simp_all add: normalize_identity_def numbered(1,2,4-6) atoi_show_int b)
    ultimately show ?thesis using numbered by (simp add: known_kind_def)
  qed
qed

lemma normalized_resource:
  assumes "normalize_resource ul uuid r0 = Inr r" "canonical_uuid uuid"
  shows "clean r \<and> normal_resource ul uuid r \<and> strip_resource r = r"
proof -
  let ?t = "trimmed_resource ul r0"
  let ?d = "if rs_display_name ?t = [] then ?t\<lparr>rs_display_name := rs_key ?t\<rparr> else ?t"
  have "clean ?d" "normalize_identity uuid ?d = Inr r"
    using assms(1) by (auto simp: normalize_resource_def Let_def clean_def trimmed_resource_def valid_bounded_def split: if_splits)
  then have r: "clean r" "known_kind (rs_kind r)" "normalize_identity uuid r = Inr r" using identity_normalized assms(2) by blast+
  moreover have "strip_resource r = r" using r(1) by (simp add: clean_def strip_resource_def)
  ultimately show ?thesis by (simp add: normal_resource_def clean_fixed)
qed

lemma identity_strip: "resource_identity (strip_resource r) = resource_identity r"
  by (simp add: resource_identity_def strip_resource_def)

lemma normalized_resources:
  assumes "normalize_resources ul uuid seen rs = Inr qs" "canonical_uuid uuid"
  shows "length qs = length rs \<and> (\<forall>q\<in>set qs. normal_resource ul uuid q \<and> strip_resource q = q) \<and> distinct (map resource_identity qs)
     \<and> (\<forall>q\<in>set qs. resource_identity q \<notin> set seen)"
  using assms(1)
proof (induction rs arbitrary: seen qs)
  case (Cons r rs)
  then obtain q rest where q: "normalize_resource ul uuid r = Inr q" "resource_identity q \<notin> set seen"
      "normalize_resources ul uuid (resource_identity q # seen) rs = Inr rest" "qs = q # rest"
    by (auto simp: result_iff)
  from Cons.IH [OF q(3)] normalized_resource [OF q(1) assms(2)] q(2) show ?case unfolding q(4) by auto
qed simp

lemma renormalized_resources:
  assumes "\<forall>r\<in>set rs. normal_resource ul uuid r" "distinct (map resource_identity rs)" "\<forall>r\<in>set rs. resource_identity r \<notin> set seen"
  shows "normalize_resources ul uuid seen rs = Inr (map strip_resource rs)"
  using assms
proof (induction rs arbitrary: seen)
  case (Cons r rs)
  then have "normalize_resource ul uuid r = Inr (strip_resource r)" by (simp add: normal_resource_def)
  moreover have "normalize_resources ul uuid (resource_identity r # seen) rs = Inr (map strip_resource rs)" 
  proof (rule Cons.IH)
    show "\<forall>q\<in>set rs. resource_identity q \<notin> set (resource_identity r # seen)" using Cons.prems(2,3) by (fastforce simp: image_iff)
  qed (use Cons.prems in auto)
  ultimately show ?case using Cons.prems(3) by (simp add: identity_strip)
qed simp

definition normal_header :: "(nat \<Rightarrow> nat) \<Rightarrow> string \<Rightarrow> string \<Rightarrow> string \<Rightarrow> bool" where
  "normal_header ul name description normalizedName \<longleftrightarrow> trim_space name = name \<and> name \<noteq> [] \<and> valid_utf8 name \<and> rune_count name \<le> 128
     \<and> trim_space description = description \<and> valid_utf8 description \<and> length description \<le> 2048 \<and> normalizedName = to_lower ul name"

definition normal_resources :: "(nat \<Rightarrow> nat) \<Rightarrow> (string \<Rightarrow> string option) \<Rightarrow> resource list \<Rightarrow> bool" where
  "normal_resources ul uuid rs \<longleftrightarrow> length rs \<le> max_resources_per_service \<and> (\<forall>r\<in>set rs. normal_resource ul uuid r) \<and> distinct (map resource_identity rs)"

lemma normalized_input:
  assumes "normalize_service_input ul uuid input0 = Inr (input, normalizedName)" "canonical_uuid uuid"
  shows "normal_header ul (si_name input) (si_description input) normalizedName \<and> normal_resources ul uuid (si_resources input)
     \<and> map strip_resource (si_resources input) = si_resources input"
proof -
  obtain qs where q: "normalize_resources ul uuid [] (si_resources input0) = Inr qs" "si_resources input = qs" "length (si_resources input0) \<le> max_resources_per_service"
    and h: "normal_header ul (si_name input) (si_description input) normalizedName"
    using assms(1) by (auto simp: normalize_service_input_def Let_def result_iff normal_header_def split: if_splits)
  show ?thesis using normalized_resources [OF q(1) assms(2)] h q(2,3) by (auto simp: normal_resources_def intro: map_idI)
qed

lemma renormalized_input:
  assumes "normal_header ul name description normalizedName" "normal_resources ul uuid rs"
  shows "normalize_service_input ul uuid \<lparr>si_name = name, si_description = description, si_resources = rs\<rparr>
     = Inr (\<lparr>si_name = name, si_description = description, si_resources = map strip_resource rs\<rparr>, normalizedName)"
proof -
  have "normalize_resources ul uuid [] rs = Inr (map strip_resource rs)" using assms(2) by (intro renormalized_resources) (auto simp: normal_resources_def)
  then show ?thesis using assms by (simp add: normalize_service_input_def normal_header_def normal_resources_def)
qed

section \<open>The store\<close>

definition stored_for :: "string \<Rightarrow> string \<Rightarrow> resource \<Rightarrow> resource \<Rightarrow> bool" where
  "stored_for serviceID now r q \<longleftrightarrow> (\<exists>i. q = r\<lparr>rs_id := i, rs_service_id := serviceID, rs_created_at := now\<rparr>)"

lemma inserted_resources:
  assumes "insert_resources draw k serviceID now rs rows = Inr (res, rows')"
  shows "rows' = rows @ res \<and> list_all2 (stored_for serviceID now) rs res \<and> (distinct (map rs_id rows) \<longrightarrow> distinct (map rs_id rows'))"
  using assms
proof (induction rs arbitrary: k rows res rows')
  case (Cons r rs)
  let ?r = "r\<lparr>rs_id := draw k, rs_service_id := serviceID, rs_created_at := now\<rparr>"
  from Cons.prems obtain rest where rest: "insert_resources draw (Suc k) serviceID now rs (rows @ [?r]) = Inr (rest, rows')" "res = ?r # rest"
      "\<forall>q\<in>set rows. rs_id q \<noteq> draw k"
    by (auto simp: Let_def result_iff split: prod.splits)
  have r: "stored_for serviceID now r ?r" by (auto simp: stored_for_def)
  from Cons.IH [OF rest(1)] have ih: "rows' = (rows @ [?r]) @ rest" "list_all2 (stored_for serviceID now) rs rest"
    "distinct (map rs_id (rows @ [?r])) \<longrightarrow> distinct (map rs_id rows')" by blast+
  moreover have "distinct (map rs_id rows) \<longrightarrow> distinct (map rs_id (rows @ [?r]))" using rest(3) by auto
  ultimately show ?case using r unfolding rest(2) by simp
qed simp

lemma stored_parts:
  assumes "list_all2 (stored_for serviceID now) rs res"
  shows "map strip_resource res = map strip_resource rs" "map resource_identity res = map resource_identity rs"
    "\<forall>q\<in>set res. rs_service_id q = serviceID" "(\<forall>q\<in>set res. normal_resource ul uuid q) \<longleftrightarrow> (\<forall>r\<in>set rs. normal_resource ul uuid r)"
  using assms
  by (induction rule: list_all2_induct)
    (auto simp: stored_for_def strip_resource_def resource_identity_def normal_resource_ids)

lemma stored_normal: "normal_resources ul uuid res" if l: "list_all2 (stored_for serviceID now) rs res" and n: "normal_resources ul uuid rs"
  using stored_parts(2,4) [OF l] list_all2_lengthD [OF l] n by (simp add: normal_resources_def)

definition resources_of :: "resource list \<Rightarrow> string \<Rightarrow> resource list" where
  "resources_of rows i = filter (\<lambda>r. rs_service_id r = i) rows"

definition services_ok :: "(nat \<Rightarrow> nat) \<Rightarrow> (string \<Rightarrow> string option) \<Rightarrow> service_db \<Rightarrow> bool" where
  "services_ok ul uuid db \<longleftrightarrow> distinct (map sw_id (sb_services db)) \<and> distinct (map sw_normalized_name (sb_services db))
     \<and> (\<forall>s\<in>set (sb_services db). normal_header ul (sw_name s) (sw_description s) (sw_normalized_name s))
     \<and> distinct (map rs_id (sb_resources db)) \<and> (\<forall>r\<in>set (sb_resources db). rs_service_id r \<in> sw_id ` set (sb_services db))
     \<and> (\<forall>i. normal_resources ul uuid (resources_of (sb_resources db) i))"

lemma resources_of_added:
  "\<forall>q\<in>set res. rs_service_id q = i \<Longrightarrow> \<forall>r\<in>set rows. rs_service_id r \<noteq> i \<Longrightarrow>
     resources_of (rows @ res) j = (if j = i then res else resources_of rows j)"
  by (auto simp: resources_of_def filter_empty_conv)

lemma normal_Nil: "normal_resources ul uuid []"
  by (simp add: normal_resources_def)

text \<open>Writing the resources of a service that has none.\<close>

lemma written_ok:
  assumes input: "normalize_service_input ul uuid input0 = Inr (input, normalizedName)" and u: "canonical_uuid uuid"
    and ins: "insert_resources draw 0 i now (si_resources input) rows = Inr (res, rows')"
    and rows: "distinct (map rs_id rows)" "\<forall>r\<in>set rows. rs_service_id r \<noteq> i" "\<forall>j. normal_resources ul uuid (resources_of rows j)"
  shows "distinct (map rs_id rows')" "\<forall>r\<in>set rows'. rs_service_id r = i \<or> r \<in> set rows" "\<forall>j. normal_resources ul uuid (resources_of rows' j)"
    "resources_of rows' i = res" "map strip_resource res = si_resources input"
proof -
  note n = normalized_input [OF input u] and r = inserted_resources [OF ins]
  have res: "\<forall>q\<in>set res. rs_service_id q = i" using r stored_parts(3) by blast
  have norm: "normal_resources ul uuid res" using n r stored_normal by blast
  show "distinct (map rs_id rows')" using r rows(1) by blast
  show "\<forall>r\<in>set rows'. rs_service_id r = i \<or> r \<in> set rows" using r res by auto
  show "resources_of rows' i = res" using r resources_of_added [OF res rows(2), of i] by simp
  show "\<forall>j. normal_resources ul uuid (resources_of rows' j)" using r resources_of_added [OF res rows(2)] norm rows(3) by simp
  show "map strip_resource res = si_resources input" using n r stored_parts(1) by metis
qed

lemma create_service_cases:
  assumes "create_service ul uuid i draw now input0 db = (Inr s, db')"
  obtains input :: service_input and normalizedName and res rows :: "resource list" where "normalize_service_input ul uuid input0 = Inr (input, normalizedName)"
    "i \<notin> sw_id ` set (sb_services db)" "normalizedName \<notin> sw_normalized_name ` set (sb_services db)"
    "insert_resources draw 0 i now (si_resources input) (sb_resources db) = Inr (res, rows)"
    "s = \<lparr>sv_id = i, sv_name = si_name input, sv_description = si_description input, sv_resources = res, sv_created_at = now, sv_updated_at = now\<rparr>"
    "db' = \<lparr>sb_services = sb_services db @ [\<lparr>sw_id = i, sw_name = si_name input, sw_normalized_name = normalizedName,
             sw_description = si_description input, sw_created_at = now, sw_updated_at = now\<rparr>], sb_resources = rows\<rparr>"
  using assms unfolding create_service_def run_tx_def
  by (auto simp: result_iff image_iff split: sum.splits prod.splits)

lemma update_service_cases:
  assumes "update_service ul uuid draw now id0 input0 db = (Inr s, db')"
  obtains input :: service_input and normalizedName and res rows :: "resource list" and row :: service_row where "normalize_service_input ul uuid input0 = Inr (input, normalizedName)"
    "List.find (\<lambda>s. sw_id s = trim_space id0) (sb_services db) = Some row"
    "\<forall>s\<in>set (sb_services db). sw_id s = trim_space id0 \<or> sw_normalized_name s \<noteq> normalizedName"
    "insert_resources draw 0 (trim_space id0) now (si_resources input) (delete_rows (\<lambda>r. rs_service_id r = trim_space id0) (sb_resources db)) = Inr (res, rows)"
    "s = \<lparr>sv_id = trim_space id0, sv_name = si_name input, sv_description = si_description input, sv_resources = res,
          sv_created_at = sw_created_at row, sv_updated_at = now\<rparr>"
    "db' = \<lparr>sb_services = update_rows (\<lambda>s. sw_id s = trim_space id0) (\<lambda>s. s\<lparr>sw_name := si_name input, sw_normalized_name := normalizedName,
               sw_description := si_description input, sw_updated_at := now\<rparr>) (sb_services db), sb_resources = rows\<rparr>"
  using assms unfolding update_service_def run_tx_def
  by (auto simp: result_iff Let_def split: sum.splits prod.splits option.splits)

lemma service_failed:
  "fst (create_service ul uuid i draw now input0 db) = Inl e \<Longrightarrow> snd (create_service ul uuid i draw now input0 db) = db"
  "fst (update_service ul uuid draw now id0 input0 db) = Inl e \<Longrightarrow> snd (update_service ul uuid draw now id0 input0 db) = db"
  by (auto simp: create_service_def update_service_def run_tx_def split: sum.splits)

lemma create_service_ok:
  assumes ok: "services_ok ul uuid db" and u: "canonical_uuid uuid" and r: "create_service ul uuid i draw now input0 db = (Inr s, db')"
  shows "services_ok ul uuid db'"
proof (rule create_service_cases [OF r])
  fix input :: service_input and normalizedName and res rows :: "resource list"
  assume input: "normalize_service_input ul uuid input0 = Inr (input, normalizedName)"
    and fresh: "i \<notin> sw_id ` set (sb_services db)" "normalizedName \<notin> sw_normalized_name ` set (sb_services db)"
    and ins: "insert_resources draw 0 i now (si_resources input) (sb_resources db) = Inr (res, rows)"
    and db': "db' = \<lparr>sb_services = sb_services db @ [\<lparr>sw_id = i, sw_name = si_name input, sw_normalized_name = normalizedName,
             sw_description = si_description input, sw_created_at = now, sw_updated_at = now\<rparr>], sb_resources = rows\<rparr>"
  have none: "\<forall>r\<in>set (sb_resources db). rs_service_id r \<noteq> i" using ok fresh(1) by (auto simp: services_ok_def)
  have d: "distinct (map rs_id (sb_resources db))" "\<forall>j. normal_resources ul uuid (resources_of (sb_resources db) j)"
    using ok by (simp_all add: services_ok_def)
  note w = written_ok(1-3) [OF input u ins d(1) none d(2)]
  show ?thesis using ok fresh w normalized_input [OF input u] unfolding db' services_ok_def by auto
qed

lemma update_service_ok:
  assumes ok: "services_ok ul uuid db" and u: "canonical_uuid uuid" and r: "update_service ul uuid draw now id0 input0 db = (Inr s, db')"
  shows "services_ok ul uuid db'"
proof (rule update_service_cases [OF r])
  fix input :: service_input and normalizedName and res rows :: "resource list" and row :: service_row
  let ?i = "trim_space id0" and ?old = "delete_rows (\<lambda>r. rs_service_id r = trim_space id0) (sb_resources db)"
  let ?f = "\<lambda>s. s\<lparr>sw_name := si_name input, sw_normalized_name := normalizedName, sw_description := si_description input, sw_updated_at := now\<rparr>"
  assume input: "normalize_service_input ul uuid input0 = Inr (input, normalizedName)"
    and row: "List.find (\<lambda>s. sw_id s = ?i) (sb_services db) = Some row"
    and fresh: "\<forall>s\<in>set (sb_services db). sw_id s = ?i \<or> sw_normalized_name s \<noteq> normalizedName"
    and ins: "insert_resources draw 0 ?i now (si_resources input) ?old = Inr (res, rows)"
    and db': "db' = \<lparr>sb_services = update_rows (\<lambda>s. sw_id s = ?i) ?f (sb_services db), sb_resources = rows\<rparr>"
  have "resources_of ?old j = (if j = ?i then [] else resources_of (sb_resources db) j)" for j
    by (auto simp: resources_of_def delete_rows_def intro: filter_cong)
  then have old: "\<forall>j. normal_resources ul uuid (resources_of ?old j)" using ok by (simp add: services_ok_def normal_Nil)
  have d: "distinct (map rs_id ?old)" using ok by (simp add: services_ok_def distinct_map_delete_rows)
  have none: "\<forall>r\<in>set ?old. rs_service_id r \<noteq> ?i" by (simp add: delete_rows_def)
  note w0 = written_ok(1-3) [OF input u ins d none old]
  have w: "\<forall>r\<in>set rows. rs_service_id r = ?i \<or> r \<in> set (sb_resources db)" using w0(2) by (auto simp: delete_rows_def)
  have ids: "map sw_id (update_rows (\<lambda>s. sw_id s = ?i) ?f (sb_services db)) = map sw_id (sb_services db)" by (rule map_update_rows) simp
  then have set_ids: "sw_id ` set (update_rows (\<lambda>s. sw_id s = ?i) ?f (sb_services db)) = sw_id ` set (sb_services db)" by (metis set_map)
  have "?i \<in> sw_id ` set (sb_services db)" using find_Some_set [OF row] by force
  then have "\<forall>r\<in>set rows. rs_service_id r \<in> sw_id ` set (sb_services db)" using w ok by (auto simp: services_ok_def)
  moreover have "\<forall>s\<in>set (update_rows (\<lambda>s. sw_id s = ?i) ?f (sb_services db)). normal_header ul (sw_name s) (sw_description s) (sw_normalized_name s)"
    using ok normalized_input [OF input u] by (auto simp: set_update_rows services_ok_def)
  moreover have "distinct (map sw_normalized_name (update_rows (\<lambda>s. sw_id s = ?i) ?f (sb_services db)))"
    using ok fresh by (intro distinct_keys_update [where x = normalizedName]) (auto simp: services_ok_def)
  ultimately show ?thesis using ok w0(1,3) ids set_ids unfolding db' services_ok_def by simp
qed

lemma delete_service_ok: "services_ok ul uuid (snd (delete_service id0 db))" if ok: "services_ok ul uuid db"
proof -
  let ?i = "trim_space id0"
  have "resources_of (delete_rows (\<lambda>r. rs_service_id r = ?i) (sb_resources db)) j = (if j = ?i then [] else resources_of (sb_resources db) j)" for j
    by (auto simp: resources_of_def delete_rows_def intro: filter_cong)
  then show ?thesis using ok by (auto simp: delete_service_def services_ok_def Let_def distinct_map_delete_rows normal_Nil)
qed

datatype service_op =
  CreateService string "nat \<Rightarrow> string" string service_input
| UpdateService "nat \<Rightarrow> string" string string service_input
| DeleteService string

fun apply_service_op :: "(nat \<Rightarrow> nat) \<Rightarrow> (string \<Rightarrow> string option) \<Rightarrow> service_op \<Rightarrow> service_db \<Rightarrow> service_db" where
  "apply_service_op ul uuid (CreateService i draw now input) db = snd (create_service ul uuid i draw now input db)"
| "apply_service_op ul uuid (UpdateService draw now i input) db = snd (update_service ul uuid draw now i input db)"
| "apply_service_op ul uuid (DeleteService i) db = snd (delete_service i db)"

definition serviced :: "(nat \<Rightarrow> nat) \<Rightarrow> (string \<Rightarrow> string option) \<Rightarrow> service_op list \<Rightarrow> service_db" where
  "serviced ul uuid ops = fold (apply_service_op ul uuid) ops empty_service_db"

lemma service_op_ok:
  assumes "services_ok ul uuid db" "canonical_uuid uuid"
  shows "services_ok ul uuid (apply_service_op ul uuid op db)"
proof (cases op)
  case (CreateService i draw now input)
  show ?thesis
  proof (cases "create_service ul uuid i draw now input db")
    case (Pair x db')
    then show ?thesis using CreateService assms create_service_ok service_failed(1) by (cases x) (auto, metis fst_conv snd_conv)
  qed
next
  case (UpdateService draw now i input)
  show ?thesis
  proof (cases "update_service ul uuid draw now i input db")
    case (Pair x db')
    then show ?thesis using UpdateService assms update_service_ok service_failed(2) by (cases x) (auto, metis fst_conv snd_conv)
  qed
qed (use assms delete_service_ok in simp)

lemma serviced_ok: "canonical_uuid uuid \<Longrightarrow> services_ok ul uuid (serviced ul uuid ops)"
proof -
  assume u: "canonical_uuid uuid"
  have "services_ok ul uuid db \<Longrightarrow> services_ok ul uuid (fold (apply_service_op ul uuid) ops db)" for db
    by (induction ops arbitrary: db) (simp_all add: service_op_ok u)
  moreover have "services_ok ul uuid empty_service_db" by (simp add: services_ok_def empty_service_db_def resources_of_def normal_Nil)
  ultimately show ?thesis by (simp add: serviced_def)
qed

section \<open>Reading back\<close>

definition input_of :: "app_service \<Rightarrow> service_input" where
  "input_of s = \<lparr>si_name = sv_name s, si_description = sv_description s, si_resources = sv_resources s\<rparr>"

definition in_order :: "app_service \<Rightarrow> app_service" where
  "in_order s = s\<lparr>sv_resources := sort_key (\<lambda>r. (rs_type r, rs_display_name r, rs_id r)) (sv_resources s)\<rparr>"

lemma get_unique:
  assumes "filter (\<lambda>s. sw_id s = trim_space i) (sb_services db) = [row]"
  shows "get_service i db = Inr (service_of db row)"
  using assms by (simp add: get_service_def query_services_def)

lemma filter_service_key:
  assumes "distinct (map key rows)" "row \<in> set rows"
  shows "filter (\<lambda>r. key r = key row) rows = [row]"
  using assms
proof (induction rows)
  case (Cons r rs)
  show ?case
  proof (cases "r = row")
    case True
    then have "filter (\<lambda>q. key q = key row) rs = []" using Cons.prems(1) by (auto simp: filter_empty_conv image_iff)
    then show ?thesis using True by simp
  next
    case False
    then have "key r \<noteq> key row" using Cons.prems by (auto simp: image_iff)
    then show ?thesis using Cons False by simp
  qed
qed simp

lemma get_row:
  assumes "distinct (map sw_id (sb_services db))" "row \<in> set (sb_services db)" "sw_id row = trim_space i"
  shows "get_service i db = Inr (service_of db row)"
  using assms filter_service_key [OF assms(1,2)] by (intro get_unique) simp

lemma get_frame:
  assumes "filter (\<lambda>s. sw_id s = trim_space j) (sb_services db') = filter (\<lambda>s. sw_id s = trim_space j) (sb_services db)"
    "resources_of (sb_resources db') (trim_space j) = resources_of (sb_resources db) (trim_space j)"
  shows "get_service j db' = get_service j db"
proof -
  have "map (service_of db') rows = map (service_of db) rows" if "set rows \<subseteq> {s. sw_id s = trim_space j}" for rows
    using assms(2) that by (auto simp: service_of_def resources_of_def)
  note rows = this [of "sort_key (\<lambda>s. (sql_lower (sw_name s), sw_id s)) (filter (\<lambda>s. sw_id s = trim_space j) (sb_services db))"]
  have "query_services (\<lambda>s. sw_id s = trim_space j) db' = query_services (\<lambda>s. sw_id s = trim_space j) db"
    unfolding query_services_def assms(1) by (rule rows) auto
  then show ?thesis unfolding get_service_def by simp
qed

definition read_back :: "(nat \<Rightarrow> nat) \<Rightarrow> (string \<Rightarrow> string option) \<Rightarrow> string \<Rightarrow> service_input \<Rightarrow> app_service \<Rightarrow> service_db \<Rightarrow> bool" where
  "read_back ul uuid i input0 s db' \<longleftrightarrow> get_service i db' = Inr (in_order s)
     \<and> (\<exists>input n. normalize_service_input ul uuid input0 = Inr (input, n) \<and> sv_name s = si_name input \<and> sv_description s = si_description input
         \<and> map strip_resource (sv_resources s) = si_resources input
         \<and> normalize_service_input ul uuid (input_of (in_order s))
           = Inr (\<lparr>si_name = si_name input, si_description = si_description input, si_resources = map strip_resource (sv_resources (in_order s))\<rparr>, n))"

lemma normal_sort: "normal_resources ul uuid (sort_key k rs) = normal_resources ul uuid rs"
  by (simp add: normal_resources_def distinct_map)

lemma read_back_written:
  assumes ok: "services_ok ul uuid db'" and row: "row \<in> set (sb_services db')" "sw_id row = trim_space i"
    and input: "normalize_service_input ul uuid input0 = Inr (input, n)" and u: "canonical_uuid uuid"
    and s: "service_of db' row = in_order s" "sw_name row = si_name input" "sw_description row = si_description input"
    and res: "map strip_resource (sv_resources s) = si_resources input"
  shows "read_back ul uuid i input0 s db'"
proof -
  have "normal_resources ul uuid (resources_of (sb_resources db') (sw_id row))" using ok by (simp add: services_ok_def)
  then have rs: "normal_resources ul uuid (sv_resources (in_order s))" unfolding s(1) [symmetric] by (simp add: service_of_def resources_of_def normal_sort)
  have "sv_name (service_of db' row) = sv_name s" "sv_description (service_of db' row) = sv_description s" unfolding s(1) by (simp_all add: in_order_def)
  then have names: "sv_name s = si_name input" "sv_description s = si_description input" using s(2,3) by (simp_all add: service_of_def)
  have "input_of (in_order s) = \<lparr>si_name = si_name input, si_description = si_description input, si_resources = sv_resources (in_order s)\<rparr>"
    using names by (simp add: input_of_def in_order_def)
  moreover have "normal_header ul (si_name input) (si_description input) n" using normalized_input [OF input u] by blast
  ultimately have "normalize_service_input ul uuid (input_of (in_order s))
      = Inr (\<lparr>si_name = si_name input, si_description = si_description input, si_resources = map strip_resource (sv_resources (in_order s))\<rparr>, n)"
    using renormalized_input rs by simp
  moreover have "get_service i db' = Inr (in_order s)" using get_row [OF _ row] ok s(1) by (simp add: services_ok_def)
  ultimately show ?thesis using input names res unfolding read_back_def by blast
qed

lemma filter_update_others: "(\<And>r. P r \<Longrightarrow> \<not> Q r \<and> \<not> Q (f r)) \<Longrightarrow> filter Q (update_rows P f rows) = filter Q rows"
  by (induction rows) auto

lemma created_read_back:
  assumes ok: "services_ok ul uuid db" and u: "canonical_uuid uuid" and i: "trim_space i = i"
    and r: "create_service ul uuid i draw now input0 db = (Inr s, db')"
  shows "read_back ul uuid i input0 s db' \<and> (\<forall>j. trim_space j \<noteq> i \<longrightarrow> get_service j db' = get_service j db)"
proof (rule create_service_cases [OF r])
  fix input :: service_input and normalizedName and res rows :: "resource list"
  let ?row = "\<lparr>sw_id = i, sw_name = si_name input, sw_normalized_name = normalizedName, sw_description = si_description input, sw_created_at = now, sw_updated_at = now\<rparr>"
  assume input: "normalize_service_input ul uuid input0 = Inr (input, normalizedName)"
    and fresh: "i \<notin> sw_id ` set (sb_services db)"
    and ins: "insert_resources draw 0 i now (si_resources input) (sb_resources db) = Inr (res, rows)"
    and s: "s = \<lparr>sv_id = i, sv_name = si_name input, sv_description = si_description input, sv_resources = res, sv_created_at = now, sv_updated_at = now\<rparr>"
    and db': "db' = \<lparr>sb_services = sb_services db @ [?row], sb_resources = rows\<rparr>"
  have none: "\<forall>r\<in>set (sb_resources db). rs_service_id r \<noteq> i" using ok fresh(1) by (auto simp: services_ok_def)
  have d: "distinct (map rs_id (sb_resources db))" "\<forall>j. normal_resources ul uuid (resources_of (sb_resources db) j)"
    using ok by (simp_all add: services_ok_def)
  note w = written_ok [OF input u ins d(1) none d(2)]
  have "read_back ul uuid i input0 s db'"
  proof (rule read_back_written [OF create_service_ok [OF ok u r] _ _ input u])
    show "?row \<in> set (sb_services db')" "sw_id ?row = trim_space i" by (simp_all add: db' i)
    show "service_of db' ?row = in_order s" using w(4) by (simp add: s db' service_of_def in_order_def resources_of_def)
    show "map strip_resource (sv_resources s) = si_resources input" using w(5) by (simp add: s)
  qed simp_all
  moreover have "get_service j db' = get_service j db" if j: "trim_space j \<noteq> i" for j
  proof (rule get_frame)
    have "rows = sb_resources db @ res" "\<forall>q\<in>set res. rs_service_id q = i" using inserted_resources [OF ins] stored_parts(3) by blast+
    then show "resources_of (sb_resources db') (trim_space j) = resources_of (sb_resources db) (trim_space j)" using j by (simp add: db' resources_of_def filter_empty_conv)
  qed (use j in \<open>simp add: db'\<close>)
  ultimately show ?thesis by blast
qed

lemma updated_read_back:
  assumes ok: "services_ok ul uuid db" and u: "canonical_uuid uuid" and i: "trim_space i = i"
    and r: "update_service ul uuid draw now i input0 db = (Inr s, db')"
  shows "read_back ul uuid i input0 s db' \<and> (\<forall>j. trim_space j \<noteq> i \<longrightarrow> get_service j db' = get_service j db)"
proof (rule update_service_cases [OF r], unfold i)
  fix input :: service_input and normalizedName and res rows :: "resource list" and row :: service_row
  let ?old = "delete_rows (\<lambda>r. rs_service_id r = i) (sb_resources db)"
  let ?f = "\<lambda>s. s\<lparr>sw_name := si_name input, sw_normalized_name := normalizedName, sw_description := si_description input, sw_updated_at := now\<rparr>"
  assume input: "normalize_service_input ul uuid input0 = Inr (input, normalizedName)"
    and row: "List.find (\<lambda>s. sw_id s = i) (sb_services db) = Some row"
    and ins: "insert_resources draw 0 i now (si_resources input) ?old = Inr (res, rows)"
    and s: "s = \<lparr>sv_id = i, sv_name = si_name input, sv_description = si_description input, sv_resources = res,
          sv_created_at = sw_created_at row, sv_updated_at = now\<rparr>"
    and db': "db' = \<lparr>sb_services = update_rows (\<lambda>s. sw_id s = i) ?f (sb_services db), sb_resources = rows\<rparr>"
  have d: "distinct (map rs_id ?old)" using ok by (simp add: services_ok_def distinct_map_delete_rows)
  have none: "\<forall>r\<in>set ?old. rs_service_id r \<noteq> i" by (simp add: delete_rows_def)
  have "resources_of ?old j = (if j = i then [] else resources_of (sb_resources db) j)" for j
    by (auto simp: resources_of_def delete_rows_def intro: filter_cong)
  then have old: "\<forall>j. normal_resources ul uuid (resources_of ?old j)" using ok by (simp add: services_ok_def normal_Nil)
  note w = written_ok [OF input u ins d none old]
  note at = find_Some_set [OF row]
  have "read_back ul uuid i input0 s db'"
  proof (rule read_back_written [OF update_service_ok [OF ok u r] _ _ input u])
    show "?f row \<in> set (sb_services db')" using at by (simp add: db' set_update_rows)
    show "sw_id (?f row) = trim_space i" using at i by simp
    show "service_of db' (?f row) = in_order s" using w(4) at by (simp add: s db' service_of_def in_order_def resources_of_def)
    show "map strip_resource (sv_resources s) = si_resources input" using w(5) by (simp add: s)
  qed simp_all
  moreover have "get_service j db' = get_service j db" if j: "trim_space j \<noteq> i" for j
  proof (rule get_frame)
    have "rows = ?old @ res" "\<forall>q\<in>set res. rs_service_id q = i" using inserted_resources [OF ins] stored_parts(3) by blast+
    then show "resources_of (sb_resources db') (trim_space j) = resources_of (sb_resources db) (trim_space j)"
      using j by (auto simp: db' resources_of_def filter_empty_conv delete_rows_def intro: filter_cong)
    show "filter (\<lambda>s. sw_id s = trim_space j) (sb_services db') = filter (\<lambda>s. sw_id s = trim_space j) (sb_services db)"
      using j by (simp add: db' filter_update_others)
  qed
  ultimately show ?thesis by blast
qed

section \<open>Health\<close>






section \<open>Properties of the store\<close>

definition sample_uuid :: string where "sample_uuid = ''0f7c1a52-52a1-4b8e-9a52-2f1f1d0b6a01''"
definition sample_parse :: "string \<Rightarrow> string option" where "sample_parse s = (if s = sample_uuid then Some sample_uuid else None)"
definition sample_service :: service_input where
  "sample_service = \<lparr>si_name = '' Shop '', si_description = [], si_resources =
     [\<lparr>rs_id = [], rs_service_id = [], rs_type = ''uptime_monitor'', rs_scope_id = [], rs_kind = [], rs_namespace = [], rs_key = ''+7'', rs_display_name = [], rs_created_at = []\<rparr>,
      \<lparr>rs_id = [], rs_service_id = [], rs_type = ''compose_project'', rs_scope_id = ''n1'', rs_kind = ''Managed'', rs_namespace = [], rs_key = sample_uuid,
        rs_display_name = ''web'', rs_created_at = []\<rparr>]\<rparr>"

lemma sample_canonical: "canonical_uuid sample_parse"
  by (auto simp: canonical_uuid_def sample_parse_def sample_uuid_def plain_char_def)

text \<open>C39: After any creations, changes and deletions of services, identifiers and normalised names are unique, every
  resource belongs to a stored service, every service has a trimmed name of 1 to 128 characters whose lower-case form is
  its normalised name, and at most 200 resources, no two of which are the same, each in its normal form (normalising
  it again changes nothing).  The hypothesis is the documented behaviour of \<^verbatim>\<open>uuid.Parse\<close>.
\<close>

theorem services_are_consistent: "canonical_uuid uuid \<Longrightarrow> services_ok ul uuid (serviced ul uuid ops)"
  by (rule serviced_ok)

theorem services_are_consistent_witness:
  "services_ok id sample_parse (serviced id sample_parse [CreateService ''s1'' show_nat ''t'' sample_service, DeleteService ''s2''])"
  by (rule services_are_consistent) (rule sample_canonical)

text \<open>C36: What creating or changing a service returns is what reading it gives afterwards, with its resources in the order of
  the list; name, description and resources are those of the normalised request, and submitting what was read is
  accepted and normalises to the same service under the same normalised name.  All other services are read as before.
\<close>

theorem service_is_read_back:
  assumes "canonical_uuid uuid" "trim_space i = i"
    "create_service ul uuid i draw now input0 (serviced ul uuid ops) = (Inr s, db')
       \<or> update_service ul uuid draw now i input0 (serviced ul uuid ops) = (Inr s, db')"
  shows "read_back ul uuid i input0 s db' \<and> (\<forall>j. trim_space j \<noteq> i \<longrightarrow> get_service j db' = get_service j (serviced ul uuid ops))"
  using assms(3) created_read_back [OF serviced_ok [OF assms(1)] assms(1,2)] updated_read_back [OF serviced_ok [OF assms(1)] assms(1,2)] by blast

theorem service_is_read_back_witness:
  "\<exists>s db'. create_service id sample_parse ''s1'' show_nat ''t'' sample_service (serviced id sample_parse []) = (Inr s, db')
     \<and> read_back id sample_parse ''s1'' sample_service s db'"
proof -
  let ?r = "create_service id sample_parse ''s1'' show_nat ''t'' sample_service (serviced id sample_parse [])"
  have ok: "\<not> isl (fst ?r)"
    by (simp add: create_service_def run_tx_def serviced_def empty_service_db_def normalize_service_input_def sample_service_def sample_parse_def
        sample_uuid_def nil_uuid_def normalize_resource_def trimmed_resource_def valid_bounded_def normalize_identity_def resource_identity_def
        max_resources_per_service_def atoi_def show_int_def show_nat.simps nat_of_digits_def failIf_def bindE_def Let_def
        min_duration_def max_duration_def is_digit_def char_of_eq_iff eval_text)
  then obtain s db' where r: "?r = (Inr s, db')" by (cases ?r, cases "fst ?r") auto
  have i: "trim_space ''s1'' = ''s1''" by (rule plain_text) (simp add: plain_char_def)
  from service_is_read_back [OF sample_canonical i disjI1 [OF r]] r show ?thesis by blast
qed
end
