(* ===== verification/Spec2Isabelle.thy ===== *)
theory Spec2Isabelle
  imports LogBuffer SshJobs TaskEngineSpec TaskOccurrences UptimeEngineSpec NotifierSpec AlertSpec AiPolicy AiRouting AiPlanSpec AgentHubRuns
    NodeOrganizationsSpec ServiceCenterSpec
begin

text \<open>
  A model of the server of MizuPanel, a panel that monitors and operates Linux nodes through agents, with
  the theorems that its parts rely on.

  \<^bold>\<open>The program.\<close>  One server process keeps its state in SQL tables (\<^verbatim>\<open>internal/server/store\<close>) and in maps under
  mutexes.  Agents connect by websocket (\<^verbatim>\<open>internal/server/agenthub\<close>), report metrics and execute requests.
  Three engines run in the background: scheduled tasks (\<^verbatim>\<open>taskrunner\<close>), uptime monitors (\<^verbatim>\<open>uptime\<close>) and alert
  rules (\<^verbatim>\<open>alerting\<close>); all of them send messages through the notifier.  An AI assistant (\<^verbatim>\<open>ai\<close>) proposes
  operations that an administrator confirms or a stored policy authorizes.  The HTTP API (\<^verbatim>\<open>api\<close>) changes the tables.

  \<^bold>\<open>How it is modelled.\<close>  A table is a list of rows (records with the columns of the schema in
  \<^verbatim>\<open>internal/server/db/migrations.go\<close>); a store operation is a function from the tables to an error or a result and
  the new tables, a transaction rolls back on error (\<open>run_tx\<close>).  A Go string is a list of bytes, an instant the number of
  nanoseconds since Go's zero time.  Random values, the clock, and what other processes answer are arguments.
  Code that runs concurrently is a step function on a state with one program counter per goroutine, one access to the
  database or to state under a mutex per step; theorems about it hold for every list of steps.

  \<^bold>\<open>Foundations.\<close>  \<open>Prelude\<close>: errors, transactions, tables, time.  \<open>GoText\<close>, \<open>GoUrl\<close>, \<open>GoDuration\<close>, \<open>GoFloat\<close>, \<open>Sha1\<close>,
  \<open>Sha256\<close>: what the program uses of Go's libraries.  \<open>Slots\<close>: the semaphore and the set of reserved keys that the engines
  share, as locales with their laws, interpreted on the models (\<open>chan_slots\<close>, \<open>key_set\<close>, \<open>monitor_checks\<close>).

  \<^bold>\<open>Scheduled tasks.\<close>  \<open>TaskTypes\<close>, \<open>Channels\<close>, \<open>TaskStore\<close>: \<^verbatim>\<open>store/tasks.go\<close>, data, validation and every operation over its
  tables (an operation that reads its row again after the commit does so in the same step).  \<open>TaskInv\<close>, \<open>TaskLife\<close>, \<open>TaskProps\<close>: the invariant of the tables and that every operation keeps it.  \<open>TaskSpec\<close>,
  \<open>TaskClaims\<close>, \<open>TaskOccurrences\<close>: one active run per task, counters that agree with the targets, results that are final, an
  occurrence that is claimed once whatever happens later, recovery and paging.  \<open>TaskModel\<close>: \<^verbatim>\<open>taskrunner/model.go\<close>; the cron parser and the time zones are the parameter
  \<open>schedule_lib\<close>.  \<open>TaskEngine\<close>: \<^verbatim>\<open>taskrunner/engine.go\<close>, the sweep and one goroutine per target.  \<open>TaskEvolve\<close>, \<open>TaskEngineProps\<close>,
  \<open>TaskEngineSpec\<close>: bounded concurrency, no deadlock, targets that are closed when their goroutine ends, correct finalization.

  \<^bold>\<open>Uptime monitors.\<close>  \<open>UptimeModel\<close>, \<open>UptimeStore\<close>, \<open>UptimeProbe\<close>, \<open>UptimeEngine\<close>: \<^verbatim>\<open>uptime/*.go\<close>, \<^verbatim>\<open>store/uptime.go\<close> and the reservation
  of \<^verbatim>\<open>api/uptime.go\<close>.  \<open>UptimeInv\<close>: the invariant of the tables.  \<open>UptimeSpec\<close>: an automaton per monitor that the tables
  refine.  \<open>UptimeEngineSpec\<close>: one goroutine per monitor, eight probes at once, results recorded for the probed configuration.

  \<^bold>\<open>Alerts and messages.\<close>  \<open>AlertStore\<close>, \<open>AlertEngine\<close>, \<open>AlertApi\<close>: \<^verbatim>\<open>store/alerts.go\<close>, \<^verbatim>\<open>alerting/engine.go\<close>, \<^verbatim>\<open>api/alerts.go\<close>,
  \<^verbatim>\<open>api/alert_history.go\<close>.  \<open>AlertInv\<close>, \<open>AlertLife\<close>, \<open>AlertSpec\<close>: one active alert per rule and node, when a rule fires, how an
  alert ends.  \<open>Notifier\<close>, \<open>NotifierSpec\<close>: \<^verbatim>\<open>alerting/notifier.go\<close>, the two retry loops
  against a reference.

  \<^bold>\<open>Settings and the AI policy.\<close>  \<open>Settings\<close>, \<open>SettingsSpec\<close>: \<^verbatim>\<open>store/settings.go\<close>.  \<open>AiPolicy\<close>: \<^verbatim>\<open>ai/policy.go\<close>, a call runs without
  confirmation exactly when the stored policy authorizes it.

  \<^bold>\<open>The AI store and plans.\<close>  \<open>AiTypes\<close>, \<open>AiModels\<close>, \<open>AiTurns\<close>: \<^verbatim>\<open>store/ai.go\<close>, providers, models and their routing, conversations,
  turns, tool calls and plans.  \<open>AiRouting\<close>: the models that answer are usable, and an order of the tables in which the default
  cannot be moved.  \<open>AiPlan\<close>: \<^verbatim>\<open>ai/service.go\<close> and \<^verbatim>\<open>ai/accepted.go\<close>, the goroutines that confirm, claim, run and complete a plan and
  that verify its accepted operations, one access to the store, the registry or a tool per step; the registry of tools and the
  sealing of arguments are the parameter \<open>plan_world\<close>.  \<open>AiPlanInv\<close>, \<open>AiPlanSpec\<close>: over every interleaving with all other requests and
  restarts, the steps of a plan run in order and once, after a success of all earlier ones, with the authority of the
  administrator or of the policy, on the target that was shown; and a run in which a confirmed plan never ends.

  \<^bold>\<open>Nodes and agents.\<close>  \<open>NodeModel\<close>, \<open>NodeStore\<close>, \<open>ConnectionEvents\<close>: \<^verbatim>\<open>store/nodes.go\<close>, \<^verbatim>\<open>agent_tokens.go\<close>, \<^verbatim>\<open>connection_events.go\<close>.
  \<open>InstallAuth\<close>, \<open>AgentUpgrade\<close>, \<open>AgentHub\<close>: \<^verbatim>\<open>agenthub/hub.go\<close>, install tokens, the stages of an upgrade, and \<open>ServeHTTP\<close> from the
  credentials to the end of a connection.  \<open>AgentHubInv\<close>, \<open>AgentHubAuth\<close>, \<open>AgentHubSpec\<close>, \<open>AgentHubRuns\<close>: a connection is registered
  only with credentials of its node, an install token admits one node, a deleted node stays out; and a run in which a node
  that is deleted during its connection is served.

  \<^bold>\<open>Organization and services.\<close>  \<open>NodeOrganizations\<close>, \<open>NodeOrganizationsSpec\<close>: \<^verbatim>\<open>store/node_organizations.go\<close>, groups and tags of
  nodes, their invariant and the effect of a batch update.  \<open>ServiceCenter\<close>, \<open>ServiceCenterSpec\<close>: \<^verbatim>\<open>servicecenter/*.go\<close>, application
  services and the resources they group: normal forms, an invariant of the tables, reading back what was written, and the health
  of a service as the worst of its resources; the answers of agents and clusters and \<^verbatim>\<open>uuid.Parse\<close> are parameters.
  \<open>TableKeys\<close>: lemmas on tables with two unique columns.

  \<^bold>\<open>The rest.\<close>  \<open>LogBuffer\<close>: \<^verbatim>\<open>logbuffer/buffer.go\<close>.  \<open>SshJobs\<close>: \<^verbatim>\<open>sshops/validation.go\<close> and \<^verbatim>\<open>jobs.go\<close>.

  \<^bold>\<open>Bounds and fuel.\<close>  Loops are structural recursions over the data they read, or take as many rounds as their input has
  bytes or rows; no result is cut off by fuel.  Integers that the code multiplies without a check wrap at 64 bits (\<open>wrap64\<close>).

  \<^bold>\<open>Not modelled.\<close>  Failures of the database connection and cancelled contexts (where the code does not branch on them
  visibly), times as text in the columns, MySQL's variants of the statements, the texts of messages, the JSON of requests
  and answers, and the websocket, SSH, Docker, Kubernetes and system calls.  The manifest lists the parts of the program that
  are left out, with the reason for each.
\<close>

end
